(* ===== verification/Prelude.thy ===== *)
theory Prelude
  imports Main "HOL-Library.List_Lexorder" "HOL-Library.Char_ord"
begin

text \<open>
  Shared vocabulary of the development: the SQL statements the Go sources issue through gorm, as
  functions on tables (lists of rows in insertion order), the transaction combinator, Go's string
  functions on byte strings, and the generic lemmas on them that carry the component proofs.

  A table is a list of rows. \<^verbatim>\<open>tx.Where(c).First(&r)\<close> is \<open>sql_first\<close>, \<^verbatim>\<open>Count\<close> is \<open>sql_count\<close>,
  \<^verbatim>\<open>Where(c).Updates(m)\<close> is \<open>sql_update\<close> (its RowsAffected is \<open>sql_count\<close> of the same condition),
  \<^verbatim>\<open>Delete\<close> is \<open>sql_delete\<close> and \<^verbatim>\<open>Create\<close> is \<open>sql_create\<close>, which fails on a duplicate key.
\<close>

named_theorems sql_simps \<open>rewriting of queries over updated tables\<close>
named_theorems key_simps \<open>preservation of table keys\<close>

type_synonym bytes = string
type_synonym instant = int  \<comment> \<open>\<^verbatim>\<open>time.Time\<close>: nanoseconds since the Unix epoch, UTC\<close>
type_synonym duration = int  \<comment> \<open>\<^verbatim>\<open>time.Duration\<close>: nanoseconds\<close>

abbreviation millisecond :: duration where "millisecond \<equiv> 1000000"
abbreviation second :: duration where "second \<equiv> 1000000000"
abbreviation minute :: duration where "minute \<equiv> 60000000000"
abbreviation hour :: duration where "hour \<equiv> 3600000000000"

text \<open>\<^verbatim>\<open>int64\<close> arithmetic wraps around in two's complement.\<close>

definition wrap64 :: "int \<Rightarrow> int" where
  "wrap64 x = (x + 2 ^ 63) mod 2 ^ 64 - 2 ^ 63"

lemma wrap64_id: "- (2 ^ 63) \<le> x \<Longrightarrow> x < 2 ^ 63 \<Longrightarrow> wrap64 x = x"
  unfolding wrap64_def by (subst mod_pos_pos_trivial) auto

section \<open>SQL statements on tables\<close>

definition sql_first :: "('r \<Rightarrow> bool) \<Rightarrow> 'r list \<Rightarrow> 'r option" where
  "sql_first c t = List.find c t"

definition sql_count :: "('r \<Rightarrow> bool) \<Rightarrow> 'r list \<Rightarrow> nat" where
  "sql_count c t = length (filter c t)"

definition sql_update :: "('r \<Rightarrow> bool) \<Rightarrow> ('r \<Rightarrow> 'r) \<Rightarrow> 'r list \<Rightarrow> 'r list" where
  "sql_update c f t = map (\<lambda>r. if c r then f r else r) t"

definition sql_delete :: "('r \<Rightarrow> bool) \<Rightarrow> 'r list \<Rightarrow> 'r list" where
  "sql_delete c t = filter (\<lambda>r. \<not> c r) t"

definition sql_create :: "('r \<Rightarrow> 'k) \<Rightarrow> 'r \<Rightarrow> 'r list \<Rightarrow> 'r list option" where
  "sql_create key r t = (if key r \<in> key ` set t then None else Some (t @ [r]))"

text \<open>\<^verbatim>\<open>ORDER BY k\<close> is a stable sort by the order key; \<^verbatim>\<open>LIMIT n\<close> is \<open>take n\<close>.\<close>

definition sql_order :: "('r \<Rightarrow> 'k::linorder) \<Rightarrow> 'r list \<Rightarrow> 'r list" where
  "sql_order k t = sort_key k t"

definition sql_order_desc :: "('r \<Rightarrow> 'k::linorder) \<Rightarrow> 'r list \<Rightarrow> 'r list" where
  "sql_order_desc k t = rev (sort_key k (rev t))"

text \<open>
  A statement sequence of a transaction maps the database to a result and the new database;
  an error rolls every change back.
\<close>

definition transaction :: "('s \<Rightarrow> ('e + 'a) \<times> 's) \<Rightarrow> 's \<Rightarrow> ('e + 'a) \<times> 's" where
  "transaction body s = (case body s of (Inl e, _) \<Rightarrow> (Inl e, s) | (Inr a, s') \<Rightarrow> (Inr a, s'))"

section \<open>Lemmas on tables\<close>

lemma sql_first_SomeD: "sql_first c t = Some r \<Longrightarrow> r \<in> set t \<and> c r"
  by (auto simp: sql_first_def find_Some_iff in_set_conv_nth)

lemma sql_first_None: "sql_first c t = None \<longleftrightarrow> (\<forall>r\<in>set t. \<not> c r)"
  by (auto simp: sql_first_def find_None_iff)

lemma sql_first_Nil [simp]: "sql_first c [] = None"
  by (simp add: sql_first_def)

lemma sql_first_Cons [simp]: "sql_first c (r # t) = (if c r then Some r else sql_first c t)"
  by (simp add: sql_first_def)

lemma sql_first_append:
  "sql_first c (t @ u) = (case sql_first c t of None \<Rightarrow> sql_first c u | Some r \<Rightarrow> Some r)"
  by (induction t) auto

lemma sql_first_cong: "(\<And>r. r \<in> set t \<Longrightarrow> c r = d r) \<Longrightarrow> sql_first c t = sql_first d t"
  by (induction t) auto

lemma sql_count_0_iff [simp]: "sql_count c t = 0 \<longleftrightarrow> (\<forall>r\<in>set t. \<not> c r)"
  by (auto simp: sql_count_def filter_empty_conv)

lemma sql_count_pos_iff: "0 < sql_count c t \<longleftrightarrow> (\<exists>r\<in>set t. c r)"
  by (auto simp: sql_count_def filter_empty_conv)

lemma sql_count_Nil [simp]: "sql_count c [] = 0"
  by (simp add: sql_count_def)

lemma sql_count_Cons [simp]: "sql_count c (r # t) = (if c r then Suc (sql_count c t) else sql_count c t)"
  by (simp add: sql_count_def)

lemma sql_count_unique:
  assumes "distinct (map key t)" "x \<in> set t" "c x" "\<And>y. y \<in> set t \<Longrightarrow> c y \<Longrightarrow> key y = key x"
  shows "sql_count c t = Suc 0"
proof -
  have d: "distinct t" and i: "inj_on key (set t)" using assms(1) by (simp_all add: distinct_map)
  have "set (filter c t) = {x}" using assms inj_onD [OF i] by auto
  then have "card (set (filter c t)) = 1" by simp
  then show ?thesis using distinct_card [OF distinct_filter [OF d], of c] by (simp add: sql_count_def)
qed

lemma sql_update_Nil [simp]: "sql_update c f [] = []"
  by (simp add: sql_update_def)

lemma sql_update_Cons [simp]: "sql_update c f (r # t) = (if c r then f r else r) # sql_update c f t"
  by (simp add: sql_update_def)

lemma length_sql_update [simp]: "length (sql_update c f t) = length t"
  by (simp add: sql_update_def)

lemma set_sql_update: "set (sql_update c f t) = f ` {r \<in> set t. c r} \<union> {r \<in> set t. \<not> c r}"
  by (auto simp: sql_update_def)

lemma bex_sql_update [sql_simps]:
  "(\<exists>r\<in>set (sql_update c f t). P r) \<longleftrightarrow> (\<exists>r\<in>set t. P (if c r then f r else r))"
  by (auto simp: sql_update_def)

lemma ball_sql_update [sql_simps]:
  "(\<forall>r\<in>set (sql_update c f t). P r) \<longleftrightarrow> (\<forall>r\<in>set t. P (if c r then f r else r))"
  by (auto simp: sql_update_def)

lemma sql_update_id: "(\<And>r. r \<in> set t \<Longrightarrow> \<not> c r) \<Longrightarrow> sql_update c f t = t"
  by (induction t) auto

lemma map_key_sql_update: "(\<And>r. key (f r) = key r) \<Longrightarrow> map key (sql_update c f t) = map key t"
  by (induction t) auto

lemma set_sql_delete [simp]: "set (sql_delete c t) = {r \<in> set t. \<not> c r}"
  by (auto simp: sql_delete_def)

lemma sql_delete_Nil [simp]: "sql_delete c [] = []"
  by (simp add: sql_delete_def)

lemma sql_delete_Cons [simp]: "sql_delete c (r # t) = (if c r then sql_delete c t else r # sql_delete c t)"
  by (simp add: sql_delete_def)

lemma sql_create_SomeD:
  "sql_create key r t = Some t' \<Longrightarrow> t' = t @ [r] \<and> key r \<notin> key ` set t"
  by (auto simp: sql_create_def split: if_splits)

lemma sql_create_fresh: "key r \<notin> key ` set t \<Longrightarrow> sql_create key r t = Some (t @ [r])"
  by (simp add: sql_create_def)

lemma set_sql_order [simp]: "set (sql_order k t) = set t"
  by (simp add: sql_order_def)

lemma sql_order_Nil [simp]: "sql_order k [] = []"
  by (simp add: sql_order_def)

lemma sql_order_Nil_iff [simp]: "sql_order k t = [] \<longleftrightarrow> t = []"
  using length_sort [of k t] by (auto simp: sql_order_def simp del: length_sort)

lemma sql_order_first_None: "(case sql_order k t of [] \<Rightarrow> None | r # _ \<Rightarrow> Some r) = None \<longleftrightarrow> t = []"
proof (cases "sql_order k t")
  case Nil
  moreover from this have "t = []" by (simp only: sql_order_Nil_iff)
  ultimately show ?thesis by (simp del: sql_order_Nil_iff)
next
  case (Cons r rs)
  then have "t \<noteq> []" by (metis list.discI sql_order_Nil_iff)
  with Cons show ?thesis by simp
qed

lemma set_sql_order_desc [simp]: "set (sql_order_desc k t) = set t"
  by (simp add: sql_order_desc_def)

lemma sorted_sql_order [simp]: "sorted (map k (sql_order k t))"
  by (simp add: sql_order_def)

lemma sql_order_hd: "sql_order k t = m # ms \<Longrightarrow> m \<in> set t \<and> (\<forall>x\<in>set t. k m \<le> k x)"
proof -
  assume a: "sql_order k t = m # ms"
  have "set (m # ms) = set t" using set_sql_order [of k t] a by simp
  moreover have "sorted (map k (m # ms))" using sorted_sql_order [of k t] a by simp
  ultimately show ?thesis by auto
qed

lemma transaction_InlD: "transaction body s = (Inl e, s') \<Longrightarrow> s' = s"
  by (auto simp: transaction_def split: prod.splits sum.splits)

lemma transaction_Inr: "transaction body s = (Inr a, s') \<longleftrightarrow> body s = (Inr a, s')"
  by (auto simp: transaction_def split: prod.splits sum.splits)

end
