(* ===== verification/Go_Strings.thy ===== *)
theory Go_Strings
  imports Prelude
begin

text \<open>
  The parts of Go's \<^verbatim>\<open>strings\<close>, \<^verbatim>\<open>unicode/utf8\<close>, \<^verbatim>\<open>strconv\<close> and \<^verbatim>\<open>fmt\<close> packages the services use, on
  byte strings: \<open>TrimSpace\<close> (over the UTF-8 encodings of every Unicode white-space rune),
  \<open>HasPrefix\<close>, ASCII case folding, UTF-8 validity and rune counting, and decimal printing of
  integers with its injectivity, which makes composite keys such as \<^verbatim>\<open>friend:%d:%d\<close> unambiguous.
\<close>

abbreviation byte :: "char \<Rightarrow> nat" where "byte c \<equiv> of_char c"

section \<open>Trimming\<close>

definition space_encodings :: "string list" where
  "space_encodings =
     [[CHR 0x09], [CHR 0x0A], [CHR 0x0B], [CHR 0x0C], [CHR 0x0D], [CHR 0x20],
      [CHR 0xC2, CHR 0x85], [CHR 0xC2, CHR 0xA0], [CHR 0xE1, CHR 0x9A, CHR 0x80],
      [CHR 0xE2, CHR 0x80, CHR 0x80], [CHR 0xE2, CHR 0x80, CHR 0x81], [CHR 0xE2, CHR 0x80, CHR 0x82],
      [CHR 0xE2, CHR 0x80, CHR 0x83], [CHR 0xE2, CHR 0x80, CHR 0x84], [CHR 0xE2, CHR 0x80, CHR 0x85],
      [CHR 0xE2, CHR 0x80, CHR 0x86], [CHR 0xE2, CHR 0x80, CHR 0x87], [CHR 0xE2, CHR 0x80, CHR 0x88],
      [CHR 0xE2, CHR 0x80, CHR 0x89], [CHR 0xE2, CHR 0x80, CHR 0x8A], [CHR 0xE2, CHR 0x80, CHR 0xA8],
      [CHR 0xE2, CHR 0x80, CHR 0xA9], [CHR 0xE2, CHR 0x80, CHR 0xAF], [CHR 0xE2, CHR 0x81, CHR 0x9F],
      [CHR 0xE3, CHR 0x80, CHR 0x80]]"

definition starts_with :: "string \<Rightarrow> string \<Rightarrow> bool" where
  "starts_with s p \<longleftrightarrow> take (length p) s = p"

function strip_left :: "string list \<Rightarrow> string \<Rightarrow> string" where
  "strip_left encs s =
     (case List.find (\<lambda>e. e \<noteq> [] \<and> starts_with s e) encs of
        None \<Rightarrow> s
      | Some e \<Rightarrow> strip_left encs (drop (length e) s))"
  by pat_completeness auto
termination
proof (relation "measure (\<lambda>(_, s). length s)", simp)
  fix encs s and e :: string
  assume "List.find (\<lambda>e. e \<noteq> [] \<and> starts_with s e) encs = Some e"
  then have "e \<noteq> []" "take (length e) s = e"
    by (auto simp: find_Some_iff starts_with_def)
  then have "length (drop (length e) s) < length s"
    by (cases s) auto
  then show "((encs, drop (length e) s), encs, s) \<in> measure (\<lambda>(_, s). length s)"
    by simp
qed

declare strip_left.simps [simp del]

definition TrimSpace :: "string \<Rightarrow> string" where
  "TrimSpace s = rev (strip_left (map rev space_encodings) (rev (strip_left space_encodings s)))"

definition HasPrefix :: "string \<Rightarrow> string \<Rightarrow> bool" where
  "HasPrefix s p \<longleftrightarrow> starts_with s p"

lemma strip_left_Nil [simp]: "strip_left encs [] = []"
  by (subst strip_left.simps) (auto simp: starts_with_def split: option.splits dest!: find_Some_iff [THEN iffD1])

lemma TrimSpace_Nil [simp]: "TrimSpace [] = []"
  by (simp add: TrimSpace_def)

lemma HasPrefix_append [simp]: "HasPrefix (p @ s) p"
  by (simp add: HasPrefix_def starts_with_def)

lemma HasPrefix_iff: "HasPrefix s p \<longleftrightarrow> (\<exists>r. s = p @ r)"
  by (auto simp: HasPrefix_def starts_with_def) (metis append_take_drop_id)

lemma strip_left_id:
  "(\<And>e. e \<in> set encs \<Longrightarrow> e \<noteq> [] \<Longrightarrow> \<not> starts_with s e) \<Longrightarrow> strip_left encs s = s"
  by (subst strip_left.simps) (auto split: option.splits simp: find_Some_iff)

lemma strip_left_step:
  "List.find (\<lambda>e. e \<noteq> [] \<and> starts_with s e) encs = Some e \<Longrightarrow>
   strip_left encs s = strip_left encs (drop (length e) s)"
  by (subst strip_left.simps) simp

text \<open>The bytes a space encoding can start or end with.\<close>

definition space_edge :: "char \<Rightarrow> bool" where
  "space_edge c \<longleftrightarrow> byte c \<in> {9, 10, 11, 12, 13, 32} \<or> 128 \<le> byte c"

lemma space_encodings_edges: "\<forall>e\<in>set space_encodings. e \<noteq> [] \<and> space_edge (hd e) \<and> space_edge (last e)"
  by (simp add: space_encodings_def space_edge_def)

lemma strip_left_plain:
  assumes "\<forall>e\<in>set encs. e \<noteq> [] \<and> space_edge (hd e)" "s = [] \<or> \<not> space_edge (hd s)"
  shows "strip_left encs s = s"
proof (rule strip_left_id)
  fix e assume "e \<in> set encs" "e \<noteq> []"
  with assms show "\<not> starts_with s e"
    by (cases s; cases e) (auto simp: starts_with_def)
qed

lemma TrimSpace_plain: "s = [] \<or> (\<not> space_edge (hd s) \<and> \<not> space_edge (last s)) \<Longrightarrow> TrimSpace s = s"
  using space_encodings_edges
  by (auto simp: TrimSpace_def strip_left_plain hd_rev)

text \<open>Trimming what is trimmed changes nothing.\<close>

lemma strip_left_suffix: "\<exists>p. s = p @ strip_left encs s"
proof (induction encs s rule: strip_left.induct)
  case (1 encs s)
  show ?case
  proof (cases "List.find (\<lambda>e. e \<noteq> [] \<and> starts_with s e) encs")
    case None
    then show ?thesis by (subst strip_left.simps) simp
  next
    case (Some e)
    from 1 [OF Some] obtain p where p: "drop (length e) s = p @ strip_left encs (drop (length e) s)" by blast
    have "s = (take (length e) s @ p) @ strip_left encs s"
      unfolding strip_left_step [OF Some] append_assoc p [symmetric] by simp
    then show ?thesis by blast
  qed
qed

lemma strip_left_clean: "e \<in> set encs \<Longrightarrow> e \<noteq> [] \<Longrightarrow> \<not> starts_with (strip_left encs s) e"
proof (induction encs s rule: strip_left.induct)
  case (1 encs s)
  show ?case
  proof (cases "List.find (\<lambda>e. e \<noteq> [] \<and> starts_with s e) encs")
    case None
    then have "strip_left encs s = s" by (subst strip_left.simps) simp
    moreover from None 1(2,3) have "\<not> starts_with s e" by (auto simp: find_None_iff)
    ultimately show ?thesis by simp
  next
    case (Some e')
    show ?thesis unfolding strip_left_step [OF Some] by (rule "1.IH" [OF Some "1.prems"])
  qed
qed

lemma strip_left_idem [simp]: "strip_left encs (strip_left encs s) = strip_left encs s"
  by (rule strip_left_id) (rule strip_left_clean)

lemma starts_with_append: "starts_with p e \<Longrightarrow> starts_with (p @ q) e"
  by (auto simp: starts_with_def) (metis append_take_drop_id length_take min.absorb_iff2 take_all_iff nle_le)

lemma TrimSpace_idem [simp]: "TrimSpace (TrimSpace s) = TrimSpace s"
proof -
  define u where "u = strip_left space_encodings s"
  define p where "p = rev (strip_left (map rev space_encodings) (rev u))"
  obtain q where "rev u = q @ strip_left (map rev space_encodings) (rev u)" using strip_left_suffix by blast
  then have "u = p @ rev q" unfolding p_def by (metis rev_append rev_rev_ident)
  then have "strip_left space_encodings p = p"
    by (intro strip_left_id) (metis starts_with_append strip_left_clean u_def)
  then have "TrimSpace p = p" unfolding TrimSpace_def by (simp add: p_def)
  then show ?thesis by (simp add: TrimSpace_def p_def u_def)
qed

section \<open>Case\<close>

definition ToLower :: "string \<Rightarrow> string" where
  "ToLower s = map (\<lambda>c. if 65 \<le> byte c \<and> byte c \<le> 90 then char_of (byte c + 32) else c) s"

text \<open>
  \<^verbatim>\<open>strings.EqualFold(s, t)\<close> for an ASCII \<open>t\<close>: besides the two ASCII cases of a letter, Unicode's
  simple folding identifies U+017F (bytes C5 BF) with \<^verbatim>\<open>s\<close> and U+212A (bytes E2 84 AA) with \<^verbatim>\<open>k\<close>.
\<close>

fun EqualFold :: "string \<Rightarrow> string \<Rightarrow> bool" where
  "EqualFold s [] = (s = [])"
| "EqualFold [] (c # t) = False"
| "EqualFold (x # s) (c # t) =
     (if ToLower [x] = ToLower [c] then EqualFold s t
      else if ToLower [c] = ''s'' \<and> x = CHR 0xC5 \<and> starts_with s [CHR 0xBF] then EqualFold (drop 1 s) t
      else if ToLower [c] = ''k'' \<and> x = CHR 0xE2 \<and> starts_with s [CHR 0x84, CHR 0xAA] then EqualFold (drop 2 s) t
      else False)"

section \<open>UTF-8\<close>

definition cont :: "char \<Rightarrow> bool" where
  "cont c \<longleftrightarrow> 128 \<le> byte c \<and> byte c \<le> 191"

text \<open>The size of the valid rune at the head of the string, 0 when there is none.\<close>

fun rune_size :: "string \<Rightarrow> nat" where
  "rune_size [] = 0"
| "rune_size (a # s) =
     (let x = byte a; ok = (\<lambda>i lo hi. i < length s \<and> lo \<le> byte (s ! i) \<and> byte (s ! i) \<le> hi) in
      if x < 128 then 1
      else if 194 \<le> x \<and> x \<le> 223 then (if ok 0 128 191 then 2 else 0)
      else if x = 224 then (if ok 0 160 191 \<and> ok 1 128 191 then 3 else 0)
      else if x = 237 then (if ok 0 128 159 \<and> ok 1 128 191 then 3 else 0)
      else if 225 \<le> x \<and> x \<le> 239 then (if ok 0 128 191 \<and> ok 1 128 191 then 3 else 0)
      else if x = 240 then (if ok 0 144 191 \<and> ok 1 128 191 \<and> ok 2 128 191 then 4 else 0)
      else if 241 \<le> x \<and> x \<le> 243 then (if ok 0 128 191 \<and> ok 1 128 191 \<and> ok 2 128 191 then 4 else 0)
      else if x = 244 then (if ok 0 128 143 \<and> ok 1 128 191 \<and> ok 2 128 191 then 4 else 0)
      else 0)"

declare rune_size.simps [simp del]

fun ValidString :: "string \<Rightarrow> bool" where
  "ValidString [] = True"
| "ValidString (a # s) = (rune_size (a # s) \<noteq> 0 \<and> ValidString (drop (rune_size (a # s) - 1) s))"

text \<open>\<^verbatim>\<open>RuneCountInString\<close>: an invalid byte counts as one rune.\<close>

fun RuneCount :: "string \<Rightarrow> nat" where
  "RuneCount [] = 0"
| "RuneCount (a # s) = Suc (RuneCount (drop (rune_size (a # s) - 1) s))"

lemma RuneCount_le_length: "RuneCount s \<le> length s"
proof (induction s rule: RuneCount.induct)
  case (2 a s)
  then have "RuneCount (drop (rune_size (a # s) - 1) s) \<le> length s"
    by simp
  then show ?case by simp
qed simp

section \<open>Decimal numerals\<close>

definition digit :: "nat \<Rightarrow> char" where
  "digit n = char_of (48 + n)"

definition is_digit :: "char \<Rightarrow> bool" where
  "is_digit c \<longleftrightarrow> 48 \<le> byte c \<and> byte c \<le> 57"

definition digit_val :: "char \<Rightarrow> nat" where
  "digit_val c = byte c - 48"

definition decimal :: "string \<Rightarrow> nat" where
  "decimal s = foldl (\<lambda>n c. 10 * n + digit_val c) 0 s"

fun itoa_nat :: "nat \<Rightarrow> string" where
  "itoa_nat n = (if n < 10 then [digit n] else itoa_nat (n div 10) @ [digit (n mod 10)])"

declare itoa_nat.simps [simp del]

definition itoa :: "int \<Rightarrow> string" where
  "itoa i = (if i < 0 then ''-'' @ itoa_nat (nat (- i)) else itoa_nat (nat i))"

text \<open>\<open>pad w n\<close> prints \<open>n\<close> in exactly \<open>w\<close> digits, as the fixed-width fields of a time layout do.\<close>

fun pad :: "nat \<Rightarrow> nat \<Rightarrow> string" where
  "pad 0 n = []"
| "pad (Suc w) n = pad w (n div 10) @ [digit (n mod 10)]"

lemma byte_digit: "n < 10 \<Longrightarrow> byte (digit n) = 48 + n"
  by (simp add: digit_def)

lemma digit_val_digit [simp]: "n < 10 \<Longrightarrow> digit_val (digit n) = n"
  by (simp add: digit_val_def byte_digit)

lemma is_digit_digit [simp]: "n < 10 \<Longrightarrow> is_digit (digit n)"
  by (simp add: is_digit_def byte_digit)

lemma decimal_snoc: "decimal (s @ [c]) = 10 * decimal s + digit_val c"
  by (simp add: decimal_def)

lemma decimal_itoa_nat [simp]: "decimal (itoa_nat n) = n"
proof (induction n rule: itoa_nat.induct)
  case (1 n)
  then show ?case
    by (subst itoa_nat.simps) (auto simp: decimal_snoc, simp add: decimal_def)
qed

lemma itoa_nat_digits: "\<forall>c\<in>set (itoa_nat n). is_digit c"
proof (induction n rule: itoa_nat.induct)
  case (1 n)
  then show ?case
    by (subst itoa_nat.simps) auto
qed

lemma itoa_nat_nonempty [simp]: "itoa_nat n \<noteq> []"
  by (subst itoa_nat.simps) simp

lemma itoa_nat_inject [simp]: "itoa_nat m = itoa_nat n \<longleftrightarrow> m = n"
  by (metis decimal_itoa_nat)

lemma minus_not_digit: "\<not> is_digit CHR ''-''"
  by (simp add: is_digit_def)

lemma itoa_inject [simp]: "itoa i = itoa j \<longleftrightarrow> i = j"
proof -
  have "itoa_nat m \<noteq> CHR ''-'' # t" for m t
    using itoa_nat_digits [of m] minus_not_digit by (metis list.set_intros(1))
  then show ?thesis
    by (auto simp: itoa_def dest: sym)
qed

lemma itoa_chars: "c \<in> set (itoa i) \<Longrightarrow> is_digit c \<or> c = CHR ''-''"
  using itoa_nat_digits by (auto simp: itoa_def split: if_splits)

lemma itoa_no_colon: "CHR '':'' \<notin> set (itoa i)"
  using itoa_chars [of "CHR '':''" i] by (auto simp: is_digit_def)

text \<open>A separator that occurs in neither prefix splits a string uniquely.\<close>

lemma append_sep_inject:
  assumes "c \<notin> set a" "c \<notin> set a'"
  shows "a @ c # b = a' @ c # b' \<longleftrightarrow> a = a' \<and> b = b'"
  using assms
proof (induction a arbitrary: a')
  case Nil
  then show ?case by (cases a') auto
next
  case (Cons x a)
  then show ?case by (cases a') auto
qed

lemma length_pad [simp]: "length (pad w n) = w"
  by (induction w arbitrary: n) auto

lemma pad_digits: "\<forall>c\<in>set (pad w n). is_digit c"
  by (induction w arbitrary: n) auto

lemma decimal_pad: "n < 10 ^ w \<Longrightarrow> decimal (pad w n) = n"
proof (induction w arbitrary: n)
  case 0
  then show ?case by (simp add: decimal_def)
next
  case (Suc w)
  then have "n div 10 < 10 ^ w" by (simp add: less_mult_imp_div_less)
  with Suc.IH show ?case by (simp add: decimal_snoc)
qed

end
