(* ===== verification/Go_Time.thy ===== *)
theory Go_Time
  imports Go_Strings "HOL-Library.Monad_Syntax" "HOL-Library.Product_Lexorder"
begin

text \<open>
  Go's \<^verbatim>\<open>time\<close> package as the services use it: instants are nanoseconds since the Unix epoch; the
  calendar, the layouts in which timestamps are stored in \<^verbatim>\<open>varchar\<close> columns, and \<^verbatim>\<open>time.Parse\<close> for
  RFC 3339. The stored layouts are fixed-width, so the string comparisons the SQL statements make
  are chronological; this is proved here for every instant of the years 0 to 9999.
\<close>

section \<open>The calendar\<close>

text \<open>
  Days are counted from 0001-01-01. A day splits into cycles of 400, 100 and 4 years and the
  year of the cycle, then into the day of the year.
\<close>

record civil =
  cv_year :: int
  cv_month :: nat
  cv_day :: nat

definition leap_year :: "int \<Rightarrow> bool" where
  "leap_year y \<longleftrightarrow> y mod 4 = 0 \<and> (y mod 100 \<noteq> 0 \<or> y mod 400 = 0)"

text \<open>The first day of the year of each month.\<close>

definition month_starts :: "bool \<Rightarrow> int list" where
  "month_starts leap =
     (if leap then [0, 31, 60, 91, 121, 152, 182, 213, 244, 274, 305, 335]
      else [0, 31, 59, 90, 120, 151, 181, 212, 243, 273, 304, 334])"

definition days_before_year :: "int \<Rightarrow> int" where
  "days_before_year y = (let k = y - 1 in 365 * k + k div 4 - k div 100 + k div 400)"

definition year_of_day :: "int \<Rightarrow> int" where
  "year_of_day d =
     (let e = d div 146097; r = d mod 146097;
          c = min (r div 36524) 3; r1 = r - 36524 * c;
          f = r1 div 1461; r2 = r1 - 1461 * f;
          q = min (r2 div 365) 3
      in 400 * e + 100 * c + 4 * f + q + 1)"

definition month_of_yday :: "bool \<Rightarrow> int \<Rightarrow> nat" where
  "month_of_yday leap yd = length (filter (\<lambda>st. st \<le> yd) (month_starts leap))"

definition civil_of_days :: "int \<Rightarrow> civil" where
  "civil_of_days d =
     (let y = year_of_day d; yd = d - days_before_year y; m = month_of_yday (leap_year y) yd
      in \<lparr>cv_year = y, cv_month = m, cv_day = nat (yd - month_starts (leap_year y) ! (m - 1)) + 1\<rparr>)"

definition days_of_civil :: "int \<Rightarrow> nat \<Rightarrow> nat \<Rightarrow> int" where
  "days_of_civil y m d = days_before_year y + month_starts (leap_year y) ! (m - 1) + int d - 1"

text \<open>1970-01-01 is day 719162.\<close>

definition epoch_day :: int where
  "epoch_day = 719162"

definition daysIn :: "nat \<Rightarrow> int \<Rightarrow> nat" where
  "daysIn m y = (if m = 2 then (if leap_year y then 29 else 28) else if m \<in> {4, 6, 9, 11} then 30 else 31)"

subsection \<open>Decomposition of a day\<close>

lemma days_before_year_Suc: "days_before_year (k + 1) = 365 * k + k div 4 - k div 100 + k div 400"
  by (simp add: days_before_year_def)

lemma year_of_day_bounds:
  "days_before_year (year_of_day d) \<le> d \<and> d < days_before_year (year_of_day d + 1)"
proof -
  define e where "e = d div 146097"
  define r where "r = d mod 146097"
  define c where "c = min (r div 36524) 3"
  define r1 where "r1 = r - 36524 * c"
  define f where "f = r1 div 1461"
  define r2 where "r2 = r1 - 1461 * f"
  define q where "q = min (r2 div 365) 3"
  have d: "d = 146097 * e + r" and r: "0 \<le> r" "r < 146097"
    by (simp_all add: e_def r_def)
  have c: "0 \<le> c" "c \<le> 3" "0 \<le> r1" "r1 < (if c = 3 then 36525 else 36524)"
    using r by (auto simp: c_def r1_def min_def)
  have f: "0 \<le> f" "f \<le> 24" "0 \<le> r2" "r2 < 1461" "f = 24 \<Longrightarrow> c < 3 \<Longrightarrow> r2 < 1460"
    using c by (auto simp: f_def r2_def split: if_splits)
  have q: "0 \<le> q" "q \<le> 3" "365 * q \<le> r2" "r2 < 365 * q + (if q = 3 then 366 else 365)"
    using f by (auto simp: q_def min_def)
  have y: "year_of_day d = 400 * e + 100 * c + 4 * f + q + 1"
    by (simp only: year_of_day_def Let_def e_def r_def c_def r1_def f_def r2_def q_def)
  have k4: "(400 * e + 100 * c + 4 * f + q) div 4 = 100 * e + 25 * c + f"
    using q by simp
  have k100: "(400 * e + 100 * c + 4 * f + q) div 100 = 4 * e + c"
    using f q by simp
  have k400: "(400 * e + 100 * c + 4 * f + q) div 400 = e"
    using c f q by simp
  have lo: "days_before_year (year_of_day d) = 146097 * e + 36524 * c + 1461 * f + 365 * q"
    unfolding y days_before_year_Suc k4 k100 k400 by simp
  have hi: "days_before_year (year_of_day d + 1) =
      146097 * e + 36524 * c + 1461 * f + 365 * q + 365
        + (if q = 3 then 1 else 0) - (if q = 3 \<and> f = 24 then 1 else 0)
        + (if q = 3 \<and> f = 24 \<and> c = 3 then 1 else 0)"
  proof -
    have "(400 * e + 100 * c + 4 * f + q + 1) div 4 = 100 * e + 25 * c + f + (if q = 3 then 1 else 0)"
      using q by auto
    moreover have "(400 * e + 100 * c + 4 * f + q + 1) div 100 = 4 * e + c + (if q = 3 \<and> f = 24 then 1 else 0)"
      using f q by auto
    moreover have "(400 * e + 100 * c + 4 * f + q + 1) div 400 = e + (if q = 3 \<and> f = 24 \<and> c = 3 then 1 else 0)"
      using c f q by auto
    ultimately show ?thesis
      unfolding y days_before_year_Suc by simp
  qed
  have "d = 146097 * e + 36524 * c + 1461 * f + r2"
    by (simp add: d r1_def r2_def)
  with q f c show ?thesis
    unfolding lo hi by auto
qed

lemma div_pred:
  fixes y n :: int
  assumes "0 < n"
  shows "y div n = (y - 1) div n + (if y mod n = 0 then 1 else 0)"
proof (cases "y mod n = 0")
  case True
  then have "y = n * (y div n)" using mult_div_mod_eq [of n y] by simp
  then have "y - 1 = n * (y div n - 1) + (n - 1)" by (simp add: algebra_simps)
  with assms have "(y - 1) div n = y div n - 1"
    by (intro int_div_pos_eq [where r = "n - 1"]) auto
  with True show ?thesis by simp
next
  case False
  have "y - 1 = n * (y div n) + (y mod n - 1)" by simp
  moreover have "0 < y mod n" "y mod n < n"
    using assms False pos_mod_sign [of n y] pos_mod_bound [of n y] by linarith+
  ultimately have "(y - 1) div n = y div n"
    by (intro int_div_pos_eq [where r = "y mod n - 1"]) auto
  with False show ?thesis by simp
qed

lemma days_before_year_step:
  "days_before_year (y + 1) = days_before_year y + (if leap_year y then 366 else 365)"
proof -
  define a b c where "a = (y - 1) div 4" and "b = (y - 1) div 100" and "c = (y - 1) div 400"
  define l4 l100 l400 where "l4 \<longleftrightarrow> y mod 4 = 0" and "l100 \<longleftrightarrow> y mod 100 = 0" and "l400 \<longleftrightarrow> y mod 400 = 0"
  have l: "l400 \<longrightarrow> l100" "l100 \<longrightarrow> l4"
    using dvd_trans [of 100 400 y] dvd_trans [of 4 100 y]
    by (simp_all add: l4_def l100_def l400_def flip: dvd_eq_mod_eq_0)
  have 4: "y div 4 = a + (if l4 then 1 else 0)" unfolding a_def l4_def by (rule div_pred) simp
  have 100: "y div 100 = b + (if l100 then 1 else 0)" unfolding b_def l100_def by (rule div_pred) simp
  have 400: "y div 400 = c + (if l400 then 1 else 0)" unfolding c_def l400_def by (rule div_pred) simp
  have y: "days_before_year y = 365 * (y - 1) + a - b + c"
    unfolding days_before_year_def Let_def a_def b_def c_def by (rule refl)
  have leap: "leap_year y \<longleftrightarrow> l4 \<and> (\<not> l100 \<or> l400)"
    unfolding leap_year_def l4_def l100_def l400_def by (rule refl)
  show ?thesis
    unfolding days_before_year_Suc 4 100 400 y leap using l by (cases l4; cases l100; cases l400) simp_all
qed

lemma days_before_year_less: "x < y \<Longrightarrow> days_before_year (x + 1) \<le> days_before_year y"
proof (induction "nat (y - x - 1)" arbitrary: y)
  case 0
  then have "y = x + 1" by simp
  then show ?case by simp
next
  case (Suc n)
  then have "n = nat (y - 1 - x - 1)" "x < y - 1" by auto
  then have "days_before_year (x + 1) \<le> days_before_year (y - 1)" by (rule Suc.hyps(1))
  also have "\<dots> \<le> days_before_year y"
    using days_before_year_step [of "y - 1"] by (simp split: if_splits)
  finally show ?case .
qed

lemma year_of_day_unique:
  assumes "days_before_year y \<le> d" "d < days_before_year (y + 1)"
  shows "year_of_day d = y"
  using assms year_of_day_bounds [of d] days_before_year_less [of "year_of_day d" y]
    days_before_year_less [of y "year_of_day d"]
  by (cases "year_of_day d" y rule: linorder_cases) auto

lemma year_of_day_mono: "d \<le> d' \<Longrightarrow> year_of_day d \<le> year_of_day d'"
  using year_of_day_bounds [of d] year_of_day_bounds [of d']
    days_before_year_less [of "year_of_day d'" "year_of_day d"]
  by (cases "year_of_day d \<le> year_of_day d'") auto

text \<open>The months of a year: the month of a day is the last one that starts no later than it.\<close>

lemma sorted_count_le:
  fixes xs :: "int list"
  shows "sorted xs \<Longrightarrow> i < length (filter (\<lambda>x. x \<le> v) xs) \<longleftrightarrow> i < length xs \<and> xs ! i \<le> v"
proof (induction xs arbitrary: i)
  case (Cons x xs)
  show ?case
  proof (cases "x \<le> v")
    case True
    with Cons show ?thesis by (cases i) auto
  next
    case False
    with Cons.prems have none: "\<forall>y\<in>set (x # xs). \<not> y \<le> v" by auto
    then have "filter (\<lambda>x. x \<le> v) (x # xs) = []" by (simp only: filter_empty_conv)
    moreover have "i < length (x # xs) \<Longrightarrow> \<not> (x # xs) ! i \<le> v" using none nth_mem by blast
    ultimately show ?thesis by auto
  qed
qed simp

lemma month_starts_facts:
  "sorted (month_starts leap)" "length (month_starts leap) = 12" "month_starts leap ! 0 = 0"
  by (simp_all add: month_starts_def)

lemma month_of_yday_nth:
  "i < month_of_yday leap yd \<longleftrightarrow> i < 12 \<and> month_starts leap ! i \<le> yd"
  by (simp add: month_of_yday_def sorted_count_le month_starts_facts)

lemma month_of_yday_range:
  "month_of_yday leap yd \<le> 12" "0 \<le> yd \<Longrightarrow> 1 \<le> month_of_yday leap yd"
  using month_of_yday_nth [of 12 leap yd] month_of_yday_nth [of 0 leap yd]
  by (auto simp: month_starts_facts not_less simp del: One_nat_def)

lemma month_of_yday_bounds:
  assumes "0 \<le> yd"
  shows "month_starts leap ! (month_of_yday leap yd - 1) \<le> yd"
  using month_of_yday_nth [of "month_of_yday leap yd - 1" leap yd]
    month_of_yday_range [where leap = leap and yd = yd] assms
  by auto

lemma month_of_yday_mono: "yd \<le> yd' \<Longrightarrow> month_of_yday leap yd \<le> month_of_yday leap yd'"
  by (metis le_less_linear month_of_yday_nth order_trans order_less_irrefl)

lemma day_of_month_bound:
  assumes "0 \<le> yd" "yd < (if leap then 366 else 365)" "leap = leap_year y"
  shows "yd - month_starts leap ! (month_of_yday leap yd - 1) < int (daysIn (month_of_yday leap yd) y)"
proof (cases "month_of_yday leap yd < 12")
  case True
  define m where "m = month_of_yday leap yd"
  have "\<not> m < m" by simp
  with True have "yd < month_starts leap ! m"
    unfolding m_def using month_of_yday_nth [of m leap yd] by (auto simp: m_def)
  moreover have "1 \<le> m" "m \<le> 11"
    using True month_of_yday_range(2) [of yd leap] assms by (auto simp: m_def)
  then have "m = 1 \<or> m = 2 \<or> m = 3 \<or> m = 4 \<or> m = 5 \<or> m = 6 \<or> m = 7 \<or> m = 8 \<or> m = 9 \<or> m = 10 \<or> m = 11"
    by arith
  then have "month_starts leap ! m = month_starts leap ! (m - 1) + int (daysIn m y)"
    using assms(3) by (auto simp: month_starts_def daysIn_def)
  ultimately show ?thesis
    by (simp add: m_def)
next
  case False
  then have "month_of_yday leap yd = 12"
    using month_of_yday_range(1) [of leap yd] by simp
  with assms show ?thesis
    by (auto simp: month_starts_def daysIn_def)
qed

lemma daysIn_le: "daysIn m y \<le> 31"
  by (simp add: daysIn_def)

definition civil_key :: "civil \<Rightarrow> int \<times> nat \<times> nat" where
  "civil_key c = (cv_year c, cv_month c, cv_day c)"

lemma yday_range: "0 \<le> d - days_before_year (year_of_day d)"
  "d - days_before_year (year_of_day d) < (if leap_year (year_of_day d) then 366 else 365)"
  using year_of_day_bounds [of d] days_before_year_step [of "year_of_day d"] by auto

lemma civil_of_days_range:
  "1 \<le> cv_month (civil_of_days d)" "cv_month (civil_of_days d) \<le> 12"
  "1 \<le> cv_day (civil_of_days d)" "cv_day (civil_of_days d) \<le> daysIn (cv_month (civil_of_days d)) (cv_year (civil_of_days d))"
  using month_of_yday_range [where leap = "leap_year (year_of_day d)" and yd = "d - days_before_year (year_of_day d)"]
    day_of_month_bound [OF yday_range refl, of d] yday_range [of d]
    month_of_yday_bounds [OF yday_range(1) [of d], of "leap_year (year_of_day d)"]
  by (auto simp: civil_of_days_def Let_def Suc_le_eq nat_less_iff)

lemma days_of_civil_of_days:
  "days_of_civil (cv_year (civil_of_days d)) (cv_month (civil_of_days d)) (cv_day (civil_of_days d)) = d"
  using month_of_yday_bounds [OF yday_range(1) [of d], of "leap_year (year_of_day d)"]
  by (simp add: civil_of_days_def days_of_civil_def Let_def)

lemma civil_of_days_strict_mono: "d < d' \<Longrightarrow> civil_key (civil_of_days d) < civil_key (civil_of_days d')"
proof -
  assume less: "d < d'"
  let ?y = "year_of_day d" and ?y' = "year_of_day d'"
  show ?thesis
  proof (cases "?y = ?y'")
    case False
    with less year_of_day_mono [of d d'] show ?thesis
      by (simp add: civil_key_def civil_of_days_def Let_def)
  next
    case True
    let ?yd = "d - days_before_year ?y" and ?yd' = "d' - days_before_year ?y'"
    let ?m = "month_of_yday (leap_year ?y)"
    have "?yd < ?yd'" using True less by simp
    then have "?m ?yd \<le> ?m ?yd'" by (intro month_of_yday_mono) simp
    moreover have "?m ?yd = ?m ?yd' \<Longrightarrow> nat (?yd - month_starts (leap_year ?y) ! (?m ?yd - 1))
        < nat (?yd' - month_starts (leap_year ?y) ! (?m ?yd' - 1))"
      using month_of_yday_bounds [OF yday_range(1) [of d], of "leap_year ?y"] \<open>?yd < ?yd'\<close> by auto
    ultimately show ?thesis
      using True by (auto simp: civil_key_def civil_of_days_def Let_def)
  qed
qed

section \<open>Layouts\<close>

definition unix_day :: "instant \<Rightarrow> int" where
  "unix_day t = t div second div 86400 + epoch_day"

definition date_of :: "instant \<Rightarrow> civil" where
  "date_of t = civil_of_days (unix_day t)"

definition second_of_day :: "instant \<Rightarrow> nat" where
  "second_of_day t = nat (t div second mod 86400)"

definition nanos :: "instant \<Rightarrow> nat" where
  "nanos t = nat (t mod second)"

text \<open>Go's \<^verbatim>\<open>appendInt(b, x, 4)\<close>: at least four digits after an optional sign.\<close>

definition year_field :: "int \<Rightarrow> string" where
  "year_field y =
     (let digits = (\<lambda>n. if n < 10000 then pad 4 n else itoa_nat n)
      in if y < 0 then ''-'' @ digits (nat (- y)) else digits (nat y))"

definition layout_seconds :: "instant \<Rightarrow> string" where
  "layout_seconds t =
     (let c = date_of t; s = second_of_day t in
      year_field (cv_year c) @ ''-'' @ pad 2 (cv_month c) @ ''-'' @ pad 2 (cv_day c) @ ''T'' @
      pad 2 (s div 3600) @ '':'' @ pad 2 (s div 60 mod 60) @ '':'' @ pad 2 (s mod 60))"

text \<open>
  \<^verbatim>\<open>time.RFC3339\<close>, the fixed layouts with nine and with six fraction digits, and
  \<^verbatim>\<open>time.RFC3339Nano\<close>, which drops trailing zeros of the fraction.
\<close>

definition RFC3339 :: "instant \<Rightarrow> string" where
  "RFC3339 t = layout_seconds t @ ''Z''"

definition layout_nano9 :: "instant \<Rightarrow> string" where
  "layout_nano9 t = layout_seconds t @ ''.'' @ pad 9 (nanos t) @ ''Z''"

definition layout_micro6 :: "instant \<Rightarrow> string" where
  "layout_micro6 t = layout_seconds t @ ''.'' @ pad 6 (nanos t div 1000) @ ''Z''"

definition RFC3339Nano :: "instant \<Rightarrow> string" where
  "RFC3339Nano t =
     (let fraction = rev (dropWhile (\<lambda>c. c = CHR ''0'') (rev (pad 9 (nanos t))))
      in layout_seconds t @ (if fraction = [] then [] else ''.'' @ fraction) @ ''Z'')"

definition four_digit_year :: "instant \<Rightarrow> bool" where
  "four_digit_year t \<longleftrightarrow> 0 \<le> cv_year (date_of t) \<and> cv_year (date_of t) \<le> 9999"

section \<open>Fixed-width layouts order chronologically\<close>

lemma append_less_iff:
  fixes a b x y :: string
  assumes "length a = length b"
  shows "a @ x < b @ y \<longleftrightarrow> a < b \<or> a = b \<and> x < y"
  using assms by (induction a b rule: list_induct2) auto

lemma digit_less [simp]: "m < 10 \<Longrightarrow> n < 10 \<Longrightarrow> digit m < digit n \<longleftrightarrow> m < n"
  by (simp add: less_char_def byte_digit)

lemma digit_inject [simp]: "m < 10 \<Longrightarrow> n < 10 \<Longrightarrow> digit m = digit n \<longleftrightarrow> m = n"
  by (metis digit_val_digit)

lemma mixed_radix_less:
  fixes a b a' b' k :: nat
  assumes "b < k" "b' < k"
  shows "k * a + b < k * a' + b' \<longleftrightarrow> a < a' \<or> a = a' \<and> b < b'"
proof (cases a a' rule: linorder_cases)
  case less
  then have "k * Suc a \<le> k * a'" by (intro mult_le_mono2) simp
  with less assms show ?thesis by simp
next
  case greater
  then have "k * Suc a' \<le> k * a" by (intro mult_le_mono2) simp
  with greater assms show ?thesis by simp
qed simp

lemma div_mod_less:
  fixes m n k :: nat
  assumes "0 < k"
  shows "m < n \<longleftrightarrow> m div k < n div k \<or> m div k = n div k \<and> m mod k < n mod k"
  using mixed_radix_less [of "m mod k" k "n mod k" "m div k" "n div k"] assms by simp

lemma div_less_imp_less:
  fixes m n k :: int
  assumes "0 < k" "m div k < n div k"
  shows "m < n"
  using assms zdiv_mono1 [of n m k] by (cases "m < n") auto

lemma div_mod_less_int:
  fixes m n k :: int
  assumes "0 < k"
  shows "m < n \<longleftrightarrow> m div k < n div k \<or> m div k = n div k \<and> m mod k < n mod k"
proof (cases "m div k" "n div k" rule: linorder_cases)
  case equal
  moreover have "m = k * (m div k) + m mod k" "n = k * (n div k) + n mod k" by simp_all
  ultimately show ?thesis by (metis add_less_cancel_left order_less_irrefl)
next
  case less
  with assms div_less_imp_less show ?thesis by blast
next
  case greater
  with assms div_less_imp_less [of k n m] show ?thesis by auto
qed

lemma pair_less_iff: "(a, b) < (c, d) \<longleftrightarrow> a < c \<or> a = c \<and> b < d"
  for a c :: "'a::linorder" and b d :: "'b::ord"
  by auto

lemma pad_less_iff: "m < 10 ^ w \<Longrightarrow> n < 10 ^ w \<Longrightarrow> pad w m < pad w n \<longleftrightarrow> m < n"
proof (induction w arbitrary: m n)
  case (Suc w)
  then have lt: "m div 10 < 10 ^ w" "n div 10 < 10 ^ w"
    by (simp_all add: less_mult_imp_div_less)
  have eq: "pad w (m div 10) = pad w (n div 10) \<longleftrightarrow> m div 10 = n div 10"
    using lt by (metis decimal_pad)
  show ?case
    using Suc.IH [OF lt] by (simp add: append_less_iff eq div_mod_less [of 10 m n])
qed simp

lemma pad_inject: "m < 10 ^ w \<Longrightarrow> n < 10 ^ w \<Longrightarrow> pad w m = pad w n \<longleftrightarrow> m = n"
  by (metis decimal_pad)

text \<open>The fields of the seconds layout, in print order.\<close>

definition layout_key :: "instant \<Rightarrow> nat \<times> nat \<times> nat \<times> nat \<times> nat \<times> nat" where
  "layout_key t = (let c = date_of t; s = second_of_day t in
     (nat (cv_year c), cv_month c, cv_day c, s div 3600, s div 60 mod 60, s mod 60))"

lemma second_of_day_less: "second_of_day t < 86400"
  by (simp add: second_of_day_def nat_less_iff)

lemma length_layout_seconds: "four_digit_year t \<Longrightarrow> length (layout_seconds t) = 19"
  by (auto simp: layout_seconds_def year_field_def four_digit_year_def Let_def)

lemma layout_seconds_less_key:
  assumes "four_digit_year t" "four_digit_year u"
  shows "layout_seconds t < layout_seconds u \<longleftrightarrow> layout_key t < layout_key u"
proof -
  have d: "cv_month (date_of t) < 100" "cv_month (date_of u) < 100" "cv_day (date_of t) < 100" "cv_day (date_of u) < 100"
    using civil_of_days_range [of "unix_day t"] civil_of_days_range [of "unix_day u"]
      order_trans [OF _ daysIn_le]
    by (fastforce simp: date_of_def)+
  have s: "second_of_day t div 3600 < 100" "second_of_day u div 3600 < 100"
    using second_of_day_less [of t] second_of_day_less [of u] by auto
  have m: "second_of_day t div 60 mod 60 < 100" "second_of_day u div 60 mod 60 < 100"
    "second_of_day t mod 60 < 100" "second_of_day u mod 60 < 100"
    by (auto intro: less_trans [OF mod_less_divisor])
  have y: "nat (cv_year (date_of t)) < 10000" "nat (cv_year (date_of u)) < 10000"
    using assms by (auto simp: four_digit_year_def)
  have y0: "year_field (cv_year (date_of t)) = pad 4 (nat (cv_year (date_of t)))"
    "year_field (cv_year (date_of u)) = pad 4 (nat (cv_year (date_of u)))"
    using assms y by (simp_all add: year_field_def four_digit_year_def Let_def)
  have p2: "pad 2 i < pad 2 j \<longleftrightarrow> i < j" "pad 2 i = pad 2 j \<longleftrightarrow> i = j" if "i < 100" "j < 100" for i j
    using that pad_less_iff [of i 2 j] pad_inject [of i 2 j] by simp_all
  have p4: "pad 4 i < pad 4 j \<longleftrightarrow> i < j" "pad 4 i = pad 4 j \<longleftrightarrow> i = j" if "i < 10000" "j < 10000" for i j
    using that pad_less_iff [of i 4 j] pad_inject [of i 4 j] by simp_all
  show ?thesis
    unfolding layout_seconds_def layout_key_def Let_def y0 pair_less_iff
    by (simp only: append_less_iff length_pad list.size p4 [OF y] p2 [OF d(1,2)] p2 [OF d(3,4)] p2 [OF s]
        p2 [OF m(1,2)] p2 [OF m(3,4)] order_less_irrefl simp_thms)
qed

lemma second_of_day_key:
  fixes s s' :: nat
  shows "(s div 3600, s div 60 mod 60, s mod 60) < (s' div 3600, s' div 60 mod 60, s' mod 60) \<longleftrightarrow> s < s'"
proof -
  have e: "s div 3600 = s div 60 div 60" "s' div 3600 = s' div 60 div 60"
    by (simp_all only: div_mult2_eq [symmetric]) simp_all
  have C: "s div 60 = s' div 60 \<longleftrightarrow> s div 60 div 60 = s' div 60 div 60 \<and> s div 60 mod 60 = s' div 60 mod 60"
    by (metis div_mult_mod_eq)
  show ?thesis
    unfolding pair_less_iff e div_mod_less [of 60 s s', simplified] C
      div_mod_less [of 60 "s div 60" "s' div 60", simplified]
    by blast
qed

lemma civil_key_less_iff: "civil_key (civil_of_days d) < civil_key (civil_of_days d') \<longleftrightarrow> d < d'"
  using civil_of_days_strict_mono [of d d'] civil_of_days_strict_mono [of d' d]
  by (cases d d' rule: linorder_cases) (auto simp del: less_prod_simp)

lemma civil_key_inject: "civil_key (civil_of_days d) = civil_key (civil_of_days d') \<longleftrightarrow> d = d'"
  using civil_of_days_strict_mono [of d d'] civil_of_days_strict_mono [of d' d]
  by (cases d d' rule: linorder_cases) (auto simp del: less_prod_simp)

lemma layout_key_less_iff:
  assumes "four_digit_year t" "four_digit_year u"
  shows "layout_key t < layout_key u \<longleftrightarrow> t div second < u div second"
proof -
  let ?S = "t div second" and ?U = "u div second"
  have "?S < ?U \<longleftrightarrow> ?S div 86400 < ?U div 86400 \<or> ?S div 86400 = ?U div 86400 \<and> ?S mod 86400 < ?U mod 86400"
    by (rule div_mod_less_int) simp
  also have "\<dots> \<longleftrightarrow> unix_day t < unix_day u \<or> unix_day t = unix_day u \<and> second_of_day t < second_of_day u"
  proof -
    have "0 \<le> ?S mod 86400" by simp
    then have "second_of_day t < second_of_day u \<longleftrightarrow> ?S mod 86400 < ?U mod 86400"
      by (simp only: second_of_day_def nat_less_eq_zless)
    then show ?thesis by (simp add: unix_day_def)
  qed
  also have "\<dots> \<longleftrightarrow> layout_key t < layout_key u"
  proof -
    have y: "0 \<le> cv_year (date_of t)" "0 \<le> cv_year (date_of u)"
      using assms by (simp_all add: four_digit_year_def)
    have "layout_key t < layout_key u \<longleftrightarrow>
        civil_key (date_of t) < civil_key (date_of u) \<or>
        civil_key (date_of t) = civil_key (date_of u) \<and>
          (second_of_day t div 3600, second_of_day t div 60 mod 60, second_of_day t mod 60)
            < (second_of_day u div 3600, second_of_day u div 60 mod 60, second_of_day u mod 60)"
      unfolding layout_key_def civil_key_def Let_def pair_less_iff prod.inject
        nat_less_eq_zless [OF y(1)] eq_nat_nat_iff [OF y]
      by blast
    then show ?thesis
      unfolding second_of_day_key date_of_def civil_key_less_iff civil_key_inject by blast
  qed
  finally show ?thesis by simp
qed

theorem layout_seconds_less_iff:
  assumes "four_digit_year t" "four_digit_year u"
  shows "layout_seconds t < layout_seconds u \<longleftrightarrow> t div second < u div second"
  using assms by (simp only: layout_seconds_less_key layout_key_less_iff)

lemma layout_seconds_inject:
  assumes "four_digit_year t" "four_digit_year u"
  shows "layout_seconds t = layout_seconds u \<longleftrightarrow> t div second = u div second"
proof
  assume "t div second = u div second"
  then show "layout_seconds t = layout_seconds u"
    by (simp add: layout_seconds_def date_of_def unix_day_def second_of_day_def)
next
  assume "layout_seconds t = layout_seconds u"
  then show "t div second = u div second"
    using layout_seconds_less_iff [OF assms] layout_seconds_less_iff [OF assms(2,1)]
    by (metis linorder_neqE order_less_irrefl)
qed

lemma RFC3339_less_iff:
  assumes "four_digit_year t" "four_digit_year u"
  shows "RFC3339 t < RFC3339 u \<longleftrightarrow> t div second < u div second"
  using assms by (simp add: RFC3339_def append_less_iff length_layout_seconds layout_seconds_less_iff)

lemma nanos_less: "nanos t < 1000000000"
  by (simp add: nanos_def nat_less_iff)

lemma layout_nano9_less_iff:
  assumes "four_digit_year t" "four_digit_year u"
  shows "layout_nano9 t < layout_nano9 u \<longleftrightarrow> t < u"
proof -
  have "nanos t < nanos u \<longleftrightarrow> t mod second < u mod second"
    by (simp only: nanos_def nat_less_eq_zless [OF pos_mod_sign])
  with div_mod_less_int [of second t u] show ?thesis
    using assms nanos_less [of t] nanos_less [of u]
    by (simp add: layout_nano9_def append_less_iff length_layout_seconds layout_seconds_less_iff
        layout_seconds_inject pad_less_iff pad_inject)
qed

lemma layout_nano9_le_iff:
  assumes "four_digit_year t" "four_digit_year u"
  shows "layout_nano9 t \<le> layout_nano9 u \<longleftrightarrow> t \<le> u"
  using layout_nano9_less_iff [OF assms(2,1)] by (simp flip: not_less)

lemma layout_micro6_less_iff:
  assumes "four_digit_year t" "four_digit_year u"
  shows "layout_micro6 t < layout_micro6 u \<longleftrightarrow> t div 1000 < u div 1000"
proof -
  have n: "nanos v div 1000 = nat (v div 1000 mod 1000000)" "v div 1000 div 1000000 = v div second" for v
  proof -
    show "v div 1000 div 1000000 = v div second" by (simp flip: zdiv_zmult2_eq)
    have "v mod second = 1000 * (v div 1000 mod 1000000) + v mod 1000"
      using zmod_zmult2_eq [of 1000000 v 1000] by simp
    then have "v mod second div 1000 = v div 1000 mod 1000000" by simp
    then show "nanos v div 1000 = nat (v div 1000 mod 1000000)"
      by (simp add: nanos_def nat_div_distrib [of "v mod second" 1000, simplified, symmetric])
  qed
  have f: "nanos v div 1000 < 10 ^ 6" for v
    using nanos_less [of v] by simp
  have "nanos t div 1000 < nanos u div 1000 \<longleftrightarrow> t div 1000 mod 1000000 < u div 1000 mod 1000000"
    unfolding n by (rule nat_less_eq_zless) simp
  with div_mod_less_int [of 1000000 "t div 1000" "u div 1000"] show ?thesis
    using assms f [of t] f [of u]
    by (simp add: layout_micro6_def append_less_iff length_layout_seconds layout_seconds_less_iff
        layout_seconds_inject pad_less_iff n(2))
qed

section \<open>Parsing\<close>

text \<open>
  \<^verbatim>\<open>time.Parse(time.RFC3339, s)\<close> and \<^verbatim>\<open>time.Parse(time.RFC3339Nano, s)\<close>, which accept the same strings:
  a four-digit year, two-digit month, day, minute and second, an hour of one or two digits, an
  optional fraction after a period or a comma of which nine digits count, and \<^verbatim>\<open>Z\<close> or a numeric
  offset. Out-of-range fields and trailing text are errors.
\<close>

definition expect :: "char \<Rightarrow> string \<Rightarrow> string option" where
  "expect c s = (case s of x # r \<Rightarrow> if x = c then Some r else None | [] \<Rightarrow> None)"

definition getnum :: "bool \<Rightarrow> string \<Rightarrow> (nat \<times> string) option" where
  "getnum fixed s =
     (case s of
        [] \<Rightarrow> None
      | a # r \<Rightarrow>
          if \<not> is_digit a then None
          else (case r of
                  b # r' \<Rightarrow> if is_digit b then Some (decimal [a, b], r')
                            else if fixed then None else Some (digit_val a, r)
                | [] \<Rightarrow> if fixed then None else Some (digit_val a, r)))"

definition getyear :: "string \<Rightarrow> (nat \<times> string) option" where
  "getyear s =
     (if 4 \<le> length s \<and> (\<forall>c\<in>set (take 4 s). is_digit c) then Some (decimal (take 4 s), drop 4 s) else None)"

definition getfraction :: "string \<Rightarrow> nat \<times> string" where
  "getfraction s =
     (case s of
        p # c # r \<Rightarrow>
          if (p = CHR ''.'' \<or> p = CHR '','') \<and> is_digit c
          then let ds = takeWhile is_digit (c # r); ds9 = take 9 ds
               in (decimal ds9 * 10 ^ (9 - length ds9), dropWhile is_digit (c # r))
          else (0, s)
      | _ \<Rightarrow> (0, s))"

definition getzone :: "string \<Rightarrow> (int \<times> string) option" where
  "getzone s =
     (case s of
        [] \<Rightarrow> None
      | z # r \<Rightarrow>
          if z = CHR ''Z'' then Some (0, r)
          else if length s < 6 \<or> (z \<noteq> CHR ''+'' \<and> z \<noteq> CHR ''-'') then None
          else do {
            (h, r1) \<leftarrow> getnum True r;
            r2 \<leftarrow> expect CHR '':'' r1;
            (m, r3) \<leftarrow> getnum True r2;
            if h \<le> 24 \<and> m \<le> 60
            then Some ((if z = CHR ''-'' then - 1 else 1) * (int h * 3600 + int m * 60), r3) else None
          })"

text \<open>
  The layouts the sources parse differ in the separator between date and time and in the zone: a
  letter is matched literally, a blank matches one or more blanks.
\<close>

definition expect_space :: "string \<Rightarrow> string option" where
  "expect_space s =
     (case s of [] \<Rightarrow> Some [] | x # r \<Rightarrow> if x = CHR '' '' then Some (dropWhile (\<lambda>c. c = CHR '' '') r) else None)"

definition ParseLayout ::
  "(string \<Rightarrow> string option) \<Rightarrow> (string \<Rightarrow> (int \<times> string) option) \<Rightarrow> string \<Rightarrow> instant option" where
  "ParseLayout separator zone s = do {
     (y, s) \<leftarrow> getyear s;
     s \<leftarrow> expect CHR ''-'' s;
     (mo, s) \<leftarrow> getnum True s;
     s \<leftarrow> expect CHR ''-'' s;
     (d, s) \<leftarrow> getnum True s;
     s \<leftarrow> separator s;
     (h, s) \<leftarrow> getnum False s;
     s \<leftarrow> expect CHR '':'' s;
     (mi, s) \<leftarrow> getnum True s;
     s \<leftarrow> expect CHR '':'' s;
     (sec, s) \<leftarrow> getnum True s;
     let (ns, s) = getfraction s;
     (off, s) \<leftarrow> zone s;
     if s = [] \<and> 1 \<le> mo \<and> mo \<le> 12 \<and> h < 24 \<and> mi < 60 \<and> sec < 60 \<and> 1 \<le> d \<and> d \<le> daysIn mo (int y)
     then Some (((days_of_civil (int y) mo d - epoch_day) * 86400
                  + int h * 3600 + int mi * 60 + int sec - off) * second + int ns)
     else None
   }"

definition Parse :: "string \<Rightarrow> instant option" where
  "Parse s = ParseLayout (expect CHR ''T'') getzone s"

text \<open>The zones \<^verbatim>\<open>Z0700\<close>, \<^verbatim>\<open>-07\<close> and none.\<close>

definition signed_offset :: "char \<Rightarrow> nat \<Rightarrow> nat \<Rightarrow> int option" where
  "signed_offset z h m =
     (if (z = CHR ''+'' \<or> z = CHR ''-'') \<and> h \<le> 24 \<and> m \<le> 60
      then Some ((if z = CHR ''-'' then - 1 else 1) * (int h * 3600 + int m * 60)) else None)"

definition getzone_Z0700 :: "string \<Rightarrow> (int \<times> string) option" where
  "getzone_Z0700 s =
     (case s of
        [] \<Rightarrow> None
      | z # r \<Rightarrow>
          if z = CHR ''Z'' then Some (0, r)
          else if length s < 5 then None
          else do {
            (h, r1) \<leftarrow> getnum True r;
            (m, r2) \<leftarrow> getnum True r1;
            off \<leftarrow> signed_offset z h m;
            Some (off, r2)
          })"

definition getzone_07 :: "string \<Rightarrow> (int \<times> string) option" where
  "getzone_07 s =
     (case s of
        [] \<Rightarrow> None
      | z # r \<Rightarrow> do {
          (h, r1) \<leftarrow> getnum True r;
          off \<leftarrow> signed_offset z h 0;
          Some (off, r1)
        })"

definition getzone_none :: "string \<Rightarrow> (int \<times> string) option" where
  "getzone_none s = Some (0, s)"

lemma pad_2: "pad 2 n = [digit (n div 10 mod 10), digit (n mod 10)]"
  by (simp add: numeral_2_eq_2)

lemma getnum_pad [simp]: "n < 100 \<Longrightarrow> getnum fixed (pad 2 n @ s) = Some (n, s)"
  by (simp add: getnum_def pad_2 decimal_def)

lemma getyear_pad [simp]: "n < 10000 \<Longrightarrow> getyear (pad 4 n @ s) = Some (n, s)"
  using pad_digits [of 4 n] by (simp add: getyear_def decimal_pad)

lemma expect_Cons [simp]: "expect c (x # s) = (if x = c then Some s else None)"
  by (simp add: expect_def)

lemma getfraction_pad9: "n < 10 ^ 9 \<Longrightarrow> getfraction (CHR ''.'' # pad 9 n @ CHR ''Z'' # s) = (n, CHR ''Z'' # s)"
proof -
  assume n: "n < 10 ^ 9"
  have z: "\<not> is_digit CHR ''Z''" by (simp add: is_digit_def)
  have all: "\<forall>c\<in>set (pad 9 n). is_digit c" by (rule pad_digits)
  obtain c r where cr: "pad 9 n = c # r" by (metis length_pad length_0_conv neq_Nil_conv zero_neq_numeral)
  have "takeWhile is_digit (pad 9 n @ CHR ''Z'' # s) = pad 9 n" "dropWhile is_digit (pad 9 n @ CHR ''Z'' # s) = CHR ''Z'' # s"
    using all z by (simp_all add: takeWhile_append2 dropWhile_append2)
  moreover have "take 9 (pad 9 n) = pad 9 n" "length (pad 9 n) = 9" by simp_all
  ultimately show ?thesis
    using n all decimal_pad [OF n] unfolding cr by (simp add: getfraction_def)
qed

lemma getfraction_Z [simp]: "getfraction (CHR ''Z'' # s) = (0, CHR ''Z'' # s)"
  by (simp add: getfraction_def split: list.splits)

lemma getzone_Z [simp]: "getzone (CHR ''Z'' # s) = Some (0, s)"
  by (simp add: getzone_def)

lemma layout_seconds_fields:
  assumes "four_digit_year t"
  shows "layout_seconds t @ s =
     pad 4 (nat (cv_year (date_of t))) @ CHR ''-'' # pad 2 (cv_month (date_of t)) @ CHR ''-'' # pad 2 (cv_day (date_of t)) @
     CHR ''T'' # pad 2 (second_of_day t div 3600) @ CHR '':'' # pad 2 (second_of_day t div 60 mod 60) @ CHR '':'' #
     pad 2 (second_of_day t mod 60) @ s"
  using assms by (auto simp: layout_seconds_def year_field_def four_digit_year_def Let_def)

lemma hms_split: "s = 3600 * (s div 3600) + 60 * (s div 60 mod 60) + s mod 60" for s :: nat
proof -
  define a b c where "a = s div 60 div 60" and "b = s div 60 mod 60" and "c = s div 60"
  have "s = 60 * c + s mod 60" unfolding c_def by (rule mult_div_mod_eq [symmetric])
  moreover have "c = 60 * a + b" unfolding a_def b_def c_def by (rule mult_div_mod_eq [symmetric])
  moreover have "s div 3600 = a" unfolding a_def by (simp add: div_mult2_eq [symmetric])
  ultimately show ?thesis unfolding b_def [symmetric] by simp
qed

lemma Parse_layout:
  assumes t: "four_digit_year t" and f: "getfraction s = (n, ''Z'')"
  shows "Parse (layout_seconds t @ s) = Some (t div second * second + int n)"
proof -
  let ?c = "date_of t" and ?s = "second_of_day t"
  have c: "1 \<le> cv_month ?c" "cv_month ?c \<le> 12" "1 \<le> cv_day ?c" "cv_day ?c \<le> daysIn (cv_month ?c) (cv_year ?c)"
    using civil_of_days_range [of "unix_day t"] by (simp_all add: date_of_def)
  have lt: "cv_month ?c < 100" "cv_day ?c < 100" "nat (cv_year ?c) < 10000" "?s div 3600 < 24"
    using c daysIn_le [of "cv_month ?c" "cv_year ?c"] t second_of_day_less [of t] by (auto simp: four_digit_year_def)
  define h mi sec where "h = ?s div 3600" and "mi = ?s div 60 mod 60" and "sec = ?s mod 60"
  define S where "S = t div second"
  have "int ?s = S mod 86400" by (simp add: second_of_day_def S_def)
  moreover have "int ?s = int (3600 * h + 60 * mi + sec)"
    unfolding h_def mi_def sec_def by (rule arg_cong [OF hms_split])
  moreover have "S = 86400 * (S div 86400) + S mod 86400" by simp
  ultimately have S: "S = 86400 * (S div 86400) + 3600 * int h + 60 * int mi + int sec"
    by (simp only: of_nat_add of_nat_mult of_nat_numeral)
  have y: "int (nat (cv_year ?c)) = cv_year ?c" using t by (simp add: four_digit_year_def)
  have days: "days_of_civil (cv_year ?c) (cv_month ?c) (cv_day ?c) - epoch_day = S div 86400"
    by (simp add: date_of_def days_of_civil_of_days unix_day_def S_def)
  have hm: "h < 24" "mi < 60" "sec < 60" using lt by (simp_all add: h_def mi_def sec_def)
  then have "h < 100" "mi < 100" "sec < 100" by simp_all
  moreover have "((S div 86400) * 86400 + int h * 3600 + int mi * 60 + int sec - 0) * second + int n = S * second + int n"
    using S by simp
  ultimately show ?thesis
    unfolding layout_seconds_fields [OF t] Parse_def ParseLayout_def h_def [symmetric] mi_def [symmetric] sec_def [symmetric] S_def [symmetric]
    using c lt(1-3) hm f days y by simp
qed

theorem Parse_layout_nano9:
  assumes "four_digit_year t"
  shows "Parse (layout_nano9 t) = Some t"
  using Parse_layout [OF assms getfraction_pad9 [of "nanos t" "[]"]] nanos_less [of t]
  by (simp add: layout_nano9_def nanos_def)

lemma Parse_RFC3339:
  assumes "four_digit_year t"
  shows "Parse (RFC3339 t) = Some (t div second * second)"
  using Parse_layout [OF assms getfraction_Z [of "[]"]] by (simp add: RFC3339_def)

end
