(* ===== verification/Database.thy ===== *)
theory Database
  imports Go_Time
begin

text \<open>
  The PostgreSQL schema of \<^verbatim>\<open>shared/db/models.go\<close> that the modelled services share: one record per
  table row with the source's columns, the database as a record of tables, and the error values the
  data-access functions return. Timestamps are the strings the code stores. \<^verbatim>\<open>ActiveKey *string\<close>
  is an option; a serial primary key takes its value from the table's sequence.
\<close>

datatype db_error =
    ErrRelationshipForbidden
  | ErrRelationshipNotFound
  | ErrRelationshipExpired
  | ErrRelationshipInvalidState
  | ErrAlreadyRelated
  | ErrAccountExists
  | ErrUserIDConflict
  | ErrRecordNotFound
  | ErrUniqueViolation
  | ErrOther string

record user_row =
  us_id :: int
  us_account :: string
  us_name :: string
  us_update_time :: string
  us_avatar :: string
  us_password_hash :: string
  us_jwt_key :: bytes

record friend_row =
  fr_user_id :: int
  fr_friend_id :: int
  fr_is_notify :: bool
  fr_alias :: string
  fr_is_delete :: bool
  fr_update_time :: string

record group_row =
  gr_group_id :: int
  gr_name :: string
  gr_avatar :: string
  gr_owner_user_id :: int
  gr_is_delete :: bool
  gr_update_time :: string

record member_row =
  gm_group_id :: int
  gm_user_id :: int
  gm_role :: string
  gm_joined_at :: string
  gm_update_time :: string

record request_row =
  rq_id :: int
  rq_type :: string
  rq_requester_user_id :: int
  rq_target_user_id :: int
  rq_group_id :: int
  rq_message :: string
  rq_status :: string
  rq_active_key :: "string option"
  rq_created_at :: string
  rq_expires_at :: string
  rq_resolved_at :: string
  rq_resolved_by :: int

record message_row =
  ms_message_id :: int
  ms_client_message_id :: "string option"
  ms_from_user_id :: int
  ms_to_user_id :: int
  ms_content :: string
  ms_timestamp :: string
  ms_message_type :: string
  ms_real_file_name :: string
  ms_is_group :: bool
  ms_is_recalled :: bool
  ms_recalled_at :: string
  ms_recalled_by :: int

record file_row =
  fm_file_hash :: string
  fm_file_size :: int
  fm_storage_path :: string
  fm_is_verified :: bool
  fm_created_at :: string
  fm_updated_at :: string

record database =
  users :: "user_row list"
  friends :: "friend_row list"
  chat_groups :: "group_row list"
  group_members :: "member_row list"
  relationship_requests :: "request_row list"
  messages :: "message_row list"
  file_metadata :: "file_row list"
  users_id_seq :: int
  relationship_requests_id_seq :: int
  messages_id_seq :: int

text \<open>\<^verbatim>\<open>utils.NowTime\<close>, \<^verbatim>\<open>relationshipTime\<close>, \<^verbatim>\<open>relationshipUpdateTime\<close> and \<^verbatim>\<open>FormatReliabilityTime\<close>.\<close>

definition NowTime :: "instant \<Rightarrow> string" where
  "NowTime now = RFC3339 now"

definition relationshipTime :: "instant \<Rightarrow> string" where
  "relationshipTime value = layout_nano9 value"

definition relationshipUpdateTime :: "instant \<Rightarrow> string" where
  "relationshipUpdateTime value = RFC3339 value"

definition FormatReliabilityTime :: "instant \<Rightarrow> string" where
  "FormatReliabilityTime value = layout_micro6 value"

text \<open>\<^verbatim>\<open>GetUserByIDWithDB\<close>: \<^verbatim>\<open>getUser\<close> turns a missing record into a nil user.\<close>

definition GetUserByID :: "int \<Rightarrow> database \<Rightarrow> user_row option" where
  "GetUserByID i db = sql_first (\<lambda>u. us_id u = i) (users db)"

definition GetUserByAccount :: "string \<Rightarrow> database \<Rightarrow> user_row option" where
  "GetUserByAccount account db = sql_first (\<lambda>u. us_account u = account) (users db)"

text \<open>
  \<^verbatim>\<open>FormatReliabilityTime\<close> is fixed-width, so that the \<^verbatim>\<open>varchar\<close> lease and retry columns keep
  chronological order under string comparison: for instants of the years 0 to 9999 the formatted
  strings compare exactly as the instants do at the layout's microsecond precision.
\<close>

theorem FormatReliabilityTime_chronological:
  assumes "four_digit_year t" "four_digit_year u"
  shows "FormatReliabilityTime t < FormatReliabilityTime u \<longleftrightarrow> t div 1000 < u div 1000"
  using layout_micro6_less_iff [OF assms] by (simp add: FormatReliabilityTime_def)

theorem FormatReliabilityTime_chronological_witness:
  "FormatReliabilityTime 1700000000123456789 < FormatReliabilityTime 1700000000123457000"
proof -
  have y: "four_digit_year 1700000000123456789" "four_digit_year 1700000000123457000"
    by code_simp+
  show ?thesis
    by (subst FormatReliabilityTime_chronological [OF y]) simp
qed

end
