(* ===== verification/Chat_Groups.thy ===== *)
theory Chat_Groups
  imports Database
begin

text \<open>
  \<^verbatim>\<open>shared/db/util_group.go\<close>, \<^verbatim>\<open>util_friend.go\<close> and the role checks of \<^verbatim>\<open>util_relationship.go\<close>: friend
  pairs, groups, memberships and roles. Each operation maps the database to its result and the new
  database; \<^verbatim>\<open>database.Transaction\<close> is \<open>transaction\<close>. The instant argument is the value of the clock
  the Go function reads once at its start.
\<close>

section \<open>Roles\<close>

abbreviation GroupRoleOwner :: string where "GroupRoleOwner \<equiv> ''owner''"
abbreviation GroupRoleAdmin :: string where "GroupRoleAdmin \<equiv> ''admin''"
abbreviation GroupRoleMember :: string where "GroupRoleMember \<equiv> ''member''"

definition canManageGroup :: "string \<Rightarrow> bool" where
  "canManageGroup role \<longleftrightarrow> role = GroupRoleOwner \<or> role = GroupRoleAdmin"

definition canKickGroupMember :: "string \<Rightarrow> string \<Rightarrow> bool" where
  "canKickGroupMember actorRole targetRole =
     (if \<not> canManageGroup actorRole \<or> targetRole = GroupRoleOwner then False
      else actorRole = GroupRoleOwner \<or> targetRole = GroupRoleMember)"

definition canChangeGroupMemberRole :: "string \<Rightarrow> string \<Rightarrow> string \<Rightarrow> bool" where
  "canChangeGroupMemberRole actorRole targetRole newRole \<longleftrightarrow>
     actorRole = GroupRoleOwner \<and> targetRole \<noteq> GroupRoleOwner \<and>
     (newRole = GroupRoleAdmin \<or> newRole = GroupRoleMember)"

definition groupMemberRoleUpdates :: "string \<Rightarrow> string \<Rightarrow> member_row \<Rightarrow> member_row" where
  "groupMemberRoleUpdates role updateTime m = m\<lparr>gm_role := role, gm_update_time := updateTime\<rparr>"

definition newGroupMember :: "int \<Rightarrow> int \<Rightarrow> string \<Rightarrow> string \<Rightarrow> member_row" where
  "newGroupMember groupID userID role joinedAt =
     \<lparr>gm_group_id = groupID, gm_user_id = userID, gm_role = role, gm_joined_at = joinedAt, gm_update_time = joinedAt\<rparr>"

section \<open>Queries\<close>

definition member_key :: "member_row \<Rightarrow> int \<times> int" where
  "member_key m = (gm_group_id m, gm_user_id m)"

definition find_member :: "int \<Rightarrow> int \<Rightarrow> database \<Rightarrow> member_row option" where
  "find_member groupID userID db =
     sql_first (\<lambda>m. gm_group_id m = groupID \<and> gm_user_id m = userID) (group_members db)"

definition groupRoleTx :: "int \<Rightarrow> int \<Rightarrow> database \<Rightarrow> string option" where
  "groupRoleTx groupID userID db = map_option gm_role (find_member groupID userID db)"

definition RequireGroupManagerWithDB :: "int \<Rightarrow> int \<Rightarrow> database \<Rightarrow> string \<times> bool" where
  "RequireGroupManagerWithDB groupID userID db =
     (case groupRoleTx groupID userID db of None \<Rightarrow> ([], False) | Some role \<Rightarrow> (role, canManageGroup role))"

definition GetGroupByIDWithDB :: "int \<Rightarrow> database \<Rightarrow> group_row option" where
  "GetGroupByIDWithDB groupID db =
     sql_first (\<lambda>g. gr_group_id g = groupID \<and> \<not> gr_is_delete g) (chat_groups db)"

definition IsActiveGroupMemberWithDB :: "int \<Rightarrow> int \<Rightarrow> database \<Rightarrow> bool" where
  "IsActiveGroupMemberWithDB groupID userID db \<longleftrightarrow>
     0 < sql_count (\<lambda>m. gm_group_id m = groupID \<and> gm_user_id m = userID) (group_members db)"

definition GetActiveGroupMemberIDsWithDB :: "int \<Rightarrow> database \<Rightarrow> int list" where
  "GetActiveGroupMemberIDsWithDB groupID db =
     map gm_user_id (sql_order gm_user_id (filter (\<lambda>m. gm_group_id m = groupID) (group_members db)))"

record group_member_contact =
  mc_user_id :: int
  mc_account :: string
  mc_name :: string
  mc_avatar :: string
  mc_role :: string
  mc_update_time :: string

definition GetGroupMembersWithDB :: "int \<Rightarrow> database \<Rightarrow> group_member_contact list" where
  "GetGroupMembersWithDB groupID db =
     concat (map (\<lambda>m. map (\<lambda>u. \<lparr>mc_user_id = gm_user_id m, mc_account = us_account u, mc_name = us_name u,
                                 mc_avatar = us_avatar u, mc_role = gm_role m, mc_update_time = gm_update_time m\<rparr>)
                           (filter (\<lambda>u. us_id u = gm_user_id m) (users db)))
       (sql_order gm_user_id (filter (\<lambda>m. gm_group_id m = groupID) (group_members db))))"

record joined_group_contact =
  jc_group_id :: int
  jc_group_name :: string
  jc_avatar :: string
  jc_owner_user_id :: int
  jc_update_time :: string

definition GetJoinedGroupsWithDB :: "int \<Rightarrow> database \<Rightarrow> joined_group_contact list" where
  "GetJoinedGroupsWithDB userID db =
     concat (map (\<lambda>m. map (\<lambda>g. \<lparr>jc_group_id = gr_group_id g, jc_group_name = gr_name g, jc_avatar = gr_avatar g,
                                 jc_owner_user_id = gr_owner_user_id g, jc_update_time = gr_update_time g\<rparr>)
                           (filter (\<lambda>g. gr_group_id g = gm_group_id m \<and> \<not> gr_is_delete g) (chat_groups db)))
       (sql_order gm_group_id (filter (\<lambda>m. gm_user_id m = userID) (group_members db))))"

section \<open>Friend pairs\<close>

definition friend_key :: "friend_row \<Rightarrow> int \<times> int" where
  "friend_key f = (fr_user_id f, fr_friend_id f)"

definition friendshipActiveWithDB :: "int \<Rightarrow> int \<Rightarrow> database \<Rightarrow> bool" where
  "friendshipActiveWithDB userID friendID db \<longleftrightarrow>
     0 < sql_count (\<lambda>f. fr_user_id f = userID \<and> fr_friend_id f = friendID \<and> \<not> fr_is_delete f) (friends db)"

text \<open>One iteration of the loop over the two ordered pairs in \<^verbatim>\<open>addDirectFriendPairTx\<close>.\<close>

definition addDirectFriend1 :: "int \<Rightarrow> int \<Rightarrow> string \<Rightarrow> database \<Rightarrow> db_error + database" where
  "addDirectFriend1 userID friendID now db =
     (case sql_first (\<lambda>f. fr_user_id f = userID \<and> fr_friend_id f = friendID) (friends db) of
        None \<Rightarrow>
          (case sql_create friend_key
                  \<lparr>fr_user_id = userID, fr_friend_id = friendID, fr_is_notify = True, fr_alias = [],
                   fr_is_delete = False, fr_update_time = now\<rparr> (friends db) of
             None \<Rightarrow> Inl ErrUniqueViolation
           | Some fs \<Rightarrow> Inr (db\<lparr>friends := fs\<rparr>))
      | Some relation \<Rightarrow>
          Inr (db\<lparr>friends := sql_update (\<lambda>f. friend_key f = friend_key relation)
                 (\<lambda>f. f\<lparr>fr_is_delete := False, fr_update_time := now\<rparr>) (friends db)\<rparr>))"

definition addDirectFriendPairTx :: "int \<Rightarrow> int \<Rightarrow> string \<Rightarrow> database \<Rightarrow> db_error + database" where
  "addDirectFriendPairTx userID friendID now db =
     (case addDirectFriend1 userID friendID now db of
        Inl e \<Rightarrow> Inl e
      | Inr db1 \<Rightarrow> addDirectFriend1 friendID userID now db1)"

definition removeDirectFriend1 :: "int \<Rightarrow> int \<Rightarrow> string \<Rightarrow> friend_row list \<Rightarrow> friend_row list" where
  "removeDirectFriend1 userID friendID now =
     sql_update (\<lambda>f. fr_user_id f = userID \<and> fr_friend_id f = friendID \<and> \<not> fr_is_delete f)
       (\<lambda>f. f\<lparr>fr_is_delete := True, fr_update_time := now\<rparr>)"

definition RemoveDirectFriendPairWithDB :: "instant \<Rightarrow> int \<Rightarrow> int \<Rightarrow> database \<Rightarrow> (bool \<times> string) \<times> database" where
  "RemoveDirectFriendPairWithDB clock userID friendID db =
     (let now = NowTime clock;
          active = (\<lambda>a b f. fr_user_id f = a \<and> fr_friend_id f = b \<and> \<not> fr_is_delete f);
          fs1 = removeDirectFriend1 userID friendID now (friends db);
          affected = sql_count (active userID friendID) (friends db) + sql_count (active friendID userID) fs1
      in ((0 < affected, now), db\<lparr>friends := removeDirectFriend1 friendID userID now fs1\<rparr>))"

definition UpdateFriendAliasWithDB :: "instant \<Rightarrow> int \<Rightarrow> int \<Rightarrow> string \<Rightarrow> database \<Rightarrow> (bool \<times> string) \<times> database" where
  "UpdateFriendAliasWithDB clock userID friendID alias db =
     (let now = NowTime clock;
          c = (\<lambda>f. fr_user_id f = userID \<and> fr_friend_id f = friendID \<and> \<not> fr_is_delete f)
      in ((0 < sql_count c (friends db), now),
          db\<lparr>friends := sql_update c (\<lambda>f. f\<lparr>fr_alias := alias, fr_update_time := now\<rparr>) (friends db)\<rparr>))"

definition UpdateFriendNotifyWithDB :: "instant \<Rightarrow> int \<Rightarrow> int \<Rightarrow> bool \<Rightarrow> database \<Rightarrow> (bool \<times> string) \<times> database" where
  "UpdateFriendNotifyWithDB clock userID friendID isNotify db =
     (let now = NowTime clock;
          c = (\<lambda>f. fr_user_id f = userID \<and> fr_friend_id f = friendID \<and> \<not> fr_is_delete f)
      in ((0 < sql_count c (friends db), now),
          db\<lparr>friends := sql_update c (\<lambda>f. f\<lparr>fr_is_notify := isNotify, fr_update_time := now\<rparr>) (friends db)\<rparr>))"

record friend_contact =
  fc_user_id :: int
  fc_account :: string
  fc_name :: string
  fc_avatar :: string
  fc_alias :: string
  fc_is_notify :: bool
  fc_update_time :: string

definition GetFriendListWithDB :: "int \<Rightarrow> database \<Rightarrow> friend_contact list" where
  "GetFriendListWithDB userID db =
     concat (map (\<lambda>f. map (\<lambda>u. \<lparr>fc_user_id = fr_friend_id f, fc_account = us_account u, fc_name = us_name u,
                                 fc_avatar = us_avatar u, fc_alias = fr_alias f, fc_is_notify = fr_is_notify f,
                                 fc_update_time = fr_update_time f\<rparr>)
                           (filter (\<lambda>u. us_id u = fr_friend_id f) (users db)))
       (sql_order_desc fr_update_time (filter (\<lambda>f. fr_user_id f = userID \<and> \<not> fr_is_delete f) (friends db))))"

section \<open>Group operations\<close>

definition update_group :: "(group_row \<Rightarrow> bool) \<Rightarrow> (group_row \<Rightarrow> group_row) \<Rightarrow> database \<Rightarrow> database" where
  "update_group c f db = db\<lparr>chat_groups := sql_update c f (chat_groups db)\<rparr>"

definition update_member :: "int \<Rightarrow> int \<Rightarrow> (member_row \<Rightarrow> member_row) \<Rightarrow> database \<Rightarrow> database" where
  "update_member groupID userID f db =
     db\<lparr>group_members := sql_update (\<lambda>m. gm_group_id m = groupID \<and> gm_user_id m = userID) f (group_members db)\<rparr>"

definition delete_member :: "int \<Rightarrow> int \<Rightarrow> database \<Rightarrow> database" where
  "delete_member groupID userID db =
     db\<lparr>group_members := sql_delete (\<lambda>m. gm_group_id m = groupID \<and> gm_user_id m = userID) (group_members db)\<rparr>"

definition create_member :: "member_row \<Rightarrow> database \<Rightarrow> db_error + database" where
  "create_member m db =
     (case sql_create member_key m (group_members db) of
        None \<Rightarrow> Inl ErrUniqueViolation
      | Some ms \<Rightarrow> Inr (db\<lparr>group_members := ms\<rparr>))"

definition active_group :: "int \<Rightarrow> group_row \<Rightarrow> bool" where
  "active_group groupID g \<longleftrightarrow> gr_group_id g = groupID \<and> \<not> gr_is_delete g"

text \<open>The second half of \<^verbatim>\<open>CreateGroupWithOwnerWithDB\<close>: the owner's membership row.\<close>

definition ensureOwnerMember :: "int \<Rightarrow> int \<Rightarrow> string \<Rightarrow> database \<Rightarrow> db_error + database" where
  "ensureOwnerMember groupID ownerUserID now db =
     (case find_member groupID ownerUserID db of
        None \<Rightarrow> create_member (newGroupMember groupID ownerUserID GroupRoleOwner now) db
      | Some _ \<Rightarrow> Inr (update_member groupID ownerUserID (groupMemberRoleUpdates GroupRoleOwner now) db))"

definition CreateGroupWithOwnerWithDB ::
  "instant \<Rightarrow> int \<Rightarrow> int \<Rightarrow> string \<Rightarrow> database \<Rightarrow> (db_error + bool \<times> string) \<times> database" where
  "CreateGroupWithOwnerWithDB clock ownerUserID groupID groupName =
     (let now = NowTime clock;
          finish = (\<lambda>db1. case ensureOwnerMember groupID ownerUserID now db1 of
                             Inl e \<Rightarrow> (Inl e, db1) | Inr db2 \<Rightarrow> (Inr (False, now), db2))
      in transaction (\<lambda>db.
        (case sql_first (\<lambda>g. gr_group_id g = groupID) (chat_groups db) of
           Some grp \<Rightarrow>
             if \<not> gr_is_delete grp then (Inr (True, now), db)
             else finish (update_group (\<lambda>g. gr_group_id g = groupID)
                    (\<lambda>g. g\<lparr>gr_name := groupName, gr_owner_user_id := ownerUserID, gr_is_delete := False,
                           gr_update_time := now\<rparr>) db)
         | None \<Rightarrow>
             (case sql_create gr_group_id
                     \<lparr>gr_group_id = groupID, gr_name = groupName, gr_avatar = [], gr_owner_user_id = ownerUserID,
                      gr_is_delete = False, gr_update_time = now\<rparr> (chat_groups db) of
                None \<Rightarrow> (Inl ErrUniqueViolation, db)
              | Some gs \<Rightarrow> finish (db\<lparr>chat_groups := gs\<rparr>)))))"

text \<open>
  The successor of a leaving owner: \<^verbatim>\<open>ORDER BY CASE WHEN role = 'admin' THEN 0 ELSE 1 END, update_time,
  user_id\<close>, first row.
\<close>

definition successor_rank :: "member_row \<Rightarrow> nat \<times> string \<times> int" where
  "successor_rank m = (if gm_role m = GroupRoleAdmin then 0 else 1, gm_update_time m, gm_user_id m)"

definition find_successor :: "int \<Rightarrow> int \<Rightarrow> database \<Rightarrow> member_row option" where
  "find_successor groupID userID db =
     (case sql_order successor_rank
             (filter (\<lambda>m. gm_group_id m = groupID \<and> gm_user_id m \<noteq> userID) (group_members db)) of
        [] \<Rightarrow> None
      | m # _ \<Rightarrow> Some m)"

definition RemoveUserFromGroupWithDB ::
  "instant \<Rightarrow> int \<Rightarrow> int \<Rightarrow> database \<Rightarrow> (db_error + bool \<times> bool \<times> string) \<times> database" where
  "RemoveUserFromGroupWithDB clock groupID userID =
     (let now = NowTime clock in
      transaction (\<lambda>db.
        (case GetGroupByIDWithDB groupID db of
           None \<Rightarrow> (Inr (False, False, now), db)
         | Some grp \<Rightarrow>
             (case find_member groupID userID db of
                None \<Rightarrow> (Inr (True, False, now), db)
              | Some member \<Rightarrow>
                  (let db1 =
                     (if gr_owner_user_id grp = userID
                      then (case find_successor groupID userID db of
                              None \<Rightarrow> update_group (active_group groupID)
                                        (\<lambda>g. g\<lparr>gr_is_delete := True, gr_update_time := now\<rparr>) db
                            | Some successor \<Rightarrow>
                                update_member groupID (gm_user_id successor) (groupMemberRoleUpdates GroupRoleOwner now)
                                  (update_group (active_group groupID)
                                     (\<lambda>g. g\<lparr>gr_owner_user_id := gm_user_id successor, gr_update_time := now\<rparr>) db))
                      else update_group (active_group groupID) (\<lambda>g. g\<lparr>gr_update_time := now\<rparr>) db);
                       removed = 0 < sql_count (\<lambda>m. gm_group_id m = groupID \<and> gm_user_id m = userID) (group_members db1)
                   in (Inr (True, removed, now), delete_member groupID userID db1))))))"

definition UpdateGroupAvatarWithDB :: "instant \<Rightarrow> int \<Rightarrow> string \<Rightarrow> database \<Rightarrow> (bool \<times> string) \<times> database" where
  "UpdateGroupAvatarWithDB clock groupID avatar db =
     (let now = NowTime clock
      in ((0 < sql_count (active_group groupID) (chat_groups db), now),
          update_group (active_group groupID) (\<lambda>g. g\<lparr>gr_avatar := avatar, gr_update_time := now\<rparr>) db))"

definition UpdateGroupNameByWithDB ::
  "instant \<Rightarrow> int \<Rightarrow> int \<Rightarrow> string \<Rightarrow> database \<Rightarrow> (db_error + string) \<times> database" where
  "UpdateGroupNameByWithDB clock actorID groupID groupName =
     (let now = NowTime clock in
      transaction (\<lambda>db.
        (case GetGroupByIDWithDB groupID db of
           None \<Rightarrow> (Inl ErrRelationshipNotFound, db)
         | Some grp \<Rightarrow>
             (case RequireGroupManagerWithDB groupID actorID db of
                (_, allowed) \<Rightarrow>
                  if \<not> allowed then (Inl ErrRelationshipForbidden, db)
                  else if sql_count (active_group groupID) (chat_groups db) \<noteq> 1 then (Inl ErrRelationshipNotFound, db)
                  else (Inr now, update_group (active_group groupID)
                                   (\<lambda>g. g\<lparr>gr_name := groupName, gr_update_time := now\<rparr>) db)))))"

definition TransferGroupOwnerWithDB ::
  "instant \<Rightarrow> int \<Rightarrow> int \<Rightarrow> int \<Rightarrow> database \<Rightarrow> (db_error + string \<times> int \<times> string) \<times> database" where
  "TransferGroupOwnerWithDB clock actorID groupID targetUserID =
     (if actorID \<le> 0 \<or> groupID \<le> 0 \<or> targetUserID \<le> 0 \<or> actorID = targetUserID
      then (\<lambda>db. (Inl ErrRelationshipInvalidState, db))
      else
        let now = NowTime clock in
        transaction (\<lambda>db.
          (case GetGroupByIDWithDB groupID db of
             None \<Rightarrow> (Inl ErrRelationshipNotFound, db)
           | Some grp \<Rightarrow>
               if gr_owner_user_id grp \<noteq> actorID then (Inl ErrRelationshipInvalidState, db)
               else (case find_member groupID actorID db of
                 None \<Rightarrow> (Inl ErrRelationshipInvalidState, db)
               | Some previousOwner \<Rightarrow>
                   if gm_role previousOwner \<noteq> GroupRoleOwner then (Inl ErrRelationshipInvalidState, db)
                   else (case find_member groupID targetUserID db of
                     None \<Rightarrow> (Inl ErrRelationshipNotFound, db)
                   | Some target \<Rightarrow>
                       (let c = (\<lambda>g. gr_group_id g = groupID \<and> gr_owner_user_id g = actorID \<and> \<not> gr_is_delete g);
                            db1 = update_group c (\<lambda>g. g\<lparr>gr_owner_user_id := targetUserID, gr_update_time := now\<rparr>) db;
                            db2 = update_member groupID targetUserID (groupMemberRoleUpdates GroupRoleOwner now) db1;
                            db3 = update_member groupID actorID (groupMemberRoleUpdates GroupRoleAdmin now) db2;
                            ownerCount = sql_count (\<lambda>m. gm_group_id m = groupID \<and> gm_role m = GroupRoleOwner) (group_members db3)
                        in if sql_count c (chat_groups db) \<noteq> 1 then (Inl ErrRelationshipInvalidState, db1)
                           else (case find_member groupID targetUserID db3 of
                             None \<Rightarrow> (Inl ErrRecordNotFound, db3)
                           | Some currentOwner \<Rightarrow>
                               if ownerCount \<noteq> 1 \<or> gm_role currentOwner \<noteq> GroupRoleOwner
                               then (Inl ErrRelationshipInvalidState, db3)
                               else (Inr (gr_name grp, actorID, now), db3))))))))"

definition KickGroupMemberByWithDB ::
  "instant \<Rightarrow> int \<Rightarrow> int \<Rightarrow> int \<Rightarrow> database \<Rightarrow> (db_error + string) \<times> database" where
  "KickGroupMemberByWithDB clock actorID groupID targetID =
     (let now = relationshipUpdateTime clock in
      transaction (\<lambda>db.
        (case groupRoleTx groupID actorID db of
           None \<Rightarrow> (Inl ErrRelationshipForbidden, db)
         | Some actorRole \<Rightarrow>
             if \<not> canManageGroup actorRole then (Inl ErrRelationshipForbidden, db)
             else (case groupRoleTx groupID targetID db of
               None \<Rightarrow> (Inl ErrRelationshipNotFound, db)
             | Some targetRole \<Rightarrow>
                 if \<not> canKickGroupMember actorRole targetRole then (Inl ErrRelationshipForbidden, db)
                 else (Inr now, update_group (\<lambda>g. gr_group_id g = groupID) (\<lambda>g. g\<lparr>gr_update_time := now\<rparr>)
                                  (delete_member groupID targetID db))))))"

definition UpdateGroupMemberRoleByWithDB ::
  "instant \<Rightarrow> int \<Rightarrow> int \<Rightarrow> int \<Rightarrow> string \<Rightarrow> database \<Rightarrow> (db_error + string) \<times> database" where
  "UpdateGroupMemberRoleByWithDB clock actorID groupID targetID role =
     (if role \<noteq> GroupRoleAdmin \<and> role \<noteq> GroupRoleMember then (\<lambda>db. (Inl ErrRelationshipInvalidState, db))
      else
        let now = relationshipUpdateTime clock in
        transaction (\<lambda>db.
          (case groupRoleTx groupID actorID db of
             None \<Rightarrow> (Inl ErrRelationshipForbidden, db)
           | Some actorRole \<Rightarrow>
               if \<not> canManageGroup actorRole then (Inl ErrRelationshipForbidden, db)
               else (case groupRoleTx groupID targetID db of
                 None \<Rightarrow> (Inl ErrRelationshipNotFound, db)
               | Some targetRole \<Rightarrow>
                   if \<not> canChangeGroupMemberRole actorRole targetRole role then (Inl ErrRelationshipForbidden, db)
                   else (Inr now, update_group (\<lambda>g. gr_group_id g = groupID) (\<lambda>g. g\<lparr>gr_update_time := now\<rparr>)
                                    (update_member groupID targetID (groupMemberRoleUpdates role now) db))))))"

text \<open>\<^verbatim>\<open>addGroupMemberTx\<close>, called when a join request or an invitation is accepted.\<close>

definition addGroupMemberTx :: "int \<Rightarrow> int \<Rightarrow> string \<Rightarrow> database \<Rightarrow> db_error + database" where
  "addGroupMemberTx groupID userID now db =
     (case GetGroupByIDWithDB groupID db of
        None \<Rightarrow> Inl ErrRelationshipNotFound
      | Some grp \<Rightarrow>
          (case (case find_member groupID userID db of
                   None \<Rightarrow> create_member (newGroupMember groupID userID GroupRoleMember now) db
                 | Some _ \<Rightarrow> Inr db) of
             Inl e \<Rightarrow> Inl e
           | Inr db1 \<Rightarrow> Inr (update_group (\<lambda>g. gr_group_id g = gr_group_id grp) (\<lambda>g. g\<lparr>gr_update_time := now\<rparr>) db1)))"

end
