(* ===== verification/Requests.thy ===== *)
theory Requests
  imports Chat_Groups
begin

text \<open>
  \<^verbatim>\<open>shared/db/util_relationship.go\<close>: friend requests, group join requests and group invitations.
  A request row is pending until it is accepted, rejected, cancelled or expired; while it is pending
  its \<^verbatim>\<open>active_key\<close> reserves the pair of users, or the group and the user, it is about. Every operation
  takes the value of the clock it reads (\<^verbatim>\<open>relationshipNow\<close>) as its first argument.
\<close>

abbreviation RequestTypeFriend :: string where "RequestTypeFriend \<equiv> ''friend''"
abbreviation RequestTypeGroupJoin :: string where "RequestTypeGroupJoin \<equiv> ''group_join''"
abbreviation RequestTypeGroupInvite :: string where "RequestTypeGroupInvite \<equiv> ''group_invite''"
abbreviation RequestStatusPending :: string where "RequestStatusPending \<equiv> ''pending''"
abbreviation RequestStatusAccepted :: string where "RequestStatusAccepted \<equiv> ''accepted''"
abbreviation RequestStatusRejected :: string where "RequestStatusRejected \<equiv> ''rejected''"
abbreviation RequestStatusCancelled :: string where "RequestStatusCancelled \<equiv> ''cancelled''"
abbreviation RequestStatusExpired :: string where "RequestStatusExpired \<equiv> ''expired''"

definition relationshipRequestTTL :: duration where
  "relationshipRequestTTL = 7 * 24 * hour"

definition relationshipWindow :: "instant \<Rightarrow> string \<times> string" where
  "relationshipWindow now = (relationshipTime now, relationshipTime (now + relationshipRequestTTL))"

section \<open>Views\<close>

record request_view =
  rv_request :: request_row
  rv_requester_name :: string
  rv_requester_avatar :: string
  rv_target_name :: string
  rv_target_avatar :: string
  rv_group_name :: string
  rv_group_avatar :: string

text \<open>
  \<^verbatim>\<open>relationshipViewQuery\<close>: the left joins of a request row with its two users and its group (deleted
  groups included); a column of a missing row scans as the empty string.
\<close>

definition column :: "('r \<Rightarrow> string) \<Rightarrow> 'r option \<Rightarrow> string" where
  "column c r = (case r of None \<Rightarrow> [] | Some x \<Rightarrow> c x)"

definition relationshipViewQuery :: "database \<Rightarrow> request_row \<Rightarrow> request_view" where
  "relationshipViewQuery db r =
     (let requester = sql_first (\<lambda>u. us_id u = rq_requester_user_id r) (users db);
          target = sql_first (\<lambda>u. us_id u = rq_target_user_id r) (users db);
          grp = sql_first (\<lambda>g. gr_group_id g = rq_group_id r) (chat_groups db)
      in \<lparr>rv_request = r, rv_requester_name = column us_name requester, rv_requester_avatar = column us_avatar requester,
          rv_target_name = column us_name target, rv_target_avatar = column us_avatar target,
          rv_group_name = column gr_name grp, rv_group_avatar = column gr_avatar grp\<rparr>)"

definition find_request :: "int \<Rightarrow> database \<Rightarrow> request_row option" where
  "find_request requestID db = sql_first (\<lambda>r. rq_id r = requestID) (relationship_requests db)"

definition GetRelationshipRequestWithDB :: "int \<Rightarrow> database \<Rightarrow> db_error + request_view" where
  "GetRelationshipRequestWithDB requestID db =
     (case find_request requestID db of
        None \<Rightarrow> Inl ErrRelationshipNotFound
      | Some r \<Rightarrow> if rq_id r = 0 then Inl ErrRelationshipNotFound else Inr (relationshipViewQuery db r))"

section \<open>Creating requests\<close>

definition update_requests :: "(request_row \<Rightarrow> bool) \<Rightarrow> (request_row \<Rightarrow> request_row) \<Rightarrow> database \<Rightarrow> database" where
  "update_requests c f db = db\<lparr>relationship_requests := sql_update c f (relationship_requests db)\<rparr>"

definition expire_row :: "string \<Rightarrow> request_row \<Rightarrow> request_row" where
  "expire_row now r = r\<lparr>rq_status := RequestStatusExpired, rq_active_key := None, rq_resolved_at := now\<rparr>"

definition expireActiveKey :: "string \<Rightarrow> instant \<Rightarrow> database \<Rightarrow> database" where
  "expireActiveKey key now =
     update_requests (\<lambda>r. rq_active_key r = Some key \<and> rq_status r = RequestStatusPending \<and>
                          rq_expires_at r \<le> relationshipTime now)
       (expire_row (relationshipTime now))"

definition expireRequestsForUserWithDB :: "instant \<Rightarrow> int \<Rightarrow> database \<Rightarrow> database" where
  "expireRequestsForUserWithDB clock userID =
     update_requests (\<lambda>r. rq_status r = RequestStatusPending \<and> rq_expires_at r \<le> relationshipTime clock \<and>
                          (rq_requester_user_id r = userID \<or> rq_target_user_id r = userID))
       (expire_row (relationshipTime clock))"

definition expireRequestsForGroupWithDB :: "instant \<Rightarrow> int \<Rightarrow> database \<Rightarrow> database" where
  "expireRequestsForGroupWithDB clock groupID =
     update_requests (\<lambda>r. rq_status r = RequestStatusPending \<and> rq_expires_at r \<le> relationshipTime clock \<and>
                          rq_group_id r = groupID)
       (expire_row (relationshipTime clock))"

text \<open>
  \<^verbatim>\<open>Clauses(OnConflict DoNothing).Create\<close>: the row gets the sequence's next value, also when the
  insertion is skipped because the active key is taken; the flag is RowsAffected = 1.
\<close>

definition insert_request :: "request_row \<Rightarrow> database \<Rightarrow> (db_error + bool \<times> request_row) \<times> database" where
  "insert_request request db =
     (let r = request\<lparr>rq_id := relationship_requests_id_seq db\<rparr>;
          db1 = db\<lparr>relationship_requests_id_seq := relationship_requests_id_seq db + 1\<rparr>
      in if rq_active_key r \<noteq> None \<and> rq_active_key r \<in> rq_active_key ` set (relationship_requests db)
         then (Inr (False, request), db1)
         else (case sql_create rq_id r (relationship_requests db) of
                 None \<Rightarrow> (Inl ErrUniqueViolation, db1)
               | Some rs \<Rightarrow> (Inr (True, r), db1\<lparr>relationship_requests := rs\<rparr>)))"

definition find_active :: "string \<Rightarrow> database \<Rightarrow> request_row option" where
  "find_active key db = sql_first (\<lambda>r. rq_active_key r = Some key) (relationship_requests db)"

text \<open>
  \<^verbatim>\<open>createPendingRequest\<close>. The key is the dereferenced \<^verbatim>\<open>ActiveKey\<close>, which every caller sets; the branch
  for a skipped insertion is the one a concurrent transaction makes reachable.
\<close>

definition createPendingRequest ::
  "instant \<Rightarrow> request_row \<Rightarrow> string \<Rightarrow> database \<Rightarrow> (db_error + request_row \<times> bool) \<times> database" where
  "createPendingRequest now request0 key =
     (let (created_at, expires_at) = relationshipWindow now;
          request = request0\<lparr>rq_status := RequestStatusPending, rq_active_key := Some key,
                             rq_created_at := created_at, rq_expires_at := expires_at\<rparr>
      in transaction (\<lambda>db.
        let db1 = expireActiveKey key now db in
        (case find_active key db1 of
           Some existing \<Rightarrow> (Inr (existing, False), db1)
         | None \<Rightarrow>
             (case insert_request request db1 of
                (Inl e, db2) \<Rightarrow> (Inl e, db2)
              | (Inr (affected, created_request), db2) \<Rightarrow>
                  if \<not> affected
                  then (case find_active key db2 of
                          None \<Rightarrow> (Inl ErrRecordNotFound, db2)
                        | Some existing \<Rightarrow> (Inr (existing, False), db2))
                  else (Inr (created_request, True), db2)))))"

definition new_request :: "string \<Rightarrow> int \<Rightarrow> int \<Rightarrow> int \<Rightarrow> string \<Rightarrow> request_row" where
  "new_request requestType requester target groupID message =
     \<lparr>rq_id = 0, rq_type = requestType, rq_requester_user_id = requester, rq_target_user_id = target,
      rq_group_id = groupID, rq_message = TrimSpace message, rq_status = [], rq_active_key = None,
      rq_created_at = [], rq_expires_at = [], rq_resolved_at = [], rq_resolved_by = 0\<rparr>"

definition friend_request_key :: "int \<Rightarrow> int \<Rightarrow> string" where
  "friend_request_key a b =
     (let (first, second) = (if a > b then (b, a) else (a, b))
      in ''friend:'' @ itoa first @ '':'' @ itoa second)"

definition group_join_key :: "int \<Rightarrow> int \<Rightarrow> string" where
  "group_join_key groupID userID = ''group_join:'' @ itoa groupID @ '':'' @ itoa userID"

definition group_invite_key :: "int \<Rightarrow> int \<Rightarrow> string" where
  "group_invite_key groupID userID = ''group_invite:'' @ itoa groupID @ '':'' @ itoa userID"

text \<open>The tail the three creation functions share: create the request, then read its view.\<close>

definition create_and_view ::
  "instant \<Rightarrow> request_row \<Rightarrow> string \<Rightarrow> database \<Rightarrow> (db_error + request_view \<times> bool) \<times> database" where
  "create_and_view clock request key db =
     (case createPendingRequest clock request key db of
        (Inl e, db1) \<Rightarrow> (Inl e, db1)
      | (Inr (r, created), db1) \<Rightarrow>
          (case GetRelationshipRequestWithDB (rq_id r) db1 of
             Inl e \<Rightarrow> (Inl e, db1)
           | Inr view \<Rightarrow> (Inr (view, created), db1)))"

definition CreateFriendRequestWithDB ::
  "instant \<Rightarrow> int \<Rightarrow> int \<Rightarrow> string \<Rightarrow> database \<Rightarrow> (db_error + request_view \<times> bool) \<times> database" where
  "CreateFriendRequestWithDB clock requesterID targetID message db =
     (if requesterID \<le> 0 \<or> targetID \<le> 0 \<or> requesterID = targetID then (Inl ErrRelationshipInvalidState, db)
      else if friendshipActiveWithDB requesterID targetID db then (Inl ErrAlreadyRelated, db)
      else create_and_view clock (new_request RequestTypeFriend requesterID targetID 0 message)
             (friend_request_key requesterID targetID) db)"

definition CreateGroupJoinRequestWithDB ::
  "instant \<Rightarrow> int \<Rightarrow> int \<Rightarrow> string \<Rightarrow> database \<Rightarrow> (db_error + request_view \<times> bool) \<times> database" where
  "CreateGroupJoinRequestWithDB clock userID groupID message db =
     (if IsActiveGroupMemberWithDB groupID userID db then (Inl ErrAlreadyRelated, db)
      else if GetGroupByIDWithDB groupID db = None then (Inl ErrRelationshipNotFound, db)
      else create_and_view clock (new_request RequestTypeGroupJoin userID 0 groupID message)
             (group_join_key groupID userID) db)"

definition CreateGroupInvitationWithDB ::
  "instant \<Rightarrow> int \<Rightarrow> int \<Rightarrow> int \<Rightarrow> string \<Rightarrow> database \<Rightarrow> (db_error + request_view \<times> bool) \<times> database" where
  "CreateGroupInvitationWithDB clock actorID groupID targetID message db =
     (if \<not> snd (RequireGroupManagerWithDB groupID actorID db) then (Inl ErrRelationshipForbidden, db)
      else if IsActiveGroupMemberWithDB groupID targetID db then (Inl ErrAlreadyRelated, db)
      else create_and_view clock (new_request RequestTypeGroupInvite actorID targetID groupID message)
             (group_invite_key groupID targetID) db)"

section \<open>Listing requests\<close>

text \<open>\<^verbatim>\<open>Order("created_at DESC").Limit(100).Scan\<close> of the selected rows.\<close>

definition latest_requests :: "(request_row \<Rightarrow> bool) \<Rightarrow> database \<Rightarrow> request_view list" where
  "latest_requests c db =
     map (relationshipViewQuery db) (take 100 (sql_order_desc rq_created_at (filter c (relationship_requests db))))"

definition ListFriendRequestsWithDB :: "instant \<Rightarrow> int \<Rightarrow> bool \<Rightarrow> database \<Rightarrow> request_view list \<times> database" where
  "ListFriendRequestsWithDB clock userID includeOutgoing db =
     (let db1 = expireRequestsForUserWithDB clock userID db;
          c = (if includeOutgoing
               then (\<lambda>r. rq_type r = RequestTypeFriend \<and> (rq_target_user_id r = userID \<or> rq_requester_user_id r = userID))
               else (\<lambda>r. rq_type r = RequestTypeFriend \<and> rq_target_user_id r = userID))
      in (latest_requests c db1, db1))"

definition ListGroupJoinRequestsWithDB ::
  "instant \<Rightarrow> int \<Rightarrow> int \<Rightarrow> database \<Rightarrow> (db_error + request_view list) \<times> database" where
  "ListGroupJoinRequestsWithDB clock actorID groupID db =
     (if \<not> snd (RequireGroupManagerWithDB groupID actorID db) then (Inl ErrRelationshipForbidden, db)
      else let db1 = expireRequestsForGroupWithDB clock groupID db
           in (Inr (latest_requests (\<lambda>r. rq_type r = RequestTypeGroupJoin \<and> rq_group_id r = groupID \<and>
                                          rq_status r = RequestStatusPending) db1), db1))"

definition ListGroupInvitationsWithDB :: "instant \<Rightarrow> int \<Rightarrow> bool \<Rightarrow> database \<Rightarrow> request_view list \<times> database" where
  "ListGroupInvitationsWithDB clock userID includeOutgoing db =
     (let db1 = expireRequestsForUserWithDB clock userID db;
          c = (if includeOutgoing
               then (\<lambda>r. rq_status r = RequestStatusPending \<and>
                         (rq_type r = RequestTypeGroupInvite \<and> (rq_target_user_id r = userID \<or> rq_requester_user_id r = userID) \<or>
                          rq_type r = RequestTypeGroupJoin \<and> rq_requester_user_id r = userID))
               else (\<lambda>r. rq_type r = RequestTypeGroupInvite \<and> rq_target_user_id r = userID \<and>
                         rq_status r = RequestStatusPending))
      in (latest_requests c db1, db1))"

section \<open>Resolving requests\<close>

definition isResolutionDecision :: "string \<Rightarrow> bool" where
  "isResolutionDecision decision \<longleftrightarrow>
     decision = RequestStatusAccepted \<or> decision = RequestStatusRejected \<or> decision = RequestStatusCancelled"

definition canResolveRequest :: "int \<Rightarrow> request_row \<Rightarrow> string \<Rightarrow> database \<Rightarrow> bool" where
  "canResolveRequest actorID request decision db =
     (if decision = RequestStatusCancelled then actorID = rq_requester_user_id request
      else if rq_type request = RequestTypeFriend \<or> rq_type request = RequestTypeGroupInvite
      then actorID = rq_target_user_id request
      else if rq_type request = RequestTypeGroupJoin
      then (case groupRoleTx (rq_group_id request) actorID db of
              None \<Rightarrow> False
            | Some role \<Rightarrow> role = GroupRoleOwner \<or> role = GroupRoleAdmin)
      else False)"

definition closeRequest :: "request_row \<Rightarrow> string \<Rightarrow> int \<Rightarrow> instant \<Rightarrow> database \<Rightarrow> database" where
  "closeRequest request status actorID now =
     update_requests (\<lambda>r. rq_id r = rq_id request)
       (\<lambda>r. r\<lparr>rq_status := status, rq_active_key := None, rq_resolved_at := relationshipTime now,
              rq_resolved_by := actorID\<rparr>)"

definition groupRequestUserID :: "request_row \<Rightarrow> int" where
  "groupRequestUserID request =
     (if rq_type request = RequestTypeGroupInvite then rq_target_user_id request else rq_requester_user_id request)"

definition expired_at :: "request_row \<Rightarrow> instant \<Rightarrow> bool" where
  "expired_at request now \<longleftrightarrow>
     (case Parse (rq_expires_at request) of None \<Rightarrow> True | Some expiresAt \<Rightarrow> \<not> expiresAt > now)"

text \<open>The effect of an accepted request on the friend or the member table.\<close>

definition apply_acceptance :: "request_row \<Rightarrow> string \<Rightarrow> database \<Rightarrow> db_error + database" where
  "apply_acceptance request updateTime db =
     (if rq_type request = RequestTypeFriend
      then addDirectFriendPairTx (rq_requester_user_id request) (rq_target_user_id request) updateTime db
      else if rq_type request = RequestTypeGroupJoin \<or> rq_type request = RequestTypeGroupInvite
      then addGroupMemberTx (rq_group_id request) (groupRequestUserID request) updateTime db
      else Inr db)"

text \<open>
  The transaction of \<^verbatim>\<open>resolveRequest\<close>; its value is \<^verbatim>\<open>outcomeErr\<close>: an expired request is closed and
  committed although the caller gets an error.
\<close>

definition resolveTx :: "instant \<Rightarrow> int \<Rightarrow> int \<Rightarrow> string \<Rightarrow> string \<Rightarrow> database \<Rightarrow> (db_error + db_error option) \<times> database" where
  "resolveTx now actorID requestID requestType decision =
     transaction (\<lambda>db.
       (case find_request requestID db of
          None \<Rightarrow> (Inl ErrRelationshipNotFound, db)
        | Some request \<Rightarrow>
            if rq_type request \<noteq> requestType then (Inl ErrRelationshipNotFound, db)
            else if rq_status request \<noteq> RequestStatusPending then
              if rq_status request = decision \<and> rq_resolved_by request = actorID \<and> isResolutionDecision decision
              then (Inr None, db)
              else if rq_status request = RequestStatusExpired then (Inl ErrRelationshipExpired, db)
              else (Inl ErrRelationshipInvalidState, db)
            else if expired_at request now
            then (Inr (Some ErrRelationshipExpired), closeRequest request RequestStatusExpired actorID now db)
            else if \<not> canResolveRequest actorID request decision db then (Inl ErrRelationshipForbidden, db)
            else if \<not> isResolutionDecision decision then (Inl ErrRelationshipInvalidState, db)
            else if decision = RequestStatusAccepted then
              (case apply_acceptance request (relationshipUpdateTime now) db of
                 Inl e \<Rightarrow> (Inl e, db)
               | Inr db1 \<Rightarrow> (Inr None, closeRequest request decision actorID now db1))
            else (Inr None, closeRequest request decision actorID now db)))"

definition resolveRequest ::
  "instant \<Rightarrow> int \<Rightarrow> int \<Rightarrow> string \<Rightarrow> string \<Rightarrow> database \<Rightarrow> (db_error + request_view) \<times> database" where
  "resolveRequest now actorID requestID requestType decision db =
     (case resolveTx now actorID requestID requestType decision db of
        (Inl e, db1) \<Rightarrow> (Inl e, db1)
      | (Inr (Some e), db1) \<Rightarrow> (Inl e, db1)
      | (Inr None, db1) \<Rightarrow> (GetRelationshipRequestWithDB requestID db1, db1))"

definition ResolveFriendRequestWithDB ::
  "instant \<Rightarrow> int \<Rightarrow> int \<Rightarrow> string \<Rightarrow> database \<Rightarrow> (db_error + request_view) \<times> database" where
  "ResolveFriendRequestWithDB clock actorID requestID decision =
     resolveRequest clock actorID requestID RequestTypeFriend decision"

definition ResolveGroupJoinRequestWithDB ::
  "instant \<Rightarrow> int \<Rightarrow> int \<Rightarrow> string \<Rightarrow> database \<Rightarrow> (db_error + request_view) \<times> database" where
  "ResolveGroupJoinRequestWithDB clock actorID requestID decision =
     resolveRequest clock actorID requestID RequestTypeGroupJoin decision"

definition ResolveGroupInvitationWithDB ::
  "instant \<Rightarrow> int \<Rightarrow> int \<Rightarrow> string \<Rightarrow> database \<Rightarrow> (db_error + request_view) \<times> database" where
  "ResolveGroupInvitationWithDB clock actorID requestID decision =
     resolveRequest clock actorID requestID RequestTypeGroupInvite decision"

end
