(* ===== verification/Inbox_Outbox.thy ===== *)
theory Inbox_Outbox
  imports Database
begin

text \<open>
  \<^verbatim>\<open>shared/db/inbox_outbox.go\<close>: the transactional inbox and outbox that make consumer operations
  exactly-once. The store has the service's business tables (the type parameter), the consumer inbox
  and the outbox. The handler \<^verbatim>\<open>execute\<close> works on the business tables within the same transaction; it
  may fail for any reason, a lost database connection included, and is a parameter here.
\<close>

record inbox_row =
  ib_service :: string
  ib_operation_key :: string
  ib_status :: string
  ib_response_payload :: bytes
  ib_created_at :: string
  ib_completed_at :: string

record outbox_row =
  ob_event_id :: string
  ob_service :: string
  ob_operation_key :: string
  ob_topic :: string
  ob_payload :: bytes
  ob_status :: string
  ob_attempt :: int
  ob_claim_token :: string
  ob_lease_until :: string
  ob_next_attempt_at :: string
  ob_last_error :: string
  ob_created_at :: string
  ob_updated_at :: string
  ob_published_at :: string

record 's reliable_store =
  tables :: 's
  consumer_inbox :: "inbox_row list"
  outbox_events :: "outbox_row list"

abbreviation InboxStatusProcessing :: string where "InboxStatusProcessing \<equiv> ''processing''"
abbreviation InboxStatusCompleted :: string where "InboxStatusCompleted \<equiv> ''completed''"
abbreviation OutboxStatusPending :: string where "OutboxStatusPending \<equiv> ''pending''"
abbreviation OutboxStatusClaimed :: string where "OutboxStatusClaimed \<equiv> ''claimed''"
abbreviation OutboxStatusRetryable :: string where "OutboxStatusRetryable \<equiv> ''retryable''"
abbreviation OutboxStatusPublished :: string where "OutboxStatusPublished \<equiv> ''published''"
abbreviation OutboxStatusFailed :: string where "OutboxStatusFailed \<equiv> ''failed''"

record pending_outbox_event =
  pe_event_id :: string
  pe_topic :: string
  pe_payload :: bytes

record inbox_execution =
  ix_response_payload :: bytes
  ix_replayed :: bool

datatype 'e inbox_error =
    InvalidInboxConfiguration
  | ErrInboxIncomplete
  | InvalidOutboxEvent
  | PersistOutboxEvent string
  | InboxRowMissing
  | ExecuteError 'e

type_synonym ('s, 'e) executor = "'s \<Rightarrow> ('e + bytes \<times> pending_outbox_event list) \<times> 's"

text \<open>\<^verbatim>\<open>StableEventID\<close>; \<^verbatim>\<open>hex(sha256(\<cdot>))\<close> is the parameter \<open>sha256hex\<close>.\<close>

definition StableEventID :: "(string \<Rightarrow> string) \<Rightarrow> string \<Rightarrow> string \<Rightarrow> string \<Rightarrow> string" where
  "StableEventID sha256hex service operationKey suffix =
     TrimSpace service @ ''-'' @ sha256hex (service @ [CHR 0x00] @ operationKey @ [CHR 0x00] @ suffix)"

definition inbox_key :: "inbox_row \<Rightarrow> string \<times> string" where
  "inbox_key i = (ib_service i, ib_operation_key i)"

definition find_inbox :: "string \<Rightarrow> string \<Rightarrow> 's reliable_store \<Rightarrow> inbox_row option" where
  "find_inbox service operationKey st =
     sql_first (\<lambda>i. ib_service i = service \<and> ib_operation_key i = operationKey) (consumer_inbox st)"

definition new_outbox_row :: "string \<Rightarrow> string \<Rightarrow> string \<Rightarrow> pending_outbox_event \<Rightarrow> outbox_row" where
  "new_outbox_row service operationKey now event =
     \<lparr>ob_event_id = pe_event_id event, ob_service = service, ob_operation_key = operationKey,
      ob_topic = pe_topic event, ob_payload = pe_payload event, ob_status = OutboxStatusPending, ob_attempt = 0,
      ob_claim_token = [], ob_lease_until = [], ob_next_attempt_at = now, ob_last_error = [],
      ob_created_at = now, ob_updated_at = now, ob_published_at = []\<rparr>"

definition valid_event :: "pending_outbox_event \<Rightarrow> bool" where
  "valid_event event \<longleftrightarrow> TrimSpace (pe_event_id event) \<noteq> [] \<and> TrimSpace (pe_topic event) \<noteq> [] \<and> pe_payload event \<noteq> []"

text \<open>The loop over the events; an event identifier that is already in the outbox violates its primary key.\<close>

fun persist_events ::
  "string \<Rightarrow> string \<Rightarrow> string \<Rightarrow> pending_outbox_event list \<Rightarrow> outbox_row list \<Rightarrow> 'e inbox_error + outbox_row list" where
  "persist_events service operationKey now [] rows = Inr rows"
| "persist_events service operationKey now (event # events) rows =
     (if \<not> valid_event event then Inl InvalidOutboxEvent
      else (case sql_create ob_event_id (new_outbox_row service operationKey now event) rows of
              None \<Rightarrow> Inl (PersistOutboxEvent (pe_event_id event))
            | Some rows' \<Rightarrow> persist_events service operationKey now events rows'))"

definition inbox_candidate :: "string \<Rightarrow> string \<Rightarrow> string \<Rightarrow> inbox_row" where
  "inbox_candidate service operationKey now =
     \<lparr>ib_service = service, ib_operation_key = operationKey, ib_status = InboxStatusProcessing,
      ib_response_payload = [], ib_created_at = now, ib_completed_at = []\<rparr>"

definition complete_inbox ::
  "string \<Rightarrow> string \<Rightarrow> string \<Rightarrow> bytes \<Rightarrow> 's reliable_store \<Rightarrow> nat \<times> 's reliable_store" where
  "complete_inbox service operationKey now response st =
     (let c = (\<lambda>i. ib_service i = service \<and> ib_operation_key i = operationKey \<and> ib_status i = InboxStatusProcessing)
      in (sql_count c (consumer_inbox st),
          st\<lparr>consumer_inbox := sql_update c (\<lambda>i. i\<lparr>ib_status := InboxStatusCompleted, ib_response_payload := response,
                                                     ib_completed_at := now\<rparr>) (consumer_inbox st)\<rparr>))"

text \<open>The body of the transaction, for trimmed, non-empty names.\<close>

definition inbox_transaction ::
  "string \<Rightarrow> string \<Rightarrow> string \<Rightarrow> ('s, 'e) executor \<Rightarrow> 's reliable_store \<Rightarrow>
   ('e inbox_error + inbox_execution) \<times> 's reliable_store" where
  "inbox_transaction now service operationKey execute st =
     (case sql_create inbox_key (inbox_candidate service operationKey now) (consumer_inbox st) of
        None \<Rightarrow>
          (case find_inbox service operationKey st of
             None \<Rightarrow> (Inl InboxRowMissing, st)
           | Some existing \<Rightarrow>
               if ib_status existing \<noteq> InboxStatusCompleted then (Inl ErrInboxIncomplete, st)
               else (Inr \<lparr>ix_response_payload = ib_response_payload existing, ix_replayed = True\<rparr>, st))
      | Some inbox \<Rightarrow>
          (let st1 = st\<lparr>consumer_inbox := inbox\<rparr> in
           case execute (tables st1) of
             (Inl e, business) \<Rightarrow> (Inl (ExecuteError e), st1\<lparr>tables := business\<rparr>)
           | (Inr (response, events), business) \<Rightarrow>
               (let st2 = st1\<lparr>tables := business\<rparr> in
                case persist_events service operationKey now events (outbox_events st2) of
                  Inl e \<Rightarrow> (Inl e, st2)
                | Inr rows \<Rightarrow>
                    (let (affected, st3) = complete_inbox service operationKey now response (st2\<lparr>outbox_events := rows\<rparr>)
                     in if affected \<noteq> 1 then (Inl ErrInboxIncomplete, st3)
                        else (Inr \<lparr>ix_response_payload = response, ix_replayed = False\<rparr>, st3)))))"

definition ExecuteInboxOutbox ::
  "instant \<Rightarrow> string \<Rightarrow> string \<Rightarrow> ('s, 'e) executor \<Rightarrow> 's reliable_store \<Rightarrow>
   ('e inbox_error + inbox_execution) \<times> 's reliable_store" where
  "ExecuteInboxOutbox clock service0 operationKey0 execute st =
     (let service = TrimSpace service0; operationKey = TrimSpace operationKey0 in
      if service = [] \<or> operationKey = [] then (Inl InvalidInboxConfiguration, st)
      else transaction (inbox_transaction (FormatReliabilityTime clock) service operationKey execute) st)"

section \<open>The invariant and the effect of one execution\<close>

definition inbox_inv :: "'s reliable_store \<Rightarrow> bool" where
  "inbox_inv st \<longleftrightarrow> distinct (map inbox_key (consumer_inbox st)) \<and>
     (\<forall>i\<in>set (consumer_inbox st). ib_status i = InboxStatusCompleted \<and> ib_service i \<noteq> [] \<and> ib_operation_key i \<noteq> []) \<and>
     distinct (map ob_event_id (outbox_events st))"

lemma persist_events_Inr:
  fixes rows' :: "outbox_row list"
  shows "persist_events service operationKey now events rows = (Inr rows' :: 'e inbox_error + _) \<Longrightarrow>
   rows' = rows @ map (new_outbox_row service operationKey now) events \<and> (\<forall>e\<in>set events. valid_event e) \<and>
   (distinct (map ob_event_id rows) \<longrightarrow> distinct (map ob_event_id rows'))"
proof (induction events arbitrary: rows)
  case (Cons event events)
  show ?case
  proof (cases "sql_create ob_event_id (new_outbox_row service operationKey now event) rows")
    case (Some rows1)
    with Cons.prems have "valid_event event"
      "persist_events service operationKey now events rows1 = (Inr rows' :: 'e inbox_error + _)"
      by (simp_all split: if_splits)
    with Cons.IH sql_create_SomeD [OF Some] show ?thesis by fastforce
  qed (use Cons.prems in \<open>simp split: if_splits\<close>)
qed simp

definition completed_row :: "string \<Rightarrow> string \<Rightarrow> string \<Rightarrow> bytes \<Rightarrow> inbox_row" where
  "completed_row service operationKey now response =
     (inbox_candidate service operationKey now)\<lparr>ib_status := InboxStatusCompleted, ib_response_payload := response,
        ib_completed_at := now\<rparr>"

text \<open>The whole function by cases on a consistent store: replay, failure, or one committed execution.\<close>

lemma ExecuteInboxOutbox_replay_found:
  assumes "inbox_inv st" "find_inbox (TrimSpace service) (TrimSpace key) st = Some i"
    "TrimSpace service \<noteq> []" "TrimSpace key \<noteq> []"
  shows "ExecuteInboxOutbox clock service key execute st =
    (Inr \<lparr>ix_response_payload = ib_response_payload i, ix_replayed = True\<rparr>, st)"
proof -
  have i: "i \<in> set (consumer_inbox st)" "inbox_key i = (TrimSpace service, TrimSpace key)"
    using assms(2) by (auto simp: find_inbox_def inbox_key_def dest: sql_first_SomeD)
  then have "sql_create inbox_key (inbox_candidate (TrimSpace service) (TrimSpace key) now) (consumer_inbox st) = None" for now
    by (force simp: sql_create_def inbox_candidate_def inbox_key_def)
  with assms i show ?thesis
    by (simp add: ExecuteInboxOutbox_def Let_def transaction_def inbox_transaction_def inbox_inv_def)
qed

lemma complete_inbox_fresh:
  assumes "\<forall>i\<in>set inbox. ib_status i = InboxStatusCompleted"
  shows "complete_inbox service key now response
      \<lparr>tables = b, consumer_inbox = inbox @ [inbox_candidate service key now], outbox_events = rows\<rparr> =
    (1, \<lparr>tables = b, consumer_inbox = inbox @ [completed_row service key now response], outbox_events = rows\<rparr>)"
proof -
  let ?c = "\<lambda>i. ib_service i = service \<and> ib_operation_key i = key \<and> ib_status i = InboxStatusProcessing"
  have "sql_count ?c (inbox @ [inbox_candidate service key now]) = 1"
    using assms by (auto simp: sql_count_def inbox_candidate_def filter_empty_conv)
  moreover have "sql_update ?c f (inbox @ [x]) = inbox @ [if ?c x then f x else x]" for f x
    using assms by (auto simp: sql_update_def intro: map_idI)
  ultimately show ?thesis
    by (simp add: complete_inbox_def Let_def) (simp add: completed_row_def inbox_candidate_def)
qed

lemma ExecuteInboxOutbox_fresh:
  assumes inv: "inbox_inv st" and none: "find_inbox (TrimSpace service) (TrimSpace key) st = None"
    and ne: "TrimSpace service \<noteq> []" "TrimSpace key \<noteq> []"
  shows "ExecuteInboxOutbox clock service key execute st =
    (let now = FormatReliabilityTime clock; s = TrimSpace service; k = TrimSpace key in
     case execute (tables st) of
       (Inl e, _) \<Rightarrow> (Inl (ExecuteError e), st)
     | (Inr (response, events), business) \<Rightarrow>
         (case persist_events s k now events (outbox_events st) of
            Inl e \<Rightarrow> (Inl e, st)
          | Inr rows \<Rightarrow>
              (Inr \<lparr>ix_response_payload = response, ix_replayed = False\<rparr>,
               \<lparr>tables = business, consumer_inbox = consumer_inbox st @ [completed_row s k now response],
                outbox_events = rows\<rparr>)))"
proof -
  have "sql_create inbox_key (inbox_candidate (TrimSpace service) (TrimSpace key) now) (consumer_inbox st) =
      Some (consumer_inbox st @ [inbox_candidate (TrimSpace service) (TrimSpace key) now])" for now
    using none by (auto simp: sql_create_def inbox_candidate_def inbox_key_def find_inbox_def sql_first_None)
  moreover have "\<forall>i\<in>set (consumer_inbox st). ib_status i = InboxStatusCompleted" using inv by (simp add: inbox_inv_def)
  ultimately show ?thesis
    using ne by (cases st) (auto simp: complete_inbox_fresh ExecuteInboxOutbox_def Let_def transaction_def inbox_transaction_def
        split: prod.split sum.split)
qed


lemma inbox_inv_execute:
  assumes inv: "inbox_inv st"
  shows "inbox_inv (snd (ExecuteInboxOutbox clock service key execute st))"
proof (cases "TrimSpace service = [] \<or> TrimSpace key = []")
  case False
  then have ne: "TrimSpace service \<noteq> []" "TrimSpace key \<noteq> []" by auto
  show ?thesis
  proof (cases "find_inbox (TrimSpace service) (TrimSpace key) st")
    case None
    then have "(TrimSpace service, TrimSpace key) \<notin> inbox_key ` set (consumer_inbox st)"
      by (auto simp: find_inbox_def sql_first_None inbox_key_def)
    with inv ne show ?thesis
      by (auto simp: ExecuteInboxOutbox_fresh [OF inv None ne] Let_def inbox_inv_def completed_row_def inbox_candidate_def
          inbox_key_def split: prod.split sum.split dest!: persist_events_Inr)
  qed (simp add: ExecuteInboxOutbox_replay_found [OF inv _ ne] inv)
qed (auto simp: ExecuteInboxOutbox_def inv)

section \<open>The interface of an idempotent consumer\<close>

text \<open>
  What the services rely on: a delivery whose key has a recorded outcome is answered with it and
  changes nothing; a delivery without one that succeeds records its outcome; a failed delivery
  changes nothing. From these laws follow at-most-once execution and stable answers for every
  sequence of deliveries, redeliveries included.
\<close>

fun run_deliveries :: "('d \<Rightarrow> 's \<Rightarrow> 'r \<times> 's) \<Rightarrow> 'd list \<Rightarrow> 's \<Rightarrow> 'r list \<times> 's" where
  "run_deliveries deliver [] s = ([], s)"
| "run_deliveries deliver (d # ds) s =
     (let (r, s1) = deliver d s; (rs, s2) = run_deliveries deliver ds s1 in (r # rs, s2))"

definition executed :: "'e + inbox_execution \<Rightarrow> bool" where
  "executed r = (case r of Inl _ \<Rightarrow> False | Inr x \<Rightarrow> \<not> ix_replayed x)"

definition answer :: "'e + inbox_execution \<Rightarrow> bytes option" where
  "answer r = (case r of Inl _ \<Rightarrow> None | Inr x \<Rightarrow> Some (ix_response_payload x))"

locale idempotent_consumer =
  fixes deliver :: "'d \<Rightarrow> 's \<Rightarrow> ('e + inbox_execution) \<times> 's"
    and key :: "'d \<Rightarrow> 'k"
    and outcome :: "'s \<Rightarrow> 'k \<Rightarrow> bytes option"
    and valid :: "'s \<Rightarrow> bool"
  assumes replay: "valid s \<Longrightarrow> outcome s (key d) = Some p \<Longrightarrow>
      deliver d s = (Inr \<lparr>ix_response_payload = p, ix_replayed = True\<rparr>, s)"
    and fresh: "valid s \<Longrightarrow> outcome s (key d) = None \<Longrightarrow> deliver d s = (Inr x, s') \<Longrightarrow>
      \<not> ix_replayed x \<and> outcome s' = (outcome s)(key d \<mapsto> ix_response_payload x)"
    and failed: "valid s \<Longrightarrow> deliver d s = (Inl e, s') \<Longrightarrow> s' = s"
    and kept: "valid s \<Longrightarrow> valid (snd (deliver d s))"
begin

lemma deliver_outcome:
  assumes "valid s" "deliver d s = (r, s')"
  shows "outcome s' = (case answer r of None \<Rightarrow> outcome s | Some p \<Rightarrow> (outcome s)(key d \<mapsto> p))"
    "executed r \<Longrightarrow> outcome s (key d) = None" "outcome s k = Some p \<Longrightarrow> outcome s' k = Some p"
proof -
  show *: "outcome s' = (case answer r of None \<Rightarrow> outcome s | Some p \<Rightarrow> (outcome s)(key d \<mapsto> p))"
  proof (cases "outcome s (key d)")
    case None
    with assms fresh [OF assms(1) None] failed [OF assms(1)] show ?thesis
      by (cases r) (auto simp: answer_def)
  next
    case (Some p)
    with replay [OF assms(1) Some] assms show ?thesis by (auto simp: answer_def)
  qed
  show "executed r \<Longrightarrow> outcome s (key d) = None"
    using replay [OF assms(1)] assms(2) by (cases "outcome s (key d)") (auto simp: executed_def)
  show "outcome s k = Some p \<Longrightarrow> outcome s' k = Some p"
    using * replay [OF assms(1)] assms(2) by (cases "k = key d") (auto simp: answer_def split: option.split sum.split)
qed

lemma run_mono:
  "valid s \<Longrightarrow> run_deliveries deliver ds s = (rs, s') \<Longrightarrow> outcome s k = Some p \<Longrightarrow> outcome s' k = Some p"
proof (induction ds arbitrary: s rs)
  case (Cons d ds)
  obtain r s1 where d: "deliver d s = (r, s1)" by fastforce
  then show ?case
    using Cons deliver_outcome(3) [OF Cons.prems(1) d] kept [OF Cons.prems(1), of d]
    by (auto simp: Let_def split: prod.splits)
qed simp

lemma stable_answers:
  "valid s \<Longrightarrow> run_deliveries deliver ds s = (rs, s') \<Longrightarrow> (d, r) \<in> set (zip ds rs) \<Longrightarrow> answer r = Some p \<Longrightarrow>
   outcome s' (key d) = Some p"
proof (induction ds arbitrary: s rs)
  case (Cons d1 ds)
  obtain r1 s1 where d: "deliver d1 s = (r1, s1)" by fastforce
  obtain rs1 where rs: "run_deliveries deliver ds s1 = (rs1, s')" "rs = r1 # rs1"
    using Cons.prems(2) d by (auto simp: Let_def split: prod.splits)
  have v: "valid s1" using kept [OF Cons.prems(1), of d1] d by simp
  show ?case
  proof (cases "d = d1 \<and> r = r1")
    case True
    then have "outcome s1 (key d) = Some p" using deliver_outcome(1) [OF Cons.prems(1) d] Cons.prems(4) by simp
    then show ?thesis by (rule run_mono [OF v rs(1)])
  next
    case False
    then show ?thesis using Cons.IH [OF v rs(1)] Cons.prems(3,4) rs(2) by auto
  qed
qed simp

lemma at_most_once:
  "valid s \<Longrightarrow> run_deliveries deliver ds s = (rs, s') \<Longrightarrow>
   length (filter (\<lambda>(d, r). key d = k \<and> executed r) (zip ds rs)) \<le> (if outcome s k = None then 1 else 0)"
proof (induction ds arbitrary: s rs)
  case (Cons d ds)
  obtain r s1 where d: "deliver d s = (r, s1)" by fastforce
  obtain rs1 where rs: "run_deliveries deliver ds s1 = (rs1, s')" "rs = r # rs1"
    using Cons.prems(2) d by (auto simp: Let_def split: prod.splits)
  have v: "valid s1" using kept [OF Cons.prems(1), of d] d by simp
  note IH = Cons.IH [OF v rs(1)] and out = deliver_outcome [OF Cons.prems(1) d]
  have ex: "executed r \<Longrightarrow> \<exists>p. answer r = Some p" by (cases r) (auto simp: executed_def answer_def)
  show ?case
  proof (cases "key d = k \<and> executed r")
    case True
    with out(1,2) ex IH rs(2) show ?thesis by auto
  next
    case False
    have "outcome s k \<noteq> None \<Longrightarrow> outcome s1 k \<noteq> None" using out(3) by auto
    with False IH rs(2) show ?thesis by (auto split: if_splits)
  qed
qed simp

end

section \<open>The inbox provides it\<close>

type_synonym ('s, 'e) delivery = "instant \<times> string \<times> ('s, 'e) executor"

definition deliver :: "string \<Rightarrow> ('s, 'e) delivery \<Rightarrow> 's reliable_store \<Rightarrow> ('e inbox_error + inbox_execution) \<times> 's reliable_store" where
  "deliver service d st = (case d of (clock, key, execute) \<Rightarrow> ExecuteInboxOutbox clock service key execute st)"

definition delivery_key :: "('s, 'e) delivery \<Rightarrow> string" where
  "delivery_key d = TrimSpace (fst (snd d))"

definition recorded_response :: "string \<Rightarrow> 's reliable_store \<Rightarrow> string \<Rightarrow> bytes option" where
  "recorded_response service st key = map_option ib_response_payload (find_inbox (TrimSpace service) key st)"

lemma recorded_nonempty:
  assumes "inbox_inv st" "recorded_response service st k = Some p"
  shows "TrimSpace service \<noteq> [] \<and> k \<noteq> []"
proof -
  obtain i where "find_inbox (TrimSpace service) k st = Some i" using assms(2) by (auto simp: recorded_response_def)
  then have "i \<in> set (consumer_inbox st)" "ib_service i = TrimSpace service" "ib_operation_key i = k"
    by (auto simp: find_inbox_def dest: sql_first_SomeD)
  with assms(1) show ?thesis by (auto simp: inbox_inv_def)
qed

lemma deliver_fresh_recorded:
  assumes inv: "inbox_inv st" and none: "recorded_response service st (TrimSpace key) = None"
    and e: "ExecuteInboxOutbox clock service key execute st = (Inr x, st')"
  shows "\<not> ix_replayed x \<and>
    recorded_response service st' = (recorded_response service st)(TrimSpace key \<mapsto> ix_response_payload x)"
proof -
  have ne: "TrimSpace service \<noteq> []" "TrimSpace key \<noteq> []" using e by (auto simp: ExecuteInboxOutbox_def split: if_splits)
  have n: "find_inbox (TrimSpace service) (TrimSpace key) st = None" using none by (simp add: recorded_response_def)
  obtain response where x: "x = \<lparr>ix_response_payload = response, ix_replayed = False\<rparr>"
    and i: "consumer_inbox st' = consumer_inbox st @ [completed_row (TrimSpace service) (TrimSpace key) (FormatReliabilityTime clock) response]"
    using e by (auto simp: ExecuteInboxOutbox_fresh [OF inv n ne] Let_def split: prod.splits sum.splits)
  have "find_inbox (TrimSpace service) k st' = (if k = TrimSpace key then Some (completed_row (TrimSpace service) (TrimSpace key)
      (FormatReliabilityTime clock) response) else find_inbox (TrimSpace service) k st)" for k
    using n by (auto simp: find_inbox_def i sql_first_append completed_row_def inbox_candidate_def split: option.split)
  then show ?thesis
    by (auto simp: x recorded_response_def fun_eq_iff completed_row_def inbox_candidate_def)
qed

interpretation inbox: idempotent_consumer "deliver service" delivery_key "recorded_response service" inbox_inv for service
proof
  fix st :: "'s reliable_store" and d :: "('s, 'e) delivery"
  obtain clock key execute where d: "d = (clock, key, execute)" by (cases d)
  assume inv: "inbox_inv st"
  show "recorded_response service st (delivery_key d) = Some p \<Longrightarrow>
      deliver service d st = (Inr \<lparr>ix_response_payload = p, ix_replayed = True\<rparr>, st)" for p
    using recorded_nonempty [OF inv, of service "TrimSpace key"] ExecuteInboxOutbox_replay_found [OF inv, of service key]
    by (auto simp: d deliver_def delivery_key_def recorded_response_def)
  show "recorded_response service st (delivery_key d) = None \<Longrightarrow> deliver service d st = (Inr x, st') \<Longrightarrow>
      \<not> ix_replayed x \<and> recorded_response service st' = (recorded_response service st)(delivery_key d \<mapsto> ix_response_payload x)" for x st'
    using deliver_fresh_recorded [OF inv] by (simp add: d deliver_def delivery_key_def)
  show "deliver service d st = (Inl e, st') \<Longrightarrow> st' = st" for e st'
    by (auto simp: d deliver_def ExecuteInboxOutbox_def Let_def split: if_splits dest: transaction_InlD)
  show "inbox_inv (snd (deliver service d st))"
    using inbox_inv_execute [OF inv] by (simp add: d deliver_def)
qed

text \<open>The effect of one execution, whatever the handler does.\<close>

lemma ExecuteInboxOutbox_effect:
  assumes inv: "inbox_inv st"
  shows "case ExecuteInboxOutbox clock service key execute st of
      (Inl _, st') \<Rightarrow> st' = st
    | (Inr x, st') \<Rightarrow>
        if ix_replayed x
        then st' = st \<and> recorded_response service st (TrimSpace key) = Some (ix_response_payload x)
        else recorded_response service st (TrimSpace key) = None \<and>
          (\<exists>events. execute (tables st) = (Inr (ix_response_payload x, events), tables st') \<and>
             (\<forall>e\<in>set events. valid_event e) \<and>
             outbox_events st' = outbox_events st @
               map (new_outbox_row (TrimSpace service) (TrimSpace key) (FormatReliabilityTime clock)) events) \<and>
          consumer_inbox st' = consumer_inbox st @
            [completed_row (TrimSpace service) (TrimSpace key) (FormatReliabilityTime clock) (ix_response_payload x)] \<and>
          distinct (map ob_event_id (outbox_events st'))"
proof (cases "TrimSpace service = [] \<or> TrimSpace key = []")
  case True
  then show ?thesis by (auto simp: ExecuteInboxOutbox_def)
next
  case False
  then have ne: "TrimSpace service \<noteq> []" "TrimSpace key \<noteq> []" by auto
  show ?thesis
  proof (cases "find_inbox (TrimSpace service) (TrimSpace key) st")
    case None
    with inv show ?thesis
      by (auto simp: ExecuteInboxOutbox_fresh [OF inv None ne] Let_def recorded_response_def inbox_inv_def
          split: prod.split sum.split dest!: persist_events_Inr)
  next
    case (Some i)
    then show ?thesis by (simp add: ExecuteInboxOutbox_replay_found [OF inv Some ne] recorded_response_def)
  qed
qed

section \<open>Properties\<close>

text \<open>
  C1. Exactly-once effect: for any sequence of deliveries to a service, with redeliveries, failing
  handlers and handlers that differ from one attempt to the next, every operation key is executed at
  most once, never again once it has a recorded response, and every successful answer for a key is
  the response recorded at the end.
\<close>

theorem inbox_exactly_once:
  assumes "inbox_inv st" and "run_deliveries (deliver service) ds st = (rs, st')"
  shows "length (filter (\<lambda>(d, r). delivery_key d = k \<and> executed r) (zip ds rs)) \<le>
      (if recorded_response service st k = None then 1 else 0) \<and>
    (\<forall>(d, r) \<in> set (zip ds rs). \<forall>p. answer r = Some p \<longrightarrow> recorded_response service st' (delivery_key d) = Some p)"
  using inbox.at_most_once [OF assms] inbox.stable_answers [OF assms] by auto

text \<open>
  C2. Atomicity: an execution either fails and leaves every table as it was, or commits the business
  changes, the completed inbox row and one pending outbox event per event of the handler together, or
  is the replay of an earlier one and changes nothing.
\<close>

theorem ExecuteInboxOutbox_atomic:
  assumes inv: "inbox_inv st"
  shows "case ExecuteInboxOutbox clock service key execute st of
      (Inl _, st') \<Rightarrow> st' = st
    | (Inr x, st') \<Rightarrow>
        if ix_replayed x
        then st' = st \<and> recorded_response service st (TrimSpace key) = Some (ix_response_payload x)
        else recorded_response service st (TrimSpace key) = None \<and>
          (\<exists>events. execute (tables st) = (Inr (ix_response_payload x, events), tables st') \<and>
             (\<forall>e\<in>set events. valid_event e) \<and>
             outbox_events st' = outbox_events st @
               map (new_outbox_row (TrimSpace service) (TrimSpace key) (FormatReliabilityTime clock)) events) \<and>
          consumer_inbox st' = consumer_inbox st @
            [completed_row (TrimSpace service) (TrimSpace key) (FormatReliabilityTime clock) (ix_response_payload x)] \<and>
          distinct (map ob_event_id (outbox_events st'))"
  by (rule ExecuteInboxOutbox_effect [OF inv])

text \<open>A concrete store and handler for the witnesses: a counter, incremented by an operation with one event.\<close>

definition sample_store :: "int reliable_store" where
  "sample_store = \<lparr>tables = 0, consumer_inbox = [], outbox_events = []\<rparr>"

definition sample_execute :: "(int, unit) executor" where
  "sample_execute n = (Inr (''ok'', [\<lparr>pe_event_id = ''e1'', pe_topic = ''t'', pe_payload = ''p''\<rparr>]), n + 1)"

lemma sample_store_inv: "inbox_inv sample_store"
  by (simp add: inbox_inv_def sample_store_def)

theorem inbox_exactly_once_witness:
  "\<exists>rs st'. run_deliveries (deliver ''friend'') [(0, ''op'', sample_execute), (5, ''op'', sample_execute)] sample_store = (rs, st') \<and>
     length (filter (\<lambda>(d, r). delivery_key d = ''op'' \<and> executed r)
       (zip [(0, ''op'', sample_execute), (5, ''op'', sample_execute)] rs)) \<le> 1"
proof -
  obtain rs st' where r:
    "run_deliveries (deliver ''friend'') [(0, ''op'', sample_execute), (5, ''op'', sample_execute)] sample_store = (rs, st')"
    by fastforce
  have "recorded_response ''friend'' sample_store ''op'' = None" by (simp add: recorded_response_def find_inbox_def sample_store_def)
  with inbox_exactly_once [OF sample_store_inv r, of "''op''"] r show ?thesis by auto
qed

lemma sample_execution:
  "\<exists>x st'. ExecuteInboxOutbox 0 ''friend'' ''op'' sample_execute sample_store = (Inr x, st') \<and> \<not> ix_replayed x"
proof -
  have t: "TrimSpace ''friend'' = ''friend''" "TrimSpace ''op'' = ''op''" "TrimSpace ''e1'' = ''e1''" "TrimSpace ''t'' = ''t''"
    by code_simp+
  show ?thesis
    using ExecuteInboxOutbox_fresh [OF sample_store_inv, of "''friend''" "''op''" 0 sample_execute]
    by (simp add: t find_inbox_def Let_def sample_execute_def sample_store_def valid_event_def sql_create_def)
qed

theorem ExecuteInboxOutbox_atomic_witness:
  "tables (snd (ExecuteInboxOutbox 0 ''friend'' ''op'' sample_execute sample_store)) = 1"
proof -
  obtain x st' where e: "ExecuteInboxOutbox 0 ''friend'' ''op'' sample_execute sample_store = (Inr x, st')" "\<not> ix_replayed x"
    using sample_execution by blast
  then show ?thesis
    using ExecuteInboxOutbox_atomic [OF sample_store_inv, where clock = 0 and service = "''friend''" and key = "''op''" and execute = sample_execute]
    by (auto simp: sample_execute_def sample_store_def)
qed

end
