(* ===== verification/Kafka_Consumer.thy ===== *)
theory Kafka_Consumer
  imports Go_Time
begin

text \<open>
  \<^verbatim>\<open>shared/kafkaconsumer\<close>: the reliable consumer loop of every service. A message is processed, retried
  with exponential backoff while its processor reports a transient failure, written to the dead-letter
  topic when it fails for good, and acknowledged only then or on success. The processor, the DLQ
  publisher, the clock, the cancellation of the session's context and protobuf decoding are
  parameters; the first two act on a state of arbitrary type.
\<close>

record go_error =
  er_text :: string
  er_retry_after :: "duration option"

datatype consumer_outcome = OutcomeSuccess | OutcomePermanent | OutcomeTransient | OutcomeOther string

record consumer_result =
  cr_outcome :: consumer_outcome
  cr_err :: "go_error option"

definition plain_error :: "string \<Rightarrow> go_error" where
  "plain_error t = \<lparr>er_text = t, er_retry_after = None\<rparr>"

definition nonNilError :: "go_error option \<Rightarrow> go_error option" where
  "nonNilError err = (case err of None \<Rightarrow> Some (plain_error ''unspecified processing failure'') | Some e \<Rightarrow> Some e)"

definition Success :: consumer_result where
  "Success = \<lparr>cr_outcome = OutcomeSuccess, cr_err = None\<rparr>"

definition Permanent :: "go_error option \<Rightarrow> consumer_result" where
  "Permanent err = \<lparr>cr_outcome = OutcomePermanent, cr_err = nonNilError err\<rparr>"

definition Transient :: "go_error option \<Rightarrow> consumer_result" where
  "Transient err = \<lparr>cr_outcome = OutcomeTransient, cr_err = nonNilError err\<rparr>"

definition ResultForError :: "go_error option \<Rightarrow> consumer_result" where
  "ResultForError err = Transient err"

record kafka_message =
  km_topic :: string
  km_partition :: int
  km_offset :: int
  km_headers :: "(string \<times> bytes) list"
  km_value :: bytes

record consumer_config =
  kc_service :: string
  kc_dlq_topic :: string
  kc_max_retries :: int
  kc_initial_backoff :: duration
  kc_max_backoff :: duration

definition normalized :: "consumer_config \<Rightarrow> consumer_config" where
  "normalized c0 =
     (let c1 = (if TrimSpace (kc_service c0) = [] then c0\<lparr>kc_service := ''unknown''\<rparr> else c0);
          c2 = (if kc_max_retries c1 < 0 then c1\<lparr>kc_max_retries := 0\<rparr> else c1);
          c3 = (if kc_initial_backoff c2 \<le> 0 then c2\<lparr>kc_initial_backoff := 100 * millisecond\<rparr> else c2);
          c4 = (if kc_max_backoff c3 \<le> 0 then c3\<lparr>kc_max_backoff := 2 * second\<rparr> else c3)
      in if kc_initial_backoff c4 > kc_max_backoff c4 then c4\<lparr>kc_initial_backoff := kc_max_backoff c4\<rparr> else c4)"

section \<open>Operation keys and dead letters\<close>

fun event_id_header :: "(string \<times> bytes) list \<Rightarrow> string option" where
  "event_id_header [] = None"
| "event_id_header ((k, v) # hs) =
     (if k = ''event_id'' \<and> TrimSpace v \<noteq> [] then Some (''event/'' @ TrimSpace v) else event_id_header hs)"

definition OperationKey :: "kafka_message \<Rightarrow> string" where
  "OperationKey m =
     (case event_id_header (km_headers m) of
        Some k \<Rightarrow> k
      | None \<Rightarrow> km_topic m @ ''/'' @ itoa (km_partition m) @ ''/'' @ itoa (km_offset m))"

definition SummarizeError :: "go_error option \<Rightarrow> string" where
  "SummarizeError err =
     (case err of None \<Rightarrow> [] | Some e \<Rightarrow> take 512 (map (\<lambda>c. if c = CHR 0x0A then CHR '' '' else c) (er_text e)))"

definition outcome_name :: "consumer_outcome \<Rightarrow> string" where
  "outcome_name k = (case k of OutcomeSuccess \<Rightarrow> ''success'' | OutcomePermanent \<Rightarrow> ''permanent''
     | OutcomeTransient \<Rightarrow> ''transient'' | OutcomeOther s \<Rightarrow> s)"

definition DLQHeaders ::
  "string \<Rightarrow> kafka_message \<Rightarrow> string \<Rightarrow> consumer_result \<Rightarrow> instant \<Rightarrow> instant \<Rightarrow> nat \<Rightarrow> (string \<times> bytes) list" where
  "DLQHeaders service m envelopeType result firstFailure finalFailure retries =
     [(''schema_version'', ''1''), (''service'', service), (''operation_key'', OperationKey m),
      (''original_topic'', km_topic m), (''original_partition'', itoa (km_partition m)),
      (''original_offset'', itoa (km_offset m)), (''envelope_type'', envelopeType),
      (''error_class'', outcome_name (cr_outcome result)), (''sanitized_error_summary'', SummarizeError (cr_err result)),
      (''first_failure_time'', RFC3339Nano firstFailure), (''final_failure_time'', RFC3339Nano finalFailure),
      (''retry_count'', itoa (int retries))]"

section \<open>Processing with retries\<close>

text \<open>
  What the loop sees of its surroundings, by attempt number: the context's error when an attempt
  starts, before the dead letter is written and while waiting; the clock; the name of the envelope's
  type as far as the payload decodes.
\<close>

record 's consumer_env =
  ce_process :: "string \<Rightarrow> kafka_message \<Rightarrow> 's \<Rightarrow> consumer_result \<times> 's"
  ce_publish :: "(string \<Rightarrow> bytes \<Rightarrow> (string \<times> bytes) list \<Rightarrow> 's \<Rightarrow> go_error option \<times> 's) option"
  ce_cancelled :: "nat \<Rightarrow> go_error option"
  ce_cancelled_dlq :: "nat \<Rightarrow> go_error option"
  ce_cancelled_wait :: "nat \<Rightarrow> go_error option"
  ce_now :: "nat \<Rightarrow> instant"
  ce_envelope_type :: "bytes \<Rightarrow> string"

definition publishDeadLetter ::
  "'s consumer_env \<Rightarrow> consumer_config \<Rightarrow> kafka_message \<Rightarrow> consumer_result \<Rightarrow> instant \<Rightarrow> nat \<Rightarrow> 's \<Rightarrow> go_error option \<times> 's" where
  "publishDeadLetter env c m result firstFailure retries s =
     (case ce_publish env of
        None \<Rightarrow> (Some (plain_error ''Kafka DLQ publisher is not configured''), s)
      | Some publish \<Rightarrow>
          if TrimSpace (kc_dlq_topic c) = [] then (Some (plain_error ''Kafka DLQ publisher is not configured''), s)
          else (case publish (kc_dlq_topic c) (km_value m)
                       (DLQHeaders (kc_service c) m (ce_envelope_type env (km_value m)) result firstFailure
                          (ce_now env retries) retries) s of
                  (Some e, s') \<Rightarrow> (Some (e\<lparr>er_text := ''publish '' @ kc_service c @ '' DLQ: '' @ er_text e\<rparr>), s')
                | (None, s') \<Rightarrow> (None, s')))"

text \<open>The verb \<^verbatim>\<open>%q\<close> on printable text.\<close>

definition go_quoted :: "string \<Rightarrow> string" where
  "go_quoted t = [CHR 0x22] @ concat (map (\<lambda>c. if c = CHR 0x22 \<or> c = CHR 0x5C then [CHR 0x5C, c] else [c]) t) @ [CHR 0x22]"

text \<open>The result after the switch on the outcome; \<open>None\<close> is success.\<close>

definition failure_of :: "consumer_result \<Rightarrow> consumer_result option" where
  "failure_of r =
     (case cr_outcome r of
        OutcomeSuccess \<Rightarrow> None
      | OutcomePermanent \<Rightarrow> Some (r\<lparr>cr_err := nonNilError (cr_err r)\<rparr>)
      | OutcomeTransient \<Rightarrow> Some (r\<lparr>cr_err := nonNilError (cr_err r)\<rparr>)
      | OutcomeOther k \<Rightarrow> Some (Permanent (Some (plain_error (''processor returned unknown outcome '' @ go_quoted k)))))"

definition next_backoff :: "consumer_config \<Rightarrow> duration \<Rightarrow> duration" where
  "next_backoff c b = (let b2 = wrap64 (2 * b) in if b2 > kc_max_backoff c then kc_max_backoff c else b2)"

definition retry_delay :: "duration \<Rightarrow> consumer_result \<Rightarrow> duration" where
  "retry_delay b r =
     (case cr_err r of
        Some e \<Rightarrow> (case er_retry_after e of Some d \<Rightarrow> if d > b then d else b | None \<Rightarrow> b)
      | None \<Rightarrow> b)"

text \<open>The loop, with the list of the delays it waits.\<close>

function retry_loop ::
  "'s consumer_env \<Rightarrow> consumer_config \<Rightarrow> kafka_message \<Rightarrow> nat \<Rightarrow> duration \<Rightarrow> instant option \<Rightarrow> 's \<Rightarrow>
   (go_error option \<times> duration list) \<times> 's" where
  "retry_loop env c m attempt b firstFailure s =
     (case ce_cancelled env attempt of
        Some e \<Rightarrow> ((Some e, []), s)
      | None \<Rightarrow>
          (case ce_process env (OperationKey m) m s of
             (r, s1) \<Rightarrow>
               (case failure_of r of
                  None \<Rightarrow> ((None, []), s1)
                | Some r1 \<Rightarrow>
                    (let ff = (case firstFailure of None \<Rightarrow> ce_now env attempt | Some t \<Rightarrow> t) in
                     if cr_outcome r1 = OutcomePermanent \<or> int attempt \<ge> kc_max_retries c
                     then (case ce_cancelled_dlq env attempt of
                             Some e \<Rightarrow> ((Some e, []), s1)
                           | None \<Rightarrow> (case publishDeadLetter env c m r1 ff attempt s1 of (e, s2) \<Rightarrow> ((e, []), s2)))
                     else (case ce_cancelled_wait env attempt of
                             Some e \<Rightarrow> ((Some e, [retry_delay b r1]), s1)
                           | None \<Rightarrow>
                               (case retry_loop env c m (Suc attempt) (next_backoff c b) (Some ff) s1 of
                                  ((e, ds), s2) \<Rightarrow> ((e, retry_delay b r1 # ds), s2)))))))"
  by pat_completeness auto
termination
  by (relation "measure (\<lambda>(env, c, m, attempt, b, ff, s). nat (kc_max_retries c - int attempt))") auto

declare retry_loop.simps [simp del]

definition processWithRetry ::
  "'s consumer_env \<Rightarrow> consumer_config \<Rightarrow> kafka_message \<Rightarrow> 's \<Rightarrow> (go_error option \<times> duration list) \<times> 's" where
  "processWithRetry env c m s = retry_loop env c m 0 (kc_initial_backoff c) None s"

text \<open>
  \<^verbatim>\<open>ConsumeClaim\<close>: the messages of a claim in order, up to the first that is not settled; the value is the
  list of the marked messages and the error. The surroundings may differ from message to message.
\<close>

fun ConsumeClaim ::
  "consumer_config \<Rightarrow> ('s consumer_env \<times> kafka_message) list \<Rightarrow> 's \<Rightarrow> (kafka_message list \<times> go_error option) \<times> 's" where
  "ConsumeClaim c [] s = (([], None), s)"
| "ConsumeClaim c ((env, m) # ms) s =
     (case processWithRetry env c m s of
        ((Some e, _), s1) \<Rightarrow> (([], Some e), s1)
      | ((None, _), s1) \<Rightarrow> (case ConsumeClaim c ms s1 of ((marked, err), s2) \<Rightarrow> ((m # marked, err), s2)))"


section \<open>What the loop guarantees\<close>

text \<open>The state before attempt \<open>n\<close> and the processor's answer to it, as far as attempts are made.\<close>

fun state_at :: "'s consumer_env \<Rightarrow> kafka_message \<Rightarrow> 's \<Rightarrow> nat \<Rightarrow> 's" where
  "state_at env m s 0 = s"
| "state_at env m s (Suc n) = snd (ce_process env (OperationKey m) m (state_at env m s n))"

definition answer_at :: "'s consumer_env \<Rightarrow> kafka_message \<Rightarrow> 's \<Rightarrow> nat \<Rightarrow> consumer_result" where
  "answer_at env m s n = fst (ce_process env (OperationKey m) m (state_at env m s n))"

lemma state_at_Suc_shift: "state_at env m (state_at env m s 1) n = state_at env m s (Suc n)"
  by (induction n) simp_all

lemma answer_at_shift: "answer_at env m (state_at env m s 1) n = answer_at env m s (Suc n)"
  unfolding answer_at_def state_at_Suc_shift ..

fun backoff_at :: "consumer_config \<Rightarrow> duration \<Rightarrow> nat \<Rightarrow> duration" where
  "backoff_at c b 0 = b"
| "backoff_at c b (Suc n) = backoff_at c (next_backoff c b) n"

text \<open>
  A run that ends without an error: all answers but the last are transient failures, each followed by
  a wait of at least the current backoff; the last is a success, or the message has been written to
  the dead-letter topic.
\<close>

definition settled_after :: "'s consumer_env \<Rightarrow> consumer_config \<Rightarrow> kafka_message \<Rightarrow> nat \<Rightarrow> 's \<Rightarrow> 's \<Rightarrow> bool" where
  "settled_after env c m n s s' \<longleftrightarrow>
     (\<forall>i<n. cr_outcome (answer_at env m s i) = OutcomeTransient) \<and>
     (cr_outcome (answer_at env m s n) = OutcomeSuccess \<and> s' = state_at env m s (Suc n) \<or>
      cr_outcome (answer_at env m s n) \<noteq> OutcomeSuccess \<and>
      (\<exists>publish headers. ce_publish env = Some publish \<and>
         publish (kc_dlq_topic c) (km_value m) headers (state_at env m s (Suc n)) = (None, s')))"

lemma failure_of_cases:
  "failure_of r = None \<longleftrightarrow> cr_outcome r = OutcomeSuccess"
  "failure_of r = Some r1 \<Longrightarrow> cr_outcome r1 \<noteq> OutcomePermanent \<Longrightarrow> cr_outcome r = OutcomeTransient"
  by (auto simp: failure_of_def Permanent_def split: consumer_outcome.splits)

lemma publishDeadLetter_None:
  "publishDeadLetter env c m r ff n s = (None, s') \<Longrightarrow>
   \<exists>publish headers. ce_publish env = Some publish \<and> publish (kc_dlq_topic c) (km_value m) headers s = (None, s')"
  by (auto simp: publishDeadLetter_def split: option.splits if_splits prod.splits)

lemma retry_delay_ge: "b \<le> retry_delay b r"
  by (simp add: retry_delay_def split: option.split)

lemma settled_after_Suc:
  assumes "cr_outcome (answer_at env m s 0) = OutcomeTransient" "settled_after env c m n (state_at env m s 1) s'"
  shows "settled_after env c m (Suc n) s s'"
  using assms unfolding settled_after_def state_at_Suc_shift answer_at_shift by (auto simp: less_Suc_eq_0_disj)

lemma retry_loop_settles:
  "retry_loop env c m attempt b ff s = ((None, ds), s') \<Longrightarrow> int attempt \<le> max 0 (kc_max_retries c) \<Longrightarrow>
   \<exists>n. int (attempt + n) \<le> max 0 (kc_max_retries c) \<and> length ds = n \<and> (\<forall>i<n. backoff_at c b i \<le> ds ! i) \<and>
       settled_after env c m n s s'"
proof (induction env c m attempt b ff s arbitrary: ds s' rule: retry_loop.induct)
  case (1 env c m attempt b ff s)
  obtain r s1 where p: "ce_process env (OperationKey m) m s = (r, s1)" by fastforce
  have a: "answer_at env m s 0 = r" "state_at env m s 1 = s1" "state_at env m s (Suc 0) = s1" by (simp_all add: answer_at_def p)
  have nc: "ce_cancelled env attempt = None"
    using "1.prems"(1) by (subst (asm) retry_loop.simps) (auto split: option.splits)
  show ?case
  proof (cases "failure_of r")
    case None
    then have "ds = []" "s' = s1" using "1.prems"(1) nc p by (subst (asm) retry_loop.simps, simp)+
    with None a "1.prems"(2) show ?thesis
      by (intro exI [of _ 0]) (simp add: settled_after_def failure_of_cases(1))
  next
    case (Some r1)
    define ff' where "ff' = (case ff of None \<Rightarrow> ce_now env attempt | Some t \<Rightarrow> t)"
    have ns: "cr_outcome r \<noteq> OutcomeSuccess" using Some failure_of_cases(1) [of r] by auto
    show ?thesis
    proof (cases "cr_outcome r1 = OutcomePermanent \<or> int attempt \<ge> kc_max_retries c")
      case True
      then have "ds = []" "publishDeadLetter env c m r1 ff' attempt s1 = (None, s')"
        using "1.prems"(1) nc p Some
        by (subst (asm) retry_loop.simps, auto simp: ff'_def [symmetric] Let_def split: option.splits prod.splits)+
      with publishDeadLetter_None ns a "1.prems"(2) show ?thesis
        by (intro exI [of _ 0]) (auto simp: settled_after_def)
    next
      case False
      obtain ds1 where d: "ds = retry_delay b r1 # ds1"
        "retry_loop env c m (Suc attempt) (next_backoff c b) (Some ff') s1 = ((None, ds1), s')"
        and nw: "ce_cancelled_wait env attempt = None"
        using "1.prems"(1) nc p Some False
        by (subst (asm) retry_loop.simps) (auto simp: ff'_def [symmetric] Let_def split: option.splits prod.splits)
      have "\<exists>n. int (Suc attempt + n) \<le> max 0 (kc_max_retries c) \<and> length ds1 = n \<and>
          (\<forall>i<n. backoff_at c (next_backoff c b) i \<le> ds1 ! i) \<and> settled_after env c m n s1 s'"
        using False by (intro "1.IH" [OF nc p [symmetric] Some ff'_def False nw d(2)]) auto
      then obtain n where n: "int (Suc attempt + n) \<le> max 0 (kc_max_retries c)" "length ds1 = n"
          "\<forall>i<n. backoff_at c (next_backoff c b) i \<le> ds1 ! i" "settled_after env c m n s1 s'" by blast
      have "settled_after env c m (Suc n) s s'"
        using settled_after_Suc [of env m s c n s'] n(4) a failure_of_cases(2) [OF Some] False by simp
      moreover have "\<forall>i<Suc n. backoff_at c b i \<le> ds ! i"
        using n(3) retry_delay_ge [of b r1] by (auto simp: d(1) less_Suc_eq_0_disj)
      ultimately show ?thesis using n(1,2) d(1) by (intro exI [of _ "Suc n"]) simp
    qed
  qed
qed


text \<open>With a positive backoff that cannot overflow, the backoff before retry \<open>i\<close> is the capped doubling.\<close>

lemma next_backoff_min:
  assumes "0 < b" "b \<le> kc_max_backoff c" "kc_max_backoff c < 2 ^ 62"
  shows "next_backoff c b = min (kc_max_backoff c) (2 * b)"
proof -
  have "wrap64 (2 * b) = 2 * b" using assms by (intro wrap64_id) simp_all
  then show ?thesis by (auto simp: next_backoff_def Let_def min_def)
qed

lemma backoff_at_capped:
  "0 < b \<Longrightarrow> b \<le> kc_max_backoff c \<Longrightarrow> kc_max_backoff c < 2 ^ 62 \<Longrightarrow> backoff_at c b n = min (kc_max_backoff c) (b * 2 ^ n)"
proof (induction n arbitrary: b)
  case (Suc n)
  define M where "M = kc_max_backoff c"
  have "backoff_at c b (Suc n) = min M (min M (2 * b) * 2 ^ n)"
    using Suc by (simp add: next_backoff_min M_def)
  also have "\<dots> = min M (b * 2 ^ Suc n)"
  proof (cases "2 * b \<le> M")
    case False
    have "M \<le> M * 2 ^ n" using Suc.prems by (simp add: M_def)
    also have "\<dots> \<le> (2 * b) * 2 ^ n" using False by (intro mult_right_mono) simp_all
    also have "\<dots> = b * 2 ^ Suc n" by (simp add: mult.assoc mult.left_commute)
    finally show ?thesis using False \<open>M \<le> M * 2 ^ n\<close> by (simp add: min_def)
  qed (simp add: min_def mult.assoc mult.left_commute)
  finally show ?case by (simp add: M_def)
qed (simp add: min_def)

lemma normalized_bounds:
  "0 \<le> kc_max_retries (normalized c)" "0 < kc_initial_backoff (normalized c)"
  "kc_initial_backoff (normalized c) \<le> kc_max_backoff (normalized c)"
  by (auto simp: normalized_def Let_def)

lemma itoa_no_slash: "CHR ''/'' \<notin> set (itoa i)"
  using itoa_chars [of "CHR ''/''" i] by (auto simp: is_digit_def)

section \<open>The contract of a processor\<close>

text \<open>
  A service that hands its processor to the loop promises that each call of the processor, and each
  dead letter, relates the state before to the state after by a preorder (an invariant kept, a log
  that grows, outcomes that stay). The loop and the claim then keep the promise, however they end.
\<close>

locale consumer_contract =
  fixes R :: "'s \<Rightarrow> 's \<Rightarrow> bool" and env_ok :: "'s consumer_env \<Rightarrow> bool"
  assumes R_refl: "R s s"
    and R_trans: "R s s1 \<Longrightarrow> R s1 s2 \<Longrightarrow> R s s2"
    and R_process: "env_ok env \<Longrightarrow> R s (snd (ce_process env (OperationKey m) m s))"
    and R_publish: "env_ok env \<Longrightarrow> ce_publish env = Some publish \<Longrightarrow> R s (snd (publish topic value headers s))"
begin

lemma publishDeadLetter_keeps: "env_ok env \<Longrightarrow> R s (snd (publishDeadLetter env c m r ff n s))"
  using R_publish [of env] by (auto simp: publishDeadLetter_def R_refl split: option.split prod.split)
     (metis snd_conv)+

lemma retry_loop_keeps: "env_ok env \<Longrightarrow> R s (snd (retry_loop env c m attempt b ff s))"
proof (induction env c m attempt b ff s rule: retry_loop.induct)
  case (1 env c m attempt b ff s)
  obtain r s1 where p: "ce_process env (OperationKey m) m s = (r, s1)" by fastforce
  have s1: "R s s1" using R_process [OF "1.prems", of s m] p by simp
  define ff' where "ff' = (case ff of None \<Rightarrow> ce_now env attempt | Some t \<Rightarrow> t)"
  have dl: "R s s2" if "publishDeadLetter env c m r1 ff' attempt s1 = (e, s2)" for r1 e s2
    using R_trans [OF s1 publishDeadLetter_keeps [OF "1.prems", of s1 c m r1 ff' attempt]] that by simp
  have "R s (snd (retry_loop env c m (Suc attempt) (next_backoff c b) (Some ff') s1))"
    if "ce_cancelled env attempt = None" "failure_of r = Some r1"
      "\<not> (cr_outcome r1 = OutcomePermanent \<or> kc_max_retries c \<le> int attempt)" "ce_cancelled_wait env attempt = None" for r1
    using R_trans [OF s1 "1.IH" [OF that(1) p [symmetric] that(2) ff'_def that(3,4) "1.prems"]] .
  with dl s1 p show ?case
    by (subst retry_loop.simps) (auto simp: R_refl ff'_def [symmetric] Let_def split: option.split prod.split)
qed

lemma processWithRetry_keeps: "env_ok env \<Longrightarrow> R s (snd (processWithRetry env c m s))"
  by (simp add: processWithRetry_def retry_loop_keeps)

lemma ConsumeClaim_keeps: "(\<forall>(env, m) \<in> set ms. env_ok env) \<Longrightarrow> R s (snd (ConsumeClaim c ms s))"
proof (induction ms arbitrary: s)
  case (Cons em ms)
  obtain env m where em: "em = (env, m)" by fastforce
  obtain e ds s1 where p: "processWithRetry env c m s = ((e, ds), s1)" by (metis surj_pair)
  have s1: "R s s1" using processWithRetry_keeps [of env s c m] Cons.prems em p by simp
  have "R s1 (snd (ConsumeClaim c ms s1))" using Cons by simp
  then have "R s (snd (ConsumeClaim c ms s1))" by (rule R_trans [OF s1])
  with s1 p em show ?case by (auto split: option.split prod.split)
qed (simp add: R_refl)

lemma state_at_keeps: "env_ok env \<Longrightarrow> R s (state_at env m s n)"
  by (induction n) (auto intro: R_refl R_trans R_process)

end

section \<open>Properties\<close>

text \<open>
  C6. No message is dropped: when \<^verbatim>\<open>processWithRetry\<close> returns without an error, which is when its message
  is acknowledged, the processor was called at most \<^verbatim>\<open>MaxRetries + 1\<close> times, every call but the last
  reported a transient failure and was followed by a wait of at least the exponential backoff capped at
  the maximum, and the last call succeeded or the unchanged payload has been accepted by the
  dead-letter topic.
\<close>

theorem processWithRetry_settles:
  assumes "processWithRetry env (normalized c0) m s = ((None, ds), s')"
    and "c = normalized c0" and "kc_max_backoff c < 2 ^ 62"
  shows "\<exists>n. int n \<le> kc_max_retries c \<and> length ds = n \<and>
    (\<forall>i<n. min (kc_max_backoff c) (kc_initial_backoff c * 2 ^ i) \<le> ds ! i) \<and>
    settled_after env c m n s s'"
proof -
  note nb = normalized_bounds [of c0, folded assms(2)]
  obtain n where "int (0 + n) \<le> max 0 (kc_max_retries c)" "length ds = n"
      "\<forall>i<n. backoff_at c (kc_initial_backoff c) i \<le> ds ! i" "settled_after env c m n s s'"
    using retry_loop_settles [of env c m 0 "kc_initial_backoff c" None s ds s'] assms(1,2)
    by (auto simp: processWithRetry_def)
  then show ?thesis using nb assms(3) by (intro exI [of _ n]) (simp add: backoff_at_capped)
qed

definition flaky_env :: "nat consumer_env" where
  "flaky_env = \<lparr>ce_process = (\<lambda>_ _ n. (if n < 2 then Transient None else Success, Suc n)), ce_publish = None,
     ce_cancelled = (\<lambda>_. None), ce_cancelled_dlq = (\<lambda>_. None), ce_cancelled_wait = (\<lambda>_. None),
     ce_now = (\<lambda>n. int n), ce_envelope_type = (\<lambda>_. ''UNKNOWN'')\<rparr>"

definition sample_consumer :: consumer_config where
  "sample_consumer = \<lparr>kc_service = ''friend'', kc_dlq_topic = ''dlq'', kc_max_retries = 3, kc_initial_backoff = 0, kc_max_backoff = 0\<rparr>"

definition sample_message :: kafka_message where
  "sample_message = \<lparr>km_topic = ''friend-service'', km_partition = 0, km_offset = 12, km_headers = [], km_value = ''x''\<rparr>"

theorem processWithRetry_settles_witness:
  "\<exists>ds n. processWithRetry flaky_env (normalized sample_consumer) sample_message 0 = ((None, ds), 3) \<and>
     int n \<le> 3 \<and> settled_after flaky_env (normalized sample_consumer) sample_message n 0 3"
proof -
  have r: "processWithRetry flaky_env (normalized sample_consumer) sample_message 0 =
      ((None, [100 * millisecond, 200 * millisecond]), 3)" by code_simp
  have k: "kc_max_retries (normalized sample_consumer) = 3" "kc_max_backoff (normalized sample_consumer) < 2 ^ 62" by code_simp+
  from processWithRetry_settles [OF r refl k(2)] r show ?thesis unfolding k(1) by blast
qed

text \<open>
  Ordered acknowledgement: \<^verbatim>\<open>ConsumeClaim\<close> marks a prefix of the claim's messages, stops at the first
  message that is not settled, and returns without an error only when it has marked them all.
\<close>

theorem ConsumeClaim_marks_prefix:
  "case ConsumeClaim c ms s of ((marked, err), s') \<Rightarrow>
     (\<exists>rest. map snd ms = marked @ rest \<and> (err = None \<longleftrightarrow> rest = []))"
proof (induction c ms s rule: ConsumeClaim.induct)
  case (2 c env m ms s)
  show ?case
  proof (cases "processWithRetry env c m s")
    case (Pair r s1)
    obtain e ds where "r = (e, ds)" by (cases r)
    with Pair 2 show ?thesis by (cases e) (fastforce split: prod.splits)+
  qed
qed simp

text \<open>
  Operation keys identify messages: two messages without an event identifier have the same
  operation key exactly when they are the same record of the same partition, because Kafka topic
  names contain no slash.
\<close>

theorem OperationKey_injective:
  assumes "event_id_header (km_headers m) = None" "event_id_header (km_headers n) = None"
    and "CHR ''/'' \<notin> set (km_topic m)" "CHR ''/'' \<notin> set (km_topic n)"
  shows "OperationKey m = OperationKey n \<longleftrightarrow>
    km_topic m = km_topic n \<and> km_partition m = km_partition n \<and> km_offset m = km_offset n"
  using assms append_sep_inject [OF assms(3,4)] append_sep_inject [OF itoa_no_slash itoa_no_slash]
  by (simp add: OperationKey_def)

theorem OperationKey_injective_witness:
  "OperationKey sample_message \<noteq> OperationKey (sample_message\<lparr>km_offset := 121\<rparr>)"
  using OperationKey_injective [of sample_message "sample_message\<lparr>km_offset := 121\<rparr>"]
  by (simp add: sample_message_def)

end
