(* ===== verification/Oneof_Router.thy ===== *)
theory Oneof_Router
  imports Prelude
begin

text \<open>
  \<^verbatim>\<open>shared/dispatch/oneof.go\<close>: a map from payload types to handlers, which the modules of a service fill
  and its message handler consults. Registering a type twice panics, which is the value \<open>None\<close>;
  dispatching a nil payload or an unregistered type is an error. The type of a payload is the name of
  its constructor. A handler gets the request's context and the payload and acts on a state.
\<close>

datatype 'e dispatch_error = ErrNilPayload | ErrUnregisteredPayload string | HandlerError 'e

type_synonym ('c, 'p, 's, 'e, 'r) oneof_handler = "'c \<Rightarrow> 'p \<Rightarrow> 's \<Rightarrow> ('e + 'r) \<times> 's"

definition Register :: "string \<Rightarrow> 'h \<Rightarrow> (string \<rightharpoonup> 'h) \<Rightarrow> (string \<rightharpoonup> 'h) option" where
  "Register payloadType handler router =
     (if router payloadType \<noteq> None then None else Some (router(payloadType \<mapsto> handler)))"

fun register_module :: "(string \<times> 'h) list \<Rightarrow> (string \<rightharpoonup> 'h) \<Rightarrow> (string \<rightharpoonup> 'h) option" where
  "register_module [] router = Some router"
| "register_module ((t, h) # ms) router =
     (case Register t h router of None \<Rightarrow> None | Some router1 \<Rightarrow> register_module ms router1)"

definition Dispatch ::
  "('p \<Rightarrow> string) \<Rightarrow> (string \<rightharpoonup> ('c, 'p, 's, 'e, 'r) oneof_handler) \<Rightarrow> 'c \<Rightarrow> 'p option \<Rightarrow> 's \<Rightarrow>
   ('e dispatch_error + 'r) \<times> 's" where
  "Dispatch payload_type router context payload s =
     (case payload of
        None \<Rightarrow> (Inl ErrNilPayload, s)
      | Some p \<Rightarrow>
          (case router (payload_type p) of
             None \<Rightarrow> (Inl (ErrUnregisteredPayload (payload_type p)), s)
           | Some handler \<Rightarrow>
               (case handler context p s of (Inl e, s1) \<Rightarrow> (Inl (HandlerError e), s1) | (Inr r, s1) \<Rightarrow> (Inr r, s1))))"

lemma register_module_map_of:
  "distinct (map fst ms) \<Longrightarrow> fst ` set ms \<inter> dom router = {} \<Longrightarrow> register_module ms router = Some (router ++ map_of ms)"
proof (induction ms arbitrary: router)
  case (Cons m ms)
  obtain t h where m: "m = (t, h)" by fastforce
  have r: "router t = None" using Cons.prems m by auto
  have "register_module ms (router(t \<mapsto> h)) = Some (router(t \<mapsto> h) ++ map_of ms)"
  proof (rule Cons.IH)
    show "fst ` set ms \<inter> dom (router(t \<mapsto> h)) = {}" using Cons.prems m by (auto simp: disjoint_iff)
  qed (use Cons.prems in simp)
  moreover have "router(t \<mapsto> h) ++ map_of ms = router ++ map_of (m # ms)"
  proof
    fix x
    have "map_of ms t = None" using Cons.prems(1) m by (simp add: map_of_eq_None_iff)
    then show "(router(t \<mapsto> h) ++ map_of ms) x = (router ++ map_of (m # ms)) x"
      by (cases "x = t") (simp_all add: m map_add_def split: option.split)
  qed
  moreover have "register_module (m # ms) router = register_module ms (router(t \<mapsto> h))"
    using m r by (simp add: Register_def)
  ultimately show ?case by (simp only:)
qed simp

text \<open>
  The contract of a service's modules: no payload type is registered twice and every payload has a
  handler, which on that payload is the service's \<open>handle\<close>.
\<close>

locale oneof_modules =
  fixes modules :: "(string \<times> ('c, 'p, 's, 'e, 'r) oneof_handler) list"
    and payload_type :: "'p \<Rightarrow> string"
    and handle :: "'c \<Rightarrow> 'p \<Rightarrow> 's \<Rightarrow> ('e + 'r) \<times> 's"
  assumes distinct_types: "distinct (map fst modules)"
    and handler: "\<exists>h. map_of modules (payload_type p) = Some h \<and> h c p s = handle c p s"
begin

lemma router_built: "register_module modules Map.empty = Some (map_of modules)"
  using register_module_map_of [OF distinct_types, of Map.empty] by simp

lemma dispatched:
  "Dispatch payload_type (map_of modules) c payload s =
    (case payload of
       None \<Rightarrow> (Inl ErrNilPayload, s)
     | Some p \<Rightarrow> (case handle c p s of (Inl e, s1) \<Rightarrow> (Inl (HandlerError e), s1) | (Inr r, s1) \<Rightarrow> (Inr r, s1)))"
proof (cases payload)
  case (Some p)
  obtain h where "map_of modules (payload_type p) = Some h" "h c p s = handle c p s" using handler by blast
  with Some show ?thesis by (simp add: Dispatch_def)
qed (simp add: Dispatch_def)

end

end
