(* ===== verification/Friend_Handler.thy ===== *)
theory Friend_Handler
  imports Requests Inbox_Outbox Kafka_Consumer Oneof_Router
begin

text \<open>
  \<^verbatim>\<open>services/friendService\<close>: the handlers of friend requests, the oneof router of \<^verbatim>\<open>shared/dispatch\<close>, the
  inbox-guarded \<^verbatim>\<open>HandleMessage\<close> and the consumer's \<^verbatim>\<open>process\<close>. A protobuf message is a record of its
  fields, a oneof is a datatype; the protobuf encoding is a parameter. A handler maps the clock
  reading, the request and the database of the transaction to a response or an error and the new
  database. Contact lists are returned as the data layer's contact records, whose fields are those of
  the protobuf messages.
\<close>

section \<open>Messages\<close>

datatype request_decision = REQUEST_DECISION_UNSPECIFIED | REQUEST_ACCEPT | REQUEST_REJECT | REQUEST_CANCEL

datatype friend_result =
    FRIEND_OK | RECORD_NOT_EXIST | ALREADY_FRIEND | INVALID_ARGUMENT | ALREADY_EXIST | REQUEST_PENDING
  | REQUEST_EXPIRED | FORBIDDEN | INVALID_STATE | SERVICE_ERROR

text \<open>The payloads of \<^verbatim>\<open>friend.RequestMessage\<close>, with the fields in the order of the protobuf file.\<close>

datatype friend_payload =
    AddDirectFriend int int string
  | QueryFriendList int
  | RemoveDirectFriend int int
  | UpdateFriendAlias int int string
  | UpdateFriendNotify int int bool
  | CreateGroup int int string
  | QueryGroup int int bool
  | AddGroupMember int int string
  | UpdateGroupAvatar int int string
  | QueryGroupMembers int int
  | RemoveGroupMember int int int
  | QueryJoinedGroups int
  | QueryFriendRequests int bool
  | ResolveFriendRequest int int request_decision
  | QueryGroupJoinRequests int int
  | ResolveGroupJoinRequest int int request_decision
  | InviteGroupMember int int int string
  | QueryGroupInvitations int bool
  | ResolveGroupInvitation int int request_decision
  | KickGroupMember int int int
  | UpdateGroupMemberRole int int int string
  | UpdateGroupName int int string
  | TransferGroupOwner int int int

record friend_request =
  fq_from_kafka_topic :: string
  fq_target_user_id :: int
  fq_payload :: "friend_payload option"

record relationship_info =
  ri_request_id :: int
  ri_request_type :: string
  ri_requester_user_id :: int
  ri_requester_name :: string
  ri_requester_avatar :: string
  ri_target_user_id :: int
  ri_target_name :: string
  ri_target_avatar :: string
  ri_group_id :: int
  ri_group_name :: string
  ri_group_avatar :: string
  ri_message :: string
  ri_status :: string
  ri_created_at :: string
  ri_expires_at :: string
  ri_resolved_at :: string
  ri_resolved_by :: int

record group_operation_rsp =
  go_operation :: string
  go_group_id :: int
  go_user_id :: int
  go_update_time :: string
  go_role :: string
  go_group_name :: string
  go_previous_owner_user_id :: int

record group_info_rsp =
  gi_group_id :: int
  gi_group_name :: string
  gi_avatar :: string
  gi_owner_user_id :: int
  gi_update_time :: string
  gi_client_need_save :: bool

datatype friend_rsp_payload =
    FriendListRsp "friend_contact list"
  | FriendOperationRsp string int int string
  | GroupInfoRsp group_info_rsp
  | GroupOperationRsp group_operation_rsp
  | GroupMemberListRsp int "group_member_contact list"
  | JoinedGroupListRsp "joined_group_contact list"
  | RelationshipRequestListRsp "relationship_info list"
  | RelationshipOperationRsp string "relationship_info option"

record friend_response =
  fp_result :: friend_result
  fp_target_user_id :: int
  fp_payload :: "friend_rsp_payload option"

type_synonym handler_result = "(db_error + friend_response) \<times> database"

definition respond :: "friend_request \<Rightarrow> friend_result \<Rightarrow> friend_rsp_payload option \<Rightarrow> friend_response" where
  "respond req result payload = \<lparr>fp_result = result, fp_target_user_id = fq_target_user_id req, fp_payload = payload\<rparr>"

section \<open>Helpers\<close>

definition decisionStatus :: "request_decision \<Rightarrow> string option" where
  "decisionStatus d =
     (case d of
        REQUEST_ACCEPT \<Rightarrow> Some RequestStatusAccepted
      | REQUEST_REJECT \<Rightarrow> Some RequestStatusRejected
      | REQUEST_CANCEL \<Rightarrow> Some RequestStatusCancelled
      | REQUEST_DECISION_UNSPECIFIED \<Rightarrow> None)"

definition validVerificationMessage :: "string \<Rightarrow> bool" where
  "validVerificationMessage m \<longleftrightarrow> ValidString m \<and> RuneCount m \<le> 255"

definition relationshipResult :: "db_error \<Rightarrow> friend_result" where
  "relationshipResult err =
     (case err of
        ErrRelationshipNotFound \<Rightarrow> RECORD_NOT_EXIST
      | ErrRelationshipForbidden \<Rightarrow> FORBIDDEN
      | ErrRelationshipExpired \<Rightarrow> REQUEST_EXPIRED
      | ErrRelationshipInvalidState \<Rightarrow> INVALID_STATE
      | ErrAlreadyRelated \<Rightarrow> ALREADY_EXIST
      | _ \<Rightarrow> SERVICE_ERROR)"

definition relationshipInfo :: "request_view \<Rightarrow> relationship_info" where
  "relationshipInfo v =
     (let r = rv_request v in
      \<lparr>ri_request_id = rq_id r, ri_request_type = rq_type r,
       ri_requester_user_id = rq_requester_user_id r, ri_requester_name = rv_requester_name v,
       ri_requester_avatar = rv_requester_avatar v,
       ri_target_user_id = rq_target_user_id r, ri_target_name = rv_target_name v, ri_target_avatar = rv_target_avatar v,
       ri_group_id = rq_group_id r, ri_group_name = rv_group_name v, ri_group_avatar = rv_group_avatar v,
       ri_message = rq_message r, ri_status = rq_status r, ri_created_at = rq_created_at r, ri_expires_at = rq_expires_at r,
       ri_resolved_at = rq_resolved_at r, ri_resolved_by = rq_resolved_by r\<rparr>)"

definition relationshipOperation :: "friend_request \<Rightarrow> string \<Rightarrow> friend_result \<Rightarrow> request_view option \<Rightarrow> friend_response" where
  "relationshipOperation req operation result request =
     respond req result (Some (RelationshipOperationRsp operation (map_option relationshipInfo request)))"

definition relationshipError :: "friend_request \<Rightarrow> string \<Rightarrow> friend_result \<Rightarrow> request_view option \<Rightarrow> friend_response" where
  "relationshipError req operation result request = relationshipOperation req operation result request"

definition relationshipDBError :: "friend_request \<Rightarrow> string \<Rightarrow> db_error \<Rightarrow> db_error + friend_response" where
  "relationshipDBError req operation err =
     (if relationshipResult err = SERVICE_ERROR then Inl err
      else Inr (relationshipError req operation (relationshipResult err) None))"

definition relationshipList :: "friend_request \<Rightarrow> friend_result \<Rightarrow> request_view list \<Rightarrow> friend_response" where
  "relationshipList req result requests =
     respond req result (Some (RelationshipRequestListRsp (map relationshipInfo requests)))"

definition groupManagementOperation ::
  "friend_request \<Rightarrow> string \<Rightarrow> friend_result \<Rightarrow> int \<Rightarrow> int \<Rightarrow> string \<Rightarrow> string \<Rightarrow> string \<Rightarrow> int \<Rightarrow> friend_response" where
  "groupManagementOperation req operation result groupID userID role updateTime groupName previousOwnerID =
     respond req result (Some (GroupOperationRsp
       \<lparr>go_operation = operation, go_group_id = groupID, go_user_id = userID, go_update_time = updateTime,
        go_role = role, go_group_name = groupName, go_previous_owner_user_id = previousOwnerID\<rparr>))"

definition groupOperation ::
  "friend_request \<Rightarrow> string \<Rightarrow> friend_result \<Rightarrow> int \<Rightarrow> int \<Rightarrow> string \<Rightarrow> string \<Rightarrow> friend_response" where
  "groupOperation req operation result groupID userID role updateTime =
     groupManagementOperation req operation result groupID userID role updateTime [] 0"

definition friendOperation :: "friend_request \<Rightarrow> string \<Rightarrow> friend_result \<Rightarrow> int \<Rightarrow> int \<Rightarrow> string \<Rightarrow> friend_response" where
  "friendOperation req operation result userID friendID updateTime =
     respond req result (Some (FriendOperationRsp operation userID friendID updateTime))"

section \<open>Contacts\<close>

definition handleQueryFriendList :: "friend_request \<Rightarrow> int \<Rightarrow> database \<Rightarrow> handler_result" where
  "handleQueryFriendList req userID db =
     (if userID \<le> 0 then (Inr (respond req INVALID_ARGUMENT None), db)
      else (Inr (respond req FRIEND_OK (Some (FriendListRsp (GetFriendListWithDB userID db)))), db))"

definition handleRemoveDirectFriend :: "instant \<Rightarrow> friend_request \<Rightarrow> int \<Rightarrow> int \<Rightarrow> database \<Rightarrow> handler_result" where
  "handleRemoveDirectFriend clock req userID friendID db =
     (if userID \<le> 0 \<or> friendID \<le> 0 \<or> userID = friendID
      then (Inr (friendOperation req ''remove_direct_friend'' INVALID_ARGUMENT userID friendID []), db)
      else (case RemoveDirectFriendPairWithDB clock userID friendID db of
              ((found, updateTime), db1) \<Rightarrow>
                (Inr (friendOperation req ''remove_direct_friend'' (if found then FRIEND_OK else RECORD_NOT_EXIST)
                        userID friendID updateTime), db1)))"

definition handleUpdateFriendAlias :: "instant \<Rightarrow> friend_request \<Rightarrow> int \<Rightarrow> int \<Rightarrow> string \<Rightarrow> database \<Rightarrow> handler_result" where
  "handleUpdateFriendAlias clock req userID friendID alias db =
     (if userID \<le> 0 \<or> friendID \<le> 0
      then (Inr (friendOperation req ''update_friend_alias'' INVALID_ARGUMENT userID friendID []), db)
      else (case UpdateFriendAliasWithDB clock userID friendID alias db of
              ((found, updateTime), db1) \<Rightarrow>
                (Inr (friendOperation req ''update_friend_alias'' (if found then FRIEND_OK else RECORD_NOT_EXIST)
                        userID friendID updateTime), db1)))"

definition handleUpdateFriendNotify :: "instant \<Rightarrow> friend_request \<Rightarrow> int \<Rightarrow> int \<Rightarrow> bool \<Rightarrow> database \<Rightarrow> handler_result" where
  "handleUpdateFriendNotify clock req userID friendID isNotify db =
     (if userID \<le> 0 \<or> friendID \<le> 0
      then (Inr (friendOperation req ''update_friend_notify'' INVALID_ARGUMENT userID friendID []), db)
      else (case UpdateFriendNotifyWithDB clock userID friendID isNotify db of
              ((found, updateTime), db1) \<Rightarrow>
                (Inr (friendOperation req ''update_friend_notify'' (if found then FRIEND_OK else RECORD_NOT_EXIST)
                        userID friendID updateTime), db1)))"

section \<open>Groups\<close>

definition handleCreateGroup :: "instant \<Rightarrow> friend_request \<Rightarrow> int \<Rightarrow> int \<Rightarrow> string \<Rightarrow> database \<Rightarrow> handler_result" where
  "handleCreateGroup clock req ownerUserID groupID groupName db =
     (if ownerUserID \<le> 0 \<or> groupID \<le> 0 \<or> groupName = []
      then (Inr (groupOperation req ''create_group'' INVALID_ARGUMENT groupID ownerUserID [] []), db)
      else if GetUserByID ownerUserID db = None
      then (Inr (groupOperation req ''create_group'' RECORD_NOT_EXIST groupID ownerUserID [] []), db)
      else (case CreateGroupWithOwnerWithDB clock ownerUserID groupID groupName db of
              (Inl e, db1) \<Rightarrow> (Inl e, db1)
            | (Inr (alreadyExists, updateTime), db1) \<Rightarrow>
                (Inr (groupOperation req ''create_group'' (if alreadyExists then ALREADY_EXIST else FRIEND_OK)
                        groupID ownerUserID [] updateTime), db1)))"

definition handleQueryGroup :: "friend_request \<Rightarrow> int \<Rightarrow> int \<Rightarrow> bool \<Rightarrow> database \<Rightarrow> handler_result" where
  "handleQueryGroup req requestUserID groupID clientNeedSave db =
     (if requestUserID \<le> 0 \<or> groupID \<le> 0 then (Inr (respond req INVALID_ARGUMENT None), db)
      else (case GetGroupByIDWithDB groupID db of
              None \<Rightarrow> (Inr (respond req RECORD_NOT_EXIST None), db)
            | Some grp \<Rightarrow>
                (Inr (respond req FRIEND_OK (Some (GroupInfoRsp
                   \<lparr>gi_group_id = gr_group_id grp, gi_group_name = gr_name grp, gi_avatar = gr_avatar grp,
                    gi_owner_user_id = gr_owner_user_id grp, gi_update_time = gr_update_time grp,
                    gi_client_need_save = clientNeedSave\<rparr>))), db)))"

definition handleUpdateGroupAvatar :: "instant \<Rightarrow> friend_request \<Rightarrow> int \<Rightarrow> int \<Rightarrow> string \<Rightarrow> database \<Rightarrow> handler_result" where
  "handleUpdateGroupAvatar clock req requestUserID groupID avatarHash db =
     (if requestUserID \<le> 0 \<or> groupID \<le> 0 \<or> avatarHash = []
      then (Inr (groupOperation req ''update_group_avatar'' INVALID_ARGUMENT groupID requestUserID [] []), db)
      else if \<not> snd (RequireGroupManagerWithDB groupID requestUserID db)
      then (Inr (groupOperation req ''update_group_avatar'' RECORD_NOT_EXIST groupID requestUserID [] []), db)
      else (case UpdateGroupAvatarWithDB clock groupID avatarHash db of
              ((updated, updateTime), db1) \<Rightarrow>
                (Inr (groupOperation req ''update_group_avatar'' (if updated then FRIEND_OK else RECORD_NOT_EXIST)
                        groupID requestUserID [] updateTime), db1)))"

definition handleQueryGroupMembers :: "friend_request \<Rightarrow> int \<Rightarrow> int \<Rightarrow> database \<Rightarrow> handler_result" where
  "handleQueryGroupMembers req requestUserID groupID db =
     (if requestUserID \<le> 0 \<or> groupID \<le> 0 then (Inr (respond req INVALID_ARGUMENT None), db)
      else if \<not> IsActiveGroupMemberWithDB groupID requestUserID db then (Inr (respond req RECORD_NOT_EXIST None), db)
      else (Inr (respond req FRIEND_OK (Some (GroupMemberListRsp groupID (GetGroupMembersWithDB groupID db)))), db))"

definition handleQueryJoinedGroups :: "friend_request \<Rightarrow> int \<Rightarrow> database \<Rightarrow> handler_result" where
  "handleQueryJoinedGroups req userID db =
     (if userID \<le> 0 then (Inr (respond req INVALID_ARGUMENT None), db)
      else (Inr (respond req FRIEND_OK (Some (JoinedGroupListRsp (GetJoinedGroupsWithDB userID db)))), db))"

definition handleRemoveGroupMember :: "instant \<Rightarrow> friend_request \<Rightarrow> int \<Rightarrow> int \<Rightarrow> int \<Rightarrow> database \<Rightarrow> handler_result" where
  "handleRemoveGroupMember clock req requestUserID groupID userID db =
     (if requestUserID \<le> 0 \<or> groupID \<le> 0 \<or> userID \<le> 0
      then (Inr (groupOperation req ''remove_group_member'' INVALID_ARGUMENT groupID userID [] []), db)
      else if requestUserID \<noteq> userID
      then (Inr (groupOperation req ''remove_group_member'' INVALID_ARGUMENT groupID userID [] []), db)
      else (case RemoveUserFromGroupWithDB clock groupID userID db of
              (Inl e, db1) \<Rightarrow> (Inl e, db1)
            | (Inr (groupExists, removed, updateTime), db1) \<Rightarrow>
                (Inr (groupOperation req ''remove_group_member''
                        (if \<not> groupExists \<or> \<not> removed then RECORD_NOT_EXIST else FRIEND_OK)
                        groupID userID [] updateTime), db1)))"

definition handleKickGroupMember :: "instant \<Rightarrow> friend_request \<Rightarrow> int \<Rightarrow> int \<Rightarrow> int \<Rightarrow> database \<Rightarrow> handler_result" where
  "handleKickGroupMember clock req requestUserID groupID userID db =
     (if requestUserID \<le> 0 \<or> groupID \<le> 0 \<or> userID \<le> 0 \<or> requestUserID = userID
      then (Inr (groupOperation req ''kick_group_member'' INVALID_ARGUMENT groupID userID [] []), db)
      else (case KickGroupMemberByWithDB clock requestUserID groupID userID db of
              (Inl e, db1) \<Rightarrow>
                (if relationshipResult e \<noteq> SERVICE_ERROR
                 then Inr (groupOperation req ''kick_group_member'' (relationshipResult e) groupID userID [] []) else Inl e, db1)
            | (Inr updatedAt, db1) \<Rightarrow> (Inr (groupOperation req ''kick_group_member'' FRIEND_OK groupID userID [] updatedAt), db1)))"

definition handleUpdateGroupMemberRole ::
  "instant \<Rightarrow> friend_request \<Rightarrow> int \<Rightarrow> int \<Rightarrow> int \<Rightarrow> string \<Rightarrow> database \<Rightarrow> handler_result" where
  "handleUpdateGroupMemberRole clock req requestUserID groupID userID role db =
     (if requestUserID \<le> 0 \<or> groupID \<le> 0 \<or> userID \<le> 0
      then (Inr (groupOperation req ''update_group_member_role'' INVALID_ARGUMENT groupID userID role []), db)
      else (case UpdateGroupMemberRoleByWithDB clock requestUserID groupID userID role db of
              (Inl e, db1) \<Rightarrow>
                (if relationshipResult e \<noteq> SERVICE_ERROR
                 then Inr (groupOperation req ''update_group_member_role'' (relationshipResult e) groupID userID role [])
                 else Inl e, db1)
            | (Inr updatedAt, db1) \<Rightarrow>
                (Inr (groupOperation req ''update_group_member_role'' FRIEND_OK groupID userID role updatedAt), db1)))"

definition handleUpdateGroupName :: "instant \<Rightarrow> friend_request \<Rightarrow> int \<Rightarrow> int \<Rightarrow> string \<Rightarrow> database \<Rightarrow> handler_result" where
  "handleUpdateGroupName clock req requestUserID groupID rawName db =
     (let groupName = TrimSpace rawName in
      if requestUserID \<le> 0 \<or> groupID \<le> 0 \<or> groupName = [] \<or> \<not> ValidString groupName \<or> RuneCount groupName > 100
      then (Inr (groupManagementOperation req ''update_group_name'' INVALID_ARGUMENT groupID requestUserID [] [] groupName 0), db)
      else (case UpdateGroupNameByWithDB clock requestUserID groupID groupName db of
              (Inl e, db1) \<Rightarrow>
                (if relationshipResult e = SERVICE_ERROR then Inl e
                 else Inr (groupManagementOperation req ''update_group_name'' (relationshipResult e) groupID requestUserID [] [] groupName 0), db1)
            | (Inr updatedAt, db1) \<Rightarrow>
                (Inr (groupManagementOperation req ''update_group_name'' FRIEND_OK groupID requestUserID [] updatedAt groupName 0), db1)))"

definition handleTransferGroupOwner :: "instant \<Rightarrow> friend_request \<Rightarrow> int \<Rightarrow> int \<Rightarrow> int \<Rightarrow> database \<Rightarrow> handler_result" where
  "handleTransferGroupOwner clock req requestUserID groupID userID db =
     (if requestUserID \<le> 0 \<or> groupID \<le> 0 \<or> userID \<le> 0 \<or> requestUserID = userID
      then (Inr (groupManagementOperation req ''transfer_group_owner'' INVALID_ARGUMENT groupID userID GroupRoleOwner [] [] requestUserID), db)
      else (case TransferGroupOwnerWithDB clock requestUserID groupID userID db of
              (Inl e, db1) \<Rightarrow>
                (if relationshipResult e = SERVICE_ERROR then Inl e
                 else Inr (groupManagementOperation req ''transfer_group_owner'' (relationshipResult e) groupID userID
                             GroupRoleOwner [] [] requestUserID), db1)
            | (Inr (groupName, previousOwnerID, updatedAt), db1) \<Rightarrow>
                (Inr (groupManagementOperation req ''transfer_group_owner'' FRIEND_OK groupID userID GroupRoleOwner
                        updatedAt groupName previousOwnerID), db1)))"


section \<open>Relationship requests\<close>

definition created_result :: "bool \<Rightarrow> friend_result" where
  "created_result created = (if created then FRIEND_OK else REQUEST_PENDING)"

definition handleAddDirectFriend :: "instant \<Rightarrow> friend_request \<Rightarrow> int \<Rightarrow> int \<Rightarrow> string \<Rightarrow> database \<Rightarrow> handler_result" where
  "handleAddDirectFriend clock req userID friendID message db =
     (let op = ''create_friend_request'' in
      if userID \<le> 0 \<or> friendID \<le> 0 \<or> userID = friendID \<or> \<not> validVerificationMessage message
      then (Inr (relationshipError req op INVALID_ARGUMENT None), db)
      else if GetUserByID userID db = None then (Inr (relationshipError req op RECORD_NOT_EXIST None), db)
      else if GetUserByID friendID db = None then (Inr (relationshipError req op RECORD_NOT_EXIST None), db)
      else (case CreateFriendRequestWithDB clock userID friendID message db of
              (Inl e, db1) \<Rightarrow>
                (if e = ErrAlreadyRelated then Inr (relationshipError req op ALREADY_FRIEND None)
                 else relationshipDBError req op e, db1)
            | (Inr (request, created), db1) \<Rightarrow>
                (Inr (relationshipOperation req op (created_result created) (Some request)), db1)))"

definition handleQueryFriendRequests :: "instant \<Rightarrow> friend_request \<Rightarrow> int \<Rightarrow> bool \<Rightarrow> database \<Rightarrow> handler_result" where
  "handleQueryFriendRequests clock req userID includeOutgoing db =
     (if userID \<le> 0 then (Inr (relationshipList req INVALID_ARGUMENT []), db)
      else (case ListFriendRequestsWithDB clock userID includeOutgoing db of
              (requests, db1) \<Rightarrow> (Inr (relationshipList req FRIEND_OK requests), db1)))"

text \<open>The three resolving handlers differ in the operation's name and the data-layer function only.\<close>

definition resolve_with ::
  "(string \<Rightarrow> database \<Rightarrow> (db_error + request_view) \<times> database) \<Rightarrow> string \<Rightarrow> friend_request \<Rightarrow> int \<Rightarrow> int \<Rightarrow>
   request_decision \<Rightarrow> database \<Rightarrow> handler_result" where
  "resolve_with resolve op req userID requestID decision db =
     (case decisionStatus decision of
        None \<Rightarrow> (Inr (relationshipError req op INVALID_ARGUMENT None), db)
      | Some status \<Rightarrow>
          if userID \<le> 0 \<or> requestID \<le> 0 then (Inr (relationshipError req op INVALID_ARGUMENT None), db)
          else (case resolve status db of
                  (Inl e, db1) \<Rightarrow> (relationshipDBError req op e, db1)
                | (Inr request, db1) \<Rightarrow> (Inr (relationshipOperation req op FRIEND_OK (Some request)), db1)))"

definition handleResolveFriendRequest :: "instant \<Rightarrow> friend_request \<Rightarrow> int \<Rightarrow> int \<Rightarrow> request_decision \<Rightarrow> database \<Rightarrow> handler_result" where
  "handleResolveFriendRequest clock req userID requestID decision db =
     resolve_with (ResolveFriendRequestWithDB clock userID requestID) ''resolve_friend_request'' req userID requestID decision db"

definition handleResolveGroupJoinRequest :: "instant \<Rightarrow> friend_request \<Rightarrow> int \<Rightarrow> int \<Rightarrow> request_decision \<Rightarrow> database \<Rightarrow> handler_result" where
  "handleResolveGroupJoinRequest clock req userID requestID decision db =
     resolve_with (ResolveGroupJoinRequestWithDB clock userID requestID) ''resolve_group_join_request'' req userID requestID decision db"

definition handleResolveGroupInvitation :: "instant \<Rightarrow> friend_request \<Rightarrow> int \<Rightarrow> int \<Rightarrow> request_decision \<Rightarrow> database \<Rightarrow> handler_result" where
  "handleResolveGroupInvitation clock req userID invitationID decision db =
     resolve_with (ResolveGroupInvitationWithDB clock userID invitationID) ''resolve_group_invitation'' req userID invitationID decision db"

definition handleAddGroupMember :: "instant \<Rightarrow> friend_request \<Rightarrow> int \<Rightarrow> int \<Rightarrow> string \<Rightarrow> database \<Rightarrow> handler_result" where
  "handleAddGroupMember clock req userID groupID message db =
     (let op = ''create_group_join_request'' in
      if userID \<le> 0 \<or> groupID \<le> 0 \<or> \<not> validVerificationMessage message
      then (Inr (relationshipError req op INVALID_ARGUMENT None), db)
      else if GetUserByID userID db = None then (Inr (relationshipError req op RECORD_NOT_EXIST None), db)
      else (case CreateGroupJoinRequestWithDB clock userID groupID message db of
              (Inl e, db1) \<Rightarrow> (relationshipDBError req op e, db1)
            | (Inr (request, created), db1) \<Rightarrow>
                (Inr (relationshipOperation req op (created_result created) (Some request)), db1)))"

definition handleQueryGroupJoinRequests :: "instant \<Rightarrow> friend_request \<Rightarrow> int \<Rightarrow> int \<Rightarrow> database \<Rightarrow> handler_result" where
  "handleQueryGroupJoinRequests clock req requestUserID groupID db =
     (if requestUserID \<le> 0 \<or> groupID \<le> 0 then (Inr (relationshipList req INVALID_ARGUMENT []), db)
      else (case ListGroupJoinRequestsWithDB clock requestUserID groupID db of
              (Inl e, db1) \<Rightarrow>
                (if relationshipResult e \<noteq> SERVICE_ERROR then Inr (relationshipList req (relationshipResult e) []) else Inl e, db1)
            | (Inr requests, db1) \<Rightarrow> (Inr (relationshipList req FRIEND_OK requests), db1)))"

definition handleInviteGroupMember :: "instant \<Rightarrow> friend_request \<Rightarrow> int \<Rightarrow> int \<Rightarrow> int \<Rightarrow> string \<Rightarrow> database \<Rightarrow> handler_result" where
  "handleInviteGroupMember clock req requestUserID groupID userID message db =
     (let op = ''invite_group_member'' in
      if requestUserID \<le> 0 \<or> groupID \<le> 0 \<or> userID \<le> 0 \<or> requestUserID = userID \<or> \<not> validVerificationMessage message
      then (Inr (relationshipError req op INVALID_ARGUMENT None), db)
      else if GetUserByID userID db = None then (Inr (relationshipError req op RECORD_NOT_EXIST None), db)
      else (case CreateGroupInvitationWithDB clock requestUserID groupID userID message db of
              (Inl e, db1) \<Rightarrow> (relationshipDBError req op e, db1)
            | (Inr (request, created), db1) \<Rightarrow>
                (Inr (relationshipOperation req op (created_result created) (Some request)), db1)))"

definition handleQueryGroupInvitations :: "instant \<Rightarrow> friend_request \<Rightarrow> int \<Rightarrow> bool \<Rightarrow> database \<Rightarrow> handler_result" where
  "handleQueryGroupInvitations clock req userID includeOutgoing db =
     (if userID \<le> 0 then (Inr (relationshipList req INVALID_ARGUMENT []), db)
      else (case ListGroupInvitationsWithDB clock userID includeOutgoing db of
              (requests, db1) \<Rightarrow> (Inr (relationshipList req FRIEND_OK requests), db1)))"

section \<open>The modules of the router\<close>

definition payload_type :: "friend_payload \<Rightarrow> string" where
  "payload_type p =
     (case p of
        AddDirectFriend _ _ _ \<Rightarrow> ''AddDirectFriend'' | QueryFriendList _ \<Rightarrow> ''QueryFriendList''
      | RemoveDirectFriend _ _ \<Rightarrow> ''RemoveDirectFriend'' | UpdateFriendAlias _ _ _ \<Rightarrow> ''UpdateFriendAlias''
      | UpdateFriendNotify _ _ _ \<Rightarrow> ''UpdateFriendNotify'' | CreateGroup _ _ _ \<Rightarrow> ''CreateGroup''
      | QueryGroup _ _ _ \<Rightarrow> ''QueryGroup'' | AddGroupMember _ _ _ \<Rightarrow> ''AddGroupMember''
      | UpdateGroupAvatar _ _ _ \<Rightarrow> ''UpdateGroupAvatar'' | QueryGroupMembers _ _ \<Rightarrow> ''QueryGroupMembers''
      | RemoveGroupMember _ _ _ \<Rightarrow> ''RemoveGroupMember'' | QueryJoinedGroups _ \<Rightarrow> ''QueryJoinedGroups''
      | QueryFriendRequests _ _ \<Rightarrow> ''QueryFriendRequests'' | ResolveFriendRequest _ _ _ \<Rightarrow> ''ResolveFriendRequest''
      | QueryGroupJoinRequests _ _ \<Rightarrow> ''QueryGroupJoinRequests'' | ResolveGroupJoinRequest _ _ _ \<Rightarrow> ''ResolveGroupJoinRequest''
      | InviteGroupMember _ _ _ _ \<Rightarrow> ''InviteGroupMember'' | QueryGroupInvitations _ _ \<Rightarrow> ''QueryGroupInvitations''
      | ResolveGroupInvitation _ _ _ \<Rightarrow> ''ResolveGroupInvitation'' | KickGroupMember _ _ _ \<Rightarrow> ''KickGroupMember''
      | UpdateGroupMemberRole _ _ _ _ \<Rightarrow> ''UpdateGroupMemberRole'' | UpdateGroupName _ _ _ \<Rightarrow> ''UpdateGroupName''
      | TransferGroupOwner _ _ _ \<Rightarrow> ''TransferGroupOwner'')"

text \<open>
  A registered handler gets the context and the payload; the wrapper of \<^verbatim>\<open>Register\<close> answers a payload of
  another type with \<^verbatim>\<open>ErrPayloadTypeMismatch\<close>, here the last alternative.
\<close>

type_synonym friend_handler = "instant \<times> friend_request \<Rightarrow> friend_payload \<Rightarrow> database \<Rightarrow> handler_result"

definition mismatch :: db_error where
  "mismatch = ErrOther ''dispatch: payload type mismatch''"

definition registerFriendContactModule :: "(string \<times> friend_handler) list" where
  "registerFriendContactModule =
     [(''AddDirectFriend'', \<lambda>(clock, req) p db. case p of AddDirectFriend u f m \<Rightarrow> handleAddDirectFriend clock req u f m db | _ \<Rightarrow> (Inl mismatch, db)),
      (''QueryFriendList'', \<lambda>(clock, req) p db. case p of QueryFriendList u \<Rightarrow> handleQueryFriendList req u db | _ \<Rightarrow> (Inl mismatch, db)),
      (''RemoveDirectFriend'', \<lambda>(clock, req) p db. case p of RemoveDirectFriend u f \<Rightarrow> handleRemoveDirectFriend clock req u f db | _ \<Rightarrow> (Inl mismatch, db)),
      (''UpdateFriendAlias'', \<lambda>(clock, req) p db. case p of UpdateFriendAlias u f a \<Rightarrow> handleUpdateFriendAlias clock req u f a db | _ \<Rightarrow> (Inl mismatch, db)),
      (''UpdateFriendNotify'', \<lambda>(clock, req) p db. case p of UpdateFriendNotify u f n \<Rightarrow> handleUpdateFriendNotify clock req u f n db | _ \<Rightarrow> (Inl mismatch, db))]"

definition registerFriendGroupModule :: "(string \<times> friend_handler) list" where
  "registerFriendGroupModule =
     [(''CreateGroup'', \<lambda>(clock, req) p db. case p of CreateGroup u g n \<Rightarrow> handleCreateGroup clock req u g n db | _ \<Rightarrow> (Inl mismatch, db)),
      (''QueryGroup'', \<lambda>(clock, req) p db. case p of QueryGroup u g s \<Rightarrow> handleQueryGroup req u g s db | _ \<Rightarrow> (Inl mismatch, db)),
      (''AddGroupMember'', \<lambda>(clock, req) p db. case p of AddGroupMember u g m \<Rightarrow> handleAddGroupMember clock req u g m db | _ \<Rightarrow> (Inl mismatch, db)),
      (''UpdateGroupAvatar'', \<lambda>(clock, req) p db. case p of UpdateGroupAvatar u g a \<Rightarrow> handleUpdateGroupAvatar clock req u g a db | _ \<Rightarrow> (Inl mismatch, db)),
      (''QueryGroupMembers'', \<lambda>(clock, req) p db. case p of QueryGroupMembers u g \<Rightarrow> handleQueryGroupMembers req u g db | _ \<Rightarrow> (Inl mismatch, db)),
      (''RemoveGroupMember'', \<lambda>(clock, req) p db. case p of RemoveGroupMember a g u \<Rightarrow> handleRemoveGroupMember clock req a g u db | _ \<Rightarrow> (Inl mismatch, db)),
      (''QueryJoinedGroups'', \<lambda>(clock, req) p db. case p of QueryJoinedGroups u \<Rightarrow> handleQueryJoinedGroups req u db | _ \<Rightarrow> (Inl mismatch, db)),
      (''UpdateGroupName'', \<lambda>(clock, req) p db. case p of UpdateGroupName u g n \<Rightarrow> handleUpdateGroupName clock req u g n db | _ \<Rightarrow> (Inl mismatch, db)),
      (''TransferGroupOwner'', \<lambda>(clock, req) p db. case p of TransferGroupOwner a g u \<Rightarrow> handleTransferGroupOwner clock req a g u db | _ \<Rightarrow> (Inl mismatch, db))]"

definition registerRelationshipModule :: "(string \<times> friend_handler) list" where
  "registerRelationshipModule =
     [(''QueryFriendRequests'', \<lambda>(clock, req) p db. case p of QueryFriendRequests u out \<Rightarrow> handleQueryFriendRequests clock req u out db | _ \<Rightarrow> (Inl mismatch, db)),
      (''ResolveFriendRequest'', \<lambda>(clock, req) p db. case p of ResolveFriendRequest u i d \<Rightarrow> handleResolveFriendRequest clock req u i d db | _ \<Rightarrow> (Inl mismatch, db)),
      (''QueryGroupJoinRequests'', \<lambda>(clock, req) p db. case p of QueryGroupJoinRequests u g \<Rightarrow> handleQueryGroupJoinRequests clock req u g db | _ \<Rightarrow> (Inl mismatch, db)),
      (''ResolveGroupJoinRequest'', \<lambda>(clock, req) p db. case p of ResolveGroupJoinRequest u i d \<Rightarrow> handleResolveGroupJoinRequest clock req u i d db | _ \<Rightarrow> (Inl mismatch, db)),
      (''InviteGroupMember'', \<lambda>(clock, req) p db. case p of InviteGroupMember a g u m \<Rightarrow> handleInviteGroupMember clock req a g u m db | _ \<Rightarrow> (Inl mismatch, db)),
      (''QueryGroupInvitations'', \<lambda>(clock, req) p db. case p of QueryGroupInvitations u out \<Rightarrow> handleQueryGroupInvitations clock req u out db | _ \<Rightarrow> (Inl mismatch, db)),
      (''ResolveGroupInvitation'', \<lambda>(clock, req) p db. case p of ResolveGroupInvitation u i d \<Rightarrow> handleResolveGroupInvitation clock req u i d db | _ \<Rightarrow> (Inl mismatch, db)),
      (''KickGroupMember'', \<lambda>(clock, req) p db. case p of KickGroupMember a g u \<Rightarrow> handleKickGroupMember clock req a g u db | _ \<Rightarrow> (Inl mismatch, db)),
      (''UpdateGroupMemberRole'', \<lambda>(clock, req) p db. case p of UpdateGroupMemberRole a g u r \<Rightarrow> handleUpdateGroupMemberRole clock req a g u r db | _ \<Rightarrow> (Inl mismatch, db))]"

definition newFriendRequestRouter :: "(string \<rightharpoonup> friend_handler) option" where
  "newFriendRequestRouter =
     register_module (registerFriendContactModule @ registerFriendGroupModule @ registerRelationshipModule) Map.empty"

section \<open>The service's message handler\<close>

record envelope =
  ev_type :: string
  ev_payload :: bytes

datatype friend_error =
    MissingOperationKey
  | DecodeError string
  | RouterPanic
  | DispatchFailed "db_error dispatch_error"
  | MarshalFailed string

record friend_codec =
  unmarshal_envelope :: "bytes \<Rightarrow> string + envelope"
  unmarshal_request :: "bytes \<Rightarrow> string + friend_request"
  marshal_response :: "friend_response \<Rightarrow> string + bytes"
  marshal_envelope :: "friend_response \<Rightarrow> string + bytes"
  sha256hex :: "string \<Rightarrow> string"
  error_text :: "friend_error inbox_error \<Rightarrow> string"

text \<open>The \<^verbatim>\<open>execute\<close> closure of \<^verbatim>\<open>HandleMessage\<close>.\<close>

definition friend_execute :: "friend_codec \<Rightarrow> instant \<Rightarrow> string \<Rightarrow> friend_request \<Rightarrow> (database, friend_error) executor" where
  "friend_execute codec clock operationKey req db =
     (case newFriendRequestRouter of
        None \<Rightarrow> (Inl RouterPanic, db)
      | Some router \<Rightarrow>
          (case Dispatch payload_type router (clock, req) (fq_payload req) db of
             (Inl e, db1) \<Rightarrow> (Inl (DispatchFailed e), db1)
           | (Inr resp, db1) \<Rightarrow>
               (case marshal_response codec resp of
                  Inl e \<Rightarrow> (Inl (MarshalFailed e), db1)
                | Inr encoded \<Rightarrow>
                    (case marshal_envelope codec resp of
                       Inl e \<Rightarrow> (Inl (MarshalFailed e), db1)
                     | Inr envelopePayload \<Rightarrow>
                         (Inr (encoded, [\<lparr>pe_event_id = StableEventID (sha256hex codec) ''friend'' operationKey ''response'',
                                          pe_topic = fq_from_kafka_topic req, pe_payload = envelopePayload\<rparr>]), db1)))))"

definition HandleMessage ::
  "friend_codec \<Rightarrow> instant \<Rightarrow> string \<Rightarrow> bytes \<Rightarrow> database reliable_store \<Rightarrow>
   (friend_error inbox_error + inbox_execution) \<times> database reliable_store" where
  "HandleMessage codec clock operationKey message st =
     (if operationKey = [] then (Inl (ExecuteError MissingOperationKey), st)
      else (case unmarshal_request codec message of
              Inl e \<Rightarrow> (Inl (ExecuteError (DecodeError e)), st)
            | Inr req \<Rightarrow> ExecuteInboxOutbox clock ''friend'' operationKey (friend_execute codec clock operationKey req) st))"

text \<open>The consumer's \<^verbatim>\<open>process\<close>: malformed messages fail permanently, everything else may be retried.\<close>

definition permanent_text :: "string \<Rightarrow> consumer_result" where
  "permanent_text t = Permanent (Some (plain_error t))"

definition process :: "friend_codec \<Rightarrow> instant \<Rightarrow> string \<Rightarrow> kafka_message \<Rightarrow> database reliable_store \<Rightarrow> consumer_result \<times> database reliable_store" where
  "process codec clock operationKey message st =
     (case unmarshal_envelope codec (km_value message) of
        Inl e \<Rightarrow> (permanent_text (''decode friend envelope: '' @ e), st)
      | Inr env \<Rightarrow>
          if ev_type env \<noteq> ''FRIEND_REQUEST'' then (permanent_text (''unexpected friend envelope type: '' @ ev_type env), st)
          else if ev_payload env = [] then (permanent_text ''empty friend request payload'', st)
          else (case unmarshal_request codec (ev_payload env) of
                  Inl e \<Rightarrow> (permanent_text (''decode friend request: '' @ e), st)
                | Inr request \<Rightarrow>
                    if fq_payload request = None \<or> fq_from_kafka_topic request = []
                    then (permanent_text ''incomplete friend request'', st)
                    else (case HandleMessage codec clock operationKey (ev_payload env) st of
                            (Inl e, st1) \<Rightarrow> (ResultForError (Some (plain_error (error_text codec e))), st1)
                          | (Inr _, st1) \<Rightarrow> (Success, st1))))"

end
