(* ===== verification/Group_Laws.thy ===== *)
theory Group_Laws
  imports Chat_Groups
begin

text \<open>
  Correctness of the group operations. The interface \<open>role_store\<close> states what the membership table
  promises (what a role lookup returns after a role change, a removal and an insertion); its lemmas
  on the sole owner of a group are proved once from these laws and used, through the interpretation
  on the model's own tables, for every operation. The invariant \<open>group_inv\<close>: primary keys are
  unique, an active group has exactly one member with the role owner and it is the group's
  \<^verbatim>\<open>owner_user_id\<close>, a deleted group has no members.
\<close>

section \<open>The membership interface\<close>

definition sole_owner :: "(int \<Rightarrow> string option) \<Rightarrow> int \<Rightarrow> bool" where
  "sole_owner roles owner \<longleftrightarrow> (\<forall>u. roles u = Some GroupRoleOwner \<longleftrightarrow> u = owner)"

locale role_store =
  fixes role :: "'s \<Rightarrow> int \<Rightarrow> int \<Rightarrow> string option"
    and set_role :: "int \<Rightarrow> int \<Rightarrow> string \<Rightarrow> 's \<Rightarrow> 's"
    and remove :: "int \<Rightarrow> int \<Rightarrow> 's \<Rightarrow> 's"
    and add :: "int \<Rightarrow> int \<Rightarrow> string \<Rightarrow> 's \<Rightarrow> 's"
  assumes role_set: "role (set_role g u r s) g' u' =
      (if g' = g \<and> u' = u then map_option (\<lambda>_. r) (role s g u) else role s g' u')"
    and role_remove: "role (remove g u s) g' u' = (if g' = g \<and> u' = u then None else role s g' u')"
    and role_add: "role s g u = None \<Longrightarrow>
      role (add g u r s) g' u' = (if g' = g \<and> u' = u then Some r else role s g' u')"
begin

lemma transfer_sole_owner:
  "sole_owner (role s g) owner \<Longrightarrow> role s g t \<noteq> None \<Longrightarrow> t \<noteq> owner \<Longrightarrow>
   sole_owner (role (set_role g owner GroupRoleAdmin (set_role g t GroupRoleOwner s)) g) t"
  by (auto simp: sole_owner_def role_set)

lemma succession_sole_owner:
  "sole_owner (role s g) owner \<Longrightarrow> role s g t \<noteq> None \<Longrightarrow> t \<noteq> owner \<Longrightarrow>
   sole_owner (role (remove g owner (set_role g t GroupRoleOwner s)) g) t"
  by (auto simp: sole_owner_def role_set role_remove)

lemma set_role_sole_owner:
  "sole_owner (role s g) owner \<Longrightarrow> u \<noteq> owner \<Longrightarrow> r \<noteq> GroupRoleOwner \<Longrightarrow>
   sole_owner (role (set_role g u r s) g) owner"
  by (auto simp: sole_owner_def role_set)

lemma remove_sole_owner:
  "sole_owner (role s g) owner \<Longrightarrow> u \<noteq> owner \<Longrightarrow> sole_owner (role (remove g u s) g) owner"
  by (auto simp: sole_owner_def role_remove)

lemma join_sole_owner:
  "sole_owner (role s g) owner \<Longrightarrow> role s g u = None \<Longrightarrow> r \<noteq> GroupRoleOwner \<Longrightarrow>
   sole_owner (role (add g u r s) g) owner"
  unfolding sole_owner_def by (metis option.distinct(1) option.inject role_add)

lemma found_sole_owner:
  "(\<And>u. role s g u = None) \<Longrightarrow> sole_owner (role (add g u GroupRoleOwner s) g) u"
  by (auto simp: sole_owner_def role_add)

lemma other_group:
  "h \<noteq> g \<Longrightarrow> role (set_role g u r s) h = role s h"
  "h \<noteq> g \<Longrightarrow> role (remove g u s) h = role s h"
  "h \<noteq> g \<Longrightarrow> role s g u = None \<Longrightarrow> role (add g u r s) h = role s h"
  by (auto simp: fun_eq_iff role_set role_remove role_add)

end

section \<open>The membership table provides it\<close>

abbreviation member_role :: "database \<Rightarrow> int \<Rightarrow> int \<Rightarrow> string option" where
  "member_role db g u \<equiv> groupRoleTx g u db"

abbreviation set_member_role :: "string \<Rightarrow> int \<Rightarrow> int \<Rightarrow> string \<Rightarrow> database \<Rightarrow> database" where
  "set_member_role time g u r \<equiv> update_member g u (groupMemberRoleUpdates r time)"

definition insert_member :: "string \<Rightarrow> int \<Rightarrow> int \<Rightarrow> string \<Rightarrow> database \<Rightarrow> database" where
  "insert_member time g u r db = db\<lparr>group_members := group_members db @ [newGroupMember g u r time]\<rparr>"

lemma find_member_update:
  assumes "\<And>m. gm_group_id (f m) = gm_group_id m" "\<And>m. gm_user_id (f m) = gm_user_id m"
  shows "find_member g' u' (update_member g u f db) =
    (if g' = g \<and> u' = u then map_option f (find_member g u db) else find_member g' u' db)"
proof -
  have key: "sql_first (\<lambda>m. gm_group_id m = g' \<and> gm_user_id m = u')
          (sql_update (\<lambda>m. gm_group_id m = g \<and> gm_user_id m = u) f t) =
        (if g' = g \<and> u' = u then map_option f (sql_first (\<lambda>m. gm_group_id m = g \<and> gm_user_id m = u) t)
         else sql_first (\<lambda>m. gm_group_id m = g' \<and> gm_user_id m = u') t)" for t
    by (induction t) (auto simp: assms)
  show ?thesis by (simp add: find_member_def update_member_def key)
qed

lemma find_member_delete:
  "find_member g' u' (delete_member g u db) = (if g' = g \<and> u' = u then None else find_member g' u' db)"
proof -
  have key: "sql_first (\<lambda>m. gm_group_id m = g' \<and> gm_user_id m = u')
          (sql_delete (\<lambda>m. gm_group_id m = g \<and> gm_user_id m = u) t) =
        (if g' = g \<and> u' = u then None else sql_first (\<lambda>m. gm_group_id m = g' \<and> gm_user_id m = u') t)" for t
    by (induction t) auto
  show ?thesis by (simp add: find_member_def delete_member_def key)
qed

lemma groupMemberRoleUpdates_simps [simp]:
  "gm_group_id (groupMemberRoleUpdates r t m) = gm_group_id m"
  "gm_user_id (groupMemberRoleUpdates r t m) = gm_user_id m"
  "gm_role (groupMemberRoleUpdates r t m) = r"
  "gm_joined_at (groupMemberRoleUpdates r t m) = gm_joined_at m"
  by (simp_all add: groupMemberRoleUpdates_def)

lemma find_member_insert:
  "groupRoleTx g u db = None \<Longrightarrow> find_member g' u' (insert_member t g u r db) =
    (if g' = g \<and> u' = u then Some (newGroupMember g u r t) else find_member g' u' db)"
  unfolding find_member_def insert_member_def groupRoleTx_def
  by (cases "sql_first (\<lambda>m. gm_group_id m = g' \<and> gm_user_id m = u') (group_members db)")
     (auto simp: sql_first_append newGroupMember_def)

interpretation members: role_store member_role "set_member_role time" delete_member "insert_member time" for time
proof
  show "member_role (set_member_role time g u r s) g' u' =
      (if g' = g \<and> u' = u then map_option (\<lambda>_. r) (member_role s g u) else member_role s g' u')" for g u r s g' u'
    by (simp add: groupRoleTx_def find_member_update option.map_comp comp_def)
  show "member_role (delete_member g u s) g' u' = (if g' = g \<and> u' = u then None else member_role s g' u')" for g u s g' u'
    by (simp add: groupRoleTx_def find_member_delete)
  show "member_role s g u = None \<Longrightarrow> member_role (insert_member time g u r s) g' u' =
      (if g' = g \<and> u' = u then Some r else member_role s g' u')" for s g u r g' u'
    by (simp add: groupRoleTx_def find_member_insert newGroupMember_def)
qed

section \<open>The invariant\<close>

definition group_owner :: "database \<Rightarrow> int \<Rightarrow> int option" where
  "group_owner db g = map_option gr_owner_user_id (GetGroupByIDWithDB g db)"

definition owner_inv :: "database \<Rightarrow> int \<Rightarrow> bool" where
  "owner_inv db g \<longleftrightarrow>
     (case group_owner db g of None \<Rightarrow> (\<forall>u. member_role db g u = None) | Some owner \<Rightarrow> sole_owner (member_role db g) owner)"

definition group_keys :: "database \<Rightarrow> bool" where
  "group_keys db \<longleftrightarrow> distinct (map gr_group_id (chat_groups db)) \<and> distinct (map member_key (group_members db))"

definition group_inv :: "database \<Rightarrow> bool" where
  "group_inv db \<longleftrightarrow> group_keys db \<and> (\<forall>g. owner_inv db g)"

text \<open>How the two tables' updates show in these views.\<close>

lemma member_role_update_group [simp]: "groupRoleTx g u (update_group c f db) = groupRoleTx g u db"
  by (simp add: groupRoleTx_def find_member_def update_group_def)

lemma group_owner_members [simp]:
  "group_owner (update_member g u f db) h = group_owner db h"
  "group_owner (delete_member g u db) h = group_owner db h"
  "group_owner (insert_member t g u r db) h = group_owner db h"
  by (simp_all add: group_owner_def GetGroupByIDWithDB_def update_member_def delete_member_def insert_member_def)

lemma GetGroup_update_group:
  assumes "\<And>g. gr_group_id (f g) = gr_group_id g" "\<And>g. gr_is_delete (f g) = gr_is_delete g"
  shows "GetGroupByIDWithDB h (update_group c f db) = map_option (\<lambda>g. if c g then f g else g) (GetGroupByIDWithDB h db)"
proof -
  have "sql_first (\<lambda>g. gr_group_id g = h \<and> \<not> gr_is_delete g) (sql_update c f t) =
        map_option (\<lambda>g. if c g then f g else g) (sql_first (\<lambda>g. gr_group_id g = h \<and> \<not> gr_is_delete g) t)" for t
    by (induction t) (auto simp: assms)
  then show ?thesis by (simp add: GetGroupByIDWithDB_def update_group_def)
qed

lemma GetGroup_SomeD: "GetGroupByIDWithDB h db = Some g \<Longrightarrow> gr_group_id g = h \<and> \<not> gr_is_delete g \<and> g \<in> set (chat_groups db)"
  by (auto simp: GetGroupByIDWithDB_def dest: sql_first_SomeD)

lemma group_owner_touch:
  assumes "\<And>g. gr_group_id (f g) = gr_group_id g" "\<And>g. gr_is_delete (f g) = gr_is_delete g"
    "\<And>g. gr_owner_user_id (f g) = gr_owner_user_id g"
  shows "group_owner (update_group c f db) h = group_owner db h"
  using assms by (cases "GetGroupByIDWithDB h db") (simp_all add: group_owner_def GetGroup_update_group)

lemma group_owner_delete:
  "group_owner (update_group (active_group g) (\<lambda>r. r\<lparr>gr_is_delete := True, gr_update_time := t\<rparr>) db) h =
   (if h = g then None else group_owner db h)"
proof -
  have "sql_first (\<lambda>r. gr_group_id r = h \<and> \<not> gr_is_delete r)
          (sql_update (active_group g) (\<lambda>r. r\<lparr>gr_is_delete := True, gr_update_time := t\<rparr>) rs) =
        (if h = g then None else sql_first (\<lambda>r. gr_group_id r = h \<and> \<not> gr_is_delete r) rs)" for rs
    by (induction rs) (auto simp: active_group_def)
  then show ?thesis by (simp add: group_owner_def GetGroupByIDWithDB_def update_group_def)
qed

lemma group_owner_hand_over:
  assumes "group_owner db g \<noteq> None" and c: "\<And>r. GetGroupByIDWithDB g db = Some r \<Longrightarrow> c r"
    and n: "\<And>r. gr_group_id r \<noteq> g \<Longrightarrow> \<not> c r"
  shows "group_owner (update_group c (\<lambda>r. r\<lparr>gr_owner_user_id := u, gr_update_time := t\<rparr>) db) h =
   (if h = g then Some u else group_owner db h)"
proof (cases "GetGroupByIDWithDB h db")
  case None
  with assms(1) show ?thesis by (auto simp: group_owner_def GetGroup_update_group)
next
  case (Some r)
  with GetGroup_SomeD [OF Some] n c show ?thesis by (auto simp: group_owner_def GetGroup_update_group)
qed


section \<open>Every group operation keeps the invariant\<close>

lemma create_member_fresh:
  "groupRoleTx g u db = None \<Longrightarrow> create_member (newGroupMember g u r t) db = Inr (insert_member t g u r db)"
  by (auto simp: create_member_def insert_member_def newGroupMember_def groupRoleTx_def find_member_def
      sql_create_def member_key_def sql_first_None)

lemma group_keys_update_group [key_simps]:
  "(\<And>r. gr_group_id (f r) = gr_group_id r) \<Longrightarrow> group_keys (update_group c f db) = group_keys db"
  by (simp add: group_keys_def update_group_def map_key_sql_update)

lemma group_keys_update_member [key_simps]:
  "group_keys (set_member_role t g u r db) = group_keys db"
  by (simp add: group_keys_def update_member_def map_key_sql_update member_key_def)

lemma group_keys_delete_member [key_simps]: "group_keys db \<Longrightarrow> group_keys (delete_member g u db)"
  by (auto simp: group_keys_def delete_member_def sql_delete_def distinct_map inj_on_def)

lemma group_keys_insert_member [key_simps]:
  "group_keys db \<Longrightarrow> groupRoleTx g u db = None \<Longrightarrow> group_keys (insert_member t g u r db)"
  by (auto simp: group_keys_def insert_member_def groupRoleTx_def find_member_def sql_first_None
      newGroupMember_def member_key_def)

lemma group_invI: "group_keys db \<Longrightarrow> (\<And>g. owner_inv db g) \<Longrightarrow> group_inv db"
  by (simp add: group_inv_def)

lemma group_invD: "group_inv db \<Longrightarrow> group_keys db" "group_inv db \<Longrightarrow> owner_inv db g"
  by (simp_all add: group_inv_def)

lemma owner_inv_cong:
  "group_owner db' g = group_owner db g \<Longrightarrow> (\<And>u. member_role db' g u = member_role db g u) \<Longrightarrow> owner_inv db' g = owner_inv db g"
  by (simp add: owner_inv_def sole_owner_def split: option.splits)

lemma owner_invD:
  "owner_inv db g \<Longrightarrow> group_owner db g = Some owner \<Longrightarrow> sole_owner (member_role db g) owner"
  "owner_inv db g \<Longrightarrow> group_owner db g = None \<Longrightarrow> member_role db g u = None"
  by (simp_all add: owner_inv_def)

lemma sole_ownerD: "sole_owner roles owner \<Longrightarrow> roles owner = Some GroupRoleOwner"
  "sole_owner roles owner \<Longrightarrow> roles u = Some GroupRoleOwner \<Longrightarrow> u = owner"
  by (auto simp: sole_owner_def)

lemma group_inv_sole: "group_inv db \<Longrightarrow> group_owner db g = Some owner \<Longrightarrow> sole_owner (member_role db g) owner"
  by (simp add: group_inv_def owner_invD)

lemma owner_role: "group_inv db \<Longrightarrow> group_owner db g = Some owner \<Longrightarrow> member_role db g owner = Some GroupRoleOwner"
  using group_inv_sole [of db g owner] by (simp add: sole_owner_def)

text \<open>A change confined to one group keeps the invariant when that group's clause holds afterwards.\<close>

lemma group_inv_local:
  assumes "group_inv db" "group_keys db'" "owner_inv db' g"
    and "\<And>h. h \<noteq> g \<Longrightarrow> group_owner db' h = group_owner db h"
    and "\<And>h u. h \<noteq> g \<Longrightarrow> member_role db' h u = member_role db h u"
  shows "group_inv db'"
proof (rule group_invI)
  show "group_keys db'" by fact
  show "owner_inv db' h" for h
    using assms by (cases "h = g") (auto simp: group_inv_def owner_inv_cong [of db' h db])
qed

lemma group_inv_touch:
  assumes "\<And>g. gr_group_id (f g) = gr_group_id g" "\<And>g. gr_is_delete (f g) = gr_is_delete g"
    "\<And>g. gr_owner_user_id (f g) = gr_owner_user_id g"
  shows "group_inv (update_group c f db) = group_inv db"
proof -
  have "owner_inv (update_group c f db) g = owner_inv db g" for g
    using assms by (intro owner_inv_cong) (simp_all add: group_owner_touch)
  with assms show ?thesis by (simp add: group_inv_def group_keys_update_group)
qed

lemma update_member_update_group:
  "update_member g u f (update_group c h db) = update_group c h (update_member g u f db)"
  "delete_member g u (update_group c h db) = update_group c h (delete_member g u db)"
  by (simp_all add: update_member_def delete_member_def update_group_def)

lemma GetGroup_distinct:
  assumes "group_keys db" "g \<in> set (chat_groups db)" "gr_group_id g = h"
  shows "GetGroupByIDWithDB h db = (if gr_is_delete g then None else Some g)"
proof -
  have key: "distinct (map gr_group_id t) \<Longrightarrow> g \<in> set t \<Longrightarrow>
      sql_first (\<lambda>r. gr_group_id r = gr_group_id g \<and> \<not> gr_is_delete r) t = (if gr_is_delete g then None else Some g)" for t
    by (induction t) (auto simp: image_iff sql_first_None)
  from assms key [of "chat_groups db"] show ?thesis
    by (simp add: GetGroupByIDWithDB_def group_keys_def)
qed

lemma group_owner_found:
  assumes k: "group_keys db" and f: "\<And>r. gr_group_id (f r) = gr_group_id r"
    and r: "g \<in> set (chat_groups db)" "gr_group_id g = i"
    and d: "\<not> gr_is_delete (f g)" and o: "gr_owner_user_id (f g) = owner"
  shows "group_owner (update_group (\<lambda>r. gr_group_id r = i) f db) h = (if h = i then Some owner else group_owner db h)"
proof -
  let ?db = "update_group (\<lambda>r. gr_group_id r = i) f db"
  have k': "group_keys ?db" using k f by (simp add: group_keys_update_group)
  have m: "f g \<in> set (chat_groups ?db)" using r by (auto simp: update_group_def set_sql_update)
  have other: "sql_first (\<lambda>r. gr_group_id r = h \<and> \<not> gr_is_delete r) (sql_update (\<lambda>r. gr_group_id r = i) f t) =
      sql_first (\<lambda>r. gr_group_id r = h \<and> \<not> gr_is_delete r) t" if "h \<noteq> i" for t
    using that f by (induction t) auto
  show ?thesis
    using GetGroup_distinct [OF k' m, of i] d o f r
    by (auto simp: group_owner_def GetGroupByIDWithDB_def update_group_def other)
qed

lemma CreateGroup_finish:
  assumes k: "group_keys db'" and o: "\<And>h. group_owner db' h = (if h = g then Some owner else group_owner db h)"
    and inv: "group_inv db" "group_owner db g = None"
    and m: "\<And>h u. member_role db' h u = member_role db h u"
  obtains db2 where "ensureOwnerMember g owner t db' = Inr db2" "group_inv db2"
    "\<And>h. group_owner db2 h = (if h = g then Some owner else group_owner db h)"
    "\<And>h u. member_role db2 h u = (if h = g \<and> u = owner then Some GroupRoleOwner else member_role db h u)"
proof
  have none0: "member_role db g u = None" for u using inv by (simp add: owner_invD group_inv_def)
  then have none: "member_role db' g u = None" for u by (simp add: m)
  show "ensureOwnerMember g owner t db' = Inr (insert_member t g owner GroupRoleOwner db')"
    using none [of owner] create_member_fresh [OF none] by (simp add: ensureOwnerMember_def groupRoleTx_def)
  have "owner_inv (insert_member t g owner GroupRoleOwner db') g"
    using members.found_sole_owner [where s = db' and g = g and time = t and u = owner, OF none] o
    by (simp add: owner_inv_def)
  moreover have "group_keys (insert_member t g owner GroupRoleOwner db')"
    by (rule group_keys_insert_member [OF k none])
  ultimately show "group_inv (insert_member t g owner GroupRoleOwner db')"
    by (intro group_inv_local [OF inv(1)]) (auto simp: o m members.role_add none0)
qed (auto simp: o m members.role_add inv owner_invD group_invD)

lemma group_owner_create:
  assumes "gr_group_id r \<notin> gr_group_id ` set (chat_groups db)" "\<not> gr_is_delete r"
  shows "group_owner (db\<lparr>chat_groups := chat_groups db @ [r]\<rparr>) h =
    (if h = gr_group_id r then Some (gr_owner_user_id r) else group_owner db h)"
proof -
  have "sql_first (\<lambda>g. gr_group_id g = gr_group_id r \<and> \<not> gr_is_delete g) (chat_groups db) = None"
    using assms by (auto simp: sql_first_None image_iff)
  with assms show ?thesis
    by (cases "sql_first (\<lambda>g. gr_group_id g = h \<and> \<not> gr_is_delete g) (chat_groups db)")
       (auto simp: group_owner_def GetGroupByIDWithDB_def sql_first_append)
qed

text \<open>What \<^verbatim>\<open>CreateGroupWithOwnerWithDB\<close> does: nothing to an active group, else the creator becomes its sole owner.\<close>

lemma CreateGroup_result:
  assumes inv: "group_inv db"
  shows "case CreateGroupWithOwnerWithDB clock owner g name db of
      (Inl _, _) \<Rightarrow> False
    | (Inr (exists, now), db') \<Rightarrow>
        now = NowTime clock \<and> group_inv db' \<and>
        (if exists then group_owner db g \<noteq> None \<and> db' = db
         else group_owner db g = None \<and> group_owner db' g = Some owner \<and>
              (\<forall>h. h \<noteq> g \<longrightarrow> group_owner db' h = group_owner db h) \<and>
              (\<forall>h u. member_role db' h u = (if h = g \<and> u = owner then Some GroupRoleOwner else member_role db h u)))"
proof (cases "sql_first (\<lambda>r. gr_group_id r = g) (chat_groups db)")
  case None
  define r where "r = \<lparr>gr_group_id = g, gr_name = name, gr_avatar = [], gr_owner_user_id = owner,
                      gr_is_delete = False, gr_update_time = NowTime clock\<rparr>"
  define db1 where "db1 = db\<lparr>chat_groups := chat_groups db @ [r]\<rparr>"
  have fresh: "gr_group_id r \<notin> gr_group_id ` set (chat_groups db)" using None by (auto simp: sql_first_None r_def)
  have o1: "group_owner db1 h = (if h = g then Some owner else group_owner db h)" for h
    unfolding db1_def using group_owner_create [OF fresh, of h] by (simp add: r_def)
  have o0: "group_owner db g = None"
    using None by (auto simp: group_owner_def GetGroupByIDWithDB_def sql_first_None)
  have k1: "group_keys db1" using inv fresh by (simp add: db1_def group_inv_def group_keys_def)
  have m1: "member_role db1 h u = member_role db h u" for h u
    by (simp add: db1_def groupRoleTx_def find_member_def)
  obtain db2 where db2: "ensureOwnerMember g owner (NowTime clock) db1 = Inr db2" "group_inv db2"
      "\<And>h. group_owner db2 h = (if h = g then Some owner else group_owner db h)"
      "\<And>h u. member_role db2 h u = (if h = g \<and> u = owner then Some GroupRoleOwner else member_role db h u)"
    using CreateGroup_finish [OF k1 o1 inv o0 m1] by blast
  have "CreateGroupWithOwnerWithDB clock owner g name db = (Inr (False, NowTime clock), db2)"
    using None fresh db2(1)
    by (simp add: CreateGroupWithOwnerWithDB_def transaction_def Let_def sql_create_fresh r_def db1_def)
  with db2 o0 show ?thesis by simp
next
  case (Some r)
  then have r: "r \<in> set (chat_groups db)" "gr_group_id r = g" by (auto dest: sql_first_SomeD)
  note found = GetGroup_distinct [OF group_invD(1) [OF inv] r]
  show ?thesis
  proof (cases "gr_is_delete r")
    case False
    with Some found show ?thesis
      by (simp add: CreateGroupWithOwnerWithDB_def transaction_def Let_def group_owner_def inv)
  next
    case True
    define f where "f = (\<lambda>x::group_row. x\<lparr>gr_name := name, gr_owner_user_id := owner, gr_is_delete := False,
                              gr_update_time := NowTime clock\<rparr>)"
    define db1 where "db1 = update_group (\<lambda>x. gr_group_id x = g) f db"
    have f: "gr_group_id (f x) = gr_group_id x" for x by (simp add: f_def)
    have o1: "group_owner db1 h = (if h = g then Some owner else group_owner db h)" for h
      unfolding db1_def by (rule group_owner_found [OF group_invD(1) [OF inv] f r]) (simp_all add: f_def)
    have o0: "group_owner db g = None" using found True by (simp add: group_owner_def)
    have k1: "group_keys db1" using inv f by (simp add: db1_def group_inv_def group_keys_update_group)
    have m1: "member_role db1 h u = member_role db h u" for h u by (simp add: db1_def)
    obtain db2 where db2: "ensureOwnerMember g owner (NowTime clock) db1 = Inr db2" "group_inv db2"
        "\<And>h. group_owner db2 h = (if h = g then Some owner else group_owner db h)"
        "\<And>h u. member_role db2 h u = (if h = g \<and> u = owner then Some GroupRoleOwner else member_role db h u)"
      using CreateGroup_finish [OF k1 o1 inv o0 m1] by blast
    have "CreateGroupWithOwnerWithDB clock owner g name db = (Inr (False, NowTime clock), db2)"
      using Some True db2(1)
      by (simp add: CreateGroupWithOwnerWithDB_def transaction_def Let_def f_def db1_def)
    with db2 o0 show ?thesis by simp
  qed
qed


text \<open>The successor is another member of the group, and of least rank among them.\<close>

lemma find_successor_Some:
  assumes "find_successor g u db = Some m"
  shows "m \<in> set (group_members db)" "gm_group_id m = g" "gm_user_id m \<noteq> u" "member_role db g (gm_user_id m) \<noteq> None"
    "\<And>x. x \<in> set (group_members db) \<Longrightarrow> gm_group_id x = g \<Longrightarrow> gm_user_id x \<noteq> u \<Longrightarrow> successor_rank m \<le> successor_rank x"
  using assms unfolding find_successor_def groupRoleTx_def find_member_def
  by (auto split: list.splits dest!: sql_order_hd simp: sql_first_None)

lemma find_successor_None:
  "find_successor g u db = None \<longleftrightarrow> (\<forall>v. v \<noteq> u \<longrightarrow> member_role db g v = None)"
proof -
  have "find_successor g u db = None \<longleftrightarrow> filter (\<lambda>m. gm_group_id m = g \<and> gm_user_id m \<noteq> u) (group_members db) = []"
    unfolding find_successor_def by (rule sql_order_first_None)
  also have "\<dots> \<longleftrightarrow> (\<forall>v. v \<noteq> u \<longrightarrow> member_role db g v = None)"
    by (auto simp: groupRoleTx_def find_member_def sql_first_None filter_empty_conv)
  finally show ?thesis .
qed

text \<open>What \<^verbatim>\<open>RemoveUserFromGroupWithDB\<close> leaves behind, by the leaving user's position.\<close>

lemma RemoveUser_noop:
  "group_owner db g = None \<Longrightarrow> RemoveUserFromGroupWithDB clock g u db = (Inr (False, False, NowTime clock), db)"
  "group_owner db g \<noteq> None \<Longrightarrow> member_role db g u = None \<Longrightarrow>
   RemoveUserFromGroupWithDB clock g u db = (Inr (True, False, NowTime clock), db)"
  by (auto simp: RemoveUserFromGroupWithDB_def transaction_def Let_def group_owner_def groupRoleTx_def)

definition leave_group :: "string \<Rightarrow> int \<Rightarrow> int \<Rightarrow> database \<Rightarrow> database" where
  "leave_group now g u db =
     (if group_owner db g = Some u
      then (case find_successor g u db of
              None \<Rightarrow> update_group (active_group g) (\<lambda>r. r\<lparr>gr_is_delete := True, gr_update_time := now\<rparr>) (delete_member g u db)
            | Some s \<Rightarrow> update_group (active_group g) (\<lambda>r. r\<lparr>gr_owner_user_id := gm_user_id s, gr_update_time := now\<rparr>)
                          (delete_member g u (set_member_role now g (gm_user_id s) GroupRoleOwner db)))
      else update_group (active_group g) (\<lambda>r. r\<lparr>gr_update_time := now\<rparr>) (delete_member g u db))"

lemma member_count_iff:
  "0 < sql_count (\<lambda>m. gm_group_id m = g \<and> gm_user_id m = u) (group_members db) \<longleftrightarrow> member_role db g u \<noteq> None"
  by (auto simp: groupRoleTx_def find_member_def sql_first_None sql_count_pos_iff)

lemma RemoveUser_leave:
  assumes "group_owner db g \<noteq> None" "member_role db g u \<noteq> None"
  shows "RemoveUserFromGroupWithDB clock g u db = (Inr (True, True, NowTime clock), leave_group (NowTime clock) g u db)"
proof -
  obtain r where r: "GetGroupByIDWithDB g db = Some r" using assms(1) by (auto simp: group_owner_def)
  obtain m where m: "find_member g u db = Some m" using assms(2) by (auto simp: groupRoleTx_def)
  show ?thesis
    using r m assms(2) find_successor_Some(3) [of g u db]
    by (auto simp: RemoveUserFromGroupWithDB_def transaction_def Let_def member_count_iff members.role_set
       leave_group_def update_member_update_group group_owner_def split: option.splits)
qed


lemma group_owner_hand_over_active:
  assumes "group_owner db g \<noteq> None"
  shows "group_owner (update_group (active_group g) (\<lambda>r. r\<lparr>gr_owner_user_id := u, gr_update_time := t\<rparr>) db) h =
   (if h = g then Some u else group_owner db h)"
  using assms by (intro group_owner_hand_over) (auto simp: active_group_def dest: GetGroup_SomeD)

lemma group_keys_touch [key_simps]:
  "group_keys (update_group c (\<lambda>r. r\<lparr>gr_update_time := t\<rparr>) db) = group_keys db"
  "group_keys (update_group c (\<lambda>r. r\<lparr>gr_owner_user_id := u, gr_update_time := t\<rparr>) db) = group_keys db"
  "group_keys (update_group c (\<lambda>r. r\<lparr>gr_is_delete := True, gr_update_time := t\<rparr>) db) = group_keys db"
  by (simp_all add: group_keys_update_group)

lemma group_owner_touch_time [simp]:
  "group_owner (update_group c (\<lambda>r. r\<lparr>gr_update_time := t\<rparr>) db) h = group_owner db h"
  by (simp add: group_owner_touch)

lemma leave_group_owner:
  assumes "group_owner db g \<noteq> None"
  shows "group_owner (leave_group now g u db) h =
    (if h = g \<and> group_owner db g = Some u then map_option gm_user_id (find_successor g u db) else group_owner db h)"
  using assms by (auto simp: leave_group_def group_owner_delete group_owner_hand_over_active split: option.split)

lemma leave_group_role:
  "member_role (leave_group now g u db) h v =
    (if h = g \<and> v = u then None
     else if h = g \<and> group_owner db g = Some u \<and> map_option gm_user_id (find_successor g u db) = Some v
     then Some GroupRoleOwner else member_role db h v)"
  using find_successor_Some(4) [of g u db]
  by (auto simp: leave_group_def members.role_remove members.role_set split: option.split)

lemma leave_group_inv:
  assumes inv: "group_inv db" and o: "group_owner db g \<noteq> None"
  shows "group_inv (leave_group now g u db)"
proof (rule group_inv_local [OF inv, of _ g])
  show "group_keys (leave_group now g u db)"
    using inv by (auto simp: leave_group_def group_inv_def key_simps split: option.split)
  obtain w where w: "group_owner db g = Some w" using o by blast
  then have sole: "sole_owner (member_role db g) w" using inv by (simp add: group_inv_def owner_invD)
  show "owner_inv (leave_group now g u db) g"
  proof (cases "w = u")
    case False
    with w sole show ?thesis
      by (auto simp: owner_inv_def leave_group_owner leave_group_role sole_owner_def)
  next
    case True
    show ?thesis
    proof (cases "find_successor g u db")
      case None
      then have "\<forall>v. v \<noteq> u \<longrightarrow> member_role db g v = None" by (simp add: find_successor_None)
      with None True w show ?thesis by (simp add: owner_inv_def leave_group_owner leave_group_role)
    next
      case (Some s)
      then show ?thesis
        using True w sole find_successor_Some(3,4) [OF Some]
        by (auto simp: owner_inv_def leave_group_owner leave_group_role sole_owner_def)
    qed
  qed
qed (use o in \<open>simp_all add: leave_group_owner leave_group_role\<close>)

lemma RemoveUser_inv:
  "group_inv db \<Longrightarrow> group_inv (snd (RemoveUserFromGroupWithDB clock g u db))"
  by (cases "group_owner db g"; cases "member_role db g u")
     (simp_all add: RemoveUser_noop RemoveUser_leave leave_group_inv)

lemma UpdateGroupAvatar_inv:
  "group_inv db \<Longrightarrow> group_inv (snd (UpdateGroupAvatarWithDB clock g avatar db))"
  by (simp add: UpdateGroupAvatarWithDB_def Let_def group_inv_touch)

lemma UpdateGroupName_inv:
  "group_inv db \<Longrightarrow> group_inv (snd (UpdateGroupNameByWithDB clock actor g name db))"
  by (auto simp: UpdateGroupNameByWithDB_def transaction_def Let_def group_inv_touch split: option.splits prod.splits sum.splits)

text \<open>\<^verbatim>\<open>KickGroupMemberByWithDB\<close> and \<^verbatim>\<open>UpdateGroupMemberRoleByWithDB\<close>: exact conditions and effects.\<close>

lemma Kick_result:
  "KickGroupMemberByWithDB clock actor g target db =
    (case member_role db g actor of
       None \<Rightarrow> (Inl ErrRelationshipForbidden, db)
     | Some ar \<Rightarrow>
         if \<not> canManageGroup ar then (Inl ErrRelationshipForbidden, db)
         else (case member_role db g target of
           None \<Rightarrow> (Inl ErrRelationshipNotFound, db)
         | Some tr \<Rightarrow> if canKickGroupMember ar tr
             then (Inr (relationshipUpdateTime clock),
                   update_group (\<lambda>r. gr_group_id r = g) (\<lambda>r. r\<lparr>gr_update_time := relationshipUpdateTime clock\<rparr>)
                     (delete_member g target db))
             else (Inl ErrRelationshipForbidden, db)))"
  by (auto simp: KickGroupMemberByWithDB_def transaction_def Let_def split: option.splits)

lemma group_owner_of_member: "group_inv db \<Longrightarrow> member_role db g u = Some r \<Longrightarrow> \<exists>w. group_owner db g = Some w"
  by (cases "group_owner db g") (auto simp: group_inv_def owner_invD(2))

lemma Kick_inv:
  assumes inv: "group_inv db"
  shows "group_inv (snd (KickGroupMemberByWithDB clock actor g target db))"
proof -
  have "group_inv (delete_member g target db)" if t: "member_role db g target = Some r" "r \<noteq> GroupRoleOwner" for r
  proof (rule group_inv_local [OF inv, of _ g])
    obtain w where w: "group_owner db g = Some w" using group_owner_of_member [OF inv t(1)] by blast
    then have sole: "sole_owner (member_role db g) w" using inv by (simp add: group_inv_def owner_invD)
    then have "target \<noteq> w" using t by (auto dest: sole_ownerD)
    with w sole show "owner_inv (delete_member g target db) g"
      by (simp add: owner_inv_def members.remove_sole_owner)
  qed (use inv in \<open>simp_all add: group_inv_def key_simps members.role_remove\<close>)
  then show ?thesis
    by (auto simp: Kick_result group_inv_touch inv canKickGroupMember_def split: option.split)
qed

lemma UpdateRole_result:
  "UpdateGroupMemberRoleByWithDB clock actor g target role db =
    (if role \<noteq> GroupRoleAdmin \<and> role \<noteq> GroupRoleMember then (Inl ErrRelationshipInvalidState, db)
     else case member_role db g actor of
       None \<Rightarrow> (Inl ErrRelationshipForbidden, db)
     | Some ar \<Rightarrow>
         if \<not> canManageGroup ar then (Inl ErrRelationshipForbidden, db)
         else (case member_role db g target of
           None \<Rightarrow> (Inl ErrRelationshipNotFound, db)
         | Some tr \<Rightarrow> if canChangeGroupMemberRole ar tr role
             then (Inr (relationshipUpdateTime clock),
                   update_group (\<lambda>r. gr_group_id r = g) (\<lambda>r. r\<lparr>gr_update_time := relationshipUpdateTime clock\<rparr>)
                     (set_member_role (relationshipUpdateTime clock) g target role db))
             else (Inl ErrRelationshipForbidden, db)))"
  by (auto simp: UpdateGroupMemberRoleByWithDB_def transaction_def Let_def split: option.splits)

lemma UpdateRole_inv:
  assumes inv: "group_inv db"
  shows "group_inv (snd (UpdateGroupMemberRoleByWithDB clock actor g target role db))"
proof -
  have "group_inv (set_member_role now g target role db)"
    if t: "member_role db g target = Some r" "r \<noteq> GroupRoleOwner" "role \<noteq> GroupRoleOwner" for r now
  proof (rule group_inv_local [OF inv, of _ g])
    obtain w where w: "group_owner db g = Some w" using group_owner_of_member [OF inv t(1)] by blast
    then have sole: "sole_owner (member_role db g) w" using inv by (simp add: group_inv_def owner_invD)
    then have "target \<noteq> w" using t by (auto dest: sole_ownerD)
    with w sole t show "owner_inv (set_member_role now g target role db) g"
      by (simp add: owner_inv_def members.set_role_sole_owner)
  qed (use inv in \<open>simp_all add: group_inv_def key_simps members.role_set\<close>)
  then show ?thesis
    by (auto simp: UpdateRole_result group_inv_touch inv canChangeGroupMemberRole_def split: option.split)
qed


lemma member_role_Some:
  assumes "group_keys db"
  shows "member_role db g u = Some r \<longleftrightarrow>
    (\<exists>m\<in>set (group_members db). gm_group_id m = g \<and> gm_user_id m = u \<and> gm_role m = r)"
proof -
  have "distinct (map member_key t) \<Longrightarrow>
      map_option gm_role (sql_first (\<lambda>m. gm_group_id m = g \<and> gm_user_id m = u) t) = Some r \<longleftrightarrow>
      (\<exists>m\<in>set t. gm_group_id m = g \<and> gm_user_id m = u \<and> gm_role m = r)" for t
    by (induction t) (auto simp: member_key_def image_iff)
  with assms show ?thesis by (simp add: groupRoleTx_def find_member_def group_keys_def)
qed

lemma owner_count:
  assumes k: "group_keys db" and s: "sole_owner (member_role db g) w"
  shows "sql_count (\<lambda>m. gm_group_id m = g \<and> gm_role m = GroupRoleOwner) (group_members db) = Suc 0"
proof -
  obtain m where m: "m \<in> set (group_members db)" "gm_group_id m = g" "gm_user_id m = w" "gm_role m = GroupRoleOwner"
    using member_role_Some [OF k] sole_ownerD(1) [OF s] by blast
  show ?thesis
  proof (rule sql_count_unique [of member_key _ m])
    show "distinct (map member_key (group_members db))" using k by (simp add: group_keys_def)
    show "member_key y = member_key m" if "y \<in> set (group_members db)" "gm_group_id y = g \<and> gm_role y = GroupRoleOwner" for y
      using that m sole_ownerD(2) [OF s, of "gm_user_id y"] member_role_Some [OF k, of g "gm_user_id y"]
      by (auto simp: member_key_def)
  qed (use m in simp_all)
qed

definition hand_over :: "string \<Rightarrow> int \<Rightarrow> int \<Rightarrow> int \<Rightarrow> database \<Rightarrow> database" where
  "hand_over now g actor target db =
     set_member_role now g actor GroupRoleAdmin (set_member_role now g target GroupRoleOwner
       (update_group (\<lambda>r. gr_group_id r = g \<and> gr_owner_user_id r = actor \<and> \<not> gr_is_delete r)
          (\<lambda>r. r\<lparr>gr_owner_user_id := target, gr_update_time := now\<rparr>) db))"

lemma hand_over_view:
  assumes "group_owner db g = Some actor" "member_role db g actor \<noteq> None" "member_role db g target \<noteq> None" "actor \<noteq> target"
  shows "group_owner (hand_over now g actor target db) h = (if h = g then Some target else group_owner db h)"
    "member_role (hand_over now g actor target db) h u =
      (if h = g \<and> u = actor then Some GroupRoleAdmin else if h = g \<and> u = target then Some GroupRoleOwner else member_role db h u)"
proof -
  show "group_owner (hand_over now g actor target db) h = (if h = g then Some target else group_owner db h)"
    unfolding hand_over_def group_owner_members
    using assms(1) by (intro group_owner_hand_over) (auto simp: group_owner_def dest: GetGroup_SomeD)
qed (use assms in \<open>auto simp: hand_over_def members.role_set\<close>)

lemma hand_over_keys: "group_keys (hand_over now g actor target db) = group_keys db"
  by (simp add: hand_over_def key_simps)

lemma hand_over_inv:
  assumes inv: "group_inv db" and t: "group_owner db g = Some actor" "member_role db g target \<noteq> None" "actor \<noteq> target"
  shows "group_inv (hand_over now g actor target db)" "sole_owner (member_role (hand_over now g actor target db) g) target"
proof -
  have s: "sole_owner (member_role db g) actor" using inv t(1) by (simp add: group_inv_def owner_invD)
  have a: "member_role db g actor \<noteq> None" using owner_role [OF inv t(1)] by simp
  show s': "sole_owner (member_role (hand_over now g actor target db) g) target"
    using s t(3) by (auto simp: sole_owner_def hand_over_view [OF t(1) a t(2,3)])
  show "group_inv (hand_over now g actor target db)"
  proof (rule group_inv_local [OF inv, of _ g])
    show "owner_inv (hand_over now g actor target db) g"
      using s' by (simp add: owner_inv_def hand_over_view [OF t(1) a t(2,3)])
  qed (use inv in \<open>simp_all add: hand_over_keys group_inv_def hand_over_view [OF t(1) a t(2,3)]\<close>)
qed

text \<open>
  \<^verbatim>\<open>TransferGroupOwnerWithDB\<close>: on a database that satisfies the invariant, the final consistency
  check of the transaction never fails.
\<close>

lemma Transfer_result:
  assumes inv: "group_inv db"
  shows "TransferGroupOwnerWithDB clock actor g target db =
    (if actor \<le> 0 \<or> g \<le> 0 \<or> target \<le> 0 \<or> actor = target then (Inl ErrRelationshipInvalidState, db)
     else case GetGroupByIDWithDB g db of
       None \<Rightarrow> (Inl ErrRelationshipNotFound, db)
     | Some r \<Rightarrow>
         if gr_owner_user_id r \<noteq> actor then (Inl ErrRelationshipInvalidState, db)
         else if member_role db g target = None then (Inl ErrRelationshipNotFound, db)
         else (Inr (gr_name r, actor, NowTime clock), hand_over (NowTime clock) g actor target db))"
proof (cases "actor \<le> 0 \<or> g \<le> 0 \<or> target \<le> 0 \<or> actor = target")
  case guards: False
  show ?thesis
  proof (cases "GetGroupByIDWithDB g db")
    case (Some r)
    show ?thesis
    proof (cases "gr_owner_user_id r = actor \<and> member_role db g target \<noteq> None")
      case True
      then have o: "group_owner db g = Some actor" and t: "member_role db g target \<noteq> None" and n: "actor \<noteq> target"
        using Some guards by (auto simp: group_owner_def)
      let ?db = "hand_over (NowTime clock) g actor target db"
      have role: "member_role db g actor = Some GroupRoleOwner"
        by (rule owner_role [OF inv o])
      have c1: "sql_count (\<lambda>x. gr_group_id x = g \<and> gr_owner_user_id x = actor \<and> \<not> gr_is_delete x) (chat_groups db) = Suc 0"
        using True GetGroup_SomeD [OF Some] inv
        by (intro sql_count_unique [of gr_group_id _ r]) (auto simp: group_inv_def group_keys_def)
      have c2: "sql_count (\<lambda>m. gm_group_id m = g \<and> gm_role m = GroupRoleOwner) (group_members ?db) = Suc 0"
        using hand_over_inv [OF inv o t n] by (intro owner_count) (simp_all add: group_inv_def)
      have "member_role ?db g target = Some GroupRoleOwner"
        using hand_over_inv(2) [OF inv o t n] by (simp add: sole_owner_def)
      then obtain m where m: "find_member g target ?db = Some m" "gm_role m = GroupRoleOwner"
        by (auto simp: groupRoleTx_def)
      from role t obtain a b where "find_member g actor db = Some a" "gm_role a = GroupRoleOwner" "find_member g target db = Some b"
        by (auto simp: groupRoleTx_def)
      with guards Some True c1 c2 [unfolded hand_over_def] m [unfolded hand_over_def] show ?thesis
        by (simp add: TransferGroupOwnerWithDB_def transaction_def Let_def hand_over_def)
    next
      case False
      have "gr_owner_user_id r = actor \<Longrightarrow> member_role db g actor = Some GroupRoleOwner"
        using owner_role [OF inv, of g actor] Some by (simp add: group_owner_def)
      with guards Some False show ?thesis
        by (auto simp: TransferGroupOwnerWithDB_def transaction_def Let_def groupRoleTx_def)
    qed
  qed (use guards in \<open>simp add: TransferGroupOwnerWithDB_def transaction_def Let_def\<close>)
qed (simp add: TransferGroupOwnerWithDB_def)

lemma Transfer_inv:
  "group_inv db \<Longrightarrow> group_inv (snd (TransferGroupOwnerWithDB clock actor g target db))"
  by (auto simp: Transfer_result hand_over_inv group_owner_def split: option.split)


text \<open>\<^verbatim>\<open>addGroupMemberTx\<close>: a new row with the role member, an existing one unchanged.\<close>

lemma addGroupMember_result:
  "addGroupMemberTx g u now db =
    (if group_owner db g = None then Inl ErrRelationshipNotFound
     else Inr (update_group (\<lambda>r. gr_group_id r = g) (\<lambda>r. r\<lparr>gr_update_time := now\<rparr>)
                 (if member_role db g u = None then insert_member now g u GroupRoleMember db else db)))"
proof (cases "GetGroupByIDWithDB g db")
  case (Some r)
  then show ?thesis
    using create_member_fresh [of g u db GroupRoleMember now] GetGroup_SomeD [OF Some]
    by (cases "find_member g u db") (auto simp: addGroupMemberTx_def group_owner_def groupRoleTx_def)
qed (simp add: addGroupMemberTx_def group_owner_def)

lemma addGroupMember_view:
  assumes "addGroupMemberTx g u now db = Inr db'"
  shows "group_owner db' h = group_owner db h"
    "member_role db' h v = (if h = g \<and> v = u \<and> member_role db g u = None then Some GroupRoleMember else member_role db h v)"
  using assms by (auto simp: addGroupMember_result members.role_add split: if_splits)

lemma addGroupMember_inv:
  assumes inv: "group_inv db" and a: "addGroupMemberTx g u now db = Inr db'"
  shows "group_inv db'"
proof (rule group_inv_local [OF inv, of _ g])
  show "group_keys db'"
    using a inv by (auto simp: addGroupMember_result group_inv_def key_simps split: if_splits)
  obtain w where w: "group_owner db g = Some w" using a by (auto simp: addGroupMember_result split: if_splits)
  then show "owner_inv db' g"
    using group_inv_sole [OF inv w]
    by (cases "u = w") (simp_all add: owner_inv_def addGroupMember_view [OF a] sole_owner_def owner_role [OF inv w])
qed (simp_all add: addGroupMember_view [OF a])

section \<open>An executable form of the invariant\<close>

definition group_inv_check :: "database \<Rightarrow> bool" where
  "group_inv_check db \<longleftrightarrow>
     distinct (map gr_group_id (chat_groups db)) \<and> distinct (map member_key (group_members db)) \<and>
     list_all (\<lambda>m. case GetGroupByIDWithDB (gm_group_id m) db of
        None \<Rightarrow> False
      | Some g \<Rightarrow> gm_role m = GroupRoleOwner \<longleftrightarrow> gm_user_id m = gr_owner_user_id g) (group_members db) \<and>
     list_all (\<lambda>g. gr_is_delete g \<or> groupRoleTx (gr_group_id g) (gr_owner_user_id g) db = Some GroupRoleOwner)
       (chat_groups db)"

lemma group_inv_check_owner_inv:
  assumes c: "group_inv_check db"
  shows "owner_inv db g"
proof -
  have k: "group_keys db" using c by (simp add: group_inv_check_def group_keys_def)
  have m: "\<exists>r. GetGroupByIDWithDB g db = Some r \<and> (x = GroupRoleOwner \<longleftrightarrow> u = gr_owner_user_id r)"
    if "member_role db g u = Some x" for u x
    using that c unfolding member_role_Some [OF k]
    by (auto simp: group_inv_check_def list_all_iff split: option.splits)
  show ?thesis
  proof (cases "GetGroupByIDWithDB g db")
    case None
    then have "member_role db g u = None" for u using m [of u] by (cases "member_role db g u") auto
    with None show ?thesis by (simp add: owner_inv_def group_owner_def)
  next
    case (Some r)
    with c GetGroup_SomeD [OF Some] have "member_role db g (gr_owner_user_id r) = Some GroupRoleOwner"
      by (auto simp: group_inv_check_def list_all_iff)
    then have "sole_owner (member_role db g) (gr_owner_user_id r)"
      using m Some by (auto simp: sole_owner_def)
    with Some show ?thesis by (simp add: owner_inv_def group_owner_def)
  qed
qed

lemma group_inv_checkI: "group_inv_check db \<Longrightarrow> group_inv db"
  by (simp add: group_inv_def group_inv_check_owner_inv) (simp add: group_inv_check_def group_keys_def)

section \<open>Properties\<close>

text \<open>
  Ownership transfer: on a consistent database, when the group's owner hands the group to a
  different member, \<^verbatim>\<open>TransferGroupOwnerWithDB\<close> succeeds, the target is the only member with the
  role owner and the group's recorded owner, the previous owner is an administrator, every other
  role and every other group is untouched, and the invariant still holds.
\<close>

theorem TransferGroupOwner_correct:
  assumes inv: "group_inv db" and pos: "0 < actor" "0 < g" "0 < target" and n: "actor \<noteq> target"
    and owner: "group_owner db g = Some actor" and target: "groupRoleTx g target db \<noteq> None"
  shows "\<exists>name db'. TransferGroupOwnerWithDB clock actor g target db = (Inr (name, actor, NowTime clock), db') \<and>
    group_inv db' \<and>
    (\<forall>h. group_owner db' h = (if h = g then Some target else group_owner db h)) \<and>
    (\<forall>h u. groupRoleTx h u db' = (if h = g \<and> u = actor then Some GroupRoleAdmin
        else if h = g \<and> u = target then Some GroupRoleOwner else groupRoleTx h u db))"
proof -
  obtain r where r: "GetGroupByIDWithDB g db = Some r" "gr_owner_user_id r = actor"
    using owner by (auto simp: group_owner_def)
  have a: "groupRoleTx g actor db \<noteq> None" using owner_role [OF inv owner] by simp
  have "TransferGroupOwnerWithDB clock actor g target db =
      (Inr (gr_name r, actor, NowTime clock), hand_over (NowTime clock) g actor target db)"
    using pos n r target by (simp add: Transfer_result [OF inv])
  then show ?thesis
    using hand_over_inv(1) [OF inv owner target n] hand_over_view [OF owner a target n] by auto
qed

definition sample_group_db :: database where
  "sample_group_db = \<lparr>users = [], friends = [],
     chat_groups = [\<lparr>gr_group_id = 7, gr_name = ''team'', gr_avatar = [], gr_owner_user_id = 1, gr_is_delete = False, gr_update_time = ''t0''\<rparr>],
     group_members = [newGroupMember 7 1 ''owner'' ''t0'', newGroupMember 7 2 ''member'' ''t1'', newGroupMember 7 3 ''admin'' ''t2''],
     relationship_requests = [], messages = [], file_metadata = [], users_id_seq = 4, relationship_requests_id_seq = 1, messages_id_seq = 1\<rparr>"

lemma sample_group_db_inv: "group_inv sample_group_db"
  by (rule group_inv_checkI) code_simp

theorem TransferGroupOwner_correct_witness:
  "\<exists>name db'. TransferGroupOwnerWithDB 0 1 7 2 sample_group_db = (Inr (name, 1, NowTime 0), db') \<and>
    group_owner db' 7 = Some 2 \<and> groupRoleTx 7 1 db' = Some ''admin''"
proof -
  have "group_owner sample_group_db 7 = Some 1" "groupRoleTx 7 2 sample_group_db = Some ''member''" by code_simp+
  then show ?thesis
    using TransferGroupOwner_correct [OF sample_group_db_inv, of 1 7 2 0] by fastforce
qed

text \<open>
  Leaving a group: a member who is not the owner simply disappears from the member list. When
  the owner leaves, the member of least rank in the order \<^verbatim>\<open>admin first, then update_time, then
  user_id\<close> becomes the recorded and the only owner; when nobody is left, the group is deleted. The
  leaver has no role afterwards and no other group changes.
\<close>

theorem RemoveUserFromGroup_correct:
  assumes inv: "group_inv db" and m: "groupRoleTx g u db \<noteq> None"
  shows "\<exists>db'. RemoveUserFromGroupWithDB clock g u db = (Inr (True, True, NowTime clock), db') \<and>
    group_inv db' \<and> groupRoleTx g u db' = None \<and>
    (\<forall>h v. h \<noteq> g \<longrightarrow> group_owner db' h = group_owner db h \<and> groupRoleTx h v db' = groupRoleTx h v db) \<and>
    (if group_owner db g \<noteq> Some u
     then group_owner db' g = group_owner db g \<and> (\<forall>v. v \<noteq> u \<longrightarrow> groupRoleTx g v db' = groupRoleTx g v db)
     else if \<forall>v. v \<noteq> u \<longrightarrow> groupRoleTx g v db = None then group_owner db' g = None
     else \<exists>s\<in>set (group_members db). gm_group_id s = g \<and> gm_user_id s \<noteq> u \<and>
       (\<forall>x\<in>set (group_members db). gm_group_id x = g \<and> gm_user_id x \<noteq> u \<longrightarrow> successor_rank s \<le> successor_rank x) \<and>
       group_owner db' g = Some (gm_user_id s) \<and>
       (\<forall>v. v \<noteq> u \<longrightarrow> groupRoleTx g v db' = (if v = gm_user_id s then Some GroupRoleOwner else groupRoleTx g v db)))"
proof -
  have o: "group_owner db g \<noteq> None" using group_owner_of_member [OF inv] m by force
  note lv = leave_group_owner [OF o] leave_group_role
  let ?db = "leave_group (NowTime clock) g u db"
  have e: "RemoveUserFromGroupWithDB clock g u db = (Inr (True, True, NowTime clock), ?db)"
    by (rule RemoveUser_leave [OF o m])
  have succ: "\<exists>s\<in>set (group_members db). gm_group_id s = g \<and> gm_user_id s \<noteq> u \<and>
       (\<forall>x\<in>set (group_members db). gm_group_id x = g \<and> gm_user_id x \<noteq> u \<longrightarrow> successor_rank s \<le> successor_rank x) \<and>
       group_owner ?db g = Some (gm_user_id s) \<and>
       (\<forall>v. v \<noteq> u \<longrightarrow> groupRoleTx g v ?db = (if v = gm_user_id s then Some GroupRoleOwner else groupRoleTx g v db))"
    if own: "group_owner db g = Some u" and some: "find_successor g u db = Some s" for s
    using own some find_successor_Some [OF some] by (intro bexI [of _ s]) (auto simp: lv)
  have "if group_owner db g \<noteq> Some u
     then group_owner ?db g = group_owner db g \<and> (\<forall>v. v \<noteq> u \<longrightarrow> groupRoleTx g v ?db = groupRoleTx g v db)
     else if \<forall>v. v \<noteq> u \<longrightarrow> groupRoleTx g v db = None then group_owner ?db g = None
     else \<exists>s\<in>set (group_members db). gm_group_id s = g \<and> gm_user_id s \<noteq> u \<and>
       (\<forall>x\<in>set (group_members db). gm_group_id x = g \<and> gm_user_id x \<noteq> u \<longrightarrow> successor_rank s \<le> successor_rank x) \<and>
       group_owner ?db g = Some (gm_user_id s) \<and>
       (\<forall>v. v \<noteq> u \<longrightarrow> groupRoleTx g v ?db = (if v = gm_user_id s then Some GroupRoleOwner else groupRoleTx g v db))"
    using succ unfolding find_successor_None [symmetric] by (cases "find_successor g u db") (auto simp: lv)
  moreover have "groupRoleTx g u ?db = None"
    "\<forall>h v. h \<noteq> g \<longrightarrow> group_owner ?db h = group_owner db h \<and> groupRoleTx h v ?db = groupRoleTx h v db"
    by (simp_all add: lv)
  ultimately show ?thesis using e leave_group_inv [OF inv o] by blast
qed

theorem RemoveUserFromGroup_correct_witness:
  "\<exists>db'. RemoveUserFromGroupWithDB 0 7 1 sample_group_db = (Inr (True, True, NowTime 0), db') \<and>
    group_inv db' \<and> groupRoleTx 7 1 db' = None"
proof -
  have "groupRoleTx 7 1 sample_group_db = Some ''owner''" by code_simp
  then show ?thesis using RemoveUserFromGroup_correct [OF sample_group_db_inv, of 7 1 0] by auto
qed

text \<open>
  Who may remove whom: \<^verbatim>\<open>KickGroupMemberByWithDB\<close> succeeds exactly when the target is a member and
  the actor is the owner acting on someone else, or an administrator acting on a plain member; then
  the target's membership, and nothing else, is gone. In every other case an error is returned and
  nothing changes.
\<close>

theorem KickGroupMember_authorised:
  assumes inv: "group_inv db"
  shows "let allowed = (group_owner db g = Some actor \<and> groupRoleTx g target db \<noteq> None \<and> target \<noteq> actor \<or>
                   groupRoleTx g actor db = Some GroupRoleAdmin \<and> groupRoleTx g target db = Some GroupRoleMember)
    in case KickGroupMemberByWithDB clock actor g target db of
         (Inl _, db') \<Rightarrow> \<not> allowed \<and> db' = db
       | (Inr _, db') \<Rightarrow> allowed \<and> group_inv db' \<and>
           (\<forall>h. group_owner db' h = group_owner db h) \<and>
           (\<forall>h v. groupRoleTx h v db' = (if h = g \<and> v = target then None else groupRoleTx h v db))"
proof -
  have own: "groupRoleTx g u db = Some GroupRoleOwner \<longleftrightarrow> group_owner db g = Some u" for u
    using group_inv_sole [OF inv] group_owner_of_member [OF inv, of g u] owner_role [OF inv, of g u]
    by (auto simp: sole_owner_def)
  show ?thesis
    using own [of actor] own [of target] Kick_inv [OF inv, of clock actor g target]
    by (auto simp: Kick_result canManageGroup_def canKickGroupMember_def members.role_remove Let_def
        split: option.splits if_splits)
qed

theorem KickGroupMember_authorised_witness:
  "(case KickGroupMemberByWithDB 0 3 7 2 sample_group_db of (Inl _, _) \<Rightarrow> False | (Inr _, db') \<Rightarrow> groupRoleTx 7 2 db' = None)"
proof -
  have "groupRoleTx 7 3 sample_group_db = Some ''admin''" "groupRoleTx 7 2 sample_group_db = Some ''member''"
    by code_simp+
  then show ?thesis
    using KickGroupMember_authorised [OF sample_group_db_inv, of 7 3 2 0]
    by (auto simp: Let_def split: prod.splits sum.splits)
qed

end
