(* ===== verification/Request_Laws.thy ===== *)
theory Request_Laws
  imports Requests Group_Laws
begin

text \<open>
  Correctness of the friend table and of relationship requests. The interface \<open>friend_graph\<close> states
  what linking and unlinking two users does to the active friendships; the friend table provides it.
  The invariant \<open>request_inv\<close>: identifiers are unique and below the sequence, a request has an active
  key exactly while it is pending, the key is the canonical key of what the request is about, and no
  two requests hold the same key. A request that is no longer pending never changes again
  (\<open>closed_final\<close>).
\<close>

section \<open>Friendships\<close>

locale friend_graph =
  fixes active :: "'s \<Rightarrow> int \<Rightarrow> int \<Rightarrow> bool"
    and link :: "int \<Rightarrow> int \<Rightarrow> 's \<Rightarrow> 's"
    and unlink :: "int \<Rightarrow> int \<Rightarrow> 's \<Rightarrow> 's"
  assumes active_link: "active (link a b s) x y \<longleftrightarrow> active s x y \<or> x = a \<and> y = b \<or> x = b \<and> y = a"
    and active_unlink: "active (unlink a b s) x y \<longleftrightarrow> active s x y \<and> \<not> (x = a \<and> y = b) \<and> \<not> (x = b \<and> y = a)"
begin

lemma link_symmetric: "symp (active s) \<Longrightarrow> symp (active (link a b s))"
  by (auto simp: symp_def active_link)

lemma unlink_symmetric: "symp (active s) \<Longrightarrow> symp (active (unlink a b s))"
  by (auto simp: symp_def active_unlink)

lemma link_both: "active (link a b s) a b \<and> active (link a b s) b a"
  by (simp add: active_link)

lemma unlink_both: "\<not> active (unlink a b s) a b \<and> \<not> active (unlink a b s) b a"
  by (simp add: active_unlink)

lemma unlink_link: "\<not> active s a b \<Longrightarrow> \<not> active s b a \<Longrightarrow> active (unlink a b (link a b s)) = active s"
  by (auto simp: fun_eq_iff active_link active_unlink)

end

definition active_friend :: "database \<Rightarrow> int \<Rightarrow> int \<Rightarrow> bool" where
  "active_friend db a b = friendshipActiveWithDB a b db"

definition link_friend1 :: "string \<Rightarrow> int \<Rightarrow> int \<Rightarrow> database \<Rightarrow> database" where
  "link_friend1 now a b db =
     db\<lparr>friends :=
       (if \<exists>f\<in>set (friends db). fr_user_id f = a \<and> fr_friend_id f = b
        then sql_update (\<lambda>f. friend_key f = (a, b)) (\<lambda>f. f\<lparr>fr_is_delete := False, fr_update_time := now\<rparr>) (friends db)
        else friends db @ [\<lparr>fr_user_id = a, fr_friend_id = b, fr_is_notify = True, fr_alias = [],
                            fr_is_delete = False, fr_update_time = now\<rparr>])\<rparr>"

definition link_friends :: "string \<Rightarrow> int \<Rightarrow> int \<Rightarrow> database \<Rightarrow> database" where
  "link_friends now a b db = link_friend1 now b a (link_friend1 now a b db)"

lemma addDirectFriend1_result: "addDirectFriend1 a b now db = Inr (link_friend1 now a b db)"
proof (cases "sql_first (\<lambda>f. fr_user_id f = a \<and> fr_friend_id f = b) (friends db)")
  case None
  then have "\<not> (\<exists>f\<in>set (friends db). fr_user_id f = a \<and> fr_friend_id f = b)" by (auto simp: sql_first_None)
  with None show ?thesis
    by (auto simp: addDirectFriend1_def link_friend1_def sql_create_def friend_key_def image_iff)
next
  case (Some f)
  then have "f \<in> set (friends db)" "friend_key f = (a, b)" by (auto dest: sql_first_SomeD simp: friend_key_def)
  with Some show ?thesis by (auto simp: addDirectFriend1_def link_friend1_def friend_key_def)
qed

lemma addDirectFriendPair_result: "addDirectFriendPairTx a b now db = Inr (link_friends now a b db)"
  by (simp add: addDirectFriendPairTx_def addDirectFriend1_result link_friends_def)

lemma active_friend_iff:
  "active_friend db a b \<longleftrightarrow> (\<exists>f\<in>set (friends db). fr_user_id f = a \<and> fr_friend_id f = b \<and> \<not> fr_is_delete f)"
  by (simp add: active_friend_def friendshipActiveWithDB_def sql_count_pos_iff)

lemma active_link_friend1: "active_friend (link_friend1 now a b db) x y \<longleftrightarrow> active_friend db x y \<or> x = a \<and> y = b"
proof (cases "\<exists>f\<in>set (friends db). fr_user_id f = a \<and> fr_friend_id f = b")
  case True
  then show ?thesis
    by (cases "x = a \<and> y = b") (auto simp: active_friend_iff link_friend1_def bex_sql_update friend_key_def)
next
  case False
  then show ?thesis by (auto simp: active_friend_iff link_friend1_def)
qed

definition unlink_friends :: "instant \<Rightarrow> int \<Rightarrow> int \<Rightarrow> database \<Rightarrow> database" where
  "unlink_friends clock a b db = snd (RemoveDirectFriendPairWithDB clock a b db)"

lemma removeDirectFriend1_active:
  "(\<exists>f\<in>set (removeDirectFriend1 a b now fs). fr_user_id f = x \<and> fr_friend_id f = y \<and> \<not> fr_is_delete f) \<longleftrightarrow>
   (\<exists>f\<in>set fs. fr_user_id f = x \<and> fr_friend_id f = y \<and> \<not> fr_is_delete f) \<and> \<not> (x = a \<and> y = b)"
  by (auto simp: removeDirectFriend1_def bex_sql_update)

interpretation friendship: friend_graph active_friend "link_friends now" "unlink_friends clock" for now clock
proof
  show "active_friend (link_friends now a b s) x y \<longleftrightarrow> active_friend s x y \<or> x = a \<and> y = b \<or> x = b \<and> y = a" for a b s x y
    by (auto simp: link_friends_def active_link_friend1)
  show "active_friend (unlink_friends clock a b s) x y \<longleftrightarrow>
      active_friend s x y \<and> \<not> (x = a \<and> y = b) \<and> \<not> (x = b \<and> y = a)" for a b s x y
    by (auto simp: unlink_friends_def RemoveDirectFriendPairWithDB_def Let_def active_friend_iff removeDirectFriend1_active)
qed

definition friend_inv :: "database \<Rightarrow> bool" where
  "friend_inv db \<longleftrightarrow> distinct (map friend_key (friends db)) \<and> symp (active_friend db)"

lemma friend_keys_link1: "distinct (map friend_key (friends db)) \<Longrightarrow> distinct (map friend_key (friends (link_friend1 now a b db)))"
  by (auto simp: link_friend1_def map_key_sql_update friend_key_def)

lemma link_friends_inv: "friend_inv db \<Longrightarrow> friend_inv (link_friends now a b db)"
  unfolding friend_inv_def by (auto intro: friendship.link_symmetric) (simp add: link_friends_def friend_keys_link1)

lemma unlink_friends_inv: "friend_inv db \<Longrightarrow> friend_inv (unlink_friends clock a b db)"
  unfolding friend_inv_def
  by (auto intro: friendship.unlink_symmetric)
     (simp add: unlink_friends_def RemoveDirectFriendPairWithDB_def Let_def removeDirectFriend1_def map_key_sql_update friend_key_def)

text \<open>The alias and the notification switch do not touch who is a friend of whom.\<close>

lemma UpdateFriend_active:
  "active_friend (snd (UpdateFriendAliasWithDB clock a b alias db)) x y = active_friend db x y"
  "active_friend (snd (UpdateFriendNotifyWithDB clock a b notify db)) x y = active_friend db x y"
  by (auto simp: active_friend_iff UpdateFriendAliasWithDB_def UpdateFriendNotifyWithDB_def Let_def bex_sql_update)

lemma UpdateFriend_inv:
  "friend_inv db \<Longrightarrow> friend_inv (snd (UpdateFriendAliasWithDB clock a b alias db))"
  "friend_inv db \<Longrightarrow> friend_inv (snd (UpdateFriendNotifyWithDB clock a b notify db))"
  unfolding friend_inv_def symp_def UpdateFriend_active
  by (simp_all add: UpdateFriendAliasWithDB_def UpdateFriendNotifyWithDB_def Let_def map_key_sql_update friend_key_def)


section \<open>Active keys\<close>

definition request_key :: "request_row \<Rightarrow> string" where
  "request_key r =
     (if rq_type r = RequestTypeFriend then friend_request_key (rq_requester_user_id r) (rq_target_user_id r)
      else if rq_type r = RequestTypeGroupJoin then group_join_key (rq_group_id r) (rq_requester_user_id r)
      else group_invite_key (rq_group_id r) (rq_target_user_id r))"

lemma pair_key_inject: "itoa a @ '':'' @ itoa b = itoa c @ '':'' @ itoa d \<longleftrightarrow> a = c \<and> b = d"
  using append_sep_inject [of "CHR '':''" "itoa a" "itoa c" "itoa b" "itoa d"] itoa_no_colon by simp

lemma friend_request_key_inject:
  "friend_request_key a b = friend_request_key c d \<longleftrightarrow> a = c \<and> b = d \<or> a = d \<and> b = c"
  using pair_key_inject by (auto simp: friend_request_key_def)

lemma group_key_inject [simp]:
  "group_join_key g u = group_join_key h v \<longleftrightarrow> g = h \<and> u = v"
  "group_invite_key g u = group_invite_key h v \<longleftrightarrow> g = h \<and> u = v"
  using pair_key_inject by (auto simp: group_join_key_def group_invite_key_def)

lemma keys_disjoint [simp]:
  "friend_request_key a b \<noteq> group_join_key g u" "friend_request_key a b \<noteq> group_invite_key g u"
  "group_join_key g u \<noteq> group_invite_key h v" "group_join_key g u \<noteq> friend_request_key a b"
  "group_invite_key g u \<noteq> friend_request_key a b" "group_invite_key h v \<noteq> group_join_key g u"
  by (simp_all add: friend_request_key_def group_join_key_def group_invite_key_def)

definition same_subject :: "request_row \<Rightarrow> request_row \<Rightarrow> bool" where
  "same_subject r s \<longleftrightarrow> rq_type r = rq_type s \<and>
     (if rq_type r = RequestTypeFriend
      then {rq_requester_user_id r, rq_target_user_id r} = {rq_requester_user_id s, rq_target_user_id s}
      else rq_group_id r = rq_group_id s \<and> groupRequestUserID r = groupRequestUserID s)"

definition request_types :: "string set" where
  "request_types = {RequestTypeFriend, RequestTypeGroupJoin, RequestTypeGroupInvite}"

definition request_statuses :: "string set" where
  "request_statuses = {RequestStatusPending, RequestStatusAccepted, RequestStatusRejected, RequestStatusCancelled, RequestStatusExpired}"

lemma request_key_eq_iff:
  assumes "rq_type r \<in> request_types" "rq_type s \<in> request_types"
  shows "request_key r = request_key s \<longleftrightarrow> same_subject r s"
  using assms
  by (auto simp: request_types_def request_key_def same_subject_def friend_request_key_inject groupRequestUserID_def doubleton_eq_iff)

section \<open>The invariant of the request table\<close>

definition request_ok :: "request_row \<Rightarrow> bool" where
  "request_ok r \<longleftrightarrow> rq_type r \<in> request_types \<and> rq_status r \<in> request_statuses \<and>
     rq_active_key r = (if rq_status r = RequestStatusPending then Some (request_key r) else None)"

definition request_inv :: "database \<Rightarrow> bool" where
  "request_inv db \<longleftrightarrow>
     distinct (map rq_id (relationship_requests db)) \<and> 0 < relationship_requests_id_seq db \<and>
     (\<forall>r\<in>set (relationship_requests db). 0 < rq_id r \<and> rq_id r < relationship_requests_id_seq db \<and> request_ok r) \<and>
     distinct (map rq_active_key (filter (\<lambda>r. rq_status r = RequestStatusPending) (relationship_requests db)))"

text \<open>A request that is not pending is never changed or removed.\<close>

definition closed_final :: "database \<Rightarrow> database \<Rightarrow> bool" where
  "closed_final db db' \<longleftrightarrow>
     (\<forall>i r. find_request i db = Some r \<and> rq_status r \<noteq> RequestStatusPending \<longrightarrow> find_request i db' = Some r)"

lemma closed_final_refl [simp]: "closed_final db db"
  by (simp add: closed_final_def)

lemma closed_final_trans: "closed_final db db1 \<Longrightarrow> closed_final db1 db2 \<Longrightarrow> closed_final db db2"
  by (simp add: closed_final_def)

lemma closed_final_same: "relationship_requests db' = relationship_requests db \<Longrightarrow> closed_final db db'"
  by (simp add: closed_final_def find_request_def)

lemma request_inv_same:
  "relationship_requests db' = relationship_requests db \<Longrightarrow>
   relationship_requests_id_seq db' = relationship_requests_id_seq db \<Longrightarrow> request_inv db' = request_inv db"
  by (simp add: request_inv_def)

lemma find_request_update:
  assumes "\<And>r. rq_id (f r) = rq_id r"
  shows "find_request i (update_requests c f db) = map_option (\<lambda>r. if c r then f r else r) (find_request i db)"
proof -
  have "sql_first (\<lambda>r. rq_id r = i) (sql_update c f t) =
      map_option (\<lambda>r. if c r then f r else r) (sql_first (\<lambda>r. rq_id r = i) t)" for t
    by (induction t) (auto simp: assms)
  then show ?thesis by (simp add: find_request_def update_requests_def)
qed

text \<open>Closing rows: the update the four closing statements of the source share.\<close>

definition closes :: "(request_row \<Rightarrow> request_row) \<Rightarrow> bool" where
  "closes f \<longleftrightarrow> (\<forall>r. rq_id (f r) = rq_id r \<and> rq_type (f r) = rq_type r \<and>
     rq_status (f r) \<in> request_statuses - {RequestStatusPending} \<and> rq_active_key (f r) = None)"

lemma distinct_pending_close:
  assumes "closes f" "distinct (map rq_active_key (filter (\<lambda>r. rq_status r = RequestStatusPending) t))"
  shows "distinct (map rq_active_key (filter (\<lambda>r. rq_status r = RequestStatusPending) (sql_update c f t)))"
proof -
  have "filter (\<lambda>r. rq_status r = RequestStatusPending) (sql_update c f t) =
      filter (\<lambda>r. \<not> c r) (filter (\<lambda>r. rq_status r = RequestStatusPending) t)"
    using assms(1) by (induction t) (auto simp: closes_def)
  then show ?thesis using distinct_map_filter [OF assms(2), of "\<lambda>r. \<not> c r"] by simp
qed

lemma update_requests_closing_inv:
  assumes f: "closes f" and inv: "request_inv db"
  shows "request_inv (update_requests c f db)"
proof -
  have "\<forall>r\<in>set (sql_update c f (relationship_requests db)).
      0 < rq_id r \<and> rq_id r < relationship_requests_id_seq db \<and> request_ok r"
    using f inv by (auto simp: ball_sql_update request_inv_def request_ok_def closes_def)
  then show ?thesis
    using f inv distinct_pending_close [OF f, of "relationship_requests db" c]
    by (simp add: request_inv_def update_requests_def map_key_sql_update closes_def)
qed

lemma closes_expire_row [simp]: "closes (expire_row now)"
  by (simp add: closes_def expire_row_def request_statuses_def)

lemma update_requests_closed_final:
  assumes "\<And>r. rq_id (f r) = rq_id r" "\<And>r. c r \<Longrightarrow> rq_status r = RequestStatusPending"
  shows "closed_final db (update_requests c f db)"
  using assms by (auto simp: closed_final_def find_request_update)

lemma expire_closed_final:
  "(\<And>r. c r \<Longrightarrow> rq_status r = RequestStatusPending) \<Longrightarrow> closed_final db (update_requests c (expire_row now) db)"
  by (rule update_requests_closed_final) (simp_all add: expire_row_def)


section \<open>Creating a request\<close>

lemma expireActiveKey_inv: "request_inv db \<Longrightarrow> request_inv (expireActiveKey key now db)"
  by (simp add: expireActiveKey_def update_requests_closing_inv)

lemma expire_final:
  "closed_final db (expireActiveKey key now db)"
  "closed_final db (expireRequestsForUserWithDB now u db)"
  "closed_final db (expireRequestsForGroupWithDB now g db)"
  by (auto simp: expireActiveKey_def expireRequestsForUserWithDB_def expireRequestsForGroupWithDB_def intro: expire_closed_final)

definition append_request :: "request_row \<Rightarrow> database \<Rightarrow> database" where
  "append_request r db =
     db\<lparr>relationship_requests := relationship_requests db @ [r\<lparr>rq_id := relationship_requests_id_seq db\<rparr>],
        relationship_requests_id_seq := relationship_requests_id_seq db + 1\<rparr>"

lemma find_active_None: "find_active key db = None \<longleftrightarrow> (\<forall>r\<in>set (relationship_requests db). rq_active_key r \<noteq> Some key)"
  by (simp add: find_active_def sql_first_None)

lemma insert_request_fresh:
  assumes inv: "request_inv db" and k: "rq_active_key r = Some key" "find_active key db = None"
  shows "insert_request r db = (Inr (True, r\<lparr>rq_id := relationship_requests_id_seq db\<rparr>), append_request r db)"
proof -
  have "Some key \<notin> rq_active_key ` set (relationship_requests db)" using k(2) by (auto simp: find_active_None)
  moreover have "relationship_requests_id_seq db \<notin> rq_id ` set (relationship_requests db)"
    using inv by (auto simp: request_inv_def)
  ultimately show ?thesis
    by (simp add: insert_request_def Let_def k(1) sql_create_def append_request_def)
qed

lemma append_request_inv:
  assumes inv: "request_inv db" and r: "request_ok (r\<lparr>rq_id := relationship_requests_id_seq db\<rparr>)"
    and k: "rq_active_key r = Some key" "find_active key db = None"
  shows "request_inv (append_request r db)"
  using inv r k by (force simp: request_inv_def append_request_def find_active_None)

lemma append_request_final: "closed_final db (append_request r db)"
  by (auto simp: closed_final_def append_request_def find_request_def sql_first_append)

text \<open>What the creation returns: the reserved request, new or already there.\<close>

definition pending_request :: "instant \<Rightarrow> request_row \<Rightarrow> string \<Rightarrow> request_row" where
  "pending_request now r key =
     r\<lparr>rq_status := RequestStatusPending, rq_active_key := Some key, rq_created_at := relationshipTime now,
       rq_expires_at := relationshipTime (now + relationshipRequestTTL)\<rparr>"

lemma createPendingRequest_result:
  assumes inv: "request_inv db"
  shows "createPendingRequest now r key db =
    (let db1 = expireActiveKey key now db in
     case find_active key db1 of
       Some existing \<Rightarrow> (Inr (existing, False), db1)
     | None \<Rightarrow> (Inr ((pending_request now r key)\<lparr>rq_id := relationship_requests_id_seq db1\<rparr>, True),
                append_request (pending_request now r key) db1))"
proof -
  let ?db = "expireActiveKey key now db"
  have inv1: "request_inv ?db" using inv by (rule expireActiveKey_inv)
  have "find_active key ?db = None \<Longrightarrow> insert_request (pending_request now r key) ?db =
      (Inr (True, (pending_request now r key)\<lparr>rq_id := relationship_requests_id_seq ?db\<rparr>), append_request (pending_request now r key) ?db)"
    by (rule insert_request_fresh [OF inv1]) (simp_all add: pending_request_def)
  then show ?thesis
    by (auto simp: createPendingRequest_def transaction_def relationshipWindow_def Let_def pending_request_def split: option.split)
qed

lemma createPendingRequest_inv:
  assumes inv: "request_inv db" and t: "rq_type r \<in> request_types" and k: "key = request_key r"
  shows "request_inv (snd (createPendingRequest now r key db))"
    "closed_final db (snd (createPendingRequest now r key db))"
proof -
  let ?db = "expireActiveKey key now db" and ?r = "pending_request now r key"
  have inv1: "request_inv ?db" using inv by (rule expireActiveKey_inv)
  have ok: "request_ok (?r\<lparr>rq_id := i\<rparr>)" for i
    using t k by (simp add: request_ok_def pending_request_def request_statuses_def request_key_def)
  have "request_inv (append_request ?r ?db)" if "find_active key ?db = None"
    by (rule append_request_inv [OF inv1 ok _ that]) (simp add: pending_request_def)
  then show "request_inv (snd (createPendingRequest now r key db))"
    using inv1 by (simp add: createPendingRequest_result [OF inv] Let_def split: option.split)
  show "closed_final db (snd (createPendingRequest now r key db))"
    by (auto simp: createPendingRequest_result [OF inv] Let_def expire_final split: option.split
        intro: closed_final_trans [OF expire_final(1) append_request_final])
qed

lemma createPendingRequest_found:
  assumes inv: "request_inv db" and t: "rq_type r \<in> request_types" and k: "key = request_key r"
  shows "case createPendingRequest now r key db of
      (Inl _, _) \<Rightarrow> False
    | (Inr (q, created), db') \<Rightarrow> find_request (rq_id q) db' = Some q \<and> rq_status q = RequestStatusPending \<and>
        rq_active_key q = Some key \<and> 0 < rq_id q"
proof -
  let ?db = "expireActiveKey key now db" and ?r = "pending_request now r key"
  have inv1: "request_inv ?db" using inv by (rule expireActiveKey_inv)
  have uniq: "find_request (rq_id q) ?db = Some q" if "q \<in> set (relationship_requests ?db)" for q
  proof -
    have "distinct (map rq_id t) \<Longrightarrow> q \<in> set t \<Longrightarrow> sql_first (\<lambda>x. rq_id x = rq_id q) t = Some q" for t
      by (induction t) (auto simp: image_iff)
    with that inv1 show ?thesis by (simp add: find_request_def request_inv_def)
  qed
  show ?thesis
  proof (cases "find_active key ?db")
    case None
    have "find_request (relationship_requests_id_seq ?db) ?db = None"
      using inv1 by (auto simp: find_request_def sql_first_None request_inv_def)
    with None inv1 show ?thesis
      by (simp add: createPendingRequest_result [OF inv] Let_def append_request_def find_request_def sql_first_append
          pending_request_def request_inv_def)
  next
    case (Some q)
    then have q: "q \<in> set (relationship_requests ?db)" "rq_active_key q = Some key"
      by (auto simp: find_active_def dest: sql_first_SomeD)
    with inv1 have "rq_status q = RequestStatusPending" "0 < rq_id q"
      by (auto simp: request_inv_def request_ok_def split: if_splits)
    with Some q uniq show ?thesis by (simp add: createPendingRequest_result [OF inv] Let_def)
  qed
qed

text \<open>
  The friend, group and member tables are not touched by the request table's statements.
\<close>

lemma update_requests_other [simp]:
  "friends (update_requests c f db) = friends db" "chat_groups (update_requests c f db) = chat_groups db"
  "group_members (update_requests c f db) = group_members db" "users (update_requests c f db) = users db"
  "messages (update_requests c f db) = messages db" "relationship_requests_id_seq (update_requests c f db) = relationship_requests_id_seq db"
  by (simp_all add: update_requests_def)

definition same_contacts :: "database \<Rightarrow> database \<Rightarrow> bool" where
  "same_contacts db db' \<longleftrightarrow> friends db' = friends db \<and> chat_groups db' = chat_groups db \<and> group_members db' = group_members db"

lemma same_contacts_refl [simp]: "same_contacts db db"
  by (simp add: same_contacts_def)

lemma group_inv_same:
  assumes "chat_groups db' = chat_groups db" "group_members db' = group_members db"
  shows "group_inv db' = group_inv db"
proof -
  have "owner_inv db' g = owner_inv db g" for g
    using assms by (intro owner_inv_cong) (simp_all add: group_owner_def GetGroupByIDWithDB_def groupRoleTx_def find_member_def)
  with assms show ?thesis by (simp add: group_inv_def group_keys_def)
qed

lemma same_contacts_view:
  assumes "same_contacts db db'"
  shows "groupRoleTx g u db' = groupRoleTx g u db" "group_owner db' g = group_owner db g" "active_friend db' a b = active_friend db a b"
  using assms
  by (simp_all add: same_contacts_def group_owner_def GetGroupByIDWithDB_def groupRoleTx_def find_member_def active_friend_def
      friendshipActiveWithDB_def)

lemma same_contacts_inv:
  assumes c: "same_contacts db db'"
  shows "group_inv db' = group_inv db" "friend_inv db' = friend_inv db"
proof -
  show "group_inv db' = group_inv db" using c by (intro group_inv_same) (simp_all add: same_contacts_def)
  have "active_friend db' = active_friend db" by (simp add: fun_eq_iff same_contacts_view [OF c])
  with c show "friend_inv db' = friend_inv db" by (simp add: friend_inv_def same_contacts_def)
qed

lemma createPendingRequest_contacts:
  "request_inv db \<Longrightarrow> same_contacts db (snd (createPendingRequest now r key db))"
  by (auto simp: createPendingRequest_result Let_def same_contacts_def append_request_def expireActiveKey_def split: option.split)


section \<open>The invariant of the whole contact database\<close>

definition contact_inv :: "database \<Rightarrow> bool" where
  "contact_inv db \<longleftrightarrow> group_inv db \<and> friend_inv db \<and> request_inv db"

text \<open>One step of the contact database: the invariant is kept and closed requests are final.\<close>

definition safe_step :: "database \<Rightarrow> database \<Rightarrow> bool" where
  "safe_step db db' \<longleftrightarrow> (contact_inv db \<longrightarrow> contact_inv db' \<and> closed_final db db')"

lemma safe_step_refl [simp]: "safe_step db db"
  by (simp add: safe_step_def)

lemma safe_step_trans: "safe_step db db1 \<Longrightarrow> safe_step db1 db2 \<Longrightarrow> safe_step db db2"
  by (auto simp: safe_step_def intro: closed_final_trans)

lemma create_and_view_db: "snd (create_and_view clock r key db) = snd (createPendingRequest clock r key db)"
  by (simp add: create_and_view_def split: prod.split sum.split)

lemma create_and_view_safe:
  assumes "rq_type r \<in> request_types" "key = request_key r"
  shows "safe_step db (snd (create_and_view clock r key db))"
  unfolding safe_step_def contact_inv_def create_and_view_db
  using createPendingRequest_inv [OF _ assms, of db clock] createPendingRequest_contacts [of db clock r key]
  by (auto simp: same_contacts_inv)

lemma request_key_new [simp]:
  "request_key (new_request RequestTypeFriend a b 0 m) = friend_request_key a b"
  "request_key (new_request RequestTypeGroupJoin a b g m) = group_join_key g a"
  "request_key (new_request RequestTypeGroupInvite a b g m) = group_invite_key g b"
  "rq_type (new_request t a b g m) = t"
  by (simp_all add: request_key_def new_request_def)

lemma create_requests_safe:
  "safe_step db (snd (CreateFriendRequestWithDB clock a b m db))"
  "safe_step db (snd (CreateGroupJoinRequestWithDB clock a g m db))"
  "safe_step db (snd (CreateGroupInvitationWithDB clock a g b m db))"
  by (simp_all add: CreateFriendRequestWithDB_def CreateGroupJoinRequestWithDB_def CreateGroupInvitationWithDB_def
      create_and_view_safe request_types_def)

lemma expire_safe: "(\<And>r. c r \<Longrightarrow> rq_status r = RequestStatusPending) \<Longrightarrow> safe_step db (update_requests c (expire_row now) db)"
proof -
  assume c: "\<And>r. c r \<Longrightarrow> rq_status r = RequestStatusPending"
  have "same_contacts db (update_requests c (expire_row now) db)" by (simp add: same_contacts_def)
  then show ?thesis
    using expire_closed_final [OF c] by (simp add: safe_step_def contact_inv_def same_contacts_inv update_requests_closing_inv)
qed

lemma list_requests_safe:
  "safe_step db (snd (ListFriendRequestsWithDB clock u out db))"
  "safe_step db (snd (ListGroupJoinRequestsWithDB clock a g db))"
  "safe_step db (snd (ListGroupInvitationsWithDB clock u out db))"
  by (auto simp: ListFriendRequestsWithDB_def ListGroupJoinRequestsWithDB_def ListGroupInvitationsWithDB_def Let_def
      expireRequestsForUserWithDB_def expireRequestsForGroupWithDB_def intro: expire_safe)

section \<open>Resolving a request\<close>

lemma members_other [simp]:
  "relationship_requests (update_group c f db) = relationship_requests db"
  "relationship_requests (insert_member t g u r db) = relationship_requests db"
  "relationship_requests (update_member g u h db) = relationship_requests db"
  "relationship_requests (delete_member g u db) = relationship_requests db"
  "relationship_requests_id_seq (update_group c f db) = relationship_requests_id_seq db"
  "relationship_requests_id_seq (insert_member t g u r db) = relationship_requests_id_seq db"
  "relationship_requests_id_seq (update_member g u h db) = relationship_requests_id_seq db"
  "relationship_requests_id_seq (delete_member g u db) = relationship_requests_id_seq db"
  "friends (update_group c f db) = friends db" "friends (insert_member t g u r db) = friends db"
  "friends (update_member g u h db) = friends db" "friends (delete_member g u db) = friends db"
  by (simp_all add: update_group_def insert_member_def update_member_def delete_member_def)

lemma link_friends_other [simp]:
  "chat_groups (link_friends now a b db) = chat_groups db" "group_members (link_friends now a b db) = group_members db"
  "relationship_requests (link_friends now a b db) = relationship_requests db"
  "relationship_requests_id_seq (link_friends now a b db) = relationship_requests_id_seq db"
  by (simp_all add: link_friends_def link_friend1_def)

lemma friend_inv_same: "friends db' = friends db \<Longrightarrow> friend_inv db' = friend_inv db"
  by (simp add: friend_inv_def active_friend_def [abs_def] friendshipActiveWithDB_def)

lemma apply_acceptance_contact:
  assumes "apply_acceptance r t db = Inr db'"
  shows "relationship_requests db' = relationship_requests db"
    "relationship_requests_id_seq db' = relationship_requests_id_seq db"
    "contact_inv db \<Longrightarrow> contact_inv db'"
proof -
  show rq: "relationship_requests db' = relationship_requests db" "relationship_requests_id_seq db' = relationship_requests_id_seq db"
    using assms by (auto simp: apply_acceptance_def addDirectFriendPair_result addGroupMember_result split: if_splits)
  show "contact_inv db'" if inv: "contact_inv db"
  proof (cases "rq_type r = RequestTypeFriend")
    case True
    then have "db' = link_friends t (rq_requester_user_id r) (rq_target_user_id r) db"
      using assms by (simp add: apply_acceptance_def addDirectFriendPair_result)
    with inv show ?thesis
      using group_inv_same [of db' db] request_inv_same [OF rq] by (simp add: contact_inv_def link_friends_inv)
  next
    case False
    then have "db' = db \<or> addGroupMemberTx (rq_group_id r) (groupRequestUserID r) t db = Inr db'"
      using assms by (auto simp: apply_acceptance_def split: if_splits)
    moreover have "friends db' = friends db"
      using assms False by (auto simp: apply_acceptance_def addGroupMember_result split: if_splits)
    ultimately show ?thesis
      using inv request_inv_same [OF rq] friend_inv_same [of db' db] by (auto simp: contact_inv_def intro: addGroupMember_inv)
  qed
qed

lemma closeRequest_contact:
  assumes "status \<in> request_statuses - {RequestStatusPending}" "contact_inv db"
  shows "contact_inv (closeRequest r status actor now db)"
proof -
  have c: "closes (\<lambda>r. r\<lparr>rq_status := status, rq_active_key := None, rq_resolved_at := relationshipTime now, rq_resolved_by := actor\<rparr>)"
    using assms(1) by (simp add: closes_def)
  have "same_contacts db (closeRequest r status actor now db)" by (simp add: same_contacts_def closeRequest_def)
  with assms(2) show ?thesis
    using update_requests_closing_inv [OF c] by (simp add: contact_inv_def same_contacts_inv closeRequest_def)
qed

lemma find_request_id: "find_request i db = Some r \<Longrightarrow> rq_id r = i"
  by (auto simp: find_request_def dest: sql_first_SomeD)

lemma find_request_pos: "request_inv db \<Longrightarrow> find_request i db = Some r \<Longrightarrow> 0 < rq_id r"
  using sql_first_SomeD [of "\<lambda>r. rq_id r = i" "relationship_requests db" r] by (auto simp: request_inv_def find_request_def)

lemma closeRequest_final:
  assumes "find_request (rq_id r) db = Some r" "rq_status r = RequestStatusPending"
  shows "closed_final db (closeRequest r status actor now db)"
proof -
  have n: "rq_id q \<noteq> rq_id r" if "find_request i db = Some q" "rq_status q \<noteq> RequestStatusPending" for i q
    using that assms find_request_id [OF that(1)] by (metis option.inject)
  show ?thesis
    unfolding closed_final_def closeRequest_def
  proof (intro allI impI, elim conjE)
    fix i q assume q: "find_request i db = Some q" "rq_status q \<noteq> RequestStatusPending"
    from n [OF this] q show "find_request i (update_requests (\<lambda>x. rq_id x = rq_id r) (\<lambda>r. r\<lparr>rq_status := status,
        rq_active_key := None, rq_resolved_at := relationshipTime now, rq_resolved_by := actor\<rparr>) db) = Some q"
      by (simp add: find_request_update)
  qed
qed

lemma resolution_statuses: "isResolutionDecision d \<Longrightarrow> d \<in> request_statuses - {RequestStatusPending}"
  by (auto simp: isResolutionDecision_def request_statuses_def)

lemma find_request_same: "relationship_requests db' = relationship_requests db \<Longrightarrow> find_request i db' = find_request i db"
  by (simp add: find_request_def)

text \<open>The outcomes of the transaction on a request that is found with the right type and pending.\<close>

lemma resolveTx_pending:
  assumes "find_request i db = Some r" "rq_type r = type" "rq_status r = RequestStatusPending"
  shows "resolveTx now actor i type decision db =
    (if expired_at r now then (Inr (Some ErrRelationshipExpired), closeRequest r RequestStatusExpired actor now db)
     else if \<not> canResolveRequest actor r decision db then (Inl ErrRelationshipForbidden, db)
     else if \<not> isResolutionDecision decision then (Inl ErrRelationshipInvalidState, db)
     else if decision = RequestStatusAccepted then
       (case apply_acceptance r (relationshipUpdateTime now) db of
          Inl e \<Rightarrow> (Inl e, db)
        | Inr db1 \<Rightarrow> (Inr None, closeRequest r decision actor now db1))
     else (Inr None, closeRequest r decision actor now db))"
  using assms by (simp add: resolveTx_def transaction_def split: sum.split)

lemma resolveTx_closed:
  assumes "find_request i db = Some r" "rq_type r = type" "rq_status r \<noteq> RequestStatusPending"
  shows "resolveTx now actor i type decision db =
    (if rq_status r = decision \<and> rq_resolved_by r = actor \<and> isResolutionDecision decision then (Inr None, db)
     else if rq_status r = RequestStatusExpired then (Inl ErrRelationshipExpired, db)
     else (Inl ErrRelationshipInvalidState, db))"
  using assms by (simp add: resolveTx_def transaction_def)

lemma resolveTx_other:
  "find_request i db = None \<Longrightarrow> resolveTx now actor i type decision db = (Inl ErrRelationshipNotFound, db)"
  "find_request i db = Some r \<Longrightarrow> rq_type r \<noteq> type \<Longrightarrow> resolveTx now actor i type decision db = (Inl ErrRelationshipNotFound, db)"
  by (simp_all add: resolveTx_def transaction_def)

lemma close_safe:
  assumes "find_request (rq_id r) db = Some r" "rq_status r = RequestStatusPending" "s \<in> request_statuses - {RequestStatusPending}"
  shows "safe_step db (closeRequest r s actor now db)"
  using assms closeRequest_contact closeRequest_final by (simp add: safe_step_def)

lemma accept_safe:
  assumes id: "find_request (rq_id r) db = Some r" "rq_status r = RequestStatusPending"
    and a: "apply_acceptance r t db = Inr db1" and s: "s \<in> request_statuses - {RequestStatusPending}"
  shows "safe_step db (closeRequest r s actor now db1)"
proof (rule safe_step_trans)
  show "safe_step db db1"
    using apply_acceptance_contact [OF a] by (simp add: safe_step_def closed_final_same)
  have "find_request (rq_id r) db1 = Some r"
    using id find_request_same [OF apply_acceptance_contact(1) [OF a]] by simp
  then show "safe_step db1 (closeRequest r s actor now db1)" using id(2) s by (rule close_safe)
qed

lemma resolveTx_safe: "safe_step db (snd (resolveTx now actor i type decision db))"
proof (cases "find_request i db")
  case (Some r)
  have id: "find_request (rq_id r) db = Some r" using Some find_request_id [OF Some] by simp
  consider "rq_type r \<noteq> type" | "rq_type r = type" "rq_status r \<noteq> RequestStatusPending"
    | "rq_type r = type" "rq_status r = RequestStatusPending" by blast
  then show ?thesis
  proof cases
    case 3
    have e: "safe_step db (closeRequest r RequestStatusExpired actor now db)"
      by (rule close_safe [OF id 3(2)]) (simp add: request_statuses_def)
    show ?thesis
    proof (cases "isResolutionDecision decision")
      case True
      then show ?thesis
        unfolding resolveTx_pending [OF Some 3]
        using e close_safe [OF id 3(2) resolution_statuses] accept_safe [OF id 3(2) _ resolution_statuses]
        by (auto split: sum.split)
    qed (simp add: resolveTx_pending [OF Some 3] e)
  qed (simp_all add: resolveTx_other(2) [OF Some] resolveTx_closed [OF Some])
qed (simp add: resolveTx_other)

lemma resolveTx_success:
  assumes tx: "resolveTx now actor i type decision db = (Inr None, db')"
  shows "isResolutionDecision decision \<and>
    (\<exists>q. find_request i db' = Some q \<and> rq_type q = type \<and> rq_status q = decision \<and> rq_resolved_by q = actor)"
proof -
  obtain r where r: "find_request i db = Some r" "rq_type r = type"
    using tx by (auto simp: resolveTx_def transaction_def split: option.splits if_splits)
  have id: "rq_id r = i" by (rule find_request_id [OF r(1)])
  show ?thesis
  proof (cases "rq_status r = RequestStatusPending")
    case True
    from tx have d: "isResolutionDecision decision"
      unfolding resolveTx_pending [OF r True] by (auto split: if_splits sum.splits)
    from tx obtain db1 where db': "db' = closeRequest r decision actor now db1"
      and rq: "relationship_requests db1 = relationship_requests db"
      unfolding resolveTx_pending [OF r True]
      by (auto split: if_splits sum.splits dest: apply_acceptance_contact(1))
    with d show ?thesis
      using r id find_request_same [OF rq, of i] by (simp add: closeRequest_def find_request_update)
  next
    case False
    with tx r show ?thesis by (auto simp: resolveTx_closed split: if_splits)
  qed
qed

lemma resolveRequest_db: "snd (resolveRequest now actor i type decision db) = snd (resolveTx now actor i type decision db)"
  by (simp add: resolveRequest_def split: prod.split sum.split option.split)

lemma resolveRequest_safe:
  "safe_step db (snd (ResolveFriendRequestWithDB now actor i decision db))"
  "safe_step db (snd (ResolveGroupJoinRequestWithDB now actor i decision db))"
  "safe_step db (snd (ResolveGroupInvitationWithDB now actor i decision db))"
  by (simp_all add: ResolveFriendRequestWithDB_def ResolveGroupJoinRequestWithDB_def ResolveGroupInvitationWithDB_def
      resolveRequest_db resolveTx_safe)


section \<open>Properties\<close>

definition sample_contacts :: database where
  "sample_contacts = \<lparr>users = [], friends = [], chat_groups = [], group_members = [], relationship_requests = [],
     messages = [], file_metadata = [], users_id_seq = 1, relationship_requests_id_seq = 1, messages_id_seq = 1\<rparr>"

lemma sample_contacts_inv: "contact_inv sample_contacts"
proof -
  have "group_inv sample_contacts" by (rule group_inv_checkI) code_simp
  then show ?thesis
    by (simp add: contact_inv_def friend_inv_def symp_def active_friend_iff request_inv_def sample_contacts_def)
qed

definition sample_requested :: database where
  "sample_requested = snd (CreateFriendRequestWithDB 1700000000000000000 5 9 ''hello'' sample_contacts)"

definition sample_request :: request_row where
  "sample_request = (pending_request 1700000000000000000 (new_request RequestTypeFriend 5 9 0 ''hello'') ''friend:5:9'')\<lparr>rq_id := 1\<rparr>"

lemma sample_requested_inv: "contact_inv sample_requested"
  using create_requests_safe(1) [of sample_contacts 1700000000000000000 5 9 "''hello''"] sample_contacts_inv
  by (simp add: safe_step_def sample_requested_def)

lemma sample_requested_rows: "relationship_requests sample_requested = [sample_request]"
proof -
  have k: "friend_request_key 5 9 = ''friend:5:9''" by code_simp
  have "friendshipActiveWithDB 5 9 sample_contacts = False" by code_simp
  moreover have "request_inv sample_contacts" using sample_contacts_inv by (simp add: contact_inv_def)
  moreover have "find_active ''friend:5:9'' (expireActiveKey ''friend:5:9'' 1700000000000000000 sample_contacts) = None"
    by (simp add: find_active_def expireActiveKey_def update_requests_def sample_contacts_def)
  ultimately show ?thesis
    by (simp add: sample_requested_def CreateFriendRequestWithDB_def create_and_view_db createPendingRequest_result Let_def k
        append_request_def sample_request_def expireActiveKey_def update_requests_def)
       (simp add: sample_contacts_def)
qed

lemma sample_request_found: "find_request 1 sample_requested = Some sample_request"
  by (simp add: find_request_def sample_requested_rows) (simp add: sample_request_def)

lemma sample_request_fields:
  "rq_type sample_request = RequestTypeFriend" "rq_status sample_request = RequestStatusPending"
  "rq_target_user_id sample_request = 9" "rq_requester_user_id sample_request = 5"
  by (simp_all add: sample_request_def pending_request_def new_request_def)

lemma sample_request_open: "\<not> expired_at sample_request 1700000000000000001"
proof -
  have y: "four_digit_year (1700000000000000000 + relationshipRequestTTL)" by code_simp
  show ?thesis
    using Parse_layout_nano9 [OF y]
    by (simp add: expired_at_def sample_request_def pending_request_def relationshipTime_def relationshipRequestTTL_def)
qed

lemma sample_rejected:
  "\<exists>v. resolveRequest 1700000000000000001 9 1 RequestTypeFriend RequestStatusRejected sample_requested =
     (Inr v, closeRequest sample_request RequestStatusRejected 9 1700000000000000001 sample_requested)"
proof -
  have id: "rq_id sample_request = 1" by (simp add: sample_request_def)
  have "find_request 1 (closeRequest sample_request RequestStatusRejected 9 1700000000000000001 sample_requested) =
      Some (sample_request\<lparr>rq_status := RequestStatusRejected, rq_active_key := None,
        rq_resolved_at := relationshipTime 1700000000000000001, rq_resolved_by := 9\<rparr>)"
    using id by (simp add: closeRequest_def find_request_update sample_request_found)
  then show ?thesis
    using id by (simp add: resolveRequest_def resolveTx_pending [OF sample_request_found] sample_request_fields
        sample_request_open canResolveRequest_def isResolutionDecision_def GetRelationshipRequestWithDB_def)
qed

text \<open>
  Accepting a friend request: the addressee of a pending, unexpired friend request can accept it;
  afterwards the two users are friends in both directions, the request is closed as accepted by the
  addressee and holds no active key, no other friendship or request and no group has changed, and
  the invariant holds.
\<close>

theorem ResolveFriendRequest_accepts:
  assumes inv: "contact_inv db" and r: "find_request i db = Some r" "rq_type r = RequestTypeFriend"
    "rq_status r = RequestStatusPending" and t: "\<not> expired_at r now" and a: "rq_target_user_id r = actor"
  shows "\<exists>v db'. ResolveFriendRequestWithDB now actor i RequestStatusAccepted db = (Inr v, db') \<and>
    contact_inv db' \<and> find_request i db' = Some (rv_request v) \<and>
    rq_status (rv_request v) = RequestStatusAccepted \<and> rq_resolved_by (rv_request v) = actor \<and>
    rq_active_key (rv_request v) = None \<and>
    (\<forall>x y. friendshipActiveWithDB x y db' \<longleftrightarrow> friendshipActiveWithDB x y db \<or>
       x = rq_requester_user_id r \<and> y = actor \<or> x = actor \<and> y = rq_requester_user_id r) \<and>
    (\<forall>j. j \<noteq> i \<longrightarrow> find_request j db' = find_request j db) \<and>
    chat_groups db' = chat_groups db \<and> group_members db' = group_members db"
proof -
  define db1 where "db1 = link_friends (relationshipUpdateTime now) (rq_requester_user_id r) actor db"
  define db' where "db' = closeRequest r RequestStatusAccepted actor now db1"
  have tx: "resolveTx now actor i RequestTypeFriend RequestStatusAccepted db = (Inr None, db')"
    using r t a by (simp add: resolveTx_pending canResolveRequest_def isResolutionDecision_def apply_acceptance_def
        addDirectFriendPair_result db'_def db1_def)
  have find1: "find_request j db1 = find_request j db" for j by (simp add: find_request_def db1_def)
  have id: "rq_id r = i" "0 < i" using find_request_id [OF r(1)] find_request_pos [OF _ r(1)] inv
    by (simp_all add: contact_inv_def)
  have find': "find_request j db' = (if j = i then Some (r\<lparr>rq_status := RequestStatusAccepted, rq_active_key := None,
      rq_resolved_at := relationshipTime now, rq_resolved_by := actor\<rparr>) else find_request j db)" for j
  proof (cases "find_request j db")
    case None
    with r(1) have "j \<noteq> i" by auto
    with None show ?thesis by (simp add: db'_def closeRequest_def find_request_update find1)
  next
    case (Some q)
    have "rq_id q = j" by (rule find_request_id [OF Some])
    moreover have "q = r" if "j = i" using that Some r(1) by simp
    ultimately show ?thesis using Some id by (simp add: db'_def closeRequest_def find_request_update find1)
  qed
  have act: "friendshipActiveWithDB x y db' \<longleftrightarrow> friendshipActiveWithDB x y db \<or>
       x = rq_requester_user_id r \<and> y = actor \<or> x = actor \<and> y = rq_requester_user_id r" for x y
    using friendship.active_link [of "relationshipUpdateTime now" "rq_requester_user_id r" actor db x y]
    by (simp add: db'_def closeRequest_def db1_def active_friend_def friendshipActiveWithDB_def)
  have inv': "contact_inv db'"
    using resolveTx_safe [of db now actor i RequestTypeFriend RequestStatusAccepted] inv tx by (simp add: safe_step_def)
  have other: "chat_groups db' = chat_groups db" "group_members db' = group_members db"
    by (simp_all add: db'_def closeRequest_def db1_def)
  show ?thesis
    using tx find' act inv' other id
    by (simp add: ResolveFriendRequestWithDB_def resolveRequest_def GetRelationshipRequestWithDB_def relationshipViewQuery_def Let_def)
qed

theorem ResolveFriendRequest_accepts_witness:
  "\<exists>v db'. ResolveFriendRequestWithDB 1700000000000000001 9 1 RequestStatusAccepted sample_requested = (Inr v, db') \<and>
    friendshipActiveWithDB 5 9 db' \<and> friendshipActiveWithDB 9 5 db'"
  using ResolveFriendRequest_accepts [OF sample_requested_inv sample_request_found sample_request_fields(1,2)
      sample_request_open sample_request_fields(3)] sample_request_fields(4) by auto

text \<open>
  Resolution is idempotent: once \<^verbatim>\<open>resolveRequest\<close> has answered a decision with success, the same
  actor repeating the same decision at any later time gets the same answer and nothing changes.
\<close>

theorem resolveRequest_replay:
  assumes "resolveRequest now actor i type decision db = (Inr v, db')"
  shows "resolveRequest later actor i type decision db' = (Inr v, db')"
proof -
  have v: "GetRelationshipRequestWithDB i db' = Inr v"
    and tx: "resolveTx now actor i type decision db = (Inr None, db')"
    using assms by (auto simp: resolveRequest_def split: prod.splits sum.splits option.splits)
  obtain q where q: "find_request i db' = Some q" "rq_type q = type" "rq_status q = decision" "rq_resolved_by q = actor"
    and d: "isResolutionDecision decision"
    using resolveTx_success [OF tx] by blast
  from d q(3) have "rq_status q \<noteq> RequestStatusPending" by (auto simp: isResolutionDecision_def)
  with q d have "resolveTx later actor i type decision db' = (Inr None, db')" by (simp add: resolveTx_closed)
  then show ?thesis using v by (simp add: resolveRequest_def)
qed

theorem resolveRequest_replay_witness:
  "\<exists>v db'. resolveRequest 1700000000000000001 9 1 RequestTypeFriend RequestStatusRejected sample_requested = (Inr v, db') \<and>
    resolveRequest 1900000000000000000 9 1 RequestTypeFriend RequestStatusRejected db' = (Inr v, db')"
proof -
  obtain v db' where v: "resolveRequest 1700000000000000001 9 1 RequestTypeFriend RequestStatusRejected sample_requested = (Inr v, db')"
    using sample_rejected by blast
  from v resolveRequest_replay [OF v] show ?thesis by blast
qed

text \<open>
  Only the entitled may decide: if \<^verbatim>\<open>resolveRequest\<close> changes the database, then either the request
  had expired and is closed as expired, or it was pending and unexpired and the actor is its
  requester cancelling it, its addressee, or an owner or administrator of the group it asks to join.
\<close>

theorem resolveRequest_authorised:
  assumes "resolveRequest now actor i type decision db = (res, db')" and "db' \<noteq> db"
  shows "\<exists>r. find_request i db = Some r \<and> rq_type r = type \<and> rq_status r = RequestStatusPending \<and>
    (expired_at r now \<and> res = Inl ErrRelationshipExpired \<and> db' = closeRequest r RequestStatusExpired actor now db \<or>
     \<not> expired_at r now \<and> isResolutionDecision decision \<and>
     (decision = RequestStatusCancelled \<and> actor = rq_requester_user_id r \<or>
      decision \<noteq> RequestStatusCancelled \<and> (type = RequestTypeFriend \<or> type = RequestTypeGroupInvite) \<and> actor = rq_target_user_id r \<or>
      decision \<noteq> RequestStatusCancelled \<and> type = RequestTypeGroupJoin \<and>
        groupRoleTx (rq_group_id r) actor db \<in> {Some GroupRoleOwner, Some GroupRoleAdmin}))"
proof -
  have ne: "snd (resolveTx now actor i type decision db) \<noteq> db"
    using assms resolveRequest_db [of now actor i type decision db] by simp
  obtain r where r: "find_request i db = Some r" "rq_type r = type"
    using ne by (auto simp: resolveTx_def transaction_def split: option.splits if_splits)
  have p: "rq_status r = RequestStatusPending"
    using ne resolveTx_closed [OF r, of now actor decision] by (cases "rq_status r = RequestStatusPending") (simp_all split: if_splits)
  show ?thesis
  proof (cases "expired_at r now")
    case True
    then show ?thesis
      using assms(1) r p by (auto simp: resolveRequest_def resolveTx_pending [OF r p])
  next
    case False
    have "canResolveRequest actor r decision db" "isResolutionDecision decision"
      using ne False by (auto simp: resolveTx_pending [OF r p] split: if_splits)
    then show ?thesis
      using r p False by (auto simp: canResolveRequest_def split: if_splits option.splits)
  qed
qed

theorem resolveRequest_authorised_witness:
  "\<exists>r. find_request 1 sample_requested = Some r \<and> rq_target_user_id r = 9"
proof -
  obtain v where v: "resolveRequest 1700000000000000001 9 1 RequestTypeFriend RequestStatusRejected sample_requested =
     (Inr v, closeRequest sample_request RequestStatusRejected 9 1700000000000000001 sample_requested)"
    using sample_rejected by blast
  have "relationship_requests (closeRequest sample_request RequestStatusRejected 9 1700000000000000001 sample_requested) \<noteq>
      relationship_requests sample_requested"
    by (simp add: closeRequest_def update_requests_def sample_requested_rows)
       (simp add: sample_request_def pending_request_def new_request_def)
  then have "closeRequest sample_request RequestStatusRejected 9 1700000000000000001 sample_requested \<noteq> sample_requested"
    by metis
  from resolveRequest_authorised [OF v this] show ?thesis by auto
qed

text \<open>
  The seven-day window: for a request created at \<open>t\<close> the test of \<^verbatim>\<open>resolveRequest\<close>, which parses the
  stored expiry, and the test of the expiring SQL statements, which compare strings, agree: the
  request is expired at \<open>now\<close> exactly from seven days after its creation on.
\<close>

theorem request_expiry_consistent:
  assumes "four_digit_year (t + relationshipRequestTTL)" "four_digit_year now"
  shows "(expired_at (pending_request t r key) now \<longleftrightarrow> t + 7 * 24 * hour \<le> now) \<and>
    (rq_expires_at (pending_request t r key) \<le> relationshipTime now \<longleftrightarrow> t + 7 * 24 * hour \<le> now)"
  using Parse_layout_nano9 [OF assms(1)] layout_nano9_le_iff [OF assms]
  by (auto simp: expired_at_def pending_request_def relationshipTime_def relationshipRequestTTL_def)

theorem request_expiry_consistent_witness:
  "expired_at sample_request 1700604800000000000 \<and> \<not> expired_at sample_request 1700604799999999999"
proof -
  have y: "four_digit_year (1700000000000000000 + relationshipRequestTTL)" "four_digit_year 1700604800000000000"
    "four_digit_year 1700604799999999999" by code_simp+
  have "expired_at (pending_request 1700000000000000000 q k) now = expired_at ((pending_request 1700000000000000000 q k)\<lparr>rq_id := 1\<rparr>) now" for q k now
    by (simp add: expired_at_def)
  then show ?thesis
    using request_expiry_consistent [OF y(1,2)] request_expiry_consistent [OF y(1,3)] by (simp add: sample_request_def)
qed

end
