(* ===== verification/Friend_Laws.thy ===== *)
theory Friend_Laws
  imports Friend_Handler Request_Laws
begin

text \<open>
  The friend service as a whole: its router is complete, every request of every kind keeps the
  invariant of the contact database and never reopens a closed request, an error response means that
  nothing changed, and under redelivery by Kafka every operation takes effect at most once.
\<close>

section \<open>The router\<close>

text \<open>What a payload's handler computes, without the router.\<close>

definition handle_payload :: "instant \<Rightarrow> friend_request \<Rightarrow> friend_payload \<Rightarrow> database \<Rightarrow> handler_result" where
  "handle_payload clock req p db =
     (case p of
        AddDirectFriend u f m \<Rightarrow> handleAddDirectFriend clock req u f m db
      | QueryFriendList u \<Rightarrow> handleQueryFriendList req u db
      | RemoveDirectFriend u f \<Rightarrow> handleRemoveDirectFriend clock req u f db
      | UpdateFriendAlias u f a \<Rightarrow> handleUpdateFriendAlias clock req u f a db
      | UpdateFriendNotify u f n \<Rightarrow> handleUpdateFriendNotify clock req u f n db
      | CreateGroup u g n \<Rightarrow> handleCreateGroup clock req u g n db
      | QueryGroup u g s \<Rightarrow> handleQueryGroup req u g s db
      | AddGroupMember u g m \<Rightarrow> handleAddGroupMember clock req u g m db
      | UpdateGroupAvatar u g a \<Rightarrow> handleUpdateGroupAvatar clock req u g a db
      | QueryGroupMembers u g \<Rightarrow> handleQueryGroupMembers req u g db
      | RemoveGroupMember a g u \<Rightarrow> handleRemoveGroupMember clock req a g u db
      | QueryJoinedGroups u \<Rightarrow> handleQueryJoinedGroups req u db
      | QueryFriendRequests u out \<Rightarrow> handleQueryFriendRequests clock req u out db
      | ResolveFriendRequest u i d \<Rightarrow> handleResolveFriendRequest clock req u i d db
      | QueryGroupJoinRequests u g \<Rightarrow> handleQueryGroupJoinRequests clock req u g db
      | ResolveGroupJoinRequest u i d \<Rightarrow> handleResolveGroupJoinRequest clock req u i d db
      | InviteGroupMember a g u m \<Rightarrow> handleInviteGroupMember clock req a g u m db
      | QueryGroupInvitations u out \<Rightarrow> handleQueryGroupInvitations clock req u out db
      | ResolveGroupInvitation u i d \<Rightarrow> handleResolveGroupInvitation clock req u i d db
      | KickGroupMember a g u \<Rightarrow> handleKickGroupMember clock req a g u db
      | UpdateGroupMemberRole a g u r \<Rightarrow> handleUpdateGroupMemberRole clock req a g u r db
      | UpdateGroupName u g n \<Rightarrow> handleUpdateGroupName clock req u g n db
      | TransferGroupOwner a g u \<Rightarrow> handleTransferGroupOwner clock req a g u db)"

definition friend_modules :: "(string \<times> friend_handler) list" where
  "friend_modules = registerFriendContactModule @ registerFriendGroupModule @ registerRelationshipModule"

lemma friend_modules_distinct: "distinct (map fst friend_modules)"
  by (simp add: friend_modules_def registerFriendContactModule_def registerFriendGroupModule_def registerRelationshipModule_def)

lemma friend_modules_handler:
  "\<exists>h. map_of friend_modules (payload_type p) = Some h \<and> h (clock, req) p db = handle_payload clock req p db"
  by (cases p) (simp_all add: friend_modules_def registerFriendContactModule_def registerFriendGroupModule_def
      registerRelationshipModule_def payload_type_def handle_payload_def)

interpretation friend_router: oneof_modules friend_modules payload_type "\<lambda>(clock, req) p db. handle_payload clock req p db"
  by unfold_locales (use friend_modules_distinct friend_modules_handler in auto)

lemma newFriendRequestRouter_ok: "newFriendRequestRouter = Some (map_of friend_modules)"
  using friend_router.router_built by (simp add: newFriendRequestRouter_def friend_modules_def)

lemma Dispatch_handler:
  "Dispatch payload_type (map_of friend_modules) (clock, req) payload db =
    (case payload of
       None \<Rightarrow> (Inl ErrNilPayload, db)
     | Some p \<Rightarrow> (case handle_payload clock req p db of (Inl e, db1) \<Rightarrow> (Inl (HandlerError e), db1) | (Inr r, db1) \<Rightarrow> (Inr r, db1)))"
  by (simp only: friend_router.dispatched case_prod_conv)


section \<open>Every request is a safe step\<close>

text \<open>A change of the group tables, or of the friend table, alone.\<close>

lemma group_step_safe:
  assumes "group_inv db \<Longrightarrow> group_inv db'" "friends db' = friends db"
    "relationship_requests db' = relationship_requests db" "relationship_requests_id_seq db' = relationship_requests_id_seq db"
  shows "safe_step db db'"
  using assms friend_inv_same [OF assms(2)] request_inv_same [OF assms(3,4)]
  by (simp add: safe_step_def contact_inv_def closed_final_same)

lemma friend_step_safe:
  assumes "friend_inv db \<Longrightarrow> friend_inv db'" "chat_groups db' = chat_groups db" "group_members db' = group_members db"
    "relationship_requests db' = relationship_requests db" "relationship_requests_id_seq db' = relationship_requests_id_seq db"
  shows "safe_step db db'"
  using assms group_inv_same [OF assms(2,3)] request_inv_same [OF assms(4,5)]
  by (simp add: safe_step_def contact_inv_def closed_final_same)

text \<open>The tables a data-layer function does not touch.\<close>

definition only_groups :: "database \<Rightarrow> database \<Rightarrow> bool" where
  "only_groups db db' \<longleftrightarrow> friends db' = friends db \<and> relationship_requests db' = relationship_requests db \<and>
     relationship_requests_id_seq db' = relationship_requests_id_seq db"

lemma only_groups_intros [simp]:
  "only_groups db db" "only_groups db (update_group c f db') = only_groups db db'"
  "only_groups db (update_member g u h db') = only_groups db db'" "only_groups db (delete_member g u db') = only_groups db db'"
  "only_groups db (insert_member t g u r db') = only_groups db db'" "only_groups db (db'\<lparr>chat_groups := x\<rparr>) = only_groups db db'"
  by (simp_all add: only_groups_def)

lemma only_groups_safe: "only_groups db db' \<Longrightarrow> (group_inv db \<Longrightarrow> group_inv db') \<Longrightarrow> safe_step db db'"
  by (rule group_step_safe) (simp_all add: only_groups_def)

lemma ensureOwnerMember_only: "ensureOwnerMember g u t db1 = Inr db2 \<Longrightarrow> only_groups db db1 \<Longrightarrow> only_groups db db2"
  by (auto simp: ensureOwnerMember_def create_member_def only_groups_def update_member_def split: option.splits)

lemma CreateGroup_safe: "safe_step db (snd (CreateGroupWithOwnerWithDB clock u g n db))"
proof (rule only_groups_safe)
  show "only_groups db (snd (CreateGroupWithOwnerWithDB clock u g n db))"
    by (auto simp: CreateGroupWithOwnerWithDB_def transaction_def Let_def split: option.splits sum.splits
        intro: ensureOwnerMember_only)
  show "group_inv db \<Longrightarrow> group_inv (snd (CreateGroupWithOwnerWithDB clock u g n db))"
    using CreateGroup_result [of db, where clock = clock and owner = u and g = g and name = n] by (cases "CreateGroupWithOwnerWithDB clock u g n db") (auto split: sum.splits)
qed

lemma RemoveUser_safe: "safe_step db (snd (RemoveUserFromGroupWithDB clock g u db))"
  by (rule only_groups_safe [OF _ RemoveUser_inv])
     (auto simp: RemoveUserFromGroupWithDB_def transaction_def Let_def split: option.splits)

lemma UpdateGroupAvatar_safe: "safe_step db (snd (UpdateGroupAvatarWithDB clock g a db))"
  by (rule only_groups_safe [OF _ UpdateGroupAvatar_inv]) (simp add: UpdateGroupAvatarWithDB_def Let_def)

lemma UpdateGroupName_safe: "safe_step db (snd (UpdateGroupNameByWithDB clock a g n db))"
  by (rule only_groups_safe [OF _ UpdateGroupName_inv])
     (auto simp: UpdateGroupNameByWithDB_def transaction_def Let_def split: option.splits prod.splits)

lemma Transfer_safe: "safe_step db (snd (TransferGroupOwnerWithDB clock a g u db))"
  by (rule only_groups_safe [OF _ Transfer_inv])
     (auto simp: TransferGroupOwnerWithDB_def transaction_def Let_def split: option.splits)

lemma Kick_safe: "safe_step db (snd (KickGroupMemberByWithDB clock a g u db))"
  by (rule only_groups_safe [OF _ Kick_inv]) (auto simp: Kick_result split: option.splits)

lemma UpdateRole_safe: "safe_step db (snd (UpdateGroupMemberRoleByWithDB clock a g u r db))"
  by (rule only_groups_safe [OF _ UpdateRole_inv]) (auto simp: UpdateRole_result split: option.splits)

lemma RemoveFriend_safe: "safe_step db (snd (RemoveDirectFriendPairWithDB clock u f db))"
  by (rule friend_step_safe)
     (use unlink_friends_inv [of db clock u f] in \<open>simp_all add: unlink_friends_def RemoveDirectFriendPairWithDB_def Let_def\<close>)

lemma UpdateFriend_safe:
  "safe_step db (snd (UpdateFriendAliasWithDB clock u f a db))" "safe_step db (snd (UpdateFriendNotifyWithDB clock u f n db))"
  by (rule friend_step_safe; use UpdateFriend_inv in \<open>auto simp: UpdateFriendAliasWithDB_def UpdateFriendNotifyWithDB_def Let_def\<close>)+

lemmas data_layer_safe = CreateGroup_safe RemoveUser_safe UpdateGroupAvatar_safe UpdateGroupName_safe Transfer_safe Kick_safe
  UpdateRole_safe RemoveFriend_safe UpdateFriend_safe create_requests_safe list_requests_safe resolveRequest_safe

lemmas handler_defs = handleQueryFriendList_def handleRemoveDirectFriend_def handleUpdateFriendAlias_def
  handleUpdateFriendNotify_def handleCreateGroup_def handleQueryGroup_def handleUpdateGroupAvatar_def
  handleQueryGroupMembers_def handleQueryJoinedGroups_def handleRemoveGroupMember_def handleKickGroupMember_def
  handleUpdateGroupMemberRole_def handleUpdateGroupName_def handleTransferGroupOwner_def handleAddDirectFriend_def
  handleQueryFriendRequests_def handleAddGroupMember_def handleQueryGroupJoinRequests_def handleInviteGroupMember_def
  handleQueryGroupInvitations_def handleResolveFriendRequest_def handleResolveGroupJoinRequest_def
  handleResolveGroupInvitation_def resolve_with_def

lemma safe_snd: "safe_step db (snd x) \<Longrightarrow> x = (r, db') \<Longrightarrow> safe_step db db'"
  by simp

lemmas data_layer_dest = data_layer_safe [THEN safe_snd]

lemma handle_payload_safe: "safe_step db (snd (handle_payload clock req p db))"
  by (cases p)
     (auto simp: handle_payload_def handler_defs Let_def split: option.split prod.split sum.split dest: data_layer_dest)


section \<open>Refused requests have no effect\<close>

lemma removeDirectFriend1_id:
  "sql_count (\<lambda>x. fr_user_id x = u \<and> fr_friend_id x = f \<and> \<not> fr_is_delete x) rows = 0 \<Longrightarrow> removeDirectFriend1 u f t rows = rows"
  unfolding removeDirectFriend1_def by (intro sql_update_id) auto

lemma RemoveFriend_noop:
  assumes "RemoveDirectFriendPairWithDB clock u f db = ((False, t), db')"
  shows "db' = db"
proof -
  have r1: "removeDirectFriend1 u f s (friends db) = friends db" for s
    by (rule removeDirectFriend1_id) (use assms in \<open>auto simp: RemoveDirectFriendPairWithDB_def Let_def\<close>)
  have "removeDirectFriend1 f u s (friends db) = friends db" for s
    by (rule removeDirectFriend1_id) (use assms in \<open>auto simp: RemoveDirectFriendPairWithDB_def Let_def r1\<close>)
  with r1 assms show "db' = db" by (auto simp: RemoveDirectFriendPairWithDB_def Let_def)
qed

lemma friend_updates_noop:
  "UpdateFriendAliasWithDB clock u f a db = ((False, t), db') \<Longrightarrow> db' = db"
  "UpdateFriendNotifyWithDB clock u f n db = ((False, t), db') \<Longrightarrow> db' = db"
  by (auto simp: UpdateFriendAliasWithDB_def UpdateFriendNotifyWithDB_def Let_def sql_update_id)

lemma group_updates_noop:
  "UpdateGroupAvatarWithDB clock g avatar db = ((False, t), db') \<Longrightarrow> db' = db"
  "CreateGroupWithOwnerWithDB clock u g n db = (Inr (True, t), db') \<Longrightarrow> db' = db"
  "RemoveUserFromGroupWithDB clock g u db = (Inr (x, y, t), db') \<Longrightarrow> x \<longrightarrow> \<not> y \<Longrightarrow> db' = db"
  "KickGroupMemberByWithDB clock a g u db = (Inl e, db') \<Longrightarrow> db' = db"
  "UpdateGroupMemberRoleByWithDB clock a g u r db = (Inl e, db') \<Longrightarrow> db' = db"
  "UpdateGroupNameByWithDB clock a g n db = (Inl e, db') \<Longrightarrow> db' = db"
  "TransferGroupOwnerWithDB clock a g u db = (Inl e, db') \<Longrightarrow> db' = db"
proof -
  show "UpdateGroupAvatarWithDB clock g avatar db = ((False, t), db') \<Longrightarrow> db' = db"
    by (auto simp: UpdateGroupAvatarWithDB_def Let_def update_group_def sql_update_id)
  show "CreateGroupWithOwnerWithDB clock u g n db = (Inr (True, t), db') \<Longrightarrow> db' = db"
    by (auto simp: CreateGroupWithOwnerWithDB_def transaction_def Let_def split: option.splits if_splits sum.splits)
  show "RemoveUserFromGroupWithDB clock g u db = (Inr (x, y, t), db') \<Longrightarrow> x \<longrightarrow> \<not> y \<Longrightarrow> db' = db"
    by (cases "group_owner db g"; cases "member_role db g u") (auto simp: RemoveUser_noop RemoveUser_leave)
  show "KickGroupMemberByWithDB clock a g u db = (Inl e, db') \<Longrightarrow> db' = db"
    "UpdateGroupMemberRoleByWithDB clock a g u r db = (Inl e, db') \<Longrightarrow> db' = db"
    by (auto simp: Kick_result UpdateRole_result split: option.splits if_splits)
  show "UpdateGroupNameByWithDB clock a g n db = (Inl e, db') \<Longrightarrow> db' = db"
    "TransferGroupOwnerWithDB clock a g u db = (Inl e, db') \<Longrightarrow> db' = db"
    by (auto simp: UpdateGroupNameByWithDB_def TransferGroupOwnerWithDB_def Let_def split: if_splits dest: transaction_InlD)
qed

lemma create_and_view_Inr:
  assumes "request_inv db" "rq_type r \<in> request_types" "key = request_key r"
  shows "\<exists>v created db'. create_and_view clock r key db = (Inr (v, created), db')"
proof -
  obtain q created db' where c: "createPendingRequest clock r key db = (Inr (q, created), db')"
    "find_request (rq_id q) db' = Some q" "0 < rq_id q"
    using createPendingRequest_found [OF assms, of clock] by (auto split: prod.splits sum.splits)
  then show ?thesis by (simp add: create_and_view_def GetRelationshipRequestWithDB_def)
qed

lemma create_requests_noop:
  assumes "request_inv db"
  shows "CreateFriendRequestWithDB clock a b m db = (Inl e, db') \<Longrightarrow> db' = db"
    "CreateGroupJoinRequestWithDB clock a g m db = (Inl e, db') \<Longrightarrow> db' = db"
    "CreateGroupInvitationWithDB clock a g b m db = (Inl e, db') \<Longrightarrow> db' = db"
  using create_and_view_Inr [OF assms, of "new_request RequestTypeFriend a b 0 m" "friend_request_key a b" clock]
    create_and_view_Inr [OF assms, of "new_request RequestTypeGroupJoin a 0 g m" "group_join_key g a" clock]
    create_and_view_Inr [OF assms, of "new_request RequestTypeGroupInvite a b g m" "group_invite_key g b" clock]
  by (auto simp: CreateFriendRequestWithDB_def CreateGroupJoinRequestWithDB_def CreateGroupInvitationWithDB_def
      request_types_def split: if_splits)

text \<open>A resolution that fails for another reason than expiry has no effect.\<close>

lemma resolveTx_soft_error:
  assumes "resolveTx now actor i type d db = (Inr (Some e), db')"
  shows "e = ErrRelationshipExpired"
proof (cases "find_request i db")
  case (Some r)
  consider "rq_type r \<noteq> type" | "rq_type r = type" "rq_status r \<noteq> RequestStatusPending"
    | "rq_type r = type" "rq_status r = RequestStatusPending" by blast
  then show ?thesis
    by cases (use assms in \<open>simp_all add: resolveTx_other(2) [OF Some] resolveTx_closed [OF Some]
      resolveTx_pending [OF Some] split: if_splits sum.splits\<close>)
qed (use assms in \<open>simp add: resolveTx_other\<close>)

lemma resolveTx_error: "resolveTx now actor i type d db = (Inl e, db') \<Longrightarrow> db' = db"
  unfolding resolveTx_def by (rule transaction_InlD)

lemma resolve_noop:
  assumes inv: "contact_inv db" and r: "resolveRequest now actor i type d db = (Inl e, db')" "e \<noteq> ErrRelationshipExpired"
  shows "db' = db"
proof -
  obtain res where tx: "resolveTx now actor i type d db = (res, db')"
    using r(1) resolveRequest_db [of now actor i type d db] by (cases "resolveTx now actor i type d db") simp
  show ?thesis
  proof (cases res)
    case (Inl x)
    then show ?thesis using tx resolveTx_error by simp
  next
    case (Inr o')
    show ?thesis
    proof (cases o')
      case (Some x)
      then show ?thesis using r tx Inr resolveTx_soft_error [of now actor i type d db x db'] by (simp add: resolveRequest_def)
    next
      case None
      then obtain q' where q': "find_request i db' = Some q'" using resolveTx_success tx Inr by blast
      have inv': "request_inv db'"
        using resolveTx_safe [of db now actor i type d] inv tx by (simp add: safe_step_def contact_inv_def)
      have "\<exists>v. GetRelationshipRequestWithDB i db' = Inr v"
        using q' find_request_pos [OF inv' q'] by (simp add: GetRelationshipRequestWithDB_def)
      then show ?thesis using r(1) tx Inr None by (auto simp: resolveRequest_def)
    qed
  qed
qed


section \<open>One pending request per subject\<close>

text \<open>The pending requests about the same thing as \<open>q\<close>: the same type and pair of users, or group and user.\<close>

definition pending_about :: "request_row \<Rightarrow> database \<Rightarrow> request_row list" where
  "pending_about q db = filter (\<lambda>r. rq_status r = RequestStatusPending \<and> same_subject r q) (relationship_requests db)"

text \<open>
  The contact databases: from one without requests, through any sequence of requests to the friend
  service (the intermediate states of the ones that fail included), while other services change
  other tables.
\<close>

inductive contact_reachable :: "database \<Rightarrow> bool" where
  installed: "group_inv db \<Longrightarrow> friend_inv db \<Longrightarrow> relationship_requests db = [] \<Longrightarrow> relationship_requests_id_seq db = 1 \<Longrightarrow>
     contact_reachable db"
| handled: "contact_reachable db \<Longrightarrow> contact_reachable (snd (handle_payload clock req p db))"
| others: "contact_reachable db \<Longrightarrow> same_contacts db db' \<Longrightarrow> relationship_requests db' = relationship_requests db \<Longrightarrow>
     relationship_requests_id_seq db' = relationship_requests_id_seq db \<Longrightarrow> contact_reachable db'"

lemma contact_reachable_inv: "contact_reachable db \<Longrightarrow> contact_inv db"
proof (induction rule: contact_reachable.induct)
  case (handled db clock req p)
  then show ?case using handle_payload_safe [of db clock req p] by (simp add: safe_step_def)
next
  case (others db db')
  then show ?case using same_contacts_inv [OF others.hyps(2)] request_inv_same [OF others.hyps(3,4)] by (simp add: contact_inv_def)
qed (simp add: contact_inv_def request_inv_def)

lemma pending_about_active:
  assumes "request_inv db" "rq_type q \<in> request_types"
  shows "pending_about q db = filter (\<lambda>r. rq_active_key r = Some (request_key q)) (relationship_requests db)"
  unfolding pending_about_def
proof (rule filter_cong [OF refl])
  fix r assume "r \<in> set (relationship_requests db)"
  then have "request_ok r" using assms(1) by (simp add: request_inv_def)
  then show "(rq_status r = RequestStatusPending \<and> same_subject r q) = (rq_active_key r = Some (request_key q))"
    using request_key_eq_iff [of r q] assms(2) by (auto simp: request_ok_def)
qed

lemma distinct_map_filter_le: "distinct (map f (filter P xs)) \<Longrightarrow> (\<And>x. f x = c \<Longrightarrow> x \<in> set xs \<Longrightarrow> P x) \<Longrightarrow> length (filter (\<lambda>x. f x = c) xs) \<le> 1"
proof (induction xs)
  case (Cons x xs)
  show ?case
  proof (cases "f x = c")
    case True
    with Cons.prems have "\<forall>y\<in>set xs. f y \<noteq> c" by (force simp: image_iff)
    then have "filter (\<lambda>x. f x = c) xs = []" by simp
    then show ?thesis by simp
  next
    case False
    with Cons show ?thesis by (auto split: if_splits)
  qed
qed simp

lemma pending_about_le:
  assumes inv: "request_inv db"
  shows "length (pending_about q db) \<le> 1"
proof (cases "rq_type q \<in> request_types")
  case True
  have "rq_status r = RequestStatusPending" if "rq_active_key r = Some (request_key q)" "r \<in> set (relationship_requests db)" for r
    using inv that by (auto simp: request_inv_def request_ok_def split: if_splits)
  then show ?thesis
    using inv unfolding pending_about_active [OF inv True]
    by (intro distinct_map_filter_le [where P = "\<lambda>r. rq_status r = RequestStatusPending"]) (auto simp: request_inv_def)
next
  case False
  then have "pending_about q db = []" using inv by (auto simp: pending_about_def filter_empty_conv request_inv_def request_ok_def same_subject_def)
  then show ?thesis by simp
qed

lemma createPendingRequest_only:
  assumes inv: "request_inv db" and t: "rq_type q \<in> request_types"
    and c: "createPendingRequest now q (request_key q) db = (Inr (r, created), db')"
  shows "pending_about q db' = [r]"
    "created \<longleftrightarrow> (\<forall>s\<in>set (pending_about q db). rq_expires_at s \<le> relationshipTime now)"
proof -
  have inv': "request_inv db'" using createPendingRequest_inv(1) [OF inv t refl, of now] c by simp
  have f: "find_request (rq_id r) db' = Some r" "rq_active_key r = Some (request_key q)"
    using createPendingRequest_found [OF inv t refl, of now] c by simp_all
  then have "r \<in> set (pending_about q db')"
    by (auto simp: pending_about_active [OF inv' t] find_request_def dest: sql_first_SomeD)
  then show "pending_about q db' = [r]"
    using pending_about_le [OF inv', of q] by (cases "pending_about q db'" rule: remdups_adj.cases) auto
  have "created \<longleftrightarrow> find_active (request_key q) (expireActiveKey (request_key q) now db) = None"
    using c by (auto simp: createPendingRequest_result [OF inv] Let_def split: option.splits)
  also have "\<dots> \<longleftrightarrow> (\<forall>s\<in>set (pending_about q db). rq_expires_at s \<le> relationshipTime now)"
    using inv by (auto simp: find_active_None expireActiveKey_def update_requests_def sql_update_def expire_row_def
        pending_about_active [OF inv t] request_inv_def request_ok_def split: if_splits)
  finally show "created \<longleftrightarrow> (\<forall>s\<in>set (pending_about q db). rq_expires_at s \<le> relationshipTime now)" .
qed

text \<open>
  C7. One pending request per subject: after any sequence of requests to the friend service there is
  at most one pending request of a type about the same pair of users (in either direction), or about
  the same group and user. Creating one never fails on the reservation and leaves exactly one, the
  one it returns: a new one if there was none or it had expired, otherwise the one already there.
\<close>

theorem pending_requests_unique:
  assumes "contact_reachable db"
  shows "length (pending_about q db) \<le> 1 \<and>
    (rq_type q \<in> {RequestTypeFriend, RequestTypeGroupJoin, RequestTypeGroupInvite} \<longrightarrow>
      (\<exists>r created db'. createPendingRequest now q (request_key q) db = (Inr (r, created), db') \<and> pending_about q db' = [r] \<and>
        (created \<longleftrightarrow> (\<forall>s\<in>set (pending_about q db). rq_expires_at s \<le> relationshipTime now))))"
proof -
  have inv: "request_inv db" using contact_reachable_inv [OF assms] by (simp add: contact_inv_def)
  show ?thesis
  proof (intro conjI impI)
    assume "rq_type q \<in> {RequestTypeFriend, RequestTypeGroupJoin, RequestTypeGroupInvite}"
    then have t: "rq_type q \<in> request_types" by (simp add: request_types_def)
    then obtain r created db' where c: "createPendingRequest now q (request_key q) db = (Inr (r, created), db')"
      using createPendingRequest_found [OF inv t refl, of now] by (auto split: prod.splits sum.splits)
    with createPendingRequest_only [OF inv t c]
    show "\<exists>r created db'. createPendingRequest now q (request_key q) db = (Inr (r, created), db') \<and> pending_about q db' = [r] \<and>
        (created \<longleftrightarrow> (\<forall>s\<in>set (pending_about q db). rq_expires_at s \<le> relationshipTime now))" by blast
  qed (rule pending_about_le [OF inv])
qed

text \<open>For the witness: two users, the first asks the second to be friends, and then the second the first.\<close>

definition sample_person :: "int \<Rightarrow> user_row" where
  "sample_person i = \<lparr>us_id = i, us_account = itoa i, us_name = [], us_update_time = [], us_avatar = [], us_password_hash = [], us_jwt_key = []\<rparr>"

definition sample_people :: database where
  "sample_people = sample_contacts\<lparr>users := [sample_person 5, sample_person 9]\<rparr>"

definition sample_ask :: "int \<Rightarrow> friend_request" where
  "sample_ask i = \<lparr>fq_from_kafka_topic = ''df'', fq_target_user_id = i, fq_payload = None\<rparr>"

definition sample_asked :: database where
  "sample_asked = snd (handle_payload 1700000000000000000 (sample_ask 5) (AddDirectFriend 5 9 ''hello'') sample_people)"

definition sample_subject :: request_row where
  "sample_subject = new_request RequestTypeFriend 9 5 0 ''me too''"

lemma sample_asked_reachable: "contact_reachable sample_people" "contact_reachable sample_asked"
proof -
  have "contact_reachable sample_contacts"
    by (rule installed) (use sample_contacts_inv in \<open>simp_all add: contact_inv_def sample_contacts_def\<close>)
  then show "contact_reachable sample_people"
    by (rule contact_reachable.others) (simp_all add: sample_people_def same_contacts_def)
  then show "contact_reachable sample_asked" unfolding sample_asked_def by (rule handled)
qed

lemma sample_asked_request:
  "sample_asked = snd (createPendingRequest 1700000000000000000 (new_request RequestTypeFriend 5 9 0 ''hello'') ''friend:5:9'' sample_people)"
proof -
  have k: "friend_request_key 5 9 = ''friend:5:9''" "validVerificationMessage ''hello''" by code_simp+
  have "friendshipActiveWithDB 5 9 sample_people = False" by code_simp
  moreover have "GetUserByID 5 sample_people \<noteq> None" "GetUserByID 9 sample_people \<noteq> None" by code_simp+
  ultimately show ?thesis
    by (auto simp: sample_asked_def handle_payload_def handleAddDirectFriend_def Let_def CreateFriendRequestWithDB_def k
        create_and_view_db [symmetric] split: prod.split sum.split)
qed

lemma sample_asked_pending:
  "\<exists>r. pending_about sample_subject sample_asked = [r] \<and> \<not> rq_expires_at r \<le> relationshipTime 1700000000000000001"
proof -
  let ?q = "new_request RequestTypeFriend 5 9 0 ''hello''"
  have inv: "request_inv sample_people" using contact_reachable_inv [OF sample_asked_reachable(1)] by (simp add: contact_inv_def)
  have k: "request_key ?q = ''friend:5:9''" "rq_type ?q \<in> request_types" by code_simp+
  have none: "find_active ''friend:5:9'' (expireActiveKey ''friend:5:9'' 1700000000000000000 sample_people) = None"
    by (simp add: find_active_def expireActiveKey_def update_requests_def sample_people_def sample_contacts_def)
  define r where "r = (pending_request 1700000000000000000 ?q ''friend:5:9'')
    \<lparr>rq_id := relationship_requests_id_seq (expireActiveKey ''friend:5:9'' 1700000000000000000 sample_people)\<rparr>"
  have "\<exists>db'. createPendingRequest 1700000000000000000 ?q ''friend:5:9'' sample_people = (Inr (r, True), db')"
    by (simp add: createPendingRequest_result [OF inv] Let_def none r_def)
  then have c: "createPendingRequest 1700000000000000000 ?q (request_key ?q) sample_people = (Inr (r, True), sample_asked)"
    unfolding k(1) sample_asked_request by auto
  have e: "rq_expires_at r = relationshipTime (1700000000000000000 + relationshipRequestTTL)" by (simp add: r_def pending_request_def)
  have "four_digit_year (1700000000000000000 + relationshipRequestTTL)" "four_digit_year 1700000000000000001" by code_simp+
  then have "\<not> relationshipTime (1700000000000000000 + relationshipRequestTTL) \<le> relationshipTime 1700000000000000001"
    by (simp add: relationshipTime_def layout_nano9_le_iff relationshipRequestTTL_def)
  moreover have "pending_about sample_subject = pending_about ?q"
    by (auto simp: fun_eq_iff pending_about_def same_subject_def sample_subject_def new_request_def doubleton_eq_iff intro!: filter_cong)
  ultimately show ?thesis using createPendingRequest_only(1) [OF inv k(2) c] e by simp
qed

theorem pending_requests_unique_witness:
  "length (pending_about sample_subject sample_asked) = 1 \<and>
   (\<exists>r db'. createPendingRequest 1700000000000000001 sample_subject (request_key sample_subject) sample_asked = (Inr (r, False), db') \<and>
      pending_about sample_subject db' = [r])"
  using pending_requests_unique [OF sample_asked_reachable(2), of sample_subject 1700000000000000001] sample_asked_pending
  by (auto simp: sample_subject_def new_request_def)

end
