(* ===== verification/Friend_Service.thy ===== *)
theory Friend_Service
  imports Friend_Laws
begin

text \<open>
  The contract of the friend service: refused requests change nothing, every request keeps the
  contact invariant, and any sequence of deliveries (duplicates and malformed messages included)
  executes every operation at most once and announces each execution with exactly one outbox event.
\<close>

section \<open>Refusals\<close>

definition refusals :: "friend_result set" where
  "refusals = {RECORD_NOT_EXIST, ALREADY_FRIEND, INVALID_ARGUMENT, ALREADY_EXIST, FORBIDDEN, INVALID_STATE}"

lemma relationshipResult_expired: "relationshipResult e \<in> refusals \<Longrightarrow> e \<noteq> ErrRelationshipExpired"
  by (auto simp: relationshipResult_def refusals_def)

lemma ListGroupJoin_noop: "ListGroupJoinRequestsWithDB clock a g db = (Inl e, db') \<Longrightarrow> db' = db"
  by (simp add: ListGroupJoinRequestsWithDB_def Let_def split: if_splits)

lemma respond_result:
  "fp_result (respond req r p) = r" "fp_target_user_id (respond req r p) = fq_target_user_id req"
  by (simp_all add: respond_def)

lemmas response_defs = friendOperation_def groupOperation_def groupManagementOperation_def relationshipOperation_def
  relationshipError_def relationshipList_def

lemma response_result [simp]:
  "fp_result (friendOperation req op r a b t) = r"
  "fp_result (groupOperation req op r a b c t) = r"
  "fp_result (groupManagementOperation req op r a b c t n i) = r"
  "fp_result (relationshipOperation req op r v) = r"
  "fp_result (relationshipError req op r v) = r"
  "fp_result (relationshipList req r vs) = r"
  "fp_result (respond req r p) = r"
  by (simp_all add: response_defs respond_def)

lemma response_target [simp]:
  "fp_target_user_id (friendOperation req op r a b t) = fq_target_user_id req"
  "fp_target_user_id (groupOperation req op r a b c t) = fq_target_user_id req"
  "fp_target_user_id (groupManagementOperation req op r a b c t n i) = fq_target_user_id req"
  "fp_target_user_id (relationshipOperation req op r v) = fq_target_user_id req"
  "fp_target_user_id (relationshipError req op r v) = fq_target_user_id req"
  "fp_target_user_id (relationshipList req r vs) = fq_target_user_id req"
  "fp_target_user_id (respond req r p) = fq_target_user_id req"
  by (simp_all add: response_defs respond_def)

lemma relationshipDBError_Inr:
  "relationshipDBError req op e = Inr resp \<longleftrightarrow> relationshipResult e \<noteq> SERVICE_ERROR \<and> resp = relationshipError req op (relationshipResult e) None"
  by (auto simp: relationshipDBError_def)

lemma accepted_not_refused [simp]: "FRIEND_OK \<notin> refusals" "REQUEST_PENDING \<notin> refusals" "created_result c \<notin> refusals"
  by (simp_all add: refusals_def created_result_def)

lemma resolve_with_refused:
  assumes "\<And>s e db'. resolve s db = (Inl e, db') \<Longrightarrow> e \<noteq> ErrRelationshipExpired \<Longrightarrow> db' = db"
    and "resolve_with resolve op req u i d db = (Inr resp, db')" "fp_result resp \<in> refusals"
  shows "db' = db"
proof -
  have "db' = db" if "resolve s db = (Inl e, db')" "relationshipDBError req op e = Inr resp" for s e
    using that assms(1) [OF that(1)] assms(3) relationshipResult_expired [of e] by (simp add: relationshipDBError_Inr)
  with assms(2,3) show ?thesis
    by (auto simp: resolve_with_def split: option.splits if_splits prod.splits sum.splits)
qed

lemma Resolve_noop:
  assumes "contact_inv db" "e \<noteq> ErrRelationshipExpired"
  shows "ResolveFriendRequestWithDB clock u i s db = (Inl e, db') \<Longrightarrow> db' = db"
    "ResolveGroupJoinRequestWithDB clock u i s db = (Inl e, db') \<Longrightarrow> db' = db"
    "ResolveGroupInvitationWithDB clock u i s db = (Inl e, db') \<Longrightarrow> db' = db"
  using resolve_noop [OF assms(1) _ assms(2)]
  by (simp_all add: ResolveFriendRequestWithDB_def ResolveGroupJoinRequestWithDB_def ResolveGroupInvitationWithDB_def)

lemma handle_payload_refused:
  assumes inv: "contact_inv db" and h: "handle_payload clock req p db = (Inr resp, db')" "fp_result resp \<in> refusals"
  shows "db' = db"
proof -
  have rq: "request_inv db" using inv by (simp add: contact_inv_def)
  note rules = create_requests_noop [OF rq] group_updates_noop RemoveFriend_noop friend_updates_noop ListGroupJoin_noop
  show ?thesis
  proof (cases p)
    case (ResolveFriendRequest u i d)
    show ?thesis
      by (rule resolve_with_refused [OF Resolve_noop(1) [OF inv]])
         (use h in \<open>auto simp: ResolveFriendRequest handle_payload_def handleResolveFriendRequest_def\<close>)
  next
    case (ResolveGroupJoinRequest u i d)
    show ?thesis
      by (rule resolve_with_refused [OF Resolve_noop(2) [OF inv]])
         (use h in \<open>auto simp: ResolveGroupJoinRequest handle_payload_def handleResolveGroupJoinRequest_def\<close>)
  next
    case (ResolveGroupInvitation u i d)
    show ?thesis
      by (rule resolve_with_refused [OF Resolve_noop(3) [OF inv]])
         (use h in \<open>auto simp: ResolveGroupInvitation handle_payload_def handleResolveGroupInvitation_def\<close>)
  qed (use h in \<open>auto simp: handle_payload_def handler_defs Let_def relationshipDBError_Inr
        split: if_splits prod.splits sum.splits option.splits dest: rules\<close>)
qed

lemma handle_payload_target:
  "handle_payload clock req p db = (Inr resp, db') \<Longrightarrow> fp_target_user_id resp = fq_target_user_id req"
  by (cases p) (auto simp: handle_payload_def handler_defs Let_def relationshipDBError_Inr
        split: if_splits prod.splits sum.splits option.splits)


section \<open>The transaction of one message\<close>

lemma friend_execute_Inr:
  assumes "friend_execute codec clock key req db = (Inr (encoded, events), db')"
  shows "\<exists>p resp payload. fq_payload req = Some p \<and> handle_payload clock req p db = (Inr resp, db') \<and>
    marshal_response codec resp = Inr encoded \<and> marshal_envelope codec resp = Inr payload \<and>
    events = [\<lparr>pe_event_id = StableEventID (sha256hex codec) ''friend'' key ''response'',
               pe_topic = fq_from_kafka_topic req, pe_payload = payload\<rparr>]"
  using assms by (auto simp: friend_execute_def newFriendRequestRouter_ok Dispatch_handler
      split: option.splits prod.splits sum.splits)

lemma friend_execute_safe:
  "friend_execute codec clock key req db = (Inr x, db') \<Longrightarrow> safe_step db db'"
  using friend_execute_Inr [of codec clock key req db "fst x" "snd x" db'] handle_payload_safe
  by (metis prod.collapse snd_conv)

definition friend_store_inv :: "database reliable_store \<Rightarrow> bool" where
  "friend_store_inv st \<longleftrightarrow> inbox_inv st \<and> contact_inv (tables st)"

text \<open>How the store may develop: invariants are kept, closed requests and recorded responses stay.\<close>

definition friend_progress :: "database reliable_store \<Rightarrow> database reliable_store \<Rightarrow> bool" where
  "friend_progress st st' \<longleftrightarrow> (friend_store_inv st \<longrightarrow> friend_store_inv st' \<and> closed_final (tables st) (tables st') \<and>
     recorded_response ''friend'' st \<subseteq>\<^sub>m recorded_response ''friend'' st')"

lemma friend_progress_refl [simp]: "friend_progress st st"
  by (simp add: friend_progress_def)

lemma friend_progress_trans: "friend_progress st st1 \<Longrightarrow> friend_progress st1 st2 \<Longrightarrow> friend_progress st st2"
  by (auto simp: friend_progress_def intro: closed_final_trans map_le_trans)

lemma HandleMessage_cases:
  "(\<exists>e. HandleMessage codec clock key msg st = (Inl e, st)) \<or>
   (\<exists>req. unmarshal_request codec msg = Inr req \<and> key \<noteq> [] \<and>
      HandleMessage codec clock key msg st = deliver ''friend'' (clock, key, friend_execute codec clock key req) st)"
  by (auto simp: HandleMessage_def deliver_def split: sum.split)

lemma deliver_friend_progress:
  "friend_progress st (snd (deliver ''friend'' (clock, key, friend_execute codec clock k req) st))"
proof -
  let ?d = "(clock, key, friend_execute codec clock k req)"
  obtain r st' where d: "deliver ''friend'' ?d st = (r, st')" by fastforce
  have "safe_step (tables st) (tables st')" if inv: "inbox_inv st"
  proof (cases r)
    case (Inl e)
    then show ?thesis using inbox.failed [OF inv d [unfolded Inl]] by simp
  next
    case (Inr x)
    with ExecuteInboxOutbox_effect [OF inv, where clock = clock and service = "''friend''" and key = key
        and execute = "friend_execute codec clock k req"] d
    show ?thesis by (auto simp: deliver_def dest: friend_execute_safe split: if_splits)
  qed
  moreover have "recorded_response ''friend'' st \<subseteq>\<^sub>m recorded_response ''friend'' st'" if inv: "inbox_inv st"
    using inbox.deliver_outcome(3) [OF inv d] by (auto simp: map_le_def)
  moreover have "inbox_inv st'" if inv: "inbox_inv st" using inbox.kept [OF inv, of "''friend''" ?d] d by simp
  ultimately show ?thesis using d by (simp add: friend_progress_def friend_store_inv_def safe_step_def)
qed

lemma HandleMessage_progress: "friend_progress st (snd (HandleMessage codec clock key msg st))"
  using HandleMessage_cases [of codec clock key msg st] deliver_friend_progress [of st clock key codec key] by fastforce

lemma HandleMessage_recorded:
  assumes "inbox_inv st" "HandleMessage codec clock key msg st = (Inr x, st')"
  shows "recorded_response ''friend'' st' (TrimSpace key) = Some (ix_response_payload x)"
proof -
  obtain req where "HandleMessage codec clock key msg st = deliver ''friend'' (clock, key, friend_execute codec clock key req) st"
    using HandleMessage_cases [of codec clock key msg st] assms(2) by auto
  with assms(2) have "deliver ''friend'' (clock, key, friend_execute codec clock key req) st = (Inr x, st')" by simp
  from inbox.deliver_outcome(1) [OF assms(1) this] show ?thesis by (simp add: answer_def delivery_key_def)
qed

lemma process_progress: "friend_progress st (snd (process codec clock key m st))"
  using HandleMessage_progress
  by (auto simp: process_def split: sum.split prod.split) (metis snd_conv)+

lemma process_success:
  assumes "inbox_inv st" "process codec clock key m st = (r, st')" "cr_outcome r = OutcomeSuccess"
  shows "recorded_response ''friend'' st' (TrimSpace key) \<noteq> None"
  using assms HandleMessage_recorded [OF assms(1)]
  by (auto simp: process_def permanent_text_def Permanent_def ResultForError_def Transient_def
      split: sum.splits prod.splits if_splits)


section \<open>The service behind the reliable consumer\<close>

text \<open>
  The state of the composed service: the store and the dead-letter topic. The broker may refuse a
  dead letter; the clock of an attempt and the cancellation of the session are arbitrary.
\<close>

type_synonym friend_state = "database reliable_store \<times> (string \<times> bytes) list"

definition friend_process :: "friend_codec \<Rightarrow> instant \<Rightarrow> string \<Rightarrow> kafka_message \<Rightarrow> friend_state \<Rightarrow> consumer_result \<times> friend_state" where
  "friend_process codec clock key m s =
     (case process codec clock key m (fst s) of (r, st) \<Rightarrow> (r, (st, snd s)))"

definition dead_letter :: "(string \<Rightarrow> bytes \<Rightarrow> go_error option) \<Rightarrow> string \<Rightarrow> bytes \<Rightarrow> (string \<times> bytes) list \<Rightarrow> friend_state \<Rightarrow> go_error option \<times> friend_state" where
  "dead_letter broker topic value headers s =
     (case broker topic value of Some e \<Rightarrow> (Some e, s) | None \<Rightarrow> (None, (fst s, snd s @ [(topic, value)])))"

definition friend_env :: "friend_state consumer_env \<Rightarrow> bool" where
  "friend_env env \<longleftrightarrow> (\<exists>codec clock. ce_process env = friend_process codec clock) \<and>
     (\<exists>broker. ce_publish env = Some (dead_letter broker))"

definition state_progress :: "friend_state \<Rightarrow> friend_state \<Rightarrow> bool" where
  "state_progress s s' \<longleftrightarrow> friend_progress (fst s) (fst s') \<and> set (snd s) \<subseteq> set (snd s')"

lemma state_progress_trans: "state_progress s s1 \<Longrightarrow> state_progress s1 s2 \<Longrightarrow> state_progress s s2"
  by (auto simp: state_progress_def intro: friend_progress_trans)

lemma friend_process_progress: "friend_env env \<Longrightarrow> state_progress s (snd (ce_process env key m s))"
  using process_progress
  by (auto simp: friend_env_def friend_process_def state_progress_def split: prod.split) (metis snd_conv)

lemma dead_letter_progress: "friend_env env \<Longrightarrow> ce_publish env = Some publish \<Longrightarrow> state_progress s (snd (publish t v h s))"
  by (auto simp: friend_env_def dead_letter_def state_progress_def split: option.split)

interpretation friend: consumer_contract state_progress friend_env
  by unfold_locales (simp add: state_progress_def, erule (1) state_progress_trans, erule friend_process_progress,
    erule (1) dead_letter_progress)

lemma state_progress_recorded:
  assumes "state_progress s s'" "friend_store_inv (fst s)"
  shows "friend_store_inv (fst s') \<and> closed_final (tables (fst s)) (tables (fst s')) \<and>
    (recorded_response ''friend'' (fst s) k \<noteq> None \<longrightarrow> recorded_response ''friend'' (fst s') k \<noteq> None) \<and> set (snd s) \<subseteq> set (snd s')"
  using assms by (auto simp: state_progress_def friend_progress_def map_le_def dom_def)

lemma friend_settled:
  assumes env: "friend_env env" and inv: "friend_store_inv (fst s)"
    and run: "processWithRetry env (normalized c) m s = ((None, ds), s')"
  shows "recorded_response ''friend'' (fst s') (TrimSpace (OperationKey m)) \<noteq> None \<or>
    (kc_dlq_topic (normalized c), km_value m) \<in> set (snd s')"
proof -
  obtain n where n: "settled_after env (normalized c) m n s s'"
    using retry_loop_settles [OF run [unfolded processWithRetry_def]] by auto
  let ?s = "state_at env m s n"
  have i: "inbox_inv (fst ?s)" using state_progress_recorded [OF friend.state_at_keeps [OF env] inv] by (simp add: friend_store_inv_def)
  obtain codec clock where p: "ce_process env = friend_process codec clock" using env by (auto simp: friend_env_def)
  obtain broker where b: "ce_publish env = Some (dead_letter broker)" using env by (auto simp: friend_env_def)
  from n consider "cr_outcome (answer_at env m s n) = OutcomeSuccess" "s' = state_at env m s (Suc n)"
    | headers where "dead_letter broker (kc_dlq_topic (normalized c)) (km_value m) headers (state_at env m s (Suc n)) = (None, s')"
    by (auto simp: settled_after_def b)
  then show ?thesis
  proof cases
    case 1
    obtain r st where r: "process codec clock (OperationKey m) m (fst ?s) = (r, st)" by fastforce
    with 1 p have "cr_outcome r = OutcomeSuccess" "fst s' = st" by (simp_all add: answer_at_def friend_process_def)
    with process_success [OF i r] show ?thesis by simp
  next
    case 2
    then show ?thesis by (auto simp: dead_letter_def split: option.splits)
  qed
qed

lemma friend_claim_settled:
  "(\<forall>(env, m) \<in> set ms. friend_env env) \<Longrightarrow> friend_store_inv (fst s) \<Longrightarrow>
   ConsumeClaim (normalized c) ms s = ((marked, err), s') \<Longrightarrow> m \<in> set marked \<Longrightarrow>
   recorded_response ''friend'' (fst s') (TrimSpace (OperationKey m)) \<noteq> None \<or> (kc_dlq_topic (normalized c), km_value m) \<in> set (snd s')"
proof (induction ms arbitrary: s marked)
  case (Cons em ms)
  obtain env m1 where em: "em = (env, m1)" by fastforce
  have env: "friend_env env" using Cons.prems em by simp
  obtain e ds s1 where p: "processWithRetry env (normalized c) m1 s = ((e, ds), s1)" by (metis surj_pair)
  have s1: "friend_store_inv (fst s1)"
    using state_progress_recorded [OF friend.processWithRetry_keeps [OF env] Cons.prems(2)] p by (metis snd_conv)
  from Cons.prems(3,4) em p have none: "e = None" by (auto split: option.splits prod.splits)
  then obtain marked1 where c: "ConsumeClaim (normalized c) ms s1 = ((marked1, err), s')" "marked = m1 # marked1"
    using Cons.prems(3) em p by (auto split: option.splits prod.splits)
  show ?case
  proof (cases "m \<in> set marked1")
    case True
    then show ?thesis using Cons.IH [OF _ s1 c(1)] Cons.prems(1) by simp
  next
    case False
    then have m: "m = m1" using Cons.prems(4) c(2) by simp
    have "state_progress s1 s'" using friend.ConsumeClaim_keeps [of ms s1 "normalized c"] Cons.prems(1) c(1) by simp
    from state_progress_recorded [OF this s1] friend_settled [OF env Cons.prems(2) p [unfolded none]] m
    show ?thesis by blast
  qed
qed simp

section \<open>Properties\<close>

text \<open>
  C8. No friend request is lost: whatever the messages of a claim, their attempts, the failures of
  the broker and the cancellation of the session, every acknowledged message has its response in the
  inbox or has been written to the dead-letter topic, the contact database stays consistent, and no
  closed relationship request is reopened.
\<close>

theorem friend_requests_settled:
  assumes "\<forall>(env, m) \<in> set ms. friend_env env" and "friend_store_inv (fst s)"
    and "ConsumeClaim (normalized c) ms s = ((marked, err), s')"
  shows "friend_store_inv (fst s') \<and> closed_final (tables (fst s)) (tables (fst s')) \<and>
    (\<forall>m \<in> set marked. recorded_response ''friend'' (fst s') (TrimSpace (OperationKey m)) \<noteq> None \<or>
       (kc_dlq_topic (normalized c), km_value m) \<in> set (snd s'))"
  using state_progress_recorded [OF friend.ConsumeClaim_keeps [OF assms(1), of s "normalized c"] assms(2)] assms(3)
    friend_claim_settled [OF assms] by auto

text \<open>
  Routing: building the router never panics, and a request is handled by the handler of its
  payload, for all 23 kinds of payload; a request without payload is refused without effect.
\<close>

theorem friend_router_complete:
  "\<exists>router. newFriendRequestRouter = Some router \<and>
     Dispatch payload_type router (clock, req) (fq_payload req) db =
       (case fq_payload req of
          None \<Rightarrow> (Inl ErrNilPayload, db)
        | Some p \<Rightarrow> (case handle_payload clock req p db of
                       (Inl e, db1) \<Rightarrow> (Inl (HandlerError e), db1) | (Inr r, db1) \<Rightarrow> (Inr r, db1)))"
  using newFriendRequestRouter_ok Dispatch_handler by blast

text \<open>
  C9. Refusals have no effect: when a request of any kind is answered with one of the refusing
  results, the database is as it was. (The results that may come with a change are the success, the
  pending request that is already there, and the expiry of the request.)
\<close>

theorem friend_refusal_no_effect:
  assumes "contact_inv db" and "newFriendRequestRouter = Some router"
    and "Dispatch payload_type router (clock, req) payload db = (Inr resp, db')" and "fp_result resp \<in> refusals"
  shows "db' = db"
proof -
  have "router = map_of friend_modules" using trans [OF sym [OF assms(2)] newFriendRequestRouter_ok] by (rule option.inject [THEN iffD1])
  with assms(3) obtain p where h: "handle_payload clock req p db = (Inr resp, db')"
    by (auto simp: Dispatch_handler split: option.splits prod.splits sum.splits)
  show ?thesis by (rule handle_payload_refused [OF assms(1) h assms(4)])
qed

text \<open>
  Responses: a request that is executed, and not replayed, adds exactly one outbox event, in the
  transaction of its effect; the event goes to the topic the request came from, carries the encoded
  response addressed to the requesting user, and its identifier depends on the operation key only.
\<close>

theorem friend_response_event:
  assumes inv: "inbox_inv st" and h: "HandleMessage codec clock key msg st = (Inr x, st')" "\<not> ix_replayed x"
  shows "\<exists>req p resp payload. unmarshal_request codec msg = Inr req \<and> fq_payload req = Some p \<and>
    handle_payload clock req p (tables st) = (Inr resp, tables st') \<and>
    fp_target_user_id resp = fq_target_user_id req \<and>
    marshal_response codec resp = Inr (ix_response_payload x) \<and> marshal_envelope codec resp = Inr payload \<and>
    outbox_events st' = outbox_events st @ [new_outbox_row ''friend'' (TrimSpace key) (FormatReliabilityTime clock)
      \<lparr>pe_event_id = StableEventID (sha256hex codec) ''friend'' key ''response'',
       pe_topic = fq_from_kafka_topic req, pe_payload = payload\<rparr>]"
proof -
  have t: "TrimSpace ''friend'' = ''friend''" by code_simp
  obtain req where req: "unmarshal_request codec msg = Inr req"
    "ExecuteInboxOutbox clock ''friend'' key (friend_execute codec clock key req) st = (Inr x, st')"
    using h(1) by (auto simp: HandleMessage_def split: if_splits sum.splits)
  with ExecuteInboxOutbox_effect [OF inv, where clock = clock and service = "''friend''" and key = key
      and execute = "friend_execute codec clock key req"] h(2)
  obtain events where "friend_execute codec clock key req (tables st) = (Inr (ix_response_payload x, events), tables st')"
    "outbox_events st' = outbox_events st @ map (new_outbox_row ''friend'' (TrimSpace key) (FormatReliabilityTime clock)) events"
    by (auto simp: t)
  with friend_execute_Inr [OF this(1)] handle_payload_target req(1) show ?thesis by fastforce
qed


text \<open>
  For the witnesses: a codec that decodes one message as a query of user 5's friends and refuses every
  other one, and an environment that accepts dead letters.
\<close>

definition sample_query :: friend_request where
  "sample_query = \<lparr>fq_from_kafka_topic = ''df'', fq_target_user_id = 5, fq_payload = Some (QueryFriendList 5)\<rparr>"

definition sample_codec :: friend_codec where
  "sample_codec = \<lparr>unmarshal_envelope = (\<lambda>b. if b = ''q'' then Inr \<lparr>ev_type = ''FRIEND_REQUEST'', ev_payload = ''q''\<rparr> else Inl ''bad''),
     unmarshal_request = (\<lambda>b. if b = ''q'' then Inr sample_query else Inl ''bad''),
     marshal_response = (\<lambda>_. Inr ''r''), marshal_envelope = (\<lambda>_. Inr ''e''), sha256hex = (\<lambda>_. ''h''), error_text = (\<lambda>_. ''x'')\<rparr>"

definition sample_friend_store :: "database reliable_store" where
  "sample_friend_store = \<lparr>tables = sample_contacts, consumer_inbox = [], outbox_events = []\<rparr>"

lemma sample_friend_store_inv: "friend_store_inv sample_friend_store" "inbox_inv sample_friend_store"
  using sample_contacts_inv by (simp_all add: friend_store_inv_def inbox_inv_def sample_friend_store_def)

definition sample_env :: "friend_state consumer_env" where
  "sample_env = \<lparr>ce_process = friend_process sample_codec 0, ce_publish = Some (dead_letter (\<lambda>_ _. None)),
     ce_cancelled = (\<lambda>_. None), ce_cancelled_dlq = (\<lambda>_. None), ce_cancelled_wait = (\<lambda>_. None), ce_now = (\<lambda>_. 0),
     ce_envelope_type = (\<lambda>_. [])\<rparr>"

definition sample_delivery :: "bytes \<Rightarrow> kafka_message" where
  "sample_delivery v = \<lparr>km_topic = ''friend'', km_partition = 0, km_offset = 7, km_headers = [], km_value = v\<rparr>"

definition sample_friend_config :: consumer_config where
  "sample_friend_config = \<lparr>kc_service = ''friend'', kc_dlq_topic = ''dlq'', kc_max_retries = 3, kc_initial_backoff = 0, kc_max_backoff = 0\<rparr>"

lemma sample_handled:
  "\<exists>x st'. HandleMessage sample_codec 0 ''k'' ''q'' sample_friend_store = (Inr x, st') \<and> \<not> ix_replayed x"
proof -
  have t: "TrimSpace ''friend'' = ''friend''" "TrimSpace ''k'' = ''k''" "TrimSpace ''df'' = ''df''" "TrimSpace ''friend-h'' = ''friend-h''"
    by code_simp+
  have "friend_execute sample_codec 0 ''k'' sample_query (tables sample_friend_store) =
      (Inr (''r'', [\<lparr>pe_event_id = ''friend-h'', pe_topic = ''df'', pe_payload = ''e''\<rparr>]), tables sample_friend_store)"
    unfolding friend_execute_def newFriendRequestRouter_ok
    by (simp add: Dispatch_handler sample_query_def handle_payload_def
        handleQueryFriendList_def sample_codec_def StableEventID_def t)
  then show ?thesis
    using ExecuteInboxOutbox_fresh [OF sample_friend_store_inv(2), of "''friend''" "''k''" 0 "friend_execute sample_codec 0 ''k'' sample_query"]
    by (simp add: HandleMessage_def sample_codec_def t find_inbox_def Let_def valid_event_def sql_create_def sample_friend_store_def)
qed

theorem friend_requests_settled_witness:
  "\<exists>s'. ConsumeClaim (normalized sample_friend_config) [(sample_env, sample_delivery ''bad'')] (sample_friend_store, []) =
       (([sample_delivery ''bad''], None), s') \<and> friend_store_inv (fst s') \<and>
     (recorded_response ''friend'' (fst s') (TrimSpace (OperationKey (sample_delivery ''bad''))) \<noteq> None \<or> (''dlq'', ''bad'') \<in> set (snd s'))"
proof -
  have t: "TrimSpace ''friend'' = ''friend''" "TrimSpace ''dlq'' = ''dlq''" by code_simp+
  have n: "kc_dlq_topic (normalized sample_friend_config) = ''dlq''" by (simp add: normalized_def sample_friend_config_def t Let_def)
  have "\<exists>s'. ConsumeClaim (normalized sample_friend_config) [(sample_env, sample_delivery ''bad'')] (sample_friend_store, []) =
       (([sample_delivery ''bad''], None), s')"
    by (simp add: processWithRetry_def retry_loop.simps sample_env_def friend_process_def process_def sample_delivery_def
        sample_codec_def permanent_text_def Permanent_def nonNilError_def failure_of_def publishDeadLetter_def n t dead_letter_def)
  then obtain s' where c: "ConsumeClaim (normalized sample_friend_config) [(sample_env, sample_delivery ''bad'')] (sample_friend_store, []) =
       (([sample_delivery ''bad''], None), s')" by blast
  have "friend_env sample_env" by (auto simp: friend_env_def sample_env_def)
  with friend_requests_settled [OF _ _ c] sample_friend_store_inv(1) c n show ?thesis by (simp add: sample_delivery_def)
qed

theorem friend_refusal_no_effect_witness:
  "\<exists>router resp db'. newFriendRequestRouter = Some router \<and>
     Dispatch payload_type router (0, sample_query) (Some (RemoveDirectFriend 5 5)) sample_contacts = (Inr resp, db') \<and>
     fp_result resp = INVALID_ARGUMENT \<and> db' = sample_contacts"
proof -
  obtain resp db' where d: "Dispatch payload_type (map_of friend_modules) (0, sample_query) (Some (RemoveDirectFriend 5 5)) sample_contacts = (Inr resp, db')" "fp_result resp = INVALID_ARGUMENT"
    by (simp add: Dispatch_handler handle_payload_def handleRemoveDirectFriend_def)
  then have "db' = sample_contacts"
    using friend_refusal_no_effect [OF sample_contacts_inv newFriendRequestRouter_ok d(1)] by (simp add: refusals_def)
  with d newFriendRequestRouter_ok show ?thesis by blast
qed

theorem friend_response_event_witness:
  "\<exists>x st'. HandleMessage sample_codec 0 ''k'' ''q'' sample_friend_store = (Inr x, st') \<and> length (outbox_events st') = 1"
proof -
  obtain x st' where h: "HandleMessage sample_codec 0 ''k'' ''q'' sample_friend_store = (Inr x, st')" "\<not> ix_replayed x"
    using sample_handled by blast
  have "length (outbox_events st') = 1"
    using friend_response_event [OF sample_friend_store_inv(2) h] by (auto simp: sample_friend_store_def)
  with h(1) show ?thesis by blast
qed

end
