(* ===== verification/Users.thy ===== *)
theory Users
  imports Database
begin

text \<open>
  \<^verbatim>\<open>shared/db/utils_user.go\<close>: the user table. Accounts are unique; a credential change is a compare-and-swap
  on the stored credentials.
\<close>

definition update_users :: "(user_row \<Rightarrow> bool) \<Rightarrow> (user_row \<Rightarrow> user_row) \<Rightarrow> database \<Rightarrow> database" where
  "update_users c f db = db\<lparr>users := sql_update c f (users db)\<rparr>"

definition UpdateUserJwtKeyById :: "int \<Rightarrow> bytes \<Rightarrow> database \<Rightarrow> database" where
  "UpdateUserJwtKeyById i jwtKey db = update_users (\<lambda>u. us_id u = i) (\<lambda>u. u\<lparr>us_jwt_key := jwtKey\<rparr>) db"

definition UpdateUserCredentialsCAS ::
  "int \<Rightarrow> string \<Rightarrow> bytes \<Rightarrow> string \<Rightarrow> bytes \<Rightarrow> database \<Rightarrow> bool \<times> database" where
  "UpdateUserCredentialsCAS i oldPasswordHash oldJwtKey newPasswordHash newJwtKey db =
     (let c = (\<lambda>u. us_id u = i \<and> us_password_hash u = oldPasswordHash \<and> us_jwt_key u = oldJwtKey)
      in (sql_count c (users db) = 1,
          update_users c (\<lambda>u. u\<lparr>us_password_hash := newPasswordHash, us_jwt_key := newJwtKey\<rparr>) db))"

definition RotateUserJwtKeyCAS :: "int \<Rightarrow> bytes \<Rightarrow> bytes \<Rightarrow> database \<Rightarrow> bool \<times> database" where
  "RotateUserJwtKeyCAS i oldJwtKey newJwtKey db =
     (let c = (\<lambda>u. us_id u = i \<and> us_jwt_key u = oldJwtKey)
      in (sql_count c (users db) = 1, update_users c (\<lambda>u. u\<lparr>us_jwt_key := newJwtKey\<rparr>) db))"

text \<open>
  \<^verbatim>\<open>AddUser\<close> on PostgreSQL: an explicit identifier is inserted as it is and the sequence advanced past it,
  in one transaction; otherwise the row takes the next value, which is used up even if the insert fails.
\<close>

definition AddUser :: "instant \<Rightarrow> user_row \<Rightarrow> database \<Rightarrow> (db_error + user_row) \<times> database" where
  "AddUser clock user0 db =
     (let explicitID = us_id user0 > 0;
          user = user0\<lparr>us_update_time := NowTime clock, us_id := (if explicitID then us_id user0 else users_id_seq db)\<rparr>;
          db1 = (if explicitID then db else db\<lparr>users_id_seq := users_id_seq db + 1\<rparr>)
      in case sql_create us_id user (users db) of
           None \<Rightarrow> (Inl ErrUserIDConflict, db1)
         | Some _ \<Rightarrow>
             (case sql_create us_account user (users db) of
                None \<Rightarrow> (Inl ErrAccountExists, db1)
              | Some rows \<Rightarrow>
                  (Inr user, db1\<lparr>users := rows,
                     users_id_seq := (if explicitID then max (users_id_seq db) (us_id user + 1) else users_id_seq db1)\<rparr>)))"

definition UpdateUserNameByIDWithDB :: "instant \<Rightarrow> int \<Rightarrow> string \<Rightarrow> database \<Rightarrow> database" where
  "UpdateUserNameByIDWithDB clock i newName db =
     update_users (\<lambda>u. us_id u = i) (\<lambda>u. u\<lparr>us_name := newName, us_update_time := NowTime clock\<rparr>) db"

definition UpdateUserAvatarByIDWithDB :: "instant \<Rightarrow> int \<Rightarrow> string \<Rightarrow> database \<Rightarrow> database" where
  "UpdateUserAvatarByIDWithDB clock i newAvatarURL db =
     update_users (\<lambda>u. us_id u = i) (\<lambda>u. u\<lparr>us_avatar := newAvatarURL, us_update_time := NowTime clock\<rparr>) db"

lemma GetUserByID_update:
  assumes "\<And>u. us_id (f u) = us_id u"
  shows "GetUserByID i (update_users c f db) = map_option (\<lambda>u. if c u then f u else u) (GetUserByID i db)"
proof -
  have "sql_first (\<lambda>u. us_id u = i) (sql_update c f t) = map_option (\<lambda>u. if c u then f u else u) (sql_first (\<lambda>u. us_id u = i) t)" for t
    by (induction t) (auto simp: assms)
  then show ?thesis by (simp add: GetUserByID_def update_users_def)
qed

lemma GetUserByID_id: "GetUserByID i db = Some u \<Longrightarrow> us_id u = i"
  by (auto simp: GetUserByID_def dest: sql_first_SomeD)

end
