(* ===== verification/Messages.thy ===== *)
theory Messages
  imports Group_Laws
begin

text \<open>
  \<^verbatim>\<open>shared/db/util_message.go\<close>: storing a chat message idempotently by its client identifier, recalling it
  within two minutes, reading it under authorisation, and the paged synchronisation of all messages a
  user may see.
\<close>

section \<open>Storing\<close>

definition new_message ::
  "instant \<Rightarrow> string option \<Rightarrow> int \<Rightarrow> int \<Rightarrow> string \<Rightarrow> string \<Rightarrow> string \<Rightarrow> bool \<Rightarrow> message_row" where
  "new_message clock cid fromUserID toUserID content messageType realFileName isGroup =
     \<lparr>ms_message_id = 0, ms_client_message_id = cid, ms_from_user_id = fromUserID, ms_to_user_id = toUserID,
      ms_content = content, ms_timestamp = NowTime clock, ms_message_type = messageType, ms_real_file_name = realFileName,
      ms_is_group = isGroup, ms_is_recalled = False, ms_recalled_at = [], ms_recalled_by = 0\<rparr>"

text \<open>
  \<^verbatim>\<open>INSERT\<close> takes the next value of the sequence, also when the row then conflicts.
\<close>

definition create_message :: "message_row \<Rightarrow> database \<Rightarrow> (db_error + message_row) \<times> database" where
  "create_message message db =
     (let m = message\<lparr>ms_message_id := messages_id_seq db\<rparr>; db1 = db\<lparr>messages_id_seq := messages_id_seq db + 1\<rparr> in
      case sql_create ms_message_id m (messages db) of
        None \<Rightarrow> (Inl ErrUniqueViolation, db1)
      | Some rows \<Rightarrow> (Inr m, db1\<lparr>messages := rows\<rparr>))"

definition sent_as :: "int \<Rightarrow> string \<Rightarrow> message_row \<Rightarrow> bool" where
  "sent_as fromUserID cid m \<longleftrightarrow> ms_from_user_id m = fromUserID \<and> ms_client_message_id m = Some cid"

definition StoreNewMessageWithDB ::
  "instant \<Rightarrow> int \<Rightarrow> int \<Rightarrow> string \<Rightarrow> string \<Rightarrow> string \<Rightarrow> bool \<Rightarrow> string \<Rightarrow> database \<Rightarrow>
   (db_error + message_row \<times> bool) \<times> database" where
  "StoreNewMessageWithDB clock fromUserID toUserID content messageType realFileName isGroup clientMessageID0 db =
     (let clientMessageID = TrimSpace clientMessageID0;
          ptr = (if clientMessageID \<noteq> [] then Some clientMessageID else None);
          message = new_message clock ptr fromUserID toUserID content messageType realFileName isGroup
      in if ptr = None \<or> \<not> (\<exists>m\<in>set (messages db). sent_as fromUserID clientMessageID m)
         then (case create_message message db of
                 (Inl e, db1) \<Rightarrow> (Inl e, db1)
               | (Inr m, db1) \<Rightarrow> (Inr (m, True), db1))
         else (let db1 = db\<lparr>messages_id_seq := messages_id_seq db + 1\<rparr> in
               case sql_first (sent_as fromUserID clientMessageID) (messages db1) of
                 None \<Rightarrow> (Inl ErrRecordNotFound, db1)
               | Some existing \<Rightarrow> (Inr (existing, False), db1)))"

definition GetMessageByIDWithDB :: "int \<Rightarrow> database \<Rightarrow> message_row option" where
  "GetMessageByIDWithDB messageID db = sql_first (\<lambda>m. ms_message_id m = messageID) (messages db)"

section \<open>Reading and recalling\<close>

text \<open>\<^verbatim>\<open>COALESCE(NULLIF(joined_at, ''), update_time)\<close>\<close>

definition effective_joined_at :: "member_row \<Rightarrow> string" where
  "effective_joined_at gm = (if gm_joined_at gm = [] then gm_update_time gm else gm_joined_at gm)"

definition CanUserReadMessageWithDB :: "int \<Rightarrow> message_row option \<Rightarrow> database \<Rightarrow> bool" where
  "CanUserReadMessageWithDB requesterID message db =
     (case message of
        None \<Rightarrow> False
      | Some m \<Rightarrow>
          if requesterID \<le> 0 then False
          else if \<not> ms_is_group m then requesterID = ms_from_user_id m \<or> requesterID = ms_to_user_id m
          else if requesterID = ms_from_user_id m then True
          else 0 < sql_count (\<lambda>gm. gm_group_id gm = ms_to_user_id m \<and> gm_user_id gm = requesterID \<and>
                                   effective_joined_at gm \<le> ms_timestamp m) (group_members db))"

definition MessageRecallWindow :: duration where
  "MessageRecallWindow = 2 * minute"

datatype MessageRecallStatus =
    MessageRecallOK | MessageRecallNotFound | MessageRecallForbidden | MessageRecallAlreadyRecalled | MessageRecallExpired

record MessageRecallOutcome =
  ro_message :: "message_row option"
  ro_status :: MessageRecallStatus

text \<open>\<^verbatim>\<open>Time.Sub\<close> saturates at the limits of a duration.\<close>

definition time_sub :: "instant \<Rightarrow> instant \<Rightarrow> duration" where
  "time_sub t u = (if t - u > 2 ^ 63 - 1 then 2 ^ 63 - 1 else if t - u < - (2 ^ 63) then - (2 ^ 63) else t - u)"

definition RecallMessageWithDB ::
  "int \<Rightarrow> int \<Rightarrow> instant \<Rightarrow> database \<Rightarrow> (db_error + MessageRecallOutcome) \<times> database" where
  "RecallMessageWithDB operatorUserID messageID now db =
     (if operatorUserID \<le> 0 \<or> messageID \<le> 0
      then (Inr \<lparr>ro_message = None, ro_status = MessageRecallNotFound\<rparr>, db)
      else (case GetMessageByIDWithDB messageID db of
              None \<Rightarrow> (Inr \<lparr>ro_message = None, ro_status = MessageRecallNotFound\<rparr>, db)
            | Some message \<Rightarrow>
                if ms_from_user_id message \<noteq> operatorUserID
                then (Inr \<lparr>ro_message = Some message,
                           ro_status = (if CanUserReadMessageWithDB operatorUserID (Some message) db
                                        then MessageRecallForbidden else MessageRecallNotFound)\<rparr>, db)
                else if ms_is_recalled message
                then (Inr \<lparr>ro_message = Some message, ro_status = MessageRecallAlreadyRecalled\<rparr>, db)
                else (case Parse (ms_timestamp message) of
                        None \<Rightarrow> (Inl (ErrOther ''parsing time''), db)
                      | Some sentAt \<Rightarrow>
                          if time_sub now sentAt > MessageRecallWindow
                          then (Inr \<lparr>ro_message = Some message, ro_status = MessageRecallExpired\<rparr>, db)
                          else (let recalledAt = RFC3339 now;
                                    c = (\<lambda>m. ms_message_id m = messageID \<and> \<not> ms_is_recalled m);
                                    f = (\<lambda>m. m\<lparr>ms_is_recalled := True, ms_recalled_at := recalledAt,
                                                ms_recalled_by := operatorUserID\<rparr>);
                                    affected = sql_count c (messages db);
                                    db1 = db\<lparr>messages := sql_update c f (messages db)\<rparr>
                                in if affected \<noteq> 1
                                   then (Inl (ErrOther ''message recall update lost locked row''), db1)
                                   else (Inr \<lparr>ro_message = Some (f message), ro_status = MessageRecallOK\<rparr>, db1)))))"

section \<open>Synchronisation\<close>

definition DefaultSyncPageSize :: int where "DefaultSyncPageSize = 100"
definition MaxSyncPageSize :: int where "MaxSyncPageSize = 500"

record SyncMessagesPage =
  sp_messages :: "message_row list"
  sp_has_more :: bool
  sp_next_cursor_timestamp :: string
  sp_next_cursor_message_id :: int

definition buildSyncMessagesPage :: "message_row list \<Rightarrow> nat \<Rightarrow> SyncMessagesPage" where
  "buildSyncMessagesPage rows pageSize =
     (let hasMore = length rows > pageSize; ms = (if hasMore then take pageSize rows else rows) in
      \<lparr>sp_messages = ms, sp_has_more = hasMore,
       sp_next_cursor_timestamp = (if ms = [] then [] else ms_timestamp (last ms)),
       sp_next_cursor_message_id = (if ms = [] then 0 else ms_message_id (last ms))\<rparr>)"

definition sync_key :: "message_row \<Rightarrow> string \<times> int" where
  "sync_key m = (ms_timestamp m, ms_message_id m)"

definition after_cursor :: "string \<Rightarrow> int \<Rightarrow> message_row \<Rightarrow> bool" where
  "after_cursor ts mid m \<longleftrightarrow> ms_timestamp m > ts \<or> ms_timestamp m = ts \<and> ms_message_id m > mid"

text \<open>
  The two branches of the \<^verbatim>\<open>UNION ALL\<close>; the select lists leave out the client identifier, which the
  scanned rows therefore do not have.
\<close>

definition direct_messages :: "int \<Rightarrow> database \<Rightarrow> message_row list" where
  "direct_messages u db = filter (\<lambda>m. \<not> ms_is_group m \<and> ms_to_user_id m = u) (messages db)"

definition group_messages :: "int \<Rightarrow> database \<Rightarrow> message_row list" where
  "group_messages u db =
     concat (map (\<lambda>gm. filter (\<lambda>m. ms_to_user_id m = gm_group_id gm \<and> ms_is_group m \<and>
                                    ms_timestamp m \<ge> effective_joined_at gm) (messages db))
                 (filter (\<lambda>gm. gm_user_id gm = u) (group_members db)))"

definition scanned :: "message_row \<Rightarrow> message_row" where
  "scanned m = m\<lparr>ms_client_message_id := None\<rparr>"

definition sync_rows :: "int \<Rightarrow> string \<Rightarrow> int \<Rightarrow> database \<Rightarrow> message_row list" where
  "sync_rows u ts mid db =
     sql_order sync_key (map scanned (filter (after_cursor ts mid) (direct_messages u db @ group_messages u db)))"

definition sync_limit :: "int \<Rightarrow> nat" where
  "sync_limit pageSize =
     nat (let p = (if pageSize \<le> 0 then DefaultSyncPageSize else pageSize)
          in if p > MaxSyncPageSize then MaxSyncPageSize else p)"

definition GetSyncMessagesPageWithDB :: "int \<Rightarrow> string \<Rightarrow> int \<Rightarrow> int \<Rightarrow> database \<Rightarrow> SyncMessagesPage" where
  "GetSyncMessagesPageWithDB toUserID cursorTimestamp cursorMessageID pageSize db =
     (let n = sync_limit pageSize
      in buildSyncMessagesPage (take (n + 1) (sync_rows toUserID cursorTimestamp cursorMessageID db)) n)"

section \<open>The message table's invariant\<close>

definition message_inv :: "database \<Rightarrow> bool" where
  "message_inv db \<longleftrightarrow> 0 < messages_id_seq db \<and>
     distinct (map ms_message_id (messages db)) \<and>
     (\<forall>m\<in>set (messages db). 0 < ms_message_id m \<and> ms_message_id m < messages_id_seq db) \<and>
     distinct (map (\<lambda>m. (ms_from_user_id m, ms_client_message_id m)) (filter (\<lambda>m. ms_client_message_id m \<noteq> None) (messages db)))"

lemma message_inv_seq: "message_inv db \<Longrightarrow> message_inv (db\<lparr>messages_id_seq := messages_id_seq db + 1\<rparr>)"
  by (force simp: message_inv_def)

lemma create_message_fresh:
  assumes "message_inv db"
  shows "create_message m db = (Inr (m\<lparr>ms_message_id := messages_id_seq db\<rparr>),
    db\<lparr>messages := messages db @ [m\<lparr>ms_message_id := messages_id_seq db\<rparr>], messages_id_seq := messages_id_seq db + 1\<rparr>)"
  using assms by (force simp: create_message_def Let_def sql_create_def message_inv_def)

lemma Store_result:
  assumes inv: "message_inv db"
  shows "StoreNewMessageWithDB clock from to content mt file grp cid db =
    (let c = TrimSpace cid; m = (new_message clock (if c \<noteq> [] then Some c else None) from to content mt file grp)\<lparr>ms_message_id := messages_id_seq db\<rparr> in
     if c \<noteq> [] \<and> (\<exists>m\<in>set (messages db). sent_as from c m)
     then (case sql_first (sent_as from c) (messages db) of
             None \<Rightarrow> (Inl ErrRecordNotFound, db\<lparr>messages_id_seq := messages_id_seq db + 1\<rparr>)
           | Some e \<Rightarrow> (Inr (e, False), db\<lparr>messages_id_seq := messages_id_seq db + 1\<rparr>))
     else (Inr (m, True), db\<lparr>messages := messages db @ [m], messages_id_seq := messages_id_seq db + 1\<rparr>))"
  by (auto simp: StoreNewMessageWithDB_def Let_def create_message_fresh [OF inv])

lemma message_inv_append:
  assumes inv: "message_inv db" and id: "ms_message_id m = messages_id_seq db"
    and new: "\<And>c. ms_client_message_id m = Some c \<Longrightarrow> \<forall>x\<in>set (messages db). \<not> sent_as (ms_from_user_id m) c x"
  shows "message_inv (db\<lparr>messages := messages db @ [m], messages_id_seq := messages_id_seq db + 1\<rparr>)"
proof -
  have old: "\<forall>x\<in>set (messages db). 0 < ms_message_id x \<and> ms_message_id x < messages_id_seq db"
    using inv by (simp add: message_inv_def)
  then have "messages_id_seq db \<notin> ms_message_id ` set (messages db)" by auto
  moreover have "\<forall>x\<in>set (messages db). 0 < ms_message_id x \<and> ms_message_id x < messages_id_seq db + 1" using old by auto
  moreover have "(ms_from_user_id m, ms_client_message_id m) \<notin>
      (\<lambda>m. (ms_from_user_id m, ms_client_message_id m)) ` set (filter (\<lambda>m. ms_client_message_id m \<noteq> None) (messages db))"
    using new by (auto simp: sent_as_def)
  ultimately show ?thesis using inv id by (simp add: message_inv_def)
qed

lemma Store_inv:
  assumes inv: "message_inv db"
  shows "message_inv (snd (StoreNewMessageWithDB clock from to content mt file grp cid db))"
proof (cases "TrimSpace cid \<noteq> [] \<and> (\<exists>m\<in>set (messages db). sent_as from (TrimSpace cid) m)")
  case True
  then show ?thesis using message_inv_seq [OF inv] by (simp add: Store_result [OF inv] Let_def split: option.split)
next
  case False
  then have "snd (StoreNewMessageWithDB clock from to content mt file grp cid db) =
      db\<lparr>messages := messages db @ [(new_message clock (if TrimSpace cid \<noteq> [] then Some (TrimSpace cid) else None)
           from to content mt file grp)\<lparr>ms_message_id := messages_id_seq db\<rparr>], messages_id_seq := messages_id_seq db + 1\<rparr>"
    by (auto simp: Store_result [OF inv] Let_def)
  moreover have "message_inv \<dots>"
    by (rule message_inv_append [OF inv]) (use False in \<open>auto simp: new_message_def split: if_splits\<close>)
  ultimately show ?thesis by simp
qed

text \<open>Recalling by one equation: the guarded update of a single row.\<close>

definition recallable :: "int \<Rightarrow> instant \<Rightarrow> message_row \<Rightarrow> bool" where
  "recallable operator now m \<longleftrightarrow> ms_from_user_id m = operator \<and> \<not> ms_is_recalled m \<and>
     (case Parse (ms_timestamp m) of None \<Rightarrow> False | Some sentAt \<Rightarrow> now - sentAt \<le> MessageRecallWindow)"

definition recall_row :: "int \<Rightarrow> instant \<Rightarrow> message_row \<Rightarrow> message_row" where
  "recall_row operator now m = m\<lparr>ms_is_recalled := True, ms_recalled_at := RFC3339 now, ms_recalled_by := operator\<rparr>"

lemma time_sub_window: "time_sub t u > MessageRecallWindow \<longleftrightarrow> t - u > MessageRecallWindow"
  by (auto simp: time_sub_def MessageRecallWindow_def)

lemma GetMessage_SomeD: "GetMessageByIDWithDB i db = Some m \<Longrightarrow> m \<in> set (messages db) \<and> ms_message_id m = i"
  by (auto simp: GetMessageByIDWithDB_def dest: sql_first_SomeD)

lemma GetMessage_unique:
  assumes "message_inv db" "m \<in> set (messages db)"
  shows "GetMessageByIDWithDB (ms_message_id m) db = Some m"
proof (cases "GetMessageByIDWithDB (ms_message_id m) db")
  case None
  then show ?thesis using assms(2) by (auto simp: GetMessageByIDWithDB_def sql_first_None)
next
  case (Some m')
  have "inj_on ms_message_id (set (messages db))" using assms(1) by (simp add: message_inv_def distinct_map)
  with Some GetMessage_SomeD [OF Some] assms(2) show ?thesis by (metis inj_onD)
qed

lemma update_message_where:
  assumes inv: "message_inv db" and m: "GetMessageByIDWithDB i db = Some m" and c: "c m"
  shows "sql_update (\<lambda>x. ms_message_id x = i \<and> c x) f (messages db) = map (\<lambda>x. if ms_message_id x = i then f x else x) (messages db)"
    "sql_count (\<lambda>x. ms_message_id x = i \<and> c x) (messages db) = 1"
proof -
  have u: "x = m" if "x \<in> set (messages db)" "ms_message_id x = i" for x
    using GetMessage_unique [OF inv that(1)] that(2) m by simp
  then show "sql_update (\<lambda>x. ms_message_id x = i \<and> c x) f (messages db) = map (\<lambda>x. if ms_message_id x = i then f x else x) (messages db)"
    using c by (auto simp: sql_update_def)
  have "m \<in> set (messages db)" "ms_message_id m = i" using GetMessage_SomeD [OF m] by auto
  then show "sql_count (\<lambda>x. ms_message_id x = i \<and> c x) (messages db) = 1"
    using sql_count_unique [of ms_message_id "messages db" m "\<lambda>x. ms_message_id x = i \<and> c x"] inv c by (auto simp: message_inv_def)
qed

definition recall_db :: "int \<Rightarrow> int \<Rightarrow> instant \<Rightarrow> database \<Rightarrow> database" where
  "recall_db operator i now db =
     db\<lparr>messages := map (\<lambda>x. if ms_message_id x = i then recall_row operator now x else x) (messages db)\<rparr>"

lemma Recall_result:
  assumes inv: "message_inv db" and pos: "0 < operator" "0 < i" and m: "GetMessageByIDWithDB i db = Some m"
  shows "RecallMessageWithDB operator i now db =
    (if recallable operator now m
     then (Inr \<lparr>ro_message = Some (recall_row operator now m), ro_status = MessageRecallOK\<rparr>, recall_db operator i now db)
     else (if ms_from_user_id m = operator \<and> \<not> ms_is_recalled m \<and> Parse (ms_timestamp m) = None then Inl (ErrOther ''parsing time'')
           else Inr \<lparr>ro_message = Some m, ro_status =
             (if ms_from_user_id m \<noteq> operator
              then if CanUserReadMessageWithDB operator (Some m) db then MessageRecallForbidden else MessageRecallNotFound
              else if ms_is_recalled m then MessageRecallAlreadyRecalled else MessageRecallExpired)\<rparr>, db))"
proof (cases "ms_is_recalled m")
  case True
  then show ?thesis using pos m by (simp add: RecallMessageWithDB_def recallable_def)
next
  case False
  note w = update_message_where [OF inv m, of "\<lambda>x. \<not> ms_is_recalled x", OF False]
  show ?thesis
    using pos m False w
    by (cases "Parse (ms_timestamp m)")
       (auto simp: RecallMessageWithDB_def recallable_def Let_def time_sub_window recall_db_def recall_row_def)
qed

end
