(* ===== verification/Storage_Handler.thy ===== *)
theory Storage_Handler
  imports Users Messages Inbox_Outbox Kafka_Consumer Oneof_Router
begin

text \<open>
  \<^verbatim>\<open>services/storageService\<close>: the handlers of storage requests, the two-level cache they read through, the
  inbox-guarded message handler with its cache invalidation and the consumer's processor. A handler
  acts on the transaction's database, the caches and the list of keys to invalidate after the commit.
\<close>

section \<open>Messages\<close>

datatype storage_result = STORAGE_OK | STORAGE_SERVICE_ERROR | STORAGE_RECORD_NOT_EXIST | STORAGE_FORBIDDEN
  | STORAGE_ALREADY_RECALLED | STORAGE_RECALL_EXPIRED

record store_new_message =
  sn_from_user_id :: int
  sn_to_user_id :: int
  sn_content :: string
  sn_message_type :: string
  sn_is_group :: bool
  sn_real_file_name :: string
  sn_client_message_id :: string
  sn_client_timestamp :: string

record query_sync_messages =
  qs_to_user_id :: int
  qs_timestamp :: string
  qs_page_size :: int
  qs_cursor_timestamp :: string
  qs_cursor_message_id :: int

datatype storage_payload =
    StoreNewMessage store_new_message
  | QueryMessage int
  | QuerySyncMessages query_sync_messages
  | UpdateUserName int string
  | UpdateUserAvatar int string
  | QueryUser int
  | QueryFileExists string
  | RecallMessage int

record storage_request =
  sq_from_kafka_topic :: string
  sq_target_user_id :: int
  sq_payload :: "storage_payload option"

record message_rsp =
  mr_message_id :: int
  mr_from_user_id :: int
  mr_to_user_id :: int
  mr_content :: string
  mr_timestamp :: string
  mr_msg_type :: string
  mr_is_group :: bool
  mr_real_file_name :: string
  mr_is_recalled :: bool
  mr_recalled_at :: string
  mr_recalled_by :: int

record store_msg_rsp =
  sm_message_id :: int
  sm_created :: bool
  sm_request :: store_new_message

record recall_message_rsp =
  rc_message_id :: int
  rc_from_user_id :: int
  rc_to_user_id :: int
  rc_is_group :: bool
  rc_operator_user_id :: int
  rc_recalled_at :: string

record user_info_rsp =
  ui_user_id :: int
  ui_account :: string
  ui_name :: string
  ui_avatar :: string
  ui_update_time :: string

record sync_messages_rsp =
  sr_msgs :: "message_rsp list"
  sr_has_more :: bool
  sr_next_cursor_timestamp :: string
  sr_next_cursor_message_id :: int

datatype storage_rsp_payload =
    StoreMsgRsp store_msg_rsp
  | MsgRsp message_rsp
  | SyncMsgsRsp sync_messages_rsp
  | UserInfoRsp user_info_rsp
  | FileExistsRsp bool int string
  | RecallMessageRsp recall_message_rsp

record storage_response =
  sp_result :: storage_result
  sp_target_user_id :: int
  sp_payload :: "storage_rsp_payload option"

definition storage_respond :: "storage_request \<Rightarrow> storage_result \<Rightarrow> storage_rsp_payload option \<Rightarrow> storage_response" where
  "storage_respond req result payload =
     \<lparr>sp_result = result, sp_target_user_id = sq_target_user_id req, sp_payload = payload\<rparr>"

section \<open>The two-level cache\<close>

text \<open>
  Values are message rows, user rows and file-existence entries. The in-process cache may refuse a
  value; the Redis cache may be absent, and its single operations may fail. A file-existence entry is
  not registered with the encoder of the Redis cache, so that storing one there always fails.
\<close>

datatype cache_value = CachedMessage message_row | CachedUser user_row | CachedFile bool int string

record caches =
  l1Cache :: "string \<rightharpoonup> cache_value"
  l2Cache :: "(string \<rightharpoonup> cache_value) option"

record cache_faults =
  l1_accepts :: "string \<Rightarrow> bool"
  l2_sets :: "string \<Rightarrow> bool"
  l2_gets :: "string \<Rightarrow> bool"
  l2_deletes :: "string \<Rightarrow> bool"

definition l2_encodable :: "cache_value \<Rightarrow> bool" where
  "l2_encodable v = (case v of CachedFile _ _ _ \<Rightarrow> False | _ \<Rightarrow> True)"

definition setToCache :: "cache_faults \<Rightarrow> string \<Rightarrow> cache_value \<Rightarrow> caches \<Rightarrow> caches" where
  "setToCache env key v c =
     \<lparr>l1Cache = (if l1_accepts env key then (l1Cache c)(key \<mapsto> v) else l1Cache c),
      l2Cache = (case l2Cache c of
                   None \<Rightarrow> None
                 | Some l2 \<Rightarrow> Some (if l2_encodable v \<and> l2_sets env key then l2(key \<mapsto> v) else l2))\<rparr>"

definition getFromCache :: "cache_faults \<Rightarrow> string \<Rightarrow> caches \<Rightarrow> cache_value option \<times> caches" where
  "getFromCache env key c =
     (case l1Cache c key of
        Some v \<Rightarrow> (Some v, c)
      | None \<Rightarrow>
          (case l2Cache c of
             None \<Rightarrow> (None, c)
           | Some l2 \<Rightarrow>
               (case (if l2_gets env key then l2 key else None) of
                  None \<Rightarrow> (None, c)
                | Some v \<Rightarrow> (Some v, c\<lparr>l1Cache := (if l1_accepts env key then (l1Cache c)(key \<mapsto> v) else l1Cache c)\<rparr>))))"

definition clear_key :: "cache_faults \<Rightarrow> string \<Rightarrow> caches \<Rightarrow> caches" where
  "clear_key env key c =
     \<lparr>l1Cache = (l1Cache c)(key := None),
      l2Cache = map_option (\<lambda>l2. if l2_deletes env key then l2(key := None) else l2) (l2Cache c)\<rparr>"

definition clearCacheKeys :: "cache_faults \<Rightarrow> string list \<Rightarrow> caches \<Rightarrow> caches" where
  "clearCacheKeys env keys c = fold (clear_key env) keys c"

definition message_key :: "int \<Rightarrow> string" where "message_key i = ''message:'' @ itoa i"
definition user_key :: "int \<Rightarrow> string" where "user_key i = ''user:'' @ itoa i"
definition user_messages_key :: "int \<Rightarrow> string" where "user_messages_key i = ''user_messages:'' @ itoa i"
definition file_key :: "string \<Rightarrow> string" where "file_key h = ''file_exists:'' @ h"

section \<open>Handlers\<close>

record storage_tx =
  tx_db :: database
  tx_caches :: caches
  tx_keys :: "string list"

type_synonym storage_handler_result = "(db_error + storage_response) \<times> storage_tx"

definition handleStoreNewMessageWithDB :: "instant \<Rightarrow> storage_request \<Rightarrow> store_new_message \<Rightarrow> storage_tx \<Rightarrow> storage_handler_result" where
  "handleStoreNewMessageWithDB clock req msg tx =
     (case StoreNewMessageWithDB clock (sn_from_user_id msg) (sn_to_user_id msg) (sn_content msg) (sn_message_type msg)
             (sn_real_file_name msg) (sn_is_group msg) (sn_client_message_id msg) (tx_db tx) of
        (Inl e, db1) \<Rightarrow> (Inl e, tx\<lparr>tx_db := db1\<rparr>)
      | (Inr (storedMessage, created), db1) \<Rightarrow>
          (Inr (storage_respond req STORAGE_OK (Some (StoreMsgRsp
             \<lparr>sm_message_id = ms_message_id storedMessage, sm_created = created, sm_request = msg\<rparr>))),
           tx\<lparr>tx_db := db1, tx_keys := tx_keys tx @ [user_messages_key (sn_to_user_id msg)]\<rparr>))"

definition storageResultForRecallStatus :: "MessageRecallStatus \<Rightarrow> storage_result" where
  "storageResultForRecallStatus status =
     (case status of
        MessageRecallOK \<Rightarrow> STORAGE_OK
      | MessageRecallForbidden \<Rightarrow> STORAGE_FORBIDDEN
      | MessageRecallAlreadyRecalled \<Rightarrow> STORAGE_ALREADY_RECALLED
      | MessageRecallExpired \<Rightarrow> STORAGE_RECALL_EXPIRED
      | MessageRecallNotFound \<Rightarrow> STORAGE_RECORD_NOT_EXIST)"

definition handleRecallMessageWithDB :: "instant \<Rightarrow> storage_request \<Rightarrow> int \<Rightarrow> storage_tx \<Rightarrow> storage_handler_result" where
  "handleRecallMessageWithDB clock req messageID tx =
     (let operatorUserID = sq_target_user_id req;
          rsp = \<lparr>rc_message_id = messageID, rc_from_user_id = 0, rc_to_user_id = 0, rc_is_group = False,
                 rc_operator_user_id = operatorUserID, rc_recalled_at = []\<rparr>
      in if messageID \<le> 0 \<or> operatorUserID \<le> 0
         then (Inr (storage_respond req STORAGE_RECORD_NOT_EXIST (Some (RecallMessageRsp rsp))), tx)
         else (case RecallMessageWithDB operatorUserID messageID clock (tx_db tx) of
                 (Inl e, db1) \<Rightarrow> (Inl e, tx\<lparr>tx_db := db1\<rparr>)
               | (Inr out, db1) \<Rightarrow>
                   (let rsp1 = (case ro_message out of
                                  None \<Rightarrow> rsp
                                | Some m \<Rightarrow> if ro_status out = MessageRecallNotFound then rsp
                                            else rsp\<lparr>rc_from_user_id := ms_from_user_id m, rc_to_user_id := ms_to_user_id m,
                                                     rc_is_group := ms_is_group m, rc_recalled_at := ms_recalled_at m\<rparr>);
                        keys = (if ro_status out \<noteq> MessageRecallOK then []
                                else message_key messageID #
                                  (case ro_message out of Some m \<Rightarrow> [user_messages_key (ms_to_user_id m)] | None \<Rightarrow> []))
                    in (Inr (storage_respond req (storageResultForRecallStatus (ro_status out)) (Some (RecallMessageRsp rsp1))),
                        tx\<lparr>tx_db := db1, tx_keys := tx_keys tx @ keys\<rparr>))))"

definition maskRecalledStorageMessage :: "message_rsp \<Rightarrow> message_rsp" where
  "maskRecalledStorageMessage m =
     (if \<not> mr_is_recalled m then m else m\<lparr>mr_content := [], mr_real_file_name := []\<rparr>)"

definition message_response :: "message_row \<Rightarrow> message_rsp" where
  "message_response m =
     maskRecalledStorageMessage
       \<lparr>mr_message_id = ms_message_id m, mr_from_user_id = ms_from_user_id m, mr_to_user_id = ms_to_user_id m,
        mr_content = ms_content m, mr_timestamp = ms_timestamp m, mr_msg_type = ms_message_type m,
        mr_is_group = ms_is_group m, mr_real_file_name = ms_real_file_name m, mr_is_recalled = ms_is_recalled m,
        mr_recalled_at = ms_recalled_at m, mr_recalled_by = ms_recalled_by m\<rparr>"

definition buildMessageResponse :: "storage_request \<Rightarrow> message_row \<Rightarrow> storage_response" where
  "buildMessageResponse req m = storage_respond req STORAGE_OK (Some (MsgRsp (message_response m)))"

definition messageNotFoundResponse :: "storage_request \<Rightarrow> storage_response" where
  "messageNotFoundResponse req = storage_respond req STORAGE_RECORD_NOT_EXIST None"

definition authorizedMessageResponseWithDB :: "storage_request \<Rightarrow> message_row \<Rightarrow> database \<Rightarrow> storage_response" where
  "authorizedMessageResponseWithDB req m db =
     (if CanUserReadMessageWithDB (sq_target_user_id req) (Some m) db then buildMessageResponse req m
      else messageNotFoundResponse req)"

definition handleQueryMessageWithDB :: "cache_faults \<Rightarrow> storage_request \<Rightarrow> int \<Rightarrow> storage_tx \<Rightarrow> storage_handler_result" where
  "handleQueryMessageWithDB env req messageID tx =
     (let key = message_key messageID; (cached, c1) = getFromCache env key (tx_caches tx); tx1 = tx\<lparr>tx_caches := c1\<rparr> in
      case cached of
        Some (CachedMessage m) \<Rightarrow> (Inr (authorizedMessageResponseWithDB req m (tx_db tx1)), tx1)
      | _ \<Rightarrow>
          (case GetMessageByIDWithDB messageID (tx_db tx1) of
             None \<Rightarrow> (Inr (storage_respond req STORAGE_RECORD_NOT_EXIST None), tx1)
           | Some m \<Rightarrow> (Inr (authorizedMessageResponseWithDB req m (tx_db tx1)),
                         tx1\<lparr>tx_caches := setToCache env key (CachedMessage m) c1\<rparr>)))"

definition normalizeSyncPageSize :: "int \<Rightarrow> int" where
  "normalizeSyncPageSize requested =
     (if requested \<le> 0 then DefaultSyncPageSize else if requested > MaxSyncPageSize then MaxSyncPageSize else requested)"

text \<open>The five layouts of \<^verbatim>\<open>timeFormats\<close> in order; the first two accept the same strings.\<close>

definition parse_cursor :: "string \<Rightarrow> instant option" where
  "parse_cursor s =
     (case Parse s of
        Some t \<Rightarrow> Some t
      | None \<Rightarrow>
          (case ParseLayout (expect CHR ''T'') getzone_Z0700 s of
             Some t \<Rightarrow> Some t
           | None \<Rightarrow>
               (case ParseLayout expect_space getzone_07 s of
                  Some t \<Rightarrow> Some t
                | None \<Rightarrow> ParseLayout expect_space getzone_none s)))"

definition handleQuerySyncMessagesWithDB :: "instant \<Rightarrow> storage_request \<Rightarrow> query_sync_messages \<Rightarrow> storage_tx \<Rightarrow> storage_handler_result" where
  "handleQuerySyncMessagesWithDB clock req query tx =
     (if sq_target_user_id req \<le> 0 \<or> sq_target_user_id req \<noteq> qs_to_user_id query
      then (Inr (storage_respond req STORAGE_FORBIDDEN None), tx)
      else
        (let cursorTimestamp = (if qs_cursor_timestamp query = [] then qs_timestamp query else qs_cursor_timestamp query);
             timestamp = (case parse_cursor cursorTimestamp of Some t \<Rightarrow> t | None \<Rightarrow> clock - 24 * hour);
             pageSize = normalizeSyncPageSize (qs_page_size query);
             cursorMessageID = (if qs_cursor_message_id query < 0 then 0 else qs_cursor_message_id query);
             page = GetSyncMessagesPageWithDB (qs_to_user_id query) (RFC3339 timestamp) cursorMessageID pageSize (tx_db tx)
         in (Inr (storage_respond req STORAGE_OK (Some (SyncMsgsRsp
               \<lparr>sr_msgs = map message_response (sp_messages page), sr_has_more = sp_has_more page,
                sr_next_cursor_timestamp = sp_next_cursor_timestamp page,
                sr_next_cursor_message_id = sp_next_cursor_message_id page\<rparr>))), tx)))"

text \<open>The two profile updates differ in the updated column only.\<close>

definition update_profile :: "(database \<Rightarrow> database) \<Rightarrow> storage_request \<Rightarrow> int \<Rightarrow> storage_tx \<Rightarrow> storage_handler_result" where
  "update_profile update req userID tx =
     (let db1 = update (tx_db tx) in
      case GetUserByID userID db1 of
        None \<Rightarrow> (Inr (storage_respond req STORAGE_RECORD_NOT_EXIST None), tx\<lparr>tx_db := db1\<rparr>)
      | Some _ \<Rightarrow> (Inr (storage_respond req STORAGE_OK None),
                    tx\<lparr>tx_db := db1, tx_keys := tx_keys tx @ [user_key userID]\<rparr>))"

definition handleUpdateUserNameWithDB :: "instant \<Rightarrow> storage_request \<Rightarrow> int \<Rightarrow> string \<Rightarrow> storage_tx \<Rightarrow> storage_handler_result" where
  "handleUpdateUserNameWithDB clock req userID newName tx =
     update_profile (UpdateUserNameByIDWithDB clock userID newName) req userID tx"

definition handleUpdateUserAvatarWithDB :: "instant \<Rightarrow> storage_request \<Rightarrow> int \<Rightarrow> string \<Rightarrow> storage_tx \<Rightarrow> storage_handler_result" where
  "handleUpdateUserAvatarWithDB clock req userID newAvatar tx =
     update_profile (UpdateUserAvatarByIDWithDB clock userID newAvatar) req userID tx"

definition buildUserInfoResponse :: "storage_request \<Rightarrow> user_row \<Rightarrow> storage_response" where
  "buildUserInfoResponse req user =
     storage_respond req STORAGE_OK (Some (UserInfoRsp
       \<lparr>ui_user_id = us_id user, ui_account = us_account user, ui_name = us_name user, ui_avatar = us_avatar user,
        ui_update_time = us_update_time user\<rparr>))"

definition handleQueryUserWithDB :: "cache_faults \<Rightarrow> storage_request \<Rightarrow> int \<Rightarrow> storage_tx \<Rightarrow> storage_handler_result" where
  "handleQueryUserWithDB env req userID tx =
     (let key = user_key userID; (cached, c1) = getFromCache env key (tx_caches tx); tx1 = tx\<lparr>tx_caches := c1\<rparr> in
      case cached of
        Some (CachedUser user) \<Rightarrow> (Inr (buildUserInfoResponse req user), tx1)
      | _ \<Rightarrow>
          (case GetUserByID userID (tx_db tx1) of
             None \<Rightarrow> (Inr (storage_respond req STORAGE_RECORD_NOT_EXIST None), tx1)
           | Some user \<Rightarrow> (Inr (buildUserInfoResponse req user),
                            tx1\<lparr>tx_caches := setToCache env key (CachedUser user) c1\<rparr>)))"

definition GetFileMetadataWithDB :: "string \<Rightarrow> database \<Rightarrow> file_row option" where
  "GetFileMetadataWithDB fileHash db = sql_first (\<lambda>f. fm_file_hash f = fileHash) (file_metadata db)"

definition buildFileExistsResponse :: "storage_request \<Rightarrow> bool \<Rightarrow> int \<Rightarrow> string \<Rightarrow> storage_response" where
  "buildFileExistsResponse req ex fileSize storagePath =
     storage_respond req STORAGE_OK (Some (FileExistsRsp ex fileSize storagePath))"

definition file_entry :: "file_row option \<Rightarrow> bool \<times> int \<times> string" where
  "file_entry f = (case f of Some x \<Rightarrow> if fm_is_verified x then (True, fm_file_size x, fm_storage_path x) else (False, 0, [])
                           | None \<Rightarrow> (False, 0, []))"

definition handleQueryFileExistsWithDB :: "cache_faults \<Rightarrow> storage_request \<Rightarrow> string \<Rightarrow> storage_tx \<Rightarrow> storage_handler_result" where
  "handleQueryFileExistsWithDB env req fileHash tx =
     (if fileHash = [] then (Inr (storage_respond req STORAGE_SERVICE_ERROR None), tx)
      else
        (let key = file_key fileHash; (cached, c1) = getFromCache env key (tx_caches tx); tx1 = tx\<lparr>tx_caches := c1\<rparr> in
         case cached of
           Some (CachedFile ex fileSize storagePath) \<Rightarrow> (Inr (buildFileExistsResponse req ex fileSize storagePath), tx1)
         | _ \<Rightarrow>
             (case file_entry (GetFileMetadataWithDB fileHash (tx_db tx1)) of
                (ex, fileSize, storagePath) \<Rightarrow>
                  (Inr (buildFileExistsResponse req ex fileSize storagePath),
                   tx1\<lparr>tx_caches := setToCache env key (CachedFile ex fileSize storagePath) c1\<rparr>))))"

section \<open>The router's modules\<close>

definition storage_payload_type :: "storage_payload \<Rightarrow> string" where
  "storage_payload_type p =
     (case p of
        StoreNewMessage _ \<Rightarrow> ''StoreNewMessage'' | QueryMessage _ \<Rightarrow> ''QueryMessage''
      | QuerySyncMessages _ \<Rightarrow> ''QuerySyncMessages'' | UpdateUserName _ _ \<Rightarrow> ''UpdateUserName''
      | UpdateUserAvatar _ _ \<Rightarrow> ''UpdateUserAvatar'' | QueryUser _ \<Rightarrow> ''QueryUser''
      | QueryFileExists _ \<Rightarrow> ''QueryFileExists'' | RecallMessage _ \<Rightarrow> ''RecallMessage'')"

type_synonym storage_context = "cache_faults \<times> instant \<times> storage_request"
type_synonym storage_handler = "storage_context \<Rightarrow> storage_payload \<Rightarrow> storage_tx \<Rightarrow> storage_handler_result"

definition storage_mismatch :: db_error where
  "storage_mismatch = ErrOther ''dispatch: payload type mismatch''"

definition registerStorageFileModule :: "(string \<times> storage_handler) list" where
  "registerStorageFileModule =
     [(''QueryFileExists'', \<lambda>(env, clock, req) p tx. case p of QueryFileExists h \<Rightarrow> handleQueryFileExistsWithDB env req h tx | _ \<Rightarrow> (Inl storage_mismatch, tx))]"

definition registerStorageMessageModule :: "(string \<times> storage_handler) list" where
  "registerStorageMessageModule =
     [(''StoreNewMessage'', \<lambda>(env, clock, req) p tx. case p of StoreNewMessage m \<Rightarrow> handleStoreNewMessageWithDB clock req m tx | _ \<Rightarrow> (Inl storage_mismatch, tx)),
      (''QueryMessage'', \<lambda>(env, clock, req) p tx. case p of QueryMessage i \<Rightarrow> handleQueryMessageWithDB env req i tx | _ \<Rightarrow> (Inl storage_mismatch, tx)),
      (''QuerySyncMessages'', \<lambda>(env, clock, req) p tx. case p of QuerySyncMessages q \<Rightarrow> handleQuerySyncMessagesWithDB clock req q tx | _ \<Rightarrow> (Inl storage_mismatch, tx)),
      (''RecallMessage'', \<lambda>(env, clock, req) p tx. case p of RecallMessage i \<Rightarrow> handleRecallMessageWithDB clock req i tx | _ \<Rightarrow> (Inl storage_mismatch, tx))]"

definition registerStorageUserModule :: "(string \<times> storage_handler) list" where
  "registerStorageUserModule =
     [(''UpdateUserName'', \<lambda>(env, clock, req) p tx. case p of UpdateUserName i n \<Rightarrow> handleUpdateUserNameWithDB clock req i n tx | _ \<Rightarrow> (Inl storage_mismatch, tx)),
      (''UpdateUserAvatar'', \<lambda>(env, clock, req) p tx. case p of UpdateUserAvatar i a \<Rightarrow> handleUpdateUserAvatarWithDB clock req i a tx | _ \<Rightarrow> (Inl storage_mismatch, tx)),
      (''QueryUser'', \<lambda>(env, clock, req) p tx. case p of QueryUser i \<Rightarrow> handleQueryUserWithDB env req i tx | _ \<Rightarrow> (Inl storage_mismatch, tx))]"

definition newStorageRequestRouter :: "(string \<rightharpoonup> storage_handler) option" where
  "newStorageRequestRouter =
     register_module (registerStorageFileModule @ registerStorageMessageModule @ registerStorageUserModule) Map.empty"

section \<open>The message handler\<close>

record storage_codec =
  sc_unmarshal_envelope :: "bytes \<Rightarrow> string + string \<times> bytes"
  sc_unmarshal_request :: "bytes \<Rightarrow> string + storage_request"
  sc_marshal_response :: "storage_response \<Rightarrow> string + bytes"
  sc_marshal_envelope :: "storage_response \<Rightarrow> string + bytes"
  sc_sha256hex :: "string \<Rightarrow> string"

datatype storage_error =
    StorageMissingOperationKey | StorageDecodeError string | StorageRouterPanic
  | StorageDispatchFailed "db_error dispatch_error" | StorageMarshalFailed string

definition storage_run ::
  "cache_faults \<Rightarrow> instant \<Rightarrow> storage_request \<Rightarrow> caches \<Rightarrow> database \<Rightarrow>
   (storage_error + storage_response) \<times> storage_tx" where
  "storage_run env clock req c db =
     (let tx = \<lparr>tx_db = db, tx_caches = c, tx_keys = []\<rparr> in
      case newStorageRequestRouter of
        None \<Rightarrow> (Inl StorageRouterPanic, tx)
      | Some router \<Rightarrow>
          (case Dispatch storage_payload_type router (env, clock, req) (sq_payload req) tx of
             (Inl e, tx1) \<Rightarrow> (Inl (StorageDispatchFailed e), tx1)
           | (Inr resp, tx1) \<Rightarrow> (Inr resp, tx1)))"

definition storage_execute ::
  "storage_codec \<Rightarrow> cache_faults \<Rightarrow> instant \<Rightarrow> string \<Rightarrow> storage_request \<Rightarrow> caches \<Rightarrow> (database, storage_error) executor" where
  "storage_execute codec env clock operationKey req c db =
     (case storage_run env clock req c db of
        (Inl e, tx) \<Rightarrow> (Inl e, tx_db tx)
      | (Inr resp, tx) \<Rightarrow>
          (case sc_marshal_response codec resp of
             Inl e \<Rightarrow> (Inl (StorageMarshalFailed e), tx_db tx)
           | Inr encoded \<Rightarrow>
               (case sc_marshal_envelope codec resp of
                  Inl e \<Rightarrow> (Inl (StorageMarshalFailed e), tx_db tx)
                | Inr payload \<Rightarrow>
                    (Inr (encoded, [\<lparr>pe_event_id = StableEventID (sc_sha256hex codec) ''storage'' operationKey ''response'',
                                     pe_topic = sq_from_kafka_topic req, pe_payload = payload\<rparr>]), tx_db tx))))"

definition mutationCacheKeys :: "storage_request \<Rightarrow> string list" where
  "mutationCacheKeys req =
     (case sq_payload req of
        Some (StoreNewMessage m) \<Rightarrow> [user_messages_key (sn_to_user_id m)]
      | Some (UpdateUserName i _) \<Rightarrow> [user_key i]
      | Some (UpdateUserAvatar i _) \<Rightarrow> [user_key i]
      | Some (RecallMessage i) \<Rightarrow> [message_key i]
      | _ \<Rightarrow> [])"

text \<open>
  The closure runs exactly when the inbox row is new; the caches it changed are not rolled back with
  the transaction, while the keys it collected are cleared after a commit only.
\<close>

definition reaches_handler :: "string \<Rightarrow> string \<Rightarrow> 's reliable_store \<Rightarrow> bool" where
  "reaches_handler service operationKey st \<longleftrightarrow>
     TrimSpace service \<noteq> [] \<and> TrimSpace operationKey \<noteq> [] \<and> find_inbox (TrimSpace service) (TrimSpace operationKey) st = None"

record storage_state =
  ss_store :: "database reliable_store"
  ss_caches :: caches

definition HandleMessage_storage ::
  "storage_codec \<Rightarrow> cache_faults \<Rightarrow> instant \<Rightarrow> string \<Rightarrow> bytes \<Rightarrow> storage_state \<Rightarrow>
   (storage_error inbox_error + inbox_execution) \<times> storage_state" where
  "HandleMessage_storage codec env clock operationKey message s =
     (if operationKey = [] then (Inl (ExecuteError StorageMissingOperationKey), s)
      else (case sc_unmarshal_request codec message of
              Inl e \<Rightarrow> (Inl (ExecuteError (StorageDecodeError e)), s)
            | Inr req \<Rightarrow>
                (let st = ss_store s;
                     ran = reaches_handler ''storage'' operationKey st;
                     tx = snd (storage_run env clock req (ss_caches s) (tables st));
                     c1 = (if ran then tx_caches tx else ss_caches s);
                     keys = (if ran then tx_keys tx else [])
                 in case ExecuteInboxOutbox clock ''storage'' operationKey
                           (storage_execute codec env clock operationKey req (ss_caches s)) st of
                      (Inl e, st1) \<Rightarrow> (Inl e, \<lparr>ss_store = st1, ss_caches = c1\<rparr>)
                    | (Inr x, st1) \<Rightarrow>
                        (Inr x, \<lparr>ss_store = st1,
                                 ss_caches = clearCacheKeys env
                                   (if ix_replayed x \<and> keys = [] then mutationCacheKeys req else keys) c1\<rparr>))))"

definition process_storage ::
  "storage_codec \<Rightarrow> (storage_error inbox_error \<Rightarrow> string) \<Rightarrow> cache_faults \<Rightarrow> instant \<Rightarrow> string \<Rightarrow> kafka_message \<Rightarrow> storage_state \<Rightarrow>
   consumer_result \<times> storage_state" where
  "process_storage codec text env clock operationKey message s =
     (case sc_unmarshal_envelope codec (km_value message) of
        Inl e \<Rightarrow> (Permanent (Some (plain_error (''decode storage envelope: '' @ e))), s)
      | Inr (ty, payload) \<Rightarrow>
          if ty \<noteq> ''STORAGE_REQUEST'' \<and> ty \<noteq> ''DF_REQUEST''
          then (Permanent (Some (plain_error (''unexpected storage envelope type: '' @ ty))), s)
          else if payload = [] then (Permanent (Some (plain_error ''empty storage request payload'')), s)
          else (case sc_unmarshal_request codec payload of
                  Inl e \<Rightarrow> (Permanent (Some (plain_error (''decode storage request: '' @ e))), s)
                | Inr request \<Rightarrow>
                    if sq_payload request = None \<or> sq_from_kafka_topic request = []
                    then (Permanent (Some (plain_error ''incomplete storage request'')), s)
                    else (case HandleMessage_storage codec env clock operationKey payload s of
                            (Inl e, s1) \<Rightarrow> (ResultForError (Some (plain_error (text e))), s1)
                          | (Inr _, s1) \<Rightarrow> (Success, s1))))"

end
