(* ===== verification/Message_Laws.thy ===== *)
theory Message_Laws
  imports Messages
begin

text \<open>
  The guarantees of the message table: retried sends are stored once, a recall is exactly the sender's
  within the window, and walking the pages of the synchronisation yields every visible message once,
  in order.
\<close>

section \<open>Walking the pages\<close>

lemma after_cursor_key: "after_cursor ts mid m \<longleftrightarrow> (ts, mid) < sync_key m"
  by (auto simp: after_cursor_def sync_key_def pair_less_iff)

lemma sync_key_scanned [simp]: "sync_key (scanned m) = sync_key m" "ms_message_id (scanned m) = ms_message_id m"
  "after_cursor ts mid (scanned m) = after_cursor ts mid m"
  by (simp_all add: sync_key_def scanned_def after_cursor_def)

definition visible_rows :: "int \<Rightarrow> database \<Rightarrow> message_row list" where
  "visible_rows u db = sql_order sync_key (map scanned (direct_messages u db @ group_messages u db))"

lemma sync_rows_filter: "sync_rows u ts mid db = filter (after_cursor ts mid) (visible_rows u db)"
  by (simp add: sync_rows_def visible_rows_def sql_order_def filter_sort filter_map comp_def)

lemma sync_limit_pos: "0 < sync_limit n"
  by (simp add: sync_limit_def DefaultSyncPageSize_def MaxSyncPageSize_def Let_def)

lemma page_fields:
  assumes "page = GetSyncMessagesPageWithDB u ts mid ps db" "rows = sync_rows u ts mid db" "n = sync_limit ps"
  shows "sp_messages page = take n rows" "sp_has_more page \<longleftrightarrow> n < length rows"
    "rows \<noteq> [] \<Longrightarrow> sp_next_cursor_timestamp page = ms_timestamp (rows ! (min n (length rows) - 1))"
    "rows \<noteq> [] \<Longrightarrow> sp_next_cursor_message_id page = ms_message_id (rows ! (min n (length rows) - 1))"
proof -
  have n: "0 < n" using sync_limit_pos assms(3) by simp
  have l: "last (take n rows) = rows ! (min n (length rows) - 1)" if "rows \<noteq> []"
    using that n by (subst last_conv_nth) (auto simp: min.commute)
  show "sp_messages page = take n rows" "sp_has_more page \<longleftrightarrow> n < length rows"
    by (auto simp: assms GetSyncMessagesPageWithDB_def buildSyncMessagesPage_def Let_def min_def)
  show "rows \<noteq> [] \<Longrightarrow> sp_next_cursor_timestamp page = ms_timestamp (rows ! (min n (length rows) - 1))"
    "rows \<noteq> [] \<Longrightarrow> sp_next_cursor_message_id page = ms_message_id (rows ! (min n (length rows) - 1))"
    using n l by (auto simp: assms GetSyncMessagesPageWithDB_def buildSyncMessagesPage_def Let_def)
qed

lemma filter_length_less:
  assumes "\<And>x. x \<in> set xs \<Longrightarrow> Q x \<Longrightarrow> P x" "y \<in> set xs" "P y" "\<not> Q y"
  shows "length (filter Q xs) < length (filter P xs)"
proof -
  have "length (filter Q xs) = length (filter Q (filter P xs))"
    using assms(1) by (simp, intro arg_cong [of _ _ length] filter_cong) auto
  also have "\<dots> < length (filter P xs)"
    using assms(2-4) by (intro length_filter_less [of y]) auto
  finally show ?thesis .
qed

lemma sync_progress:
  assumes p: "page = GetSyncMessagesPageWithDB u ts mid ps db" and more: "sp_has_more page"
  shows "length (sync_rows u (sp_next_cursor_timestamp page) (sp_next_cursor_message_id page) db) <
    length (sync_rows u ts mid db)"
proof -
  let ?rows = "sync_rows u ts mid db" and ?n = "sync_limit ps"
  note f = page_fields [OF p refl refl]
  have n: "?n < length ?rows" "?rows \<noteq> []" using more f(2) by auto
  define m where "m = ?rows ! (?n - 1)"
  have "m \<in> set ?rows" unfolding m_def using n by (intro nth_mem) simp
  then have m: "m \<in> set (visible_rows u db)" "(ts, mid) < sync_key m"
    by (auto simp: sync_rows_filter after_cursor_key)
  have c: "(sp_next_cursor_timestamp page, sp_next_cursor_message_id page) = sync_key m"
    using f(3,4) n by (simp add: sync_key_def min_def m_def)
  show ?thesis
    unfolding sync_rows_filter after_cursor_key c
    by (rule filter_length_less [OF _ m(1)]) (use m(2) less_trans [OF m(2)] in simp_all)
qed

text \<open>The client's walk: it asks for the next page with the cursor of the last one while there is more.\<close>

function sync_walk :: "int \<Rightarrow> int \<Rightarrow> string \<Rightarrow> int \<Rightarrow> database \<Rightarrow> message_row list" where
  "sync_walk u ps ts mid db =
     (let page = GetSyncMessagesPageWithDB u ts mid ps db in
      sp_messages page @
      (if sp_has_more page
       then sync_walk u ps (sp_next_cursor_timestamp page) (sp_next_cursor_message_id page) db else []))"
  by pat_completeness auto
termination
  by (relation "measure (\<lambda>(u, ps, ts, mid, db). length (sync_rows u ts mid db))") (auto intro: sync_progress)

declare sync_walk.simps [simp del]

lemma distinct_concat_disjoint:
  assumes "\<And>x. x \<in> set xs \<Longrightarrow> distinct (f x)" "distinct xs"
    "\<And>x y. x \<in> set xs \<Longrightarrow> y \<in> set xs \<Longrightarrow> x \<noteq> y \<Longrightarrow> set (f x) \<inter> set (f y) = {}"
  shows "distinct (concat (map f xs))"
  using assms by (induction xs) (auto simp: disjoint_iff)

lemma visible_distinct:
  assumes m: "message_inv db" and g: "group_keys db"
  shows "distinct (direct_messages u db @ group_messages u db)"
proof -
  have d: "distinct (messages db)" using m by (auto simp: message_inv_def distinct_map)
  have k: "distinct (group_members db)" "inj_on member_key (set (group_members db))"
    using g by (auto simp: group_keys_def distinct_map)
  have "distinct (group_messages u db)"
    unfolding group_messages_def
  proof (rule distinct_concat_disjoint)
    fix x y assume "x \<in> set (filter (\<lambda>gm. gm_user_id gm = u) (group_members db))"
      "y \<in> set (filter (\<lambda>gm. gm_user_id gm = u) (group_members db))" "x \<noteq> y"
    then have "gm_group_id x \<noteq> gm_group_id y" using inj_onD [OF k(2), of x y] by (auto simp: member_key_def)
    then show "set (filter (\<lambda>m. ms_to_user_id m = gm_group_id x \<and> ms_is_group m \<and> effective_joined_at x \<le> ms_timestamp m) (messages db)) \<inter>
        set (filter (\<lambda>m. ms_to_user_id m = gm_group_id y \<and> ms_is_group m \<and> effective_joined_at y \<le> ms_timestamp m) (messages db)) = {}"
      by auto
  qed (use d k in auto)
  moreover have "set (direct_messages u db) \<inter> set (group_messages u db) = {}"
    by (auto simp: direct_messages_def group_messages_def)
  ultimately show ?thesis using d by (simp add: direct_messages_def)
qed

lemma visible_subset: "set (direct_messages u db @ group_messages u db) \<subseteq> set (messages db)"
  by (auto simp: direct_messages_def group_messages_def)

lemma visible_rows_strict:
  assumes m: "message_inv db" and g: "group_keys db"
  shows "sorted_wrt (<) (map sync_key (visible_rows u db))"
proof -
  let ?xs = "direct_messages u db @ group_messages u db"
  have "inj_on sync_key (set (messages db))"
    using m by (auto simp: message_inv_def distinct_map sync_key_def inj_on_def)
  then have "distinct (map sync_key ?xs)"
    using visible_distinct [OF m g, of u] visible_subset [of u db] by (subst distinct_map) (blast intro: inj_on_subset)
  then have "distinct (map sync_key (map scanned ?xs))" by (simp add: comp_def)
  then have "distinct (map sync_key (visible_rows u db))"
    unfolding visible_rows_def sql_order_def by (simp only: distinct_map distinct_sort set_sort)
  then show ?thesis
    using sorted_sql_order [of sync_key "map scanned ?xs"]
    by (simp add: strict_sorted_iff visible_rows_def)
qed

lemma filter_strict_drop:
  fixes k :: "'a \<Rightarrow> 'k::linorder"
  assumes "sorted_wrt (<) (map k xs)" "n < length xs" "0 < n"
  shows "filter (\<lambda>x. k (xs ! (n - 1)) < k x) xs = drop n xs"
proof -
  have lt: "k (xs ! i) < k (xs ! j) \<longleftrightarrow> i < j" if "i < length xs" "j < length xs" for i j
  proof -
    have s: "a < b \<Longrightarrow> b < length xs \<Longrightarrow> k (xs ! a) < k (xs ! b)" for a b
      using sorted_wrt_nth_less [OF assms(1)] by simp
    show ?thesis
    proof (cases i j rule: linorder_cases)
      case greater
      then have "k (xs ! j) < k (xs ! i)" using s that by simp
      then show ?thesis using greater less_asym by fastforce
    qed (use s that in simp_all)
  qed
  have "\<not> k (xs ! (n - 1)) < k (xs ! i)" if "i < n" for i
    using lt [of "n - 1" i] assms(2,3) that by simp
  then have "filter (\<lambda>x. k (xs ! (n - 1)) < k x) (take n xs) = []"
    using assms(2) by (auto simp: filter_empty_conv in_set_conv_nth)
  moreover have "k (xs ! (n - 1)) < k (xs ! (n + i))" if "i < length xs - n" for i
    using lt [of "n - 1" "n + i"] assms(2,3) that by simp
  then have "filter (\<lambda>x. k (xs ! (n - 1)) < k x) (drop n xs) = drop n xs"
    using assms(2) by (auto simp: filter_id_conv in_set_conv_nth)
  ultimately show ?thesis by (metis append_Nil append_take_drop_id filter_append)
qed

lemma filter_later: "a < b \<Longrightarrow> filter (\<lambda>x. b < k x) xs = filter (\<lambda>x. b < k x) (filter (\<lambda>x. a < k x) xs)"
  for a :: "'k::linorder"
  by (auto intro!: filter_cong dest: less_trans)

lemma sync_walk_rows:
  "message_inv db \<Longrightarrow> group_keys db \<Longrightarrow> sync_walk u ps ts mid db = sync_rows u ts mid db"
proof (induction u ps ts mid db rule: sync_walk.induct)
  case (1 u ps ts mid db)
  define page where "page = GetSyncMessagesPageWithDB u ts mid ps db"
  let ?rows = "sync_rows u ts mid db" and ?n = "sync_limit ps"
  note f = page_fields [OF page_def refl refl]
  show ?case
  proof (cases "sp_has_more page")
    case True
    then have n: "?n < length ?rows" "?rows \<noteq> []" using f(2) by auto
    have c: "(sp_next_cursor_timestamp page, sp_next_cursor_message_id page) = sync_key (?rows ! (?n - 1))"
      using f(3,4) n by (simp add: sync_key_def min_def)
    have "?rows ! (?n - 1) \<in> set ?rows" using n by (intro nth_mem) simp
    then have after: "(ts, mid) < sync_key (?rows ! (?n - 1))" by (simp add: sync_rows_filter after_cursor_key)
    have s: "sorted_wrt (<) (map sync_key ?rows)"
      using visible_rows_strict [OF "1.prems", of u] unfolding sync_rows_filter sorted_wrt_map by (rule sorted_wrt_filter)
    have "sync_rows u (sp_next_cursor_timestamp page) (sp_next_cursor_message_id page) db =
        filter (\<lambda>x. sync_key (?rows ! (?n - 1)) < sync_key x) ?rows"
      using filter_later [OF after, of sync_key "visible_rows u db"] c
      by (simp only: sync_rows_filter after_cursor_key [abs_def])
    also have "\<dots> = drop ?n ?rows" by (rule filter_strict_drop [OF s n(1) sync_limit_pos])
    finally show ?thesis
      using "1.IH" [OF page_def True "1.prems"] f(1) True by (subst sync_walk.simps) (simp add: page_def [symmetric] Let_def)
  next
    case False
    then show ?thesis using f(1,2) by (subst sync_walk.simps) (simp add: page_def [symmetric] Let_def)
  qed
qed

section \<open>What is visible\<close>

text \<open>The specification of the synchronisation: direct messages to the user, and messages of the user's groups since joining.\<close>

definition visible :: "int \<Rightarrow> database \<Rightarrow> message_row \<Rightarrow> bool" where
  "visible u db m \<longleftrightarrow>
     \<not> ms_is_group m \<and> ms_to_user_id m = u \<or>
     ms_is_group m \<and> (\<exists>gm\<in>set (group_members db). gm_user_id gm = u \<and> gm_group_id gm = ms_to_user_id m \<and>
        effective_joined_at gm \<le> ms_timestamp m)"

lemma sync_rows_set:
  "set (sync_rows u ts mid db) = scanned ` {m \<in> set (messages db). visible u db m \<and> after_cursor ts mid m}"
proof -
  have "set (filter (after_cursor ts mid) (direct_messages u db @ group_messages u db)) =
      {m \<in> set (messages db). visible u db m \<and> after_cursor ts mid m}"
    by (auto simp: direct_messages_def group_messages_def visible_def)
  then show ?thesis by (simp only: sync_rows_def set_sql_order set_map)
qed

lemma visible_readable: "0 < u \<Longrightarrow> visible u db m \<Longrightarrow> CanUserReadMessageWithDB u (Some m) db"
  by (auto simp: visible_def CanUserReadMessageWithDB_def sql_count_pos_iff)

text \<open>The effect of a recall on every branch.\<close>

lemma Recall_effect:
  assumes inv: "message_inv db" and pos: "0 < operator" "0 < i"
  shows "case RecallMessageWithDB operator i now db of
      (Inr out, db') \<Rightarrow>
        (ro_status out = MessageRecallOK \<longleftrightarrow> (\<exists>m. GetMessageByIDWithDB i db = Some m \<and> recallable operator now m)) \<and>
        db' = (if ro_status out = MessageRecallOK then recall_db operator i now db else db) \<and>
        (ro_status out = MessageRecallOK \<longrightarrow> message_inv db' \<and>
           (\<forall>operator' now'. \<not> (\<exists>m. GetMessageByIDWithDB i db' = Some m \<and> recallable operator' now' m)))
    | (Inl _, db') \<Rightarrow> db' = db \<and> (\<exists>m. GetMessageByIDWithDB i db = Some m \<and> Parse (ms_timestamp m) = None)"
proof (cases "GetMessageByIDWithDB i db")
  case None
  then show ?thesis using pos by (simp add: RecallMessageWithDB_def)
next
  case (Some m)
  have "sql_first (\<lambda>x. ms_message_id x = i) (map (\<lambda>x. if ms_message_id x = i then recall_row operator now x else x) rows) =
      map_option (recall_row operator now) (sql_first (\<lambda>x. ms_message_id x = i) rows)" for rows
    by (induction rows) (auto simp: recall_row_def)
  then have g: "GetMessageByIDWithDB i (recall_db operator i now db) = Some (recall_row operator now m)"
    using Some by (simp add: GetMessageByIDWithDB_def recall_db_def)
  have u: "map (\<lambda>x. if ms_message_id x = i then recall_row operator now x else x) rows = sql_update (\<lambda>x. ms_message_id x = i) (recall_row operator now) rows" for rows
    by (simp add: sql_update_def)
  have f: "filter (\<lambda>m. ms_client_message_id m \<noteq> None) (sql_update (\<lambda>x. ms_message_id x = i) (recall_row operator now) rows) =
      sql_update (\<lambda>x. ms_message_id x = i) (recall_row operator now) (filter (\<lambda>m. ms_client_message_id m \<noteq> None) rows)" for rows
    by (induction rows) (auto simp: recall_row_def)
  have k: "map (\<lambda>m. (ms_from_user_id m, ms_client_message_id m)) (filter (\<lambda>m. ms_client_message_id m \<noteq> None)
        (sql_update (\<lambda>x. ms_message_id x = i) (recall_row operator now) rows)) =
      map (\<lambda>m. (ms_from_user_id m, ms_client_message_id m)) (filter (\<lambda>m. ms_client_message_id m \<noteq> None) rows)" for rows
    unfolding f by (rule map_key_sql_update) (simp add: recall_row_def)
  have "message_inv (recall_db operator i now db)"
    using inv k unfolding message_inv_def recall_db_def u
    by (simp add: ball_sql_update map_key_sql_update recall_row_def) blast
  then show ?thesis
    using Some g by (auto simp: Recall_result [OF inv pos Some] recallable_def recall_row_def split: option.splits)
qed

section \<open>Properties\<close>

text \<open>
  C12. Complete synchronisation: for every requested page size, walking the pages from any cursor ends
  and yields exactly the messages after the cursor that the user may see, each once, ordered by
  timestamp and identifier; every one of them passes the authorisation check of single reads.
\<close>

theorem sync_pages_complete:
  assumes "message_inv db" and "group_keys db" and "0 < u"
  shows "set (sync_walk u ps ts mid db) =
      scanned ` {m \<in> set (messages db). visible u db m \<and> after_cursor ts mid m} \<and>
    sorted_wrt (\<lambda>m m'. sync_key m < sync_key m') (sync_walk u ps ts mid db) \<and>
    (\<forall>m \<in> set (sync_walk u ps ts mid db). CanUserReadMessageWithDB u (Some m) db)"
proof -
  have w: "sync_walk u ps ts mid db = sync_rows u ts mid db" by (rule sync_walk_rows [OF assms(1,2)])
  have "sorted_wrt (\<lambda>m m'. sync_key m < sync_key m') (sync_rows u ts mid db)"
    using visible_rows_strict [OF assms(1,2), of u] unfolding sync_rows_filter sorted_wrt_map by (rule sorted_wrt_filter)
  moreover have "CanUserReadMessageWithDB u (Some (scanned m)) db" if "visible u db m" for m
    using visible_readable [OF assms(3) that] assms(3) by (simp add: CanUserReadMessageWithDB_def scanned_def split: if_splits)
  ultimately show ?thesis unfolding w sync_rows_set by auto
qed

text \<open>
  C13. Retried sends are stored once: sending with a client identifier stores at most one message of
  that sender and identifier, and every later send with it, whatever else it contains, returns the
  stored message and adds none.
\<close>

theorem StoreNewMessage_idempotent:
  assumes inv: "message_inv db" and cid: "TrimSpace cid \<noteq> []"
    and st: "StoreNewMessageWithDB clock from to content mt file grp cid db = (r, db1)"
  shows "\<exists>m created. r = Inr (m, created) \<and> message_inv db1 \<and> sent_as from (TrimSpace cid) m \<and>
    (created \<longleftrightarrow> \<not> (\<exists>x\<in>set (messages db). sent_as from (TrimSpace cid) x)) \<and>
    sql_count (sent_as from (TrimSpace cid)) (messages db1) = 1 \<and>
    (\<forall>clock' to' content' mt' file' grp' db2. message_inv db2 \<longrightarrow> m \<in> set (messages db2) \<longrightarrow>
       StoreNewMessageWithDB clock' from to' content' mt' file' grp' cid db2 =
         (Inr (m, False), db2\<lparr>messages_id_seq := messages_id_seq db2 + 1\<rparr>))"
proof -
  let ?c = "TrimSpace cid"
  have uniq: "x = y" if i: "message_inv d" and x: "x \<in> set (messages d)" "sent_as from ?c x"
    and y: "y \<in> set (messages d)" "sent_as from ?c y" for d x y
  proof -
    have "inj_on (\<lambda>m. (ms_from_user_id m, ms_client_message_id m)) (set (filter (\<lambda>m. ms_client_message_id m \<noteq> None) (messages d)))"
      using i by (simp add: message_inv_def distinct_map)
    from inj_onD [OF this, of x y] x y show ?thesis by (auto simp: sent_as_def)
  qed
  have found: "sql_first (sent_as from ?c) (messages d) = Some m"
    if i: "message_inv d" and m: "m \<in> set (messages d)" "sent_as from ?c m" for d m
  proof (cases "sql_first (sent_as from ?c) (messages d)")
    case (Some x)
    then show ?thesis using uniq [OF i _ _ m, of x] sql_first_SomeD [OF Some] by simp
  qed (use m in \<open>auto simp: sql_first_None\<close>)
  have again: "StoreNewMessageWithDB clock' from to' content' mt' file' grp' cid d =
      (Inr (m, False), d\<lparr>messages_id_seq := messages_id_seq d + 1\<rparr>)"
    if i: "message_inv d" and m: "m \<in> set (messages d)" "sent_as from ?c m" for d m clock' to' content' mt' file' grp'
    using found [OF i m] cid m by (auto simp: Store_result [OF i] Let_def)
  have inv1: "message_inv db1" using Store_inv [OF inv, of clock "from" to content mt "file" grp cid] st by simp
  have "\<exists>m created. r = Inr (m, created) \<and> m \<in> set (messages db1) \<and> sent_as from ?c m \<and>
      (created \<longleftrightarrow> \<not> (\<exists>x\<in>set (messages db). sent_as from ?c x))"
  proof (cases "\<exists>x\<in>set (messages db). sent_as from ?c x")
    case True
    then obtain x where x: "x \<in> set (messages db)" "sent_as from ?c x" by blast
    then show ?thesis using again [OF inv x] st by auto
  next
    case False
    with st cid have "r = Inr ((new_message clock (Some ?c) from to content mt file grp)\<lparr>ms_message_id := messages_id_seq db\<rparr>, True)"
      "(new_message clock (Some ?c) from to content mt file grp)\<lparr>ms_message_id := messages_id_seq db\<rparr> \<in> set (messages db1)"
      by (auto simp: Store_result [OF inv] Let_def)
    with False show ?thesis by (auto simp: sent_as_def new_message_def)
  qed
  then obtain m created where m: "r = Inr (m, created)" "m \<in> set (messages db1)" "sent_as from ?c m"
    "created \<longleftrightarrow> \<not> (\<exists>x\<in>set (messages db). sent_as from ?c x)" by blast
  have n: "sql_count (sent_as from ?c) (messages db1) = 1"
  proof (rule trans [OF sql_count_unique [of ms_message_id _ m]])
    show "ms_message_id y = ms_message_id m" if "y \<in> set (messages db1)" "sent_as from ?c y" for y
      using uniq [OF inv1 that m(2,3)] by simp
  qed (use inv1 m(2,3) in \<open>simp_all add: message_inv_def\<close>)
  show ?thesis
    by (intro exI [of _ m] exI [of _ created] conjI allI impI again m n inv1)
qed

text \<open>
  Recall: a message is marked as recalled exactly when the operator sent it, it has not been
  recalled yet and its timestamp is at most two minutes old; then only this row changes, and it can
  never be recalled again. In every other case nothing changes.
\<close>

theorem RecallMessage_correct:
  assumes inv: "message_inv db" and pos: "0 < operator" "0 < i"
  shows "case RecallMessageWithDB operator i now db of
      (Inr out, db') \<Rightarrow>
        (ro_status out = MessageRecallOK \<longleftrightarrow> (\<exists>m. GetMessageByIDWithDB i db = Some m \<and> recallable operator now m)) \<and>
        db' = (if ro_status out = MessageRecallOK then recall_db operator i now db else db) \<and>
        (ro_status out = MessageRecallOK \<longrightarrow> message_inv db' \<and>
           (\<forall>operator' now'. \<not> (\<exists>m. GetMessageByIDWithDB i db' = Some m \<and> recallable operator' now' m)))
    | (Inl _, db') \<Rightarrow> db' = db \<and> (\<exists>m. GetMessageByIDWithDB i db = Some m \<and> Parse (ms_timestamp m) = None)"
  by (rule Recall_effect [OF assms])

text \<open>
  The recall window runs from the second of sending: a stored message can be recalled by its
  sender at every instant up to two minutes after the whole second in which it was stored, and not later.
\<close>

theorem stored_message_recallable:
  assumes "message_inv db" and "four_digit_year clock" and "0 < from"
    and "StoreNewMessageWithDB clock from to content mt file grp cid db = (Inr (m, True), db1)"
  shows "GetMessageByIDWithDB (ms_message_id m) db1 = Some m \<and>
    (ro_status (projr (fst (RecallMessageWithDB from (ms_message_id m) now db1))) = MessageRecallOK \<longleftrightarrow>
     now \<le> clock div second * second + 2 * minute)"
proof -
  have inv1: "message_inv db1" using Store_inv [OF assms(1), of clock "from" to content mt "file" grp cid] assms(4) by simp
  have m: "m \<in> set (messages db1)" "ms_timestamp m = NowTime clock" "ms_from_user_id m = from" "\<not> ms_is_recalled m"
    using assms(4) by (auto simp: Store_result [OF assms(1)] Let_def new_message_def split: if_splits option.splits)
  have g: "GetMessageByIDWithDB (ms_message_id m) db1 = Some m" by (rule GetMessage_unique [OF inv1 m(1)])
  have "0 < ms_message_id m" using inv1 m(1) by (simp add: message_inv_def)
  with Recall_result [OF inv1 assms(3) this g, of now] g m Parse_RFC3339 [OF assms(2)] show ?thesis
    by (auto simp: recallable_def NowTime_def MessageRecallWindow_def)
qed

text \<open>For the witnesses: user 9 in group 7, and a message of user 5 to it.\<close>

definition sample_chat :: database where
  "sample_chat = \<lparr>users = [], friends = [], chat_groups = [],
     group_members = [\<lparr>gm_group_id = 7, gm_user_id = 9, gm_role = ''member'', gm_joined_at = [], gm_update_time = []\<rparr>],
     relationship_requests = [], messages = [], file_metadata = [], users_id_seq = 1, relationship_requests_id_seq = 1,
     messages_id_seq = 1\<rparr>"

definition sample_sent :: message_row where
  "sample_sent = (new_message 1700000000000000000 (Some ''c1'') 5 7 ''hi'' ''text'' [] True)\<lparr>ms_message_id := 1\<rparr>"

definition sample_chatted :: database where
  "sample_chatted = sample_chat\<lparr>messages := [sample_sent], messages_id_seq := 2\<rparr>"

lemma sample_chat_inv: "message_inv sample_chat" "message_inv sample_chatted" "group_keys sample_chatted"
  by (simp_all add: message_inv_def sample_chatted_def sample_chat_def group_keys_def sample_sent_def)

lemma sample_first_send:
  "TrimSpace ''c1'' \<noteq> []"
  "StoreNewMessageWithDB 1700000000000000000 5 7 ''hi'' ''text'' [] True ''c1'' sample_chat = (Inr (sample_sent, True), sample_chatted)"
proof -
  have t: "TrimSpace ''c1'' = ''c1''" by code_simp
  then show "TrimSpace ''c1'' \<noteq> []" by simp
  show "StoreNewMessageWithDB 1700000000000000000 5 7 ''hi'' ''text'' [] True ''c1'' sample_chat = (Inr (sample_sent, True), sample_chatted)"
    by (simp add: Store_result [OF sample_chat_inv(1)] t sample_sent_def sample_chatted_def) (simp add: sample_chat_def Let_def)
qed

lemma sample_year: "four_digit_year 1700000000000000000"
  by code_simp

theorem sync_pages_complete_witness:
  "sample_sent \<in> set (messages sample_chatted) \<and> scanned sample_sent \<in> set (sync_walk 9 1 [] 0 sample_chatted) \<and>
   CanUserReadMessageWithDB 9 (Some (scanned sample_sent)) sample_chatted"
proof -
  have m: "sample_sent \<in> set (messages sample_chatted)" by (simp add: sample_chatted_def)
  have "visible 9 sample_chatted sample_sent" "after_cursor [] 0 sample_sent"
    by (auto simp: visible_def after_cursor_def sample_chatted_def sample_chat_def sample_sent_def new_message_def
        effective_joined_at_def less_le)
  with m have "scanned sample_sent \<in> set (sync_walk 9 1 [] 0 sample_chatted)"
    using sync_pages_complete [OF sample_chat_inv(2,3), of 9 1 "[]" 0] by auto
  with m show ?thesis using sync_pages_complete [OF sample_chat_inv(2,3), of 9 1 "[]" 0] by auto
qed

theorem StoreNewMessage_idempotent_witness:
  "StoreNewMessageWithDB 1700000000000000005 5 7 ''again'' ''text'' [] True ''c1'' sample_chatted =
     (Inr (sample_sent, False), sample_chatted\<lparr>messages_id_seq := 3\<rparr>)"
proof -
  have "sample_sent \<in> set (messages sample_chatted)" "messages_id_seq sample_chatted + 1 = 3" by (simp_all add: sample_chatted_def)
  with StoreNewMessage_idempotent [OF sample_chat_inv(1) sample_first_send] sample_chat_inv(2) show ?thesis by auto
qed

theorem RecallMessage_correct_witness:
  "\<exists>out. RecallMessageWithDB 6 1 1700000060000000000 sample_chatted = (Inr out, sample_chatted) \<and> ro_status out \<noteq> MessageRecallOK"
proof -
  have "GetMessageByIDWithDB 1 sample_chatted = Some sample_sent"
    by (simp add: GetMessageByIDWithDB_def sample_chatted_def) (simp add: sample_sent_def)
  moreover have "ms_from_user_id sample_sent = 5" by (simp add: sample_sent_def new_message_def)
  moreover have "Parse (ms_timestamp sample_sent) \<noteq> None"
    using Parse_RFC3339 [of 1700000000000000000] sample_year by (simp add: sample_sent_def new_message_def NowTime_def)
  ultimately show ?thesis
    using RecallMessage_correct [OF sample_chat_inv(2), of 6 1 1700000060000000000]
    by (auto simp: recallable_def split: prod.splits sum.splits)
qed

theorem stored_message_recallable_witness:
  "ro_status (projr (fst (RecallMessageWithDB 5 1 1700000120000000000 sample_chatted))) = MessageRecallOK \<and>
   ro_status (projr (fst (RecallMessageWithDB 5 1 1700000120000000001 sample_chatted))) \<noteq> MessageRecallOK"
  using stored_message_recallable [OF sample_chat_inv(1) sample_year _ sample_first_send(2)]
  by (simp add: sample_sent_def)

end
