(* ===== verification/Storage_Laws.thy ===== *)
theory Storage_Laws
  imports Storage_Handler Message_Laws
begin

text \<open>
  The storage service behind its caches: with coherent caches every answer is the answer without
  caches, and the handlers keep the caches coherent, so the cached service refines the uncached one.
  What makes an entry outdated is tracked by a set of keys: a Redis deletion that failed, a file whose
  metadata an upload has changed, a profile changed from outside. Everything else is coherent.
  Reads go through authorisation and never show the content of a recalled message.
\<close>

section \<open>Routing\<close>

definition storage_handle :: "storage_context \<Rightarrow> storage_payload \<Rightarrow> storage_tx \<Rightarrow> storage_handler_result" where
  "storage_handle ctx p tx =
     (case ctx of (env, clock, req) \<Rightarrow>
       (case p of
          StoreNewMessage m \<Rightarrow> handleStoreNewMessageWithDB clock req m tx
        | QueryMessage i \<Rightarrow> handleQueryMessageWithDB env req i tx
        | QuerySyncMessages q \<Rightarrow> handleQuerySyncMessagesWithDB clock req q tx
        | UpdateUserName i n \<Rightarrow> handleUpdateUserNameWithDB clock req i n tx
        | UpdateUserAvatar i a \<Rightarrow> handleUpdateUserAvatarWithDB clock req i a tx
        | QueryUser i \<Rightarrow> handleQueryUserWithDB env req i tx
        | QueryFileExists h \<Rightarrow> handleQueryFileExistsWithDB env req h tx
        | RecallMessage i \<Rightarrow> handleRecallMessageWithDB clock req i tx))"

definition storage_modules :: "(string \<times> storage_handler) list" where
  "storage_modules = registerStorageFileModule @ registerStorageMessageModule @ registerStorageUserModule"

lemmas storage_module_defs = storage_modules_def registerStorageFileModule_def registerStorageMessageModule_def
  registerStorageUserModule_def

interpretation storage_router: oneof_modules storage_modules storage_payload_type storage_handle
proof
  show "distinct (map fst storage_modules)" by (simp add: storage_module_defs)
  show "\<exists>h. map_of storage_modules (storage_payload_type p) = Some h \<and> h c p tx = storage_handle c p tx" for p c tx
    by (cases p; cases c) (simp_all add: storage_module_defs storage_payload_type_def storage_handle_def)
qed

lemma storage_run_handle:
  "storage_run env clock req c db =
    (let tx = \<lparr>tx_db = db, tx_caches = c, tx_keys = []\<rparr> in
     case sq_payload req of
       None \<Rightarrow> (Inl (StorageDispatchFailed ErrNilPayload), tx)
     | Some p \<Rightarrow> (case storage_handle (env, clock, req) p tx of
                    (Inl e, tx1) \<Rightarrow> (Inl (StorageDispatchFailed (HandlerError e)), tx1) | (Inr r, tx1) \<Rightarrow> (Inr r, tx1)))"
proof -
  have r: "newStorageRequestRouter = Some (map_of storage_modules)"
    using storage_router.router_built by (simp add: newStorageRequestRouter_def storage_modules_def)
  show ?thesis
    unfolding storage_run_def r Let_def option.case storage_router.dispatched
    by (simp split: option.split prod.split sum.split)
qed

section \<open>Coherent caches\<close>

definition profile :: "user_row \<Rightarrow> int \<times> string \<times> string \<times> string \<times> string" where
  "profile u = (us_id u, us_account u, us_name u, us_avatar u, us_update_time u)"

definition cached_ok :: "database \<Rightarrow> string \<Rightarrow> cache_value \<Rightarrow> bool" where
  "cached_ok db key v =
     (case v of
        CachedMessage m \<Rightarrow> key = message_key (ms_message_id m) \<and> GetMessageByIDWithDB (ms_message_id m) db = Some m
      | CachedUser u \<Rightarrow> key = user_key (us_id u) \<and> map_option profile (GetUserByID (us_id u) db) = Some (profile u)
      | CachedFile ex s p \<Rightarrow> (\<exists>h. key = file_key h \<and> file_entry (GetFileMetadataWithDB h db) = (ex, s, p)))"

definition holds :: "caches \<Rightarrow> string \<Rightarrow> cache_value \<Rightarrow> bool" where
  "holds c key v \<longleftrightarrow> l1Cache c key = Some v \<or> (\<exists>l2. l2Cache c = Some l2 \<and> l2 key = Some v)"

text \<open>Every entry outside the outdated keys \<open>X\<close> is coherent.\<close>

definition coherent :: "string set \<Rightarrow> database \<Rightarrow> caches \<Rightarrow> bool" where
  "coherent X db c \<longleftrightarrow> (\<forall>key v. holds c key v \<longrightarrow> key \<notin> X \<longrightarrow> cached_ok db key v)"

text \<open>The cache key a request reads.\<close>

definition reads_key :: "storage_payload \<Rightarrow> string option" where
  "reads_key p = (case p of QueryMessage i \<Rightarrow> Some (message_key i) | QueryUser i \<Rightarrow> Some (user_key i)
     | QueryFileExists h \<Rightarrow> Some (file_key h) | _ \<Rightarrow> None)"

definition no_caches :: caches where
  "no_caches = \<lparr>l1Cache = Map.empty, l2Cache = None\<rparr>"

lemma coherent_no_caches [simp]: "coherent X db no_caches"
  by (simp add: coherent_def holds_def no_caches_def)

lemma coherentD: "coherent X db c \<Longrightarrow> holds c key v \<Longrightarrow> key \<notin> X \<Longrightarrow> cached_ok db key v"
  by (simp add: coherent_def)

lemma keys_inject [simp]:
  "message_key i = message_key j \<longleftrightarrow> i = j" "user_key i = user_key j \<longleftrightarrow> i = j" "file_key g = file_key h \<longleftrightarrow> g = h"
  by (simp_all add: message_key_def user_key_def file_key_def)

lemma cache_keys_disjoint [simp]:
  "message_key i \<noteq> user_key j" "user_key j \<noteq> message_key i" "message_key i \<noteq> file_key h" "file_key h \<noteq> message_key i"
  "user_key i \<noteq> file_key h" "file_key h \<noteq> user_key i" "user_messages_key i \<noteq> user_key j" "user_messages_key i \<noteq> message_key j"
  "user_messages_key i \<noteq> file_key h"
  by (simp_all add: message_key_def user_key_def file_key_def user_messages_key_def)

lemma holds_set: "holds (setToCache env key v c) k x \<Longrightarrow> holds c k x \<or> k = key \<and> x = v"
  by (auto simp: holds_def setToCache_def split: if_splits option.splits)

lemma holds_get: "getFromCache env key c = (r, c1) \<Longrightarrow> holds c1 k x \<Longrightarrow> holds c k x"
  by (auto simp: holds_def getFromCache_def split: if_splits option.splits)

lemma getFromCache_holds: "getFromCache env key c = (Some v, c1) \<Longrightarrow> holds c key v"
  by (auto simp: holds_def getFromCache_def split: if_splits option.splits)

lemma getFromCache_none: "getFromCache env key no_caches = (None, no_caches)"
  by (simp add: getFromCache_def no_caches_def)

lemma coherent_set: "coherent X db c \<Longrightarrow> cached_ok db key v \<Longrightarrow> coherent X db (setToCache env key v c)"
  using holds_set by (fastforce simp: coherent_def)

lemma coherent_get: "coherent X db c \<Longrightarrow> getFromCache env key c = (r, c1) \<Longrightarrow> coherent X db c1"
  using holds_get by (fastforce simp: coherent_def)

lemma holds_clear_key: "holds (clear_key env key c) k v \<Longrightarrow> holds c k v \<and> (l2_deletes env key \<longrightarrow> k \<noteq> key)"
  by (auto simp: holds_def clear_key_def split: if_splits) (metis fun_upd_same option.distinct(1))

lemma holds_clear:
  "holds (clearCacheKeys env keys c) k v \<Longrightarrow> holds c k v \<and> (l2_deletes env k \<longrightarrow> k \<notin> set keys)"
proof (induction keys arbitrary: c)
  case (Cons key keys)
  then have "holds (clear_key env key c) k v \<and> (l2_deletes env k \<longrightarrow> k \<notin> set keys)"
    by (simp add: clearCacheKeys_def)
  then show ?case using holds_clear_key [of env key c k v] by auto
qed (simp add: clearCacheKeys_def)

section \<open>One handler\<close>

lemma cached_file_ok: "file_entry (GetFileMetadataWithDB h db) = (ex, s, p) \<Longrightarrow> cached_ok db (file_key h) (CachedFile ex s p)"
  by (auto simp: cached_ok_def)

lemma query_message_refines:
  assumes "coherent X db c"
  shows "\<exists>r c'. handleQueryMessageWithDB env req i \<lparr>tx_db = db, tx_caches = c, tx_keys = ks\<rparr> =
      (Inr r, \<lparr>tx_db = db, tx_caches = c', tx_keys = ks\<rparr>) \<and> coherent X db c' \<and>
    (message_key i \<notin> X \<longrightarrow> r = (case GetMessageByIDWithDB i db of None \<Rightarrow> storage_respond req STORAGE_RECORD_NOT_EXIST None
            | Some m \<Rightarrow> authorizedMessageResponseWithDB req m db))"
proof -
  obtain r c1 where g: "getFromCache env (message_key i) c = (r, c1)" by fastforce
  have c1: "coherent X db c1" by (rule coherent_get [OF assms g])
  have hit: "GetMessageByIDWithDB i db = Some m" if "r = Some (CachedMessage m)" "message_key i \<notin> X" for m
    using coherentD [OF assms getFromCache_holds [OF g [unfolded that(1)]] that(2)] by (auto simp: cached_ok_def)
  have set: "coherent X db (setToCache env (message_key i) (CachedMessage m) c1)" if "GetMessageByIDWithDB i db = Some m" for m
    using GetMessage_SomeD [OF that] that by (intro coherent_set [OF c1]) (simp add: cached_ok_def)
  show ?thesis
    using hit set c1 by (auto simp: handleQueryMessageWithDB_def Let_def g split: option.split cache_value.split)
qed

lemma buildUserInfoResponse_profile: "profile u = profile u' \<Longrightarrow> buildUserInfoResponse req u = buildUserInfoResponse req u'"
  by (simp add: buildUserInfoResponse_def profile_def)

lemma query_user_refines:
  assumes "coherent X db c"
  shows "\<exists>r c'. handleQueryUserWithDB env req i \<lparr>tx_db = db, tx_caches = c, tx_keys = ks\<rparr> =
      (Inr r, \<lparr>tx_db = db, tx_caches = c', tx_keys = ks\<rparr>) \<and> coherent X db c' \<and>
    (user_key i \<notin> X \<longrightarrow> r = (case GetUserByID i db of None \<Rightarrow> storage_respond req STORAGE_RECORD_NOT_EXIST None
            | Some u \<Rightarrow> buildUserInfoResponse req u))"
proof -
  obtain r c1 where g: "getFromCache env (user_key i) c = (r, c1)" by fastforce
  have c1: "coherent X db c1" by (rule coherent_get [OF assms g])
  have hit: "\<exists>u'. GetUserByID i db = Some u' \<and> buildUserInfoResponse req u' = buildUserInfoResponse req u"
    if "r = Some (CachedUser u)" "user_key i \<notin> X" for u
    using coherentD [OF assms getFromCache_holds [OF g [unfolded that(1)]] that(2)]
    by (auto simp: cached_ok_def intro: buildUserInfoResponse_profile)
  have set: "coherent X db (setToCache env (user_key i) (CachedUser u) c1)" if "GetUserByID i db = Some u" for u
    using GetUserByID_id [OF that] that by (intro coherent_set [OF c1]) (simp add: cached_ok_def)
  show ?thesis
    using hit set c1 by (fastforce simp: handleQueryUserWithDB_def Let_def g split: option.split cache_value.split)
qed

lemma query_file_refines:
  assumes "coherent X db c"
  shows "\<exists>r c'. handleQueryFileExistsWithDB env req h \<lparr>tx_db = db, tx_caches = c, tx_keys = ks\<rparr> =
      (Inr r, \<lparr>tx_db = db, tx_caches = c', tx_keys = ks\<rparr>) \<and> coherent X db c' \<and>
    (file_key h \<notin> X \<longrightarrow> r = (if h = [] then storage_respond req STORAGE_SERVICE_ERROR None
            else case file_entry (GetFileMetadataWithDB h db) of (ex, s, p) \<Rightarrow> buildFileExistsResponse req ex s p))"
proof -
  obtain r c1 where g: "getFromCache env (file_key h) c = (r, c1)" by fastforce
  have c1: "coherent X db c1" by (rule coherent_get [OF assms g])
  have hit: "file_entry (GetFileMetadataWithDB h db) = (ex, s, p)" if "r = Some (CachedFile ex s p)" "file_key h \<notin> X" for ex s p
    using coherentD [OF assms getFromCache_holds [OF g [unfolded that(1)]] that(2)] by (auto simp: cached_ok_def)
  have set: "coherent X db (setToCache env (file_key h) (CachedFile ex s p) c1)"
    if "file_entry (GetFileMetadataWithDB h db) = (ex, s, p)" for ex s p
    by (rule coherent_set [OF c1 cached_file_ok [OF that]])
  show ?thesis
    using hit set c1 assms by (auto simp: handleQueryFileExistsWithDB_def Let_def g split: option.split cache_value.split prod.split)
qed


text \<open>The database after a mutating handler, and what the coherent entries outside the cleared keys are worth there.\<close>

lemma cached_ok_store:
  assumes "cached_ok db key v" "messages db' = messages db @ ms" "users db' = users db" "file_metadata db' = file_metadata db"
  shows "cached_ok db' key v"
  using assms by (auto simp: cached_ok_def GetMessageByIDWithDB_def GetUserByID_def GetFileMetadataWithDB_def sql_first_append
      split: cache_value.splits)

lemma Store_tables:
  assumes "message_inv db"
  shows "\<exists>ms. messages (snd (StoreNewMessageWithDB clock from to content mt f grp cid db)) = messages db @ ms"
    "users (snd (StoreNewMessageWithDB clock from to content mt f grp cid db)) = users db"
    "file_metadata (snd (StoreNewMessageWithDB clock from to content mt f grp cid db)) = file_metadata db"
  by (auto simp: Store_result [OF assms] Let_def split: option.split)

lemma cached_ok_recall:
  assumes "cached_ok db key v" "key \<noteq> message_key i"
  shows "cached_ok (recall_db operator i now db) key v"
proof -
  have "GetMessageByIDWithDB j (recall_db operator i now db) = GetMessageByIDWithDB j db" if "j \<noteq> i" for j
  proof -
    have "sql_first (\<lambda>x. ms_message_id x = j) (map (\<lambda>x. if ms_message_id x = i then recall_row operator now x else x) rows) =
        sql_first (\<lambda>x. ms_message_id x = j) rows" for rows
      using that by (induction rows) (auto simp: recall_row_def)
    then show ?thesis by (simp add: GetMessageByIDWithDB_def recall_db_def)
  qed
  moreover have "users (recall_db operator i now db) = users db" "file_metadata (recall_db operator i now db) = file_metadata db"
    by (simp_all add: recall_db_def)
  ultimately show ?thesis
    using assms by (auto simp: cached_ok_def GetUserByID_def GetFileMetadataWithDB_def split: cache_value.splits)
qed

lemma cached_ok_profile:
  assumes "cached_ok db key v" "\<And>u. us_id (f u) = us_id u" "key \<noteq> user_key i \<or> GetUserByID i db = None"
  shows "cached_ok (update_users (\<lambda>u. us_id u = i) f db) key v"
proof -
  have "GetUserByID j (update_users (\<lambda>u. us_id u = i) f db) = GetUserByID j db" if "j \<noteq> i \<or> GetUserByID i db = None" for j
    using that GetUserByID_id [of j db] by (cases "GetUserByID j db") (auto simp: GetUserByID_update [OF assms(2)])
  moreover have "messages (update_users c g db) = messages db" "file_metadata (update_users c g db) = file_metadata db" for c g
    by (simp_all add: update_users_def)
  ultimately show ?thesis
    using assms(1,3) by (auto simp: cached_ok_def GetMessageByIDWithDB_def GetFileMetadataWithDB_def split: cache_value.splits)
qed


lemma update_profile_refines:
  assumes f: "\<And>u. us_id (f u) = us_id u" and co: "coherent X db c" and inv: "message_inv db"
    and h: "update_profile (update_users (\<lambda>u. us_id u = i) f) req i \<lparr>tx_db = db, tx_caches = c, tx_keys = []\<rparr> = (r, tx)"
    and h0: "update_profile (update_users (\<lambda>u. us_id u = i) f) req i \<lparr>tx_db = db, tx_caches = no_caches, tx_keys = []\<rparr> = (r0, tx0)"
  shows "r = r0 \<and> tx_db tx = tx_db tx0 \<and> coherent X db (tx_caches tx) \<and> message_inv (tx_db tx) \<and>
    (\<forall>key v. holds (tx_caches tx) key v \<longrightarrow> key \<notin> set (tx_keys tx) \<longrightarrow> key \<notin> X \<longrightarrow> cached_ok (tx_db tx) key v)"
proof -
  have n: "GetUserByID i (update_users (\<lambda>u. us_id u = i) f db) = None \<longleftrightarrow> GetUserByID i db = None"
    by (simp add: GetUserByID_update [OF f])
  have "message_inv (update_users (\<lambda>u. us_id u = i) f db)" using inv by (simp add: message_inv_def update_users_def)
  then show ?thesis
    using h h0 co cached_ok_profile [OF coherentD [OF co] f] n
    by (auto simp: update_profile_def Let_def split: option.splits)
qed

lemma recall_refines:
  assumes co: "coherent X db c" and inv: "message_inv db"
    and h: "handleRecallMessageWithDB clock req i \<lparr>tx_db = db, tx_caches = c, tx_keys = []\<rparr> = (r, tx)"
    and h0: "handleRecallMessageWithDB clock req i \<lparr>tx_db = db, tx_caches = no_caches, tx_keys = []\<rparr> = (r0, tx0)"
  shows "r = r0 \<and> tx_db tx = tx_db tx0 \<and> coherent X db (tx_caches tx) \<and> message_inv (tx_db tx) \<and>
    (\<forall>key v. holds (tx_caches tx) key v \<longrightarrow> key \<notin> set (tx_keys tx) \<longrightarrow> key \<notin> X \<longrightarrow> cached_ok (tx_db tx) key v)"
proof (cases "i \<le> 0 \<or> sq_target_user_id req \<le> 0")
  case True
  then show ?thesis using h h0 co inv by (auto simp: handleRecallMessageWithDB_def Let_def dest: coherentD)
next
  case False
  then have pos: "0 < sq_target_user_id req" "0 < i" by auto
  obtain o1 db1 where rc: "RecallMessageWithDB (sq_target_user_id req) i clock db = (o1, db1)" by fastforce
  have rec: "db1 = db \<or> (\<exists>out. o1 = Inr out \<and> ro_status out = MessageRecallOK \<and>
      db1 = recall_db (sq_target_user_id req) i clock db \<and> message_inv db1)"
  proof (cases o1)
    case (Inl e)
    then show ?thesis using Recall_effect [OF inv pos, of clock] by (simp add: rc)
  next
    case (Inr out)
    have "db1 = (if ro_status out = MessageRecallOK then recall_db (sq_target_user_id req) i clock db else db)"
      "ro_status out = MessageRecallOK \<longrightarrow> message_inv db1"
      using Recall_effect [OF inv pos, of clock] unfolding rc Inr prod.case sum.case by blast+
    with Inr show ?thesis by (cases "ro_status out = MessageRecallOK") simp_all
  qed
  have tx: "tx_caches tx = c" "tx_db tx = db1" "tx_db tx0 = db1" "r = r0"
    using h h0 False rc by (auto simp: handleRecallMessageWithDB_def Let_def split: sum.splits)
  have keys: "message_key i \<in> set (tx_keys tx)" if "db1 \<noteq> db"
  proof -
    from rec that obtain out where "o1 = Inr out" "ro_status out = MessageRecallOK" by blast
    with h rc False show ?thesis by (auto simp: handleRecallMessageWithDB_def Let_def)
  qed
  have "cached_ok db1 key v" if k: "holds c key v" "key \<notin> set (tx_keys tx)" "key \<notin> X" for key v
  proof (cases "db1 = db")
    case True
    then show ?thesis using coherentD [OF co k(1,3)] by simp
  next
    case False
    then have "key \<noteq> message_key i" "db1 = recall_db (sq_target_user_id req) i clock db" using keys k(2) rec by auto
    then show ?thesis using cached_ok_recall [OF coherentD [OF co k(1,3)]] by simp
  qed
  moreover have "message_inv db1" using rec inv by auto
  ultimately show ?thesis using tx co by auto
qed

section \<open>Every handler\<close>

text \<open>
  A handler answers as it does without caches unless the key it reads is outdated, makes the same
  changes to the database, and its cache entries are coherent with the database before; outside the
  keys it has collected they are coherent with the database after, too.
\<close>

lemma storage_handle_refines:
  assumes co: "coherent X db c" and inv: "message_inv db"
    and h: "storage_handle (env, clock, req) p \<lparr>tx_db = db, tx_caches = c, tx_keys = []\<rparr> = (r, tx)"
    and h0: "storage_handle (env0, clock, req) p \<lparr>tx_db = db, tx_caches = no_caches, tx_keys = []\<rparr> = (r0, tx0)"
  shows "((\<forall>key. reads_key p = Some key \<longrightarrow> key \<notin> X) \<longrightarrow> r = r0) \<and>
    tx_db tx = tx_db tx0 \<and> coherent X db (tx_caches tx) \<and> message_inv (tx_db tx) \<and>
    (\<forall>key v. holds (tx_caches tx) key v \<longrightarrow> key \<notin> set (tx_keys tx) \<longrightarrow> key \<notin> X \<longrightarrow> cached_ok (tx_db tx) key v)"
proof (cases p)
  case (StoreNewMessage m)
  let ?s = "StoreNewMessageWithDB clock (sn_from_user_id m) (sn_to_user_id m) (sn_content m) (sn_message_type m)
    (sn_real_file_name m) (sn_is_group m) (sn_client_message_id m) db"
  have tx: "tx_caches tx = c" "tx_db tx = snd ?s" "r = r0" "tx_db tx0 = snd ?s"
    using h h0 unfolding StoreNewMessage storage_handle_def handleStoreNewMessageWithDB_def
    by (auto split: prod.splits sum.splits)
  have "cached_ok (snd ?s) key v" if "cached_ok db key v" for key v
    using cached_ok_store [OF that] Store_tables [OF inv] by metis
  then show ?thesis using tx co Store_inv [OF inv] by (auto dest: coherentD)
next
  case (QueryMessage i)
  then show ?thesis
    using h h0 query_message_refines [OF co, of env req i "[]"] query_message_refines [OF coherent_no_caches [of "{}" db], of env0 req i "[]"] inv
    by (fastforce simp: storage_handle_def reads_key_def dest: coherentD)
next
  case (QuerySyncMessages q)
  then show ?thesis
    using h h0 co inv by (auto simp: storage_handle_def handleQuerySyncMessagesWithDB_def Let_def split: if_splits dest: coherentD)
next
  case (QueryUser i)
  then show ?thesis
    using h h0 query_user_refines [OF co, of env req i "[]"] query_user_refines [OF coherent_no_caches [of "{}" db], of env0 req i "[]"] inv
    by (fastforce simp: storage_handle_def reads_key_def dest: coherentD)
next
  case (QueryFileExists x)
  then show ?thesis
    using h h0 query_file_refines [OF co, of env req x "[]"] query_file_refines [OF coherent_no_caches [of "{}" db], of env0 req x "[]"] inv
    by (fastforce simp: storage_handle_def reads_key_def dest: coherentD)
next
  case (UpdateUserName i n)
  have "r = r0 \<and> tx_db tx = tx_db tx0 \<and> coherent X db (tx_caches tx) \<and> message_inv (tx_db tx) \<and>
    (\<forall>key v. holds (tx_caches tx) key v \<longrightarrow> key \<notin> set (tx_keys tx) \<longrightarrow> key \<notin> X \<longrightarrow> cached_ok (tx_db tx) key v)"
    by (rule update_profile_refines [OF _ co inv, where f = "\<lambda>u. u\<lparr>us_name := n, us_update_time := NowTime clock\<rparr>" and i = i and req = req])
       (use h h0 UpdateUserName in \<open>simp_all add: storage_handle_def handleUpdateUserNameWithDB_def UpdateUserNameByIDWithDB_def [abs_def]\<close>)
  then show ?thesis by (intro conjI) blast+
next
  case (UpdateUserAvatar i a)
  have "r = r0 \<and> tx_db tx = tx_db tx0 \<and> coherent X db (tx_caches tx) \<and> message_inv (tx_db tx) \<and>
    (\<forall>key v. holds (tx_caches tx) key v \<longrightarrow> key \<notin> set (tx_keys tx) \<longrightarrow> key \<notin> X \<longrightarrow> cached_ok (tx_db tx) key v)"
    by (rule update_profile_refines [OF _ co inv, where f = "\<lambda>u. u\<lparr>us_avatar := a, us_update_time := NowTime clock\<rparr>" and i = i and req = req])
       (use h h0 UpdateUserAvatar in \<open>simp_all add: storage_handle_def handleUpdateUserAvatarWithDB_def UpdateUserAvatarByIDWithDB_def [abs_def]\<close>)
  then show ?thesis by (intro conjI) blast+
next
  case (RecallMessage i)
  have "r = r0 \<and> tx_db tx = tx_db tx0 \<and> coherent X db (tx_caches tx) \<and> message_inv (tx_db tx) \<and>
    (\<forall>key v. holds (tx_caches tx) key v \<longrightarrow> key \<notin> set (tx_keys tx) \<longrightarrow> key \<notin> X \<longrightarrow> cached_ok (tx_db tx) key v)"
    by (rule recall_refines [OF co inv]) (use h h0 RecallMessage in \<open>simp_all add: storage_handle_def\<close>)
  then show ?thesis by (intro conjI) blast+
qed


lemma storage_run_refines:
  assumes co: "coherent X db c" and inv: "message_inv db"
    and h: "storage_run env clock req c db = (r, tx)" and h0: "storage_run env0 clock req no_caches db = (r0, tx0)"
  shows "((\<forall>key. Option.bind (sq_payload req) reads_key = Some key \<longrightarrow> key \<notin> X) \<longrightarrow> r = r0) \<and>
    tx_db tx = tx_db tx0 \<and> coherent X db (tx_caches tx) \<and> message_inv (tx_db tx) \<and>
    (\<forall>key v. holds (tx_caches tx) key v \<longrightarrow> key \<notin> set (tx_keys tx) \<longrightarrow> key \<notin> X \<longrightarrow> cached_ok (tx_db tx) key v)"
proof (cases "sq_payload req")
  case None
  then show ?thesis using h h0 co inv by (auto simp: storage_run_handle Let_def dest: coherentD)
next
  case (Some p)
  obtain x y where s: "storage_handle (env, clock, req) p \<lparr>tx_db = db, tx_caches = c, tx_keys = []\<rparr> = (x, y)" by fastforce
  obtain x0 y0 where s0: "storage_handle (env0, clock, req) p \<lparr>tx_db = db, tx_caches = no_caches, tx_keys = []\<rparr> = (x0, y0)" by fastforce
  have "tx = y" "tx0 = y0" "x = x0 \<longrightarrow> r = r0"
    using h h0 Some s s0 by (auto simp: storage_run_handle Let_def split: sum.splits)
  with storage_handle_refines [OF co inv s s0] Some show ?thesis by auto
qed

section \<open>The service\<close>

lemma ExecuteInboxOutbox_cong:
  "execute (tables st) = execute' (tables st) \<Longrightarrow>
   ExecuteInboxOutbox clock service key execute st = ExecuteInboxOutbox clock service key execute' st"
  by (simp add: ExecuteInboxOutbox_def inbox_transaction_def transaction_def Let_def split: option.split)

definition storage_inv :: "string set \<Rightarrow> storage_state \<Rightarrow> bool" where
  "storage_inv X s \<longleftrightarrow> inbox_inv (ss_store s) \<and> message_inv (tables (ss_store s)) \<and> coherent X (tables (ss_store s)) (ss_caches s)"

lemma coherent_clear:
  assumes "\<And>key v. holds c key v \<Longrightarrow> key \<notin> set keys \<Longrightarrow> key \<notin> X \<Longrightarrow> cached_ok db key v"
  shows "coherent (X \<union> {key. \<not> l2_deletes env key}) db (clearCacheKeys env keys c)"
  using assms holds_clear [of env keys c] by (auto simp: coherent_def)

lemma coherent_less: "coherent X db c \<Longrightarrow> (\<And>key v. holds c' key v \<Longrightarrow> holds c key v) \<Longrightarrow> X \<subseteq> Y \<Longrightarrow> coherent Y db c'"
  by (metis coherent_def subsetD)

lemma HandleMessage_storage_eq:
  assumes "key \<noteq> []" "sc_unmarshal_request codec msg = Inr req" "storage_run env clock req c (tables st) = (x, tx)"
    and "ExecuteInboxOutbox clock ''storage'' key (storage_execute codec env clock key req c) st = (y, st1)"
    and "HandleMessage_storage codec env clock key msg \<lparr>ss_store = st, ss_caches = c\<rparr> = (r, s')"
  shows "r = y \<and> ss_store s' = st1 \<and> ss_caches s' =
    (let ran = reaches_handler ''storage'' key st; c1 = (if ran then tx_caches tx else c); keys = (if ran then tx_keys tx else []) in
     case y of Inl _ \<Rightarrow> c1
     | Inr ix \<Rightarrow> clearCacheKeys env (if ix_replayed ix \<and> keys = [] then mutationCacheKeys req else keys) c1)"
proof -
  have [simp]: "ss_store \<lparr>ss_store = st, ss_caches = c\<rparr> = st" "ss_caches \<lparr>ss_store = st, ss_caches = c\<rparr> = c" by simp_all
  show ?thesis
    using assms(5) unfolding HandleMessage_storage_def
    by (cases y) (auto simp: assms(1-4) Let_def)
qed

text \<open>The keys the request in a message reads.\<close>

definition message_reads :: "storage_codec \<Rightarrow> string \<Rightarrow> string set" where
  "message_reads codec msg =
     (case sc_unmarshal_request codec msg of Inl _ \<Rightarrow> {} | Inr req \<Rightarrow>
       (case sq_payload req of None \<Rightarrow> {} | Some p \<Rightarrow> set_option (reads_key p)))"

text \<open>One message: unless it reads an outdated key, the answer and the store are those without caches.\<close>

lemma HandleMessage_storage_refines:
  assumes inv: "storage_inv X s" and fresh: "message_reads codec msg \<inter> X = {}"
    and h: "HandleMessage_storage codec env clock key msg s = (r, s')"
    and h0: "HandleMessage_storage codec env0 clock key msg (s\<lparr>ss_caches := no_caches\<rparr>) = (r0, s0)"
  shows "r = r0 \<and> ss_store s' = ss_store s0"
proof (cases "key = [] \<or> isl (sc_unmarshal_request codec msg)")
  case True
  then show ?thesis using h h0 inv by (cases "sc_unmarshal_request codec msg") (auto simp: HandleMessage_storage_def split: if_splits)
next
  case False
  then obtain req where req: "sc_unmarshal_request codec msg = Inr req" and ne: "key \<noteq> []"
    by (cases "sc_unmarshal_request codec msg") auto
  obtain st c where s: "s = \<lparr>ss_store = st, ss_caches = c\<rparr>" by (cases s) simp
  have i: "message_inv (tables st)" "coherent X (tables st) c" using inv by (simp_all add: storage_inv_def s)
  obtain x tx where t: "storage_run env clock req c (tables st) = (x, tx)" by fastforce
  obtain x0 tx0 where t0: "storage_run env0 clock req no_caches (tables st) = (x0, tx0)" by fastforce
  have "\<forall>k. Option.bind (sq_payload req) reads_key = Some k \<longrightarrow> k \<notin> X" using fresh by (cases "sq_payload req") (auto simp: message_reads_def req)
  then have ref: "x = x0" "tx_db tx = tx_db tx0" using storage_run_refines [OF i(2,1) t t0] by auto
  let ?ex = "storage_execute codec env clock key req c" and ?plain = "storage_execute codec env0 clock key req no_caches"
  have ex: "?ex (tables st) = ?plain (tables st)"
    using ref by (simp add: storage_execute_def t t0 split: sum.split)
  obtain y st1 where e: "ExecuteInboxOutbox clock ''storage'' key ?ex st = (y, st1)" by fastforce
  then have e0: "ExecuteInboxOutbox clock ''storage'' key ?plain st = (y, st1)" using ExecuteInboxOutbox_cong [of ?ex st ?plain, OF ex] by simp
  have "HandleMessage_storage codec env0 clock key msg \<lparr>ss_store = st, ss_caches = no_caches\<rparr> = (r0, s0)" using h0 by (simp add: s)
  from HandleMessage_storage_eq [OF ne req t e h [unfolded s]] HandleMessage_storage_eq [OF ne req t0 e0 this]
  show ?thesis by simp
qed

text \<open>Any message keeps the invariant; the keys whose Redis deletion failed join the outdated ones.\<close>

lemma HandleMessage_storage_inv:
  assumes inv: "storage_inv X s" and h: "HandleMessage_storage codec env clock key msg s = (r, s')"
  shows "storage_inv (X \<union> {k. \<not> l2_deletes env k}) s'"
proof (cases "key = [] \<or> isl (sc_unmarshal_request codec msg)")
  case True
  then have "s' = s" using h by (cases "sc_unmarshal_request codec msg") (auto simp: HandleMessage_storage_def split: if_splits)
  then show ?thesis using inv by (auto simp: storage_inv_def coherent_def)
next
  case False
  then obtain req where req: "sc_unmarshal_request codec msg = Inr req" and ne: "key \<noteq> []"
    by (cases "sc_unmarshal_request codec msg") auto
  obtain st c where s: "s = \<lparr>ss_store = st, ss_caches = c\<rparr>" by (cases s) simp
  have i: "inbox_inv st" "message_inv (tables st)" "coherent X (tables st) c" using inv by (simp_all add: storage_inv_def s)
  obtain x tx where t: "storage_run env clock req c (tables st) = (x, tx)" by fastforce
  obtain x0 tx0 where t0: "storage_run env clock req no_caches (tables st) = (x0, tx0)" by fastforce
  note ref = storage_run_refines [OF i(3,2) t t0]
  let ?ex = "storage_execute codec env clock key req c" and ?Y = "X \<union> {k. \<not> l2_deletes env k}"
  obtain y st1 where e: "ExecuteInboxOutbox clock ''storage'' key ?ex st = (y, st1)" by fastforce
  note eq = HandleMessage_storage_eq [OF ne req t e h [unfolded s]]
  have "inbox_inv st1" using inbox_inv_execute [OF i(1), of clock "''storage''" key ?ex] e by simp
  moreover have "message_inv (tables st1) \<and> coherent ?Y (tables st1) (ss_caches s')"
  proof (cases y)
    case (Inl err)
    then have "st1 = st" using inbox.failed [OF i(1), of "''storage''" "(clock, key, ?ex)"] e by (simp add: deliver_def)
    moreover have "coherent X (tables st) (ss_caches s')" using eq Inl i(3) ref by (simp add: Let_def)
    ultimately show ?thesis using i(2) coherent_less by blast
  next
    case (Inr ix)
    note eff = ExecuteInboxOutbox_effect [OF i(1), where clock = clock and service = "''storage''" and key = key and execute = ?ex,
        unfolded e Inr prod.case sum.case]
    show ?thesis
    proof (cases "ix_replayed ix")
      case True
      then have "st1 = st" "recorded_response ''storage'' st (TrimSpace key) \<noteq> None" using eff by simp_all
      then have "\<not> reaches_handler ''storage'' key st" by (auto simp: reaches_handler_def recorded_response_def)
      then have "ss_caches s' = clearCacheKeys env (mutationCacheKeys req) c"
        using eq Inr True by (simp add: Let_def)
      then show ?thesis
        using \<open>st1 = st\<close> i(2) coherent_less [OF i(3), of "ss_caches s'" ?Y] holds_clear [of env "mutationCacheKeys req" c] by auto
    next
      case False
      then have rr: "recorded_response ''storage'' st (TrimSpace key) = None"
        and ex1: "\<exists>events. ?ex (tables st) = (Inr (ix_response_payload ix, events), tables st1)" using eff by auto
      have "TrimSpace ''storage'' \<noteq> []" "TrimSpace key \<noteq> []" using e Inr by (auto simp: ExecuteInboxOutbox_def split: if_splits)
      with rr have ran: "reaches_handler ''storage'' key st" by (simp add: reaches_handler_def recorded_response_def)
      have "tables st1 = tx_db tx" using ex1 by (auto simp: storage_execute_def t split: sum.splits)
      moreover have "ss_caches s' = clearCacheKeys env (tx_keys tx) (tx_caches tx)"
        using eq Inr False ran by (simp add: Let_def)
      ultimately show ?thesis using ref coherent_clear [of "tx_caches tx" "tx_keys tx" X "tx_db tx" env] by auto
    qed
  qed
  ultimately show ?thesis using eq by (simp add: storage_inv_def)
qed

text \<open>
  The states of the service, with the keys whose entries may be outdated. It starts with empty caches
  and handles messages one after another; the keys for which a Redis deletion fails become outdated.
  Cache entries may be lost at any time (evicted, expired, a restart), and a key without an entry is
  not outdated any more. Other services and the HTTP upload handler change tables without touching
  messages: the metadata of a file and the profile of a user may change without the cache being
  cleared, which makes their keys outdated.
\<close>

definition outdated :: "database \<Rightarrow> database \<Rightarrow> string set" where
  "outdated db db' =
     {file_key h | h. file_entry (GetFileMetadataWithDB h db') \<noteq> file_entry (GetFileMetadataWithDB h db)} \<union>
     {user_key i | i. map_option profile (GetUserByID i db') \<noteq> map_option profile (GetUserByID i db)}"

inductive storage_reachable :: "storage_codec \<Rightarrow> string set \<Rightarrow> storage_state \<Rightarrow> bool" for codec where
  started: "inbox_inv st \<Longrightarrow> message_inv (tables st) \<Longrightarrow> (\<forall>key v. \<not> holds c key v) \<Longrightarrow>
     storage_reachable codec {} \<lparr>ss_store = st, ss_caches = c\<rparr>"
| handled: "storage_reachable codec X s \<Longrightarrow> HandleMessage_storage codec env clock key msg s = (r, s') \<Longrightarrow>
     storage_reachable codec (X \<union> {k. \<not> l2_deletes env k}) s'"
| evicted: "storage_reachable codec X s \<Longrightarrow> (\<forall>key v. holds c key v \<longrightarrow> holds (ss_caches s) key v) \<Longrightarrow>
     storage_reachable codec {key \<in> X. \<exists>v. holds c key v} (s\<lparr>ss_caches := c\<rparr>)"
| others: "storage_reachable codec X s \<Longrightarrow> messages db = messages (tables (ss_store s)) \<Longrightarrow>
     messages_id_seq db = messages_id_seq (tables (ss_store s)) \<Longrightarrow>
     storage_reachable codec (X \<union> outdated (tables (ss_store s)) db) (s\<lparr>ss_store := (ss_store s)\<lparr>tables := db\<rparr>\<rparr>)"

lemma cached_ok_others:
  assumes "cached_ok db key v" "messages db' = messages db" "key \<notin> outdated db db'"
  shows "cached_ok db' key v"
  using assms by (auto simp: cached_ok_def outdated_def GetMessageByIDWithDB_def split: cache_value.splits)

lemma storage_reachable_inv: "storage_reachable codec X s \<Longrightarrow> storage_inv X s"
proof (induction rule: storage_reachable.induct)
  case (handled X s env clock key msg r s')
  show ?case by (rule HandleMessage_storage_inv [OF handled.IH handled.hyps(2)])
next
  case (others X s db)
  then have m: "message_inv db" by (simp add: storage_inv_def message_inv_def)
  have "coherent (X \<union> outdated (tables (ss_store s)) db) db (ss_caches s)"
    using others cached_ok_others [of "tables (ss_store s)" _ _ db] by (simp add: storage_inv_def coherent_def)
  with m others.IH show ?case by (simp add: storage_inv_def inbox_inv_def)
qed (auto simp: storage_inv_def coherent_def)


section \<open>What responses carry\<close>

lemma message_response_id [simp]: "mr_message_id (message_response m) = ms_message_id m"
  by (simp add: message_response_def maskRecalledStorageMessage_def)

lemma message_response_scanned [simp]: "message_response (scanned m) = message_response m"
  by (simp add: message_response_def scanned_def)

lemma sync_response_rows:
  assumes inv: "message_inv db"
    and h: "handleQuerySyncMessagesWithDB clock req q \<lparr>tx_db = db, tx_caches = c, tx_keys = []\<rparr> = (Inr resp, tx)"
    and r: "sp_payload resp = Some (MsgRsp r) \<or> sp_payload resp = Some (SyncMsgsRsp y) \<and> r \<in> set (sr_msgs y)"
  shows "\<exists>m. GetMessageByIDWithDB (mr_message_id r) db = Some m \<and> r = message_response m \<and>
    CanUserReadMessageWithDB (sq_target_user_id req) (Some m) db"
proof -
  from h r obtain ts mid ps where u: "0 < sq_target_user_id req"
    and "r \<in> message_response ` set (sp_messages (GetSyncMessagesPageWithDB (sq_target_user_id req) ts mid ps db))"
    by (auto simp: handleQuerySyncMessagesWithDB_def Let_def storage_respond_def split: if_splits)
  then have "r \<in> message_response ` set (sync_rows (sq_target_user_id req) ts mid db)"
    using page_fields(1) [OF refl refl refl] by (metis (no_types, lifting) image_iff in_set_takeD)
  then obtain m where m: "r = message_response m" "m \<in> set (messages db)" "visible (sq_target_user_id req) db m"
    by (auto simp: sync_rows_set)
  then show ?thesis using GetMessage_unique [OF inv m(2)] visible_readable [OF u m(3)] by auto
qed

definition sync_response :: "SyncMessagesPage \<Rightarrow> sync_messages_rsp" where
  "sync_response page =
     \<lparr>sr_msgs = map message_response (sp_messages page), sr_has_more = sp_has_more page,
      sr_next_cursor_timestamp = sp_next_cursor_timestamp page, sr_next_cursor_message_id = sp_next_cursor_message_id page\<rparr>"

lemma sync_handler_ok:
  assumes "0 < sq_target_user_id req" "qs_to_user_id q = sq_target_user_id req"
  shows "handleQuerySyncMessagesWithDB clock req q \<lparr>tx_db = db, tx_caches = c, tx_keys = ks\<rparr> =
    (Inr (storage_respond req STORAGE_OK (Some (SyncMsgsRsp (sync_response (GetSyncMessagesPageWithDB (sq_target_user_id req)
       (RFC3339 (case parse_cursor (if qs_cursor_timestamp q = [] then qs_timestamp q else qs_cursor_timestamp q) of
                   Some t \<Rightarrow> t | None \<Rightarrow> clock - 24 * hour))
       (if qs_cursor_message_id q < 0 then 0 else qs_cursor_message_id q) (normalizeSyncPageSize (qs_page_size q)) db))))),
     \<lparr>tx_db = db, tx_caches = c, tx_keys = ks\<rparr>)"
  using assms by (simp add: handleQuerySyncMessagesWithDB_def Let_def sync_response_def)

lemma sync_handler_page:
  assumes "handleQuerySyncMessagesWithDB clock req q \<lparr>tx_db = db, tx_caches = c, tx_keys = ks\<rparr> = (Inr resp, tx)"
    and "sp_payload resp = Some (SyncMsgsRsp y)"
  shows "0 < sq_target_user_id req \<and> qs_to_user_id q = sq_target_user_id req \<and>
    (\<exists>ts mid ps. y = sync_response (GetSyncMessagesPageWithDB (sq_target_user_id req) ts mid ps db))"
proof (cases "0 < sq_target_user_id req \<and> qs_to_user_id q = sq_target_user_id req")
  case True
  then have g: "0 < sq_target_user_id req" "qs_to_user_id q = sq_target_user_id req" by simp_all
  obtain page where "page = GetSyncMessagesPageWithDB (sq_target_user_id req)
       (RFC3339 (case parse_cursor (if qs_cursor_timestamp q = [] then qs_timestamp q else qs_cursor_timestamp q) of
                   Some t \<Rightarrow> t | None \<Rightarrow> clock - 24 * hour))
       (if qs_cursor_message_id q < 0 then 0 else qs_cursor_message_id q) (normalizeSyncPageSize (qs_page_size q)) db" by blast
  moreover from this have "y = sync_response page"
    using assms unfolding sync_handler_ok [OF g] by (auto simp: storage_respond_def)
  ultimately show ?thesis using g by blast
next
  case False
  then show ?thesis using assms by (auto simp: handleQuerySyncMessagesWithDB_def storage_respond_def)
qed

definition carries_messages :: "storage_response \<Rightarrow> bool" where
  "carries_messages resp = (case sp_payload resp of Some (MsgRsp _) \<Rightarrow> True | Some (SyncMsgsRsp _) \<Rightarrow> True | _ \<Rightarrow> False)"

lemma other_payloads:
  "handleStoreNewMessageWithDB clock req m tx0 = (Inr resp, tx) \<Longrightarrow> \<not> carries_messages resp"
  "handleRecallMessageWithDB clock req i tx0 = (Inr resp, tx) \<Longrightarrow> \<not> carries_messages resp"
  "update_profile upd req i tx0 = (Inr resp, tx) \<Longrightarrow> \<not> carries_messages resp"
  "handleQueryUserWithDB env req i tx0 = (Inr resp, tx) \<Longrightarrow> \<not> carries_messages resp"
  "handleQueryFileExistsWithDB env req h tx0 = (Inr resp, tx) \<Longrightarrow> \<not> carries_messages resp"
  by (auto simp: handleStoreNewMessageWithDB_def handleRecallMessageWithDB_def update_profile_def handleQueryUserWithDB_def
      handleQueryFileExistsWithDB_def buildUserInfoResponse_def buildFileExistsResponse_def storage_respond_def
      carries_messages_def Let_def split: prod.splits sum.splits option.splits if_splits cache_value.splits)


section \<open>Properties\<close>

text \<open>
  C10. The caches are transparent: whatever entries were cached, evicted or refused before, handling
  any message gives the same answer and the same database, inbox and outbox as the service without
  caches, unless the message reads an outdated key: one whose Redis deletion failed, the existence of
  a file whose metadata an upload has changed (the upload handler does not clear \<^verbatim>\<open>file_exists:\<close>), or a
  user whose profile another service has changed, while the entry is still cached. Messages are
  handled one at a time; a read racing with another replica's write is not covered.
\<close>

theorem storage_cache_transparent:
  assumes "storage_reachable codec X s" and "message_reads codec msg \<inter> X = {}"
  shows "fst (HandleMessage_storage codec env clock key msg s) =
      fst (HandleMessage_storage codec env0 clock key msg (s\<lparr>ss_caches := no_caches\<rparr>)) \<and>
    ss_store (snd (HandleMessage_storage codec env clock key msg s)) =
      ss_store (snd (HandleMessage_storage codec env0 clock key msg (s\<lparr>ss_caches := no_caches\<rparr>)))"
  using HandleMessage_storage_refines [OF storage_reachable_inv [OF assms(1)] assms(2), of env clock key _ _ env0]
  by (metis prod.collapse)

text \<open>
  C11. Reads are authorised and recalled content is gone: a message in a response of the storage
  service, to a single read or a synchronisation, is the current row of the database, the requesting
  user may read it, and if it has been recalled its content and file name are empty. For a single
  read this is conditional on its key not being outdated, that is on no Redis deletion for it having
  failed with the entry still cached; messages are handled one at a time.
\<close>

theorem storage_reads_authorised:
  assumes "storage_reachable codec X s" and "db = tables (ss_store s)"
    and "storage_run env clock req (ss_caches s) db = (Inr resp, tx)"
    and "sp_payload resp = Some (MsgRsp r) \<or> sp_payload resp = Some (SyncMsgsRsp y) \<and> r \<in> set (sr_msgs y)"
    and "\<forall>i. sq_payload req = Some (QueryMessage i) \<longrightarrow> message_key i \<notin> X"
  shows "\<exists>m. GetMessageByIDWithDB (mr_message_id r) db = Some m \<and> r = message_response m \<and>
    CanUserReadMessageWithDB (sq_target_user_id req) (Some m) db \<and>
    (ms_is_recalled m \<longrightarrow> mr_content r = [] \<and> mr_real_file_name r = [])"
proof -
  have co: "coherent X db (ss_caches s)" and inv: "message_inv db"
    using storage_reachable_inv [OF assms(1)] by (simp_all add: storage_inv_def assms(2))
  obtain p where p: "sq_payload req = Some p"
    and h: "storage_handle (env, clock, req) p \<lparr>tx_db = db, tx_caches = ss_caches s, tx_keys = []\<rparr> = (Inr resp, tx)"
    using assms(3) by (auto simp: storage_run_handle Let_def split: option.splits prod.splits sum.splits)
  have carries: "carries_messages resp" using assms(4) by (auto simp: carries_messages_def)
  have "\<exists>m. GetMessageByIDWithDB (mr_message_id r) db = Some m \<and> r = message_response m \<and>
      CanUserReadMessageWithDB (sq_target_user_id req) (Some m) db"
  proof (cases p)
    case (QueryMessage i)
    then show ?thesis
      using h assms(4,5) p query_message_refines [OF co, of env req i "[]"] GetMessage_SomeD [of i db]
      by (auto simp: storage_handle_def authorizedMessageResponseWithDB_def buildMessageResponse_def messageNotFoundResponse_def
          storage_respond_def message_response_id split: option.splits if_splits)
  next
    case (QuerySyncMessages q)
    then show ?thesis using h assms(4) sync_response_rows [OF inv] by (simp add: storage_handle_def)
  qed (use h carries other_payloads in \<open>fastforce simp: storage_handle_def handleUpdateUserNameWithDB_def handleUpdateUserAvatarWithDB_def\<close>)+
  then show ?thesis by (auto simp: message_response_def maskRecalledStorageMessage_def)
qed

text \<open>
  Cursors round-trip: where the stored timestamps are RFC 3339 times, as the service writes them,
  a client that sends back the cursor of a page gets the page that starts right after it; parsing and
  formatting the cursor loses nothing.
\<close>

theorem sync_cursor_roundtrip:
  assumes inv: "message_inv db"
    and stamps: "\<forall>m\<in>set (messages db). \<exists>t. four_digit_year t \<and> ms_timestamp m = RFC3339 t"
    and h: "handleQuerySyncMessagesWithDB clock req q \<lparr>tx_db = db, tx_caches = c, tx_keys = ks\<rparr> = (Inr resp, tx)"
    and y: "sp_payload resp = Some (SyncMsgsRsp y)" "sr_msgs y \<noteq> []"
  shows "\<exists>page. page = GetSyncMessagesPageWithDB (sq_target_user_id req) (sr_next_cursor_timestamp y) (sr_next_cursor_message_id y)
        (normalizeSyncPageSize (qs_page_size q)) db \<and>
    handleQuerySyncMessagesWithDB clock' req
      (q\<lparr>qs_cursor_timestamp := sr_next_cursor_timestamp y, qs_cursor_message_id := sr_next_cursor_message_id y\<rparr>)
      \<lparr>tx_db = db, tx_caches = c, tx_keys = ks\<rparr> =
    (Inr (storage_respond req STORAGE_OK (Some (SyncMsgsRsp (sync_response page)))),
     \<lparr>tx_db = db, tx_caches = c, tx_keys = ks\<rparr>)"
proof -
  let ?u = "sq_target_user_id req"
  obtain ts mid ps where u: "0 < ?u" "qs_to_user_id q = ?u"
    and r: "y = sync_response (GetSyncMessagesPageWithDB ?u ts mid ps db)"
    using sync_handler_page [OF h y(1)] by auto
  then have p: "sr_next_cursor_timestamp y = sp_next_cursor_timestamp (GetSyncMessagesPageWithDB ?u ts mid ps db)"
      "sr_next_cursor_message_id y = sp_next_cursor_message_id (GetSyncMessagesPageWithDB ?u ts mid ps db)"
      "sp_messages (GetSyncMessagesPageWithDB ?u ts mid ps db) \<noteq> []"
    using y(2) by (simp_all add: sync_response_def)
  note f = page_fields [OF refl refl refl, where u = ?u and ts = ts and mid = mid and ps = ps and db = db]
  have ne: "sync_rows ?u ts mid db \<noteq> []" using p(3) f(1) by auto
  have "sync_rows ?u ts mid db ! (min (sync_limit ps) (length (sync_rows ?u ts mid db)) - 1) \<in> set (sync_rows ?u ts mid db)"
    using ne by (intro nth_mem) (cases "sync_rows ?u ts mid db"; simp)
  then obtain m where m: "m \<in> set (messages db)" "sr_next_cursor_timestamp y = ms_timestamp m" "sr_next_cursor_message_id y = ms_message_id m"
    using f(3,4) [OF ne] p(1,2) by (auto simp: sync_rows_set scanned_def)
  obtain t where t: "four_digit_year t" "sr_next_cursor_timestamp y = RFC3339 t" using stamps m by auto
  have "parse_cursor (RFC3339 t) = Some (t div second * second)"
    using Parse_RFC3339 [OF t(1)] by (simp add: parse_cursor_def)
  moreover have "RFC3339 (t div second * second) = RFC3339 t"
    by (simp add: RFC3339_def layout_seconds_def date_of_def unix_day_def second_of_day_def)
  moreover have "RFC3339 t \<noteq> []" by (simp add: RFC3339_def)
  moreover have "0 < sr_next_cursor_message_id y" using inv m by (simp add: message_inv_def)
  ultimately show ?thesis using u t(2) by (simp add: sync_handler_ok)
qed

text \<open>For the witnesses: the sample chat in a store with empty caches, and a codec for one read by user 9.\<close>

definition sample_storage :: storage_state where
  "sample_storage = \<lparr>ss_store = \<lparr>tables = sample_chatted, consumer_inbox = [], outbox_events = []\<rparr>,
     ss_caches = \<lparr>l1Cache = Map.empty, l2Cache = Some Map.empty\<rparr>\<rparr>"

definition sample_read :: "storage_payload \<Rightarrow> storage_request" where
  "sample_read p = \<lparr>sq_from_kafka_topic = ''df'', sq_target_user_id = 9, sq_payload = Some p\<rparr>"

definition sample_storage_codec :: storage_codec where
  "sample_storage_codec = \<lparr>sc_unmarshal_envelope = (\<lambda>_. Inl ''bad''), sc_unmarshal_request = (\<lambda>_. Inr (sample_read (QueryMessage 1))),
     sc_marshal_response = (\<lambda>_. Inr ''r''), sc_marshal_envelope = (\<lambda>_. Inr ''e''), sc_sha256hex = (\<lambda>_. ''h'')\<rparr>"

definition sample_sync :: query_sync_messages where
  "sample_sync = \<lparr>qs_to_user_id = 9, qs_timestamp = [], qs_page_size = 1, qs_cursor_timestamp = [], qs_cursor_message_id = 0\<rparr>"

definition no_faults :: cache_faults where
  "no_faults = \<lparr>l1_accepts = \<lambda>_. True, l2_sets = \<lambda>_. True, l2_gets = \<lambda>_. True, l2_deletes = \<lambda>_. True\<rparr>"

lemma sample_storage_reachable: "storage_reachable codec {} sample_storage"
  unfolding sample_storage_def
  by (rule started) (use sample_chat_inv in \<open>simp_all add: inbox_inv_def holds_def\<close>)

lemma sample_found: "GetMessageByIDWithDB 1 sample_chatted = Some sample_sent"
  by (simp add: GetMessageByIDWithDB_def sample_chatted_def) (simp add: sample_sent_def)

lemma sample_readable: "CanUserReadMessageWithDB 9 (Some sample_sent) sample_chatted"
  by (simp add: CanUserReadMessageWithDB_def sample_chatted_def sample_chat_def sample_sent_def new_message_def
      effective_joined_at_def)

text \<open>The same store after an upload has replaced the file table.\<close>

definition sample_uploaded :: "file_row list \<Rightarrow> storage_state" where
  "sample_uploaded rows = sample_storage\<lparr>ss_store := (ss_store sample_storage)\<lparr>tables := sample_chatted\<lparr>file_metadata := rows\<rparr>\<rparr>\<rparr>"

definition sample_outdated :: "file_row list \<Rightarrow> string set" where
  "sample_outdated rows = {} \<union> outdated sample_chatted (sample_chatted\<lparr>file_metadata := rows\<rparr>)"

lemma sample_uploaded_reachable: "storage_reachable codec (sample_outdated rows) (sample_uploaded rows)"
proof -
  have "tables (ss_store sample_storage) = sample_chatted" by (simp add: sample_storage_def)
  then show ?thesis
    using others [OF sample_storage_reachable, of "sample_chatted\<lparr>file_metadata := rows\<rparr>"]
    by (simp add: sample_uploaded_def sample_outdated_def)
qed

lemma message_key_current: "message_key i \<notin> sample_outdated rows"
  by (auto simp: sample_outdated_def outdated_def)

theorem storage_cache_transparent_witness:
  "\<forall>rows. storage_reachable sample_storage_codec (sample_outdated rows) (sample_uploaded rows) \<and>
   fst (HandleMessage_storage sample_storage_codec no_faults 0 ''k'' ''q'' (sample_uploaded rows)) =
   fst (HandleMessage_storage sample_storage_codec no_faults 0 ''k'' ''q'' ((sample_uploaded rows)\<lparr>ss_caches := no_caches\<rparr>))"
proof (intro allI conjI)
  fix rows
  have "message_reads sample_storage_codec ''q'' \<inter> sample_outdated rows = {}"
    using message_key_current by (simp add: message_reads_def sample_storage_codec_def sample_read_def reads_key_def)
  from storage_cache_transparent [OF sample_uploaded_reachable this, of no_faults 0 "''k''" no_faults]
  show "fst (HandleMessage_storage sample_storage_codec no_faults 0 ''k'' ''q'' (sample_uploaded rows)) =
    fst (HandleMessage_storage sample_storage_codec no_faults 0 ''k'' ''q'' ((sample_uploaded rows)\<lparr>ss_caches := no_caches\<rparr>))" ..
qed (rule sample_uploaded_reachable)

theorem storage_reads_authorised_witness:
  "\<exists>tx. storage_run no_faults 0 (sample_read (QueryMessage 1)) (ss_caches sample_storage) sample_chatted =
     (Inr (buildMessageResponse (sample_read (QueryMessage 1)) sample_sent), tx) \<and>
   CanUserReadMessageWithDB 9 (Some sample_sent) sample_chatted"
proof -
  have db: "sample_chatted = tables (ss_store sample_storage)" by (simp add: sample_storage_def)
  have co: "coherent {} sample_chatted (ss_caches sample_storage)"
    by (simp add: coherent_def holds_def sample_storage_def)
  have "\<exists>tx. storage_run no_faults 0 (sample_read (QueryMessage 1)) (ss_caches sample_storage) sample_chatted =
      (Inr (buildMessageResponse (sample_read (QueryMessage 1)) sample_sent), tx)"
    using query_message_refines [OF co, of no_faults "sample_read (QueryMessage 1)" 1 "[]"] sample_readable
    by (auto simp: storage_run_handle Let_def sample_read_def storage_handle_def sample_found authorizedMessageResponseWithDB_def)
  then obtain tx where tx: "storage_run no_faults 0 (sample_read (QueryMessage 1)) (ss_caches sample_storage) sample_chatted =
      (Inr (buildMessageResponse (sample_read (QueryMessage 1)) sample_sent), tx)" by blast
  have "sp_payload (buildMessageResponse (sample_read (QueryMessage 1)) sample_sent) = Some (MsgRsp (message_response sample_sent))"
    by (simp add: buildMessageResponse_def storage_respond_def)
  with storage_reads_authorised [OF sample_storage_reachable db tx, of "message_response sample_sent"] sample_found tx show ?thesis
    by (auto simp: sample_sent_def sample_read_def)
qed

theorem sync_cursor_roundtrip_witness:
  "\<exists>resp y. handleQuerySyncMessagesWithDB 0 (sample_read (QuerySyncMessages sample_sync)) sample_sync
       \<lparr>tx_db = sample_chatted, tx_caches = no_caches, tx_keys = []\<rparr> =
     (Inr resp, \<lparr>tx_db = sample_chatted, tx_caches = no_caches, tx_keys = []\<rparr>) \<and>
     sp_payload resp = Some (SyncMsgsRsp y) \<and> sr_msgs y = [message_response sample_sent] \<and>
     (\<exists>page. page = GetSyncMessagesPageWithDB 9 (RFC3339 1700000000000000000) 1 1 sample_chatted \<and>
        handleQuerySyncMessagesWithDB 5 (sample_read (QuerySyncMessages sample_sync))
          (sample_sync\<lparr>qs_cursor_timestamp := RFC3339 1700000000000000000, qs_cursor_message_id := 1\<rparr>)
          \<lparr>tx_db = sample_chatted, tx_caches = no_caches, tx_keys = []\<rparr> =
        (Inr (storage_respond (sample_read (QuerySyncMessages sample_sync)) STORAGE_OK (Some (SyncMsgsRsp (sync_response page)))),
         \<lparr>tx_db = sample_chatted, tx_caches = no_caches, tx_keys = []\<rparr>))"
proof -
  let ?req = "sample_read (QuerySyncMessages sample_sync)"
  define start where "start = RFC3339 (case parse_cursor (qs_timestamp sample_sync) of Some t \<Rightarrow> t | None \<Rightarrow> 0 - 24 * hour)"
  define y where "y = sync_response (GetSyncMessagesPageWithDB 9 start 0 1 sample_chatted)"
  have "parse_cursor (qs_timestamp sample_sync) = None" by code_simp
  then have s: "start = RFC3339 (- 86400000000000)" by (simp add: start_def)
  have yr: "four_digit_year (- 86400000000000)" by code_simp
  have "start < ms_timestamp sample_sent"
    unfolding s by (simp add: sample_sent_def new_message_def NowTime_def RFC3339_less_iff [OF yr sample_year])
  then have rows: "sync_rows 9 start 0 sample_chatted = [scanned sample_sent]"
    by (simp add: sync_rows_def direct_messages_def group_messages_def sample_chatted_def sample_chat_def after_cursor_def sql_order_def)
       (simp add: sample_sent_def new_message_def effective_joined_at_def)
  note f = page_fields [OF refl refl refl, where u = 9 and ts = start and mid = 0 and ps = 1 and db = sample_chatted, unfolded rows]
  have l: "sync_limit 1 = 1" by (simp add: sync_limit_def MaxSyncPageSize_def)
  have y: "sr_msgs y = [message_response sample_sent]" "sr_next_cursor_timestamp y = RFC3339 1700000000000000000"
    "sr_next_cursor_message_id y = 1"
    using f by (simp_all add: y_def sync_response_def l sample_sent_def new_message_def scanned_def NowTime_def message_response_def)
  have u: "0 < sq_target_user_id ?req" "qs_to_user_id sample_sync = sq_target_user_id ?req"
    by (simp_all add: sample_read_def sample_sync_def)
  have h: "handleQuerySyncMessagesWithDB 0 ?req sample_sync \<lparr>tx_db = sample_chatted, tx_caches = no_caches, tx_keys = []\<rparr> =
      (Inr (storage_respond ?req STORAGE_OK (Some (SyncMsgsRsp y))), \<lparr>tx_db = sample_chatted, tx_caches = no_caches, tx_keys = []\<rparr>)"
    unfolding sync_handler_ok [OF u] y_def start_def
    by (simp add: sample_read_def sample_sync_def normalizeSyncPageSize_def MaxSyncPageSize_def)
  have stamps: "\<forall>m\<in>set (messages sample_chatted). \<exists>t. four_digit_year t \<and> ms_timestamp m = RFC3339 t"
    using sample_year by (auto simp: sample_chatted_def sample_sent_def new_message_def NowTime_def)
  have "normalizeSyncPageSize (qs_page_size sample_sync) = 1" "sq_target_user_id ?req = 9"
    by (simp_all add: sample_read_def sample_sync_def normalizeSyncPageSize_def MaxSyncPageSize_def)
  with sync_cursor_roundtrip [OF sample_chat_inv(2) stamps h, of y 5] y h show ?thesis
    by (auto simp: storage_respond_def)
qed

end
