(* ===== verification/Outbox_Relay.thy ===== *)
theory Outbox_Relay
  imports Inbox_Outbox
begin

text \<open>
  \<^verbatim>\<open>shared/outbox/relay.go\<close>: the relay that publishes outbox events to Kafka at least once. A worker
  claims the oldest due event with a random fencing token and a lease, publishes it, and marks it
  published or retryable; a mark is effective only while the row still holds the worker's token.
  The publisher, the clock and the random token are parameters.
\<close>

record relay_config =
  rc_service :: string
  rc_poll_interval :: duration
  rc_lease :: duration
  rc_publish_timeout :: duration
  rc_initial_backoff :: duration
  rc_max_backoff :: duration
  rc_alert_after_attempts :: int

definition normalize :: "relay_config \<Rightarrow> relay_config" where
  "normalize c0 =
     (let c1 = (if rc_poll_interval c0 \<le> 0 then c0\<lparr>rc_poll_interval := 250 * millisecond\<rparr> else c0);
          c2 = (if rc_lease c1 \<le> 0 then c1\<lparr>rc_lease := 30 * second\<rparr> else c1);
          c3 = (if rc_publish_timeout c2 \<le> 0 \<or> rc_publish_timeout c2 \<ge> rc_lease c2
                then c2\<lparr>rc_publish_timeout := rc_lease c2 div 2\<rparr> else c2);
          c4 = (if rc_initial_backoff c3 \<le> 0 then c3\<lparr>rc_initial_backoff := second\<rparr> else c3);
          c5 = (if rc_max_backoff c4 < rc_initial_backoff c4 then c4\<lparr>rc_max_backoff := minute\<rparr> else c4)
      in if rc_alert_after_attempts c5 \<le> 0 then c5\<lparr>rc_alert_after_attempts := 20\<rparr> else c5)"

text \<open>
  \<^verbatim>\<open>backoff\<close>: the product is computed in floating point and converted back. A product of the initial
  delay (below \<open>2 ^ 53\<close> nanoseconds, 104 days) with a power of two is exact; a value outside the range
  of \<^verbatim>\<open>int64\<close>, infinity included, converts to the smallest integer, as on amd64.
\<close>

definition int64_of_float :: "int \<Rightarrow> int" where
  "int64_of_float x = (if x < 2 ^ 63 then x else - (2 ^ 63))"

definition backoff :: "relay_config \<Rightarrow> int \<Rightarrow> duration" where
  "backoff c attempt0 =
     (let attempt = (if attempt0 < 1 then 1 else attempt0);
          delay = int64_of_float (rc_initial_backoff c * 2 ^ nat (attempt - 1))
      in if delay > rc_max_backoff c \<or> delay < 0 then rc_max_backoff c else delay)"

text \<open>\<^verbatim>\<open>summarize\<close>: newlines become blanks and at most 255 bytes are kept.\<close>

definition summarize :: "string \<Rightarrow> string" where
  "summarize err = take 255 (map (\<lambda>c. if c = CHR 0x0A then CHR '' '' else c) err)"

datatype relay_error = TokenError | PublishFencingFailure string | FailureFencingFailure string

section \<open>Claiming and settling\<close>

definition due :: "string \<Rightarrow> string \<Rightarrow> outbox_row \<Rightarrow> bool" where
  "due service now r \<longleftrightarrow> ob_service r = service \<and>
     (ob_status r \<in> {OutboxStatusPending, OutboxStatusRetryable, OutboxStatusFailed} \<and>
        (ob_next_attempt_at r = [] \<or> ob_next_attempt_at r \<le> now) \<or>
      ob_status r = OutboxStatusClaimed \<and> ob_lease_until r \<le> now)"

text \<open>
  The candidate: the first due row in the order of creation time and event identifier that no other
  transaction holds locked (\<^verbatim>\<open>SKIP LOCKED\<close>). An empty event identifier is what \<^verbatim>\<open>Scan\<close> leaves when there
  is no row.
\<close>

definition claim_order :: "outbox_row \<Rightarrow> string \<times> string" where
  "claim_order r = (ob_created_at r, ob_event_id r)"

definition candidate :: "string \<Rightarrow> string \<Rightarrow> (string \<Rightarrow> bool) \<Rightarrow> outbox_row list \<Rightarrow> outbox_row option" where
  "candidate service now locked rows =
     (case sql_order claim_order (filter (\<lambda>r. due service now r \<and> \<not> locked (ob_event_id r)) rows) of
        [] \<Rightarrow> None
      | r # _ \<Rightarrow> if ob_event_id r = [] then None else Some r)"

definition claim ::
  "relay_config \<Rightarrow> instant \<Rightarrow> string option \<Rightarrow> (string \<Rightarrow> bool) \<Rightarrow> outbox_row list \<Rightarrow>
   (relay_error + outbox_row option) \<times> outbox_row list" where
  "claim c now randomToken locked =
     transaction (\<lambda>rows.
       (let nowValue = FormatReliabilityTime now in
        case candidate (rc_service c) nowValue locked rows of
          None \<Rightarrow> (Inr None, rows)
        | Some cand \<Rightarrow>
            (case randomToken of
               None \<Rightarrow> (Inl TokenError, rows)
             | Some token \<Rightarrow>
                 (let leaseUntil = FormatReliabilityTime (now + rc_lease c);
                      cond = (\<lambda>r. ob_event_id r = ob_event_id cand \<and> ob_status r = ob_status cand);
                      rows' = sql_update cond
                        (\<lambda>r. r\<lparr>ob_status := OutboxStatusClaimed, ob_claim_token := token, ob_lease_until := leaseUntil,
                               ob_attempt := ob_attempt r + 1, ob_updated_at := nowValue\<rparr>) rows
                  in if sql_count cond rows \<noteq> 1 then (Inr None, rows')
                     else (Inr (Some (cand\<lparr>ob_status := OutboxStatusClaimed, ob_claim_token := token,
                                            ob_lease_until := leaseUntil, ob_attempt := ob_attempt cand + 1\<rparr>)), rows')))))"

definition holds_claim :: "outbox_row \<Rightarrow> outbox_row \<Rightarrow> bool" where
  "holds_claim event r \<longleftrightarrow> ob_event_id r = ob_event_id event \<and> ob_status r = OutboxStatusClaimed \<and>
     ob_claim_token r = ob_claim_token event"

definition markPublished :: "instant \<Rightarrow> outbox_row \<Rightarrow> outbox_row list \<Rightarrow> (relay_error + unit) \<times> outbox_row list" where
  "markPublished clock event rows =
     (let now = FormatReliabilityTime clock;
          rows' = sql_update (holds_claim event)
            (\<lambda>r. r\<lparr>ob_status := OutboxStatusPublished, ob_claim_token := [], ob_lease_until := [],
                   ob_published_at := now, ob_updated_at := now, ob_last_error := []\<rparr>) rows
      in if sql_count (holds_claim event) rows \<noteq> 1 then (Inl (PublishFencingFailure (ob_event_id event)), rows')
         else (Inr (), rows'))"

definition markFailure ::
  "relay_config \<Rightarrow> instant \<Rightarrow> outbox_row \<Rightarrow> string \<Rightarrow> outbox_row list \<Rightarrow> (relay_error + unit) \<times> outbox_row list" where
  "markFailure c now event publishErr rows =
     (let nxt = FormatReliabilityTime (now + backoff c (ob_attempt event));
          rows' = sql_update (holds_claim event)
            (\<lambda>r. r\<lparr>ob_status := OutboxStatusRetryable, ob_claim_token := [], ob_lease_until := [],
                   ob_next_attempt_at := nxt, ob_last_error := summarize publishErr,
                   ob_updated_at := FormatReliabilityTime now\<rparr>) rows
      in if sql_count (holds_claim event) rows \<noteq> 1 then (Inl (FailureFencingFailure (ob_event_id event)), rows')
         else (Inr (), rows'))"

text \<open>\<^verbatim>\<open>RunOnce\<close> without interference: one clock reading; \<open>publish\<close> returns the error text, if any.\<close>

definition RunOnce ::
  "relay_config \<Rightarrow> instant \<Rightarrow> string option \<Rightarrow> (outbox_row \<Rightarrow> string option) \<Rightarrow> outbox_row list \<Rightarrow>
   (nat \<times> relay_error option) \<times> outbox_row list" where
  "RunOnce c now randomToken publish rows =
     (case claim c now randomToken (\<lambda>_. False) rows of
        (Inl e, rows1) \<Rightarrow> ((0, Some e), rows1)
      | (Inr None, rows1) \<Rightarrow> ((0, None), rows1)
      | (Inr (Some event), rows1) \<Rightarrow>
          (case publish event of
             None \<Rightarrow> (case markPublished now event rows1 of
                        (Inl e, rows2) \<Rightarrow> ((1, Some e), rows2) | (Inr _, rows2) \<Rightarrow> ((1, None), rows2))
           | Some err \<Rightarrow> (case markFailure c now event err rows1 of
                        (Inl e, rows2) \<Rightarrow> ((1, Some e), rows2) | (Inr _, rows2) \<Rightarrow> ((1, None), rows2))))"

section \<open>Configuration and backoff\<close>

text \<open>
  \<^verbatim>\<open>normalize\<close>: every normalised configuration has positive intervals, a publish timeout strictly
  below the lease, so that a worker that respects its timeout gives up before its lease ends.
\<close>

theorem normalize_sound:
  "0 < rc_poll_interval (normalize c) \<and> 0 < rc_lease (normalize c) \<and>
   0 \<le> rc_publish_timeout (normalize c) \<and> rc_publish_timeout (normalize c) < rc_lease (normalize c) \<and>
   0 < rc_initial_backoff (normalize c) \<and> 0 < rc_max_backoff (normalize c) \<and>
   0 < rc_alert_after_attempts (normalize c) \<and> rc_service (normalize c) = rc_service c"
proof -
  have "x div 2 < x" if "0 < x" for x :: int using that by (rule int_div_less_self) simp
  then show ?thesis by (simp add: normalize_def Let_def not_le)
qed

text \<open>
  The retry delay doubles up to the configured maximum: for an initial delay below 104 days and
  any attempt number, however large, \<^verbatim>\<open>backoff\<close> is the smaller of \<open>initial * 2 ^ (attempt - 1)\<close> and the
  maximum; the overflow of the conversion never shows.
\<close>

theorem backoff_capped_doubling:
  assumes "0 < rc_initial_backoff c" "0 < rc_max_backoff c" "rc_max_backoff c < 2 ^ 63"
  shows "backoff c attempt = min (rc_max_backoff c) (rc_initial_backoff c * 2 ^ nat (attempt - 1))"
proof -
  define x where "x = rc_initial_backoff c * 2 ^ nat (attempt - 1)"
  have "0 < x" using assms(1) by (simp add: x_def)
  moreover have "rc_initial_backoff c * 2 ^ nat ((if attempt < 1 then 1 else attempt) - 1) = x"
    by (simp add: x_def)
  ultimately show ?thesis
    using assms by (simp only: backoff_def Let_def x_def [symmetric]) (auto simp: int64_of_float_def min_def)
qed

theorem backoff_capped_doubling_witness:
  "backoff (normalize \<lparr>rc_service = ''s'', rc_poll_interval = 0, rc_lease = 0, rc_publish_timeout = 0,
     rc_initial_backoff = second, rc_max_backoff = minute, rc_alert_after_attempts = 0\<rparr>) 5000 = minute"
proof -
  let ?c = "normalize \<lparr>rc_service = ''s'', rc_poll_interval = 0, rc_lease = 0, rc_publish_timeout = 0,
     rc_initial_backoff = second, rc_max_backoff = minute, rc_alert_after_attempts = 0\<rparr>"
  have "rc_initial_backoff ?c = second" "rc_max_backoff ?c = minute" by (simp_all add: normalize_def)
  moreover have "minute \<le> second * 2 ^ nat (5000 - 1)"
    using power_increasing [of 6 4999 "2::int"] by simp
  ultimately show ?thesis using backoff_capped_doubling [of ?c 5000] by (simp add: min_def)
qed


section \<open>The interface of a leased queue\<close>

text \<open>
  Work items are claimed with a token and settled with it; the current holder of an item is the only
  one whose settlement takes effect. The client's guarantee follows from the laws: when every claim
  uses a new token, each claim is settled at most once, whatever the interleaving.
\<close>

datatype ('c, 'm, 'i, 't) lease_op = Claim 'c 't | Settle 'm 'i 't

fun claim_tokens :: "('c, 'm, 'i, 't) lease_op list \<Rightarrow> 't list" where
  "claim_tokens [] = []"
| "claim_tokens (Claim _ t # ops) = t # claim_tokens ops"
| "claim_tokens (Settle _ _ _ # ops) = claim_tokens ops"

text \<open>The successful settlements of a sequence of operations, as pairs of item and token.\<close>

fun settlements ::
  "('c \<Rightarrow> 't \<Rightarrow> 's \<Rightarrow> 'i option \<times> 's) \<Rightarrow> ('m \<Rightarrow> 'i \<Rightarrow> 't \<Rightarrow> 's \<Rightarrow> bool \<times> 's) \<Rightarrow>
   ('c, 'm, 'i, 't) lease_op list \<Rightarrow> 's \<Rightarrow> ('i \<times> 't) list" where
  "settlements cl st [] s = []"
| "settlements cl st (Claim c t # ops) s = settlements cl st ops (snd (cl c t s))"
| "settlements cl st (Settle m i t # ops) s =
     (if fst (st m i t s) then (i, t) # settlements cl st ops (snd (st m i t s))
      else settlements cl st ops (snd (st m i t s)))"

locale leased_queue =
  fixes holder :: "'s \<Rightarrow> 'i \<Rightarrow> 't option"
    and claim_item :: "'c \<Rightarrow> 't \<Rightarrow> 's \<Rightarrow> 'i option \<times> 's"
    and settle_item :: "'m \<Rightarrow> 'i \<Rightarrow> 't \<Rightarrow> 's \<Rightarrow> bool \<times> 's"
    and valid :: "'s \<Rightarrow> bool"
  assumes claimed: "valid s \<Longrightarrow> claim_item c t s = (Some i, s') \<Longrightarrow> holder s' = (holder s)(i \<mapsto> t)"
    and unclaimed: "valid s \<Longrightarrow> claim_item c t s = (None, s') \<Longrightarrow> s' = s"
    and settled: "valid s \<Longrightarrow> holder s i = Some t \<Longrightarrow> settle_item m i t s = (b, s') \<Longrightarrow> b \<and> holder s' = (holder s)(i := None)"
    and fenced: "valid s \<Longrightarrow> holder s i \<noteq> Some t \<Longrightarrow> settle_item m i t s = (False, s)"
    and valid_claim: "valid s \<Longrightarrow> valid (snd (claim_item c t s))"
    and valid_settle: "valid s \<Longrightarrow> valid (snd (settle_item m i t s))"
begin

lemma stale_claim_fenced:
  assumes "valid s" "claim_item c t s = (Some i, s')" "u \<noteq> t"
  shows "settle_item m i u s' = (False, s')"
  using assms claimed [OF assms(1,2)] fenced [of s' i u m] valid_claim [OF assms(1), of c t] by simp

text \<open>A token is held for at most one item, and tokens still to be claimed are not held.\<close>

definition tokens_ok :: "'t list \<Rightarrow> 's \<Rightarrow> bool" where
  "tokens_ok ts s \<longleftrightarrow> valid s \<and> distinct ts \<and> (\<forall>i t. holder s i = Some t \<longrightarrow> t \<notin> set ts) \<and>
     (\<forall>i j t. holder s i = Some t \<longrightarrow> holder s j = Some t \<longrightarrow> i = j)"

lemma tokens_ok_claim: "tokens_ok (t # ts) s \<Longrightarrow> tokens_ok ts (snd (claim_item c t s))"
proof -
  assume ok: "tokens_ok (t # ts) s"
  obtain r s' where c: "claim_item c t s = (r, s')" by fastforce
  from ok have v: "valid s" by (simp add: tokens_ok_def)
  show ?thesis
  proof (cases r)
    case None
    then have "s' = s" using unclaimed [OF v] c by simp
    with ok c show ?thesis by (auto simp: tokens_ok_def)
  next
    case (Some i)
    with ok claimed [OF v] c valid_claim [OF v, of c t] show ?thesis
      by (auto simp: tokens_ok_def split: if_splits)
  qed
qed

lemma tokens_ok_settle: "tokens_ok ts s \<Longrightarrow> tokens_ok ts (snd (settle_item m i t s))"
proof -
  assume ok: "tokens_ok ts s"
  from ok have v: "valid s" by (simp add: tokens_ok_def)
  show ?thesis
  proof (cases "holder s i = Some t")
    case True
    obtain b s' where "settle_item m i t s = (b, s')" by fastforce
    with settled [OF v True this] valid_settle [OF v, of m i t] ok show ?thesis
      by (auto simp: tokens_ok_def split: if_splits)
  qed (use ok fenced [OF v] in simp)
qed

lemma settlements_distinct:
  "tokens_ok (claim_tokens ops) s \<Longrightarrow>
   distinct (map snd (settlements claim_item settle_item ops s)) \<and>
   (\<forall>(i, t)\<in>set (settlements claim_item settle_item ops s). t \<in> set (claim_tokens ops) \<or> holder s i = Some t)"
proof (induction ops arbitrary: s)
  case (Cons op ops)
  show ?case
  proof (cases op)
    case (Claim c t)
    with Cons.prems have ok: "tokens_ok (t # claim_tokens ops) s" by simp
    note IH = Cons.IH [OF tokens_ok_claim [OF ok, of c]]
    show ?thesis
    proof (cases "fst (claim_item c t s)")
      case None
      then have "snd (claim_item c t s) = s"
        using unclaimed [of s c t] ok by (metis prod.collapse tokens_ok_def)
      with IH Claim show ?thesis by auto
    next
      case (Some i)
      then have "holder (snd (claim_item c t s)) = (holder s)(i \<mapsto> t)"
        using claimed [of s c t i] ok by (metis prod.collapse tokens_ok_def)
      with IH Claim show ?thesis by (auto split: if_splits)
    qed
  next
    case (Settle m i t)
    with Cons.prems have ok: "tokens_ok (claim_tokens ops) s" by simp
    then have v: "valid s" by (simp add: tokens_ok_def)
    show ?thesis
    proof (cases "holder s i = Some t")
      case False
      with fenced [OF v False, of m] Cons.IH [OF ok] Settle show ?thesis by simp
    next
      case True
      obtain b s' where b: "settle_item m i t s = (b, s')" by fastforce
      note h = settled [OF v True b]
      have "tokens_ok (claim_tokens ops) s'" using tokens_ok_settle [OF ok, of m i t] b by simp
      note IH = Cons.IH [OF this]
      have "t \<notin> snd ` set (settlements claim_item settle_item ops s')"
        using IH h ok True by (fastforce simp: tokens_ok_def split: if_splits)
      with IH h b True Settle show ?thesis by (auto split: if_splits)
    qed
  qed
qed simp

end


section \<open>The outbox table provides it\<close>

definition find_event :: "string \<Rightarrow> outbox_row list \<Rightarrow> outbox_row option" where
  "find_event i rows = sql_first (\<lambda>r. ob_event_id r = i) rows"

definition claim_holder :: "outbox_row list \<Rightarrow> string \<Rightarrow> string option" where
  "claim_holder rows i =
     (case find_event i rows of
        None \<Rightarrow> None
      | Some r \<Rightarrow> if ob_status r = OutboxStatusClaimed then Some (ob_claim_token r) else None)"

definition outbox_keys :: "outbox_row list \<Rightarrow> bool" where
  "outbox_keys rows \<longleftrightarrow> distinct (map ob_event_id rows)"

definition claimed_row :: "relay_config \<Rightarrow> instant \<Rightarrow> string \<Rightarrow> outbox_row \<Rightarrow> outbox_row" where
  "claimed_row c now token r =
     r\<lparr>ob_status := OutboxStatusClaimed, ob_claim_token := token, ob_lease_until := FormatReliabilityTime (now + rc_lease c),
       ob_attempt := ob_attempt r + 1, ob_updated_at := FormatReliabilityTime now\<rparr>"

lemma candidate_Some:
  assumes "candidate service now locked rows = Some r"
  shows "r \<in> set rows" "due service now r" "\<not> locked (ob_event_id r)" "ob_event_id r \<noteq> []"
    "\<And>x. x \<in> set rows \<Longrightarrow> due service now x \<Longrightarrow> \<not> locked (ob_event_id x) \<Longrightarrow> claim_order r \<le> claim_order x"
proof -
  let ?t = "filter (\<lambda>r. due service now r \<and> \<not> locked (ob_event_id r)) rows"
  obtain rs where rs: "sql_order claim_order ?t = r # rs" and ne: "ob_event_id r \<noteq> []"
    using assms unfolding candidate_def by (cases "sql_order claim_order ?t") (simp_all split: if_splits)
  note hd = sql_order_hd [OF rs]
  from hd ne show "r \<in> set rows" "due service now r" "\<not> locked (ob_event_id r)" "ob_event_id r \<noteq> []" by simp_all
  show "claim_order r \<le> claim_order x" if "x \<in> set rows" "due service now x" "\<not> locked (ob_event_id x)" for x
    using hd that by simp
qed

lemma event_unique: "outbox_keys rows \<Longrightarrow> r \<in> set rows \<Longrightarrow> x \<in> set rows \<Longrightarrow> ob_event_id x = ob_event_id r \<Longrightarrow> x = r"
  by (auto simp: outbox_keys_def distinct_map dest: inj_onD)

lemma sql_update_cong: "(\<And>r. r \<in> set t \<Longrightarrow> c r = d r) \<Longrightarrow> sql_update c f t = sql_update d f t"
  by (simp add: sql_update_def)

text \<open>A claim updates exactly the candidate's row.\<close>

lemma claim_result:
  assumes k: "outbox_keys rows"
  shows "claim c now token locked rows =
    (case candidate (rc_service c) (FormatReliabilityTime now) locked rows of
       None \<Rightarrow> (Inr None, rows)
     | Some r \<Rightarrow>
         (case token of
            None \<Rightarrow> (Inl TokenError, rows)
          | Some t \<Rightarrow> (Inr (Some ((claimed_row c now t r)\<lparr>ob_updated_at := ob_updated_at r\<rparr>)),
                       sql_update (\<lambda>x. ob_event_id x = ob_event_id r) (claimed_row c now t) rows)))"
proof (cases "candidate (rc_service c) (FormatReliabilityTime now) locked rows")
  case None
  then show ?thesis by (simp add: claim_def transaction_def Let_def)
next
  case (Some r)
  note r = candidate_Some(1) [OF Some]
  have "sql_count (\<lambda>x. ob_event_id x = ob_event_id r \<and> ob_status x = ob_status r) rows = Suc 0"
    using k r by (intro sql_count_unique [of ob_event_id _ r]) (auto simp: outbox_keys_def)
  moreover have "sql_update (\<lambda>x. ob_event_id x = ob_event_id r \<and> ob_status x = ob_status r) f rows =
      sql_update (\<lambda>x. ob_event_id x = ob_event_id r) f rows" for f
    using event_unique [OF k r] by (intro sql_update_cong) auto
  ultimately show ?thesis
    using Some by (cases token) (simp_all add: claim_def transaction_def Let_def claimed_row_def [abs_def])
qed

lemma find_event_update:
  assumes "\<And>r. ob_event_id (f r) = ob_event_id r"
  shows "find_event i (sql_update c f rows) = map_option (\<lambda>r. if c r then f r else r) (find_event i rows)"
  unfolding find_event_def by (induction rows) (auto simp: assms)

lemma find_event_id: "find_event i rows = Some r \<Longrightarrow> ob_event_id r = i \<and> r \<in> set rows"
  by (auto simp: find_event_def dest: sql_first_SomeD)

lemma find_event_in: "outbox_keys rows \<Longrightarrow> r \<in> set rows \<Longrightarrow> find_event (ob_event_id r) rows = Some r"
  unfolding find_event_def outbox_keys_def by (induction rows) (auto simp: image_iff)

text \<open>Settling, as one operation: published when there is no error, retryable otherwise.\<close>

definition settle_event ::
  "relay_config \<times> instant \<times> int \<times> string option \<Rightarrow> string \<Rightarrow> string \<Rightarrow> outbox_row list \<Rightarrow> bool \<times> outbox_row list" where
  "settle_event m i t rows =
     (case m of (c, clock, attempt, err) \<Rightarrow>
        let event = (new_outbox_row [] [] [] \<lparr>pe_event_id = i, pe_topic = [], pe_payload = []\<rparr>)\<lparr>ob_claim_token := t, ob_attempt := attempt\<rparr>
        in case (case err of None \<Rightarrow> markPublished clock event rows | Some e \<Rightarrow> markFailure c clock event e rows) of
             (Inl _, rows') \<Rightarrow> (False, rows') | (Inr _, rows') \<Rightarrow> (True, rows'))"

definition claim_event ::
  "relay_config \<times> instant \<times> (string \<Rightarrow> bool) \<Rightarrow> string \<Rightarrow> outbox_row list \<Rightarrow> string option \<times> outbox_row list" where
  "claim_event m t rows =
     (case m of (c, now, locked) \<Rightarrow>
        case claim c now (Some t) locked rows of
          (Inr (Some event), rows') \<Rightarrow> (Some (ob_event_id event), rows')
        | (_, rows') \<Rightarrow> (None, rows'))"

lemma holds_claim_iff:
  assumes k: "outbox_keys rows"
  shows "(\<exists>r\<in>set rows. holds_claim event r) \<longleftrightarrow> claim_holder rows (ob_event_id event) = Some (ob_claim_token event)"
proof -
  have found: "find_event (ob_event_id event) rows = Some r" if "holds_claim event r" "r \<in> set rows" for r
    using that find_event_in [OF k, of r] by (simp add: holds_claim_def)
  show ?thesis
  proof
    assume "\<exists>r\<in>set rows. holds_claim event r"
    with found show "claim_holder rows (ob_event_id event) = Some (ob_claim_token event)"
      by (auto simp: claim_holder_def holds_claim_def)
  next
    assume "claim_holder rows (ob_event_id event) = Some (ob_claim_token event)"
    then show "\<exists>r\<in>set rows. holds_claim event r"
      by (auto simp: claim_holder_def holds_claim_def split: option.splits if_splits dest: find_event_id)
  qed
qed

lemma holds_claim_count:
  assumes k: "outbox_keys rows"
  shows "sql_count (holds_claim event) rows = (if claim_holder rows (ob_event_id event) = Some (ob_claim_token event) then 1 else 0)"
proof (cases "claim_holder rows (ob_event_id event) = Some (ob_claim_token event)")
  case True
  then obtain r where "r \<in> set rows" "holds_claim event r" using holds_claim_iff [OF k] by blast
  then show ?thesis
    using True k by (auto simp: outbox_keys_def holds_claim_def intro!: sql_count_unique [of ob_event_id _ r])
next
  case False
  then have "\<forall>r\<in>set rows. \<not> holds_claim event r" using holds_claim_iff [OF k, of event] by simp
  with False show ?thesis by simp
qed

lemma outbox_keys_update: "(\<And>r. ob_event_id (f r) = ob_event_id r) \<Longrightarrow> outbox_keys (sql_update c f rows) = outbox_keys rows"
  by (simp add: outbox_keys_def map_key_sql_update)

lemma claim_acquire:
  assumes r: "r \<in> set rows" and k: "outbox_keys rows"
  shows "claim_holder (sql_update (\<lambda>x. ob_event_id x = ob_event_id r) (claimed_row c now t) rows) =
    (claim_holder rows)(ob_event_id r \<mapsto> t)"
proof
  fix i
  show "claim_holder (sql_update (\<lambda>x. ob_event_id x = ob_event_id r) (claimed_row c now t) rows) i =
      ((claim_holder rows)(ob_event_id r \<mapsto> t)) i"
  proof (cases "find_event i rows")
    case None
    with find_event_in [OF k r] have "i \<noteq> ob_event_id r" by auto
    with None show ?thesis by (simp add: claim_holder_def find_event_update claimed_row_def)
  next
    case (Some x)
    with find_event_id [OF Some] show ?thesis by (auto simp: claim_holder_def find_event_update claimed_row_def)
  qed
qed

lemma settle_release:
  assumes k: "outbox_keys rows" and h: "claim_holder rows (ob_event_id event) = Some (ob_claim_token event)"
    and f: "\<And>r. ob_event_id (f r) = ob_event_id r" "\<And>r. ob_status (f r) \<noteq> OutboxStatusClaimed"
  shows "claim_holder (sql_update (holds_claim event) f rows) = (claim_holder rows)(ob_event_id event := None)"
proof
  fix i
  show "claim_holder (sql_update (holds_claim event) f rows) i = ((claim_holder rows)(ob_event_id event := None)) i"
  proof (cases "find_event i rows")
    case (Some r)
    have "holds_claim event r" if "i = ob_event_id event"
      using that h Some find_event_id [OF Some] by (auto simp: claim_holder_def holds_claim_def split: if_splits)
    moreover have "\<not> holds_claim event r" if "i \<noteq> ob_event_id event"
      using that find_event_id [OF Some] by (auto simp: holds_claim_def)
    ultimately show ?thesis using Some f by (auto simp: claim_holder_def find_event_update)
  qed (use f in \<open>simp add: claim_holder_def find_event_update\<close>)
qed

text \<open>The two settling operations: fenced off and without effect, or the holder lets go of the row.\<close>

definition settles :: "outbox_row \<Rightarrow> outbox_row list \<Rightarrow> (relay_error + unit) \<times> outbox_row list \<Rightarrow> bool" where
  "settles event rows res \<longleftrightarrow>
     (if claim_holder rows (ob_event_id event) = Some (ob_claim_token event)
      then fst res = Inr () \<and> claim_holder (snd res) = (claim_holder rows)(ob_event_id event := None)
      else (\<exists>e. fst res = Inl e) \<and> snd res = rows) \<and>
     outbox_keys (snd res)"

lemma settle_unheld:
  "outbox_keys rows \<Longrightarrow> claim_holder rows (ob_event_id event) \<noteq> Some (ob_claim_token event) \<Longrightarrow>
   sql_update (holds_claim event) f rows = rows"
  using holds_claim_iff [of rows event] by (intro sql_update_id) auto

lemma markPublished_settles: "outbox_keys rows \<Longrightarrow> settles event rows (markPublished clock event rows)"
  by (auto simp: settles_def markPublished_def Let_def holds_claim_count settle_release settle_unheld outbox_keys_update)

lemma markFailure_settles: "outbox_keys rows \<Longrightarrow> settles event rows (markFailure c clock event err rows)"
  by (auto simp: settles_def markFailure_def Let_def holds_claim_count settle_release settle_unheld outbox_keys_update)

lemma settle_event_settles:
  assumes k: "outbox_keys rows"
  shows "outbox_keys (snd (settle_event m i t rows))"
    "claim_holder rows i = Some t \<Longrightarrow>
      fst (settle_event m i t rows) \<and> claim_holder (snd (settle_event m i t rows)) = (claim_holder rows)(i := None)"
    "claim_holder rows i \<noteq> Some t \<Longrightarrow> settle_event m i t rows = (False, rows)"
proof -
  obtain c clock attempt err where m: "m = (c, clock, attempt, err)" by (cases m)
  define event where "event = (new_outbox_row [] [] [] \<lparr>pe_event_id = i, pe_topic = [], pe_payload = []\<rparr>)
      \<lparr>ob_claim_token := t, ob_attempt := attempt\<rparr>"
  define res where "res = (case err of None \<Rightarrow> markPublished clock event rows | Some e \<Rightarrow> markFailure c clock event e rows)"
  have s: "settles event rows res"
    using markPublished_settles [OF k] markFailure_settles [OF k] by (simp add: res_def split: option.split)
  have e: "settle_event m i t rows = (case res of (Inl _, rows') \<Rightarrow> (False, rows') | (Inr _, rows') \<Rightarrow> (True, rows'))"
    unfolding settle_event_def m event_def res_def Let_def by simp
  have f: "ob_event_id event = i" "ob_claim_token event = t" by (simp_all add: event_def new_outbox_row_def)
  from s show "outbox_keys (snd (settle_event m i t rows))"
    by (auto simp: e settles_def split: prod.splits sum.splits)
  from s f show "claim_holder rows i = Some t \<Longrightarrow>
      fst (settle_event m i t rows) \<and> claim_holder (snd (settle_event m i t rows)) = (claim_holder rows)(i := None)"
    by (auto simp: e settles_def split: prod.splits sum.splits)
  from s f show "claim_holder rows i \<noteq> Some t \<Longrightarrow> settle_event m i t rows = (False, rows)"
    by (auto simp: e settles_def split: prod.splits sum.splits)
qed

interpretation outbox: leased_queue claim_holder claim_event settle_event outbox_keys
proof
  fix rows :: "outbox_row list"
  assume k: "outbox_keys rows"
  fix c :: "relay_config \<times> instant \<times> (string \<Rightarrow> bool)" and m :: "relay_config \<times> instant \<times> int \<times> string option"
    and t i :: string and rows' b
  obtain cfg now locked where c: "c = (cfg, now, locked)" by (cases c)
  show "claim_event c t rows = (Some i, rows') \<Longrightarrow> claim_holder rows' = (claim_holder rows)(i \<mapsto> t)"
    using claim_acquire [OF _ k]
    by (auto simp: c claim_event_def claim_result [OF k] split: option.splits dest!: candidate_Some(1))
       (simp add: claimed_row_def)
  show "claim_event c t rows = (None, rows') \<Longrightarrow> rows' = rows"
    by (auto simp: c claim_event_def claim_result [OF k] split: option.splits)
  show "outbox_keys (snd (claim_event c t rows))"
    using k by (auto simp: c claim_event_def claim_result [OF k] outbox_keys_update claimed_row_def split: option.splits)
  show "outbox_keys (snd (settle_event m i t rows))" by (rule settle_event_settles(1) [OF k])
  show "claim_holder rows i = Some t \<Longrightarrow> settle_event m i t rows = (b, rows') \<Longrightarrow> b \<and> claim_holder rows' = (claim_holder rows)(i := None)"
    using settle_event_settles(2) [OF k, of i t m] by simp
  show "claim_holder rows i \<noteq> Some t \<Longrightarrow> settle_event m i t rows = (False, rows)"
    by (rule settle_event_settles(3) [OF k])
qed


section \<open>Workers, crashes and the Kafka log\<close>

text \<open>
  The system as a step relation: the outbox rows, the events the workers hold in memory (with a flag
  that the broker has acknowledged the publication), the tokens drawn so far and the log of what has
  reached Kafka. Any number of workers interleave; a worker may crash at any point, and a failed
  publication may or may not have reached the broker. Tokens are drawn fresh (128 random bits).
\<close>

record relay_state =
  rl_rows :: "outbox_row list"
  rl_inflight :: "(outbox_row \<times> bool) list"
  rl_tokens :: "string set"
  rl_log :: "outbox_row list"

inductive relay_step :: "relay_config \<Rightarrow> relay_state \<Rightarrow> relay_state \<Rightarrow> bool" for c where
  enqueue: "\<lbrakk>pe_event_id e \<notin> ob_event_id ` set (rl_rows s)\<rbrakk> \<Longrightarrow>
     relay_step c s (s\<lparr>rl_rows := rl_rows s @ [new_outbox_row service key now e]\<rparr>)"
| claim: "\<lbrakk>token \<notin> rl_tokens s; claim c now (Some token) locked (rl_rows s) = (Inr (Some event), rows)\<rbrakk> \<Longrightarrow>
     relay_step c s (s\<lparr>rl_rows := rows, rl_inflight := (event, False) # rl_inflight s, rl_tokens := insert token (rl_tokens s)\<rparr>)"
| publish: "\<lbrakk>(event, b) \<in> set (rl_inflight s)\<rbrakk> \<Longrightarrow>
     relay_step c s (s\<lparr>rl_inflight := (event, True) # rl_inflight s, rl_log := event # rl_log s\<rparr>)"
| publish_lost_ack: "\<lbrakk>(event, b) \<in> set (rl_inflight s)\<rbrakk> \<Longrightarrow> relay_step c s (s\<lparr>rl_log := event # rl_log s\<rparr>)"
| mark_published: "\<lbrakk>(event, True) \<in> set (rl_inflight s); markPublished now event (rl_rows s) = (r, rows)\<rbrakk> \<Longrightarrow>
     relay_step c s (s\<lparr>rl_rows := rows\<rparr>)"
| mark_failed: "\<lbrakk>(event, False) \<in> set (rl_inflight s); markFailure c now event err (rl_rows s) = (r, rows)\<rbrakk> \<Longrightarrow>
     relay_step c s (s\<lparr>rl_rows := rows\<rparr>)"
| crash: "relay_step c s (s\<lparr>rl_inflight := removeAll (event, b) (rl_inflight s)\<rparr>)"

definition relay_init :: relay_state where
  "relay_init = \<lparr>rl_rows = [], rl_inflight = [], rl_tokens = {}, rl_log = []\<rparr>"

inductive relay_reachable :: "relay_config \<Rightarrow> relay_state \<Rightarrow> bool" for c where
  init: "relay_reachable c relay_init"
| step: "relay_reachable c s \<Longrightarrow> relay_step c s s' \<Longrightarrow> relay_reachable c s'"

text \<open>The columns that identify what is published never change.\<close>

definition same_event :: "outbox_row \<Rightarrow> outbox_row \<Rightarrow> bool" where
  "same_event r e \<longleftrightarrow> ob_event_id r = ob_event_id e \<and> ob_topic r = ob_topic e \<and> ob_payload r = ob_payload e \<and>
     ob_operation_key r = ob_operation_key e"

definition relay_inv :: "relay_state \<Rightarrow> bool" where
  "relay_inv s \<longleftrightarrow> outbox_keys (rl_rows s) \<and>
     (\<forall>(e, b)\<in>set (rl_inflight s). \<exists>r\<in>set (rl_rows s). same_event r e) \<and>
     (\<forall>(e, b)\<in>set (rl_inflight s). b \<longrightarrow> (\<exists>l\<in>set (rl_log s). same_event e l)) \<and>
     (\<forall>l\<in>set (rl_log s). \<exists>r\<in>set (rl_rows s). same_event r l) \<and>
     (\<forall>r\<in>set (rl_rows s). ob_status r = OutboxStatusPublished \<longrightarrow> (\<exists>l\<in>set (rl_log s). same_event r l))"

lemma same_event_simps [simp]: "same_event r r"
  "same_event (claimed_row c now t r) e = same_event r e" "same_event r (claimed_row c now t e) = same_event r e"
  "same_event r (e\<lparr>ob_updated_at := x\<rparr>) = same_event r e"
  by (simp_all add: same_event_def claimed_row_def)

lemma same_event_trans: "same_event a b \<Longrightarrow> same_event b c \<Longrightarrow> same_event a c"
  by (simp add: same_event_def)

lemma same_event_sym: "same_event a b \<Longrightarrow> same_event b a"
  by (simp add: same_event_def)

text \<open>Every change of the rows by the relay keeps each row's event and publishes only on acknowledgement.\<close>

lemma relay_inv_update:
  assumes inv: "relay_inv s" and f: "\<And>r e. same_event (f r) e = same_event r e"
    and p: "\<And>r. r \<in> set (rl_rows s) \<Longrightarrow> cond r \<Longrightarrow> ob_status (f r) = OutboxStatusPublished \<Longrightarrow>
      \<exists>l\<in>set (rl_log s). same_event r l"
  shows "relay_inv (s\<lparr>rl_rows := sql_update cond f (rl_rows s)\<rparr>)"
proof -
  have id: "ob_event_id (f r) = ob_event_id r" for r using f [of r r] by (simp add: same_event_def)
  have ex: "(\<exists>r\<in>set (sql_update cond f (rl_rows s)). same_event r e) = (\<exists>r\<in>set (rl_rows s). same_event r e)" for e
    using f by (auto simp: bex_sql_update)
  have "\<forall>r\<in>set (sql_update cond f (rl_rows s)). ob_status r = OutboxStatusPublished \<longrightarrow> (\<exists>l\<in>set (rl_log s). same_event r l)"
    using inv p f by (auto simp: ball_sql_update relay_inv_def)
  with inv id show ?thesis by (simp add: relay_inv_def outbox_keys_update ex)
qed

lemma relay_step_inv:
  assumes "relay_step c s s'" "relay_inv s"
  shows "relay_inv s'"
  using assms
proof (induction rule: relay_step.induct)
  case (enqueue e s service key now)
  then show ?case by (auto simp: relay_inv_def outbox_keys_def new_outbox_row_def)
next
  case (claim token s now locked event rows)
  have k: "outbox_keys (rl_rows s)" using claim.prems by (simp add: relay_inv_def)
  obtain r where r: "candidate (rc_service c) (FormatReliabilityTime now) locked (rl_rows s) = Some r"
    and e: "event = (claimed_row c now token r)\<lparr>ob_updated_at := ob_updated_at r\<rparr>"
    and rows: "rows = sql_update (\<lambda>x. ob_event_id x = ob_event_id r) (claimed_row c now token) (rl_rows s)"
    using claim.hyps(2) by (auto simp: claim_result [OF k] split: option.splits)
  have "relay_inv (s\<lparr>rl_rows := rows\<rparr>)"
    unfolding rows by (rule relay_inv_update [OF claim.prems]) (simp_all add: claimed_row_def same_event_def)
  moreover have "\<exists>x\<in>set rows. same_event x event"
    using candidate_Some(1) [OF r] by (auto simp: rows e bex_sql_update intro!: bexI [of _ r])
  ultimately show ?case by (auto simp: relay_inv_def)
next
  case (publish event b s)
  then show ?case by (auto simp: relay_inv_def)
next
  case (publish_lost_ack event b s)
  then show ?case by (auto simp: relay_inv_def)
next
  case (mark_published event s now r rows)
  obtain l where l: "l \<in> set (rl_log s)" "same_event event l" using mark_published by (auto simp: relay_inv_def)
  obtain x where x: "x \<in> set (rl_rows s)" "same_event x event" using mark_published by (auto simp: relay_inv_def)
  have k: "outbox_keys (rl_rows s)" using mark_published by (simp add: relay_inv_def)
  have "same_event y l" if "y \<in> set (rl_rows s)" "holds_claim event y" for y
    using event_unique [OF k x(1) that(1)] that(2) x(2) l(2) by (auto simp: holds_claim_def same_event_def)
  then have "relay_inv (s\<lparr>rl_rows := snd (markPublished now event (rl_rows s))\<rparr>)"
    using l(1) unfolding markPublished_def Let_def
    by (auto intro!: relay_inv_update [OF mark_published.prems] simp: same_event_def)
  with mark_published show ?case by simp
next
  case (mark_failed event s now err r rows)
  have "relay_inv (s\<lparr>rl_rows := snd (markFailure c now event err (rl_rows s))\<rparr>)"
    unfolding markFailure_def Let_def by (auto intro!: relay_inv_update [OF mark_failed.prems] simp: same_event_def)
  with mark_failed show ?case by simp
next
  case (crash s event b)
  then show ?case by (auto simp: relay_inv_def)
qed

lemma relay_reachable_inv: "relay_reachable c s \<Longrightarrow> relay_inv s"
proof (induction rule: relay_reachable.induct)
  case init
  then show ?case by (simp add: relay_inv_def relay_init_def outbox_keys_def)
next
  case (step s s')
  then show ?case by (blast intro: relay_step_inv)
qed


text \<open>A published row is never due and never claimed, so that no step touches it again.\<close>

lemma published_kept:
  assumes "r \<in> set rows" "\<not> c r"
  shows "r \<in> set (sql_update c f rows)"
  using assms by (auto simp: set_sql_update)

lemma relay_step_published:
  assumes "relay_step c s s'" "relay_inv s" "r \<in> set (rl_rows s)" "ob_status r = OutboxStatusPublished"
  shows "r \<in> set (rl_rows s')"
  using assms
proof (induction rule: relay_step.induct)
  case (claim token s now locked event rows)
  have k: "outbox_keys (rl_rows s)" using claim.prems by (simp add: relay_inv_def)
  obtain x where x: "candidate (rc_service c) (FormatReliabilityTime now) locked (rl_rows s) = Some x"
    and rows: "rows = sql_update (\<lambda>y. ob_event_id y = ob_event_id x) (claimed_row c now token) (rl_rows s)"
    using claim.hyps(2) by (auto simp: claim_result [OF k] split: option.splits)
  have "ob_event_id r \<noteq> ob_event_id x"
    using event_unique [OF k candidate_Some(1) [OF x] claim.prems(2)] candidate_Some(2) [OF x] claim.prems(3)
    by (auto simp: due_def)
  with claim.prems(2) show ?case by (simp add: rows published_kept)
next
  case (mark_published event s now res rows)
  then show ?case by (auto simp: markPublished_def Let_def holds_claim_def intro!: published_kept split: if_splits)
next
  case (mark_failed event s now err res rows)
  then show ?case by (auto simp: markFailure_def Let_def holds_claim_def intro!: published_kept split: if_splits)
qed simp_all

section \<open>Draining the outbox\<close>

definition published_row :: "relay_config \<Rightarrow> instant \<Rightarrow> string \<Rightarrow> outbox_row \<Rightarrow> outbox_row" where
  "published_row c now t r =
     (claimed_row c now t r)\<lparr>ob_status := OutboxStatusPublished, ob_claim_token := [], ob_lease_until := [],
        ob_published_at := FormatReliabilityTime now, ob_updated_at := FormatReliabilityTime now, ob_last_error := []\<rparr>"

lemma RunOnce_publishes:
  assumes k: "outbox_keys rows" and r: "candidate (rc_service c) (FormatReliabilityTime now) (\<lambda>_. False) rows = Some r"
    and p: "\<And>e. publish e = None"
  shows "RunOnce c now (Some t) publish rows =
    ((1, None), sql_update (\<lambda>x. ob_event_id x = ob_event_id r) (published_row c now t) rows)"
proof -
  define rows1 where "rows1 = sql_update (\<lambda>x. ob_event_id x = ob_event_id r) (claimed_row c now t) rows"
  define event where "event = (claimed_row c now t r)\<lparr>ob_updated_at := ob_updated_at r\<rparr>"
  have ids: "ob_event_id event = ob_event_id r" "ob_claim_token event = t" by (simp_all add: event_def claimed_row_def)
  have cl: "claim c now (Some t) (\<lambda>_. False) rows = (Inr (Some event), rows1)"
    by (simp add: claim_result [OF k] r rows1_def event_def)
  have k1: "outbox_keys rows1" using k by (simp add: rows1_def outbox_keys_update claimed_row_def)
  have h: "claim_holder rows1 (ob_event_id event) = Some (ob_claim_token event)"
    by (simp add: rows1_def ids claim_acquire [OF candidate_Some(1) [OF r] k])
  have hc: "holds_claim event (claimed_row c now t x) \<longleftrightarrow> ob_event_id x = ob_event_id r" for x
    using ids by (simp add: holds_claim_def claimed_row_def)
  have "sql_update (holds_claim event) f rows1 = sql_update (\<lambda>x. ob_event_id x = ob_event_id r) (\<lambda>x. f (claimed_row c now t x)) rows" for f
    unfolding rows1_def using hc ids by (induction rows) (auto simp: holds_claim_def)
  then show ?thesis
    by (simp add: RunOnce_def cl p markPublished_def Let_def holds_claim_count [OF k1] h published_row_def [abs_def])
qed

fun drain :: "relay_config \<Rightarrow> instant \<Rightarrow> (outbox_row \<Rightarrow> string option) \<Rightarrow> string list \<Rightarrow> outbox_row list \<Rightarrow> outbox_row list" where
  "drain c now publish [] rows = rows"
| "drain c now publish (t # ts) rows = drain c now publish ts (snd (RunOnce c now (Some t) publish rows))"

definition drained :: "relay_config \<Rightarrow> instant \<Rightarrow> outbox_row list \<Rightarrow> outbox_row list \<Rightarrow> bool" where
  "drained c now rows rows' \<longleftrightarrow>
     list_all2 (\<lambda>r r'. if due (rc_service c) (FormatReliabilityTime now) r
                       then ob_status r' = OutboxStatusPublished \<and> same_event r' r else r' = r) rows rows'"

lemma candidate_None:
  assumes "\<And>r. r \<in> set rows \<Longrightarrow> ob_event_id r \<noteq> []"
  shows "candidate service now (\<lambda>_. False) rows = None \<longleftrightarrow> sql_count (due service now) rows = 0"
proof -
  let ?t = "filter (\<lambda>r. due service now r) rows"
  have "candidate service now (\<lambda>_. False) rows = (case sql_order claim_order ?t of [] \<Rightarrow> None | r # _ \<Rightarrow> Some r)"
  proof (cases "sql_order claim_order ?t")
    case (Cons r rs)
    with sql_order_hd [OF Cons] assms show ?thesis by (simp add: candidate_def)
  qed (simp add: candidate_def)
  then show ?thesis by (simp add: sql_order_first_None sql_count_def)
qed

lemma due_count_publish:
  assumes k: "outbox_keys rows" and r: "r \<in> set rows" "due service now r" and p: "\<And>x. \<not> due service now (f x)"
  shows "Suc (sql_count (due service now) (sql_update (\<lambda>x. ob_event_id x = ob_event_id r) f rows)) = sql_count (due service now) rows"
  using k r
proof (induction rows)
  case (Cons x rows)
  show ?case
  proof (cases "x = r")
    case True
    have "sql_update (\<lambda>x. ob_event_id x = ob_event_id r) f rows = rows"
      using Cons.prems(1) True by (intro sql_update_id) (auto simp: outbox_keys_def image_iff)
    with True Cons.prems(3) p show ?thesis by simp
  next
    case False
    then have "ob_event_id x \<noteq> ob_event_id r" using Cons.prems(1,2) by (auto simp: outbox_keys_def image_iff)
    with False Cons show ?thesis by (simp add: outbox_keys_def)
  qed
qed simp

lemma drain_drained:
  assumes p: "\<And>e. publish e = None"
  shows "outbox_keys rows \<Longrightarrow> (\<And>r. r \<in> set rows \<Longrightarrow> ob_event_id r \<noteq> []) \<Longrightarrow>
    sql_count (due (rc_service c) (FormatReliabilityTime now)) rows \<le> length ts \<Longrightarrow> drained c now rows (drain c now publish ts rows)"
proof (induction ts arbitrary: rows)
  case Nil
  then show ?case by (auto simp: drained_def list_all2_same)
next
  case (Cons t ts)
  let ?due = "due (rc_service c) (FormatReliabilityTime now)"
  show ?case
  proof (cases "candidate (rc_service c) (FormatReliabilityTime now) (\<lambda>_. False) rows")
    case None
    then have z: "sql_count ?due rows = 0" using candidate_None Cons.prems(2) by blast
    have "snd (RunOnce c now (Some t) publish rows) = rows"
      by (simp add: RunOnce_def claim_result [OF Cons.prems(1)] None)
    moreover have "sql_count ?due rows \<le> length ts" by (simp only: z)
    ultimately show ?thesis using Cons.IH [OF Cons.prems(1,2)] by simp
  next
    case (Some r)
    define rows1 where "rows1 = sql_update (\<lambda>x. ob_event_id x = ob_event_id r) (published_row c now t) rows"
    have np: "\<not> ?due (published_row c now t x)" for x by (simp add: due_def published_row_def)
    have id: "ob_event_id (published_row c now t x) = ob_event_id x" for x by (simp add: published_row_def claimed_row_def)
    have "drained c now rows1 (drain c now publish ts rows1)"
    proof (rule Cons.IH)
      show "outbox_keys rows1" using Cons.prems(1) by (simp add: rows1_def outbox_keys_update id)
      show "ob_event_id x \<noteq> []" if "x \<in> set rows1" for x
        using that Cons.prems(2) id by (auto simp: rows1_def set_sql_update)
      show "sql_count ?due rows1 \<le> length ts"
        using due_count_publish [where f = "published_row c now t", OF Cons.prems(1) candidate_Some(1,2) [OF Some] np] Cons.prems(3)
        by (simp add: rows1_def)
    qed
    moreover have "drained c now rows rows'" if "drained c now rows1 rows'" for rows'
      unfolding drained_def
    proof (rule list_all2_all_nthI)
      note d = that [unfolded drained_def rows1_def]
      show len: "length rows = length rows'" using list_all2_lengthD [OF d] by simp
      fix n assume n: "n < length rows"
      have q: "due (rc_service c) (FormatReliabilityTime now) (rows ! n)" if "ob_event_id (rows ! n) = ob_event_id r"
        using event_unique [OF Cons.prems(1) candidate_Some(1) [OF Some] nth_mem [OF n] that] candidate_Some(2) [OF Some] by simp
      show "if ?due (rows ! n) then ob_status (rows' ! n) = OutboxStatusPublished \<and> same_event (rows' ! n) (rows ! n)
            else rows' ! n = rows ! n"
        using list_all2_nthD [OF d, of n] n np q
        by (auto simp: sql_update_def published_row_def claimed_row_def same_event_def split: if_splits)
    qed
    ultimately show ?thesis
      by (simp add: RunOnce_publishes [OF Cons.prems(1) Some p] rows1_def)
  qed
qed


section \<open>Properties\<close>

text \<open>
  C4. Fencing: in any interleaving of claims and settlements by any number of workers, with expired
  leases taken over, when every claim draws a new token, each token settles at most one event and does
  so at most once; every other settlement attempt is rejected.
\<close>

theorem outbox_settled_once:
  assumes "outbox_keys rows" and "distinct (claim_tokens ops)"
    and "\<And>r. r \<in> set rows \<Longrightarrow> ob_status r \<noteq> OutboxStatusClaimed"
  shows "distinct (map snd (settlements claim_event settle_event ops rows)) \<and>
    snd ` set (settlements claim_event settle_event ops rows) \<subseteq> set (claim_tokens ops)"
proof -
  have none: "claim_holder rows i = None" for i
    using assms(3) by (auto simp: claim_holder_def split: option.split dest: find_event_id)
  have ok: "outbox.tokens_ok (claim_tokens ops) rows"
    using assms none by (simp add: outbox.tokens_ok_def)
  from outbox.settlements_distinct [OF ok] none show ?thesis by fastforce
qed

text \<open>
  C3. At least once, and faithfully: in every state the workers can reach, with crashes, lost
  acknowledgements and interleavings, a row marked published has been handed to Kafka with its own
  topic, payload and operation key; the log holds nothing but events of the outbox; and no step ever
  changes a published row again.
\<close>

theorem relay_publishes_before_marking:
  assumes "relay_reachable c s"
  shows "(\<forall>r\<in>set (rl_rows s). ob_status r = OutboxStatusPublished \<longrightarrow> (\<exists>l\<in>set (rl_log s). same_event r l)) \<and>
    (\<forall>l\<in>set (rl_log s). \<exists>r\<in>set (rl_rows s). same_event r l) \<and>
    (\<forall>s' r. relay_step c s s' \<longrightarrow> r \<in> set (rl_rows s) \<longrightarrow> ob_status r = OutboxStatusPublished \<longrightarrow> r \<in> set (rl_rows s'))"
  using relay_reachable_inv [OF assms] relay_step_published by (auto simp: relay_inv_def)

text \<open>
  C5. Progress: when the broker accepts every publication, as many rounds of \<^verbatim>\<open>RunOnce\<close> as there are
  due events publish them all, and leave every other row exactly as it was.
\<close>

theorem relay_drains:
  assumes "outbox_keys rows" and "\<forall>r\<in>set rows. ob_event_id r \<noteq> []" and "\<And>e. publish e = None"
    and "sql_count (due (rc_service c) (FormatReliabilityTime now)) rows \<le> length tokens"
  shows "drained c now rows (drain c now publish tokens rows)"
  using assms by (intro drain_drained) auto

definition sample_outbox :: "outbox_row list" where
  "sample_outbox = map (new_outbox_row ''friend'' ''op'' ''1970'')
     [\<lparr>pe_event_id = ''e1'', pe_topic = ''t'', pe_payload = ''p''\<rparr>, \<lparr>pe_event_id = ''e2'', pe_topic = ''t'', pe_payload = ''q''\<rparr>]"

definition sample_relay :: relay_config where
  "sample_relay = normalize \<lparr>rc_service = ''friend'', rc_poll_interval = 0, rc_lease = 0, rc_publish_timeout = 0,
     rc_initial_backoff = 0, rc_max_backoff = 0, rc_alert_after_attempts = 0\<rparr>"

theorem outbox_settled_once_witness:
  "distinct (map snd (settlements claim_event settle_event
     [Claim (sample_relay, 0, \<lambda>_. False) ''t1'', Settle (sample_relay, 5, 1, None) ''e1'' ''t1'',
      Settle (sample_relay, 6, 1, None) ''e1'' ''t1''] sample_outbox))"
proof -
  have k: "outbox_keys sample_outbox" by code_simp
  have n: "ob_status r \<noteq> OutboxStatusClaimed" if "r \<in> set sample_outbox" for r
    using that by (auto simp: sample_outbox_def new_outbox_row_def)
  show ?thesis
    using outbox_settled_once [OF k _ n, where ops = "[Claim (sample_relay, 0, \<lambda>_. False) ''t1'',
      Settle (sample_relay, 5, 1, None) ''e1'' ''t1'', Settle (sample_relay, 6, 1, None) ''e1'' ''t1'']"] by simp
qed

lemma sample_published_reachable:
  "\<exists>s. relay_reachable sample_relay s \<and> (\<exists>r\<in>set (rl_rows s). ob_status r = OutboxStatusPublished)"
proof -
  define e where "e = \<lparr>pe_event_id = ''e1'', pe_topic = ''t'', pe_payload = ''p''\<rparr>"
  define r where "r = new_outbox_row ''friend'' ''op'' ''1970'' e"
  define now :: instant where "now = 1000000000000000000"
  define ev where "ev = (claimed_row sample_relay now ''t1'' r)\<lparr>ob_updated_at := ob_updated_at r\<rparr>"
  define rows where "rows = [claimed_row sample_relay now ''t1'' r]"
  have "due (rc_service sample_relay) (FormatReliabilityTime now) r" unfolding now_def r_def e_def by code_simp
  then have "candidate (rc_service sample_relay) (FormatReliabilityTime now) (\<lambda>_. False) [r] = Some r"
    by (simp add: candidate_def sql_order_def r_def new_outbox_row_def e_def)
  then have cl: "claim sample_relay now (Some ''t1'') (\<lambda>_. False) [r] = (Inr (Some ev), rows)"
    by (subst claim_result) (simp_all add: ev_def rows_def outbox_keys_def)
  have "relay_reachable sample_relay (relay_init\<lparr>rl_rows := [r]\<rparr>)"
    using relay_reachable.step [OF relay_reachable.init relay_step.enqueue [of e relay_init sample_relay "''friend''" "''op''" "''1970''"]]
    by (simp add: relay_init_def r_def)
  then have "relay_reachable sample_relay \<lparr>rl_rows = rows, rl_inflight = [(ev, False)], rl_tokens = {''t1''}, rl_log = []\<rparr>"
    using relay_step.claim [of "''t1''" "relay_init\<lparr>rl_rows := [r]\<rparr>" sample_relay now "\<lambda>_. False" ev rows] cl
    by (auto simp: relay_init_def intro: relay_reachable.step)
  then have "relay_reachable sample_relay \<lparr>rl_rows = rows, rl_inflight = [(ev, True), (ev, False)], rl_tokens = {''t1''}, rl_log = [ev]\<rparr>"
    using relay_step.publish [of ev False "\<lparr>rl_rows = rows, rl_inflight = [(ev, False)], rl_tokens = {''t1''}, rl_log = []\<rparr>" sample_relay]
    by (auto intro: relay_reachable.step)
  moreover have "relay_step sample_relay \<lparr>rl_rows = rows, rl_inflight = [(ev, True), (ev, False)], rl_tokens = {''t1''}, rl_log = [ev]\<rparr>
      \<lparr>rl_rows = snd (markPublished now ev rows), rl_inflight = [(ev, True), (ev, False)], rl_tokens = {''t1''}, rl_log = [ev]\<rparr>"
    using relay_step.mark_published [of ev "\<lparr>rl_rows = rows, rl_inflight = [(ev, True), (ev, False)], rl_tokens = {''t1''}, rl_log = [ev]\<rparr>"
        now "fst (markPublished now ev rows)" "snd (markPublished now ev rows)" sample_relay] by simp
  moreover have "\<exists>x\<in>set (snd (markPublished now ev rows)). ob_status x = OutboxStatusPublished"
    by (simp add: markPublished_def Let_def rows_def ev_def holds_claim_def claimed_row_def)
  ultimately show ?thesis by (metis relay_reachable.step relay_state.select_convs(1))
qed

theorem relay_publishes_before_marking_witness:
  "\<exists>s. relay_reachable sample_relay s \<and> (\<exists>r\<in>set (rl_rows s). ob_status r = OutboxStatusPublished \<and> (\<exists>l\<in>set (rl_log s). same_event r l))"
  using sample_published_reachable relay_publishes_before_marking by blast

theorem relay_drains_witness:
  "drained sample_relay 1000000000000000000 sample_outbox
     (drain sample_relay 1000000000000000000 (\<lambda>_. None) [''t1'', ''t2''] sample_outbox)"
proof (rule relay_drains)
  show "outbox_keys sample_outbox" by code_simp
  show "\<forall>r\<in>set sample_outbox. ob_event_id r \<noteq> []" by (simp add: sample_outbox_def new_outbox_row_def)
  show "sql_count (due (rc_service sample_relay) (FormatReliabilityTime 1000000000000000000)) sample_outbox \<le> length [''t1'', ''t2'']"
    by (simp add: sample_outbox_def sql_count_def)
qed simp

end
