(* ===== verification/Redis.thy ===== *)
theory Redis
  imports Go_Time
begin

text \<open>
  What the services use of Redis: keys with a time to live are values with their expiry, durations are sent
  in milliseconds, and a request or its reply can be lost.
\<close>

text \<open>\<^verbatim>\<open>GET\<close> on a key with expiry.\<close>

definition live :: "instant \<Rightarrow> ('k \<rightharpoonup> 'v \<times> instant) \<Rightarrow> 'k \<Rightarrow> 'v option" where
  "live now m k = (case m k of None \<Rightarrow> None | Some (v, expiry) \<Rightarrow> if now < expiry then Some v else None)"

definition live_flag :: "instant \<Rightarrow> ('k \<rightharpoonup> instant) \<Rightarrow> 'k \<Rightarrow> bool" where
  "live_flag now m k = (case m k of None \<Rightarrow> False | Some expiry \<Rightarrow> now < expiry)"

definition milliseconds :: "duration \<Rightarrow> int" where
  "milliseconds d = (if d < 0 then - ((- d) div millisecond) else d div millisecond)"

definition expiry_after :: "instant \<Rightarrow> int \<Rightarrow> instant" where
  "expiry_after now ms = now + ms * millisecond"

text \<open>A lost reply leaves the effect of the command.\<close>

datatype redis_fault = NoFault | RequestLost | ReplyLost

lemma live_update: "t < e \<Longrightarrow> live t (m(k \<mapsto> (v, e))) = (live t m)(k \<mapsto> v)"
  by (rule ext) (simp add: live_def)

lemma expiry_after_live: "0 < ms \<Longrightarrow> t < expiry_after t ms"
  by (simp add: expiry_after_def)

lemma live_Some: "live t m k = Some v \<longleftrightarrow> (\<exists>e. m k = Some (v, e) \<and> t < e)"
  by (auto simp: live_def split: option.split)

lemma live_None: "live t m k = None \<longleftrightarrow> (\<forall>v e. m k = Some (v, e) \<longrightarrow> \<not> t < e)"
  by (auto simp: live_def split: option.split)

end
