(* ===== verification/Call_Store.thy ===== *)
theory Call_Store
  imports Redis
begin

text \<open>
  \<^verbatim>\<open>services/callService/internal/call\<close>: the types of \<^verbatim>\<open>types.go\<close> and the Redis store of \<^verbatim>\<open>store.go\<close>. A Redis key
  with a time to live is a value with its expiry; a Lua script is one atomic function on the Redis
  state. Sessions are stored as JSON text, compared as text by the scripts; since encoding a decoded
  session gives the same text, they are values here. The reply of a script may be lost after it ran.
\<close>

section \<open>Types\<close>

abbreviation StateRinging :: string where "StateRinging \<equiv> ''ringing''"
abbreviation StateActive :: string where "StateActive \<equiv> ''active''"
abbreviation StateEnded :: string where "StateEnded \<equiv> ''ended''"

datatype call_error =
    ErrUserOffline | ErrUserBusy | ErrCallNotFound | ErrInvalidState | ErrForbidden | ErrInvalidInput
  | DeliveryError string | RedisError string | MarshalError string

datatype CallType = CALL_TYPE_UNSPECIFIED | AUDIO | VIDEO

datatype CallEndReason = CALL_END_REASON_UNSPECIFIED | REJECTED | HANGUP | CANCELLED | TIMEOUT | DISCONNECTED

record call_description =
  ds_type :: string
  ds_sdp :: string

record session =
  se_id :: string
  se_caller :: int
  se_callee :: int
  se_call_type :: CallType
  se_state :: string
  se_offer :: call_description
  se_answer :: "call_description option"
  se_end_reason :: CallEndReason
  se_end_message :: string
  se_created_at :: instant
  se_accepted_at :: "instant option"
  se_ended_at :: "instant option"
  se_ring_deadline :: instant

definition Peer :: "session \<Rightarrow> int \<Rightarrow> call_error + int" where
  "Peer s userID = (if userID = se_caller s then Inr (se_callee s)
                    else if userID = se_callee s then Inr (se_caller s) else Inl ErrForbidden)"

record call_pending_event =
  ce_event_id :: string
  ce_operation_key :: string
  ce_topic :: string
  ce_payload :: bytes

section \<open>The Redis state\<close>

record call_redis =
  rd_user_calls :: "int \<rightharpoonup> string \<times> instant"
  rd_sessions :: "string \<rightharpoonup> session \<times> instant"
  rd_deadlines :: "(string \<times> int) list"
  rd_operations :: "string \<rightharpoonup> instant"
  rd_outbox :: "(nat \<times> call_pending_event) list"
  rd_next_id :: nat
  rd_routes :: "int \<rightharpoonup> string"
  rd_leases :: "int \<rightharpoonup> string \<times> instant"
  rd_ledger :: "string \<rightharpoonup> instant"

definition zadd :: "string \<Rightarrow> int \<Rightarrow> (string \<times> int) list \<Rightarrow> (string \<times> int) list" where
  "zadd member score z = filter (\<lambda>(m, _). m \<noteq> member) z @ [(member, score)]"

definition zrem :: "string \<Rightarrow> (string \<times> int) list \<Rightarrow> (string \<times> int) list" where
  "zrem member z = filter (\<lambda>(m, _). m \<noteq> member) z"

definition xadd :: "call_pending_event list \<Rightarrow> call_redis \<Rightarrow> call_redis" where
  "xadd events r = r\<lparr>rd_outbox := rd_outbox r @ zip [rd_next_id r..<rd_next_id r + length events] events,
                     rd_next_id := rd_next_id r + length events\<rparr>"

record RedisStore =
  rs_ringTTL :: duration
  rs_activeTTL :: duration
  rs_terminatedTTL :: duration
  rs_cleanupGrace :: duration
  rs_operationTTL :: duration

definition callDurationEnv :: "duration option \<Rightarrow> duration \<Rightarrow> duration" where
  "callDurationEnv value fallback = (case value of None \<Rightarrow> fallback | Some d \<Rightarrow> if d \<le> 0 then fallback else d)"

text \<open>\<^verbatim>\<open>NewRedisStore\<close>; the two environment variables are given as parsed durations.\<close>

definition NewRedisStore :: "duration \<Rightarrow> duration \<Rightarrow> duration option \<Rightarrow> duration option \<Rightarrow> RedisStore" where
  "NewRedisStore ringTTL activeTTL replayEnv retentionEnv =
     (let replayWindow = callDurationEnv replayEnv (7 * 24 * hour);
          operationTTL = callDurationEnv retentionEnv (30 * 24 * hour)
      in \<lparr>rs_ringTTL = (if ringTTL \<le> 0 then 45 * second else ringTTL),
          rs_activeTTL = (if activeTTL \<le> 0 then 6 * hour else activeTTL),
          rs_terminatedTTL = 5 * minute, rs_cleanupGrace = minute,
          rs_operationTTL = (if operationTTL \<le> replayWindow then replayWindow + 24 * hour else operationTTL)\<rparr>)"

definition callOperationKey :: "(string \<Rightarrow> string) \<Rightarrow> string \<Rightarrow> string" where
  "callOperationKey sha256hex operationKey = ''call:operation:'' @ sha256hex operationKey"

section \<open>The scripts\<close>

text \<open>
  The scripts return 0, 1 or 2; a \<^verbatim>\<open>SET\<close> with a time to live that is not positive aborts the script, which
  is the value \<open>None\<close>, and what was written before stays. The session's own time to live at its
  creation exceeds that of the users' keys by the grace period. Here \<open>opk\<close> is the operation's Redis key.
\<close>

definition complete_operation :: "instant \<Rightarrow> int \<Rightarrow> string \<Rightarrow> call_pending_event list \<Rightarrow> call_redis \<Rightarrow> nat option \<times> call_redis" where
  "complete_operation now operationMs opk events r =
     (if operationMs \<le> 0 then (None, r)
      else (Some 1, xadd events (r\<lparr>rd_operations := (rd_operations r)(opk \<mapsto> expiry_after now operationMs)\<rparr>)))"

definition createSessionWithEventsScript ::
  "instant \<Rightarrow> session \<Rightarrow> int \<Rightarrow> int \<Rightarrow> int \<Rightarrow> int \<Rightarrow> string \<Rightarrow> call_pending_event list \<Rightarrow> call_redis \<Rightarrow> nat option \<times> call_redis" where
  "createSessionWithEventsScript now s userMs sessionMs score operationMs opk events r =
     (if live_flag now (rd_operations r) opk then (Some 2, r)
      else if live now (rd_user_calls r) (se_caller s) \<noteq> None \<or> live now (rd_user_calls r) (se_callee s) \<noteq> None then (Some 0, r)
      else if userMs \<le> 0 then (None, r)
      else complete_operation now operationMs opk events
        (r\<lparr>rd_user_calls := (rd_user_calls r)(se_caller s \<mapsto> (se_id s, expiry_after now userMs),
                                               se_callee s \<mapsto> (se_id s, expiry_after now userMs)),
           rd_sessions := (rd_sessions r)(se_id s \<mapsto> (s, expiry_after now sessionMs)),
           rd_deadlines := zadd (se_id s) score (rd_deadlines r)\<rparr>))"

definition pexpire :: "instant \<Rightarrow> int \<Rightarrow> int \<Rightarrow> (int \<rightharpoonup> string \<times> instant) \<Rightarrow> (int \<rightharpoonup> string \<times> instant)" where
  "pexpire now ms u m = (case live now m u of None \<Rightarrow> m | Some v \<Rightarrow> m(u \<mapsto> (v, expiry_after now ms)))"

definition del_if :: "instant \<Rightarrow> string \<Rightarrow> int \<Rightarrow> (int \<rightharpoonup> string \<times> instant) \<Rightarrow> (int \<rightharpoonup> string \<times> instant)" where
  "del_if now callID u m = (if live now m u = Some callID then m(u := None) else m)"

definition transitionSessionWithEventsScript ::
  "instant \<Rightarrow> session \<Rightarrow> session \<Rightarrow> int \<Rightarrow> bool \<Rightarrow> int \<Rightarrow> string \<Rightarrow> call_pending_event list \<Rightarrow> call_redis \<Rightarrow> nat option \<times> call_redis" where
  "transitionSessionWithEventsScript now expected updated ms terminal operationMs opk events r =
     (if live_flag now (rd_operations r) opk then (Some 2, r)
      else if live now (rd_sessions r) (se_id updated) \<noteq> Some expected then (Some 0, r)
      else if \<not> terminal \<and> (live now (rd_user_calls r) (se_caller updated) \<noteq> Some (se_id updated) \<or>
                             live now (rd_user_calls r) (se_callee updated) \<noteq> Some (se_id updated)) then (Some 0, r)
      else if ms \<le> 0 then (None, r)
      else complete_operation now operationMs opk events
        (r\<lparr>rd_sessions := (rd_sessions r)(se_id updated \<mapsto> (updated, expiry_after now ms)),
           rd_deadlines := zrem (se_id updated) (rd_deadlines r),
           rd_user_calls :=
             (if terminal
              then del_if now (se_id updated) (se_callee updated) (del_if now (se_id updated) (se_caller updated) (rd_user_calls r))
              else pexpire now ms (se_callee updated) (pexpire now ms (se_caller updated) (rd_user_calls r)))\<rparr>))"

section \<open>The store's operations\<close>

text \<open>What the caller sees of a script's reply.\<close>

definition script_result :: "redis_fault \<Rightarrow> call_error \<Rightarrow> (call_redis \<Rightarrow> nat option \<times> call_redis) \<Rightarrow> call_redis \<Rightarrow> (call_error + bool) \<times> call_redis" where
  "script_result fault refused script r =
     (case fault of
        RequestLost \<Rightarrow> (Inl (RedisError ''connection''), r)
      | ReplyLost \<Rightarrow> (Inl (RedisError ''connection''), snd (script r))
      | NoFault \<Rightarrow>
          (case script r of
             (None, r1) \<Rightarrow> (Inl (RedisError ''invalid expire time''), r1)
           | (Some n, r1) \<Rightarrow> if n = 0 then (Inl refused, r1) else (Inr (n = 2), r1)))"

definition CreateSessionWithEvents ::
  "RedisStore \<Rightarrow> (string \<Rightarrow> string) \<Rightarrow> redis_fault \<Rightarrow> instant \<Rightarrow> session \<Rightarrow> string \<Rightarrow> call_pending_event list \<Rightarrow> call_redis \<Rightarrow>
   (call_error + bool) \<times> call_redis" where
  "CreateSessionWithEvents store sha fault now s operationKey events r =
     (let until = se_ring_deadline s - now; ttl = (if until \<le> 0 then rs_ringTTL store else until) in
      script_result fault ErrUserBusy
        (createSessionWithEventsScript now s (milliseconds ttl) (milliseconds (ttl + rs_cleanupGrace store))
           (se_ring_deadline s div second) (milliseconds (rs_operationTTL store)) (callOperationKey sha operationKey) events) r)"

definition OperationCompleted :: "(string \<Rightarrow> string) \<Rightarrow> instant \<Rightarrow> string \<Rightarrow> call_redis \<Rightarrow> bool" where
  "OperationCompleted sha now operationKey r = live_flag now (rd_operations r) (callOperationKey sha operationKey)"

definition transition_ttl :: "RedisStore \<Rightarrow> instant \<Rightarrow> session \<Rightarrow> duration" where
  "transition_ttl store now updated =
     (if se_state updated = StateEnded then rs_terminatedTTL store
      else if se_state updated = StateRinging then se_ring_deadline updated - now + rs_cleanupGrace store
      else rs_activeTTL store)"

definition TransitionSessionWithEvents ::
  "RedisStore \<Rightarrow> (string \<Rightarrow> string) \<Rightarrow> redis_fault \<Rightarrow> instant \<Rightarrow> session \<Rightarrow> session \<Rightarrow> bool \<Rightarrow> string \<Rightarrow> call_pending_event list \<Rightarrow>
   call_redis \<Rightarrow> (call_error + bool) \<times> call_redis" where
  "TransitionSessionWithEvents store sha fault now expected updated terminal operationKey events r =
     script_result fault ErrInvalidState
       (transitionSessionWithEventsScript now expected updated (milliseconds (transition_ttl store now updated)) terminal
          (milliseconds (rs_operationTTL store)) (callOperationKey sha operationKey) events) r"

definition UserTopic :: "instant \<Rightarrow> int \<Rightarrow> call_redis \<Rightarrow> call_error + string" where
  "UserTopic now userID r =
     (case rd_routes r userID of
        None \<Rightarrow> Inl ErrUserOffline
      | Some topic \<Rightarrow>
          if topic = [] then Inl ErrUserOffline
          else (case live now (rd_leases r) userID of
                  None \<Rightarrow> Inl ErrUserOffline
                | Some lease \<Rightarrow> if lease = [] \<or> \<not> HasPrefix lease (topic @ ''|'') then Inl ErrUserOffline else Inr topic))"

definition GetSession :: "instant \<Rightarrow> string \<Rightarrow> call_redis \<Rightarrow> call_error + session" where
  "GetSession now callID r = (case live now (rd_sessions r) callID of None \<Rightarrow> Inl ErrCallNotFound | Some s \<Rightarrow> Inr s)"

text \<open>\<^verbatim>\<open>ExpiredRinging\<close>: the due members of the deadline set in order of score and name; members whose session is gone or not due are removed.\<close>

definition due_ids :: "instant \<Rightarrow> int \<Rightarrow> call_redis \<Rightarrow> string list" where
  "due_ids now limit r =
     take (nat (if limit \<le> 0 then 100 else limit))
       (map fst (sort_key (\<lambda>(m, score). (score, m)) (filter (\<lambda>(_, score). score \<le> now div second) (rd_deadlines r))))"

definition ring_expired :: "instant \<Rightarrow> session \<Rightarrow> bool" where
  "ring_expired now s \<longleftrightarrow> se_state s = StateRinging \<and> \<not> se_ring_deadline s > now"

fun collect_expired ::
  "(string \<Rightarrow> call_error + session) \<Rightarrow> instant \<Rightarrow> string list \<Rightarrow> call_redis \<Rightarrow> (session list \<times> call_error option) \<times> call_redis" where
  "collect_expired read now [] r = (([], None), r)"
| "collect_expired read now (i # ids) r =
     (case read i of
        Inr s \<Rightarrow>
          if ring_expired now s
          then (case collect_expired read now ids r of ((ss, err), r1) \<Rightarrow> ((s # ss, err), r1))
          else collect_expired read now ids (r\<lparr>rd_deadlines := zrem i (rd_deadlines r)\<rparr>)
      | Inl e \<Rightarrow>
          if e = ErrCallNotFound then collect_expired read now ids (r\<lparr>rd_deadlines := zrem i (rd_deadlines r)\<rparr>)
          else (([], Some e), r))"

text \<open>The listing of the deadline set may fail, and so may the reading of a session.\<close>

definition ExpiredRinging ::
  "call_error option \<Rightarrow> (string \<Rightarrow> call_error + session) \<Rightarrow> instant \<Rightarrow> int \<Rightarrow> call_redis \<Rightarrow>
   (session list \<times> call_error option) \<times> call_redis" where
  "ExpiredRinging listing read now limit r =
     (case listing of Some e \<Rightarrow> (([], Some e), r) | None \<Rightarrow> collect_expired read now (due_ids now limit r) r)"

end
