(* ===== verification/Call_Service.thy ===== *)
theory Call_Service
  imports Call_Store Kafka_Consumer
begin

text \<open>
  \<^verbatim>\<open>services/callService/internal/call/service.go\<close>, \<^verbatim>\<open>ice.go\<close> and the consumer's \<^verbatim>\<open>process\<close>. A handler reads sessions
  and routes and then performs one action: it creates a session, moves it by compare-and-swap, or
  publishes an event. The handlers are therefore functions from what they read to the action, so that
  other requests may come between reading and acting: the instant of the plan and the instant of the
  commit are separate. Protobuf encoding, SHA-256 and HMAC-SHA1 are parameters.
\<close>

section \<open>Messages\<close>

datatype CallState = CALL_STATE_UNSPECIFIED | RINGING | ACTIVE | ENDED

datatype CallEventType = CALL_EVENT_UNSPECIFIED | CALL_CONFIG | OUTGOING_CALL | INCOMING_CALL | CALL_ACCEPTED
  | CALL_REJECTED | CALL_ENDED | ICE_CANDIDATE_RECEIVED | CALL_ERROR

datatype CallErrorCode = CALL_ERROR_UNSPECIFIED | CODE_INVALID_ARGUMENT | CODE_USER_OFFLINE | CODE_USER_BUSY
  | CODE_CALL_NOT_FOUND | CODE_INVALID_STATE | CODE_FORBIDDEN | CODE_INTERNAL_ERROR

record ice_server =
  is_urls :: "string list"
  is_username :: string
  is_credential :: string

record ice_candidate =
  ic_candidate :: string
  ic_sdp_mid :: string
  ic_sdp_mline_index :: int
  ic_username_fragment :: string

record call_event =
  cv_event_type :: CallEventType
  cv_call_id :: string
  cv_peer_user_id :: int
  cv_call_type :: CallType
  cv_state :: CallState
  cv_session_description :: "call_description option"
  cv_ice_candidate :: "ice_candidate option"
  cv_ice_servers :: "ice_server list"
  cv_end_reason :: CallEndReason
  cv_message :: string
  cv_error_code :: CallErrorCode
  cv_timestamp :: string

record voip_call_request =
  vq_call_id :: string
  vq_caller_user_id :: int
  vq_callee_user_id :: int
  vq_call_type :: string
  vq_result_kafka_topic :: string
  vq_expires_at :: string
  vq_required :: bool

datatype call_payload = CallDelivery int call_event | PushRequest voip_call_request

datatype call_request_payload =
    GetConfig
  | Initiate int CallType "call_description option"
  | Accept string "call_description option"
  | Reject string string
  | Hangup string CallEndReason
  | SendIce string "ice_candidate option"
  | ResumeCall string

text \<open>\<^verbatim>\<open>InternalRequest\<close>; the inner option is the oneof of a client request without payload.\<close>

record internal_request =
  iq_from_kafka_topic :: string
  iq_user_id :: int
  iq_request :: "call_request_payload option option"

record voip_push_result =
  vr_call_id :: string
  vr_caller_user_id :: int
  vr_callee_user_id :: int
  vr_accepted :: bool
  vr_required :: bool
  vr_reason :: string

section \<open>ICE servers\<close>

record StaticICEProvider =
  ice_STUNURLs :: "string list"
  ice_TURNURLs :: "string list"
  ice_TURNSecret :: string
  ice_CredentialTTL :: duration

fun split_comma :: "string \<Rightarrow> string \<Rightarrow> string list" where
  "split_comma acc [] = [rev acc]"
| "split_comma acc (c # s) = (if c = CHR '','' then rev acc # split_comma [] s else split_comma (c # acc) s)"

definition splitCSV :: "string \<Rightarrow> string list" where
  "splitCSV value = filter (\<lambda>p. p \<noteq> []) (map TrimSpace (split_comma [] value))"

definition NewStaticICEProvider :: "string \<Rightarrow> string \<Rightarrow> string \<Rightarrow> duration \<Rightarrow> StaticICEProvider" where
  "NewStaticICEProvider stunURLs turnURLs turnSecret credentialTTL =
     \<lparr>ice_STUNURLs = splitCSV stunURLs, ice_TURNURLs = splitCSV turnURLs, ice_TURNSecret = turnSecret,
      ice_CredentialTTL = (if credentialTTL \<le> 0 then hour else credentialTTL)\<rparr>"

text \<open>The base64 text of an HMAC-SHA1 is a parameter.\<close>

definition Servers :: "(string \<Rightarrow> string \<Rightarrow> string) \<Rightarrow> StaticICEProvider \<Rightarrow> int \<Rightarrow> instant \<Rightarrow> ice_server list" where
  "Servers hmac p userID now =
     (let stun = (if ice_STUNURLs p \<noteq> [] then [\<lparr>is_urls = ice_STUNURLs p, is_username = [], is_credential = []\<rparr>] else []);
          username = itoa ((now + ice_CredentialTTL p) div second) @ '':'' @ itoa userID
      in if ice_TURNURLs p = [] \<or> ice_TURNSecret p = [] then stun
         else stun @ [\<lparr>is_urls = ice_TURNURLs p, is_username = username, is_credential = hmac (ice_TURNSecret p) username\<rparr>])"

section \<open>The service's surroundings\<close>

record call_service =
  cs_ice :: StaticICEProvider
  cs_ringTTL :: duration
  cs_store :: RedisStore
  cs_hmac :: "string \<Rightarrow> string \<Rightarrow> string"
  cs_sha256hex :: "string \<Rightarrow> string"
  cs_marshal :: "call_payload \<Rightarrow> string + bytes"
  cs_voip_topic_env :: string

text \<open>What a handler reads: sessions and routes, each of which may fail.\<close>

record call_reads =
  read_session :: "string \<Rightarrow> call_error + session"
  read_topic :: "int \<Rightarrow> call_error + string"

datatype call_action =
    CreateSession session string "call_pending_event list"
  | TransitionSession session session bool string "call_pending_event list"
  | PublishEvent string int call_event
  | NoAction

section \<open>Events\<close>

definition stateToProto :: "string \<Rightarrow> CallState" where
  "stateToProto state =
     (if state = StateRinging then RINGING else if state = StateActive then ACTIVE
      else if state = StateEnded then ENDED else CALL_STATE_UNSPECIFIED)"

definition timestamp :: "instant \<Rightarrow> string" where
  "timestamp value = RFC3339Nano value"

definition empty_event :: call_event where
  "empty_event = \<lparr>cv_event_type = CALL_EVENT_UNSPECIFIED, cv_call_id = [], cv_peer_user_id = 0,
     cv_call_type = CALL_TYPE_UNSPECIFIED, cv_state = CALL_STATE_UNSPECIFIED, cv_session_description = None,
     cv_ice_candidate = None, cv_ice_servers = [], cv_end_reason = CALL_END_REASON_UNSPECIFIED, cv_message = [],
     cv_error_code = CALL_ERROR_UNSPECIFIED, cv_timestamp = []\<rparr>"

definition sessionEvent :: "instant \<Rightarrow> CallEventType \<Rightarrow> session \<Rightarrow> int \<Rightarrow> call_event" where
  "sessionEvent now eventType s peerID =
     empty_event\<lparr>cv_event_type := eventType, cv_call_id := se_id s, cv_peer_user_id := peerID, cv_call_type := se_call_type s,
       cv_state := stateToProto (se_state s), cv_end_reason := se_end_reason s, cv_message := se_end_message s,
       cv_timestamp := timestamp now\<rparr>"

definition errorCode :: "call_error \<Rightarrow> CallErrorCode" where
  "errorCode err =
     (case err of
        ErrInvalidInput \<Rightarrow> CODE_INVALID_ARGUMENT
      | ErrUserOffline \<Rightarrow> CODE_USER_OFFLINE
      | ErrUserBusy \<Rightarrow> CODE_USER_BUSY
      | ErrCallNotFound \<Rightarrow> CODE_CALL_NOT_FOUND
      | ErrInvalidState \<Rightarrow> CODE_INVALID_STATE
      | ErrForbidden \<Rightarrow> CODE_FORBIDDEN
      | _ \<Rightarrow> CODE_INTERNAL_ERROR)"

definition error_message :: "call_error \<Rightarrow> string" where
  "error_message err =
     (case err of
        ErrUserOffline \<Rightarrow> ''user offline'' | ErrUserBusy \<Rightarrow> ''user busy'' | ErrCallNotFound \<Rightarrow> ''call not found''
      | ErrInvalidState \<Rightarrow> ''invalid call state'' | ErrForbidden \<Rightarrow> ''call operation forbidden''
      | ErrInvalidInput \<Rightarrow> ''invalid call request'' | DeliveryError t \<Rightarrow> t | RedisError t \<Rightarrow> t | MarshalError t \<Rightarrow> t)"

definition errorEvent :: "instant \<Rightarrow> string \<Rightarrow> call_error \<Rightarrow> call_event" where
  "errorEvent now callID err =
     empty_event\<lparr>cv_event_type := CALL_ERROR, cv_call_id := callID, cv_error_code := errorCode err,
       cv_message := error_message err, cv_timestamp := timestamp now\<rparr>"

definition isCallDomainError :: "call_error \<Rightarrow> bool" where
  "isCallDomainError err \<longleftrightarrow>
     err \<in> {ErrInvalidInput, ErrUserOffline, ErrUserBusy, ErrCallNotFound, ErrInvalidState, ErrForbidden}"

definition validDescription :: "call_description option \<Rightarrow> string \<Rightarrow> bool" where
  "validDescription d expectedType =
     (case d of None \<Rightarrow> False | Some x \<Rightarrow> EqualFold (TrimSpace (ds_type x)) expectedType \<and> TrimSpace (ds_sdp x) \<noteq> [])"

text \<open>Applied to valid descriptions, whose type is ASCII up to blanks.\<close>

definition descriptionFromProto :: "call_description \<Rightarrow> call_description" where
  "descriptionFromProto d = \<lparr>ds_type = ToLower (ds_type d), ds_sdp = ds_sdp d\<rparr>"

definition callTypeName :: "CallType \<Rightarrow> string" where
  "callTypeName t = (if t = VIDEO then ''video'' else ''audio'')"

definition callEventID :: "(string \<Rightarrow> string) \<Rightarrow> string \<Rightarrow> string \<Rightarrow> string" where
  "callEventID sha256hex operation suffix = ''call-'' @ sha256hex (''betterfly-call-event:'' @ operation @ '':'' @ suffix)"

definition callIDForContext :: "(string \<Rightarrow> string) \<Rightarrow> string \<Rightarrow> string" where
  "callIDForContext sha256hex operationKey = take 32 (sha256hex (''betterfly-call:'' @ operationKey))"

definition pending_event :: "call_service \<Rightarrow> string \<Rightarrow> string \<Rightarrow> string \<Rightarrow> call_payload \<Rightarrow> call_error + call_pending_event" where
  "pending_event svc operation suffix topic payload =
     (case cs_marshal svc payload of
        Inl e \<Rightarrow> Inl (MarshalError e)
      | Inr b \<Rightarrow> Inr \<lparr>ce_event_id = callEventID (cs_sha256hex svc) operation suffix, ce_operation_key = operation,
                      ce_topic = topic, ce_payload = b\<rparr>)"

definition pendingCallDelivery ::
  "call_service \<Rightarrow> string \<Rightarrow> string \<Rightarrow> string \<Rightarrow> int \<Rightarrow> call_event \<Rightarrow> call_error + call_pending_event" where
  "pendingCallDelivery svc operation suffix topic userID event =
     pending_event svc operation suffix topic (CallDelivery userID event)"

definition pendingPushRequest ::
  "call_service \<Rightarrow> string \<Rightarrow> string \<Rightarrow> string \<Rightarrow> voip_call_request \<Rightarrow> call_error + call_pending_event" where
  "pendingPushRequest svc operation suffix topic request =
     pending_event svc operation suffix topic (PushRequest request)"

definition incomingEvent :: "call_service \<Rightarrow> instant \<Rightarrow> session \<Rightarrow> call_event" where
  "incomingEvent svc now s =
     (sessionEvent now INCOMING_CALL s (se_caller s))
       \<lparr>cv_session_description := Some (se_offer s), cv_ice_servers := Servers (cs_hmac svc) (cs_ice svc) (se_callee s) now\<rparr>"

definition voipPushTopic :: "call_service \<Rightarrow> string" where
  "voipPushTopic svc = (let t = TrimSpace (cs_voip_topic_env svc) in if t \<noteq> [] then t else ''push-service-voip'')"

text \<open>The first error of a list of results, or all the values.\<close>

fun sequence :: "('e + 'a) list \<Rightarrow> 'e + 'a list" where
  "sequence [] = Inr []"
| "sequence (Inl e # xs) = Inl e"
| "sequence (Inr a # xs) = (case sequence xs of Inl e \<Rightarrow> Inl e | Inr as \<Rightarrow> Inr (a # as))"

section \<open>Handlers\<close>

definition getConfig :: "call_service \<Rightarrow> instant \<Rightarrow> internal_request \<Rightarrow> call_error + call_action" where
  "getConfig svc now request =
     Inr (PublishEvent (iq_from_kafka_topic request) (iq_user_id request)
       (empty_event\<lparr>cv_event_type := CALL_CONFIG,
          cv_ice_servers := Servers (cs_hmac svc) (cs_ice svc) (iq_user_id request) now, cv_timestamp := timestamp now\<rparr>))"

definition initiatePendingEvents ::
  "call_service \<Rightarrow> instant \<Rightarrow> string \<Rightarrow> internal_request \<Rightarrow> session \<Rightarrow> string option \<Rightarrow> call_event \<Rightarrow> voip_call_request \<Rightarrow>
   call_error + call_pending_event list" where
  "initiatePendingEvents svc now operation request s calleeTopic callerEvent pushRequest =
     sequence
       ([pendingCallDelivery svc operation ''outgoing'' (iq_from_kafka_topic request) (se_caller s) callerEvent] @
        (case calleeTopic of
           Some topic \<Rightarrow> [pendingCallDelivery svc operation ''incoming'' topic (se_callee s) (incomingEvent svc now s)]
         | None \<Rightarrow> []) @
        [pendingPushRequest svc operation ''voip-push'' (voipPushTopic svc) pushRequest])"

definition new_session :: "call_service \<Rightarrow> instant \<Rightarrow> string \<Rightarrow> int \<Rightarrow> int \<Rightarrow> CallType \<Rightarrow> call_description \<Rightarrow> session" where
  "new_session svc now operation caller callee callType offer =
     \<lparr>se_id = callIDForContext (cs_sha256hex svc) operation, se_caller = caller, se_callee = callee, se_call_type = callType,
      se_state = StateRinging, se_offer = descriptionFromProto offer, se_answer = None,
      se_end_reason = CALL_END_REASON_UNSPECIFIED, se_end_message = [], se_created_at = now, se_accepted_at = None,
      se_ended_at = None, se_ring_deadline = now + cs_ringTTL svc\<rparr>"

definition outgoingEvent :: "call_service \<Rightarrow> instant \<Rightarrow> session \<Rightarrow> call_event" where
  "outgoingEvent svc now s =
     (sessionEvent now OUTGOING_CALL s (se_callee s))
       \<lparr>cv_session_description := Some (se_offer s), cv_ice_servers := Servers (cs_hmac svc) (cs_ice svc) (se_caller s) now\<rparr>"

definition voip_request :: "session \<Rightarrow> bool \<Rightarrow> voip_call_request" where
  "voip_request s calleeOnline =
     \<lparr>vq_call_id = se_id s, vq_caller_user_id = se_caller s, vq_callee_user_id = se_callee s,
      vq_call_type = callTypeName (se_call_type s), vq_result_kafka_topic = ''call-service'',
      vq_expires_at = RFC3339Nano (se_ring_deadline s), vq_required = (\<not> calleeOnline)\<rparr>"

text \<open>\<^verbatim>\<open>initiate\<close> from the point where the callee's route is known (\<open>None\<close> when offline).\<close>

definition initiate_with ::
  "call_service \<Rightarrow> instant \<Rightarrow> string \<Rightarrow> internal_request \<Rightarrow> int \<Rightarrow> CallType \<Rightarrow> call_description \<Rightarrow> string option \<Rightarrow>
   call_error + call_action" where
  "initiate_with svc now operation request calleeID callType offer calleeTopic =
     (if operation = [] then Inl ErrInvalidInput
      else let s = new_session svc now operation (iq_user_id request) calleeID callType offer in
        case initiatePendingEvents svc now operation request s calleeTopic (outgoingEvent svc now s)
               (voip_request s (calleeTopic \<noteq> None)) of
          Inl e \<Rightarrow> Inl e
        | Inr events \<Rightarrow> Inr (CreateSession s operation events))"

definition initiate ::
  "call_service \<Rightarrow> instant \<Rightarrow> string \<Rightarrow> internal_request \<Rightarrow> int \<Rightarrow> CallType \<Rightarrow> call_description option \<Rightarrow> call_reads \<Rightarrow>
   call_error + call_action" where
  "initiate svc now operation request calleeID callType offer reads =
     (if calleeID \<le> 0 \<or> calleeID = iq_user_id request then Inl ErrInvalidInput
      else if callType \<noteq> AUDIO \<and> callType \<noteq> VIDEO then Inl ErrInvalidInput
      else if \<not> validDescription offer ''offer'' then Inl ErrInvalidInput
      else
        (case read_topic reads calleeID of
           Inr topic \<Rightarrow> initiate_with svc now operation request calleeID callType (the offer) (Some topic)
         | Inl e \<Rightarrow>
             if e \<noteq> ErrUserOffline then Inl e
             else initiate_with svc now operation request calleeID callType (the offer) None))"

definition resumeCall ::
  "call_service \<Rightarrow> instant \<Rightarrow> internal_request \<Rightarrow> string \<Rightarrow> call_reads \<Rightarrow> call_error + call_action" where
  "resumeCall svc now request callID reads =
     (if TrimSpace callID = [] then Inl ErrInvalidInput
      else case read_session reads callID of
        Inl e \<Rightarrow> Inl e
      | Inr s \<Rightarrow>
          if se_callee s \<noteq> iq_user_id request then Inl ErrForbidden
          else if se_state s \<noteq> StateRinging \<or> \<not> now < se_ring_deadline s then Inl ErrInvalidState
          else Inr (PublishEvent (iq_from_kafka_topic request) (se_callee s) (incomingEvent svc now s)))"

definition accepted_session :: "instant \<Rightarrow> call_description \<Rightarrow> session \<Rightarrow> session" where
  "accepted_session now answer s = s\<lparr>se_state := StateActive, se_answer := Some answer, se_accepted_at := Some now\<rparr>"

definition ended_session :: "instant \<Rightarrow> CallEndReason \<Rightarrow> string \<Rightarrow> session \<Rightarrow> session" where
  "ended_session now reason message s =
     s\<lparr>se_state := StateEnded, se_end_reason := reason, se_end_message := message, se_ended_at := Some now\<rparr>"

text \<open>A transition with the events that were encoded for it.\<close>

definition transition_with ::
  "session \<Rightarrow> session \<Rightarrow> bool \<Rightarrow> string \<Rightarrow> call_error + call_pending_event list \<Rightarrow> call_error + call_action" where
  "transition_with expected updated terminal operation events =
     (case events of Inl e \<Rightarrow> Inl e | Inr evs \<Rightarrow> Inr (TransitionSession expected updated terminal operation evs))"

definition acceptAtomic ::
  "call_service \<Rightarrow> instant \<Rightarrow> string \<Rightarrow> internal_request \<Rightarrow> string \<Rightarrow> call_description \<Rightarrow> call_reads \<Rightarrow> call_error + call_action" where
  "acceptAtomic svc now operation request callID answerPb reads =
     (if operation = [] then Inl ErrInvalidInput
      else case read_session reads callID of
        Inl e \<Rightarrow> Inl e
      | Inr expected \<Rightarrow>
          if se_callee expected \<noteq> iq_user_id request then Inl ErrForbidden
          else if se_state expected \<noteq> StateRinging \<or> \<not> now < se_ring_deadline expected then Inl ErrInvalidState
          else
            (let answer = descriptionFromProto answerPb; updated = accepted_session now answer expected in
             case read_topic reads (se_caller expected) of
               Inl e \<Rightarrow>
                 if e \<noteq> ErrUserOffline then Inl e
                 else let ended = ended_session now DISCONNECTED ''caller unavailable after accept'' updated in
                   transition_with expected ended True operation
                     (sequence [pendingCallDelivery svc operation ''callee-ended'' (iq_from_kafka_topic request) (se_callee expected)
                                  (sessionEvent now CALL_ENDED ended (se_caller expected))])
             | Inr callerTopic \<Rightarrow>
                 transition_with expected updated False operation
                   (sequence
                     [pendingCallDelivery svc operation ''callee-accepted'' (iq_from_kafka_topic request) (se_callee expected)
                        (sessionEvent now CALL_ACCEPTED updated (se_caller expected)),
                      pendingCallDelivery svc operation ''caller-accepted'' callerTopic (se_caller expected)
                        ((sessionEvent now CALL_ACCEPTED updated (se_callee expected))\<lparr>cv_session_description := Some answer\<rparr>)])))"

definition accept ::
  "call_service \<Rightarrow> instant \<Rightarrow> string \<Rightarrow> internal_request \<Rightarrow> string \<Rightarrow> call_description option \<Rightarrow> call_reads \<Rightarrow> call_error + call_action" where
  "accept svc now operation request callID answer reads =
     (if TrimSpace callID = [] \<or> \<not> validDescription answer ''answer'' then Inl ErrInvalidInput
      else acceptAtomic svc now operation request callID (the answer) reads)"

definition terminalPendingEvents ::
  "call_service \<Rightarrow> instant \<Rightarrow> string \<Rightarrow> string \<Rightarrow> int \<Rightarrow> session \<Rightarrow> CallEventType \<Rightarrow> call_reads \<Rightarrow> call_error + call_pending_event list" where
  "terminalPendingEvents svc now operation requesterTopic requesterID s eventType reads =
     (case Peer s requesterID of
        Inl e \<Rightarrow> Inl e
      | Inr peerID \<Rightarrow>
          (case pendingCallDelivery svc operation ''requester-terminal'' requesterTopic requesterID (sessionEvent now eventType s peerID) of
             Inl e \<Rightarrow> Inl e
           | Inr requesterPending \<Rightarrow>
               (case read_topic reads peerID of
                  Inl e \<Rightarrow> if e = ErrUserOffline then Inr [requesterPending] else Inl e
                | Inr peerTopic \<Rightarrow>
                    (case pendingCallDelivery svc operation ''peer-terminal'' peerTopic peerID (sessionEvent now eventType s requesterID) of
                       Inl e \<Rightarrow> Inl e
                     | Inr peerPending \<Rightarrow> Inr [requesterPending, peerPending]))))"

definition rejectAtomic ::
  "call_service \<Rightarrow> instant \<Rightarrow> string \<Rightarrow> internal_request \<Rightarrow> string \<Rightarrow> string \<Rightarrow> call_reads \<Rightarrow> call_error + call_action" where
  "rejectAtomic svc now operation request callID message reads =
     (if operation = [] then Inl ErrInvalidInput
      else case read_session reads callID of
        Inl e \<Rightarrow> Inl e
      | Inr expected \<Rightarrow>
          if se_callee expected \<noteq> iq_user_id request then Inl ErrForbidden
          else if se_state expected \<noteq> StateRinging then Inl ErrInvalidState
          else
            (let updated = ended_session now REJECTED message expected in
             transition_with expected updated True operation
               (terminalPendingEvents svc now operation (iq_from_kafka_topic request) (iq_user_id request) updated CALL_REJECTED reads)))"

definition reject ::
  "call_service \<Rightarrow> instant \<Rightarrow> string \<Rightarrow> internal_request \<Rightarrow> string \<Rightarrow> string \<Rightarrow> call_reads \<Rightarrow> call_error + call_action" where
  "reject svc now operation request callID message reads =
     (if TrimSpace callID = [] then Inl ErrInvalidInput else rejectAtomic svc now operation request callID message reads)"

definition hangupAtomic ::
  "call_service \<Rightarrow> instant \<Rightarrow> string \<Rightarrow> internal_request \<Rightarrow> string \<Rightarrow> CallEndReason \<Rightarrow> call_reads \<Rightarrow> call_error + call_action" where
  "hangupAtomic svc now operation request callID reason reads =
     (if operation = [] then Inl ErrInvalidInput
      else case read_session reads callID of
        Inl e \<Rightarrow> Inl e
      | Inr expected \<Rightarrow>
          (case Peer expected (iq_user_id request) of
             Inl e \<Rightarrow> Inl e
           | Inr _ \<Rightarrow>
               if se_state expected \<noteq> StateRinging \<and> se_state expected \<noteq> StateActive then Inl ErrInvalidState
               else
                 (let updated = ended_session now reason [] expected in
                  transition_with expected updated True operation
                    (terminalPendingEvents svc now operation (iq_from_kafka_topic request) (iq_user_id request) updated CALL_ENDED reads))))"

definition hangup ::
  "call_service \<Rightarrow> instant \<Rightarrow> string \<Rightarrow> internal_request \<Rightarrow> string \<Rightarrow> CallEndReason \<Rightarrow> call_reads \<Rightarrow> call_error + call_action" where
  "hangup svc now operation request callID reason reads =
     (if TrimSpace callID = [] then Inl ErrInvalidInput
      else hangupAtomic svc now operation request callID
             (if reason = CALL_END_REASON_UNSPECIFIED \<or> reason = REJECTED \<or> reason = TIMEOUT then HANGUP else reason) reads)"

text \<open>\<^verbatim>\<open>publishToUser\<close>, which is only called without a fallback topic.\<close>

definition publishToUser :: "int \<Rightarrow> call_event \<Rightarrow> call_reads \<Rightarrow> call_error + call_action" where
  "publishToUser userID event reads =
     (case read_topic reads userID of Inl e \<Rightarrow> Inl e | Inr topic \<Rightarrow> Inr (PublishEvent topic userID event))"

definition forwardICE ::
  "call_service \<Rightarrow> instant \<Rightarrow> internal_request \<Rightarrow> string \<Rightarrow> ice_candidate option \<Rightarrow> call_reads \<Rightarrow> call_error + call_action" where
  "forwardICE svc now request callID candidate reads =
     (if TrimSpace callID = [] \<or> candidate = None \<or> TrimSpace (ic_candidate (the candidate)) = [] then Inl ErrInvalidInput
      else case read_session reads callID of
        Inl e \<Rightarrow> Inl e
      | Inr s \<Rightarrow>
          (case Peer s (iq_user_id request) of
             Inl e \<Rightarrow> Inl e
           | Inr peerID \<Rightarrow>
               if se_state s \<noteq> StateRinging \<and> se_state s \<noteq> StateActive then Inl ErrInvalidState
               else
                 (case publishToUser peerID ((sessionEvent now ICE_CANDIDATE_RECEIVED s (iq_user_id request))\<lparr>cv_ice_candidate := candidate\<rparr>) reads of
                    Inl e \<Rightarrow> if e = ErrUserOffline \<and> se_state s = StateRinging then Inr NoAction else Inl e
                  | Inr action \<Rightarrow> Inr action)))"

definition handlePushResultAtomic ::
  "call_service \<Rightarrow> instant \<Rightarrow> string \<Rightarrow> voip_push_result \<Rightarrow> call_reads \<Rightarrow> call_error + call_action" where
  "handlePushResultAtomic svc now operation result reads =
     (if operation = [] then Inl ErrInvalidInput
      else case read_session reads (vr_call_id result) of
        Inl e \<Rightarrow> if e = ErrCallNotFound then Inr NoAction else Inl e
      | Inr expected \<Rightarrow>
          if se_caller expected \<noteq> vr_caller_user_id result \<or> se_callee expected \<noteq> vr_callee_user_id result \<or>
             se_state expected \<noteq> StateRinging then Inr NoAction
          else
            (let updated = ended_session now CANCELLED (vr_reason result) expected in
             case read_topic reads (se_caller expected) of
               Inl e \<Rightarrow> if e \<noteq> ErrUserOffline then Inl e else transition_with expected updated True operation (Inr [])
             | Inr topic \<Rightarrow>
                 transition_with expected updated True operation
                   (sequence [pendingCallDelivery svc operation ''push-failure-ended'' topic (se_caller expected)
                                (sessionEvent now CALL_ENDED updated (se_callee expected))])))"

definition push_result_plan ::
  "call_service \<Rightarrow> instant \<Rightarrow> string \<Rightarrow> voip_push_result \<Rightarrow> call_reads \<Rightarrow> call_error + call_action" where
  "push_result_plan svc now operation result reads =
     (if TrimSpace (vr_call_id result) = [] then Inl ErrInvalidInput
      else if vr_accepted result \<or> \<not> vr_required result then Inr NoAction
      else handlePushResultAtomic svc now operation result reads)"

text \<open>The switch of \<^verbatim>\<open>Handle\<close>.\<close>

definition request_plan ::
  "call_service \<Rightarrow> instant \<Rightarrow> string \<Rightarrow> internal_request \<Rightarrow> call_request_payload option \<Rightarrow> call_reads \<Rightarrow> call_error + call_action" where
  "request_plan svc now operation request payload reads =
     (case payload of
        None \<Rightarrow> Inl ErrInvalidInput
      | Some GetConfig \<Rightarrow> getConfig svc now request
      | Some (Initiate calleeID callType offer) \<Rightarrow> initiate svc now operation request calleeID callType offer reads
      | Some (Accept callID answer) \<Rightarrow> accept svc now operation request callID answer reads
      | Some (Reject callID message) \<Rightarrow> reject svc now operation request callID message reads
      | Some (Hangup callID reason) \<Rightarrow> hangup svc now operation request callID reason reads
      | Some (SendIce callID candidate) \<Rightarrow> forwardICE svc now request callID candidate reads
      | Some (ResumeCall callID) \<Rightarrow> resumeCall svc now request callID reads)"

definition requestCallID :: "call_request_payload option \<Rightarrow> string" where
  "requestCallID payload =
     (case payload of
        Some (Accept callID _) \<Rightarrow> callID | Some (Reject callID _) \<Rightarrow> callID | Some (Hangup callID _) \<Rightarrow> callID
      | Some (SendIce callID _) \<Rightarrow> callID | Some (ResumeCall callID) \<Rightarrow> callID | _ \<Rightarrow> [])"

section \<open>Acting\<close>

record call_world =
  cw_redis :: call_redis
  cw_published :: "(string \<times> int \<times> call_event) list"

text \<open>
  What one request meets: the instants of its plan and of its commit, the answer of
  \<^verbatim>\<open>OperationCompleted\<close>, what its reads return, a fault of the script, and failures of the publisher for
  the event and for the error event.
\<close>

record call_env =
  he_now :: instant
  he_commit :: instant
  he_completed :: "call_error + bool"
  he_reads :: call_reads
  he_fault :: redis_fault
  he_publish_error :: "string option"
  he_error_publish_error :: "string option"

definition publishToTopic :: "string option \<Rightarrow> string \<Rightarrow> int \<Rightarrow> call_event \<Rightarrow> call_world \<Rightarrow> call_error option \<times> call_world" where
  "publishToTopic err topic userID event w =
     (case err of
        Some e \<Rightarrow> (Some (DeliveryError e), w)
      | None \<Rightarrow> (None, w\<lparr>cw_published := cw_published w @ [(topic, userID, event)]\<rparr>))"

definition store_outcome :: "call_world \<Rightarrow> (call_error + bool) \<times> call_redis \<Rightarrow> call_error option \<times> call_world" where
  "store_outcome w res = (case res of (Inl e, r) \<Rightarrow> (Some e, w\<lparr>cw_redis := r\<rparr>) | (Inr _, r) \<Rightarrow> (None, w\<lparr>cw_redis := r\<rparr>))"

definition perform :: "call_service \<Rightarrow> call_env \<Rightarrow> call_action \<Rightarrow> call_world \<Rightarrow> call_error option \<times> call_world" where
  "perform svc env action w =
     (case action of
        CreateSession s operation events \<Rightarrow>
          store_outcome w (CreateSessionWithEvents (cs_store svc) (cs_sha256hex svc) (he_fault env) (he_commit env) s operation events (cw_redis w))
      | TransitionSession expected updated terminal operation events \<Rightarrow>
          store_outcome w (TransitionSessionWithEvents (cs_store svc) (cs_sha256hex svc) (he_fault env) (he_commit env) expected updated
                             terminal operation events (cw_redis w))
      | PublishEvent topic userID event \<Rightarrow> publishToTopic (he_publish_error env) topic userID event w
      | NoAction \<Rightarrow> (None, w))"

definition execute_plan ::
  "call_service \<Rightarrow> call_env \<Rightarrow> call_error + call_action \<Rightarrow> call_world \<Rightarrow> call_error option \<times> call_world" where
  "execute_plan svc env plan w = (case plan of Inl e \<Rightarrow> (Some e, w) | Inr action \<Rightarrow> perform svc env action w)"

definition Handle :: "call_service \<Rightarrow> call_env \<Rightarrow> string \<Rightarrow> internal_request \<Rightarrow> call_world \<Rightarrow> call_error option \<times> call_world" where
  "Handle svc env operation request w =
     (if iq_user_id request \<le> 0 \<or> iq_from_kafka_topic request = [] \<or> iq_request request = None then (Some ErrInvalidInput, w)
      else
        (case if operation \<noteq> [] then he_completed env else Inr False of
           Inl e \<Rightarrow> (Some e, w)
         | Inr True \<Rightarrow> (None, w)
         | Inr False \<Rightarrow>
             (let payload = the (iq_request request) in
              case execute_plan svc env (request_plan svc (he_now env) operation request payload (he_reads env)) w of
                (None, w1) \<Rightarrow> (None, w1)
              | (Some err, w1) \<Rightarrow>
                  if \<not> isCallDomainError err then (Some err, w1)
                  else
                    (case publishToTopic (he_error_publish_error env) (iq_from_kafka_topic request) (iq_user_id request)
                            (errorEvent (he_now env) (requestCallID payload) err) w1 of
                       (None, w2) \<Rightarrow> (None, w2)
                     | (Some e, w2) \<Rightarrow>
                         (Some (DeliveryError (''handle call request: '' @ error_message err @ ''; publish error response: '' @ error_message e)), w2)))))"

definition HandlePushResult :: "call_service \<Rightarrow> call_env \<Rightarrow> string \<Rightarrow> voip_push_result \<Rightarrow> call_world \<Rightarrow> call_error option \<times> call_world" where
  "HandlePushResult svc env operation result w =
     execute_plan svc env (push_result_plan svc (he_now env) operation result (he_reads env)) w"

section \<open>The sweeper\<close>

definition timeout_operation :: "session \<Rightarrow> string" where
  "timeout_operation s = ''call-timeout:'' @ se_id s @ '':'' @ itoa (se_ring_deadline s)"

fun timeout_events ::
  "call_service \<Rightarrow> instant \<Rightarrow> string \<Rightarrow> session \<Rightarrow> call_reads \<Rightarrow> (int \<times> int) list \<Rightarrow> call_error + call_pending_event list" where
  "timeout_events svc now operation updated reads [] = Inr []"
| "timeout_events svc now operation updated reads ((userID, peerID) # targets) =
     (case read_topic reads userID of
        Inl e \<Rightarrow> if e = ErrUserOffline then timeout_events svc now operation updated reads targets else Inl e
      | Inr topic \<Rightarrow>
          (case pendingCallDelivery svc operation (''timeout-'' @ itoa userID) topic userID (sessionEvent now CALL_ENDED updated peerID) of
             Inl e \<Rightarrow> Inl e
           | Inr event \<Rightarrow>
               (case timeout_events svc now operation updated reads targets of
                  Inl e \<Rightarrow> Inl e | Inr events \<Rightarrow> Inr (event # events))))"

fun sweep_sessions ::
  "call_service \<Rightarrow> instant \<Rightarrow> (string \<Rightarrow> call_reads) \<Rightarrow> (string \<Rightarrow> redis_fault) \<Rightarrow> (string \<Rightarrow> instant) \<Rightarrow> session list \<Rightarrow> call_redis \<Rightarrow>
   call_error option \<times> call_redis" where
  "sweep_sessions svc now reads fault commit [] r = (None, r)"
| "sweep_sessions svc now reads fault commit (expected # sessions) r =
     (let updated = ended_session now TIMEOUT ''call timed out'' expected; operation = timeout_operation expected in
      case timeout_events svc now operation updated (reads (se_id expected))
             [(se_caller expected, se_callee expected), (se_callee expected, se_caller expected)] of
        Inl e \<Rightarrow> (Some e, r)
      | Inr events \<Rightarrow>
          (case TransitionSessionWithEvents (cs_store svc) (cs_sha256hex svc) (fault (se_id expected)) (commit (se_id expected))
                  expected updated True operation events r of
             (Inl e, r1) \<Rightarrow> if e \<noteq> ErrInvalidState then (Some e, r1) else sweep_sessions svc now reads fault commit sessions r1
           | (Inr _, r1) \<Rightarrow> sweep_sessions svc now reads fault commit sessions r1))"

definition SweepExpired ::
  "call_service \<Rightarrow> instant \<Rightarrow> call_error option \<Rightarrow> (string \<Rightarrow> call_reads) \<Rightarrow> (string \<Rightarrow> redis_fault) \<Rightarrow> (string \<Rightarrow> instant) \<Rightarrow>
   call_redis \<Rightarrow> call_error option \<times> call_redis" where
  "SweepExpired svc now listing reads fault commit r =
     (case ExpiredRinging listing (\<lambda>i. read_session (reads i) i) now 100 r of
        ((sessions, Some e), r1) \<Rightarrow> (Some e, r1)
      | ((sessions, None), r1) \<Rightarrow> sweep_sessions svc now reads fault commit sessions r1)"

section \<open>The consumer\<close>

datatype call_message_type = CALL_REQUEST | PUSH_RESPONSE | OTHER_TYPE string

record call_codec =
  cc_envelope :: "bytes \<Rightarrow> string + call_message_type \<times> bytes"
  cc_request :: "bytes \<Rightarrow> string + internal_request"
  cc_push_response :: "bytes \<Rightarrow> string + voip_push_result option"

definition error_result :: "call_error option \<Rightarrow> consumer_result" where
  "error_result err =
     (case err of
        None \<Rightarrow> Success
      | Some e \<Rightarrow> if e = ErrInvalidInput then Permanent (Some (plain_error (error_message e)))
                  else Transient (Some (plain_error (error_message e))))"

definition call_process ::
  "call_service \<Rightarrow> call_codec \<Rightarrow> call_env \<Rightarrow> string \<Rightarrow> kafka_message \<Rightarrow> call_world \<Rightarrow> consumer_result \<times> call_world" where
  "call_process svc codec env operation m w =
     (case cc_envelope codec (km_value m) of
        Inl e \<Rightarrow> (Permanent (Some (plain_error (''decode call envelope: '' @ e))), w)
      | Inr (CALL_REQUEST, payload) \<Rightarrow>
          if payload = [] then (Permanent (Some (plain_error ''empty call request payload'')), w)
          else (case cc_request codec payload of
                  Inl e \<Rightarrow> (Permanent (Some (plain_error (''decode call request: '' @ e))), w)
                | Inr request \<Rightarrow>
                    if iq_request request = None \<or> iq_user_id request \<le> 0 \<or> iq_from_kafka_topic request = []
                    then (Permanent (Some (plain_error ''incomplete call request'')), w)
                    else (case Handle svc env operation request w of (err, w1) \<Rightarrow> (error_result err, w1)))
      | Inr (PUSH_RESPONSE, payload) \<Rightarrow>
          if payload = [] then (Permanent (Some (plain_error ''empty push response payload'')), w)
          else (case cc_push_response codec payload of
                  Inl e \<Rightarrow> (Permanent (Some (plain_error (''decode push response: '' @ e))), w)
                | Inr None \<Rightarrow> (Permanent (Some (plain_error ''push response has no VoIP result'')), w)
                | Inr (Some result) \<Rightarrow>
                    (case HandlePushResult svc env operation result w of (err, w1) \<Rightarrow> (error_result err, w1)))
      | Inr (OTHER_TYPE t, _) \<Rightarrow> (Permanent (Some (plain_error (''unexpected call envelope type: '' @ t))), w))"

end
