(* ===== verification/Call_Laws.thy ===== *)
theory Call_Laws
  imports Call_Service
begin

text \<open>
  What the call service guarantees when requests, push results and sweeps of any number of instances
  interleave: a plan may rest on any (stale or failing) reads, and only its commit is atomic.
\<close>

section \<open>Plans\<close>

text \<open>The shape of everything a handler may decide to do.\<close>

definition same_call :: "session \<Rightarrow> session \<Rightarrow> bool" where
  "same_call s s' \<longleftrightarrow> se_id s' = se_id s \<and> se_caller s' = se_caller s \<and> se_callee s' = se_callee s \<and>
     se_call_type s' = se_call_type s \<and> se_offer s' = se_offer s \<and> se_ring_deadline s' = se_ring_deadline s"

definition answers :: "int \<Rightarrow> instant \<Rightarrow> session \<Rightarrow> session \<Rightarrow> bool" where
  "answers u now s s' \<longleftrightarrow> same_call s s' \<and> se_state s = StateRinging \<and> se_callee s = u \<and> now < se_ring_deadline s \<and>
     se_state s' = StateActive \<and> se_answer s' \<noteq> None"

definition finishes :: "int \<Rightarrow> session \<Rightarrow> session \<Rightarrow> bool" where
  "finishes u s s' \<longleftrightarrow> same_call s s' \<and> (u = se_caller s \<or> u = se_callee s) \<and>
     (se_state s = StateRinging \<or> se_state s = StateActive) \<and> se_state s' = StateEnded \<and>
     (se_end_reason s' = REJECTED \<longrightarrow> u = se_callee s \<and> se_state s = StateRinging)"

definition legal_action :: "call_service \<Rightarrow> int \<Rightarrow> instant \<Rightarrow> string \<Rightarrow> call_action \<Rightarrow> bool" where
  "legal_action svc u now operation action \<longleftrightarrow>
     (case action of
        CreateSession s op events \<Rightarrow>
          op = operation \<and> op \<noteq> [] \<and> se_caller s = u \<and> se_callee s \<noteq> u \<and> se_state s = StateRinging \<and>
          se_id s = callIDForContext (cs_sha256hex svc) operation
      | TransitionSession s s' terminal op events \<Rightarrow>
          op = operation \<and> op \<noteq> [] \<and> (if terminal then finishes u s s' else answers u now s s')
      | _ \<Rightarrow> True)"

lemmas plan_defs = getConfig_def initiate_def initiate_with_def resumeCall_def accept_def acceptAtomic_def reject_def
  rejectAtomic_def hangup_def hangupAtomic_def forwardICE_def publishToUser_def transition_with_def

lemma request_plan_legal:
  "request_plan svc now operation request payload reads = Inr action \<Longrightarrow> legal_action svc (iq_user_id request) now operation action"
  unfolding request_plan_def
  by (auto simp: plan_defs legal_action_def finishes_def answers_def same_call_def accepted_session_def ended_session_def
        new_session_def Peer_def Let_def
      split: option.splits call_request_payload.splits if_splits sum.splits)

lemma push_result_plan_legal:
  "push_result_plan svc now operation result reads = Inr action \<Longrightarrow> legal_action svc (vr_caller_user_id result) now operation action"
  by (auto simp: push_result_plan_def handlePushResultAtomic_def transition_with_def legal_action_def finishes_def same_call_def
        ended_session_def Let_def split: if_splits sum.splits)

lemma timeout_finishes:
  "ring_expired now s \<Longrightarrow> finishes (se_caller s) s (ended_session now TIMEOUT msg s)"
  by (simp add: ring_expired_def finishes_def same_call_def ended_session_def)

section \<open>The scripts\<close>

definition all_expired :: "instant \<Rightarrow> session \<Rightarrow> call_redis \<Rightarrow> bool" where
  "all_expired now s r \<longleftrightarrow> live now (rd_user_calls r) (se_caller s) = None \<and> live now (rd_user_calls r) (se_callee s) = None"

text \<open>The state after a committed creation and after a committed transition.\<close>

definition create_effect :: "instant \<Rightarrow> session \<Rightarrow> int \<Rightarrow> int \<Rightarrow> int \<Rightarrow> call_redis \<Rightarrow> call_redis" where
  "create_effect now s userMs sessionMs score r =
     r\<lparr>rd_user_calls := (rd_user_calls r)(se_caller s \<mapsto> (se_id s, expiry_after now userMs),
                                            se_callee s \<mapsto> (se_id s, expiry_after now userMs)),
       rd_sessions := (rd_sessions r)(se_id s \<mapsto> (s, expiry_after now sessionMs)),
       rd_deadlines := zadd (se_id s) score (rd_deadlines r)\<rparr>"

definition transition_effect :: "instant \<Rightarrow> session \<Rightarrow> int \<Rightarrow> bool \<Rightarrow> call_redis \<Rightarrow> call_redis" where
  "transition_effect now updated ms terminal r =
     r\<lparr>rd_sessions := (rd_sessions r)(se_id updated \<mapsto> (updated, expiry_after now ms)),
       rd_deadlines := zrem (se_id updated) (rd_deadlines r),
       rd_user_calls :=
         (if terminal
          then del_if now (se_id updated) (se_callee updated) (del_if now (se_id updated) (se_caller updated) (rd_user_calls r))
          else pexpire now ms (se_callee updated) (pexpire now ms (se_caller updated) (rd_user_calls r)))\<rparr>"

definition record_operation :: "instant \<Rightarrow> int \<Rightarrow> string \<Rightarrow> call_pending_event list \<Rightarrow> call_redis \<Rightarrow> call_redis" where
  "record_operation now operationMs opk events r =
     xadd events (r\<lparr>rd_operations := (rd_operations r)(opk \<mapsto> expiry_after now operationMs)\<rparr>)"

lemma xadd_fields [simp]:
  "rd_user_calls (xadd evs r) = rd_user_calls r" "rd_sessions (xadd evs r) = rd_sessions r"
  "rd_deadlines (xadd evs r) = rd_deadlines r" "rd_operations (xadd evs r) = rd_operations r"
  by (simp_all add: xadd_def)

lemma record_operation_fields [simp]:
  "rd_user_calls (record_operation now ms k evs r) = rd_user_calls r"
  "rd_sessions (record_operation now ms k evs r) = rd_sessions r"
  "rd_deadlines (record_operation now ms k evs r) = rd_deadlines r"
  "rd_operations (record_operation now ms k evs r) = (rd_operations r)(k \<mapsto> expiry_after now ms)"
  by (simp_all add: record_operation_def)

lemma create_script_cases:
  assumes "0 < operationMs"
  shows "snd (createSessionWithEventsScript now s userMs sessionMs score operationMs opk events r) = r \<or>
    \<not> live_flag now (rd_operations r) opk \<and> all_expired now s r \<and> 0 < userMs \<and>
    createSessionWithEventsScript now s userMs sessionMs score operationMs opk events r =
      (Some 1, record_operation now operationMs opk events (create_effect now s userMs sessionMs score r))"
  using assms
  by (auto simp: createSessionWithEventsScript_def complete_operation_def all_expired_def create_effect_def record_operation_def)

lemma transition_script_cases:
  assumes "0 < operationMs"
  shows "snd (transitionSessionWithEventsScript now s s' ms terminal operationMs opk events r) = r \<or>
    \<not> live_flag now (rd_operations r) opk \<and> live now (rd_sessions r) (se_id s') = Some s \<and> 0 < ms \<and>
    (terminal \<or> live now (rd_user_calls r) (se_caller s') = Some (se_id s') \<and>
                live now (rd_user_calls r) (se_callee s') = Some (se_id s')) \<and>
    transitionSessionWithEventsScript now s s' ms terminal operationMs opk events r =
      (Some 1, record_operation now operationMs opk events (transition_effect now s' ms terminal r))"
  using assms
  by (auto simp: transitionSessionWithEventsScript_def complete_operation_def transition_effect_def record_operation_def)

lemma script_result_state: "snd (script_result fault e script r) = r \<or> snd (script_result fault e script r) = snd (script r)"
  by (auto simp: script_result_def split: redis_fault.split prod.split option.split)

text \<open>A store whose completed operations are remembered for a while, as \<^verbatim>\<open>NewRedisStore\<close> makes them.\<close>

definition store_ok :: "call_service \<Rightarrow> bool" where
  "store_ok svc \<longleftrightarrow> 0 < milliseconds (rs_operationTTL (cs_store svc))"

lemma NewRedisStore_ok: "cs_store svc = NewRedisStore ring active replayEnv retentionEnv \<Longrightarrow> store_ok svc"
  if "\<forall>d. retentionEnv = Some d \<longrightarrow> millisecond \<le> d"
  using that
  by (auto simp: store_ok_def NewRedisStore_def callDurationEnv_def milliseconds_def Let_def pos_imp_zdiv_pos_iff split: option.splits)

abbreviation operationMs :: "call_service \<Rightarrow> int" where
  "operationMs svc \<equiv> milliseconds (rs_operationTTL (cs_store svc))"

abbreviation operation_key :: "call_service \<Rightarrow> string \<Rightarrow> string" where
  "operation_key svc operation \<equiv> callOperationKey (cs_sha256hex svc) operation"

section \<open>Commits\<close>

text \<open>
  What a request of user \<open>u\<close>, planned at \<open>now\<close> and committed at \<open>t\<close>, may do to the Redis state: nothing,
  create a session of two users without a call, or move a session that is still what the plan saw.
\<close>

inductive commits :: "call_service \<Rightarrow> int \<Rightarrow> instant \<Rightarrow> instant \<Rightarrow> string \<Rightarrow> call_redis \<Rightarrow> call_redis \<Rightarrow> bool"
  for svc u now t operation r where
  unchanged: "commits svc u now t operation r r"
| created: "commits svc u now t operation r
     (record_operation t (operationMs svc) (operation_key svc operation) events (create_effect t s userMs sessionMs score r))"
  if "\<not> live_flag t (rd_operations r) (operation_key svc operation)" "operation \<noteq> []" "all_expired t s r" "0 < userMs"
    "userMs \<le> sessionMs" "se_ring_deadline s - millisecond < expiry_after t userMs"
    "se_caller s = u" "se_callee s \<noteq> u" "se_state s = StateRinging" "se_id s = callIDForContext (cs_sha256hex svc) operation"
| moved: "commits svc u now t operation r
     (record_operation t (operationMs svc) (operation_key svc operation) events (transition_effect t s' ms terminal r))"
  if "\<not> live_flag t (rd_operations r) (operation_key svc operation)" "operation \<noteq> []" "0 < ms"
    "live t (rd_sessions r) (se_id s') = Some s"
    "if terminal then finishes u s s'
     else answers u now s s' \<and> live t (rd_user_calls r) (se_caller s') = Some (se_id s') \<and>
          live t (rd_user_calls r) (se_callee s') = Some (se_id s')"

lemma milliseconds_mult: "0 < milliseconds d \<Longrightarrow> d - millisecond < milliseconds d * millisecond"
  by (simp add: milliseconds_def split: if_splits)

lemma milliseconds_mono: "0 \<le> d \<Longrightarrow> d \<le> d' \<Longrightarrow> milliseconds d \<le> milliseconds d'"
  by (simp add: milliseconds_def zdiv_mono1)

lemma Create_commits:
  assumes "store_ok svc" "legal_action svc u now operation (CreateSession s op events)" "0 \<le> rs_cleanupGrace (cs_store svc)"
  shows "commits svc u now t operation r
    (snd (CreateSessionWithEvents (cs_store svc) (cs_sha256hex svc) fault t s op events r))"
proof -
  let ?store = "cs_store svc"
  define ttl where "ttl = (if se_ring_deadline s - t \<le> 0 then rs_ringTTL ?store else se_ring_deadline s - t)"
  define script where "script = createSessionWithEventsScript t s (milliseconds ttl) (milliseconds (ttl + rs_cleanupGrace ?store))
    (se_ring_deadline s div second) (operationMs svc) (operation_key svc operation) events"
  have op: "op = operation" "operation \<noteq> []" and s: "se_caller s = u" "se_callee s \<noteq> u" "se_state s = StateRinging"
      "se_id s = callIDForContext (cs_sha256hex svc) operation"
    using assms(2) by (auto simp: legal_action_def)
  have ops: "0 < operationMs svc" using assms(1) by (simp add: store_ok_def)
  have "commits svc u now t operation r (snd (script r))"
    using create_script_cases [OF ops, of t s "milliseconds ttl" "milliseconds (ttl + rs_cleanupGrace ?store)"
        "se_ring_deadline s div second" "operation_key svc operation" events r] unfolding script_def [symmetric]
  proof (elim disjE conjE)
    assume c: "\<not> live_flag t (rd_operations r) (operation_key svc operation)" "all_expired t s r" "0 < milliseconds ttl"
      and e: "script r = (Some 1, record_operation t (operationMs svc) (operation_key svc operation) events
          (create_effect t s (milliseconds ttl) (milliseconds (ttl + rs_cleanupGrace ?store)) (se_ring_deadline s div second) r))"
    have "0 < ttl" using c(3) by (simp add: milliseconds_def split: if_splits)
    then have le: "milliseconds ttl \<le> milliseconds (ttl + rs_cleanupGrace ?store)"
      using assms(3) by (intro milliseconds_mono) simp_all
    have "se_ring_deadline s - millisecond < expiry_after t (milliseconds ttl)"
      using milliseconds_mult [OF c(3)] c(3) by (auto simp: expiry_after_def ttl_def split: if_splits)
    then show ?thesis unfolding e snd_conv by (intro created c op(2) s le)
  qed (simp_all add: unchanged)
  then show ?thesis
    using script_result_state [of fault ErrUserBusy script r] unfolding script_def ttl_def
    by (auto simp: CreateSessionWithEvents_def Let_def op(1) unchanged)
qed

lemma Transition_commits:
  assumes "store_ok svc" "legal_action svc u now operation (TransitionSession s s' terminal op events)"
  shows "commits svc u now t operation r
    (snd (TransitionSessionWithEvents (cs_store svc) (cs_sha256hex svc) fault t s s' terminal op events r))"
proof -
  define ms where "ms = milliseconds (transition_ttl (cs_store svc) t s')"
  define script where "script = transitionSessionWithEventsScript t s s' ms terminal (operationMs svc) (operation_key svc operation) events"
  have op: "op = operation" "operation \<noteq> []" and m: "if terminal then finishes u s s' else answers u now s s'"
    using assms(2) by (auto simp: legal_action_def)
  have "commits svc u now t operation r (snd (script r))"
    using transition_script_cases [of "operationMs svc" t s s' ms terminal "operation_key svc operation" events r] assms(1)
    unfolding script_def [symmetric] store_ok_def
    by (auto intro!: moved [of _ _ _ _ _ _ s] unchanged op(2) simp: m [simplified] split: if_splits)
  then show ?thesis
    using script_result_state [of fault ErrInvalidState script r] unfolding script_def ms_def
    by (auto simp: TransitionSessionWithEvents_def op(1) unchanged)
qed

lemma publishToTopic_redis [simp]: "cw_redis (snd (publishToTopic err topic u ev w)) = cw_redis w"
  by (simp add: publishToTopic_def split: option.split)

lemma store_outcome_redis [simp]: "cw_redis (snd (store_outcome w res)) = snd res"
  by (simp add: store_outcome_def split: prod.split sum.split)

text \<open>A service as the program configures it.\<close>

definition service_ok :: "call_service \<Rightarrow> bool" where
  "service_ok svc \<longleftrightarrow> store_ok svc \<and> 0 \<le> rs_cleanupGrace (cs_store svc)"

lemma perform_commits:
  assumes "service_ok svc" "legal_action svc u now operation action"
  shows "commits svc u now (he_commit env) operation (cw_redis w) (cw_redis (snd (perform svc env action w)))"
  using assms Create_commits [of svc u now operation] Transition_commits [of svc u now operation]
  by (cases action) (auto simp: perform_def service_ok_def unchanged)

lemma execute_plan_commits:
  assumes "service_ok svc" "\<And>action. plan = Inr action \<Longrightarrow> legal_action svc u now operation action"
  shows "commits svc u now (he_commit env) operation (cw_redis w) (cw_redis (snd (execute_plan svc env plan w)))"
  using assms perform_commits by (cases plan) (auto simp: execute_plan_def unchanged)

lemma Handle_redis:
  "cw_redis (snd (Handle svc env operation request w)) = cw_redis w \<or>
   cw_redis (snd (Handle svc env operation request w)) =
     cw_redis (snd (execute_plan svc env (request_plan svc (he_now env) operation request (the (iq_request request)) (he_reads env)) w))"
proof -
  obtain e w1 where x: "execute_plan svc env (request_plan svc (he_now env) operation request (the (iq_request request)) (he_reads env)) w = (e, w1)"
    by fastforce
  have "cw_redis (snd (case publishToTopic err topic u ev w1 of (None, w2) \<Rightarrow> (None, w2) | (Some e, w2) \<Rightarrow> (Some (f e), w2))) = cw_redis w1"
    for err topic u ev and f :: "call_error \<Rightarrow> call_error"
    using publishToTopic_redis [of err topic u ev w1] by (auto simp del: publishToTopic_redis split: prod.split option.split)
  then show ?thesis unfolding Handle_def Let_def x by (auto simp: x split: sum.split bool.split option.split)
qed

lemma Handle_commits:
  assumes "service_ok svc"
  shows "commits svc (iq_user_id request) (he_now env) (he_commit env) operation (cw_redis w)
           (cw_redis (snd (Handle svc env operation request w)))"
proof -
  have "commits svc (iq_user_id request) (he_now env) (he_commit env) operation (cw_redis w)
      (cw_redis (snd (execute_plan svc env
         (request_plan svc (he_now env) operation request (the (iq_request request)) (he_reads env)) w)))"
    by (intro execute_plan_commits assms request_plan_legal)
  then show ?thesis using Handle_redis [of svc env operation request w] by (auto simp: unchanged)
qed

lemma HandlePushResult_commits:
  assumes "service_ok svc"
  shows "commits svc (vr_caller_user_id result) (he_now env) (he_commit env) operation (cw_redis w)
           (cw_redis (snd (HandlePushResult svc env operation result w)))"
  unfolding HandlePushResult_def by (intro execute_plan_commits assms push_result_plan_legal)

section \<open>Runs\<close>

text \<open>
  The steps of all instances together, with the Redis clock: a request or push result with any reads
  and any fault, a sweep's timeout of one session, the removal of a deadline, and what others do with
  routes, leases, the event stream and its ledger.
\<close>

inductive call_run :: "call_service \<Rightarrow> instant \<Rightarrow> call_redis \<Rightarrow> instant \<Rightarrow> call_redis \<Rightarrow> bool" for svc t\<^sub>0 r\<^sub>0 where
  start: "call_run svc t\<^sub>0 r\<^sub>0 t\<^sub>0 r\<^sub>0"
| time: "call_run svc t\<^sub>0 r\<^sub>0 t r \<Longrightarrow> t \<le> t' \<Longrightarrow> call_run svc t\<^sub>0 r\<^sub>0 t' r"
| request: "call_run svc t\<^sub>0 r\<^sub>0 t r \<Longrightarrow> cw_redis w = r \<Longrightarrow> he_commit env = t \<Longrightarrow>
    call_run svc t\<^sub>0 r\<^sub>0 t (cw_redis (snd (Handle svc env operation req w)))"
| push_result: "call_run svc t\<^sub>0 r\<^sub>0 t r \<Longrightarrow> cw_redis w = r \<Longrightarrow> he_commit env = t \<Longrightarrow>
    call_run svc t\<^sub>0 r\<^sub>0 t (cw_redis (snd (HandlePushResult svc env operation res w)))"
| timeout: "call_run svc t\<^sub>0 r\<^sub>0 t r \<Longrightarrow> ring_expired now s \<Longrightarrow>
    call_run svc t\<^sub>0 r\<^sub>0 t (snd (sweep_sessions svc now reads fault (\<lambda>_. t) [s] r))"
| prune: "call_run svc t\<^sub>0 r\<^sub>0 t r \<Longrightarrow> call_run svc t\<^sub>0 r\<^sub>0 t (r\<lparr>rd_deadlines := zrem i (rd_deadlines r)\<rparr>)"
| others: "call_run svc t\<^sub>0 r\<^sub>0 t r \<Longrightarrow> call_run svc t\<^sub>0 r\<^sub>0 t
    (r\<lparr>rd_routes := routes, rd_leases := leases, rd_outbox := outbox, rd_ledger := ledger\<rparr>)"

declare timeout_events.simps [simp del] sweep_sessions.simps(2) [simp del]

definition timed_out :: "instant \<Rightarrow> session \<Rightarrow> session" where
  "timed_out now s = ended_session now TIMEOUT ''call timed out'' s"

lemma sweep_sessions_step:
  "sweep_sessions svc now reads fault commit (s # ss) r =
     (case timeout_events svc now (timeout_operation s) (timed_out now s) (reads (se_id s))
             [(se_caller s, se_callee s), (se_callee s, se_caller s)] of
        Inl e \<Rightarrow> (Some e, r)
      | Inr events \<Rightarrow>
          (case TransitionSessionWithEvents (cs_store svc) (cs_sha256hex svc) (fault (se_id s)) (commit (se_id s))
                  s (timed_out now s) True (timeout_operation s) events r of
             (Inl e, r1) \<Rightarrow> if e \<noteq> ErrInvalidState then (Some e, r1) else sweep_sessions svc now reads fault commit ss r1
           | (Inr _, r1) \<Rightarrow> sweep_sessions svc now reads fault commit ss r1))"
  by (simp add: sweep_sessions.simps(2) Let_def timed_out_def cong: sum.case_cong)

lemma sweep_one:
  "snd (sweep_sessions svc now reads fault commit [s] r) = r \<or>
   (\<exists>events. snd (sweep_sessions svc now reads fault commit [s] r) =
      snd (TransitionSessionWithEvents (cs_store svc) (cs_sha256hex svc) (fault (se_id s)) (commit (se_id s))
                  s (timed_out now s) True (timeout_operation s) events r))"
proof (cases "timeout_events svc now (timeout_operation s) (timed_out now s) (reads (se_id s))
             [(se_caller s, se_callee s), (se_callee s, se_caller s)]")
  case (Inr events)
  then show ?thesis by (intro disjI2 exI [of _ events]) (simp add: sweep_sessions_step split: sum.split prod.split)
qed (simp add: sweep_sessions_step)

lemma timeout_commits:
  assumes "service_ok svc" "ring_expired now s"
  shows "commits svc (se_caller s) now t (timeout_operation s) r (snd (sweep_sessions svc now reads fault (\<lambda>_. t) [s] r))"
proof -
  have "legal_action svc (se_caller s) now (timeout_operation s)
      (TransitionSession s (timed_out now s) True (timeout_operation s) events)" for events
    using timeout_finishes [OF assms(2)] by (simp add: legal_action_def timeout_operation_def timed_out_def)
  then have "commits svc (se_caller s) now t (timeout_operation s) r
      (snd (TransitionSessionWithEvents (cs_store svc) (cs_sha256hex svc) (fault (se_id s)) t s
         (timed_out now s) True (timeout_operation s) events r))" for events
    using assms(1) by (intro Transition_commits) (simp_all add: service_ok_def)
  then show ?thesis using sweep_one [of svc now reads fault "\<lambda>_. t" s r] by (auto simp: unchanged)
qed

text \<open>
  Any property of the sessions, the users' keys, the deadlines and the operations that time and
  commits keep holds throughout a run.
\<close>

lemma call_run_induct:
  assumes "call_run svc t\<^sub>0 r\<^sub>0 t r" "service_ok svc" "P t\<^sub>0 r\<^sub>0"
    and time: "\<And>t r t'. P t r \<Longrightarrow> t \<le> t' \<Longrightarrow> P t' r"
    and commit: "\<And>u now t operation r r'. P t r \<Longrightarrow> commits svc u now t operation r r' \<Longrightarrow> P t r'"
    and prune: "\<And>t r i. P t r \<Longrightarrow> P t (r\<lparr>rd_deadlines := zrem i (rd_deadlines r)\<rparr>)"
    and others: "\<And>t r routes leases outbox ledger. P t r \<Longrightarrow>
      P t (r\<lparr>rd_routes := routes, rd_leases := leases, rd_outbox := outbox, rd_ledger := ledger\<rparr>)"
  shows "P t r"
  using assms(1,3)
proof (induction rule: call_run.induct)
  case (request t r w env operation req)
  show ?case using commit [OF request.IH [OF request.prems] Handle_commits [OF assms(2), of req env operation w, unfolded request.hyps(2,3)]] .
next
  case (push_result t r w env operation res)
  show ?case using commit [OF push_result.IH [OF push_result.prems] HandlePushResult_commits [OF assms(2), of res env operation w, unfolded push_result.hyps(2,3)]] .
next
  case (timeout t r now s reads fault)
  show ?case by (rule commit [OF timeout.IH [OF timeout.prems] timeout_commits [OF assms(2) timeout.hyps(2)]])
qed (blast intro: time prune others)+

lemma call_run_trans: "call_run svc t1 r1 t2 r2 \<Longrightarrow> call_run svc t0 r0 t1 r1 \<Longrightarrow> call_run svc t0 r0 t2 r2"
  by (induction rule: call_run.induct) (blast intro: call_run.intros)+

text \<open>The sweeper's whole round is such a run.\<close>

lemma collect_expired_run:
  "call_run svc t\<^sub>0 r\<^sub>0 t r \<Longrightarrow> call_run svc t\<^sub>0 r\<^sub>0 t (snd (collect_expired read now ids r)) \<and>
     (\<forall>s\<in>set (fst (fst (collect_expired read now ids r))). ring_expired now s)"
proof (induction ids arbitrary: r)
  case (Cons i ids)
  note step = Cons.IH [OF Cons.prems] Cons.IH [OF prune [OF Cons.prems, of i]]
  show ?case
  proof (cases "read i")
    case (Inl e)
    with step(2) Cons.prems show ?thesis by simp
  next
    case (Inr s)
    with step show ?thesis by (auto split: prod.split)
  qed
qed simp

lemma sweep_sessions_Cons_run:
  "snd (sweep_sessions svc now reads fault (\<lambda>_. t) (s # ss) r) = snd (sweep_sessions svc now reads fault (\<lambda>_. t) [s] r) \<or>
   snd (sweep_sessions svc now reads fault (\<lambda>_. t) (s # ss) r) =
     snd (sweep_sessions svc now reads fault (\<lambda>_. t) ss (snd (sweep_sessions svc now reads fault (\<lambda>_. t) [s] r)))"
  by (simp add: sweep_sessions_step split: sum.split prod.split)

lemma sweep_sessions_run:
  "call_run svc t\<^sub>0 r\<^sub>0 t r \<Longrightarrow> \<forall>s\<in>set ss. ring_expired now s \<Longrightarrow>
   call_run svc t\<^sub>0 r\<^sub>0 t (snd (sweep_sessions svc now reads fault (\<lambda>_. t) ss r))"
proof (induction ss arbitrary: r)
  case (Cons s ss)
  have one: "call_run svc t\<^sub>0 r\<^sub>0 t (snd (sweep_sessions svc now reads fault (\<lambda>_. t) [s] r))"
    using Cons.prems by (intro timeout) simp_all
  with Cons.IH [OF one] Cons.prems(2) sweep_sessions_Cons_run [of svc now reads fault t s ss r] show ?case by auto
qed simp

lemma SweepExpired_run:
  assumes "call_run svc t\<^sub>0 r\<^sub>0 t r"
  shows "call_run svc t\<^sub>0 r\<^sub>0 t (snd (SweepExpired svc now listing reads fault (\<lambda>_. t) r))"
proof -
  obtain ss err r1 where c: "collect_expired (\<lambda>i. read_session (reads i) i) now (due_ids now 100 r) r = ((ss, err), r1)"
    by (metis surj_pair)
  with collect_expired_run [OF assms, of "\<lambda>i. read_session (reads i) i" now "due_ids now 100 r"]
  have "call_run svc t\<^sub>0 r\<^sub>0 t r1" "\<forall>s\<in>set ss. ring_expired now s" by simp_all
  with assms c sweep_sessions_run [of svc t\<^sub>0 r\<^sub>0 t r1 ss now reads fault] show ?thesis
    by (simp add: SweepExpired_def ExpiredRinging_def split: option.split)
qed

section \<open>One call per user\<close>

text \<open>
  While a call lasts, both its users' keys name it: an active call until its session expires, a ringing
  one until a millisecond before its deadline (Redis expiries are whole milliseconds).
\<close>

definition claim_end :: "session \<Rightarrow> instant \<Rightarrow> instant" where
  "claim_end s e = (if se_state s = StateActive then e else se_ring_deadline s - millisecond + 1)"

definition occupied :: "instant \<Rightarrow> call_redis \<Rightarrow> string \<Rightarrow> instant \<Rightarrow> int \<Rightarrow> bool" where
  "occupied t r i e u \<longleftrightarrow> t < e \<longrightarrow> (\<exists>e'\<ge>e. rd_user_calls r u = Some (i, e'))"

definition session_inv :: "instant \<Rightarrow> call_redis \<Rightarrow> string \<Rightarrow> session \<Rightarrow> instant \<Rightarrow> bool" where
  "session_inv t r i s e \<longleftrightarrow> se_id s = i \<and> se_state s \<in> {StateRinging, StateActive, StateEnded} \<and>
     (se_state s \<noteq> StateEnded \<longrightarrow> occupied t r i (claim_end s e) (se_caller s) \<and> occupied t r i (claim_end s e) (se_callee s))"

definition call_inv :: "instant \<Rightarrow> call_redis \<Rightarrow> bool" where
  "call_inv t r \<longleftrightarrow> (\<forall>i s e. rd_sessions r i = Some (s, e) \<longrightarrow> t < e \<longrightarrow> session_inv t r i s e)"

lemma occupied_later: "occupied t r i e u \<Longrightarrow> t \<le> t' \<Longrightarrow> occupied t' r i e u"
  by (auto simp: occupied_def)

lemma occupied_update:
  assumes "occupied t r i e u" "\<And>e'. rd_user_calls r u = Some (i, e') \<Longrightarrow> t < e' \<Longrightarrow> rd_user_calls r' u = Some (i, e')"
  shows "occupied t r' i e u"
  using assms by (force simp: occupied_def)

lemma call_inv_update:
  assumes "call_inv t r" "\<And>u j e'. j \<noteq> k \<Longrightarrow> rd_user_calls r u = Some (j, e') \<Longrightarrow> t < e' \<Longrightarrow> rd_user_calls r' u = Some (j, e')"
    and "rd_sessions r' = (rd_sessions r)(k \<mapsto> (s, e))" "t < e \<Longrightarrow> session_inv t r' k s e"
  shows "call_inv t r'"
  unfolding call_inv_def
proof (intro allI impI)
  fix i s2 e2 assume a: "rd_sessions r' i = Some (s2, e2)" "t < e2"
  show "session_inv t r' i s2 e2"
  proof (cases "i = k")
    case False
    then have "session_inv t r i s2 e2" using assms(1,3) a by (simp add: call_inv_def)
    then show ?thesis using occupied_update [of t r i _ _ r'] assms(2) False by (auto simp: session_inv_def)
  qed (use a assms(3,4) in auto)
qed

lemma call_inv_created:
  assumes "call_inv t r" "all_expired t s r" "0 < userMs" "userMs \<le> sessionMs" "se_ring_deadline s - millisecond < expiry_after t userMs"
    "se_state s = StateRinging" "rd_user_calls r' = rd_user_calls (create_effect t s userMs sessionMs score r)"
    "rd_sessions r' = rd_sessions (create_effect t s userMs sessionMs score r)"
  shows "call_inv t r'"
proof (rule call_inv_update [OF assms(1), where k = "se_id s" and s = s and e = "expiry_after t sessionMs"])
  show "session_inv t r' (se_id s) s (expiry_after t sessionMs)"
    using assms(5-7) by (auto simp: session_inv_def occupied_def claim_end_def create_effect_def)
  show "rd_user_calls r' u = Some (j, e')" if "rd_user_calls r u = Some (j, e')" "t < e'" for u j e'
    using that assms(2,7) by (auto simp: all_expired_def live_None create_effect_def)
qed (simp add: assms(8) create_effect_def)

lemma del_if_other: "m v = Some (j, e) \<Longrightarrow> j \<noteq> i \<Longrightarrow> del_if t i u m v = Some (j, e)"
  by (auto simp: del_if_def live_Some)

lemma call_inv_moved:
  assumes "call_inv t r" "0 < ms" "live t (rd_sessions r) (se_id s') = Some s"
    "if terminal then finishes u s s'
     else answers u now s s' \<and> live t (rd_user_calls r) (se_caller s') = Some (se_id s') \<and>
          live t (rd_user_calls r) (se_callee s') = Some (se_id s')"
    "rd_user_calls r' = rd_user_calls (transition_effect t s' ms terminal r)"
    "rd_sessions r' = rd_sessions (transition_effect t s' ms terminal r)"
  shows "call_inv t r'"
proof (rule call_inv_update [OF assms(1), where k = "se_id s'" and s = s' and e = "expiry_after t ms"])
  show "session_inv t r' (se_id s') s' (expiry_after t ms)"
  proof (cases terminal)
    case False
    then obtain a b where k: "rd_user_calls r (se_caller s') = Some (se_id s', a)" "t < a"
        "rd_user_calls r (se_callee s') = Some (se_id s', b)" "t < b"
      using assms(4) by (auto simp: live_Some)
    have "rd_user_calls r' (se_caller s') = Some (se_id s', expiry_after t ms)"
        "rd_user_calls r' (se_callee s') = Some (se_id s', expiry_after t ms)"
      using k assms(2,5) False by (auto simp: transition_effect_def pexpire_def live_def expiry_after_def)
    then show ?thesis using assms(4) False by (auto simp: session_inv_def answers_def occupied_def claim_end_def)
  qed (use assms(4) in \<open>simp add: session_inv_def finishes_def\<close>)
  show "rd_user_calls r' v = Some (j, e')" if j: "j \<noteq> se_id s'" "rd_user_calls r v = Some (j, e')" "t < e'" for v j e'
  proof (cases terminal)
    case False
    then have "v \<noteq> se_caller s'" "v \<noteq> se_callee s'" using assms(4) j by (auto simp: live_Some)
    then show ?thesis using j assms(5) False by (auto simp: transition_effect_def pexpire_def split: option.split)
  qed (use j assms(5) in \<open>simp add: transition_effect_def del_if_other\<close>)
qed (simp add: assms(6) transition_effect_def)

lemma call_inv_commits: "commits svc u now t operation r r' \<Longrightarrow> call_inv t r \<Longrightarrow> call_inv t r'"
proof (induction rule: commits.induct)
  case (created s userMs sessionMs events score)
  show ?case by (rule call_inv_created [OF created.prems created.hyps(3-6,9), where score = score]) simp_all
next
  case (moved ms s' s terminal events)
  show ?case by (rule call_inv_moved [OF moved.prems moved.hyps(3-5)]) simp_all
qed simp

definition empty_redis :: call_redis where
  "empty_redis = \<lparr>rd_user_calls = Map.empty, rd_sessions = Map.empty, rd_deadlines = [], rd_operations = Map.empty,
     rd_outbox = [], rd_next_id = 0, rd_routes = Map.empty, rd_leases = Map.empty, rd_ledger = Map.empty\<rparr>"

lemma call_inv_run:
  assumes "call_run svc t\<^sub>0 r\<^sub>0 t r" "service_ok svc" "call_inv t\<^sub>0 r\<^sub>0"
  shows "call_inv t r"
proof (rule call_run_induct [OF assms(1,2), where P = call_inv])
  show "call_inv t' r" if "call_inv t r" "t \<le> t'" for t r t'
    using that occupied_later [OF _ that(2)] by (force simp: call_inv_def session_inv_def)
  show "call_inv t r'" if "call_inv t r" "commits svc u now t operation r r'" for u now t operation r r'
    using call_inv_commits that by blast
qed (rule assms(3), simp_all add: call_inv_def session_inv_def occupied_def)

end
