(* ===== verification/Call_Guarantees.thy ===== *)
theory Call_Guarantees
  imports Call_Laws
begin

text \<open>
  The guarantees of the call service over its runs: a user is in at most one call, the service refines
  an abstract machine of calls, an operation takes effect at most once, an answered call becomes
  active and is announced, and calls that nobody answers are ended by the sweeper.
\<close>

section \<open>An abstract machine of calls\<close>

text \<open>
  The calls by identifier. A call starts between users that are in no other call, is answered by its
  callee while it rings, and is ended once by one of its users.
\<close>

definition participant :: "int \<Rightarrow> session \<Rightarrow> bool" where
  "participant u s \<longleftrightarrow> u = se_caller s \<or> u = se_callee s"

definition in_call :: "instant \<Rightarrow> session \<Rightarrow> bool" where
  "in_call t s \<longleftrightarrow> se_state s = StateActive \<or> se_state s = StateRinging \<and> t \<le> se_ring_deadline s - millisecond"

inductive call_step :: "int \<Rightarrow> instant \<Rightarrow> instant \<Rightarrow> (string \<rightharpoonup> session) \<Rightarrow> (string \<rightharpoonup> session) \<Rightarrow> bool" for u now t m where
  idle: "call_step u now t m m"
| ring: "call_step u now t m (m(se_id s \<mapsto> s))"
    if "se_state s = StateRinging" "se_caller s = u" "se_callee s \<noteq> u"
      "\<And>i s' v. m i = Some s' \<Longrightarrow> in_call t s' \<Longrightarrow> participant v s \<Longrightarrow> \<not> participant v s'"
| answer: "call_step u now t m (m(se_id s \<mapsto> s'))" if "m (se_id s) = Some s" "answers u now s s'"
| finish: "call_step u now t m (m(se_id s \<mapsto> s'))" if "m (se_id s) = Some s" "finishes u s s'"

text \<open>The abstraction: the sessions that have not expired.\<close>

definition live_sessions :: "instant \<Rightarrow> call_redis \<Rightarrow> string \<rightharpoonup> session" where
  "live_sessions t r = live t (rd_sessions r)"

lemma in_call_key:
  assumes "call_inv t r" "live_sessions t r i = Some s" "in_call t s" "participant u s"
  shows "live t (rd_user_calls r) u = Some i"
proof -
  from assms(2) obtain e where e: "rd_sessions r i = Some (s, e)" "t < e" by (auto simp: live_sessions_def live_Some)
  then have "session_inv t r i s e" using assms(1) by (auto simp: call_inv_def)
  moreover have "se_state s \<noteq> StateEnded" "t < claim_end s e" using assms(3) e(2) by (auto simp: in_call_def claim_end_def)
  ultimately have "\<exists>e'\<ge>claim_end s e. rd_user_calls r u = Some (i, e')"
    using assms(4) by (auto simp: session_inv_def occupied_def participant_def)
  with \<open>t < claim_end s e\<close> show ?thesis by (fastforce simp: live_Some)
qed

lemma commits_call_step:
  "commits svc u now t operation r r' \<Longrightarrow> call_inv t r \<Longrightarrow> call_step u now t (live_sessions t r) (live_sessions t r')"
proof (induction rule: commits.induct)
  case (created s userMs sessionMs events score)
  have e: "live_sessions t (record_operation t (operationMs svc) (operation_key svc operation) events
      (create_effect t s userMs sessionMs score r)) = (live_sessions t r)(se_id s \<mapsto> s)"
    using created.hyps(4,5) by (simp add: live_sessions_def create_effect_def live_update expiry_after_live)
  have free: "\<not> participant v s'" if "live_sessions t r i = Some s'" "in_call t s'" "participant v s" for i s' v
    using in_call_key [OF created.prems that(1,2), of v] that(3) created.hyps(3)
    by (auto simp: all_expired_def participant_def)
  show ?case unfolding e by (rule ring [OF created.hyps(9,7,8) free])
next
  case (moved ms s' s terminal events)
  have e: "live_sessions t (record_operation t (operationMs svc) (operation_key svc operation) events
      (transition_effect t s' ms terminal r)) = (live_sessions t r)(se_id s' \<mapsto> s')"
    using moved.hyps(3) by (simp add: live_sessions_def transition_effect_def live_update expiry_after_live)
  have id: "se_id s' = se_id s" using moved.hyps(5) by (auto simp: finishes_def answers_def same_call_def split: if_splits)
  have m: "live_sessions t r (se_id s) = Some s" using moved.hyps(4) by (simp add: live_sessions_def id)
  show ?case unfolding e id using moved.hyps(5) finish [of "live_sessions t r" s u s' now t, OF m] answer [of "live_sessions t r" s u now s' t, OF m]
    by (cases terminal) (simp_all only: if_True if_False)
qed (rule idle)

section \<open>Completed operations\<close>

definition operations_kept :: "call_redis \<Rightarrow> call_redis \<Rightarrow> bool" where
  "operations_kept r r' \<longleftrightarrow> (\<forall>k e. rd_operations r k = Some e \<longrightarrow> (\<exists>e'\<ge>e. rd_operations r' k = Some e'))"

lemma operations_kept_trans: "operations_kept r r1 \<Longrightarrow> operations_kept r1 r2 \<Longrightarrow> operations_kept r r2"
  unfolding operations_kept_def by (meson order.trans)

lemma operations_kept_add:
  assumes "\<not> live_flag t (rd_operations r) k" "0 < ms" "rd_operations r' = (rd_operations r)(k \<mapsto> expiry_after t ms)"
  shows "operations_kept r r'"
  using assms by (auto simp: operations_kept_def live_flag_def expiry_after_def)

lemma operations_kept_commits:
  assumes "commits svc u now t operation r r'" "service_ok svc"
  shows "operations_kept r r'"
  using assms
proof (induction rule: commits.induct)
  case (created s userMs sessionMs events score)
  then show ?case by (intro operations_kept_add [OF created.hyps(1), of "operationMs svc"]) (simp_all add: create_effect_def service_ok_def store_ok_def)
next
  case (moved ms s' s terminal events)
  then show ?case by (intro operations_kept_add [OF moved.hyps(1), of "operationMs svc"]) (simp_all add: transition_effect_def service_ok_def store_ok_def)
qed (simp add: operations_kept_def)

lemma operations_kept_run:
  assumes "call_run svc t\<^sub>0 r\<^sub>0 t r" "service_ok svc"
  shows "operations_kept r\<^sub>0 r"
  using assms
proof (rule call_run_induct [where P = "\<lambda>_ r. operations_kept r\<^sub>0 r"])
  show "operations_kept r\<^sub>0 r'" if "operations_kept r\<^sub>0 r" "commits svc u now t operation r r'" for u now t operation r r'
    using that operations_kept_commits [OF that(2) assms(2)] operations_kept_trans by blast
qed (simp_all add: operations_kept_def)

text \<open>A commit that changes anything completes its operation; afterwards the operation commits nothing.\<close>

lemma commits_records:
  assumes "commits svc u now t operation r r'" "r' \<noteq> r"
  shows "rd_operations r' (operation_key svc operation) = Some (expiry_after t (operationMs svc))"
  using assms by (induction rule: commits.induct) simp_all

lemma commits_completed: "commits svc u now t operation r r' \<Longrightarrow> live_flag t (rd_operations r) (operation_key svc operation) \<Longrightarrow> r' = r"
  by (induction rule: commits.induct) simp_all

section \<open>Answering\<close>

text \<open>Reading the store itself, without a fault.\<close>

definition reads_of :: "instant \<Rightarrow> call_redis \<Rightarrow> call_reads" where
  "reads_of t r = \<lparr>read_session = (\<lambda>i. GetSession t i r), read_topic = (\<lambda>u. UserTopic t u r)\<rparr>"

definition calm_env :: "call_service \<Rightarrow> instant \<Rightarrow> string \<Rightarrow> call_redis \<Rightarrow> call_env" where
  "calm_env svc t operation r =
     \<lparr>he_now = t, he_commit = t, he_completed = Inr (OperationCompleted (cs_sha256hex svc) t operation r),
      he_reads = reads_of t r, he_fault = NoFault, he_publish_error = None, he_error_publish_error = None\<rparr>"

lemma GetSession_iff: "GetSession t i r = Inr s \<longleftrightarrow> live_sessions t r i = Some s"
  by (simp add: GetSession_def live_sessions_def split: option.split)

lemma calm_env_fields [simp]:
  "he_now (calm_env svc t op r) = t" "he_commit (calm_env svc t op r) = t" "he_fault (calm_env svc t op r) = NoFault"
  "read_session (he_reads (calm_env svc t op r)) i = GetSession t i r" "read_topic (he_reads (calm_env svc t op r)) u = UserTopic t u r"
  "he_completed (calm_env svc t op r) = Inr (OperationCompleted (cs_sha256hex svc) t op r)"
  by (simp_all add: calm_env_def reads_of_def)

lemma Transition_fires:
  assumes "service_ok svc" "\<not> OperationCompleted (cs_sha256hex svc) t operation r" "live_sessions t r (se_id s') = Some s"
    "terminal \<or> live t (rd_user_calls r) (se_caller s') = Some (se_id s') \<and> live t (rd_user_calls r) (se_callee s') = Some (se_id s')"
    "0 < milliseconds (transition_ttl (cs_store svc) t s')"
  shows "TransitionSessionWithEvents (cs_store svc) (cs_sha256hex svc) NoFault t s s' terminal operation events r =
    (Inr False, record_operation t (operationMs svc) (operation_key svc operation) events
       (transition_effect t s' (milliseconds (transition_ttl (cs_store svc) t s')) terminal r))"
  using assms
  by (auto simp: TransitionSessionWithEvents_def script_result_def transitionSessionWithEventsScript_def complete_operation_def
      OperationCompleted_def live_sessions_def service_ok_def store_ok_def record_operation_def transition_effect_def)

lemma Handle_runs:
  assumes "0 < iq_user_id request" "iq_from_kafka_topic request \<noteq> []" "iq_request request = Some payload" "operation \<noteq> []"
    "\<not> OperationCompleted (cs_sha256hex svc) t operation r"
    "execute_plan svc (calm_env svc t operation r) (request_plan svc t operation request payload (he_reads (calm_env svc t operation r))) w = (None, w')"
  shows "Handle svc (calm_env svc t operation r) operation request w = (None, w')"
  using assms by (simp add: Handle_def)

definition answer_events :: "call_service \<Rightarrow> instant \<Rightarrow> string \<Rightarrow> string \<Rightarrow> string \<Rightarrow> session \<Rightarrow> session \<Rightarrow> call_pending_event list" where
  "answer_events svc t operation calleeTopic callerTopic s s' =
     (let ev = (\<lambda>suffix topic u e. \<lparr>ce_event_id = callEventID (cs_sha256hex svc) operation suffix, ce_operation_key = operation,
                   ce_topic = topic, ce_payload = projr (cs_marshal svc (CallDelivery u e))\<rparr>)
      in [ev ''callee-accepted'' calleeTopic (se_callee s) (sessionEvent t CALL_ACCEPTED s' (se_caller s)),
          ev ''caller-accepted'' callerTopic (se_caller s)
            ((sessionEvent t CALL_ACCEPTED s' (se_callee s))\<lparr>cv_session_description := se_answer s'\<rparr>)])"

lemma pendingCallDelivery_ok:
  assumes "\<And>p. \<exists>b. cs_marshal svc p = Inr b"
  shows "pendingCallDelivery svc op suffix topic u ev =
    Inr \<lparr>ce_event_id = callEventID (cs_sha256hex svc) op suffix, ce_operation_key = op, ce_topic = topic,
         ce_payload = projr (cs_marshal svc (CallDelivery u ev))\<rparr>"
  using assms [of "CallDelivery u ev"] by (auto simp: pendingCallDelivery_def pending_event_def)

lemma accept_plan:
  assumes "\<And>p. \<exists>b. cs_marshal svc p = Inr b" "operation \<noteq> []" "TrimSpace i \<noteq> []" "validDescription (Some answer) ''answer''"
    "read_session reads i = Inr s" "se_callee s = iq_user_id request" "se_state s = StateRinging" "t < se_ring_deadline s"
    "read_topic reads (se_caller s) = Inr callerTopic" "s' = accepted_session t (descriptionFromProto answer) s"
  shows "request_plan svc t operation request (Some (Accept i (Some answer))) reads =
    Inr (TransitionSession s s' False operation (answer_events svc t operation (iq_from_kafka_topic request) callerTopic s s'))"
  using assms(2-)
  by (simp add: request_plan_def accept_def acceptAtomic_def transition_with_def pendingCallDelivery_ok [OF assms(1)] Let_def
      answer_events_def accepted_session_def)

lemma xadd_outbox: "map snd (rd_outbox (xadd evs r)) = map snd (rd_outbox r) @ evs"
  by (simp add: xadd_def)

section \<open>Properties\<close>

text \<open>
  C14. One call per user: whatever requests, push results and sweeps interleave, with stale reads, lost
  requests and lost replies, two calls that are active, or ringing with at least a millisecond to go, and
  have a user in common are the same call.
\<close>

theorem one_call_per_user:
  assumes "call_run svc t\<^sub>0 empty_redis t r" "service_ok svc"
    and "GetSession t i r = Inr s" "GetSession t j r = Inr s'" "in_call t s" "in_call t s'"
    and "participant u s" "participant u s'"
  shows "i = j"
proof -
  have "call_inv t r" by (rule call_inv_run [OF assms(1,2)]) (simp add: call_inv_def empty_redis_def)
  then have "live t (rd_user_calls r) u = Some i" "live t (rd_user_calls r) u = Some j"
    using in_call_key [of t r i s u] in_call_key [of t r j s' u] assms(3-8) by (simp_all add: GetSession_iff)
  then show ?thesis by simp
qed

text \<open>
  C15. Requests are linearised at their commit: however stale what a request has read, its effect on the
  calls that exist when it commits is one the abstract machine allows its user in that state; in
  particular an ended call is never answered or ended again, only the callee answers, and a call starts
  only between users that are in no call.
\<close>

theorem requests_refine_calls:
  assumes "call_run svc t\<^sub>0 empty_redis t (cw_redis w)" "service_ok svc" "he_commit env = t"
  shows "call_step (iq_user_id request) (he_now env) t (live_sessions t (cw_redis w))
           (live_sessions t (cw_redis (snd (Handle svc env operation request w))))"
proof -
  have "call_inv t (cw_redis w)" by (rule call_inv_run [OF assms(1,2)]) (simp add: call_inv_def empty_redis_def)
  with commits_call_step [OF Handle_commits [OF assms(2), of request env operation w, unfolded assms(3)]] show ?thesis .
qed

text \<open>
  C16. At most once: a request that changed the Redis state, even if its reply was lost, completes its
  operation; until the operation's retention ends, whatever happens in between, delivering a message
  with the same operation key again changes nothing.
\<close>

theorem call_operation_once:
  assumes "service_ok svc"
    and "cw_redis (snd (Handle svc env operation request w)) \<noteq> cw_redis w"
    and "call_run svc (he_commit env) (cw_redis (snd (Handle svc env operation request w))) t (cw_redis w')"
    and "t < expiry_after (he_commit env) (operationMs svc)" "he_commit env' = t"
  shows "OperationCompleted (cs_sha256hex svc) t operation (cw_redis w') \<and>
    cw_redis (snd (Handle svc env' operation request' w')) = cw_redis w' \<and>
    cw_redis (snd (HandlePushResult svc env' operation result w')) = cw_redis w'"
proof (intro conjI)
  have "rd_operations (cw_redis (snd (Handle svc env operation request w))) (operation_key svc operation) =
      Some (expiry_after (he_commit env) (operationMs svc))"
    by (rule commits_records [OF Handle_commits [OF assms(1)] assms(2)])
  with operations_kept_run [OF assms(3,1)] assms(4)
  have f: "live_flag t (rd_operations (cw_redis w')) (operation_key svc operation)"
    by (fastforce simp: operations_kept_def live_flag_def)
  from f show "OperationCompleted (cs_sha256hex svc) t operation (cw_redis w')" by (simp add: OperationCompleted_def)
  show "cw_redis (snd (Handle svc env' operation request' w')) = cw_redis w'"
    using commits_completed [OF Handle_commits [OF assms(1), of request' env' operation w']] f assms(5) by simp
  show "cw_redis (snd (HandlePushResult svc env' operation result w')) = cw_redis w'"
    using commits_completed [OF HandlePushResult_commits [OF assms(1), of result env' operation w']] f assms(5) by simp
qed

text \<open>
  Answering: when the callee of a ringing call accepts it in time with a valid answer and the caller
  is online, the request succeeds, the call becomes active with that answer, its ring deadline is gone, and
  exactly two events are queued: the acceptance for the callee, and for the caller the acceptance with the
  answer's session description.
\<close>

theorem accept_makes_call_active:
  assumes run: "call_run svc t\<^sub>0 empty_redis t r" "service_ok svc"
    and s: "GetSession t i r = Inr s" "se_state s = StateRinging" "t \<le> se_ring_deadline s - millisecond"
    and request: "iq_user_id request = se_callee s" "0 < iq_user_id request" "iq_from_kafka_topic request \<noteq> []"
      "iq_request request = Some (Some (Accept i (Some answer)))" "TrimSpace i \<noteq> []" "validDescription (Some answer) ''answer''"
    and online: "UserTopic t (se_caller s) r = Inr callerTopic"
    and fresh: "operation \<noteq> []" "\<not> OperationCompleted (cs_sha256hex svc) t operation r"
    and ok: "\<And>p. \<exists>b. cs_marshal svc p = Inr b" "millisecond \<le> rs_activeTTL (cs_store svc)"
    and s': "s' = accepted_session t (descriptionFromProto answer) s"
    and h: "Handle svc (calm_env svc t operation r) operation request \<lparr>cw_redis = r, cw_published = pub\<rparr> = (err, w')"
  shows "err = None \<and> cw_published w' = pub \<and> GetSession t i (cw_redis w') = Inr s' \<and> se_state s' = StateActive \<and>
    se_answer s' = Some (descriptionFromProto answer) \<and> i \<notin> fst ` set (rd_deadlines (cw_redis w')) \<and>
    map snd (rd_outbox (cw_redis w')) = map snd (rd_outbox r) @
      answer_events svc t operation (iq_from_kafka_topic request) callerTopic s s'"
proof -
  let ?evs = "answer_events svc t operation (iq_from_kafka_topic request) callerTopic s s'"
  let ?ms = "milliseconds (rs_activeTTL (cs_store svc))"
  have inv: "call_inv t r" by (rule call_inv_run [OF run]) (simp add: call_inv_def empty_redis_def)
  have ls: "live_sessions t r i = Some s" using s(1) by (simp add: GetSession_iff)
  have id: "se_id s = i" using inv ls by (auto simp: call_inv_def session_inv_def live_sessions_def live_Some)
  have fields: "se_id s' = i" "se_caller s' = se_caller s" "se_callee s' = se_callee s" "se_state s' = StateActive"
      "se_answer s' = Some (descriptionFromProto answer)" by (simp_all add: s' accepted_session_def id)
  have keys: "live t (rd_user_calls r) (se_caller s) = Some i" "live t (rd_user_calls r) (se_callee s) = Some i"
    using in_call_key [OF inv ls] s(2,3) by (simp_all add: in_call_def participant_def)
  have ttl: "transition_ttl (cs_store svc) t s' = rs_activeTTL (cs_store svc)" by (simp add: transition_ttl_def fields)
  have ms: "0 < ?ms" using ok(2) by (simp add: milliseconds_def pos_imp_zdiv_pos_iff)
  have "Handle svc (calm_env svc t operation r) operation request \<lparr>cw_redis = r, cw_published = pub\<rparr> =
      (None, \<lparr>cw_redis = record_operation t (operationMs svc) (operation_key svc operation) ?evs (transition_effect t s' ?ms False r),
              cw_published = pub\<rparr>)"
    using Transition_fires [OF run(2) fresh(2), of s' s False ?evs] s(3)
    by (intro Handle_runs [OF request(2-4) fresh])
       (simp add: accept_plan [OF ok(1) fresh(1) request(5,6) _ request(1) [symmetric] s(2) _ _ s'] s(1) online execute_plan_def
          perform_def store_outcome_def fields keys ls ttl ms)
  with h ms show ?thesis
    by (auto simp: fields GetSession_iff live_sessions_def transition_effect_def live_update expiry_after_live zrem_def
        record_operation_def xadd_outbox)
qed

section \<open>Sample calls\<close>

definition sample_calls :: call_service where
  "sample_calls = \<lparr>cs_ice = NewStaticICEProvider [] [] [] 0, cs_ringTTL = 45 * second, cs_store = NewRedisStore 0 0 None None,
     cs_hmac = (\<lambda>_ m. m), cs_sha256hex = (\<lambda>s. s), cs_marshal = (\<lambda>_. Inr ''m''), cs_voip_topic_env = []\<rparr>"

definition sample_offer :: call_description where
  "sample_offer = \<lparr>ds_type = ''offer'', ds_sdp = ''v''\<rparr>"

definition sample_initiate :: internal_request where
  "sample_initiate = \<lparr>iq_from_kafka_topic = ''df'', iq_user_id = 1, iq_request = Some (Some (Initiate 2 AUDIO (Some sample_offer)))\<rparr>"

definition sample_session :: session where
  "sample_session = new_session sample_calls 0 ''op'' 1 2 AUDIO sample_offer"

definition sample_ringing :: call_redis where
  "sample_ringing = cw_redis (snd (Handle sample_calls (calm_env sample_calls 0 ''op'' empty_redis) ''op'' sample_initiate
     \<lparr>cw_redis = empty_redis, cw_published = []\<rparr>))"

lemma sample_fields [simp]:
  "cs_marshal sample_calls p = Inr ''m''" "cs_sha256hex sample_calls x = x" "rs_activeTTL (cs_store sample_calls) = 6 * hour"
  "rs_operationTTL (cs_store sample_calls) = 30 * 24 * hour" "rs_cleanupGrace (cs_store sample_calls) = minute"
  "se_ring_deadline sample_session = 45 * second" "se_state sample_session = StateRinging"
  "se_caller sample_session = 1" "se_callee sample_session = 2" "se_id sample_session = ''betterfly-call:op''"
  by (simp_all add: sample_calls_def NewRedisStore_def callDurationEnv_def sample_session_def new_session_def callIDForContext_def)

lemma empty_redis_fields:
  "rd_user_calls empty_redis = Map.empty" "rd_sessions empty_redis = Map.empty" "rd_operations empty_redis = Map.empty"
  by (simp_all add: empty_redis_def)

lemma sample_initiate_fields:
  "iq_from_kafka_topic sample_initiate = ''df''" "iq_user_id sample_initiate = 1"
  "iq_request sample_initiate = Some (Some (Initiate 2 AUDIO (Some sample_offer)))"
  by (simp_all add: sample_initiate_def)

lemma sample_service_ok: "service_ok sample_calls"
  by (simp add: service_ok_def store_ok_def milliseconds_def)

lemma sample_ringing_eq:
  "\<exists>events. sample_ringing = record_operation 0 (milliseconds (30 * 24 * hour)) ''call:operation:op'' events
     (create_effect 0 sample_session 45000 105000 45 empty_redis)"
proof -
  have v: "validDescription (Some sample_offer) ''offer''" by code_simp
  have "UserTopic 0 2 empty_redis = Inl ErrUserOffline" by (simp add: UserTopic_def empty_redis_def)
  then obtain events where p: "request_plan sample_calls 0 ''op'' sample_initiate (Some (Initiate 2 AUDIO (Some sample_offer)))
      (he_reads (calm_env sample_calls 0 ''op'' empty_redis)) = Inr (CreateSession sample_session ''op'' events)"
    by (auto simp: request_plan_def initiate_def initiate_with_def v sample_initiate_def Let_def initiatePendingEvents_def
        pendingCallDelivery_def pendingPushRequest_def pending_event_def sample_session_def)
  have o: "\<not> OperationCompleted (cs_sha256hex sample_calls) 0 ''op'' empty_redis"
    by (simp add: OperationCompleted_def live_flag_def empty_redis_def)
  have "Handle sample_calls (calm_env sample_calls 0 ''op'' empty_redis) ''op'' sample_initiate \<lparr>cw_redis = empty_redis, cw_published = []\<rparr> =
      (None, \<lparr>cw_redis = record_operation 0 (milliseconds (30 * 24 * hour)) ''call:operation:op'' events
         (create_effect 0 sample_session 45000 105000 45 empty_redis), cw_published = []\<rparr>)"
    by (rule Handle_runs [OF _ _ _ _ o, where payload = "Some (Initiate 2 AUDIO (Some sample_offer))"])
       (simp_all add: p sample_initiate_fields execute_plan_def perform_def store_outcome_def CreateSessionWithEvents_def script_result_def
          createSessionWithEventsScript_def complete_operation_def live_flag_def live_def empty_redis_fields milliseconds_def
          record_operation_def create_effect_def callOperationKey_def Let_def)
  then show ?thesis by (auto simp: sample_ringing_def)
qed

lemma sample_run: "call_run sample_calls 0 empty_redis 0 sample_ringing"
  unfolding sample_ringing_def by (intro request [OF start]) simp_all

lemma sample_lookup: "GetSession 0 ''betterfly-call:op'' sample_ringing = Inr sample_session"
proof -
  obtain events where e: "sample_ringing = record_operation 0 (milliseconds (30 * 24 * hour)) ''call:operation:op'' events
     (create_effect 0 sample_session 45000 105000 45 empty_redis)" using sample_ringing_eq by blast
  show ?thesis unfolding e by (simp add: GetSession_def create_effect_def live_def expiry_after_def)
qed

lemma sample_in_call: "in_call 0 sample_session" "participant 1 sample_session"
  by (simp_all add: in_call_def participant_def)

theorem one_call_per_user_witness:
  "GetSession 0 ''betterfly-call:op'' sample_ringing = Inr sample_session \<and>
   (\<forall>j s'. \<not> (GetSession 0 j sample_ringing = Inr s' \<and> in_call 0 s' \<and> participant 1 s' \<and> j \<noteq> ''betterfly-call:op''))"
  using one_call_per_user [OF sample_run sample_service_ok sample_lookup _ sample_in_call(1) _ sample_in_call(2)] sample_lookup by blast

theorem requests_refine_calls_witness:
  "call_step 1 0 0 Map.empty (live_sessions 0 sample_ringing) \<and> live_sessions 0 sample_ringing \<noteq> Map.empty"
proof -
  have e: "live_sessions 0 empty_redis = Map.empty" by (rule ext) (simp add: live_sessions_def live_def empty_redis_fields)
  have "live_sessions 0 sample_ringing \<noteq> Map.empty" using sample_lookup by (auto simp: GetSession_iff)
  then show ?thesis
    using requests_refine_calls [of sample_calls 0 0 "\<lparr>cw_redis = empty_redis, cw_published = []\<rparr>" "calm_env sample_calls 0 ''op'' empty_redis"
        sample_initiate "''op''", folded sample_ringing_def] sample_service_ok start [of sample_calls 0 empty_redis]
    by (simp add: sample_initiate_fields e)
qed

theorem call_operation_once_witness:
  "OperationCompleted (\<lambda>s. s) hour ''op'' sample_ringing \<and>
   cw_redis (snd (Handle sample_calls (calm_env sample_calls hour ''op'' empty_redis) ''op'' sample_initiate
     \<lparr>cw_redis = sample_ringing, cw_published = []\<rparr>)) = sample_ringing"
proof -
  let ?w = "\<lparr>cw_redis = empty_redis, cw_published = []\<rparr>" and ?env = "calm_env sample_calls 0 ''op'' empty_redis"
  have ne: "cw_redis (snd (Handle sample_calls ?env ''op'' sample_initiate ?w)) \<noteq> cw_redis ?w"
    unfolding sample_ringing_def [symmetric] using sample_lookup by (auto simp: GetSession_def live_def empty_redis_fields)
  have "call_run sample_calls 0 sample_ringing hour sample_ringing" by (rule time [OF start]) simp
  then have run: "call_run sample_calls (he_commit ?env) (cw_redis (snd (Handle sample_calls ?env ''op'' sample_initiate ?w))) hour
      (cw_redis \<lparr>cw_redis = sample_ringing, cw_published = []\<rparr>)" by (simp add: sample_ringing_def)
  have sha: "cs_sha256hex sample_calls = (\<lambda>s. s)" by (rule ext) simp
  show ?thesis
    using call_operation_once [OF sample_service_ok ne run, of "calm_env sample_calls hour ''op'' empty_redis" sample_initiate undefined]
    unfolding sha by (simp add: expiry_after_def milliseconds_def)
qed

definition sample_online :: call_redis where
  "sample_online = sample_ringing\<lparr>rd_routes := [1 \<mapsto> ''df''], rd_leases := [1 \<mapsto> (''df|a'', minute)],
     rd_outbox := rd_outbox sample_ringing, rd_ledger := rd_ledger sample_ringing\<rparr>"

definition sample_accept :: internal_request where
  "sample_accept = \<lparr>iq_from_kafka_topic = ''dg'', iq_user_id = 2,
     iq_request = Some (Some (Accept ''betterfly-call:op'' (Some \<lparr>ds_type = ''answer'', ds_sdp = ''w''\<rparr>)))\<rparr>"

theorem accept_makes_call_active_witness:
  "\<exists>w' s'. Handle sample_calls (calm_env sample_calls 0 ''op2'' sample_online) ''op2'' sample_accept
      \<lparr>cw_redis = sample_online, cw_published = []\<rparr> = (None, w') \<and>
    GetSession 0 ''betterfly-call:op'' (cw_redis w') = Inr s' \<and> se_state s' = StateActive"
proof -
  let ?d = "\<lparr>ds_type = ''answer'', ds_sdp = ''w''\<rparr>"
  obtain err w' where h: "Handle sample_calls (calm_env sample_calls 0 ''op2'' sample_online) ''op2'' sample_accept
      \<lparr>cw_redis = sample_online, cw_published = []\<rparr> = (err, w')" by fastforce
  have run: "call_run sample_calls 0 empty_redis 0 sample_online" unfolding sample_online_def by (rule others [OF sample_run])
  have s: "GetSession 0 ''betterfly-call:op'' sample_online = Inr sample_session"
    using sample_lookup by (simp add: GetSession_def sample_online_def)
  have v: "validDescription (Some ?d) ''answer''" "TrimSpace ''betterfly-call:op'' \<noteq> []" by code_simp+
  have topic: "UserTopic 0 (se_caller sample_session) sample_online = Inr ''df''"
    by (simp add: UserTopic_def sample_online_def live_def HasPrefix_iff)
  obtain events where e: "sample_ringing = record_operation 0 (milliseconds (30 * 24 * hour)) ''call:operation:op'' events
     (create_effect 0 sample_session 45000 105000 45 empty_redis)" using sample_ringing_eq by blast
  have "\<not> OperationCompleted (cs_sha256hex sample_calls) 0 ''op2'' sample_online"
    unfolding sample_online_def e
    by (simp add: OperationCompleted_def live_flag_def callOperationKey_def create_effect_def empty_redis_fields)
  then show ?thesis
    using accept_makes_call_active [OF run sample_service_ok s _ _ _ _ _ _ v(2,1) topic _ _ _ _ refl h] h
    by (auto simp: sample_accept_def)
qed

end
