(* ===== verification/Call_Sweep.thy ===== *)
theory Call_Sweep
  imports Call_Guarantees
begin

text \<open>
  The sweeper ends what nobody answered: a round without faults settles every due member of the deadline
  set, and the loop of the Kafka consumer keeps the promises of the call service.
\<close>

section \<open>The deadline set\<close>

lemma zadd_distinct: "distinct (map fst z) \<Longrightarrow> distinct (map fst (zadd m s z))"
  by (auto simp: zadd_def distinct_map_filter)

lemma zrem_distinct: "distinct (map fst z) \<Longrightarrow> distinct (map fst (zrem m z))"
  by (simp add: zrem_def distinct_map_filter)

lemma zrem_members: "set (zrem m z) = {p \<in> set z. fst p \<noteq> m}"
  by (auto simp: zrem_def)

lemma deadlines_distinct_commits:
  "commits svc u now t operation r r' \<Longrightarrow> distinct (map fst (rd_deadlines r)) \<Longrightarrow> distinct (map fst (rd_deadlines r'))"
  by (induction rule: commits.induct) (simp_all add: create_effect_def transition_effect_def zadd_distinct zrem_distinct)

lemma deadlines_distinct_run:
  assumes "call_run svc t\<^sub>0 r\<^sub>0 t r" "service_ok svc" "distinct (map fst (rd_deadlines r\<^sub>0))"
  shows "distinct (map fst (rd_deadlines r))"
  by (rule call_run_induct [OF assms(1,2), where P = "\<lambda>_ r. distinct (map fst (rd_deadlines r))"])
     (simp_all add: assms(3) zrem_distinct deadlines_distinct_commits)

lemma due_ids_distinct: "distinct (map fst (rd_deadlines r)) \<Longrightarrow> distinct (due_ids now limit r)"
  unfolding due_ids_def by (intro distinct_take) (auto simp: distinct_map intro: inj_on_subset)

section \<open>A round\<close>

definition due_session :: "instant \<Rightarrow> call_redis \<Rightarrow> string \<Rightarrow> bool" where
  "due_session t r i = (case GetSession t i r of Inr s \<Rightarrow> ring_expired t s | Inl _ \<Rightarrow> False)"

definition kept_deadlines :: "instant \<Rightarrow> call_redis \<Rightarrow> string list \<Rightarrow> (string \<times> int) list \<Rightarrow> (string \<times> int) list" where
  "kept_deadlines t r ids d = filter (\<lambda>(i, _). \<not> (i \<in> set ids \<and> \<not> due_session t r i)) d"

lemma GetSession_error: "GetSession t i r = Inl e \<Longrightarrow> e = ErrCallNotFound"
  by (simp add: GetSession_def split: option.splits)

lemma collect_calm:
  "collect_expired (\<lambda>i. GetSession t i r) t ids r' =
     ((map (\<lambda>i. projr (GetSession t i r)) (filter (due_session t r) ids), None),
      r'\<lparr>rd_deadlines := kept_deadlines t r ids (rd_deadlines r')\<rparr>)"
proof (induction ids arbitrary: r')
  case (Cons i ids)
  have k: "kept_deadlines t r ids (zrem i d) = kept_deadlines t r (i # ids) d" if "\<not> due_session t r i" for d
    using that by (auto simp: kept_deadlines_def zrem_def intro: filter_cong)
  have k': "kept_deadlines t r ids d = kept_deadlines t r (i # ids) d" if "due_session t r i" for d
    using that by (auto simp: kept_deadlines_def intro: filter_cong)
  show ?case
  proof (cases "GetSession t i r")
    case (Inl e)
    then have n: "\<not> due_session t r i" by (simp add: due_session_def)
    show ?thesis using Inl GetSession_error [OF Inl] n k [OF n] Cons.IH [of "r'\<lparr>rd_deadlines := zrem i (rd_deadlines r')\<rparr>"] by simp
  next
    case (Inr s)
    then have d: "due_session t r i \<longleftrightarrow> ring_expired t s" by (simp add: due_session_def)
    show ?thesis using Inr d k k' Cons.IH [of r'] Cons.IH [of "r'\<lparr>rd_deadlines := zrem i (rd_deadlines r')\<rparr>"]
      by (cases "ring_expired t s") simp_all
  qed
qed (simp add: kept_deadlines_def)

lemma UserTopic_errors: "UserTopic t u r = Inl e \<Longrightarrow> e = ErrUserOffline"
  by (auto simp: UserTopic_def split: option.splits if_splits)

lemma timeout_events_ok:
  assumes "\<And>p. \<exists>b. cs_marshal svc p = Inr b"
  shows "\<exists>evs. timeout_events svc t op s' (reads_of t r) targets = Inr evs"
proof (induction targets)
  case (Cons x targets)
  then show ?case using UserTopic_errors [of t "fst x" r]
    by (cases x) (auto simp: timeout_events.simps pendingCallDelivery_ok [OF assms] reads_of_def split: sum.split)
qed (simp add: timeout_events.simps)

lemma timeout_operation_inject: "timeout_operation s = timeout_operation s' \<Longrightarrow> se_id s = se_id s'"
proof -
  assume "timeout_operation s = timeout_operation s'"
  then have "rev (timeout_operation s) = rev (timeout_operation s')" by simp
  then have "rev (itoa (se_ring_deadline s)) @ CHR '':'' # rev (''call-timeout:'' @ se_id s) =
      rev (itoa (se_ring_deadline s')) @ CHR '':'' # rev (''call-timeout:'' @ se_id s')" by (simp add: timeout_operation_def)
  then have "rev (''call-timeout:'' @ se_id s) = rev (''call-timeout:'' @ se_id s')"
    by (subst (asm) append_sep_inject) (simp_all add: itoa_no_colon)
  then show ?thesis by simp
qed

text \<open>What one timeout does to the state.\<close>

definition timeout_effect :: "call_service \<Rightarrow> instant \<Rightarrow> session \<Rightarrow> call_pending_event list \<Rightarrow> call_redis \<Rightarrow> call_redis" where
  "timeout_effect svc t s events r = record_operation t (operationMs svc) (operation_key svc (timeout_operation s)) events
     (transition_effect t (timed_out t s) (milliseconds (rs_terminatedTTL (cs_store svc))) True r)"

lemma timed_out_fields [simp]:
  "se_id (timed_out t s) = se_id s" "se_caller (timed_out t s) = se_caller s" "se_callee (timed_out t s) = se_callee s"
  "se_state (timed_out t s) = StateEnded"
  by (simp_all add: timed_out_def ended_session_def)

lemma del_if_freed: "live t (del_if t i v (del_if t i u m)) w \<noteq> Some i" if "w = u \<or> w = v"
  using that by (auto simp: del_if_def live_def split: option.splits if_splits)

lemma del_if_le: "live t (del_if t i u m) w = Some j \<Longrightarrow> live t m w = Some j"
  by (auto simp: del_if_def live_def split: if_splits)

lemma timeout_effect_facts:
  assumes "0 < milliseconds (rs_terminatedTTL (cs_store svc))" "r' = timeout_effect svc t s events r"
  shows "live_sessions t r' = (live_sessions t r)(se_id s \<mapsto> timed_out t s)"
    and "set (rd_deadlines r') = {p \<in> set (rd_deadlines r). fst p \<noteq> se_id s}"
    and "participant u s \<Longrightarrow> live t (rd_user_calls r') u \<noteq> Some (se_id s)"
    and "live t (rd_user_calls r') u = Some j \<Longrightarrow> live t (rd_user_calls r) u = Some j"
    and "rd_routes r' = rd_routes r" "rd_leases r' = rd_leases r"
    and "inj (cs_sha256hex svc) \<Longrightarrow> op \<noteq> timeout_operation s \<Longrightarrow>
      OperationCompleted (cs_sha256hex svc) t op r' = OperationCompleted (cs_sha256hex svc) t op r"
  using assms del_if_freed [of u "se_caller s" "se_callee s" t "se_id s" "rd_user_calls r"]
    del_if_le [of t "se_id s" "se_callee s" _ u j] del_if_le [of t "se_id s" "se_caller s" "rd_user_calls r" u j]
  by (auto simp: timeout_effect_def live_sessions_def transition_effect_def live_update expiry_after_live zrem_members
      participant_def OperationCompleted_def live_flag_def callOperationKey_def inj_eq record_operation_def xadd_def)

lemma sweep_fires:
  assumes "service_ok svc" "0 < milliseconds (rs_terminatedTTL (cs_store svc))" "\<And>p. \<exists>b. cs_marshal svc p = Inr b"
    and "live_sessions t r (se_id s) = Some s" "\<not> OperationCompleted (cs_sha256hex svc) t (timeout_operation s) r"
  shows "\<exists>events. sweep_sessions svc t (\<lambda>_. reads_of t r\<^sub>0) (\<lambda>_. NoFault) (\<lambda>_. t) (s # ss) r =
    sweep_sessions svc t (\<lambda>_. reads_of t r\<^sub>0) (\<lambda>_. NoFault) (\<lambda>_. t) ss (timeout_effect svc t s events r)"
proof -
  obtain events where e: "timeout_events svc t (timeout_operation s) (timed_out t s) (reads_of t r\<^sub>0)
      [(se_caller s, se_callee s), (se_callee s, se_caller s)] = Inr events" using timeout_events_ok [OF assms(3)] by blast
  have ttl: "transition_ttl (cs_store svc) t (timed_out t s) = rs_terminatedTTL (cs_store svc)" by (simp add: transition_ttl_def)
  have "TransitionSessionWithEvents (cs_store svc) (cs_sha256hex svc) NoFault t s (timed_out t s) True (timeout_operation s) events r =
      (Inr False, timeout_effect svc t s events r)"
    using Transition_fires [OF assms(1,5), of "timed_out t s" s True events] assms(2,4) by (simp add: ttl timeout_effect_def)
  then show ?thesis by (intro exI [of _ events]) (simp add: sweep_sessions_step e)
qed

lemma sweep_calm:
  assumes ok: "service_ok svc" "0 < milliseconds (rs_terminatedTTL (cs_store svc))" "\<And>p. \<exists>b. cs_marshal svc p = Inr b"
    "inj (cs_sha256hex svc)"
  shows "distinct (map se_id ss) \<Longrightarrow>
    \<forall>s\<in>set ss. live_sessions t r (se_id s) = Some s \<and> \<not> OperationCompleted (cs_sha256hex svc) t (timeout_operation s) r \<Longrightarrow>
    \<exists>r'. sweep_sessions svc t (\<lambda>_. reads_of t r\<^sub>0) (\<lambda>_. NoFault) (\<lambda>_. t) ss r = (None, r') \<and>
      set (rd_deadlines r') = {p \<in> set (rd_deadlines r). fst p \<notin> se_id ` set ss} \<and>
      (\<forall>op. op \<notin> timeout_operation ` set ss \<longrightarrow>
         OperationCompleted (cs_sha256hex svc) t op r' = OperationCompleted (cs_sha256hex svc) t op r) \<and>
      (\<forall>i. i \<notin> se_id ` set ss \<longrightarrow> live_sessions t r' i = live_sessions t r i) \<and>
      (\<forall>u j. live t (rd_user_calls r') u = Some j \<longrightarrow> live t (rd_user_calls r) u = Some j) \<and>
      (\<forall>s\<in>set ss. live_sessions t r' (se_id s) = Some (timed_out t s) \<and>
         (\<forall>u. participant u s \<longrightarrow> live t (rd_user_calls r') u \<noteq> Some (se_id s)))"
proof (induction ss arbitrary: r)
  case (Cons s ss)
  from Cons.prems(2) obtain events where f: "sweep_sessions svc t (\<lambda>_. reads_of t r\<^sub>0) (\<lambda>_. NoFault) (\<lambda>_. t) (s # ss) r =
      sweep_sessions svc t (\<lambda>_. reads_of t r\<^sub>0) (\<lambda>_. NoFault) (\<lambda>_. t) ss (timeout_effect svc t s events r)"
    using sweep_fires [OF ok(1-3), of t r s r\<^sub>0 ss] by auto
  define r1 where "r1 = timeout_effect svc t s events r"
  note eff = timeout_effect_facts [OF ok(2) r1_def]
  have ne: "se_id s' \<noteq> se_id s" if "s' \<in> set ss" for s'
    using Cons.prems(1) imageI [OF that, of se_id] by auto
  have pre: "\<forall>s\<in>set ss. live_sessions t r1 (se_id s) = Some s \<and> \<not> OperationCompleted (cs_sha256hex svc) t (timeout_operation s) r1"
  proof
    fix s' assume "s' \<in> set ss"
    with Cons.prems(2) ne [of s'] eff(7) [OF ok(4), of "timeout_operation s'"] timeout_operation_inject [of s' s]
    show "live_sessions t r1 (se_id s') = Some s' \<and> \<not> OperationCompleted (cs_sha256hex svc) t (timeout_operation s') r1"
      by (auto simp: eff(1))
  qed
  obtain r' where r': "sweep_sessions svc t (\<lambda>_. reads_of t r\<^sub>0) (\<lambda>_. NoFault) (\<lambda>_. t) ss r1 = (None, r')"
      "set (rd_deadlines r') = {p \<in> set (rd_deadlines r1). fst p \<notin> se_id ` set ss}"
      "\<forall>op. op \<notin> timeout_operation ` set ss \<longrightarrow>
         OperationCompleted (cs_sha256hex svc) t op r' = OperationCompleted (cs_sha256hex svc) t op r1"
      "\<forall>i. i \<notin> se_id ` set ss \<longrightarrow> live_sessions t r' i = live_sessions t r1 i"
      "\<forall>u j. live t (rd_user_calls r') u = Some j \<longrightarrow> live t (rd_user_calls r1) u = Some j"
      "\<forall>s\<in>set ss. live_sessions t r' (se_id s) = Some (timed_out t s) \<and>
         (\<forall>u. participant u s \<longrightarrow> live t (rd_user_calls r') u \<noteq> Some (se_id s))"
    using Cons.IH [OF _ pre] Cons.prems(1) by auto
  have notin: "se_id s \<notin> se_id ` set ss" using Cons.prems(1) by simp
  show ?case
  proof (intro exI [of _ r'] conjI allI impI)
    show "set (rd_deadlines r') = {p \<in> set (rd_deadlines r). fst p \<notin> se_id ` set (s # ss)}" by (auto simp: r'(2) eff(2))
    show "OperationCompleted (cs_sha256hex svc) t op r' = OperationCompleted (cs_sha256hex svc) t op r"
      if "op \<notin> timeout_operation ` set (s # ss)" for op
      using that r'(3) eff(7) [OF ok(4), of op] by simp
    show "live_sessions t r' i = live_sessions t r i" if "i \<notin> se_id ` set (s # ss)" for i using that r'(4) by (simp add: eff(1))
    show "live t (rd_user_calls r) u = Some j" if "live t (rd_user_calls r') u = Some j" for u j using that r'(5) eff(4) by blast
    have "live_sessions t r' (se_id s) = Some (timed_out t s)" using r'(4) notin by (simp add: eff(1))
    moreover have "live t (rd_user_calls r') u \<noteq> Some (se_id s)" if "participant u s" for u using r'(5) eff(3) [OF that] by blast
    ultimately show "\<forall>s\<in>set (s # ss). live_sessions t r' (se_id s) = Some (timed_out t s) \<and>
        (\<forall>u. participant u s \<longrightarrow> live t (rd_user_calls r') u \<noteq> Some (se_id s))" using r'(6) by auto
  qed (simp add: f r'(1) flip: r1_def)
qed simp

section \<open>The consumer\<close>

definition call_consumer :: "call_world consumer_env \<Rightarrow> bool" where
  "call_consumer env \<longleftrightarrow>
     (\<exists>svc codec. service_ok svc \<and> (\<forall>op m w. \<exists>he. ce_process env op m w = call_process svc codec he op m w)) \<and>
     (\<forall>publish topic v hs w. ce_publish env = Some publish \<longrightarrow> cw_redis (snd (publish topic v hs w)) = cw_redis w)"

lemma operations_kept_refl: "operations_kept r r"
  by (auto simp: operations_kept_def)

lemma call_process_redis:
  "cw_redis (snd (call_process svc codec he op m w)) = cw_redis w \<or>
   (\<exists>request. cw_redis (snd (call_process svc codec he op m w)) = cw_redis (snd (Handle svc he op request w))) \<or>
   (\<exists>result. cw_redis (snd (call_process svc codec he op m w)) = cw_redis (snd (HandlePushResult svc he op result w)))"
  by (auto simp: call_process_def split: sum.split prod.split call_message_type.split option.split) (metis snd_conv)+

lemma call_process_kept: "service_ok svc \<Longrightarrow> operations_kept (cw_redis w) (cw_redis (snd (call_process svc codec he op m w)))"
  using call_process_redis [of svc codec he op m w] operations_kept_commits [OF Handle_commits]
    operations_kept_commits [OF HandlePushResult_commits]
  by (metis operations_kept_commits unchanged)

interpretation call: consumer_contract "\<lambda>w w'. operations_kept (cw_redis w) (cw_redis w')" call_consumer
proof
  show "operations_kept (cw_redis w) (cw_redis (snd (ce_process env (OperationKey m) m w)))" if "call_consumer env" for env m w
    using that call_process_kept by (metis call_consumer_def)
qed (auto simp: call_consumer_def operations_kept_refl intro: operations_kept_trans)

section \<open>A round, and several\<close>

text \<open>A round of \<^verbatim>\<open>SweepExpired\<close> without faults, whose reads see the current state.\<close>

definition calm_sweep :: "call_service \<Rightarrow> instant \<Rightarrow> call_redis \<Rightarrow> call_error option \<times> call_redis" where
  "calm_sweep svc t r = SweepExpired svc t None (\<lambda>_. reads_of t r) (\<lambda>_. NoFault) (\<lambda>_. t) r"

fun calm_sweeps :: "call_service \<Rightarrow> instant \<Rightarrow> nat \<Rightarrow> call_redis \<Rightarrow> call_error option \<times> call_redis" where
  "calm_sweeps svc t 0 r = (None, r)"
| "calm_sweeps svc t (Suc n) r =
     (case calm_sweep svc t r of (None, r1) \<Rightarrow> calm_sweeps svc t n r1 | (Some e, r1) \<Rightarrow> (Some e, r1))"

definition due_members :: "instant \<Rightarrow> call_redis \<Rightarrow> (string \<times> int) list" where
  "due_members t r = filter (\<lambda>(_, score). score \<le> t div second) (rd_deadlines r)"

lemma due_ids_members: "set (due_ids t 100 r) \<subseteq> fst ` set (due_members t r)"
  using set_take_subset by (fastforce simp: due_ids_def due_members_def image_iff)

lemma length_due_ids: "length (due_ids t 100 r) = min 100 (length (due_members t r))"
  by (simp add: due_ids_def due_members_def)

text \<open>What a round may rely on: a state the service has reached, and timeouts that have not been carried out.\<close>

definition timeouts_fresh :: "call_service \<Rightarrow> instant \<Rightarrow> call_redis \<Rightarrow> bool" where
  "timeouts_fresh svc t r \<longleftrightarrow> (\<forall>i s. GetSession t i r = Inr s \<longrightarrow> se_state s = StateRinging \<longrightarrow>
     \<not> OperationCompleted (cs_sha256hex svc) t (timeout_operation s) r)"

definition swept :: "instant \<Rightarrow> string set \<Rightarrow> call_redis \<Rightarrow> call_redis \<Rightarrow> bool" where
  "swept t ids r r' \<longleftrightarrow>
     (\<forall>i s. GetSession t i r = Inr s \<longrightarrow>
        (if i \<in> ids \<and> ring_expired t s
         then GetSession t i r' = Inr (timed_out t s) \<and> (\<forall>u. participant u s \<longrightarrow> live t (rd_user_calls r') u \<noteq> Some i)
         else GetSession t i r' = Inr s)) \<and>
     (\<forall>i e. GetSession t i r = Inl e \<longrightarrow> GetSession t i r' = Inl e) \<and>
     (\<forall>u j. live t (rd_user_calls r') u = Some j \<longrightarrow> live t (rd_user_calls r) u = Some j)"

lemma timed_out_expired [simp]: "\<not> ring_expired t (timed_out t s)"
  by (simp add: ring_expired_def)

lemma swept_refl: "swept t {} r r"
  by (simp add: swept_def)

lemma swept_trans:
  assumes "swept t A r r1" "swept t B r1 r'"
  shows "swept t (A \<union> B) r r'"
  unfolding swept_def
proof (intro conjI allI impI)
  fix i s assume s: "GetSession t i r = Inr s"
  show "if i \<in> A \<union> B \<and> ring_expired t s
      then GetSession t i r' = Inr (timed_out t s) \<and> (\<forall>u. participant u s \<longrightarrow> live t (rd_user_calls r') u \<noteq> Some i)
      else GetSession t i r' = Inr s"
  proof (cases "i \<in> A \<and> ring_expired t s")
    case True
    then have g: "GetSession t i r1 = Inr (timed_out t s)" and f: "\<forall>u. participant u s \<longrightarrow> live t (rd_user_calls r1) u \<noteq> Some i"
      using assms(1) s by (simp_all add: swept_def)
    have "GetSession t i r' = Inr (timed_out t s)" using assms(2) g by (auto simp: swept_def split: if_splits)
    moreover have "\<forall>u. participant u s \<longrightarrow> live t (rd_user_calls r') u \<noteq> Some i" using assms(2) f by (auto simp: swept_def)
    ultimately show ?thesis using True by simp
  next
    case False
    then have "GetSession t i r1 = Inr s" using assms(1) s by (auto simp: swept_def split: if_splits)
    then show ?thesis using assms(2) False by (auto simp: swept_def)
  qed
qed (use assms in \<open>auto simp: swept_def\<close>)

lemma calm_sweep_round:
  assumes run: "call_run svc t\<^sub>0 empty_redis t r" "service_ok svc"
    and ok: "millisecond \<le> rs_terminatedTTL (cs_store svc)" "\<And>p. \<exists>b. cs_marshal svc p = Inr b" "inj (cs_sha256hex svc)"
    and fresh: "timeouts_fresh svc t r"
  shows "\<exists>r'. calm_sweep svc t r = (None, r') \<and> call_run svc t\<^sub>0 empty_redis t r' \<and> timeouts_fresh svc t r' \<and>
    set (rd_deadlines r') = {p \<in> set (rd_deadlines r). fst p \<notin> set (due_ids t 100 r)} \<and> swept t (set (due_ids t 100 r)) r r'"
proof -
  let ?ids = "due_ids t 100 r"
  define ss where "ss = map (\<lambda>i. projr (GetSession t i r)) (filter (due_session t r) ?ids)"
  define r1 where "r1 = r\<lparr>rd_deadlines := kept_deadlines t r ?ids (rd_deadlines r)\<rparr>"
  have inv: "call_inv t r" by (rule call_inv_run [OF run]) (simp add: call_inv_def empty_redis_def)
  have id: "se_id s = i" if "GetSession t i r = Inr s" for i s
    using inv that by (auto simp: call_inv_def session_inv_def GetSession_iff live_sessions_def live_Some)
  have due: "\<exists>s. GetSession t i r = Inr s \<and> ring_expired t s \<and> se_id s = i" if "due_session t r i" for i
    using that id by (auto simp: due_session_def split: sum.splits)
  have ids: "map se_id ss = filter (due_session t r) ?ids"
    unfolding ss_def map_map by (rule map_idI) (use due in fastforce)
  have dist: "distinct (map se_id ss)" unfolding ids
    by (intro distinct_filter due_ids_distinct deadlines_distinct_run [OF run]) (simp add: empty_redis_def)
  have ls1: "live_sessions t r1 = live_sessions t r" by (simp add: r1_def live_sessions_def)
  have oc1: "OperationCompleted (cs_sha256hex svc) t op r1 = OperationCompleted (cs_sha256hex svc) t op r" for op
    by (simp add: r1_def OperationCompleted_def)
  have mem: "GetSession t (se_id s) r = Inr s \<and> ring_expired t s \<and> se_id s \<in> set ?ids" if "s \<in> set ss" for s
    using that due by (fastforce simp: ss_def)
  have pre: "\<forall>s\<in>set ss. live_sessions t r1 (se_id s) = Some s \<and> \<not> OperationCompleted (cs_sha256hex svc) t (timeout_operation s) r1"
    using mem fresh by (auto simp: ls1 oc1 timeouts_fresh_def ring_expired_def simp flip: GetSession_iff)
  have ms: "0 < milliseconds (rs_terminatedTTL (cs_store svc))" using ok(1) by (simp add: milliseconds_def pos_imp_zdiv_pos_iff)
  obtain r' where r': "sweep_sessions svc t (\<lambda>_. reads_of t r) (\<lambda>_. NoFault) (\<lambda>_. t) ss r1 = (None, r')"
      "set (rd_deadlines r') = {p \<in> set (rd_deadlines r1). fst p \<notin> se_id ` set ss}"
      "\<forall>op. op \<notin> timeout_operation ` set ss \<longrightarrow>
         OperationCompleted (cs_sha256hex svc) t op r' = OperationCompleted (cs_sha256hex svc) t op r"
      "\<forall>i. i \<notin> se_id ` set ss \<longrightarrow> live_sessions t r' i = live_sessions t r i"
      "\<forall>u j. live t (rd_user_calls r') u = Some j \<longrightarrow> live t (rd_user_calls r) u = Some j"
      "\<forall>s\<in>set ss. live_sessions t r' (se_id s) = Some (timed_out t s) \<and>
         (\<forall>u. participant u s \<longrightarrow> live t (rd_user_calls r') u \<noteq> Some (se_id s))"
    using sweep_calm [OF run(2) ms ok(2,3) dist pre, of r] unfolding ls1 oc1 by (auto simp: r1_def)
  have calm: "calm_sweep svc t r = (None, r')"
    using collect_calm [of t r ?ids r] r'(1) by (simp add: calm_sweep_def SweepExpired_def ExpiredRinging_def reads_of_def ss_def r1_def)
  have same: "GetSession t i r' = GetSession t i r" if "i \<notin> se_id ` set ss" for i
    using r'(4) that by (simp add: GetSession_def live_sessions_def)
  have outside: "i \<in> se_id ` set ss \<longleftrightarrow> i \<in> set ?ids \<and> due_session t r i" for i
    using arg_cong [OF ids, of set] by auto
  have sw: "swept t (set ?ids) r r'"
    unfolding swept_def
  proof (intro conjI allI impI)
    fix i s assume s: "GetSession t i r = Inr s"
    then have d: "due_session t r i \<longleftrightarrow> ring_expired t s" by (simp add: due_session_def)
    show "if i \<in> set ?ids \<and> ring_expired t s
        then GetSession t i r' = Inr (timed_out t s) \<and> (\<forall>u. participant u s \<longrightarrow> live t (rd_user_calls r') u \<noteq> Some i)
        else GetSession t i r' = Inr s"
    proof (cases "i \<in> se_id ` set ss")
      case True
      then have "s \<in> set ss" using mem s by auto
      with r'(6) id [OF s] True d outside show ?thesis by (auto simp: GetSession_iff)
    next
      case False
      then show ?thesis using same s outside d by auto
    qed
  next
    show "GetSession t i r' = Inl e" if "GetSession t i r = Inl e" for i e
      using that same [of i] mem by (cases "i \<in> se_id ` set ss") auto
  qed (use r'(5) in blast)
  have "timeouts_fresh svc t r'" unfolding timeouts_fresh_def
  proof (intro allI impI)
    fix i s assume s: "GetSession t i r' = Inr s" "se_state s = StateRinging"
    have "i \<notin> se_id ` set ss" using r'(6) s by (auto simp: GetSession_iff)
    with s same [of i] have g: "GetSession t i r = Inr s" by simp
    have "timeout_operation s \<notin> timeout_operation ` set ss"
    proof
      assume "timeout_operation s \<in> timeout_operation ` set ss"
      then obtain s' where "s' \<in> set ss" "se_id s' = se_id s" using timeout_operation_inject by (metis imageE)
      with \<open>i \<notin> se_id ` set ss\<close> id [OF g] show False by (metis imageI)
    qed
    with r'(3) g s fresh show "\<not> OperationCompleted (cs_sha256hex svc) t (timeout_operation s) r'"
      by (simp add: timeouts_fresh_def)
  qed
  moreover have "call_run svc t\<^sub>0 empty_redis t r'"
    using SweepExpired_run [OF run(1)] calm by (metis calm_sweep_def snd_conv)
  moreover have "set (rd_deadlines r') = {p \<in> set (rd_deadlines r). fst p \<notin> set ?ids}"
    unfolding r'(2) by (auto simp: r1_def kept_deadlines_def outside)
  ultimately show ?thesis using calm sw by blast
qed

lemma calm_sweeps_drain:
  assumes "service_ok svc" "millisecond \<le> rs_terminatedTTL (cs_store svc)" "\<And>p. \<exists>b. cs_marshal svc p = Inr b" "inj (cs_sha256hex svc)"
  shows "call_run svc t\<^sub>0 empty_redis t r \<Longrightarrow> timeouts_fresh svc t r \<Longrightarrow> length (due_members t r) \<le> 100 * n \<Longrightarrow>
    \<exists>r'. calm_sweeps svc t n r = (None, r') \<and> due_members t r' = [] \<and> swept t (fst ` set (due_members t r)) r r'"
proof (induction n arbitrary: r)
  case (Suc n)
  let ?ids = "set (due_ids t 100 r)"
  obtain r1 where r1: "calm_sweep svc t r = (None, r1)" "call_run svc t\<^sub>0 empty_redis t r1" "timeouts_fresh svc t r1"
    "set (rd_deadlines r1) = {p \<in> set (rd_deadlines r). fst p \<notin> ?ids}" "swept t ?ids r r1"
    using calm_sweep_round [OF Suc.prems(1) assms Suc.prems(2)] by blast
  have d: "distinct (map fst (due_members t x))" if "call_run svc t\<^sub>0 empty_redis t x" for x
    unfolding due_members_def
    by (rule distinct_map_filter) (use deadlines_distinct_run [OF that assms(1)] in \<open>simp add: empty_redis_def\<close>)
  have len: "length (due_members t x) = card (fst ` set (due_members t x))" if "call_run svc t\<^sub>0 empty_redis t x" for x
    using distinct_card [OF d [OF that]] by simp
  have members: "fst ` set (due_members t r1) = fst ` set (due_members t r) - ?ids" by (auto simp: due_members_def r1(4) image_iff)
  have "card ?ids = min 100 (length (due_members t r))"
    using distinct_card [OF due_ids_distinct] deadlines_distinct_run [OF Suc.prems(1) assms(1)] length_due_ids by (simp add: empty_redis_def)
  then have "length (due_members t r1) \<le> 100 * n"
    using Suc.prems(3) by (simp add: len [OF r1(2)] members card_Diff_subset [OF _ due_ids_members] flip: len [OF Suc.prems(1)])
  with Suc.IH [OF r1(2,3)] obtain r' where "calm_sweeps svc t n r1 = (None, r')" "due_members t r' = []"
    "swept t (fst ` set (due_members t r1)) r1 r'" by blast
  moreover have "?ids \<union> fst ` set (due_members t r1) = fst ` set (due_members t r)"
    unfolding members using due_ids_members by blast
  then have "swept t (fst ` set (due_members t r)) r x" if "swept t (fst ` set (due_members t r1)) r1 x" for x
    using swept_trans [OF r1(5) that] by simp
  ultimately show ?case using r1(1) by auto
qed (simp add: swept_refl)

section \<open>Properties\<close>

text \<open>
  C17. Unanswered calls end. A round of the sweeper without faults ends every ringing session past its
  deadline that is among the first 100 due identifiers, frees both its users, changes no other session,
  and takes exactly these identifiers out of the deadline set; \<open>n\<close> such rounds at the same time do so for
  all due identifiers if there are at most \<open>100 n\<close> of them. The set counts whole seconds: an identifier
  whose session expires later in the current second is due and is taken out, too, but its session is
  left ringing, and no later round finds it. SHA-256 is taken as free of collisions, the timeouts of
  ringing sessions have not been recorded as completed before, and terminated sessions are kept for a
  millisecond at least.
\<close>

theorem sweep_ends_unanswered:
  assumes run: "call_run svc t\<^sub>0 empty_redis t r" "service_ok svc"
    and ok: "millisecond \<le> rs_terminatedTTL (cs_store svc)" "\<And>p. \<exists>b. cs_marshal svc p = Inr b" "inj (cs_sha256hex svc)"
    and fresh: "\<And>i s. GetSession t i r = Inr s \<Longrightarrow> se_state s = StateRinging \<Longrightarrow>
      \<not> OperationCompleted (cs_sha256hex svc) t (timeout_operation s) r"
  shows "(\<exists>r'. SweepExpired svc t None (\<lambda>_. reads_of t r) (\<lambda>_. NoFault) (\<lambda>_. t) r = (None, r') \<and>
      set (rd_deadlines r') = {p \<in> set (rd_deadlines r). fst p \<notin> set (due_ids t 100 r)} \<and>
      (\<forall>i s. GetSession t i r = Inr s \<longrightarrow>
         (if i \<in> set (due_ids t 100 r) \<and> ring_expired t s
          then GetSession t i r' = Inr (timed_out t s) \<and> (\<forall>u. participant u s \<longrightarrow> live t (rd_user_calls r') u \<noteq> Some i)
          else GetSession t i r' = Inr s))) \<and>
    (\<forall>n. length (due_members t r) \<le> 100 * n \<longrightarrow>
      (\<exists>r'. calm_sweeps svc t n r = (None, r') \<and> due_members t r' = [] \<and>
        (\<forall>i s. GetSession t i r = Inr s \<longrightarrow>
           (if i \<in> fst ` set (due_members t r) \<and> ring_expired t s
            then GetSession t i r' = Inr (timed_out t s) \<and> (\<forall>u. participant u s \<longrightarrow> live t (rd_user_calls r') u \<noteq> Some i)
            else GetSession t i r' = Inr s))))"
proof -
  have f: "timeouts_fresh svc t r" using fresh by (auto simp: timeouts_fresh_def)
  obtain r' where one: "calm_sweep svc t r = (None, r')" "swept t (set (due_ids t 100 r)) r r'"
    "set (rd_deadlines r') = {p \<in> set (rd_deadlines r). fst p \<notin> set (due_ids t 100 r)}"
    using calm_sweep_round [OF run ok f] by blast
  show ?thesis
  proof (intro conjI allI impI)
    fix n assume "length (due_members t r) \<le> 100 * n"
    from calm_sweeps_drain [OF run(2) ok run(1) f this]
    show "\<exists>r'. calm_sweeps svc t n r = (None, r') \<and> due_members t r' = [] \<and>
        (\<forall>i s. GetSession t i r = Inr s \<longrightarrow>
           (if i \<in> fst ` set (due_members t r) \<and> ring_expired t s
            then GetSession t i r' = Inr (timed_out t s) \<and> (\<forall>u. participant u s \<longrightarrow> live t (rd_user_calls r') u \<noteq> Some i)
            else GetSession t i r' = Inr s))"
      unfolding swept_def by blast
  qed (use one in \<open>unfold swept_def calm_sweep_def, blast\<close>)
qed

theorem sweep_ends_unanswered_witness:
  "\<exists>r'. SweepExpired sample_calls (50 * second) None (\<lambda>_. reads_of (50 * second) sample_ringing) (\<lambda>_. NoFault) (\<lambda>_. 50 * second)
       sample_ringing = (None, r') \<and>
     rd_deadlines r' = [] \<and> GetSession (50 * second) ''betterfly-call:op'' r' = Inr (timed_out (50 * second) sample_session)"
proof -
  obtain events where e: "sample_ringing = record_operation 0 (milliseconds (30 * 24 * hour)) ''call:operation:op'' events
     (create_effect 0 sample_session 45000 105000 45 empty_redis)" using sample_ringing_eq by blast
  have run: "call_run sample_calls 0 empty_redis (50 * second) sample_ringing" by (rule time [OF sample_run]) simp
  have s: "GetSession (50 * second) ''betterfly-call:op'' sample_ringing = Inr sample_session"
    unfolding e by (simp add: GetSession_def create_effect_def live_def expiry_after_def)
  have fresh: "\<not> OperationCompleted (cs_sha256hex sample_calls) (50 * second) (timeout_operation x) sample_ringing" for x
    unfolding e by (simp add: OperationCompleted_def live_flag_def callOperationKey_def create_effect_def empty_redis_fields timeout_operation_def)
  have d: "rd_deadlines sample_ringing = [(''betterfly-call:op'', 45)]"
    unfolding e by (simp add: create_effect_def zadd_def empty_redis_def)
  then have ids: "due_ids (50 * second) 100 sample_ringing = [''betterfly-call:op'']" by (simp add: due_ids_def)
  have sha: "inj (cs_sha256hex sample_calls)" by (simp add: inj_on_def)
  have ttl: "millisecond \<le> rs_terminatedTTL (cs_store sample_calls)" by (simp add: sample_calls_def NewRedisStore_def callDurationEnv_def)
  have "ring_expired (50 * second) sample_session" by (simp add: ring_expired_def)
  have "\<exists>b. cs_marshal sample_calls p = Inr b" for p by simp
  from sweep_ends_unanswered [OF run sample_service_ok ttl this sha fresh, THEN conjunct1]
  obtain r' where r': "SweepExpired sample_calls (50 * second) None (\<lambda>_. reads_of (50 * second) sample_ringing) (\<lambda>_. NoFault)
      (\<lambda>_. 50 * second) sample_ringing = (None, r')"
      "set (rd_deadlines r') = {p \<in> set (rd_deadlines sample_ringing). fst p \<notin> set (due_ids (50 * second) 100 sample_ringing)}"
      "\<forall>i s. GetSession (50 * second) i sample_ringing = Inr s \<longrightarrow>
         (if i \<in> set (due_ids (50 * second) 100 sample_ringing) \<and> ring_expired (50 * second) s
          then GetSession (50 * second) i r' = Inr (timed_out (50 * second) s) \<and>
            (\<forall>u. participant u s \<longrightarrow> live (50 * second) (rd_user_calls r') u \<noteq> Some i)
          else GetSession (50 * second) i r' = Inr s)" by blast
  have "GetSession (50 * second) ''betterfly-call:op'' r' = Inr (timed_out (50 * second) sample_session)"
    using r'(3) [rule_format, OF s] \<open>ring_expired (50 * second) sample_session\<close> unfolding ids by (meson list.set_intros(1))
  moreover have "set (rd_deadlines r') = {}" using r'(2) unfolding ids d by auto
  then have "rd_deadlines r' = []" by simp
  ultimately show ?thesis using r'(1) by blast
qed

end
