(* ===== verification/Call_Relay.thy ===== *)
theory Call_Relay
  imports Call_Store Kafka_Consumer
begin

text \<open>
  \<^verbatim>\<open>services/callService/internal/call/event_relay.go\<close>: the events that the call scripts add to the Redis stream
  are read by a consumer group, published to Kafka and only then recorded in a ledger, acknowledged and
  deleted, in one Redis transaction. Kafka is a list of the records it accepted; a publication may fail,
  also after Kafka accepted the record.
\<close>

section \<open>The relay\<close>

record call_record =
  kr_topic :: string
  kr_payload :: bytes
  kr_headers :: "(string \<times> bytes) list"

text \<open>The stream is in the Redis state; the group has delivered the entries below \<open>ev_last\<close>, of which \<open>ev_pending\<close> are unacknowledged.\<close>

record relay_state =
  ev_redis :: call_redis
  ev_pending :: "nat set"
  ev_last :: nat
  ev_sent :: "call_record list"

datatype publish_outcome = Published | Refused string | PublishedUnknown string

record relay_faults =
  rf_ledger :: "string option"
  rf_publish :: publish_outcome
  rf_commit :: redis_fault
  rf_ack :: redis_fault

definition relay_ledgerTTL :: "duration option \<Rightarrow> duration option \<Rightarrow> duration" where
  "relay_ledgerTTL replayEnv retentionEnv =
     (let replayWindow = callDurationEnv replayEnv (7 * 24 * hour); ledgerTTL = callDurationEnv retentionEnv (30 * 24 * hour)
      in if ledgerTTL \<le> replayWindow then replayWindow + 24 * hour else ledgerTTL)"

definition event_record :: "call_pending_event \<Rightarrow> call_record" where
  "event_record e = \<lparr>kr_topic = ce_topic e, kr_payload = ce_payload e,
     kr_headers = [(''event_id'', ce_event_id e), (''operation_key'', ce_operation_key e), (''outbox_service'', ''call'')]\<rparr>"

definition well_formed :: "call_pending_event \<Rightarrow> bool" where
  "well_formed e \<longleftrightarrow> \<not> (ce_event_id e = [] \<or> ce_topic e = [] \<or> ce_payload e = [])"

definition publish_record :: "publish_outcome \<Rightarrow> call_record \<Rightarrow> relay_state \<Rightarrow> string option \<times> relay_state" where
  "publish_record outcome k st =
     (case outcome of
        Published \<Rightarrow> (None, st\<lparr>ev_sent := ev_sent st @ [k]\<rparr>)
      | Refused e \<Rightarrow> (Some e, st)
      | PublishedUnknown e \<Rightarrow> (Some e, st\<lparr>ev_sent := ev_sent st @ [k]\<rparr>))"

definition redis_outcome :: "redis_fault \<Rightarrow> (relay_state \<Rightarrow> relay_state) \<Rightarrow> relay_state \<Rightarrow> string option \<times> relay_state" where
  "redis_outcome fault f st =
     (case fault of NoFault \<Rightarrow> (None, f st) | RequestLost \<Rightarrow> (Some ''connection'', st) | ReplyLost \<Rightarrow> (Some ''connection'', f st))"

definition xack :: "nat \<Rightarrow> relay_state \<Rightarrow> relay_state" where
  "xack i st = st\<lparr>ev_pending := ev_pending st - {i}\<rparr>"

text \<open>The transaction: the ledger entry, the acknowledgement and the deletion.\<close>

definition settle :: "duration \<Rightarrow> instant \<Rightarrow> nat \<Rightarrow> call_pending_event \<Rightarrow> relay_state \<Rightarrow> relay_state" where
  "settle ledgerTTL now i e st =
     (xack i st)\<lparr>ev_redis := (ev_redis st)\<lparr>rd_ledger := (rd_ledger (ev_redis st))(ce_event_id e \<mapsto> now + ledgerTTL),
                                          rd_outbox := filter (\<lambda>(j, _). j \<noteq> i) (rd_outbox (ev_redis st))\<rparr>\<rparr>"

text \<open>The publication, unless the ledger shows that the event has been sent.\<close>

definition ensure_published :: "instant \<Rightarrow> publish_outcome \<Rightarrow> call_pending_event \<Rightarrow> relay_state \<Rightarrow> string option \<times> relay_state" where
  "ensure_published now outcome e st =
     (if live_flag now (rd_ledger (ev_redis st)) (ce_event_id e) then (None, st)
      else publish_record outcome (event_record e) st)"

definition process_event :: "duration \<Rightarrow> instant \<Rightarrow> relay_faults \<Rightarrow> nat \<Rightarrow> call_pending_event \<Rightarrow> relay_state \<Rightarrow> string option \<times> relay_state" where
  "process_event ledgerTTL now f i e st =
     (if \<not> well_formed e then redis_outcome (rf_ack f) (xack i) st
      else
        (case rf_ledger f of
           Some err \<Rightarrow> (Some err, st)
         | None \<Rightarrow>
             (case ensure_published now (rf_publish f) e st of
                (Some err, st1) \<Rightarrow> (Some err, st1)
              | (None, st1) \<Rightarrow> redis_outcome (rf_commit f) (settle ledgerTTL now i e) st1)))"

fun relay_process ::
  "duration \<Rightarrow> instant \<Rightarrow> (nat \<Rightarrow> relay_faults) \<Rightarrow> (nat \<times> call_pending_event) list \<Rightarrow> relay_state \<Rightarrow> string option \<times> relay_state" where
  "relay_process ledgerTTL now f [] st = (None, st)"
| "relay_process ledgerTTL now f ((i, e) # messages) st =
     (case process_event ledgerTTL now (f i) i e st of
        (Some err, st1) \<Rightarrow> (Some err, st1)
      | (None, st1) \<Rightarrow> relay_process ledgerTTL now f messages st1)"

text \<open>\<^verbatim>\<open>XREADGROUP\<close> delivers the next entries; \<^verbatim>\<open>XAUTOCLAIM\<close> returns pending entries that are still in the stream.\<close>

definition xreadgroup :: "nat \<Rightarrow> relay_state \<Rightarrow> (nat \<times> call_pending_event) list \<times> relay_state" where
  "xreadgroup count st =
     (let messages = take count (filter (\<lambda>(i, _). ev_last st \<le> i) (rd_outbox (ev_redis st))) in
      (messages, st\<lparr>ev_pending := ev_pending st \<union> fst ` set messages,
                    ev_last := (if messages = [] then ev_last st else Suc (fst (last messages)))\<rparr>))"

definition xautoclaim :: "(nat \<Rightarrow> bool) \<Rightarrow> nat \<Rightarrow> relay_state \<Rightarrow> (nat \<times> call_pending_event) list" where
  "xautoclaim idle count st = take count (filter (\<lambda>(i, _). i \<in> ev_pending st \<and> idle i) (rd_outbox (ev_redis st)))"

text \<open>One turn of the loop of \<^verbatim>\<open>Run\<close>; \<open>claim_ok\<close> and \<open>read_ok\<close> say whether the two reads of the stream succeed.\<close>

definition relay_turn ::
  "duration \<Rightarrow> instant \<Rightarrow> bool \<Rightarrow> bool \<Rightarrow> (nat \<Rightarrow> bool) \<Rightarrow> (nat \<Rightarrow> relay_faults) \<Rightarrow> relay_state \<Rightarrow> relay_state" where
  "relay_turn ledgerTTL now claim_ok read_ok idle f st =
     (let claimed = (if claim_ok then xautoclaim idle 100 st else []) in
      if claimed \<noteq> [] then snd (relay_process ledgerTTL now f claimed st)
      else if \<not> read_ok then st
      else (case xreadgroup 100 st of (messages, st1) \<Rightarrow> snd (relay_process ledgerTTL now f messages st1)))"

section \<open>What the relay keeps\<close>

text \<open>
  The stream's entries carry increasing identifiers, below the next one; an entry that is well formed and
  already delivered is pending; a ledger entry stands for a record that Kafka has accepted.
\<close>

definition event_sent :: "string \<Rightarrow> relay_state \<Rightarrow> bool" where
  "event_sent eid st \<longleftrightarrow> (\<exists>k\<in>set (ev_sent st). (''event_id'', eid) \<in> set (kr_headers k))"

definition relay_inv :: "relay_state \<Rightarrow> bool" where
  "relay_inv st \<longleftrightarrow> sorted_wrt (<) (map fst (rd_outbox (ev_redis st))) \<and>
     (\<forall>i\<in>fst ` set (rd_outbox (ev_redis st)). i < rd_next_id (ev_redis st)) \<and> ev_last st \<le> rd_next_id (ev_redis st) \<and>
     (\<forall>(i, e)\<in>set (rd_outbox (ev_redis st)). well_formed e \<longrightarrow> i \<in> ev_pending st \<or> ev_last st \<le> i) \<and>
     (\<forall>eid. rd_ledger (ev_redis st) eid \<noteq> None \<longrightarrow> event_sent eid st)"

text \<open>The progress of one event: it stays in the stream, or an event with its identifier has been accepted by Kafka.\<close>

definition kept_or_sent :: "relay_state \<Rightarrow> relay_state \<Rightarrow> bool" where
  "kept_or_sent st st' \<longleftrightarrow> (\<forall>(i, e)\<in>set (rd_outbox (ev_redis st)). (i, e) \<in> set (rd_outbox (ev_redis st')) \<or> event_sent (ce_event_id e) st') \<and>
     (\<forall>eid. event_sent eid st \<longrightarrow> event_sent eid st')"

text \<open>
  The steps of any number of relays and of the call service: events are appended, entries are
  delivered, and a relay that holds a delivered message publishes it, settles it once it or an earlier
  copy has been accepted, or acknowledges it as malformed. Other relays may step in between.
\<close>

inductive relay_run :: "duration \<Rightarrow> relay_state \<Rightarrow> relay_state \<Rightarrow> bool" for ledgerTTL st\<^sub>0 where
  start: "relay_run ledgerTTL st\<^sub>0 st\<^sub>0"
| append: "relay_run ledgerTTL st\<^sub>0 st \<Longrightarrow> rd_outbox r' = rd_outbox (xadd events (ev_redis st)) \<Longrightarrow>
    rd_next_id r' = rd_next_id (xadd events (ev_redis st)) \<Longrightarrow> rd_ledger r' = rd_ledger (ev_redis st) \<Longrightarrow>
    relay_run ledgerTTL st\<^sub>0 (st\<lparr>ev_redis := r'\<rparr>)"
| deliver: "relay_run ledgerTTL st\<^sub>0 st \<Longrightarrow> relay_run ledgerTTL st\<^sub>0 (snd (xreadgroup count st))"
| send: "relay_run ledgerTTL st\<^sub>0 st \<Longrightarrow> relay_run ledgerTTL st\<^sub>0 (snd (publish_record outcome (event_record e) st))"
| settle: "relay_run ledgerTTL st\<^sub>0 st \<Longrightarrow> event_sent (ce_event_id e) st \<Longrightarrow>
    \<forall>e'. (i, e') \<in> set (rd_outbox (ev_redis st)) \<longrightarrow> e' = e \<Longrightarrow> relay_run ledgerTTL st\<^sub>0 (settle ledgerTTL now i e st)"
| discard: "relay_run ledgerTTL st\<^sub>0 st \<Longrightarrow> \<not> well_formed e \<Longrightarrow>
    \<forall>e'. (i, e') \<in> set (rd_outbox (ev_redis st)) \<longrightarrow> e' = e \<Longrightarrow> relay_run ledgerTTL st\<^sub>0 (xack i st)"

lemma event_sent_mono: "set (ev_sent st) \<subseteq> set (ev_sent st') \<Longrightarrow> event_sent eid st \<Longrightarrow> event_sent eid st'"
  by (auto simp: event_sent_def)

lemma publish_record_facts [simp]:
  "ev_redis (snd (publish_record k c st)) = ev_redis st" "ev_pending (snd (publish_record k c st)) = ev_pending st"
  "ev_last (snd (publish_record k c st)) = ev_last st" "set (ev_sent st) \<subseteq> set (ev_sent (snd (publish_record k c st)))"
  by (auto simp: publish_record_def split: publish_outcome.split)

lemma publish_record_sent: "publish_record k (event_record e) st = (None, st') \<Longrightarrow> event_sent (ce_event_id e) st'"
  by (auto simp: publish_record_def event_sent_def event_record_def split: publish_outcome.splits)

lemma kept_or_sent_trans: "kept_or_sent st st1 \<Longrightarrow> kept_or_sent st1 st2 \<Longrightarrow> kept_or_sent st st2"
  unfolding kept_or_sent_def by blast

lemma relay_inv_append:
  assumes inv: "relay_inv st" and r': "rd_outbox r' = rd_outbox (xadd events (ev_redis st))"
    "rd_next_id r' = rd_next_id (xadd events (ev_redis st))" "rd_ledger r' = rd_ledger (ev_redis st)"
  shows "relay_inv (st\<lparr>ev_redis := r'\<rparr>)"
proof -
  let ?n = "rd_next_id (ev_redis st)" and ?out = "rd_outbox (ev_redis st)"
  have o: "rd_outbox r' = ?out @ zip [?n..<?n + length events] events" and n: "rd_next_id r' = ?n + length events"
    by (simp_all add: r' xadd_def)
  have "?n \<le> i \<and> i < ?n + length events" if "(i, e) \<in> set (zip [?n..<?n + length events] events)" for i e
    using set_zip_leftD [OF that] by simp
  moreover have "map fst (rd_outbox r') = map fst ?out @ [?n..<?n + length events]" by (simp add: o)
  then have "sorted_wrt (<) (map fst (rd_outbox r'))"
    using inv by (auto simp: relay_inv_def sorted_wrt_append sorted_wrt_upt)
  ultimately show ?thesis using inv unfolding relay_inv_def o n
    by (fastforce simp: event_sent_def r'(3) o n)
qed

lemma xreadgroup_fields [simp]:
  "ev_redis (snd (xreadgroup n st)) = ev_redis st" "ev_sent (snd (xreadgroup n st)) = ev_sent st"
  by (simp_all add: xreadgroup_def Let_def)

lemma take_sorted_covers:
  "sorted_wrt (<) (map f xs) \<Longrightarrow> x \<in> set xs \<Longrightarrow> x \<in> set (take n xs) \<or> take n xs = [] \<or> f (last (take n xs)) < (f x :: nat)"
proof -
  assume s: "sorted_wrt (<) (map f xs)" and x: "x \<in> set xs"
  have "sorted_wrt (<) (map f (take n xs) @ map f (drop n xs))" using s by (simp flip: map_append)
  then have "f a < f x" if "a \<in> set (take n xs)" "x \<in> set (drop n xs)" for a
    using that by (auto simp: sorted_wrt_append)
  moreover have "x \<in> set (take n xs) \<or> x \<in> set (drop n xs)" using x by (metis Un_iff append_take_drop_id set_append)
  ultimately show ?thesis using last_in_set by blast
qed

lemma relay_inv_deliver:
  assumes "relay_inv st" shows "relay_inv (snd (xreadgroup n st))"
proof -
  let ?out = "rd_outbox (ev_redis st)"
  define fresh where "fresh = filter (\<lambda>(i, _). ev_last st \<le> i) ?out"
  have srt: "sorted_wrt (<) (map fst fresh)" using assms by (auto simp: relay_inv_def fresh_def sorted_wrt_map sorted_wrt_filter)
  have low: "fst (last (take n fresh)) < rd_next_id (ev_redis st)" if "take n fresh \<noteq> []"
    using last_in_set [OF that] assms by (auto simp: relay_inv_def fresh_def dest!: in_set_takeD)
  have "i \<in> ev_pending (snd (xreadgroup n st)) \<or> ev_last (snd (xreadgroup n st)) \<le> i"
    if "(i, e) \<in> set ?out" "well_formed e" for i e
  proof (cases "ev_last st \<le> i")
    case True
    then have "(i, e) \<in> set fresh" using that by (simp add: fresh_def)
    from take_sorted_covers [OF srt this, of n] show ?thesis
    proof (elim disjE)
      assume "(i, e) \<in> set (take n fresh)"
      then show ?thesis by (force simp: xreadgroup_def Let_def fresh_def)
    qed (use True in \<open>auto simp: xreadgroup_def Let_def fresh_def\<close>)
  next
    case False
    with that assms show ?thesis by (auto simp: relay_inv_def xreadgroup_def Let_def)
  qed
  with assms low show ?thesis
    by (auto simp: relay_inv_def event_sent_def) (auto simp: xreadgroup_def Let_def fresh_def)
qed

lemma relay_inv_send: "relay_inv st \<Longrightarrow> relay_inv (snd (publish_record k c st))"
  using event_sent_mono [OF publish_record_facts(4) [of st k c]] by (auto simp: relay_inv_def)

lemma relay_inv_settle:
  assumes "relay_inv st" "event_sent (ce_event_id e) st"
  shows "relay_inv (settle ledgerTTL now i e st)"
  using assms by (auto simp: relay_inv_def settle_def xack_def event_sent_def sorted_wrt_map sorted_wrt_filter)

lemma relay_inv_discard:
  assumes "relay_inv st" "\<not> well_formed e" "\<forall>e'. (i, e') \<in> set (rd_outbox (ev_redis st)) \<longrightarrow> e' = e"
  shows "relay_inv (xack i st)"
  using assms by (auto simp: relay_inv_def xack_def event_sent_def)

lemma relay_run_keeps:
  "relay_run ledgerTTL st\<^sub>0 st \<Longrightarrow> relay_inv st\<^sub>0 \<Longrightarrow> relay_inv st \<and> kept_or_sent st\<^sub>0 st"
proof (induction rule: relay_run.induct)
  case start
  then show ?case by (auto simp: kept_or_sent_def)
next
  case (append st r' events)
  have "kept_or_sent st (st\<lparr>ev_redis := r'\<rparr>)" using append.hyps(2) by (auto simp: kept_or_sent_def xadd_def event_sent_def)
  with append relay_inv_append show ?case using kept_or_sent_trans by blast
next
  case (deliver st count)
  have "kept_or_sent st (snd (xreadgroup count st))" by (auto simp: kept_or_sent_def event_sent_def)
  with deliver relay_inv_deliver show ?case using kept_or_sent_trans by blast
next
  case (send st outcome e)
  have "kept_or_sent st (snd (publish_record outcome (event_record e) st))"
    using event_sent_mono [OF publish_record_facts(4)] by (auto simp: kept_or_sent_def)
  with send relay_inv_send show ?case using kept_or_sent_trans by blast
next
  case (settle st e i now)
  have "kept_or_sent st (Call_Relay.settle ledgerTTL now i e st)"
    using settle.hyps by (auto simp: kept_or_sent_def settle_def xack_def event_sent_def)
  with settle relay_inv_settle show ?case using kept_or_sent_trans by blast
next
  case (discard st e i)
  have "kept_or_sent st (xack i st)" by (auto simp: kept_or_sent_def xack_def event_sent_def)
  with discard relay_inv_discard show ?case using kept_or_sent_trans by blast
qed

text \<open>The code's own steps are such runs.\<close>

lemma redis_outcome_state: "snd (redis_outcome fault f st) = st \<or> snd (redis_outcome fault f st) = f st"
  by (simp add: redis_outcome_def split: redis_fault.split)

lemma process_event_run:
  assumes run: "relay_run ledgerTTL st\<^sub>0 st" "relay_inv st" and e: "\<forall>e'. (i, e') \<in> set (rd_outbox (ev_redis st)) \<longrightarrow> e' = e"
  shows "relay_run ledgerTTL st\<^sub>0 (snd (process_event ledgerTTL now f i e st))"
proof (cases "well_formed e")
  case False
  then show ?thesis using redis_outcome_state [of "rf_ack f" "xack i" st] run(1) discard [OF run(1) False e]
    by (auto simp: process_event_def)
next
  case True
  obtain err st1 where s: "ensure_published now (rf_publish f) e st = (err, st1)" by fastforce
  have st1: "relay_run ledgerTTL st\<^sub>0 st1" "rd_outbox (ev_redis st1) = rd_outbox (ev_redis st)"
    using s run(1) send [OF run(1), of "rf_publish f" e] publish_record_facts(1) [of "rf_publish f" "event_record e" st]
    by (auto simp: ensure_published_def simp del: publish_record_facts split: if_splits)
  have "event_sent (ce_event_id e) st1" if "err = None"
    using s that run(2) publish_record_sent [of "rf_publish f" e st st1]
    by (auto simp: ensure_published_def relay_inv_def live_flag_def split: if_splits option.splits)
  then have "relay_run ledgerTTL st\<^sub>0 (settle ledgerTTL now i e st1)" if "err = None"
    using relay_run.settle [OF st1(1), of e i now] e that by (simp add: st1(2))
  with st1(1) redis_outcome_state [of "rf_commit f" "settle ledgerTTL now i e" st1] run(1) True show ?thesis
    by (auto simp: process_event_def s split: option.split)
qed

lemma ensure_published_redis: "ev_redis (snd (ensure_published now k e st)) = ev_redis st"
  by (simp add: ensure_published_def)

lemma process_event_outbox:
  "set (rd_outbox (ev_redis (snd (process_event ledgerTTL now f i e st)))) \<subseteq> set (rd_outbox (ev_redis st))"
proof -
  obtain err st1 where s: "ensure_published now (rf_publish f) e st = (err, st1)" by fastforce
  then have "ev_redis st1 = ev_redis st" using ensure_published_redis [of now "rf_publish f" e st] by simp
  then show ?thesis
    using redis_outcome_state [of "rf_commit f" "settle ledgerTTL now i e" st1] redis_outcome_state [of "rf_ack f" "xack i" st]
    by (auto simp: process_event_def s settle_def xack_def split: option.split)
qed

lemma relay_process_run:
  "relay_run ledgerTTL st\<^sub>0 st \<Longrightarrow> relay_inv st\<^sub>0 \<Longrightarrow> \<forall>(i, e)\<in>set ms. \<forall>e'. (i, e') \<in> set (rd_outbox (ev_redis st)) \<longrightarrow> e' = e \<Longrightarrow>
   relay_run ledgerTTL st\<^sub>0 (snd (relay_process ledgerTTL now f ms st))"
proof (induction ms arbitrary: st)
  case (Cons m ms)
  obtain i e where m: "m = (i, e)" by fastforce
  obtain err st1 where p: "process_event ledgerTTL now (f i) i e st = (err, st1)" by fastforce
  have "relay_run ledgerTTL st\<^sub>0 st1"
    using process_event_run [OF Cons.prems(1), of i e now "f i"] relay_run_keeps [OF Cons.prems(1,2)] Cons.prems(3) p by (simp add: m)
  moreover have "\<forall>(i, e)\<in>set ms. \<forall>e'. (i, e') \<in> set (rd_outbox (ev_redis st1)) \<longrightarrow> e' = e"
    using Cons.prems(3) process_event_outbox [of ledgerTTL now "f i" i e st] p by fastforce
  ultimately show ?case using Cons.IH [OF _ Cons.prems(2)] p by (cases err) (simp_all add: m)
qed simp

lemma outbox_unique: "relay_inv st \<Longrightarrow> (i, e) \<in> set (rd_outbox (ev_redis st)) \<Longrightarrow> (i, e') \<in> set (rd_outbox (ev_redis st)) \<Longrightarrow> e' = e"
proof -
  assume "relay_inv st" and m: "(i, e) \<in> set (rd_outbox (ev_redis st))" "(i, e') \<in> set (rd_outbox (ev_redis st))"
  then have "distinct (map fst (rd_outbox (ev_redis st)))" by (simp add: relay_inv_def strict_sorted_iff)
  with m show ?thesis by (metis eq_key_imp_eq_value)
qed

lemma relay_turn_run:
  assumes "relay_run ledgerTTL st\<^sub>0 st" "relay_inv st\<^sub>0"
  shows "relay_run ledgerTTL st\<^sub>0 (relay_turn ledgerTTL now claim_ok read_ok idle f st)"
proof -
  have inv: "relay_inv st" using relay_run_keeps [OF assms] by simp
  have u: "\<forall>(i, e)\<in>set ms. \<forall>e'. (i, e') \<in> set (rd_outbox (ev_redis st)) \<longrightarrow> e' = e" if "set ms \<subseteq> set (rd_outbox (ev_redis st))" for ms
    using that outbox_unique [OF inv] by blast
  have c: "set (xautoclaim idle 100 st) \<subseteq> set (rd_outbox (ev_redis st))" "set (fst (xreadgroup 100 st)) \<subseteq> set (rd_outbox (ev_redis st))"
    by (auto simp: xautoclaim_def xreadgroup_def Let_def dest!: in_set_takeD)
  have "relay_run ledgerTTL st\<^sub>0 (snd (relay_process ledgerTTL now f (fst (xreadgroup 100 st)) (snd (xreadgroup 100 st))))"
    using relay_process_run [OF deliver [OF assms(1)] assms(2), of "fst (xreadgroup 100 st)" 100] u [OF c(2)] by simp
  with assms relay_process_run [OF assms u [OF c(1)]] show ?thesis
    by (auto simp: relay_turn_def Let_def split: prod.split)
qed

section \<open>Properties\<close>

text \<open>
  C18. No call event is lost: whatever the relays' interleaving and whichever of their Redis and Kafka
  operations fail or lose their reply, every event of the stream stays in it, and is pending or still to
  be delivered, so that it will be tried again, until Kafka has accepted a record with its event identifier.
\<close>

theorem call_events_not_lost:
  assumes "relay_run ledgerTTL st\<^sub>0 st" "relay_inv st\<^sub>0" "(i, e) \<in> set (rd_outbox (ev_redis st\<^sub>0))" "well_formed e"
    and "st' = relay_turn ledgerTTL now claim_ok read_ok idle f st"
  shows "event_sent (ce_event_id e) st' \<or>
    (i, e) \<in> set (rd_outbox (ev_redis st')) \<and> (i \<in> ev_pending st' \<or> ev_last st' \<le> i)"
proof -
  have "relay_inv st' \<and> kept_or_sent st\<^sub>0 st'"
    using relay_run_keeps [OF relay_turn_run [OF assms(1,2)] assms(2)] by (simp add: assms(5))
  with assms(3,4) show ?thesis by (auto simp: kept_or_sent_def relay_inv_def)
qed

definition sample_event :: call_pending_event where
  "sample_event = \<lparr>ce_event_id = ''call-1'', ce_operation_key = ''op'', ce_topic = ''df'', ce_payload = ''m''\<rparr>"

definition sample_stream :: relay_state where
  "sample_stream = \<lparr>ev_redis = \<lparr>rd_user_calls = Map.empty, rd_sessions = Map.empty, rd_deadlines = [], rd_operations = Map.empty,
     rd_outbox = [(0, sample_event)], rd_next_id = 1, rd_routes = Map.empty, rd_leases = Map.empty, rd_ledger = Map.empty\<rparr>,
     ev_pending = {}, ev_last = 0, ev_sent = []\<rparr>"

definition sample_faults :: relay_faults where
  "sample_faults = \<lparr>rf_ledger = None, rf_publish = PublishedUnknown ''timeout'', rf_commit = NoFault, rf_ack = NoFault\<rparr>"

theorem call_events_not_lost_witness:
  "\<exists>st'. st' = relay_turn hour 0 True True (\<lambda>_. True) (\<lambda>_. sample_faults) sample_stream \<and>
     (event_sent ''call-1'' st' \<or> (0, sample_event) \<in> set (rd_outbox (ev_redis st')) \<and> (0 \<in> ev_pending st' \<or> ev_last st' \<le> 0))"
  using call_events_not_lost [OF start, of sample_stream 0 sample_event]
  by (auto simp: sample_stream_def relay_inv_def sample_event_def well_formed_def)

end
