(* ===== verification/Auth_Service.thy ===== *)
theory Auth_Service
  imports Users
begin

text \<open>
  \<^verbatim>\<open>services/authService\<close>: login by password or token, signup, token checks, password changes and session
  revocation. bcrypt and the JWT library are parameters. Each of the user's reads and updates is a
  statement of its own, so that an operation reads the user from one state of the database and updates
  a possibly later one.
\<close>

section \<open>Tokens\<close>

record claims =
  cl_id :: int
  cl_account :: string
  cl_expires_at :: int
  cl_issued_at :: int
  cl_not_before :: int

text \<open>
  \<^verbatim>\<open>au_sign key c\<close> is \<^verbatim>\<open>SignedString\<close> with HS256; \<^verbatim>\<open>au_parse leeway now key token\<close> is \<^verbatim>\<open>ParseWithClaims\<close> of a parser restricted to
  HS256 with a required expiry and the leeway, at the clock \<open>now\<close>.
\<close>

record auth_libs =
  au_sign :: "bytes \<Rightarrow> claims \<Rightarrow> string + string"
  au_parse :: "duration \<Rightarrow> instant \<Rightarrow> bytes \<Rightarrow> string \<Rightarrow> string + claims"
  au_compare :: "string \<Rightarrow> string \<Rightarrow> bool"

definition jwtExp :: duration where "jwtExp = 24 * 30 * hour"

definition jwtClockSkew :: duration where "jwtClockSkew = 30 * second"

definition jwt_claims :: "instant \<Rightarrow> int \<Rightarrow> string \<Rightarrow> claims" where
  "jwt_claims now i account =
     \<lparr>cl_id = i, cl_account = account, cl_expires_at = (now + jwtExp) div second, cl_issued_at = now div second, cl_not_before = now div second\<rparr>"

definition GenerateJWT :: "auth_libs \<Rightarrow> instant \<Rightarrow> int \<Rightarrow> string \<Rightarrow> bytes \<Rightarrow> string + string" where
  "GenerateJWT lib now i account key = au_sign lib key (jwt_claims now i account)"

definition ValidateJWT :: "auth_libs \<Rightarrow> instant \<Rightarrow> string \<Rightarrow> bytes \<Rightarrow> string + claims" where
  "ValidateJWT lib now jwtStr jwtKey =
     (case au_parse lib jwtClockSkew now jwtKey jwtStr of Inl e \<Rightarrow> Inl (''jwt parse error: '' @ e) | Inr c \<Rightarrow> Inr c)"

section \<open>Operations\<close>

datatype auth_result = AUTH_OK | SERVICE_ERROR | ACCOUNT_NOT_EXIST | PASSWORD_ERROR | JWT_ERROR | ACCOUNT_EMPTY
  | ACCOUNT_TOO_LONG | PASSWORD_EMPTY | ACCOUNT_EXIST | PASSWORD_TOO_SHORT | PASSWORD_TOO_LONG

text \<open>
  What an operation meets: the clock, the results of the random generator and of \<^verbatim>\<open>GenerateFromPassword\<close>, and whether
  the reading and the writing statement fail.
\<close>

record auth_env =
  ae_now :: instant
  ae_random :: "string + bytes"
  ae_hash :: "string \<Rightarrow> string + string"
  ae_read_fails :: bool
  ae_write_fails :: bool

record login_rsp =
  lr_result :: auth_result
  lr_user_id :: int
  lr_account :: string
  lr_jwt :: string

definition valid_for :: "auth_libs \<Rightarrow> instant \<Rightarrow> string \<Rightarrow> bytes \<Rightarrow> int \<Rightarrow> string \<Rightarrow> bool" where
  "valid_for lib now jwt key i account =
     (case ValidateJWT lib now jwt key of Inl _ \<Rightarrow> False | Inr claim \<Rightarrow> \<not> (cl_id claim \<noteq> i \<or> cl_account claim \<noteq> account))"

text \<open>The end of a login: a fresh token for the user's key.\<close>

definition login_token :: "auth_libs \<Rightarrow> auth_env \<Rightarrow> string \<Rightarrow> user_row \<Rightarrow> bytes \<Rightarrow> login_rsp" where
  "login_token lib env account user key =
     (case GenerateJWT lib (ae_now env) (us_id user) (us_account user) key of
        Inl _ \<Rightarrow> \<lparr>lr_result = SERVICE_ERROR, lr_user_id = us_id user, lr_account = account, lr_jwt = []\<rparr>
      | Inr jwt \<Rightarrow> \<lparr>lr_result = AUTH_OK, lr_user_id = us_id user, lr_account = account, lr_jwt = jwt\<rparr>)"

definition Login :: "auth_libs \<Rightarrow> auth_env \<Rightarrow> string \<Rightarrow> string \<Rightarrow> string \<Rightarrow> database \<Rightarrow> database \<Rightarrow> login_rsp \<times> database" where
  "Login lib env account password jwt seen db =
     (let fail = (\<lambda>r i. (\<lparr>lr_result = r, lr_user_id = i, lr_account = account, lr_jwt = []\<rparr>, db));
          refuse = (\<lambda>r i. (\<lparr>lr_result = r, lr_user_id = i, lr_account = account, lr_jwt = jwt\<rparr>, db))
      in if ae_read_fails env then refuse SERVICE_ERROR 0
         else (case GetUserByAccount account seen of
           None \<Rightarrow> refuse ACCOUNT_NOT_EXIST 0
         | Some user \<Rightarrow>
             if jwt = [] then
               (if \<not> au_compare lib (us_password_hash user) password then fail PASSWORD_ERROR (us_id user)
                else if us_jwt_key user = [] then
                  (case ae_random env of
                     Inl _ \<Rightarrow> fail SERVICE_ERROR (us_id user)
                   | Inr key \<Rightarrow>
                       if ae_write_fails env then fail SERVICE_ERROR (us_id user)
                       else (login_token lib env account user key, UpdateUserJwtKeyById (us_id user) key db))
                else (login_token lib env account user (us_jwt_key user), db))
             else if us_jwt_key user = [] then fail JWT_ERROR (us_id user)
             else if \<not> valid_for lib (ae_now env) jwt (us_jwt_key user) (us_id user) (us_account user) then fail JWT_ERROR (us_id user)
             else (login_token lib env account user (us_jwt_key user), db)))"

text \<open>The bytes of \<^verbatim>\<open>MaxNameLen\<close>.\<close>

definition MaxNameLen :: nat where "MaxNameLen = 50"

definition Signup :: "auth_env \<Rightarrow> string \<Rightarrow> string \<Rightarrow> string \<Rightarrow> database \<Rightarrow> database \<Rightarrow> (auth_result \<times> int) \<times> database" where
  "Signup env account password userName seen db =
     (if account = [] then ((ACCOUNT_EMPTY, 0), db)
      else if length account > MaxNameLen then ((ACCOUNT_TOO_LONG, 0), db)
      else if password = [] then ((PASSWORD_EMPTY, 0), db)
      else if ae_read_fails env then ((SERVICE_ERROR, 0), db)
      else if GetUserByAccount account seen \<noteq> None then ((ACCOUNT_EXIST, 0), db)
      else (case ae_hash env password of
        Inl _ \<Rightarrow> ((SERVICE_ERROR, 0), db)
      | Inr passwordHash \<Rightarrow>
          if ae_write_fails env then ((SERVICE_ERROR, 0), db)
          else (case AddUser (ae_now env) \<lparr>us_id = 0, us_account = account, us_name = userName, us_update_time = [], us_avatar = [],
                        us_password_hash = passwordHash, us_jwt_key = []\<rparr> db of
                  (Inl e, db1) \<Rightarrow> ((if e = ErrAccountExists then ACCOUNT_EXIST else SERVICE_ERROR, 0), db1)
                | (Inr user, db1) \<Rightarrow> ((AUTH_OK, us_id user), db1))))"

definition CheckJwt :: "auth_libs \<Rightarrow> auth_env \<Rightarrow> int \<Rightarrow> string \<Rightarrow> database \<Rightarrow> auth_result \<times> int \<times> string" where
  "CheckJwt lib env userID jwt db =
     (if ae_read_fails env then (SERVICE_ERROR, userID, [])
      else (case GetUserByID userID db of
        None \<Rightarrow> (ACCOUNT_NOT_EXIST, userID, [])
      | Some user \<Rightarrow>
          if \<not> valid_for lib (ae_now env) jwt (us_jwt_key user) userID (us_account user)
          then (JWT_ERROR, userID, us_account user)
          else (AUTH_OK, userID, us_account user)))"

definition authenticateUser :: "auth_libs \<Rightarrow> auth_env \<Rightarrow> int \<Rightarrow> string \<Rightarrow> database \<Rightarrow> auth_result + user_row" where
  "authenticateUser lib env userID jwt db =
     (if userID \<le> 0 \<or> jwt = [] then Inl JWT_ERROR
      else if ae_read_fails env then Inl SERVICE_ERROR
      else (case GetUserByID userID db of
        None \<Rightarrow> Inl JWT_ERROR
      | Some user \<Rightarrow>
          if us_jwt_key user = [] then Inl JWT_ERROR
          else if \<not> valid_for lib (ae_now env) jwt (us_jwt_key user) (us_id user) (us_account user) then Inl JWT_ERROR
          else Inr user))"

definition ChangePassword ::
  "auth_libs \<Rightarrow> auth_env \<Rightarrow> int \<Rightarrow> string \<Rightarrow> string \<Rightarrow> string \<Rightarrow> database \<Rightarrow> database \<Rightarrow> (auth_result \<times> string) \<times> database" where
  "ChangePassword lib env userID jwt oldPassword newPassword seen db =
     (case authenticateUser lib env userID jwt seen of
        Inl r \<Rightarrow> ((r, []), db)
      | Inr user \<Rightarrow>
          if length newPassword < 8 then ((PASSWORD_TOO_SHORT, []), db)
          else if length newPassword > 72 then ((PASSWORD_TOO_LONG, []), db)
          else if \<not> au_compare lib (us_password_hash user) oldPassword then ((PASSWORD_ERROR, []), db)
          else (case ae_hash env newPassword of
            Inl _ \<Rightarrow> ((SERVICE_ERROR, []), db)
          | Inr passwordHash \<Rightarrow>
              (case ae_random env of
                 Inl _ \<Rightarrow> ((SERVICE_ERROR, []), db)
               | Inr jwtKey \<Rightarrow>
                   if ae_write_fails env then ((SERVICE_ERROR, []), db)
                   else (case UpdateUserCredentialsCAS (us_id user) (us_password_hash user) (us_jwt_key user) passwordHash jwtKey db of
                           (False, db1) \<Rightarrow> ((JWT_ERROR, []), db1)
                         | (True, db1) \<Rightarrow>
                             (case GenerateJWT lib (ae_now env) (us_id user) (us_account user) jwtKey of
                                Inl _ \<Rightarrow> ((SERVICE_ERROR, []), db1)
                              | Inr newJWT \<Rightarrow> ((AUTH_OK, newJWT), db1))))))"

definition RevokeSessions :: "auth_libs \<Rightarrow> auth_env \<Rightarrow> int \<Rightarrow> string \<Rightarrow> database \<Rightarrow> database \<Rightarrow> auth_result \<times> database" where
  "RevokeSessions lib env userID jwt seen db =
     (case authenticateUser lib env userID jwt seen of
        Inl r \<Rightarrow> (r, db)
      | Inr user \<Rightarrow>
          (case ae_random env of
             Inl _ \<Rightarrow> (SERVICE_ERROR, db)
           | Inr jwtKey \<Rightarrow>
               if ae_write_fails env then (SERVICE_ERROR, db)
               else (case RotateUserJwtKeyCAS (us_id user) (us_jwt_key user) jwtKey db of
                       (False, db1) \<Rightarrow> (JWT_ERROR, db1)
                     | (True, db1) \<Rightarrow> (AUTH_OK, db1))))"

end
