(* ===== verification/Auth_Laws.thy ===== *)
theory Auth_Laws
  imports Auth_Service
begin

text \<open>
  What the authentication service promises: credentials change by compare-and-swap on what the request
  was checked against, a changed key invalidates every earlier token, and a registered user can log in.
\<close>

section \<open>What is assumed of the libraries\<close>

text \<open>
  A token signed with a key is accepted with that key, and only with it, between its \<^verbatim>\<open>nbf\<close> and \<^verbatim>\<open>exp\<close> up to the
  leeway, and carries its claims; a bcrypt hash accepts the password it was made of.
\<close>

definition jwt_laws :: "auth_libs \<Rightarrow> bool" where
  "jwt_laws lib \<longleftrightarrow>
     (\<forall>key c. \<exists>tok. tok \<noteq> [] \<and> au_sign lib key c = Inr tok \<and>
        (\<forall>leeway now. cl_not_before c * second \<le> now + leeway \<and> now < cl_expires_at c * second + leeway \<longrightarrow>
           au_parse lib leeway now key tok = Inr c) \<and>
        (\<forall>leeway now key' c'. au_parse lib leeway now key' tok = Inr c' \<longrightarrow> key' = key \<and> c' = c))"

definition bcrypt_law :: "auth_libs \<Rightarrow> auth_env \<Rightarrow> bool" where
  "bcrypt_law lib env \<longleftrightarrow> (\<forall>password h. ae_hash env password = Inr h \<longrightarrow> au_compare lib h password)"

text \<open>A token of the service: signed with a key, for claims as \<^verbatim>\<open>GenerateJWT\<close> makes them.\<close>

definition issued :: "auth_libs \<Rightarrow> instant \<Rightarrow> bytes \<Rightarrow> int \<Rightarrow> string \<Rightarrow> string \<Rightarrow> bool" where
  "issued lib at key i account tok \<longleftrightarrow> GenerateJWT lib at i account key = Inr tok"

lemma issued_nonempty: "jwt_laws lib \<Longrightarrow> issued lib at key i account tok \<Longrightarrow> tok \<noteq> []"
  by (metis GenerateJWT_def Inr_inject issued_def jwt_laws_def)

lemma GenerateJWT_total: "jwt_laws lib \<Longrightarrow> \<exists>tok. issued lib at key i account tok"
  by (metis GenerateJWT_def issued_def jwt_laws_def)

lemma issued_valid:
  assumes "jwt_laws lib" "issued lib at key i account tok" "at - 29 * second \<le> now" "now \<le> at + jwtExp"
  shows "valid_for lib now tok key i account"
proof -
  let ?c = "jwt_claims at i account"
  have "x div second * second \<le> x \<and> x - second < x div second * second" for x :: int
    using pos_mod_bound [of second x] pos_mod_sign [of second x] minus_mod_eq_div_mult [of x second] by linarith
  from this [of at] this [of "at + jwtExp"] have "cl_not_before ?c * second \<le> now + jwtClockSkew \<and> now < cl_expires_at ?c * second + jwtClockSkew"
    using assms(3,4) by (simp add: jwt_claims_def jwtClockSkew_def)
  then have "au_parse lib jwtClockSkew now key tok = Inr ?c"
    using assms(1,2) unfolding jwt_laws_def issued_def GenerateJWT_def by (metis Inr_inject)
  then show ?thesis by (simp add: valid_for_def ValidateJWT_def jwt_claims_def)
qed

lemma issued_other_key:
  assumes "jwt_laws lib" "issued lib at key i account tok" "key' \<noteq> key"
  shows "\<not> valid_for lib now tok key' j account'"
proof -
  have "\<exists>e. au_parse lib jwtClockSkew now key' tok = Inl e"
    using assms unfolding jwt_laws_def issued_def GenerateJWT_def by (metis Inr_inject sum.exhaust)
  then show ?thesis by (auto simp: valid_for_def ValidateJWT_def)
qed

section \<open>The user table\<close>

definition users_inv :: "database \<Rightarrow> bool" where
  "users_inv db \<longleftrightarrow> distinct (map us_id (users db)) \<and> distinct (map us_account (users db)) \<and> (\<forall>u\<in>set (users db). us_id u < users_id_seq db)"

lemma GetUserByID_iff: "users_inv db \<Longrightarrow> GetUserByID i db = Some u \<longleftrightarrow> u \<in> set (users db) \<and> us_id u = i"
proof -
  have "sql_first (\<lambda>u. us_id u = i) t = Some u \<longleftrightarrow> u \<in> set t \<and> us_id u = i" if "distinct (map us_id t)" for t
    using that by (induction t) (auto dest: sql_first_SomeD simp: image_iff)
  then show "users_inv db \<Longrightarrow> ?thesis" by (simp add: GetUserByID_def users_inv_def)
qed

lemma GetUserByAccount_iff: "users_inv db \<Longrightarrow> GetUserByAccount a db = Some u \<longleftrightarrow> u \<in> set (users db) \<and> us_account u = a"
proof -
  have "sql_first (\<lambda>u. us_account u = a) t = Some u \<longleftrightarrow> u \<in> set t \<and> us_account u = a" if "distinct (map us_account t)" for t
    using that by (induction t) (auto dest: sql_first_SomeD simp: image_iff)
  then show "users_inv db \<Longrightarrow> ?thesis" by (simp add: GetUserByAccount_def users_inv_def)
qed

lemma users_inv_update:
  "users_inv db \<Longrightarrow> (\<And>u. us_id (f u) = us_id u) \<Longrightarrow> (\<And>u. us_account (f u) = us_account u) \<Longrightarrow> users_inv (update_users c f db)"
  by (auto simp: users_inv_def update_users_def map_key_sql_update set_sql_update)

lemma update_users_none: "(\<And>u. u \<in> set (users db) \<Longrightarrow> \<not> c u) \<Longrightarrow> update_users c f db = db"
  by (simp add: update_users_def sql_update_id)

lemma users_inv_AddUser:
  assumes "users_inv db" "us_id user = 0" "AddUser clock user db = (Inr u, db')"
  shows "users_inv db' \<and> u \<in> set (users db') \<and> us_account u = us_account user \<and> us_password_hash u = us_password_hash user \<and>
    us_jwt_key u = us_jwt_key user \<and> us_id u = users_id_seq db"
  using assms
  by (auto simp: AddUser_def Let_def users_inv_def split: option.splits dest!: sql_create_SomeD) (metis less_imp_le)

section \<open>Credential changes\<close>

lemma authenticateUser_Inr:
  "authenticateUser lib env i jwt db = Inr u \<longleftrightarrow>
     0 < i \<and> jwt \<noteq> [] \<and> \<not> ae_read_fails env \<and> GetUserByID i db = Some u \<and> us_jwt_key u \<noteq> [] \<and>
     valid_for lib (ae_now env) jwt (us_jwt_key u) (us_id u) (us_account u)"
  by (auto simp: authenticateUser_def split: option.splits if_splits)

lemma authenticateUser_Inl: "authenticateUser lib env i jwt db = Inl r \<Longrightarrow> r \<noteq> AUTH_OK"
  by (auto simp: authenticateUser_def split: option.splits if_splits)

text \<open>The row that a compare-and-swap on the seen credentials updates is the user's, with these credentials.\<close>

lemma CAS_row:
  assumes "users_inv db" "sql_count (\<lambda>u. us_id u = i \<and> us_password_hash u = h \<and> us_jwt_key u = k) (users db) = 1"
  shows "\<exists>u. GetUserByID i db = Some u \<and> us_password_hash u = h \<and> us_jwt_key u = k"
proof -
  have "0 < sql_count (\<lambda>u. us_id u = i \<and> us_password_hash u = h \<and> us_jwt_key u = k) (users db)" using assms(2) by linarith
  then obtain u where "u \<in> set (users db)" "us_id u = i" "us_password_hash u = h" "us_jwt_key u = k"
    by (auto simp: sql_count_pos_iff)
  with assms(1) show ?thesis by (intro exI [of _ u]) (simp add: GetUserByID_iff)
qed

lemma ChangePassword_OK:
  assumes "ChangePassword lib env i jwt old new seen db = ((AUTH_OK, tok), db')"
  shows "\<exists>u h k. authenticateUser lib env i jwt seen = Inr u \<and> 8 \<le> length new \<and> length new \<le> 72 \<and>
    au_compare lib (us_password_hash u) old \<and> ae_hash env new = Inr h \<and> ae_random env = Inr k \<and>
    UpdateUserCredentialsCAS (us_id u) (us_password_hash u) (us_jwt_key u) h k db = (True, db') \<and>
    issued lib (ae_now env) k (us_id u) (us_account u) tok"
proof (cases "authenticateUser lib env i jwt seen")
  case (Inl r)
  then have "r \<noteq> AUTH_OK" by (rule authenticateUser_Inl)
  with assms Inl show ?thesis by (simp add: ChangePassword_def)
next
  case (Inr u)
  with assms show ?thesis
    by (simp add: ChangePassword_def issued_def split: sum.splits if_splits prod.splits bool.splits)
qed

lemma GetUserByAccount_update:
  assumes "users_inv db" "\<And>u. us_account (f u) = us_account u" "\<And>u. us_id (f u) = us_id u"
  shows "GetUserByAccount a (update_users c f db) = map_option (\<lambda>u. if c u then f u else u) (GetUserByAccount a db)"
proof -
  have "sql_first (\<lambda>u. us_account u = a) (sql_update c f t) = map_option (\<lambda>u. if c u then f u else u) (sql_first (\<lambda>u. us_account u = a) t)" for t
    by (induction t) (auto simp: assms)
  then show ?thesis by (simp add: GetUserByAccount_def update_users_def)
qed

lemma GetUserByID_account: "users_inv db \<Longrightarrow> GetUserByID i db = Some u \<Longrightarrow> GetUserByAccount (us_account u) db = Some u"
  by (simp add: GetUserByID_iff GetUserByAccount_iff)

lemma CAS_unseen:
  assumes "\<And>u. GetUserByID i db = Some u \<Longrightarrow> us_jwt_key u \<noteq> k" "users_inv db"
  shows "UpdateUserCredentialsCAS i h k h' k' db = (False, db)" "RotateUserJwtKeyCAS i k k' db = (False, db)"
proof -
  have n: "\<not> (us_id u = i \<and> us_jwt_key u = k)" if "u \<in> set (users db)" for u
    using assms(1) [of u] assms(2) that by (auto simp: GetUserByID_iff)
  then have z: "sql_count (\<lambda>u. us_id u = i \<and> us_password_hash u = h \<and> us_jwt_key u = k) (users db) = 0"
      "sql_count (\<lambda>u. us_id u = i \<and> us_jwt_key u = k) (users db) = 0" by auto
  show "UpdateUserCredentialsCAS i h k h' k' db = (False, db)"
    unfolding UpdateUserCredentialsCAS_def Let_def z(1) using n by (simp add: update_users_none)
  show "RotateUserJwtKeyCAS i k k' db = (False, db)"
    unfolding RotateUserJwtKeyCAS_def Let_def z(2) using n by (simp add: update_users_none)
qed

section \<open>Properties\<close>

text \<open>
  C19. A password change that reports success replaces the credentials of that user only, and it did so
  while the checked token and old password were still the user's current ones; afterwards the new token
  is accepted for its thirty days, the new password logs the user in, and no token of the old key is
  accepted any more.
\<close>

theorem change_password_takes_effect:
  assumes laws: "jwt_laws lib" "bcrypt_law lib env" and inv: "users_inv db"
    and acct: "\<forall>u v. GetUserByID i seen = Some v \<and> GetUserByID i db = Some u \<longrightarrow> us_account u = us_account v"
    and ok: "ChangePassword lib env i jwt old new seen db = ((AUTH_OK, tok), db')"
    and later: "ae_now env \<le> ae_now env'" "ae_now env' \<le> ae_now env + jwtExp" "\<not> ae_read_fails env'"
  shows "\<exists>u u'. GetUserByID i db = Some u \<and> GetUserByID i db' = Some u' \<and>
    au_compare lib (us_password_hash u) old \<and> us_jwt_key u \<noteq> [] \<and> ae_random env = Inr (us_jwt_key u') \<and>
    (\<forall>j. j \<noteq> i \<longrightarrow> GetUserByID j db' = GetUserByID j db) \<and>
    CheckJwt lib env' i tok db' = (AUTH_OK, i, us_account u) \<and>
    (us_jwt_key u' \<noteq> [] \<longrightarrow> lr_result (fst (Login lib env' (us_account u) new [] db' db')) = AUTH_OK) \<and>
    (us_jwt_key u' \<noteq> us_jwt_key u \<longrightarrow>
       (\<forall>at j a oldtok. issued lib at (us_jwt_key u) j a oldtok \<longrightarrow> fst (CheckJwt lib env' i oldtok db') = JWT_ERROR))"
proof -
  from ChangePassword_OK [OF ok] obtain v h k where v: "authenticateUser lib env i jwt seen = Inr v"
      "au_compare lib (us_password_hash v) old" "ae_hash env new = Inr h" "ae_random env = Inr k"
      "UpdateUserCredentialsCAS (us_id v) (us_password_hash v) (us_jwt_key v) h k db = (True, db')"
      "issued lib (ae_now env) k (us_id v) (us_account v) tok" by blast
  note a = v(1) [unfolded authenticateUser_Inr]
  have vi: "us_id v = i" using a GetUserByID_id by blast
  define c where "c = (\<lambda>u :: user_row. us_id u = i \<and> us_password_hash u = us_password_hash v \<and> us_jwt_key u = us_jwt_key v)"
  define f where "f = (\<lambda>u :: user_row. u\<lparr>us_password_hash := h, us_jwt_key := k\<rparr>)"
  have f: "us_id (f u) = us_id u" "us_account (f u) = us_account u" for u by (simp_all add: f_def)
  have db': "db' = update_users c f db" and one: "sql_count c (users db) = 1"
    using v(5) by (simp_all add: UpdateUserCredentialsCAS_def Let_def c_def f_def vi)
  obtain u where u: "GetUserByID i db = Some u" "us_password_hash u = us_password_hash v" "us_jwt_key u = us_jwt_key v"
    using CAS_row [OF inv one [unfolded c_def]] by blast
  have cu: "c u" using u GetUserByID_id [OF u(1)] by (simp add: c_def)
  have u': "GetUserByID i db' = Some (f u)" using GetUserByID_update [of f i c db, OF f(1)] u(1) cu by (simp add: db')
  have others: "GetUserByID j db' = GetUserByID j db" if "j \<noteq> i" for j
    using that GetUserByID_update [of f j c db, OF f(1)] GetUserByID_id [of j db]
    by (cases "GetUserByID j db") (auto simp: db' c_def)
  have ac: "us_account v = us_account u" using acct u(1) a by simp
  have tok: "issued lib (ae_now env) k i (us_account u) tok" using v(6) by (simp add: vi ac)
  have "valid_for lib (ae_now env') tok k i (us_account u)"
    using later by (intro issued_valid [OF laws(1) tok]) simp_all
  then have check: "CheckJwt lib env' i tok db' = (AUTH_OK, i, us_account u)"
    using later(3) u' by (simp add: CheckJwt_def f_def)
  have "au_compare lib h new" using laws(2) v(3) by (simp add: bcrypt_law_def)
  moreover have "GetUserByAccount (us_account u) db' = Some (f u)"
    using GetUserByID_account [OF users_inv_update [OF inv f] u' [unfolded db']] by (simp add: db' f)
  moreover obtain t where "GenerateJWT lib (ae_now env') (us_id u) (us_account u) k = Inr t"
    using GenerateJWT_total [OF laws(1), of "ae_now env'" k "us_id u" "us_account u"] by (auto simp: issued_def)
  ultimately have login: "k \<noteq> [] \<longrightarrow> lr_result (fst (Login lib env' (us_account u) new [] db' db')) = AUTH_OK"
    using later(3) by (auto simp: Login_def Let_def login_token_def f_def)
  have "fst (CheckJwt lib env' i oldtok db') = JWT_ERROR" if "k \<noteq> us_jwt_key u" "issued lib at (us_jwt_key u) j a oldtok" for at j a oldtok
    using issued_other_key [OF laws(1) that(2,1)] later(3) u' by (simp add: CheckJwt_def f_def)
  with u u' v(2,4) a others check login show ?thesis
    by (intro exI [of _ u] exI [of _ "f u"]) (simp add: f_def)
qed

text \<open>
  Revoked credentials change nothing: when the user's signing key is no longer the one a password
  change or a revocation was checked against, because another change or revocation committed in
  between, the operation does not succeed and leaves the database as it is.
\<close>

theorem revoked_credentials_refused:
  assumes "users_inv db" "GetUserByID i seen = Some v" "\<And>u. GetUserByID i db = Some u \<Longrightarrow> us_jwt_key u \<noteq> us_jwt_key v"
  shows "snd (ChangePassword lib env i jwt old new seen db) = db \<and> fst (fst (ChangePassword lib env i jwt old new seen db)) \<noteq> AUTH_OK \<and>
    snd (RevokeSessions lib env i jwt seen db) = db \<and> fst (RevokeSessions lib env i jwt seen db) \<noteq> AUTH_OK"
proof -
  have u: "u = v \<and> us_id u = i" if "authenticateUser lib env i jwt seen = Inr u" for u
    using that assms(2) GetUserByID_id [OF assms(2)] by (simp add: authenticateUser_Inr)
  note cas = CAS_unseen [OF assms(3,1)]
  show ?thesis
  proof (cases "authenticateUser lib env i jwt seen")
    case (Inr a)
    then have a: "us_id a = i" "us_jwt_key a = us_jwt_key v" using u by auto
    show ?thesis using Inr by (auto simp: ChangePassword_def RevokeSessions_def a cas split: sum.split)
  qed (simp add: ChangePassword_def RevokeSessions_def authenticateUser_Inl)
qed

text \<open>
  C20. Signing up and logging in: a signup that reports success adds one user with that account and a new
  identifier, keeps accounts and identifiers unique, lets the user log in with the chosen password and
  answers every later signup for the account with \<^verbatim>\<open>ACCOUNT_EXIST\<close>; the token of the login is accepted.
\<close>

theorem signup_login_roundtrip:
  assumes laws: "jwt_laws lib" "bcrypt_law lib env" and inv: "users_inv db"
    and ok: "Signup env account password name seen db = ((AUTH_OK, i), db')"
    and env': "\<not> ae_read_fails env'" "\<not> ae_write_fails env'" "ae_random env' = Inr key" "key \<noteq> []"
    and h: "Login lib env' account password [] db' db' = (rsp, db'')"
  shows "users_inv db' \<and> i = users_id_seq db \<and> lr_result rsp = AUTH_OK \<and> lr_user_id rsp = i \<and>
    CheckJwt lib env' i (lr_jwt rsp) db'' = (AUTH_OK, i, account) \<and>
    Signup env' account password' name' db' db' = ((if password' = [] then PASSWORD_EMPTY else ACCOUNT_EXIST, 0), db')"
proof -
  from ok obtain hash u where u: "account \<noteq> []" "length account \<le> MaxNameLen" "ae_hash env password = Inr hash" "us_id u = i"
      "AddUser (ae_now env) \<lparr>us_id = 0, us_account = account, us_name = name, us_update_time = [], us_avatar = [],
                        us_password_hash = hash, us_jwt_key = []\<rparr> db = (Inr u, db')"
    by (auto simp: Signup_def split: if_splits sum.splits prod.splits)
  from users_inv_AddUser [OF inv _ u(5)] have db': "users_inv db'" "u \<in> set (users db')" "us_account u = account"
      "us_password_hash u = hash" "us_jwt_key u = []" "us_id u = users_id_seq db" by simp_all
  have acct: "GetUserByAccount account db' = Some u" and id: "GetUserByID i db' = Some u"
    using db' u(4) by (simp_all add: GetUserByAccount_iff GetUserByID_iff)
  obtain tok where tok: "issued lib (ae_now env') key i account tok" using GenerateJWT_total [OF laws(1)] by blast
  have "au_compare lib hash password" using laws(2) u(3) by (simp add: bcrypt_law_def)
  then have login: "rsp = \<lparr>lr_result = AUTH_OK, lr_user_id = i, lr_account = account, lr_jwt = tok\<rparr>" "db'' = UpdateUserJwtKeyById i key db'"
    using h env' tok by (simp_all add: Login_def Let_def acct db'(3-5) u(4) login_token_def issued_def)
  have "GetUserByID i db'' = Some (u\<lparr>us_jwt_key := key\<rparr>)"
    unfolding login(2) UpdateUserJwtKeyById_def using GetUserByID_update [of "\<lambda>u. u\<lparr>us_jwt_key := key\<rparr>" i "\<lambda>u. us_id u = i" db'] id u(4) by simp
  moreover have "valid_for lib (ae_now env') tok key i account"
    by (rule issued_valid [OF laws(1) tok]) (simp_all add: jwtExp_def)
  ultimately have "CheckJwt lib env' i tok db'' = (AUTH_OK, i, account)" using env'(1) by (simp add: CheckJwt_def db'(3))
  then show ?thesis using db'(1,6) u(1,2,4) acct env'(1) by (simp add: login(1) Signup_def)
qed

text \<open>
  A gap in the token check: for a user who has no signing key yet, which is every user between signup
  and first login, \<^verbatim>\<open>CheckJwt\<close> accepts a token that anyone can make with the empty key, while the password
  change and the token login refuse it.
\<close>

theorem CheckJwt_empty_key:
  assumes "jwt_laws lib" "GetUserByID i db = Some u" "us_jwt_key u = []" "GetUserByAccount (us_account u) db = Some u"
    "\<not> ae_read_fails env" "issued lib (ae_now env) [] i (us_account u) forged"
  shows "CheckJwt lib env i forged db = (AUTH_OK, i, us_account u) \<and>
    authenticateUser lib env i forged db = Inl JWT_ERROR \<and>
    lr_result (fst (Login lib env (us_account u) password forged db db)) = JWT_ERROR"
proof -
  have "valid_for lib (ae_now env) forged [] i (us_account u)"
    by (rule issued_valid [OF assms(1,6)]) (simp_all add: jwtExp_def)
  with assms issued_nonempty [OF assms(1,6)] show ?thesis
    by (simp add: CheckJwt_def authenticateUser_def Login_def Let_def)
qed

section \<open>A sample library\<close>

text \<open>Tokens that spell out their key and claims, enough to satisfy the laws.\<close>

definition spell :: "bytes \<Rightarrow> claims \<Rightarrow> string" where
  "spell key c = itoa (cl_id c) @ CHR '':'' # itoa (cl_expires_at c) @ CHR '':'' # itoa (cl_issued_at c) @ CHR '':'' #
     itoa (cl_not_before c) @ CHR '':'' # itoa (int (length key)) @ CHR '':'' # key @ cl_account c"

definition cut :: "string \<Rightarrow> string \<times> string" where
  "cut s = (takeWhile (\<lambda>x. x \<noteq> CHR '':'') s, tl (dropWhile (\<lambda>x. x \<noteq> CHR '':'') s))"

definition atoi :: "string \<Rightarrow> int" where
  "atoi s = (case s of [] \<Rightarrow> 0 | x # r \<Rightarrow> if x = CHR ''-'' then - int (decimal r) else int (decimal s))"

definition unspell :: "string \<Rightarrow> bytes \<times> claims" where
  "unspell s =
     (case cut s of (i, s1) \<Rightarrow> case cut s1 of (e, s2) \<Rightarrow> case cut s2 of (t, s3) \<Rightarrow> case cut s3 of (b, s4) \<Rightarrow> case cut s4 of (n, s5) \<Rightarrow>
        (take (nat (atoi n)) s5, \<lparr>cl_id = atoi i, cl_account = drop (nat (atoi n)) s5, cl_expires_at = atoi e, cl_issued_at = atoi t, cl_not_before = atoi b\<rparr>))"

definition sample_libs :: auth_libs where
  "sample_libs = \<lparr>au_sign = (\<lambda>key c. Inr (spell key c)),
     au_parse = (\<lambda>leeway now key tok. case unspell tok of (k, c) \<Rightarrow>
       if k = key \<and> cl_not_before c * second \<le> now + leeway \<and> now < cl_expires_at c * second + leeway then Inr c else Inl ''invalid''),
     au_compare = (\<lambda>h p. h = p)\<rparr>"

lemma cut_itoa: "cut (itoa i @ CHR '':'' # r) = (itoa i, r)"
  using itoa_no_colon [of i] by (simp add: cut_def takeWhile_append dropWhile_append)

lemma atoi_itoa: "atoi (itoa i) = i"
proof (cases "i < 0")
  case False
  then obtain x r where x: "itoa i = x # r" by (cases "itoa i") (auto simp: itoa_def)
  moreover have "x \<noteq> CHR ''-''" using False x itoa_nat_digits [of "nat i"] minus_not_digit by (auto simp: itoa_def)
  ultimately have "atoi (itoa i) = int (decimal (itoa i))" by (simp add: atoi_def)
  with False show ?thesis by (simp add: itoa_def)
qed (simp add: itoa_def atoi_def)

lemma unspell_spell: "unspell (spell key c) = (key, c)"
  by (simp add: unspell_def spell_def cut_itoa atoi_itoa)

lemma sample_libs_laws: "jwt_laws sample_libs"
proof -
  have "spell key c \<noteq> []" for key c by (simp add: spell_def)
  then show ?thesis by (auto simp: jwt_laws_def sample_libs_def unspell_spell split: if_splits)
qed

definition sample_auth_env :: auth_env where
  "sample_auth_env = \<lparr>ae_now = 0, ae_random = Inr ''k2'', ae_hash = (\<lambda>p. Inr p), ae_read_fails = False, ae_write_fails = False\<rparr>"

definition empty_database :: database where
  "empty_database = \<lparr>users = [], friends = [], chat_groups = [], group_members = [], relationship_requests = [], messages = [],
     file_metadata = [], users_id_seq = 1, relationship_requests_id_seq = 1, messages_id_seq = 1\<rparr>"

definition sample_user :: user_row where
  "sample_user = \<lparr>us_id = 1, us_account = ''ann'', us_name = ''Ann'', us_update_time = [], us_avatar = [],
     us_password_hash = ''secret'', us_jwt_key = ''k1''\<rparr>"

definition sample_users :: database where
  "sample_users = empty_database\<lparr>users := [sample_user], users_id_seq := 2\<rparr>"

definition sample_token :: string where
  "sample_token = spell ''k1'' (jwt_claims 0 1 ''ann'')"

lemma sample_env_fields:
  "ae_now sample_auth_env = 0" "\<not> ae_read_fails sample_auth_env" "\<not> ae_write_fails sample_auth_env"
  "ae_random sample_auth_env = Inr ''k2''" "ae_hash sample_auth_env p = Inr p"
  by (simp_all add: sample_auth_env_def)

lemma sample_lib_fields: "au_sign sample_libs key c = Inr (spell key c)" "au_compare sample_libs h p \<longleftrightarrow> h = p"
  by (simp_all add: sample_libs_def)

lemma sample_user_fields:
  "us_id sample_user = 1" "us_account sample_user = ''ann''" "us_password_hash sample_user = ''secret''" "us_jwt_key sample_user = ''k1''"
  by (simp_all add: sample_user_def)

lemma sample_bcrypt: "bcrypt_law sample_libs sample_auth_env"
  by (simp add: bcrypt_law_def sample_libs_def sample_auth_env_def)

lemma sample_users_inv: "users_inv sample_users" "users_inv empty_database"
  by (simp_all add: users_inv_def sample_users_def sample_user_def empty_database_def)

lemma sample_lookup_user: "GetUserByID 1 sample_users = Some sample_user"
  by (simp add: GetUserByID_def sample_users_def sample_user_def)

theorem change_password_takes_effect_witness:
  "\<exists>tok db'. ChangePassword sample_libs sample_auth_env 1 sample_token ''secret'' ''secret-2'' sample_users sample_users = ((AUTH_OK, tok), db') \<and>
     CheckJwt sample_libs sample_auth_env 1 tok db' = (AUTH_OK, 1, ''ann'') \<and>
     fst (CheckJwt sample_libs sample_auth_env 1 sample_token db') = JWT_ERROR"
proof -
  have v: "valid_for sample_libs 0 sample_token ''k1'' 1 ''ann''"
    by (rule issued_valid [OF sample_libs_laws, of 0]) (simp_all add: issued_def GenerateJWT_def sample_libs_def sample_token_def jwtExp_def)
  have "sample_token \<noteq> []" by (simp add: sample_token_def spell_def)
  with v have a: "authenticateUser sample_libs sample_auth_env 1 sample_token sample_users = Inr sample_user"
    by (simp add: authenticateUser_Inr sample_lookup_user sample_env_fields sample_user_fields)
  obtain tok db' where c: "ChangePassword sample_libs sample_auth_env 1 sample_token ''secret'' ''secret-2'' sample_users sample_users = ((AUTH_OK, tok), db')"
    using a by (auto simp: ChangePassword_def sample_env_fields sample_lib_fields sample_user_fields UpdateUserCredentialsCAS_def
        sample_users_def GenerateJWT_def Let_def)
  have iss: "issued sample_libs 0 ''k1'' 1 ''ann'' sample_token"
    by (simp add: issued_def GenerateJWT_def sample_libs_def sample_token_def)
  have t: "ae_now sample_auth_env \<le> ae_now sample_auth_env" "ae_now sample_auth_env \<le> ae_now sample_auth_env + jwtExp"
    by (simp_all add: jwtExp_def)
  have acct: "\<forall>u v. GetUserByID 1 sample_users = Some v \<and> GetUserByID 1 sample_users = Some u \<longrightarrow> us_account u = us_account v"
    by auto
  obtain u u' :: user_row where "GetUserByID 1 sample_users = Some u" "ae_random sample_auth_env = Inr (us_jwt_key u')"
      "CheckJwt sample_libs sample_auth_env 1 tok db' = (AUTH_OK, 1, us_account u)"
      "us_jwt_key u' \<noteq> us_jwt_key u \<longrightarrow>
       (\<forall>at j a oldtok. issued sample_libs at (us_jwt_key u) j a oldtok \<longrightarrow> fst (CheckJwt sample_libs sample_auth_env 1 oldtok db') = JWT_ERROR)"
    using change_password_takes_effect [OF sample_libs_laws sample_bcrypt sample_users_inv(1) acct c t sample_env_fields(2)] by blast
  with c iss show ?thesis unfolding sample_lookup_user by (auto simp: sample_user_fields sample_env_fields)
qed

theorem revoked_credentials_refused_witness:
  "snd (RevokeSessions sample_libs sample_auth_env 1 sample_token sample_users (UpdateUserJwtKeyById 1 ''k3'' sample_users)) =
     UpdateUserJwtKeyById 1 ''k3'' sample_users"
proof -
  let ?db = "UpdateUserJwtKeyById 1 ''k3'' sample_users"
  have "users_inv ?db" unfolding UpdateUserJwtKeyById_def by (rule users_inv_update [OF sample_users_inv(1)]) simp_all
  moreover have "us_jwt_key u \<noteq> us_jwt_key sample_user" if "GetUserByID 1 ?db = Some u" for u
    using that by (auto simp: UpdateUserJwtKeyById_def GetUserByID_def update_users_def sample_users_def sample_user_def)
  ultimately show ?thesis using revoked_credentials_refused [OF _ sample_lookup_user] by blast
qed

theorem signup_login_roundtrip_witness:
  "\<exists>db' rsp db''. Signup sample_auth_env ''bob'' ''pass'' ''Bob'' empty_database empty_database = ((AUTH_OK, 1), db') \<and>
     Login sample_libs sample_auth_env ''bob'' ''pass'' [] db' db' = (rsp, db'') \<and> lr_result rsp = AUTH_OK"
proof -
  obtain db' where s: "Signup sample_auth_env ''bob'' ''pass'' ''Bob'' empty_database empty_database = ((AUTH_OK, 1), db')"
    by (auto simp: Signup_def MaxNameLen_def sample_auth_env_def GetUserByAccount_def empty_database_def AddUser_def Let_def sql_create_def)
  obtain rsp db'' where l: "Login sample_libs sample_auth_env ''bob'' ''pass'' [] db' db' = (rsp, db'')" by fastforce
  show ?thesis
    using signup_login_roundtrip [OF sample_libs_laws sample_bcrypt sample_users_inv(2) s, of sample_auth_env "''k2''" rsp db'' "[]" "[]"] s l
    by (auto simp: sample_auth_env_def)
qed

theorem CheckJwt_empty_key_witness:
  "CheckJwt sample_libs sample_auth_env 1 (spell [] (jwt_claims 0 1 ''ann'')) (sample_users\<lparr>users := [sample_user\<lparr>us_jwt_key := []\<rparr>]\<rparr>) =
     (AUTH_OK, 1, ''ann'')"
proof -
  have "issued sample_libs 0 [] 1 ''ann'' (spell [] (jwt_claims 0 1 ''ann''))"
    by (simp add: issued_def GenerateJWT_def sample_libs_def)
  then show ?thesis
    using CheckJwt_empty_key [OF sample_libs_laws, of 1 "sample_users\<lparr>users := [sample_user\<lparr>us_jwt_key := []\<rparr>]\<rparr>"
        "sample_user\<lparr>us_jwt_key := []\<rparr>" sample_auth_env "spell [] (jwt_claims 0 1 ''ann'')" "[]"]
    by (simp add: sample_auth_env_def GetUserByID_def GetUserByAccount_def sample_user_def)
qed

end
