(* ===== verification/AB_Evaluator.thy ===== *)
theory AB_Evaluator
  imports Go_Time "HOL-Library.Word" "HOL-Library.AList"
begin

unbundle bit_operations_syntax

text \<open>
  \<^verbatim>\<open>services/abTestService/internal/abtest\<close>: the types of \<^verbatim>\<open>types.go\<close> and the pure part of \<^verbatim>\<open>evaluator.go\<close>, which assigns a
  subject to a group of an experiment. A JSON object is an association list with distinct keys, in any
  order; sharing and cloning of maps disappear because values are immutable here.
\<close>

section \<open>Types\<close>

datatype json = JNull | JBool bool | JNumber string | JString string | JArray "json list" | JObject "(string \<times> json) list"

type_synonym json_map = "(string \<times> json) list"

abbreviation ExperimentTypeAll :: string where "ExperimentTypeAll \<equiv> ''all''"
abbreviation ExperimentTypeClient :: string where "ExperimentTypeClient \<equiv> ''client''"
abbreviation ExperimentTypeServer :: string where "ExperimentTypeServer \<equiv> ''server''"
abbreviation StatusDraft :: string where "StatusDraft \<equiv> ''draft''"
abbreviation StatusRunning :: string where "StatusRunning \<equiv> ''running''"
abbreviation StatusPaused :: string where "StatusPaused \<equiv> ''paused''"
abbreviation StatusStopped :: string where "StatusStopped \<equiv> ''stopped''"
abbreviation StatusRolledOut :: string where "StatusRolledOut \<equiv> ''rolled_out''"
abbreviation SubjectTypeDevice :: string where "SubjectTypeDevice \<equiv> ''device''"
abbreviation OverrideForceGroup :: string where "OverrideForceGroup \<equiv> ''force_group''"
abbreviation OverrideExclude :: string where "OverrideExclude \<equiv> ''exclude''"
abbreviation OverrideMergeConfig :: string where "OverrideMergeConfig \<equiv> ''merge_config''"

record ab_group =
  ag_id :: int
  ag_experiment_id :: int
  ag_group_key :: string
  ag_traffic :: int
  ag_config :: json_map
  ag_created_at :: string
  ag_updated_at :: string

record ab_override =
  ao_id :: int
  ao_experiment_id :: int
  ao_subject_type :: string
  ao_subject_id :: string
  ao_action :: string
  ao_group_key :: string
  ao_config :: json_map
  ao_created_at :: string
  ao_updated_at :: string

record ab_experiment =
  ex_id :: int
  ex_key :: string
  ex_name :: string
  ex_description :: string
  ex_type :: string
  ex_status :: string
  ex_start_time :: string
  ex_duration_seconds :: int
  ex_end_time :: string
  ex_salt :: string
  ex_rollout_group_key :: string
  ex_targeting :: json_map
  ex_version :: int
  ex_groups :: "ab_group list"
  ex_overrides :: "ab_override list"
  ex_created_at :: string
  ex_updated_at :: string

record evaluate_request =
  ev_subject_type :: string
  ev_subject_id :: string
  ev_context :: "(string \<times> string) list"

record assignment =
  as_experiment_id :: int
  as_experiment_key :: string
  as_experiment_type :: string
  as_group_key :: string
  as_version :: int
  as_start_time :: string
  as_end_time :: string
  as_duration_seconds :: int
  as_config :: json_map
  as_override_applied :: bool

section \<open>Buckets\<close>

text \<open>\<^verbatim>\<open>hash/fnv\<close>'s 32-bit FNV-1a.\<close>

definition fnv32a :: "string \<Rightarrow> 32 word" where
  "fnv32a s = fold (\<lambda>c h. (h XOR of_nat (byte c)) * 16777619) s 2166136261"

definition stableBucket :: "string \<Rightarrow> string \<Rightarrow> string \<Rightarrow> int" where
  "stableBucket subjectID experimentKey salt =
     int (unat (fnv32a (subjectID @ '':'' @ experimentKey @ '':'' @ salt))) mod 10000"

text \<open>The loop of \<^verbatim>\<open>selectGroup\<close> over the groups in order of their identifiers; \<^verbatim>\<open>upper\<close> is an \<^verbatim>\<open>int\<close>.\<close>

fun pick_group :: "int \<Rightarrow> int \<Rightarrow> ab_group list \<Rightarrow> ab_group option" where
  "pick_group bucket upper [] = None"
| "pick_group bucket upper (g # gs) =
     (let upper' = wrap64 (upper + ag_traffic g) in if bucket < upper' then Some g else pick_group bucket upper' gs)"

definition selectGroup :: "ab_experiment \<Rightarrow> evaluate_request \<Rightarrow> ab_override option \<Rightarrow> ab_group option" where
  "selectGroup e req override =
     (let groups = sort_key ag_id (ex_groups e) in
      case override of
        Some o' \<Rightarrow>
          if ao_action o' = OverrideForceGroup then find (\<lambda>g. ag_group_key g = ao_group_key o') groups
          else pick_group (stableBucket (ev_subject_id req) (ex_key e) (ex_salt e)) 0 groups
      | None \<Rightarrow> pick_group (stableBucket (ev_subject_id req) (ex_key e) (ex_salt e)) 0 groups)"

definition rolloutGroup :: "ab_experiment \<Rightarrow> ab_group option" where
  "rolloutGroup e =
     (let key = TrimSpace (ex_rollout_group_key e) in
      if key = [] then None else find (\<lambda>g. ag_group_key g = key) (ex_groups e))"

section \<open>Targeting\<close>

text \<open>A lookup in a Go map of strings, \<^verbatim>\<open>context[key]\<close>, is the empty string for a missing key.\<close>

definition context_value :: "(string \<times> string) list \<Rightarrow> string \<Rightarrow> string" where
  "context_value ctx key = (case map_of ctx key of None \<Rightarrow> [] | Some v \<Rightarrow> v)"

definition stringSlice :: "json option \<Rightarrow> string list" where
  "stringSlice raw =
     (case raw of
        Some (JString v) \<Rightarrow> if TrimSpace v = [] then [] else [TrimSpace v]
      | Some (JArray items) \<Rightarrow> concat (map (\<lambda>j. case j of JString v \<Rightarrow> [TrimSpace v] | _ \<Rightarrow> []) items)
      | _ \<Rightarrow> [])"

definition stringSliceFromTargeting :: "json_map \<Rightarrow> string \<Rightarrow> string list" where
  "stringSliceFromTargeting targeting key = stringSlice (map_of targeting key)"

definition stringFromTargeting :: "json_map \<Rightarrow> string \<Rightarrow> string" where
  "stringFromTargeting targeting key = (case map_of targeting key of Some (JString v) \<Rightarrow> TrimSpace v | _ \<Rightarrow> [])"

definition stringSetMatches :: "json_map \<Rightarrow> (string \<times> string) list \<Rightarrow> string \<Rightarrow> string \<Rightarrow> bool" where
  "stringSetMatches targeting ctx contextKey targetingKey =
     (let allowed = stringSliceFromTargeting targeting targetingKey in
      if allowed = [] then True else List.member allowed (TrimSpace (context_value ctx contextKey)))"

fun stringSetMatchesAny :: "json_map \<Rightarrow> (string \<times> string) list \<Rightarrow> string \<Rightarrow> string list \<Rightarrow> bool" where
  "stringSetMatchesAny targeting ctx contextKey [] = True"
| "stringSetMatchesAny targeting ctx contextKey (k # ks) =
     (if map_of targeting k = None then stringSetMatchesAny targeting ctx contextKey ks
      else stringSetMatches targeting ctx contextKey k)"

text \<open>\<^verbatim>\<open>strings.FieldsFunc\<close> with the separators of versions: the maximal non-empty runs of other bytes.\<close>

definition version_separator :: "char \<Rightarrow> bool" where
  "version_separator c \<longleftrightarrow> c = CHR ''.'' \<or> c = CHR ''-'' \<or> c = CHR ''_''"

fun version_fields :: "string \<Rightarrow> string \<Rightarrow> string list" where
  "version_fields acc [] = (if acc = [] then [] else [rev acc])"
| "version_fields acc (c # s) =
     (if version_separator c then (if acc = [] then version_fields [] s else rev acc # version_fields [] s)
      else version_fields (c # acc) s)"

text \<open>
  The value of \<^verbatim>\<open>strconv.Atoi\<close>, whose error is ignored: zero for text that is not an optionally signed
  decimal number, and the nearest \<^verbatim>\<open>int64\<close> for a number out of range.
\<close>

definition Atoi_value :: "string \<Rightarrow> int" where
  "Atoi_value s =
     (let (negative, digits) =
            (case s of [] \<Rightarrow> (False, []) | c # r \<Rightarrow> if c = CHR ''-'' then (True, r) else if c = CHR ''+'' then (False, r) else (False, s))
      in if digits = [] \<or> \<not> list_all is_digit digits then 0
         else if negative then max (- (2 ^ 63)) (- int (decimal digits)) else min (2 ^ 63 - 1) (int (decimal digits)))"

definition splitVersion :: "string \<Rightarrow> int list" where
  "splitVersion version = map Atoi_value (version_fields [] version)"

text \<open>The loop up to the longer length, in which a missing component counts as zero.\<close>

fun compare_components :: "int list \<Rightarrow> int list \<Rightarrow> int" where
  "compare_components [] [] = 0"
| "compare_components (a # as) [] = (if a < 0 then - 1 else if a > 0 then 1 else compare_components as [])"
| "compare_components [] (b # bs) = (if 0 < b then - 1 else if 0 > b then 1 else compare_components [] bs)"
| "compare_components (a # as) (b # bs) = (if a < b then - 1 else if a > b then 1 else compare_components as bs)"

definition compareVersion :: "string \<Rightarrow> string \<Rightarrow> int" where
  "compareVersion a b = compare_components (splitVersion a) (splitVersion b)"

definition versionRangeMatches :: "string \<Rightarrow> string \<Rightarrow> string \<Rightarrow> bool" where
  "versionRangeMatches version0 minVersion maxVersion =
     (let version = TrimSpace version0 in
      if version = [] \<and> (minVersion \<noteq> [] \<or> maxVersion \<noteq> []) then False
      else if minVersion \<noteq> [] \<and> compareVersion version minVersion < 0 then False
      else if maxVersion \<noteq> [] \<and> compareVersion version maxVersion > 0 then False
      else True)"

definition stringRuleMap :: "json option \<Rightarrow> (string \<times> string list) list option" where
  "stringRuleMap raw = (case raw of Some (JObject m) \<Rightarrow> Some (map (\<lambda>(k, v). (k, stringSlice (Some v))) m) | _ \<Rightarrow> None)"

definition genericIncludeExcludeMatches :: "json_map \<Rightarrow> (string \<times> string) list \<Rightarrow> bool" where
  "genericIncludeExcludeMatches targeting ctx \<longleftrightarrow>
     (case stringRuleMap (map_of targeting ''include'') of
        None \<Rightarrow> True
      | Some rules \<Rightarrow> list_all (\<lambda>(k, allowed). allowed = [] \<or> List.member allowed (context_value ctx k)) rules) \<and>
     (case stringRuleMap (map_of targeting ''exclude'') of
        None \<Rightarrow> True
      | Some rules \<Rightarrow> list_all (\<lambda>(k, denied). \<not> List.member denied (context_value ctx k)) rules)"

definition targetingMatches :: "json_map \<Rightarrow> (string \<times> string) list \<Rightarrow> bool" where
  "targetingMatches targeting ctx \<longleftrightarrow> targeting = [] \<or>
     stringSetMatches targeting ctx ''platform'' ''platforms'' \<and>
     stringSetMatchesAny targeting ctx ''os'' [''os'', ''oses'', ''operating_systems''] \<and>
     stringSetMatches targeting ctx ''app_version'' ''app_versions'' \<and>
     stringSetMatches targeting ctx ''system_version'' ''system_versions'' \<and>
     versionRangeMatches (context_value ctx ''app_version'') (stringFromTargeting targeting ''min_app_version'')
       (stringFromTargeting targeting ''max_app_version'') \<and>
     versionRangeMatches (context_value ctx ''system_version'') (stringFromTargeting targeting ''min_system_version'')
       (stringFromTargeting targeting ''max_system_version'') \<and>
     genericIncludeExcludeMatches targeting ctx"

section \<open>Evaluation\<close>

definition experimentTypeMatches :: "string \<Rightarrow> string \<Rightarrow> bool" where
  "experimentTypeMatches experimentType subjectType =
     (if experimentType = [] \<or> experimentType = ExperimentTypeAll then True
      else if subjectType = SubjectTypeDevice then experimentType = ExperimentTypeClient
      else experimentType = ExperimentTypeServer)"

definition experimentWindowMatches :: "ab_experiment \<Rightarrow> instant \<Rightarrow> bool" where
  "experimentWindowMatches e now =
     (case Parse (ex_start_time e) of
        None \<Rightarrow> False
      | Some start \<Rightarrow>
          (let computed = start + wrap64 (ex_duration_seconds e * second);
               until = (if ex_end_time e \<noteq> [] then (case Parse (ex_end_time e) of Some p \<Rightarrow> p | None \<Rightarrow> computed) else computed)
           in \<not> now < start \<and> now < until))"

definition findOverride :: "ab_override list \<Rightarrow> string \<Rightarrow> string \<Rightarrow> ab_override option" where
  "findOverride overrides subjectType subjectID =
     find (\<lambda>o'. ao_subject_type o' = subjectType \<and> ao_subject_id o' = subjectID) overrides"

definition mergeConfig :: "json_map \<Rightarrow> json_map \<Rightarrow> json_map" where
  "mergeConfig target source = fold (\<lambda>(k, v). AList.update k v) source target"

definition buildAssignment :: "ab_experiment \<Rightarrow> string \<Rightarrow> json_map \<Rightarrow> bool \<Rightarrow> assignment" where
  "buildAssignment e groupKey config overrideApplied =
     \<lparr>as_experiment_id = ex_id e, as_experiment_key = ex_key e, as_experiment_type = ex_type e, as_group_key = groupKey,
      as_version = ex_version e, as_start_time = ex_start_time e, as_end_time = ex_end_time e,
      as_duration_seconds = ex_duration_seconds e, as_config = config, as_override_applied = overrideApplied\<rparr>"

definition apply_override :: "ab_experiment \<Rightarrow> ab_group \<Rightarrow> ab_override option \<Rightarrow> assignment" where
  "apply_override e g override =
     (case override of
        Some o' \<Rightarrow>
          if ao_action o' = OverrideForceGroup \<or> ao_action o' = OverrideMergeConfig
          then buildAssignment e (ag_group_key g) (mergeConfig (ag_config g) (ao_config o')) True
          else buildAssignment e (ag_group_key g) (ag_config g) False
      | None \<Rightarrow> buildAssignment e (ag_group_key g) (ag_config g) False)"

definition evaluateExperiment :: "ab_experiment \<Rightarrow> evaluate_request \<Rightarrow> instant \<Rightarrow> assignment option" where
  "evaluateExperiment e req now =
     (if \<not> experimentTypeMatches (ex_type e) (ev_subject_type req) then None
      else if ex_status e = StatusRolledOut then
        (case rolloutGroup e of None \<Rightarrow> None | Some g \<Rightarrow> Some (buildAssignment e (ag_group_key g) (ag_config g) False))
      else if ex_status e \<noteq> StatusRunning then None
      else if \<not> experimentWindowMatches e now then None
      else if \<not> targetingMatches (ex_targeting e) (ev_context req) then None
      else
        (let override = findOverride (ex_overrides e) (ev_subject_type req) (ev_subject_id req) in
         if (case override of Some o' \<Rightarrow> ao_action o' = OverrideExclude | None \<Rightarrow> False) then None
         else (case selectGroup e req override of
           None \<Rightarrow>
             (case override of
                Some o' \<Rightarrow> if ao_action o' = OverrideMergeConfig then Some (buildAssignment e ''override'' (ao_config o') True) else None
              | None \<Rightarrow> None)
         | Some g \<Rightarrow> Some (apply_override e g override))))"

end
