(* ===== verification/AB_Store.thy ===== *)
theory AB_Store
  imports AB_Evaluator
begin

text \<open>
  \<^verbatim>\<open>store.go\<close> and the stateful part of \<^verbatim>\<open>evaluator.go\<close>: the tables of experiments, groups and overrides, the
  operations of the administration, and the evaluation service with its two caches. JSON columns hold
  values; an identifier drawn from a sequence is used up even if the transaction is rolled back.
\<close>

section \<open>Tables\<close>

text \<open>Experiment rows have no groups and overrides of their own.\<close>

record ab_tables =
  tb_experiments :: "ab_experiment list"
  tb_groups :: "ab_group list"
  tb_overrides :: "ab_override list"
  tb_experiment_seq :: int
  tb_group_seq :: int
  tb_override_seq :: int

datatype ab_error = ABInvalid string | ABNotFound | ABConflict

definition with_parts :: "ab_tables \<Rightarrow> int list \<Rightarrow> bool \<Rightarrow> ab_experiment \<Rightarrow> ab_experiment" where
  "with_parts t ids includeOverrides model =
     model\<lparr>ex_groups := filter (\<lambda>g. ag_experiment_id g = ex_id model)
                          (sql_order ag_id (filter (\<lambda>g. List.member ids (ag_experiment_id g)) (tb_groups t))),
           ex_overrides := (if includeOverrides
                            then filter (\<lambda>o'. ao_experiment_id o' = ex_id model)
                                   (sql_order ao_id (filter (\<lambda>o'. List.member ids (ao_experiment_id o')) (tb_overrides t)))
                            else [])\<rparr>"

definition loadExperiments :: "ab_experiment list \<Rightarrow> bool \<Rightarrow> ab_tables \<Rightarrow> ab_experiment list" where
  "loadExperiments models includeOverrides t = map (with_parts t (map ex_id models) includeOverrides) models"

definition ListExperiments :: "ab_tables \<Rightarrow> ab_experiment list" where
  "ListExperiments t = loadExperiments (sql_order_desc ex_id (tb_experiments t)) True t"

definition ListEvaluationExperiments :: "ab_tables \<Rightarrow> ab_experiment list" where
  "ListEvaluationExperiments t =
     loadExperiments (sql_order ex_id (filter (\<lambda>e. ex_status e = StatusRunning \<or> ex_status e = StatusRolledOut) (tb_experiments t))) False t"

definition GetExperiment :: "int \<Rightarrow> ab_tables \<Rightarrow> ab_error + ab_experiment" where
  "GetExperiment i t =
     (case sql_first (\<lambda>e. ex_id e = i) (tb_experiments t) of
        None \<Rightarrow> Inl ABNotFound
      | Some model \<Rightarrow> (case loadExperiments [model] True t of [] \<Rightarrow> Inl ABNotFound | e # _ \<Rightarrow> Inr e))"

definition ListOverridesForSubject :: "string \<Rightarrow> string \<Rightarrow> int list \<Rightarrow> ab_tables \<Rightarrow> ab_override list" where
  "ListOverridesForSubject subjectType subjectID experimentIDs t =
     (if experimentIDs = [] then []
      else sql_order ao_id (filter (\<lambda>o'. ao_subject_type o' = subjectType \<and> ao_subject_id o' = subjectID \<and>
                                         List.member experimentIDs (ao_experiment_id o')) (tb_overrides t)))"

section \<open>Normalisation\<close>

definition normalizeExperimentType :: "string \<Rightarrow> string" where
  "normalizeExperimentType value =
     (let v = TrimSpace value in
      if v = [] \<or> v = ExperimentTypeClient then ExperimentTypeClient
      else if v = ExperimentTypeServer then ExperimentTypeServer
      else if v = ExperimentTypeAll then ExperimentTypeAll else [])"

definition normalizeStatus :: "string \<Rightarrow> string" where
  "normalizeStatus value =
     (let v = TrimSpace value in
      if v = [] \<or> v = StatusDraft then StatusDraft else if v = StatusRunning then StatusRunning
      else if v = StatusPaused then StatusPaused else if v = StatusStopped then StatusStopped
      else if v = StatusRolledOut then StatusRolledOut else [])"

definition rolloutGroupKeyForStatus :: "string \<Rightarrow> string \<Rightarrow> string" where
  "rolloutGroupKeyForStatus status currentGroupKey = (if status = StatusRolledOut then currentGroupKey else [])"

text \<open>
  \<^verbatim>\<open>GroupInput\<close>; the floating-point ratio enters only by whether it is positive and by \<^verbatim>\<open>int(ratio * 100)\<close>.
\<close>

record group_input =
  gi_group_key :: string
  gi_traffic :: int
  gi_ratio_positive :: bool
  gi_ratio_points :: int
  gi_config :: json_map

record override_input =
  oi_subject_type :: string
  oi_subject_id :: string
  oi_action :: string
  oi_group_key :: string
  oi_config :: json_map

record create_experiment_request =
  cx_key :: string
  cx_name :: string
  cx_description :: string
  cx_type :: string
  cx_status :: string
  cx_start_time :: string
  cx_duration_seconds :: int
  cx_end_time :: string
  cx_salt :: string
  cx_targeting :: json_map
  cx_groups :: "group_input list"

record update_experiment_request =
  ux_name :: "string option"
  ux_description :: "string option"
  ux_type :: "string option"
  ux_status :: "string option"
  ux_start_time :: "string option"
  ux_duration_seconds :: "int option"
  ux_end_time :: "string option"
  ux_salt :: "string option"
  ux_targeting :: "json_map option"

definition normalizeGroupInput :: "group_input \<Rightarrow> ab_error + group_input" where
  "normalizeGroupInput req =
     (let key = TrimSpace (gi_group_key req);
          traffic = (if gi_traffic req = 0 \<and> gi_ratio_positive req then gi_ratio_points req else gi_traffic req)
      in if key = [] then Inl (ABInvalid ''group_key is required'')
         else if traffic < 0 \<or> traffic > 10000 then Inl (ABInvalid ''traffic_basis_points must be between 0 and 10000'')
         else Inr (req\<lparr>gi_group_key := key, gi_traffic := traffic\<rparr>))"

definition normalizeOverrideInput :: "override_input \<Rightarrow> ab_error + override_input" where
  "normalizeOverrideInput req0 =
     (let req = req0\<lparr>oi_subject_type := TrimSpace (oi_subject_type req0), oi_subject_id := TrimSpace (oi_subject_id req0),
                     oi_action := TrimSpace (oi_action req0)\<rparr>
      in if oi_subject_type req = [] \<or> oi_subject_id req = [] \<or> oi_action req = []
         then Inl (ABInvalid ''subject_type, subject_id and action are required'')
         else if oi_action req = OverrideForceGroup then
           (if TrimSpace (oi_group_key req) = [] then Inl (ABInvalid ''group_key is required for force_group override'') else Inr req)
         else if oi_action req = OverrideExclude \<or> oi_action req = OverrideMergeConfig then Inr req
         else Inl (ABInvalid ''invalid override action''))"

definition normalizeCreateExperiment :: "instant \<Rightarrow> create_experiment_request \<Rightarrow> ab_error + create_experiment_request" where
  "normalizeCreateExperiment now req0 =
     (let key = TrimSpace (cx_key req0); name = TrimSpace (cx_name req0);
          type = normalizeExperimentType (cx_type req0); status = normalizeStatus (cx_status req0);
          startTime = (if cx_start_time req0 = [] then RFC3339 now else cx_start_time req0)
      in if key = [] \<or> name = [] then Inl (ABInvalid ''experiment_key and name are required'')
         else if type = [] then Inl (ABInvalid ''invalid experiment_type'')
         else if status = [] then Inl (ABInvalid ''invalid status'')
         else if status = StatusRolledOut then Inl (ABInvalid ''rolled_out status requires push_full group'')
         else if cx_duration_seconds req0 \<le> 0 then Inl (ABInvalid ''duration_seconds must be positive'')
         else (case Parse startTime of
           None \<Rightarrow> Inl (ABInvalid ''invalid start_time'')
         | Some start \<Rightarrow>
             let req = req0\<lparr>cx_key := key, cx_name := name, cx_type := type, cx_status := status, cx_start_time := startTime,
                           cx_salt := (if cx_salt req0 = [] then key else cx_salt req0)\<rparr>
             in if cx_end_time req0 = []
                then Inr (req\<lparr>cx_end_time := RFC3339 (start + wrap64 (cx_duration_seconds req0 * second))\<rparr>)
                else if Parse (cx_end_time req0) = None then Inl (ABInvalid ''invalid end_time'')
                else Inr req))"

section \<open>Operations\<close>

definition insert_group :: "int \<Rightarrow> string \<Rightarrow> group_input \<Rightarrow> ab_tables \<Rightarrow> ab_group \<times> ab_tables" where
  "insert_group experimentID now req t =
     (let g = \<lparr>ag_id = tb_group_seq t, ag_experiment_id = experimentID, ag_group_key = gi_group_key req, ag_traffic = gi_traffic req,
               ag_config = gi_config req, ag_created_at = now, ag_updated_at = now\<rparr>
      in (g, t\<lparr>tb_groups := tb_groups t @ [g], tb_group_seq := tb_group_seq t + 1\<rparr>))"

text \<open>The groups of a new experiment; the first invalid one ends the transaction.\<close>

fun insert_groups :: "int \<Rightarrow> string \<Rightarrow> group_input list \<Rightarrow> ab_tables \<Rightarrow> ab_error option \<times> ab_tables" where
  "insert_groups experimentID now [] t = (None, t)"
| "insert_groups experimentID now (g # gs) t =
     (case normalizeGroupInput g of
        Inl e \<Rightarrow> (Some e, t)
      | Inr req \<Rightarrow> insert_groups experimentID now gs (snd (insert_group experimentID now req t)))"

definition rollback :: "ab_tables \<Rightarrow> ab_tables \<Rightarrow> ab_tables" where
  "rollback before after = after\<lparr>tb_experiments := tb_experiments before, tb_groups := tb_groups before, tb_overrides := tb_overrides before\<rparr>"

definition new_experiment :: "int \<Rightarrow> string \<Rightarrow> create_experiment_request \<Rightarrow> ab_experiment" where
  "new_experiment i now req =
     \<lparr>ex_id = i, ex_key = cx_key req, ex_name = cx_name req, ex_description = cx_description req, ex_type = cx_type req,
      ex_status = cx_status req, ex_start_time = cx_start_time req, ex_duration_seconds = cx_duration_seconds req,
      ex_end_time = cx_end_time req, ex_salt = cx_salt req, ex_rollout_group_key = [], ex_targeting = cx_targeting req,
      ex_version = 1, ex_groups = [], ex_overrides = [], ex_created_at = now, ex_updated_at = now\<rparr>"

definition CreateExperiment :: "instant \<Rightarrow> create_experiment_request \<Rightarrow> ab_tables \<Rightarrow> (ab_error + ab_experiment) \<times> ab_tables" where
  "CreateExperiment clock req0 t =
     (case normalizeCreateExperiment clock req0 of
        Inl e \<Rightarrow> (Inl e, t)
      | Inr req \<Rightarrow>
          (let now = RFC3339 clock; i = tb_experiment_seq t; t1 = t\<lparr>tb_experiment_seq := i + 1\<rparr> in
           case sql_create ex_key (new_experiment i now req) (tb_experiments t) of
             None \<Rightarrow> (Inl ABConflict, t1)
           | Some rows \<Rightarrow>
               (case insert_groups i now (cx_groups req) (t1\<lparr>tb_experiments := rows\<rparr>) of
                  (Some e, t2) \<Rightarrow> (Inl e, rollback t t2)
                | (None, t2) \<Rightarrow> (GetExperiment i t2, t2))))"

definition update_experiment :: "int \<Rightarrow> (ab_experiment \<Rightarrow> ab_experiment) \<Rightarrow> ab_tables \<Rightarrow> ab_tables" where
  "update_experiment i f t = t\<lparr>tb_experiments := sql_update (\<lambda>e. ex_id e = i) f (tb_experiments t)\<rparr>"

definition set_if :: "'a option \<Rightarrow> ('a \<Rightarrow> 'b \<Rightarrow> 'b) \<Rightarrow> 'b \<Rightarrow> 'b" where
  "set_if value f x = (case value of None \<Rightarrow> x | Some v \<Rightarrow> f v x)"

definition apply_updates :: "update_experiment_request \<Rightarrow> ab_experiment \<Rightarrow> ab_experiment" where
  "apply_updates req e =
     set_if (ux_targeting req) (\<lambda>v e. e\<lparr>ex_targeting := v\<rparr>)
     (set_if (ux_salt req) (\<lambda>v e. e\<lparr>ex_salt := TrimSpace v\<rparr>)
     (set_if (ux_end_time req) (\<lambda>v e. e\<lparr>ex_end_time := TrimSpace v\<rparr>)
     (set_if (ux_duration_seconds req) (\<lambda>v e. e\<lparr>ex_duration_seconds := v\<rparr>)
     (set_if (ux_start_time req) (\<lambda>v e. e\<lparr>ex_start_time := TrimSpace v\<rparr>)
     (set_if (ux_status req) (\<lambda>v e. let s = normalizeStatus v in
        if s \<noteq> StatusRolledOut then e\<lparr>ex_status := s, ex_rollout_group_key := []\<rparr> else e\<lparr>ex_status := s\<rparr>)
     (set_if (ux_type req) (\<lambda>v e. e\<lparr>ex_type := normalizeExperimentType v\<rparr>)
     (set_if (ux_description req) (\<lambda>v e. e\<lparr>ex_description := v\<rparr>)
     (set_if (ux_name req) (\<lambda>v e. e\<lparr>ex_name := TrimSpace v\<rparr>) e))))))))"

definition UpdateExperiment :: "instant \<Rightarrow> int \<Rightarrow> update_experiment_request \<Rightarrow> ab_tables \<Rightarrow> (ab_error + ab_experiment) \<times> ab_tables" where
  "UpdateExperiment clock i req t =
     (case GetExperiment i t of
        Inl e \<Rightarrow> (Inl e, t)
      | Inr current \<Rightarrow>
          if (case ux_type req of Some v \<Rightarrow> normalizeExperimentType v = [] | None \<Rightarrow> False) then (Inl (ABInvalid ''invalid experiment_type''), t)
          else if (case ux_status req of Some v \<Rightarrow> normalizeStatus v = [] | None \<Rightarrow> False) then (Inl (ABInvalid ''invalid status''), t)
          else if (case ux_status req of Some v \<Rightarrow> normalizeStatus v = StatusRolledOut \<and> TrimSpace (ex_rollout_group_key current) = [] | None \<Rightarrow> False)
          then (Inl (ABInvalid ''rolled_out status requires push_full group''), t)
          else
            (let t1 = update_experiment i
                        (\<lambda>e. (apply_updates req e)\<lparr>ex_version := ex_version current + 1, ex_updated_at := RFC3339 clock\<rparr>) t
             in (GetExperiment i t1, t1)))"

definition SetExperimentStatus :: "instant \<Rightarrow> int \<Rightarrow> string \<Rightarrow> ab_tables \<Rightarrow> (ab_error + ab_experiment) \<times> ab_tables" where
  "SetExperimentStatus clock i status0 t =
     (let status = normalizeStatus status0 in
      if status = [] then (Inl (ABInvalid ''invalid status''), t)
      else (case GetExperiment i t of
        Inl e \<Rightarrow> (Inl e, t)
      | Inr current \<Rightarrow>
          if status = StatusRolledOut \<and> TrimSpace (ex_rollout_group_key current) = []
          then (Inl (ABInvalid ''rolled_out status requires push_full group''), t)
          else
            (let t1 = update_experiment i
                        (\<lambda>e. e\<lparr>ex_status := status, ex_rollout_group_key := rolloutGroupKeyForStatus status (ex_rollout_group_key current),
                               ex_version := ex_version current + 1, ex_updated_at := RFC3339 clock\<rparr>) t
             in (GetExperiment i t1, t1))))"

definition PushFullGroup :: "instant \<Rightarrow> int \<Rightarrow> int \<Rightarrow> ab_tables \<Rightarrow> (ab_error + ab_experiment) \<times> ab_tables" where
  "PushFullGroup clock experimentID groupID t =
     (case GetExperiment experimentID t of
        Inl e \<Rightarrow> (Inl e, t)
      | Inr current \<Rightarrow>
          (case sql_first (\<lambda>g. ag_id g = groupID \<and> ag_experiment_id g = experimentID) (tb_groups t) of
             None \<Rightarrow> (Inl ABNotFound, t)
           | Some target \<Rightarrow>
               (let now = RFC3339 clock;
                    g1 = sql_update (\<lambda>g. ag_experiment_id g = experimentID) (\<lambda>g. g\<lparr>ag_traffic := 0, ag_updated_at := now\<rparr>) (tb_groups t);
                    g2 = sql_update (\<lambda>g. ag_id g = groupID \<and> ag_experiment_id g = experimentID)
                           (\<lambda>g. g\<lparr>ag_traffic := 10000, ag_updated_at := now\<rparr>) g1;
                    t1 = update_experiment experimentID
                           (\<lambda>e. e\<lparr>ex_status := StatusRolledOut, ex_rollout_group_key := ag_group_key target,
                                  ex_version := ex_version current + 1, ex_updated_at := now\<rparr>) (t\<lparr>tb_groups := g2\<rparr>)
                in (GetExperiment experimentID t1, t1))))"

definition WithdrawExperiment :: "instant \<Rightarrow> int \<Rightarrow> ab_tables \<Rightarrow> (ab_error + ab_experiment) \<times> ab_tables" where
  "WithdrawExperiment clock i t =
     (case GetExperiment i t of
        Inl e \<Rightarrow> (Inl e, t)
      | Inr current \<Rightarrow>
          (let t1 = update_experiment i
                      (\<lambda>e. e\<lparr>ex_status := StatusStopped, ex_rollout_group_key := [], ex_version := ex_version current + 1,
                             ex_updated_at := RFC3339 clock\<rparr>) t
           in (GetExperiment i t1, t1)))"

definition bumpExperimentVersion :: "instant \<Rightarrow> int \<Rightarrow> ab_tables \<Rightarrow> (ab_error + ab_experiment) \<times> ab_tables" where
  "bumpExperimentVersion clock i t =
     (case GetExperiment i t of
        Inl e \<Rightarrow> (Inl e, t)
      | Inr current \<Rightarrow>
          (let t1 = update_experiment i (\<lambda>e. e\<lparr>ex_version := ex_version current + 1, ex_updated_at := RFC3339 clock\<rparr>) t
           in (GetExperiment i t1, t1)))"

definition AddGroup :: "instant \<Rightarrow> int \<Rightarrow> group_input \<Rightarrow> ab_tables \<Rightarrow> (ab_error + ab_group) \<times> ab_tables" where
  "AddGroup clock experimentID req0 t =
     (case GetExperiment experimentID t of
        Inl e \<Rightarrow> (Inl e, t)
      | Inr _ \<Rightarrow>
          (case normalizeGroupInput req0 of
             Inl e \<Rightarrow> (Inl e, t)
           | Inr req \<Rightarrow>
               (case insert_group experimentID (RFC3339 clock) req t of
                  (g, t1) \<Rightarrow> (Inr g, snd (bumpExperimentVersion clock experimentID t1)))))"

definition AddOverride :: "instant \<Rightarrow> int \<Rightarrow> override_input \<Rightarrow> ab_tables \<Rightarrow> (ab_error + ab_override) \<times> ab_tables" where
  "AddOverride clock experimentID req0 t =
     (case GetExperiment experimentID t of
        Inl e \<Rightarrow> (Inl e, t)
      | Inr _ \<Rightarrow>
          (case normalizeOverrideInput req0 of
             Inl e \<Rightarrow> (Inl e, t)
           | Inr req \<Rightarrow>
               (let now = RFC3339 clock;
                    o' = \<lparr>ao_id = tb_override_seq t, ao_experiment_id = experimentID, ao_subject_type = oi_subject_type req,
                          ao_subject_id = oi_subject_id req, ao_action = oi_action req, ao_group_key = oi_group_key req,
                          ao_config = oi_config req, ao_created_at = now, ao_updated_at = now\<rparr>;
                    t1 = t\<lparr>tb_overrides := tb_overrides t @ [o'], tb_override_seq := tb_override_seq t + 1\<rparr>
                in (Inr o', snd (bumpExperimentVersion clock experimentID t1)))))"

end
