(* ===== verification/AB_Service.thy ===== *)
theory AB_Service
  imports AB_Store
begin

text \<open>
  The \<^verbatim>\<open>Service\<close> of \<^verbatim>\<open>evaluator.go\<close>: the administration's operations, which drop the caches after a write, and
  \<^verbatim>\<open>Evaluate\<close>, which answers from a snapshot of the experiments and a cache of the overrides of each
  subject. What other goroutines and other replicas do while \<^verbatim>\<open>evaluationSnapshot\<close> has left its critical
  point is an argument, a function of the service's state for each turn of its loop; singleflight, which
  shares one load among concurrent callers, then needs no state of its own. The iteration order of a Go
  map is an argument as well.
\<close>

section \<open>State\<close>

record override_cache_entry =
  oe_overrides :: "ab_override list"
  oe_loaded_at :: instant

record evaluation_snapshot =
  sn_experiments :: "ab_experiment list"
  sn_experiment_ids :: "int list"
  sn_loaded_at :: instant
  sn_generation :: "64 word"

record ab_service =
  sv_tables :: ab_tables
  sv_cache_ttl :: duration
  sv_override_ttl :: duration
  sv_snapshot :: "evaluation_snapshot option"
  sv_generation :: "64 word"
  sv_overrides :: "(string \<times> override_cache_entry) list"

text \<open>The staleness bound of the environment, \<^verbatim>\<open>None\<close> when it does not parse.\<close>

definition evaluationCacheTTL :: "duration option \<Rightarrow> duration" where
  "evaluationCacheTTL env =
     (case env of None \<Rightarrow> 5 * second | Some value \<Rightarrow> if value \<le> 0 \<or> value > 5 * second then 5 * second else value)"

definition newService :: "duration option \<Rightarrow> duration \<Rightarrow> ab_tables \<Rightarrow> ab_service" where
  "newService env cacheTTL0 t =
     (let ttl1 = (if cacheTTL0 \<le> 0 then evaluationCacheTTL env else cacheTTL0);
          cacheTTL = (if ttl1 > 5 * second then 5 * second else ttl1);
          overrideTTL = (if 3 * second > cacheTTL then cacheTTL else 3 * second)
      in \<lparr>sv_tables = t, sv_cache_ttl = cacheTTL, sv_override_ttl = overrideTTL, sv_snapshot = None,
          sv_generation = 0, sv_overrides = []\<rparr>)"

definition NewService :: "duration option \<Rightarrow> ab_tables \<Rightarrow> ab_service" where
  "NewService env t = newService env (evaluationCacheTTL env) t"

section \<open>Administration\<close>

definition invalidateLocal :: "ab_service \<Rightarrow> ab_service" where
  "invalidateLocal s = s\<lparr>sv_generation := sv_generation s + 1, sv_snapshot := None, sv_overrides := []\<rparr>"

definition invalidateAfterWrite :: "(ab_error + 'a) \<Rightarrow> ab_service \<Rightarrow> ab_service" where
  "invalidateAfterWrite result s = (case result of Inl _ \<Rightarrow> s | Inr _ \<Rightarrow> invalidateLocal s)"

text \<open>The shape of the seven operations that write: the store's operation, then the invalidation.\<close>

definition service_write :: "(ab_tables \<Rightarrow> (ab_error + 'a) \<times> ab_tables) \<Rightarrow> ab_service \<Rightarrow> (ab_error + 'a) \<times> ab_service" where
  "service_write op s =
     (case op (sv_tables s) of (result, t) \<Rightarrow> (result, invalidateAfterWrite result (s\<lparr>sv_tables := t\<rparr>)))"

datatype ab_command =
    CmdCreate create_experiment_request
  | CmdUpdate int update_experiment_request
  | CmdSetStatus int string
  | CmdPushFull int int
  | CmdWithdraw int
  | CmdAddGroup int group_input
  | CmdAddOverride int override_input

definition forget :: "('e + 'a) \<times> 's \<Rightarrow> ('e + unit) \<times> 's" where
  "forget r = (case r of (Inl e, s) \<Rightarrow> (Inl e, s) | (Inr _, s) \<Rightarrow> (Inr (), s))"

text \<open>The operations by name, with their results reduced to success or the error.\<close>

fun store_command :: "instant \<Rightarrow> ab_command \<Rightarrow> ab_tables \<Rightarrow> (ab_error + unit) \<times> ab_tables" where
  "store_command clock (CmdCreate req) t = forget (CreateExperiment clock req t)"
| "store_command clock (CmdUpdate i req) t = forget (UpdateExperiment clock i req t)"
| "store_command clock (CmdSetStatus i status) t = forget (SetExperimentStatus clock i status t)"
| "store_command clock (CmdPushFull i g) t = forget (PushFullGroup clock i g t)"
| "store_command clock (CmdWithdraw i) t = forget (WithdrawExperiment clock i t)"
| "store_command clock (CmdAddGroup i req) t = forget (AddGroup clock i req t)"
| "store_command clock (CmdAddOverride i req) t = forget (AddOverride clock i req t)"

definition service_command :: "instant \<Rightarrow> ab_command \<Rightarrow> ab_service \<Rightarrow> (ab_error + unit) \<times> ab_service" where
  "service_command clock cmd s = service_write (store_command clock cmd) s"

section \<open>The caches\<close>

definition load_snapshot :: "instant \<Rightarrow> ab_service \<Rightarrow> evaluation_snapshot" where
  "load_snapshot loadedAt s =
     (let experiments = ListEvaluationExperiments (sv_tables s) in
      \<lparr>sn_experiments = map (\<lambda>e. e\<lparr>ex_overrides := []\<rparr>) experiments, sn_experiment_ids = map ex_id experiments,
       sn_loaded_at = loadedAt, sn_generation = sv_generation s\<rparr>)"

definition snapshot_hit :: "instant \<Rightarrow> ab_service \<Rightarrow> evaluation_snapshot option" where
  "snapshot_hit now s =
     (case sv_snapshot s of
        None \<Rightarrow> None
      | Some current \<Rightarrow>
          if sn_generation current = sv_generation s \<and> now - sn_loaded_at current < sv_cache_ttl s then Some current else None)"

text \<open>
  A turn of the loop is disturbed by \<^verbatim>\<open>w\<close>, what happens between the load and the second look at the
  generation; \<^verbatim>\<open>now\<close> is the clock at the start of the turn and \<^verbatim>\<open>loadedAt\<close> the one after the load. The
  loop turns again only if the generation has changed; after the listed turns nothing interferes.
\<close>

fun evaluationSnapshot ::
  "instant \<Rightarrow> (instant \<times> instant \<times> (ab_service \<Rightarrow> ab_service)) list \<Rightarrow> ab_service \<Rightarrow> evaluation_snapshot \<times> ab_service" where
  "evaluationSnapshot final [] s =
     (case snapshot_hit final s of
        Some current \<Rightarrow> (current, s)
      | None \<Rightarrow> (let loaded = load_snapshot final s in (loaded, s\<lparr>sv_snapshot := Some loaded\<rparr>)))"
| "evaluationSnapshot final ((now, loadedAt, w) # turns) s =
     (case snapshot_hit now s of
        Some current \<Rightarrow> (current, s)
      | None \<Rightarrow>
          (let loaded = load_snapshot loadedAt s; s' = w s in
           if sv_generation s' \<noteq> sv_generation s then evaluationSnapshot final turns s'
           else (loaded, s'\<lparr>sv_snapshot := Some loaded\<rparr>)))"

abbreviation maxOverrideEntries :: nat where "maxOverrideEntries \<equiv> 10000"

text \<open>The loop of \<^verbatim>\<open>evictOverrideEntryLocked\<close>; the first argument is what is left of the iteration.\<close>

fun evict_loop ::
  "(string \<times> override_cache_entry) list \<Rightarrow> duration \<Rightarrow> instant \<Rightarrow> string \<Rightarrow> instant \<Rightarrow> (string \<times> override_cache_entry) list \<Rightarrow>
   (string \<times> override_cache_entry) list" where
  "evict_loop [] ttl now oldestKey oldest m = (if oldestKey \<noteq> [] then AList.delete oldestKey m else m)"
| "evict_loop ((key, entry) # rest) ttl now oldestKey oldest m =
     (if now - oe_loaded_at entry \<ge> ttl then
        (let m' = AList.delete key m in
         if length m' < maxOverrideEntries then m' else evict_loop rest ttl now oldestKey oldest m')
      else if oldestKey = [] \<or> oe_loaded_at entry < oldest then evict_loop rest ttl now key (oe_loaded_at entry) m
      else evict_loop rest ttl now oldestKey oldest m)"

definition evictOverrideEntryLocked ::
  "((string \<times> override_cache_entry) list \<Rightarrow> (string \<times> override_cache_entry) list) \<Rightarrow> instant \<Rightarrow> ab_service \<Rightarrow> ab_service" where
  "evictOverrideEntryLocked order now s =
     (if length (sv_overrides s) < maxOverrideEntries then s
      else s\<lparr>sv_overrides := evict_loop (order (sv_overrides s)) (sv_override_ttl s) now [] 0 (sv_overrides s)\<rparr>)"

definition cachedSubjectOverrides :: "string \<Rightarrow> instant \<Rightarrow> ab_service \<Rightarrow> ab_override list option" where
  "cachedSubjectOverrides key now s =
     (case map_of (sv_overrides s) key of
        None \<Rightarrow> None
      | Some cached \<Rightarrow> if now - oe_loaded_at cached \<ge> sv_override_ttl s then None else Some (oe_overrides cached))"

definition override_key :: "64 word \<Rightarrow> string \<Rightarrow> string \<Rightarrow> string" where
  "override_key generation subjectType subjectID = itoa_nat (unat generation) @ '':'' @ subjectType @ '':'' @ subjectID"

definition subjectOverrides ::
  "((string \<times> override_cache_entry) list \<Rightarrow> (string \<times> override_cache_entry) list) \<Rightarrow> instant \<Rightarrow> instant \<Rightarrow>
   string \<Rightarrow> string \<Rightarrow> evaluation_snapshot \<Rightarrow> ab_service \<Rightarrow> ab_override list \<times> ab_service" where
  "subjectOverrides order now loadedAt subjectType subjectID snapshot s =
     (let key = override_key (sn_generation snapshot) subjectType subjectID in
      case cachedSubjectOverrides key now s of
        Some overrides \<Rightarrow> (overrides, s)
      | None \<Rightarrow>
          (let overrides = ListOverridesForSubject subjectType subjectID (sn_experiment_ids snapshot) (sv_tables s);
               s1 = evictOverrideEntryLocked order now s
           in (overrides, s1\<lparr>sv_overrides := AList.update key \<lparr>oe_overrides = overrides, oe_loaded_at = loadedAt\<rparr> (sv_overrides s1)\<rparr>)))"

section \<open>Evaluate\<close>

record evaluate_response =
  er_server_time :: string
  er_merged_config :: json_map
  er_experiments :: "assignment list"

text \<open>The overrides of one experiment, in the order they were loaded in.\<close>

definition overrides_of :: "ab_override list \<Rightarrow> ab_experiment \<Rightarrow> ab_experiment" where
  "overrides_of overrides e = e\<lparr>ex_overrides := filter (\<lambda>o'. ao_experiment_id o' = ex_id e) overrides\<rparr>"

fun evaluate_all :: "ab_experiment list \<Rightarrow> ab_override list \<Rightarrow> evaluate_request \<Rightarrow> instant \<Rightarrow> evaluate_response \<Rightarrow> evaluate_response" where
  "evaluate_all [] overrides req now resp = resp"
| "evaluate_all (e # es) overrides req now resp =
     (case evaluateExperiment (overrides_of overrides e) req now of
        None \<Rightarrow> evaluate_all es overrides req now resp
      | Some a \<Rightarrow> evaluate_all es overrides req now
          (resp\<lparr>er_experiments := er_experiments resp @ [a], er_merged_config := mergeConfig (er_merged_config resp) (as_config a)\<rparr>))"

definition trimmed_request :: "evaluate_request \<Rightarrow> evaluate_request" where
  "trimmed_request req = req\<lparr>ev_subject_type := TrimSpace (ev_subject_type req), ev_subject_id := TrimSpace (ev_subject_id req)\<rparr>"

definition Evaluate ::
  "((string \<times> override_cache_entry) list \<Rightarrow> (string \<times> override_cache_entry) list) \<Rightarrow>
   (instant \<times> instant \<times> (ab_service \<Rightarrow> ab_service)) list \<Rightarrow> instant \<Rightarrow> evaluate_request \<Rightarrow> ab_service \<Rightarrow>
   (ab_error + evaluate_response) \<times> ab_service" where
  "Evaluate order turns now req0 s =
     (let req = trimmed_request req0 in
      if ev_subject_type req = [] \<or> ev_subject_id req = [] then (Inl (ABInvalid ''subject_type and subject_id are required''), s)
      else (case evaluationSnapshot now turns s of
        (snapshot, s1) \<Rightarrow>
          (case subjectOverrides order now now (ev_subject_type req) (ev_subject_id req) snapshot s1 of
             (overrides, s2) \<Rightarrow>
               (Inr (evaluate_all (sn_experiments snapshot) overrides req now
                       \<lparr>er_server_time = RFC3339 now, er_merged_config = [], er_experiments = []\<rparr>), s2))))"

end
