(* ===== verification/AB_Laws.thy ===== *)
theory AB_Laws
  imports AB_Service "HOL-Library.Multiset"
begin

text \<open>
  What the experiment service promises: the tables stay well formed, a group receives exactly its share of
  the buckets, a full push reaches every subject, and an evaluation is at most one staleness bound behind.
\<close>

section \<open>Traffic\<close>

lemma stableBucket_range: "0 \<le> stableBucket subj key salt" "stableBucket subj key salt < 10000"
  by (simp_all add: stableBucket_def)

lemma pick_group_None:
  "\<lbrakk>\<forall>g\<in>set gs. 0 \<le> ag_traffic g; 0 \<le> u; u + (\<Sum>g\<leftarrow>gs. ag_traffic g) \<le> 10000\<rbrakk> \<Longrightarrow>
   pick_group b u gs = None \<longleftrightarrow> gs = [] \<or> u + (\<Sum>g\<leftarrow>gs. ag_traffic g) \<le> b"
proof (induction gs arbitrary: u)
  case (Cons g gs)
  have nn: "0 \<le> (\<Sum>g\<leftarrow>gs. ag_traffic g)" using Cons.prems(1) by (intro sum_list_nonneg) auto
  have w: "wrap64 (u + ag_traffic g) = u + ag_traffic g"
    using Cons.prems nn by (intro wrap64_id) auto
  show ?case using Cons.IH [of "u + ag_traffic g"] Cons.prems nn by (cases "gs = []") (auto simp: Let_def w)
qed simp

text \<open>
  The buckets of a group are the interval of its share, after the shares of the groups before it. The
  upper bound never wraps around, since the loop stops at the first bound above the bucket.
\<close>

lemma pick_group_member: "pick_group b u gs = Some g \<Longrightarrow> g \<in> set gs"
  by (induction gs arbitrary: u) (auto simp: Let_def split: if_splits)

lemma pick_group_interval:
  "\<lbrakk>\<forall>g\<in>set (xs @ g # ys). 0 \<le> ag_traffic g \<and> ag_traffic g \<le> 10000; distinct (xs @ g # ys); 0 \<le> u; u \<le> b; b < 10000\<rbrakk> \<Longrightarrow>
   pick_group b u (xs @ g # ys) = Some g \<longleftrightarrow>
     u + (\<Sum>g\<leftarrow>xs. ag_traffic g) \<le> b \<and> b < u + (\<Sum>g\<leftarrow>xs. ag_traffic g) + ag_traffic g"
proof (induction xs arbitrary: u)
  case Nil
  have w: "wrap64 (u + ag_traffic g) = u + ag_traffic g" using Nil.prems by (intro wrap64_id) auto
  show ?case using Nil.prems pick_group_member [of b "u + ag_traffic g" ys g] by (auto simp: Let_def w)
next
  case (Cons h xs)
  have nn: "0 \<le> (\<Sum>g\<leftarrow>xs. ag_traffic g)" using Cons.prems(1) by (auto intro!: sum_list_nonneg)
  have w: "wrap64 (u + ag_traffic h) = u + ag_traffic h" using Cons.prems by (intro wrap64_id) auto
  show ?case
    using Cons.IH [of "u + ag_traffic h"] Cons.prems nn by (cases "b < u + ag_traffic h") (auto simp: Let_def w)
qed

lemma sum_list_sort_key: "(\<Sum>x\<leftarrow>sort_key k xs. f x) = (\<Sum>x\<leftarrow>xs. f x)" for f :: "'a \<Rightarrow> int"
  by (metis mset_map mset_sort sum_mset_sum_list)

text \<open>The shares of the groups that come before \<open>g\<close>, that is with a smaller identifier.\<close>

definition traffic_before :: "ab_group \<Rightarrow> ab_group list \<Rightarrow> int" where
  "traffic_before g gs = (\<Sum>h\<leftarrow>filter (\<lambda>h. ag_id h < ag_id g) gs. ag_traffic h)"

lemma traffic_before_sorted:
  assumes "distinct (map ag_id gs)" "sort_key ag_id gs = xs @ g # ys"
  shows "traffic_before g gs = (\<Sum>h\<leftarrow>xs. ag_traffic h)"
proof -
  have "distinct (map ag_id (sort_key ag_id gs))" "sorted (map ag_id (sort_key ag_id gs))"
    using assms(1) by (simp_all add: distinct_map)
  then have "\<forall>x\<in>set xs. ag_id x \<le> ag_id g \<and> ag_id x \<noteq> ag_id g" "\<forall>y\<in>set ys. \<not> ag_id y < ag_id g"
    unfolding assms(2) by (auto simp: sorted_append image_iff not_less)
  then have "filter (\<lambda>h. ag_id h < ag_id g) (sort_key ag_id gs) = xs"
    unfolding assms(2) by (simp add: filter_id_conv filter_empty_conv less_le)
  then show ?thesis unfolding traffic_before_def using sum_list_sort_key [of ag_traffic ag_id] by (metis filter_sort)
qed

text \<open>
  C22. Traffic is exact: of the 10000 buckets a group, with stored shares between 0 and 10000, is selected
  for exactly those in the interval of its share after the groups with smaller identifiers, clipped to
  the 10000 buckets there are. So it gets as many as its traffic whenever the shares of the experiment do
  not exceed 10000 together, which the service does not enforce; otherwise later groups get fewer or
  none. A subject without a forced group is in the group of its bucket.
\<close>

theorem traffic_exact:
  assumes "distinct (map ag_id (ex_groups e))" "\<forall>g\<in>set (ex_groups e). 0 \<le> ag_traffic g \<and> ag_traffic g \<le> 10000"
    and "g \<in> set (ex_groups e)"
  shows "{b \<in> {0..<10000}. pick_group b 0 (sort_key ag_id (ex_groups e)) = Some g} =
      {traffic_before g (ex_groups e)..<min 10000 (traffic_before g (ex_groups e) + ag_traffic g)} \<and>
    ((\<Sum>h\<leftarrow>ex_groups e. ag_traffic h) \<le> 10000 \<longrightarrow>
      card {b \<in> {0..<10000}. pick_group b 0 (sort_key ag_id (ex_groups e)) = Some g} = nat (ag_traffic g)) \<and>
    selectGroup e req None = pick_group (stableBucket (ev_subject_id req) (ex_key e) (ex_salt e)) 0 (sort_key ag_id (ex_groups e)) \<and>
    stableBucket (ev_subject_id req) (ex_key e) (ex_salt e) \<in> {0..<10000}"
proof -
  define gs where "gs = sort_key ag_id (ex_groups e)"
  define l where "l = traffic_before g (ex_groups e)"
  have "g \<in> set gs" using assms(3) by (simp add: gs_def)
  then obtain xs ys where split: "gs = xs @ g # ys" by (meson split_list)
  have l: "l = (\<Sum>g\<leftarrow>xs. ag_traffic g)"
    unfolding l_def by (rule traffic_before_sorted [OF assms(1) split [unfolded gs_def]])
  have d: "distinct gs" unfolding gs_def using assms(1) by (simp add: distinct_map)
  have nn: "\<forall>g\<in>set gs. 0 \<le> ag_traffic g \<and> ag_traffic g \<le> 10000" using assms(2) by (simp add: gs_def)
  have pos: "0 \<le> l" "0 \<le> (\<Sum>g\<leftarrow>ys. ag_traffic g)" using nn by (auto simp: l split intro!: sum_list_nonneg)
  have "pick_group b 0 gs = Some g \<longleftrightarrow> l \<le> b \<and> b < l + ag_traffic g" if "0 \<le> b" "b < 10000" for b
    using pick_group_interval [of xs g ys 0 b] nn d that by (simp add: split l)
  then have eq: "{b \<in> {0..<10000}. pick_group b 0 gs = Some g} = {l..<min 10000 (l + ag_traffic g)}" using pos by auto
  have "(\<Sum>g\<leftarrow>gs. ag_traffic g) = (\<Sum>h\<leftarrow>ex_groups e. ag_traffic h)" unfolding gs_def by (rule sum_list_sort_key)
  then have "l + ag_traffic g \<le> 10000" if "(\<Sum>h\<leftarrow>ex_groups e. ag_traffic h) \<le> 10000" using that pos by (simp add: split l)
  then have "card {b \<in> {0..<10000}. pick_group b 0 gs = Some g} = nat (ag_traffic g)"
    if "(\<Sum>h\<leftarrow>ex_groups e. ag_traffic h) \<le> 10000" using that unfolding eq by (simp add: min_absorb2)
  then show ?thesis using eq by (simp add: selectGroup_def Let_def stableBucket_range flip: gs_def l_def)
qed

section \<open>Well-formed tables\<close>

definition group_ok :: "ab_group \<Rightarrow> bool" where
  "group_ok g \<longleftrightarrow> ag_group_key g \<noteq> [] \<and> TrimSpace (ag_group_key g) = ag_group_key g \<and> 0 \<le> ag_traffic g \<and> ag_traffic g \<le> 10000"

definition override_ok :: "ab_override \<Rightarrow> bool" where
  "override_ok o' \<longleftrightarrow> ao_subject_type o' \<noteq> [] \<and> ao_subject_id o' \<noteq> [] \<and>
     List.member [OverrideForceGroup, OverrideExclude, OverrideMergeConfig] (ao_action o')"

text \<open>A rolled-out experiment names one of its groups, and no other experiment names a group.\<close>

definition experiment_ok :: "ab_group list \<Rightarrow> ab_experiment \<Rightarrow> bool" where
  "experiment_ok groups e \<longleftrightarrow>
     List.member [ExperimentTypeClient, ExperimentTypeServer, ExperimentTypeAll] (ex_type e) \<and>
     List.member [StatusDraft, StatusRunning, StatusPaused, StatusStopped, StatusRolledOut] (ex_status e) \<and>
     1 \<le> ex_version e \<and>
     (if ex_status e = StatusRolledOut
      then list_ex (\<lambda>g. ag_experiment_id g = ex_id e \<and> ag_group_key g = ex_rollout_group_key e) groups
      else ex_rollout_group_key e = [])"

definition ab_wf :: "ab_tables \<Rightarrow> bool" where
  "ab_wf t \<longleftrightarrow> distinct (map ex_id (tb_experiments t)) \<and> distinct (map ex_key (tb_experiments t)) \<and>
     list_all (\<lambda>e. ex_id e < tb_experiment_seq t) (tb_experiments t) \<and>
     distinct (map ag_id (tb_groups t)) \<and> list_all (\<lambda>g. ag_id g < tb_group_seq t) (tb_groups t) \<and>
     list_all (experiment_ok (tb_groups t)) (tb_experiments t) \<and> list_all group_ok (tb_groups t) \<and>
     list_all override_ok (tb_overrides t)"

definition empty_tables :: ab_tables where
  "empty_tables = \<lparr>tb_experiments = [], tb_groups = [], tb_overrides = [], tb_experiment_seq = 1, tb_group_seq = 1, tb_override_seq = 1\<rparr>"

lemma normalizeExperimentType_ok:
  "normalizeExperimentType v \<noteq> [] \<Longrightarrow> List.member [ExperimentTypeClient, ExperimentTypeServer, ExperimentTypeAll] (normalizeExperimentType v)"
  by (auto simp: normalizeExperimentType_def Let_def split: if_splits)

lemma normalizeStatus_ok:
  "normalizeStatus v \<noteq> [] \<Longrightarrow>
   List.member [StatusDraft, StatusRunning, StatusPaused, StatusStopped, StatusRolledOut] (normalizeStatus v)"
  by (auto simp: normalizeStatus_def Let_def split: if_splits)

text \<open>What \<^verbatim>\<open>GetExperiment\<close> finds is the row, with its groups and overrides.\<close>

lemma GetExperimentD:
  "GetExperiment i t = Inr current \<Longrightarrow>
   \<exists>e\<in>set (tb_experiments t). ex_id e = i \<and> current = with_parts t [i] True e"
  by (auto simp: GetExperiment_def loadExperiments_def split: option.splits dest: sql_first_SomeD)

lemma with_parts_fields [simp]:
  "ex_id (with_parts t ids b e) = ex_id e" "ex_status (with_parts t ids b e) = ex_status e"
  "ex_rollout_group_key (with_parts t ids b e) = ex_rollout_group_key e" "ex_version (with_parts t ids b e) = ex_version e"
  "ex_type (with_parts t ids b e) = ex_type e" "ex_key (with_parts t ids b e) = ex_key e"
  by (simp_all add: with_parts_def)

lemma update_experiment_wf:
  assumes "ab_wf t" "\<And>e. ex_id (f e) = ex_id e" "\<And>e. ex_key (f e) = ex_key e"
    and "\<And>e. e \<in> set (tb_experiments t) \<Longrightarrow> ex_id e = i \<Longrightarrow> experiment_ok (tb_groups t) e \<Longrightarrow> experiment_ok (tb_groups t) (f e)"
  shows "ab_wf (update_experiment i f t)"
  using assms by (auto simp: ab_wf_def update_experiment_def map_key_sql_update list_all_iff ball_sql_update)

lemma wf_unique:
  "\<lbrakk>ab_wf t; e \<in> set (tb_experiments t); e' \<in> set (tb_experiments t); ex_id e = ex_id e'\<rbrakk> \<Longrightarrow> e = e'"
  by (auto simp: ab_wf_def distinct_map dest: inj_onD)

lemma wf_unique_group: "\<lbrakk>ab_wf t; g \<in> set (tb_groups t); h \<in> set (tb_groups t); ag_id g = ag_id h\<rbrakk> \<Longrightarrow> g = h"
  unfolding ab_wf_def distinct_map by (meson inj_onD)

lemma ab_wf_experiment: "ab_wf t \<Longrightarrow> e \<in> set (tb_experiments t) \<Longrightarrow> experiment_ok (tb_groups t) e"
  by (simp add: ab_wf_def list_all_iff)

lemma ab_wf_group: "ab_wf t \<Longrightarrow> g \<in> set (tb_groups t) \<Longrightarrow> group_ok g"
  by (simp add: ab_wf_def list_all_iff)

text \<open>Every update of one experiment reads it first; the new row is judged by the row that was read.\<close>

lemma update_current_wf:
  assumes "ab_wf t" "GetExperiment i t = Inr current" "\<And>e. ex_id (f e) = ex_id e" "\<And>e. ex_key (f e) = ex_key e"
    and "\<And>e. \<lbrakk>ex_id e = i; ex_version e = ex_version current; ex_status e = ex_status current;
               ex_rollout_group_key e = ex_rollout_group_key current; experiment_ok (tb_groups t) e\<rbrakk> \<Longrightarrow> experiment_ok (tb_groups t) (f e)"
  shows "ab_wf (update_experiment i f t)"
proof (rule update_experiment_wf [OF assms(1,3,4)])
  fix e assume e: "e \<in> set (tb_experiments t)" "ex_id e = i" "experiment_ok (tb_groups t) e"
  from GetExperimentD [OF assms(2)] obtain e' where e': "e' \<in> set (tb_experiments t)" "ex_id e' = i" "current = with_parts t [i] True e'" by blast
  then have "e = e'" using wf_unique [OF assms(1) e(1) e'(1)] e(2) by simp
  with e e' show "experiment_ok (tb_groups t) (f e)" by (intro assms(5)) simp_all
qed

lemma apply_updates_fields [simp]: "ex_id (apply_updates req e) = ex_id e" "ex_key (apply_updates req e) = ex_key e"
  by (simp_all add: apply_updates_def set_if_def Let_def split: option.splits)

lemma apply_updates_view:
  "ex_version (apply_updates req e) = ex_version e"
  "ex_type (apply_updates req e) = (case ux_type req of None \<Rightarrow> ex_type e | Some v \<Rightarrow> normalizeExperimentType v)"
  "ex_status (apply_updates req e) = (case ux_status req of None \<Rightarrow> ex_status e | Some v \<Rightarrow> normalizeStatus v)"
  "ex_rollout_group_key (apply_updates req e) =
     (case ux_status req of None \<Rightarrow> ex_rollout_group_key e
      | Some v \<Rightarrow> if normalizeStatus v = StatusRolledOut then ex_rollout_group_key e else [])"
  by (simp_all add: apply_updates_def set_if_def Let_def split: option.splits)

lemma UpdateExperiment_wf: "ab_wf t \<Longrightarrow> ab_wf (snd (UpdateExperiment clock i req t))"
  apply (clarsimp simp: UpdateExperiment_def Let_def split: sum.splits)
  apply (rule update_current_wf, assumption+)
    apply simp_all
  apply (auto simp: experiment_ok_def apply_updates_view split: option.splits if_splits
    dest: normalizeExperimentType_ok normalizeStatus_ok)
  done

lemma SetExperimentStatus_wf: "ab_wf t \<Longrightarrow> ab_wf (snd (SetExperimentStatus clock i status t))"
  apply (clarsimp simp: SetExperimentStatus_def Let_def split: sum.splits)
  apply (rule update_current_wf, assumption+)
    apply simp_all
  apply (auto simp: experiment_ok_def rolloutGroupKeyForStatus_def split: if_splits dest: normalizeStatus_ok)
  done

lemma WithdrawExperiment_wf: "ab_wf t \<Longrightarrow> ab_wf (snd (WithdrawExperiment clock i t))"
  apply (clarsimp simp: WithdrawExperiment_def Let_def split: sum.splits)
  apply (rule update_current_wf, assumption+)
    apply (simp_all add: experiment_ok_def)
  done

lemma bumpExperimentVersion_wf: "ab_wf t \<Longrightarrow> ab_wf (snd (bumpExperimentVersion clock i t))"
  apply (clarsimp simp: bumpExperimentVersion_def Let_def split: sum.splits)
  apply (rule update_current_wf, assumption+)
    apply (auto simp: experiment_ok_def split: if_splits)
  done

lemma experiment_ok_mono: "experiment_ok gs e \<Longrightarrow> (\<And>g. g \<in> set gs \<Longrightarrow> \<exists>g'\<in>set gs'. ag_experiment_id g' = ag_experiment_id g \<and> ag_group_key g' = ag_group_key g) \<Longrightarrow> experiment_ok gs' e"
  by (auto simp: experiment_ok_def list_ex_iff split: if_splits) metis+

lemma normalizeGroupInput_ok:
  "normalizeGroupInput req0 = Inr req \<Longrightarrow>
   gi_group_key req \<noteq> [] \<and> TrimSpace (gi_group_key req) = gi_group_key req \<and> 0 \<le> gi_traffic req \<and> gi_traffic req \<le> 10000"
  by (auto simp: normalizeGroupInput_def Let_def split: if_splits)

lemma insert_group_wf:
  assumes "ab_wf t" "normalizeGroupInput req0 = Inr req"
  shows "ab_wf (snd (insert_group i now req t))"
  using assms(1) normalizeGroupInput_ok [OF assms(2)]
  by (fastforce simp: ab_wf_def insert_group_def Let_def list_all_iff group_ok_def elim: experiment_ok_mono)

lemma AddGroup_wf: "ab_wf t \<Longrightarrow> ab_wf (snd (AddGroup clock i req t))"
  using insert_group_wf [of t req]
  by (auto simp: AddGroup_def split: sum.splits prod.splits intro!: bumpExperimentVersion_wf) (metis snd_conv)

lemma normalizeOverrideInput_ok:
  "normalizeOverrideInput req0 = Inr req \<Longrightarrow>
   oi_subject_type req \<noteq> [] \<and> oi_subject_id req \<noteq> [] \<and>
   List.member [OverrideForceGroup, OverrideExclude, OverrideMergeConfig] (oi_action req)"
  by (auto simp: normalizeOverrideInput_def Let_def split: if_splits)

lemma insert_override_wf:
  "ab_wf t \<Longrightarrow> override_ok o' \<Longrightarrow> ab_wf (t\<lparr>tb_overrides := tb_overrides t @ [o'], tb_override_seq := n\<rparr>)"
  by (simp add: ab_wf_def)

lemma AddOverride_wf:
  assumes "ab_wf t"
  shows "ab_wf (snd (AddOverride clock i req0 t))"
proof (cases "GetExperiment i t")
  case (Inr e)
  show ?thesis
  proof (cases "normalizeOverrideInput req0")
    case (Inr req)
    show ?thesis
      unfolding AddOverride_def Let_def using \<open>GetExperiment i t = Inr e\<close> normalizeOverrideInput_ok [OF Inr] assms
      by (simp add: Inr override_ok_def bumpExperimentVersion_wf insert_override_wf)
  qed (simp add: AddOverride_def Inr assms)
qed (simp add: AddOverride_def assms)

text \<open>The update of groups that keeps identity, experiment and key.\<close>

lemma update_groups_wf:
  assumes "ab_wf t" "\<And>g. ag_id (f g) = ag_id g \<and> ag_experiment_id (f g) = ag_experiment_id g \<and> ag_group_key (f g) = ag_group_key g"
    and "\<And>g. group_ok g \<Longrightarrow> group_ok (f g)"
  shows "ab_wf (t\<lparr>tb_groups := sql_update c f (tb_groups t)\<rparr>)"
proof -
  have "experiment_ok (tb_groups t) e \<Longrightarrow> experiment_ok (sql_update c f (tb_groups t)) e" for e
    by (erule experiment_ok_mono) (auto simp: bex_sql_update assms(2))
  then show ?thesis using assms by (auto simp: ab_wf_def map_key_sql_update list_all_iff ball_sql_update)
qed

lemma PushFullGroup_wf:
  assumes "ab_wf t"
  shows "ab_wf (snd (PushFullGroup clock i g t))"
proof (cases "GetExperiment i t")
  case (Inr current)
  show ?thesis
  proof (cases "sql_first (\<lambda>h. ag_id h = g \<and> ag_experiment_id h = i) (tb_groups t)")
    case (Some target)
    note target = sql_first_SomeD [OF Some]
    define t1 where "t1 = t\<lparr>tb_groups := sql_update (\<lambda>h. ag_experiment_id h = i) (\<lambda>h. h\<lparr>ag_traffic := 0, ag_updated_at := RFC3339 clock\<rparr>) (tb_groups t)\<rparr>"
    define t2 where "t2 = t1\<lparr>tb_groups := sql_update (\<lambda>h. ag_id h = g \<and> ag_experiment_id h = i)
        (\<lambda>h. h\<lparr>ag_traffic := 10000, ag_updated_at := RFC3339 clock\<rparr>) (tb_groups t1)\<rparr>"
    have wf1: "ab_wf t1" unfolding t1_def by (rule update_groups_wf [OF assms]) (simp_all add: group_ok_def)
    have wf2: "ab_wf t2" unfolding t2_def by (rule update_groups_wf [OF wf1]) (simp_all add: group_ok_def)
    have "\<exists>h\<in>set (tb_groups t2). ag_experiment_id h = i \<and> ag_group_key h = ag_group_key target"
      using target by (auto simp: t1_def t2_def bex_sql_update)
    moreover from GetExperimentD [OF Inr] have "1 \<le> ex_version current"
      using assms by (auto simp: ab_wf_def list_all_iff experiment_ok_def)
    ultimately have "ab_wf (update_experiment i (\<lambda>e. e\<lparr>ex_status := StatusRolledOut, ex_rollout_group_key := ag_group_key target,
        ex_version := ex_version current + 1, ex_updated_at := RFC3339 clock\<rparr>) t2)"
      by (intro update_experiment_wf [OF wf2]) (auto simp: experiment_ok_def list_ex_iff)
    then show ?thesis by (simp add: PushFullGroup_def Inr Some Let_def t1_def t2_def)
  qed (simp add: PushFullGroup_def Inr assms)
qed (simp add: PushFullGroup_def assms)

lemma insert_groups_wf: "ab_wf t \<Longrightarrow> insert_groups i now gs t = (err, t') \<Longrightarrow> ab_wf t'"
proof (induction gs arbitrary: t)
  case (Cons g gs)
  then show ?case by (auto split: sum.splits dest: insert_group_wf)
qed simp

lemma normalizeCreateExperiment_ok:
  "normalizeCreateExperiment now req0 = Inr req \<Longrightarrow>
   List.member [ExperimentTypeClient, ExperimentTypeServer, ExperimentTypeAll] (cx_type req) \<and>
   List.member [StatusDraft, StatusRunning, StatusPaused, StatusStopped] (cx_status req)"
  using normalizeExperimentType_ok [of "cx_type req0"] normalizeStatus_ok [of "cx_status req0"]
  by (auto simp: normalizeCreateExperiment_def Let_def split: if_splits option.splits)

lemma rollback_wf:
  "ab_wf t \<Longrightarrow> tb_experiment_seq t \<le> tb_experiment_seq t' \<Longrightarrow> tb_group_seq t \<le> tb_group_seq t' \<Longrightarrow> ab_wf (rollback t t')"
  by (auto simp: ab_wf_def rollback_def list_all_iff)

lemma insert_groups_seq:
  "insert_groups i now gs t = (err, t') \<Longrightarrow> tb_experiment_seq t' = tb_experiment_seq t \<and> tb_group_seq t \<le> tb_group_seq t'"
  by (induction gs arbitrary: t) (fastforce simp: insert_group_def Let_def split: sum.splits)+

lemma CreateExperiment_wf:
  assumes "ab_wf t"
  shows "ab_wf (snd (CreateExperiment clock req0 t))"
proof (cases "normalizeCreateExperiment clock req0")
  case (Inr req)
  define i t1 where "i = tb_experiment_seq t" and "t1 = t\<lparr>tb_experiment_seq := i + 1\<rparr>"
  define e where "e = new_experiment i (RFC3339 clock) req"
  have wf1: "ab_wf t1" using assms by (auto simp: ab_wf_def t1_def i_def list_all_iff)
  show ?thesis
  proof (cases "sql_create ex_key e (tb_experiments t)")
    case None
    then show ?thesis using wf1 by (simp add: CreateExperiment_def Inr Let_def e_def i_def t1_def)
  next
    case (Some rows)
    then have rows: "rows = tb_experiments t @ [e]" "ex_key e \<notin> ex_key ` set (tb_experiments t)"
      by (auto dest: sql_create_SomeD)
    have "experiment_ok (tb_groups t) e" "ex_id e = i"
      using normalizeCreateExperiment_ok [OF Inr] by (auto simp: experiment_ok_def e_def new_experiment_def)
    then have wf2: "ab_wf (t1\<lparr>tb_experiments := rows\<rparr>)"
      using assms rows by (auto simp: ab_wf_def t1_def i_def list_all_iff)
    obtain err t2 where ins: "insert_groups i (RFC3339 clock) (cx_groups req) (t1\<lparr>tb_experiments := rows\<rparr>) = (err, t2)" by fastforce
    have "ab_wf t2" by (rule insert_groups_wf [OF wf2 ins])
    moreover have "ab_wf (rollback t t2)"
      using insert_groups_seq [OF ins] by (intro rollback_wf [OF assms]) (simp_all add: t1_def i_def)
    ultimately show ?thesis
      using Some ins by (cases err) (simp_all add: CreateExperiment_def Inr Let_def e_def i_def t1_def)
  qed
qed (simp add: CreateExperiment_def assms)

lemmas store_wf = CreateExperiment_wf UpdateExperiment_wf SetExperimentStatus_wf PushFullGroup_wf WithdrawExperiment_wf
  AddGroup_wf AddOverride_wf

lemma snd_forget [simp]: "snd (forget r) = snd r"
  by (simp add: forget_def split: prod.splits sum.splits)

lemma store_command_wf: "ab_wf t \<Longrightarrow> ab_wf (snd (store_command clock cmd t))"
  by (cases cmd) (simp_all add: store_wf)

lemma sv_tables_service_command [simp]: "sv_tables (snd (service_command clock cmd s)) = snd (store_command clock cmd (sv_tables s))"
  by (simp add: service_command_def service_write_def invalidateAfterWrite_def invalidateLocal_def split: prod.splits sum.splits)

definition run_commands :: "(instant \<times> ab_command) list \<Rightarrow> ab_service \<Rightarrow> ab_service" where
  "run_commands cmds s = fold (\<lambda>(clock, cmd) s. snd (service_command clock cmd s)) cmds s"

lemma run_commands_wf: "ab_wf (sv_tables s) \<Longrightarrow> ab_wf (sv_tables (run_commands cmds s))"
  unfolding run_commands_def by (induction cmds arbitrary: s) (auto simp: store_command_wf)

text \<open>
  C21. Whatever the administration does, starting from empty tables, the stored data stay well typed: types
  and statuses are among the known ones, identifiers and experiment keys are unique, shares lie between 0
  and 10000, group keys are trimmed and not empty, overrides have a known action, versions are positive,
  and an experiment names a group to roll out exactly when it is rolled out, one that it has.
\<close>

theorem tables_well_typed: "ab_wf (sv_tables (run_commands cmds (NewService env empty_tables)))"
  by (rule run_commands_wf) (simp add: NewService_def newService_def Let_def empty_tables_def ab_wf_def)

section \<open>A full push\<close>

lemma evaluate_all_eq:
  "er_experiments (evaluate_all es overrides req now resp) =
     er_experiments resp @ List.map_filter (\<lambda>e. evaluateExperiment (overrides_of overrides e) req now) es"
  by (induction es arbitrary: resp) (auto simp: List.map_filter_def split: option.splits)

lemma overrides_of_fields [simp]:
  "ex_id (overrides_of ov e) = ex_id e" "ex_status (overrides_of ov e) = ex_status e" "ex_type (overrides_of ov e) = ex_type e"
  "ex_rollout_group_key (overrides_of ov e) = ex_rollout_group_key e" "ex_groups (overrides_of ov e) = ex_groups e"
  by (simp_all add: overrides_of_def)

lemma rolloutGroup_found:
  assumes "\<exists>g\<in>set (ex_groups e). ag_group_key g = key" "TrimSpace (ex_rollout_group_key e) = key" "key \<noteq> []"
  shows "\<exists>g. rolloutGroup e = Some g \<and> ag_group_key g = key"
proof -
  have "find (\<lambda>g. ag_group_key g = key) (ex_groups e) \<noteq> None" using assms(1) by (auto simp: find_None_iff)
  then show ?thesis using assms(2,3) by (auto simp: rolloutGroup_def Let_def dest: find_Some_iff [THEN iffD1])
qed

text \<open>A rolled-out experiment of well-formed tables gives its group to every subject of its type.\<close>

lemma evaluate_rolled_out:
  assumes "ab_wf t" "e \<in> set (tb_experiments t)" "ex_status e = StatusRolledOut" "ex_id e \<in> set ids"
    and "experimentTypeMatches (ex_type e) (ev_subject_type req)"
  shows "\<exists>a. evaluateExperiment (overrides_of ov ((with_parts t ids b e)\<lparr>ex_overrides := []\<rparr>)) req now = Some a \<and>
    as_experiment_id a = ex_id e \<and> as_group_key a = ex_rollout_group_key e \<and> \<not> as_override_applied a"
proof -
  from ab_wf_experiment [OF assms(1,2)] assms(3) obtain g
    where g: "g \<in> set (tb_groups t)" "ag_experiment_id g = ex_id e" "ag_group_key g = ex_rollout_group_key e"
    by (auto simp: experiment_ok_def list_ex_iff)
  with ab_wf_group [OF assms(1) g(1)] have key: "TrimSpace (ex_rollout_group_key e) = ex_rollout_group_key e" "ex_rollout_group_key e \<noteq> []"
    by (simp_all add: group_ok_def)
  let ?e = "overrides_of ov ((with_parts t ids b e)\<lparr>ex_overrides := []\<rparr>)"
  have "g \<in> set (ex_groups ?e)" using g assms(4) by (simp add: with_parts_def)
  then obtain h where "rolloutGroup ?e = Some h" "ag_group_key h = ex_rollout_group_key e"
    using rolloutGroup_found [of ?e "ex_rollout_group_key e"] g key by auto
  then show ?thesis using assms(3,5) by (simp add: evaluateExperiment_def buildAssignment_def)
qed

lemma PushFullGroup_result:
  assumes "PushFullGroup clock i g t = (Inr e, t')" "h \<in> set (tb_groups t)" "ag_id h = g" "ag_experiment_id h = i" "ab_wf t"
    and "x \<in> set (tb_experiments t')" "ex_id x = i"
  shows "ex_status x = StatusRolledOut \<and> ex_rollout_group_key x = ag_group_key h"
proof -
  from assms(1) obtain current target where found: "GetExperiment i t = Inr current"
      "sql_first (\<lambda>h. ag_id h = g \<and> ag_experiment_id h = i) (tb_groups t) = Some target"
    by (auto simp: PushFullGroup_def split: sum.splits option.splits)
  from sql_first_SomeD [OF found(2)] have "target = h" using assms(3) by (intro wf_unique_group [OF assms(5) _ assms(2)]) simp_all
  then have "tb_experiments t' = sql_update (\<lambda>e. ex_id e = i)
      (\<lambda>e. e\<lparr>ex_status := StatusRolledOut, ex_rollout_group_key := ag_group_key h, ex_version := ex_version current + 1,
            ex_updated_at := RFC3339 clock\<rparr>) (tb_experiments t)"
    using assms(1) by (simp add: PushFullGroup_def found Let_def update_experiment_def) (elim conjE, erule subst, simp)
  then have "\<forall>x\<in>set (tb_experiments t'). ex_id x = i \<longrightarrow> ex_status x = StatusRolledOut \<and> ex_rollout_group_key x = ag_group_key h"
    by (simp only:) (simp add: ball_sql_update)
  with assms(6,7) show ?thesis by blast
qed

lemma evaluateExperiment_id: "evaluateExperiment e req now = Some a \<Longrightarrow> as_experiment_id a = ex_id e"
  by (auto simp: evaluateExperiment_def apply_override_def buildAssignment_def Let_def split: if_splits option.splits)

lemma service_command_success:
  "service_command clock cmd s = (Inr (), s') \<Longrightarrow>
   \<exists>t'. store_command clock cmd (sv_tables s) = (Inr (), t') \<and> s' = invalidateLocal (s\<lparr>sv_tables := t'\<rparr>)"
  by (auto simp: service_command_def service_write_def invalidateAfterWrite_def split: prod.splits sum.splits)

lemma Evaluate_quiet:
  assumes "Evaluate order [] now req s = (Inr resp, s')" "sv_snapshot s = None"
  shows "\<exists>overrides. er_experiments resp =
    List.map_filter (\<lambda>e. evaluateExperiment (overrides_of overrides (e\<lparr>ex_overrides := []\<rparr>)) (trimmed_request req) now)
      (ListEvaluationExperiments (sv_tables s))"
proof -
  from assms obtain overrides where "resp = evaluate_all (map (\<lambda>e. e\<lparr>ex_overrides := []\<rparr>) (ListEvaluationExperiments (sv_tables s)))
      overrides (trimmed_request req) now \<lparr>er_server_time = RFC3339 now, er_merged_config = [], er_experiments = []\<rparr>"
    by (auto simp: Evaluate_def snapshot_hit_def load_snapshot_def Let_def split: if_splits prod.splits)
  then show ?thesis by (auto simp: evaluate_all_eq List.map_filter_def comp_def filter_map)
qed

text \<open>
  After a group has been pushed to everyone, an evaluation on the replica that did it assigns this group to
  every subject of the experiment's type: neither the experiment's window nor its targeting nor an
  override, not even an exclusion, makes a difference, and no other group of it is ever given.
\<close>

theorem push_full_reaches_everyone:
  assumes "service_command clock (CmdPushFull i g) (run_commands cmds (NewService env empty_tables)) = (Inr (), s)"
    and "h \<in> set (tb_groups (sv_tables (run_commands cmds (NewService env empty_tables))))" "ag_id h = g" "ag_experiment_id h = i"
    and "Evaluate order [] now req s = (Inr resp, s')"
    and "e \<in> set (tb_experiments (sv_tables s))" "ex_id e = i" "experimentTypeMatches (ex_type e) (TrimSpace (ev_subject_type req))"
  shows "(\<exists>a\<in>set (er_experiments resp). as_experiment_id a = i \<and> as_group_key a = ag_group_key h \<and> \<not> as_override_applied a) \<and>
    (\<forall>a\<in>set (er_experiments resp). as_experiment_id a = i \<longrightarrow> as_group_key a = ag_group_key h)"
proof -
  define s0 where "s0 = run_commands cmds (NewService env empty_tables)"
  have wf0: "ab_wf (sv_tables s0)"
    unfolding s0_def by (rule run_commands_wf) (simp add: NewService_def newService_def Let_def empty_tables_def ab_wf_def)
  from service_command_success [OF assms(1) [folded s0_def]] obtain t' e' where
    push: "PushFullGroup clock i g (sv_tables s0) = (Inr e', t')" and s: "s = invalidateLocal (s0\<lparr>sv_tables := t'\<rparr>)"
    by (auto simp: forget_def split: prod.splits sum.splits)
  have wf: "ab_wf (sv_tables s)" using PushFullGroup_wf [OF wf0, of clock i g] push s by (simp add: invalidateLocal_def)
  have st: "ex_status e = StatusRolledOut" "ex_rollout_group_key e = ag_group_key h"
    using PushFullGroup_result [OF push assms(2) [folded s0_def] assms(3,4) wf0] assms(6,7) s by (auto simp: invalidateLocal_def)
  from Evaluate_quiet [OF assms(5)] s obtain ov where resp: "er_experiments resp =
      List.map_filter (\<lambda>e. evaluateExperiment (overrides_of ov (e\<lparr>ex_overrides := []\<rparr>)) (trimmed_request req) now)
        (ListEvaluationExperiments (sv_tables s))" by (auto simp: invalidateLocal_def)
  define models where "models = sql_order ex_id (filter (\<lambda>e. ex_status e = StatusRunning \<or> ex_status e = StatusRolledOut) (tb_experiments (sv_tables s)))"
  have m: "e \<in> set models" using assms(6) st by (simp add: models_def)
  from evaluate_rolled_out [OF wf assms(6) st(1), of "map ex_id models" "trimmed_request req" ov False now] m assms(8)
  obtain a where a: "evaluateExperiment (overrides_of ov ((with_parts (sv_tables s) (map ex_id models) False e)\<lparr>ex_overrides := []\<rparr>))
      (trimmed_request req) now = Some a" "as_experiment_id a = i" "as_group_key a = ag_group_key h" "\<not> as_override_applied a"
    using assms(7) st(2) by (auto simp: trimmed_request_def)
  have list: "ListEvaluationExperiments (sv_tables s) = map (with_parts (sv_tables s) (map ex_id models) False) models"
    by (simp add: ListEvaluationExperiments_def loadExperiments_def models_def)
  then have "with_parts (sv_tables s) (map ex_id models) False e \<in> set (ListEvaluationExperiments (sv_tables s))" using m by simp
  then have "a \<in> set (er_experiments resp)" unfolding resp List.map_filter_def using a(1) by force
  moreover have "b = a" if "b \<in> set (er_experiments resp)" "as_experiment_id b = i" for b
  proof -
    from that(1) obtain x where x: "x \<in> set models"
      "evaluateExperiment (overrides_of ov ((with_parts (sv_tables s) (map ex_id models) False x)\<lparr>ex_overrides := []\<rparr>)) (trimmed_request req) now = Some b"
      unfolding resp List.map_filter_def list by auto
    with evaluateExperiment_id [OF x(2)] that(2) have "ex_id x = ex_id e" using assms(7) by simp
    with x(1) have "x = e" by (intro wf_unique [OF wf _ assms(6)]) (simp_all add: models_def)
    with x(2) a(1) show ?thesis by simp
  qed
  ultimately show ?thesis using a by blast
qed

end
