(* ===== verification/AB_Caching.thy ===== *)
theory AB_Caching
  imports AB_Laws
begin

text \<open>
  The caches of the experiment service over its life: a trace interleaves the passing of time, writes of
  other replicas, operations of this replica and evaluations. It carries the observations since the last
  successful operation of this replica, the pairs of a clock reading and the tables at that moment.
\<close>

inductive ab_trace :: "instant \<Rightarrow> (instant \<times> ab_tables) set \<Rightarrow> ab_service \<Rightarrow> bool" where
  start: "ab_trace now {(now, t)} (NewService env t)"
| tick: "ab_trace now seen s \<Longrightarrow> now \<le> now' \<Longrightarrow> ab_trace now' (insert (now', sv_tables s) seen) s"
| remote: "ab_trace now seen s \<Longrightarrow> ab_trace now (insert (now, t) seen) (s\<lparr>sv_tables := t\<rparr>)"
| written: "ab_trace now seen s \<Longrightarrow> service_command now cmd s = (Inr (), s') \<Longrightarrow> ab_trace now {(now, sv_tables s')} s'"
| failed: "ab_trace now seen s \<Longrightarrow> service_command now cmd s = (Inl e, s') \<Longrightarrow> ab_trace now (insert (now, sv_tables s') seen) s'"
| evaluated: "ab_trace now seen s \<Longrightarrow> (\<And>m. set (order m) = set m) \<Longrightarrow> Evaluate order [] now req s = (result, s') \<Longrightarrow> ab_trace now seen s'"

section \<open>The bound of the overrides' cache\<close>

lemma length_delete_less: "k \<in> fst ` set m \<Longrightarrow> length (AList.delete k m) < length m"
proof (induction m)
  case (Cons x m)
  then show ?case by (cases "k = fst x"; cases x) (auto simp: AList.delete_eq less_Suc_eq_le)
qed simp

lemma evict_loop_less:
  "\<lbrakk>length m = maxOverrideEntries; set rest \<subseteq> set m; \<forall>k\<in>fst ` set m. k \<noteq> []; oldestKey \<in> fst ` set m \<or> oldestKey = [] \<and> rest \<noteq> []\<rbrakk> \<Longrightarrow>
   length (evict_loop rest ttl now oldestKey oldest m) < maxOverrideEntries"
proof (induction rest arbitrary: oldestKey oldest)
  case Nil
  then show ?case using length_delete_less [of oldestKey m] by auto
next
  case (Cons x rest)
  obtain key entry where x: "x = (key, entry)" by fastforce
  have key: "key \<in> fst ` set m" using Cons.prems(2) x by force
  have "length (AList.delete key m) < maxOverrideEntries" using length_delete_less [OF key] Cons.prems(1) by simp
  moreover have "length (evict_loop rest ttl now key old m) < maxOverrideEntries" for old
    using Cons.prems key by (intro Cons.IH) auto
  moreover have "length (evict_loop rest ttl now oldestKey old m) < maxOverrideEntries" if "oldestKey \<noteq> []" for old
    using Cons.prems that by (intro Cons.IH) auto
  ultimately show ?case by (auto simp: x Let_def)
qed

lemma evict_loop_subset: "set (evict_loop rest ttl now k old m) \<subseteq> set m"
proof (induction rest arbitrary: k old m)
  case Nil
  then show ?case by (auto simp: AList.delete_eq)
next
  case (Cons x rest)
  then show ?case
    by (cases x) (auto simp: Let_def AList.delete_eq split: if_splits dest: subsetD [OF Cons.IH])
qed

lemma evict_subset: "set (sv_overrides (evictOverrideEntryLocked order now s)) \<subseteq> set (sv_overrides s)"
  using evict_loop_subset by (auto simp: evictOverrideEntryLocked_def)

lemma evict_fields [simp]:
  "sv_tables (evictOverrideEntryLocked order now s) = sv_tables s" "sv_cache_ttl (evictOverrideEntryLocked order now s) = sv_cache_ttl s"
  "sv_override_ttl (evictOverrideEntryLocked order now s) = sv_override_ttl s" "sv_snapshot (evictOverrideEntryLocked order now s) = sv_snapshot s"
  "sv_generation (evictOverrideEntryLocked order now s) = sv_generation s"
  by (simp_all add: evictOverrideEntryLocked_def)

lemma evict_less:
  assumes "length (sv_overrides s) \<le> maxOverrideEntries" "\<forall>k\<in>fst ` set (sv_overrides s). k \<noteq> []" "\<And>m. set (order m) = set m"
  shows "length (sv_overrides (evictOverrideEntryLocked order now s)) < maxOverrideEntries"
proof (cases "length (sv_overrides s) < maxOverrideEntries")
  case False
  with assms(1) have len: "length (sv_overrides s) = maxOverrideEntries" by simp
  then have "sv_overrides s \<noteq> []" by auto
  then have "order (sv_overrides s) \<noteq> []" using assms(3) by (metis set_empty)
  with len assms show ?thesis by (simp add: evictOverrideEntryLocked_def evict_loop_less)
qed (simp add: evictOverrideEntryLocked_def)

lemma length_update_le: "length (AList.update k v m) \<le> Suc (length m)"
  by (induction m) auto

lemma set_update_subset: "set (AList.update k v m) \<subseteq> insert (k, v) (set m)"
  by (induction m) auto

section \<open>The invariant\<close>

definition clear_overrides :: "ab_experiment list \<Rightarrow> ab_experiment list" where
  "clear_overrides es = map (\<lambda>e. e\<lparr>ex_overrides := []\<rparr>) es"

text \<open>A snapshot shows the tables of an observation, at the time of its loading.\<close>

definition snapshot_of :: "(instant \<times> ab_tables) set \<Rightarrow> evaluation_snapshot \<Rightarrow> bool" where
  "snapshot_of seen sn \<longleftrightarrow> (\<exists>t. (sn_loaded_at sn, t) \<in> seen \<and> sn_experiments sn = clear_overrides (ListEvaluationExperiments t) \<and>
     sn_experiment_ids sn = map ex_id (ListEvaluationExperiments t))"

text \<open>An entry shows the overrides of an observation, for the experiments of an observation shortly before.\<close>

definition entry_of :: "(instant \<times> ab_tables) set \<Rightarrow> 64 word \<Rightarrow> duration \<Rightarrow> string \<Rightarrow> override_cache_entry \<Rightarrow> bool" where
  "entry_of seen gen ttl key oe \<longleftrightarrow> (\<exists>subjectType subjectID t \<tau> u.
     key = override_key gen subjectType subjectID \<and> (oe_loaded_at oe, t) \<in> seen \<and>
     (\<tau>, u) \<in> seen \<and> \<tau> \<le> oe_loaded_at oe \<and> oe_loaded_at oe - \<tau> < ttl \<and>
     oe_overrides oe = ListOverridesForSubject subjectType subjectID (map ex_id (ListEvaluationExperiments u)) t)"

definition cache_inv :: "instant \<Rightarrow> (instant \<times> ab_tables) set \<Rightarrow> ab_service \<Rightarrow> bool" where
  "cache_inv now seen s \<longleftrightarrow>
     0 < sv_cache_ttl s \<and> sv_cache_ttl s \<le> 5 * second \<and> 0 < sv_override_ttl s \<and> sv_override_ttl s \<le> 3 * second \<and>
     (now, sv_tables s) \<in> seen \<and> (\<forall>(\<tau>, t)\<in>seen. \<tau> \<le> now) \<and>
     (\<forall>sn. sv_snapshot s = Some sn \<longrightarrow> snapshot_of seen sn \<and> sn_generation sn = sv_generation s) \<and>
     (\<forall>(key, oe)\<in>set (sv_overrides s). entry_of seen (sv_generation s) (sv_cache_ttl s) key oe) \<and>
     length (sv_overrides s) \<le> maxOverrideEntries"

lemma snapshot_of_mono: "snapshot_of seen sn \<Longrightarrow> seen \<subseteq> seen' \<Longrightarrow> snapshot_of seen' sn"
  by (auto simp: snapshot_of_def)

lemma entry_of_mono: "entry_of seen gen ttl key oe \<Longrightarrow> seen \<subseteq> seen' \<Longrightarrow> entry_of seen' gen ttl key oe"
  unfolding entry_of_def by (elim exE conjE) (intro exI conjI, assumption, (erule (1) subsetD)+, assumption+)

lemma cache_inv_more:
  assumes "cache_inv now seen s" "now \<le> now'" "sv_cache_ttl s' = sv_cache_ttl s" "sv_override_ttl s' = sv_override_ttl s"
    and "sv_snapshot s' = sv_snapshot s" "sv_generation s' = sv_generation s" "sv_overrides s' = sv_overrides s"
  shows "cache_inv now' (insert (now', sv_tables s') seen) s'"
  using assms unfolding cache_inv_def
  by (auto intro: snapshot_of_mono entry_of_mono)

lemma cache_inv_fresh:
  assumes "cache_inv now seen s" "sv_snapshot s' = None" "sv_overrides s' = []" "sv_cache_ttl s' = sv_cache_ttl s" "sv_override_ttl s' = sv_override_ttl s"
  shows "cache_inv now {(now, sv_tables s')} s'"
  using assms by (auto simp: cache_inv_def)

lemma snapshot_step:
  assumes "cache_inv now seen s" "evaluationSnapshot now [] s = (sn, s')"
  shows "cache_inv now seen s' \<and> snapshot_of seen sn \<and> sn_generation sn = sv_generation s' \<and> now - sn_loaded_at sn < sv_cache_ttl s' \<and>
    sv_tables s' = sv_tables s \<and> sv_cache_ttl s' = sv_cache_ttl s \<and> sv_override_ttl s' = sv_override_ttl s"
proof (cases "snapshot_hit now s")
  case None
  have "snapshot_of seen (load_snapshot now s)"
    using assms(1) by (auto simp: snapshot_of_def load_snapshot_def clear_overrides_def Let_def cache_inv_def)
  with None assms show ?thesis by (auto simp: cache_inv_def Let_def load_snapshot_def)
next
  case (Some cur)
  then have "sv_snapshot s = Some cur" "now - sn_loaded_at cur < sv_cache_ttl s"
    by (auto simp: snapshot_hit_def split: option.splits if_splits)
  with Some assms show ?thesis by (auto simp: cache_inv_def)
qed

text \<open>The subjects that share an entry with a subject.\<close>

definition shares_entry :: "string \<Rightarrow> string \<Rightarrow> string \<Rightarrow> string \<Rightarrow> bool" where
  "shares_entry ty subj ty' subj' \<longleftrightarrow> ty @ CHR '':'' # subj = ty' @ CHR '':'' # subj'"

lemma override_key_shares: "override_key gen ty subj = override_key gen ty' subj' \<longleftrightarrow> shares_entry ty subj ty' subj'"
  by (simp add: override_key_def shares_entry_def)

lemma shares_entry_same:
  assumes "shares_entry ty subj ty' subj'" "CHR '':'' \<notin> set ty" "CHR '':'' \<notin> set subj"
  shows "ty' = ty \<and> subj' = subj"
proof -
  from assms(1) have eq: "ty @ CHR '':'' # subj = ty' @ CHR '':'' # subj'" by (simp add: shares_entry_def)
  have "CHR '':'' \<notin> set ty'"
  proof
    assume "CHR '':'' \<in> set ty'"
    then have "count_list ty' CHR '':'' \<noteq> 0" by (simp add: count_list_0_iff)
    then have "2 \<le> count_list (ty' @ CHR '':'' # subj') CHR '':''" by simp
    then show False unfolding eq [symmetric] using assms(2,3) by simp
  qed
  with eq assms(2) show ?thesis using append_sep_inject by metis
qed

text \<open>With colons the keys of different subjects can coincide.\<close>

lemma override_key_collision: "override_key gen ''server:a'' ''b'' = override_key gen ''server'' ''a:b''"
  by (simp add: override_key_def)

lemma override_key_nonempty [simp]: "override_key gen ty subj \<noteq> []"
  by (simp add: override_key_def)

definition overrides_shown :: "instant \<Rightarrow> (instant \<times> ab_tables) set \<Rightarrow> string \<Rightarrow> string \<Rightarrow> ab_override list \<Rightarrow> bool" where
  "overrides_shown now seen subjectType subjectID overrides \<longleftrightarrow>
     (\<exists>(\<tau>, t)\<in>seen. now - \<tau> < 3 * second \<and>
        (\<exists>(\<sigma>, u)\<in>seen. \<sigma> \<le> \<tau> \<and> \<tau> - \<sigma> < 5 * second \<and>
           overrides = ListOverridesForSubject subjectType subjectID (map ex_id (ListEvaluationExperiments u)) t))"

lemma subject_step:
  assumes inv: "cache_inv now seen s" and sn: "snapshot_of seen sn" "sn_generation sn = sv_generation s" "now - sn_loaded_at sn < sv_cache_ttl s"
    and order: "\<And>m. set (order m) = set m" and run: "subjectOverrides order now now ty subj sn s = (ov, s')"
  shows "cache_inv now seen s' \<and> (\<exists>ty' subj'. shares_entry ty subj ty' subj' \<and> overrides_shown now seen ty' subj' ov)"
proof (cases "cachedSubjectOverrides (override_key (sn_generation sn) ty subj) now s")
  case None
  define key s1 where "key = override_key (sn_generation sn) ty subj" and "s1 = evictOverrideEntryLocked order now s"
  from sn(1) obtain u where u: "(sn_loaded_at sn, u) \<in> seen" "sn_experiment_ids sn = map ex_id (ListEvaluationExperiments u)"
    by (auto simp: snapshot_of_def)
  have le: "sn_loaded_at sn \<le> now" using inv u(1) by (auto simp: cache_inv_def)
  have ov: "ov = ListOverridesForSubject ty subj (map ex_id (ListEvaluationExperiments u)) (sv_tables s)"
    and s': "s' = s1\<lparr>sv_overrides := AList.update key \<lparr>oe_overrides = ov, oe_loaded_at = now\<rparr> (sv_overrides s1)\<rparr>"
    using run None by (auto simp: subjectOverrides_def Let_def u(2) key_def s1_def)
  have here: "(now, sv_tables s) \<in> seen" using inv by (simp add: cache_inv_def)
  have entry: "entry_of seen (sv_generation s) (sv_cache_ttl s) key \<lparr>oe_overrides = ov, oe_loaded_at = now\<rparr>"
    unfolding entry_of_def using u(1) here sn le ov by (intro exI [of _ ty] exI [of _ subj] exI [of _ "sv_tables s"] exI [of _ "sn_loaded_at sn"] exI [of _ u]) (simp add: key_def)
  have old: "\<forall>(k, oe)\<in>set (sv_overrides s). entry_of seen (sv_generation s) (sv_cache_ttl s) k oe" using inv by (simp add: cache_inv_def)
  have "k \<noteq> []" if "(k, oe) \<in> set (sv_overrides s)" for k oe
    using bspec [OF old that] by (auto simp: entry_of_def)
  then have "\<forall>k\<in>fst ` set (sv_overrides s). k \<noteq> []" by auto
  then have "length (sv_overrides s1) < maxOverrideEntries"
    unfolding s1_def using inv order by (intro evict_less) (auto simp: cache_inv_def)
  then have len: "length (sv_overrides s') \<le> maxOverrideEntries" 
    using length_update_le [of key "\<lparr>oe_overrides = ov, oe_loaded_at = now\<rparr>" "sv_overrides s1"] by (simp add: s')
  have "set (sv_overrides s') \<subseteq> insert (key, \<lparr>oe_overrides = ov, oe_loaded_at = now\<rparr>) (set (sv_overrides s))"
    using set_update_subset evict_subset unfolding s' s1_def by fastforce
  with old entry have "\<forall>(k, oe)\<in>set (sv_overrides s'). entry_of seen (sv_generation s) (sv_cache_ttl s) k oe" by fast
  with inv len have "cache_inv now seen s'" by (simp add: cache_inv_def s' s1_def)
  moreover have "overrides_shown now seen ty subj ov"
    unfolding overrides_shown_def using here u(1) le sn(3) inv ov
    by (intro bexI [of _ "(now, sv_tables s)"]) (auto simp: cache_inv_def intro!: bexI [of _ "(sn_loaded_at sn, u)"])
  ultimately show ?thesis by (auto simp: shares_entry_def)
next
  case (Some overrides)
  then obtain oe where oe: "map_of (sv_overrides s) (override_key (sn_generation sn) ty subj) = Some oe"
      "now - oe_loaded_at oe < sv_override_ttl s" "overrides = oe_overrides oe"
    by (auto simp: cachedSubjectOverrides_def split: option.splits if_splits)
  have same: "ov = overrides" "s' = s" using run Some by (auto simp: subjectOverrides_def Let_def)
  have "entry_of seen (sv_generation s) (sv_cache_ttl s) (override_key (sn_generation sn) ty subj) oe"
    using inv map_of_SomeD [OF oe(1)] by (auto simp: cache_inv_def)
  then obtain ty' subj' t \<tau> u where e: "override_key (sv_generation s) ty subj = override_key (sv_generation s) ty' subj'"
      "(oe_loaded_at oe, t) \<in> seen" "(\<tau>, u) \<in> seen" "\<tau> \<le> oe_loaded_at oe" "oe_loaded_at oe - \<tau> < sv_cache_ttl s"
      "oe_overrides oe = ListOverridesForSubject ty' subj' (map ex_id (ListEvaluationExperiments u)) t"
    unfolding entry_of_def sn(2) by blast
  have "overrides_shown now seen ty' subj' ov"
    unfolding overrides_shown_def using e oe inv same
    by (intro bexI [of _ "(oe_loaded_at oe, t)"]) (auto simp: cache_inv_def intro!: bexI [of _ "(\<tau>, u)"])
  with inv same e(1) show ?thesis by (auto simp: override_key_shares)
qed

lemma set_TrimSpace: "set (TrimSpace s) \<subseteq> set s"
proof -
  have sub: "set (strip_left encs u) \<subseteq> set u" for encs u
    using strip_left_suffix [of u encs] by (metis Un_upper2 set_append)
  have "set (TrimSpace s) \<subseteq> set (strip_left space_encodings s)" unfolding TrimSpace_def using sub by (metis set_rev)
  with sub show ?thesis by blast
qed

definition blank_response :: "instant \<Rightarrow> evaluate_response" where
  "blank_response now = \<lparr>er_server_time = RFC3339 now, er_merged_config = [], er_experiments = []\<rparr>"

lemma Evaluate_step:
  assumes "cache_inv now seen s" "\<And>m. set (order m) = set m" "Evaluate order [] now req s = (result, s')"
  shows "cache_inv now seen s' \<and>
    (\<forall>resp. result = Inr resp \<longrightarrow>
      (\<exists>(\<tau>, t)\<in>seen. now - \<tau> < 5 * second \<and> (\<exists>overrides ty subj.
         shares_entry (TrimSpace (ev_subject_type req)) (TrimSpace (ev_subject_id req)) ty subj \<and> overrides_shown now seen ty subj overrides \<and>
         resp = evaluate_all (clear_overrides (ListEvaluationExperiments t)) overrides (trimmed_request req) now (blank_response now))))"
proof (cases "TrimSpace (ev_subject_type req) = [] \<or> TrimSpace (ev_subject_id req) = []")
  case True
  with assms(1,3) show ?thesis by (auto simp: Evaluate_def trimmed_request_def Let_def)
next
  case False
  obtain sn s1 where snap: "evaluationSnapshot now [] s = (sn, s1)" by fastforce
  obtain ov s2 where sub: "subjectOverrides order now now (TrimSpace (ev_subject_type req)) (TrimSpace (ev_subject_id req)) sn s1 = (ov, s2)"
    by fastforce
  note sn = snapshot_step [OF assms(1) snap]
  have inv: "cache_inv now seen s2 \<and> (\<exists>ty subj. shares_entry (TrimSpace (ev_subject_type req)) (TrimSpace (ev_subject_id req)) ty subj \<and>
      overrides_shown now seen ty subj ov)"
    using sn by (intro subject_step [OF _ _ _ _ assms(2) sub]) auto
  have res: "result = Inr (evaluate_all (sn_experiments sn) ov (trimmed_request req) now (blank_response now))" "s' = s2"
    using assms(3) False snap sub
    by (auto simp: Evaluate_def trimmed_request_def blank_response_def Let_def simp del: evaluationSnapshot.simps)
  from sn obtain t where t: "(sn_loaded_at sn, t) \<in> seen" "sn_experiments sn = clear_overrides (ListEvaluationExperiments t)"
    by (auto simp: snapshot_of_def)
  have recent: "now - sn_loaded_at sn < 5 * second" using sn by (auto simp: cache_inv_def)
  show ?thesis
  proof (intro conjI allI impI)
    show "cache_inv now seen s'" using inv sn res by auto
    fix resp assume "result = Inr resp"
    with inv res(1) t recent show "\<exists>(\<tau>, t)\<in>seen. now - \<tau> < 5 * second \<and> (\<exists>overrides ty subj.
         shares_entry (TrimSpace (ev_subject_type req)) (TrimSpace (ev_subject_id req)) ty subj \<and> overrides_shown now seen ty subj overrides \<and>
         resp = evaluate_all (clear_overrides (ListEvaluationExperiments t)) overrides (trimmed_request req) now (blank_response now))"
      by (intro bexI [of _ "(sn_loaded_at sn, t)"]) auto
  qed
qed

lemma ab_trace_inv: "ab_trace now seen s \<Longrightarrow> cache_inv now seen s"
proof (induction rule: ab_trace.induct)
  case (start now t env)
  then show ?case
    by (auto simp: cache_inv_def NewService_def newService_def evaluationCacheTTL_def Let_def split: option.splits)
next
  case (tick now seen s now')
  then show ?case by (auto intro: cache_inv_more)
next
  case (remote now seen s t)
  then show ?case using cache_inv_more [of now seen s now "s\<lparr>sv_tables := t\<rparr>"] by simp
next
  case (written now seen s cmd s')
  from service_command_success [OF written.hyps(2)]
  have "sv_snapshot s' = None" "sv_overrides s' = []" "sv_cache_ttl s' = sv_cache_ttl s" "sv_override_ttl s' = sv_override_ttl s"
    by (auto simp: invalidateLocal_def)
  with written.IH show ?case by (rule cache_inv_fresh)
next
  case (failed now seen s cmd e s')
  then have "sv_cache_ttl s' = sv_cache_ttl s" "sv_override_ttl s' = sv_override_ttl s" "sv_snapshot s' = sv_snapshot s"
    "sv_generation s' = sv_generation s" "sv_overrides s' = sv_overrides s"
    by (auto simp: service_command_def service_write_def invalidateAfterWrite_def split: prod.splits sum.splits)
  then show ?case by (rule cache_inv_more [OF failed.IH order_refl])
next
  case (evaluated now seen s order req result s')
  then show ?case using Evaluate_step by blast
qed

text \<open>
  C23. An evaluation, undisturbed and with loads that take no time, answers from tables this replica has seen
  since its last successful operation: the experiments are those of a moment less than five seconds ago,
  and the overrides those of a moment less than three seconds ago for a subject whose type and identifier
  joined with a colon are the same (the subject itself if neither contains a colon), restricted to the
  experiments of a moment less than five seconds before that. So a replica's own writes are seen at once,
  those of other replicas within eight seconds. The cache of overrides never has more than 10000 entries.
\<close>

theorem evaluation_staleness:
  assumes "ab_trace now seen s" "\<And>m. set (order m) = set m" "Evaluate order [] now req s = (Inr resp, s')"
  shows "(\<exists>(\<tau>, t)\<in>seen. now - \<tau> < 5 * second \<and> (\<exists>overrides ty subj.
      TrimSpace (ev_subject_type req) @ '':'' @ TrimSpace (ev_subject_id req) = ty @ '':'' @ subj \<and>
      (CHR '':'' \<notin> set (ev_subject_type req) \<and> CHR '':'' \<notin> set (ev_subject_id req) \<longrightarrow>
         ty = TrimSpace (ev_subject_type req) \<and> subj = TrimSpace (ev_subject_id req)) \<and>
      overrides_shown now seen ty subj overrides \<and>
      resp = evaluate_all (clear_overrides (ListEvaluationExperiments t)) overrides (trimmed_request req) now (blank_response now))) \<and>
    length (sv_overrides s') \<le> maxOverrideEntries"
proof -
  have plain: "ty = TrimSpace (ev_subject_type req) \<and> subj = TrimSpace (ev_subject_id req)"
    if "shares_entry (TrimSpace (ev_subject_type req)) (TrimSpace (ev_subject_id req)) ty subj"
      "CHR '':'' \<notin> set (ev_subject_type req)" "CHR '':'' \<notin> set (ev_subject_id req)" for ty subj
    using shares_entry_same [OF that(1)] that(2,3) set_TrimSpace by blast
  have step: "cache_inv now seen s'" "\<exists>(\<tau>, t)\<in>seen. now - \<tau> < 5 * second \<and> (\<exists>overrides ty subj.
      shares_entry (TrimSpace (ev_subject_type req)) (TrimSpace (ev_subject_id req)) ty subj \<and> overrides_shown now seen ty subj overrides \<and>
      resp = evaluate_all (clear_overrides (ListEvaluationExperiments t)) overrides (trimmed_request req) now (blank_response now))"
    using Evaluate_step [OF ab_trace_inv [OF assms(1)] assms(2,3)] by simp_all
  then obtain \<tau> t overrides ty subj where r: "(\<tau>, t) \<in> seen" "now - \<tau> < 5 * second"
    "shares_entry (TrimSpace (ev_subject_type req)) (TrimSpace (ev_subject_id req)) ty subj" "overrides_shown now seen ty subj overrides"
    "resp = evaluate_all (clear_overrides (ListEvaluationExperiments t)) overrides (trimmed_request req) now (blank_response now)" by auto
  have "length (sv_overrides s') \<le> maxOverrideEntries" using step(1) by (simp add: cache_inv_def)
  with r plain [OF r(3)] show ?thesis
    by (intro conjI bexI [of _ "(\<tau>, t)"]) (auto simp: shares_entry_def)
qed

section \<open>A sample experiment\<close>

definition sample_group :: "string \<Rightarrow> int \<Rightarrow> group_input" where
  "sample_group key traffic = \<lparr>gi_group_key = key, gi_traffic = traffic, gi_ratio_positive = False, gi_ratio_points = 0, gi_config = [(''v'', JString key)]\<rparr>"

definition sample_create :: create_experiment_request where
  "sample_create = \<lparr>cx_key = ''exp'', cx_name = ''Exp'', cx_description = [], cx_type = ''all'', cx_status = ''running'',
     cx_start_time = ''2024-01-01T00:00:00Z'', cx_duration_seconds = 60, cx_end_time = [], cx_salt = [], cx_targeting = [],
     cx_groups = [sample_group '' a '' 3000, sample_group ''b'' 7000]\<rparr>"

definition sample_commands :: "(instant \<times> ab_command) list" where
  "sample_commands = [(0, CmdCreate sample_create),
     (1, CmdAddOverride 1 \<lparr>oi_subject_type = ''device'', oi_subject_id = ''d'', oi_action = ''exclude'', oi_group_key = [], oi_config = []\<rparr>)]"

definition sample_service :: ab_service where
  "sample_service = run_commands sample_commands (NewService None empty_tables)"

definition sample_evaluation :: evaluate_request where
  "sample_evaluation = \<lparr>ev_subject_type = ''device'', ev_subject_id = '' d'', ev_context = []\<rparr>"

lemma sample_push: "fst (service_command 2 (CmdPushFull 1 1) sample_service) = Inr ()"
  by code_simp

lemma sample_push_group:
  "list_ex (\<lambda>h. ag_id h = 1 \<and> ag_experiment_id h = 1 \<and> ag_group_key h = ''a'') (tb_groups (sv_tables sample_service))"
  by code_simp

lemma sample_push_type:
  "list_ex (\<lambda>e. ex_id e = 1 \<and> experimentTypeMatches (ex_type e) (TrimSpace (ev_subject_type sample_evaluation)))
     (tb_experiments (sv_tables (snd (service_command 2 (CmdPushFull 1 1) sample_service))))"
  by code_simp

lemma Evaluate_succeeds:
  "TrimSpace (ev_subject_type req) \<noteq> [] \<Longrightarrow> TrimSpace (ev_subject_id req) \<noteq> [] \<Longrightarrow>
   \<exists>resp s'. Evaluate order turns now req s = (Inr resp, s')"
  by (auto simp: Evaluate_def trimmed_request_def Let_def split: prod.splits)

lemma sample_evaluation_trim: "TrimSpace (ev_subject_type sample_evaluation) \<noteq> []" "TrimSpace (ev_subject_id sample_evaluation) \<noteq> []"
  by code_simp+

theorem push_full_reaches_everyone_witness:
  "\<exists>resp. fst (Evaluate rev [] 3 sample_evaluation (snd (service_command 2 (CmdPushFull 1 1) sample_service))) = Inr resp \<and>
     (\<exists>a\<in>set (er_experiments resp). as_experiment_id a = 1 \<and> as_group_key a = ''a'')"
proof -
  from sample_push_group obtain h where h: "h \<in> set (tb_groups (sv_tables sample_service))" "ag_id h = 1" "ag_experiment_id h = 1"
    "ag_group_key h = ''a''" by (auto simp: list_ex_iff)
  from sample_push_type obtain e where e: "e \<in> set (tb_experiments (sv_tables (snd (service_command 2 (CmdPushFull 1 1) sample_service))))"
    "ex_id e = 1" "experimentTypeMatches (ex_type e) (TrimSpace (ev_subject_type sample_evaluation))" by (auto simp: list_ex_iff)
  obtain s where s: "service_command 2 (CmdPushFull 1 1) sample_service = (Inr (), s)"
    using sample_push by (metis prod.collapse)
  from Evaluate_succeeds [OF sample_evaluation_trim] obtain resp s' where r: "Evaluate rev [] 3 sample_evaluation s = (Inr resp, s')" by blast
  from push_full_reaches_everyone [OF s [unfolded sample_service_def] h(1) [unfolded sample_service_def] h(2,3) r] e h(4) r s
  show ?thesis by auto
qed

theorem evaluation_staleness_witness:
  "\<exists>resp s' overrides. Evaluate rev [] 3 sample_evaluation (NewService None (sv_tables sample_service)) = (Inr resp, s') \<and>
     resp = evaluate_all (clear_overrides (ListEvaluationExperiments (sv_tables sample_service))) overrides (trimmed_request sample_evaluation) 3 (blank_response 3)"
proof -
  obtain resp s' where r: "Evaluate rev [] 3 sample_evaluation (NewService None (sv_tables sample_service)) = (Inr resp, s')"
    using Evaluate_succeeds [OF sample_evaluation_trim] by blast
  with evaluation_staleness [OF ab_trace.start _ r] r show ?thesis by auto
qed

text \<open>Shares that exceed 10000: the first group has 7000 buckets, and of the 6000 of the second 3000 remain.\<close>

definition full_group :: "int \<Rightarrow> string \<Rightarrow> int \<Rightarrow> ab_group" where
  "full_group i key traffic =
     \<lparr>ag_id = i, ag_experiment_id = 1, ag_group_key = key, ag_traffic = traffic, ag_config = [], ag_created_at = [], ag_updated_at = []\<rparr>"

definition sample_overfull :: ab_experiment where
  "sample_overfull = \<lparr>ex_id = 1, ex_key = ''exp'', ex_name = [], ex_description = [], ex_type = [], ex_status = [], ex_start_time = [],
      ex_duration_seconds = 0, ex_end_time = [], ex_salt = [], ex_rollout_group_key = [], ex_targeting = [], ex_version = 1,
      ex_groups = [full_group 2 ''b'' 6000, full_group 1 ''a'' 7000], ex_overrides = [], ex_created_at = [], ex_updated_at = []\<rparr>"

theorem traffic_exact_witness:
  "{b \<in> {0..<10000}. pick_group b 0 (sort_key ag_id (ex_groups sample_overfull)) = Some (full_group 2 ''b'' 6000)} = {7000..<10000}"
  by (subst traffic_exact [THEN conjunct1]) (simp_all add: sample_overfull_def full_group_def traffic_before_def)

end
