(* ===== verification/DF_Sessions.thy ===== *)
theory DF_Sessions
  imports Redis
begin

text \<open>
  \<^verbatim>\<open>services/dataForwardingService/internal/redis\<close>: the shared record of which container holds a user's
  WebSocket. The keys \<^verbatim>\<open>user_session:\<close>, \<^verbatim>\<open>ws_route_lease:\<close> and \<^verbatim>\<open>user_lock:\<close> have a time to live and are maps by
  user; the hash \<^verbatim>\<open>ws_connection_mapping\<close> and the sets \<^verbatim>\<open>container_connections:\<close> have none. Each Lua script is
  one atomic function. Published notifications are kept in order.
\<close>

record session_data =
  sd_connection_id :: string
  sd_container_id :: string
  sd_owner_token :: string

record session_redis =
  sr_sessions :: "string \<rightharpoonup> string \<times> instant"
  sr_leases :: "string \<rightharpoonup> string \<times> instant"
  sr_locks :: "string \<rightharpoonup> string \<times> instant"
  sr_mapping :: "string \<rightharpoonup> string"
  sr_containers :: "string \<Rightarrow> string set"
  sr_published :: "(string \<times> string) list"

datatype session_error =
    ErrRouteNotFound | ErrSessionOwnershipLost | SessionRedisError | ErrContextDone | ErrInvalidUserID
  | ErrConnectionState | ErrRandom | ErrBeforeLogin | ErrKickNotPublished

section \<open>Values\<close>

definition encodeSession :: "session_data \<Rightarrow> string" where
  "encodeSession d = sd_connection_id d @ ''|'' @ sd_container_id d @ ''|'' @ sd_owner_token d"

definition lease_value :: "string \<Rightarrow> string \<Rightarrow> string" where
  "lease_value containerID ownerToken = containerID @ ''|'' @ ownerToken"

text \<open>\<^verbatim>\<open>strings.Split\<close> at a byte and \<^verbatim>\<open>strings.Join\<close> with it.\<close>

fun split_at :: "char \<Rightarrow> string \<Rightarrow> string list" where
  "split_at sep [] = [[]]"
| "split_at sep (c # s) =
     (if c = sep then [] # split_at sep s
      else case split_at sep s of [] \<Rightarrow> [[c]] | p # ps \<Rightarrow> (c # p) # ps)"

fun join_with :: "char \<Rightarrow> string list \<Rightarrow> string" where
  "join_with sep [] = []"
| "join_with sep [p] = p"
| "join_with sep (p # q # ps) = p @ sep # join_with sep (q # ps)"

definition ParseSessionData :: "string \<Rightarrow> session_data" where
  "ParseSessionData value =
     (let parts = split_at CHR ''|'' value; n = length parts in
      if n \<ge> 3
      then \<lparr>sd_connection_id = join_with CHR ''|'' (take (n - 2) parts), sd_container_id = parts ! (n - 2), sd_owner_token = parts ! (n - 1)\<rparr>
      else (let fields = split_at CHR '':'' value; k = length fields in
        if k \<ge> 2
        then \<lparr>sd_connection_id = join_with CHR '':'' (take (k - 1) fields), sd_container_id = fields ! (k - 1), sd_owner_token = []\<rparr>
        else \<lparr>sd_connection_id = value, sd_container_id = [], sd_owner_token = []\<rparr>))"

section \<open>Scripts\<close>

definition srem :: "string \<Rightarrow> string \<Rightarrow> session_redis \<Rightarrow> session_redis" where
  "srem containerID userID r = r\<lparr>sr_containers := (sr_containers r)(containerID := sr_containers r containerID - {userID})\<rparr>"

definition releaseLockScript :: "instant \<Rightarrow> string \<Rightarrow> string \<Rightarrow> session_redis \<Rightarrow> session_redis" where
  "releaseLockScript now userID ownerToken r =
     (if live now (sr_locks r) userID = Some ownerToken then r\<lparr>sr_locks := (sr_locks r)(userID := None)\<rparr> else r)"

text \<open>A \<^verbatim>\<open>SET\<close> with a time to live that is not positive aborts the script; what was written before stays.\<close>

definition claimSessionAndRouteScript :: "instant \<Rightarrow> string \<Rightarrow> session_data \<Rightarrow> int \<Rightarrow> int \<Rightarrow> session_redis \<Rightarrow> bool \<times> session_redis" where
  "claimSessionAndRouteScript now userID d sessionMs routeMs r =
     (let r1 = (case sr_mapping r userID of
                  None \<Rightarrow> r
                | Some previous \<Rightarrow> if previous \<noteq> sd_container_id d then srem previous userID r else r)
      in if sessionMs \<le> 0 then (False, r1)
         else (let r2 = r1\<lparr>sr_sessions := (sr_sessions r1)(userID \<mapsto> (encodeSession d, expiry_after now sessionMs)),
                           sr_mapping := (sr_mapping r1)(userID \<mapsto> sd_container_id d),
                           sr_containers := (sr_containers r1)(sd_container_id d := insert userID (sr_containers r1 (sd_container_id d)))\<rparr>
               in if routeMs \<le> 0 then (False, r2)
                  else (True, r2\<lparr>sr_leases := (sr_leases r2)(userID \<mapsto>
                                  (lease_value (sd_container_id d) (sd_owner_token d), expiry_after now routeMs))\<rparr>)))"

text \<open>The three records of a session agree with the caller's claim.\<close>

definition owns_session :: "instant \<Rightarrow> string \<Rightarrow> session_data \<Rightarrow> session_redis \<Rightarrow> bool" where
  "owns_session now userID d r \<longleftrightarrow>
     live now (sr_sessions r) userID = Some (encodeSession d) \<and> sr_mapping r userID = Some (sd_container_id d) \<and>
     live now (sr_leases r) userID = Some (lease_value (sd_container_id d) (sd_owner_token d))"

definition refreshOwnedSessionAndRouteScript :: "instant \<Rightarrow> string \<Rightarrow> session_data \<Rightarrow> int \<Rightarrow> int \<Rightarrow> session_redis \<Rightarrow> bool \<times> session_redis" where
  "refreshOwnedSessionAndRouteScript now userID d sessionMs routeMs r =
     (if \<not> owns_session now userID d r then (False, r)
      else (True, r\<lparr>sr_sessions := (sr_sessions r)(userID \<mapsto> (encodeSession d, expiry_after now sessionMs)),
                    sr_leases := (sr_leases r)(userID \<mapsto> (lease_value (sd_container_id d) (sd_owner_token d), expiry_after now routeMs))\<rparr>))"

definition removeOwnedSessionAndRouteScript :: "instant \<Rightarrow> string \<Rightarrow> session_data \<Rightarrow> session_redis \<Rightarrow> session_redis" where
  "removeOwnedSessionAndRouteScript now userID d r =
     (let r1 = (if live now (sr_sessions r) userID = Some (encodeSession d) then r\<lparr>sr_sessions := (sr_sessions r)(userID := None)\<rparr> else r)
      in if live now (sr_leases r1) userID = Some (lease_value (sd_container_id d) (sd_owner_token d)) \<and>
            sr_mapping r1 userID = Some (sd_container_id d)
         then srem (sd_container_id d) userID
                (r1\<lparr>sr_leases := (sr_leases r1)(userID := None), sr_mapping := (sr_mapping r1)(userID := None)\<rparr>)
         else r1)"

definition route_valid :: "instant \<Rightarrow> string \<Rightarrow> string \<Rightarrow> session_redis \<Rightarrow> bool" where
  "route_valid now userID mapped r =
     (case live now (sr_leases r) userID of None \<Rightarrow> False | Some leased \<Rightarrow> HasPrefix leased (mapped @ ''|''))"

definition getValidRouteScript :: "instant \<Rightarrow> string \<Rightarrow> session_redis \<Rightarrow> string option \<times> session_redis" where
  "getValidRouteScript now userID r =
     (case sr_mapping r userID of
        None \<Rightarrow> (None, r)
      | Some mapped \<Rightarrow>
          if route_valid now userID mapped r then (Some mapped, r)
          else (None, srem mapped userID (r\<lparr>sr_mapping := (sr_mapping r)(userID := None)\<rparr>)))"

fun getValidRoutesScript :: "instant \<Rightarrow> string list \<Rightarrow> session_redis \<Rightarrow> (string \<times> string) list \<times> session_redis" where
  "getValidRoutesScript now [] r = ([], r)"
| "getValidRoutesScript now (userID # ids) r =
     (case getValidRouteScript now userID r of
        (None, r1) \<Rightarrow> getValidRoutesScript now ids r1
      | (Some mapped, r1) \<Rightarrow> (case getValidRoutesScript now ids r1 of (pairs, r2) \<Rightarrow> ((userID, mapped) # pairs, r2)))"

section \<open>Operations\<close>

text \<open>What a caller sees of a command when the request or the reply may be lost.\<close>

definition redis_call :: "redis_fault \<Rightarrow> (session_redis \<Rightarrow> (session_error + 'a) \<times> session_redis) \<Rightarrow> session_redis \<Rightarrow> (session_error + 'a) \<times> session_redis" where
  "redis_call fault command r =
     (case fault of
        NoFault \<Rightarrow> command r
      | RequestLost \<Rightarrow> (Inl SessionRedisError, r)
      | ReplyLost \<Rightarrow> (Inl SessionRedisError, snd (command r)))"

definition AcquireUserLock :: "redis_fault \<Rightarrow> instant \<Rightarrow> string \<Rightarrow> string \<Rightarrow> duration \<Rightarrow> session_redis \<Rightarrow> (session_error + bool) \<times> session_redis" where
  "AcquireUserLock fault now userID ownerToken ttl =
     redis_call fault (\<lambda>r. if live now (sr_locks r) userID \<noteq> None then (Inr False, r)
                            else (Inr True, r\<lparr>sr_locks := (sr_locks r)(userID \<mapsto> (ownerToken, now + ttl))\<rparr>))"

definition ReleaseUserLock :: "redis_fault \<Rightarrow> instant \<Rightarrow> string \<Rightarrow> string \<Rightarrow> session_redis \<Rightarrow> session_redis" where
  "ReleaseUserLock fault now userID ownerToken r =
     snd (redis_call fault (\<lambda>r. (Inr (), releaseLockScript now userID ownerToken r)) r)"

definition GetUserSession :: "redis_fault \<Rightarrow> instant \<Rightarrow> string \<Rightarrow> session_redis \<Rightarrow> session_error + session_data option" where
  "GetUserSession fault now userID r =
     (if fault \<noteq> NoFault then Inl SessionRedisError else Inr (map_option ParseSessionData (live now (sr_sessions r) userID)))"

definition ClaimSessionAndRoute ::
  "redis_fault \<Rightarrow> instant \<Rightarrow> string \<Rightarrow> session_data \<Rightarrow> duration \<Rightarrow> duration \<Rightarrow> session_redis \<Rightarrow> (session_error + unit) \<times> session_redis" where
  "ClaimSessionAndRoute fault now userID d sessionTTL routeTTL =
     redis_call fault (\<lambda>r. case claimSessionAndRouteScript now userID d (milliseconds sessionTTL) (milliseconds routeTTL) r of
                              (True, r1) \<Rightarrow> (Inr (), r1) | (False, r1) \<Rightarrow> (Inl SessionRedisError, r1))"

definition RefreshOwnedSessionAndRoute ::
  "redis_fault \<Rightarrow> instant \<Rightarrow> string \<Rightarrow> session_data \<Rightarrow> duration \<Rightarrow> duration \<Rightarrow> session_redis \<Rightarrow> (session_error + unit) \<times> session_redis" where
  "RefreshOwnedSessionAndRoute fault now userID d sessionTTL routeTTL =
     redis_call fault (\<lambda>r. case refreshOwnedSessionAndRouteScript now userID d (milliseconds sessionTTL) (milliseconds routeTTL) r of
                              (True, r1) \<Rightarrow> (Inr (), r1) | (False, r1) \<Rightarrow> (Inl ErrSessionOwnershipLost, r1))"

definition RemoveOwnedSessionAndRoute :: "redis_fault \<Rightarrow> instant \<Rightarrow> string \<Rightarrow> session_data \<Rightarrow> session_redis \<Rightarrow> (session_error + unit) \<times> session_redis" where
  "RemoveOwnedSessionAndRoute fault now userID d = redis_call fault (\<lambda>r. (Inr (), removeOwnedSessionAndRouteScript now userID d r))"

definition kick_message :: "string \<Rightarrow> string \<Rightarrow> string" where
  "kick_message userID ownerToken = ''KICK:'' @ userID @ '':'' @ ownerToken"

definition PublishOwnedKickNotification ::
  "redis_fault \<Rightarrow> string \<Rightarrow> string \<Rightarrow> string \<Rightarrow> session_redis \<Rightarrow> (session_error + unit) \<times> session_redis" where
  "PublishOwnedKickNotification fault userID targetContainerID ownerToken =
     redis_call fault (\<lambda>r. (Inr (), r\<lparr>sr_published := sr_published r @ [(''user_kick:'' @ targetContainerID, kick_message userID ownerToken)]\<rparr>))"

definition PublishKickNotification :: "redis_fault \<Rightarrow> string \<Rightarrow> string \<Rightarrow> session_redis \<Rightarrow> (session_error + unit) \<times> session_redis" where
  "PublishKickNotification fault userID targetContainerID = PublishOwnedKickNotification fault userID targetContainerID ''*''"

text \<open>\<^verbatim>\<open>strings.SplitN(payload, ":", 3)\<close> and the test of the subscription's handler.\<close>

definition parse_kick :: "string \<Rightarrow> (string \<times> string) option" where
  "parse_kick payload =
     (case split_at CHR '':'' payload of
        kind # userID # rest \<Rightarrow> if rest \<noteq> [] \<and> kind = ''KICK'' then Some (userID, join_with CHR '':'' rest) else None
      | _ \<Rightarrow> None)"

definition nextSubscriptionBackoff :: "duration \<Rightarrow> duration" where
  "nextSubscriptionBackoff current = (if current * 2 > 5 * second then 5 * second else current * 2)"

definition GetContainerByConnection :: "redis_fault \<Rightarrow> instant \<Rightarrow> string \<Rightarrow> session_redis \<Rightarrow> (session_error + string) \<times> session_redis" where
  "GetContainerByConnection fault now userID =
     redis_call fault (\<lambda>r. case getValidRouteScript now userID r of
                              (None, r1) \<Rightarrow> (Inl ErrRouteNotFound, r1) | (Some c, r1) \<Rightarrow> (Inr c, r1))"

definition GetContainersByConnections ::
  "redis_fault \<Rightarrow> instant \<Rightarrow> string list \<Rightarrow> session_redis \<Rightarrow> (session_error + (string \<rightharpoonup> string)) \<times> session_redis" where
  "GetContainersByConnections fault now ids r =
     (if ids = [] then (Inr Map.empty, r)
      else redis_call fault (\<lambda>r. case getValidRoutesScript now ids r of (pairs, r1) \<Rightarrow> (Inr (map_of (rev pairs)), r1)) r)"

section \<open>Parsing what was encoded\<close>

lemma split_at_nonempty [simp]: "split_at sep s \<noteq> []"
  by (induction s) (auto split: list.splits)

lemma split_at_plain: "sep \<notin> set s \<Longrightarrow> split_at sep s = [s]"
  by (induction s) auto

lemma split_at_append: "split_at sep (s @ sep # t) = split_at sep s @ split_at sep t"
proof (induction s)
  case (Cons c s)
  then show ?case by (cases "split_at sep s") (auto dest: arg_cong [of "split_at sep s" "[]" length])
qed simp

lemma join_split [simp]: "join_with sep (split_at sep s) = s"
proof (induction s)
  case (Cons c s)
  show ?case
  proof (cases "c = sep")
    case True
    with Cons show ?thesis by (cases "split_at sep s") auto
  next
    case False
    then obtain p ps where "split_at sep s = p # ps" by (metis list.exhaust split_at_nonempty)
    with Cons False show ?thesis by (cases ps) auto
  qed
qed simp

text \<open>A session is read back as it was written, whatever the connection's name, if the other parts have no bar.\<close>

lemma ParseSessionData_encode:
  assumes "CHR ''|'' \<notin> set (sd_container_id d)" "CHR ''|'' \<notin> set (sd_owner_token d)"
  shows "ParseSessionData (encodeSession d) = (d :: session_data)"
proof -
  have "split_at CHR ''|'' (encodeSession d) = split_at CHR ''|'' (sd_connection_id d) @ [sd_container_id d, sd_owner_token d]"
    by (simp add: encodeSession_def split_at_append split_at_plain assms)
  moreover obtain p ps where "split_at CHR ''|'' (sd_connection_id d) = p # ps" by (metis list.exhaust split_at_nonempty)
  moreover have "join_with CHR ''|'' (split_at CHR ''|'' (sd_connection_id d)) = sd_connection_id d" by (rule join_split)
  ultimately show ?thesis by (simp add: ParseSessionData_def Let_def nth_append)
qed

lemma parse_kick_message:
  assumes "CHR '':'' \<notin> set userID"
  shows "parse_kick (kick_message userID token) = Some (userID, token)"
proof -
  have "split_at CHR '':'' (kick_message userID token) = ''KICK'' # userID # split_at CHR '':'' token"
    using split_at_append [of "CHR '':''" "''KICK''" "userID @ CHR '':'' # token"] split_at_append [of "CHR '':''" userID token]
    by (simp add: kick_message_def split_at_plain assms)
  then show ?thesis by (simp add: parse_kick_def)
qed

end
