(* ===== verification/DF_Connections.thy ===== *)
theory DF_Connections
  imports DF_Sessions
begin

text \<open>
  \<^verbatim>\<open>services/dataForwardingService/internal/connection\<close>: the connections of one container and the login that
  binds one of them to a user. A connection is an object that the registry, the index by user and the
  reading and writing goroutines share; objects are stored by their name, the remote address.
\<close>

section \<open>Connections\<close>

record connection =
  cn_user_id :: string
  cn_owner_token :: string
  cn_queue :: "bytes list"
  cn_closed :: bool
  cn_authenticated :: bool

record conn_manager =
  cm_objects :: "string \<rightharpoonup> connection"
  cm_connections :: "string set"
  cm_users :: "string \<rightharpoonup> string"
  cm_connection_count :: int
  cm_logged_in_count :: int
  cm_session_ttl :: duration
  cm_route_ttl :: duration

definition NewConnectionManager :: conn_manager where
  "NewConnectionManager = \<lparr>cm_objects = Map.empty, cm_connections = {}, cm_users = Map.empty, cm_connection_count = 0,
     cm_logged_in_count = 0, cm_session_ttl = 2 * minute, cm_route_ttl = 90 * second\<rparr>"

definition ConfigureSessionLeases :: "duration \<Rightarrow> duration \<Rightarrow> conn_manager \<Rightarrow> conn_manager" where
  "ConfigureSessionLeases sessionTTL routeTTL cm =
     cm\<lparr>cm_session_ttl := (if sessionTTL > 0 then sessionTTL else cm_session_ttl cm),
        cm_route_ttl := (if routeTTL > 0 then routeTTL else cm_route_ttl cm)\<rparr>"

definition AddConnection :: "string \<Rightarrow> conn_manager \<Rightarrow> conn_manager" where
  "AddConnection connectionID cm =
     cm\<lparr>cm_objects := (cm_objects cm)(connectionID \<mapsto>
          \<lparr>cn_user_id = [], cn_owner_token = [], cn_queue = [], cn_closed = False, cn_authenticated = False\<rparr>),
        cm_connections := insert connectionID (cm_connections cm), cm_connection_count := cm_connection_count cm + 1\<rparr>"

definition update_object :: "string \<Rightarrow> (connection \<Rightarrow> connection) \<Rightarrow> conn_manager \<Rightarrow> conn_manager" where
  "update_object connectionID f cm = cm\<lparr>cm_objects := (cm_objects cm)(connectionID := map_option f (cm_objects cm connectionID))\<rparr>"

text \<open>The object registered under a name.\<close>

definition GetConnectionByID :: "string \<Rightarrow> conn_manager \<Rightarrow> connection option" where
  "GetConnectionByID connectionID cm = (if connectionID \<in> cm_connections cm then cm_objects cm connectionID else None)"

definition GetConnectionByUserID :: "string \<Rightarrow> conn_manager \<Rightarrow> (string \<times> connection) option" where
  "GetConnectionByUserID userID cm =
     (case cm_users cm userID of
        None \<Rightarrow> None
      | Some connectionID \<Rightarrow> map_option (Pair connectionID) (GetConnectionByID connectionID cm))"

definition Close :: "string \<Rightarrow> conn_manager \<Rightarrow> conn_manager" where
  "Close connectionID = update_object connectionID (\<lambda>c. c\<lparr>cn_closed := True\<rparr>)"

definition MarkAuthenticated :: "string \<Rightarrow> string \<Rightarrow> connection \<Rightarrow> connection" where
  "MarkAuthenticated userID ownerToken c = c\<lparr>cn_user_id := userID, cn_owner_token := ownerToken, cn_authenticated := True\<rparr>"

datatype send_error = ErrClosed | ErrQueueFull | ErrNotConnected

abbreviation sendCapacity :: nat where "sendCapacity \<equiv> 256"

definition EnqueueMessage :: "string \<Rightarrow> bytes \<Rightarrow> connection \<Rightarrow> conn_manager \<Rightarrow> (send_error + unit) \<times> conn_manager" where
  "EnqueueMessage connectionID message c cm =
     (if cn_closed c then (Inl ErrClosed, cm)
      else if length (cn_queue c) < sendCapacity
      then (Inr (), update_object connectionID (\<lambda>c. c\<lparr>cn_queue := cn_queue c @ [message]\<rparr>) cm)
      else (Inl ErrQueueFull, cm))"

definition SendMessageToUser :: "string \<Rightarrow> bytes \<Rightarrow> conn_manager \<Rightarrow> (send_error + unit) \<times> conn_manager" where
  "SendMessageToUser userID message cm =
     (case GetConnectionByUserID userID cm of
        None \<Rightarrow> (Inl ErrNotConnected, cm)
      | Some (connectionID, c) \<Rightarrow> EnqueueMessage connectionID message c cm)"

definition may_login :: "string \<Rightarrow> conn_manager \<Rightarrow> bool" where
  "may_login connectionID cm =
     (case GetConnectionByID connectionID cm of None \<Rightarrow> False | Some c \<Rightarrow> \<not> cn_closed c \<and> \<not> cn_authenticated c)"

text \<open>The result names the connection that the new one replaces, which the caller closes.\<close>

definition commitLocalLogin :: "string \<Rightarrow> string \<Rightarrow> string \<Rightarrow> conn_manager \<Rightarrow> (session_error + string option) \<times> conn_manager" where
  "commitLocalLogin connectionID userID ownerToken cm =
     (if \<not> may_login connectionID cm then (Inl ErrConnectionState, cm)
      else
        (let old = (case cm_users cm userID of
                      Some oldID \<Rightarrow> if oldID \<noteq> connectionID then map_option (\<lambda>c. (oldID, c)) (GetConnectionByID oldID cm) else None
                    | None \<Rightarrow> None);
             cm1 = (case old of
                      None \<Rightarrow> cm
                    | Some (oldID, c) \<Rightarrow> cm\<lparr>cm_connections := cm_connections cm - {oldID}, cm_connection_count := cm_connection_count cm - 1,
                          cm_logged_in_count := cm_logged_in_count cm - (if cn_authenticated c then 1 else 0)\<rparr>);
             cm2 = update_object connectionID (MarkAuthenticated userID ownerToken) cm1
         in (Inr (map_option fst old),
             cm2\<lparr>cm_users := (cm_users cm2)(userID \<mapsto> connectionID), cm_logged_in_count := cm_logged_in_count cm2 + 1\<rparr>)))"

text \<open>The result is the detached object and whether it owned its user's session.\<close>

definition detachConnection :: "string \<Rightarrow> conn_manager \<Rightarrow> (connection \<times> bool) option \<times> conn_manager" where
  "detachConnection connectionID cm =
     (case GetConnectionByID connectionID cm of
        None \<Rightarrow> (None, cm)
      | Some c \<Rightarrow>
          (let cm1 = cm\<lparr>cm_connections := cm_connections cm - {connectionID}, cm_connection_count := cm_connection_count cm - 1\<rparr> in
           if cn_authenticated c \<and> cn_user_id c \<noteq> [] \<and> cm_users cm (cn_user_id c) = Some connectionID
           then (Some (c, True), cm1\<lparr>cm_users := (cm_users cm1)(cn_user_id c := None), cm_logged_in_count := cm_logged_in_count cm1 - 1\<rparr>)
           else (Some (c, False), cm1)))"

section \<open>One container and the shared state\<close>

record df_world =
  dw_redis :: session_redis
  dw_manager :: conn_manager
  dw_kafka :: "(string \<times> bytes) list"

definition cleanupOwnedSession :: "redis_fault \<Rightarrow> instant \<Rightarrow> string \<Rightarrow> session_data \<Rightarrow> df_world \<Rightarrow> df_world" where
  "cleanupOwnedSession fault now userID d w = w\<lparr>dw_redis := snd (RemoveOwnedSessionAndRoute fault now userID d (dw_redis w))\<rparr>"

definition RemoveConnection :: "string \<Rightarrow> redis_fault \<Rightarrow> instant \<Rightarrow> string \<Rightarrow> df_world \<Rightarrow> df_world" where
  "RemoveConnection containerID fault now connectionID w =
     (case detachConnection connectionID (dw_manager w) of
        (None, cm) \<Rightarrow> w
      | (Some (c, removeOwnership), cm) \<Rightarrow>
          (let w1 = w\<lparr>dw_manager := Close connectionID cm\<rparr> in
           if removeOwnership
           then cleanupOwnedSession fault now (cn_user_id c)
                  \<lparr>sd_connection_id = connectionID, sd_container_id = containerID, sd_owner_token = cn_owner_token c\<rparr> w1
           else w1))"

definition StopUserIfOwner :: "string \<Rightarrow> redis_fault \<Rightarrow> instant \<Rightarrow> string \<Rightarrow> string \<Rightarrow> df_world \<Rightarrow> bool \<times> df_world" where
  "StopUserIfOwner containerID fault now userID ownerToken w =
     (case GetConnectionByUserID userID (dw_manager w) of
        None \<Rightarrow> (False, w)
      | Some (connectionID, c) \<Rightarrow>
          if ownerToken \<noteq> ''*'' \<and> cn_owner_token c \<noteq> ownerToken then (False, w)
          else (True, RemoveConnection containerID fault now connectionID w))"

section \<open>Login\<close>

text \<open>
  What a login meets: the attempts at the distributed lock before its context ends, each with its fault, its
  time and what others do after it; times and faults of the other calls; and what others do between them.
\<close>

record login_env =
  ln_local_lock :: bool
  ln_before :: bool
  ln_token :: "string option"
  ln_attempts :: "(redis_fault \<times> instant \<times> (df_world \<Rightarrow> df_world)) list"
  ln_read :: "redis_fault \<times> instant"
  ln_kick :: redis_fault
  ln_kafka_accepts :: bool
  ln_before_claim :: "df_world \<Rightarrow> df_world"
  ln_claim :: "redis_fault \<times> instant"
  ln_context_done :: bool
  ln_before_commit :: "df_world \<Rightarrow> df_world"
  ln_cleanup :: "redis_fault \<times> instant"
  ln_release :: "redis_fault \<times> instant"

fun acquireDistributedUserLock ::
  "string \<Rightarrow> string \<Rightarrow> (redis_fault \<times> instant \<times> (df_world \<Rightarrow> df_world)) list \<Rightarrow> df_world \<Rightarrow> (session_error + unit) \<times> df_world" where
  "acquireDistributedUserLock userID ownerToken [] w = (Inl ErrContextDone, w)"
| "acquireDistributedUserLock userID ownerToken ((fault, now, others) # attempts) w =
     (case AcquireUserLock fault now userID ownerToken (30 * second) (dw_redis w) of
        (Inl e, r) \<Rightarrow> (Inl e, w\<lparr>dw_redis := r\<rparr>)
      | (Inr True, r) \<Rightarrow> (Inr (), others (w\<lparr>dw_redis := r\<rparr>))
      | (Inr False, r) \<Rightarrow> acquireDistributedUserLock userID ownerToken attempts (others (w\<lparr>dw_redis := r\<rparr>)))"

definition kafka_kick :: "string \<Rightarrow> string \<Rightarrow> string \<Rightarrow> bytes" where
  "kafka_kick userID containerID ownerToken = ''DELETE USER '' @ userID @ '' TARGET '' @ containerID @ '' OWNER '' @ ownerToken"

text \<open>The kick of the previous owner: by Redis, or by Kafka if Redis fails.\<close>

definition kick_previous :: "login_env \<Rightarrow> string \<Rightarrow> session_data option \<Rightarrow> df_world \<Rightarrow> (session_error + unit) \<times> df_world" where
  "kick_previous env userID previous w =
     (case previous of
        None \<Rightarrow> (Inr (), w)
      | Some p \<Rightarrow>
          if sd_container_id p = [] \<or> sd_owner_token p = [] then (Inr (), w)
          else
            (case PublishOwnedKickNotification (ln_kick env) userID (sd_container_id p) (sd_owner_token p) (dw_redis w) of
               (Inr _, r) \<Rightarrow> (Inr (), w\<lparr>dw_redis := r\<rparr>)
             | (Inl _, r) \<Rightarrow>
                 if ln_kafka_accepts env
                 then (Inr (), w\<lparr>dw_redis := r, dw_kafka := dw_kafka w @ [(''user-kick-topic'', kafka_kick userID (sd_container_id p) (sd_owner_token p))]\<rparr>)
                 else (Inl ErrKickNotPublished, w\<lparr>dw_redis := r\<rparr>)))"

text \<open>The part from the claim on: a login that cannot be committed gives its claim up again.\<close>

definition claim_and_commit :: "login_env \<Rightarrow> string \<Rightarrow> session_data \<Rightarrow> df_world \<Rightarrow> (session_error + unit) \<times> df_world" where
  "claim_and_commit env userID claimed w =
     (case ClaimSessionAndRoute (fst (ln_claim env)) (snd (ln_claim env)) userID claimed
             (cm_session_ttl (dw_manager w)) (cm_route_ttl (dw_manager w)) (dw_redis w) of
        (Inl e, r) \<Rightarrow> (Inl e, w\<lparr>dw_redis := r\<rparr>)
      | (Inr _, r) \<Rightarrow>
          (let w1 = ln_before_commit env (w\<lparr>dw_redis := r\<rparr>);
               give_up = cleanupOwnedSession (fst (ln_cleanup env)) (snd (ln_cleanup env)) userID claimed
           in if ln_context_done env then (Inl ErrContextDone, give_up w1)
              else (case commitLocalLogin (sd_connection_id claimed) userID (sd_owner_token claimed) (dw_manager w1) of
                (Inl e, cm) \<Rightarrow> (Inl e, give_up w1)
              | (Inr old, cm) \<Rightarrow>
                  (Inr (), w1\<lparr>dw_manager := (case old of None \<Rightarrow> cm | Some oldID \<Rightarrow> Close oldID cm)\<rparr>))))"

definition login_locked :: "login_env \<Rightarrow> string \<Rightarrow> session_data \<Rightarrow> df_world \<Rightarrow> (session_error + unit) \<times> df_world" where
  "login_locked env userID claimed w =
     (case GetUserSession (fst (ln_read env)) (snd (ln_read env)) userID (dw_redis w) of
        Inl e \<Rightarrow> (Inl e, w)
      | Inr previous \<Rightarrow>
          (case kick_previous env userID previous w of
             (Inl e, w1) \<Rightarrow> (Inl e, w1)
           | (Inr _, w1) \<Rightarrow> claim_and_commit env userID claimed (ln_before_claim env w1)))"

text \<open>\<^verbatim>\<open>strconv.ParseInt(s, 10, 64)\<close>.\<close>

definition ParseInt64 :: "string \<Rightarrow> int option" where
  "ParseInt64 s =
     (let (negative, digits) =
            (case s of [] \<Rightarrow> (False, []) | c # r \<Rightarrow> if c = CHR ''-'' then (True, r) else if c = CHR ''+'' then (False, r) else (False, s));
          n = (if negative then - int (decimal digits) else int (decimal digits))
      in if digits = [] \<or> \<not> list_all is_digit digits \<or> n < - (2 ^ 63) \<or> n \<ge> 2 ^ 63 then None else Some n)"

definition Login :: "string \<Rightarrow> login_env \<Rightarrow> string \<Rightarrow> string \<Rightarrow> df_world \<Rightarrow> (session_error + unit) \<times> df_world" where
  "Login containerID env connectionID rawUserID w =
     (case ParseInt64 (TrimSpace rawUserID) of
        None \<Rightarrow> (Inl ErrInvalidUserID, w)
      | Some n \<Rightarrow>
          if n \<le> 0 then (Inl ErrInvalidUserID, w)
          else if \<not> ln_local_lock env then (Inl ErrContextDone, w)
          else if \<not> ln_before env then (Inl ErrBeforeLogin, w)
          else if \<not> may_login connectionID (dw_manager w) then (Inl ErrConnectionState, w)
          else (case ln_token env of
            None \<Rightarrow> (Inl ErrRandom, w)
          | Some ownerToken \<Rightarrow>
              (case acquireDistributedUserLock (itoa n) ownerToken (ln_attempts env) w of
                 (Inl e, w1) \<Rightarrow> (Inl e, w1)
               | (Inr _, w1) \<Rightarrow>
                   (case login_locked env (itoa n)
                           \<lparr>sd_connection_id = connectionID, sd_container_id = containerID, sd_owner_token = ownerToken\<rparr> w1 of
                      (result, w2) \<Rightarrow>
                        (result, w2\<lparr>dw_redis := ReleaseUserLock (fst (ln_release env)) (snd (ln_release env)) (itoa n) ownerToken (dw_redis w2)\<rparr>)))))"

section \<open>The lock by key\<close>

text \<open>
  \<^verbatim>\<open>keyed_lock.go\<close>: an entry is a semaphore of one place and the number of goroutines that hold or wait for it;
  \<^verbatim>\<open>Lock\<close> registers, then either enters or gives up when its context ends.
\<close>

record lock_entry =
  le_taken :: bool
  le_refs :: nat

type_synonym keyed_locker = "string \<rightharpoonup> lock_entry"

definition lock_register :: "string \<Rightarrow> keyed_locker \<Rightarrow> keyed_locker" where
  "lock_register key l =
     (case l key of
        None \<Rightarrow> l(key \<mapsto> \<lparr>le_taken = False, le_refs = 1\<rparr>)
      | Some entry \<Rightarrow> l(key \<mapsto> entry\<lparr>le_refs := le_refs entry + 1\<rparr>))"

definition releaseReference :: "string \<Rightarrow> keyed_locker \<Rightarrow> keyed_locker" where
  "releaseReference key l =
     (case l key of
        None \<Rightarrow> l
      | Some entry \<Rightarrow> if le_refs entry - 1 = 0 then l(key := None) else l(key \<mapsto> entry\<lparr>le_refs := le_refs entry - 1\<rparr>))"

definition lock_enter :: "string \<Rightarrow> keyed_locker \<Rightarrow> keyed_locker option" where
  "lock_enter key l =
     (case l key of
        None \<Rightarrow> None
      | Some entry \<Rightarrow> if le_taken entry then None else Some (l(key \<mapsto> entry\<lparr>le_taken := True\<rparr>)))"

definition lock_leave :: "string \<Rightarrow> keyed_locker \<Rightarrow> keyed_locker" where
  "lock_leave key l = releaseReference key (l(key := map_option (\<lambda>e. e\<lparr>le_taken := False\<rparr>) (l key)))"

end
