(* ===== verification/DF_Laws.thy ===== *)
theory DF_Laws
  imports DF_Connections
begin

text \<open>
  Session ownership over any number of containers: their operations interleave in any order, at any times and
  with lost requests and replies. A log of the claims that reached Redis, the latest first, tells who owns a
  user's session; owner tokens are random and assumed never to repeat, and neither they nor the containers'
  host names contain a bar.
\<close>

record df_cluster =
  cl_redis :: session_redis
  cl_managers :: "string \<Rightarrow> conn_manager"
  cl_kafka :: "(string \<times> bytes) list"
  cl_claims :: "(string \<times> session_data) list"

definition view :: "string \<Rightarrow> df_cluster \<Rightarrow> df_world" where
  "view c cl = \<lparr>dw_redis = cl_redis cl, dw_manager = cl_managers cl c, dw_kafka = cl_kafka cl\<rparr>"

definition put :: "string \<Rightarrow> df_world \<Rightarrow> df_cluster \<Rightarrow> df_cluster" where
  "put c w cl = cl\<lparr>cl_redis := dw_redis w, cl_managers := (cl_managers cl)(c := dw_manager w), cl_kafka := dw_kafka w\<rparr>"

definition bar_free :: "string \<Rightarrow> bool" where
  "bar_free s \<longleftrightarrow> CHR ''|'' \<notin> set s"

definition close_old :: "string option \<Rightarrow> conn_manager \<Rightarrow> conn_manager" where
  "close_old old cm = (case old of None \<Rightarrow> cm | Some oldID \<Rightarrow> Close oldID cm)"

text \<open>The atomic steps; no claim is made with a token of the set \<open>avoid\<close>.\<close>

inductive df_step :: "string set \<Rightarrow> df_cluster \<Rightarrow> df_cluster \<Rightarrow> bool" for avoid where
  connect: "i \<notin> cm_connections (cl_managers cl c) \<Longrightarrow>
    df_step avoid cl (cl\<lparr>cl_managers := (cl_managers cl)(c := AddConnection i (cl_managers cl c))\<rparr>)"
| claim: "\<lbrakk>fault \<noteq> RequestLost; u \<noteq> []; sd_owner_token d \<notin> avoid; sd_owner_token d \<notin> (sd_owner_token \<circ> snd) ` set (cl_claims cl);
      bar_free (sd_owner_token d); bar_free (sd_container_id d)\<rbrakk> \<Longrightarrow>
    df_step avoid cl (cl\<lparr>cl_redis := snd (ClaimSessionAndRoute fault now u d (cm_session_ttl (cl_managers cl (sd_container_id d)))
        (cm_route_ttl (cl_managers cl (sd_container_id d))) (cl_redis cl)), cl_claims := (u, d) # cl_claims cl\<rparr>)"
| commit: "\<lbrakk>(u, d) \<in> set (cl_claims cl); sd_container_id d = c;
      commitLocalLogin (sd_connection_id d) u (sd_owner_token d) (cl_managers cl c) = (Inr old, cm)\<rbrakk> \<Longrightarrow>
    df_step avoid cl (cl\<lparr>cl_managers := (cl_managers cl)(c := close_old old cm)\<rparr>)"
| give_up: "(u, d) \<in> set (cl_claims cl) \<Longrightarrow>
    df_step avoid cl (cl\<lparr>cl_redis := snd (RemoveOwnedSessionAndRoute fault now u d (cl_redis cl))\<rparr>)"
| refresh: "(u, d) \<in> set (cl_claims cl) \<Longrightarrow>
    df_step avoid cl (cl\<lparr>cl_redis := snd (RefreshOwnedSessionAndRoute fault now u d sttl rttl (cl_redis cl))\<rparr>)"
| remove: "df_step avoid cl (put c (RemoveConnection c fault now i (view c cl)) cl)"
| stop: "df_step avoid cl (put c (snd (StopUserIfOwner c fault now u tok (view c cl))) cl)"
| close: "df_step avoid cl (cl\<lparr>cl_managers := (cl_managers cl)(c := Close i (cl_managers cl c))\<rparr>)"
| send: "df_step avoid cl (cl\<lparr>cl_managers := (cl_managers cl)(c := snd (SendMessageToUser u m (cl_managers cl c)))\<rparr>)"
| lookup: "df_step avoid cl (cl\<lparr>cl_redis := snd (GetContainerByConnection fault now u (cl_redis cl))\<rparr>)"
| lookups: "df_step avoid cl (cl\<lparr>cl_redis := snd (GetContainersByConnections fault now us (cl_redis cl))\<rparr>)"
| lock: "df_step avoid cl (cl\<lparr>cl_redis := snd (AcquireUserLock fault now u tok ttl (cl_redis cl))\<rparr>)"
| unlock: "df_step avoid cl (cl\<lparr>cl_redis := ReleaseUserLock fault now u tok (cl_redis cl)\<rparr>)"
| publish: "df_step avoid cl (cl\<lparr>cl_redis := snd (PublishOwnedKickNotification fault u c tok (cl_redis cl))\<rparr>)"
| produce: "df_step avoid cl (cl\<lparr>cl_kafka := cl_kafka cl @ [m]\<rparr>)"

definition empty_session_redis :: session_redis where
  "empty_session_redis = \<lparr>sr_sessions = Map.empty, sr_leases = Map.empty, sr_locks = Map.empty, sr_mapping = Map.empty,
     sr_containers = (\<lambda>_. {}), sr_published = []\<rparr>"

definition empty_cluster :: df_cluster where
  "empty_cluster = \<lparr>cl_redis = empty_session_redis, cl_managers = (\<lambda>_. NewConnectionManager), cl_kafka = [], cl_claims = []\<rparr>"

abbreviation df_steps :: "string set \<Rightarrow> df_cluster \<Rightarrow> df_cluster \<Rightarrow> bool" where
  "df_steps avoid \<equiv> (df_step avoid)\<^sup>*\<^sup>*"

section \<open>Redis holds only the latest claim\<close>

definition latest_only :: "(string \<times> session_data) list \<Rightarrow> session_redis \<Rightarrow> bool" where
  "latest_only claims r \<longleftrightarrow> (\<forall>u.
     (\<forall>v e. sr_sessions r u = Some (v, e) \<longrightarrow> (\<exists>d. map_of claims u = Some d \<and> v = encodeSession d)) \<and>
     (\<forall>v e. sr_leases r u = Some (v, e) \<longrightarrow> (\<exists>d. map_of claims u = Some d \<and> v = lease_value (sd_container_id d) (sd_owner_token d))) \<and>
     (\<forall>c. sr_mapping r u = Some c \<longrightarrow> (\<exists>d. map_of claims u = Some d \<and> c = sd_container_id d)))"

text \<open>An operation that only removes entries or prolongs them, seen by its values.\<close>

definition values_shrink :: "session_redis \<Rightarrow> session_redis \<Rightarrow> bool" where
  "values_shrink r r' \<longleftrightarrow> (\<forall>u.
     (\<forall>v e. sr_sessions r' u = Some (v, e) \<longrightarrow> (\<exists>e'. sr_sessions r u = Some (v, e'))) \<and>
     (\<forall>v e. sr_leases r' u = Some (v, e) \<longrightarrow> (\<exists>e'. sr_leases r u = Some (v, e'))) \<and>
     (\<forall>c. sr_mapping r' u = Some c \<longrightarrow> sr_mapping r u = Some c))"

lemma values_shrink_refl [simp]: "values_shrink r r"
  by (auto simp: values_shrink_def)

lemma values_shrink_trans: "values_shrink r r' \<Longrightarrow> values_shrink r' r'' \<Longrightarrow> values_shrink r r''"
  unfolding values_shrink_def by blast

lemma latest_only_shrink: "latest_only claims r \<Longrightarrow> values_shrink r r' \<Longrightarrow> latest_only claims r'"
  unfolding latest_only_def values_shrink_def by blast

lemma redis_call_shrink:
  "(\<And>r. values_shrink r (snd (command r))) \<Longrightarrow> values_shrink r (snd (redis_call fault command r))"
  by (cases fault) (auto simp: redis_call_def)

lemma srem_fields [simp]:
  "sr_sessions (srem c u r) = sr_sessions r" "sr_leases (srem c u r) = sr_leases r" "sr_mapping (srem c u r) = sr_mapping r"
  by (simp_all add: srem_def)

lemma remove_shrink: "values_shrink r (removeOwnedSessionAndRouteScript now u d r)"
  by (auto simp: removeOwnedSessionAndRouteScript_def Let_def values_shrink_def split: if_splits)

lemma refresh_shrink: "values_shrink r (snd (refreshOwnedSessionAndRouteScript now u d s l r))"
  by (auto simp: refreshOwnedSessionAndRouteScript_def owns_session_def values_shrink_def live_Some)

lemma route_shrink: "values_shrink r (snd (getValidRouteScript now u r))"
  by (auto simp: getValidRouteScript_def values_shrink_def split: option.splits)

lemma routes_shrink: "values_shrink r (snd (getValidRoutesScript now us r))"
proof (induction us arbitrary: r)
  case (Cons u us)
  obtain o' r1 where one: "getValidRouteScript now u r = (o', r1)" by fastforce
  obtain ps r2 where rest: "getValidRoutesScript now us r1 = (ps, r2)" by fastforce
  have "values_shrink r r1" using route_shrink [of r now u] one by simp
  moreover have "values_shrink r1 r2" using Cons [of r1] rest by simp
  ultimately show ?case using one rest by (auto split: option.splits intro: values_shrink_trans)
qed simp

lemma GetContainerByConnection_shrink: "values_shrink r (snd (GetContainerByConnection fault now u r))"
  unfolding GetContainerByConnection_def
  by (rule redis_call_shrink) (metis (no_types, lifting) case_prod_beta option.case_eq_if route_shrink snd_conv)

lemma GetContainersByConnections_shrink: "values_shrink r (snd (GetContainersByConnections fault now us r))"
  unfolding GetContainersByConnections_def
  using routes_shrink by (auto intro!: redis_call_shrink simp: case_prod_beta)

lemma RefreshOwned_shrink: "values_shrink r (snd (RefreshOwnedSessionAndRoute fault now u d s l r))"
  unfolding RefreshOwnedSessionAndRoute_def
  by (rule redis_call_shrink) (use refresh_shrink in \<open>auto simp: case_prod_beta split: bool.splits\<close>)

lemma RemoveOwned_shrink: "values_shrink r (snd (RemoveOwnedSessionAndRoute fault now u d r))"
  unfolding RemoveOwnedSessionAndRoute_def by (rule redis_call_shrink) (simp add: remove_shrink)

lemma lock_shrink: "values_shrink r (snd (AcquireUserLock fault now u tok ttl r))"
  unfolding AcquireUserLock_def by (rule redis_call_shrink) (auto simp: values_shrink_def)

lemma unlock_shrink: "values_shrink r (ReleaseUserLock fault now u tok r)"
  unfolding ReleaseUserLock_def by (rule redis_call_shrink) (auto simp: values_shrink_def releaseLockScript_def)

lemma publish_shrink: "values_shrink r (snd (PublishOwnedKickNotification fault u c tok r))"
  unfolding PublishOwnedKickNotification_def by (rule redis_call_shrink) (auto simp: values_shrink_def)

lemmas redis_shrinks = GetContainerByConnection_shrink GetContainersByConnections_shrink RefreshOwned_shrink RemoveOwned_shrink
  lock_shrink unlock_shrink publish_shrink

lemma claim_latest:
  assumes "latest_only claims r" "fault \<noteq> RequestLost" "0 < milliseconds sttl" "0 < milliseconds rttl"
  shows "latest_only ((u, d) # claims) (snd (ClaimSessionAndRoute fault now u d sttl rttl r))"
proof -
  obtain r' where r': "claimSessionAndRouteScript now u d (milliseconds sttl) (milliseconds rttl) r = (True, r')"
      "snd (ClaimSessionAndRoute fault now u d sttl rttl r) = r'"
    using assms(2-4) by (cases fault) (auto simp: ClaimSessionAndRoute_def claimSessionAndRouteScript_def redis_call_def Let_def)
  have "sr_sessions r' = (sr_sessions r)(u \<mapsto> (encodeSession d, expiry_after now (milliseconds sttl)))"
    "sr_leases r' = (sr_leases r)(u \<mapsto> (lease_value (sd_container_id d) (sd_owner_token d), expiry_after now (milliseconds rttl)))"
    "sr_mapping r' = (sr_mapping r)(u \<mapsto> sd_container_id d)"
    using r'(1) assms(3,4) by (auto simp: claimSessionAndRouteScript_def Let_def split: option.splits)
  then show ?thesis using assms(1) unfolding r'(2) latest_only_def by auto
qed

section \<open>The registry of a container\<close>

text \<open>
  The counters are exact, and the connections bound to a user are exactly those of the index by user, each
  with the data of a claim of this container.
\<close>

definition registry_ok :: "string \<Rightarrow> (string \<times> session_data) list \<Rightarrow> conn_manager \<Rightarrow> bool" where
  "registry_ok c claims cm \<longleftrightarrow>
     0 < milliseconds (cm_session_ttl cm) \<and> 0 < milliseconds (cm_route_ttl cm) \<and>
     finite (cm_connections cm) \<and> finite (dom (cm_users cm)) \<and> cm_connections cm \<subseteq> dom (cm_objects cm) \<and>
     cm_connection_count cm = int (card (cm_connections cm)) \<and> cm_logged_in_count cm = int (card (dom (cm_users cm))) \<and>
     (\<forall>u i. cm_users cm u = Some i \<longleftrightarrow>
        (\<exists>o'. i \<in> cm_connections cm \<and> cm_objects cm i = Some o' \<and> cn_authenticated o' \<and> cn_user_id o' = u)) \<and>
     (\<forall>i o'. i \<in> cm_connections cm \<longrightarrow> cm_objects cm i = Some o' \<longrightarrow> cn_authenticated o' \<longrightarrow>
        cn_user_id o' \<noteq> [] \<and> (cn_user_id o', \<lparr>sd_connection_id = i, sd_container_id = c, sd_owner_token = cn_owner_token o'\<rparr>) \<in> set claims)"

lemma registry_new: "registry_ok c claims NewConnectionManager"
  by (simp add: registry_ok_def NewConnectionManager_def milliseconds_def)

lemma registry_mono: "registry_ok c claims cm \<Longrightarrow> set claims \<subseteq> set claims' \<Longrightarrow> registry_ok c claims' cm"
  unfolding registry_ok_def by blast

lemma registry_add: "registry_ok c claims cm \<Longrightarrow> i \<notin> cm_connections cm \<Longrightarrow> registry_ok c claims (AddConnection i cm)"
  by (auto simp: registry_ok_def AddConnection_def)

text \<open>Changes of an object that keep who it is.\<close>

lemma registry_update:
  assumes "registry_ok c claims cm"
    and "\<And>o'. cn_authenticated (f o') = cn_authenticated o' \<and> cn_user_id (f o') = cn_user_id o' \<and> cn_owner_token (f o') = cn_owner_token o'"
  shows "registry_ok c claims (update_object i f cm)"
proof -
  have dom: "dom ((cm_objects cm)(i := map_option f (cm_objects cm i))) = dom (cm_objects cm)" by (auto simp: dom_def)
  have obj: "(\<exists>o'. P \<and> ((cm_objects cm)(i := map_option f (cm_objects cm i))) j = Some o' \<and> cn_authenticated o' \<and> cn_user_id o' = u) \<longleftrightarrow>
      (\<exists>o'. P \<and> cm_objects cm j = Some o' \<and> cn_authenticated o' \<and> cn_user_id o' = u)" for P j u
    using assms(2) by (cases "cm_objects cm i") auto
  show ?thesis using assms(1) unfolding registry_ok_def update_object_def
    by (simp add: dom obj) (use assms(2) in \<open>auto split: if_splits\<close>)
qed

lemma registry_close: "registry_ok c claims cm \<Longrightarrow> registry_ok c claims (Close i cm)"
  unfolding Close_def by (rule registry_update) simp_all

lemma registry_send: "registry_ok c claims cm \<Longrightarrow> registry_ok c claims (snd (SendMessageToUser u m cm))"
  by (auto simp: SendMessageToUser_def EnqueueMessage_def split: option.splits intro!: registry_update)

lemma int_card_remove: "finite A \<Longrightarrow> x \<in> A \<Longrightarrow> int (card (A - {x})) = int (card A) - 1"
  by (metis add_diff_cancel_left' card.remove of_nat_Suc)

lemma registry_detach:
  assumes "registry_ok c claims cm"
  shows "registry_ok c claims (snd (detachConnection i cm))"
proof (cases "GetConnectionByID i cm")
  case None
  then show ?thesis using assms by (simp add: detachConnection_def)
next
  case (Some o')
  then have i: "i \<in> cm_connections cm" "cm_objects cm i = Some o'" by (auto simp: GetConnectionByID_def split: if_splits)
  have idx: "cm_users cm u = Some j \<longleftrightarrow> (\<exists>o'. j \<in> cm_connections cm \<and> cm_objects cm j = Some o' \<and> cn_authenticated o' \<and> cn_user_id o' = u)" for u j
    using assms by (simp add: registry_ok_def)
  have fin: "finite (cm_connections cm)" "finite (dom (cm_users cm))" using assms by (auto simp: registry_ok_def)
  show ?thesis
  proof (cases "cn_authenticated o'")
    case True
    then have u: "cm_users cm (cn_user_id o') = Some i" "cn_user_id o' \<noteq> []"
      using idx i assms by (auto simp: registry_ok_def)
    have cm': "snd (detachConnection i cm) = cm\<lparr>cm_connections := cm_connections cm - {i}, cm_connection_count := cm_connection_count cm - 1,
        cm_users := (cm_users cm)(cn_user_id o' := None), cm_logged_in_count := cm_logged_in_count cm - 1\<rparr>"
      by (simp add: detachConnection_def Some True u Let_def)
    have cards: "int (card (cm_connections cm - {i})) = int (card (cm_connections cm)) - 1"
      "int (card (dom (cm_users cm) - {cn_user_id o'})) = int (card (dom (cm_users cm))) - 1"
      using int_card_remove [of "cm_connections cm" i] int_card_remove [of "dom (cm_users cm)" "cn_user_id o'"] fin i u by blast+
    have "((cm_users cm)(cn_user_id o' := None)) v = Some j \<longleftrightarrow>
        (\<exists>o'. j \<in> cm_connections cm - {i} \<and> cm_objects cm j = Some o' \<and> cn_authenticated o' \<and> cn_user_id o' = v)" for v j
      using idx [of v j] idx [of "cn_user_id o'" j] i u by (auto split: if_splits)
    then show ?thesis using assms unfolding cm' registry_ok_def by (simp add: cards del: card_Diff_insert) blast
  next
    case False
    then have cm': "snd (detachConnection i cm) = cm\<lparr>cm_connections := cm_connections cm - {i}, cm_connection_count := cm_connection_count cm - 1\<rparr>"
      by (simp add: detachConnection_def Some Let_def)
    have "int (card (cm_connections cm - {i})) = int (card (cm_connections cm)) - 1"
      using int_card_remove [of "cm_connections cm" i] fin i by blast
    moreover have "cm_users cm v = Some j \<longleftrightarrow>
        (\<exists>o'. j \<in> cm_connections cm - {i} \<and> cm_objects cm j = Some o' \<and> cn_authenticated o' \<and> cn_user_id o' = v)" for v j
      using idx i False by auto
    ultimately show ?thesis using assms unfolding cm' registry_ok_def by simp blast
  qed
qed

lemma registry_commit:
  assumes ok: "registry_ok c claims cm" and run: "commitLocalLogin i u tok cm = (Inr old, cm')"
    and claim: "(u, \<lparr>sd_connection_id = i, sd_container_id = c, sd_owner_token = tok\<rparr>) \<in> set claims" "u \<noteq> []"
  shows "registry_ok c claims cm'"
proof -
  from run obtain o' where i: "i \<in> cm_connections cm" "cm_objects cm i = Some o'" "\<not> cn_authenticated o'"
    by (auto simp: commitLocalLogin_def may_login_def GetConnectionByID_def split: if_splits option.splits)
  have idx: "cm_users cm v = Some j \<longleftrightarrow> (\<exists>o'. j \<in> cm_connections cm \<and> cm_objects cm j = Some o' \<and> cn_authenticated o' \<and> cn_user_id o' = v)" for v j
    using ok by (simp add: registry_ok_def)
  have fin: "finite (cm_connections cm)" "finite (dom (cm_users cm))" "cm_connections cm \<subseteq> dom (cm_objects cm)"
    "0 < milliseconds (cm_session_ttl cm)" "0 < milliseconds (cm_route_ttl cm)" "cm_connection_count cm = int (card (cm_connections cm))" "cm_logged_in_count cm = int (card (dom (cm_users cm)))"
    using ok by (auto simp: registry_ok_def)
  have auth: "cn_user_id p \<noteq> [] \<and> (cn_user_id p, \<lparr>sd_connection_id = j, sd_container_id = c, sd_owner_token = cn_owner_token p\<rparr>) \<in> set claims"
    if "j \<in> cm_connections cm" "cm_objects cm j = Some p" "cn_authenticated p" for j p
    using ok that unfolding registry_ok_def by blast
  let ?objects = "(cm_objects cm)(i \<mapsto> MarkAuthenticated u tok o')"
  have may: "may_login i cm" using run by (auto simp: commitLocalLogin_def split: if_splits)
  show ?thesis
  proof (cases "cm_users cm u")
    case None
    then have cm': "cm' = cm\<lparr>cm_objects := ?objects, cm_users := (cm_users cm)(u \<mapsto> i), cm_logged_in_count := cm_logged_in_count cm + 1\<rparr>"
      using run may i by (simp add: commitLocalLogin_def Let_def update_object_def)
    have "((cm_users cm)(u \<mapsto> i)) v = Some j \<longleftrightarrow> (\<exists>o'. j \<in> cm_connections cm \<and> ?objects j = Some o' \<and> cn_authenticated o' \<and> cn_user_id o' = v)" for v j
      using idx [of v j] idx [of u j] i None by (auto simp: MarkAuthenticated_def)
    moreover have "u \<notin> dom (cm_users cm)" using None by auto
    ultimately show ?thesis unfolding cm' registry_ok_def using fin claim auth by (auto simp: MarkAuthenticated_def)
  next
    case (Some k)
    then obtain p where p: "k \<in> cm_connections cm" "cm_objects cm k = Some p" "cn_authenticated p" "cn_user_id p = u" using idx by blast
    then have ki: "k \<noteq> i" using i by auto
    have cm': "cm' = cm\<lparr>cm_connections := cm_connections cm - {k}, cm_connection_count := cm_connection_count cm - 1,
        cm_objects := ?objects, cm_users := (cm_users cm)(u \<mapsto> i)\<rparr>"
      using run may i p ki Some by (simp add: commitLocalLogin_def Let_def update_object_def GetConnectionByID_def)
    have "((cm_users cm)(u \<mapsto> i)) v = Some j \<longleftrightarrow>
        (\<exists>o'. j \<in> cm_connections cm - {k} \<and> ?objects j = Some o' \<and> cn_authenticated o' \<and> cn_user_id o' = v)" for v j
      using idx [of v j] idx [of u j] idx [of v k] i p ki Some by (auto simp: MarkAuthenticated_def)
    moreover have "insert u (dom (cm_users cm)) = dom (cm_users cm)" using Some by auto
    moreover have "1 \<le> card (cm_connections cm)" using p(1) fin(1) by (auto simp: Suc_le_eq card_gt_0_iff)
    ultimately show ?thesis unfolding cm' registry_ok_def using fin claim auth p(1) by (auto simp: MarkAuthenticated_def of_nat_diff)
  qed
qed

section \<open>The invariant of the cluster\<close>

lemma session_data_eta:
  "\<lparr>sd_connection_id = sd_connection_id d, sd_container_id = sd_container_id d, sd_owner_token = sd_owner_token d\<rparr> = (d :: session_data)"
  by (cases d) simp

definition claims_ok :: "(string \<times> session_data) list \<Rightarrow> bool" where
  "claims_ok claims \<longleftrightarrow> distinct (map (sd_owner_token \<circ> snd) claims) \<and>
     (\<forall>(u, d)\<in>set claims. u \<noteq> [] \<and> bar_free (sd_owner_token d) \<and> bar_free (sd_container_id d))"

definition df_inv :: "df_cluster \<Rightarrow> bool" where
  "df_inv cl \<longleftrightarrow> claims_ok (cl_claims cl) \<and> latest_only (cl_claims cl) (cl_redis cl) \<and>
     (\<forall>c. registry_ok c (cl_claims cl) (cl_managers cl c))"

lemma df_inv_manager:
  "df_inv cl \<Longrightarrow> registry_ok c (cl_claims cl) cm \<Longrightarrow> df_inv (cl\<lparr>cl_managers := (cl_managers cl)(c := cm)\<rparr>)"
  by (simp add: df_inv_def)

lemma df_inv_redis: "df_inv cl \<Longrightarrow> values_shrink (cl_redis cl) r \<Longrightarrow> df_inv (cl\<lparr>cl_redis := r\<rparr>)"
  by (auto simp: df_inv_def intro: latest_only_shrink)

lemma df_inv_put:
  "df_inv cl \<Longrightarrow> values_shrink (cl_redis cl) (dw_redis w) \<Longrightarrow> registry_ok c (cl_claims cl) (dw_manager w) \<Longrightarrow> df_inv (put c w cl)"
  by (auto simp: df_inv_def put_def intro: latest_only_shrink)

lemma RemoveConnection_view:
  assumes "df_inv cl"
  shows "values_shrink (cl_redis cl) (dw_redis (RemoveConnection c fault now i (view c cl))) \<and>
    registry_ok c (cl_claims cl) (dw_manager (RemoveConnection c fault now i (view c cl)))"
proof -
  have ok: "registry_ok c (cl_claims cl) (cl_managers cl c)" using assms by (simp add: df_inv_def)
  have "registry_ok c (cl_claims cl) (Close i (snd (detachConnection i (cl_managers cl c))))"
    by (intro registry_close registry_detach ok)
  then show ?thesis
    using ok by (auto simp: RemoveConnection_def view_def cleanupOwnedSession_def Let_def RemoveOwned_shrink split: prod.splits option.splits)
qed

lemma StopUserIfOwner_cases:
  "snd (StopUserIfOwner c fault now u tok w) = w \<or> (\<exists>i. snd (StopUserIfOwner c fault now u tok w) = RemoveConnection c fault now i w)"
  by (auto simp: StopUserIfOwner_def split: option.splits)

lemma put_view [simp]: "put c (view c cl) cl = cl"
  by (simp add: put_def view_def)

lemma df_step_inv: "df_step avoid cl cl' \<Longrightarrow> df_inv cl \<Longrightarrow> df_inv cl'"
proof (induction rule: df_step.induct)
  case (connect i cl c)
  then show ?case by (intro df_inv_manager registry_add) (auto simp: df_inv_def)
next
  case (claim fault u d cl now)
  then have "0 < milliseconds (cm_session_ttl (cl_managers cl (sd_container_id d)))" "0 < milliseconds (cm_route_ttl (cl_managers cl (sd_container_id d)))"
    by (auto simp: df_inv_def registry_ok_def)
  with claim show ?case
    by (auto simp: df_inv_def claims_ok_def image_iff intro!: claim_latest intro: registry_mono)
next
  case (commit u d cl c old cm)
  then have "u \<noteq> []" "registry_ok c (cl_claims cl) (cl_managers cl c)" by (auto simp: df_inv_def claims_ok_def)
  moreover have "(u, \<lparr>sd_connection_id = sd_connection_id d, sd_container_id = c, sd_owner_token = sd_owner_token d\<rparr>) \<in> set (cl_claims cl)"
    unfolding commit.hyps(2) [symmetric] session_data_eta by (rule commit.hyps(1))
  ultimately have "registry_ok c (cl_claims cl) cm" using registry_commit commit.hyps(3) by blast
  then have "registry_ok c (cl_claims cl) (close_old old cm)" by (auto simp: close_old_def registry_close split: option.splits)
  then show ?case by (rule df_inv_manager [OF commit.prems])
next
  case (remove cl c fault now i)
  then show ?case using RemoveConnection_view by (intro df_inv_put) auto
next
  case (stop cl c fault now u tok)
  then show ?case using StopUserIfOwner_cases [of c fault now u tok "view c cl"] RemoveConnection_view [OF stop]
    by (auto intro: df_inv_put)
next
  case (close cl c i)
  then show ?case by (intro df_inv_manager registry_close) (auto simp: df_inv_def)
next
  case (send cl c u m)
  then show ?case by (intro df_inv_manager registry_send) (auto simp: df_inv_def)
next
  case (produce cl m)
  then show ?case by (simp add: df_inv_def)
qed (auto intro!: df_inv_redis redis_shrinks)

lemma df_steps_inv: "df_steps avoid cl cl' \<Longrightarrow> df_inv cl \<Longrightarrow> df_inv cl'"
  by (induction rule: rtranclp_induct) (auto intro: df_step_inv)

lemma empty_cluster_inv: "df_inv empty_cluster"
  by (simp add: df_inv_def empty_cluster_def claims_ok_def latest_only_def empty_session_redis_def registry_new)

lemma reachable_inv: "df_steps avoid empty_cluster cl \<Longrightarrow> df_inv cl"
  using df_steps_inv empty_cluster_inv by blast

text \<open>
  C24. In every container, whatever happens, the counters of connections and of logged-in users are exact, a user
  has at most one bound connection, and the index by user leads to exactly that connection.
\<close>

theorem connection_registry_exact:
  assumes "df_steps avoid empty_cluster cl"
  shows "cm_connection_count (cl_managers cl c) = int (card (cm_connections (cl_managers cl c))) \<and>
    cm_logged_in_count (cl_managers cl c) = int (card (dom (cm_users (cl_managers cl c)))) \<and>
    (\<forall>u i. cm_users (cl_managers cl c) u = Some i \<longleftrightarrow>
      (\<exists>o'. GetConnectionByID i (cl_managers cl c) = Some o' \<and> cn_authenticated o' \<and> cn_user_id o' = u))"
  using reachable_inv [OF assms] by (auto simp: df_inv_def registry_ok_def GetConnectionByID_def)

section \<open>Ownership\<close>

lemma bar_tail_inject: "bar_free t \<Longrightarrow> bar_free t' \<Longrightarrow> s @ ''|'' @ t = s' @ ''|'' @ t' \<longleftrightarrow> s = s' \<and> t = t'"
proof -
  assume "bar_free t" "bar_free t'"
  then have "rev t @ CHR ''|'' # rev s = rev t' @ CHR ''|'' # rev s' \<longleftrightarrow> rev t = rev t' \<and> rev s = rev s'"
    by (intro append_sep_inject) (auto simp: bar_free_def)
  moreover have "s @ ''|'' @ t = s' @ ''|'' @ t' \<longleftrightarrow> rev t @ CHR ''|'' # rev s = rev t' @ CHR ''|'' # rev s'"
    by (subst rev_is_rev_conv [symmetric]) simp
  ultimately show ?thesis by auto
qed

lemma encodeSession_inject:
  assumes "bar_free (sd_owner_token d)" "bar_free (sd_owner_token d')" "bar_free (sd_container_id d)" "bar_free (sd_container_id d')"
    and "encodeSession d = encodeSession d'"
  shows "d = (d' :: session_data)"
proof -
  from assms(5) have "(sd_connection_id d @ ''|'' @ sd_container_id d) @ ''|'' @ sd_owner_token d =
      (sd_connection_id d' @ ''|'' @ sd_container_id d') @ ''|'' @ sd_owner_token d'"
    by (simp add: encodeSession_def)
  then have "sd_connection_id d @ ''|'' @ sd_container_id d = sd_connection_id d' @ ''|'' @ sd_container_id d'" "sd_owner_token d = sd_owner_token d'"
    unfolding bar_tail_inject [OF assms(1,2)] by auto
  moreover from this(1) have "sd_connection_id d = sd_connection_id d'" "sd_container_id d = sd_container_id d'"
    unfolding bar_tail_inject [OF assms(3,4)] by auto
  ultimately show ?thesis by simp
qed

text \<open>Somebody whose claim is not the latest one owns nothing in Redis.\<close>

lemma stale_owns_nothing:
  assumes "df_inv cl" "(u, d) \<in> set (cl_claims cl)" "map_of (cl_claims cl) u \<noteq> Some d"
  shows "sr_sessions (cl_redis cl) u \<noteq> Some (encodeSession d, e)"
    "sr_leases (cl_redis cl) u \<noteq> Some (lease_value (sd_container_id d) (sd_owner_token d), e)"
proof -
  have ok: "bar_free (sd_owner_token d') \<and> bar_free (sd_container_id d')" if "(v, d') \<in> set (cl_claims cl)" for v d'
    using assms(1) that by (auto simp: df_inv_def claims_ok_def)
  have tok: "x = y" if "x \<in> set (cl_claims cl)" "y \<in> set (cl_claims cl)" "sd_owner_token (snd x) = sd_owner_token (snd y)" for x y
    using assms(1) that by (auto simp: df_inv_def claims_ok_def distinct_map inj_on_def)
  have differ: "encodeSession d \<noteq> encodeSession d'" "lease_value (sd_container_id d) (sd_owner_token d) \<noteq> lease_value (sd_container_id d') (sd_owner_token d')"
    if "map_of (cl_claims cl) u = Some d'" for d'
  proof -
    have mem: "(u, d') \<in> set (cl_claims cl)" using that by (rule map_of_SomeD)
    have ne: "d \<noteq> d'" using that assms(3) by auto
    then show "encodeSession d \<noteq> encodeSession d'" using encodeSession_inject [of d d'] ok [OF mem] ok [OF assms(2)] by auto
    have "sd_owner_token d \<noteq> sd_owner_token d'" using tok [OF assms(2) mem] ne by auto
    then show "lease_value (sd_container_id d) (sd_owner_token d) \<noteq> lease_value (sd_container_id d') (sd_owner_token d')"
      unfolding lease_value_def using bar_tail_inject ok [OF mem] ok [OF assms(2)] by auto
  qed
  have "latest_only (cl_claims cl) (cl_redis cl)" using assms(1) by (simp add: df_inv_def)
  then show "sr_sessions (cl_redis cl) u \<noteq> Some (encodeSession d, e)"
    "sr_leases (cl_redis cl) u \<noteq> Some (lease_value (sd_container_id d) (sd_owner_token d), e)"
    using differ unfolding latest_only_def by blast+
qed

lemma stale_refresh_refused:
  assumes "df_inv cl" "(u, d) \<in> set (cl_claims cl)" "map_of (cl_claims cl) u \<noteq> Some d"
  shows "RefreshOwnedSessionAndRoute NoFault now u d sttl rttl (cl_redis cl) = (Inl ErrSessionOwnershipLost, cl_redis cl)"
  using stale_owns_nothing [OF assms]
  by (auto simp: RefreshOwnedSessionAndRoute_def redis_call_def refreshOwnedSessionAndRouteScript_def owns_session_def live_Some)

lemma stale_removal_harmless:
  assumes "df_inv cl" "(u, d) \<in> set (cl_claims cl)" "map_of (cl_claims cl) u \<noteq> Some d"
  shows "snd (RemoveOwnedSessionAndRoute fault now u d (cl_redis cl)) = cl_redis cl"
  using stale_owns_nothing [OF assms]
  by (cases fault) (auto simp: RemoveOwnedSessionAndRoute_def redis_call_def removeOwnedSessionAndRouteScript_def live_Some Let_def)

text \<open>
  C25. The session of a user belongs to whoever claimed it last, over all containers and whatever is delayed or
  lost. A route that is found leads to the container of the latest claim. A connection bound to the user by
  an earlier claim cannot prolong the session, it is told that the ownership is lost; and when it is removed,
  the records of the new owner stay untouched.
\<close>

theorem session_ownership:
  assumes "df_steps avoid empty_cluster cl"
  shows "(\<forall>now u c r. GetContainerByConnection NoFault now u (cl_redis cl) = (Inr c, r) \<longrightarrow>
      (\<exists>d. map_of (cl_claims cl) u = Some d \<and> sd_container_id d = c)) \<and>
    (\<forall>c i o' fault now sttl rttl. GetConnectionByID i (cl_managers cl c) = Some o' \<longrightarrow> cn_authenticated o' \<longrightarrow>
      map_of (cl_claims cl) (cn_user_id o') \<noteq> Some \<lparr>sd_connection_id = i, sd_container_id = c, sd_owner_token = cn_owner_token o'\<rparr> \<longrightarrow>
      RefreshOwnedSessionAndRoute NoFault now (cn_user_id o') \<lparr>sd_connection_id = i, sd_container_id = c, sd_owner_token = cn_owner_token o'\<rparr>
        sttl rttl (cl_redis cl) = (Inl ErrSessionOwnershipLost, cl_redis cl) \<and>
      dw_redis (RemoveConnection c fault now i (view c cl)) = cl_redis cl)"
proof (intro conjI allI impI)
  note inv = reachable_inv [OF assms]
  fix now u c r
  assume "GetContainerByConnection NoFault now u (cl_redis cl) = (Inr c, r)"
  then have "sr_mapping (cl_redis cl) u = Some c"
    by (auto simp: GetContainerByConnection_def redis_call_def getValidRouteScript_def split: option.splits if_splits)
  with inv show "\<exists>d. map_of (cl_claims cl) u = Some d \<and> sd_container_id d = c" unfolding df_inv_def latest_only_def by blast
next
  note inv = reachable_inv [OF assms]
  fix c i and o' :: connection and fault now sttl rttl
  let ?d = "\<lparr>sd_connection_id = i, sd_container_id = c, sd_owner_token = cn_owner_token o'\<rparr>"
  assume o: "GetConnectionByID i (cl_managers cl c) = Some o'" "cn_authenticated o'" and stale: "map_of (cl_claims cl) (cn_user_id o') \<noteq> Some ?d"
  from inv o have mem: "(cn_user_id o', ?d) \<in> set (cl_claims cl)"
    unfolding df_inv_def registry_ok_def GetConnectionByID_def by (auto split: if_splits)
  show "RefreshOwnedSessionAndRoute NoFault now (cn_user_id o') ?d sttl rttl (cl_redis cl) = (Inl ErrSessionOwnershipLost, cl_redis cl)"
    by (rule stale_refresh_refused [OF inv mem stale])
  show "dw_redis (RemoveConnection c fault now i (view c cl)) = cl_redis cl"
    using stale_removal_harmless [OF inv mem stale] o(1)
    by (auto simp: RemoveConnection_def view_def detachConnection_def cleanupOwnedSession_def Let_def)
qed

section \<open>A login is a sequence of steps\<close>

text \<open>From \<open>cl\<close> the cluster can come to a state that the container \<open>c\<close> sees as \<open>w\<close>.\<close>

definition reaches :: "string set \<Rightarrow> string \<Rightarrow> df_cluster \<Rightarrow> df_world \<Rightarrow> bool" where
  "reaches avoid c cl w \<longleftrightarrow> (\<exists>cl'. df_steps avoid cl cl' \<and> view c cl' = w)"

text \<open>What others do while a login is on its way: any steps, but not with its token.\<close>

definition by_others :: "string \<Rightarrow> string \<Rightarrow> (df_world \<Rightarrow> df_world) \<Rightarrow> bool" where
  "by_others c tok f \<longleftrightarrow> (\<forall>cl. reaches {tok} c cl (f (view c cl)))"

definition login_env_ok :: "string \<Rightarrow> string \<Rightarrow> login_env \<Rightarrow> bool" where
  "login_env_ok c tok env \<longleftrightarrow> ln_token env = Some tok \<and> bar_free tok \<and> bar_free c \<and>
     (\<forall>(fault, now, f)\<in>set (ln_attempts env). by_others c tok f) \<and> by_others c tok (ln_before_claim env) \<and> by_others c tok (ln_before_commit env)"

definition tokens :: "df_cluster \<Rightarrow> string set" where
  "tokens cl = (sd_owner_token \<circ> snd) ` set (cl_claims cl)"

lemma df_step_mono: "df_step avoid cl cl' \<Longrightarrow> avoid' \<subseteq> avoid \<Longrightarrow> df_step avoid' cl cl'"
proof (induction rule: df_step.induct)
  case (claim fault u d cl now)
  then show ?case by (intro df_step.claim) auto
qed (auto intro: df_step.intros)

lemma df_steps_mono: "df_steps avoid cl cl' \<Longrightarrow> avoid' \<subseteq> avoid \<Longrightarrow> df_steps avoid' cl cl'"
  by (induction rule: rtranclp_induct) (auto intro: df_step_mono rtranclp.rtrancl_into_rtrancl)

lemma df_step_tokens: "df_step avoid cl cl' \<Longrightarrow> tok \<in> avoid \<Longrightarrow> tok \<notin> tokens cl \<Longrightarrow> tok \<notin> tokens cl'"
  by (induction rule: df_step.induct) (auto simp: tokens_def put_def)

lemma df_steps_tokens: "df_steps avoid cl cl' \<Longrightarrow> tok \<in> avoid \<Longrightarrow> tok \<notin> tokens cl \<Longrightarrow> tok \<notin> tokens cl'"
  by (induction rule: rtranclp_induct) (auto dest: df_step_tokens)

lemma by_others_step: "by_others c tok f \<Longrightarrow> \<exists>cl'. df_steps {tok} cl cl' \<and> view c cl' = f (view c cl)"
  by (simp add: by_others_def reaches_def)

lemma view_redis: "view c (cl\<lparr>cl_redis := r\<rparr>) = (view c cl)\<lparr>dw_redis := r\<rparr>"
  by (simp add: view_def)

lemma view_claims [simp]: "view c (cl\<lparr>cl_claims := x\<rparr>) = view c cl"
  by (simp add: view_def)

lemma dw_view [simp]: "dw_redis (view c cl) = cl_redis cl" "dw_manager (view c cl) = cl_managers cl c" "dw_kafka (view c cl) = cl_kafka cl"
  by (simp_all add: view_def)

lemma view_manager: "view c (cl\<lparr>cl_managers := (cl_managers cl)(c := cm)\<rparr>) = (view c cl)\<lparr>dw_manager := cm\<rparr>"
  by (simp add: view_def)

lemma view_kafka: "view c (cl\<lparr>cl_kafka := k\<rparr>) = (view c cl)\<lparr>dw_kafka := k\<rparr>"
  by (simp add: view_def)

lemma acquire_steps:
  "\<lbrakk>\<forall>(fault, now, f)\<in>set attempts. by_others c tok f; acquireDistributedUserLock u tok attempts (view c cl) = (res, w)\<rbrakk> \<Longrightarrow>
   \<exists>cl'. df_steps {tok} cl cl' \<and> view c cl' = w"
proof (induction attempts arbitrary: cl)
  case Nil
  then show ?case by auto
next
  case (Cons a attempts)
  obtain fault now f where a: "a = (fault, now, f)" by (cases a)
  obtain locked r where r: "AcquireUserLock fault now u tok (30 * second) (cl_redis cl) = (locked, r)" by fastforce
  define cl1 where "cl1 = cl\<lparr>cl_redis := r\<rparr>"
  have s1: "df_step {tok} cl cl1" using df_step.lock [of "{tok}" cl fault now u tok "30 * second"] r by (simp add: cl1_def)
  have v1: "view c cl1 = (view c cl)\<lparr>dw_redis := r\<rparr>" by (simp add: cl1_def view_redis)
  from Cons.prems(1) a have "by_others c tok f" by simp
  then obtain cl2 where s2: "df_steps {tok} cl1 cl2" "view c cl2 = f (view c cl1)" using by_others_step by blast
  have s12: "df_steps {tok} cl cl2" using s1 s2(1) by (rule converse_rtranclp_into_rtranclp)
  show ?case
  proof (cases locked)
    case (Inl e)
    then show ?thesis using Cons.prems(2) r s1 v1 by (auto simp: a)
  next
    case (Inr b)
    show ?thesis
    proof (cases b)
      case True
      then show ?thesis using Cons.prems(2) r Inr s12 s2(2) v1 by (auto simp: a)
    next
      case False
      then have "acquireDistributedUserLock u tok attempts (view c cl2) = (res, w)" using Cons.prems(2) r Inr s2(2) v1 by (simp add: a)
      then show ?thesis using Cons.IH [of cl2] Cons.prems(1) s12 by (auto intro: rtranclp_trans)
    qed
  qed
qed

lemma kick_steps:
  assumes "kick_previous env u previous (view c cl) = (res, w)"
  shows "\<exists>cl'. df_steps avoid cl cl' \<and> view c cl' = w"
proof (cases "\<exists>p. previous = Some p \<and> sd_container_id p \<noteq> [] \<and> sd_owner_token p \<noteq> []")
  case False
  then have "w = view c cl" using assms by (auto simp: kick_previous_def split: option.splits if_splits)
  then show ?thesis by blast
next
  case True
  then obtain p where p: "previous = Some p" "sd_container_id p \<noteq> []" "sd_owner_token p \<noteq> []" by blast
  obtain x r where r: "PublishOwnedKickNotification (ln_kick env) u (sd_container_id p) (sd_owner_token p) (cl_redis cl) = (x, r)" by fastforce
  define cl1 where "cl1 = cl\<lparr>cl_redis := r\<rparr>"
  have s1: "df_step avoid cl cl1"
    using df_step.publish [of avoid cl "ln_kick env" u "sd_container_id p" "sd_owner_token p"] r by (simp add: cl1_def)
  have v1: "view c cl1 = (view c cl)\<lparr>dw_redis := r\<rparr>" by (simp add: cl1_def view_redis)
  consider "w = view c cl1" | m where "w = (view c cl1)\<lparr>dw_kafka := cl_kafka cl1 @ [m]\<rparr>"
    using assms p r v1 by (auto simp: kick_previous_def cl1_def view_def split: sum.splits if_splits)
  then show ?thesis
  proof cases
    case 1
    then show ?thesis using s1 by blast
  next
    case 2
    have "df_step avoid cl1 (cl1\<lparr>cl_kafka := cl_kafka cl1 @ [m]\<rparr>)" by (rule df_step.produce)
    with s1 have "df_steps avoid cl (cl1\<lparr>cl_kafka := cl_kafka cl1 @ [m]\<rparr>)" by (meson rtranclp.rtrancl_into_rtrancl r_into_rtranclp)
    then show ?thesis using 2 view_kafka by metis
  qed
qed

lemma claim_and_commit_steps:
  assumes run: "claim_and_commit env u d (view c cl) = (res, w)" and d: "sd_container_id d = c" "u \<noteq> []"
    and tok: "sd_owner_token d \<notin> tokens cl" "bar_free (sd_owner_token d)" "bar_free c" and oth: "by_others c (sd_owner_token d) (ln_before_commit env)"
  shows "\<exists>cl'. df_steps {} cl cl' \<and> view c cl' = w"
proof (cases "fst (ln_claim env) = RequestLost")
  case True
  then have "w = view c cl" using run by (auto simp: claim_and_commit_def ClaimSessionAndRoute_def redis_call_def view_def)
  then show ?thesis by blast
next
  case False
  let ?claim = "ClaimSessionAndRoute (fst (ln_claim env)) (snd (ln_claim env)) u d (cm_session_ttl (cl_managers cl c)) (cm_route_ttl (cl_managers cl c)) (cl_redis cl)"
  define cl1 where "cl1 = cl\<lparr>cl_redis := snd ?claim, cl_claims := (u, d) # cl_claims cl\<rparr>"
  have s1: "df_step {} cl cl1"
    unfolding cl1_def using df_step.claim [of "fst (ln_claim env)" u d "{}" cl "snd (ln_claim env)"] False d tok by (simp add: tokens_def)
  have v1: "view c cl1 = (view c cl)\<lparr>dw_redis := snd ?claim\<rparr>" by (simp add: cl1_def view_def)
  from by_others_step [OF oth] obtain cl2 where s2: "df_steps {sd_owner_token d} cl1 cl2" "view c cl2 = ln_before_commit env (view c cl1)" by blast
  have s12: "df_steps {} cl cl2" using s1 df_steps_mono [OF s2(1)] by (auto intro: converse_rtranclp_into_rtranclp)
  have "df_steps {} cl1 cl2" using df_steps_mono [OF s2(1)] by simp
  then have mem: "(u, d) \<in> set (cl_claims cl2)"
  proof (induction rule: rtranclp_induct)
    case base
    then show ?case by (simp add: cl1_def)
  next
    case (step y z)
    from step.hyps(2) have "set (cl_claims y) \<subseteq> set (cl_claims z)" by (induction rule: df_step.induct) (auto simp: put_def)
    with step.IH show ?case by blast
  qed
  define gave where "gave = cl2\<lparr>cl_redis := snd (RemoveOwnedSessionAndRoute (fst (ln_cleanup env)) (snd (ln_cleanup env)) u d (cl_redis cl2))\<rparr>"
  have give: "df_step {} cl2 gave" unfolding gave_def by (rule df_step.give_up [OF mem])
  have vgave: "view c gave = cleanupOwnedSession (fst (ln_cleanup env)) (snd (ln_cleanup env)) u d (view c cl2)"
    by (simp add: gave_def view_redis cleanupOwnedSession_def)
  have m2: "cl_managers cl2 c = dw_manager (ln_before_commit env (view c cl1))" using s2(2) by (metis dw_view(2))
  define w1 where "w1 = ln_before_commit env (view c cl1)"
  obtain cres r where claimed: "?claim = (cres, r)" by fastforce
  obtain x cm where com: "commitLocalLogin (sd_connection_id d) u (sd_owner_token d) (cl_managers cl2 c) = (x, cm)" by fastforce
  have w1: "ln_before_commit env ((view c cl)\<lparr>dw_redis := r\<rparr>) = w1" "cl_managers cl2 c = dw_manager w1" "view c cl2 = w1"
    using v1 claimed m2 s2(2) by (simp_all add: w1_def)
  consider "w = view c cl1" | "w = view c gave"
    | old cm where "commitLocalLogin (sd_connection_id d) u (sd_owner_token d) (cl_managers cl2 c) = (Inr old, cm)"
        "w = (view c cl2)\<lparr>dw_manager := close_old old cm\<rparr>"
  proof (cases cres)
    case (Inl e)
    then have "w = view c cl1" using run v1 claimed by (simp add: claim_and_commit_def)
    then show ?thesis by (rule that(1))
  next
    case (Inr y)
    show ?thesis
    proof (cases "ln_context_done env \<or> isl x")
      case True
      then have "w = view c gave"
        using run claimed com Inr vgave by (cases x; cases "ln_context_done env") (auto simp: claim_and_commit_def Let_def w1)
      then show ?thesis by (rule that(2))
    next
      case False
      then obtain old where "x = Inr old" by (cases x) auto
      with False have "w = (view c cl2)\<lparr>dw_manager := close_old old cm\<rparr>"
        using run claimed com Inr by (simp add: claim_and_commit_def Let_def w1 close_old_def)
      with \<open>x = Inr old\<close> com show ?thesis by (intro that(3)) simp_all
    qed
  qed
  then show ?thesis
  proof cases
    case 1
    then show ?thesis using s1 by blast
  next
    case 2
    then show ?thesis using s12 give by (blast intro: rtranclp.rtrancl_into_rtrancl)
  next
    case 3
    then show ?thesis using s12 df_step.commit [OF mem d(1) 3(1)] view_manager by (metis rtranclp.rtrancl_into_rtrancl)
  qed
qed

text \<open>
  C26. \<^verbatim>\<open>Login\<close> with everything that can happen meanwhile is a sequence of the atomic steps, so what holds of all
  sequences of steps holds of logins that overlap in any way. Others may do anything between its calls, at
  any time; only its random token is its own.
\<close>

theorem Login_refines_steps:
  assumes "login_env_ok c tok env" "tok \<notin> tokens cl" "Login c env i raw (view c cl) = (res, w)"
  shows "\<exists>cl'. df_steps {} cl cl' \<and> view c cl' = w"
proof (cases "w = view c cl")
  case True
  then show ?thesis by blast
next
  case False
  then obtain n where n: "ParseInt64 (TrimSpace raw) = Some n" "0 < n" and ok: "ln_local_lock env" "ln_before env" "may_login i (cl_managers cl c)"
    using assms(3) by (auto simp: Login_def split: option.splits if_splits)
  obtain x w1 where acq: "acquireDistributedUserLock (itoa n) tok (ln_attempts env) (view c cl) = (x, w1)" by fastforce
  from acquire_steps [OF _ acq] assms(1) obtain cl1 where s1: "df_steps {tok} cl cl1" "view c cl1 = w1" by (auto simp: login_env_ok_def)
  have s1': "df_steps {} cl cl1" by (rule df_steps_mono [OF s1(1)]) simp
  have u: "itoa n \<noteq> []" using n(2) by (simp add: itoa_def)
  show ?thesis
  proof (cases x)
    case (Inl e)
    then have "w = w1" using assms(1,3) n ok acq by (simp add: Login_def login_env_ok_def)
    then show ?thesis using s1' s1(2) by blast
  next
    case (Inr x')
    let ?d = "\<lparr>sd_connection_id = i, sd_container_id = c, sd_owner_token = tok\<rparr>"
    obtain y w2 where locked: "login_locked env (itoa n) ?d w1 = (y, w2)" by fastforce
    have w: "w = w2\<lparr>dw_redis := ReleaseUserLock (fst (ln_release env)) (snd (ln_release env)) (itoa n) tok (dw_redis w2)\<rparr>"
      using assms(1,3) n ok acq Inr locked by (simp add: Login_def login_env_ok_def)
    have "\<exists>cl2. df_steps {} cl1 cl2 \<and> view c cl2 = w2"
    proof (cases "GetUserSession (fst (ln_read env)) (snd (ln_read env)) (itoa n) (cl_redis cl1)")
      case (Inl e)
      then have "w2 = view c cl1" using locked s1(2) by (auto simp: login_locked_def)
      then show ?thesis by blast
    next
      case (Inr previous)
      obtain z w3 where kick: "kick_previous env (itoa n) previous (view c cl1) = (z, w3)" by fastforce
      from kick_steps [OF kick] obtain cl3 where s3: "df_steps {tok} cl1 cl3" "view c cl3 = w3" by blast
      show ?thesis
      proof (cases z)
        case (Inl e)
        then have "w2 = w3" using locked s1(2) Inr kick by (auto simp: login_locked_def)
        then show ?thesis using s3 df_steps_mono by blast
      next
        case (Inr z')
        from assms(1) have bc: "by_others c tok (ln_before_claim env)" by (simp add: login_env_ok_def)
        from by_others_step [OF bc] obtain cl4 where s4: "df_steps {tok} cl3 cl4" "view c cl4 = ln_before_claim env (view c cl3)" by blast
        have fresh: "tok \<notin> tokens cl4" using df_steps_tokens assms(2) s1(1) s3(1) s4(1) by blast
        have "claim_and_commit env (itoa n) ?d (view c cl4) = (y, w2)"
          using locked s1(2) \<open>GetUserSession _ _ _ _ = Inr previous\<close> kick Inr s3(2) s4(2) by (auto simp: login_locked_def)
        then obtain cl5 where "df_steps {} cl4 cl5" "view c cl5 = w2"
          using claim_and_commit_steps [of env "itoa n" ?d c cl4 y w2] u fresh assms(1) by (auto simp: login_env_ok_def)
        moreover have "df_steps {} cl1 cl4" using s3(1) s4(1) df_steps_mono by (meson empty_subsetI rtranclp_trans)
        ultimately show ?thesis using rtranclp_trans [of "df_step {}" cl1 cl4 cl5] by blast
      qed
    qed
    then obtain cl2 where s2: "df_steps {} cl1 cl2" "view c cl2 = w2" by blast
    have "df_step {} cl2 (cl2\<lparr>cl_redis := ReleaseUserLock (fst (ln_release env)) (snd (ln_release env)) (itoa n) tok (cl_redis cl2)\<rparr>)"
      by (rule df_step.unlock)
    moreover have "view c (cl2\<lparr>cl_redis := ReleaseUserLock (fst (ln_release env)) (snd (ln_release env)) (itoa n) tok (cl_redis cl2)\<rparr>) = w"
      unfolding w view_redis s2(2) [symmetric] by simp
    moreover have "df_steps {} cl cl2" by (rule rtranclp_trans [OF s1' s2(1)])
    ultimately show ?thesis by (blast intro: rtranclp.rtrancl_into_rtrancl)
  qed
qed

section \<open>A login takes over\<close>

definition calm_login :: "string \<Rightarrow> instant \<Rightarrow> instant \<Rightarrow> instant \<Rightarrow> login_env" where
  "calm_login tok t0 t1 t2 = \<lparr>ln_local_lock = True, ln_before = True, ln_token = Some tok, ln_attempts = [(NoFault, t0, id)],
     ln_read = (NoFault, t1), ln_kick = NoFault, ln_kafka_accepts = True, ln_before_claim = id, ln_claim = (NoFault, t2),
     ln_context_done = False, ln_before_commit = id, ln_cleanup = (NoFault, t2), ln_release = (NoFault, t2)\<rparr>"

lemma ParseInt64_itoa:
  assumes "0 < n" "n < 2 ^ 63"
  shows "ParseInt64 (TrimSpace (itoa n)) = Some n"
proof -
  have i: "itoa n = itoa_nat (nat n)" using assms(1) by (simp add: itoa_def)
  have digits: "\<forall>c\<in>set (itoa_nat (nat n)). is_digit c" by (rule itoa_nat_digits)
  have edge: "\<not> space_edge c \<and> c \<noteq> CHR ''-'' \<and> c \<noteq> CHR ''+''" if "is_digit c" for c
    using that by (auto simp: space_edge_def is_digit_def)
  obtain x xs where cons: "itoa_nat (nat n) = x # xs" by (metis itoa_nat_nonempty list.exhaust)
  have "TrimSpace (itoa n) = itoa n"
    unfolding i using digits edge itoa_nat_nonempty [of "nat n"] by (intro TrimSpace_plain) auto
  moreover have "int (decimal (x # xs)) = n" using assms(1) decimal_itoa_nat [of "nat n"] cons by simp
  moreover have "x \<noteq> CHR ''-''" "x \<noteq> CHR ''+''" "list_all is_digit (x # xs)" using digits edge cons by (auto simp: list_all_iff)
  ultimately show ?thesis using assms unfolding i ParseInt64_def cons by (simp add: Let_def)
qed

lemma commit_result:
  assumes "may_login i cm"
  shows "\<exists>old cm'. commitLocalLogin i u tok cm = (Inr old, cm') \<and>
    (\<exists>o'. GetConnectionByUserID u (close_old old cm') = Some (i, o') \<and> cn_authenticated o' \<and> cn_owner_token o' = tok)"
proof -
  from assms obtain o' where i: "i \<in> cm_connections cm" "cm_objects cm i = Some o'"
    by (auto simp: may_login_def GetConnectionByID_def split: if_splits option.splits)
  have bound: "\<exists>o'. GetConnectionByUserID u (close_old old cm') = Some (i, o') \<and> cn_authenticated o' \<and> cn_owner_token o' = tok"
    if "cm_users cm' u = Some i" "i \<in> cm_connections cm'" "cm_objects cm' i = Some (MarkAuthenticated u tok o')" "old \<noteq> Some i" for old cm'
    using that by (auto simp: close_old_def Close_def update_object_def GetConnectionByUserID_def GetConnectionByID_def MarkAuthenticated_def split: option.splits)
  obtain old cm' where run: "commitLocalLogin i u tok cm = (Inr old, cm')"
    using assms by (auto simp: commitLocalLogin_def Let_def)
  then have "cm_users cm' u = Some i" "i \<in> cm_connections cm'" "cm_objects cm' i = Some (MarkAuthenticated u tok o')" "old \<noteq> Some i"
    using assms i by (auto simp: commitLocalLogin_def Let_def update_object_def GetConnectionByID_def split: option.splits if_splits)
  with run bound show ?thesis by blast
qed

lemma session_claim_result:
  assumes "0 < milliseconds sttl" "0 < milliseconds rttl" "now < expiry_after t (milliseconds rttl)"
  shows "\<exists>r'. ClaimSessionAndRoute NoFault t u d sttl rttl r = (Inr (), r') \<and> sr_published r' = sr_published r \<and>
    (\<forall>tok. fst (GetContainerByConnection NoFault now u (ReleaseUserLock NoFault t u tok r')) = Inr (sd_container_id d))"
  using assms
  by (auto simp: ClaimSessionAndRoute_def claimSessionAndRouteScript_def redis_call_def Let_def GetContainerByConnection_def getValidRouteScript_def
      route_valid_def live_def lease_value_def HasPrefix_def starts_with_def ReleaseUserLock_def releaseLockScript_def srem_def split: option.splits)

lemma kick_result:
  assumes "ln_kick env = NoFault"
  shows "\<exists>w2. kick_previous env u previous w1 = (Inr (), w2) \<and> dw_manager w2 = dw_manager w1 \<and>
    (\<forall>p. previous = Some p \<longrightarrow> sd_container_id p \<noteq> [] \<longrightarrow> sd_owner_token p \<noteq> [] \<longrightarrow>
      (''user_kick:'' @ sd_container_id p, kick_message u (sd_owner_token p)) \<in> set (sr_published (dw_redis w2)))"
  using assms by (cases previous) (auto simp: kick_previous_def PublishOwnedKickNotification_def redis_call_def)

lemma release_published: "sr_published (ReleaseUserLock fault t u tok r) = sr_published r"
  by (cases fault) (simp_all add: ReleaseUserLock_def redis_call_def releaseLockScript_def)

text \<open>
  An undisturbed login takes the user's session over: afterwards messages are routed to its container and its
  connection is the one bound to the user; if the session belonged to somebody, that owner has been sent the
  notification to close, addressed by container and token.
\<close>

theorem login_takes_over:
  assumes "df_steps {} empty_cluster cl" "0 < n" "n < 2 ^ 63" "may_login i (cl_managers cl c)"
    and "live t0 (sr_locks (cl_redis cl)) (itoa n) = None" "now < expiry_after t2 (milliseconds (cm_route_ttl (cl_managers cl c)))"
  shows "\<exists>w. Login c (calm_login tok t0 t1 t2) i (itoa n) (view c cl) = (Inr (), w) \<and>
    fst (GetContainerByConnection NoFault now (itoa n) (dw_redis w)) = Inr c \<and>
    (\<exists>o'. GetConnectionByUserID (itoa n) (dw_manager w) = Some (i, o') \<and> cn_authenticated o' \<and> cn_owner_token o' = tok) \<and>
    (\<forall>d. map_of (cl_claims cl) (itoa n) = Some d \<longrightarrow> live t1 (sr_sessions (cl_redis cl)) (itoa n) \<noteq> None \<longrightarrow>
       sd_container_id d \<noteq> [] \<longrightarrow> sd_owner_token d \<noteq> [] \<longrightarrow>
       (''user_kick:'' @ sd_container_id d, kick_message (itoa n) (sd_owner_token d)) \<in> set (sr_published (dw_redis w)))"
proof -
  note inv = reachable_inv [OF assms(1)]
  let ?u = "itoa n"
  let ?d = "\<lparr>sd_connection_id = i, sd_container_id = c, sd_owner_token = tok\<rparr>"
  have ttl: "0 < milliseconds (cm_session_ttl (cl_managers cl c))" "0 < milliseconds (cm_route_ttl (cl_managers cl c))"
    using inv by (auto simp: df_inv_def registry_ok_def)
  define r1 where "r1 = (cl_redis cl)\<lparr>sr_locks := (sr_locks (cl_redis cl))(?u \<mapsto> (tok, t0 + 30 * second))\<rparr>"
  define w1 where "w1 = (view c cl)\<lparr>dw_redis := r1\<rparr>"
  have acq: "acquireDistributedUserLock ?u tok [(NoFault, t0, id)] (view c cl) = (Inr (), w1)"
    using assms(5) by (simp add: AcquireUserLock_def redis_call_def w1_def r1_def)
  have "ln_kick (calm_login tok t0 t1 t2) = NoFault" "dw_manager w1 = cl_managers cl c" by (simp_all add: calm_login_def w1_def)
  with kick_result [of "calm_login tok t0 t1 t2" ?u "map_option ParseSessionData (live t1 (sr_sessions r1) ?u)" w1] obtain w2 where
    kick: "kick_previous (calm_login tok t0 t1 t2) ?u (map_option ParseSessionData (live t1 (sr_sessions r1) ?u)) w1 = (Inr (), w2)"
      "dw_manager w2 = cl_managers cl c"
      "\<forall>p. map_option ParseSessionData (live t1 (sr_sessions r1) ?u) = Some p \<longrightarrow> sd_container_id p \<noteq> [] \<longrightarrow> sd_owner_token p \<noteq> [] \<longrightarrow>
        (''user_kick:'' @ sd_container_id p, kick_message ?u (sd_owner_token p)) \<in> set (sr_published (dw_redis w2))"
    by auto
  from session_claim_result [OF ttl assms(6), of ?u ?d "dw_redis w2"] obtain r3 where r3:
    "ClaimSessionAndRoute NoFault t2 ?u ?d (cm_session_ttl (cl_managers cl c)) (cm_route_ttl (cl_managers cl c)) (dw_redis w2) = (Inr (), r3)"
    "sr_published r3 = sr_published (dw_redis w2)"
    "fst (GetContainerByConnection NoFault now ?u (ReleaseUserLock NoFault t2 ?u tok r3)) = Inr c" by auto
  from commit_result [OF assms(4), of ?u tok] obtain old cm' where com: "commitLocalLogin i ?u tok (cl_managers cl c) = (Inr old, cm')"
    "\<exists>o'. GetConnectionByUserID ?u (close_old old cm') = Some (i, o') \<and> cn_authenticated o' \<and> cn_owner_token o' = tok" by blast
  define w where "w = w2\<lparr>dw_redis := ReleaseUserLock NoFault t2 ?u tok r3, dw_manager := close_old old cm'\<rparr>"
  have locked: "login_locked (calm_login tok t0 t1 t2) ?u ?d w1 = (Inr (), w2\<lparr>dw_redis := r3, dw_manager := close_old old cm'\<rparr>)"
    using kick(1,2) r3(1) com(1)
    by (simp add: login_locked_def claim_and_commit_def GetUserSession_def calm_login_def Let_def close_old_def w1_def)
  have run: "Login c (calm_login tok t0 t1 t2) i ?u (view c cl) = (Inr (), w)"
    using ParseInt64_itoa [OF assms(2,3)] assms(2,4) acq locked
    by (simp add: Login_def calm_login_def w_def)
  have kicked: "(''user_kick:'' @ sd_container_id d, kick_message ?u (sd_owner_token d)) \<in> set (sr_published (dw_redis w))"
    if d: "map_of (cl_claims cl) ?u = Some d" "live t1 (sr_sessions (cl_redis cl)) ?u \<noteq> None" "sd_container_id d \<noteq> []" "sd_owner_token d \<noteq> []" for d
  proof -
    from d(2) obtain v e where v: "sr_sessions (cl_redis cl) ?u = Some (v, e)" "live t1 (sr_sessions (cl_redis cl)) ?u = Some v"
      by (auto simp: live_def split: option.splits if_splits)
    with inv d(1) have "v = encodeSession d" unfolding df_inv_def latest_only_def by fastforce
    moreover have "bar_free (sd_owner_token d)" "bar_free (sd_container_id d)"
      using inv map_of_SomeD [OF d(1)] by (auto simp: df_inv_def claims_ok_def)
    ultimately have "map_option ParseSessionData (live t1 (sr_sessions r1) ?u) = Some d"
      using v(2) ParseSessionData_encode by (auto simp: r1_def bar_free_def)
    then show ?thesis using kick(3) d(3,4) by (simp add: w_def release_published r3(2))
  qed
  show ?thesis using run r3(3) com(2) kicked by (auto simp: w_def)
qed

section \<open>A sample cluster\<close>

text \<open>The connection \<^verbatim>\<open>x\<close> of container \<^verbatim>\<open>A\<close> logs in as user 7; then container \<^verbatim>\<open>B\<close> claims the session.\<close>

definition sample_A :: session_data where
  "sample_A = \<lparr>sd_connection_id = ''x'', sd_container_id = ''A'', sd_owner_token = ''a1''\<rparr>"

definition sample_B :: session_data where
  "sample_B = \<lparr>sd_connection_id = ''y'', sd_container_id = ''B'', sd_owner_token = ''b1''\<rparr>"

definition sample_connected :: df_cluster where
  "sample_connected = empty_cluster\<lparr>cl_managers := (\<lambda>_. NewConnectionManager)(''A'' := AddConnection ''x'' NewConnectionManager)\<rparr>"

definition claimed :: "session_data \<Rightarrow> df_cluster \<Rightarrow> df_cluster" where
  "claimed d cl = cl\<lparr>cl_redis := snd (ClaimSessionAndRoute NoFault 0 ''7'' d (cm_session_ttl (cl_managers cl (sd_container_id d)))
     (cm_route_ttl (cl_managers cl (sd_container_id d))) (cl_redis cl)), cl_claims := (''7'', d) # cl_claims cl\<rparr>"

definition sample_bound :: conn_manager where
  "sample_bound = snd (commitLocalLogin ''x'' ''7'' ''a1'' (AddConnection ''x'' NewConnectionManager))"

definition sample_moved :: df_cluster where
  "sample_moved = claimed sample_B ((claimed sample_A sample_connected)\<lparr>cl_managers := (\<lambda>_. NewConnectionManager)(''A'' := sample_bound)\<rparr>)"

lemma sample_connected_reached: "df_steps {} empty_cluster sample_connected"
  using df_step.connect [of "''x''" empty_cluster "''A''" "{}"]
  by (simp add: sample_connected_def empty_cluster_def NewConnectionManager_def r_into_rtranclp)

lemma claimed_step:
  "sd_owner_token d \<notin> (sd_owner_token \<circ> snd) ` set (cl_claims cl) \<Longrightarrow> bar_free (sd_owner_token d) \<Longrightarrow> bar_free (sd_container_id d) \<Longrightarrow>
   df_step {} cl (claimed d cl)"
  unfolding claimed_def by (rule df_step.claim) simp_all

lemma sample_commit:
  "commitLocalLogin ''x'' ''7'' ''a1'' (AddConnection ''x'' NewConnectionManager) = (Inr None, sample_bound)"
  by (simp add: sample_bound_def commitLocalLogin_def may_login_def GetConnectionByID_def AddConnection_def NewConnectionManager_def Let_def)

lemma sample_moved_reached: "df_steps {} empty_cluster sample_moved"
proof -
  define cl1 where "cl1 = claimed sample_A sample_connected"
  define cl2 where "cl2 = cl1\<lparr>cl_managers := (\<lambda>_. NewConnectionManager)(''A'' := sample_bound)\<rparr>"
  have 1: "df_step {} sample_connected cl1"
    unfolding cl1_def by (rule claimed_step) (simp_all add: sample_A_def sample_connected_def empty_cluster_def bar_free_def)
  have m: "cl_managers cl1 ''A'' = AddConnection ''x'' NewConnectionManager" "cl_managers cl1 = (\<lambda>_. NewConnectionManager)(''A'' := AddConnection ''x'' NewConnectionManager)"
    by (simp_all add: cl1_def claimed_def sample_connected_def)
  have 2: "df_step {} cl1 cl2"
    using df_step.commit [of "''7''" sample_A cl1 "''A''" None sample_bound "{}"] sample_commit
    by (simp add: cl2_def m sample_A_def close_old_def) (simp add: cl1_def claimed_def sample_A_def)
  have 3: "df_step {} cl2 sample_moved"
    unfolding sample_moved_def cl1_def [symmetric] cl2_def [symmetric]
    by (rule claimed_step)
      (simp_all add: cl2_def cl1_def claimed_def sample_A_def sample_B_def sample_connected_def empty_cluster_def bar_free_def)
  show ?thesis using sample_connected_reached 1 2 3 by (meson rtranclp.rtrancl_into_rtrancl)
qed

lemma sample_moved_A:
  "cl_managers sample_moved ''A'' = sample_bound" "cl_claims sample_moved = [(''7'', sample_B), (''7'', sample_A)]"
  "GetConnectionByID ''x'' sample_bound = Some \<lparr>cn_user_id = ''7'', cn_owner_token = ''a1'', cn_queue = [], cn_closed = False, cn_authenticated = True\<rparr>"
  by (simp_all add: sample_moved_def claimed_def sample_connected_def empty_cluster_def sample_bound_def commitLocalLogin_def may_login_def
      GetConnectionByID_def AddConnection_def NewConnectionManager_def update_object_def MarkAuthenticated_def Let_def)

theorem connection_registry_exact_witness: "cm_logged_in_count (cl_managers sample_moved ''A'') = int (card (dom (cm_users (cl_managers sample_moved ''A''))))"
  using connection_registry_exact [OF sample_moved_reached, of "''A''"] by blast

theorem session_ownership_witness:
  "RefreshOwnedSessionAndRoute NoFault 1 ''7'' sample_A minute minute (cl_redis sample_moved) = (Inl ErrSessionOwnershipLost, cl_redis sample_moved)"
proof -
  have "GetConnectionByID ''x'' (cl_managers sample_moved ''A'') = Some \<lparr>cn_user_id = ''7'', cn_owner_token = ''a1'', cn_queue = [], cn_closed = False, cn_authenticated = True\<rparr>"
    "map_of (cl_claims sample_moved) ''7'' \<noteq> Some sample_A"
    unfolding sample_moved_A by (simp_all add: sample_A_def sample_B_def)
  with session_ownership [OF sample_moved_reached] show ?thesis unfolding sample_A_def by fastforce
qed

theorem login_takes_over_witness:
  "\<exists>w. Login ''A'' (calm_login ''t'' 0 0 0) ''x'' (itoa 7) (view ''A'' sample_connected) = (Inr (), w) \<and>
     fst (GetContainerByConnection NoFault second (itoa 7) (dw_redis w)) = Inr ''A''"
proof -
  have "may_login ''x'' (cl_managers sample_connected ''A'')" "live 0 (sr_locks (cl_redis sample_connected)) (itoa 7) = None"
    "second < expiry_after 0 (milliseconds (cm_route_ttl (cl_managers sample_connected ''A'')))"
    by (simp_all add: sample_connected_def empty_cluster_def empty_session_redis_def may_login_def GetConnectionByID_def AddConnection_def
        NewConnectionManager_def live_def expiry_after_def milliseconds_def)
  with login_takes_over [OF sample_connected_reached, of 7 "''x''" "''A''" 0 second 0 "''t''" 0] show ?thesis by auto
qed

lemma by_others_id: "by_others c tok id"
  by (auto simp: by_others_def reaches_def)

theorem Login_refines_steps_witness:
  "\<exists>cl'. df_steps {} sample_connected cl' \<and>
     view ''A'' cl' = snd (Login ''A'' (calm_login ''t'' 0 0 0) ''x'' (itoa 7) (view ''A'' sample_connected))"
  by (rule Login_refines_steps [of _ "''t''" "calm_login ''t'' 0 0 0" _ "''x''" "itoa 7" "fst (Login ''A'' (calm_login ''t'' 0 0 0) ''x'' (itoa 7) (view ''A'' sample_connected))"])
    (simp_all add: login_env_ok_def calm_login_def bar_free_def by_others_id tokens_def sample_connected_def empty_cluster_def)

end
