(* ===== verification/DF_Lock.thy ===== *)
theory DF_Lock
  imports DF_Connections
begin

text \<open>
  The lock by key under any interleaving of goroutines: each is outside, registered and waiting, or inside.
\<close>

inductive lock_run :: "keyed_locker \<Rightarrow> (nat \<rightharpoonup> string \<times> bool) \<Rightarrow> bool" where
  start: "lock_run Map.empty Map.empty"
| register: "lock_run l thr \<Longrightarrow> thr g = None \<Longrightarrow> lock_run (lock_register k l) (thr(g \<mapsto> (k, False)))"
| enter: "lock_run l thr \<Longrightarrow> thr g = Some (k, False) \<Longrightarrow> lock_enter k l = Some l' \<Longrightarrow> lock_run l' (thr(g \<mapsto> (k, True)))"
| cancel: "lock_run l thr \<Longrightarrow> thr g = Some (k, False) \<Longrightarrow> lock_run (releaseReference k l) (thr(g := None))"
| leave: "lock_run l thr \<Longrightarrow> thr g = Some (k, True) \<Longrightarrow> lock_run (lock_leave k l) (thr(g := None))"

definition users_of :: "(nat \<rightharpoonup> string \<times> bool) \<Rightarrow> string \<Rightarrow> nat set" where
  "users_of thr k = {g. \<exists>inside. thr g = Some (k, inside)}"

definition inside_of :: "(nat \<rightharpoonup> string \<times> bool) \<Rightarrow> string \<Rightarrow> nat set" where
  "inside_of thr k = {g. thr g = Some (k, True)}"

text \<open>An entry counts its users and is taken exactly when one of them is inside.\<close>

definition entry_ok :: "lock_entry option \<Rightarrow> nat set \<Rightarrow> nat set \<Rightarrow> bool" where
  "entry_ok e users inside \<longleftrightarrow> finite users \<and>
     (case e of
        None \<Rightarrow> users = {} \<and> inside = {}
      | Some entry \<Rightarrow> users \<noteq> {} \<and> le_refs entry = card users \<and>
          (if le_taken entry then \<exists>g. inside = {g} else inside = {}))"

lemma users_upd: "users_of (thr(g \<mapsto> (k, b))) j = (if j = k then insert g (users_of thr k) else users_of thr j - {g})"
  "users_of (thr(g := None)) j = users_of thr j - {g}"
  by (auto simp: users_of_def)

lemma inside_upd: "inside_of (thr(g \<mapsto> (k, b))) j = (if j = k \<and> b then insert g (inside_of thr k) else inside_of thr j - {g})"
  "inside_of (thr(g := None)) j = inside_of thr j - {g}"
  by (auto simp: inside_of_def)

lemma not_user: "thr g = None \<Longrightarrow> g \<notin> users_of thr j" "thr g = None \<Longrightarrow> g \<notin> inside_of thr j"
  "thr g = Some (k, b) \<Longrightarrow> j \<noteq> k \<Longrightarrow> g \<notin> users_of thr j" "thr g = Some (k, b) \<Longrightarrow> j \<noteq> k \<Longrightarrow> g \<notin> inside_of thr j"
  by (auto simp: users_of_def inside_of_def)

lemma card_remove:
  assumes "finite A" "g \<in> A"
  shows "card (A - {g}) = card A - 1" "A - {g} = {} \<longleftrightarrow> card A - 1 = 0"
proof -
  show "card (A - {g}) = card A - 1" using assms(2) by (rule card_Diff_singleton)
  moreover have "A - {g} = {} \<longleftrightarrow> card (A - {g}) = 0" using assms(1) by (simp only: finite_Diff card_0_eq)
  ultimately show "A - {g} = {} \<longleftrightarrow> card A - 1 = 0" by simp
qed

lemma entry_released:
  assumes ok: "entry_ok (Some e) users inside" and g: "g \<in> users" "inside \<subseteq> users"
    and e': "le_refs e' = le_refs e - 1" "le_taken e' = (le_taken e \<and> g \<notin> inside)"
  shows "entry_ok (if le_refs e - 1 = 0 then None else Some e') (users - {g}) (inside - {g})"
proof (cases "users - {g} = {}")
  case True
  moreover have "inside - {g} = {}" using True g(2) by blast
  ultimately show ?thesis using ok g e' card_remove [of users g] by (auto simp: entry_ok_def split: if_splits)
next
  case False
  then have "le_refs e - 1 \<noteq> 0" "finite (users - {g})" "card (users - {g}) = le_refs e - 1"
    using ok g card_remove [of users g] by (auto simp: entry_ok_def)
  moreover have "if le_taken e' then \<exists>h. inside - {g} = {h} else inside - {g} = {}"
  proof (cases "le_taken e")
    case True
    then obtain h where "inside = {h}" using ok by (auto simp: entry_ok_def)
    then show ?thesis using True e'(2) by (cases "g = h") auto
  next
    case False
    then have "inside = {}" using ok by (simp add: entry_ok_def)
    then show ?thesis using False e'(2) by simp
  qed
  ultimately show ?thesis using False e'(1) by (simp only: entry_ok_def if_False option.case simp_thms)
qed

lemma inside_users: "inside_of thr k \<subseteq> users_of thr k"
  by (auto simp: inside_of_def users_of_def)

lemma releaseReference_at: "releaseReference k l k = (case l k of None \<Rightarrow> None | Some e \<Rightarrow> if le_refs e - 1 = 0 then None else Some (e\<lparr>le_refs := le_refs e - 1\<rparr>))"
  "j \<noteq> k \<Longrightarrow> releaseReference k l j = l j"
  by (auto simp: releaseReference_def split: option.splits)

lemma lock_run_entries: "lock_run l thr \<Longrightarrow> entry_ok (l k) (users_of thr k) (inside_of thr k)"
proof (induction arbitrary: k rule: lock_run.induct)
  case start
  then show ?case by (simp add: entry_ok_def users_of_def inside_of_def)
next
  case (register l thr g j)
  show ?case
  proof (cases "k = j")
    case True
    with register.IH [of k] register.hyps show ?thesis
      unfolding users_upd inside_upd by (auto simp: lock_register_def entry_ok_def not_user split: option.splits if_splits)
  next
    case False
    with register.IH [of k] register.hyps show ?thesis
      unfolding users_upd inside_upd by (auto simp: lock_register_def not_user split: option.splits)
  qed
next
  case (enter l thr g j l')
  have g: "g \<in> users_of thr j" "g \<notin> inside_of thr j" using enter.hyps by (auto simp: users_of_def inside_of_def)
  show ?case
  proof (cases "k = j")
    case True
    with enter.IH [of k] enter.hyps g show ?thesis
      unfolding users_upd inside_upd by (auto simp: lock_enter_def entry_ok_def insert_absorb split: option.splits if_splits)
  next
    case False
    with enter.IH [of k] enter.hyps show ?thesis
      unfolding users_upd inside_upd by (auto simp: lock_enter_def not_user split: option.splits if_splits)
  qed
next
  case (cancel l thr g j)
  have g: "g \<in> users_of thr j" "g \<notin> inside_of thr j" using cancel.hyps by (auto simp: users_of_def inside_of_def)
  show ?case
  proof (cases "k = j")
    case True
    from cancel.IH [of j] g obtain e where e: "l j = Some e" by (auto simp: entry_ok_def split: option.splits)
    with cancel.IH [of j] have ok: "entry_ok (Some e) (users_of thr j) (inside_of thr j)" by simp
    from entry_released [OF ok g(1) inside_users, of "e\<lparr>le_refs := le_refs e - 1\<rparr>"] g(2) show ?thesis
      unfolding users_upd inside_upd True releaseReference_at e by simp
  next
    case False
    with cancel.IH [of k] cancel.hyps show ?thesis
      unfolding users_upd inside_upd by (auto simp: releaseReference_def not_user split: option.splits)
  qed
next
  case (leave l thr g j)
  have g: "g \<in> users_of thr j" "g \<in> inside_of thr j" using leave.hyps by (auto simp: users_of_def inside_of_def)
  show ?case
  proof (cases "k = j")
    case True
    from leave.IH [of j] g obtain e where e: "l j = Some e" by (auto simp: entry_ok_def split: option.splits)
    with leave.IH [of j] have ok: "entry_ok (Some e) (users_of thr j) (inside_of thr j)" by simp
    from entry_released [OF ok g(1) inside_users, of "e\<lparr>le_taken := False, le_refs := le_refs e - 1\<rparr>"] g(2) show ?thesis
      unfolding users_upd inside_upd True lock_leave_def releaseReference_at by (auto simp: e split: if_splits)
  next
    case False
    with leave.IH [of k] leave.hyps show ?thesis
      unfolding users_upd inside_upd by (auto simp: lock_leave_def releaseReference_def not_user split: option.splits)
  qed
qed

text \<open>
  At most one goroutine is inside the lock of a key, and the table of locks has an entry for a key exactly as
  long as somebody holds it or waits for it.
\<close>

theorem keyed_lock_exclusive:
  assumes "lock_run l thr"
  shows "(\<forall>g h k. thr g = Some (k, True) \<longrightarrow> thr h = Some (k, True) \<longrightarrow> g = h) \<and>
    dom l = {k. \<exists>g inside. thr g = Some (k, inside)}"
proof (intro conjI allI impI set_eqI)
  fix g h k
  assume "thr g = Some (k, True)" "thr h = Some (k, True)"
  then have "g \<in> inside_of thr k" "h \<in> inside_of thr k" by (auto simp: inside_of_def)
  with lock_run_entries [OF assms, of k] show "g = h" by (auto simp: entry_ok_def split: option.splits if_splits)
next
  fix k
  show "k \<in> dom l \<longleftrightarrow> k \<in> {k. \<exists>g inside. thr g = Some (k, inside)}"
    using lock_run_entries [OF assms, of k] by (auto simp: entry_ok_def users_of_def split: option.splits)
qed

theorem keyed_lock_exclusive_witness:
  "\<exists>l. lock_run l [0 \<mapsto> (''u'', True), 1 \<mapsto> (''u'', False)] \<and> dom l = {''u''}"
proof -
  define l where "l = lock_register ''u'' (lock_register ''u'' Map.empty)"
  have reg: "lock_run l [0 \<mapsto> (''u'', False), 1 \<mapsto> (''u'', False)]"
    unfolding l_def by (rule lock_run.register) (use lock_run.register [OF lock_run.start, where g = 0 and k = "''u''"] in auto)
  have "lock_enter ''u'' l = Some (l(''u'' \<mapsto> \<lparr>le_taken = True, le_refs = 2\<rparr>))"
    by (simp add: l_def lock_register_def lock_enter_def numeral_2_eq_2)
  with lock_run.enter [OF reg, where g = 0 and k = "''u''"] have run: "lock_run (l(''u'' \<mapsto> \<lparr>le_taken = True, le_refs = 2\<rparr>)) [0 \<mapsto> (''u'', True), 1 \<mapsto> (''u'', False)]"
    by (simp add: fun_upd_twist)
  have "{k. \<exists>g inside. [0 \<mapsto> (''u'', True), 1 \<mapsto> (''u'', False)] (g :: nat) = Some (k, inside)} = {''u''}"
    by (auto split: if_splits)
  with keyed_lock_exclusive [OF run] have "dom (l(''u'' \<mapsto> \<lparr>le_taken = True, le_refs = 2\<rparr>)) = {''u''}" by (elim conjE) (rule trans)
  with run show ?thesis by blast
qed

end
