(* ===== verification/DF_Texts.thy ===== *)
theory DF_Texts
  imports Go_Strings
begin

text \<open>
  The texts that the data forwarding service shows to its users: Chinese literals of the source, each as the
  list of its UTF-8 bytes. Texts that the source formats from several parts are concatenations of the
  literal parts.
\<close>

definition utf8 :: "nat list \<Rightarrow> string" where
  "utf8 codes = map char_of codes"

definition NTargetUserMissing :: string where
  "NTargetUserMissing = utf8
     [231, 155, 174, 230, 160, 135, 231, 148, 168, 230, 136, 183, 228, 184, 141, 229, 173, 152, 229, 156, 168]"

definition NMonitorUnavailable :: string where
  "NMonitorUnavailable = utf8
     [77, 111, 110, 105, 116, 111, 114, 32, 232, 129, 148, 231, 179, 187, 228, 186, 186, 230, 154, 130, 230, 151, 182,
      228, 184, 141, 229, 143, 175, 231, 148, 168]"

definition NContactDeleted :: string where
  "NContactDeleted = utf8
     [229, 136, 160, 233, 153, 164, 229, 165, 189, 229, 143, 139, 230, 136, 144, 229, 138, 159]"

definition NMonitorTextOnly :: string where
  "NMonitorTextOnly = utf8
     [77, 111, 110, 105, 116, 111, 114, 32, 228, 187, 133, 230, 142, 165, 229, 143, 151, 32, 116, 101, 120, 116, 32,
      231, 177, 187, 229, 158, 139, 230, 140, 135, 228, 187, 164]"

definition NMonitorNoAlias :: string where
  "NMonitorNoAlias = utf8
     [77, 111, 110, 105, 116, 111, 114, 32, 232, 153, 154, 230, 139, 159, 232, 129, 148, 231, 179, 187, 228, 186, 186,
      228, 184, 141, 230, 148, 175, 230, 140, 129, 228, 191, 174, 230, 148, 185, 229, 164, 135, 230, 179, 168]"

definition NMonitorNoNotify :: string where
  "NMonitorNoNotify = utf8
     [77, 111, 110, 105, 116, 111, 114, 32, 232, 153, 154, 230, 139, 159, 232, 129, 148, 231, 179, 187, 228, 186, 186,
      228, 184, 141, 229, 143, 145, 233, 128, 129, 230, 153, 174, 233, 128, 154, 230, 182, 136, 230, 129, 175, 233, 128,
      154, 231, 159, 165]"

definition NCommandFailed :: string where
  "NCommandFailed = utf8
     [230, 140, 135, 228, 187, 164, 230, 137, 167, 232, 161, 140, 229, 164, 177, 232, 180, 165, 239, 188, 154]"

definition NLogoutScopeUnsupported :: string where
  "NLogoutScopeUnsupported = utf8
     [228, 184, 141, 230, 148, 175, 230, 140, 129, 231, 154, 132, 231, 153, 187, 229, 135, 186, 232, 140, 131, 229, 155,
      180]"

definition NLogoutJwtFailed :: string where
  "NLogoutJwtFailed = utf8
     [74, 87, 84, 233, 170, 140, 232, 175, 129, 229, 164, 177, 232, 180, 165, 239, 188, 140, 230, 156, 170, 230, 146,
      164, 233, 148, 128, 228, 188, 154, 232, 175, 157]"

definition NLogoutAuthUnavailable :: string where
  "NLogoutAuthUnavailable = utf8
     [232, 174, 164, 232, 175, 129, 230, 156, 141, 229, 138, 161, 230, 154, 130, 230, 151, 182, 228, 184, 141, 229, 143,
      175, 231, 148, 168, 239, 188, 140, 230, 156, 170, 230, 146, 164, 233, 148, 128, 228, 188, 154, 232, 175, 157]"

definition NRevokeFailed :: string where
  "NRevokeFailed = utf8
     [230, 146, 164, 233, 148, 128, 229, 133, 168, 233, 131, 168, 228, 188, 154, 232, 175, 157, 229, 164, 177, 232, 180,
      165]"

definition NUnknownCommand :: string where
  "NUnknownCommand = utf8
     [230, 156, 170, 231, 159, 165, 230, 140, 135, 228, 187, 164, 227, 128, 130, 229, 143, 145, 233, 128, 129, 32, 47,
      104, 101, 108, 112, 32, 230, 159, 165, 231, 156, 139, 229, 133, 129, 232, 174, 184, 231, 154, 132, 230, 140, 135,
      228, 187, 164, 227, 128, 130]"

definition NUsage :: string where
  "NUsage = utf8
     [231, 148, 168, 230, 179, 149, 239, 188, 154, 47]"

definition NUsageId :: string where
  "NUsageId = utf8
     [32, 60, 105, 100, 62]"

definition NActionUnavailable :: string where
  "NActionUnavailable = utf8
     [232, 175, 165, 232, 131, 189, 229, 138, 155, 229, 189, 147, 229, 137, 141, 228, 184, 141, 229, 143, 175, 231, 148,
      168, 227, 128, 130]"

definition NIdNotPositive :: string where
  "NIdNotPositive = utf8
     [105, 100, 32, 229, 191, 133, 233, 161, 187, 230, 152, 175, 230, 173, 163, 230, 149, 180, 230, 149, 176, 227, 128,
      130]"

definition NKickRefused :: string where
  "NKickRefused = utf8
     [230, 139, 146, 231, 187, 157, 230, 147, 141, 228, 189, 156, 239, 188, 154, 228, 184, 141, 232, 131, 189, 232, 184,
      162, 229, 135, 186, 232, 182, 133, 231, 186, 167, 231, 174, 161, 231, 144, 134, 229, 145, 152, 230, 136, 150, 32,
      77, 111, 110, 105, 116, 111, 114, 227, 128, 130]"

definition NHelpText :: string where
  "NHelpText = utf8
     [66, 101, 116, 116, 101, 114, 102, 108, 121, 32, 77, 111, 110, 105, 116, 111, 114, 32, 230, 140, 135, 228, 187,
      164, 239, 188, 154, 10, 47, 115, 116, 97, 116, 117, 115, 32, 45, 32, 230, 159, 165, 231, 156, 139, 229, 144, 132,
      230, 156, 141, 229, 138, 161, 228, 184, 142, 229, 159, 186, 231, 161, 128, 232, 174, 190, 230, 150, 189, 231, 138,
      182, 230, 128, 129, 10, 47, 99, 111, 110, 110, 101, 99, 116, 105, 111, 110, 115, 32, 45, 32, 230, 159, 165, 231,
      156, 139, 230, 156, 172, 32, 80, 111, 100, 32, 228, 184, 142, 229, 133, 168, 229, 177, 128, 229, 156, 168, 231,
      186, 191, 232, 191, 158, 230, 142, 165, 230, 149, 176, 10, 47, 114, 111, 117, 116, 101, 32, 60, 117, 115, 101,
      114, 95, 105, 100, 62, 32, 45, 32, 230, 159, 165, 232, 175, 162, 231, 148, 168, 230, 136, 183, 229, 189, 147, 229,
      137, 141, 230, 137, 128, 229, 156, 168, 32, 68, 70, 32, 80, 111, 100, 10, 47, 107, 105, 99, 107, 32, 60, 117, 115,
      101, 114, 95, 105, 100, 62, 32, 45, 32, 229, 188, 186, 229, 136, 182, 230, 150, 173, 229, 188, 128, 231, 148, 168,
      230, 136, 183, 229, 189, 147, 229, 137, 141, 32, 87, 101, 98, 83, 111, 99, 107, 101, 116, 32, 228, 188, 154, 232,
      175, 157, 10, 47, 117, 115, 101, 114, 32, 60, 117, 115, 101, 114, 95, 105, 100, 62, 32, 45, 32, 230, 159, 165,
      231, 156, 139, 231, 148, 168, 230, 136, 183, 232, 181, 132, 230, 150, 153, 227, 128, 129, 229, 165, 189, 229, 143,
      139, 230, 149, 176, 229, 143, 138, 229, 183, 178, 229, 138, 160, 229, 133, 165, 231, 190, 164, 232, 167, 146, 232,
      137, 178, 10, 47, 103, 114, 111, 117, 112, 32, 60, 103, 114, 111, 117, 112, 95, 105, 100, 62, 32, 45, 32, 230,
      159, 165, 231, 156, 139, 231, 190, 164, 232, 181, 132, 230, 150, 153, 227, 128, 129, 230, 136, 144, 229, 145, 152,
      228, 184, 142, 232, 167, 146, 232, 137, 178, 229, 136, 134, 229, 184, 131, 10, 47, 114, 101, 113, 117, 101, 115,
      116, 115, 32, 60, 117, 115, 101, 114, 95, 105, 100, 62, 32, 45, 32, 230, 159, 165, 231, 156, 139, 231, 148, 168,
      230, 136, 183, 229, 189, 147, 229, 137, 141, 229, 190, 133, 229, 164, 132, 231, 144, 134, 229, 133, 179, 231, 179,
      187, 231, 148, 179, 232, 175, 183, 10, 47, 104, 101, 108, 112, 32, 45, 32, 230, 152, 190, 231, 164, 186, 230, 156,
      172, 229, 184, 174, 229, 138, 169, 10, 10, 77, 111, 110, 105, 116, 111, 114, 32, 228, 184, 141, 230, 137, 167,
      232, 161, 140, 32, 115, 104, 101, 108, 108, 227, 128, 129, 83, 81, 76, 32, 230, 136, 150, 228, 187, 187, 230, 132,
      143, 231, 189, 145, 231, 187, 156, 232, 175, 183, 230, 177, 130, 227, 128, 130]"

definition NConnectionStats :: string where
  "NConnectionStats = utf8
     [232, 191, 158, 230, 142, 165, 231, 187, 159, 232, 174, 161, 10, 229, 189, 147, 229, 137, 141, 32, 80, 111, 100,
      58, 32, 99, 111, 110, 110, 101, 99, 116, 105, 111, 110, 115, 61]"

definition NStatsLoggedIn :: string where
  "NStatsLoggedIn = utf8
     [32, 108, 111, 103, 103, 101, 100, 95, 105, 110, 61]"

definition NStatsRoutes :: string where
  "NStatsRoutes = utf8
     [10, 229, 133, 168, 229, 177, 128, 232, 183, 175, 231, 148, 177, 232, 174, 176, 229, 189, 149, 58, 32]"

definition NUserWord :: string where
  "NUserWord = utf8
     [231, 148, 168, 230, 136, 183, 32]"

definition NIsOffline :: string where
  "NIsOffline = utf8
     [32, 229, 189, 147, 229, 137, 141, 231, 166, 187, 231, 186, 191, 227, 128, 130]"

definition NHasStaleRoute :: string where
  "NHasStaleRoute = utf8
     [32, 229, 173, 152, 229, 156, 168, 232, 191, 135, 230, 156, 159, 232, 183, 175, 231, 148, 177, 232, 174, 176, 229,
      189, 149, 239, 188, 154]"

definition NLeaseExpired :: string where
  "NLeaseExpired = utf8
     [239, 188, 136, 231, 167, 159, 231, 186, 166, 229, 183, 178, 229, 164, 177, 230, 149, 136, 239, 188, 137]"

definition NRoutedTo :: string where
  "NRoutedTo = utf8
     [32, 229, 189, 147, 229, 137, 141, 232, 183, 175, 231, 148, 177, 229, 136, 176, 32, 68, 70, 32, 80, 111, 100, 239,
      188, 154]"

definition NOfflineNoKick :: string where
  "NOfflineNoKick = utf8
     [32, 229, 189, 147, 229, 137, 141, 231, 166, 187, 231, 186, 191, 239, 188, 140, 230, 151, 160, 233, 156, 128, 232,
      184, 162, 229, 135, 186, 227, 128, 130]"

definition NStaleNoKick :: string where
  "NStaleNoKick = utf8
     [32, 231, 154, 132, 232, 183, 175, 231, 148, 177, 231, 167, 159, 231, 186, 166, 229, 183, 178, 229, 164, 177, 230,
      149, 136, 239, 188, 140, 230, 156, 170, 230, 137, 167, 232, 161, 140, 232, 184, 162, 229, 135, 186, 227, 128, 130]"

definition NKickSent :: string where
  "NKickSent = utf8
     [229, 183, 178, 229, 144, 145, 32, 68, 70, 32, 80, 111, 100, 32]"

definition NKickSentUser :: string where
  "NKickSentUser = utf8
     [32, 229, 143, 145, 233, 128, 129, 231, 148, 168, 230, 136, 183, 32]"

definition NKickSentEnd :: string where
  "NKickSentEnd = utf8
     [32, 231, 154, 132, 229, 188, 186, 229, 136, 182, 230, 150, 173, 231, 186, 191, 230, 140, 135, 228, 187, 164, 227,
      128, 130]"

definition NDoesNotExist :: string where
  "NDoesNotExist = utf8
     [32, 228, 184, 141, 229, 173, 152, 229, 156, 168, 227, 128, 130]"

definition NAccountLine :: string where
  "NAccountLine = utf8
     [232, 180, 166, 229, 143, 183, 58, 32]"

definition NNicknameLine :: string where
  "NNicknameLine = utf8
     [230, 152, 181, 231, 167, 176, 58, 32]"

definition NFriendsLine :: string where
  "NFriendsLine = utf8
     [229, 165, 189, 229, 143, 139, 58, 32]"

definition NGroupsLine :: string where
  "NGroupsLine = utf8
     [231, 190, 164, 232, 129, 138, 58, 32]"

definition NGroupWord :: string where
  "NGroupWord = utf8
     [231, 190, 164, 231, 187, 132, 32]"

definition NNameLine :: string where
  "NNameLine = utf8
     [10, 229, 144, 141, 231, 167, 176, 58, 32]"

definition NOwnerLine :: string where
  "NOwnerLine = utf8
     [10, 231, 190, 164, 228, 184, 187, 58, 32]"

definition NMembersLine :: string where
  "NMembersLine = utf8
     [10, 230, 136, 144, 229, 145, 152, 58, 32]"

definition NPendingRequests :: string where
  "NPendingRequests = utf8
     [32, 229, 190, 133, 229, 164, 132, 231, 144, 134, 231, 148, 179, 232, 175, 183, 10, 229, 165, 189, 229, 143, 139,
      231, 148, 179, 232, 175, 183, 58, 32]"

definition NPendingGroups :: string where
  "NPendingGroups = utf8
     [10, 231, 190, 164, 233, 130, 128, 232, 175, 183, 47, 229, 133, 165, 231, 190, 164, 231, 148, 179, 232, 175, 183,
      58, 32]"

definition NPreviewDefault :: string where
  "NPreviewDefault = utf8
     [229, 143, 145, 230, 157, 165, 228, 184, 128, 230, 157, 161, 230, 182, 136, 230, 129, 175]"

definition NPreviewImage :: string where
  "NPreviewImage = utf8
     [229, 143, 145, 233, 128, 129, 228, 186, 134, 228, 184, 128, 229, 188, 160, 229, 155, 190, 231, 137, 135]"

definition NPreviewGif :: string where
  "NPreviewGif = utf8
     [229, 143, 145, 233, 128, 129, 228, 186, 134, 228, 184, 128, 228, 184, 170, 32, 71, 73, 70]"

definition NPreviewFileNamed :: string where
  "NPreviewFileNamed = utf8
     [229, 143, 145, 233, 128, 129, 228, 186, 134, 230, 150, 135, 228, 187, 182, 239, 188, 154]"

definition NPreviewFile :: string where
  "NPreviewFile = utf8
     [229, 143, 145, 233, 128, 129, 228, 186, 134, 228, 184, 128, 228, 184, 170, 230, 150, 135, 228, 187, 182]"

definition NPreviewAudio :: string where
  "NPreviewAudio = utf8
     [229, 143, 145, 233, 128, 129, 228, 186, 134, 228, 184, 128, 230, 157, 161, 232, 175, 173, 233, 159, 179]"

definition NPreviewVideo :: string where
  "NPreviewVideo = utf8
     [229, 143, 145, 233, 128, 129, 228, 186, 134, 228, 184, 128, 230, 174, 181, 232, 167, 134, 233, 162, 145]"

definition NEllipsis :: string where
  "NEllipsis = utf8
     [226, 128, 166]"

definition NFriendAdded :: string where
  "NFriendAdded = utf8
     [230, 183, 187, 229, 138, 160, 229, 165, 189, 229, 143, 139, 230, 136, 144, 229, 138, 159]"

definition NAlreadyFriends :: string where
  "NAlreadyFriends = utf8
     [228, 189, 160, 228, 187, 172, 229, 183, 178, 231, 187, 143, 230, 152, 175, 229, 165, 189, 229, 143, 139, 228, 186,
      134]"

definition NOperationOk :: string where
  "NOperationOk = utf8
     [230, 147, 141, 228, 189, 156, 230, 136, 144, 229, 138, 159]"

definition NRecordMissing :: string where
  "NRecordMissing = utf8
     [232, 174, 176, 229, 189, 149, 228, 184, 141, 229, 173, 152, 229, 156, 168]"

definition NFriendRequestInvalid :: string where
  "NFriendRequestInvalid = utf8
     [229, 165, 189, 229, 143, 139, 232, 175, 183, 230, 177, 130, 228, 184, 141, 229, 144, 136, 230, 179, 149]"

definition NGroupRequestInvalid :: string where
  "NGroupRequestInvalid = utf8
     [231, 190, 164, 231, 187, 132, 232, 175, 183, 230, 177, 130, 228, 184, 141, 229, 144, 136, 230, 179, 149]"

definition NAlreadyExists :: string where
  "NAlreadyExists = utf8
     [229, 183, 178, 229, 173, 152, 229, 156, 168]"

definition NTargetExists :: string where
  "NTargetExists = utf8
     [231, 155, 174, 230, 160, 135, 229, 183, 178, 229, 173, 152, 229, 156, 168]"

definition NFriendServiceFailed :: string where
  "NFriendServiceFailed = utf8
     [229, 165, 189, 229, 143, 139, 230, 156, 141, 229, 138, 161, 229, 164, 132, 231, 144, 134, 229, 164, 177, 232, 180,
      165]"

definition NGroupServiceFailed :: string where
  "NGroupServiceFailed = utf8
     [231, 190, 164, 231, 187, 132, 230, 156, 141, 229, 138, 161, 229, 164, 132, 231, 144, 134, 229, 164, 177, 232, 180,
      165]"

definition NGroupMissingOrNotMember :: string where
  "NGroupMissingOrNotMember = utf8
     [231, 190, 164, 231, 187, 132, 228, 184, 141, 229, 173, 152, 229, 156, 168, 230, 136, 150, 228, 189, 160, 228, 184,
      141, 229, 156, 168, 232, 175, 165, 231, 190, 164, 228, 184, 173]"

definition NAddFriendInvalid :: string where
  "NAddFriendInvalid = utf8
     [230, 183, 187, 229, 138, 160, 229, 165, 189, 229, 143, 139, 232, 175, 183, 230, 177, 130, 228, 184, 141, 229, 144,
      136, 230, 179, 149]"

definition NFriendshipMissing :: string where
  "NFriendshipMissing = utf8
     [229, 165, 189, 229, 143, 139, 229, 133, 179, 231, 179, 187, 228, 184, 141, 229, 173, 152, 229, 156, 168]"

definition NDeleteFriendInvalid :: string where
  "NDeleteFriendInvalid = utf8
     [229, 136, 160, 233, 153, 164, 229, 165, 189, 229, 143, 139, 232, 175, 183, 230, 177, 130, 228, 184, 141, 229, 144,
      136, 230, 179, 149]"

definition NAliasUpdated :: string where
  "NAliasUpdated = utf8
     [229, 165, 189, 229, 143, 139, 229, 164, 135, 230, 179, 168, 230, 155, 180, 230, 150, 176, 230, 136, 144, 229, 138,
      159]"

definition NAliasMissing :: string where
  "NAliasMissing = utf8
     [229, 165, 189, 229, 143, 139, 229, 133, 179, 231, 179, 187, 228, 184, 141, 229, 173, 152, 229, 156, 168, 239, 188,
      140, 230, 151, 160, 230, 179, 149, 230, 155, 180, 230, 150, 176, 229, 164, 135, 230, 179, 168]"

definition NAliasInvalid :: string where
  "NAliasInvalid = utf8
     [229, 165, 189, 229, 143, 139, 229, 164, 135, 230, 179, 168, 230, 155, 180, 230, 150, 176, 232, 175, 183, 230, 177,
      130, 228, 184, 141, 229, 144, 136, 230, 179, 149]"

definition NNotifyUpdated :: string where
  "NNotifyUpdated = utf8
     [229, 165, 189, 229, 143, 139, 233, 128, 154, 231, 159, 165, 232, 174, 190, 231, 189, 174, 230, 155, 180, 230, 150,
      176, 230, 136, 144, 229, 138, 159]"

definition NNotifyMissing :: string where
  "NNotifyMissing = utf8
     [229, 165, 189, 229, 143, 139, 229, 133, 179, 231, 179, 187, 228, 184, 141, 229, 173, 152, 229, 156, 168, 239, 188,
      140, 230, 151, 160, 230, 179, 149, 230, 155, 180, 230, 150, 176, 233, 128, 154, 231, 159, 165, 232, 174, 190, 231,
      189, 174]"

definition NNotifyInvalid :: string where
  "NNotifyInvalid = utf8
     [229, 165, 189, 229, 143, 139, 233, 128, 154, 231, 159, 165, 232, 174, 190, 231, 189, 174, 232, 175, 183, 230, 177,
      130, 228, 184, 141, 229, 144, 136, 230, 179, 149]"

definition NGroupCreated :: string where
  "NGroupCreated = utf8
     [229, 136, 155, 229, 187, 186, 231, 190, 164, 231, 187, 132, 230, 136, 144, 229, 138, 159]"

definition NGroupCreateUserMissing :: string where
  "NGroupCreateUserMissing = utf8
     [229, 136, 155, 229, 187, 186, 231, 190, 164, 231, 187, 132, 229, 164, 177, 232, 180, 165, 239, 188, 140, 231, 148,
      168, 230, 136, 183, 228, 184, 141, 229, 173, 152, 229, 156, 168]"

definition NGroupCreateInvalid :: string where
  "NGroupCreateInvalid = utf8
     [229, 136, 155, 229, 187, 186, 231, 190, 164, 231, 187, 132, 232, 175, 183, 230, 177, 130, 228, 184, 141, 229, 144,
      136, 230, 179, 149]"

definition NGroupExists :: string where
  "NGroupExists = utf8
     [231, 190, 164, 231, 187, 132, 229, 183, 178, 229, 173, 152, 229, 156, 168]"

definition NGroupJoined :: string where
  "NGroupJoined = utf8
     [229, 138, 160, 229, 133, 165, 231, 190, 164, 231, 187, 132, 230, 136, 144, 229, 138, 159]"

definition NGroupOrUserMissing :: string where
  "NGroupOrUserMissing = utf8
     [231, 190, 164, 231, 187, 132, 228, 184, 141, 229, 173, 152, 229, 156, 168, 230, 136, 150, 231, 148, 168, 230, 136,
      183, 228, 184, 141, 229, 173, 152, 229, 156, 168]"

definition NGroupJoinInvalid :: string where
  "NGroupJoinInvalid = utf8
     [229, 138, 160, 229, 133, 165, 231, 190, 164, 231, 187, 132, 232, 175, 183, 230, 177, 130, 228, 184, 141, 229, 144,
      136, 230, 179, 149]"

definition NAlreadyInGroup :: string where
  "NAlreadyInGroup = utf8
     [228, 189, 160, 229, 183, 178, 231, 187, 143, 229, 156, 168, 232, 175, 165, 231, 190, 164, 228, 184, 173, 228, 186,
      134]"

definition NGroupAvatarUpdated :: string where
  "NGroupAvatarUpdated = utf8
     [231, 190, 164, 229, 164, 180, 229, 131, 143, 230, 155, 180, 230, 150, 176, 230, 136, 144, 229, 138, 159]"

definition NGroupAvatarInvalid :: string where
  "NGroupAvatarInvalid = utf8
     [231, 190, 164, 229, 164, 180, 229, 131, 143, 230, 155, 180, 230, 150, 176, 232, 175, 183, 230, 177, 130, 228, 184,
      141, 229, 144, 136, 230, 179, 149]"

definition NGroupLeft :: string where
  "NGroupLeft = utf8
     [233, 128, 128, 229, 135, 186, 231, 190, 164, 231, 187, 132, 230, 136, 144, 229, 138, 159]"

definition NGroupLeaveInvalid :: string where
  "NGroupLeaveInvalid = utf8
     [233, 128, 128, 229, 135, 186, 231, 190, 164, 231, 187, 132, 232, 175, 183, 230, 177, 130, 228, 184, 141, 229, 144,
      136, 230, 179, 149]"

definition NNoAccess :: string where
  "NNoAccess = utf8
     [230, 151, 160, 230, 157, 131, 232, 174, 191, 233, 151, 174, 232, 175, 165, 232, 181, 132, 230, 186, 144]"

definition NOperationFailed :: string where
  "NOperationFailed = utf8
     [230, 147, 141, 228, 189, 156, 229, 164, 177, 232, 180, 165, 58, 32]"

section \<open>String functions\<close>

text \<open>
  \<^verbatim>\<open>strings.ToLower\<close> for comparisons with ASCII keywords: besides the ASCII capitals, U+212A (bytes E2 84 AA) becomes
  \<^verbatim>\<open>k\<close> and U+0130 (bytes C4 B0) becomes \<^verbatim>\<open>i\<close>; the lower case of every other rune is not ASCII and is left as it is.
\<close>

fun lower_key :: "string \<Rightarrow> string" where
  "lower_key [] = []"
| "lower_key [a] = ToLower [a]"
| "lower_key [a, b] = (if [a, b] = [CHR 0xC4, CHR 0xB0] then ''i'' else ToLower [a] @ ToLower [b])"
| "lower_key (a # b # c # s) =
     (if [a, b, c] = [CHR 0xE2, CHR 0x84, CHR 0xAA] then CHR ''k'' # lower_key s
      else if [a, b] = [CHR 0xC4, CHR 0xB0] then CHR ''i'' # lower_key (c # s)
      else ToLower [a] @ lower_key (b # c # s))"

text \<open>\<^verbatim>\<open>strings.Fields\<close>: \<open>word\<close> is the field read so far.\<close>

definition leading_space :: "string \<Rightarrow> string option" where
  "leading_space s = List.find (\<lambda>e. e \<noteq> [] \<and> starts_with s e) space_encodings"

function split_fields :: "string \<Rightarrow> string \<Rightarrow> string list" where
  "split_fields word s =
     (case leading_space s of
        Some e \<Rightarrow> (if word = [] then [] else [word]) @ split_fields [] (drop (length e) s)
      | None \<Rightarrow> (case s of [] \<Rightarrow> if word = [] then [] else [word] | c # r \<Rightarrow> split_fields (word @ [c]) r))"
  by pat_completeness auto
termination
proof (relation "measure (\<lambda>(_, s). length s)")
  fix word s e
  assume "leading_space s = Some e"
  then have "e \<noteq> []" "take (length e) s = e" by (auto simp: leading_space_def find_Some_iff starts_with_def)
  then show "(([], drop (length e) s), word, s) \<in> measure (\<lambda>(_, s). length s)" by (cases s) auto
qed auto

declare split_fields.simps [simp del]

definition Fields :: "string \<Rightarrow> string list" where
  "Fields s = split_fields [] s"

text \<open>\<^verbatim>\<open>string([]rune(s)[:n])\<close>; an invalid byte is a replacement character.\<close>

fun take_runes :: "nat \<Rightarrow> string \<Rightarrow> string" where
  "take_runes 0 s = []"
| "take_runes (Suc n) [] = []"
| "take_runes (Suc n) (a # s) =
     (if rune_size (a # s) = 0 then [CHR 0xEF, CHR 0xBF, CHR 0xBD] @ take_runes n s
      else take (rune_size (a # s)) (a # s) @ take_runes n (drop (rune_size (a # s) - 1) s))"

end
