(* ===== verification/DF_Router.thy ===== *)
theory DF_Router
  imports DF_Connections DF_Texts Friend_Handler Storage_Handler Call_Service Auth_Service
begin

text \<open>
  The messages of the data forwarding service, what its handlers act on and meet, and \<^verbatim>\<open>internal/router\<close>: the
  delivery of a message to a user, on this container or through the Kafka topic of another one. A protobuf
  message is a record, a oneof a datatype, an open enumeration its number; the encodings are parameters.
\<close>

section \<open>Messages\<close>

record post =
  po_from_id :: int
  po_is_group :: bool
  po_to_id :: int
  po_msg :: string
  po_msg_type :: string
  po_timestamp :: string
  po_real_file_name :: string
  po_client_message_id :: string

text \<open>A client's request to the push service: the operation, the device, the token and the environment's number.\<close>

datatype push_client_payload =
    RegisterVoIPToken string string int
  | UnregisterVoIPToken string int
  | RegisterAPNsToken string string int
  | UnregisterAPNsToken string int

text \<open>The payloads of \<^verbatim>\<open>RequestMessage\<close>, without the sender fields that no handler reads.\<close>

datatype df_payload =
    ReqLogin string string
  | ReqSignup string string string
  | ReqLogout int
  | ReqPost post
  | ReqQueryUser int
  | ReqInsertContact int string
  | ReqQueryGroup int bool
  | ReqInsertGroup int string
  | ReqInsertGroupUser int string
  | ReqUpdateAvatar int string bool
  | ReqQueryMessage int
  | ReqQuerySyncMessages query_sync_messages
  | ReqUpdateUserName int string
  | ReqUpdateUserAvatar int string
  | ReqQueryContacts
  | ReqDeleteContact int
  | ReqUpdateContactAlias int string
  | ReqUpdateContactNotify int bool
  | ReqQueryGroupMembers int
  | ReqDeleteGroupUser int
  | ReqQueryJoinedGroups
  | ReqCall "call_request_payload option"
  | ReqPush "push_client_payload option"
  | ReqQueryFriendRequests bool
  | ReqResolveFriendRequest int int
  | ReqQueryGroupJoinRequests int
  | ReqResolveGroupJoinRequest int int
  | ReqInviteGroupMember int int string
  | ReqQueryGroupInvitations bool
  | ReqResolveGroupInvitation int int
  | ReqKickGroupMember int int
  | ReqUpdateGroupMemberRole int int string
  | ReqUpdateGroupName int string
  | ReqTransferGroupOwner int int
  | ReqChangePassword string string
  | ReqRecallMessage int

record df_request =
  dq_jwt :: string
  dq_payload :: "df_payload option"

datatype login_result = LOGIN_OK | LOGIN_ACCOUNT_NOT_EXIST | LOGIN_PASSWORD_ERROR | LOGIN_JWT_ERROR | LOGIN_SVR_ERROR
datatype signup_result = SIGNUP_OK | SIGNUP_ACCOUNT_EXIST | SIGNUP_ACCOUNT_EMPTY | SIGNUP_PASSWORD_EMPTY
  | SIGNUP_ACCOUNT_TOO_LONG | SIGNUP_SVR_ERROR
datatype account_security_result = SECURITY_OK | SECURITY_OLD_PASSWORD_ERROR | SECURITY_JWT_ERROR
  | SECURITY_PASSWORD_TOO_SHORT | SECURITY_PASSWORD_TOO_LONG | SECURITY_SERVICE_ERROR
datatype recall_result = MESSAGE_RECALL_OK | MESSAGE_RECALL_NOT_FOUND | MESSAGE_RECALL_FORBIDDEN
  | MESSAGE_RECALL_ALREADY_RECALLED | MESSAGE_RECALL_EXPIRED | MESSAGE_RECALL_SERVICE_ERROR

record recall_event =
  rv_result :: recall_result
  rv_message_id :: int
  rv_from_user_id :: int
  rv_to_user_id :: int
  rv_is_group :: bool
  rv_operator_user_id :: int
  rv_recalled_at :: string

record user_info =
  uf_send_to_user_id :: int
  uf_query_user_name :: string
  uf_user :: user_info_rsp

record group_member_operation =
  gp_operation :: string
  gp_result :: string
  gp_group_id :: int
  gp_user_id :: int
  gp_role :: string
  gp_update_time :: string
  gp_group_name :: string
  gp_previous_owner_user_id :: int

record push_event =
  pv_operation :: string
  pv_result :: int
  pv_device_id :: string
  pv_environment :: int
  pv_message :: string
  pv_timestamp :: string

datatype df_response =
    RspLogin login_result int string
  | RspSignup signup_result
  | RspRefused
  | RspServer string
  | RspPost post
  | RspWarn string
  | RspUserInfo user_info
  | RspGroupInfo bool int string string
  | RspMessage message_rsp
  | RspSyncMessages sync_messages_rsp
  | RspContactList "friend_contact list"
  | RspGroupMembers int "group_member_contact list"
  | RspJoinedGroups "joined_group_contact list"
  | RspPostAck int string
  | RspCallEvent call_event
  | RspPushEvent push_event
  | RspRelationshipList "relationship_info list"
  | RspRelationshipOperation string string "relationship_info option"
  | RspGroupMemberOperation group_member_operation
  | RspAccountSecurity string account_security_result string
  | RspMessageRecall recall_event

record message_push =
  mp_target_user_ids :: "int list"
  mp_sender_user_id :: int
  mp_conversation_id :: int
  mp_is_group :: bool
  mp_message_type :: string
  mp_sent_at :: string
  mp_preview :: string
  mp_message_id :: int

record recall_push =
  rp_target_user_ids :: "int list"
  rp_message_id :: int
  rp_conversation_id :: int
  rp_is_group :: bool
  rp_operator_user_id :: int
  rp_recalled_at :: string

datatype push_request =
    PushClientCommand string int "push_client_payload option"
  | PushVoIPCall voip_call_request
  | PushMessage message_push
  | PushRecall recall_push

text \<open>\<^verbatim>\<open>DFInternalDelivery\<close>: deliveries between containers.\<close>

datatype df_delivery =
    GroupPostDelivery int "post option"
  | GroupPostBatchDelivery "int list" "post option"
  | MessageRecallDelivery int "recall_event option"
  | MessageRecallBatchDelivery "int list" "recall_event option"

section \<open>What a handler meets\<close>

datatype envelope_type = ENV_UNKNOWN | ENV_STORAGE_REQUEST | ENV_STORAGE_RESPONSE | ENV_DF_REQUEST | ENV_DF_RESPONSE
  | ENV_FRIEND_REQUEST | ENV_FRIEND_RESPONSE | ENV_CALL_REQUEST | ENV_CALL_RESPONSE | ENV_PUSH_REQUEST
  | ENV_PUSH_RESPONSE | ENV_OTHER string

text \<open>The encodings; \<open>None\<close> is an error of \<^verbatim>\<open>proto.Marshal\<close>.\<close>

record df_codec =
  dc_response :: "df_response \<Rightarrow> bytes option"
  dc_request :: "df_request \<Rightarrow> bytes option"
  dc_friend :: "friend_request \<Rightarrow> bytes option"
  dc_storage :: "storage_request \<Rightarrow> bytes option"
  dc_call :: "internal_request \<Rightarrow> bytes option"
  dc_push :: "push_request \<Rightarrow> bytes option"
  dc_delivery :: "df_delivery \<Rightarrow> bytes option"
  dc_envelope :: "envelope_type \<Rightarrow> bytes \<Rightarrow> bytes option"
  dc_post :: "post \<Rightarrow> bytes"
  dc_sha256hex :: "bytes \<Rightarrow> string"
  dc_command :: "int \<Rightarrow> string \<Rightarrow> string"
  dc_parse_command :: "string \<Rightarrow> (int \<times> string) option"

text \<open>
  The answers of the authentication service to the calls of one request (\<open>None\<close> is a failed call), the faults of
  the single accesses to Kafka, Redis and the database, and the order in which Go iterates over a map.
\<close>

record df_env =
  de_codec :: df_codec
  de_hostname :: string
  de_now :: instant
  de_monitor_id :: string
  de_monitor_name :: string
  de_monitor_avatar :: string
  de_check_jwt :: "int \<Rightarrow> string \<Rightarrow> auth_result option"
  de_login :: "string \<Rightarrow> string \<Rightarrow> string \<Rightarrow> (auth_result \<times> int \<times> string) option"
  de_signup :: "string \<Rightarrow> string \<Rightarrow> string \<Rightarrow> auth_result option"
  de_revoke :: "int \<Rightarrow> string \<Rightarrow> auth_result option"
  de_change_password :: "int \<Rightarrow> string \<Rightarrow> string \<Rightarrow> string \<Rightarrow> (auth_result \<times> string) option"
  de_kafka :: "string \<Rightarrow> redis_fault"
  de_route :: "string \<Rightarrow> redis_fault"
  de_lookup :: redis_fault
  de_claim :: "(redis_fault \<times> instant \<times> redis_fault \<times> instant) list"
  de_release :: "redis_fault \<times> redis_fault"
  de_effects :: redis_fault
  de_effects_release :: redis_fault
  de_complete :: redis_fault
  de_contact :: redis_fault
  de_command :: "redis_fault \<times> redis_fault \<times> redis_fault"
  de_action :: "redis_fault \<times> redis_fault \<times> redis_fault"
  de_database_ok :: bool
  de_status :: string
  de_error_text :: string
  de_map_order :: "string list \<Rightarrow> string list"

text \<open>
  The state of a container and of what it shares: sessions, connections and Kafka, the Redis keys with
  values, the persistent key of the monitor contact, the database and the last monitor message.
\<close>

record df_node =
  nd_world :: df_world
  nd_keys :: "string \<rightharpoonup> string \<times> instant"
  nd_monitor_contact :: bool
  nd_db :: database
  nd_last_monitor :: int

datatype df_error =
    ErrJwtMissing | ErrAuthUnavailable | ErrJwtRejected | ErrAuthOther | ErrInvalidRequest | ErrMarshal | ErrPublish
  | ErrUserOffline | ErrRouteRedis | ErrLocalRoute | ErrDatabase | ErrNotMember | ErrRedis | ErrUnfinished

definition currentContainerTopic :: "df_env \<Rightarrow> string" where
  "currentContainerTopic env = (if de_hostname env = [] then ''local'' else de_hostname env)"

definition on_world :: "(df_world \<Rightarrow> 'a \<times> df_world) \<Rightarrow> df_node \<Rightarrow> 'a \<times> df_node" where
  "on_world f s = (case f (nd_world s) of (a, w) \<Rightarrow> (a, s\<lparr>nd_world := w\<rparr>))"

section \<open>Publishing\<close>

definition PublishMessage :: "df_env \<Rightarrow> bytes \<Rightarrow> string \<Rightarrow> df_world \<Rightarrow> (df_error + unit) \<times> df_world" where
  "PublishMessage env message targetTopic w =
     (case de_kafka env targetTopic of
        NoFault \<Rightarrow> (Inr (), w\<lparr>dw_kafka := dw_kafka w @ [(targetTopic, message)]\<rparr>)
      | RequestLost \<Rightarrow> (Inl ErrPublish, w)
      | ReplyLost \<Rightarrow> (Inl ErrPublish, w\<lparr>dw_kafka := dw_kafka w @ [(targetTopic, message)]\<rparr>))"

definition MarshalEnvelope :: "df_env \<Rightarrow> envelope_type \<Rightarrow> bytes option \<Rightarrow> bytes option" where
  "MarshalEnvelope env messageType payload =
     (case payload of None \<Rightarrow> None | Some payloadBytes \<Rightarrow> dc_envelope (de_codec env) messageType payloadBytes)"

definition PublishEnvelope :: "df_env \<Rightarrow> string \<Rightarrow> envelope_type \<Rightarrow> bytes option \<Rightarrow> df_world \<Rightarrow> (df_error + unit) \<times> df_world" where
  "PublishEnvelope env targetTopic messageType payload w =
     (case MarshalEnvelope env messageType payload of
        None \<Rightarrow> (Inl ErrMarshal, w)
      | Some envBytes \<Rightarrow> PublishMessage env envBytes targetTopic w)"

section \<open>Routing\<close>

definition routeLocally :: "string \<Rightarrow> bytes \<Rightarrow> df_world \<Rightarrow> bool \<times> df_world" where
  "routeLocally toUserID message w =
     (case GetConnectionByUserID toUserID (dw_manager w) of
        None \<Rightarrow> (False, w)
      | Some _ \<Rightarrow>
          (case SendMessageToUser toUserID message (dw_manager w) of
             (Inl _, cm) \<Rightarrow> (False, w\<lparr>dw_manager := cm\<rparr>)
           | (Inr _, cm) \<Rightarrow> (True, w\<lparr>dw_manager := cm\<rparr>)))"

definition routeCrossContainer :: "df_env \<Rightarrow> string \<Rightarrow> string \<Rightarrow> bytes \<Rightarrow> df_world \<Rightarrow> (df_error + unit) \<times> df_world" where
  "routeCrossContainer env toUserID targetContainerID message w =
     (if targetContainerID = currentContainerTopic env
      then (case routeLocally toUserID message w of
              (True, w1) \<Rightarrow> (Inr (), w1) | (False, w1) \<Rightarrow> (Inl ErrLocalRoute, w1))
      else (case dc_envelope (de_codec env) ENV_DF_REQUEST message of
              None \<Rightarrow> (Inl ErrMarshal, w)
            | Some envBytes \<Rightarrow> PublishMessage env envBytes targetContainerID w))"

definition RouteMessage :: "df_env \<Rightarrow> string \<Rightarrow> bytes \<Rightarrow> df_world \<Rightarrow> (df_error + unit) \<times> df_world" where
  "RouteMessage env toUserID message w =
     (case routeLocally toUserID message w of
        (True, w1) \<Rightarrow> (Inr (), w1)
      | (False, w1) \<Rightarrow>
          (case GetContainerByConnection (de_route env toUserID) (de_now env) toUserID (dw_redis w1) of
             (Inr targetContainerID, r) \<Rightarrow> routeCrossContainer env toUserID targetContainerID message (w1\<lparr>dw_redis := r\<rparr>)
           | (Inl ErrRouteNotFound, r) \<Rightarrow> (Inl ErrUserOffline, w1\<lparr>dw_redis := r\<rparr>)
           | (Inl _, r) \<Rightarrow> (Inl ErrRouteRedis, w1\<lparr>dw_redis := r\<rparr>)))"

text \<open>\<^verbatim>\<open>WebSocketHandler.SendMessage\<close> with a response that is encoded first.\<close>

definition send_response :: "df_env \<Rightarrow> int \<Rightarrow> df_response \<Rightarrow> df_node \<Rightarrow> (df_error + unit) \<times> df_node" where
  "send_response env userID response s =
     (case dc_response (de_codec env) response of
        None \<Rightarrow> (Inl ErrMarshal, s)
      | Some payload \<Rightarrow> on_world (RouteMessage env (itoa userID) payload) s)"

end
