(* ===== verification/DF_Monitor.thy ===== *)
theory DF_Monitor
  imports DF_Router
begin

text \<open>
  \<^verbatim>\<open>post_idempotency.go\<close>, \<^verbatim>\<open>monitor/executor.go\<close> and \<^verbatim>\<open>module_monitor.go\<close>: the Redis keys that make sends
  idempotent, and the virtual contact through which the administrator runs commands. The client of Redis is
  initialised. The probing of the other services' endpoints is a parameter.
\<close>

section \<open>Keys in Redis\<close>

type_synonym redis_keys = "string \<rightharpoonup> string \<times> instant"

definition key_setnx :: "redis_fault \<Rightarrow> instant \<Rightarrow> string \<Rightarrow> string \<Rightarrow> duration \<Rightarrow> redis_keys \<Rightarrow> (df_error + bool) \<times> redis_keys" where
  "key_setnx fault now key v ttl keys =
     (let keys1 = (if live now keys key = None then keys(key \<mapsto> (v, now + ttl)) else keys) in
      case fault of
        NoFault \<Rightarrow> (Inr (live now keys key = None), keys1)
      | RequestLost \<Rightarrow> (Inl ErrRedis, keys)
      | ReplyLost \<Rightarrow> (Inl ErrRedis, keys1))"

definition key_get :: "redis_fault \<Rightarrow> instant \<Rightarrow> string \<Rightarrow> redis_keys \<Rightarrow> df_error + string option" where
  "key_get fault now key keys = (if fault = NoFault then Inr (live now keys key) else Inl ErrRedis)"

definition key_write :: "redis_fault \<Rightarrow> string \<Rightarrow> (string \<times> instant) option \<Rightarrow> redis_keys \<Rightarrow> (df_error + unit) \<times> redis_keys" where
  "key_write fault key v keys =
     (case fault of
        NoFault \<Rightarrow> (Inr (), keys(key := v))
      | RequestLost \<Rightarrow> (Inl ErrRedis, keys)
      | ReplyLost \<Rightarrow> (Inl ErrRedis, keys(key := v)))"

section \<open>Idempotent posts\<close>

abbreviation postPendingTTL :: duration where "postPendingTTL \<equiv> 30 * second"
abbreviation postCompletedTTL :: duration where "postCompletedTTL \<equiv> 7 * 24 * hour"
abbreviation postEffectsTTL :: duration where "postEffectsTTL \<equiv> 30 * 24 * hour"

record post_claim =
  pc_acquired :: bool
  pc_message_id :: int

definition ensurePostClientMessageID :: "df_env \<Rightarrow> post \<Rightarrow> string \<times> post" where
  "ensurePostClientMessageID env p =
     (let i = TrimSpace (po_client_message_id p) in
      if i \<noteq> [] then (i, p\<lparr>po_client_message_id := i\<rparr>)
      else (let generated = ''legacy:'' @ dc_sha256hex (de_codec env) (dc_post (de_codec env) (p\<lparr>po_client_message_id := []\<rparr>))
            in (generated, p\<lparr>po_client_message_id := generated\<rparr>)))"

definition postIdempotencyKey :: "df_env \<Rightarrow> int \<Rightarrow> string \<Rightarrow> string" where
  "postIdempotencyKey env senderUserID clientMessageID =
     ''post:idempotency:'' @ itoa senderUserID @ '':'' @ dc_sha256hex (de_codec env) clientMessageID"

text \<open>The number that \<^verbatim>\<open>strconv.ParseInt\<close> returns even with an error: zero, or the bound that was exceeded.\<close>

definition ParseInt64_value :: "string \<Rightarrow> int" where
  "ParseInt64_value s =
     (let (negative, digits) =
            (case s of [] \<Rightarrow> (False, []) | c # r \<Rightarrow> if c = CHR ''-'' then (True, r) else if c = CHR ''+'' then (False, r) else (False, s))
      in if digits = [] \<or> \<not> list_all is_digit digits then 0
         else if negative then max (- (2 ^ 63)) (- int (decimal digits)) else min (2 ^ 63 - 1) (int (decimal digits)))"

definition TrimPrefix :: "string \<Rightarrow> string \<Rightarrow> string" where
  "TrimPrefix s p = (if HasPrefix s p then drop (length p) s else s)"

text \<open>
  A round is one \<^verbatim>\<open>SETNX\<close> and one \<^verbatim>\<open>GET\<close> with their faults and times; a further round is needed only if the key
  expires between the two.
\<close>

fun claimPost ::
  "df_env \<Rightarrow> (redis_fault \<times> instant \<times> redis_fault \<times> instant) list \<Rightarrow> int \<Rightarrow> string \<Rightarrow> redis_keys \<Rightarrow> (df_error + post_claim) \<times> redis_keys" where
  "claimPost env [] senderUserID clientMessageID keys = (Inl ErrUnfinished, keys)"
| "claimPost env ((setFault, setTime, getFault, getTime) # rounds) senderUserID clientMessageID keys =
     (let key = postIdempotencyKey env senderUserID clientMessageID in
      case key_setnx setFault setTime key ''pending'' postPendingTTL keys of
        (Inl e, keys1) \<Rightarrow> (Inl e, keys1)
      | (Inr True, keys1) \<Rightarrow> (Inr \<lparr>pc_acquired = True, pc_message_id = 0\<rparr>, keys1)
      | (Inr False, keys1) \<Rightarrow>
          (case key_get getFault getTime key keys1 of
             Inl e \<Rightarrow> (Inl e, keys1)
           | Inr None \<Rightarrow> claimPost env rounds senderUserID clientMessageID keys1
           | Inr (Some v) \<Rightarrow>
               (Inr \<lparr>pc_acquired = False, pc_message_id = ParseInt64_value (TrimPrefix v ''ack:'')\<rparr>, keys1)))"

definition releasePostClaim :: "df_env \<Rightarrow> int \<Rightarrow> string \<Rightarrow> redis_keys \<Rightarrow> redis_keys" where
  "releasePostClaim env senderUserID clientMessageID keys =
     (let key = postIdempotencyKey env senderUserID clientMessageID in
      case key_get (fst (de_release env)) (de_now env) key keys of
        Inr (Some v) \<Rightarrow> if v = ''pending'' then snd (key_write (snd (de_release env)) key None keys) else keys
      | _ \<Rightarrow> keys)"

definition CompletePostIdempotency :: "df_env \<Rightarrow> int \<Rightarrow> string \<Rightarrow> int \<Rightarrow> redis_keys \<Rightarrow> (df_error + unit) \<times> redis_keys" where
  "CompletePostIdempotency env senderUserID clientMessageID messageID keys =
     (if clientMessageID = [] \<or> messageID \<le> 0 then (Inr (), keys)
      else key_write (de_complete env) (postIdempotencyKey env senderUserID clientMessageID)
             (Some (''ack:'' @ itoa messageID, de_now env + postCompletedTTL)) keys)"

definition effects_key :: "int \<Rightarrow> string" where
  "effects_key messageID = ''post:effects:'' @ itoa messageID"

definition claimPostEffects :: "df_env \<Rightarrow> int \<Rightarrow> redis_keys \<Rightarrow> (df_error + bool) \<times> redis_keys" where
  "claimPostEffects env messageID keys =
     (if messageID \<le> 0 then (Inr True, keys)
      else key_setnx (de_effects env) (de_now env) (effects_key messageID) ''1'' postEffectsTTL keys)"

definition releasePostEffects :: "df_env \<Rightarrow> int \<Rightarrow> redis_keys \<Rightarrow> redis_keys" where
  "releasePostEffects env messageID keys =
     (if messageID > 0 then snd (key_write (de_effects_release env) (effects_key messageID) None keys) else keys)"

definition sendPostAck :: "df_env \<Rightarrow> int \<Rightarrow> int \<Rightarrow> string \<Rightarrow> df_node \<Rightarrow> (df_error + unit) \<times> df_node" where
  "sendPostAck env userID messageID clientMessageID = send_response env userID (RspPostAck messageID clientMessageID)"

section \<open>The command executor\<close>

abbreviation AdminUserID :: int where "AdminUserID \<equiv> 1"
abbreviation DefaultMonitorID :: int where "DefaultMonitorID \<equiv> 900000000000000001"

definition CurrentProfile :: "df_env \<Rightarrow> user_info_rsp" where
  "CurrentProfile env =
     \<lparr>ui_user_id = (case ParseInt64 (TrimSpace (de_monitor_id env)) of
                      Some n \<Rightarrow> if n > 0 \<and> n \<noteq> AdminUserID then n else DefaultMonitorID
                    | None \<Rightarrow> DefaultMonitorID),
      ui_account = ''monitor'',
      ui_name = (let name = TrimSpace (de_monitor_name env) in if name = [] then ''Betterfly Monitor'' else name),
      ui_avatar = TrimSpace (de_monitor_avatar env),
      ui_update_time = ''1970-01-01T00:00:00Z''\<rparr>"

definition IsMonitorID :: "df_env \<Rightarrow> int \<Rightarrow> bool" where
  "IsMonitorID env userID \<longleftrightarrow> userID = ui_user_id (CurrentProfile env)"

datatype exec_error = ErrForbidden | ActionError string

text \<open>An action acts on a state and returns a text or an error's text; it may be missing.\<close>

type_synonym 's plain_action = "('s \<Rightarrow> (string + string) \<times> 's) option"
type_synonym 's user_action = "(int \<Rightarrow> 's \<Rightarrow> (string + string) \<times> 's) option"

record 's monitor_actions =
  ac_status :: "'s plain_action"
  ac_connections :: "'s plain_action"
  ac_route :: "'s user_action"
  ac_kick :: "'s user_action"
  ac_user :: "'s user_action"
  ac_group :: "'s user_action"
  ac_requests :: "'s user_action"

type_synonym 's exec_result = "(string \<times> (exec_error + string)) \<times> 's"

definition action_result :: "string \<Rightarrow> (string + string) \<times> 's \<Rightarrow> 's exec_result" where
  "action_result name r = (case r of (Inl e, s) \<Rightarrow> ((name, Inl (ActionError e)), s) | (Inr t, s) \<Rightarrow> ((name, Inr t), s))"

definition runNoArg :: "string \<Rightarrow> string list \<Rightarrow> 's plain_action \<Rightarrow> 's \<Rightarrow> 's exec_result" where
  "runNoArg name words action s =
     (if length words \<noteq> 1 then ((name, Inr (NUsage @ name)), s)
      else (case action of None \<Rightarrow> ((name, Inr NActionUnavailable), s) | Some f \<Rightarrow> action_result name (f s)))"

definition runUserAction :: "df_env \<Rightarrow> string \<Rightarrow> string list \<Rightarrow> 's user_action \<Rightarrow> bool \<Rightarrow> 's \<Rightarrow> 's exec_result" where
  "runUserAction env name words action mutating s =
     (case words of
        [_, arg] \<Rightarrow>
          (case ParseInt64 arg of
             None \<Rightarrow> ((name, Inr NIdNotPositive), s)
           | Some userID \<Rightarrow>
               if userID \<le> 0 then ((name, Inr NIdNotPositive), s)
               else if mutating \<and> (userID = AdminUserID \<or> IsMonitorID env userID) then ((name, Inr NKickRefused), s)
               else (case action of None \<Rightarrow> ((name, Inr NActionUnavailable), s) | Some f \<Rightarrow> action_result name (f userID s)))
      | _ \<Rightarrow> ((name, Inr (NUsage @ name @ NUsageId)), s))"

definition is_command :: "string \<Rightarrow> string \<Rightarrow> bool" where
  "is_command command name \<longleftrightarrow> command = CHR ''/'' # name \<or> command = name"

definition Execute :: "df_env \<Rightarrow> 's monitor_actions \<Rightarrow> int \<Rightarrow> string \<Rightarrow> 's \<Rightarrow> 's exec_result" where
  "Execute env actions senderUserID input s =
     (if senderUserID \<noteq> AdminUserID then (([], Inl ErrForbidden), s)
      else (case Fields (TrimSpace input) of
        [] \<Rightarrow> ((''help'', Inr NHelpText), s)
      | field # rest \<Rightarrow>
          (let words = field # rest; command = lower_key field in
           if is_command command ''help'' then ((''help'', Inr NHelpText), s)
           else if is_command command ''status'' then runNoArg ''status'' words (ac_status actions) s
           else if is_command command ''connections'' then runNoArg ''connections'' words (ac_connections actions) s
           else if is_command command ''route'' then runUserAction env ''route'' words (ac_route actions) False s
           else if is_command command ''kick'' then runUserAction env ''kick'' words (ac_kick actions) True s
           else if is_command command ''user'' then runUserAction env ''user'' words (ac_user actions) False s
           else if is_command command ''group'' then runUserAction env ''group'' words (ac_group actions) False s
           else if is_command command ''requests'' then runUserAction env ''requests'' words (ac_requests actions) False s
           else ((''unknown'', Inr NUnknownCommand), s))))"

section \<open>The actions\<close>

abbreviation session_store :: "df_node \<Rightarrow> session_redis" where "session_store s \<equiv> dw_redis (nd_world s)"

definition monitorConnectionStatus :: "df_env \<Rightarrow> df_node \<Rightarrow> (string + string) \<times> df_node" where
  "monitorConnectionStatus env s =
     (if fst (de_action env) \<noteq> NoFault then (Inl (de_error_text env), s)
      else (Inr (NConnectionStats @ itoa (cm_connection_count (dw_manager (nd_world s))) @ NStatsLoggedIn @
                 itoa (cm_logged_in_count (dw_manager (nd_world s))) @ NStatsRoutes @
                 itoa (int (card (dom (sr_mapping (session_store s)))))), s))"

text \<open>The container a user is mapped to and whether the lease of the route is alive.\<close>

definition read_route :: "df_env \<Rightarrow> int \<Rightarrow> df_node \<Rightarrow> string + (string \<times> bool) option" where
  "read_route env userID s =
     (if fst (de_action env) \<noteq> NoFault then Inl (de_error_text env)
      else (case sr_mapping (session_store s) (itoa userID) of
        None \<Rightarrow> Inr None
      | Some container \<Rightarrow>
          if fst (snd (de_action env)) \<noteq> NoFault then Inl (de_error_text env)
          else Inr (Some (container, live (de_now env) (sr_leases (session_store s)) (itoa userID) \<noteq> None))))"

definition monitorUserRoute :: "df_env \<Rightarrow> int \<Rightarrow> df_node \<Rightarrow> (string + string) \<times> df_node" where
  "monitorUserRoute env userID s =
     (case read_route env userID s of
        Inl e \<Rightarrow> (Inl e, s)
      | Inr None \<Rightarrow> (Inr (NUserWord @ itoa userID @ NIsOffline), s)
      | Inr (Some (container, leased)) \<Rightarrow>
          if \<not> leased then (Inr (NUserWord @ itoa userID @ NHasStaleRoute @ container @ NLeaseExpired), s)
          else (Inr (NUserWord @ itoa userID @ NRoutedTo @ container), s))"

definition monitorKickUser :: "df_env \<Rightarrow> int \<Rightarrow> df_node \<Rightarrow> (string + string) \<times> df_node" where
  "monitorKickUser env userID s =
     (case read_route env userID s of
        Inl e \<Rightarrow> (Inl e, s)
      | Inr None \<Rightarrow> (Inr (NUserWord @ itoa userID @ NOfflineNoKick), s)
      | Inr (Some (container, leased)) \<Rightarrow>
          if \<not> leased then (Inr (NUserWord @ itoa userID @ NStaleNoKick), s)
          else (case PublishKickNotification (snd (snd (de_action env))) (itoa userID) container (session_store s) of
                  (result, r) \<Rightarrow>
                    ((case result of
                        Inl _ \<Rightarrow> Inl (de_error_text env)
                      | Inr _ \<Rightarrow> Inr (NKickSent @ container @ NKickSentUser @ itoa userID @ NKickSentEnd)),
                     s\<lparr>nd_world := (nd_world s)\<lparr>dw_redis := r\<rparr>\<rparr>)))"

fun join_lines :: "string list \<Rightarrow> string" where
  "join_lines [] = []"
| "join_lines [l] = l"
| "join_lines (l # m # ls) = l @ [CHR 0x0A] @ join_lines (m # ls)"

definition monitorUserSummary :: "df_env \<Rightarrow> int \<Rightarrow> df_node \<Rightarrow> (string + string) \<times> df_node" where
  "monitorUserSummary env userID s =
     (if \<not> de_database_ok env then (Inl (de_error_text env), s)
      else (case GetUserByID userID (nd_db s) of
        None \<Rightarrow> (Inr (NUserWord @ itoa userID @ NDoesNotExist), s)
      | Some user \<Rightarrow>
          (let friends = GetFriendListWithDB userID (nd_db s);
               groups = GetJoinedGroupsWithDB userID (nd_db s);
               group_line = (\<lambda>g. let role = fst (RequireGroupManagerWithDB (jc_group_id g) userID (nd_db s)) in
                  ''- '' @ itoa (jc_group_id g) @ '' '' @ jc_group_name g @ '' ('' @ (if role = [] then GroupRoleMember else role) @ '')'')
           in (Inr (join_lines ([NUserWord @ itoa (us_id user), NAccountLine @ us_account user, NNicknameLine @ us_name user,
                                 NFriendsLine @ itoa (int (length friends)), NGroupsLine @ itoa (int (length groups))] @
                                map group_line groups)), s))))"

definition monitorGroupSummary :: "df_env \<Rightarrow> int \<Rightarrow> df_node \<Rightarrow> (string + string) \<times> df_node" where
  "monitorGroupSummary env groupID s =
     (if \<not> de_database_ok env then (Inl (de_error_text env), s)
      else (case GetGroupByIDWithDB groupID (nd_db s) of
        None \<Rightarrow> (Inr (NGroupWord @ itoa groupID @ NDoesNotExist), s)
      | Some g \<Rightarrow>
          (let members = GetGroupMembersWithDB groupID (nd_db s);
               count = (\<lambda>role. itoa (int (length (filter (\<lambda>m. mc_role m = role) members))))
           in (Inr (NGroupWord @ itoa (gr_group_id g) @ NNameLine @ gr_name g @ NOwnerLine @ itoa (gr_owner_user_id g) @
                    NMembersLine @ itoa (int (length members)) @ '' (owner='' @ count GroupRoleOwner @ '' admin='' @
                    count GroupRoleAdmin @ '' member='' @ count GroupRoleMember @ '')''), s))))"

definition monitorRelationshipRequests :: "df_env \<Rightarrow> int \<Rightarrow> df_node \<Rightarrow> (string + string) \<times> df_node" where
  "monitorRelationshipRequests env userID s =
     (if \<not> de_database_ok env then (Inl (de_error_text env), s)
      else (case ListFriendRequestsWithDB (de_now env) userID True (nd_db s) of (friendRequests, db1) \<Rightarrow>
        (case ListGroupInvitationsWithDB (de_now env) userID True db1 of (groupRequests, db2) \<Rightarrow>
          (let pending = (\<lambda>vs. itoa (int (length (filter (\<lambda>v. rq_status (rv_request v) = RequestStatusPending) vs))))
           in (Inr (NUserWord @ itoa userID @ NPendingRequests @ pending friendRequests @ NPendingGroups @ pending groupRequests),
               s\<lparr>nd_db := db2\<rparr>)))))"

definition monitorExecutor :: "df_env \<Rightarrow> df_node monitor_actions" where
  "monitorExecutor env =
     \<lparr>ac_status = Some (\<lambda>s. (Inr (de_status env), s)), ac_connections = Some (monitorConnectionStatus env),
      ac_route = Some (monitorUserRoute env), ac_kick = Some (monitorKickUser env), ac_user = Some (monitorUserSummary env),
      ac_group = Some (monitorGroupSummary env), ac_requests = Some (monitorRelationshipRequests env)\<rparr>"

section \<open>The virtual contact\<close>

definition sendMonitorWarning :: "df_env \<Rightarrow> int \<Rightarrow> string \<Rightarrow> df_node \<Rightarrow> (df_error + unit) \<times> df_node" where
  "sendMonitorWarning env userID message = send_response env userID (RspWarn message)"

definition sendMonitorServerMessage :: "df_env \<Rightarrow> int \<Rightarrow> string \<Rightarrow> df_node \<Rightarrow> (df_error + unit) \<times> df_node" where
  "sendMonitorServerMessage env userID message = send_response env userID (RspServer message)"

definition handleMonitorQueryUser :: "df_env \<Rightarrow> int \<Rightarrow> df_node \<Rightarrow> (df_error + unit) \<times> df_node" where
  "handleMonitorQueryUser env requesterUserID s =
     (if requesterUserID \<noteq> AdminUserID then sendMonitorWarning env requesterUserID NTargetUserMissing s
      else send_response env requesterUserID
             (RspUserInfo \<lparr>uf_send_to_user_id = requesterUserID, uf_query_user_name = ui_name (CurrentProfile env),
                           uf_user = CurrentProfile env\<rparr>) s)"

definition setMonitorContact :: "df_env \<Rightarrow> bool \<Rightarrow> df_node \<Rightarrow> (df_error + unit) \<times> df_node" where
  "setMonitorContact env enabled s =
     (case de_contact env of
        NoFault \<Rightarrow> (Inr (), s\<lparr>nd_monitor_contact := enabled\<rparr>)
      | RequestLost \<Rightarrow> (Inl ErrRedis, s)
      | ReplyLost \<Rightarrow> (Inl ErrRedis, s\<lparr>nd_monitor_contact := enabled\<rparr>))"

definition monitorContactEnabled :: "df_env \<Rightarrow> df_node \<Rightarrow> bool" where
  "monitorContactEnabled env s \<longleftrightarrow> de_contact env = NoFault \<and> nd_monitor_contact s"

definition newMonitorFriendAcceptance :: "df_env \<Rightarrow> int \<Rightarrow> df_response" where
  "newMonitorFriendAcceptance env requesterUserID =
     (let profile = CurrentProfile env in
      RspRelationshipOperation ''create_friend_request'' ''FRIEND_OK'' (Some
        \<lparr>ri_request_id = 0, ri_request_type = ''friend'', ri_requester_user_id = requesterUserID, ri_requester_name = [],
         ri_requester_avatar = [], ri_target_user_id = ui_user_id profile, ri_target_name = ui_name profile,
         ri_target_avatar = ui_avatar profile, ri_group_id = 0, ri_group_name = [], ri_group_avatar = [], ri_message = [],
         ri_status = ''accepted'', ri_created_at = RFC3339Nano (de_now env), ri_expires_at = [], ri_resolved_at = [],
         ri_resolved_by = ui_user_id profile\<rparr>))"

definition handleMonitorAddContact :: "df_env \<Rightarrow> int \<Rightarrow> df_node \<Rightarrow> (df_error + unit) \<times> df_node" where
  "handleMonitorAddContact env requesterUserID s =
     (if requesterUserID \<noteq> AdminUserID then sendMonitorWarning env requesterUserID NTargetUserMissing s
      else (case setMonitorContact env True s of
        (Inl _, s1) \<Rightarrow> sendMonitorWarning env requesterUserID NMonitorUnavailable s1
      | (Inr _, s1) \<Rightarrow> send_response env requesterUserID (newMonitorFriendAcceptance env requesterUserID) s1))"

definition handleMonitorDeleteContact :: "df_env \<Rightarrow> int \<Rightarrow> df_node \<Rightarrow> (df_error + unit) \<times> df_node" where
  "handleMonitorDeleteContact env requesterUserID s =
     (if requesterUserID \<noteq> AdminUserID then sendMonitorWarning env requesterUserID NTargetUserMissing s
      else (case setMonitorContact env False s of
        (Inl _, s1) \<Rightarrow> sendMonitorWarning env requesterUserID NMonitorUnavailable s1
      | (Inr _, s1) \<Rightarrow> sendMonitorServerMessage env requesterUserID NContactDeleted s1))"

definition sendMonitorPostResult :: "df_env \<Rightarrow> int \<Rightarrow> string \<Rightarrow> int \<Rightarrow> string \<Rightarrow> df_node \<Rightarrow> (df_error + unit) \<times> df_node" where
  "sendMonitorPostResult env userID clientMessageID messageID response s =
     (case send_response env userID (RspPostAck messageID clientMessageID) s of
        (Inl e, s1) \<Rightarrow> (Inl e, s1)
      | (Inr _, s1) \<Rightarrow>
          send_response env userID
            (RspPost \<lparr>po_from_id = ui_user_id (CurrentProfile env), po_is_group = False, po_to_id = userID, po_msg = response,
                      po_msg_type = ''text'', po_timestamp = RFC3339Nano (de_now env), po_real_file_name = [],
                      po_client_message_id = clientMessageID\<rparr>) s1)"

definition monitor_key :: "df_env \<Rightarrow> int \<Rightarrow> string \<Rightarrow> string" where
  "monitor_key env userID clientMessageID = ''monitor:'' @ postIdempotencyKey env userID clientMessageID"

text \<open>The cached result of the command, or whether this request may execute it.\<close>

definition claimMonitorCommand :: "df_env \<Rightarrow> int \<Rightarrow> string \<Rightarrow> redis_keys \<Rightarrow> (df_error + ((int \<times> string) option \<times> bool)) \<times> redis_keys" where
  "claimMonitorCommand env userID clientMessageID keys =
     (let key = monitor_key env userID clientMessageID;
          claim = (case key_setnx (fst (snd (de_command env))) (de_now env) key ''pending'' postPendingTTL keys of
                     (Inl e, keys1) \<Rightarrow> (Inl e, keys1) | (Inr acquired, keys1) \<Rightarrow> (Inr (None, acquired), keys1))
      in case key_get (fst (de_command env)) (de_now env) key keys of
           Inl e \<Rightarrow> (Inl e, keys)
         | Inr None \<Rightarrow> claim
         | Inr (Some v) \<Rightarrow>
             if v = ''pending'' then claim
             else (case dc_parse_command (de_codec env) v of
                     Some (messageID, response) \<Rightarrow> if messageID > 0 then (Inr (Some (messageID, response), False), keys) else claim
                   | None \<Rightarrow> claim))"

definition cacheMonitorCommand :: "df_env \<Rightarrow> int \<Rightarrow> string \<Rightarrow> int \<Rightarrow> string \<Rightarrow> redis_keys \<Rightarrow> redis_keys" where
  "cacheMonitorCommand env userID clientMessageID messageID response keys =
     snd (key_write (snd (snd (de_command env))) (monitor_key env userID clientMessageID)
            (Some (dc_command (de_codec env) messageID response, de_now env + postCompletedTTL)) keys)"

definition nextMonitorMessageID :: "instant \<Rightarrow> int \<Rightarrow> int" where
  "nextMonitorMessageID now previous =
     (let candidate = (if now < 1 then 1 else now) in if candidate \<le> previous then wrap64 (previous + 1) else candidate)"

definition handleMonitorPost :: "df_env \<Rightarrow> int \<Rightarrow> post \<Rightarrow> df_node \<Rightarrow> (df_error + unit) \<times> df_node" where
  "handleMonitorPost env senderUserID p s =
     (if senderUserID \<noteq> AdminUserID then sendMonitorWarning env senderUserID NTargetUserMissing s
      else if po_is_group p \<or> \<not> monitorContactEnabled env s then sendMonitorWarning env senderUserID NTargetUserMissing s
      else if lower_key (TrimSpace (po_msg_type p)) \<noteq> ''text'' then sendMonitorWarning env senderUserID NMonitorTextOnly s
      else (case ensurePostClientMessageID env p of (clientMessageID, p1) \<Rightarrow>
        (case claimMonitorCommand env senderUserID clientMessageID (nd_keys s) of
           (Inl e, keys) \<Rightarrow> (Inl e, s\<lparr>nd_keys := keys\<rparr>)
         | (Inr (cached, False), keys) \<Rightarrow>
             (case cached of
                None \<Rightarrow> (Inr (), s\<lparr>nd_keys := keys\<rparr>)
              | Some (messageID, response) \<Rightarrow>
                  sendMonitorPostResult env senderUserID clientMessageID messageID response (s\<lparr>nd_keys := keys\<rparr>))
         | (Inr (cached, True), keys) \<Rightarrow>
             (case Execute env (monitorExecutor env) senderUserID (po_msg p1) (s\<lparr>nd_keys := keys\<rparr>) of
                ((_, Inl ErrForbidden), s1) \<Rightarrow> sendMonitorWarning env senderUserID NTargetUserMissing s1
              | ((_, outcome), s1) \<Rightarrow>
                  (let response = (case outcome of Inl (ActionError e) \<Rightarrow> NCommandFailed @ e | Inl ErrForbidden \<Rightarrow> [] | Inr t \<Rightarrow> t);
                       messageID = nextMonitorMessageID (de_now env) (nd_last_monitor s1);
                       s2 = s1\<lparr>nd_last_monitor := messageID,
                               nd_keys := cacheMonitorCommand env senderUserID clientMessageID messageID response (nd_keys s1)\<rparr>
                   in sendMonitorPostResult env senderUserID clientMessageID messageID response s2)))))"

definition decorateMonitorContacts :: "df_env \<Rightarrow> int \<Rightarrow> bool \<Rightarrow> friend_contact list \<Rightarrow> friend_contact list" where
  "decorateMonitorContacts env targetUserID enabled contacts =
     (let profile = CurrentProfile env;
          filtered = filter (\<lambda>c. fc_user_id c \<noteq> ui_user_id profile) contacts
      in if targetUserID \<noteq> AdminUserID \<or> \<not> enabled then filtered
         else filtered @ [\<lparr>fc_user_id = ui_user_id profile, fc_account = ui_account profile, fc_name = ui_name profile,
                           fc_avatar = ui_avatar profile, fc_alias = ui_name profile, fc_is_notify = False,
                           fc_update_time = ui_update_time profile\<rparr>])"

definition DecorateMonitorContacts :: "df_env \<Rightarrow> int \<Rightarrow> df_node \<Rightarrow> friend_contact list \<Rightarrow> friend_contact list" where
  "DecorateMonitorContacts env targetUserID s contacts =
     decorateMonitorContacts env targetUserID (monitorContactEnabled env s) contacts"

end
