(* ===== verification/DF_Posts.thy ===== *)
theory DF_Posts
  imports DF_Monitor
begin

text \<open>
  \<^verbatim>\<open>module_post.go\<close> and \<^verbatim>\<open>module_recall.go\<close>: a client's message on its way to the storage service, and the delivery
  of stored messages and of recalls to the containers and connections of their receivers.
\<close>

abbreviation storageServiceTopic :: string where "storageServiceTopic \<equiv> ''storage-service''"
abbreviation friendServiceTopic :: string where "friendServiceTopic \<equiv> ''friend-service''"
abbreviation callServiceTopic :: string where "callServiceTopic \<equiv> ''call-service''"
abbreviation pushServiceTopic :: string where "pushServiceTopic \<equiv> ''push-service''"

definition newStorageRequest :: "string \<Rightarrow> int \<Rightarrow> storage_payload \<Rightarrow> storage_request" where
  "newStorageRequest fromKafkaTopic targetUserID payload =
     \<lparr>sq_from_kafka_topic = fromKafkaTopic, sq_target_user_id = targetUserID, sq_payload = Some payload\<rparr>"

definition publishStorageRequest :: "df_env \<Rightarrow> storage_request \<Rightarrow> df_node \<Rightarrow> (df_error + unit) \<times> df_node" where
  "publishStorageRequest env req =
     on_world (PublishEnvelope env storageServiceTopic ENV_STORAGE_REQUEST (dc_storage (de_codec env) req))"

definition publishPushRequest :: "df_env \<Rightarrow> push_request \<Rightarrow> df_node \<Rightarrow> (df_error + unit) \<times> df_node" where
  "publishPushRequest env req = on_world (PublishEnvelope env pushServiceTopic ENV_PUSH_REQUEST (dc_push (de_codec env) req))"

section \<open>Accepting a message\<close>

definition validatePostPayload :: "post \<Rightarrow> df_error + post" where
  "validatePostPayload p =
     (if length (TrimSpace (po_client_message_id p)) > 128 then Inl ErrInvalidRequest
      else if TrimSpace (po_msg_type p) = ''file''
      then (if TrimSpace (po_msg p) = [] \<or> TrimSpace (po_real_file_name p) = [] then Inl ErrInvalidRequest else Inr p)
      else if TrimSpace (po_real_file_name p) \<noteq> [] then Inr (p\<lparr>po_real_file_name := []\<rparr>)
      else Inr p)"

definition buildStoreNewMessageStorageRequest :: "post \<Rightarrow> string \<Rightarrow> storage_request" where
  "buildStoreNewMessageStorageRequest p currentContainerID =
     newStorageRequest currentContainerID (po_from_id p)
       (StoreNewMessage \<lparr>sn_from_user_id = po_from_id p, sn_to_user_id = po_to_id p, sn_content = po_msg p,
          sn_message_type = po_msg_type p, sn_is_group = po_is_group p, sn_real_file_name = po_real_file_name p,
          sn_client_message_id = po_client_message_id p, sn_client_timestamp = po_timestamp p\<rparr>)"

definition sendMessageToStorage :: "df_env \<Rightarrow> post \<Rightarrow> df_node \<Rightarrow> (df_error + unit) \<times> df_node" where
  "sendMessageToStorage env p = publishStorageRequest env (buildStoreNewMessageStorageRequest p (currentContainerTopic env))"

text \<open>\<^verbatim>\<open>authenticatedPayload\<close> and \<^verbatim>\<open>ValidateAndParseJWT\<close>; a dispatched payload is never nil.\<close>

definition authenticated :: "df_env \<Rightarrow> int \<Rightarrow> string \<Rightarrow> df_error + unit" where
  "authenticated env fromID jwt =
     (if jwt = [] then Inl ErrJwtMissing
      else (case de_check_jwt env fromID jwt of
        None \<Rightarrow> Inl ErrAuthUnavailable
      | Some result \<Rightarrow> if result = AUTH_OK then Inr () else if result = JWT_ERROR then Inl ErrJwtRejected else Inl ErrAuthOther))"

definition store_claimed_post :: "df_env \<Rightarrow> int \<Rightarrow> string \<Rightarrow> post \<Rightarrow> df_node \<Rightarrow> (df_error + unit) \<times> df_node" where
  "store_claimed_post env fromID clientMessageID p s =
     (case claimPost env (de_claim env) fromID clientMessageID (nd_keys s) of
        (Inl e, keys) \<Rightarrow> (Inl e, s\<lparr>nd_keys := keys\<rparr>)
      | (Inr claim, keys) \<Rightarrow>
          (let s1 = s\<lparr>nd_keys := keys\<rparr> in
           if \<not> pc_acquired claim
           then (if pc_message_id claim > 0 then sendPostAck env fromID (pc_message_id claim) clientMessageID s1 else (Inr (), s1))
           else (case sendMessageToStorage env p s1 of
                   (Inr _, s2) \<Rightarrow> (Inr (), s2)
                 | (Inl e, s2) \<Rightarrow> (Inl e, s2\<lparr>nd_keys := releasePostClaim env fromID clientMessageID (nd_keys s2)\<rparr>))))"

definition handlePostMessage :: "df_env \<Rightarrow> int \<Rightarrow> string \<Rightarrow> post \<Rightarrow> df_node \<Rightarrow> (df_error + unit) \<times> df_node" where
  "handlePostMessage env fromID jwt payload s =
     (case authenticated env fromID jwt of
        Inl e \<Rightarrow> (Inl e, s)
      | Inr _ \<Rightarrow>
          (case validatePostPayload (payload\<lparr>po_from_id := fromID\<rparr>) of
             Inl e \<Rightarrow> (Inl e, s)
           | Inr p0 \<Rightarrow>
               (case ensurePostClientMessageID env p0 of (clientMessageID, p) \<Rightarrow>
                  if IsMonitorID env (po_to_id p) then handleMonitorPost env fromID p s
                  else if po_is_group p \<and> \<not> de_database_ok env then (Inl ErrDatabase, s)
                  else if po_is_group p \<and> \<not> IsActiveGroupMemberWithDB (po_to_id p) fromID (nd_db s) then (Inl ErrNotMember, s)
                  else store_claimed_post env fromID clientMessageID p s)))"

section \<open>Notifications\<close>

definition preview_text :: "post \<Rightarrow> string" where
  "preview_text p =
     (let t = lower_key (TrimSpace (po_msg_type p)) in
      if t = ''text'' \<or> t = ''link'' then TrimSpace (po_msg p)
      else if t = ''image'' then NPreviewImage
      else if t = ''gif'' then NPreviewGif
      else if t = ''file''
      then (let name = TrimSpace (po_real_file_name p) in if name \<noteq> [] then NPreviewFileNamed @ name else NPreviewFile)
      else if t = ''audio'' then NPreviewAudio
      else if t = ''video'' then NPreviewVideo
      else NPreviewDefault)"

definition messagePushPreview :: "post \<Rightarrow> string" where
  "messagePushPreview p =
     (let preview = (if preview_text p = [] then NPreviewDefault else preview_text p) in
      if RuneCount preview > 180 then take_runes 180 preview @ NEllipsis else preview)"

definition buildMessagePushRequest :: "int list \<Rightarrow> post \<Rightarrow> int \<Rightarrow> push_request" where
  "buildMessagePushRequest targetUserIDs p messageID =
     PushMessage \<lparr>mp_target_user_ids = targetUserIDs, mp_sender_user_id = po_from_id p,
       mp_conversation_id = (if po_is_group p then po_to_id p else po_from_id p), mp_is_group = po_is_group p,
       mp_message_type = po_msg_type p, mp_sent_at = po_timestamp p, mp_preview = messagePushPreview p, mp_message_id = messageID\<rparr>"

definition publishMessagePushBestEffort :: "df_env \<Rightarrow> int list \<Rightarrow> post \<Rightarrow> int \<Rightarrow> df_node \<Rightarrow> df_node" where
  "publishMessagePushBestEffort env targetUserIDs p messageID s =
     (if targetUserIDs = [] then s else snd (publishPushRequest env (buildMessagePushRequest targetUserIDs p messageID) s))"

definition membersWithoutSender :: "int list \<Rightarrow> int \<Rightarrow> int list" where
  "membersWithoutSender memberIDs senderID = filter (\<lambda>m. m \<noteq> senderID) memberIDs"

section \<open>Delivery of a stored message\<close>

definition buildPostDeliveryMessageBytes :: "df_env \<Rightarrow> string \<Rightarrow> post \<Rightarrow> bytes option" where
  "buildPostDeliveryMessageBytes env targetTopic p =
     (if targetTopic = currentContainerTopic env then dc_response (de_codec env) (RspPost p)
      else dc_request (de_codec env) \<lparr>dq_jwt = [], dq_payload = Some (ReqPost p)\<rparr>)"

definition routePostToTarget :: "df_env \<Rightarrow> string \<Rightarrow> string \<Rightarrow> post \<Rightarrow> df_node \<Rightarrow> (df_error + unit) \<times> df_node" where
  "routePostToTarget env targetUserID targetTopic p s =
     (if targetTopic = [] then (Inr (), s)
      else (case buildPostDeliveryMessageBytes env targetTopic p of
              None \<Rightarrow> (Inl ErrMarshal, s)
            | Some messageBytes \<Rightarrow> on_world (RouteMessage env targetUserID messageBytes) s))"

definition buildGroupPostDelivery :: "int list \<Rightarrow> post \<Rightarrow> df_delivery" where
  "buildGroupPostDelivery targetUserIDs p =
     (if length targetUserIDs > 1 then GroupPostBatchDelivery targetUserIDs (Some p) else GroupPostDelivery (hd targetUserIDs) (Some p))"

definition routeGroupPostBatchCrossContainer :: "df_env \<Rightarrow> string \<Rightarrow> int list \<Rightarrow> post \<Rightarrow> df_node \<Rightarrow> (df_error + unit) \<times> df_node" where
  "routeGroupPostBatchCrossContainer env targetContainerID targetUserIDs p s =
     (if targetUserIDs = [] then (Inr (), s)
      else on_world (PublishEnvelope env targetContainerID ENV_DF_RESPONSE
                       (dc_delivery (de_codec env) (buildGroupPostDelivery targetUserIDs p))) s)"

text \<open>
  The loop over the receivers: those of this container are served at once, the others are collected by
  container. The result maps containers to their receivers in the order of the members.
\<close>

fun route_members :: "df_env \<Rightarrow> post \<Rightarrow> (string \<rightharpoonup> string) \<Rightarrow> int list \<Rightarrow> df_node \<Rightarrow> (string \<times> int) list \<times> df_node" where
  "route_members env p containers [] s = ([], s)"
| "route_members env p containers (memberID # memberIDs) s =
     (case containers (itoa memberID) of
        None \<Rightarrow> route_members env p containers memberIDs s
      | Some targetTopic \<Rightarrow>
          if targetTopic = [] then route_members env p containers memberIDs s
          else if targetTopic = currentContainerTopic env
          then route_members env p containers memberIDs (snd (routePostToTarget env (itoa memberID) targetTopic p s))
          else (case route_members env p containers memberIDs s of (targets, s1) \<Rightarrow> ((targetTopic, memberID) # targets, s1)))"

definition targets_of :: "string \<Rightarrow> (string \<times> int) list \<Rightarrow> int list" where
  "targets_of topic targets = map snd (filter (\<lambda>t. fst t = topic) targets)"

text \<open>The containers in the order of the map iteration.\<close>

definition target_topics :: "df_env \<Rightarrow> (string \<times> int) list \<Rightarrow> string list" where
  "target_topics env targets = de_map_order env (remdups (map fst targets))"

fun publish_batches :: "df_env \<Rightarrow> post \<Rightarrow> (string \<times> int) list \<Rightarrow> string list \<Rightarrow> df_node \<Rightarrow> df_node" where
  "publish_batches env p targets [] s = s"
| "publish_batches env p targets (topic # topics) s =
     publish_batches env p targets topics (snd (routeGroupPostBatchCrossContainer env topic (targets_of topic targets) p s))"

definition routeGroupMessage :: "df_env \<Rightarrow> int \<Rightarrow> int \<Rightarrow> post \<Rightarrow> df_node \<Rightarrow> (df_error + unit) \<times> df_node" where
  "routeGroupMessage env messageID fromID p s =
     (if \<not> de_database_ok env then (Inl ErrDatabase, s)
      else if \<not> IsActiveGroupMemberWithDB (po_to_id p) fromID (nd_db s) then (Inl ErrNotMember, s)
      else
        (let receivers = membersWithoutSender (GetActiveGroupMemberIDsWithDB (po_to_id p) (nd_db s)) fromID;
             s1 = publishMessagePushBestEffort env receivers p messageID s
         in case GetContainersByConnections (de_lookup env) (de_now env) (map itoa receivers) (dw_redis (nd_world s1)) of
              (Inl _, r) \<Rightarrow> (Inl ErrRouteRedis, s1\<lparr>nd_world := (nd_world s1)\<lparr>dw_redis := r\<rparr>\<rparr>)
            | (Inr containers, r) \<Rightarrow>
                (case route_members env p containers receivers (s1\<lparr>nd_world := (nd_world s1)\<lparr>dw_redis := r\<rparr>\<rparr>) of
                   (targets, s2) \<Rightarrow> (Inr (), publish_batches env p targets (target_topics env targets) s2))))"

definition route_direct_message :: "df_env \<Rightarrow> int \<Rightarrow> post \<Rightarrow> df_node \<Rightarrow> (df_error + unit) \<times> df_node" where
  "route_direct_message env messageID p s =
     (let targetUserID = itoa (po_to_id p) in
      case GetContainerByConnection (de_lookup env) (de_now env) targetUserID (dw_redis (nd_world s)) of
        (route, r) \<Rightarrow>
          (let s1 = publishMessagePushBestEffort env [po_to_id p] p messageID (s\<lparr>nd_world := (nd_world s)\<lparr>dw_redis := r\<rparr>\<rparr>)
           in case route of
                Inr targetTopic \<Rightarrow> routePostToTarget env targetUserID targetTopic p s1
              | Inl ErrRouteNotFound \<Rightarrow> (Inl ErrUserOffline, s1)
              | Inl _ \<Rightarrow> (Inl ErrRouteRedis, s1)))"

definition DeliverStoredPost :: "df_env \<Rightarrow> int \<Rightarrow> post \<Rightarrow> df_node \<Rightarrow> (df_error + unit) \<times> df_node" where
  "DeliverStoredPost env messageID p s =
     (case claimPostEffects env messageID (nd_keys s) of
        (Inl e, keys) \<Rightarrow> (Inl e, s\<lparr>nd_keys := keys\<rparr>)
      | (Inr False, keys) \<Rightarrow> (Inr (), s\<lparr>nd_keys := keys\<rparr>)
      | (Inr True, keys) \<Rightarrow>
          (case (if po_is_group p then routeGroupMessage env messageID (po_from_id p) p (s\<lparr>nd_keys := keys\<rparr>)
                 else route_direct_message env messageID p (s\<lparr>nd_keys := keys\<rparr>)) of
             (Inr _, s1) \<Rightarrow> (Inr (), s1)
           | (Inl e, s1) \<Rightarrow> (Inl e, s1\<lparr>nd_keys := releasePostEffects env messageID (nd_keys s1)\<rparr>)))"

definition InplaceHandlePostMessage :: "df_env \<Rightarrow> post \<Rightarrow> df_node \<Rightarrow> (df_error + unit) \<times> df_node" where
  "InplaceHandlePostMessage env payload s =
     (case validatePostPayload payload of
        Inl e \<Rightarrow> (Inl e, s)
      | Inr p \<Rightarrow> send_response env (po_to_id p) (RspPost p) s)"

section \<open>Delivery of a recall\<close>

definition buildMessageRecallPushRequest :: "int list \<Rightarrow> recall_event \<Rightarrow> push_request" where
  "buildMessageRecallPushRequest targetUserIDs event =
     PushRecall \<lparr>rp_target_user_ids = targetUserIDs, rp_message_id = rv_message_id event,
       rp_conversation_id = (if rv_is_group event then rv_to_user_id event else rv_from_user_id event),
       rp_is_group = rv_is_group event, rp_operator_user_id = rv_operator_user_id event, rp_recalled_at = rv_recalled_at event\<rparr>"

fun recall_targets :: "int set \<Rightarrow> int list \<Rightarrow> int \<Rightarrow> int list" where
  "recall_targets seen [] operatorUserID = []"
| "recall_targets seen (targetID # targets) operatorUserID =
     (if targetID \<le> 0 \<or> targetID = operatorUserID \<or> targetID \<in> seen then recall_targets seen targets operatorUserID
      else targetID # recall_targets (insert targetID seen) targets operatorUserID)"

definition recallTargetsWithoutOperator :: "int list \<Rightarrow> int \<Rightarrow> int list" where
  "recallTargetsWithoutOperator targets operatorUserID = recall_targets {} targets operatorUserID"

definition buildRecallDelivery :: "int list \<Rightarrow> recall_event \<Rightarrow> df_delivery" where
  "buildRecallDelivery targetUserIDs event =
     (if length targetUserIDs = 1 then MessageRecallDelivery (hd targetUserIDs) (Some event)
      else MessageRecallBatchDelivery targetUserIDs (Some event))"

definition publishRecallDelivery :: "df_env \<Rightarrow> string \<Rightarrow> int list \<Rightarrow> recall_event \<Rightarrow> df_node \<Rightarrow> (df_error + unit) \<times> df_node" where
  "publishRecallDelivery env topic targetUserIDs event s =
     (if topic = [] \<or> targetUserIDs = [] then (Inr (), s)
      else on_world (PublishEnvelope env topic ENV_DF_RESPONSE (dc_delivery (de_codec env) (buildRecallDelivery targetUserIDs event))) s)"

text \<open>Unlike the delivery of messages, the loops of a recall end with the first failure.\<close>

fun recall_locally :: "df_env \<Rightarrow> bytes \<Rightarrow> (string \<rightharpoonup> string) \<Rightarrow> int list \<Rightarrow> df_node \<Rightarrow> (df_error + (string \<times> int) list) \<times> df_node" where
  "recall_locally env responseBytes routes [] s = (Inr [], s)"
| "recall_locally env responseBytes routes (targetID # targets) s =
     (case routes (itoa targetID) of
        None \<Rightarrow> recall_locally env responseBytes routes targets s
      | Some topic \<Rightarrow>
          if topic = [] then recall_locally env responseBytes routes targets s
          else if topic = currentContainerTopic env
          then (case on_world (RouteMessage env (itoa targetID) responseBytes) s of
                  (Inl e, s1) \<Rightarrow> (Inl e, s1)
                | (Inr _, s1) \<Rightarrow> recall_locally env responseBytes routes targets s1)
          else (case recall_locally env responseBytes routes targets s of
                  (Inl e, s1) \<Rightarrow> (Inl e, s1) | (Inr others, s1) \<Rightarrow> (Inr ((topic, targetID) # others), s1)))"

fun publish_recalls :: "df_env \<Rightarrow> recall_event \<Rightarrow> (string \<times> int) list \<Rightarrow> string list \<Rightarrow> df_node \<Rightarrow> (df_error + unit) \<times> df_node" where
  "publish_recalls env event targets [] s = (Inr (), s)"
| "publish_recalls env event targets (topic # topics) s =
     (case publishRecallDelivery env topic (targets_of topic targets) event s of
        (Inl e, s1) \<Rightarrow> (Inl e, s1)
      | (Inr _, s1) \<Rightarrow> publish_recalls env event targets topics s1)"

definition DeliverMessageRecall :: "df_env \<Rightarrow> recall_event \<Rightarrow> df_node \<Rightarrow> (df_error + unit) \<times> df_node" where
  "DeliverMessageRecall env event s =
     (if rv_result event \<noteq> MESSAGE_RECALL_OK \<or> rv_message_id event \<le> 0 then (Inl ErrInvalidRequest, s)
      else if rv_is_group event \<and> \<not> de_database_ok env then (Inl ErrDatabase, s)
      else
        (let targetIDs = recallTargetsWithoutOperator
               (if rv_is_group event then GetActiveGroupMemberIDsWithDB (rv_to_user_id event) (nd_db s) else [rv_to_user_id event])
               (rv_operator_user_id event)
         in if targetIDs = [] then (Inr (), s)
            else (case publishPushRequest env (buildMessageRecallPushRequest targetIDs event) s of
              (Inl e, s1) \<Rightarrow> (Inl e, s1)
            | (Inr _, s1) \<Rightarrow>
                (case GetContainersByConnections (de_lookup env) (de_now env) (map itoa targetIDs) (dw_redis (nd_world s1)) of
                   (Inl _, r) \<Rightarrow> (Inl ErrRouteRedis, s1\<lparr>nd_world := (nd_world s1)\<lparr>dw_redis := r\<rparr>\<rparr>)
                 | (Inr routes, r) \<Rightarrow>
                     (let s2 = s1\<lparr>nd_world := (nd_world s1)\<lparr>dw_redis := r\<rparr>\<rparr> in
                      case dc_response (de_codec env) (RspMessageRecall event) of
                        None \<Rightarrow> (Inl ErrMarshal, s2)
                      | Some responseBytes \<Rightarrow>
                          (case recall_locally env responseBytes routes targetIDs s2 of
                             (Inl e, s3) \<Rightarrow> (Inl e, s3)
                           | (Inr targets, s3) \<Rightarrow> publish_recalls env event targets (target_topics env targets) s3))))))"

end
