(* ===== verification/DF_Requests.thy ===== *)
theory DF_Requests
  imports DF_Posts
begin

text \<open>
  The handlers of the data forwarding service for clients' requests: \<^verbatim>\<open>request_guard.go\<close>, \<^verbatim>\<open>request_bridge.go\<close>,
  \<^verbatim>\<open>module_friend.go\<close>, \<^verbatim>\<open>module_relationships.go\<close>, \<^verbatim>\<open>module_storage.go\<close>, \<^verbatim>\<open>module_call.go\<close>, \<^verbatim>\<open>module_push.go\<close>,
  \<^verbatim>\<open>module_session.go\<close>, \<^verbatim>\<open>module_account_security.go\<close>, and \<^verbatim>\<open>messageHandler.go\<close> with the message handling of
  \<^verbatim>\<open>new_handlers.go\<close>. A handler gets the user of the connection and the token of the message.
\<close>

section \<open>Guards and publication\<close>

definition requirePositiveID :: "int \<Rightarrow> bool" where
  "requirePositiveID i \<longleftrightarrow> i > 0"

definition requireNonSelfID :: "int \<Rightarrow> int \<Rightarrow> bool" where
  "requireNonSelfID i fromID \<longleftrightarrow> i > 0 \<and> i \<noteq> fromID"

definition newFriendRequest :: "df_env \<Rightarrow> int \<Rightarrow> friend_payload \<Rightarrow> friend_request" where
  "newFriendRequest env targetUserID payload =
     \<lparr>fq_from_kafka_topic = currentContainerTopic env, fq_target_user_id = targetUserID, fq_payload = Some payload\<rparr>"

definition publishFriendRequest :: "df_env \<Rightarrow> friend_request \<Rightarrow> df_node \<Rightarrow> (df_error + unit) \<times> df_node" where
  "publishFriendRequest env req =
     on_world (PublishEnvelope env friendServiceTopic ENV_FRIEND_REQUEST (dc_friend (de_codec env) req))"

definition publishCallRequest :: "df_env \<Rightarrow> internal_request \<Rightarrow> df_node \<Rightarrow> (df_error + unit) \<times> df_node" where
  "publishCallRequest env req = on_world (PublishEnvelope env callServiceTopic ENV_CALL_REQUEST (dc_call (de_codec env) req))"

text \<open>The common shape: check the token, check the arguments, act.\<close>

definition guarded ::
  "df_env \<Rightarrow> int \<Rightarrow> string \<Rightarrow> bool \<Rightarrow> (df_node \<Rightarrow> (df_error + unit) \<times> df_node) \<Rightarrow> df_node \<Rightarrow> (df_error + unit) \<times> df_node" where
  "guarded env fromID jwt valid act s =
     (case authenticated env fromID jwt of
        Inl e \<Rightarrow> (Inl e, s)
      | Inr _ \<Rightarrow> if valid then act s else (Inl ErrInvalidRequest, s))"

definition forward_friend :: "df_env \<Rightarrow> int \<Rightarrow> friend_payload \<Rightarrow> df_node \<Rightarrow> (df_error + unit) \<times> df_node" where
  "forward_friend env fromID payload = publishFriendRequest env (newFriendRequest env fromID payload)"

definition forward_storage :: "df_env \<Rightarrow> int \<Rightarrow> storage_payload \<Rightarrow> df_node \<Rightarrow> (df_error + unit) \<times> df_node" where
  "forward_storage env fromID payload = publishStorageRequest env (newStorageRequest (currentContainerTopic env) fromID payload)"

section \<open>Contacts and groups\<close>

definition handleInsertContact :: "df_env \<Rightarrow> int \<Rightarrow> string \<Rightarrow> int \<Rightarrow> string \<Rightarrow> df_node \<Rightarrow> (df_error + unit) \<times> df_node" where
  "handleInsertContact env fromID jwt toInsertUserID message =
     guarded env fromID jwt (requirePositiveID toInsertUserID \<and> toInsertUserID \<noteq> fromID)
       (if IsMonitorID env toInsertUserID then handleMonitorAddContact env fromID
        else forward_friend env fromID (AddDirectFriend fromID toInsertUserID message))"

definition handleQueryContacts :: "df_env \<Rightarrow> int \<Rightarrow> string \<Rightarrow> df_node \<Rightarrow> (df_error + unit) \<times> df_node" where
  "handleQueryContacts env fromID jwt = guarded env fromID jwt True (forward_friend env fromID (QueryFriendList fromID))"

definition handleQueryGroup_df :: "df_env \<Rightarrow> int \<Rightarrow> string \<Rightarrow> int \<Rightarrow> bool \<Rightarrow> df_node \<Rightarrow> (df_error + unit) \<times> df_node" where
  "handleQueryGroup_df env fromID jwt toQueryGroupID clientNeedSave =
     guarded env fromID jwt (requirePositiveID toQueryGroupID)
       (forward_friend env fromID (QueryGroup fromID toQueryGroupID clientNeedSave))"

definition handleInsertGroup :: "df_env \<Rightarrow> int \<Rightarrow> string \<Rightarrow> int \<Rightarrow> string \<Rightarrow> df_node \<Rightarrow> (df_error + unit) \<times> df_node" where
  "handleInsertGroup env fromID jwt groupID groupName =
     guarded env fromID jwt (groupID > 0 \<and> TrimSpace groupName \<noteq> [])
       (forward_friend env fromID (CreateGroup fromID groupID groupName))"

definition handleInsertGroupUser :: "df_env \<Rightarrow> int \<Rightarrow> string \<Rightarrow> int \<Rightarrow> string \<Rightarrow> df_node \<Rightarrow> (df_error + unit) \<times> df_node" where
  "handleInsertGroupUser env fromID jwt targetGroupID message =
     guarded env fromID jwt (requirePositiveID targetGroupID)
       (forward_friend env fromID (AddGroupMember fromID targetGroupID message))"

definition handleQueryGroupMembers_df :: "df_env \<Rightarrow> int \<Rightarrow> string \<Rightarrow> int \<Rightarrow> df_node \<Rightarrow> (df_error + unit) \<times> df_node" where
  "handleQueryGroupMembers_df env fromID jwt targetGroupID =
     guarded env fromID jwt (requirePositiveID targetGroupID)
       (forward_friend env fromID (QueryGroupMembers fromID targetGroupID))"

definition handleQueryJoinedGroups_df :: "df_env \<Rightarrow> int \<Rightarrow> string \<Rightarrow> df_node \<Rightarrow> (df_error + unit) \<times> df_node" where
  "handleQueryJoinedGroups_df env fromID jwt = guarded env fromID jwt True (forward_friend env fromID (QueryJoinedGroups fromID))"

definition handleDeleteGroupUser :: "df_env \<Rightarrow> int \<Rightarrow> string \<Rightarrow> int \<Rightarrow> df_node \<Rightarrow> (df_error + unit) \<times> df_node" where
  "handleDeleteGroupUser env fromID jwt targetGroupID =
     guarded env fromID jwt (requirePositiveID targetGroupID)
       (forward_friend env fromID (RemoveGroupMember fromID targetGroupID fromID))"

definition handleUpdateAvatar :: "df_env \<Rightarrow> int \<Rightarrow> string \<Rightarrow> int \<Rightarrow> string \<Rightarrow> bool \<Rightarrow> df_node \<Rightarrow> (df_error + unit) \<times> df_node" where
  "handleUpdateAvatar env fromID jwt targetID avatarHash isGroup =
     guarded env fromID jwt (isGroup \<and> requirePositiveID targetID \<and> TrimSpace avatarHash \<noteq> [])
       (forward_friend env fromID (UpdateGroupAvatar fromID targetID avatarHash))"

definition handleDeleteContact :: "df_env \<Rightarrow> int \<Rightarrow> string \<Rightarrow> int \<Rightarrow> df_node \<Rightarrow> (df_error + unit) \<times> df_node" where
  "handleDeleteContact env fromID jwt toDeleteUserID =
     guarded env fromID jwt (requireNonSelfID toDeleteUserID fromID)
       (if IsMonitorID env toDeleteUserID then handleMonitorDeleteContact env fromID
        else forward_friend env fromID (RemoveDirectFriend fromID toDeleteUserID))"

definition refuse_monitor :: "df_env \<Rightarrow> int \<Rightarrow> string \<Rightarrow> df_node \<Rightarrow> (df_error + unit) \<times> df_node" where
  "refuse_monitor env fromID notice =
     sendMonitorWarning env fromID (if fromID \<noteq> AdminUserID then NTargetUserMissing else notice)"

definition handleUpdateContactAlias :: "df_env \<Rightarrow> int \<Rightarrow> string \<Rightarrow> int \<Rightarrow> string \<Rightarrow> df_node \<Rightarrow> (df_error + unit) \<times> df_node" where
  "handleUpdateContactAlias env fromID jwt targetUserID newAlias =
     guarded env fromID jwt (requirePositiveID targetUserID)
       (if IsMonitorID env targetUserID then refuse_monitor env fromID NMonitorNoAlias
        else forward_friend env fromID (UpdateFriendAlias fromID targetUserID newAlias))"

definition handleUpdateContactNotify :: "df_env \<Rightarrow> int \<Rightarrow> string \<Rightarrow> int \<Rightarrow> bool \<Rightarrow> df_node \<Rightarrow> (df_error + unit) \<times> df_node" where
  "handleUpdateContactNotify env fromID jwt targetUserID isNotify =
     guarded env fromID jwt (requirePositiveID targetUserID)
       (if IsMonitorID env targetUserID then refuse_monitor env fromID NMonitorNoNotify
        else forward_friend env fromID (UpdateFriendNotify fromID targetUserID isNotify))"

section \<open>Relationship requests and group management\<close>

definition friendDecision :: "int \<Rightarrow> request_decision option" where
  "friendDecision decision =
     (if decision = 1 then Some REQUEST_ACCEPT else if decision = 2 then Some REQUEST_REJECT
      else if decision = 3 then Some REQUEST_CANCEL else None)"

definition handleQueryFriendRequests_df :: "df_env \<Rightarrow> int \<Rightarrow> string \<Rightarrow> bool \<Rightarrow> df_node \<Rightarrow> (df_error + unit) \<times> df_node" where
  "handleQueryFriendRequests_df env fromID jwt includeOutgoing =
     guarded env fromID jwt True (forward_friend env fromID (QueryFriendRequests fromID includeOutgoing))"

text \<open>A decision is converted and checked together with the request's identifier.\<close>

definition forward_decision ::
  "df_env \<Rightarrow> int \<Rightarrow> string \<Rightarrow> int \<Rightarrow> int \<Rightarrow> (request_decision \<Rightarrow> friend_payload) \<Rightarrow> df_node \<Rightarrow> (df_error + unit) \<times> df_node" where
  "forward_decision env fromID jwt requestID decision payload =
     guarded env fromID jwt (requestID > 0 \<and> friendDecision decision \<noteq> None)
       (forward_friend env fromID (payload (the (friendDecision decision))))"

definition handleResolveFriendRequest_df :: "df_env \<Rightarrow> int \<Rightarrow> string \<Rightarrow> int \<Rightarrow> int \<Rightarrow> df_node \<Rightarrow> (df_error + unit) \<times> df_node" where
  "handleResolveFriendRequest_df env fromID jwt requestID decision =
     forward_decision env fromID jwt requestID decision (ResolveFriendRequest fromID requestID)"

definition handleQueryGroupJoinRequests_df :: "df_env \<Rightarrow> int \<Rightarrow> string \<Rightarrow> int \<Rightarrow> df_node \<Rightarrow> (df_error + unit) \<times> df_node" where
  "handleQueryGroupJoinRequests_df env fromID jwt targetGroupID =
     guarded env fromID jwt (targetGroupID > 0) (forward_friend env fromID (QueryGroupJoinRequests fromID targetGroupID))"

definition handleResolveGroupJoinRequest_df :: "df_env \<Rightarrow> int \<Rightarrow> string \<Rightarrow> int \<Rightarrow> int \<Rightarrow> df_node \<Rightarrow> (df_error + unit) \<times> df_node" where
  "handleResolveGroupJoinRequest_df env fromID jwt requestID decision =
     forward_decision env fromID jwt requestID decision (ResolveGroupJoinRequest fromID requestID)"

definition handleInviteGroupMember_df :: "df_env \<Rightarrow> int \<Rightarrow> string \<Rightarrow> int \<Rightarrow> int \<Rightarrow> string \<Rightarrow> df_node \<Rightarrow> (df_error + unit) \<times> df_node" where
  "handleInviteGroupMember_df env fromID jwt targetGroupID targetUserID message =
     guarded env fromID jwt (targetGroupID > 0 \<and> targetUserID > 0 \<and> targetUserID \<noteq> fromID)
       (forward_friend env fromID (InviteGroupMember fromID targetGroupID targetUserID message))"

definition handleQueryGroupInvitations_df :: "df_env \<Rightarrow> int \<Rightarrow> string \<Rightarrow> bool \<Rightarrow> df_node \<Rightarrow> (df_error + unit) \<times> df_node" where
  "handleQueryGroupInvitations_df env fromID jwt includeOutgoing =
     guarded env fromID jwt True (forward_friend env fromID (QueryGroupInvitations fromID includeOutgoing))"

definition handleResolveGroupInvitation_df :: "df_env \<Rightarrow> int \<Rightarrow> string \<Rightarrow> int \<Rightarrow> int \<Rightarrow> df_node \<Rightarrow> (df_error + unit) \<times> df_node" where
  "handleResolveGroupInvitation_df env fromID jwt invitationID decision =
     forward_decision env fromID jwt invitationID decision (ResolveGroupInvitation fromID invitationID)"

definition handleKickGroupMember_df :: "df_env \<Rightarrow> int \<Rightarrow> string \<Rightarrow> int \<Rightarrow> int \<Rightarrow> df_node \<Rightarrow> (df_error + unit) \<times> df_node" where
  "handleKickGroupMember_df env fromID jwt targetGroupID targetUserID =
     guarded env fromID jwt (targetGroupID > 0 \<and> targetUserID > 0 \<and> targetUserID \<noteq> fromID)
       (forward_friend env fromID (KickGroupMember fromID targetGroupID targetUserID))"

definition handleUpdateGroupMemberRole_df :: "df_env \<Rightarrow> int \<Rightarrow> string \<Rightarrow> int \<Rightarrow> int \<Rightarrow> string \<Rightarrow> df_node \<Rightarrow> (df_error + unit) \<times> df_node" where
  "handleUpdateGroupMemberRole_df env fromID jwt targetGroupID targetUserID role =
     guarded env fromID jwt (targetGroupID > 0 \<and> targetUserID > 0 \<and> (role = ''admin'' \<or> role = ''member''))
       (forward_friend env fromID (UpdateGroupMemberRole fromID targetGroupID targetUserID role))"

definition handleUpdateGroupName_df :: "df_env \<Rightarrow> int \<Rightarrow> string \<Rightarrow> int \<Rightarrow> string \<Rightarrow> df_node \<Rightarrow> (df_error + unit) \<times> df_node" where
  "handleUpdateGroupName_df env fromID jwt targetGroupID newGroupName =
     guarded env fromID jwt (targetGroupID > 0) (forward_friend env fromID (UpdateGroupName fromID targetGroupID newGroupName))"

definition handleTransferGroupOwner_df :: "df_env \<Rightarrow> int \<Rightarrow> string \<Rightarrow> int \<Rightarrow> int \<Rightarrow> df_node \<Rightarrow> (df_error + unit) \<times> df_node" where
  "handleTransferGroupOwner_df env fromID jwt targetGroupID targetUserID =
     guarded env fromID jwt (targetGroupID > 0 \<and> targetUserID > 0 \<and> targetUserID \<noteq> fromID)
       (forward_friend env fromID (TransferGroupOwner fromID targetGroupID targetUserID))"

section \<open>Messages and profiles\<close>

definition handleRecallMessage :: "df_env \<Rightarrow> int \<Rightarrow> string \<Rightarrow> int \<Rightarrow> df_node \<Rightarrow> (df_error + unit) \<times> df_node" where
  "handleRecallMessage env fromID jwt messageID =
     guarded env fromID jwt (messageID > 0) (forward_storage env fromID (RecallMessage messageID))"

definition handleQueryMessage :: "df_env \<Rightarrow> int \<Rightarrow> string \<Rightarrow> int \<Rightarrow> df_node \<Rightarrow> (df_error + unit) \<times> df_node" where
  "handleQueryMessage env fromID jwt messageID = guarded env fromID jwt True (forward_storage env fromID (QueryMessage messageID))"

definition validateSyncMessagesTarget :: "int \<Rightarrow> int \<Rightarrow> bool" where
  "validateSyncMessagesTarget fromID requestedUserID \<longleftrightarrow> \<not> (fromID \<le> 0 \<or> requestedUserID \<noteq> 0 \<and> requestedUserID \<noteq> fromID)"

definition handleQuerySyncMessages :: "df_env \<Rightarrow> int \<Rightarrow> string \<Rightarrow> query_sync_messages \<Rightarrow> df_node \<Rightarrow> (df_error + unit) \<times> df_node" where
  "handleQuerySyncMessages env fromID jwt q =
     guarded env fromID jwt (validateSyncMessagesTarget fromID (qs_to_user_id q))
       (forward_storage env fromID (QuerySyncMessages (q\<lparr>qs_to_user_id := fromID\<rparr>)))"

definition handleQueryUser :: "df_env \<Rightarrow> int \<Rightarrow> string \<Rightarrow> int \<Rightarrow> df_node \<Rightarrow> (df_error + unit) \<times> df_node" where
  "handleQueryUser env fromID jwt toQueryUserID =
     guarded env fromID jwt True
       (if IsMonitorID env toQueryUserID then handleMonitorQueryUser env fromID
        else forward_storage env fromID (QueryUser toQueryUserID))"

text \<open>The two updates of a profile name the user of the payload, not the user of the connection.\<close>

definition handleUpdateUserName :: "df_env \<Rightarrow> int \<Rightarrow> string \<Rightarrow> int \<Rightarrow> string \<Rightarrow> df_node \<Rightarrow> (df_error + unit) \<times> df_node" where
  "handleUpdateUserName env fromID jwt userID newUserName =
     guarded env fromID jwt True (forward_storage env fromID (UpdateUserName userID newUserName))"

definition handleUpdateUserAvatar :: "df_env \<Rightarrow> int \<Rightarrow> string \<Rightarrow> int \<Rightarrow> string \<Rightarrow> df_node \<Rightarrow> (df_error + unit) \<times> df_node" where
  "handleUpdateUserAvatar env fromID jwt userID newAvatarURL =
     guarded env fromID jwt True (forward_storage env fromID (UpdateUserAvatar userID newAvatarURL))"

section \<open>Calls and devices\<close>

definition handle_call_request :: "df_env \<Rightarrow> int \<Rightarrow> string \<Rightarrow> call_request_payload option \<Rightarrow> df_node \<Rightarrow> (df_error + unit) \<times> df_node" where
  "handle_call_request env fromID jwt payload =
     guarded env fromID jwt True
       (publishCallRequest env \<lparr>iq_from_kafka_topic = currentContainerTopic env, iq_user_id = fromID, iq_request = Some payload\<rparr>)"

definition handle_push_request :: "df_env \<Rightarrow> int \<Rightarrow> string \<Rightarrow> push_client_payload option \<Rightarrow> df_node \<Rightarrow> (df_error + unit) \<times> df_node" where
  "handle_push_request env fromID jwt payload =
     guarded env fromID jwt True (publishPushRequest env (PushClientCommand (currentContainerTopic env) fromID payload))"

section \<open>Sessions and passwords\<close>

record df_result =
  rs_code :: nat
  rs_response :: "df_response option"

definition no_result :: df_result where
  "no_result = \<lparr>rs_code = 0, rs_response = None\<rparr>"

definition logoutWarning :: "string \<Rightarrow> df_result" where
  "logoutWarning message = \<lparr>rs_code = 0, rs_response = Some (RspWarn message)\<rparr>"

definition handle_logout :: "df_env \<Rightarrow> int \<Rightarrow> string \<Rightarrow> int \<Rightarrow> df_result" where
  "handle_logout env fromID jwt scope =
     (if scope = 0 then \<lparr>rs_code = 1, rs_response = None\<rparr>
      else if scope \<noteq> 1 then logoutWarning NLogoutScopeUnsupported
      else if jwt = [] then logoutWarning NLogoutJwtFailed
      else (case de_revoke env fromID jwt of
        None \<Rightarrow> logoutWarning NLogoutAuthUnavailable
      | Some result \<Rightarrow>
          if result \<noteq> AUTH_OK then logoutWarning (if result = JWT_ERROR then NLogoutJwtFailed else NRevokeFailed)
          else \<lparr>rs_code = 1, rs_response = None\<rparr>))"

definition changePassword :: "df_env \<Rightarrow> int \<Rightarrow> string \<Rightarrow> string \<Rightarrow> string \<Rightarrow> df_response" where
  "changePassword env fromID jwt oldPassword newPassword =
     (let response = RspAccountSecurity ''change_password'' in
      if fromID \<le> 0 \<or> jwt = [] then response SECURITY_JWT_ERROR []
      else (case de_change_password env fromID jwt oldPassword newPassword of
        None \<Rightarrow> response SECURITY_SERVICE_ERROR []
      | Some (AUTH_OK, newJwt) \<Rightarrow> response SECURITY_OK newJwt
      | Some (PASSWORD_ERROR, _) \<Rightarrow> response SECURITY_OLD_PASSWORD_ERROR []
      | Some (JWT_ERROR, _) \<Rightarrow> response SECURITY_JWT_ERROR []
      | Some (PASSWORD_TOO_SHORT, _) \<Rightarrow> response SECURITY_PASSWORD_TOO_SHORT []
      | Some (PASSWORD_TOO_LONG, _) \<Rightarrow> response SECURITY_PASSWORD_TOO_LONG []
      | Some _ \<Rightarrow> response SECURITY_SERVICE_ERROR []))"

section \<open>Dispatch\<close>

text \<open>The context of a request: what it meets, the user of the connection and the token of the message.\<close>

record df_context =
  cx_env :: df_env
  cx_from :: int
  cx_jwt :: string

type_synonym df_handler = "(df_context, df_payload, df_node, df_error, df_result) oneof_handler"

fun df_payload_type :: "df_payload \<Rightarrow> string" where
  "df_payload_type (ReqLogin _ _) = ''Login''"
| "df_payload_type (ReqSignup _ _ _) = ''Signup''"
| "df_payload_type (ReqLogout _) = ''Logout''"
| "df_payload_type (ReqPost _) = ''Post''"
| "df_payload_type (ReqQueryUser _) = ''QueryUser''"
| "df_payload_type (ReqInsertContact _ _) = ''InsertContact''"
| "df_payload_type (ReqQueryGroup _ _) = ''QueryGroup''"
| "df_payload_type (ReqInsertGroup _ _) = ''InsertGroup''"
| "df_payload_type (ReqInsertGroupUser _ _) = ''InsertGroupUser''"
| "df_payload_type (ReqUpdateAvatar _ _ _) = ''UpdateAvatar''"
| "df_payload_type (ReqQueryMessage _) = ''QueryMessage''"
| "df_payload_type (ReqQuerySyncMessages _) = ''QuerySyncMessages''"
| "df_payload_type (ReqUpdateUserName _ _) = ''UpdateUserName''"
| "df_payload_type (ReqUpdateUserAvatar _ _) = ''UpdateUserAvatar''"
| "df_payload_type ReqQueryContacts = ''QueryContacts''"
| "df_payload_type (ReqDeleteContact _) = ''DeleteContact''"
| "df_payload_type (ReqUpdateContactAlias _ _) = ''UpdateContactAlias''"
| "df_payload_type (ReqUpdateContactNotify _ _) = ''UpdateContactNotify''"
| "df_payload_type (ReqQueryGroupMembers _) = ''QueryGroupMembers''"
| "df_payload_type (ReqDeleteGroupUser _) = ''DeleteGroupUser''"
| "df_payload_type ReqQueryJoinedGroups = ''QueryJoinedGroups''"
| "df_payload_type (ReqCall _) = ''CallRequest''"
| "df_payload_type (ReqPush _) = ''PushRequest''"
| "df_payload_type (ReqQueryFriendRequests _) = ''QueryFriendRequests''"
| "df_payload_type (ReqResolveFriendRequest _ _) = ''ResolveFriendRequest''"
| "df_payload_type (ReqQueryGroupJoinRequests _) = ''QueryGroupJoinRequests''"
| "df_payload_type (ReqResolveGroupJoinRequest _ _) = ''ResolveGroupJoinRequest''"
| "df_payload_type (ReqInviteGroupMember _ _ _) = ''InviteGroupMember''"
| "df_payload_type (ReqQueryGroupInvitations _) = ''QueryGroupInvitations''"
| "df_payload_type (ReqResolveGroupInvitation _ _) = ''ResolveGroupInvitation''"
| "df_payload_type (ReqKickGroupMember _ _) = ''KickGroupMember''"
| "df_payload_type (ReqUpdateGroupMemberRole _ _ _) = ''UpdateGroupMemberRole''"
| "df_payload_type (ReqUpdateGroupName _ _) = ''UpdateGroupName''"
| "df_payload_type (ReqTransferGroupOwner _ _) = ''TransferGroupOwner''"
| "df_payload_type (ReqChangePassword _ _) = ''ChangePassword''"
| "df_payload_type (ReqRecallMessage _) = ''RecallMessage''"

text \<open>What the handler registered for a type does with its payload; most reply through Kafka only.\<close>

definition replying :: "(df_error + unit) \<times> df_node \<Rightarrow> (df_error + df_result) \<times> df_node" where
  "replying r = (case r of (Inl e, s) \<Rightarrow> (Inl e, s) | (Inr _, s) \<Rightarrow> (Inr no_result, s))"

fun handle_df_payload :: "df_env \<Rightarrow> int \<Rightarrow> string \<Rightarrow> df_payload \<Rightarrow> df_node \<Rightarrow> (df_error + df_result) \<times> df_node" where
  "handle_df_payload env u jwt (ReqLogin _ _) s = (Inr no_result, s)"
| "handle_df_payload env u jwt (ReqSignup _ _ _) s = (Inr no_result, s)"
| "handle_df_payload env u jwt (ReqLogout scope) s = (Inr (handle_logout env u jwt scope), s)"
| "handle_df_payload env u jwt (ReqPost p) s = replying (handlePostMessage env u jwt p s)"
| "handle_df_payload env u jwt (ReqQueryUser i) s = replying (handleQueryUser env u jwt i s)"
| "handle_df_payload env u jwt (ReqInsertContact i m) s = replying (handleInsertContact env u jwt i m s)"
| "handle_df_payload env u jwt (ReqQueryGroup g save) s = replying (handleQueryGroup_df env u jwt g save s)"
| "handle_df_payload env u jwt (ReqInsertGroup g n) s = replying (handleInsertGroup env u jwt g n s)"
| "handle_df_payload env u jwt (ReqInsertGroupUser g m) s = replying (handleInsertGroupUser env u jwt g m s)"
| "handle_df_payload env u jwt (ReqUpdateAvatar i h is_group) s = replying (handleUpdateAvatar env u jwt i h is_group s)"
| "handle_df_payload env u jwt (ReqQueryMessage i) s = replying (handleQueryMessage env u jwt i s)"
| "handle_df_payload env u jwt (ReqQuerySyncMessages q) s = replying (handleQuerySyncMessages env u jwt q s)"
| "handle_df_payload env u jwt (ReqUpdateUserName i n) s = replying (handleUpdateUserName env u jwt i n s)"
| "handle_df_payload env u jwt (ReqUpdateUserAvatar i a) s = replying (handleUpdateUserAvatar env u jwt i a s)"
| "handle_df_payload env u jwt ReqQueryContacts s = replying (handleQueryContacts env u jwt s)"
| "handle_df_payload env u jwt (ReqDeleteContact i) s = replying (handleDeleteContact env u jwt i s)"
| "handle_df_payload env u jwt (ReqUpdateContactAlias i a) s = replying (handleUpdateContactAlias env u jwt i a s)"
| "handle_df_payload env u jwt (ReqUpdateContactNotify i b) s = replying (handleUpdateContactNotify env u jwt i b s)"
| "handle_df_payload env u jwt (ReqQueryGroupMembers g) s = replying (handleQueryGroupMembers_df env u jwt g s)"
| "handle_df_payload env u jwt (ReqDeleteGroupUser g) s = replying (handleDeleteGroupUser env u jwt g s)"
| "handle_df_payload env u jwt ReqQueryJoinedGroups s = replying (handleQueryJoinedGroups_df env u jwt s)"
| "handle_df_payload env u jwt (ReqCall c) s = replying (handle_call_request env u jwt c s)"
| "handle_df_payload env u jwt (ReqPush c) s = replying (handle_push_request env u jwt c s)"
| "handle_df_payload env u jwt (ReqQueryFriendRequests b) s = replying (handleQueryFriendRequests_df env u jwt b s)"
| "handle_df_payload env u jwt (ReqResolveFriendRequest i d) s = replying (handleResolveFriendRequest_df env u jwt i d s)"
| "handle_df_payload env u jwt (ReqQueryGroupJoinRequests g) s = replying (handleQueryGroupJoinRequests_df env u jwt g s)"
| "handle_df_payload env u jwt (ReqResolveGroupJoinRequest i d) s = replying (handleResolveGroupJoinRequest_df env u jwt i d s)"
| "handle_df_payload env u jwt (ReqInviteGroupMember g i m) s = replying (handleInviteGroupMember_df env u jwt g i m s)"
| "handle_df_payload env u jwt (ReqQueryGroupInvitations b) s = replying (handleQueryGroupInvitations_df env u jwt b s)"
| "handle_df_payload env u jwt (ReqResolveGroupInvitation i d) s = replying (handleResolveGroupInvitation_df env u jwt i d s)"
| "handle_df_payload env u jwt (ReqKickGroupMember g i) s = replying (handleKickGroupMember_df env u jwt g i s)"
| "handle_df_payload env u jwt (ReqUpdateGroupMemberRole g i r) s = replying (handleUpdateGroupMemberRole_df env u jwt g i r s)"
| "handle_df_payload env u jwt (ReqUpdateGroupName g n) s = replying (handleUpdateGroupName_df env u jwt g n s)"
| "handle_df_payload env u jwt (ReqTransferGroupOwner g i) s = replying (handleTransferGroupOwner_df env u jwt g i s)"
| "handle_df_payload env u jwt (ReqChangePassword old new) s =
     (Inr \<lparr>rs_code = 0, rs_response = Some (changePassword env u jwt old new)\<rparr>, s)"
| "handle_df_payload env u jwt (ReqRecallMessage i) s = replying (handleRecallMessage env u jwt i s)"

text \<open>
  \<^verbatim>\<open>dispatch.Register\<close> wraps a handler with the test of the payload's type, whose failure is an error. The
  modules are registered in the order of their files.
\<close>

definition registered :: "string \<Rightarrow> string \<times> df_handler" where
  "registered t = (t, \<lambda>cx p s. if df_payload_type p = t then handle_df_payload (cx_env cx) (cx_from cx) (cx_jwt cx) p s
                                else (Inl ErrInvalidRequest, s))"

definition registerAccountSecurityModule :: "string list" where
  "registerAccountSecurityModule = [''ChangePassword'']"

definition registerCallRequestModule :: "string list" where
  "registerCallRequestModule = [''CallRequest'']"

definition registerFriendRequestModules :: "string list" where
  "registerFriendRequestModules =
     [''InsertContact'', ''QueryContacts'', ''DeleteContact'', ''UpdateContactAlias'', ''UpdateContactNotify'', ''QueryGroup'',
      ''InsertGroup'', ''InsertGroupUser'', ''QueryGroupMembers'', ''QueryJoinedGroups'', ''DeleteGroupUser'', ''UpdateAvatar'']"

definition registerPostModule :: "string list" where
  "registerPostModule = [''Post'']"

definition registerPushRequestModule :: "string list" where
  "registerPushRequestModule = [''PushRequest'']"

definition registerRelationshipRequestModules :: "string list" where
  "registerRelationshipRequestModules =
     [''QueryFriendRequests'', ''ResolveFriendRequest'', ''QueryGroupJoinRequests'', ''ResolveGroupJoinRequest'', ''InviteGroupMember'',
      ''QueryGroupInvitations'', ''ResolveGroupInvitation'', ''KickGroupMember'', ''UpdateGroupMemberRole'', ''UpdateGroupName'',
      ''TransferGroupOwner'']"

definition registerSessionRequestModule :: "string list" where
  "registerSessionRequestModule = [''Logout'', ''Login'', ''Signup'']"

definition registerStorageRequestModules :: "string list" where
  "registerStorageRequestModules =
     [''QueryMessage'', ''QuerySyncMessages'', ''RecallMessage'', ''QueryUser'', ''UpdateUserName'', ''UpdateUserAvatar'']"

definition df_modules :: "(string \<times> df_handler) list" where
  "df_modules = map registered
     (registerAccountSecurityModule @ registerCallRequestModule @ registerFriendRequestModules @ registerPostModule @
      registerPushRequestModule @ registerRelationshipRequestModules @ registerSessionRequestModule @ registerStorageRequestModules)"

definition newDFRequestRouter :: "(string \<rightharpoonup> df_handler) option" where
  "newDFRequestRouter = register_module df_modules Map.empty"

text \<open>A router that cannot be built is a panic, \<open>None\<close>.\<close>

definition RequestMessageHandler :: "df_env \<Rightarrow> int \<Rightarrow> df_request \<Rightarrow> df_node \<Rightarrow> ((df_error + df_result) \<times> df_node) option" where
  "RequestMessageHandler env fromID message s =
     (case newDFRequestRouter of
        None \<Rightarrow> None
      | Some router \<Rightarrow> Some
          (case Dispatch df_payload_type router \<lparr>cx_env = env, cx_from = fromID, cx_jwt = dq_jwt message\<rparr> (dq_payload message) s of
             (Inr result, s1) \<Rightarrow> (Inr result, s1)
           | (Inl (HandlerError e), s1) \<Rightarrow> (Inl e, s1)
           | (Inl _, s1) \<Rightarrow> (Inr no_result, s1)))"

section \<open>Login and signup\<close>

text \<open>The response, the user to bind and whether the call failed.\<close>

definition HandleLoginMessage :: "df_env \<Rightarrow> string \<Rightarrow> string \<Rightarrow> string \<Rightarrow> df_response \<times> int \<times> bool" where
  "HandleLoginMessage env jwt account password =
     (case (if jwt = [] then de_login env account password [] else de_login env account [] jwt) of
        None \<Rightarrow> (RspLogin LOGIN_SVR_ERROR 0 [], -1, True)
      | Some (AUTH_OK, userID, newJwt) \<Rightarrow> (RspLogin LOGIN_OK userID newJwt, userID, False)
      | Some (ACCOUNT_NOT_EXIST, _) \<Rightarrow> (RspLogin LOGIN_ACCOUNT_NOT_EXIST 0 [], -1, False)
      | Some (PASSWORD_ERROR, _) \<Rightarrow> (RspLogin LOGIN_PASSWORD_ERROR 0 [], -1, False)
      | Some (JWT_ERROR, _) \<Rightarrow> (RspLogin LOGIN_JWT_ERROR 0 [], -1, False)
      | Some _ \<Rightarrow> (RspLogin LOGIN_SVR_ERROR 0 [], -1, False))"

definition HandleSignupMessage :: "df_env \<Rightarrow> string \<Rightarrow> string \<Rightarrow> string \<Rightarrow> df_response" where
  "HandleSignupMessage env account password userName =
     RspSignup (case de_signup env account password userName of
        Some AUTH_OK \<Rightarrow> SIGNUP_OK
      | Some ACCOUNT_EXIST \<Rightarrow> SIGNUP_ACCOUNT_EXIST
      | Some ACCOUNT_EMPTY \<Rightarrow> SIGNUP_ACCOUNT_EMPTY
      | Some PASSWORD_EMPTY \<Rightarrow> SIGNUP_PASSWORD_EMPTY
      | Some ACCOUNT_TOO_LONG \<Rightarrow> SIGNUP_ACCOUNT_TOO_LONG
      | _ \<Rightarrow> SIGNUP_SVR_ERROR)"

definition loginResponseAllowsBinding :: "df_response \<Rightarrow> int \<Rightarrow> bool" where
  "loginResponseAllowsBinding response userID =
     (case response of RspLogin result _ _ \<Rightarrow> result = LOGIN_OK \<and> userID > 0 | _ \<Rightarrow> False)"

section \<open>Messages of a connection\<close>

definition sendResponse :: "df_env \<Rightarrow> string \<Rightarrow> df_response \<Rightarrow> df_node \<Rightarrow> df_node" where
  "sendResponse env connectionID rsp s =
     (let cm = dw_manager (nd_world s);
          rspBytes = (case dc_response (de_codec env) rsp of None \<Rightarrow> [] | Some b \<Rightarrow> b)
      in case cm_objects cm connectionID of
           None \<Rightarrow> s
         | Some c \<Rightarrow> s\<lparr>nd_world := (nd_world s)\<lparr>dw_manager := snd (EnqueueMessage connectionID rspBytes c cm)\<rparr>\<rparr>)"

definition handleLogin :: "df_env \<Rightarrow> login_env \<Rightarrow> string \<Rightarrow> string \<Rightarrow> string \<Rightarrow> string \<Rightarrow> df_node \<Rightarrow> df_node" where
  "handleLogin env lenv connectionID jwt account password s =
     (case HandleLoginMessage env jwt account password of
        (rsp, realUserID, failed) \<Rightarrow>
          if failed \<or> \<not> loginResponseAllowsBinding rsp realUserID then sendResponse env connectionID rsp s
          else (case DF_Connections.Login (currentContainerTopic env) lenv connectionID (itoa realUserID) (nd_world s) of
                  (Inl _, w) \<Rightarrow> sendResponse env connectionID (RspLogin LOGIN_SVR_ERROR 0 []) (s\<lparr>nd_world := w\<rparr>)
                | (Inr _, w) \<Rightarrow> sendResponse env connectionID rsp (s\<lparr>nd_world := w\<rparr>)))"

text \<open>The flag tells whether the WebSocket is closed.\<close>

definition handleUnauthenticatedMessage :: "df_env \<Rightarrow> login_env \<Rightarrow> string \<Rightarrow> df_request \<Rightarrow> df_node \<Rightarrow> bool \<times> df_node" where
  "handleUnauthenticatedMessage env lenv connectionID message s =
     (case dq_payload message of
        Some (ReqLogin account password) \<Rightarrow> (False, handleLogin env lenv connectionID (dq_jwt message) account password s)
      | Some (ReqSignup account password userName) \<Rightarrow>
          (False, sendResponse env connectionID (HandleSignupMessage env account password userName) s)
      | Some (ReqLogout _) \<Rightarrow> (True, s)
      | _ \<Rightarrow> (False, sendResponse env connectionID RspRefused s))"

definition handleAuthenticatedMessage :: "df_env \<Rightarrow> string \<Rightarrow> string \<Rightarrow> df_request \<Rightarrow> df_node \<Rightarrow> (bool \<times> df_node) option" where
  "handleAuthenticatedMessage env connectionID connUserID message s =
     (case ParseInt64 connUserID of
        None \<Rightarrow> Some (False, s)
      | Some userID \<Rightarrow>
          (case RequestMessageHandler env userID message s of
             None \<Rightarrow> None
           | Some (Inl _, s1) \<Rightarrow> Some (False, s1)
           | Some (Inr res, s1) \<Rightarrow>
               Some (rs_code res = 1,
                     case rs_response res of None \<Rightarrow> s1 | Some rsp \<Rightarrow> sendResponse env connectionID rsp s1)))"

text \<open>
  One turn of \<^verbatim>\<open>readProcess\<close> with a frame of the client: \<open>parse\<close> is the decoding of a request. A closed WebSocket
  ends the loop, which removes the connection.
\<close>

definition readProcess ::
  "df_env \<Rightarrow> login_env \<Rightarrow> (bytes \<Rightarrow> df_request option) \<Rightarrow> redis_fault \<Rightarrow> string \<Rightarrow> bytes \<Rightarrow> df_node \<Rightarrow> df_node option" where
  "readProcess env lenv parse fault connectionID frame s =
     (if frame = [] then Some s
      else (case (parse frame, cm_objects (dw_manager (nd_world s)) connectionID) of
        (Some message, Some c) \<Rightarrow>
          (case (if cn_authenticated c then handleAuthenticatedMessage env connectionID (cn_user_id c) message s
                 else Some (handleUnauthenticatedMessage env lenv connectionID message s)) of
             None \<Rightarrow> None
           | Some (False, s1) \<Rightarrow> Some s1
           | Some (True, s1) \<Rightarrow>
               Some (s1\<lparr>nd_world := RemoveConnection (currentContainerTopic env) fault (de_now env) connectionID (nd_world s1)\<rparr>))
      | _ \<Rightarrow> Some s))"

text \<open>The reaction of \<^verbatim>\<open>refreshRouteLease\<close> to a renewal: the number of failures in a row and whether the connection is closed.\<close>

definition lease_renewal :: "nat \<Rightarrow> nat \<Rightarrow> session_error + unit \<Rightarrow> nat \<times> bool" where
  "lease_renewal grace consecutiveFailures result =
     (case result of
        Inr _ \<Rightarrow> (0, False)
      | Inl ErrSessionOwnershipLost \<Rightarrow> (consecutiveFailures, True)
      | Inl _ \<Rightarrow> (consecutiveFailures + 1, consecutiveFailures + 1 > grace))"

definition refreshRouteLease ::
  "df_env \<Rightarrow> redis_fault \<Rightarrow> nat \<Rightarrow> string \<Rightarrow> string \<Rightarrow> nat \<Rightarrow> df_world \<Rightarrow> nat \<times> df_world" where
  "refreshRouteLease env fault grace connectionID userID consecutiveFailures w =
     (case cm_objects (dw_manager w) connectionID of
        None \<Rightarrow> (consecutiveFailures, w)
      | Some c \<Rightarrow>
          if cn_closed c then (consecutiveFailures, w)
          else (case RefreshOwnedSessionAndRoute fault (de_now env) userID
                       \<lparr>sd_connection_id = connectionID, sd_container_id = currentContainerTopic env, sd_owner_token = cn_owner_token c\<rparr>
                       (cm_session_ttl (dw_manager w)) (cm_route_ttl (dw_manager w)) (dw_redis w) of
            (result, r) \<Rightarrow>
              (case lease_renewal grace consecutiveFailures result of
                 (n, closes) \<Rightarrow>
                   (n, w\<lparr>dw_redis := r, dw_manager := (if closes then Close connectionID (dw_manager w) else dw_manager w)\<rparr>))))"

section \<open>The router\<close>

lemma fst_registered [simp]: "fst (registered t) = t"
  by (simp add: registered_def)

lemma map_of_registered: "map_of (map registered ts) t = (if t \<in> set ts then Some (snd (registered t)) else None)"
  by (induction ts) (auto simp: registered_def)

lemma df_types_registered:
  "df_payload_type p \<in> set (registerAccountSecurityModule @ registerCallRequestModule @ registerFriendRequestModules @
     registerPostModule @ registerPushRequestModule @ registerRelationshipRequestModules @ registerSessionRequestModule @
     registerStorageRequestModules)"
  by (cases p) (simp_all add: registerAccountSecurityModule_def registerCallRequestModule_def registerFriendRequestModules_def
    registerPostModule_def registerPushRequestModule_def registerRelationshipRequestModules_def registerSessionRequestModule_def
    registerStorageRequestModules_def)

interpretation df: oneof_modules df_modules df_payload_type
  "\<lambda>cx. handle_df_payload (cx_env cx) (cx_from cx) (cx_jwt cx)"
proof
  show "distinct (map fst df_modules)"
    by (simp add: df_modules_def registerAccountSecurityModule_def registerCallRequestModule_def registerFriendRequestModules_def
      registerPostModule_def registerPushRequestModule_def registerRelationshipRequestModules_def registerSessionRequestModule_def
      registerStorageRequestModules_def)
next
  fix p cx s
  show "\<exists>h. map_of df_modules (df_payload_type p) = Some h \<and> h cx p s = handle_df_payload (cx_env cx) (cx_from cx) (cx_jwt cx) p s"
    unfolding df_modules_def map_of_registered if_P [OF df_types_registered] by (simp add: registered_def)
qed

lemma RequestMessageHandler_eq:
  "RequestMessageHandler env u message s =
     Some (case dq_payload message of None \<Rightarrow> (Inr no_result, s) | Some p \<Rightarrow> handle_df_payload env u (dq_jwt message) p s)"
  by (auto simp: RequestMessageHandler_def newDFRequestRouter_def df.router_built df.dispatched split: option.splits prod.splits sum.splits)

end
