(* ===== verification/DF_Request_Laws.thy ===== *)
theory DF_Request_Laws
  imports DF_Requests
begin

text \<open>
  What a client can cause. Everything a request publishes is a request to a service in the name of the
  connection's user, or a response on its way to that user's container, and needs a token that the
  authentication service has accepted for this user.
\<close>

section \<open>What is published\<close>

definition emits :: "(string \<times> bytes) set \<Rightarrow> df_node \<Rightarrow> df_node \<Rightarrow> bool" where
  "emits A s s' \<longleftrightarrow> (\<exists>new. dw_kafka (nd_world s') = dw_kafka (nd_world s) @ new \<and> set new \<subseteq> A)"

lemma emits_refl [simp, intro]: "emits A s s"
  by (simp add: emits_def)

lemma emits_trans: "emits A s s1 \<Longrightarrow> emits A s1 s2 \<Longrightarrow> emits A s s2"
  unfolding emits_def by (metis append.assoc le_sup_iff set_append)

lemma emits_mono: "emits A s s' \<Longrightarrow> A \<subseteq> B \<Longrightarrow> emits B s s'"
  unfolding emits_def by blast

text \<open>Changes of other parts of the state do not matter.\<close>

lemma emits_same: "dw_kafka (nd_world s1) = dw_kafka (nd_world s) \<Longrightarrow> dw_kafka (nd_world s2) = dw_kafka (nd_world s') \<Longrightarrow>
  emits A s s' \<Longrightarrow> emits A s1 s2"
  by (simp add: emits_def)

lemma emits_keys [simp]:
  "emits A (s\<lparr>nd_keys := k\<rparr>) s' = emits A s s'" "emits A s (s'\<lparr>nd_keys := k\<rparr>) = emits A s s'"
  "emits A (s\<lparr>nd_monitor_contact := b\<rparr>) s' = emits A s s'" "emits A s (s'\<lparr>nd_monitor_contact := b\<rparr>) = emits A s s'"
  "emits A s (s'\<lparr>nd_last_monitor := i\<rparr>) = emits A s s'" "emits A s (s'\<lparr>nd_db := db\<rparr>) = emits A s s'"
  by (simp_all add: emits_def)

definition route_records :: "df_env \<Rightarrow> (string \<times> bytes) set" where
  "route_records env = {(c, b). \<exists>rsp m. dc_response (de_codec env) rsp = Some m \<and> dc_envelope (de_codec env) ENV_DF_REQUEST m = Some b}"

definition envelope_records :: "df_env \<Rightarrow> string \<Rightarrow> envelope_type \<Rightarrow> bytes option \<Rightarrow> (string \<times> bytes) set" where
  "envelope_records env topic t payload = {x. \<exists>b. MarshalEnvelope env t payload = Some b \<and> x = (topic, b)}"

lemma PublishMessage_emits: "emits {(topic, m)} s (snd (on_world (PublishMessage env m topic) s))"
  by (auto simp: emits_def on_world_def PublishMessage_def split: prod.splits redis_fault.splits)

lemma PublishEnvelope_emits:
  "emits (envelope_records env topic t payload) s (snd (on_world (PublishEnvelope env topic t payload) s))"
proof (cases "MarshalEnvelope env t payload")
  case None
  then show ?thesis by (simp add: on_world_def PublishEnvelope_def)
next
  case (Some b)
  then have "on_world (PublishEnvelope env topic t payload) = on_world (PublishMessage env b topic)"
    by (simp add: PublishEnvelope_def [abs_def])
  then show ?thesis using PublishMessage_emits [of topic b s env] Some by (auto simp: envelope_records_def elim!: emits_mono)
qed

lemma routeLocally_kafka: "routeLocally u m w = (ok, w') \<Longrightarrow> dw_kafka w' = dw_kafka w"
  by (auto simp: routeLocally_def split: option.splits prod.splits sum.splits)

lemma RouteMessage_emits:
  assumes "dc_response (de_codec env) rsp = Some m"
  shows "emits (route_records env) s (snd (on_world (RouteMessage env u m) s))"
proof -
  have cross: "\<exists>new. dw_kafka (snd (routeCrossContainer env u c m w)) = dw_kafka w @ new \<and> set new \<subseteq> route_records env" for c w
    using assms
    by (auto simp: routeCrossContainer_def PublishMessage_def route_records_def
        split: prod.splits bool.splits option.splits redis_fault.splits dest!: routeLocally_kafka)
  obtain ok w1 where r: "routeLocally u m (nd_world s) = (ok, w1)" by fastforce
  obtain route rd where g: "GetContainerByConnection (de_route env u) (de_now env) u (dw_redis w1) = (route, rd)" by fastforce
  show ?thesis
  proof (cases ok)
    case True
    then show ?thesis using r routeLocally_kafka [OF r] by (simp add: emits_def on_world_def RouteMessage_def)
  next
    case False
    show ?thesis
    proof (cases route)
      case (Inl e)
      then show ?thesis using r g False routeLocally_kafka [OF r]
        by (cases e) (simp_all add: emits_def on_world_def RouteMessage_def)
    next
      case (Inr c)
      then show ?thesis using r g False routeLocally_kafka [OF r] cross [of c "w1\<lparr>dw_redis := rd\<rparr>"]
        by (auto simp: emits_def on_world_def RouteMessage_def split: prod.split)
    qed
  qed
qed

lemma send_response_emits: "emits (route_records env) s (snd (send_response env u rsp s))"
  using RouteMessage_emits by (auto simp: send_response_def split: option.split)

lemmas send_defs = sendMonitorWarning_def sendMonitorServerMessage_def sendPostAck_def

lemma emits_case_sum:
  assumes "emits A s (snd r)" "\<And>s1. emits A s s1 \<Longrightarrow> emits A s (snd (f s1))" "\<And>e s1. emits A s s1 \<Longrightarrow> emits A s (snd (g e s1))"
  shows "emits A s (snd (case r of (Inl e, s1) \<Rightarrow> g e s1 | (Inr x, s1) \<Rightarrow> f s1))"
  using assms by (cases r; cases "fst r") auto

section \<open>The virtual contact\<close>

lemma sendMonitorPostResult_emits: "emits (route_records env) s (snd (sendMonitorPostResult env u c i t s))"
proof -
  obtain r s1 where r: "send_response env u (RspPostAck i c) s = (r, s1)" by fastforce
  have "emits (route_records env) s s1" using send_response_emits [of env s u "RspPostAck i c"] r by simp
  then show ?thesis using send_response_emits emits_trans r by (fastforce simp: sendMonitorPostResult_def split: sum.split)
qed

lemma monitor_action_kafka:
  "dw_kafka (nd_world (snd (monitorConnectionStatus env s))) = dw_kafka (nd_world s)"
  "dw_kafka (nd_world (snd (monitorUserRoute env i s))) = dw_kafka (nd_world s)"
  "dw_kafka (nd_world (snd (monitorKickUser env i s))) = dw_kafka (nd_world s)"
  "dw_kafka (nd_world (snd (monitorUserSummary env i s))) = dw_kafka (nd_world s)"
  "dw_kafka (nd_world (snd (monitorGroupSummary env i s))) = dw_kafka (nd_world s)"
  "dw_kafka (nd_world (snd (monitorRelationshipRequests env i s))) = dw_kafka (nd_world s)"
  by (auto simp: monitorConnectionStatus_def monitorUserRoute_def monitorKickUser_def monitorUserSummary_def monitorGroupSummary_def
      monitorRelationshipRequests_def Let_def split: sum.split option.split prod.split)

lemma action_result_state [simp]: "snd (action_result name r) = snd r"
  by (cases r; cases "fst r") (auto simp: action_result_def)

lemma runNoArg_state: "\<lbrakk>P s; \<And>f. action = Some f \<Longrightarrow> P (snd (f s))\<rbrakk> \<Longrightarrow> P (snd (runNoArg name ws action s))"
  by (auto simp: runNoArg_def split: option.split)

lemma runUserAction_state:
  "\<lbrakk>P s; \<And>f i. action = Some f \<Longrightarrow> i > 0 \<Longrightarrow> (mutating \<longrightarrow> i \<noteq> AdminUserID \<and> \<not> IsMonitorID env i) \<Longrightarrow> P (snd (f i s))\<rbrakk>
   \<Longrightarrow> P (snd (runUserAction env name ws action mutating s))"
  by (auto simp: runUserAction_def split: option.split list.split)

text \<open>What a command does to the state: nothing, or what one of the actions does, on an admissible user.\<close>

lemma Execute_state:
  assumes "P s" "\<And>f. ac_status a = Some f \<Longrightarrow> P (snd (f s))" "\<And>f. ac_connections a = Some f \<Longrightarrow> P (snd (f s))"
    "\<And>f i. \<lbrakk>sender = AdminUserID; ac_route a = Some f \<or> ac_user a = Some f \<or> ac_group a = Some f \<or> ac_requests a = Some f; i > 0\<rbrakk> \<Longrightarrow> P (snd (f i s))"
    "\<And>f i. \<lbrakk>sender = AdminUserID; ac_kick a = Some f; i > 0; i \<noteq> AdminUserID; \<not> IsMonitorID env i\<rbrakk> \<Longrightarrow> P (snd (f i s))"
  shows "P (snd (Execute env a sender input s))"
proof (cases "sender = AdminUserID \<and> Fields (TrimSpace input) \<noteq> []")
  case False
  then show ?thesis using assms(1) by (auto simp: Execute_def)
next
  case True
  then obtain field rest where f: "Fields (TrimSpace input) = field # rest" by (cases "Fields (TrimSpace input)") auto
  have u: "P (snd (runUserAction env name (field # rest) action False s))"
    if "action = ac_route a \<or> action = ac_user a \<or> action = ac_group a \<or> action = ac_requests a" for name action
    using runUserAction_state [of P s action False env name "field # rest"] assms(1,4) that True by metis
  have k: "P (snd (runUserAction env name (field # rest) (ac_kick a) True s))" for name
    using runUserAction_state [of P s "ac_kick a" True env name "field # rest"] assms(1,5) True by metis
  have n: "P (snd (runNoArg name (field # rest) (ac_status a) s))" "P (snd (runNoArg name (field # rest) (ac_connections a) s))" for name
    using runNoArg_state [of P s] assms(1-3) by metis+
  show ?thesis using True u k n assms(1) by (simp add: Execute_def f Let_def)
qed

lemma Execute_kafka:
  "dw_kafka (nd_world (snd (Execute env (monitorExecutor env) sender input s))) = dw_kafka (nd_world s)"
  by (rule Execute_state [where P = "\<lambda>s'. dw_kafka (nd_world s') = dw_kafka (nd_world s)"])
    (auto simp: monitorExecutor_def monitor_action_kafka)

lemma sendMonitorWarning_emits: "emits (route_records env) s (snd (sendMonitorWarning env u t s))"
  by (simp add: sendMonitorWarning_def send_response_emits)

lemma handleMonitorPost_emits: "emits (route_records env) s (snd (handleMonitorPost env u p s))"
proof -
  let ?R = "route_records env"
  obtain c p1 where e: "ensurePostClientMessageID env p = (c, p1)" by fastforce
  have after: "emits ?R s (snd (sendMonitorPostResult env u c i t s'))" "emits ?R s (snd (sendMonitorWarning env u t s'))"
    if "dw_kafka (nd_world s') = dw_kafka (nd_world s)" for i t s'
    using that emits_same [OF _ refl sendMonitorPostResult_emits] emits_same [OF _ refl sendMonitorWarning_emits] by metis+
  show ?thesis
  proof (cases "claimMonitorCommand env u c (nd_keys s)")
    case (Pair claim keys)
    let ?s = "s\<lparr>nd_keys := keys\<rparr>"
    obtain name outcome s1 where x: "Execute env (monitorExecutor env) u (po_msg p1) ?s = ((name, outcome), s1)"
      by (metis surj_pair)
    have k: "dw_kafka (nd_world s1) = dw_kafka (nd_world s)" using Execute_kafka [of env u "po_msg p1" ?s] x by simp
    have warn: "emits ?R s (snd (sendMonitorWarning env u t s))" for t by (rule sendMonitorWarning_emits)
    show ?thesis
      using Pair e x k after warn
      by (auto simp: handleMonitorPost_def Let_def split: sum.splits option.splits prod.splits bool.splits exec_error.splits)
  qed
qed

lemma monitor_contact_emits:
  "emits (route_records env) s (snd (handleMonitorAddContact env u s))"
  "emits (route_records env) s (snd (handleMonitorDeleteContact env u s))"
  "emits (route_records env) s (snd (handleMonitorQueryUser env u s))"
  "emits (route_records env) s (snd (refuse_monitor env u t s))"
  using send_response_emits [of env s] emits_same [OF _ refl send_response_emits]
  by (auto simp: handleMonitorAddContact_def handleMonitorDeleteContact_def handleMonitorQueryUser_def refuse_monitor_def
      setMonitorContact_def send_defs split: redis_fault.split)

section \<open>Requests in the name of a user\<close>

fun friend_actor :: "friend_payload \<Rightarrow> int" where
  "friend_actor (AddDirectFriend a _ _) = a"
| "friend_actor (QueryFriendList a) = a"
| "friend_actor (RemoveDirectFriend a _) = a"
| "friend_actor (UpdateFriendAlias a _ _) = a"
| "friend_actor (UpdateFriendNotify a _ _) = a"
| "friend_actor (CreateGroup a _ _) = a"
| "friend_actor (QueryGroup a _ _) = a"
| "friend_actor (AddGroupMember a _ _) = a"
| "friend_actor (UpdateGroupAvatar a _ _) = a"
| "friend_actor (QueryGroupMembers a _) = a"
| "friend_actor (RemoveGroupMember a _ _) = a"
| "friend_actor (QueryJoinedGroups a) = a"
| "friend_actor (QueryFriendRequests a _) = a"
| "friend_actor (ResolveFriendRequest a _ _) = a"
| "friend_actor (QueryGroupJoinRequests a _) = a"
| "friend_actor (ResolveGroupJoinRequest a _ _) = a"
| "friend_actor (InviteGroupMember a _ _ _) = a"
| "friend_actor (QueryGroupInvitations a _) = a"
| "friend_actor (ResolveGroupInvitation a _ _) = a"
| "friend_actor (KickGroupMember a _ _) = a"
| "friend_actor (UpdateGroupMemberRole a _ _ _) = a"
| "friend_actor (UpdateGroupName a _ _) = a"
| "friend_actor (TransferGroupOwner a _ _) = a"

text \<open>A stored message names its sender, a synchronisation its user; the updates of a profile are the exception.\<close>

fun storage_own :: "int \<Rightarrow> storage_payload \<Rightarrow> bool" where
  "storage_own u (StoreNewMessage m) \<longleftrightarrow> sn_from_user_id m = u"
| "storage_own u (QuerySyncMessages q) \<longleftrightarrow> qs_to_user_id q = u"
| "storage_own u _ \<longleftrightarrow> True"

definition friend_records :: "df_env \<Rightarrow> int \<Rightarrow> (string \<times> bytes) set" where
  "friend_records env u = {x. \<exists>p. friend_actor p = u \<and>
     x \<in> envelope_records env friendServiceTopic ENV_FRIEND_REQUEST (dc_friend (de_codec env) (newFriendRequest env u p))}"

definition storage_records :: "df_env \<Rightarrow> int \<Rightarrow> (string \<times> bytes) set" where
  "storage_records env u = {x. \<exists>p. storage_own u p \<and>
     x \<in> envelope_records env storageServiceTopic ENV_STORAGE_REQUEST
           (dc_storage (de_codec env) (newStorageRequest (currentContainerTopic env) u p))}"

definition call_records :: "df_env \<Rightarrow> int \<Rightarrow> (string \<times> bytes) set" where
  "call_records env u = {x. \<exists>p. x \<in> envelope_records env callServiceTopic ENV_CALL_REQUEST
     (dc_call (de_codec env) \<lparr>iq_from_kafka_topic = currentContainerTopic env, iq_user_id = u, iq_request = Some p\<rparr>)}"

definition push_records :: "df_env \<Rightarrow> int \<Rightarrow> (string \<times> bytes) set" where
  "push_records env u = {x. \<exists>p. x \<in> envelope_records env pushServiceTopic ENV_PUSH_REQUEST
     (dc_push (de_codec env) (PushClientCommand (currentContainerTopic env) u p))}"

definition own_records :: "df_env \<Rightarrow> int \<Rightarrow> (string \<times> bytes) set" where
  "own_records env u = friend_records env u \<union> storage_records env u \<union> call_records env u \<union> push_records env u \<union> route_records env"

lemma own_route_emits: "emits (route_records env) s s' \<Longrightarrow> emits (own_records env u) s s'"
  by (erule emits_mono) (auto simp: own_records_def)

lemma forward_friend_emits: "friend_actor p = u \<Longrightarrow> emits (own_records env u) s (snd (forward_friend env u p s))"
  unfolding forward_friend_def publishFriendRequest_def
  by (rule emits_mono [OF PublishEnvelope_emits]) (auto simp: own_records_def friend_records_def)

lemma forward_storage_emits: "storage_own u p \<Longrightarrow> emits (own_records env u) s (snd (forward_storage env u p s))"
  unfolding forward_storage_def publishStorageRequest_def
  by (rule emits_mono [OF PublishEnvelope_emits]) (auto simp: own_records_def storage_records_def)

lemma forward_call_emits:
  "emits (own_records env u) s
     (snd (publishCallRequest env \<lparr>iq_from_kafka_topic = currentContainerTopic env, iq_user_id = u, iq_request = Some p\<rparr> s))"
  unfolding publishCallRequest_def by (rule emits_mono [OF PublishEnvelope_emits]) (auto simp: own_records_def call_records_def)

lemma forward_push_emits: "emits (own_records env u) s (snd (publishPushRequest env (PushClientCommand (currentContainerTopic env) u p) s))"
  unfolding publishPushRequest_def by (rule emits_mono [OF PublishEnvelope_emits]) (auto simp: own_records_def push_records_def)

lemma guarded_emits: "(\<And>s. emits A s (snd (act s))) \<Longrightarrow> emits A s (snd (guarded env u jwt valid act s))"
  by (auto simp: guarded_def split: sum.split)

lemma validatePostPayload_keeps: "validatePostPayload p = Inr p' \<Longrightarrow> po_from_id p' = po_from_id p"
  by (auto simp: validatePostPayload_def split: if_splits)

lemma ensurePostClientMessageID_keeps: "ensurePostClientMessageID env p = (c, p') \<Longrightarrow> p' = p\<lparr>po_client_message_id := c\<rparr>"
  by (auto simp: ensurePostClientMessageID_def Let_def split: if_splits)

lemma sendMessageToStorage_emits: "emits (own_records env (po_from_id p)) s (snd (sendMessageToStorage env p s))"
  using forward_storage_emits [of "po_from_id p" _ env s]
  by (simp add: sendMessageToStorage_def buildStoreNewMessageStorageRequest_def forward_storage_def)

lemma store_claimed_post_emits:
  assumes "po_from_id p = u" shows "emits (own_records env u) s (snd (store_claimed_post env u c p s))"
proof (cases "claimPost env (de_claim env) u c (nd_keys s)")
  case (Pair claim keys)
  let ?s = "s\<lparr>nd_keys := keys\<rparr>"
  obtain r s1 where r: "sendMessageToStorage env p ?s = (r, s1)" by fastforce
  have "emits (own_records env u) ?s s1" using sendMessageToStorage_emits [of env p ?s] r assms by simp
  moreover have "emits (own_records env u) ?s (snd (sendPostAck env u i c ?s))" for i
    unfolding sendPostAck_def by (rule own_route_emits [OF send_response_emits])
  ultimately show ?thesis using Pair r by (auto simp: store_claimed_post_def Let_def split: sum.split)
qed

lemma handlePostMessage_emits: "emits (own_records env u) s (snd (handlePostMessage env u jwt p s))"
proof (cases "\<exists>x p0. authenticated env u jwt = Inr x \<and> validatePostPayload (p\<lparr>po_from_id := u\<rparr>) = Inr p0")
  case True
  then obtain x p0 where a: "authenticated env u jwt = Inr x" "validatePostPayload (p\<lparr>po_from_id := u\<rparr>) = Inr p0" by blast
  obtain c p1 where e: "ensurePostClientMessageID env p0 = (c, p1)" by fastforce
  have "po_from_id p1 = u" using validatePostPayload_keeps [OF a(2)] ensurePostClientMessageID_keeps [OF e] by simp
  then show ?thesis using a e store_claimed_post_emits own_route_emits [OF handleMonitorPost_emits]
    by (auto simp: handlePostMessage_def)
qed (auto simp: handlePostMessage_def split: sum.split)

lemma replying_state [simp]: "snd (replying r) = snd r"
  by (cases r; cases "fst r") (auto simp: replying_def)

lemmas contact_handlers = handleInsertContact_def handleQueryContacts_def handleQueryGroup_df_def handleInsertGroup_def
  handleInsertGroupUser_def handleQueryGroupMembers_df_def handleQueryJoinedGroups_df_def handleDeleteGroupUser_def
  handleUpdateAvatar_def handleDeleteContact_def handleUpdateContactAlias_def handleUpdateContactNotify_def

lemmas relationship_handlers = handleQueryFriendRequests_df_def handleResolveFriendRequest_df_def handleQueryGroupJoinRequests_df_def
  handleResolveGroupJoinRequest_df_def handleInviteGroupMember_df_def handleQueryGroupInvitations_df_def
  handleResolveGroupInvitation_df_def handleKickGroupMember_df_def handleUpdateGroupMemberRole_df_def handleUpdateGroupName_df_def
  handleTransferGroupOwner_df_def forward_decision_def

lemmas storage_handlers = handleRecallMessage_def handleQueryMessage_def handleQuerySyncMessages_def handleQueryUser_def
  handleUpdateUserName_def handleUpdateUserAvatar_def handle_call_request_def handle_push_request_def

lemmas own_emits = forward_friend_emits forward_storage_emits forward_call_emits forward_push_emits
  monitor_contact_emits [THEN own_route_emits] handlePostMessage_emits

lemma handle_df_payload_emits: "emits (own_records env u) s (snd (handle_df_payload env u jwt p s))"
  by (cases p) (auto simp: contact_handlers relationship_handlers storage_handlers intro!: guarded_emits own_emits)

lemma guarded_unauthenticated:
  "authenticated env u jwt \<noteq> Inr () \<Longrightarrow> snd (guarded env u jwt valid act s) = s"
  by (auto simp: guarded_def split: sum.split)

lemma handle_df_payload_unauthenticated:
  "authenticated env u jwt \<noteq> Inr () \<Longrightarrow> snd (handle_df_payload env u jwt p s) = s"
  by (cases p) (auto simp: contact_handlers relationship_handlers storage_handlers guarded_unauthenticated handlePostMessage_def
    split: sum.split)

lemma authenticated_iff: "authenticated env u jwt = Inr () \<longleftrightarrow> jwt \<noteq> [] \<and> de_check_jwt env u jwt = Some AUTH_OK"
  by (auto simp: authenticated_def split: option.split)

end
