(* ===== verification/DF_Guarantees.thy ===== *)
theory DF_Guarantees
  imports DF_Request_Laws DF_Laws Storage_Laws Auth_Laws
begin

text \<open>
  Guarantees of the data forwarding service for its clients' messages, with their witnesses on a sample
  container, and the composition of its requests with the authentication and storage services.
\<close>

section \<open>A sample container\<close>

definition sample_codec :: df_codec where
  "sample_codec = \<lparr>dc_response = \<lambda>_. Some ''r'', dc_request = \<lambda>_. Some ''q'', dc_friend = \<lambda>_. Some ''f'', dc_storage = \<lambda>_. Some ''s'',
     dc_call = \<lambda>_. Some ''c'', dc_push = \<lambda>_. Some ''p'', dc_delivery = \<lambda>_. Some ''d'', dc_envelope = \<lambda>_ b. Some b,
     dc_post = \<lambda>_. ''post'', dc_sha256hex = id, dc_command = \<lambda>_ t. t, dc_parse_command = \<lambda>_. None\<rparr>"

definition sample_df_env :: "instant \<Rightarrow> df_env" where
  "sample_df_env t = \<lparr>de_codec = sample_codec, de_hostname = ''A'', de_now = t, de_monitor_id = [], de_monitor_name = [], de_monitor_avatar = [],
     de_check_jwt = \<lambda>_ _. Some AUTH_OK, de_login = \<lambda>_ _ _. Some (AUTH_OK, 7, ''t''), de_signup = \<lambda>_ _ _. None, de_revoke = \<lambda>_ _. None,
     de_change_password = \<lambda>_ _ _ _. None, de_kafka = \<lambda>_. NoFault, de_route = \<lambda>_. NoFault, de_lookup = NoFault,
     de_claim = [(NoFault, t, NoFault, t)], de_release = (NoFault, NoFault), de_effects = NoFault, de_effects_release = NoFault,
     de_complete = NoFault, de_contact = NoFault, de_command = (NoFault, NoFault, NoFault), de_action = (NoFault, NoFault, NoFault),
     de_database_ok = True, de_status = [], de_error_text = [], de_map_order = id\<rparr>"

definition sample_node :: df_node where
  "sample_node = \<lparr>nd_world = view ''A'' sample_connected, nd_keys = Map.empty, nd_monitor_contact = False, nd_db = sample_chatted,
     nd_last_monitor = 0\<rparr>"

section \<open>Requests are authenticated\<close>

text \<open>
  What the handling of a message may do: nothing without an accepted token. A logout and a change of the
  password are decided by the authentication service and leave the node alone.
\<close>

lemma RequestMessageHandler_authenticated:
  "\<exists>result s'. RequestMessageHandler env u message s = Some (result, s') \<and> emits (own_records env u) s s' \<and>
    (s' \<noteq> s \<longrightarrow> dq_jwt message \<noteq> [] \<and> de_check_jwt env u (dq_jwt message) = Some AUTH_OK)"
proof (cases "dq_payload message")
  case None
  then show ?thesis by (simp add: RequestMessageHandler_eq)
next
  case (Some p)
  obtain result s' where r: "handle_df_payload env u (dq_jwt message) p s = (result, s')" by fastforce
  have "s' = s" if "authenticated env u (dq_jwt message) \<noteq> Inr ()"
    using handle_df_payload_unauthenticated [OF that, of p s] r by simp
  then have "s' \<noteq> s \<longrightarrow> dq_jwt message \<noteq> [] \<and> de_check_jwt env u (dq_jwt message) = Some AUTH_OK"
    using authenticated_iff by blast
  moreover have "emits (own_records env u) s s'" using handle_df_payload_emits [of env u s "dq_jwt message" p] r by simp
  ultimately show ?thesis using Some r by (auto simp: RequestMessageHandler_eq)
qed

lemma handle_df_payload_result:
  assumes "handle_df_payload env u jwt p s = (Inr res, s1)"
  shows "res = no_result \<or> s1 = s \<and>
    ((\<exists>scope. p = ReqLogout scope \<and> res = handle_logout env u jwt scope) \<or> (\<exists>old new. p = ReqChangePassword old new \<and> rs_code res = 0))"
  using assms by (cases p) (auto simp: replying_def split: prod.splits sum.splits)

lemma RequestMessageHandler_result:
  assumes "RequestMessageHandler env u message s = Some (Inr res, s1)"
  shows "res = no_result \<or> s1 = s \<and>
    ((\<exists>scope. dq_payload message = Some (ReqLogout scope) \<and> res = handle_logout env u (dq_jwt message) scope) \<or>
     (\<exists>old new. dq_payload message = Some (ReqChangePassword old new) \<and> rs_code res = 0))"
  using assms handle_df_payload_result [of env u "dq_jwt message"]
  by (auto simp: RequestMessageHandler_eq split: option.splits)

lemma RevokeSessions_valid:
  "fst (RevokeSessions lib aenv u t db db) = AUTH_OK \<Longrightarrow>
   t \<noteq> [] \<and> (\<exists>user. GetUserByID u db = Some user \<and> valid_for lib (ae_now aenv) t (us_jwt_key user) u (us_account user))"
  using authenticateUser_Inl [of lib aenv u t db] GetUserByID_id [of u db]
  by (auto simp: RevokeSessions_def authenticateUser_Inr split: sum.splits)

text \<open>Nothing of another connection of the container or of another user changes.\<close>

definition only_own :: "string \<Rightarrow> string \<Rightarrow> df_node \<Rightarrow> df_node \<Rightarrow> bool" where
  "only_own i user s s' \<longleftrightarrow> dw_kafka (nd_world s') = dw_kafka (nd_world s) \<and> nd_keys s' = nd_keys s \<and> nd_db s' = nd_db s \<and>
     nd_monitor_contact s' = nd_monitor_contact s \<and>
     (\<forall>j. j \<noteq> i \<longrightarrow> cm_objects (dw_manager (nd_world s')) j = cm_objects (dw_manager (nd_world s)) j) \<and>
     (\<forall>v. v \<noteq> user \<longrightarrow> cm_users (dw_manager (nd_world s')) v = cm_users (dw_manager (nd_world s)) v \<and>
        sr_sessions (dw_redis (nd_world s')) v = sr_sessions (dw_redis (nd_world s)) v \<and>
        sr_leases (dw_redis (nd_world s')) v = sr_leases (dw_redis (nd_world s)) v \<and>
        sr_mapping (dw_redis (nd_world s')) v = sr_mapping (dw_redis (nd_world s)) v)"

lemma removeOwned_other:
  assumes "v \<noteq> user"
  shows "sr_sessions (snd (RemoveOwnedSessionAndRoute fault now user d r)) v = sr_sessions r v"
    "sr_leases (snd (RemoveOwnedSessionAndRoute fault now user d r)) v = sr_leases r v"
    "sr_mapping (snd (RemoveOwnedSessionAndRoute fault now user d r)) v = sr_mapping r v"
proof -
  have srem: "sr_sessions (srem c u r) = sr_sessions r" "sr_leases (srem c u r) = sr_leases r" "sr_mapping (srem c u r) = sr_mapping r" for c u r
    by (simp_all add: srem_def)
  have "sr_sessions (removeOwnedSessionAndRouteScript now user d r) v = sr_sessions r v"
    "sr_leases (removeOwnedSessionAndRouteScript now user d r) v = sr_leases r v"
    "sr_mapping (removeOwnedSessionAndRouteScript now user d r) v = sr_mapping r v"
    using assms by (simp_all add: removeOwnedSessionAndRouteScript_def Let_def srem)
  then show "sr_sessions (snd (RemoveOwnedSessionAndRoute fault now user d r)) v = sr_sessions r v"
    "sr_leases (snd (RemoveOwnedSessionAndRoute fault now user d r)) v = sr_leases r v"
    "sr_mapping (snd (RemoveOwnedSessionAndRoute fault now user d r)) v = sr_mapping r v"
    by (cases fault; simp add: RemoveOwnedSessionAndRoute_def redis_call_def)+
qed

lemma detach_other:
  assumes "detachConnection i cm = (Some (c, b), cm')"
  shows "cm_objects cm i = Some c" "cm_objects cm' = cm_objects cm" "v \<noteq> cn_user_id c \<Longrightarrow> cm_users cm' v = cm_users cm v"
  using assms by (auto simp: detachConnection_def GetConnectionByID_def Let_def split: option.splits if_splits)

lemma Close_other: "j \<noteq> i \<Longrightarrow> cm_objects (Close i cm) j = cm_objects cm j" "cm_users (Close i cm) = cm_users cm"
  by (simp_all add: Close_def update_object_def)

lemma RemoveConnection_only_own:
  assumes "cm_objects (dw_manager (nd_world s)) i = Some c"
  shows "only_own i (cn_user_id c) s (s\<lparr>nd_world := RemoveConnection container fault now i (nd_world s)\<rparr>)"
proof (cases "detachConnection i (dw_manager (nd_world s))")
  case (Pair d cm)
  show ?thesis
  proof (cases d)
    case None
    then show ?thesis using Pair by (simp add: only_own_def RemoveConnection_def)
  next
    case (Some cb)
    then obtain c' b where d: "detachConnection i (dw_manager (nd_world s)) = (Some (c', b), cm)" using Pair by (cases cb) simp
    with detach_other(1) [OF d] assms have "c' = c" by simp
    with d show ?thesis using detach_other(2,3) [OF d]
      by (simp add: only_own_def RemoveConnection_def cleanupOwnedSession_def Let_def removeOwned_other Close_other)
  qed
qed

text \<open>
  C27. A frame on a logged-in connection, with the authentication service of this development behind the
  checks of its tokens: its handling never panics, and everything it publishes is a friend, storage, call
  or push request in the name of the connection's user or a response for a user. If its message does not
  carry a token that is valid under the user's current signing key, then it changes nothing, neither Kafka
  nor Redis nor a connection, with two exceptions: a logout and a change of the password are answered at
  this connection, and a logout of the current connection, which needs no token, removes this connection
  and the session it owns, and touches nothing of another connection or another user.
\<close>

theorem client_requests_authenticated:
  assumes check: "\<And>v t. de_check_jwt env v t = Some (fst (CheckJwt lib aenv v t db))"
    and revoke: "\<And>v t. de_revoke env v t = Some (fst (RevokeSessions lib aenv v t db db))"
    and c: "cm_objects (dw_manager (nd_world s)) i = Some c" "cn_authenticated c" "ParseInt64 (cn_user_id c) = Some u"
  shows "\<exists>s'. readProcess env lenv parse fault i frame s = Some s' \<and> emits (own_records env u) s s' \<and>
    (s' = s \<or> (\<exists>message. parse frame = Some message \<and>
       (dq_jwt message \<noteq> [] \<and> (\<exists>user. GetUserByID u db = Some user \<and>
           valid_for lib (ae_now aenv) (dq_jwt message) (us_jwt_key user) u (us_account user)) \<or>
        (\<exists>rsp. s' = sendResponse env i rsp s \<and>
           ((\<exists>scope. dq_payload message = Some (ReqLogout scope)) \<or> (\<exists>old new. dq_payload message = Some (ReqChangePassword old new)))) \<or>
        dq_payload message = Some (ReqLogout 0) \<and> only_own i (cn_user_id c) s s' \<and>
          s' = s\<lparr>nd_world := RemoveConnection (currentContainerTopic env) fault (de_now env) i (nd_world s)\<rparr>)))"
proof (cases "frame = [] \<or> parse frame = None")
  case True
  then show ?thesis by (auto simp: readProcess_def)
next
  case False
  then obtain message where m: "frame \<noteq> []" "parse frame = Some message" by auto
  let ?jwt = "dq_jwt message" and ?gone = "\<lambda>s. s\<lparr>nd_world := RemoveConnection (currentContainerTopic env) fault (de_now env) i (nd_world s)\<rparr>"
  let ?valid = "?jwt \<noteq> [] \<and> (\<exists>user. GetUserByID u db = Some user \<and> valid_for lib (ae_now aenv) ?jwt (us_jwt_key user) u (us_account user))"
  obtain result s1 where r: "RequestMessageHandler env u message s = Some (result, s1)" "emits (own_records env u) s s1"
    "s1 \<noteq> s \<longrightarrow> ?jwt \<noteq> [] \<and> de_check_jwt env u ?jwt = Some AUTH_OK"
    using RequestMessageHandler_authenticated by blast
  have valid: "s1 \<noteq> s \<longrightarrow> ?valid" using r(3) check [of u ?jwt] by (auto simp: CheckJwt_def split: if_splits option.splits)
  have send: "emits A s (sendResponse env i rsp s)" for A rsp by (simp add: emits_def sendResponse_def Let_def split: option.split)
  have gone: "emits A s (?gone s)" for A using RemoveConnection_only_own [OF c(1)] by (simp add: emits_def only_own_def)
  show ?thesis
  proof (cases result)
    case (Inl e)
    then show ?thesis using m c r valid by (auto simp: readProcess_def handleAuthenticatedMessage_def)
  next
    case (Inr res)
    then have "RequestMessageHandler env u message s = Some (Inr res, s1)" using r(1) by simp
    from RequestMessageHandler_result [OF this] consider "res = no_result"
      | scope where "s1 = s" "dq_payload message = Some (ReqLogout scope)" "res = handle_logout env u ?jwt scope"
      | old new where "s1 = s" "dq_payload message = Some (ReqChangePassword old new)" "rs_code res = 0" by blast
    then show ?thesis
    proof cases
      case 1
      then show ?thesis using m c r valid Inr by (auto simp: readProcess_def handleAuthenticatedMessage_def no_result_def)
    next
      case (2 scope)
      have "?valid" if "scope \<noteq> 0" "rs_code res = 1"
        using that 2(3) revoke [of u ?jwt] RevokeSessions_valid [of lib aenv u ?jwt db]
        by (auto simp: handle_logout_def logoutWarning_def split: if_splits option.splits)
      moreover have "rs_response res = None" if "rs_code res = 1"
        using that 2(3) by (auto simp: handle_logout_def logoutWarning_def split: if_splits option.splits)
      moreover have turn: "readProcess env lenv parse fault i frame s =
          Some (let s2 = (case rs_response res of None \<Rightarrow> s | Some rsp \<Rightarrow> sendResponse env i rsp s) in if rs_code res = 1 then ?gone s2 else s2)"
        using m c r(1) Inr 2(1) by (cases "rs_code res = 1") (simp_all add: readProcess_def handleAuthenticatedMessage_def Let_def)
      ultimately show ?thesis
        using m(2) 2(2) send gone RemoveConnection_only_own [OF c(1)]
        by (cases "rs_code res = 1"; cases "rs_response res"; cases "scope = 0") (simp_all add: turn, blast+)
    next
      case (3 old new)
      then show ?thesis using m c r Inr send by (auto simp: readProcess_def handleAuthenticatedMessage_def split: option.split)
    qed
  qed
qed

section \<open>The name of another user\<close>

lemma RequestMessageHandler_storage:
  assumes "jwt \<noteq> []" "de_check_jwt env u jwt = Some AUTH_OK" "de_kafka env storageServiceTopic = NoFault"
    and "MarshalEnvelope env ENV_STORAGE_REQUEST (dc_storage (de_codec env) req) = Some b"
    and "req = newStorageRequest (currentContainerTopic env) u p"
  shows "guarded env u jwt True (forward_storage env u p) s =
    (Inr (), s\<lparr>nd_world := (nd_world s)\<lparr>dw_kafka := dw_kafka (nd_world s) @ [(storageServiceTopic, b)]\<rparr>\<rparr>)"
proof -
  have "authenticated env u jwt = Inr ()" using assms(1,2) by (simp add: authenticated_iff)
  then show ?thesis using assms(3-5)
    by (simp add: guarded_def forward_storage_def publishStorageRequest_def on_world_def PublishEnvelope_def PublishMessage_def)
qed

text \<open>
  C32. The update of a user name is forwarded with the user that the payload names, and the storage service applies it
  to that user without comparing it with the sender: any user with a valid token can rename any other user.
\<close>

theorem rename_other_user:
  assumes "jwt \<noteq> []" "de_check_jwt env u jwt = Some AUTH_OK" "de_kafka env storageServiceTopic = NoFault"
    and "MarshalEnvelope env ENV_STORAGE_REQUEST
      (dc_storage (de_codec env) (newStorageRequest (currentContainerTopic env) u (UpdateUserName v name))) = Some b"
    and "GetUserByID v db = Some victim" "v \<noteq> u"
  shows "\<exists>s' resp tx. RequestMessageHandler env u \<lparr>dq_jwt = jwt, dq_payload = Some (ReqUpdateUserName v name)\<rparr> s = Some (Inr no_result, s') \<and>
    dw_kafka (nd_world s') = dw_kafka (nd_world s) @ [(storageServiceTopic, b)] \<and>
    storage_run faults clock (newStorageRequest (currentContainerTopic env) u (UpdateUserName v name)) c db = (Inr resp, tx) \<and>
    sp_result resp = STORAGE_OK \<and>
    GetUserByID v (tx_db tx) = Some (victim\<lparr>us_name := name, us_update_time := NowTime clock\<rparr>)"
proof -
  let ?req = "newStorageRequest (currentContainerTopic env) u (UpdateUserName v name)"
  have id: "us_id victim = v" using assms(5) by (auto simp: GetUserByID_def dest: sql_first_SomeD)
  have "GetUserByID v (UpdateUserNameByIDWithDB clock v name db) = Some (victim\<lparr>us_name := name, us_update_time := NowTime clock\<rparr>)"
    unfolding UpdateUserNameByIDWithDB_def by (subst GetUserByID_update) (simp_all add: assms(5) id)
  then have "\<exists>resp tx. storage_run faults clock ?req c db = (Inr resp, tx) \<and> sp_result resp = STORAGE_OK \<and>
      GetUserByID v (tx_db tx) = Some (victim\<lparr>us_name := name, us_update_time := NowTime clock\<rparr>)"
    by (simp add: storage_run_handle newStorageRequest_def storage_handle_def handleUpdateUserNameWithDB_def update_profile_def
        storage_respond_def Let_def)
  then show ?thesis
    using RequestMessageHandler_storage [OF assms(1-4) refl, of s] by (auto simp: RequestMessageHandler_eq handleUpdateUserName_def replying_def)
qed

section \<open>Witnesses\<close>

definition sample_checked_env :: df_env where
  "sample_checked_env = (sample_df_env 0)\<lparr>de_check_jwt := \<lambda>v t. Some (fst (CheckJwt sample_libs sample_auth_env v t sample_users)),
     de_revoke := \<lambda>v t. Some (fst (RevokeSessions sample_libs sample_auth_env v t sample_users sample_users))\<rparr>"

text \<open>The sample node with user 7 logged in at its connection.\<close>

definition sample_logged_in :: df_node where
  "sample_logged_in = sample_node\<lparr>nd_world := (nd_world sample_node)\<lparr>dw_manager := sample_bound\<rparr>\<rparr>"

lemma sample_logged_in_connection:
  "\<exists>c. cm_objects (dw_manager (nd_world sample_logged_in)) ''x'' = Some c \<and> cn_authenticated c \<and> ParseInt64 (cn_user_id c) = Some 7"
proof -
  have "ParseInt64 ''7'' = Some 7" by code_simp
  then show ?thesis
    by (simp add: sample_logged_in_def sample_bound_def commitLocalLogin_def may_login_def GetConnectionByID_def AddConnection_def
        NewConnectionManager_def update_object_def MarkAuthenticated_def Let_def)
qed

text \<open>A query without a token changes nothing.\<close>

theorem client_requests_authenticated_witness:
  "readProcess sample_checked_env (calm_login ''t'' 0 0 0) (\<lambda>_. Some \<lparr>dq_jwt = [], dq_payload = Some ReqQueryContacts\<rparr>) NoFault ''x'' ''frame''
     sample_logged_in = Some sample_logged_in"
proof -
  have e: "de_check_jwt sample_checked_env v t = Some (fst (CheckJwt sample_libs sample_auth_env v t sample_users))"
    "de_revoke sample_checked_env v t = Some (fst (RevokeSessions sample_libs sample_auth_env v t sample_users sample_users))" for v t
    by (simp_all add: sample_checked_env_def)
  obtain c where c: "cm_objects (dw_manager (nd_world sample_logged_in)) ''x'' = Some c" "cn_authenticated c" "ParseInt64 (cn_user_id c) = Some 7"
    using sample_logged_in_connection by blast
  from client_requests_authenticated [OF e c, of "calm_login ''t'' 0 0 0" "\<lambda>_. Some \<lparr>dq_jwt = [], dq_payload = Some ReqQueryContacts\<rparr>" NoFault "''frame''"]
  show ?thesis by simp
qed

theorem rename_other_user_witness:
  "\<exists>s' resp tx. RequestMessageHandler (sample_df_env 0) 2 \<lparr>dq_jwt = ''t'', dq_payload = Some (ReqUpdateUserName 1 ''Eve'')\<rparr> sample_node = Some (Inr no_result, s') \<and>
     storage_run no_faults 0 (newStorageRequest ''A'' 2 (UpdateUserName 1 ''Eve'')) no_caches sample_users = (Inr resp, tx) \<and>
     GetUserByID 1 (tx_db tx) = Some (sample_user\<lparr>us_name := ''Eve'', us_update_time := NowTime 0\<rparr>)"
proof -
  have e: "de_check_jwt (sample_df_env 0) 2 ''t'' = Some AUTH_OK" "de_kafka (sample_df_env 0) storageServiceTopic = NoFault"
    "currentContainerTopic (sample_df_env 0) = ''A''" "MarshalEnvelope (sample_df_env 0) ENV_STORAGE_REQUEST (dc_storage (de_codec (sample_df_env 0)) q) = Some ''s''" for q
    by (simp_all add: sample_df_env_def currentContainerTopic_def MarshalEnvelope_def sample_codec_def)
  have "GetUserByID 1 sample_users = Some sample_user" by (simp add: GetUserByID_def sample_users_def sample_user_fields)
  from rename_other_user [OF _ e(1,2,4) this, of "''Eve''" sample_node no_faults 0 no_caches] show ?thesis
    unfolding e(3) by auto
qed

end
