(* ===== verification/DF_Binding.thy ===== *)
theory DF_Binding
  imports DF_Guarantees
begin

text \<open>
  How a connection gets its user: the only message of an unauthenticated connection that binds it is a login
  that the authentication service has accepted, and it binds the user of that answer.
\<close>

section \<open>Connections without a user\<close>

text \<open>A login during which nobody else acts.\<close>

definition undisturbed :: "login_env \<Rightarrow> bool" where
  "undisturbed lenv \<longleftrightarrow> (\<forall>a\<in>set (ln_attempts lenv). snd (snd a) = id) \<and> ln_before_claim lenv = id \<and> ln_before_commit lenv = id"

definition kicks_only :: "df_world \<Rightarrow> df_world \<Rightarrow> bool" where
  "kicks_only w w' \<longleftrightarrow> (\<exists>new. dw_kafka w' = dw_kafka w @ new \<and> fst ` set new \<subseteq> {''user-kick-topic''})"

lemma acquire_keeps:
  assumes "acquireDistributedUserLock u tok attempts w = (r, w')" "\<forall>a\<in>set attempts. snd (snd a) = id"
  shows "dw_manager w' = dw_manager w \<and> dw_kafka w' = dw_kafka w"
  using assms
proof (induction u tok attempts w rule: acquireDistributedUserLock.induct)
  case (2 u tok fault now others attempts w)
  then show ?case by (auto split: prod.splits sum.splits bool.splits)
qed simp

lemma kick_previous_keeps: "kick_previous env u prev w = (r, w') \<Longrightarrow> dw_manager w' = dw_manager w \<and> kicks_only w w'"
  by (auto simp: kick_previous_def kicks_only_def split: option.splits if_splits prod.splits sum.splits)

lemma claim_and_commit_keeps:
  assumes "claim_and_commit env u d w = (r, w')" "ln_before_commit env = id"
  shows "dw_kafka w' = dw_kafka w \<and> (dw_manager w' = dw_manager w \<or>
    (\<exists>old cm. commitLocalLogin (sd_connection_id d) u (sd_owner_token d) (dw_manager w) = (Inr old, cm) \<and> dw_manager w' = close_old old cm))"
  using assms
  by (auto simp: claim_and_commit_def cleanupOwnedSession_def close_old_def Let_def split: prod.splits sum.splits if_splits option.splits)

lemma Login_undisturbed:
  assumes "DF_Connections.Login c lenv i raw w = (r, w')" "undisturbed lenv"
  shows "kicks_only w w' \<and> (dw_manager w' = dw_manager w \<or>
    (\<exists>n tok old cm. ParseInt64 (TrimSpace raw) = Some n \<and> n > 0 \<and> commitLocalLogin i (itoa n) tok (dw_manager w) = (Inr old, cm) \<and>
       dw_manager w' = close_old old cm))"
proof (cases "(\<exists>n. ParseInt64 (TrimSpace raw) = Some n \<and> n > 0) \<and> ln_local_lock lenv \<and> ln_before lenv \<and> may_login i (dw_manager w) \<and>
    ln_token lenv \<noteq> None")
  case False
  then have "w' = w" using assms(1) by (auto simp: DF_Connections.Login_def split: option.splits if_splits)
  then show ?thesis by (simp add: kicks_only_def)
next
  case True
  then obtain n tok where ok: "ParseInt64 (TrimSpace raw) = Some n" "n > 0" "ln_local_lock lenv" "ln_before lenv" "may_login i (dw_manager w)"
    "ln_token lenv = Some tok" by auto
  let ?d = "\<lparr>sd_connection_id = i, sd_container_id = c, sd_owner_token = tok\<rparr>"
  obtain r1 w1 where acq: "acquireDistributedUserLock (itoa n) tok (ln_attempts lenv) w = (r1, w1)" by fastforce
  have a: "dw_manager w1 = dw_manager w" "dw_kafka w1 = dw_kafka w"
    using acquire_keeps [OF acq] assms(2) by (auto simp: undisturbed_def)
  obtain r2 w2 where lk: "login_locked lenv (itoa n) ?d w1 = (r2, w2)" by fastforce
  have b: "kicks_only w1 w2 \<and> (dw_manager w2 = dw_manager w1 \<or>
      (\<exists>old cm. commitLocalLogin i (itoa n) tok (dw_manager w1) = (Inr old, cm) \<and> dw_manager w2 = close_old old cm))"
  proof (cases "GetUserSession (fst (ln_read lenv)) (snd (ln_read lenv)) (itoa n) (dw_redis w1)")
    case (Inl e)
    then show ?thesis using lk by (auto simp: login_locked_def kicks_only_def)
  next
    case (Inr prev)
    obtain r3 w3 where k: "kick_previous lenv (itoa n) prev w1 = (r3, w3)" by fastforce
    note keeps = kick_previous_keeps [OF k]
    show ?thesis
    proof (cases r3)
      case (Inl e)
      then show ?thesis using lk Inr k keeps by (auto simp: login_locked_def)
    next
      case (Inr x)
      then have "claim_and_commit lenv (itoa n) ?d w3 = (r2, w2)"
        using lk k \<open>GetUserSession _ _ _ _ = Inr prev\<close> assms(2) by (auto simp: login_locked_def undisturbed_def)
      from claim_and_commit_keeps [OF this] assms(2) have "dw_kafka w2 = dw_kafka w3" "dw_manager w2 = dw_manager w3 \<or>
          (\<exists>old cm. commitLocalLogin i (itoa n) tok (dw_manager w3) = (Inr old, cm) \<and> dw_manager w2 = close_old old cm)"
        by (auto simp: undisturbed_def)
      with keeps show ?thesis by (simp add: kicks_only_def)
    qed
  qed
  have "(kicks_only w w' \<and> dw_manager w' = dw_manager w) \<or> (dw_kafka w' = dw_kafka w2 \<and> dw_manager w' = dw_manager w2)"
    using assms(1) ok acq lk a by (cases r1) (auto simp: DF_Connections.Login_def kicks_only_def)
  then show ?thesis
  proof
    assume "dw_kafka w' = dw_kafka w2 \<and> dw_manager w' = dw_manager w2"
    with b a have k: "kicks_only w w'" "dw_manager w' = dw_manager w \<or>
        (\<exists>old cm. commitLocalLogin i (itoa n) tok (dw_manager w) = (Inr old, cm) \<and> dw_manager w' = close_old old cm)"
      by (simp_all add: kicks_only_def)
    with ok(1,2) show ?thesis by blast
  qed simp
qed

lemma commit_object:
  assumes "commitLocalLogin i u tok cm = (Inr old, cm')" "cm_objects (close_old old cm') i = Some o'"
  shows "cn_user_id o' = u"
  using assms
  by (auto simp: commitLocalLogin_def Let_def update_object_def close_old_def Close_def MarkAuthenticated_def may_login_def
      GetConnectionByID_def split: option.splits if_splits)

lemma sendResponse_keeps:
  "nd_keys (sendResponse env i rsp s) = nd_keys s" "nd_db (sendResponse env i rsp s) = nd_db s"
  "nd_monitor_contact (sendResponse env i rsp s) = nd_monitor_contact s" "dw_kafka (nd_world (sendResponse env i rsp s)) = dw_kafka (nd_world s)"
  by (simp_all add: sendResponse_def Let_def split: option.split)

lemma sendResponse_object:
  "cm_objects (dw_manager (nd_world (sendResponse env i rsp s))) i = Some o' \<Longrightarrow>
   \<exists>o''. cm_objects (dw_manager (nd_world s)) i = Some o'' \<and> cn_user_id o' = cn_user_id o'' \<and> cn_authenticated o' = cn_authenticated o''"
  by (auto simp: sendResponse_def Let_def EnqueueMessage_def update_object_def split: option.splits if_splits)

lemma HandleLoginMessage_ok:
  assumes "HandleLoginMessage env jwt account password = (rsp, v, False)" "loginResponseAllowsBinding rsp v"
  shows "v > 0 \<and> (\<exists>t. (if jwt = [] then de_login env account password [] else de_login env account [] jwt) = Some (AUTH_OK, v, t))"
  using assms unfolding HandleLoginMessage_def loginResponseAllowsBinding_def
  by (auto split: option.splits prod.splits auth_result.splits)

lemma handleLogin_binds:
  assumes "undisturbed lenv" "cm_objects (dw_manager (nd_world s)) i = Some o'" "\<not> cn_authenticated o'"
    and s': "s' = handleLogin env lenv i jwt account password s"
  shows "nd_keys s' = nd_keys s \<and> nd_db s' = nd_db s \<and> nd_monitor_contact s' = nd_monitor_contact s \<and> kicks_only (nd_world s) (nd_world s') \<and>
    (\<forall>o''. cm_objects (dw_manager (nd_world s')) i = Some o'' \<and> cn_authenticated o'' \<longrightarrow>
      (\<exists>v t n. (if jwt = [] then de_login env account password [] else de_login env account [] jwt) = Some (AUTH_OK, v, t) \<and> v > 0 \<and>
         ParseInt64 (TrimSpace (itoa v)) = Some n \<and> cn_user_id o'' = itoa n))"
proof -
  obtain rsp v failed where h: "HandleLoginMessage env jwt account password = (rsp, v, failed)" by (metis surj_pair)
  show ?thesis
  proof (cases "failed \<or> \<not> loginResponseAllowsBinding rsp v")
    case True
    then have e: "s' = sendResponse env i rsp s" using s' h by (simp add: handleLogin_def)
    have "\<not> cn_authenticated o''" if "cm_objects (dw_manager (nd_world s')) i = Some o''" for o''
      using sendResponse_object [of env i rsp s o''] that e assms(2,3) by auto
    then show ?thesis using e by (auto simp: sendResponse_keeps kicks_only_def)
  next
    case False
    then have ok: "v > 0" "\<exists>t. (if jwt = [] then de_login env account password [] else de_login env account [] jwt) = Some (AUTH_OK, v, t)"
      using HandleLoginMessage_ok [of env jwt account password rsp v] h by auto
    obtain r w where l: "DF_Connections.Login (currentContainerTopic env) lenv i (itoa v) (nd_world s) = (r, w)" by fastforce
    note d = Login_undisturbed [OF l assms(1)]
    obtain rsp' where e: "s' = sendResponse env i rsp' (s\<lparr>nd_world := w\<rparr>)"
      using s' h l False by (cases r) (auto simp: handleLogin_def)
    have "\<exists>n. ParseInt64 (TrimSpace (itoa v)) = Some n \<and> cn_user_id o'' = itoa n"
      if o'': "cm_objects (dw_manager (nd_world s')) i = Some o''" "cn_authenticated o''" for o''
    proof -
      obtain p where p: "cm_objects (dw_manager w) i = Some p" "cn_user_id o'' = cn_user_id p" "cn_authenticated p"
        using sendResponse_object [of env i rsp' "s\<lparr>nd_world := w\<rparr>" o''] o'' e by auto
      then have "dw_manager w \<noteq> dw_manager (nd_world s)" using assms(2,3) by auto
      then show ?thesis using d p commit_object by fastforce
    qed
    then show ?thesis using ok d e by (auto simp: sendResponse_keeps kicks_only_def)
  qed
qed

lemma itoa_parse_unique:
  assumes "v > 0" "ParseInt64 (TrimSpace (itoa v)) = Some n" shows "n = v"
proof (cases "v < 2 ^ 63")
  case True
  then show ?thesis using ParseInt64_itoa [OF assms(1) True] assms(2) by simp
next
  case False
  have i: "itoa v = itoa_nat (nat v)" using assms(1) by (simp add: itoa_def)
  obtain x xs where cons: "itoa_nat (nat v) = x # xs" by (metis itoa_nat_nonempty list.exhaust)
  have edge: "\<not> space_edge c \<and> c \<noteq> CHR ''-'' \<and> c \<noteq> CHR ''+''" if "is_digit c" for c
    using that by (auto simp: space_edge_def is_digit_def)
  have digits: "\<forall>c\<in>set (itoa_nat (nat v)). is_digit c" by (rule itoa_nat_digits)
  have "TrimSpace (itoa v) = x # xs" unfolding i cons using digits edge cons by (intro TrimSpace_plain) auto
  moreover have "int (decimal (x # xs)) = v" using assms(1) decimal_itoa_nat [of "nat v"] cons by simp
  moreover have "x \<noteq> CHR ''-''" "x \<noteq> CHR ''+''" using digits edge cons by auto
  ultimately show ?thesis using assms(2) False by (auto simp: ParseInt64_def Let_def split: if_splits)
qed

text \<open>What a message of an unauthenticated connection may do: \<open>user\<close> is the user of a successful login.\<close>

definition accepted_login :: "df_env \<Rightarrow> df_request \<Rightarrow> string \<Rightarrow> bool" where
  "accepted_login env message user \<longleftrightarrow>
     (\<exists>account password v t. dq_payload message = Some (ReqLogin account password) \<and>
        de_login env account (if dq_jwt message = [] then password else []) (dq_jwt message) = Some (AUTH_OK, v, t) \<and>
        0 < v \<and> user = itoa v)"

definition bound_user :: "string \<Rightarrow> df_node \<Rightarrow> string \<Rightarrow> bool" where
  "bound_user i s user \<longleftrightarrow> (\<exists>c. cm_objects (dw_manager (nd_world s)) i = Some c \<and> cn_authenticated c \<and> cn_user_id c = user)"

definition binds_by_login :: "df_env \<Rightarrow> string \<Rightarrow> df_request \<Rightarrow> df_node \<Rightarrow> df_node \<Rightarrow> bool" where
  "binds_by_login env i message s s' \<longleftrightarrow>
     nd_keys s' = nd_keys s \<and> nd_db s' = nd_db s \<and> nd_monitor_contact s' = nd_monitor_contact s \<and> kicks_only (nd_world s) (nd_world s') \<and>
     (\<forall>user. bound_user i s' user \<longrightarrow> accepted_login env message user)"

lemma kicks_only_refl [simp]: "kicks_only w w"
  by (simp add: kicks_only_def)

lemma sendResponse_binds:
  assumes "cm_objects (dw_manager (nd_world s)) i = Some c" "\<not> cn_authenticated c"
  shows "binds_by_login env i message s (sendResponse env i rsp s)"
proof -
  have "\<not> bound_user i (sendResponse env i rsp s) user" for user
    using assms sendResponse_object [of env i rsp s] unfolding bound_user_def by fastforce
  then show ?thesis by (simp add: binds_by_login_def sendResponse_keeps kicks_only_def)
qed

lemma handleUnauthenticatedMessage_binds:
  assumes "undisturbed lenv" "cm_objects (dw_manager (nd_world s)) i = Some c" "\<not> cn_authenticated c"
  shows "binds_by_login env i message s (snd (handleUnauthenticatedMessage env lenv i message s))"
proof (cases "\<exists>account password. dq_payload message = Some (ReqLogin account password)")
  case True
  then obtain account password where p: "dq_payload message = Some (ReqLogin account password)" by blast
  let ?s = "handleLogin env lenv i (dq_jwt message) account password s"
  have e: "handleUnauthenticatedMessage env lenv i message s = (False, ?s)" by (simp add: handleUnauthenticatedMessage_def p)
  note h = handleLogin_binds [OF assms refl, of env "dq_jwt message" account password]
  have "accepted_login env message user" if "bound_user i ?s user" for user
  proof -
    from that obtain c' where c': "cm_objects (dw_manager (nd_world ?s)) i = Some c'" "cn_authenticated c'" "cn_user_id c' = user"
      by (auto simp: bound_user_def)
    from h c'(1,2) obtain v t n where v: "(if dq_jwt message = [] then de_login env account password [] else de_login env account [] (dq_jwt message)) = Some (AUTH_OK, v, t)"
      "v > 0" "ParseInt64 (TrimSpace (itoa v)) = Some n" "cn_user_id c' = itoa n" by blast
    have "de_login env account (if dq_jwt message = [] then password else []) (dq_jwt message) = Some (AUTH_OK, v, t)"
      using v(1) by (cases "dq_jwt message = []") simp_all
    then show ?thesis using p v(2,4) c'(3) itoa_parse_unique [OF v(2,3)] by (auto simp: accepted_login_def)
  qed
  then show ?thesis using h e by (simp add: binds_by_login_def)
next
  case False
  have same: "binds_by_login env i message s s" using assms by (simp add: binds_by_login_def bound_user_def)
  note send = sendResponse_binds [OF assms(2,3)]
  show ?thesis
  proof (cases "dq_payload message")
    case None
    then show ?thesis using send by (simp add: handleUnauthenticatedMessage_def)
  next
    case (Some p)
    then show ?thesis using False same send by (cases p) (simp_all add: handleUnauthenticatedMessage_def)
  qed
qed

lemma RemoveConnection_keeps:
  "dw_kafka (RemoveConnection c fault now i w) = dw_kafka w"
  "cm_objects (dw_manager (RemoveConnection c fault now i w)) i = Some c' \<Longrightarrow>
   \<exists>c''. cm_objects (dw_manager w) i = Some c'' \<and> cn_user_id c' = cn_user_id c'' \<and> cn_authenticated c' = cn_authenticated c''"
  by (auto simp: RemoveConnection_def detachConnection_def cleanupOwnedSession_def Close_def update_object_def Let_def
      split: option.splits prod.splits if_splits)

lemma binds_by_login_remove:
  assumes "binds_by_login env i message s s1"
  shows "binds_by_login env i message s (s1\<lparr>nd_world := RemoveConnection c fault now i (nd_world s1)\<rparr>)"
proof -
  have "bound_user i s1 user" if "bound_user i (s1\<lparr>nd_world := RemoveConnection c fault now i (nd_world s1)\<rparr>) user" for user
    using that RemoveConnection_keeps(2) [of c fault now i "nd_world s1"] unfolding bound_user_def by fastforce
  with assms show ?thesis by (simp add: binds_by_login_def kicks_only_def RemoveConnection_keeps(1))
qed

text \<open>
  C28. A frame on a connection that is not logged in leaves messages, contacts and the idempotency keys alone and
  publishes nothing but notices to previous owners of a session, when nothing else disturbs its login. If the
  connection is logged in afterwards, the frame was a login that the authentication service answered with success, and the connection's user is the user of
  that answer.
\<close>

theorem only_login_binds:
  assumes "undisturbed lenv" "cm_objects (dw_manager (nd_world s)) i = Some c" "\<not> cn_authenticated c"
  shows "\<exists>s'. readProcess env lenv parse fault i frame s = Some s' \<and>
    (s' = s \<or> (\<exists>message. parse frame = Some message \<and> binds_by_login env i message s s'))"
proof (cases "frame = [] \<or> parse frame = None")
  case True
  then show ?thesis by (auto simp: readProcess_def)
next
  case False
  then obtain message where m: "frame \<noteq> []" "parse frame = Some message" by auto
  obtain closes s1 where h: "handleUnauthenticatedMessage env lenv i message s = (closes, s1)" by fastforce
  have "binds_by_login env i message s s1" using handleUnauthenticatedMessage_binds [OF assms, of env message] h by simp
  then show ?thesis using m h assms(2,3) binds_by_login_remove by (cases closes) (simp_all add: readProcess_def)
qed

definition sample_login :: df_request where
  "sample_login = \<lparr>dq_jwt = [], dq_payload = Some (ReqLogin ''a'' ''p'')\<rparr>"

theorem only_login_binds_witness:
  "\<exists>s'. readProcess (sample_df_env 0) (calm_login ''t'' 0 0 0) (\<lambda>_. Some sample_login) NoFault ''x'' ''frame'' sample_node = Some s' \<and>
     (s' = sample_node \<or> binds_by_login (sample_df_env 0) ''x'' sample_login sample_node s')"
proof -
  have u: "undisturbed (calm_login ''t'' 0 0 0)" by (simp add: undisturbed_def calm_login_def)
  obtain c where c: "cm_objects (dw_manager (nd_world sample_node)) ''x'' = Some c" "\<not> cn_authenticated c"
    by (simp add: sample_node_def view_def sample_connected_def AddConnection_def)
  from only_login_binds [OF u c, of "sample_df_env 0" "\<lambda>_. Some sample_login" NoFault "''frame''"] show ?thesis by auto
qed

end
