(* ===== verification/DF_Consumer.thy ===== *)
theory DF_Consumer
  imports DF_Requests Kafka_Consumer
begin

text \<open>
  \<^verbatim>\<open>internal/consumer\<close> of the data forwarding service: its own retry loop, the decoding of what other services and
  containers publish to a container's topic, and the responses built from them for clients. The WebSocket handler is
  set and the inner messages of a oneof are present.
\<close>

section \<open>Decoding\<close>

record call_delivery =
  cv_target_user_id :: int
  cv_event :: "call_event option"

record client_delivery =
  cd_target_user_id :: int
  cd_event :: "push_event option"

text \<open>\<^verbatim>\<open>proto.Unmarshal\<close>; the outer \<open>None\<close> is an error, the inner one an absent payload.\<close>

record df_decoder =
  un_envelope :: "bytes \<Rightarrow> (envelope_type \<times> bytes) option"
  un_storage :: "bytes \<Rightarrow> storage_response option"
  un_friend :: "bytes \<Rightarrow> friend_response option"
  un_call :: "bytes \<Rightarrow> call_delivery option"
  un_push :: "bytes \<Rightarrow> client_delivery option option"
  un_request :: "bytes \<Rightarrow> df_request option"
  un_delivery :: "bytes \<Rightarrow> df_delivery option option"

text \<open>An error is permanent or transient; \<open>IndexPanic\<close> is an access past the end of a slice.\<close>

datatype process_error = PermanentError | TransientError df_error | IndexPanic

definition transient :: "(df_error + unit) \<times> df_node \<Rightarrow> (process_error + unit) \<times> df_node" where
  "transient r = (case r of (Inl e, s) \<Rightarrow> (Inl (TransientError e), s) | (Inr u, s) \<Rightarrow> (Inr u, s))"

section \<open>Responses of the friend service\<close>

definition friend_result_name :: "friend_result \<Rightarrow> string" where
  "friend_result_name r = (case r of FRIEND_OK \<Rightarrow> ''FRIEND_OK'' | RECORD_NOT_EXIST \<Rightarrow> ''RECORD_NOT_EXIST''
     | ALREADY_FRIEND \<Rightarrow> ''ALREADY_FRIEND'' | INVALID_ARGUMENT \<Rightarrow> ''INVALID_ARGUMENT'' | ALREADY_EXIST \<Rightarrow> ''ALREADY_EXIST''
     | REQUEST_PENDING \<Rightarrow> ''REQUEST_PENDING'' | REQUEST_EXPIRED \<Rightarrow> ''REQUEST_EXPIRED'' | FORBIDDEN \<Rightarrow> ''FORBIDDEN''
     | INVALID_STATE \<Rightarrow> ''INVALID_STATE'' | friend_result.SERVICE_ERROR \<Rightarrow> ''SERVICE_ERROR'')"

definition isStructuredGroupOperation :: "string \<Rightarrow> bool" where
  "isStructuredGroupOperation operation \<longleftrightarrow>
     operation \<in> {''kick_group_member'', ''update_group_member_role'', ''update_group_name'', ''transfer_group_owner''}"

definition buildGroupMemberOperationResponse :: "group_operation_rsp \<Rightarrow> friend_result \<Rightarrow> df_response" where
  "buildGroupMemberOperationResponse operation result =
     RspGroupMemberOperation \<lparr>gp_operation = go_operation operation, gp_result = friend_result_name result,
       gp_group_id = go_group_id operation, gp_user_id = go_user_id operation, gp_role = go_role operation,
       gp_update_time = go_update_time operation, gp_group_name = go_group_name operation,
       gp_previous_owner_user_id = go_previous_owner_user_id operation\<rparr>"

definition buildContactListResponse :: "df_env \<Rightarrow> df_node \<Rightarrow> friend_contact list \<Rightarrow> int \<Rightarrow> df_response" where
  "buildContactListResponse env s contacts targetUserID = RspContactList (DecorateMonitorContacts env targetUserID s contacts)"

definition buildGroupInfoResponse :: "group_info_rsp \<Rightarrow> df_response" where
  "buildGroupInfoResponse g = RspGroupInfo (gi_client_need_save g) (gi_group_id g) (gi_group_name g) (gi_avatar g)"

definition operation_message :: "(string \<times> string) list \<Rightarrow> string \<Rightarrow> string" where
  "operation_message table fallback = (case map_of table fallback of Some t \<Rightarrow> t | None \<Rightarrow> fallback)"

definition operation_response :: "string \<Rightarrow> string \<Rightarrow> df_response" where
  "operation_response fallback message = (if fallback = NOperationOk then RspServer message else RspWarn message)"

definition buildFriendOperationResponse :: "string \<Rightarrow> string \<Rightarrow> df_response" where
  "buildFriendOperationResponse operation fallback =
     operation_response fallback
       (if operation = ''remove_direct_friend''
        then operation_message [(NOperationOk, NContactDeleted), (NRecordMissing, NFriendshipMissing), (NFriendRequestInvalid, NDeleteFriendInvalid)] fallback
        else if operation = ''update_friend_alias''
        then operation_message [(NOperationOk, NAliasUpdated), (NRecordMissing, NAliasMissing), (NFriendRequestInvalid, NAliasInvalid)] fallback
        else if operation = ''update_friend_notify''
        then operation_message [(NOperationOk, NNotifyUpdated), (NRecordMissing, NNotifyMissing), (NFriendRequestInvalid, NNotifyInvalid)] fallback
        else fallback)"

definition buildGroupOperationResponse :: "string \<Rightarrow> string \<Rightarrow> df_response" where
  "buildGroupOperationResponse operation fallback =
     operation_response fallback
       (if operation = ''create_group''
        then operation_message [(NOperationOk, NGroupCreated), (NRecordMissing, NGroupCreateUserMissing),
               (NGroupRequestInvalid, NGroupCreateInvalid), (NAlreadyExists, NGroupExists)] fallback
        else if operation = ''add_group_member''
        then operation_message [(NOperationOk, NGroupJoined), (NRecordMissing, NGroupOrUserMissing),
               (NGroupRequestInvalid, NGroupJoinInvalid), (NAlreadyExists, NAlreadyInGroup)] fallback
        else if operation = ''update_group_avatar''
        then operation_message [(NOperationOk, NGroupAvatarUpdated), (NRecordMissing, NGroupMissingOrNotMember),
               (NGroupRequestInvalid, NGroupAvatarInvalid)] fallback
        else if operation = ''remove_group_member''
        then operation_message [(NOperationOk, NGroupLeft), (NRecordMissing, NGroupMissingOrNotMember),
               (NGroupRequestInvalid, NGroupLeaveInvalid)] fallback
        else fallback)"

text \<open>The first switch of \<^verbatim>\<open>handleFriendResponse\<close>: responses that do not depend on the result.\<close>

definition structured_friend_response :: "friend_response \<Rightarrow> df_response option" where
  "structured_friend_response resp =
     (case fp_payload resp of
        Some (RelationshipRequestListRsp requests) \<Rightarrow> Some (RspRelationshipList requests)
      | Some (RelationshipOperationRsp operation request) \<Rightarrow>
          Some (RspRelationshipOperation operation (friend_result_name (fp_result resp)) request)
      | Some (GroupOperationRsp g) \<Rightarrow>
          if isStructuredGroupOperation (go_operation g) then Some (buildGroupMemberOperationResponse g (fp_result resp)) else None
      | _ \<Rightarrow> None)"

definition friend_ok_response :: "df_env \<Rightarrow> df_node \<Rightarrow> friend_response \<Rightarrow> df_response" where
  "friend_ok_response env s resp =
     (case fp_payload resp of
        Some (FriendListRsp contacts) \<Rightarrow> buildContactListResponse env s contacts (fp_target_user_id resp)
      | Some (FriendOperationRsp operation _ _ _) \<Rightarrow> buildFriendOperationResponse operation NOperationOk
      | Some (GroupInfoRsp g) \<Rightarrow> buildGroupInfoResponse g
      | Some (GroupOperationRsp g) \<Rightarrow> buildGroupOperationResponse (go_operation g) NOperationOk
      | Some (GroupMemberListRsp groupID members) \<Rightarrow> RspGroupMembers groupID members
      | Some (JoinedGroupListRsp groups) \<Rightarrow> RspJoinedGroups groups
      | _ \<Rightarrow> RspServer NFriendAdded)"

definition friend_missing_response :: "friend_response \<Rightarrow> df_response" where
  "friend_missing_response resp =
     (case fp_payload resp of
        Some (FriendOperationRsp operation _ _ _) \<Rightarrow> buildFriendOperationResponse operation NRecordMissing
      | Some (GroupOperationRsp g) \<Rightarrow> buildGroupOperationResponse (go_operation g) NRecordMissing
      | Some (GroupInfoRsp _) \<Rightarrow> RspWarn NGroupMissingOrNotMember
      | Some (GroupMemberListRsp _ _) \<Rightarrow> RspWarn NGroupMissingOrNotMember
      | _ \<Rightarrow> RspWarn NTargetUserMissing)"

definition friend_invalid_response :: "friend_response \<Rightarrow> df_response" where
  "friend_invalid_response resp =
     (case fp_payload resp of
        Some (FriendOperationRsp operation _ _ _) \<Rightarrow> buildFriendOperationResponse operation NFriendRequestInvalid
      | Some (GroupOperationRsp g) \<Rightarrow> buildGroupOperationResponse (go_operation g) NGroupRequestInvalid
      | _ \<Rightarrow> RspWarn NAddFriendInvalid)"

definition friend_exists_response :: "friend_response \<Rightarrow> df_response" where
  "friend_exists_response resp =
     (case fp_payload resp of
        Some (GroupOperationRsp g) \<Rightarrow> buildGroupOperationResponse (go_operation g) NAlreadyExists
      | _ \<Rightarrow> RspWarn NTargetExists)"

definition friend_failed_response :: "df_env \<Rightarrow> df_node \<Rightarrow> friend_response \<Rightarrow> df_response" where
  "friend_failed_response env s resp =
     (case fp_payload resp of
        Some (FriendListRsp contacts) \<Rightarrow> buildContactListResponse env s contacts (fp_target_user_id resp)
      | Some (FriendOperationRsp operation _ _ _) \<Rightarrow> buildFriendOperationResponse operation NFriendServiceFailed
      | Some (GroupInfoRsp g) \<Rightarrow> buildGroupInfoResponse g
      | Some (GroupMemberListRsp groupID members) \<Rightarrow> RspGroupMembers groupID members
      | Some (JoinedGroupListRsp groups) \<Rightarrow> RspJoinedGroups groups
      | Some (GroupOperationRsp g) \<Rightarrow> buildGroupOperationResponse (go_operation g) NGroupServiceFailed
      | _ \<Rightarrow> RspWarn NFriendServiceFailed)"

definition friend_reply :: "df_env \<Rightarrow> df_node \<Rightarrow> friend_response \<Rightarrow> df_response" where
  "friend_reply env s resp =
     (case structured_friend_response resp of
        Some rsp \<Rightarrow> rsp
      | None \<Rightarrow>
          (case fp_result resp of
             FRIEND_OK \<Rightarrow> friend_ok_response env s resp
           | ALREADY_FRIEND \<Rightarrow> RspServer NAlreadyFriends
           | RECORD_NOT_EXIST \<Rightarrow> friend_missing_response resp
           | INVALID_ARGUMENT \<Rightarrow> friend_invalid_response resp
           | ALREADY_EXIST \<Rightarrow> friend_exists_response resp
           | _ \<Rightarrow> friend_failed_response env s resp))"

definition handleFriendResponse :: "df_env \<Rightarrow> friend_response \<Rightarrow> df_node \<Rightarrow> (process_error + unit) \<times> df_node" where
  "handleFriendResponse env resp s = transient (send_response env (fp_target_user_id resp) (friend_reply env s resp) s)"

section \<open>Responses of the storage service\<close>

definition storage_result_name :: "storage_result \<Rightarrow> string" where
  "storage_result_name r = (case r of STORAGE_OK \<Rightarrow> ''OK'' | STORAGE_SERVICE_ERROR \<Rightarrow> ''SERVICE_ERROR''
     | STORAGE_RECORD_NOT_EXIST \<Rightarrow> ''RECORD_NOT_EXIST'' | STORAGE_FORBIDDEN \<Rightarrow> ''FORBIDDEN''
     | STORAGE_ALREADY_RECALLED \<Rightarrow> ''ALREADY_RECALLED'' | STORAGE_RECALL_EXPIRED \<Rightarrow> ''RECALL_EXPIRED'')"

definition storage_plain_reply :: "storage_result \<Rightarrow> df_response" where
  "storage_plain_reply result =
     (case result of
        STORAGE_OK \<Rightarrow> RspServer NOperationOk
      | STORAGE_RECORD_NOT_EXIST \<Rightarrow> RspWarn NRecordMissing
      | STORAGE_FORBIDDEN \<Rightarrow> RspWarn NNoAccess
      | _ \<Rightarrow> RspWarn (NOperationFailed @ storage_result_name result))"

definition mapStorageRecallResult :: "storage_result \<Rightarrow> recall_result" where
  "mapStorageRecallResult result =
     (case result of
        STORAGE_OK \<Rightarrow> MESSAGE_RECALL_OK
      | STORAGE_RECORD_NOT_EXIST \<Rightarrow> MESSAGE_RECALL_NOT_FOUND
      | STORAGE_FORBIDDEN \<Rightarrow> MESSAGE_RECALL_FORBIDDEN
      | STORAGE_ALREADY_RECALLED \<Rightarrow> MESSAGE_RECALL_ALREADY_RECALLED
      | STORAGE_RECALL_EXPIRED \<Rightarrow> MESSAGE_RECALL_EXPIRED
      | _ \<Rightarrow> MESSAGE_RECALL_SERVICE_ERROR)"

definition buildMessageRecallEvent :: "storage_result \<Rightarrow> recall_message_rsp \<Rightarrow> recall_event" where
  "buildMessageRecallEvent result recall =
     \<lparr>rv_result = mapStorageRecallResult result, rv_message_id = rc_message_id recall, rv_from_user_id = rc_from_user_id recall,
      rv_to_user_id = rc_to_user_id recall, rv_is_group = rc_is_group recall,
      rv_operator_user_id = rc_operator_user_id recall, rv_recalled_at = rc_recalled_at recall\<rparr>"

definition stored_post :: "store_new_message \<Rightarrow> post" where
  "stored_post m =
     \<lparr>po_from_id = sn_from_user_id m, po_is_group = sn_is_group m, po_to_id = sn_to_user_id m, po_msg = sn_content m,
      po_msg_type = sn_message_type m, po_timestamp = sn_client_timestamp m, po_real_file_name = sn_real_file_name m,
      po_client_message_id = sn_client_message_id m\<rparr>"

definition buildPostAckResponse :: "store_msg_rsp \<Rightarrow> df_response" where
  "buildPostAckResponse r = RspPostAck (sm_message_id r) (sn_client_message_id (sm_request r))"

text \<open>The effects of a stored message; errors are logged only.\<close>

definition complete_stored_post :: "df_env \<Rightarrow> store_msg_rsp \<Rightarrow> df_node \<Rightarrow> df_node" where
  "complete_stored_post env r s =
     (let m = sm_request r;
          s1 = s\<lparr>nd_keys := snd (CompletePostIdempotency env (sn_from_user_id m) (sn_client_message_id m) (sm_message_id r) (nd_keys s))\<rparr>
      in if sm_created r then snd (DeliverStoredPost env (sm_message_id r) (stored_post m) s1) else s1)"

definition handleStorageResponse :: "df_env \<Rightarrow> storage_response \<Rightarrow> df_node \<Rightarrow> (process_error + unit) \<times> df_node" where
  "handleStorageResponse env resp s =
     (let reply = (\<lambda>rsp s. transient (send_response env (sp_target_user_id resp) rsp s)) in
      case sp_payload resp of
        None \<Rightarrow> reply (storage_plain_reply (sp_result resp)) s
      | Some (StoreMsgRsp r) \<Rightarrow> reply (buildPostAckResponse r) (complete_stored_post env r s)
      | Some (RecallMessageRsp recall) \<Rightarrow>
          (let event = buildMessageRecallEvent (sp_result resp) recall in
           if sp_result resp = STORAGE_OK
           then (case DeliverMessageRecall env event s of
                   (Inl e, s1) \<Rightarrow> (Inl (TransientError e), s1)
                 | (Inr _, s1) \<Rightarrow> reply (RspMessageRecall event) s1)
           else reply (RspMessageRecall event) s)
      | Some (MsgRsp m) \<Rightarrow> reply (RspMessage m) s
      | Some (SyncMsgsRsp r) \<Rightarrow> reply (RspSyncMessages r) s
      | Some (UserInfoRsp u) \<Rightarrow>
          reply (RspUserInfo \<lparr>uf_send_to_user_id = sp_target_user_id resp, uf_query_user_name = ui_name u, uf_user = u\<rparr>) s
      | Some (FileExistsRsp _ _ _) \<Rightarrow> (Inr (), s))"

section \<open>Deliveries from other containers\<close>

fun send_to_users :: "df_env \<Rightarrow> bytes \<Rightarrow> int list \<Rightarrow> df_node \<Rightarrow> (df_error + unit) \<times> df_node" where
  "send_to_users env responseBytes [] s = (Inr (), s)"
| "send_to_users env responseBytes (targetUserID # targets) s =
     (case on_world (RouteMessage env (itoa targetUserID) responseBytes) s of
        (Inl e, s1) \<Rightarrow> (Inl e, s1)
      | (Inr _, s1) \<Rightarrow> send_to_users env responseBytes targets s1)"

definition deliver_to_users :: "df_env \<Rightarrow> df_response \<Rightarrow> int list \<Rightarrow> df_node \<Rightarrow> (process_error + unit) \<times> df_node" where
  "deliver_to_users env rsp targetUserIDs s =
     (case dc_response (de_codec env) rsp of
        None \<Rightarrow> (Inl (TransientError ErrMarshal), s)
      | Some responseBytes \<Rightarrow> transient (send_to_users env responseBytes targetUserIDs s))"

definition deliverMessageRecallToUsers :: "df_env \<Rightarrow> recall_event \<Rightarrow> int list \<Rightarrow> df_node \<Rightarrow> (process_error + unit) \<times> df_node" where
  "deliverMessageRecallToUsers env event = deliver_to_users env (RspMessageRecall event)"

definition deliverGroupPostToUsers :: "df_env \<Rightarrow> post \<Rightarrow> int list \<Rightarrow> df_node \<Rightarrow> (process_error + unit) \<times> df_node" where
  "deliverGroupPostToUsers env p = deliver_to_users env (RspPost p)"

definition handleDFResponse :: "df_env \<Rightarrow> df_decoder \<Rightarrow> bytes \<Rightarrow> df_node \<Rightarrow> (process_error + unit) \<times> df_node" where
  "handleDFResponse env dec payload s =
     (case un_delivery dec payload of
        Some (Some (GroupPostBatchDelivery targetUserIDs (Some p))) \<Rightarrow>
          if targetUserIDs = [] then (Inl PermanentError, s) else deliverGroupPostToUsers env p targetUserIDs s
      | Some (Some (GroupPostDelivery targetUserID (Some p))) \<Rightarrow>
          if targetUserID \<le> 0 then (Inl PermanentError, s) else deliverGroupPostToUsers env p [targetUserID] s
      | Some (Some (MessageRecallBatchDelivery targetUserIDs (Some event))) \<Rightarrow>
          if targetUserIDs = [] then (Inl PermanentError, s) else deliverMessageRecallToUsers env event targetUserIDs s
      | Some (Some (MessageRecallDelivery targetUserID (Some event))) \<Rightarrow>
          if targetUserID \<le> 0 then (Inl PermanentError, s) else deliverMessageRecallToUsers env event [targetUserID] s
      | _ \<Rightarrow> (Inl PermanentError, s))"

section \<open>Calls and notifications\<close>

definition handleCallDelivery :: "df_env \<Rightarrow> int \<Rightarrow> call_event \<Rightarrow> df_node \<Rightarrow> (process_error + unit) \<times> df_node" where
  "handleCallDelivery env targetUserID event s = transient (send_response env targetUserID (RspCallEvent event) s)"

definition handlePushResponse :: "df_env \<Rightarrow> int \<Rightarrow> push_event \<Rightarrow> df_node \<Rightarrow> (process_error + unit) \<times> df_node" where
  "handlePushResponse env targetUserID event s = transient (send_response env targetUserID (RspPushEvent event) s)"

section \<open>Messages of a topic\<close>

text \<open>
  \<^verbatim>\<open>deleteUserPatternCapture.FindStringSubmatch\<close>: the whole match and the three groups of
  \<^verbatim>\<open>^DELETE USER (\d+) TARGET ([-a-zA-Z0-9]+)(?: OWNER ([a-fA-F0-9]+))?$\<close>; a group that takes no part is empty. Spaces
  delimit the groups, so the match is unique.
\<close>

definition is_hex_digit :: "char \<Rightarrow> bool" where
  "is_hex_digit c \<longleftrightarrow> is_digit c \<or> of_char c \<in> {97..102::nat} \<or> of_char c \<in> {65..70::nat}"

definition is_container_char :: "char \<Rightarrow> bool" where
  "is_container_char c \<longleftrightarrow> c = CHR ''-'' \<or> is_digit c \<or> of_char c \<in> {97..122::nat} \<or> of_char c \<in> {65..90::nat}"

definition deleteUserPatternCapture :: "string \<Rightarrow> string list option" where
  "deleteUserPatternCapture v =
     (if \<not> HasPrefix v ''DELETE USER '' then None
      else
        (let r1 = drop 12 v; user = takeWhile is_digit r1; r2 = dropWhile is_digit r1 in
         if user = [] \<or> \<not> HasPrefix r2 '' TARGET '' then None
         else
           (let r3 = drop 8 r2; container = takeWhile is_container_char r3; r4 = dropWhile is_container_char r3 in
            if container = [] then None
            else if r4 = [] then Some [v, user, container, []]
            else if HasPrefix r4 '' OWNER '' \<and> drop 7 r4 \<noteq> [] \<and> list_all is_hex_digit (drop 7 r4)
            then Some [v, user, container, drop 7 r4]
            else None)))"

definition process_df_request :: "df_env \<Rightarrow> df_payload option \<Rightarrow> df_node \<Rightarrow> (process_error + unit) \<times> df_node" where
  "process_df_request env payload s =
     (case payload of
        Some (ReqPost p) \<Rightarrow>
          (case validatePostPayload p of
             Inl _ \<Rightarrow> (Inl PermanentError, s)
           | Inr p1 \<Rightarrow> transient (InplaceHandlePostMessage env p1 s))
      | _ \<Rightarrow> (Inl PermanentError, s))"

definition process_envelope :: "df_env \<Rightarrow> df_decoder \<Rightarrow> (envelope_type \<times> bytes) option \<Rightarrow> df_node \<Rightarrow> (process_error + unit) \<times> df_node" where
  "process_envelope env dec envelope s =
     (case envelope of
        None \<Rightarrow> (Inl PermanentError, s)
      | Some (kind, payload) \<Rightarrow>
          if kind = ENV_UNKNOWN \<or> payload = [] then (Inl PermanentError, s)
          else (case kind of
            ENV_STORAGE_RESPONSE \<Rightarrow>
              (case un_storage dec payload of
                 Some resp \<Rightarrow> if sp_target_user_id resp \<le> 0 then (Inl PermanentError, s) else handleStorageResponse env resp s
               | None \<Rightarrow> (Inl PermanentError, s))
          | ENV_FRIEND_RESPONSE \<Rightarrow>
              (case un_friend dec payload of
                 Some resp \<Rightarrow> if fp_target_user_id resp \<le> 0 then (Inl PermanentError, s) else handleFriendResponse env resp s
               | None \<Rightarrow> (Inl PermanentError, s))
          | ENV_CALL_RESPONSE \<Rightarrow>
              (case un_call dec payload of
                 Some d \<Rightarrow>
                   (case cv_event d of
                      Some event \<Rightarrow> if cv_target_user_id d \<le> 0 then (Inl PermanentError, s) else handleCallDelivery env (cv_target_user_id d) event s
                    | None \<Rightarrow> (Inl PermanentError, s))
               | None \<Rightarrow> (Inl PermanentError, s))
          | ENV_PUSH_RESPONSE \<Rightarrow>
              (case un_push dec payload of
                 Some (Some d) \<Rightarrow>
                   (case cd_event d of
                      Some event \<Rightarrow> if cd_target_user_id d \<le> 0 then (Inl PermanentError, s) else handlePushResponse env (cd_target_user_id d) event s
                    | None \<Rightarrow> (Inl PermanentError, s))
               | _ \<Rightarrow> (Inl PermanentError, s))
          | ENV_DF_REQUEST \<Rightarrow>
              (case un_request dec payload of
                 Some request \<Rightarrow> process_df_request env (dq_payload request) s
               | None \<Rightarrow> (Inl PermanentError, s))
          | ENV_DF_RESPONSE \<Rightarrow> handleDFResponse env dec payload s
          | _ \<Rightarrow> (Inl PermanentError, s)))"

definition envString :: "string \<Rightarrow> string \<Rightarrow> string" where
  "envString v fallback = (if TrimSpace v \<noteq> [] then TrimSpace v else fallback)"

text \<open>
  The test of the number of captures stands as in the source, which then reads the fourth element of a
  slice of three.
\<close>

definition processMessage :: "df_env \<Rightarrow> df_decoder \<Rightarrow> kafka_message \<Rightarrow> df_node \<Rightarrow> (process_error + unit) \<times> df_node" where
  "processMessage env dec msg s =
     (case deleteUserPatternCapture (km_value msg) of
        Some matches \<Rightarrow>
          if length matches = 3
          then (if matches ! 2 \<noteq> envString (de_hostname env) ''local'' then (Inr (), s) else (Inl IndexPanic, s))
          else process_envelope env dec (un_envelope dec (km_value msg)) s
      | None \<Rightarrow> process_envelope env dec (un_envelope dec (km_value msg)) s)"

section \<open>Retries\<close>

datatype failureClass = failurePermanent | failureTransient

record consumerRetryConfig =
  rt_max_retries :: int
  rt_initial_backoff :: duration
  rt_max_backoff :: duration
  rt_dlq_topic :: string

text \<open>\<^verbatim>\<open>classifyProcessingError\<close>: what is not marked as permanent is transient. A panic does not reach it.\<close>

definition classifyProcessingError :: "process_error \<Rightarrow> failureClass" where
  "classifyProcessingError e = (if e = PermanentError then failurePermanent else failureTransient)"

text \<open>The values of the environment as \<^verbatim>\<open>strconv.Atoi\<close> and \<^verbatim>\<open>time.ParseDuration\<close> read them; \<open>None\<close> is an error.\<close>

definition envInt :: "int option \<Rightarrow> int \<Rightarrow> int" where
  "envInt parsed fallback = (case parsed of Some n \<Rightarrow> if n < 0 then fallback else n | None \<Rightarrow> fallback)"

definition envDuration :: "duration option \<Rightarrow> duration \<Rightarrow> duration" where
  "envDuration parsed fallback = (case parsed of Some d \<Rightarrow> if d \<le> 0 then fallback else d | None \<Rightarrow> fallback)"

definition loadConsumerRetryConfig :: "int option \<Rightarrow> duration option \<Rightarrow> duration option \<Rightarrow> string \<Rightarrow> consumerRetryConfig" where
  "loadConsumerRetryConfig retries initial maximal topic =
     (let m = envDuration maximal (2 * second); i = envDuration initial (100 * millisecond) in
      \<lparr>rt_max_retries = envInt retries 3, rt_initial_backoff = (if i > m then m else i), rt_max_backoff = m,
       rt_dlq_topic = envString topic ''data-forwarding-dlq''\<rparr>)"

text \<open>
  The surroundings of the loop, as for the shared consumer: the processor with the class and the text of its
  error, the publisher, the context's error at the three places that look at it, the clock and the name of
  the envelope's type.
\<close>

record 's retry_env =
  re_process :: "kafka_message \<Rightarrow> 's \<Rightarrow> (failureClass \<times> string) option \<times> 's"
  re_publish :: "string \<Rightarrow> bytes \<Rightarrow> (string \<times> bytes) list \<Rightarrow> 's \<Rightarrow> string option \<times> 's"
  re_cancelled :: "nat \<Rightarrow> string option"
  re_cancelled_dlq :: "nat \<Rightarrow> string option"
  re_cancelled_wait :: "nat \<Rightarrow> string option"
  re_now :: "nat \<Rightarrow> instant"
  re_envelope_type :: "bytes \<Rightarrow> string"

definition failure_class_name :: "failureClass \<Rightarrow> string" where
  "failure_class_name k = (case k of failurePermanent \<Rightarrow> ''permanent'' | failureTransient \<Rightarrow> ''transient'')"

definition summarizeError :: "string \<Rightarrow> string" where
  "summarizeError text =
     (let summary = map (\<lambda>c. if c = CHR 0x0A then CHR '' '' else c) text in
      if length summary > 512 then take 512 summary else summary)"

definition dlqHeaders :: "kafka_message \<Rightarrow> string \<Rightarrow> failureClass \<Rightarrow> string \<Rightarrow> instant \<Rightarrow> instant \<Rightarrow> nat \<Rightarrow> (string \<times> bytes) list" where
  "dlqHeaders msg envelopeType k text firstFailure finalFailure retryCount =
     [(''schema_version'', ''1''), (''original_topic'', km_topic msg), (''original_partition'', itoa (km_partition msg)),
      (''original_offset'', itoa (km_offset msg)), (''envelope_type'', envelopeType), (''error_class'', failure_class_name k),
      (''sanitized_error_summary'', summarizeError text), (''first_failure_time'', RFC3339Nano firstFailure),
      (''final_failure_time'', RFC3339Nano finalFailure), (''retry_count'', itoa (int retryCount))]"

definition publish_dead_letter_df ::
  "'s retry_env \<Rightarrow> consumerRetryConfig \<Rightarrow> kafka_message \<Rightarrow> failureClass \<Rightarrow> string \<Rightarrow> instant \<Rightarrow> nat \<Rightarrow> 's \<Rightarrow> string option \<times> 's" where
  "publish_dead_letter_df env c msg k text firstFailure retryCount =
     re_publish env (rt_dlq_topic c) (km_value msg)
       (dlqHeaders msg (re_envelope_type env (km_value msg)) k text firstFailure (re_now env retryCount) retryCount)"

function retry_loop_df ::
  "'s retry_env \<Rightarrow> consumerRetryConfig \<Rightarrow> kafka_message \<Rightarrow> nat \<Rightarrow> duration \<Rightarrow> instant option \<Rightarrow> 's \<Rightarrow>
   (string option \<times> duration list) \<times> 's" where
  "retry_loop_df env c msg attempt backoff firstFailure s =
     (case re_cancelled env attempt of
        Some e \<Rightarrow> ((Some e, []), s)
      | None \<Rightarrow>
          (case re_process env msg s of
             (None, s1) \<Rightarrow> ((None, []), s1)
           | (Some (k, text), s1) \<Rightarrow>
               (let first = (case firstFailure of None \<Rightarrow> re_now env attempt | Some t \<Rightarrow> t) in
                if k = failurePermanent \<or> int attempt \<ge> rt_max_retries c
                then (case re_cancelled_dlq env attempt of
                        Some e \<Rightarrow> ((Some e, []), s1)
                      | None \<Rightarrow> (case publish_dead_letter_df env c msg k text first attempt s1 of (e, s2) \<Rightarrow> ((e, []), s2)))
                else (case re_cancelled_wait env attempt of
                        Some e \<Rightarrow> ((Some e, [backoff]), s1)
                      | None \<Rightarrow>
                          (let doubled = wrap64 (2 * backoff);
                               backoff2 = (if doubled > rt_max_backoff c then rt_max_backoff c else doubled)
                           in case retry_loop_df env c msg (Suc attempt) backoff2 (Some first) s1 of
                                ((e, ds), s2) \<Rightarrow> ((e, backoff # ds), s2))))))"
  by pat_completeness auto
termination
  by (relation "measure (\<lambda>(env, c, m, attempt, b, ff, s). nat (rt_max_retries c - int attempt))") auto

declare retry_loop_df.simps [simp del]

definition process_with_retry_df ::
  "'s retry_env \<Rightarrow> consumerRetryConfig \<Rightarrow> kafka_message \<Rightarrow> 's \<Rightarrow> (string option \<times> duration list) \<times> 's" where
  "process_with_retry_df env c msg s = retry_loop_df env c msg 0 (rt_initial_backoff c) None s"

text \<open>The processor of the service; \<open>text\<close> is the text of an error.\<close>

definition df_processor ::
  "(process_error \<Rightarrow> string) \<Rightarrow> df_env \<Rightarrow> df_decoder \<Rightarrow> kafka_message \<Rightarrow> df_node \<Rightarrow> (failureClass \<times> string) option \<times> df_node" where
  "df_processor text env dec msg s =
     (case processMessage env dec msg s of
        (Inr _, s1) \<Rightarrow> (None, s1)
      | (Inl e, s1) \<Rightarrow> (Some (classifyProcessingError e, text e), s1))"

text \<open>\<^verbatim>\<open>ConsumeClaim\<close>: the messages that are marked, up to the first that is not settled.\<close>

fun consume_claim_df ::
  "consumerRetryConfig \<Rightarrow> ('s retry_env \<times> kafka_message) list \<Rightarrow> 's \<Rightarrow> (kafka_message list \<times> string option) \<times> 's" where
  "consume_claim_df c [] s = (([], None), s)"
| "consume_claim_df c ((env, msg) # msgs) s =
     (case process_with_retry_df env c msg s of
        ((Some e, _), s1) \<Rightarrow> (([], Some e), s1)
      | ((None, _), s1) \<Rightarrow> (case consume_claim_df c msgs s1 of ((marked, err), s2) \<Rightarrow> ((msg # marked, err), s2)))"

end
