(* ===== verification/DF_Post_Laws.thy ===== *)
theory DF_Post_Laws
  imports DF_Guarantees
begin

text \<open>
  The path of a chat message through the data forwarding service: it is handed to the storage service once
  however often the client sends it, commands to the monitor are the administrator's alone, and a stored
  group message reaches every connected member once.
\<close>

section \<open>Idempotent sends\<close>

text \<open>The guards that a post passes; \<open>c\<close> is its client identifier and \<open>p\<close> what is stored.\<close>

definition accepts_post :: "df_env \<Rightarrow> int \<Rightarrow> string \<Rightarrow> post \<Rightarrow> string \<Rightarrow> post \<Rightarrow> df_node \<Rightarrow> bool" where
  "accepts_post env u jwt payload c p s \<longleftrightarrow>
     authenticated env u jwt = Inr () \<and>
     (\<exists>p0. validatePostPayload (payload\<lparr>po_from_id := u\<rparr>) = Inr p0 \<and> ensurePostClientMessageID env p0 = (c, p)) \<and>
     \<not> IsMonitorID env (po_to_id p) \<and>
     (po_is_group p \<longrightarrow> de_database_ok env \<and> IsActiveGroupMemberWithDB (po_to_id p) u (nd_db s))"

lemma handlePostMessage_accepted:
  "accepts_post env u jwt payload c p s \<Longrightarrow> handlePostMessage env u jwt payload s = store_claimed_post env u c p s"
  by (auto simp: accepts_post_def handlePostMessage_def)

lemma ack_value: "0 < m \<Longrightarrow> m < 2 ^ 63 \<Longrightarrow> ParseInt64_value (TrimPrefix (''ack:'' @ itoa m) ''ack:'') = m"
proof -
  assume m: "0 < m" "m < 2 ^ 63"
  obtain x xs where cons: "itoa_nat (nat m) = x # xs" by (metis itoa_nat_nonempty list.exhaust)
  have i: "itoa m = x # xs" using m(1) cons by (simp add: itoa_def)
  have digits: "\<forall>c\<in>set (x # xs). is_digit c" using itoa_nat_digits [of "nat m"] cons by simp
  then have "x \<noteq> CHR ''-''" "x \<noteq> CHR ''+''" by (auto simp: is_digit_def)
  moreover have "int (decimal (x # xs)) = m" using m(1) decimal_itoa_nat [of "nat m"] cons by simp
  moreover have "TrimPrefix (''ack:'' @ itoa m) ''ack:'' = x # xs" by (simp add: i TrimPrefix_def HasPrefix_def starts_with_def)
  ultimately show ?thesis using digits m by (simp add: ParseInt64_value_def Let_def list_all_iff)
qed

lemma pending_value: "ParseInt64_value (TrimPrefix ''pending'' ''ack:'') = 0"
  by (simp add: TrimPrefix_def HasPrefix_def starts_with_def ParseInt64_value_def is_digit_def)

text \<open>What a send does, by the state of its key.\<close>

lemma send_first:
  assumes "accepts_post env u jwt payload c p s" "de_claim env = (NoFault, t, f, t') # rounds"
    and "live t (nd_keys s) (postIdempotencyKey env u c) = None"
    and "sendMessageToStorage env p (s\<lparr>nd_keys := (nd_keys s)(postIdempotencyKey env u c \<mapsto> (''pending'', t + postPendingTTL))\<rparr>) = (Inr (), s1)"
  shows "handlePostMessage env u jwt payload s = (Inr (), s1)"
  using assms by (simp add: handlePostMessage_accepted store_claimed_post_def key_setnx_def Let_def)

lemma send_again:
  assumes "accepts_post env u jwt payload c p s" "de_claim env = (NoFault, t, NoFault, t') # rounds"
    and "nd_keys s (postIdempotencyKey env u c) = Some (v, e)" "t < e" "t' < e"
  shows "handlePostMessage env u jwt payload s =
    (if ParseInt64_value (TrimPrefix v ''ack:'') > 0 then sendPostAck env u (ParseInt64_value (TrimPrefix v ''ack:'')) c s else (Inr (), s))"
  using assms by (simp add: handlePostMessage_accepted store_claimed_post_def key_setnx_def key_get_def live_def Let_def)

lemma sendMessageToStorage_keys: "sendMessageToStorage env p s = (r, s1) \<Longrightarrow> nd_keys s1 = nd_keys s"
  by (auto simp: sendMessageToStorage_def publishStorageRequest_def on_world_def split: prod.splits)

text \<open>
  C29. While Redis has no faults, a client that sends a message again with the same identifier does not store it again. When the first send has
  been handed to the storage service, a second one within thirty seconds changes nothing; once the storage service
  has answered with the message's number, every send within seven days is answered with exactly that number, whatever
  its content and whichever container receives it.
\<close>

theorem post_retry_idempotent:
  assumes first: "accepts_post env u jwt payload c p s" "de_claim env = (NoFault, t, f, t') # rounds"
      "live t (nd_keys s) (postIdempotencyKey env u c) = None"
      "sendMessageToStorage env p (s\<lparr>nd_keys := (nd_keys s)(postIdempotencyKey env u c \<mapsto> (''pending'', t + postPendingTTL))\<rparr>) = (Inr (), s1)"
    and early: "accepts_post env2 u jwt2 payload2 c p2 s1" "de_codec env2 = de_codec env" "de_claim env2 = (NoFault, t2, NoFault, t2') # rounds2"
      "t2 < t + postPendingTTL" "t2' < t + postPendingTTL"
    and answer: "CompletePostIdempotency env3 u c m (nd_keys s1) = (Inr (), keys)" "de_codec env3 = de_codec env" "de_complete env3 = NoFault"
      "c \<noteq> []" "0 < m" "m < 2 ^ 63"
    and late: "accepts_post env4 u jwt4 payload4 c p4 s4" "de_codec env4 = de_codec env" "de_claim env4 = (NoFault, t4, NoFault, t4') # rounds4"
      "nd_keys s4 (postIdempotencyKey env u c) = keys (postIdempotencyKey env u c)"
      "t4 < de_now env3 + postCompletedTTL" "t4' < de_now env3 + postCompletedTTL"
  shows "handlePostMessage env u jwt payload s = (Inr (), s1) \<and>
    handlePostMessage env2 u jwt2 payload2 s1 = (Inr (), s1) \<and>
    handlePostMessage env4 u jwt4 payload4 s4 = sendPostAck env4 u m c s4"
proof -
  let ?k = "postIdempotencyKey env u c"
  have k: "postIdempotencyKey env2 u c = ?k" "postIdempotencyKey env3 u c = ?k" "postIdempotencyKey env4 u c = ?k"
    using early(2) answer(2) late(2) by (simp_all add: postIdempotencyKey_def)
  have s1: "nd_keys s1 ?k = Some (''pending'', t + postPendingTTL)" using sendMessageToStorage_keys [OF first(4)] by simp
  have "keys ?k = Some (''ack:'' @ itoa m, de_now env3 + postCompletedTTL)"
    using answer by (auto simp: CompletePostIdempotency_def key_write_def k)
  then have "handlePostMessage env4 u jwt4 payload4 s4 = sendPostAck env4 u m c s4"
    using send_again [OF late(1,3)] late(4-6) k(3) ack_value [OF answer(5,6)] answer(5) by simp
  moreover have "handlePostMessage env2 u jwt2 payload2 s1 = (Inr (), s1)"
    using send_again [OF early(1,3)] early(4,5) s1 k(1) pending_value by simp
  ultimately show ?thesis using send_first [OF first] by blast
qed

section \<open>Commands\<close>

definition kicks :: "df_env \<Rightarrow> int \<Rightarrow> df_node \<Rightarrow> df_node \<Rightarrow> bool" where
  "kicks env u s s' \<longleftrightarrow> (\<exists>new. sr_published (session_store s') = sr_published (session_store s) @ new \<and>
     (\<forall>x\<in>set new. u = AdminUserID \<and> (\<exists>i c. i > 0 \<and> i \<noteq> AdminUserID \<and> \<not> IsMonitorID env i \<and>
        x = (''user_kick:'' @ c, kick_message (itoa i) ''*''))))"

lemma kicks_same: "sr_published (session_store s') = sr_published (session_store s) \<Longrightarrow> kicks env u s s'"
  by (simp add: kicks_def)

lemma kicks_then: "kicks env u s s1 \<Longrightarrow> sr_published (session_store s2) = sr_published (session_store s1) \<Longrightarrow> kicks env u s s2"
  by (simp add: kicks_def)

lemma srem_published [simp]: "sr_published (srem c u r) = sr_published r"
  by (simp add: srem_def)

lemma lookup_published: "sr_published (snd (GetContainerByConnection fault now u r)) = sr_published r"
  by (auto simp: GetContainerByConnection_def redis_call_def getValidRouteScript_def split: redis_fault.splits prod.splits option.splits if_splits)

lemma routeLocally_redis: "routeLocally u m w = (ok, w') \<Longrightarrow> dw_redis w' = dw_redis w"
  by (auto simp: routeLocally_def split: option.splits prod.splits sum.splits)

lemma PublishMessage_redis: "dw_redis (snd (PublishMessage env m topic w)) = dw_redis w"
  by (auto simp: PublishMessage_def split: redis_fault.split)

lemma RouteMessage_published: "sr_published (dw_redis (snd (RouteMessage env u m w))) = sr_published (dw_redis w)"
proof -
  obtain ok w1 where r: "routeLocally u m w = (ok, w1)" by fastforce
  obtain route rd where g: "GetContainerByConnection (de_route env u) (de_now env) u (dw_redis w1) = (route, rd)" by fastforce
  have p: "sr_published rd = sr_published (dw_redis w)"
    using lookup_published [of "de_route env u" "de_now env" u "dw_redis w1"] routeLocally_redis [OF r] g by simp
  have cross: "dw_redis (snd (routeCrossContainer env u c m w')) = dw_redis w'" for c w'
    using PublishMessage_redis
    by (auto simp: routeCrossContainer_def split: prod.splits bool.splits option.splits dest!: routeLocally_redis)
  show ?thesis
  proof (cases ok)
    case True
    then show ?thesis using r routeLocally_redis [OF r] by (simp add: RouteMessage_def)
  next
    case False
    show ?thesis
    proof (cases route)
      case (Inl e)
      then show ?thesis using r g p False by (cases e) (simp_all add: RouteMessage_def)
    next
      case (Inr c)
      then show ?thesis using r g p False by (simp add: RouteMessage_def cross)
    qed
  qed
qed

lemma send_response_published: "sr_published (session_store (snd (send_response env u rsp s))) = sr_published (session_store s)"
  using RouteMessage_published by (auto simp: send_response_def on_world_def split: option.split prod.split) (metis snd_conv)

lemma send_response_rest:
  "nd_keys (snd (send_response env u rsp s)) = nd_keys s" "nd_db (snd (send_response env u rsp s)) = nd_db s"
  "nd_last_monitor (snd (send_response env u rsp s)) = nd_last_monitor s"
  by (auto simp: send_response_def on_world_def split: option.split prod.split)

lemma sendMonitorPostResult_rest:
  "sr_published (session_store (snd (sendMonitorPostResult env u c i t s))) = sr_published (session_store s)"
  "nd_last_monitor (snd (sendMonitorPostResult env u c i t s)) = nd_last_monitor s"
proof -
  obtain r s1 where r: "send_response env u (RspPostAck i c) s = (r, s1)" by fastforce
  have "sr_published (session_store s1) = sr_published (session_store s)" "nd_last_monitor s1 = nd_last_monitor s"
    using send_response_published [of env u "RspPostAck i c" s] send_response_rest(3) [of env u "RspPostAck i c" s] r by simp_all
  then show "sr_published (session_store (snd (sendMonitorPostResult env u c i t s))) = sr_published (session_store s)"
    "nd_last_monitor (snd (sendMonitorPostResult env u c i t s)) = nd_last_monitor s"
    using r by (cases r; simp add: sendMonitorPostResult_def send_response_published send_response_rest)+
qed

lemma monitorKickUser_kicks: "i > 0 \<Longrightarrow> i \<noteq> AdminUserID \<Longrightarrow> \<not> IsMonitorID env i \<Longrightarrow> kicks env AdminUserID s (snd (monitorKickUser env i s))"
  by (auto simp: monitorKickUser_def kicks_def PublishKickNotification_def PublishOwnedKickNotification_def redis_call_def
      split: sum.splits option.splits prod.splits redis_fault.splits)

lemma other_actions_publish_nothing:
  "session_store (snd (monitorConnectionStatus env s)) = session_store s" "session_store (snd (monitorUserRoute env i s)) = session_store s"
  "session_store (snd (monitorUserSummary env i s)) = session_store s" "session_store (snd (monitorGroupSummary env i s)) = session_store s"
  "session_store (snd (monitorRelationshipRequests env i s)) = session_store s"
  by (auto simp: monitorConnectionStatus_def monitorUserRoute_def monitorUserSummary_def monitorGroupSummary_def
      monitorRelationshipRequests_def Let_def split: sum.split option.split prod.split)

lemma Execute_kicks: "kicks env u s (snd (Execute env (monitorExecutor env) u input s))"
  by (rule Execute_state [where P = "kicks env u s"])
    (auto simp: monitorExecutor_def other_actions_publish_nothing monitorKickUser_kicks intro: kicks_same)

lemma monitor_action_last:
  "nd_last_monitor (snd (monitorConnectionStatus env s)) = nd_last_monitor s" "nd_last_monitor (snd (monitorUserRoute env i s)) = nd_last_monitor s"
  "nd_last_monitor (snd (monitorKickUser env i s)) = nd_last_monitor s" "nd_last_monitor (snd (monitorUserSummary env i s)) = nd_last_monitor s"
  "nd_last_monitor (snd (monitorGroupSummary env i s)) = nd_last_monitor s"
  "nd_last_monitor (snd (monitorRelationshipRequests env i s)) = nd_last_monitor s"
  by (auto simp: monitorConnectionStatus_def monitorUserRoute_def monitorKickUser_def monitorUserSummary_def monitorGroupSummary_def
      monitorRelationshipRequests_def Let_def split: sum.split option.split prod.split)

lemma Execute_last: "nd_last_monitor (snd (Execute env (monitorExecutor env) u input s)) = nd_last_monitor s"
  by (rule Execute_state [where P = "\<lambda>s'. nd_last_monitor s' = nd_last_monitor s"]) (auto simp: monitorExecutor_def monitor_action_last)

lemma nextMonitorMessageID_next:
  "- (2 ^ 63) \<le> previous \<Longrightarrow> previous < 2 ^ 63 - 1 \<Longrightarrow> nextMonitorMessageID now previous = max (max 1 now) (previous + 1)"
  by (simp add: nextMonitorMessageID_def Let_def wrap64_id max_def)

text \<open>The messages that are executed: the administrator's, texts to the enabled contact, that win the claim of their identifier.\<close>

definition monitor_command_runs :: "df_env \<Rightarrow> int \<Rightarrow> post \<Rightarrow> df_node \<Rightarrow> bool" where
  "monitor_command_runs env u p s \<longleftrightarrow> u = AdminUserID \<and> \<not> po_is_group p \<and> monitorContactEnabled env s \<and>
     lower_key (TrimSpace (po_msg_type p)) = ''text'' \<and>
     (\<exists>cached. fst (claimMonitorCommand env u (fst (ensurePostClientMessageID env p)) (nd_keys s)) = Inr (cached, True))"

text \<open>
  C31. Messages to the monitor contact are commands of the administrator alone: anybody else's message changes
  neither the database nor a key nor the counter and disconnects nobody; the administrator's commands disconnect only
  users other than the administrator and the monitor. Each executed command is answered with a number of its own, the
  larger of the clock in nanoseconds and the successor of the previous number, which the counter then holds; any
  other message leaves the counter alone. The counter is a 64-bit number that has not reached its maximum.
\<close>

theorem monitor_commands_guarded:
  assumes "handleMonitorPost env u p s = (r, s')" "- (2 ^ 63) \<le> nd_last_monitor s" "nd_last_monitor s < 2 ^ 63 - 1"
  shows "kicks env u s s' \<and> (u \<noteq> AdminUserID \<longrightarrow> nd_db s' = nd_db s \<and> nd_keys s' = nd_keys s \<and> nd_last_monitor s' = nd_last_monitor s) \<and>
    (if monitor_command_runs env u p s
     then nd_last_monitor s' > nd_last_monitor s \<and> nd_last_monitor s' = max (max 1 (de_now env)) (nd_last_monitor s + 1) \<and>
       (\<exists>response s2. (r, s') = sendMonitorPostResult env u (fst (ensurePostClientMessageID env p)) (nd_last_monitor s') response s2)
     else nd_last_monitor s' = nd_last_monitor s)"
proof -
  have warn: "kicks env u s (snd (sendMonitorWarning env u t s))" "nd_last_monitor (snd (sendMonitorWarning env u t s)) = nd_last_monitor s"
    "nd_db (snd (sendMonitorWarning env u t s)) = nd_db s" "nd_keys (snd (sendMonitorWarning env u t s)) = nd_keys s" for t
    by (simp_all add: sendMonitorWarning_def send_response_published send_response_rest kicks_same)
  show ?thesis
  proof (cases "u = AdminUserID \<and> \<not> (po_is_group p \<or> \<not> monitorContactEnabled env s) \<and> lower_key (TrimSpace (po_msg_type p)) = ''text''")
    case False
    then obtain t where "s' = snd (sendMonitorWarning env u t s)"
      using assms(1) by (auto simp: handleMonitorPost_def split: if_splits) (metis snd_conv)+
    moreover have "\<not> monitor_command_runs env u p s" using False by (auto simp: monitor_command_runs_def)
    ultimately show ?thesis using warn by simp
  next
    case True
    obtain c p1 where e: "ensurePostClientMessageID env p = (c, p1)" by fastforce
    obtain claim keys where k: "claimMonitorCommand env u c (nd_keys s) = (claim, keys)" by fastforce
    let ?s = "s\<lparr>nd_keys := keys\<rparr>"
    obtain name outcome s1 where x: "Execute env (monitorExecutor env) u (po_msg p1) ?s = ((name, outcome), s1)" by (metis surj_pair)
    have s1: "kicks env u s s1" "nd_last_monitor s1 = nd_last_monitor s"
      using Execute_kicks [of env u ?s "po_msg p1"] Execute_last [of env u "po_msg p1" ?s] x by (simp_all add: kicks_def)
    have no: "outcome \<noteq> Inl ErrForbidden"
      using x True by (auto simp: Execute_def runNoArg_def runUserAction_def action_result_def Let_def split: if_splits list.splits option.splits prod.splits sum.splits)
    have reply: "kicks env u s (snd (sendMonitorPostResult env u c i t s2)) \<and> nd_last_monitor (snd (sendMonitorPostResult env u c i t s2)) = nd_last_monitor s2"
      if "kicks env u s s2" for i t s2
      using kicks_then [OF that] sendMonitorPostResult_rest by simp
    have last: "nextMonitorMessageID (de_now env) (nd_last_monitor s1) = max (max 1 (de_now env)) (nd_last_monitor s + 1)"
      using nextMonitorMessageID_next assms(2,3) s1(2) by simp
    have runs: "monitor_command_runs env u p s \<longleftrightarrow> (\<exists>cached. claim = Inr (cached, True))"
      using True k by (auto simp: monitor_command_runs_def e)
    consider (err) e where "claim = Inl e" | (pending) "claim = Inr (None, False)"
      | (cached) i t where "claim = Inr (Some (i, t), False)" | (run) cached where "claim = Inr (cached, True)"
      by (cases claim) (auto, metis (full_types) option.exhaust surj_pair)
    then show ?thesis
    proof cases
      case (cached i t)
      then have "s' = snd (sendMonitorPostResult env u c i t ?s)"
        using assms(1) True e k by (simp add: handleMonitorPost_def)
      then show ?thesis using reply [of ?s i t] True runs cached by (simp add: kicks_same)
    next
      case run
      define i where "i = nextMonitorMessageID (de_now env) (nd_last_monitor s1)"
      define t where "t = (case outcome of Inl (ActionError e) \<Rightarrow> NCommandFailed @ e | Inl ErrForbidden \<Rightarrow> [] | Inr t \<Rightarrow> t)"
      define s2 where "s2 = s1\<lparr>nd_last_monitor := i, nd_keys := cacheMonitorCommand env u c i t (nd_keys s1)\<rparr>"
      have "handleMonitorPost env u p s = sendMonitorPostResult env u c i t s2"
        using True e k run x no
        by (simp add: handleMonitorPost_def Let_def i_def t_def s2_def split: sum.splits exec_error.splits)
      then have eq: "(r, s') = sendMonitorPostResult env u c i t s2" using assms(1) by simp
      then have s': "s' = snd (sendMonitorPostResult env u c i t s2)" by (metis snd_conv)
      have "kicks env u s s2" "nd_last_monitor s2 = i" using s1(1) by (simp_all add: kicks_def s2_def)
      with reply [of s2 i t] have "kicks env u s s'" "nd_last_monitor s' = i" by (simp_all add: s')
      moreover have "i = max (max 1 (de_now env)) (nd_last_monitor s + 1)" using last by (simp add: i_def)
      ultimately show ?thesis using eq True runs run e by auto
    qed (use assms(1) True e k runs in \<open>auto simp: handleMonitorPost_def kicks_same\<close>)
  qed
qed

section \<open>Delivery to a group\<close>

text \<open>The encodings do not fail, Kafka accepts, and the iteration over a map visits every key once.\<close>

definition smooth :: "df_env \<Rightarrow> bool" where
  "smooth env \<longleftrightarrow> (\<forall>x. dc_response (de_codec env) x \<noteq> None) \<and> (\<forall>x. dc_push (de_codec env) x \<noteq> None) \<and>
     (\<forall>x. dc_delivery (de_codec env) x \<noteq> None) \<and> (\<forall>t b. dc_envelope (de_codec env) t b \<noteq> None) \<and> (\<forall>t. de_kafka env t = NoFault) \<and>
     (\<forall>xs. distinct xs \<longrightarrow> distinct (de_map_order env xs) \<and> set (de_map_order env xs) = set xs)"

definition deliverable :: "conn_manager \<Rightarrow> string \<Rightarrow> bool" where
  "deliverable cm user \<longleftrightarrow> (\<exists>i c. GetConnectionByUserID user cm = Some (i, c) \<and> \<not> cn_closed c \<and> length (cn_queue c) < sendCapacity)"

definition queue_of :: "conn_manager \<Rightarrow> string \<Rightarrow> bytes list" where
  "queue_of cm user = (case GetConnectionByUserID user cm of None \<Rightarrow> [] | Some (i, c) \<Rightarrow> cn_queue c)"

text \<open>Different users have different connections.\<close>

definition separate :: "conn_manager \<Rightarrow> string set \<Rightarrow> bool" where
  "separate cm us \<longleftrightarrow> inj_on (cm_users cm) us"

lemma SendMessageToUser_deliverable:
  assumes "deliverable cm user"
  shows "\<exists>cm'. SendMessageToUser user m cm = (Inr (), cm') \<and> cm_users cm' = cm_users cm \<and> queue_of cm' user = queue_of cm user @ [m] \<and>
    (\<forall>v. cm_users cm v \<noteq> cm_users cm user \<longrightarrow> GetConnectionByUserID v cm' = GetConnectionByUserID v cm)"
  using assms
  by (auto simp: deliverable_def SendMessageToUser_def EnqueueMessage_def update_object_def queue_of_def GetConnectionByUserID_def
      GetConnectionByID_def split: option.splits if_splits)

lemma RouteMessage_local:
  assumes "deliverable (dw_manager w) user"
  shows "\<exists>cm'. RouteMessage env user m w = (Inr (), w\<lparr>dw_manager := cm'\<rparr>) \<and> SendMessageToUser user m (dw_manager w) = (Inr (), cm')"
proof -
  obtain cm' where "SendMessageToUser user m (dw_manager w) = (Inr (), cm')" using SendMessageToUser_deliverable [OF assms] by blast
  then show ?thesis using assms by (auto simp: RouteMessage_def routeLocally_def deliverable_def split: option.splits)
qed

definition here :: "df_env \<Rightarrow> (string \<rightharpoonup> string) \<Rightarrow> int list \<Rightarrow> int list" where
  "here env containers receivers = filter (\<lambda>m. containers (itoa m) = Some (currentContainerTopic env)) receivers"

definition elsewhere :: "df_env \<Rightarrow> (string \<rightharpoonup> string) \<Rightarrow> int list \<Rightarrow> (string \<times> int) list" where
  "elsewhere env containers receivers =
     map (\<lambda>m. (the (containers (itoa m)), m))
       (filter (\<lambda>m. \<exists>c. containers (itoa m) = Some c \<and> c \<noteq> [] \<and> c \<noteq> currentContainerTopic env) receivers)"

lemma currentContainerTopic_nonempty [simp]: "currentContainerTopic env \<noteq> []"
  by (simp add: currentContainerTopic_def)

lemma route_members_result:
  assumes "\<forall>m\<in>set (here env containers receivers). deliverable (dw_manager (nd_world s)) (itoa m)"
    and "distinct receivers" "separate (dw_manager (nd_world s)) (itoa ` set (here env containers receivers))" "inj_on itoa (set receivers)"
    and b: "dc_response (de_codec env) (RspPost p) = Some b"
  shows "\<exists>cm'. route_members env p containers receivers s = (elsewhere env containers receivers, s\<lparr>nd_world := (nd_world s)\<lparr>dw_manager := cm'\<rparr>\<rparr>) \<and>
    (\<forall>m\<in>set (here env containers receivers). queue_of cm' (itoa m) = queue_of (dw_manager (nd_world s)) (itoa m) @ [b]) \<and>
    (\<forall>v. (\<forall>m\<in>set (here env containers receivers). cm_users (dw_manager (nd_world s)) v \<noteq> cm_users (dw_manager (nd_world s)) (itoa m)) \<longrightarrow>
       GetConnectionByUserID v cm' = GetConnectionByUserID v (dw_manager (nd_world s)))"
  using assms(1-4)
proof (induction receivers arbitrary: s)
  case Nil
  show ?case by (rule exI [of _ "dw_manager (nd_world s)"]) (simp add: here_def elsewhere_def)
next
  case (Cons m ms)
  let ?cm = "dw_manager (nd_world s)"
  let ?H = "here env containers ms"
  show ?case
  proof (cases "containers (itoa m) = Some (currentContainerTopic env)")
    case False
    then have h: "here env containers (m # ms) = ?H" by (simp add: here_def)
    from Cons.IH [of s] Cons.prems h obtain cm' where cm': "route_members env p containers ms s = (elsewhere env containers ms, s\<lparr>nd_world := (nd_world s)\<lparr>dw_manager := cm'\<rparr>\<rparr>)"
      "\<forall>m\<in>set ?H. queue_of cm' (itoa m) = queue_of ?cm (itoa m) @ [b]"
      "\<forall>v. (\<forall>m\<in>set ?H. cm_users ?cm v \<noteq> cm_users ?cm (itoa m)) \<longrightarrow> GetConnectionByUserID v cm' = GetConnectionByUserID v ?cm"
      by auto
    moreover have "route_members env p containers (m # ms) s = (elsewhere env containers (m # ms), s\<lparr>nd_world := (nd_world s)\<lparr>dw_manager := cm'\<rparr>\<rparr>)"
      using cm'(1) False by (auto simp: elsewhere_def split: option.splits)
    ultimately show ?thesis unfolding h by blast
  next
    case True
    have h: "here env containers (m # ms) = m # ?H" using True by (simp add: here_def)
    have d: "deliverable ?cm (itoa m)" using Cons.prems(1) by (simp add: h)
    obtain cm1 where send: "SendMessageToUser (itoa m) b ?cm = (Inr (), cm1)" "cm_users cm1 = cm_users ?cm" "queue_of cm1 (itoa m) = queue_of ?cm (itoa m) @ [b]"
        "\<forall>v. cm_users ?cm v \<noteq> cm_users ?cm (itoa m) \<longrightarrow> GetConnectionByUserID v cm1 = GetConnectionByUserID v ?cm"
      using SendMessageToUser_deliverable [OF d] by blast
    let ?s1 = "s\<lparr>nd_world := (nd_world s)\<lparr>dw_manager := cm1\<rparr>\<rparr>"
    have route: "snd (routePostToTarget env (itoa m) (currentContainerTopic env) p s) = ?s1"
      using RouteMessage_local [OF d, of env b] send(1) b by (auto simp: routePostToTarget_def buildPostDeliveryMessageBytes_def on_world_def)
    have others: "cm_users ?cm (itoa m') \<noteq> cm_users ?cm (itoa m)" if "m' \<in> set ?H" for m'
    proof -
      have "m' \<in> set ms" "m' \<noteq> m" using that Cons.prems(2) by (auto simp: here_def)
      then have "itoa m' \<noteq> itoa m" using Cons.prems(4) by (auto simp: inj_on_def)
      then show ?thesis using Cons.prems(3) that unfolding h separate_def inj_on_def by fastforce
    qed
    have same: "GetConnectionByUserID (itoa m') cm1 = GetConnectionByUserID (itoa m') ?cm" if "m' \<in> set ?H" for m'
      using send(4) others [OF that] by simp
    have "\<forall>m'\<in>set ?H. deliverable cm1 (itoa m')" using Cons.prems(1) same by (simp add: h deliverable_def)
    moreover have "separate cm1 (itoa ` set ?H)" using Cons.prems(3) send(2) by (simp add: h separate_def)
    ultimately obtain cm' where cm': "route_members env p containers ms ?s1 = (elsewhere env containers ms, ?s1\<lparr>nd_world := (nd_world ?s1)\<lparr>dw_manager := cm'\<rparr>\<rparr>)"
      "\<forall>m\<in>set ?H. queue_of cm' (itoa m) = queue_of cm1 (itoa m) @ [b]"
      "\<forall>v. (\<forall>m\<in>set ?H. cm_users cm1 v \<noteq> cm_users cm1 (itoa m)) \<longrightarrow> GetConnectionByUserID v cm' = GetConnectionByUserID v cm1"
      using Cons.IH [of ?s1] Cons.prems(2,4) by auto
    have "route_members env p containers (m # ms) s = (elsewhere env containers (m # ms), s\<lparr>nd_world := (nd_world s)\<lparr>dw_manager := cm'\<rparr>\<rparr>)"
      using cm'(1) True by (simp add: route elsewhere_def)
    moreover have "queue_of cm' (itoa m') = queue_of ?cm (itoa m') @ [b]" if "m' \<in> set (m # ?H)" for m'
    proof (cases "m' = m")
      case True
      have "GetConnectionByUserID (itoa m) cm' = GetConnectionByUserID (itoa m) cm1"
        using cm'(3) others send(2) by (metis)
      then show ?thesis using send(3) True by (simp add: queue_of_def)
    next
      case False
      then have "m' \<in> set ?H" using that by simp
      then show ?thesis using cm'(2) same by (simp add: queue_of_def)
    qed
    moreover have "GetConnectionByUserID v cm' = GetConnectionByUserID v ?cm"
      if "\<forall>m'\<in>set (m # ?H). cm_users ?cm v \<noteq> cm_users ?cm (itoa m')" for v
      using cm'(3) send(2,4) that by simp
    ultimately show ?thesis unfolding h by blast
  qed
qed

text \<open>The batch for a container: the receivers that are connected there, in the order of the members.\<close>

definition batch_for :: "df_env \<Rightarrow> post \<Rightarrow> (string \<rightharpoonup> string) \<Rightarrow> int list \<Rightarrow> string \<Rightarrow> bytes" where
  "batch_for env p containers receivers c =
     the (MarshalEnvelope env ENV_DF_RESPONSE
       (dc_delivery (de_codec env) (buildGroupPostDelivery (filter (\<lambda>m. containers (itoa m) = Some c) receivers) p)))"

definition foreign :: "df_env \<Rightarrow> (string \<rightharpoonup> string) \<Rightarrow> int list \<Rightarrow> string set" where
  "foreign env containers receivers =
     {c. c \<noteq> [] \<and> c \<noteq> currentContainerTopic env \<and> (\<exists>m\<in>set receivers. containers (itoa m) = Some c)}"

lemma elsewhere_topics: "set (map fst (elsewhere env containers receivers)) = foreign env containers receivers"
proof
  show "foreign env containers receivers \<subseteq> set (map fst (elsewhere env containers receivers))"
    by (auto simp: elsewhere_def foreign_def image_iff) (metis option.sel)
qed (auto simp: elsewhere_def foreign_def)

lemma targets_of_elsewhere:
  "c \<in> foreign env containers receivers \<Longrightarrow>
    targets_of c (elsewhere env containers receivers) = filter (\<lambda>m. containers (itoa m) = Some c) receivers"
  by (auto simp: targets_of_def elsewhere_def foreign_def filter_map comp_def intro!: filter_cong)

lemma smooth_marshal: "smooth env \<Longrightarrow> \<exists>b. MarshalEnvelope env ENV_DF_RESPONSE (dc_delivery (de_codec env) d) = Some b"
  "smooth env \<Longrightarrow> \<exists>b. MarshalEnvelope env ENV_PUSH_REQUEST (dc_push (de_codec env) q) = Some b"
  by (auto simp: smooth_def MarshalEnvelope_def split: option.split)

lemma publish_batches_records:
  assumes "smooth env" "set topics \<subseteq> foreign env containers receivers"
  shows "publish_batches env p (elsewhere env containers receivers) topics s =
    s\<lparr>nd_world := (nd_world s)\<lparr>dw_kafka := dw_kafka (nd_world s) @ map (\<lambda>c. (c, batch_for env p containers receivers c)) topics\<rparr>\<rparr>"
  using assms(2)
proof (induction topics arbitrary: s)
  case (Cons c cs)
  let ?d = "buildGroupPostDelivery (filter (\<lambda>m. containers (itoa m) = Some c) receivers) p"
  obtain b where b: "MarshalEnvelope env ENV_DF_RESPONSE (dc_delivery (de_codec env) ?d) = Some b" using smooth_marshal [OF assms(1)] by blast
  have t: "targets_of c (elsewhere env containers receivers) = filter (\<lambda>m. containers (itoa m) = Some c) receivers"
    "filter (\<lambda>m. containers (itoa m) = Some c) receivers \<noteq> []"
    using Cons.prems targets_of_elsewhere [of c env containers receivers] by (auto simp: foreign_def filter_empty_conv)
  have k: "de_kafka env c = NoFault" using assms(1) by (simp add: smooth_def)
  have "snd (routeGroupPostBatchCrossContainer env c (targets_of c (elsewhere env containers receivers)) p s) =
      s\<lparr>nd_world := (nd_world s)\<lparr>dw_kafka := dw_kafka (nd_world s) @ [(c, b)]\<rparr>\<rparr>"
    using b t k by (simp add: routeGroupPostBatchCrossContainer_def on_world_def PublishEnvelope_def PublishMessage_def)
  then show ?case using Cons b by (simp add: batch_for_def)
qed simp

definition push_record :: "df_env \<Rightarrow> int list \<Rightarrow> post \<Rightarrow> int \<Rightarrow> (string \<times> bytes) list" where
  "push_record env receivers p i =
     (if receivers = [] then []
      else [(pushServiceTopic, the (MarshalEnvelope env ENV_PUSH_REQUEST (dc_push (de_codec env) (buildMessagePushRequest receivers p i))))])"

lemma publish_push_record:
  assumes "smooth env"
  shows "publishMessagePushBestEffort env receivers p i s =
    s\<lparr>nd_world := (nd_world s)\<lparr>dw_kafka := dw_kafka (nd_world s) @ push_record env receivers p i\<rparr>\<rparr>"
proof -
  obtain b where "MarshalEnvelope env ENV_PUSH_REQUEST (dc_push (de_codec env) (buildMessagePushRequest receivers p i)) = Some b"
    using smooth_marshal [OF assms] by blast
  moreover have "de_kafka env pushServiceTopic = NoFault" using assms by (simp add: smooth_def)
  ultimately show ?thesis
    by (simp add: publishMessagePushBestEffort_def publishPushRequest_def on_world_def PublishEnvelope_def PublishMessage_def push_record_def)
qed

text \<open>
  C30. A stored group message reaches every member but the sender, once: when Kafka accepts, the lookup of the containers succeeds
  and the members here can be written to, each receiver that is connected here gets exactly the encoded message at the end of its queue,
  every other container with receivers gets exactly one record that names all and only the receivers connected
  there, and the push service gets one notification for all receivers.
\<close>

theorem group_post_delivery:
  assumes "smooth env" "de_database_ok env" "IsActiveGroupMemberWithDB (po_to_id p) u (nd_db s)"
    and "receivers = membersWithoutSender (GetActiveGroupMemberIDsWithDB (po_to_id p) (nd_db s)) u" "distinct receivers"
    and "GetContainersByConnections (de_lookup env) (de_now env) (map itoa receivers) (dw_redis (nd_world s)) = (Inr containers, r)"
    and "\<forall>m\<in>set (here env containers receivers). deliverable (dw_manager (nd_world s)) (itoa m)"
    and "separate (dw_manager (nd_world s)) (itoa ` set (here env containers receivers))"
    and "dc_response (de_codec env) (RspPost p) = Some b"
  shows "\<exists>s' topics. routeGroupMessage env i u p s = (Inr (), s') \<and>
    dw_kafka (nd_world s') = dw_kafka (nd_world s) @ push_record env receivers p i @ map (\<lambda>c. (c, batch_for env p containers receivers c)) topics \<and>
    distinct topics \<and> set topics = foreign env containers receivers \<and>
    (\<forall>m\<in>set (here env containers receivers).
       queue_of (dw_manager (nd_world s')) (itoa m) = queue_of (dw_manager (nd_world s)) (itoa m) @ [b])"
proof -
  let ?s1 = "s\<lparr>nd_world := (nd_world s)\<lparr>dw_kafka := dw_kafka (nd_world s) @ push_record env receivers p i, dw_redis := r\<rparr>\<rparr>"
  let ?topics = "target_topics env (elsewhere env containers receivers)"
  have topics: "distinct ?topics" "set ?topics = foreign env containers receivers"
    using assms(1) elsewhere_topics [of env containers receivers] by (simp_all add: target_topics_def smooth_def)
  obtain cm where cm: "route_members env p containers receivers ?s1 = (elsewhere env containers receivers, ?s1\<lparr>nd_world := (nd_world ?s1)\<lparr>dw_manager := cm\<rparr>\<rparr>)"
      "\<forall>m\<in>set (here env containers receivers). queue_of cm (itoa m) = queue_of (dw_manager (nd_world s)) (itoa m) @ [b]"
  proof -
    have "\<forall>m\<in>set (here env containers receivers). deliverable (dw_manager (nd_world ?s1)) (itoa m)"
      "separate (dw_manager (nd_world ?s1)) (itoa ` set (here env containers receivers))" "inj_on itoa (set receivers)"
      using assms(7,8) by (simp_all add: inj_on_def)
    from route_members_result [OF this(1) assms(5) this(2,3) assms(9)] that show thesis by auto
  qed
  have "routeGroupMessage env i u p s = (Inr (), publish_batches env p (elsewhere env containers receivers) ?topics (?s1\<lparr>nd_world := (nd_world ?s1)\<lparr>dw_manager := cm\<rparr>\<rparr>))"
    using assms(2,3,6) cm(1) by (simp add: routeGroupMessage_def Let_def publish_push_record [OF assms(1)] assms(4) [symmetric])
  moreover have "publish_batches env p (elsewhere env containers receivers) ?topics s2 =
      s2\<lparr>nd_world := (nd_world s2)\<lparr>dw_kafka := dw_kafka (nd_world s2) @ map (\<lambda>c. (c, batch_for env p containers receivers c)) ?topics\<rparr>\<rparr>" for s2
    using publish_batches_records [OF assms(1)] topics(2) by simp
  ultimately show ?thesis using topics cm(2) by (auto intro!: exI [of _ ?topics])
qed

section \<open>Witnesses\<close>

text \<open>
  A message of user 5; user 6 is connected to container \<^verbatim>\<open>A\<close> as \<^verbatim>\<open>x\<close> and user 8 to container \<^verbatim>\<open>B\<close>, and the three are
  members of group 7.
\<close>

definition sample_post :: "bool \<Rightarrow> post" where
  "sample_post g = \<lparr>po_from_id = 5, po_is_group = g, po_to_id = 7, po_msg = ''hi'', po_msg_type = ''text'', po_timestamp = [],
     po_real_file_name = [], po_client_message_id = ''c1''\<rparr>"

definition sample_member :: "int \<Rightarrow> member_row" where
  "sample_member u = \<lparr>gm_group_id = 7, gm_user_id = u, gm_role = ''member'', gm_joined_at = [], gm_update_time = []\<rparr>"

definition sample_routes :: session_redis where
  "sample_routes = (dw_redis (nd_world sample_node))\<lparr>sr_mapping := [''6'' \<mapsto> ''A'', ''8'' \<mapsto> ''B''],
     sr_leases := [''6'' \<mapsto> (''A|t'', 9), ''8'' \<mapsto> (''B|t'', 9)]\<rparr>"

definition sample_group_node :: df_node where
  "sample_group_node = sample_node\<lparr>
     nd_world := (nd_world sample_node)\<lparr>dw_redis := sample_routes, dw_manager := (AddConnection ''x'' NewConnectionManager)\<lparr>cm_users := [''6'' \<mapsto> ''x'']\<rparr>\<rparr>,
     nd_db := sample_chat\<lparr>group_members := map sample_member [5, 6, 8]\<rparr>\<rparr>"

lemma sample_texts: "TrimSpace ''c1'' = ''c1''" "TrimSpace ''text'' = ''text''" "TrimSpace [] = []" "ParseInt64 [] = None" "itoa 6 = ''6''" "itoa 8 = ''8''"
  by code_simp+

lemma singleton_list: "distinct xs \<Longrightarrow> set xs = {x} \<Longrightarrow> xs = [x]"
  by (cases xs; cases "tl xs") auto

lemma sample_accepted: "accepts_post (sample_df_env t) 5 ''t'' (sample_post False) ''c1'' (sample_post False) s"
  by (simp add: accepts_post_def authenticated_def sample_df_env_def validatePostPayload_def ensurePostClientMessageID_def sample_post_def
      sample_texts IsMonitorID_def CurrentProfile_def Let_def)

lemma sample_smooth: "smooth (sample_df_env t)"
  by (simp add: smooth_def sample_df_env_def sample_codec_def)

theorem post_retry_idempotent_witness:
  "\<exists>s1 keys. handlePostMessage (sample_df_env 0) 5 ''t'' (sample_post False) sample_node = (Inr (), s1) \<and>
     handlePostMessage (sample_df_env 1) 5 ''t'' (sample_post False) s1 = (Inr (), s1) \<and>
     handlePostMessage (sample_df_env 3) 5 ''t'' (sample_post False) (s1\<lparr>nd_keys := keys\<rparr>) =
       sendPostAck (sample_df_env 3) 5 11 ''c1'' (s1\<lparr>nd_keys := keys\<rparr>)"
proof -
  let ?k = "postIdempotencyKey (sample_df_env 0) 5 ''c1''"
  let ?pending = "sample_node\<lparr>nd_keys := (nd_keys sample_node)(?k \<mapsto> (''pending'', 0 + postPendingTTL))\<rparr>"
  have codec: "de_codec (sample_df_env t) = de_codec (sample_df_env 0)" "de_claim (sample_df_env t) = [(NoFault, t, NoFault, t)]"
    "de_complete (sample_df_env t) = NoFault" "de_now (sample_df_env t) = t" for t
    by (simp_all add: sample_df_env_def)
  have k: "de_kafka (sample_df_env 0) storageServiceTopic = NoFault" "MarshalEnvelope (sample_df_env 0) ENV_STORAGE_REQUEST (dc_storage (de_codec (sample_df_env 0)) q) = Some ''s''" for q
    by (simp_all add: sample_df_env_def MarshalEnvelope_def sample_codec_def)
  have "\<exists>s1. sendMessageToStorage (sample_df_env 0) (sample_post False) s = (Inr (), s1)" for s
    by (simp add: sendMessageToStorage_def publishStorageRequest_def on_world_def PublishEnvelope_def PublishMessage_def k)
  then obtain s1 where send: "sendMessageToStorage (sample_df_env 0) (sample_post False) ?pending = (Inr (), s1)" by blast
  obtain keys where completed: "CompletePostIdempotency (sample_df_env 2) 5 ''c1'' 11 (nd_keys s1) = (Inr (), keys)"
    by (simp add: CompletePostIdempotency_def key_write_def codec(3))
  have "live 0 (nd_keys sample_node) ?k = None" by (simp add: live_def sample_node_def)
  from post_retry_idempotent [OF sample_accepted codec(2) this send sample_accepted [of 1] codec(1,2) _ _ completed codec(1,3) _ _ _ sample_accepted [of 3 "s1\<lparr>nd_keys := keys\<rparr>"] codec(1,2)]
  show ?thesis by (auto simp: codec(4))
qed

text \<open>The administrator asks the monitor for its status, at five nanoseconds and after command number 7.\<close>

definition sample_monitor_node :: df_node where
  "sample_monitor_node = sample_node\<lparr>nd_monitor_contact := True, nd_last_monitor := 7\<rparr>"

definition sample_command :: post where
  "sample_command = \<lparr>po_from_id = 1, po_is_group = False, po_to_id = 2, po_msg = ''/status'', po_msg_type = ''text'', po_timestamp = [],
     po_real_file_name = [], po_client_message_id = ''c1''\<rparr>"

theorem monitor_commands_guarded_witness:
  "(\<exists>r s'. handleMonitorPost (sample_df_env 5) 1 sample_command sample_monitor_node = (r, s') \<and> nd_last_monitor s' = 8 \<and>
     kicks (sample_df_env 5) 1 sample_monitor_node s' \<and>
     (\<exists>response s2. (r, s') = sendMonitorPostResult (sample_df_env 5) 1 ''c1'' 8 response s2)) \<and>
   (\<exists>r s'. handleMonitorPost (sample_df_env 5) 5 sample_command sample_monitor_node = (r, s') \<and> nd_last_monitor s' = 7 \<and>
     nd_db s' = nd_db sample_monitor_node \<and> nd_keys s' = nd_keys sample_monitor_node)"
proof
  let ?e = "sample_df_env 5"
  have n: "nd_last_monitor sample_monitor_node = 7" "de_now ?e = 5" by (simp_all add: sample_monitor_node_def sample_df_env_def)
  have id: "ensurePostClientMessageID ?e sample_command = (''c1'', sample_command)"
  proof -
    have "TrimSpace ''c1'' = ''c1''" by code_simp
    then show ?thesis by (simp add: ensurePostClientMessageID_def sample_command_def Let_def)
  qed
  have "lower_key (TrimSpace ''text'') = ''text''" by code_simp
  moreover have "fst (claimMonitorCommand ?e 1 ''c1'' (nd_keys sample_monitor_node)) = Inr (None, True)"
    by (simp add: claimMonitorCommand_def key_get_def key_setnx_def Let_def sample_monitor_node_def sample_node_def)
       (simp add: sample_df_env_def live_def)
  ultimately have runs: "monitor_command_runs ?e 1 sample_command sample_monitor_node"
    unfolding monitor_command_runs_def id
    by (simp add: monitorContactEnabled_def) (simp add: sample_command_def sample_monitor_node_def sample_df_env_def)
  obtain r s' where h: "handleMonitorPost ?e 1 sample_command sample_monitor_node = (r, s')" by fastforce
  have pre: "- (2 ^ 63) \<le> nd_last_monitor sample_monitor_node" "nd_last_monitor sample_monitor_node < 2 ^ 63 - 1" by (simp_all add: n)
  note g = monitor_commands_guarded [OF h pre, unfolded if_P [OF runs] id fst_conv]
  have last: "nd_last_monitor s' = 8" using g by (simp add: n)
  have "nd_last_monitor s' = 8 \<and> kicks ?e 1 sample_monitor_node s' \<and> (\<exists>response s2. (r, s') = sendMonitorPostResult ?e 1 ''c1'' 8 response s2)"
    using g unfolding last by blast
  with h show "\<exists>r s'. handleMonitorPost ?e 1 sample_command sample_monitor_node = (r, s') \<and>
     nd_last_monitor s' = 8 \<and> kicks ?e 1 sample_monitor_node s' \<and> (\<exists>response s2. (r, s') = sendMonitorPostResult ?e 1 ''c1'' 8 response s2)"
    by blast
  obtain r' s'' where h': "handleMonitorPost ?e 5 sample_command sample_monitor_node = (r', s'')" by fastforce
  from monitor_commands_guarded [OF h'] h' show "\<exists>r s'. handleMonitorPost ?e 5 sample_command sample_monitor_node = (r, s') \<and>
     nd_last_monitor s' = 7 \<and> nd_db s' = nd_db sample_monitor_node \<and> nd_keys s' = nd_keys sample_monitor_node"
    by (auto simp: n)
qed

theorem group_post_delivery_witness:
  "\<exists>s'. routeGroupMessage (sample_df_env 0) 11 5 (sample_post True) sample_group_node = (Inr (), s') \<and>
     map fst (dw_kafka (nd_world s')) = [pushServiceTopic, ''B''] \<and>
     queue_of (dw_manager (nd_world s')) (itoa 6) = [''r'']"
proof -
  let ?m = "[''6'' \<mapsto> ''A'', ''8'' \<mapsto> ''B'']" and ?cm = "dw_manager (nd_world sample_group_node)" and ?e = "sample_df_env 0"
  have receivers: "[6, 8] = membersWithoutSender (GetActiveGroupMemberIDsWithDB (po_to_id (sample_post True)) (nd_db sample_group_node)) 5"
    by (simp add: membersWithoutSender_def GetActiveGroupMemberIDsWithDB_def sample_group_node_def sample_post_def sample_member_def sql_order_def)
  have lookup: "\<exists>r. GetContainersByConnections (de_lookup ?e) (de_now ?e) (map itoa [6, 8]) (dw_redis (nd_world sample_group_node)) = (Inr ?m, r)"
    by (simp add: GetContainersByConnections_def redis_call_def sample_df_env_def getValidRouteScript_def route_valid_def live_def HasPrefix_def
        sample_texts sample_group_node_def sample_routes_def starts_with_def)
  have topic: "currentContainerTopic ?e = ''A''" by (simp add: currentContainerTopic_def sample_df_env_def)
  have here: "here ?e ?m [6, 8] = [6]" by (simp add: here_def topic sample_texts)
  have foreign: "foreign ?e ?m [6, 8] = {''B''}" by (auto simp: foreign_def topic sample_texts)
  have conn: "GetConnectionByUserID ''6'' ?cm = Some (''x'', \<lparr>cn_user_id = [], cn_owner_token = [], cn_queue = [], cn_closed = False, cn_authenticated = False\<rparr>)"
    by (simp add: sample_group_node_def GetConnectionByUserID_def GetConnectionByID_def AddConnection_def)
  have queue: "queue_of ?cm (itoa 6) = []" by (simp add: queue_of_def conn sample_texts)
  have k: "dw_kafka (nd_world sample_group_node) = []"
    by (simp add: sample_group_node_def sample_node_def view_def sample_connected_def empty_cluster_def)
  have member: "IsActiveGroupMemberWithDB (po_to_id (sample_post True)) 5 (nd_db sample_group_node)"
    by (simp add: IsActiveGroupMemberWithDB_def sample_group_node_def sample_post_def sample_member_def sql_count_def)
  have ok: "\<forall>m\<in>set (here ?e ?m [6, 8]). deliverable ?cm (itoa m)" "separate ?cm (itoa ` set (here ?e ?m [6, 8]))"
    unfolding here by (simp_all add: deliverable_def conn separate_def sample_texts)
  have fine: "dc_response (de_codec ?e) (RspPost (sample_post True)) = Some ''r''" "de_database_ok ?e" "distinct [6, 8::int]"
    by (simp_all add: sample_df_env_def sample_codec_def)
  obtain r where "GetContainersByConnections (de_lookup ?e) (de_now ?e) (map itoa [6, 8]) (dw_redis (nd_world sample_group_node)) = (Inr ?m, r)"
    using lookup by blast
  from group_post_delivery [OF sample_smooth fine(2) member receivers fine(3) this ok fine(1), of 11]
  obtain s' topics where s': "routeGroupMessage ?e 11 5 (sample_post True) sample_group_node = (Inr (), s')"
    "dw_kafka (nd_world s') = push_record ?e [6, 8] (sample_post True) 11 @ map (\<lambda>c. (c, batch_for ?e (sample_post True) ?m [6, 8] c)) topics"
    "distinct topics" "set topics = {''B''}" "queue_of (dw_manager (nd_world s')) (itoa 6) = [''r'']"
    unfolding here foreign by (auto simp: k queue)
  moreover have "topics = [''B'']" using singleton_list [OF s'(3,4)] .
  ultimately show ?thesis by (simp add: push_record_def comp_def)
qed

end
