(* ===== verification/DF_Consumer_Laws.thy ===== *)
theory DF_Consumer_Laws
  imports DF_Consumer DF_Post_Laws
begin

text \<open>
  The consumer of the data forwarding service: its retry loop is the shared one, what cannot be processed has no
  effect, batches of another container reach the clients, and a stored message is delivered once.
\<close>

section \<open>The retry loop\<close>

text \<open>The shared consumer in the same surroundings; its dead letters have two headers more.\<close>

definition shared_env :: "'s retry_env \<Rightarrow> 's consumer_env" where
  "shared_env env =
     \<lparr>ce_process = \<lambda>_ m s. (case re_process env m s of
          (None, s1) \<Rightarrow> (Success, s1)
        | (Some (failurePermanent, t), s1) \<Rightarrow> (Permanent (Some (plain_error t)), s1)
        | (Some (failureTransient, t), s1) \<Rightarrow> (Transient (Some (plain_error t)), s1)),
      ce_publish = Some (\<lambda>topic payload headers s.
        (case re_publish env topic payload (filter (\<lambda>h. fst h \<noteq> ''service'' \<and> fst h \<noteq> ''operation_key'') headers) s of
           (e, s1) \<Rightarrow> (map_option plain_error e, s1))),
      ce_cancelled = map_option plain_error \<circ> re_cancelled env,
      ce_cancelled_dlq = map_option plain_error \<circ> re_cancelled_dlq env,
      ce_cancelled_wait = map_option plain_error \<circ> re_cancelled_wait env,
      ce_now = re_now env, ce_envelope_type = re_envelope_type env\<rparr>"

definition shared_config :: "consumerRetryConfig \<Rightarrow> consumer_config" where
  "shared_config c = \<lparr>kc_service = ''data-forwarding'', kc_dlq_topic = rt_dlq_topic c, kc_max_retries = rt_max_retries c,
     kc_initial_backoff = rt_initial_backoff c, kc_max_backoff = rt_max_backoff c\<rparr>"

lemma summarizeError_shared: "SummarizeError (Some (plain_error t)) = summarizeError t"
  by (simp add: SummarizeError_def summarizeError_def plain_error_def Let_def)

definition shared_result :: "failureClass \<Rightarrow> string \<Rightarrow> consumer_result" where
  "shared_result k t = (case k of failurePermanent \<Rightarrow> Permanent (Some (plain_error t)) | failureTransient \<Rightarrow> Transient (Some (plain_error t)))"

lemma shared_result_simps [simp]:
  "cr_outcome (shared_result k t) = (case k of failurePermanent \<Rightarrow> OutcomePermanent | failureTransient \<Rightarrow> OutcomeTransient)"
  "cr_err (shared_result k t) = Some (plain_error t)" "failure_of (shared_result k t) = Some (shared_result k t)"
  "retry_delay b (shared_result k t) = b"
  by (cases k; simp add: shared_result_def Permanent_def Transient_def failure_of_def nonNilError_def retry_delay_def plain_error_def)+

lemma dlqHeaders_shared:
  "filter (\<lambda>h. fst h \<noteq> ''service'' \<and> fst h \<noteq> ''operation_key'') (DLQHeaders service m kind (shared_result k t) first final n) =
     dlqHeaders m kind k t first final n"
  by (cases k) (simp_all add: DLQHeaders_def dlqHeaders_def summarizeError_shared outcome_name_def failure_class_name_def)

text \<open>What a caller sees of a run: whether the message is settled, the waits and the state.\<close>

definition observed :: "('e option \<times> duration list) \<times> 's \<Rightarrow> bool \<times> duration list \<times> 's" where
  "observed r = (case r of ((e, ds), s) \<Rightarrow> (e = None, ds, s))"

lemma publishDeadLetter_shared:
  assumes "TrimSpace (rt_dlq_topic c) \<noteq> []" "publish_dead_letter_df env c m k t first n s = (e, s1)"
  shows "\<exists>e'. publishDeadLetter (shared_env env) (shared_config c) m (shared_result k t) first n s = (e', s1) \<and> (e' = None \<longleftrightarrow> e = None)"
  using assms
  by (auto simp: publishDeadLetter_def shared_env_def shared_config_def publish_dead_letter_df_def dlqHeaders_shared split: option.split)

lemma shared_process:
  "ce_process (shared_env env) key m s =
     (case re_process env m s of (None, s1) \<Rightarrow> (Success, s1) | (Some (k, t), s1) \<Rightarrow> (shared_result k t, s1))"
  by (auto simp: shared_env_def shared_result_def split: prod.split option.split failureClass.split)

lemma retry_loop_shared:
  assumes "TrimSpace (rt_dlq_topic c) \<noteq> []"
  shows "observed (retry_loop_df env c m attempt b ff s) = observed (retry_loop (shared_env env) (shared_config c) m attempt b ff s)"
  using assms
proof (induction env c m attempt b ff s rule: retry_loop_df.induct)
  case (1 env c m attempt b ff s)
  obtain o1 s1 where p: "re_process env m s = (o1, s1)" by fastforce
  define first where "first = (case ff of None \<Rightarrow> re_now env attempt | Some t \<Rightarrow> t)"
  have env: "ce_cancelled (shared_env env) = map_option plain_error \<circ> re_cancelled env" "ce_cancelled_dlq (shared_env env) = map_option plain_error \<circ> re_cancelled_dlq env"
    "ce_cancelled_wait (shared_env env) = map_option plain_error \<circ> re_cancelled_wait env" "ce_now (shared_env env) = re_now env"
    "kc_max_retries (shared_config c) = rt_max_retries c" "kc_max_backoff (shared_config c) = rt_max_backoff c"
    by (simp_all add: shared_env_def shared_config_def)
  have first: "(case ff of None \<Rightarrow> re_now env attempt | Some t \<Rightarrow> t) = first" "(case ff of None \<Rightarrow> ce_now (shared_env env) attempt | Some t \<Rightarrow> t) = first"
    unfolding env(4) first_def by rule+
  show ?case
  proof (cases "re_cancelled env attempt = None \<and> o1 \<noteq> None")
    case False
    then consider (cancelled) e where "re_cancelled env attempt = Some e" | (ok) "re_cancelled env attempt = None" "o1 = None"
      by (cases "re_cancelled env attempt") blast+
    then show ?thesis
    proof cases
      case cancelled
      then show ?thesis by (subst retry_loop_df.simps, subst retry_loop.simps) (simp add: observed_def env)
    next
      case ok
      then show ?thesis using p
        by (subst retry_loop_df.simps, subst retry_loop.simps) (simp add: observed_def env shared_process failure_of_def Success_def)
    qed
  next
    case True
    then obtain k t where o1: "o1 = Some (k, t)" by auto
    show ?thesis
    proof (cases "k = failurePermanent \<or> int attempt \<ge> rt_max_retries c")
      case last: True
      obtain e s2 where d: "publish_dead_letter_df env c m k t first attempt s1 = (e, s2)" by fastforce
      obtain e' where d': "publishDeadLetter (shared_env env) (shared_config c) m (shared_result k t) first attempt s1 = (e', s2)" "e' = None \<longleftrightarrow> e = None"
        using publishDeadLetter_shared [OF "1.prems" d] by blast
      have "cr_outcome (shared_result k t) = OutcomePermanent \<or> int attempt \<ge> rt_max_retries c" using last by auto
      then show ?thesis
        using True p o1 last d d'
        by (subst retry_loop_df.simps, subst retry_loop.simps, cases "re_cancelled_dlq env attempt")
          (simp_all add: observed_def env shared_process first Let_def del: shared_result_simps(1))
    next
      case again: False
      define b2 where "b2 = next_backoff (shared_config c) b"
      have b2: "(if wrap64 (2 * b) > rt_max_backoff c then rt_max_backoff c else wrap64 (2 * b)) = b2"
        by (simp add: b2_def next_backoff_def env Let_def)
      have ih: "observed (retry_loop_df env c m (Suc attempt) b2 (Some first) s1) = observed (retry_loop (shared_env env) (shared_config c) m (Suc attempt) b2 (Some first) s1)"
        if "re_cancelled_wait env attempt = None"
        using "1.IH" [OF _ p [symmetric] o1 refl first_def again that refl b2 [symmetric]] True "1.prems" by simp
      obtain e ds s2 e' ds' s2' where r: "retry_loop_df env c m (Suc attempt) b2 (Some first) s1 = ((e, ds), s2)"
          "retry_loop (shared_env env) (shared_config c) m (Suc attempt) b2 (Some first) s1 = ((e', ds'), s2')" by (metis surj_pair)
      have "\<not> (cr_outcome (shared_result k t) = OutcomePermanent \<or> int attempt \<ge> rt_max_retries c)" using again by (cases k) auto
      then show ?thesis
        using True p o1 again ih r
        by (subst retry_loop_df.simps, subst retry_loop.simps, cases "re_cancelled_wait env attempt")
          (simp_all add: observed_def env shared_process first b2 b2_def [symmetric] Let_def del: shared_result_simps(1))
    qed
  qed
qed

lemma loaded_config:
  "normalized (shared_config (loadConsumerRetryConfig retries initial maximal topic)) = shared_config (loadConsumerRetryConfig retries initial maximal topic)"
  "TrimSpace (rt_dlq_topic (loadConsumerRetryConfig retries initial maximal topic)) \<noteq> []"
proof -
  have "0 < envDuration d f" if "0 < f" for d f using that by (simp add: envDuration_def split: option.split)
  from this [of "2 * second" maximal] this [of "100 * millisecond" initial]
  have p: "0 < envDuration maximal (2 * second)" "0 < envDuration initial (100 * millisecond)" by simp_all
  have t: "TrimSpace ''data-forwarding'' \<noteq> []" "TrimSpace ''data-forwarding-dlq'' \<noteq> []" by code_simp+
  have "0 \<le> envInt retries 3" by (simp add: envInt_def split: option.split)
  then show "normalized (shared_config (loadConsumerRetryConfig retries initial maximal topic)) = shared_config (loadConsumerRetryConfig retries initial maximal topic)"
    using p t(1) by (auto simp: normalized_def shared_config_def loadConsumerRetryConfig_def Let_def)
  show "TrimSpace (rt_dlq_topic (loadConsumerRetryConfig retries initial maximal topic)) \<noteq> []"
    using t(2) by (simp add: loadConsumerRetryConfig_def envString_def Let_def)
qed

text \<open>
  C35. The consumer of the data forwarding service, which has a loop of its own, behaves as the shared one does in the
  same surroundings: with every configuration that the environment can give, which is already normalised, it settles
  the same messages after the same waits and with the same effects, up to the two headers that its dead letters lack.
\<close>

theorem df_consumer_as_shared:
  "let c = loadConsumerRetryConfig retries initial maximal topic in
     normalized (shared_config c) = shared_config c \<and>
     observed (process_with_retry_df env c m s) = observed (processWithRetry (shared_env env) (shared_config c) m s)"
proof -
  have "kc_initial_backoff (shared_config c) = rt_initial_backoff c" for c by (simp add: shared_config_def)
  then show ?thesis
    using loaded_config(1) retry_loop_shared [OF loaded_config(2)] by (simp add: process_with_retry_df_def processWithRetry_def Let_def)
qed

section \<open>What cannot be processed\<close>

lemma permanent_only [simp]: "transient r \<noteq> (Inl PermanentError, s)"
  by (cases r) (auto simp: transient_def split: sum.splits)

lemma handlers_transient:
  "handleStorageResponse env resp s \<noteq> (Inl PermanentError, s')" "handleFriendResponse env fresp s \<noteq> (Inl PermanentError, s')"
  "deliver_to_users env rsp us s \<noteq> (Inl PermanentError, s')"
  by (auto simp: handleStorageResponse_def handleFriendResponse_def deliver_to_users_def Let_def
      split: option.splits storage_rsp_payload.splits sum.splits prod.splits)

lemma delivery_permanent: "handleDFResponse env dec payload s = (Inl PermanentError, s') \<Longrightarrow> s' = s"
  by (auto simp: handleDFResponse_def deliverGroupPostToUsers_def deliverMessageRecallToUsers_def handlers_transient
      split: option.splits if_splits df_delivery.splits)

lemma request_permanent: "process_df_request env payload s = (Inl PermanentError, s') \<Longrightarrow> s' = s"
proof (cases payload)
  case (Some q)
  assume "process_df_request env payload s = (Inl PermanentError, s')"
  then show ?thesis using Some by (cases q) (auto simp: process_df_request_def split: sum.splits)
qed (simp add: process_df_request_def)

lemma process_envelope_permanent:
  assumes "process_envelope env dec e s = (Inl PermanentError, s')"
  shows "s' = s"
proof (cases e)
  case (Some x)
  obtain kind payload where x: "x = (kind, payload)" by fastforce
  show ?thesis
    using assms Some x
    by (cases kind) (auto simp: process_envelope_def handlers_transient handleCallDelivery_def handlePushResponse_def
      split: option.splits if_splits dest: delivery_permanent request_permanent)
qed (use assms in \<open>simp add: process_envelope_def\<close>)

lemma pattern_has_four: "deleteUserPatternCapture v = Some ms \<Longrightarrow> length ms = 4"
  by (auto simp: deleteUserPatternCapture_def Let_def split: if_splits)

lemma processMessage_envelope: "processMessage env dec msg s = process_envelope env dec (un_envelope dec (km_value msg)) s"
  by (auto simp: processMessage_def dest: pattern_has_four split: option.split)

text \<open>
  A message that fails for good has no effect: when \<^verbatim>\<open>processMessage\<close> reports a permanent error (no envelope, no type
  or payload, a payload of another type, missing fields), neither a client nor Redis nor Kafka nor the database sees
  anything of it, and the retry loop writes it to the dead-letter topic at the first attempt.
\<close>

theorem malformed_no_effect:
  assumes "processMessage env dec m s = (Inl PermanentError, s')"
    and "re_process renv = df_processor txt env dec" "re_cancelled renv 0 = None" "re_cancelled_dlq renv 0 = None"
    and "publish_dead_letter_df renv c m failurePermanent (txt PermanentError) (re_now renv 0) 0 s = (e, s2)"
  shows "s' = s \<and> process_with_retry_df renv c m s = ((e, []), s2)"
proof -
  have s: "s' = s" using process_envelope_permanent assms(1) by (simp add: processMessage_envelope)
  then have "re_process renv m s = (Some (failurePermanent, txt PermanentError), s)"
    using assms(1,2) by (simp add: df_processor_def classifyProcessingError_def)
  then show ?thesis
    using s assms(3-5) by (simp add: process_with_retry_df_def, subst retry_loop_df.simps) simp
qed

section \<open>Kicks over Kafka\<close>

text \<open>
  C36. The kick that a login publishes over Kafka when Redis fails never disconnects anybody: the pattern of the
  consumer matches it, with four captures, but the consumer tests for three and goes on to decode it as an envelope,
  which fails because its first byte ends a group that was never opened.
\<close>

theorem kafka_kick_dead_lettered:
  assumes "list_all is_digit user" "user \<noteq> []" "list_all is_container_char container" "container \<noteq> []"
    and "list_all is_hex_digit token" "token \<noteq> []"
    and "km_value m = kafka_kick user container token" "un_envelope dec (km_value m) = None"
  shows "deleteUserPatternCapture (km_value m) = Some [km_value m, user, container, token] \<and>
    processMessage env dec m s = (Inl PermanentError, s)"
proof -
  have not: "\<not> is_digit (CHR '' '')" "\<not> is_container_char (CHR '' '')" by (simp_all add: is_digit_def is_container_char_def)
  have tw: "takeWhile P (xs @ CHR '' '' # ys) = xs" "dropWhile P (xs @ CHR '' '' # ys) = CHR '' '' # ys"
    if "list_all P xs" "\<not> P (CHR '' '')" for P :: "char \<Rightarrow> bool" and xs ys
    using that by (simp_all add: takeWhile_append dropWhile_append list_all_iff takeWhile_eq_all_conv dropWhile_eq_Nil_conv)
  have "deleteUserPatternCapture (kafka_kick user container token) = Some [kafka_kick user container token, user, container, token]"
    using assms(1-6) not
    by (simp add: deleteUserPatternCapture_def kafka_kick_def HasPrefix_def starts_with_def tw Let_def)
  then show ?thesis using assms(7,8) by (simp add: processMessage_envelope process_envelope_def)
qed

section \<open>Deliveries to clients\<close>

text \<open>Sending the same bytes to several users with connections of their own.\<close>

lemma send_to_users_result:
  assumes "\<forall>m\<in>set targets. deliverable (dw_manager (nd_world s)) (itoa m)" "distinct targets"
    and "separate (dw_manager (nd_world s)) (itoa ` set targets)"
  shows "\<exists>cm'. send_to_users env b targets s = (Inr (), s\<lparr>nd_world := (nd_world s)\<lparr>dw_manager := cm'\<rparr>\<rparr>) \<and>
    (\<forall>m\<in>set targets. queue_of cm' (itoa m) = queue_of (dw_manager (nd_world s)) (itoa m) @ [b]) \<and>
    (\<forall>v. cm_users (dw_manager (nd_world s)) v \<notin> (cm_users (dw_manager (nd_world s)) \<circ> itoa) ` set targets \<longrightarrow>
       GetConnectionByUserID v cm' = GetConnectionByUserID v (dw_manager (nd_world s)))"
  using assms
proof (induction targets arbitrary: s)
  case Nil
  show ?case by (rule exI [of _ "dw_manager (nd_world s)"]) simp
next
  case (Cons m ms)
  let ?cm = "dw_manager (nd_world s)"
  have d: "deliverable ?cm (itoa m)" using Cons.prems(1) by simp
  obtain cm1 where send: "SendMessageToUser (itoa m) b ?cm = (Inr (), cm1)" "cm_users cm1 = cm_users ?cm" "queue_of cm1 (itoa m) = queue_of ?cm (itoa m) @ [b]"
      "\<forall>v. cm_users ?cm v \<noteq> cm_users ?cm (itoa m) \<longrightarrow> GetConnectionByUserID v cm1 = GetConnectionByUserID v ?cm"
    using SendMessageToUser_deliverable [OF d] by blast
  let ?s1 = "s\<lparr>nd_world := (nd_world s)\<lparr>dw_manager := cm1\<rparr>\<rparr>"
  have others: "cm_users ?cm (itoa m') \<noteq> cm_users ?cm (itoa m)" if "m' \<in> set ms" for m'
    using Cons.prems(2,3) that by (auto simp: separate_def inj_on_def)
  have same: "GetConnectionByUserID (itoa m') cm1 = GetConnectionByUserID (itoa m') ?cm" if "m' \<in> set ms" for m'
    using send(4) others [OF that] by simp
  have "\<forall>m'\<in>set ms. deliverable cm1 (itoa m')" using Cons.prems(1) same by (simp add: deliverable_def)
  moreover have "separate cm1 (itoa ` set ms)" using Cons.prems(3) send(2) by (simp add: separate_def)
  ultimately obtain cm' where cm': "send_to_users env b ms ?s1 = (Inr (), ?s1\<lparr>nd_world := (nd_world ?s1)\<lparr>dw_manager := cm'\<rparr>\<rparr>)"
    "\<forall>m\<in>set ms. queue_of cm' (itoa m) = queue_of cm1 (itoa m) @ [b]"
    "\<forall>v. cm_users cm1 v \<notin> (cm_users cm1 \<circ> itoa) ` set ms \<longrightarrow> GetConnectionByUserID v cm' = GetConnectionByUserID v cm1"
    using Cons.IH [of ?s1] Cons.prems(2) by auto
  have "send_to_users env b (m # ms) s = (Inr (), s\<lparr>nd_world := (nd_world s)\<lparr>dw_manager := cm'\<rparr>\<rparr>)"
    using cm'(1) RouteMessage_local [OF d, of env b] send(1) by (auto simp: on_world_def)
  moreover have "GetConnectionByUserID (itoa m) cm' = GetConnectionByUserID (itoa m) cm1"
  proof -
    have "cm_users cm1 (itoa m) \<notin> (cm_users cm1 \<circ> itoa) ` set ms" using others send(2) by (metis comp_apply imageE)
    then show ?thesis using cm'(3) by blast
  qed
  then have "queue_of cm' (itoa m) = queue_of ?cm (itoa m) @ [b]" using send(3) by (simp add: queue_of_def)
  moreover have "queue_of cm' (itoa m') = queue_of ?cm (itoa m') @ [b]" if "m' \<in> set ms" for m'
    using cm'(2) same [OF that] that by (simp add: queue_of_def)
  moreover have "GetConnectionByUserID v cm' = GetConnectionByUserID v ?cm"
    if "cm_users ?cm v \<notin> (cm_users ?cm \<circ> itoa) ` set (m # ms)" for v
    using cm'(3) send(2,4) that by simp
  ultimately show ?case by (intro exI [of _ cm']) auto
qed

lemma send_to_users_append:
  "send_to_users env b (xs @ ys) s =
     (case send_to_users env b xs s of (Inl e, s1) \<Rightarrow> (Inl e, s1) | (Inr _, s1) \<Rightarrow> send_to_users env b ys s1)"
  by (induction xs arbitrary: s) (auto split: prod.split sum.split)

lemma group_batch_processed:
  assumes "un_envelope dec (km_value msg) = Some (ENV_DF_RESPONSE, d)" "d \<noteq> []" "targets \<noteq> []" "\<forall>m\<in>set targets. 0 < m"
    and "un_delivery dec d = Some (Some (buildGroupPostDelivery targets p))" "dc_response (de_codec env) (RspPost p) = Some b"
  shows "processMessage env dec msg s = transient (send_to_users env b targets s)"
proof -
  have "processMessage env dec msg s = handleDFResponse env dec d s"
    using assms(1,2) by (simp add: processMessage_envelope process_envelope_def)
  also have "\<dots> = deliverGroupPostToUsers env p targets s"
  proof (cases "length targets > 1")
    case True
    then show ?thesis using assms(3,5) by (simp add: handleDFResponse_def buildGroupPostDelivery_def)
  next
    case False
    then obtain m where m: "targets = [m]" using assms(3) by (cases targets) auto
    then show ?thesis using assms(4,5) by (simp add: handleDFResponse_def buildGroupPostDelivery_def)
  qed
  also have "\<dots> = transient (send_to_users env b targets s)"
    using assms(6) by (simp add: deliverGroupPostToUsers_def deliver_to_users_def)
  finally show ?thesis .
qed

text \<open>
  C34. A group message on another container: the record that \<open>group_post_delivery\<close> publishes for a container, consumed
  there, serves the receivers it names in order as long as they are reachable (connected, with room in the queue): it
  puts exactly the encoded message at the end of the queue of each, and touches no other connection and neither Redis
  nor Kafka. If all are reachable, that is all, and the record is done. Otherwise the first that is not is routed like
  any other message; if that fails, the result is a transient error and no later receiver is served, and if it
  succeeds the rest follows. So a retry after the error sends the message again to the receivers before it.
\<close>

theorem group_batch_delivered:
  assumes "targets = filter (\<lambda>m. containers (itoa m) = Some c) receivers" "targets \<noteq> []" "\<forall>m\<in>set targets. 0 < m" "distinct receivers"
    and "km_value msg = batch_for env p containers receivers c"
    and "un_envelope dec (km_value msg) = Some (ENV_DF_RESPONSE, d)" "d \<noteq> []"
    and "un_delivery dec d = Some (Some (buildGroupPostDelivery targets p))"
    and "dc_response (de_codec env2) (RspPost p) = Some b"
    and "served = takeWhile (\<lambda>m. deliverable (dw_manager (nd_world s)) (itoa m)) targets" "rest = drop (length served) targets"
    and "separate (dw_manager (nd_world s)) (itoa ` set served)"
  shows "\<exists>cm'. (\<forall>m\<in>set served. queue_of cm' (itoa m) = queue_of (dw_manager (nd_world s)) (itoa m) @ [b]) \<and>
    (\<forall>v. cm_users (dw_manager (nd_world s)) v \<notin> (cm_users (dw_manager (nd_world s)) \<circ> itoa) ` set served \<longrightarrow>
       GetConnectionByUserID v cm' = GetConnectionByUserID v (dw_manager (nd_world s))) \<and>
    processMessage env2 dec msg s =
      (case rest of
         [] \<Rightarrow> (Inr (), s\<lparr>nd_world := (nd_world s)\<lparr>dw_manager := cm'\<rparr>\<rparr>)
       | m # later \<Rightarrow>
           (case RouteMessage env2 (itoa m) b ((nd_world s)\<lparr>dw_manager := cm'\<rparr>) of
              (Inl e, w) \<Rightarrow> (Inl (TransientError e), s\<lparr>nd_world := w\<rparr>)
            | (Inr _, w) \<Rightarrow> transient (send_to_users env2 b later (s\<lparr>nd_world := w\<rparr>))))"
proof -
  have "distinct served" using assms(1,4) unfolding assms(10) by (simp add: distinct_takeWhile)
  moreover have "\<forall>m\<in>set served. deliverable (dw_manager (nd_world s)) (itoa m)" unfolding assms(10) by (auto dest: set_takeWhileD)
  ultimately obtain cm' where cm': "send_to_users env2 b served s = (Inr (), s\<lparr>nd_world := (nd_world s)\<lparr>dw_manager := cm'\<rparr>\<rparr>)"
    "\<forall>m\<in>set served. queue_of cm' (itoa m) = queue_of (dw_manager (nd_world s)) (itoa m) @ [b]"
    "\<forall>v. cm_users (dw_manager (nd_world s)) v \<notin> (cm_users (dw_manager (nd_world s)) \<circ> itoa) ` set served \<longrightarrow>
       GetConnectionByUserID v cm' = GetConnectionByUserID v (dw_manager (nd_world s))"
    using send_to_users_result [OF _ _ assms(12), of env2 b] by blast
  have "targets = served @ rest" unfolding assms(10,11) by (metis takeWhile_eq_take append_take_drop_id)
  then have "send_to_users env2 b targets s = send_to_users env2 b rest (s\<lparr>nd_world := (nd_world s)\<lparr>dw_manager := cm'\<rparr>\<rparr>)"
    using cm'(1) by (simp add: send_to_users_append)
  then have "processMessage env2 dec msg s = transient (send_to_users env2 b rest (s\<lparr>nd_world := (nd_world s)\<lparr>dw_manager := cm'\<rparr>\<rparr>))"
    using group_batch_processed [OF assms(6,7,2,3,8,9)] by simp
  then show ?thesis using cm'(2,3)
    by (intro exI [of _ cm']) (cases rest; auto simp: on_world_def transient_def split: prod.splits sum.splits)
qed

section \<open>The effects of a stored message\<close>

lemma on_world_keys [simp]: "nd_keys (snd (on_world f s)) = nd_keys s"
  by (simp add: on_world_def split: prod.split)

lemma routePostToTarget_keys [simp]: "nd_keys (snd (routePostToTarget env u topic p s)) = nd_keys s"
  by (simp add: routePostToTarget_def split: option.split)

lemma route_members_keys [simp]: "nd_keys (snd (route_members env p containers ms s)) = nd_keys s"
  by (induction ms arbitrary: s) (auto simp: case_prod_beta split: option.split)

lemma publish_batches_keys [simp]: "nd_keys (publish_batches env p targets topics s) = nd_keys s"
  by (induction topics arbitrary: s) (simp_all add: routeGroupPostBatchCrossContainer_def)

lemma push_keys [simp]: "nd_keys (publishMessagePushBestEffort env us p i s) = nd_keys s"
  by (simp add: publishMessagePushBestEffort_def publishPushRequest_def)

lemma routing_keys:
  "nd_keys (snd (routeGroupMessage env i u p s)) = nd_keys s" "nd_keys (snd (route_direct_message env i p s)) = nd_keys s"
  by (simp_all add: routeGroupMessage_def route_direct_message_def Let_def case_prod_beta split: sum.split session_error.split)

lemma effects_key_other: "postIdempotencyKey env u c \<noteq> effects_key i"
  by (simp add: postIdempotencyKey_def effects_key_def)

lemma CompletePostIdempotency_effects: "snd (CompletePostIdempotency env u c i keys) (effects_key j) = keys (effects_key j)"
  using effects_key_other [of env u c j] by (auto simp: CompletePostIdempotency_def key_write_def split: redis_fault.split)

lemma processMessage_stored:
  assumes "un_envelope dec (km_value msg) = Some (ENV_STORAGE_RESPONSE, d)" "d \<noteq> []" "un_storage dec d = Some resp"
    and "0 < sp_target_user_id resp" "sp_payload resp = Some (StoreMsgRsp r)"
  shows "processMessage env dec msg s = transient (send_response env (sp_target_user_id resp) (buildPostAckResponse r) (complete_stored_post env r s))"
  using assms by (simp add: processMessage_envelope process_envelope_def handleStorageResponse_def)

text \<open>
  The parts of the handling: the sender's retries learn the number of the message, the effects are claimed, the
  message is delivered, and the sender gets the acknowledgement.
\<close>

definition post_completed :: "df_env \<Rightarrow> store_msg_rsp \<Rightarrow> df_node \<Rightarrow> df_node" where
  "post_completed env r s = s\<lparr>nd_keys := snd (CompletePostIdempotency env (sn_from_user_id (sm_request r))
     (sn_client_message_id (sm_request r)) (sm_message_id r) (nd_keys s))\<rparr>"

definition effects_claimed :: "df_env \<Rightarrow> store_msg_rsp \<Rightarrow> df_node \<Rightarrow> df_node" where
  "effects_claimed env r s = s\<lparr>nd_keys := (nd_keys s)(effects_key (sm_message_id r) \<mapsto> (''1'', de_now env + postEffectsTTL))\<rparr>"

definition deliver_effects :: "df_env \<Rightarrow> store_msg_rsp \<Rightarrow> df_node \<Rightarrow> (df_error + unit) \<times> df_node" where
  "deliver_effects env r s = (let p = stored_post (sm_request r) in
     if po_is_group p then routeGroupMessage env (sm_message_id r) (po_from_id p) p s else route_direct_message env (sm_message_id r) p s)"

definition acknowledged :: "df_env \<Rightarrow> storage_response \<Rightarrow> store_msg_rsp \<Rightarrow> df_node \<Rightarrow> (process_error + unit) \<times> df_node" where
  "acknowledged env resp r s = transient (send_response env (sp_target_user_id resp) (buildPostAckResponse r) s)"

lemma deliver_effects_keys: "nd_keys (snd (deliver_effects env r s)) = nd_keys s"
  by (simp add: deliver_effects_def Let_def routing_keys)

lemma post_completed_effects [simp]: "nd_keys (post_completed env r s) (effects_key i) = nd_keys s (effects_key i)"
  by (simp add: post_completed_def CompletePostIdempotency_effects)

lemma DeliverStoredPost_held:
  assumes "0 < sm_message_id r" "de_effects env = NoFault" "live (de_now env) (nd_keys s) (effects_key (sm_message_id r)) \<noteq> None"
  shows "DeliverStoredPost env (sm_message_id r) (stored_post (sm_request r)) s = (Inr (), s)"
proof -
  have "claimPostEffects env (sm_message_id r) (nd_keys s) = (Inr False, nd_keys s)"
    using assms by (auto simp: claimPostEffects_def key_setnx_def Let_def)
  then show ?thesis by (simp add: DeliverStoredPost_def)
qed

lemma DeliverStoredPost_free:
  assumes "0 < sm_message_id r" "de_effects env = NoFault" "live (de_now env) (nd_keys s) (effects_key (sm_message_id r)) = None"
  shows "DeliverStoredPost env (sm_message_id r) (stored_post (sm_request r)) s =
    (case deliver_effects env r (effects_claimed env r s) of
       (Inr _, s1) \<Rightarrow> (Inr (), s1)
     | (Inl e, s1) \<Rightarrow> (Inl e, s1\<lparr>nd_keys := releasePostEffects env (sm_message_id r) (nd_keys s1)\<rparr>))"
proof -
  have "claimPostEffects env (sm_message_id r) (nd_keys s) = (Inr True, nd_keys (effects_claimed env r s))"
    using assms by (simp add: claimPostEffects_def key_setnx_def Let_def effects_claimed_def)
  moreover have "s\<lparr>nd_keys := nd_keys (effects_claimed env r s)\<rparr> = effects_claimed env r s" by (simp add: effects_claimed_def)
  ultimately show ?thesis by (simp add: DeliverStoredPost_def deliver_effects_def Let_def)
qed

lemma complete_stored_post_eq:
  "complete_stored_post env r s =
    (if sm_created r then snd (DeliverStoredPost env (sm_message_id r) (stored_post (sm_request r)) (post_completed env r s)) else post_completed env r s)"
  by (simp add: complete_stored_post_def post_completed_def Let_def)

text \<open>
  C33. The effects of a stored message happen once, however often Kafka hands the storage service's response to the
  container, as long as Redis answers the claim: a response for a message that was stored before, or whose effects are
  claimed, only records the message's number for the sender's retries and acknowledges to the sender, with no delivery
  and no notification. The response of a new message claims the effects for thirty days and delivers. If the delivery
  reports success, the claim stays, so that every further response in the thirty days only acknowledges. If it
  reports an error, the claim is released (when Redis answers), the error goes nowhere, the sender gets the same
  acknowledgement, and only a further response delivers again, with what the first try has already sent.
\<close>

theorem stored_post_delivered_once:
  assumes response: "un_envelope dec (km_value msg) = Some (ENV_STORAGE_RESPONSE, d)" "d \<noteq> []" "un_storage dec d = Some resp"
      "0 < sp_target_user_id resp" "sp_payload resp = Some (StoreMsgRsp r)" "0 < sm_message_id r"
    and "de_effects env = NoFault" and key: "key = effects_key (sm_message_id r)"
  shows "if \<not> sm_created r \<or> live (de_now env) (nd_keys s) key \<noteq> None
    then processMessage env dec msg s = acknowledged env resp r (post_completed env r s)
    else (case deliver_effects env r (effects_claimed env r (post_completed env r s)) of
      (Inr _, s1) \<Rightarrow> processMessage env dec msg s = acknowledged env resp r s1 \<and>
        nd_keys s1 key = Some (''1'', de_now env + postEffectsTTL) \<and>
        (\<forall>env2 s2. de_effects env2 = NoFault \<and> de_now env2 < de_now env + postEffectsTTL \<and> nd_keys s2 key = nd_keys s1 key \<longrightarrow>
           processMessage env2 dec msg s2 = acknowledged env2 resp r (post_completed env2 r s2))
    | (Inl e, s1) \<Rightarrow>
        processMessage env dec msg s = acknowledged env resp r (s1\<lparr>nd_keys := releasePostEffects env (sm_message_id r) (nd_keys s1)\<rparr>) \<and>
        (de_effects_release env = NoFault \<longrightarrow> releasePostEffects env (sm_message_id r) (nd_keys s1) key = None))"
proof -
  have run: "processMessage e dec msg t = acknowledged e resp r (complete_stored_post e r t)" for e t
    using processMessage_stored [OF response(1-5)] by (simp add: acknowledged_def)
  have held: "processMessage e dec msg t = acknowledged e resp r (post_completed e r t)"
    if "\<not> sm_created r \<or> live (de_now e) (nd_keys t) key \<noteq> None" "de_effects e = NoFault" for e t
  proof (cases "sm_created r")
    case True
    then have "live (de_now e) (nd_keys (post_completed e r t)) key \<noteq> None" using that(1) key by (simp add: live_def)
    then show ?thesis using DeliverStoredPost_held [OF response(6) that(2)] True key by (simp add: run complete_stored_post_eq)
  qed (simp add: run complete_stored_post_eq)
  show ?thesis
  proof (cases "\<not> sm_created r \<or> live (de_now env) (nd_keys s) key \<noteq> None")
    case True
    then show ?thesis using held assms(7) by simp
  next
    case False
    let ?s = "effects_claimed env r (post_completed env r s)"
    obtain res s1 where d: "deliver_effects env r ?s = (res, s1)" by fastforce
    have free: "live (de_now env) (nd_keys (post_completed env r s)) key = None" using False key by (simp add: live_def)
    have keys: "nd_keys s1 key = Some (''1'', de_now env + postEffectsTTL)"
      using deliver_effects_keys [of env r ?s] d key by (simp add: effects_claimed_def)
    have "complete_stored_post env r s = (case res of Inr _ \<Rightarrow> s1 | Inl e \<Rightarrow> s1\<lparr>nd_keys := releasePostEffects env (sm_message_id r) (nd_keys s1)\<rparr>)"
      using DeliverStoredPost_free [OF response(6) assms(7) free [unfolded key]] False d
      by (simp add: complete_stored_post_eq split: sum.split)
    moreover have "processMessage env2 dec msg s2 = acknowledged env2 resp r (post_completed env2 r s2)"
      if "de_effects env2 = NoFault" "de_now env2 < de_now env + postEffectsTTL" "nd_keys s2 key = nd_keys s1 key" for env2 s2
      using that keys by (intro held) (simp_all add: live_def)
    moreover have "de_effects_release env = NoFault \<longrightarrow> releasePostEffects env (sm_message_id r) (nd_keys s1) key = None"
      using response(6) key by (simp add: releasePostEffects_def key_write_def)
    ultimately show ?thesis using False d keys by (simp add: run split: sum.split)
  qed
qed

section \<open>Witnesses\<close>

definition sample_decoder :: df_decoder where
  "sample_decoder = \<lparr>un_envelope = \<lambda>_. None, un_storage = \<lambda>_. None, un_friend = \<lambda>_. None, un_call = \<lambda>_. None, un_push = \<lambda>_. None,
     un_request = \<lambda>_. None, un_delivery = \<lambda>_. None\<rparr>"

definition sample_retry_env :: "df_node retry_env" where
  "sample_retry_env = \<lparr>re_process = df_processor (\<lambda>_. ''bad'') (sample_df_env 0) sample_decoder,
     re_publish = \<lambda>topic v _ s. (None, s\<lparr>nd_world := (nd_world s)\<lparr>dw_kafka := dw_kafka (nd_world s) @ [(topic, v)]\<rparr>\<rparr>),
     re_cancelled = \<lambda>_. None, re_cancelled_dlq = \<lambda>_. None, re_cancelled_wait = \<lambda>_. None, re_now = \<lambda>n. 0, re_envelope_type = \<lambda>_. ''UNKNOWN''\<rparr>"

theorem malformed_no_effect_witness:
  "\<exists>s2. process_with_retry_df sample_retry_env (loadConsumerRetryConfig None None None []) sample_message sample_node = ((None, []), s2) \<and>
     dw_kafka (nd_world s2) = [(''data-forwarding-dlq'', ''x'')]"
proof -
  let ?c = "loadConsumerRetryConfig None None None []"
  have p: "processMessage (sample_df_env 0) sample_decoder sample_message sample_node = (Inl PermanentError, sample_node)"
    by (simp add: processMessage_envelope process_envelope_def sample_decoder_def)
  have k: "dw_kafka (nd_world sample_node) = []" by (simp add: sample_node_def view_def sample_connected_def empty_cluster_def)
  have t: "rt_dlq_topic ?c = ''data-forwarding-dlq''" by (simp add: loadConsumerRetryConfig_def envString_def sample_texts Let_def)
  obtain s2 where "publish_dead_letter_df sample_retry_env ?c sample_message failurePermanent ''bad'' (re_now sample_retry_env 0) 0 sample_node = (None, s2)"
      "dw_kafka (nd_world s2) = [(''data-forwarding-dlq'', ''x'')]"
    by (simp add: publish_dead_letter_df_def sample_retry_env_def t sample_message_def k)
  with malformed_no_effect [OF p, of sample_retry_env "\<lambda>_. ''bad''" ?c None s2] show ?thesis
    by (simp add: sample_retry_env_def)
qed

theorem kafka_kick_dead_lettered_witness:
  "deleteUserPatternCapture ''DELETE USER 7 TARGET A OWNER a1'' = Some [''DELETE USER 7 TARGET A OWNER a1'', ''7'', ''A'', ''a1''] \<and>
   processMessage (sample_df_env 0) sample_decoder (sample_message\<lparr>km_value := ''DELETE USER 7 TARGET A OWNER a1''\<rparr>) sample_node = (Inl PermanentError, sample_node)"
  using kafka_kick_dead_lettered [of "''7''" "''A''" "''a1''" "sample_message\<lparr>km_value := ''DELETE USER 7 TARGET A OWNER a1''\<rparr>" sample_decoder "sample_df_env 0" sample_node]
  by (simp add: kafka_kick_def sample_decoder_def is_digit_def is_container_char_def is_hex_digit_def)

text \<open>Receivers 6, who is connected here, and 8, who is nowhere.\<close>

definition sample_batch_decoder :: df_decoder where
  "sample_batch_decoder = sample_decoder\<lparr>un_envelope := \<lambda>b. Some (ENV_DF_RESPONSE, b),
     un_delivery := \<lambda>_. Some (Some (GroupPostBatchDelivery [6, 8] (Some (sample_post True))))\<rparr>"

lemma sample_not_deliverable: "\<not> deliverable (dw_manager (nd_world sample_group_node)) ''8''"
  by (simp add: deliverable_def sample_group_node_def GetConnectionByUserID_def AddConnection_def)

theorem group_batch_delivered_witness:
  "\<exists>cm'. queue_of cm' (itoa 6) = [''r''] \<and>
     processMessage (sample_df_env 0) sample_batch_decoder (sample_message\<lparr>km_value := ''d''\<rparr>) sample_group_node =
       (case RouteMessage (sample_df_env 0) ''8'' ''r'' ((nd_world sample_group_node)\<lparr>dw_manager := cm'\<rparr>) of
          (Inl e, w) \<Rightarrow> (Inl (TransientError e), sample_group_node\<lparr>nd_world := w\<rparr>)
        | (Inr _, w) \<Rightarrow> (Inr (), sample_group_node\<lparr>nd_world := w\<rparr>))"
proof -
  let ?m = "[''6'' \<mapsto> ''B'', ''8'' \<mapsto> ''B'']" and ?cm = "dw_manager (nd_world sample_group_node)" and ?e = "sample_df_env 0"
  have targets: "[6, 8] = filter (\<lambda>m. ?m (itoa m) = Some ''B'') [6, 8]" by (simp add: sample_texts)
  have v: "km_value (sample_message\<lparr>km_value := ''d''\<rparr>) = batch_for ?e (sample_post True) ?m [6, 8] ''B''"
    by (simp add: batch_for_def MarshalEnvelope_def sample_df_env_def sample_codec_def)
  have d: "un_envelope sample_batch_decoder (km_value (sample_message\<lparr>km_value := ''d''\<rparr>)) = Some (ENV_DF_RESPONSE, ''d'')"
    "un_delivery sample_batch_decoder ''d'' = Some (Some (buildGroupPostDelivery [6, 8] (sample_post True)))"
    by (simp_all add: buildGroupPostDelivery_def sample_batch_decoder_def)
  have r: "dc_response (de_codec ?e) (RspPost (sample_post True)) = Some ''r''" by (simp add: sample_df_env_def sample_codec_def)
  have conn: "GetConnectionByUserID ''6'' ?cm = Some (''x'', \<lparr>cn_user_id = [], cn_owner_token = [], cn_queue = [], cn_closed = False, cn_authenticated = False\<rparr>)"
    by (simp add: sample_group_node_def GetConnectionByUserID_def GetConnectionByID_def AddConnection_def)
  have served: "[6] = takeWhile (\<lambda>m. deliverable ?cm (itoa m)) [6, 8]"
    using sample_not_deliverable by (simp add: deliverable_def conn sample_texts)
  have ok: "separate ?cm (itoa ` set [6])" "queue_of ?cm (itoa 6) = []" by (simp_all add: conn separate_def queue_of_def sample_texts)
  have t: "transient (send_to_users e b [] s) = (Inr (), s)" for e b s by (simp add: transient_def)
  from group_batch_delivered [OF targets _ _ _ v d(1) _ d(2) r served refl ok(1)] ok(2)
  show ?thesis by (simp add: sample_texts) (unfold t, blast)
qed

text \<open>A stored message of user 5 for user 6, who is connected here.\<close>

definition sample_stored :: store_msg_rsp where
  "sample_stored = \<lparr>sm_message_id = 11, sm_created = True, sm_request = \<lparr>sn_from_user_id = 5, sn_to_user_id = 6, sn_content = ''hi'',
     sn_message_type = ''text'', sn_is_group = False, sn_real_file_name = [], sn_client_message_id = ''c1'', sn_client_timestamp = []\<rparr>\<rparr>"

definition sample_store_response :: storage_response where
  "sample_store_response = \<lparr>sp_result = STORAGE_OK, sp_target_user_id = 5, sp_payload = Some (StoreMsgRsp sample_stored)\<rparr>"

definition sample_stored_decoder :: df_decoder where
  "sample_stored_decoder = sample_decoder\<lparr>un_envelope := \<lambda>b. Some (ENV_STORAGE_RESPONSE, b), un_storage := \<lambda>_. Some sample_store_response\<rparr>"

lemma sample_direct_delivery:
  assumes "nd_world s = nd_world sample_group_node"
  shows "\<exists>s1. deliver_effects (sample_df_env 0) sample_stored s = (Inr (), s1) \<and> queue_of (dw_manager (nd_world s1)) (itoa 6) = [''r''] \<and>
    map fst (dw_kafka (nd_world s1)) = [pushServiceTopic]"
proof -
  let ?e = "sample_df_env 0" and ?p = "stored_post (sm_request sample_stored)" and ?w = "nd_world sample_group_node"
  have p: "\<not> po_is_group ?p" "po_to_id ?p = 6" by (simp_all add: stored_post_def sample_stored_def)
  have topic: "currentContainerTopic ?e = ''A''" by (simp add: currentContainerTopic_def sample_df_env_def)
  obtain r where lookup: "GetContainerByConnection (de_lookup ?e) (de_now ?e) ''6'' (dw_redis ?w) = (Inr ''A'', r)"
    by (simp add: GetContainerByConnection_def redis_call_def sample_df_env_def getValidRouteScript_def route_valid_def live_def HasPrefix_def
        sample_group_node_def sample_routes_def starts_with_def)
  define s1 where "s1 = publishMessagePushBestEffort ?e [6] ?p 11 (s\<lparr>nd_world := ?w\<lparr>dw_redis := r\<rparr>\<rparr>)"
  have bytes: "buildPostDeliveryMessageBytes ?e ''A'' ?p = Some ''r''"
    by (simp add: buildPostDeliveryMessageBytes_def topic) (simp add: sample_df_env_def sample_codec_def)
  have conn: "GetConnectionByUserID ''6'' (dw_manager ?w) = Some (''x'', \<lparr>cn_user_id = [], cn_owner_token = [], cn_queue = [], cn_closed = False, cn_authenticated = False\<rparr>)"
    by (simp add: sample_group_node_def GetConnectionByUserID_def GetConnectionByID_def AddConnection_def)
  have w1: "dw_manager (nd_world s1) = dw_manager ?w" "dw_kafka (nd_world s1) = dw_kafka ?w @ push_record ?e [6] ?p 11"
    by (simp_all add: s1_def publish_push_record [OF sample_smooth])
  have d: "deliverable (dw_manager (nd_world s1)) ''6''" using conn by (simp add: w1 deliverable_def)
  obtain cm where cm: "RouteMessage ?e ''6'' ''r'' (nd_world s1) = (Inr (), (nd_world s1)\<lparr>dw_manager := cm\<rparr>)"
    "SendMessageToUser ''6'' ''r'' (dw_manager (nd_world s1)) = (Inr (), cm)" using RouteMessage_local [OF d] by blast
  have "deliver_effects ?e sample_stored s = (Inr (), s1\<lparr>nd_world := (nd_world s1)\<lparr>dw_manager := cm\<rparr>\<rparr>)"
  proof -
    have "sm_message_id sample_stored = 11" by (simp add: sample_stored_def)
    then show ?thesis
      using p lookup assms cm(1)
      by (simp add: deliver_effects_def Let_def route_direct_message_def sample_texts routePostToTarget_def bytes on_world_def flip: s1_def)
  qed
  moreover have "queue_of cm ''6'' = [''r'']"
    using SendMessageToUser_deliverable [OF d, of "''r''"] cm(2) conn by (auto simp: w1 queue_of_def)
  moreover have "dw_kafka ?w = []" by (simp add: sample_group_node_def sample_node_def view_def sample_connected_def empty_cluster_def)
  ultimately show ?thesis by (simp add: w1 sample_texts push_record_def)
qed

theorem stored_post_delivered_once_witness:
  "\<exists>s1. queue_of (dw_manager (nd_world s1)) (itoa 6) = [''r''] \<and> map fst (dw_kafka (nd_world s1)) = [pushServiceTopic] \<and>
     processMessage (sample_df_env 0) sample_stored_decoder sample_message sample_group_node =
       acknowledged (sample_df_env 0) sample_store_response sample_stored s1 \<and>
     processMessage (sample_df_env 1) sample_stored_decoder sample_message s1 =
       acknowledged (sample_df_env 1) sample_store_response sample_stored (post_completed (sample_df_env 1) sample_stored s1)"
proof -
  have dec: "un_envelope sample_stored_decoder (km_value sample_message) = Some (ENV_STORAGE_RESPONSE, ''x'')" "''x'' \<noteq> []"
    "un_storage sample_stored_decoder ''x'' = Some sample_store_response" "0 < sp_target_user_id sample_store_response"
    "sp_payload sample_store_response = Some (StoreMsgRsp sample_stored)" "0 < sm_message_id sample_stored"
    by (simp_all add: sample_stored_decoder_def sample_message_def sample_store_response_def) (simp_all add: sample_stored_def)
  have env: "de_effects (sample_df_env t) = NoFault" "de_now (sample_df_env t) = t" for t by (simp_all add: sample_df_env_def)
  have new: "\<not> (\<not> sm_created sample_stored \<or> live (de_now (sample_df_env 0)) (nd_keys sample_group_node) (effects_key (sm_message_id sample_stored)) \<noteq> None)"
    by (simp add: sample_stored_def live_def sample_group_node_def sample_node_def)
  obtain s1 where s1: "deliver_effects (sample_df_env 0) sample_stored
      (effects_claimed (sample_df_env 0) sample_stored (post_completed (sample_df_env 0) sample_stored sample_group_node)) = (Inr (), s1)"
    "queue_of (dw_manager (nd_world s1)) (itoa 6) = [''r'']" "map fst (dw_kafka (nd_world s1)) = [pushServiceTopic]"
    using sample_direct_delivery [of "effects_claimed (sample_df_env 0) sample_stored (post_completed (sample_df_env 0) sample_stored sample_group_node)"]
    by (auto simp: effects_claimed_def post_completed_def)
  note g = stored_post_delivered_once [OF dec env(1) [of 0] refl, of sample_group_node, unfolded if_not_P [OF new] s1(1) prod.case sum.case]
  have "de_now (sample_df_env 1) < de_now (sample_df_env 0) + postEffectsTTL" by (simp add: env)
  then have again: "processMessage (sample_df_env 1) sample_stored_decoder sample_message s1 =
      acknowledged (sample_df_env 1) sample_store_response sample_stored (post_completed (sample_df_env 1) sample_stored s1)"
    using g [THEN conjunct2, THEN conjunct2, rule_format, of "sample_df_env 1" s1] env(1) [of 1] by simp
  show ?thesis by (rule exI [of _ s1], intro conjI) (use s1(2,3) conjunct1 [OF g] again in simp_all)
qed

end
