(* ===== verification/Push_Store.thy ===== *)
theory Push_Store
  imports DF_Consumer Inbox_Outbox
begin

text \<open>
  \<^verbatim>\<open>services/pushService/internal/push\<close>, the durable part: \<^verbatim>\<open>durable_store.go\<close> turns requests into jobs and one delivery
  for each device, and \<^verbatim>\<open>delivery_store.go\<close> hands deliveries to workers and records their results. An operation
  reads the clock once; the token of a claim, SHA-256 and protobuf are parameters.
\<close>

section \<open>Tables\<close>

record token_row =
  tk_id :: int
  tk_user_id :: int
  tk_device_id :: string
  tk_token :: string
  tk_environment :: string
  tk_push_type :: string
  tk_bundle_id :: string
  tk_is_active :: bool
  tk_created_at :: string
  tk_updated_at :: string

record job_row =
  jb_job_id :: string
  jb_operation_key :: string
  jb_kind :: string
  jb_request_payload :: bytes
  jb_status :: string
  jb_created_at :: string
  jb_updated_at :: string
  jb_completed_at :: string

text \<open>The two delivery tables differ in the first part of their key.\<close>

datatype push_key = MessageKey int | CallKey string

record delivery_row =
  dv_key :: push_key
  dv_token_id :: int
  dv_job_id :: string
  dv_status :: string
  dv_attempt :: int
  dv_claim_token :: string
  dv_lease_until :: string
  dv_next_retry_at :: string
  dv_last_error :: string
  dv_apns_id :: string
  dv_created_at :: string
  dv_updated_at :: string

record push_tables =
  pt_db :: database
  pt_tokens :: "token_row list"
  pt_tokens_id_seq :: int
  pt_jobs :: "job_row list"
  pt_message_deliveries :: "delivery_row list"
  pt_voip_deliveries :: "delivery_row list"

abbreviation PushTypeVoIP :: string where "PushTypeVoIP \<equiv> ''voip''"
abbreviation PushTypeAPNs :: string where "PushTypeAPNs \<equiv> ''apns''"
abbreviation DeliveryClaimed :: string where "DeliveryClaimed \<equiv> ''claimed''"
abbreviation DeliveryPending :: string where "DeliveryPending \<equiv> ''pending''"
abbreviation DeliverySent :: string where "DeliverySent \<equiv> ''sent''"
abbreviation DeliveryRetryable :: string where "DeliveryRetryable \<equiv> ''retryable''"
abbreviation DeliveryPermanent :: string where "DeliveryPermanent \<equiv> ''permanent''"
abbreviation DeliveryFailed :: string where "DeliveryFailed \<equiv> ''failed''"
abbreviation PushJobPending :: string where "PushJobPending \<equiv> ''pending''"
abbreviation PushJobCompleted :: string where "PushJobCompleted \<equiv> ''completed''"

datatype push_error = PushInvalidRequest | PushTokenNotFound | PushDeliveryFenced | PushDatabaseError | PushMarshalError
  | PushDecodeError | PushNoCallRequest | PushRandomError

datatype push_response = PushClientDelivery int push_event | PushVoIPResult voip_push_result

text \<open>The encodings and the hash; \<open>None\<close> is an error.\<close>

record push_codec =
  pc_marshal_request :: "push_request \<Rightarrow> bytes option"
  pc_unmarshal_request :: "bytes \<Rightarrow> push_request option option"
  pc_marshal_response :: "push_response \<Rightarrow> bytes option"
  pc_marshal_envelope :: "push_response \<Rightarrow> bytes option"
  pc_sha256hex :: "string \<Rightarrow> string"

section \<open>Validation\<close>

abbreviation (input) PUSH_OK :: int where "PUSH_OK \<equiv> 0"
abbreviation (input) PUSH_INVALID_ARGUMENT :: int where "PUSH_INVALID_ARGUMENT \<equiv> 1"
abbreviation (input) PUSH_TOKEN_NOT_FOUND :: int where "PUSH_TOKEN_NOT_FOUND \<equiv> 2"
abbreviation (input) SANDBOX :: int where "SANDBOX \<equiv> 1"
abbreviation (input) PRODUCTION :: int where "PRODUCTION \<equiv> 2"

definition validToken :: "string \<Rightarrow> bool" where
  "validToken token =
     (let t = TrimSpace token in 32 \<le> length t \<and> length t \<le> 256 \<and> even (length t) \<and> list_all is_hex_digit t)"

definition validDeviceID :: "string \<Rightarrow> bool" where
  "validDeviceID deviceID = (let n = length (TrimSpace deviceID) in 0 < n \<and> n \<le> 128)"

definition validEnvironment :: "int \<Rightarrow> bool" where
  "validEnvironment environment \<longleftrightarrow> environment = SANDBOX \<or> environment = PRODUCTION"

definition environmentName :: "int \<Rightarrow> string" where
  "environmentName environment = (if environment = PRODUCTION then ''production'' else ''sandbox'')"

definition clientEvent :: "string \<Rightarrow> int \<Rightarrow> string \<Rightarrow> int \<Rightarrow> string \<Rightarrow> instant \<Rightarrow> push_event" where
  "clientEvent operation result deviceID environment message now =
     \<lparr>pv_operation = operation, pv_result = result, pv_device_id = deviceID, pv_environment = environment,
      pv_message = message, pv_timestamp = RFC3339Nano now\<rparr>"

fun unique_targets :: "int set \<Rightarrow> int list \<Rightarrow> int \<Rightarrow> int list" where
  "unique_targets seen [] senderUserID = []"
| "unique_targets seen (v # vs) senderUserID =
     (if v \<le> 0 \<or> v = senderUserID \<or> v \<in> seen then unique_targets seen vs senderUserID
      else v # unique_targets (insert v seen) vs senderUserID)"

definition uniquePushTargets :: "int list \<Rightarrow> int \<Rightarrow> int list" where
  "uniquePushTargets values senderUserID = unique_targets {} values senderUserID"

section \<open>Device tokens\<close>

definition device_of :: "int \<Rightarrow> string \<Rightarrow> string \<Rightarrow> string \<Rightarrow> token_row \<Rightarrow> bool" where
  "device_of userID deviceID environment pushType t \<longleftrightarrow> tk_user_id t = userID \<and> tk_device_id t = deviceID \<and>
     tk_environment t = environment \<and> tk_push_type t = pushType"

definition same_token :: "string \<Rightarrow> string \<Rightarrow> string \<Rightarrow> token_row \<Rightarrow> bool" where
  "same_token environment pushType token t \<longleftrightarrow> tk_environment t = environment \<and> tk_push_type t = pushType \<and> tk_token t = token"

definition registerTokenWithDB ::
  "int \<Rightarrow> string \<Rightarrow> string \<Rightarrow> string \<Rightarrow> string \<Rightarrow> string \<Rightarrow> instant \<Rightarrow> push_tables \<Rightarrow> push_tables" where
  "registerTokenWithDB userID deviceID token environment pushType bundleID now pt =
     (let nowValue = FormatReliabilityTime now in
      case sql_first (device_of userID deviceID environment pushType) (sql_order tk_id (pt_tokens pt)) of
        Some row \<Rightarrow>
          pt\<lparr>pt_tokens := sql_update (\<lambda>t. tk_id t = tk_id row)
               (\<lambda>t. t\<lparr>tk_token := token, tk_bundle_id := bundleID, tk_is_active := True, tk_updated_at := nowValue\<rparr>)
               (sql_delete (\<lambda>t. same_token environment pushType token t \<and> tk_id t \<noteq> tk_id row) (pt_tokens pt))\<rparr>
      | None \<Rightarrow>
          (case sql_first (same_token environment pushType token) (sql_order tk_id (pt_tokens pt)) of
             Some row \<Rightarrow>
               pt\<lparr>pt_tokens := sql_update (\<lambda>t. tk_id t = tk_id row)
                    (\<lambda>t. t\<lparr>tk_user_id := userID, tk_device_id := deviceID, tk_bundle_id := bundleID, tk_is_active := True,
                           tk_updated_at := nowValue\<rparr>) (pt_tokens pt)\<rparr>
           | None \<Rightarrow>
               pt\<lparr>pt_tokens := pt_tokens pt @ [\<lparr>tk_id = pt_tokens_id_seq pt, tk_user_id = userID, tk_device_id = deviceID,
                    tk_token = token, tk_environment = environment, tk_push_type = pushType, tk_bundle_id = bundleID,
                    tk_is_active = True, tk_created_at = nowValue, tk_updated_at = nowValue\<rparr>],
                  pt_tokens_id_seq := pt_tokens_id_seq pt + 1\<rparr>))"

definition persistRegisterToken ::
  "int \<Rightarrow> string \<Rightarrow> string \<Rightarrow> int \<Rightarrow> string \<Rightarrow> string \<Rightarrow> string \<Rightarrow> instant \<Rightarrow> push_tables \<Rightarrow> push_event \<times> push_tables" where
  "persistRegisterToken userID rawDeviceID rawToken environment pushType operation bundleID now pt =
     (let deviceID = TrimSpace rawDeviceID; token = ToLower (TrimSpace rawToken) in
      if \<not> validDeviceID rawDeviceID \<or> \<not> validToken rawToken \<or> \<not> validEnvironment environment
      then (clientEvent operation PUSH_INVALID_ARGUMENT deviceID environment ''invalid push request'' now, pt)
      else (clientEvent operation PUSH_OK deviceID environment ''registered'' now,
            registerTokenWithDB userID deviceID token (environmentName environment) pushType bundleID now pt))"

definition persistUnregisterToken ::
  "int \<Rightarrow> string \<Rightarrow> int \<Rightarrow> string \<Rightarrow> string \<Rightarrow> instant \<Rightarrow> push_tables \<Rightarrow> push_event \<times> push_tables" where
  "persistUnregisterToken userID rawDeviceID environment pushType operation now pt =
     (let deviceID = TrimSpace rawDeviceID; c = device_of userID deviceID (environmentName environment) pushType in
      if \<not> validDeviceID rawDeviceID \<or> \<not> validEnvironment environment
      then (clientEvent operation PUSH_INVALID_ARGUMENT deviceID environment ''invalid push request'' now, pt)
      else if sql_count c (pt_tokens pt) = 0
      then (clientEvent operation PUSH_TOKEN_NOT_FOUND deviceID environment ''push token not found'' now, pt)
      else (clientEvent operation PUSH_OK deviceID environment ''unregistered'' now, pt\<lparr>pt_tokens := sql_delete c (pt_tokens pt)\<rparr>))"

definition stablePushJobID :: "push_codec \<Rightarrow> string \<Rightarrow> string" where
  "stablePushJobID codec operationKey = ''push-'' @ pc_sha256hex codec (''betterfly-push:'' @ operationKey)"

definition stableMessageRecallJobID :: "int \<Rightarrow> string" where
  "stableMessageRecallJobID messageID = ''push-recall-'' @ itoa messageID"

definition client_command_event ::
  "string \<Rightarrow> instant \<Rightarrow> int \<Rightarrow> push_client_payload \<Rightarrow> push_tables \<Rightarrow> push_event \<times> push_tables" where
  "client_command_event bundleID now userID payload =
     (case payload of
        RegisterVoIPToken deviceID token environment \<Rightarrow>
          persistRegisterToken userID deviceID token environment PushTypeVoIP ''register_voip_token'' bundleID now
      | UnregisterVoIPToken deviceID environment \<Rightarrow>
          persistUnregisterToken userID deviceID environment PushTypeVoIP ''unregister_voip_token'' now
      | RegisterAPNsToken deviceID token environment \<Rightarrow>
          persistRegisterToken userID deviceID token environment PushTypeAPNs ''register_apns_token'' bundleID now
      | UnregisterAPNsToken deviceID environment \<Rightarrow>
          persistUnregisterToken userID deviceID environment PushTypeAPNs ''unregister_apns_token'' now)"

type_synonym push_result = "(push_error + bytes \<times> pending_outbox_event list) \<times> push_tables"

definition persistClientCommand ::
  "push_codec \<Rightarrow> string \<Rightarrow> instant \<Rightarrow> string \<Rightarrow> string \<Rightarrow> int \<Rightarrow> push_client_payload option \<Rightarrow> push_tables \<Rightarrow> push_result" where
  "persistClientCommand codec bundleID now operationKey fromKafkaTopic userID request pt =
     (case request of
        None \<Rightarrow> (Inl PushInvalidRequest, pt)
      | Some payload \<Rightarrow>
          if userID \<le> 0 \<or> TrimSpace fromKafkaTopic = [] then (Inl PushInvalidRequest, pt)
          else (case client_command_event bundleID now userID payload pt of
            (event, pt1) \<Rightarrow>
              (case (pc_marshal_response codec (PushClientDelivery userID event), pc_marshal_envelope codec (PushClientDelivery userID event)) of
                 (Some responsePayload, Some envelopePayload) \<Rightarrow>
                   (Inr (responsePayload, [\<lparr>pe_event_id = ''push:'' @ stablePushJobID codec operationKey @ '':client-response'',
                      pe_topic = fromKafkaTopic, pe_payload = envelopePayload\<rparr>]), pt1)
               | _ \<Rightarrow> (Inl PushMarshalError, pt1))))"

section \<open>Jobs and their deliveries\<close>

definition new_job :: "string \<Rightarrow> string \<Rightarrow> string \<Rightarrow> bytes \<Rightarrow> string \<Rightarrow> job_row" where
  "new_job jobID operationKey kind payload now =
     \<lparr>jb_job_id = jobID, jb_operation_key = operationKey, jb_kind = kind, jb_request_payload = payload, jb_status = PushJobPending,
      jb_created_at = now, jb_updated_at = now, jb_completed_at = []\<rparr>"

text \<open>The primary key and the unique index on the operation.\<close>

definition create_job :: "job_row \<Rightarrow> push_tables \<Rightarrow> push_tables option" where
  "create_job job pt =
     (if jb_job_id job \<in> jb_job_id ` set (pt_jobs pt) \<or> jb_operation_key job \<in> jb_operation_key ` set (pt_jobs pt) then None
      else Some (pt\<lparr>pt_jobs := pt_jobs pt @ [job]\<rparr>))"

definition complete_jobs :: "(job_row \<Rightarrow> bool) \<Rightarrow> string \<Rightarrow> push_tables \<Rightarrow> push_tables" where
  "complete_jobs c now pt =
     pt\<lparr>pt_jobs := sql_update c (\<lambda>j. j\<lparr>jb_status := PushJobCompleted, jb_completed_at := now, jb_updated_at := now\<rparr>) (pt_jobs pt)\<rparr>"

definition new_delivery :: "push_key \<Rightarrow> string \<Rightarrow> string \<Rightarrow> int \<Rightarrow> delivery_row" where
  "new_delivery key jobID now tokenID =
     \<lparr>dv_key = key, dv_token_id = tokenID, dv_job_id = jobID, dv_status = DeliveryPending, dv_attempt = 0, dv_claim_token = [],
      dv_lease_until = [], dv_next_retry_at = now, dv_last_error = [], dv_apns_id = [], dv_created_at = now, dv_updated_at = now\<rparr>"

definition delivery_id :: "delivery_row \<Rightarrow> push_key \<times> int" where
  "delivery_id d = (dv_key d, dv_token_id d)"

text \<open>\<^verbatim>\<open>INSERT ... ON CONFLICT DO NOTHING\<close> for the given tokens; the number is \<^verbatim>\<open>RowsAffected\<close>.\<close>

definition fan_out :: "push_key \<Rightarrow> string \<Rightarrow> string \<Rightarrow> int list \<Rightarrow> delivery_row list \<Rightarrow> nat \<times> delivery_row list" where
  "fan_out key jobID now tokenIDs rows =
     (let fresh = remdups (filter (\<lambda>t. (key, t) \<notin> delivery_id ` set rows) tokenIDs)
      in (length fresh, rows @ map (new_delivery key jobID now) fresh))"

text \<open>With \<^verbatim>\<open>DO UPDATE\<close> an existing delivery starts again under the new job.\<close>

definition fan_out_again :: "push_key \<Rightarrow> string \<Rightarrow> string \<Rightarrow> int list \<Rightarrow> delivery_row list \<Rightarrow> nat \<times> delivery_row list" where
  "fan_out_again key jobID now tokenIDs rows =
     (let rows1 = sql_update (\<lambda>d. dv_key d = key \<and> dv_token_id d \<in> set tokenIDs)
            (\<lambda>d. (new_delivery key jobID now (dv_token_id d))\<lparr>dv_created_at := dv_created_at d\<rparr>) rows
      in (length (remdups tokenIDs), snd (fan_out key jobID now tokenIDs rows1)))"

text \<open>The devices of a message's receivers: muted friends are left out of direct messages.\<close>

definition wants_message :: "int \<Rightarrow> bool \<Rightarrow> database \<Rightarrow> token_row \<Rightarrow> bool" where
  "wants_message senderUserID isGroup db t =
     (let rows = filter (\<lambda>f. fr_user_id f = tk_user_id t \<and> fr_friend_id f = senderUserID \<and> \<not> fr_is_delete f) (friends db)
      in isGroup \<or> rows = [] \<or> list_ex fr_is_notify rows)"

definition active_tokens :: "int list \<Rightarrow> string \<Rightarrow> push_tables \<Rightarrow> token_row list" where
  "active_tokens userIDs pushType pt =
     filter (\<lambda>t. tk_user_id t \<in> set userIDs \<and> tk_push_type t = pushType \<and> tk_is_active t) (pt_tokens pt)"

definition lockMessageForPush :: "int \<Rightarrow> push_tables \<Rightarrow> message_row option" where
  "lockMessageForPush messageID pt = sql_first (\<lambda>m. ms_message_id m = messageID) (messages (pt_db pt))"

text \<open>The second half of \<^verbatim>\<open>persistMessageJob\<close>: the job and its deliveries.\<close>

definition create_message_job :: "push_codec \<Rightarrow> string \<Rightarrow> string \<Rightarrow> message_push \<Rightarrow> bytes \<Rightarrow> push_tables \<Rightarrow> push_result" where
  "create_message_job codec now operationKey m payload pt =
     (let targets = uniquePushTargets (mp_target_user_ids m) (mp_sender_user_id m); jobID = stablePushJobID codec operationKey in
      case create_job (new_job jobID operationKey ''message'' payload now) pt of
        None \<Rightarrow> (Inl PushDatabaseError, pt)
      | Some pt1 \<Rightarrow>
          (let tokenIDs = map tk_id (filter (wants_message (mp_sender_user_id m) (mp_is_group m) (pt_db pt1))
                 (active_tokens targets PushTypeAPNs pt1))
           in case fan_out (MessageKey (mp_message_id m)) jobID now tokenIDs (pt_message_deliveries pt1) of
                (affected, rows) \<Rightarrow>
                  (let pt2 = pt1\<lparr>pt_message_deliveries := rows\<rparr> in
                   (Inr ([], []), if affected = 0 then complete_jobs (\<lambda>j. jb_job_id j = jobID) now pt2 else pt2))))"

definition message_matches :: "message_push \<Rightarrow> message_row \<Rightarrow> bool" where
  "message_matches m row \<longleftrightarrow> \<not> (ms_from_user_id row \<noteq> mp_sender_user_id m \<or> ms_is_group row \<noteq> mp_is_group m \<or>
     mp_is_group m \<and> ms_to_user_id row \<noteq> mp_conversation_id m \<or>
     \<not> mp_is_group m \<and> mp_conversation_id m \<noteq> mp_sender_user_id m)"

definition persistMessageJob :: "push_codec \<Rightarrow> instant \<Rightarrow> string \<Rightarrow> message_push \<Rightarrow> push_tables \<Rightarrow> push_result" where
  "persistMessageJob codec clock operationKey m pt =
     (if mp_message_id m \<le> 0 \<or> mp_sender_user_id m \<le> 0 \<or> mp_conversation_id m \<le> 0 \<or> TrimSpace (mp_message_type m) = [] \<or>
         mp_target_user_ids m = []
      then (Inl PushInvalidRequest, pt)
      else (case lockMessageForPush (mp_message_id m) pt of
        None \<Rightarrow> (Inl PushInvalidRequest, pt)
      | Some row \<Rightarrow>
          if \<not> message_matches m row then (Inl PushInvalidRequest, pt)
          else if ms_is_recalled row then (Inr ([], []), pt)
          else (case pc_marshal_request codec (PushMessage m) of
            None \<Rightarrow> (Inl PushMarshalError, pt)
          | Some payload \<Rightarrow> create_message_job codec (FormatReliabilityTime clock) operationKey m payload pt)))"

definition outstanding :: "delivery_row \<Rightarrow> bool" where
  "outstanding d \<longleftrightarrow> dv_status d \<in> {DeliveryPending, DeliveryClaimed, DeliveryRetryable}"

text \<open>The check of a recall against the stored message.\<close>

definition recall_matches :: "recall_push \<Rightarrow> instant \<Rightarrow> message_row \<Rightarrow> bool" where
  "recall_matches r recalledAt row \<longleftrightarrow> ms_is_recalled row \<and> ms_recalled_by row = rp_operator_user_id r \<and>
     ms_recalled_at row = RFC3339 recalledAt \<and> ms_is_group row = rp_is_group r \<and>
     (rp_is_group r \<longrightarrow> ms_to_user_id row = rp_conversation_id r) \<and> (\<not> rp_is_group r \<longrightarrow> ms_from_user_id row = rp_conversation_id r)"

definition cancel_message :: "int \<Rightarrow> string \<Rightarrow> push_tables \<Rightarrow> push_tables" where
  "cancel_message messageID now pt =
     (let rows = sql_update (\<lambda>d. dv_key d = MessageKey messageID \<and> outstanding d)
            (\<lambda>d. d\<lparr>dv_status := DeliveryPermanent, dv_claim_token := [], dv_lease_until := [], dv_next_retry_at := [],
                   dv_last_error := ''message_recalled'', dv_updated_at := now\<rparr>) (pt_message_deliveries pt);
          ids = dv_job_id ` set (filter (\<lambda>d. dv_key d = MessageKey messageID) rows)
      in complete_jobs (\<lambda>j. jb_kind j = ''message'' \<and> jb_job_id j \<in> ids) now (pt\<lparr>pt_message_deliveries := rows\<rparr>))"

text \<open>The second half of \<^verbatim>\<open>persistMessageRecallJob\<close>.\<close>

definition create_recall_job :: "string \<Rightarrow> string \<Rightarrow> recall_push \<Rightarrow> int list \<Rightarrow> bytes \<Rightarrow> push_tables \<Rightarrow> push_result" where
  "create_recall_job now operationKey r targets payload pt =
     (let jobID = stableMessageRecallJobID (rp_message_id r) in
      if jobID \<in> jb_job_id ` set (pt_jobs pt) then (Inr ([], []), pt)
      else (case create_job (new_job jobID operationKey ''message_recall'' payload now) pt of
        None \<Rightarrow> (Inl PushDatabaseError, pt)
      | Some pt1 \<Rightarrow>
          (let pt2 = cancel_message (rp_message_id r) now pt1;
               tokenIDs = map tk_id (active_tokens targets PushTypeAPNs pt2)
           in case fan_out_again (MessageKey (- rp_message_id r)) jobID now tokenIDs (pt_message_deliveries pt2) of
                (affected, rows) \<Rightarrow>
                  (let pt3 = pt2\<lparr>pt_message_deliveries := rows\<rparr> in
                   (Inr ([], []), if affected = 0 then complete_jobs (\<lambda>j. jb_job_id j = jobID) now pt3 else pt3)))))"

definition persistMessageRecallJob :: "push_codec \<Rightarrow> instant \<Rightarrow> string \<Rightarrow> recall_push \<Rightarrow> push_tables \<Rightarrow> push_result" where
  "persistMessageRecallJob codec clock operationKey r pt =
     (if rp_message_id r \<le> 0 \<or> rp_conversation_id r \<le> 0 \<or> rp_operator_user_id r \<le> 0 \<or> rp_target_user_ids r = []
      then (Inl PushInvalidRequest, pt)
      else (case (Parse (rp_recalled_at r), lockMessageForPush (rp_message_id r) pt) of
        (Some recalledAt, Some row) \<Rightarrow>
          if \<not> recall_matches r recalledAt row then (Inl PushInvalidRequest, pt)
          else
            (let targets = uniquePushTargets (rp_target_user_ids r) (rp_operator_user_id r) in
             if targets = [] then (Inr ([], []), pt)
             else (case pc_marshal_request codec (PushRecall r) of
               None \<Rightarrow> (Inl PushMarshalError, pt)
             | Some payload \<Rightarrow> create_recall_job (FormatReliabilityTime clock) operationKey r targets payload pt))
      | _ \<Rightarrow> (Inl PushInvalidRequest, pt)))"

text \<open>The result of a call's notification, without its time, which the call service does not read.\<close>

definition voipResultPayload :: "voip_call_request \<Rightarrow> bool \<Rightarrow> string \<Rightarrow> push_response" where
  "voipResultPayload call accepted reason =
     PushVoIPResult \<lparr>vr_call_id = vq_call_id call, vr_caller_user_id = vq_caller_user_id call,
       vr_callee_user_id = vq_callee_user_id call, vr_accepted = accepted, vr_required = vq_required call, vr_reason = reason\<rparr>"

definition voip_event_id :: "string \<Rightarrow> string" where
  "voip_event_id jobID = ''push:'' @ jobID @ '':voip-result''"

definition completeVoIPWithoutDelivery ::
  "push_codec \<Rightarrow> string \<Rightarrow> voip_call_request \<Rightarrow> string \<Rightarrow> string \<Rightarrow> push_tables \<Rightarrow> push_result" where
  "completeVoIPWithoutDelivery codec jobID call reason now pt =
     (let pt1 = complete_jobs (\<lambda>j. jb_job_id j = jobID) now pt; response = voipResultPayload call False reason in
      case (pc_marshal_envelope codec response, pc_marshal_response codec response) of
        (Some payload, Some encoded) \<Rightarrow>
          (Inr (encoded, [\<lparr>pe_event_id = voip_event_id jobID, pe_topic = vq_result_kafka_topic call, pe_payload = payload\<rparr>]), pt1)
      | _ \<Rightarrow> (Inl PushMarshalError, pt1))"

definition start_voip :: "push_codec \<Rightarrow> instant \<Rightarrow> string \<Rightarrow> voip_call_request \<Rightarrow> push_tables \<Rightarrow> push_result" where
  "start_voip codec clock jobID call pt1 =
     (let now = FormatReliabilityTime clock in
      if (case Parse (vq_expires_at call) of None \<Rightarrow> True | Some expiresAt \<Rightarrow> expiresAt \<le> clock)
      then completeVoIPWithoutDelivery codec jobID call ''call_expired'' now pt1
      else (case fan_out (CallKey (vq_call_id call)) jobID now
                   (map tk_id (active_tokens [vq_callee_user_id call] PushTypeVoIP pt1)) (pt_voip_deliveries pt1) of
        (affected, rows) \<Rightarrow>
          (let pt2 = pt1\<lparr>pt_voip_deliveries := rows\<rparr> in
           if affected = 0 then completeVoIPWithoutDelivery codec jobID call ''no_active_voip_token'' now pt2
           else (Inr ([], []), pt2))))"

definition persistVoIPJob :: "push_codec \<Rightarrow> instant \<Rightarrow> string \<Rightarrow> voip_call_request \<Rightarrow> push_tables \<Rightarrow> push_result" where
  "persistVoIPJob codec clock operationKey call pt =
     (if TrimSpace (vq_call_id call) = [] \<or> vq_caller_user_id call \<le> 0 \<or> vq_callee_user_id call \<le> 0 \<or>
         vq_caller_user_id call = vq_callee_user_id call \<or> TrimSpace (vq_result_kafka_topic call) = []
      then (Inl PushInvalidRequest, pt)
      else (case pc_marshal_request codec (PushVoIPCall call) of
        None \<Rightarrow> (Inl PushMarshalError, pt)
      | Some payload \<Rightarrow>
          (let jobID = stablePushJobID codec operationKey in
           case create_job (new_job jobID operationKey ''voip'' payload (FormatReliabilityTime clock)) pt of
             None \<Rightarrow> (Inl PushDatabaseError, pt)
           | Some pt1 \<Rightarrow> start_voip codec clock jobID call pt1)))"

definition push_execute :: "push_codec \<Rightarrow> string \<Rightarrow> instant \<Rightarrow> string \<Rightarrow> push_request \<Rightarrow> (push_tables, push_error) executor" where
  "push_execute codec bundleID clock operationKey request pt =
     (case request of
        PushClientCommand topic userID payload \<Rightarrow> persistClientCommand codec bundleID clock operationKey topic userID payload pt
      | PushMessage m \<Rightarrow> persistMessageJob codec clock operationKey m pt
      | PushRecall r \<Rightarrow> persistMessageRecallJob codec clock operationKey r pt
      | PushVoIPCall call \<Rightarrow> persistVoIPJob codec clock operationKey call pt)"

definition EnqueueRequest ::
  "push_codec \<Rightarrow> string \<Rightarrow> instant \<Rightarrow> string \<Rightarrow> push_request option \<Rightarrow> push_tables reliable_store \<Rightarrow>
   (push_error inbox_error + inbox_execution) \<times> push_tables reliable_store" where
  "EnqueueRequest codec bundleID clock operationKey request st =
     (case request of
        None \<Rightarrow> (Inl (ExecuteError PushInvalidRequest), st)
      | Some req \<Rightarrow>
          if TrimSpace operationKey = [] then (Inl (ExecuteError PushInvalidRequest), st)
          else ExecuteInboxOutbox clock ''push'' operationKey (push_execute codec bundleID clock operationKey req) st)"

end
