(* ===== verification/Push_Delivery.thy ===== *)
theory Push_Delivery
  imports Push_Store
begin

text \<open>
  \<^verbatim>\<open>delivery_store.go\<close> and \<^verbatim>\<open>cleanup.go\<close> of the push service: workers claim batches of deliveries with a random token
  and a lease, and record each result under that token; a job is completed when none of its deliveries is
  outstanding, and the completion of a call's job puts the result for the call service into the outbox.
\<close>

section \<open>The two delivery tables\<close>

datatype delivery_kind = DeliverMessage | DeliverVoIP

definition deliveries :: "delivery_kind \<Rightarrow> push_tables \<Rightarrow> delivery_row list" where
  "deliveries kind pt = (case kind of DeliverMessage \<Rightarrow> pt_message_deliveries pt | DeliverVoIP \<Rightarrow> pt_voip_deliveries pt)"

definition set_deliveries :: "delivery_kind \<Rightarrow> delivery_row list \<Rightarrow> push_tables \<Rightarrow> push_tables" where
  "set_deliveries kind rows pt =
     (case kind of DeliverMessage \<Rightarrow> pt\<lparr>pt_message_deliveries := rows\<rparr> | DeliverVoIP \<Rightarrow> pt\<lparr>pt_voip_deliveries := rows\<rparr>)"

definition key_message :: "push_key \<Rightarrow> int" where
  "key_message key = (case key of MessageKey m \<Rightarrow> m | CallKey _ \<Rightarrow> 0)"

definition key_call :: "push_key \<Rightarrow> string" where
  "key_call key = (case key of MessageKey _ \<Rightarrow> [] | CallKey c \<Rightarrow> c)"

section \<open>Completing jobs\<close>

definition lockPushJob :: "string \<Rightarrow> push_tables \<Rightarrow> push_error + job_row" where
  "lockPushJob jobID pt =
     (case sql_first (\<lambda>j. jb_job_id j = jobID) (pt_jobs pt) of None \<Rightarrow> Inl PushDeliveryFenced | Some job \<Rightarrow> Inr job)"

definition outstanding_of :: "string \<Rightarrow> delivery_row \<Rightarrow> bool" where
  "outstanding_of jobID d \<longleftrightarrow> dv_job_id d = jobID \<and> outstanding d"

definition pending_job :: "string \<Rightarrow> job_row \<Rightarrow> bool" where
  "pending_job jobID j \<longleftrightarrow> jb_job_id j = jobID \<and> jb_status j = PushJobPending"

definition completeMessageJobIfTerminalLocked ::
  "instant \<Rightarrow> job_row \<Rightarrow> push_tables reliable_store \<Rightarrow> (push_error + unit) \<times> push_tables reliable_store" where
  "completeMessageJobIfTerminalLocked clock job st =
     (if 0 < sql_count (outstanding_of (jb_job_id job)) (pt_message_deliveries (tables st)) then (Inr (), st)
      else (Inr (), st\<lparr>tables := complete_jobs (pending_job (jb_job_id job)) (FormatReliabilityTime clock) (tables st)\<rparr>))"

text \<open>
  The reason of a failed call: the error of the delivery changed last. \<^verbatim>\<open>First\<close> adds the first column of the
  primary key to the order; what is left equal by both keeps the order of the table.
\<close>

definition call_key :: "delivery_row \<Rightarrow> string" where
  "call_key d = (case dv_key d of CallKey callID \<Rightarrow> callID | MessageKey _ \<Rightarrow> [])"

definition voip_failure_reason :: "string \<Rightarrow> push_tables \<Rightarrow> string" where
  "voip_failure_reason jobID pt =
     (case sql_first (\<lambda>d. dv_job_id d = jobID) (sql_order_desc dv_updated_at (sql_order call_key (pt_voip_deliveries pt))) of
        None \<Rightarrow> ''apns_delivery_failed''
      | Some failed \<Rightarrow> if dv_last_error failed = [] then ''apns_delivery_failed'' else dv_last_error failed)"

definition voip_outcome :: "string \<Rightarrow> push_tables \<Rightarrow> bool \<times> string" where
  "voip_outcome jobID pt =
     (if 0 < sql_count (\<lambda>d. dv_job_id d = jobID \<and> dv_status d = DeliverySent) (pt_voip_deliveries pt) then (True, ''accepted_by_apns'')
      else (False, voip_failure_reason jobID pt))"

text \<open>\<^verbatim>\<open>ON CONFLICT DO NOTHING\<close> on the outbox.\<close>

definition insert_outbox :: "outbox_row \<Rightarrow> outbox_row list \<Rightarrow> outbox_row list" where
  "insert_outbox row rows = (case sql_create ob_event_id row rows of None \<Rightarrow> rows | Some rows' \<Rightarrow> rows')"

definition completeVoIPJobIfTerminalLocked ::
  "push_codec \<Rightarrow> instant \<Rightarrow> job_row \<Rightarrow> push_tables reliable_store \<Rightarrow> (push_error + unit) \<times> push_tables reliable_store" where
  "completeVoIPJobIfTerminalLocked codec clock job st =
     (if 0 < sql_count (outstanding_of (jb_job_id job)) (pt_voip_deliveries (tables st)) then (Inr (), st)
      else if jb_status job = PushJobCompleted then (Inr (), st)
      else (case pc_unmarshal_request codec (jb_request_payload job) of
        None \<Rightarrow> (Inl PushDecodeError, st)
      | Some (Some (PushVoIPCall call)) \<Rightarrow>
          (let outcome = voip_outcome (jb_job_id job) (tables st); now = FormatReliabilityTime clock in
           case pc_marshal_envelope codec (voipResultPayload call (fst outcome) (snd outcome)) of
             None \<Rightarrow> (Inl PushMarshalError, st)
           | Some payload \<Rightarrow>
               (Inr (), st\<lparr>outbox_events := insert_outbox (new_outbox_row ''push'' (jb_operation_key job) now
                    \<lparr>pe_event_id = voip_event_id (jb_job_id job), pe_topic = vq_result_kafka_topic call, pe_payload = payload\<rparr>)
                    (outbox_events st),
                  tables := complete_jobs (pending_job (jb_job_id job)) now (tables st)\<rparr>))
      | Some _ \<Rightarrow> (Inl PushNoCallRequest, st)))"

definition complete_locked ::
  "push_codec \<Rightarrow> delivery_kind \<Rightarrow> instant \<Rightarrow> job_row \<Rightarrow> push_tables reliable_store \<Rightarrow> (push_error + unit) \<times> push_tables reliable_store" where
  "complete_locked codec kind clock job st =
     (case kind of DeliverMessage \<Rightarrow> completeMessageJobIfTerminalLocked clock job st
      | DeliverVoIP \<Rightarrow> completeVoIPJobIfTerminalLocked codec clock job st)"

text \<open>\<^verbatim>\<open>completeMessageJobIfTerminal\<close> and \<^verbatim>\<open>completeVoIPJobIfTerminal\<close>.\<close>

definition complete_if_terminal ::
  "push_codec \<Rightarrow> delivery_kind \<Rightarrow> instant \<Rightarrow> string \<Rightarrow> push_tables reliable_store \<Rightarrow> (push_error + unit) \<times> push_tables reliable_store" where
  "complete_if_terminal codec kind clock jobID st =
     (case lockPushJob jobID (tables st) of Inl e \<Rightarrow> (Inl e, st) | Inr job \<Rightarrow> complete_locked codec kind clock job st)"

section \<open>Claiming a batch\<close>

definition exhausted :: "int \<Rightarrow> string \<Rightarrow> delivery_row \<Rightarrow> bool" where
  "exhausted maxAttempts now d \<longleftrightarrow> maxAttempts \<le> dv_attempt d \<and>
     (dv_status d = DeliveryClaimed \<and> dv_lease_until d \<le> now \<or>
      dv_status d = DeliveryRetryable \<and> (dv_next_retry_at d = [] \<or> dv_next_retry_at d \<le> now))"

definition expireExhaustedDeliveries :: "delivery_kind \<Rightarrow> string \<Rightarrow> int \<Rightarrow> push_tables \<Rightarrow> string list \<times> push_tables" where
  "expireExhaustedDeliveries kind now maxAttempts pt =
     (let rows = deliveries kind pt; c = exhausted maxAttempts now in
      (rev (remdups (rev (filter (\<lambda>jobID. jobID \<noteq> []) (map dv_job_id (filter c rows))))),
       set_deliveries kind (sql_update c
         (\<lambda>d. d\<lparr>dv_status := DeliveryFailed, dv_claim_token := [], dv_lease_until := [], dv_next_retry_at := [],
                dv_last_error := ''delivery_attempts_exhausted'', dv_updated_at := now\<rparr>) rows) pt))"

fun complete_exhausted ::
  "push_codec \<Rightarrow> delivery_kind \<Rightarrow> instant \<Rightarrow> string list \<Rightarrow> push_tables reliable_store \<Rightarrow>
   (push_error + unit) \<times> push_tables reliable_store" where
  "complete_exhausted codec kind clock [] st = (Inr (), st)"
| "complete_exhausted codec kind clock (jobID # jobIDs) st =
     (case complete_if_terminal codec kind clock jobID st of
        (Inl e, st') \<Rightarrow> (Inl e, st')
      | (Inr _, st') \<Rightarrow> complete_exhausted codec kind clock jobIDs st')"

definition claimable :: "int \<Rightarrow> string \<Rightarrow> push_tables \<Rightarrow> delivery_row \<Rightarrow> bool" where
  "claimable maxAttempts now pt d \<longleftrightarrow> list_ex (\<lambda>j. jb_job_id j = dv_job_id d \<and> jb_status j = PushJobPending) (pt_jobs pt) \<and>
     dv_attempt d < maxAttempts \<and>
     (dv_status d = DeliveryPending \<or>
      dv_status d = DeliveryRetryable \<and> (dv_next_retry_at d = [] \<or> dv_next_retry_at d \<le> now) \<or>
      dv_status d = DeliveryClaimed \<and> dv_lease_until d \<le> now)"

text \<open>The rows of the \<^verbatim>\<open>FOR UPDATE SKIP LOCKED\<close> query, oldest first; \<open>locked\<close> are the rows other transactions hold.\<close>

definition claim_candidates ::
  "int \<Rightarrow> string \<Rightarrow> (push_key \<times> int \<Rightarrow> bool) \<Rightarrow> int \<Rightarrow> push_tables \<Rightarrow> delivery_row list \<Rightarrow> (push_key \<times> int) list" where
  "claim_candidates maxAttempts now locked limit pt rows =
     map delivery_id (take (nat limit)
       (sql_order (\<lambda>d. (dv_created_at d, key_message (dv_key d), key_call (dv_key d), dv_token_id d))
         (filter (\<lambda>d. claimable maxAttempts now pt d \<and> \<not> locked (delivery_id d)) rows)))"

definition claim_row :: "string \<Rightarrow> string \<Rightarrow> string \<Rightarrow> delivery_row \<Rightarrow> delivery_row" where
  "claim_row claimToken leaseUntil now d =
     d\<lparr>dv_status := DeliveryClaimed, dv_attempt := dv_attempt d + 1, dv_claim_token := claimToken,
       dv_lease_until := leaseUntil, dv_updated_at := now\<rparr>"

record delivery_claim =
  dl_job_id :: string
  dl_message_id :: int
  dl_call_id :: string
  dl_token :: token_row
  dl_attempt :: int
  dl_claim_token :: string
  dl_request_payload :: bytes

text \<open>The \<^verbatim>\<open>LEFT JOIN\<close>: a deleted token leaves zero values.\<close>

definition joined_token :: "int \<Rightarrow> push_tables \<Rightarrow> token_row" where
  "joined_token tokenID pt =
     (case sql_first (\<lambda>t. tk_id t = tokenID) (pt_tokens pt) of
        Some t \<Rightarrow> t
      | None \<Rightarrow> \<lparr>tk_id = tokenID, tk_user_id = 0, tk_device_id = [], tk_token = [], tk_environment = [], tk_push_type = [],
                 tk_bundle_id = [], tk_is_active = False, tk_created_at = [], tk_updated_at = []\<rparr>)"

definition claim_of :: "push_tables \<Rightarrow> delivery_row \<Rightarrow> delivery_claim" where
  "claim_of pt d =
     \<lparr>dl_job_id = dv_job_id d, dl_message_id = key_message (dv_key d), dl_call_id = key_call (dv_key d),
      dl_token = joined_token (dv_token_id d) pt, dl_attempt = dv_attempt d, dl_claim_token = dv_claim_token d,
      dl_request_payload = (case sql_first (\<lambda>j. jb_job_id j = dv_job_id d) (pt_jobs pt) of None \<Rightarrow> [] | Some j \<Rightarrow> jb_request_payload j)\<rparr>"

text \<open>The claiming statement: the updated rows, joined, in the order of their keys.\<close>

definition claim_rows ::
  "delivery_kind \<Rightarrow> int \<Rightarrow> string \<Rightarrow> (push_key \<times> int \<Rightarrow> bool) \<Rightarrow> int \<Rightarrow> string \<Rightarrow> string \<Rightarrow> push_tables \<Rightarrow>
   delivery_claim list \<times> push_tables" where
  "claim_rows kind maxAttempts now locked limit claimToken leaseUntil pt =
     (let rows = deliveries kind pt;
          ids = claim_candidates maxAttempts now locked limit pt rows;
          rows1 = sql_update (\<lambda>d. delivery_id d \<in> set ids) (claim_row claimToken leaseUntil now) rows
      in (map (claim_of pt) (sql_order (\<lambda>d. (key_message (dv_key d), key_call (dv_key d), dv_token_id d))
            (filter (\<lambda>d. delivery_id d \<in> set ids) rows1)),
          set_deliveries kind rows1 pt))"

definition claimDeliveryBatch ::
  "push_codec \<Rightarrow> delivery_kind \<Rightarrow> int \<Rightarrow> instant \<Rightarrow> duration \<Rightarrow> int \<Rightarrow> string option \<Rightarrow> (push_key \<times> int \<Rightarrow> bool) \<Rightarrow>
   push_tables reliable_store \<Rightarrow> (push_error + delivery_claim list) \<times> push_tables reliable_store" where
  "claimDeliveryBatch codec kind limit0 clock lease maxAttempts0 newClaimToken locked st =
     (let limit = (if limit0 \<le> 0 \<or> limit0 > 1000 then 256 else limit0);
          maxAttempts = (if maxAttempts0 \<le> 0 then 10 else maxAttempts0)
      in case newClaimToken of
           None \<Rightarrow> (Inl PushRandomError, st)
         | Some claimToken \<Rightarrow>
             (let now = FormatReliabilityTime clock; leaseUntil = FormatReliabilityTime (clock + lease) in
              transaction (\<lambda>s.
                case expireExhaustedDeliveries kind now maxAttempts (tables s) of
                  (exhaustedJobs, pt1) \<Rightarrow>
                    (case complete_exhausted codec kind clock exhaustedJobs (s\<lparr>tables := pt1\<rparr>) of
                       (Inl e, s2) \<Rightarrow> (Inl e, s2)
                     | (Inr _, s2) \<Rightarrow>
                         (case claim_rows kind maxAttempts now locked limit claimToken leaseUntil (tables s2) of
                            (claims, pt3) \<Rightarrow> (Inr claims, s2\<lparr>tables := pt3\<rparr>)))) st))"

section \<open>Recording a result\<close>

record delivery_update =
  du_claim :: delivery_claim
  du_status :: string
  du_next_retry_at :: "instant option"
  du_last_error :: string
  du_apns_id :: string
  du_deactivate_token :: bool

definition claim_key :: "delivery_kind \<Rightarrow> delivery_claim \<Rightarrow> push_key" where
  "claim_key kind c = (case kind of DeliverMessage \<Rightarrow> MessageKey (dl_message_id c) | DeliverVoIP \<Rightarrow> CallKey (dl_call_id c))"

definition holds_delivery :: "delivery_kind \<Rightarrow> delivery_claim \<Rightarrow> delivery_row \<Rightarrow> bool" where
  "holds_delivery kind c d \<longleftrightarrow> dv_key d = claim_key kind c \<and> dv_token_id d = tk_id (dl_token c) \<and> dv_job_id d = dl_job_id c \<and>
     dv_status d = DeliveryClaimed \<and> dv_claim_token d = dl_claim_token c \<and> dv_attempt d = dl_attempt c"

definition finalizeClaimedDelivery ::
  "delivery_kind \<Rightarrow> instant \<Rightarrow> delivery_update \<Rightarrow> push_tables \<Rightarrow> (push_error + unit) \<times> push_tables" where
  "finalizeClaimedDelivery kind clock u pt =
     (let c = holds_delivery kind (du_claim u);
          nextRetryAt = (case du_next_retry_at u of None \<Rightarrow> [] | Some t \<Rightarrow> FormatReliabilityTime t);
          pt1 = set_deliveries kind (sql_update c
            (\<lambda>d. d\<lparr>dv_status := du_status u, dv_claim_token := [], dv_lease_until := [], dv_next_retry_at := nextRetryAt,
                   dv_last_error := du_last_error u, dv_apns_id := du_apns_id u, dv_updated_at := FormatReliabilityTime clock\<rparr>)
            (deliveries kind pt)) pt
      in if sql_count c (deliveries kind pt) \<noteq> 1 then (Inl PushDeliveryFenced, pt1) else (Inr (), pt1))"

definition deactivateTokenTx :: "instant \<Rightarrow> int \<Rightarrow> push_tables \<Rightarrow> push_tables" where
  "deactivateTokenTx clock tokenID pt =
     pt\<lparr>pt_tokens := sql_update (\<lambda>t. tk_id t = tokenID)
          (\<lambda>t. t\<lparr>tk_is_active := False, tk_updated_at := FormatReliabilityTime clock\<rparr>) (pt_tokens pt)\<rparr>"

text \<open>The check at the start of the two functions.\<close>

definition valid_update :: "delivery_kind \<Rightarrow> delivery_update \<Rightarrow> bool" where
  "valid_update kind u =
     (let c = du_claim u in TrimSpace (dl_job_id c) \<noteq> [] \<and>
        (case kind of DeliverMessage \<Rightarrow> dl_message_id c \<noteq> 0 | DeliverVoIP \<Rightarrow> TrimSpace (dl_call_id c) \<noteq> []) \<and>
        0 < tk_id (dl_token c) \<and> 0 < dl_attempt c \<and> dl_claim_token c \<noteq> [])"

text \<open>\<^verbatim>\<open>FinalizeMessageDelivery\<close> and \<^verbatim>\<open>FinalizeVoIPDelivery\<close>.\<close>

definition FinalizeDelivery ::
  "push_codec \<Rightarrow> delivery_kind \<Rightarrow> instant \<Rightarrow> delivery_update \<Rightarrow> push_tables reliable_store \<Rightarrow>
   (push_error + unit) \<times> push_tables reliable_store" where
  "FinalizeDelivery codec kind clock u st =
     (if \<not> valid_update kind u then (Inl PushInvalidRequest, st)
      else transaction (\<lambda>s.
        case lockPushJob (dl_job_id (du_claim u)) (tables s) of
          Inl e \<Rightarrow> (Inl e, s)
        | Inr job \<Rightarrow>
            (case finalizeClaimedDelivery kind clock u (tables s) of
               (Inl e, pt1) \<Rightarrow> (Inl e, s\<lparr>tables := pt1\<rparr>)
             | (Inr _, pt1) \<Rightarrow>
                 (let pt2 = (if du_deactivate_token u then deactivateTokenTx clock (tk_id (dl_token (du_claim u))) pt1 else pt1)
                  in complete_locked codec kind clock job (s\<lparr>tables := pt2\<rparr>)))) st)"

section \<open>Cleaning up\<close>

record cleanup_config =
  cu_retention :: duration
  cu_replay_window :: duration
  cu_interval :: duration
  cu_batch_size :: int

abbreviation day :: duration where "day \<equiv> 24 * hour"

text \<open>\<^verbatim>\<open>LoadCleanupConfig\<close>, from the parsed environment (\<open>None\<close>: absent or malformed).\<close>

definition pushCleanupDuration :: "duration option \<Rightarrow> duration \<Rightarrow> duration" where
  "pushCleanupDuration parsed fallback = (case parsed of None \<Rightarrow> fallback | Some v \<Rightarrow> if v \<le> 0 then fallback else v)"

definition pushCleanupInt :: "int option \<Rightarrow> int \<Rightarrow> int" where
  "pushCleanupInt parsed fallback = (case parsed of None \<Rightarrow> fallback | Some v \<Rightarrow> v)"

definition LoadCleanupConfig :: "duration option \<Rightarrow> duration option \<Rightarrow> duration option \<Rightarrow> int option \<Rightarrow> cleanup_config" where
  "LoadCleanupConfig retention replayWindow interval batchSize =
     (let c0 = \<lparr>cu_retention = pushCleanupDuration retention (30 * day), cu_replay_window = pushCleanupDuration replayWindow (7 * day),
                cu_interval = pushCleanupDuration interval hour, cu_batch_size = pushCleanupInt batchSize 1000\<rparr>;
          c1 = (if cu_retention c0 \<le> cu_replay_window c0 then c0\<lparr>cu_retention := cu_replay_window c0 + day\<rparr> else c0);
          c2 = (if cu_interval c1 \<le> 0 then c1\<lparr>cu_interval := hour\<rparr> else c1)
      in if cu_batch_size c2 \<le> 0 \<or> cu_batch_size c2 > 10000 then c2\<lparr>cu_batch_size := 1000\<rparr> else c2)"

definition old_job :: "string \<Rightarrow> job_row \<Rightarrow> bool" where
  "old_job cutoff j \<longleftrightarrow> (jb_status j = PushJobCompleted \<or> jb_status j = ''failed'') \<and> jb_completed_at j < cutoff"

text \<open>The completion time of a delivery's job, when that job is old enough.\<close>

definition old_since :: "string \<Rightarrow> push_tables \<Rightarrow> delivery_row \<Rightarrow> string option" where
  "old_since cutoff pt d =
     map_option jb_completed_at (sql_first (\<lambda>j. jb_job_id j = dv_job_id d \<and> old_job cutoff j) (pt_jobs pt))"

definition cleanup_deliveries :: "delivery_kind \<Rightarrow> string \<Rightarrow> int \<Rightarrow> push_tables \<Rightarrow> nat \<times> push_tables" where
  "cleanup_deliveries kind cutoff batchSize pt =
     (let rows = deliveries kind pt;
          ids = map delivery_id (take (nat batchSize) (sql_order
            (\<lambda>d. (the (old_since cutoff pt d), key_message (dv_key d), key_call (dv_key d), dv_token_id d))
            (filter (\<lambda>d. old_since cutoff pt d \<noteq> None) rows)));
          c = (\<lambda>d. delivery_id d \<in> set ids)
      in (sql_count c rows, set_deliveries kind (sql_delete c rows) pt))"

definition cleanup_jobs :: "string \<Rightarrow> int \<Rightarrow> push_tables \<Rightarrow> nat \<times> push_tables" where
  "cleanup_jobs cutoff batchSize pt =
     (let used = dv_job_id ` (set (pt_message_deliveries pt) \<union> set (pt_voip_deliveries pt));
          ids = map jb_job_id (take (nat batchSize) (sql_order (\<lambda>j. (jb_completed_at j, jb_job_id j))
            (filter (\<lambda>j. old_job cutoff j \<and> jb_job_id j \<notin> used) (pt_jobs pt))));
          c = (\<lambda>j. jb_job_id j \<in> set ids)
      in (sql_count c (pt_jobs pt), pt\<lparr>pt_jobs := sql_delete c (pt_jobs pt)\<rparr>))"

definition CleanupCompletedDeliveries :: "cleanup_config \<Rightarrow> instant \<Rightarrow> push_tables \<Rightarrow> (nat \<times> nat \<times> nat) \<times> push_tables" where
  "CleanupCompletedDeliveries config now pt =
     (let cutoff = FormatReliabilityTime (now - cu_retention config) in
      case cleanup_deliveries DeliverMessage cutoff (cu_batch_size config) pt of
        (messageCount, pt1) \<Rightarrow>
          (case cleanup_deliveries DeliverVoIP cutoff (cu_batch_size config) pt1 of
             (calls, pt2) \<Rightarrow>
               (case cleanup_jobs cutoff (cu_batch_size config) pt2 of
                  (jobs, pt3) \<Rightarrow> ((messageCount, calls, jobs), pt3))))"

end
