(* ===== verification/Push_Worker.thy ===== *)
theory Push_Worker
  imports Push_Delivery AB_Evaluator Outbox_Relay
begin

text \<open>
  \<^verbatim>\<open>types.go\<close>, \<^verbatim>\<open>service.go\<close>, \<^verbatim>\<open>worker.go\<close>, \<^verbatim>\<open>store.go\<close> and the consumer of the push service: the preparation of a notification from
  a claim, the classification of APNs answers, the retries of a delivery, one turn of a delivery worker, and the
  processing of one Kafka message. APNs is a parameter, the function \<open>send\<close> of a notification; metrics are left out.
\<close>

section \<open>Notifications and APNs answers\<close>

datatype notification_kind = NotificationVoIP | NotificationMessage | NotificationRecall | NotificationBroadcast

text \<open>Without the fields that only broadcasts have.\<close>

record notification =
  nt_kind :: notification_kind
  nt_token :: string
  nt_environment :: int
  nt_call_id :: string
  nt_caller_user_id :: int
  nt_callee_user_id :: int
  nt_call_type :: string
  nt_expires_at :: instant
  nt_sender_user_id :: int
  nt_target_user_id :: int
  nt_conversation_id :: int
  nt_is_group :: bool
  nt_message_type :: string
  nt_message_id :: int
  nt_sent_at :: "instant option"
  nt_title :: string
  nt_body :: string
  nt_sender_name :: string
  nt_sender_avatar :: string
  nt_group_name :: string
  nt_avatar :: string
  nt_avatar_is_group :: bool
  nt_conversation_name :: string
  nt_conversation_avatar :: string

record apns_error =
  ap_status_code :: int
  ap_reason :: string
  ap_apns_id :: string

datatype push_send_error = APNSError apns_error | SendInvalidRequest | SendFailed string

definition InvalidatesToken :: "apns_error \<Rightarrow> bool" where
  "InvalidatesToken e \<longleftrightarrow> ap_status_code e = 410 \<or> ap_reason e = ''BadDeviceToken'' \<or> ap_reason e = ''DeviceTokenNotForTopic'' \<or>
     ap_reason e = ''Unregistered''"

definition Retryable :: "apns_error \<Rightarrow> bool" where
  "Retryable e \<longleftrightarrow> ap_status_code e = 429 \<or> ap_status_code e = 500 \<or> ap_status_code e = 503"

text \<open>\<^verbatim>\<open>Sender.Send\<close>: the identifier that APNs gave and the error, if any.\<close>

type_synonym sender = "notification \<Rightarrow> string \<times> push_send_error option"

definition UnavailableSender :: sender where
  "UnavailableSender n = ([], Some (SendFailed ''APNs sender unavailable''))"

section \<open>The service\<close>

record push_service =
  ps_bundle_id :: string
  ps_max_concurrency :: int
  ps_delivery_lease :: duration
  ps_worker_poll :: duration
  ps_send_timeout :: duration
  ps_max_attempts :: int
  ps_retry_initial :: duration
  ps_retry_max :: duration

text \<open>The settings as parsed from the environment; \<open>None\<close> is an absent or malformed value.\<close>

record push_environment =
  pn_max_concurrency :: "int option"
  pn_delivery_lease :: "duration option"
  pn_worker_poll :: "duration option"
  pn_send_timeout :: "duration option"
  pn_max_attempts :: "int option"
  pn_retry_initial :: "duration option"
  pn_retry_max :: "duration option"

definition envPositive :: "int option \<Rightarrow> int \<Rightarrow> int" where
  "envPositive parsed fallback = (case parsed of None \<Rightarrow> fallback | Some v \<Rightarrow> if v \<le> 0 then fallback else v)"

definition NewPushService :: "push_environment \<Rightarrow> string \<Rightarrow> push_service" where
  "NewPushService e bundleID =
     (let s0 = \<lparr>ps_bundle_id = TrimSpace bundleID, ps_max_concurrency = envPositive (pn_max_concurrency e) 16,
          ps_delivery_lease = envPositive (pn_delivery_lease e) (30 * second),
          ps_worker_poll = envPositive (pn_worker_poll e) (250 * millisecond),
          ps_send_timeout = envPositive (pn_send_timeout e) (10 * second),
          ps_max_attempts = envPositive (pn_max_attempts e) 10,
          ps_retry_initial = envPositive (pn_retry_initial e) second,
          ps_retry_max = envPositive (pn_retry_max e) (15 * minute)\<rparr>;
          s1 = (if ps_send_timeout s0 \<ge> ps_delivery_lease s0 then s0\<lparr>ps_send_timeout := ps_delivery_lease s0 div 2\<rparr> else s0)
      in if ps_retry_initial s1 > ps_retry_max s1 then s1\<lparr>ps_retry_initial := ps_retry_max s1\<rparr> else s1)"

definition push_Handle ::
  "push_codec \<Rightarrow> push_service \<Rightarrow> instant \<Rightarrow> string option \<Rightarrow> push_request option \<Rightarrow> push_tables reliable_store \<Rightarrow>
   (push_error inbox_error + inbox_execution) \<times> push_tables reliable_store" where
  "push_Handle codec service clock operationKey request st =
     (case operationKey of
        None \<Rightarrow> (Inl (ExecuteError PushInvalidRequest), st)
      | Some key \<Rightarrow>
          if TrimSpace key = [] then (Inl (ExecuteError PushInvalidRequest), st)
          else EnqueueRequest codec (ps_bundle_id service) clock key request st)"

definition defaultMessagePreview :: "string \<Rightarrow> string" where
  "defaultMessagePreview messageType =
     (let t = ToLower (TrimSpace messageType) in
      if t = ''image'' then NPreviewImage else if t = ''gif'' then NPreviewGif else if t = ''file'' then NPreviewFile
      else if t = ''audio'' then NPreviewAudio else if t = ''video'' then NPreviewVideo else NPreviewDefault)"

definition parseEnvironment :: "string \<Rightarrow> int" where
  "parseEnvironment environment = (if EqualFold environment ''production'' then PRODUCTION else SANDBOX)"

section \<open>What a notification shows\<close>

record message_presentation =
  pr_title :: string
  pr_sender_name :: string
  pr_sender_avatar :: string
  pr_group_name :: string
  pr_avatar :: string
  pr_avatar_is_group :: bool
  pr_conversation_name :: string
  pr_conversation_avatar :: string

definition NGroupChat :: string where
  "NGroupChat = utf8 [231, 190, 164, 232, 129, 138, 32]"

definition NColon :: string where
  "NColon = utf8 [239, 188, 154]"

definition MessagePresentation :: "int \<Rightarrow> int \<Rightarrow> bool \<Rightarrow> database \<Rightarrow> message_presentation" where
  "MessagePresentation senderUserID conversationID isGroup db =
     (let sender = sql_first (\<lambda>u. us_id u = senderUserID) (users db);
          name = (case sender of None \<Rightarrow> [] | Some u \<Rightarrow> TrimSpace (us_name u));
          avatar = (case sender of None \<Rightarrow> [] | Some u \<Rightarrow> us_avatar u);
          senderName = (if name = [] then NUserWord @ itoa senderUserID else name);
          p = \<lparr>pr_title = senderName, pr_sender_name = senderName, pr_sender_avatar = avatar, pr_group_name = [], pr_avatar = avatar,
               pr_avatar_is_group = False, pr_conversation_name = senderName, pr_conversation_avatar = avatar\<rparr>
      in if \<not> isGroup then p
         else
           (let group = sql_first (\<lambda>g. gr_group_id g = conversationID \<and> \<not> gr_is_delete g) (chat_groups db);
                gname = (case group of None \<Rightarrow> [] | Some g \<Rightarrow> TrimSpace (gr_name g));
                gavatar = (case group of None \<Rightarrow> [] | Some g \<Rightarrow> gr_avatar g);
                groupName = (if gname = [] then NGroupChat @ itoa conversationID else gname)
            in p\<lparr>pr_title := groupName, pr_group_name := groupName, pr_avatar := gavatar, pr_avatar_is_group := True,
                 pr_conversation_name := groupName, pr_conversation_avatar := gavatar\<rparr>))"

section \<open>Preparing claims\<close>

datatype prepare_error = PrepareDecode | PrepareNoToken | PrepareInvalid | PrepareExpired | PrepareDatabase

record prepared_delivery =
  pd_claim :: delivery_claim
  pd_notification :: "prepare_error + notification"
  pd_transient :: bool

definition failed_claim :: "delivery_claim \<Rightarrow> prepare_error \<Rightarrow> bool \<Rightarrow> prepared_delivery" where
  "failed_claim c e isTransient = \<lparr>pd_claim = c, pd_notification = Inl e, pd_transient = isTransient\<rparr>"

definition ready_claim :: "delivery_claim \<Rightarrow> notification \<Rightarrow> prepared_delivery" where
  "ready_claim c n = \<lparr>pd_claim = c, pd_notification = Inr n, pd_transient = False\<rparr>"

definition blank_notification :: "notification_kind \<Rightarrow> delivery_claim \<Rightarrow> instant \<Rightarrow> notification" where
  "blank_notification kind c expiresAt =
     \<lparr>nt_kind = kind, nt_token = tk_token (dl_token c), nt_environment = parseEnvironment (tk_environment (dl_token c)),
      nt_call_id = [], nt_caller_user_id = 0, nt_callee_user_id = 0, nt_call_type = [], nt_expires_at = expiresAt,
      nt_sender_user_id = 0, nt_target_user_id = 0, nt_conversation_id = 0, nt_is_group = False, nt_message_type = [],
      nt_message_id = 0, nt_sent_at = None, nt_title = [], nt_body = [], nt_sender_name = [], nt_sender_avatar = [],
      nt_group_name = [], nt_avatar = [], nt_avatar_is_group = False, nt_conversation_name = [], nt_conversation_avatar = []\<rparr>"

definition prepare_voip :: "instant \<Rightarrow> delivery_claim \<Rightarrow> push_request option \<Rightarrow> prepared_delivery" where
  "prepare_voip now c request =
     (case request of
        Some (PushVoIPCall call) \<Rightarrow>
          (case Parse (vq_expires_at call) of
             None \<Rightarrow> failed_claim c PrepareExpired False
           | Some expiresAt \<Rightarrow>
               if expiresAt \<le> now then failed_claim c PrepareExpired False
               else ready_claim c ((blank_notification NotificationVoIP c expiresAt)
                 \<lparr>nt_call_id := vq_call_id call, nt_caller_user_id := vq_caller_user_id call,
                  nt_callee_user_id := vq_callee_user_id call, nt_call_type := vq_call_type call\<rparr>))
      | _ \<Rightarrow> failed_claim c PrepareInvalid False)"

definition prepare_recall :: "delivery_claim \<Rightarrow> recall_push \<Rightarrow> prepared_delivery" where
  "prepare_recall c r =
     (case Parse (rp_recalled_at r) of
        None \<Rightarrow> failed_claim c PrepareInvalid False
      | Some recalledAt \<Rightarrow>
          ready_claim c ((blank_notification NotificationRecall c (recalledAt + 24 * hour))
            \<lparr>nt_target_user_id := tk_user_id (dl_token c), nt_conversation_id := rp_conversation_id r, nt_is_group := rp_is_group r,
             nt_message_id := rp_message_id r, nt_sender_user_id := rp_operator_user_id r, nt_sent_at := Some recalledAt\<rparr>))"

definition message_notification ::
  "instant \<Rightarrow> delivery_claim \<Rightarrow> message_push \<Rightarrow> message_presentation \<Rightarrow> notification" where
  "message_notification now c m p =
     (let sentAt = (case Parse (mp_sent_at m) of None \<Rightarrow> now | Some t \<Rightarrow> t);
          preview0 = TrimSpace (mp_preview m);
          preview = (if preview0 = [] then defaultMessagePreview (mp_message_type m) else preview0);
          body = (if mp_is_group m \<and> TrimSpace (pr_sender_name p) \<noteq> [] then pr_sender_name p @ NColon @ preview else preview)
      in (blank_notification NotificationMessage c (sentAt + 24 * hour))
        \<lparr>nt_sender_user_id := mp_sender_user_id m, nt_target_user_id := tk_user_id (dl_token c),
         nt_conversation_id := mp_conversation_id m, nt_is_group := mp_is_group m, nt_message_type := TrimSpace (mp_message_type m),
         nt_sent_at := Some sentAt, nt_message_id := mp_message_id m, nt_title := pr_title p, nt_body := body,
         nt_sender_name := pr_sender_name p, nt_sender_avatar := pr_sender_avatar p, nt_group_name := pr_group_name p,
         nt_avatar := pr_avatar p, nt_avatar_is_group := pr_avatar_is_group p, nt_conversation_name := pr_conversation_name p,
         nt_conversation_avatar := pr_conversation_avatar p\<rparr>)"

text \<open>The cache of one batch: what was loaded for a job; \<open>fault\<close> says for which jobs the database query fails.\<close>

type_synonym presentation_cache = "string \<rightharpoonup> prepare_error + message_push \<times> message_presentation"

definition load_message :: "(string \<Rightarrow> bool) \<Rightarrow> database \<Rightarrow> delivery_claim \<Rightarrow> push_request option \<Rightarrow> prepare_error + message_push \<times> message_presentation" where
  "load_message fault db c request =
     (case request of
        Some (PushMessage m) \<Rightarrow>
          if fault (dl_job_id c) then Inl PrepareDatabase
          else Inr (m, MessagePresentation (mp_sender_user_id m) (mp_conversation_id m) (mp_is_group m) db)
      | _ \<Rightarrow> Inl PrepareInvalid)"

definition prepare_message ::
  "(string \<Rightarrow> bool) \<Rightarrow> database \<Rightarrow> instant \<Rightarrow> delivery_claim \<Rightarrow> push_request option \<Rightarrow> presentation_cache \<Rightarrow>
   prepared_delivery \<times> presentation_cache" where
  "prepare_message fault db now c request cache =
     (let cached = (case cache (dl_job_id c) of None \<Rightarrow> load_message fault db c request | Some v \<Rightarrow> v) in
      (case cached of
         Inl e \<Rightarrow> failed_claim c e True
       | Inr (m, p) \<Rightarrow> ready_claim c (message_notification now c m p),
       cache(dl_job_id c \<mapsto> cached)))"

definition prepare_claim ::
  "push_codec \<Rightarrow> (string \<Rightarrow> bool) \<Rightarrow> database \<Rightarrow> instant \<Rightarrow> delivery_kind \<Rightarrow> delivery_claim \<Rightarrow> presentation_cache \<Rightarrow>
   prepared_delivery \<times> presentation_cache" where
  "prepare_claim codec fault db now kind c cache =
     (case pc_unmarshal_request codec (dl_request_payload c) of
        None \<Rightarrow> (failed_claim c PrepareDecode False, cache)
      | Some request \<Rightarrow>
          if tk_token (dl_token c) = [] \<or> \<not> tk_is_active (dl_token c) then (failed_claim c PrepareNoToken False, cache)
          else if kind = DeliverVoIP then (prepare_voip now c request, cache)
          else (case request of
                  Some (PushRecall r) \<Rightarrow> (prepare_recall c r, cache)
                | _ \<Rightarrow> prepare_message fault db now c request cache))"

fun prepare_all ::
  "push_codec \<Rightarrow> (string \<Rightarrow> bool) \<Rightarrow> database \<Rightarrow> instant \<Rightarrow> delivery_kind \<Rightarrow> delivery_claim list \<Rightarrow> presentation_cache \<Rightarrow>
   prepared_delivery list" where
  "prepare_all codec fault db now kind [] cache = []"
| "prepare_all codec fault db now kind (c # cs) cache =
     (case prepare_claim codec fault db now kind c cache of
        (p, cache') \<Rightarrow> p # prepare_all codec fault db now kind cs cache')"

definition prepareDeliveries ::
  "push_codec \<Rightarrow> (string \<Rightarrow> bool) \<Rightarrow> database \<Rightarrow> instant \<Rightarrow> delivery_kind \<Rightarrow> delivery_claim list \<Rightarrow> prepared_delivery list" where
  "prepareDeliveries codec fault db now kind claims = prepare_all codec fault db now kind claims Map.empty"

section \<open>Sending and recording\<close>

text \<open>
  \<^verbatim>\<open>retryDelay\<close>: the product with the power of two is exact up to the conversion, as for the outbox relay; the product
  with the jitter of 0.8 to 1.2 is the exact one, rounded down, where the code rounds in floating point.
\<close>

definition retryDelay :: "push_service \<Rightarrow> delivery_claim \<Rightarrow> duration" where
  "retryDelay s c =
     (let exponent = (if dl_attempt c - 1 < 0 then 0 else dl_attempt c - 1);
          delay0 = int64_of_float (ps_retry_initial s * 2 ^ nat exponent);
          delay = (if delay0 \<le> 0 \<or> delay0 > ps_retry_max s then ps_retry_max s else delay0);
          h = fnv32a (dl_job_id c @ '':'' @ itoa (tk_id (dl_token c)) @ '':'' @ itoa (dl_attempt c))
      in delay * (800 + int (unat h mod 401)) div 1000)"

definition new_update :: "delivery_claim \<Rightarrow> delivery_update" where
  "new_update c = \<lparr>du_claim = c, du_status = [], du_next_retry_at = None, du_last_error = [], du_apns_id = [], du_deactivate_token = False\<rparr>"

definition retryableDeliveryUpdate :: "push_service \<Rightarrow> instant \<Rightarrow> delivery_update \<Rightarrow> delivery_update" where
  "retryableDeliveryUpdate s now u =
     (if ps_max_attempts s \<le> dl_attempt (du_claim u) then u\<lparr>du_status := DeliveryFailed\<rparr>
      else u\<lparr>du_status := DeliveryRetryable, du_next_retry_at := Some (now + retryDelay s (du_claim u))\<rparr>)"

definition sanitizedPushError :: "push_send_error option \<Rightarrow> string" where
  "sanitizedPushError err =
     (case err of
        Some (APNSError e) \<Rightarrow> take 255 (''apns_status='' @ itoa (ap_status_code e) @ '' reason='' @ ap_reason e)
      | _ \<Rightarrow> ''network_or_sender_error'')"

definition sendDurableDelivery :: "push_service \<Rightarrow> sender \<Rightarrow> instant \<Rightarrow> prepared_delivery \<Rightarrow> delivery_update" where
  "sendDurableDelivery s send now item =
     (let u = new_update (pd_claim item) in
      case pd_notification item of
        Inl _ \<Rightarrow>
          (let u1 = u\<lparr>du_last_error := sanitizedPushError None\<rparr> in
           if pd_transient item then retryableDeliveryUpdate s now u1 else u1\<lparr>du_status := DeliveryPermanent\<rparr>)
      | Inr n \<Rightarrow>
          (case send n of
             (apnsID, None) \<Rightarrow> u\<lparr>du_apns_id := apnsID, du_status := DeliverySent\<rparr>
           | (apnsID, Some sendErr) \<Rightarrow>
               (let u1 = u\<lparr>du_apns_id := apnsID, du_last_error := sanitizedPushError (Some sendErr)\<rparr> in
                case sendErr of
                  APNSError e \<Rightarrow>
                    if InvalidatesToken e
                    then u1\<lparr>du_status := DeliveryPermanent, du_deactivate_token := True, du_apns_id := ap_apns_id e\<rparr>
                    else if \<not> Retryable e then u1\<lparr>du_status := DeliveryPermanent\<rparr>
                    else retryableDeliveryUpdate s now u1
                | SendInvalidRequest \<Rightarrow> u1\<lparr>du_status := DeliveryPermanent\<rparr>
                | SendFailed _ \<Rightarrow> retryableDeliveryUpdate s now u1)))"

text \<open>
  The goroutines of \<^verbatim>\<open>processDurableBatch\<close> share only the database, where each commits one transaction: the list has the
  items in the order of those transactions. A fenced result is ignored; the result is the first other error.
\<close>

fun processDurableBatch ::
  "push_codec \<Rightarrow> push_service \<Rightarrow> sender \<Rightarrow> instant \<Rightarrow> delivery_kind \<Rightarrow> prepared_delivery list \<Rightarrow> push_tables reliable_store \<Rightarrow>
   push_error option \<times> push_tables reliable_store" where
  "processDurableBatch codec s send now kind [] st = (None, st)"
| "processDurableBatch codec s send now kind (item # items) st =
     (case FinalizeDelivery codec kind now (sendDurableDelivery s send now item) st of
        (r, st1) \<Rightarrow>
          (case processDurableBatch codec s send now kind items st1 of
             (e, st2) \<Rightarrow> (case r of Inl err \<Rightarrow> if err = PushDeliveryFenced then (e, st2) else (Some err, st2) | Inr _ \<Rightarrow> (e, st2))))"

text \<open>One turn of \<^verbatim>\<open>runDeliveryLoop\<close>: the number of claims; \<open>order\<close> is the order in which the batch's results are recorded.\<close>

definition delivery_turn ::
  "push_codec \<Rightarrow> push_service \<Rightarrow> sender \<Rightarrow> instant \<Rightarrow> delivery_kind \<Rightarrow> string option \<Rightarrow> (push_key \<times> int \<Rightarrow> bool) \<Rightarrow>
   (string \<Rightarrow> bool) \<Rightarrow> (prepared_delivery list \<Rightarrow> prepared_delivery list) \<Rightarrow> push_tables reliable_store \<Rightarrow>
   (push_error option \<times> nat) \<times> push_tables reliable_store" where
  "delivery_turn codec s send now kind newClaimToken locked fault order st =
     (case claimDeliveryBatch codec kind (ps_max_concurrency s) now (ps_delivery_lease s) (ps_max_attempts s) newClaimToken locked st of
        (Inl e, st1) \<Rightarrow> ((Some e, 0), st1)
      | (Inr claims, st1) \<Rightarrow>
          if claims = [] then ((None, 0), st1)
          else (case processDurableBatch codec s send now kind
                       (order (prepareDeliveries codec fault (pt_db (tables st1)) now kind claims)) st1 of
                  (e, st2) \<Rightarrow> ((e, length claims), st2)))"

section \<open>Consuming requests\<close>

text \<open>\<^verbatim>\<open>process\<close> of the consumer, for a configured service; \<open>text\<close> is the text of an error, and the detail of a decoding error is left out.\<close>

definition process_push ::
  "(bytes \<Rightarrow> string + string \<times> bytes) \<Rightarrow> (push_error inbox_error \<Rightarrow> string) \<Rightarrow> push_codec \<Rightarrow> push_service \<Rightarrow> instant \<Rightarrow> string \<Rightarrow>
   kafka_message \<Rightarrow> push_tables reliable_store \<Rightarrow> consumer_result \<times> push_tables reliable_store" where
  "process_push decodeEnvelope text codec service clock operationKey message st =
     (case decodeEnvelope (km_value message) of
        Inl e \<Rightarrow> (Permanent (Some (plain_error (''decode push envelope: '' @ e))), st)
      | Inr (ty, payload) \<Rightarrow>
          if ty \<noteq> ''PUSH_REQUEST'' then (Permanent (Some (plain_error (''unexpected push envelope type: '' @ ty))), st)
          else if payload = [] then (Permanent (Some (plain_error ''empty push request payload'')), st)
          else (case pc_unmarshal_request codec payload of
                  None \<Rightarrow> (Permanent (Some (plain_error ''decode push request'')), st)
                | Some None \<Rightarrow> (Permanent (Some (plain_error ''push request has no payload'')), st)
                | Some (Some request) \<Rightarrow>
                    (case push_Handle codec service clock (Some operationKey) (Some request) st of
                       (Inr _, st1) \<Rightarrow> (Success, st1)
                     | (Inl e, st1) \<Rightarrow>
                         (if e = ExecuteError PushInvalidRequest then Permanent (Some (plain_error (text e)))
                          else Transient (Some (plain_error (text e))), st1))))"

end
