(* ===== verification/Push_Laws.thy ===== *)
theory Push_Laws
  imports Push_Worker
begin

text \<open>
  The push service as a transition system: requests are enqueued, deliveries claimed and finalised in any order while
  other services change the shared database and the relay works on the outbox. The results of calls, the number of
  attempts and the silence after a recall are invariants of it.
\<close>

section \<open>Tables\<close>

lemma deliveries_simps [simp]:
  "deliveries kind (set_deliveries kind rows pt) = rows"
  "pt_jobs (set_deliveries kind rows pt) = pt_jobs pt" "pt_tokens (set_deliveries kind rows pt) = pt_tokens pt"
  "pt_db (set_deliveries kind rows pt) = pt_db pt"
  "pt_message_deliveries (set_deliveries DeliverVoIP rows pt) = pt_message_deliveries pt"
  "pt_message_deliveries (set_deliveries DeliverMessage rows pt) = rows"
  "pt_voip_deliveries (set_deliveries DeliverMessage rows pt) = pt_voip_deliveries pt"
  "pt_voip_deliveries (set_deliveries DeliverVoIP rows pt) = rows"
  "deliveries DeliverMessage pt = pt_message_deliveries pt" "deliveries DeliverVoIP pt = pt_voip_deliveries pt"
  by (cases kind; simp add: deliveries_def set_deliveries_def)+

lemma deliveries_other: "k \<noteq> kind \<Longrightarrow> deliveries k (set_deliveries kind rows pt) = deliveries k pt"
  by (cases k; cases kind; simp)

lemma complete_jobs_simps [simp]:
  "pt_message_deliveries (complete_jobs c now pt) = pt_message_deliveries pt"
  "pt_voip_deliveries (complete_jobs c now pt) = pt_voip_deliveries pt"
  "deliveries kind (complete_jobs c now pt) = deliveries kind pt"
  "pt_tokens (complete_jobs c now pt) = pt_tokens pt" "pt_db (complete_jobs c now pt) = pt_db pt"
  by (cases kind; simp add: complete_jobs_def)+

definition completed_job :: "string \<Rightarrow> job_row \<Rightarrow> job_row" where
  "completed_job now j = j\<lparr>jb_status := PushJobCompleted, jb_completed_at := now, jb_updated_at := now\<rparr>"

lemma pt_jobs_complete_jobs: "pt_jobs (complete_jobs c now pt) = sql_update c (completed_job now) (pt_jobs pt)"
  by (simp add: complete_jobs_def completed_job_def [abs_def])

lemma completed_job_simps [simp]:
  "jb_job_id (completed_job now j) = jb_job_id j" "jb_kind (completed_job now j) = jb_kind j"
  "jb_status (completed_job now j) = PushJobCompleted"
  "jb_job_id (if b then completed_job now j else j) = jb_job_id j" "jb_kind (if b then completed_job now j else j) = jb_kind j"
  by (simp_all add: completed_job_def)

lemma create_job_SomeD:
  "create_job job pt = Some pt' \<Longrightarrow> pt' = pt\<lparr>pt_jobs := pt_jobs pt @ [job]\<rparr> \<and> jb_job_id job \<notin> jb_job_id ` set (pt_jobs pt)"
  by (auto simp: create_job_def split: if_splits)

lemma new_job_simps [simp]:
  "jb_job_id (new_job jobID key kind payload now) = jobID" "jb_kind (new_job jobID key kind payload now) = kind"
  "jb_status (new_job jobID key kind payload now) = PushJobPending"
  by (simp_all add: new_job_def)

lemma new_delivery_simps [simp]:
  "dv_key (new_delivery key jobID now t) = key" "dv_token_id (new_delivery key jobID now t) = t"
  "dv_job_id (new_delivery key jobID now t) = jobID" "dv_attempt (new_delivery key jobID now t) = 0"
  "dv_status (new_delivery key jobID now t) = DeliveryPending" "outstanding (new_delivery key jobID now t)"
  by (simp_all add: new_delivery_def outstanding_def)

lemma set_fan_out:
  "set (snd (fan_out key jobID now ts rows)) =
     set rows \<union> new_delivery key jobID now ` {t \<in> set ts. (key, t) \<notin> delivery_id ` set rows}"
  by (auto simp: fan_out_def Let_def)

lemma fan_out_count: "fst (fan_out key jobID now ts rows) = 0 \<longleftrightarrow> (\<forall>t\<in>set ts. (key, t) \<in> delivery_id ` set rows)"
  by (auto simp: fan_out_def Let_def filter_empty_conv)

lemma job_unique: "distinct (map jb_job_id jobs) \<Longrightarrow> i \<in> set jobs \<Longrightarrow> j \<in> set jobs \<Longrightarrow> jb_job_id i = jb_job_id j \<Longrightarrow> i = j"
  by (auto simp: distinct_map dest: inj_onD)

lemma transaction_cases:
  obtains "snd (transaction body s) = s" | a where "body s = (Inr a, snd (transaction body s))"
  by (cases "body s"; cases "fst (body s)") (auto simp: transaction_def)

text \<open>An execution through the inbox changes nothing, or commits one run of the handler.\<close>

lemma ExecuteInboxOutbox_cases:
  fixes execute :: "('s, 'e) executor"
  assumes "inbox_inv st"
  obtains "snd (ExecuteInboxOutbox clock service key execute st) = st"
    | response events business rows s k now inbox where
        "execute (tables st) = (Inr (response, events), business)"
        "rows = outbox_events st @ map (new_outbox_row s k now) events"
        "inbox_inv (snd (ExecuteInboxOutbox clock service key execute st))"
        "snd (ExecuteInboxOutbox clock service key execute st) =
           \<lparr>tables = business, consumer_inbox = inbox, outbox_events = rows\<rparr>"
proof (cases "TrimSpace service = [] \<or> TrimSpace key = []")
  case True
  then show thesis by (intro that(1)) (auto simp: ExecuteInboxOutbox_def)
next
  case False
  then have ne: "TrimSpace service \<noteq> []" "TrimSpace key \<noteq> []" by auto
  note inv = inbox_inv_execute [OF assms, of clock service key execute]
  show thesis
  proof (cases "find_inbox (TrimSpace service) (TrimSpace key) st")
    case (Some i)
    then show thesis by (intro that(1)) (simp add: ExecuteInboxOutbox_replay_found [OF assms _ ne])
  next
    case None
    note f = ExecuteInboxOutbox_fresh [OF assms None ne, of clock execute, unfolded Let_def]
    obtain r business where x: "execute (tables st) = (r, business)" by fastforce
    show thesis
    proof (cases r)
      case (Inl e)
      with f x show thesis by (intro that(1)) simp
    next
      case (Inr re)
      obtain response events where re: "re = (response, events)" by fastforce
      show thesis
      proof (cases "persist_events (TrimSpace service) (TrimSpace key) (FormatReliabilityTime clock) events (outbox_events st) ::
          'e inbox_error + outbox_row list")
        case (Inl e)
        with f x Inr re show thesis by (intro that(1)) simp
      next
        case (Inr rows)
        with persist_events_Inr [OF this] f x \<open>r = Inr re\<close> re inv show thesis by (intro that(2)) simp_all
      qed
    qed
  qed
qed

section \<open>The invariant of calls\<close>

text \<open>
  A call's job that is open has a device still to be tried and no result in the outbox; a completed one has no such
  device and its result in the outbox. In the middle of a transaction the first half may fail for the jobs of a set.
\<close>

definition job_open :: "string \<Rightarrow> delivery_row list \<Rightarrow> bool" where
  "job_open jobID rows \<longleftrightarrow> (\<exists>d\<in>set rows. outstanding_of jobID d)"

definition event_ids :: "push_tables reliable_store \<Rightarrow> string set" where
  "event_ids st = ob_event_id ` set (outbox_events st)"

definition voip_state :: "string set \<Rightarrow> push_tables reliable_store \<Rightarrow> job_row \<Rightarrow> bool" where
  "voip_state S st j \<longleftrightarrow>
     (let i = jb_job_id j; open = job_open i (pt_voip_deliveries (tables st)); announced = voip_event_id i \<in> event_ids st in
      jb_status j = PushJobPending \<and> \<not> announced \<and> (i \<in> S \<or> open) \<or> jb_status j = PushJobCompleted \<and> announced \<and> \<not> open)"

definition voip_inv_except :: "string set \<Rightarrow> push_tables reliable_store \<Rightarrow> bool" where
  "voip_inv_except S st \<longleftrightarrow> inbox_inv st \<and> distinct (map jb_job_id (pt_jobs (tables st))) \<and>
     (\<forall>j\<in>set (pt_jobs (tables st)). jb_job_id j \<noteq> []) \<and>
     (\<forall>i. voip_event_id i \<in> event_ids st \<longrightarrow> i \<in> jb_job_id ` set (pt_jobs (tables st))) \<and>
     (\<forall>d\<in>set (pt_message_deliveries (tables st)). \<exists>j\<in>set (pt_jobs (tables st)). jb_job_id j = dv_job_id d \<and> jb_kind j \<noteq> ''voip'') \<and>
     (\<forall>d\<in>set (pt_voip_deliveries (tables st)). \<exists>j\<in>set (pt_jobs (tables st)). jb_job_id j = dv_job_id d \<and> jb_kind j = ''voip'') \<and>
     (\<forall>j\<in>set (pt_jobs (tables st)). jb_kind j = ''voip'' \<longrightarrow> voip_state S st j)"

definition voip_inv :: "push_tables reliable_store \<Rightarrow> bool" where
  "voip_inv st = voip_inv_except {} st"

lemma voip_inv_exceptD:
  assumes "voip_inv_except S st"
  shows "inbox_inv st" "distinct (map jb_job_id (pt_jobs (tables st)))"
    "\<And>d. d \<in> set (pt_message_deliveries (tables st)) \<Longrightarrow> \<exists>j\<in>set (pt_jobs (tables st)). jb_job_id j = dv_job_id d \<and> jb_kind j \<noteq> ''voip''"
    "\<And>d. d \<in> set (pt_voip_deliveries (tables st)) \<Longrightarrow> \<exists>j\<in>set (pt_jobs (tables st)). jb_job_id j = dv_job_id d \<and> jb_kind j = ''voip''"
    "\<And>j. j \<in> set (pt_jobs (tables st)) \<Longrightarrow> jb_kind j = ''voip'' \<Longrightarrow> voip_state S st j"
    "\<And>j. j \<in> set (pt_jobs (tables st)) \<Longrightarrow> jb_job_id j \<noteq> []"
    "\<And>i. voip_event_id i \<in> event_ids st \<Longrightarrow> i \<in> jb_job_id ` set (pt_jobs (tables st))"
  using assms by (simp_all add: voip_inv_except_def)

lemma inbox_inv_tables [simp]: "inbox_inv (st\<lparr>tables := pt\<rparr>) = inbox_inv st"
  by (simp add: inbox_inv_def)

lemma event_ids_tables [simp]: "event_ids (st\<lparr>tables := pt\<rparr>) = event_ids st"
  by (simp add: event_ids_def)

lemma voip_inv_except_mono: "voip_inv_except S st \<Longrightarrow> S \<subseteq> T \<Longrightarrow> voip_inv_except T st"
  by (fastforce simp: voip_inv_except_def voip_state_def Let_def)

lemma same_job: "dv_job_id ` set rows' \<subseteq> dv_job_id ` set rows \<Longrightarrow> d \<in> set rows' \<Longrightarrow> \<exists>e\<in>set rows. dv_job_id e = dv_job_id d"
  by (metis imageE image_eqI subsetD)

text \<open>Changes of the deliveries of one kind that keep the jobs.\<close>

lemma voip_inv_message_rows:
  assumes "voip_inv_except S st" "pt_jobs pt = pt_jobs (tables st)" "pt_voip_deliveries pt = pt_voip_deliveries (tables st)"
    "dv_job_id ` set (pt_message_deliveries pt) \<subseteq> dv_job_id ` set (pt_message_deliveries (tables st))"
  shows "voip_inv_except S (st\<lparr>tables := pt\<rparr>)"
proof -
  have "\<exists>j\<in>set (pt_jobs (tables st)). jb_job_id j = dv_job_id d \<and> jb_kind j \<noteq> ''voip''"
    if "d \<in> set (pt_message_deliveries pt)" for d
    using same_job [OF assms(4) that] voip_inv_exceptD(3) [OF assms(1)] by metis
  with assms(1-3) show ?thesis by (simp add: voip_inv_except_def voip_state_def)
qed

lemma voip_inv_voip_rows:
  assumes inv: "voip_inv_except S st" and pt: "pt_jobs pt = pt_jobs (tables st)" "pt_message_deliveries pt = pt_message_deliveries (tables st)"
    and sub: "dv_job_id ` set (pt_voip_deliveries pt) \<subseteq> dv_job_id ` set (pt_voip_deliveries (tables st))"
    and shut: "\<And>i. job_open i (pt_voip_deliveries pt) \<Longrightarrow> job_open i (pt_voip_deliveries (tables st))"
    and open_or: "\<And>i. job_open i (pt_voip_deliveries (tables st)) \<Longrightarrow> job_open i (pt_voip_deliveries pt) \<or> i \<in> T"
  shows "voip_inv_except (S \<union> T) (st\<lparr>tables := pt\<rparr>)"
proof -
  have "\<exists>j\<in>set (pt_jobs (tables st)). jb_job_id j = dv_job_id d \<and> jb_kind j = ''voip''" if "d \<in> set (pt_voip_deliveries pt)" for d
    using same_job [OF sub that] voip_inv_exceptD(4) [OF inv] by metis
  moreover have "voip_state (S \<union> T) (st\<lparr>tables := pt\<rparr>) j" if "voip_state S st j" for j
    using that shut [of "jb_job_id j"] open_or [of "jb_job_id j"] by (auto simp: voip_state_def Let_def)
  ultimately show ?thesis using inv pt by (simp add: voip_inv_except_def)
qed

text \<open>Completing jobs of other kinds.\<close>

lemma voip_inv_complete_other:
  assumes inv: "voip_inv_except S st" and other: "\<And>j. j \<in> set (pt_jobs (tables st)) \<Longrightarrow> c j \<Longrightarrow> jb_kind j \<noteq> ''voip''"
  shows "voip_inv_except S (st\<lparr>tables := complete_jobs c now (tables st)\<rparr>)"
proof -
  let ?f = "\<lambda>j. if c j then completed_job now j else j"
  have "voip_state S (st\<lparr>tables := complete_jobs c now (tables st)\<rparr>) (?f j)"
    if "j \<in> set (pt_jobs (tables st))" "jb_kind (?f j) = ''voip''" for j
    using voip_inv_exceptD(5) [OF inv that(1)] that other [OF that(1)] by (auto simp: voip_state_def split: if_splits)
  moreover have ids: "map jb_job_id (sql_update c (completed_job now) jobs) = map jb_job_id jobs" for jobs
    by (rule map_key_sql_update) simp
  moreover have "jb_job_id ` set (sql_update c (completed_job now) jobs) = jb_job_id ` set jobs" for jobs
    using ids [of jobs] by (metis set_map)
  moreover have "(\<exists>j\<in>set (sql_update c (completed_job now) jobs). jb_job_id j = i \<and> P (jb_kind j)) \<longleftrightarrow>
      (\<exists>j\<in>set jobs. jb_job_id j = i \<and> P (jb_kind j))" for jobs i P
    unfolding bex_sql_update by (rule bex_cong) simp_all
  note this [of _ _ "\<lambda>k. k \<noteq> ''voip''"] this [of _ _ "\<lambda>k. k = ''voip''"]
  ultimately show ?thesis using inv by (simp add: voip_inv_except_def pt_jobs_complete_jobs ball_sql_update)
qed

lemma pending_job_other:
  assumes "voip_inv_except S st" "j \<in> set (pt_jobs (tables st))" "jb_kind j \<noteq> ''voip''" "i \<in> set (pt_jobs (tables st))"
    "pending_job (jb_job_id j) i"
  shows "jb_kind i \<noteq> ''voip''"
  using job_unique [OF voip_inv_exceptD(2) [OF assms(1)] assms(4,2)] assms(3,5) by (simp add: pending_job_def)

section \<open>Completing jobs keeps it\<close>

lemma voip_event_id_inj [simp]: "voip_event_id a = voip_event_id b \<longleftrightarrow> a = b"
  by (simp add: voip_event_id_def)

lemma new_outbox_row_id [simp]: "ob_event_id (new_outbox_row service key now e) = pe_event_id e"
  by (simp add: new_outbox_row_def)

lemma job_open_count: "0 < sql_count (outstanding_of i) rows \<longleftrightarrow> job_open i rows"
  by (simp add: sql_count_pos_iff job_open_def)

lemma insert_outbox_fresh: "ob_event_id row \<notin> ob_event_id ` set rows \<Longrightarrow> insert_outbox row rows = rows @ [row]"
  by (simp add: insert_outbox_def sql_create_fresh)

text \<open>The jobs as far as completion keeps them.\<close>

definition job_kinds :: "push_tables \<Rightarrow> (string \<times> string) list" where
  "job_kinds pt = map (\<lambda>j. (jb_job_id j, jb_kind j)) (pt_jobs pt)"

lemma job_kinds_complete [simp]: "job_kinds (complete_jobs c now pt) = job_kinds pt"
  unfolding job_kinds_def pt_jobs_complete_jobs by (rule map_key_sql_update) simp

lemma complete_locked_frame:
  assumes "complete_locked codec kind clock job st = (r, st')"
  shows "job_kinds (tables st') = job_kinds (tables st)" "deliveries k (tables st') = deliveries k (tables st)"
    "pt_tokens (tables st') = pt_tokens (tables st)" "pt_db (tables st') = pt_db (tables st)"
  using assms
  by (auto simp: complete_locked_def completeMessageJobIfTerminalLocked_def completeVoIPJobIfTerminalLocked_def Let_def
      split: delivery_kind.splits if_splits option.splits push_request.splits)

text \<open>The announcement of a result completes exactly its job.\<close>

lemma voip_inv_announce:
  assumes inv: "voip_inv_except S st" and job: "job \<in> set (pt_jobs (tables st))" "jb_kind job = ''voip''"
    and pending: "jb_status job = PushJobPending" and closed: "\<not> job_open (jb_job_id job) (pt_voip_deliveries (tables st))"
    and row: "ob_event_id row = voip_event_id (jb_job_id job)"
  shows "voip_inv_except (S - {jb_job_id job})
    (st\<lparr>outbox_events := insert_outbox row (outbox_events st), tables := complete_jobs (pending_job (jb_job_id job)) now (tables st)\<rparr>)"
    (is "voip_inv_except ?S ?st")
proof -
  let ?c = "pending_job (jb_job_id job)"
  note u = job_unique [OF voip_inv_exceptD(2) [OF inv] _ job(1)]
  have fresh: "voip_event_id (jb_job_id job) \<notin> event_ids st"
    using voip_inv_exceptD(5) [OF inv job] pending by (auto simp: voip_state_def Let_def)
  then have rows: "insert_outbox row (outbox_events st) = outbox_events st @ [row]"
    using row by (simp add: insert_outbox_fresh event_ids_def)
  then have ids: "event_ids ?st = insert (voip_event_id (jb_job_id job)) (event_ids st)" using row by (simp add: event_ids_def)
  have state: "voip_state ?S ?st (if ?c j then completed_job now j else j)"
    if j: "j \<in> set (pt_jobs (tables st))" "jb_kind (if ?c j then completed_job now j else j) = ''voip''" for j
  proof (cases "j = job")
    case True
    then show ?thesis using closed pending ids by (simp add: voip_state_def Let_def pending_job_def)
  next
    case False
    then have "jb_job_id j \<noteq> jb_job_id job" using u [OF j(1)] by auto
    with voip_inv_exceptD(5) [OF inv j(1)] j(2) ids show ?thesis by (auto simp: voip_state_def Let_def pending_job_def split: if_splits)
  qed
  have "inbox_inv ?st" using voip_inv_exceptD(1) [OF inv] fresh rows row by (auto simp: inbox_inv_def event_ids_def)
  moreover have keys: "map jb_job_id (sql_update ?c (completed_job now) jobs) = map jb_job_id jobs" for jobs
    by (rule map_key_sql_update) simp
  moreover have "jb_job_id ` set (sql_update ?c (completed_job now) jobs) = jb_job_id ` set jobs" for jobs
    using keys [of jobs] by (metis set_map)
  moreover have "(\<exists>j\<in>set (sql_update ?c (completed_job now) jobs). jb_job_id j = i \<and> P (jb_kind j)) \<longleftrightarrow>
      (\<exists>j\<in>set jobs. jb_job_id j = i \<and> P (jb_kind j))" for jobs i P
    unfolding bex_sql_update by (rule bex_cong) simp_all
  note this [of _ _ "\<lambda>k. k \<noteq> ''voip''"] this [of _ _ "\<lambda>k. k = ''voip''"]
  ultimately show ?thesis using inv state ids job(1) by (simp add: voip_inv_except_def pt_jobs_complete_jobs ball_sql_update)
qed

lemma voip_inv_settled:
  assumes inv: "voip_inv_except S st" and job: "job \<in> set (pt_jobs (tables st))"
    and ok: "jb_status job = PushJobCompleted \<or> job_open (jb_job_id job) (pt_voip_deliveries (tables st))"
  shows "voip_inv_except (S - {jb_job_id job}) st"
proof -
  have "voip_state (S - {jb_job_id job}) st j" if "j \<in> set (pt_jobs (tables st))" "voip_state S st j" for j
    using job_unique [OF voip_inv_exceptD(2) [OF inv] that(1) job] that(2) ok by (auto simp: voip_state_def Let_def)
  with inv show ?thesis by (simp add: voip_inv_except_def)
qed

definition still_due :: "delivery_kind \<Rightarrow> string set \<Rightarrow> string set \<Rightarrow> string set" where
  "still_due kind S T = (case kind of DeliverMessage \<Rightarrow> S | DeliverVoIP \<Rightarrow> S - T)"

lemma complete_locked_inv:
  assumes inv: "voip_inv_except S st" and job: "job \<in> set (pt_jobs (tables st))" "jb_kind job = ''voip'' \<longleftrightarrow> kind = DeliverVoIP"
    and run: "complete_locked codec kind clock job st = (Inr u, st')"
  shows "voip_inv_except (still_due kind S {jb_job_id job}) st'"
proof (cases kind)
  case DeliverMessage
  with run job inv pending_job_other [OF inv job(1)] show ?thesis
    by (auto simp: complete_locked_def completeMessageJobIfTerminalLocked_def still_due_def voip_inv_complete_other split: if_splits)
next
  case DeliverVoIP
  with run have c: "completeVoIPJobIfTerminalLocked codec clock job st = (Inr u, st')" by (simp add: complete_locked_def)
  show ?thesis
  proof (cases "jb_status job = PushJobCompleted \<or> job_open (jb_job_id job) (pt_voip_deliveries (tables st))")
    case True
    with c have "st' = st" by (auto simp: completeVoIPJobIfTerminalLocked_def job_open_count split: if_splits)
    with voip_inv_settled [OF inv job(1) True] DeliverVoIP show ?thesis by (simp add: still_due_def)
  next
    case False
    with c obtain row now where st': "st' = st\<lparr>outbox_events := insert_outbox row (outbox_events st),
        tables := complete_jobs (pending_job (jb_job_id job)) now (tables st)\<rparr>" "ob_event_id row = voip_event_id (jb_job_id job)"
      by (auto simp: completeVoIPJobIfTerminalLocked_def job_open_count Let_def split: if_splits option.splits push_request.splits)
    have "jb_status job = PushJobPending"
      using voip_inv_exceptD(5) [OF inv job(1)] job(2) DeliverVoIP False by (auto simp: voip_state_def Let_def)
    with voip_inv_announce [OF inv job(1) _ this _ st'(2)] job(2) DeliverVoIP False st'(1) show ?thesis
      by (simp add: still_due_def)
  qed
qed

lemma lockPushJob_Inr: "lockPushJob i pt = Inr job \<Longrightarrow> job \<in> set (pt_jobs pt) \<and> jb_job_id job = i"
  by (auto simp: lockPushJob_def split: option.splits dest: sql_first_SomeD)

lemma job_kinds_iff: "(i, k) \<in> set (job_kinds pt) \<longleftrightarrow> (\<exists>j\<in>set (pt_jobs pt). jb_job_id j = i \<and> jb_kind j = k)"
  by (auto simp: job_kinds_def)

lemma kind_of_job:
  "voip_inv_except S st \<Longrightarrow> (i, k) \<in> set (job_kinds (tables st)) \<Longrightarrow> j \<in> set (pt_jobs (tables st)) \<Longrightarrow> jb_job_id j = i \<Longrightarrow> jb_kind j = k"
  using job_unique [OF voip_inv_exceptD(2)] by (auto simp: job_kinds_iff)

lemma complete_exhausted_inv:
  assumes "voip_inv_except S st" "complete_exhausted codec kind clock ids st = (Inr u, st')"
    "\<And>i. i \<in> set ids \<Longrightarrow> \<exists>k. (i, k) \<in> set (job_kinds (tables st)) \<and> (k = ''voip'' \<longleftrightarrow> kind = DeliverVoIP)"
  shows "voip_inv_except (still_due kind S (set ids)) st' \<and> job_kinds (tables st') = job_kinds (tables st) \<and>
    (\<forall>k. deliveries k (tables st') = deliveries k (tables st)) \<and> pt_tokens (tables st') = pt_tokens (tables st) \<and>
    pt_db (tables st') = pt_db (tables st)"
  using assms
proof (induction ids arbitrary: S st)
  case Nil
  then show ?case by (cases kind) (simp_all add: still_due_def)
next
  case (Cons i ids)
  obtain st1 where c: "complete_if_terminal codec kind clock i st = (Inr (), st1)"
    and rest: "complete_exhausted codec kind clock ids st1 = (Inr u, st')"
    using Cons.prems(2) by (auto split: prod.splits sum.splits)
  then obtain job where j: "lockPushJob i (tables st) = Inr job" and l: "complete_locked codec kind clock job st = (Inr (), st1)"
    by (auto simp: complete_if_terminal_def split: sum.splits)
  note job = lockPushJob_Inr [OF j]
  obtain k where "(i, k) \<in> set (job_kinds (tables st))" "k = ''voip'' \<longleftrightarrow> kind = DeliverVoIP" using Cons.prems(3) [of i] by auto
  with kind_of_job [OF Cons.prems(1)] job have "jb_kind job = ''voip'' \<longleftrightarrow> kind = DeliverVoIP" by blast
  note inv = complete_locked_inv [OF Cons.prems(1) conjunct1 [OF job] this l] and fr = complete_locked_frame [OF l]
  have "\<exists>k. (x, k) \<in> set (job_kinds (tables st1)) \<and> (k = ''voip'' \<longleftrightarrow> kind = DeliverVoIP)" if "x \<in> set ids" for x
    using Cons.prems(3) [of x] that fr(1) by simp
  note IH = Cons.IH [OF inv rest this]
  have "still_due kind (still_due kind S {i}) (set ids) = still_due kind S (set (i # ids))"
    by (cases kind) (auto simp: still_due_def)
  with IH fr job show ?case by simp
qed

section \<open>The rows of the delivery tables\<close>

text \<open>The primary keys, and attempts that stay within the limit.\<close>

definition rows_ok :: "int \<Rightarrow> delivery_row list \<Rightarrow> bool" where
  "rows_ok maxAttempts rows \<longleftrightarrow> distinct (map delivery_id rows) \<and> (\<forall>d\<in>set rows. 0 \<le> dv_attempt d \<and> dv_attempt d \<le> maxAttempts)"

definition rows_inv :: "int \<Rightarrow> push_tables \<Rightarrow> bool" where
  "rows_inv maxAttempts pt \<longleftrightarrow> rows_ok maxAttempts (pt_message_deliveries pt) \<and> rows_ok maxAttempts (pt_voip_deliveries pt)"

lemma rows_inv_deliveries: "rows_inv M pt \<Longrightarrow> rows_ok M (deliveries kind pt)"
  by (cases kind) (simp_all add: rows_inv_def)

lemma rows_inv_set: "rows_inv M pt \<Longrightarrow> rows_ok M rows \<Longrightarrow> rows_inv M (set_deliveries kind rows pt)"
  by (cases kind) (simp_all add: rows_inv_def)

lemma rows_inv_complete [simp]: "rows_inv M (complete_jobs c now pt) = rows_inv M pt"
  by (simp add: rows_inv_def)

lemma rows_inv_cong:
  "(\<And>k. deliveries k pt' = deliveries k pt) \<Longrightarrow> rows_inv M pt' = rows_inv M pt"
  by (metis deliveries_simps(9,10) rows_inv_def)

lemma rows_ok_unique: "rows_ok M rows \<Longrightarrow> d \<in> set rows \<Longrightarrow> e \<in> set rows \<Longrightarrow> delivery_id d = delivery_id e \<Longrightarrow> d = e"
  by (auto simp: rows_ok_def distinct_map dest: inj_onD)

lemma rows_ok_update:
  assumes "rows_ok M rows" "\<And>d. delivery_id (f d) = delivery_id d"
    "\<And>d. d \<in> set rows \<Longrightarrow> c d \<Longrightarrow> 0 \<le> dv_attempt (f d) \<and> dv_attempt (f d) \<le> M"
  shows "rows_ok M (sql_update c f rows)"
  using assms map_key_sql_update [of delivery_id f c rows] by (auto simp: rows_ok_def ball_sql_update)

lemma rows_ok_fan_out: "rows_ok M rows \<Longrightarrow> 0 \<le> M \<Longrightarrow> rows_ok M (snd (fan_out key jobID now ts rows))"
  by (auto simp: rows_ok_def fan_out_def Let_def delivery_id_def [of "new_delivery _ _ _ _"] distinct_map inj_on_def)

lemma rows_ok_delete: "rows_ok M rows \<Longrightarrow> rows_ok M (sql_delete c rows)"
  by (auto simp: rows_ok_def sql_delete_def distinct_map inj_on_def)

lemma rows_ok_fan_out_again: "rows_ok M rows \<Longrightarrow> 0 \<le> M \<Longrightarrow> rows_ok M (snd (fan_out_again key jobID now ts rows))"
  unfolding fan_out_again_def Let_def snd_conv
  by (intro rows_ok_fan_out) (auto simp: rows_ok_def ball_sql_update sql_update_def delivery_id_def o_def distinct_map
      inj_on_def split: if_splits)

section \<open>Claiming keeps the invariants\<close>

lemma job_open_update:
  assumes "\<And>d. d \<in> set rows \<Longrightarrow> c d \<Longrightarrow> outstanding d \<and> outstanding (f d) \<and> dv_job_id (f d) = dv_job_id d"
  shows "job_open i (sql_update c f rows) \<longleftrightarrow> job_open i rows"
  using assms unfolding job_open_def bex_sql_update by (intro bex_cong) (auto simp: outstanding_of_def)

lemma job_ids_update: "(\<And>d. dv_job_id (f d) = dv_job_id d) \<Longrightarrow> dv_job_id ` set (sql_update c f rows) = dv_job_id ` set rows"
  using map_key_sql_update [of dv_job_id f c rows] by (metis set_map)

lemma claim_candidatesD:
  assumes "x \<in> set (claim_candidates M now locked limit pt rows)"
  shows "\<exists>d\<in>set rows. delivery_id d = x \<and> claimable M now pt d \<and> \<not> locked x"
  using assms by (auto simp: claim_candidates_def dest!: in_set_takeD)

lemma candidate_claimable:
  assumes "rows_ok N rows" "d \<in> set rows" "delivery_id d \<in> set (claim_candidates M now locked limit pt rows)"
  shows "claimable M now pt d"
proof -
  obtain e where "e \<in> set rows" "delivery_id e = delivery_id d" "claimable M now pt e" using claim_candidatesD [OF assms(3)] by auto
  with rows_ok_unique [OF assms(1) this(1) assms(2)] show ?thesis by simp
qed

lemma claimable_outstanding: "claimable M now pt d \<Longrightarrow> outstanding d"
  by (auto simp: claimable_def outstanding_def)

lemma claim_row_simps [simp]:
  "delivery_id (claim_row t l now d) = delivery_id d" "dv_job_id (claim_row t l now d) = dv_job_id d"
  "dv_key (claim_row t l now d) = dv_key d" "dv_token_id (claim_row t l now d) = dv_token_id d"
  "dv_attempt (claim_row t l now d) = dv_attempt d + 1" "outstanding (claim_row t l now d)"
  "dv_status (claim_row t l now d) = DeliveryClaimed" "dv_claim_token (claim_row t l now d) = t"
  by (simp_all add: claim_row_def delivery_id_def outstanding_def)

definition expired_row :: "string \<Rightarrow> delivery_row \<Rightarrow> delivery_row" where
  "expired_row now d = d\<lparr>dv_status := DeliveryFailed, dv_claim_token := [], dv_lease_until := [], dv_next_retry_at := [],
     dv_last_error := ''delivery_attempts_exhausted'', dv_updated_at := now\<rparr>"

lemma expired_row_simps [simp]:
  "delivery_id (expired_row now d) = delivery_id d" "dv_job_id (expired_row now d) = dv_job_id d"
  "dv_key (expired_row now d) = dv_key d" "dv_attempt (expired_row now d) = dv_attempt d"
  "\<not> outstanding (expired_row now d)" "dv_status (expired_row now d) = DeliveryFailed"
  by (simp_all add: expired_row_def delivery_id_def outstanding_def)

lemma expire_rows:
  "snd (expireExhaustedDeliveries kind now M pt) = set_deliveries kind (sql_update (exhausted M now) (expired_row now) (deliveries kind pt)) pt"
  by (simp add: expireExhaustedDeliveries_def Let_def expired_row_def [abs_def])

lemma set_expired_jobs:
  "set (fst (expireExhaustedDeliveries kind now M pt)) = {i. i \<noteq> [] \<and> (\<exists>d\<in>set (deliveries kind pt). exhausted M now d \<and> dv_job_id d = i)}"
  by (auto simp: expireExhaustedDeliveries_def Let_def)

lemma claimDeliveryBatch_cases:
  assumes M: "0 < M"
  obtains e where "claimDeliveryBatch codec kind limit clock lease M newClaimToken locked st = (Inl e, st)"
    | token now ids pt1 st2 l claims pt3 leaseUntil where "newClaimToken = Some token"
        "expireExhaustedDeliveries kind now M (tables st) = (ids, pt1)"
        "complete_exhausted codec kind clock ids (st\<lparr>tables := pt1\<rparr>) = (Inr (), st2)"
        "claim_rows kind M now locked l token leaseUntil (tables st2) = (claims, pt3)"
        "claimDeliveryBatch codec kind limit clock lease M newClaimToken locked st = (Inr claims, st2\<lparr>tables := pt3\<rparr>)"
proof (cases newClaimToken)
  case None
  then show thesis by (intro that(1)) (simp add: claimDeliveryBatch_def)
next
  case (Some token)
  let ?now = "FormatReliabilityTime clock"
  obtain ids pt1 where e: "expireExhaustedDeliveries kind ?now M (tables st) = (ids, pt1)" by fastforce
  obtain r st2 where c: "complete_exhausted codec kind clock ids (st\<lparr>tables := pt1\<rparr>) = (r, st2)" by fastforce
  show thesis
  proof (cases r)
    case (Inl x)
    with Some e c M show thesis by (intro that(1)) (simp add: claimDeliveryBatch_def transaction_def Let_def)
  next
    case (Inr u)
    let ?l = "if limit \<le> 0 \<or> limit > 1000 then 256 else limit"
    obtain claims pt3 where k: "claim_rows kind M ?now locked ?l token (FormatReliabilityTime (clock + lease)) (tables st2) = (claims, pt3)"
      by fastforce
    have "claimDeliveryBatch codec kind limit clock lease M newClaimToken locked st = (Inr claims, st2\<lparr>tables := pt3\<rparr>)"
      using Some e c k Inr M by (simp add: claimDeliveryBatch_def transaction_def Let_def)
    with Some e c k Inr show thesis by (intro that(2)) simp_all
  qed
qed

lemma claim_rows_inv:
  assumes inv: "voip_inv_except S st" and rows: "rows_inv M (tables st)"
    and claim: "claim_rows kind M now locked l t leaseUntil (tables st) = (claims, pt)"
  shows "voip_inv_except S (st\<lparr>tables := pt\<rparr>)" "rows_inv M pt"
proof -
  let ?ids = "claim_candidates M now locked l (tables st) (deliveries kind (tables st))"
  let ?rows = "sql_update (\<lambda>d. delivery_id d \<in> set ?ids) (claim_row t leaseUntil now) (deliveries kind (tables st))"
  have pt: "pt = set_deliveries kind ?rows (tables st)" using claim by (auto simp: claim_rows_def Let_def)
  note ok = rows_inv_deliveries [OF rows, of kind]
  note cl = candidate_claimable [OF ok, of _ M now locked l "tables st"]
  have "job_open i ?rows \<longleftrightarrow> job_open i (deliveries kind (tables st))" for i
    using claimable_outstanding [OF cl] by (intro job_open_update) simp
  moreover have "dv_job_id ` set ?rows = dv_job_id ` set (deliveries kind (tables st))" by (rule job_ids_update) simp
  ultimately show "voip_inv_except S (st\<lparr>tables := pt\<rparr>)"
    using voip_inv_voip_rows [OF inv, of pt "{}"] voip_inv_message_rows [OF inv, of pt] by (cases kind) (simp_all add: pt)
  have "0 \<le> dv_attempt d + 1 \<and> dv_attempt d + 1 \<le> M" if "d \<in> set (deliveries kind (tables st))" "delivery_id d \<in> set ?ids" for d
    using cl [OF that] ok that(1) by (simp add: claimable_def rows_ok_def)
  then have "rows_ok M ?rows" by (intro rows_ok_update [OF ok]) simp_all
  then show "rows_inv M pt" unfolding pt by (rule rows_inv_set [OF rows])
qed

lemma expire_inv:
  assumes inv: "voip_inv st" and rows: "rows_inv M (tables st)"
    and e: "expireExhaustedDeliveries kind now M (tables st) = (ids, pt)"
  shows "voip_inv_except (still_due kind {} {} \<union> (if kind = DeliverVoIP then set ids else {})) (st\<lparr>tables := pt\<rparr>)" "rows_inv M pt"
    "\<And>i. i \<in> set ids \<Longrightarrow> \<exists>k. (i, k) \<in> set (job_kinds pt) \<and> (k = ''voip'' \<longleftrightarrow> kind = DeliverVoIP)"
proof -
  note inv' = inv [unfolded voip_inv_def]
  let ?rows = "sql_update (exhausted M now) (expired_row now) (deliveries kind (tables st))"
  have pt: "pt = set_deliveries kind ?rows (tables st)" and ids: "set ids = {i. i \<noteq> [] \<and> (\<exists>d\<in>set (deliveries kind (tables st)). exhausted M now d \<and> dv_job_id d = i)}"
    using expire_rows [of kind now M "tables st"] set_expired_jobs [of kind now M "tables st"] e by simp_all
  have same: "dv_job_id ` set ?rows = dv_job_id ` set (deliveries kind (tables st))" by (rule job_ids_update) simp
  have shut: "job_open i (deliveries kind (tables st))" if "job_open i ?rows" for i
    using that unfolding job_open_def bex_sql_update by (force simp: outstanding_of_def split: if_splits)
  have kinds: "\<exists>j\<in>set (pt_jobs (tables st)). jb_job_id j = dv_job_id d \<and> (jb_kind j = ''voip'' \<longleftrightarrow> kind = DeliverVoIP)"
    if "d \<in> set (deliveries kind (tables st))" for d
    using that voip_inv_exceptD(3,4) [OF inv'] by (cases kind) simp_all
  have "job_open i ?rows \<or> i \<in> set ids" if is_open: "job_open i (deliveries kind (tables st))" for i
  proof -
    obtain d where d: "d \<in> set (deliveries kind (tables st))" "dv_job_id d = i" "outstanding d"
      using is_open by (auto simp: job_open_def outstanding_of_def)
    moreover have "i \<noteq> []" using kinds [OF d(1)] voip_inv_exceptD(6) [OF inv'] d(2) by metis
    ultimately show ?thesis using ids unfolding job_open_def bex_sql_update by (cases "exhausted M now d") (auto simp: outstanding_of_def)
  qed
  then show "voip_inv_except (still_due kind {} {} \<union> (if kind = DeliverVoIP then set ids else {})) (st\<lparr>tables := pt\<rparr>)"
    using voip_inv_voip_rows [OF inv', of pt "set ids"] voip_inv_message_rows [OF inv', of pt] same shut
    by (cases kind) (simp_all add: pt still_due_def)
  have "rows_ok M ?rows" using rows_inv_deliveries [OF rows, of kind] by (intro rows_ok_update) (auto simp: rows_ok_def)
  then show "rows_inv M pt" unfolding pt by (rule rows_inv_set [OF rows])
  show "\<exists>k. (i, k) \<in> set (job_kinds pt) \<and> (k = ''voip'' \<longleftrightarrow> kind = DeliverVoIP)" if "i \<in> set ids" for i
    using that kinds unfolding ids by (force simp: job_kinds_def pt)
qed

theorem claim_keeps_inv:
  assumes inv: "voip_inv st" and rows: "rows_inv M (tables st)" and M: "0 < M"
  shows "voip_inv (snd (claimDeliveryBatch codec kind limit clock lease M newClaimToken locked st)) \<and>
    rows_inv M (tables (snd (claimDeliveryBatch codec kind limit clock lease M newClaimToken locked st)))"
proof (rule claimDeliveryBatch_cases [OF M, of codec kind limit clock lease newClaimToken locked st])
  fix e
  assume "claimDeliveryBatch codec kind limit clock lease M newClaimToken locked st = (Inl e, st)"
  with inv rows show ?thesis by simp
next
  fix token now ids pt1 st2 l claims pt3 leaseUntil
  assume e: "expireExhaustedDeliveries kind now M (tables st) = (ids, pt1)"
    and c: "complete_exhausted codec kind clock ids (st\<lparr>tables := pt1\<rparr>) = (Inr (), st2)"
    and k: "claim_rows kind M now locked l token leaseUntil (tables st2) = (claims, pt3)"
    and r: "claimDeliveryBatch codec kind limit clock lease M newClaimToken locked st = (Inr claims, st2\<lparr>tables := pt3\<rparr>)"
  note x = expire_inv [OF inv rows e]
  have y: "voip_inv st2 \<and> (\<forall>k. deliveries k (tables st2) = deliveries k pt1)"
    using complete_exhausted_inv [OF x(1) c] x(3) by (cases kind) (simp_all add: still_due_def voip_inv_def)
  then have "rows_inv M (tables st2)" using x(2) by (metis rows_inv_cong)
  with y claim_rows_inv [OF _ this k, of "{}" ] r show ?thesis by (simp add: voip_inv_def)
qed

section \<open>Recording a result keeps them\<close>

definition settled_row :: "instant \<Rightarrow> delivery_update \<Rightarrow> delivery_row \<Rightarrow> delivery_row" where
  "settled_row clock u d = d\<lparr>dv_status := du_status u, dv_claim_token := [], dv_lease_until := [],
     dv_next_retry_at := (case du_next_retry_at u of None \<Rightarrow> [] | Some t \<Rightarrow> FormatReliabilityTime t),
     dv_last_error := du_last_error u, dv_apns_id := du_apns_id u, dv_updated_at := FormatReliabilityTime clock\<rparr>"

lemma settled_row_simps [simp]:
  "delivery_id (settled_row clock u d) = delivery_id d" "dv_job_id (settled_row clock u d) = dv_job_id d"
  "dv_attempt (settled_row clock u d) = dv_attempt d" "dv_status (settled_row clock u d) = du_status u"
  "dv_key (settled_row clock u d) = dv_key d" "dv_claim_token (settled_row clock u d) = []"
  by (simp_all add: settled_row_def delivery_id_def)

lemma finalizeClaimedDelivery_Inr:
  assumes "finalizeClaimedDelivery kind clock u pt = (Inr x, pt')"
  shows "pt' = set_deliveries kind (sql_update (holds_delivery kind (du_claim u)) (settled_row clock u) (deliveries kind pt)) pt"
    "\<exists>d\<in>set (deliveries kind pt). holds_delivery kind (du_claim u) d"
proof -
  let ?c = "holds_delivery kind (du_claim u)"
  have "sql_count ?c (deliveries kind pt) = 1" "pt' = set_deliveries kind (sql_update ?c (settled_row clock u) (deliveries kind pt)) pt"
    using assms unfolding finalizeClaimedDelivery_def Let_def settled_row_def [abs_def] by (simp_all split: if_splits)
  then show "pt' = set_deliveries kind (sql_update ?c (settled_row clock u) (deliveries kind pt)) pt" "\<exists>d\<in>set (deliveries kind pt). ?c d"
    using sql_count_pos_iff [of ?c "deliveries kind pt"] by simp_all
qed

lemma deactivate_simps [simp]:
  "pt_jobs (deactivateTokenTx clock t pt) = pt_jobs pt" "pt_message_deliveries (deactivateTokenTx clock t pt) = pt_message_deliveries pt"
  "pt_voip_deliveries (deactivateTokenTx clock t pt) = pt_voip_deliveries pt" "pt_db (deactivateTokenTx clock t pt) = pt_db pt"
  by (simp_all add: deactivateTokenTx_def)

lemma FinalizeDelivery_cases:
  obtains e where "FinalizeDelivery codec kind clock u st = (Inl e, st)"
    | job pt1 pt2 st' where "valid_update kind u" "lockPushJob (dl_job_id (du_claim u)) (tables st) = Inr job"
        "finalizeClaimedDelivery kind clock u (tables st) = (Inr (), pt1)"
        "pt2 = (if du_deactivate_token u then deactivateTokenTx clock (tk_id (dl_token (du_claim u))) pt1 else pt1)"
        "complete_locked codec kind clock job (st\<lparr>tables := pt2\<rparr>) = (Inr (), st')" "FinalizeDelivery codec kind clock u st = (Inr (), st')"
proof (cases "fst (FinalizeDelivery codec kind clock u st)")
  case (Inl e)
  then have "FinalizeDelivery codec kind clock u st = (Inl e, st)"
    by (auto simp: FinalizeDelivery_def transaction_def split: prod.splits sum.splits)
  then show thesis by (rule that(1))
next
  case (Inr x)
  define st' where "st' = snd (FinalizeDelivery codec kind clock u st)"
  have r: "FinalizeDelivery codec kind clock u st = (Inr (), st')" using Inr by (cases "FinalizeDelivery codec kind clock u st") (simp add: st'_def)
  then have v: "valid_update kind u" by (simp add: FinalizeDelivery_def split: if_splits)
  then obtain job where j: "lockPushJob (dl_job_id (du_claim u)) (tables st) = Inr job"
    using r by (auto simp: FinalizeDelivery_def transaction_Inr split: sum.splits)
  obtain pt1 where f: "finalizeClaimedDelivery kind clock u (tables st) = (Inr (), pt1)"
    using r v j by (auto simp: FinalizeDelivery_def transaction_Inr split: sum.splits prod.splits)
  show thesis using r v j f by (intro that(2) [OF v j f refl _ r]) (simp add: FinalizeDelivery_def transaction_Inr Let_def)
qed

text \<open>Without the claim, nothing is recorded.\<close>

lemma FinalizeDelivery_fenced:
  assumes "valid_update kind u" "\<And>d. d \<in> set (deliveries kind (tables st)) \<Longrightarrow> \<not> holds_delivery kind (du_claim u) d"
  shows "FinalizeDelivery codec kind clock u st = (Inl PushDeliveryFenced, st)"
proof -
  have "sql_count (holds_delivery kind (du_claim u)) (deliveries kind (tables st)) = 0" using assms(2) by simp
  then have "\<exists>pt. finalizeClaimedDelivery kind clock u (tables st) = (Inl PushDeliveryFenced, pt)"
    by (simp del: sql_count_0_iff add: finalizeClaimedDelivery_def Let_def)
  then show ?thesis using assms(1)
    by (auto simp: FinalizeDelivery_def transaction_def lockPushJob_def split: option.splits)
qed

theorem finalize_keeps_inv:
  assumes inv: "voip_inv st" and rows: "rows_inv M (tables st)"
  shows "voip_inv (snd (FinalizeDelivery codec kind clock u st)) \<and> rows_inv M (tables (snd (FinalizeDelivery codec kind clock u st)))"
proof (rule FinalizeDelivery_cases [of codec kind clock u st])
  fix e
  assume "FinalizeDelivery codec kind clock u st = (Inl e, st)"
  with inv rows show ?thesis by simp
next
  fix job pt1 pt2 st'
  assume j: "lockPushJob (dl_job_id (du_claim u)) (tables st) = Inr job"
    and f: "finalizeClaimedDelivery kind clock u (tables st) = (Inr (), pt1)"
    and pt2: "pt2 = (if du_deactivate_token u then deactivateTokenTx clock (tk_id (dl_token (du_claim u))) pt1 else pt1)"
    and l: "complete_locked codec kind clock job (st\<lparr>tables := pt2\<rparr>) = (Inr (), st')"
    and r: "FinalizeDelivery codec kind clock u st = (Inr (), st')"
  note inv' = inv [unfolded voip_inv_def] and job = lockPushJob_Inr [OF j]
  let ?c = "holds_delivery kind (du_claim u)"
  let ?rows = "sql_update ?c (settled_row clock u) (deliveries kind (tables st))"
  have pt1: "pt1 = set_deliveries kind ?rows (tables st)" by (rule finalizeClaimedDelivery_Inr(1) [OF f])
  obtain d where d: "d \<in> set (deliveries kind (tables st))" "?c d" using finalizeClaimedDelivery_Inr(2) [OF f] by auto
  have dv: "deliveries k pt2 = deliveries k pt1" "pt_jobs pt2 = pt_jobs (tables st)" for k by (cases k; simp add: pt2 pt1)+
  have k: "jb_kind job = ''voip'' \<longleftrightarrow> kind = DeliverVoIP"
  proof -
    obtain i where "i \<in> set (pt_jobs (tables st))" "jb_job_id i = dv_job_id d" "jb_kind i = ''voip'' \<longleftrightarrow> kind = DeliverVoIP"
      using d(1) voip_inv_exceptD(3,4) [OF inv'] by (cases kind) (simp_all, blast+)
    with job job_unique [OF voip_inv_exceptD(2) [OF inv']] d(2) show ?thesis by (metis holds_delivery_def)
  qed
  have held: "outstanding d \<and> dv_job_id d = jb_job_id job" if "?c d" for d
    using that job by (simp add: holds_delivery_def outstanding_def)
  have same: "dv_job_id ` set ?rows = dv_job_id ` set (deliveries kind (tables st))" by (rule job_ids_update) simp
  have shut: "job_open i (deliveries kind (tables st))" if "job_open i ?rows" for i
    using that held unfolding job_open_def bex_sql_update by (force simp: outstanding_of_def split: if_splits)
  have op: "job_open i ?rows \<or> i \<in> {jb_job_id job}" if "job_open i (deliveries kind (tables st))" for i
    using that held unfolding job_open_def bex_sql_update by (force simp: outstanding_of_def)
  have "voip_inv_except (if kind = DeliverVoIP then {jb_job_id job} else {}) (st\<lparr>tables := pt2\<rparr>)"
    using voip_inv_voip_rows [OF inv', of pt2 "{jb_job_id job}"] voip_inv_message_rows [OF inv', of pt2] same shut op dv(2) dv(1) [of DeliverMessage]
      dv(1) [of DeliverVoIP] by (cases kind) (simp_all add: pt1)
  from complete_locked_inv [OF this _ k l] job dv(2) have "voip_inv st'"
    by (cases kind) (simp_all add: still_due_def voip_inv_def)
  moreover have "rows_ok M ?rows" using rows_inv_deliveries [OF rows, of kind] by (intro rows_ok_update) (auto simp: rows_ok_def)
  then have "rows_inv M pt1" unfolding pt1 by (rule rows_inv_set [OF rows])
  then have "rows_inv M (tables st')" using complete_locked_frame(2) [OF l] dv(1) by (metis reliable_store.select_convs(1) reliable_store.surjective reliable_store.update_convs(1) rows_inv_cong)
  ultimately show ?thesis using r by simp
qed

end
