(* ===== verification/Push_Guarantees.thy ===== *)
theory Push_Guarantees
  imports Push_Laws
begin

text \<open>
  Enqueueing keeps the invariants of the push service; with claiming and recording they hold in every reachable
  state: each call has exactly one result, attempts are bounded, and recalled messages stay silent.
\<close>

section \<open>Enqueueing keeps the invariants\<close>

lemma voip_inv_store:
  assumes "voip_inv_except S (st\<lparr>tables := tables st'\<rparr>)" "inbox_inv st'"
    "\<And>i. voip_event_id i \<in> event_ids st' \<longleftrightarrow> voip_event_id i \<in> event_ids st"
  shows "voip_inv_except S st'"
  using assms by (simp add: voip_inv_except_def voip_state_def)

lemma voip_inv_new_job:
  assumes inv: "voip_inv_except S st" and c: "create_job job (tables st) = Some pt" and other: "jb_kind job \<noteq> ''voip''" "jb_job_id job \<noteq> []"
  shows "voip_inv_except S (st\<lparr>tables := pt\<rparr>)"
  using inv create_job_SomeD [OF c] other by (auto simp: voip_inv_except_def voip_state_def)

text \<open>New deliveries of a job that is no call.\<close>

lemma voip_inv_new_rows:
  assumes inv: "voip_inv_except S st" and job: "job \<in> set (pt_jobs (tables st))" "jb_kind job \<noteq> ''voip''"
    and rows: "dv_job_id ` set rows \<subseteq> insert (jb_job_id job) (dv_job_id ` set (pt_message_deliveries (tables st)))"
  shows "voip_inv_except S (st\<lparr>tables := (tables st)\<lparr>pt_message_deliveries := rows\<rparr>\<rparr>)"
proof -
  have "\<exists>j\<in>set (pt_jobs (tables st)). jb_job_id j = dv_job_id d \<and> jb_kind j \<noteq> ''voip''" if d: "d \<in> set rows" for d
  proof (cases "dv_job_id d = jb_job_id job")
    case False
    then obtain e where "e \<in> set (pt_message_deliveries (tables st))" "dv_job_id e = dv_job_id d" using rows d by auto
    with voip_inv_exceptD(3) [OF inv] show ?thesis by metis
  qed (use job in auto)
  with inv show ?thesis by (simp add: voip_inv_except_def voip_state_def)
qed

lemma client_command_frame:
  "client_command_event bundleID now userID payload pt = (event, pt') \<Longrightarrow>
   pt_jobs pt' = pt_jobs pt \<and> pt_message_deliveries pt' = pt_message_deliveries pt \<and> pt_voip_deliveries pt' = pt_voip_deliveries pt \<and>
   pt_db pt' = pt_db pt"
  by (auto simp: client_command_event_def persistRegisterToken_def persistUnregisterToken_def registerTokenWithDB_def Let_def
      split: push_client_payload.splits if_splits option.splits)

lemma voip_not_client: "voip_event_id i \<noteq> ''push:'' @ j @ '':client-response''"
proof
  assume "voip_event_id i = ''push:'' @ j @ '':client-response''"
  then have "last (voip_event_id i) = last (''push:'' @ j @ '':client-response'')" by simp
  then show False by (simp add: voip_event_id_def)
qed

lemma stablePushJobID_nonempty [simp]: "stablePushJobID codec key \<noteq> []" "stableMessageRecallJobID i \<noteq> []"
  by (simp_all add: stablePushJobID_def stableMessageRecallJobID_def)

lemma persistClientCommand_Inr:
  assumes "persistClientCommand codec bundleID now key topic userID request pt = (Inr (response, events), pt')"
  shows "pt_jobs pt' = pt_jobs pt \<and> pt_message_deliveries pt' = pt_message_deliveries pt \<and> pt_voip_deliveries pt' = pt_voip_deliveries pt \<and>
    pt_db pt' = pt_db pt \<and> (\<exists>j. map pe_event_id events = [''push:'' @ j @ '':client-response''])"
proof -
  obtain payload where r: "request = Some payload" using assms by (auto simp: persistClientCommand_def split: option.splits)
  obtain event pt1 where e: "client_command_event bundleID now userID payload pt = (event, pt1)" by fastforce
  show ?thesis using assms client_command_frame [OF e] unfolding persistClientCommand_def r option.case e prod.case
    by (auto split: option.splits if_splits)
qed

lemma create_message_job_Inr:
  assumes "create_message_job codec now key m payload pt = (Inr (response, events), pt')"
  obtains pt1 ts rows where "events = []" "create_job (new_job (stablePushJobID codec key) key ''message'' payload now) pt = Some pt1"
    "rows = snd (fan_out (MessageKey (mp_message_id m)) (stablePushJobID codec key) now ts (pt_message_deliveries pt1))"
    "pt' = pt1\<lparr>pt_message_deliveries := rows\<rparr> \<or>
     pt' = complete_jobs (\<lambda>j. jb_job_id j = stablePushJobID codec key) now (pt1\<lparr>pt_message_deliveries := rows\<rparr>)"
proof (cases "create_job (new_job (stablePushJobID codec key) key ''message'' payload now) pt")
  case (Some pt1)
  let ?ts = "map tk_id (filter (wants_message (mp_sender_user_id m) (mp_is_group m) (pt_db pt1))
     (active_tokens (uniquePushTargets (mp_target_user_ids m) (mp_sender_user_id m)) PushTypeAPNs pt1))"
  show thesis
    using assms Some
    by (intro that [of pt1 "snd (fan_out (MessageKey (mp_message_id m)) (stablePushJobID codec key) now ?ts (pt_message_deliveries pt1))" ?ts])
       (auto simp: create_message_job_def Let_def split: prod.splits if_splits)
qed (use assms in \<open>simp add: create_message_job_def Let_def\<close>)

lemma persistMessageJob_Inr:
  assumes "persistMessageJob codec clock key m pt = (Inr (response, events), pt')"
  shows "events = [] \<and> pt' = pt \<or> (\<exists>row payload now. lockMessageForPush (mp_message_id m) pt = Some row \<and> \<not> ms_is_recalled row \<and>
    create_message_job codec now key m payload pt = (Inr (response, events), pt'))"
  using assms by (fastforce simp: persistMessageJob_def split: if_splits option.splits)

lemma create_recall_job_Inr:
  assumes "create_recall_job now key r targets payload pt = (Inr (response, events), pt')"
  obtains "events = []" "pt' = pt" "stableMessageRecallJobID (rp_message_id r) \<in> jb_job_id ` set (pt_jobs pt)"
  | pt1 pt2 ts rows where "events = []"
    "create_job (new_job (stableMessageRecallJobID (rp_message_id r)) key ''message_recall'' payload now) pt = Some pt1"
    "pt2 = cancel_message (rp_message_id r) now pt1"
    "rows = snd (fan_out_again (MessageKey (- rp_message_id r)) (stableMessageRecallJobID (rp_message_id r)) now ts (pt_message_deliveries pt2))"
    "pt' = pt2\<lparr>pt_message_deliveries := rows\<rparr> \<or>
     pt' = complete_jobs (\<lambda>j. jb_job_id j = stableMessageRecallJobID (rp_message_id r)) now (pt2\<lparr>pt_message_deliveries := rows\<rparr>)"
proof (cases "stableMessageRecallJobID (rp_message_id r) \<in> jb_job_id ` set (pt_jobs pt)")
  case True
  with assms show thesis by (intro that(1)) (simp_all add: create_recall_job_def)
next
  case False
  then obtain pt1 where c: "create_job (new_job (stableMessageRecallJobID (rp_message_id r)) key ''message_recall'' payload now) pt = Some pt1"
    using assms by (cases "create_job (new_job (stableMessageRecallJobID (rp_message_id r)) key ''message_recall'' payload now) pt")
      (simp_all add: create_recall_job_def Let_def)
  let ?pt2 = "cancel_message (rp_message_id r) now pt1"
  let ?ts = "map tk_id (active_tokens targets PushTypeAPNs ?pt2)"
  show thesis
    using assms False c
    by (intro that(2) [of pt1 ?pt2 "snd (fan_out_again (MessageKey (- rp_message_id r)) (stableMessageRecallJobID (rp_message_id r)) now ?ts
          (pt_message_deliveries ?pt2))" ?ts])
       (auto simp: create_recall_job_def Let_def split: prod.splits if_splits)
qed

lemma persistMessageRecallJob_Inr:
  assumes "persistMessageRecallJob codec clock key r pt = (Inr (response, events), pt')"
  shows "events = [] \<and> pt' = pt \<or> (\<exists>targets payload now. 0 < rp_message_id r \<and>
    create_recall_job now key r targets payload pt = (Inr (response, events), pt'))"
  using assms by (fastforce simp: persistMessageRecallJob_def Let_def split: if_splits option.splits)

lemma fan_out_0: "fst (fan_out key jobID now ts rows) = 0 \<Longrightarrow> snd (fan_out key jobID now ts rows) = rows"
  by (auto simp: fan_out_def Let_def)

lemma start_voip_Inr:
  assumes "start_voip codec clock jobID call pt1 = (Inr (response, events), pt')"
  obtains now ts where "events = []" "pt' = pt1\<lparr>pt_voip_deliveries := snd (fan_out (CallKey (vq_call_id call)) jobID now ts (pt_voip_deliveries pt1))\<rparr>"
      "fst (fan_out (CallKey (vq_call_id call)) jobID now ts (pt_voip_deliveries pt1)) \<noteq> 0"
    | now where "map pe_event_id events = [voip_event_id jobID]" "pt' = complete_jobs (\<lambda>j. jb_job_id j = jobID) now pt1"
proof -
  let ?now = "FormatReliabilityTime clock"
  have closed: "map pe_event_id events = [voip_event_id jobID] \<and> pt' = complete_jobs (\<lambda>j. jb_job_id j = jobID) ?now p"
    if "completeVoIPWithoutDelivery codec jobID call reason ?now p = (Inr (response, events), pt')" for reason p
    using that by (auto simp: completeVoIPWithoutDelivery_def Let_def split: option.splits)
  show thesis
  proof (cases "case Parse (vq_expires_at call) of None \<Rightarrow> True | Some expiresAt \<Rightarrow> expiresAt \<le> clock")
    case True
    with assms closed show thesis by (intro that(2)) (auto simp: start_voip_def Let_def)
  next
    case False
    let ?ts = "map tk_id (active_tokens [vq_callee_user_id call] PushTypeVoIP pt1)"
    let ?f = "fan_out (CallKey (vq_call_id call)) jobID ?now ?ts (pt_voip_deliveries pt1)"
    show thesis
    proof (cases "fst ?f = 0")
      case True
      have "pt1\<lparr>pt_voip_deliveries := snd ?f\<rparr> = pt1" using fan_out_0 [OF True] by simp
      with assms closed False True show thesis by (intro that(2)) (auto simp: start_voip_def Let_def split: prod.splits)
    next
      case n: False
      with assms False show thesis by (intro that(1) [of ?now ?ts]) (auto simp: start_voip_def Let_def split: prod.splits)
    qed
  qed
qed

lemma persistVoIPJob_Inr:
  assumes "persistVoIPJob codec clock key call pt = (Inr (response, events), pt')"
  shows "\<exists>payload now pt1. create_job (new_job (stablePushJobID codec key) key ''voip'' payload now) pt = Some pt1 \<and>
    start_voip codec clock (stablePushJobID codec key) call pt1 = (Inr (response, events), pt')"
  using assms by (fastforce simp: persistVoIPJob_def Let_def split: if_splits option.splits)

text \<open>Creating a job that is no call, its deliveries, and possibly its completion.\<close>

lemma voip_inv_complete_job:
  assumes "voip_inv_except S st" "job \<in> set (pt_jobs (tables st))" "jb_kind job \<noteq> ''voip''"
  shows "voip_inv_except S (st\<lparr>tables := complete_jobs (\<lambda>j. jb_job_id j = jb_job_id job) now (tables st)\<rparr>)"
  using job_unique [OF voip_inv_exceptD(2) [OF assms(1)] _ assms(2)] assms(3) by (intro voip_inv_complete_other [OF assms(1)]) auto

lemma message_job_steps:
  assumes inv: "voip_inv_except S st" and pt: "job \<in> set (pt_jobs (tables st))" "jb_kind job \<noteq> ''voip''"
    and rows: "dv_job_id ` set rows \<subseteq> insert (jb_job_id job) (dv_job_id ` set (pt_message_deliveries (tables st)))"
    and pt': "pt' = (tables st)\<lparr>pt_message_deliveries := rows\<rparr> \<or>
      pt' = complete_jobs (\<lambda>j. jb_job_id j = jb_job_id job) now ((tables st)\<lparr>pt_message_deliveries := rows\<rparr>)"
  shows "voip_inv_except S (st\<lparr>tables := pt'\<rparr>)"
proof -
  note i = voip_inv_new_rows [OF inv pt rows]
  with voip_inv_complete_job [OF i, of job now] pt pt' show ?thesis by auto
qed

lemma create_message_job_inv:
  assumes inv: "voip_inv_except S st" "rows_inv M (tables st)" "0 \<le> M"
    and run: "create_message_job codec now key m payload (tables st) = (Inr (response, events), pt')"
  shows "events = [] \<and> voip_inv_except S (st\<lparr>tables := pt'\<rparr>) \<and> rows_inv M pt'"
  using run
proof (rule create_message_job_Inr)
  let ?job = "new_job (stablePushJobID codec key) key ''message'' payload now"
  fix pt1 ts rows
  assume e: "events = []" and c: "create_job ?job (tables st) = Some pt1"
    and rows: "rows = snd (fan_out (MessageKey (mp_message_id m)) (stablePushJobID codec key) now ts (pt_message_deliveries pt1))"
    and pt': "pt' = pt1\<lparr>pt_message_deliveries := rows\<rparr> \<or>
      pt' = complete_jobs (\<lambda>j. jb_job_id j = stablePushJobID codec key) now (pt1\<lparr>pt_message_deliveries := rows\<rparr>)"
  have i: "voip_inv_except S (st\<lparr>tables := pt1\<rparr>)" using inv(1) c by (rule voip_inv_new_job) simp_all
  have sub: "dv_job_id ` set rows \<subseteq> insert (stablePushJobID codec key) (dv_job_id ` set (pt_message_deliveries pt1))"
    by (auto simp: rows set_fan_out)
  have pt1: "pt1 = (tables st)\<lparr>pt_jobs := pt_jobs (tables st) @ [?job]\<rparr>" using create_job_SomeD [OF c] by simp
  have r: "rows_inv M pt1" using inv(2) by (simp add: pt1 rows_inv_def)
  then have "rows_ok M rows" unfolding rows using inv(3) by (intro rows_ok_fan_out) (simp_all add: rows_inv_def)
  with r pt' have "rows_inv M pt'" by (auto simp: rows_inv_def)
  with message_job_steps [OF i, of ?job rows pt' now] e pt1 sub pt' show ?thesis by auto
qed

definition cancelled_row :: "string \<Rightarrow> delivery_row \<Rightarrow> delivery_row" where
  "cancelled_row now d = d\<lparr>dv_status := DeliveryPermanent, dv_claim_token := [], dv_lease_until := [], dv_next_retry_at := [],
     dv_last_error := ''message_recalled'', dv_updated_at := now\<rparr>"

lemma cancelled_row_simps [simp]:
  "delivery_id (cancelled_row now d) = delivery_id d" "dv_job_id (cancelled_row now d) = dv_job_id d"
  "dv_attempt (cancelled_row now d) = dv_attempt d" "dv_key (cancelled_row now d) = dv_key d" "\<not> outstanding (cancelled_row now d)"
  by (simp_all add: cancelled_row_def delivery_id_def outstanding_def)

lemma cancel_message_rows:
  "pt_message_deliveries (cancel_message i now pt) =
     sql_update (\<lambda>d. dv_key d = MessageKey i \<and> outstanding d) (cancelled_row now) (pt_message_deliveries pt)"
  "pt_voip_deliveries (cancel_message i now pt) = pt_voip_deliveries pt" "pt_db (cancel_message i now pt) = pt_db pt"
  by (simp_all add: cancel_message_def Let_def cancelled_row_def [abs_def])

lemma cancel_message_inv:
  assumes inv: "voip_inv_except S st" "rows_inv M (tables st)"
  shows "voip_inv_except S (st\<lparr>tables := cancel_message i now (tables st)\<rparr>)" "rows_inv M (cancel_message i now (tables st))"
proof -
  let ?c = "\<lambda>d. dv_key d = MessageKey i \<and> outstanding d"
  let ?rows = "sql_update ?c (cancelled_row now) (pt_message_deliveries (tables st))"
  let ?pt = "(tables st)\<lparr>pt_message_deliveries := ?rows\<rparr>"
  have eq: "cancel_message i now (tables st) =
      complete_jobs (\<lambda>j. jb_kind j = ''message'' \<and> jb_job_id j \<in> dv_job_id ` set (filter (\<lambda>d. dv_key d = MessageKey i) ?rows)) now ?pt"
    by (simp add: cancel_message_def Let_def cancelled_row_def [abs_def])
  have "dv_job_id ` set ?rows = dv_job_id ` set (pt_message_deliveries (tables st))" by (rule job_ids_update) simp
  then have "voip_inv_except S (st\<lparr>tables := ?pt\<rparr>)" by (intro voip_inv_message_rows [OF inv(1)]) simp_all
  note this [THEN voip_inv_complete_other, of "\<lambda>j. jb_kind j = ''message'' \<and> jb_job_id j \<in> dv_job_id ` set (filter (\<lambda>d. dv_key d = MessageKey i) ?rows)" now]
  then show "voip_inv_except S (st\<lparr>tables := cancel_message i now (tables st)\<rparr>)" unfolding eq by simp
  have "rows_ok M ?rows" using inv(2) by (intro rows_ok_update) (auto simp: rows_inv_def rows_ok_def)
  then show "rows_inv M (cancel_message i now (tables st))" using inv(2) by (simp add: rows_inv_def cancel_message_rows)
qed

lemma set_fan_out_again:
  "d \<in> set (snd (fan_out_again key jobID now ts rows)) \<Longrightarrow> d \<in> set rows \<or> dv_key d = key \<and> dv_job_id d = jobID \<and> outstanding d"
  by (auto simp: fan_out_again_def Let_def set_fan_out set_sql_update outstanding_def)

lemma create_recall_job_inv:
  assumes inv: "voip_inv_except S st" "rows_inv M (tables st)" "0 \<le> M"
    and run: "create_recall_job now key r targets payload (tables st) = (Inr (response, events), pt')"
  shows "events = [] \<and> voip_inv_except S (st\<lparr>tables := pt'\<rparr>) \<and> rows_inv M pt'"
  using run
proof (rule create_recall_job_Inr)
  let ?id = "stableMessageRecallJobID (rp_message_id r)"
  let ?job = "new_job ?id key ''message_recall'' payload now"
  fix pt1 pt2 ts rows
  assume e: "events = []" and c: "create_job ?job (tables st) = Some pt1" and pt2: "pt2 = cancel_message (rp_message_id r) now pt1"
    and rows: "rows = snd (fan_out_again (MessageKey (- rp_message_id r)) ?id now ts (pt_message_deliveries pt2))"
    and pt': "pt' = pt2\<lparr>pt_message_deliveries := rows\<rparr> \<or>
      pt' = complete_jobs (\<lambda>j. jb_job_id j = ?id) now (pt2\<lparr>pt_message_deliveries := rows\<rparr>)"
  have i: "voip_inv_except S (st\<lparr>tables := pt1\<rparr>)" using inv(1) c by (rule voip_inv_new_job) simp_all
  have pt1: "pt1 = (tables st)\<lparr>pt_jobs := pt_jobs (tables st) @ [?job]\<rparr>" using create_job_SomeD [OF c] by simp
  have r1: "rows_inv M pt1" using inv(2) by (simp add: pt1 rows_inv_def)
  note j = cancel_message_inv [OF i, of M "rp_message_id r" now, simplified, OF r1, folded pt2]
  have "(?id, ''message_recall'') \<in> set (job_kinds pt2)"
    unfolding pt2 cancel_message_def Let_def job_kinds_complete by (simp add: job_kinds_def pt1)
  then obtain job where job: "job \<in> set (pt_jobs pt2)" "jb_job_id job = ?id" "jb_kind job \<noteq> ''voip''" by (auto simp: job_kinds_iff)
  have sub: "dv_job_id ` set rows \<subseteq> insert ?id (dv_job_id ` set (pt_message_deliveries pt2))"
    using set_fan_out_again unfolding rows by blast
  have "rows_ok M rows" unfolding rows using inv(3) j(2) by (intro rows_ok_fan_out_again) (simp_all add: rows_inv_def)
  with j(2) pt' have "rows_inv M pt'" by (auto simp: rows_inv_def)
  with message_job_steps [OF j(1), of job rows pt' now] e job sub pt' show ?thesis by auto
qed (use inv in simp)

text \<open>A new call: its job is open with new deliveries, or completed with its result.\<close>

lemma voip_inv_new_call:
  assumes inv: "voip_inv st" and fresh: "i \<notin> jb_job_id ` set (pt_jobs (tables st))" "i \<noteq> []"
    and job: "jb_job_id job = i" "jb_kind job = ''voip''"
    and pt: "tables st' = (tables st)\<lparr>pt_jobs := pt_jobs (tables st) @ [job], pt_voip_deliveries := rows\<rparr>" "inbox_inv st'"
    and rows: "set rows = set (pt_voip_deliveries (tables st)) \<union> new_delivery key i now ` ts"
    and how: "jb_status job = PushJobPending \<and> ts \<noteq> {} \<and> (\<forall>x. voip_event_id x \<in> event_ids st' \<longleftrightarrow> voip_event_id x \<in> event_ids st) \<or>
      jb_status job = PushJobCompleted \<and> ts = {} \<and> (\<forall>x. voip_event_id x \<in> event_ids st' \<longleftrightarrow> x = i \<or> voip_event_id x \<in> event_ids st)"
  shows "voip_inv st'"
proof -
  note inv' = inv [unfolded voip_inv_def]
  have none: "\<not> job_open i (pt_voip_deliveries (tables st))"
    using voip_inv_exceptD(4) [OF inv'] fresh(1) by (force simp: job_open_def outstanding_of_def)
  have silent: "voip_event_id i \<notin> event_ids st" using voip_inv_exceptD(7) [OF inv'] fresh(1) by blast
  have open_iff: "job_open x rows \<longleftrightarrow> job_open x (pt_voip_deliveries (tables st)) \<or> x = i \<and> ts \<noteq> {}" for x
    unfolding job_open_def rows by (auto simp: outstanding_of_def bex_Un)
  have "voip_state {} st' j" if j: "j \<in> set (pt_jobs (tables st))" "jb_kind j = ''voip''" for j
  proof -
    have "jb_job_id j \<noteq> i" using j(1) fresh(1) by auto
    with voip_inv_exceptD(5) [OF inv' j] how pt(1) open_iff show ?thesis by (auto simp: voip_state_def Let_def)
  qed
  moreover have "voip_state {} st' job" using how job none silent open_iff [of i] pt(1) by (auto simp: voip_state_def Let_def)
  moreover have "\<exists>j\<in>set (pt_jobs (tables st')). jb_job_id j = dv_job_id d \<and> jb_kind j = ''voip''" if "d \<in> set rows" for d
    using that voip_inv_exceptD(4) [OF inv'] job pt(1) unfolding rows by fastforce
  moreover have "\<exists>j\<in>set (pt_jobs (tables st')). jb_job_id j = dv_job_id d \<and> jb_kind j \<noteq> ''voip''"
    if "d \<in> set (pt_message_deliveries (tables st))" for d
    using that voip_inv_exceptD(3) [OF inv'] pt(1) by fastforce
  ultimately show ?thesis
    using voip_inv_exceptD(2,6,7) [OF inv'] pt fresh job how unfolding voip_inv_def voip_inv_except_def by auto
qed

lemma fan_out_fresh:
  "fst (fan_out key jobID now ts rows) \<noteq> 0 \<Longrightarrow> {t \<in> set ts. (key, t) \<notin> delivery_id ` set rows} \<noteq> {}"
  using fan_out_count [of key jobID now ts rows] by auto

definition enqueued :: "push_tables reliable_store \<Rightarrow> pending_outbox_event list \<Rightarrow> push_tables \<Rightarrow> push_tables reliable_store \<Rightarrow> bool" where
  "enqueued st events pt st' \<longleftrightarrow> tables st' = pt \<and> inbox_inv st' \<and> event_ids st' = event_ids st \<union> pe_event_id ` set events"

lemma persistVoIPJob_inv:
  assumes inv: "voip_inv st" "rows_inv M (tables st)" "0 \<le> M"
    and run: "persistVoIPJob codec clock key call (tables st) = (Inr (response, events), pt')"
    and st': "enqueued st events pt' st'"
  shows "voip_inv st' \<and> rows_inv M pt'"
proof -
  let ?id = "stablePushJobID codec key"
  obtain payload now0 pt1 where c: "create_job (new_job ?id key ''voip'' payload now0) (tables st) = Some pt1"
    and s: "start_voip codec clock ?id call pt1 = (Inr (response, events), pt')"
    using persistVoIPJob_Inr [OF run] by blast
  let ?job = "new_job ?id key ''voip'' payload now0"
  have pt1: "pt1 = (tables st)\<lparr>pt_jobs := pt_jobs (tables st) @ [?job]\<rparr>" and fresh: "?id \<notin> jb_job_id ` set (pt_jobs (tables st))"
    using create_job_SomeD [OF c] by simp_all
  have r1: "rows_inv M pt1" using inv(2) by (simp add: pt1 rows_inv_def)
  from s show ?thesis
  proof (rule start_voip_Inr)
    fix now ts
    let ?f = "fan_out (CallKey (vq_call_id call)) ?id now ts (pt_voip_deliveries pt1)"
    assume e: "events = []" and p: "pt' = pt1\<lparr>pt_voip_deliveries := snd ?f\<rparr>" and n: "fst ?f \<noteq> 0"
    have t: "tables st' = (tables st)\<lparr>pt_jobs := pt_jobs (tables st) @ [?job], pt_voip_deliveries := snd ?f\<rparr>"
      using st' p by (simp add: enqueued_def pt1)
    have rows: "set (snd ?f) = set (pt_voip_deliveries (tables st)) \<union> new_delivery (CallKey (vq_call_id call)) ?id now `
        {t \<in> set ts. (CallKey (vq_call_id call), t) \<notin> delivery_id ` set (pt_voip_deliveries (tables st))}"
      by (simp add: set_fan_out pt1)
    have "voip_inv st'"
      using st' e fan_out_fresh [OF n] by (intro voip_inv_new_call [OF inv(1) fresh _ _ _ t _ rows]) (simp_all add: enqueued_def pt1)
    moreover have "rows_ok M (snd ?f)" using r1 inv(3) by (intro rows_ok_fan_out) (simp_all add: rows_inv_def)
    ultimately show ?thesis using r1 p by (simp add: rows_inv_def)
  next
    fix now
    assume e: "map pe_event_id events = [voip_event_id ?id]" and p: "pt' = complete_jobs (\<lambda>j. jb_job_id j = ?id) now pt1"
    have "sql_update (\<lambda>j. jb_job_id j = ?id) (completed_job now) (pt_jobs (tables st)) = pt_jobs (tables st)"
      using fresh by (intro sql_update_id) (metis image_eqI)
    then have jobs: "pt_jobs (complete_jobs (\<lambda>j. jb_job_id j = ?id) now pt1) = pt_jobs (tables st) @ [completed_job now ?job]"
      unfolding pt_jobs_complete_jobs by (simp add: pt1 sql_update_def)
    have t: "tables st' = (tables st)\<lparr>pt_jobs := pt_jobs (tables st) @ [completed_job now ?job], pt_voip_deliveries := pt_voip_deliveries (tables st)\<rparr>"
      using st' p jobs by (simp add: enqueued_def complete_jobs_def pt1)
    obtain ev where ev: "events = [ev]" "pe_event_id ev = voip_event_id ?id" using e by (cases events) auto
    have "voip_inv st'"
      using st' ev by (intro voip_inv_new_call [where ts = "{}" and now = now, OF inv(1) fresh _ _ _ t]) (auto simp: enqueued_def)
    then show ?thesis using r1 p by simp
  qed
qed

lemma push_execute_inv:
  assumes inv: "voip_inv st" "rows_inv M (tables st)" "0 \<le> M"
    and run: "push_execute codec bundleID clock key request (tables st) = (Inr (response, events), pt')"
    and st': "enqueued st events pt' st'"
  shows "voip_inv st' \<and> rows_inv M (tables st')"
proof -
  note inv' = inv(1) [unfolded voip_inv_def]
  have keep: "voip_inv st'" if "voip_inv_except {} (st\<lparr>tables := pt'\<rparr>)" "\<And>i. voip_event_id i \<notin> pe_event_id ` set events"
  proof -
    have ids: "voip_event_id i \<in> event_ids st' \<longleftrightarrow> voip_event_id i \<in> event_ids st" for i using that(2) [of i] st' by (simp add: enqueued_def)
    have "voip_inv_except {} (st\<lparr>tables := tables st'\<rparr>)" "inbox_inv st'" using that(1) st' by (simp_all add: enqueued_def)
    from voip_inv_store [OF this ids] show ?thesis by (simp add: voip_inv_def)
  qed
  have t: "tables st' = pt'" using st' by (simp add: enqueued_def)
  show ?thesis
  proof (cases request)
    case (PushClientCommand topic userID payload)
    with run have r: "persistClientCommand codec bundleID clock key topic userID payload (tables st) = (Inr (response, events), pt')"
      by (simp add: push_execute_def)
    note f = persistClientCommand_Inr [OF r]
    then obtain j where "map pe_event_id events = [''push:'' @ j @ '':client-response'']" by (elim conjE exE)
    then have "set (map pe_event_id events) = {''push:'' @ j @ '':client-response''}" by (simp only: list.set)
    then have "pe_event_id ` set events = {''push:'' @ j @ '':client-response''}" by (simp only: set_map)
    moreover have "voip_inv_except {} (st\<lparr>tables := pt'\<rparr>)" using f by (intro voip_inv_message_rows [OF inv']) simp_all
    ultimately show ?thesis using keep voip_not_client f inv(2) t by (auto simp: rows_inv_def)
  next
    case (PushMessage m)
    with run have "persistMessageJob codec clock key m (tables st) = (Inr (response, events), pt')" by (simp add: push_execute_def)
    from persistMessageJob_Inr [OF this] create_message_job_inv [OF inv' inv(2,3), of codec _ key m _ response events pt']
    have "events = [] \<and> voip_inv_except {} (st\<lparr>tables := pt'\<rparr>) \<and> rows_inv M pt'" using inv(2) inv' by auto
    with keep t show ?thesis by simp
  next
    case (PushRecall r)
    with run have "persistMessageRecallJob codec clock key r (tables st) = (Inr (response, events), pt')" by (simp add: push_execute_def)
    from persistMessageRecallJob_Inr [OF this] create_recall_job_inv [OF inv' inv(2,3), of _ key r _ _ response events pt']
    have "events = [] \<and> voip_inv_except {} (st\<lparr>tables := pt'\<rparr>) \<and> rows_inv M pt'" using inv(2) inv' by auto
    with keep t show ?thesis by simp
  next
    case (PushVoIPCall call)
    with run have "persistVoIPJob codec clock key call (tables st) = (Inr (response, events), pt')" by (simp add: push_execute_def)
    from persistVoIPJob_inv [OF inv this st'] t show ?thesis by simp
  qed
qed

theorem enqueue_keeps_inv:
  assumes inv: "voip_inv st" "rows_inv M (tables st)" "0 \<le> M"
  shows "voip_inv (snd (EnqueueRequest codec bundleID clock key request st)) \<and>
    rows_inv M (tables (snd (EnqueueRequest codec bundleID clock key request st)))"
proof (cases "request = None \<or> TrimSpace key = []")
  case True
  then show ?thesis using inv by (auto simp: EnqueueRequest_def split: option.split)
next
  case False
  then obtain req where req: "request = Some req" "TrimSpace key \<noteq> []" by auto
  have i: "inbox_inv st" using inv(1) by (simp add: voip_inv_def voip_inv_except_def)
  let ?x = "push_execute codec bundleID clock key req"
  have eq: "EnqueueRequest codec bundleID clock key request st = ExecuteInboxOutbox clock ''push'' key ?x st"
    using req by (simp add: EnqueueRequest_def)
  show ?thesis
  proof (rule ExecuteInboxOutbox_cases [OF i, of clock "''push''" key ?x])
    assume "snd (ExecuteInboxOutbox clock ''push'' key ?x st) = st"
    with eq inv show ?thesis by simp
  next
    fix response events business rows s k now inbox
    assume run: "?x (tables st) = (Inr (response, events), business)" and rows: "rows = outbox_events st @ map (new_outbox_row s k now) events"
      and ii: "inbox_inv (snd (ExecuteInboxOutbox clock ''push'' key ?x st))"
      and st': "snd (ExecuteInboxOutbox clock ''push'' key ?x st) = \<lparr>tables = business, consumer_inbox = inbox, outbox_events = rows\<rparr>"
    have "enqueued st events business (snd (ExecuteInboxOutbox clock ''push'' key ?x st))"
      using ii st' rows by (simp add: enqueued_def event_ids_def image_Un image_image)
    from push_execute_inv [OF inv run this] eq show ?thesis by simp
  qed
qed

end
