(* ===== verification/Push_Reachable.thy ===== *)
theory Push_Reachable
  imports Push_Guarantees
begin

text \<open>
  The reachable states of the push service, from empty push tables, and what holds in them.
\<close>

section \<open>Steps\<close>

definition recalled :: "int \<Rightarrow> push_tables \<Rightarrow> bool" where
  "recalled messageID pt = (case lockMessageForPush messageID pt of None \<Rightarrow> False | Some row \<Rightarrow> ms_is_recalled row)"

text \<open>
  Requests are enqueued, batches claimed and results recorded in any order and by any number of workers; the other
  services change the shared database, where a recalled message stays recalled, and the relay the outbox, whose
  events it keeps. The cleanup of old jobs is not a step.
\<close>

inductive push_step :: "push_codec \<Rightarrow> push_service \<Rightarrow> push_tables reliable_store \<Rightarrow> push_tables reliable_store \<Rightarrow> bool" for codec service where
  enqueue: "push_step codec service st (snd (EnqueueRequest codec (ps_bundle_id service) clock key request st))"
| claim: "push_step codec service st (snd (claimDeliveryBatch codec kind (ps_max_concurrency service) clock (ps_delivery_lease service)
    (ps_max_attempts service) newClaimToken locked st))"
| finalize: "push_step codec service st (snd (FinalizeDelivery codec kind clock u st))"
| shared: "(\<And>i. recalled i (tables st) \<Longrightarrow> recalled i ((tables st)\<lparr>pt_db := db\<rparr>)) \<Longrightarrow>
    push_step codec service st (st\<lparr>tables := (tables st)\<lparr>pt_db := db\<rparr>\<rparr>)"
| relay: "map ob_event_id rows = map ob_event_id (outbox_events st) \<Longrightarrow> push_step codec service st (st\<lparr>outbox_events := rows\<rparr>)"

inductive push_reachable :: "push_codec \<Rightarrow> push_service \<Rightarrow> push_tables reliable_store \<Rightarrow> bool" for codec service where
  start: "pt_jobs (tables st) = [] \<Longrightarrow> pt_message_deliveries (tables st) = [] \<Longrightarrow> pt_voip_deliveries (tables st) = [] \<Longrightarrow>
    consumer_inbox st = [] \<Longrightarrow> outbox_events st = [] \<Longrightarrow> push_reachable codec service st"
| step: "push_reachable codec service st \<Longrightarrow> push_step codec service st st' \<Longrightarrow> push_reachable codec service st'"

lemma voip_inv_outbox:
  assumes "voip_inv st" "map ob_event_id rows = map ob_event_id (outbox_events st)"
  shows "voip_inv (st\<lparr>outbox_events := rows\<rparr>)"
proof -
  have "ob_event_id ` set rows = ob_event_id ` set (outbox_events st)" using assms(2) by (metis set_map)
  then have "event_ids (st\<lparr>outbox_events := rows\<rparr>) = event_ids st" by (simp add: event_ids_def)
  with assms show ?thesis by (simp add: voip_inv_def voip_inv_except_def voip_state_def inbox_inv_def)
qed

lemma voip_inv_db: "voip_inv st \<Longrightarrow> voip_inv (st\<lparr>tables := (tables st)\<lparr>pt_db := db\<rparr>\<rparr>)"
  unfolding voip_inv_def by (erule voip_inv_message_rows) simp_all

lemma push_reachable_inv:
  assumes "push_reachable codec service st" "0 < ps_max_attempts service"
  shows "voip_inv st \<and> rows_inv (ps_max_attempts service) (tables st)"
  using assms
proof induction
  case (start st)
  then show ?case by (simp add: voip_inv_def voip_inv_except_def inbox_inv_def event_ids_def rows_inv_def rows_ok_def)
next
  case (step st st')
  then have inv: "voip_inv st" "rows_inv (ps_max_attempts service) (tables st)" "0 \<le> ps_max_attempts service" by auto
  from step.hyps(2) show ?case
  proof cases
    case (enqueue clock key request)
    with enqueue_keeps_inv [OF inv] show ?thesis by simp
  next
    case (claim kind clock newClaimToken locked)
    with claim_keeps_inv [OF inv(1,2) step.prems] show ?thesis by simp
  next
    case (finalize kind clock u)
    with finalize_keeps_inv [OF inv(1,2)] show ?thesis by simp
  next
    case (shared db)
    with voip_inv_db [OF inv(1)] inv(2) show ?thesis by (simp add: rows_inv_def)
  next
    case (relay rows)
    with voip_inv_outbox [OF inv(1)] inv(2) show ?thesis by simp
  qed
qed

section \<open>Recalled messages stay silent\<close>

definition silent :: "int \<Rightarrow> push_tables \<Rightarrow> bool" where
  "silent messageID pt \<longleftrightarrow> (\<forall>d\<in>set (pt_message_deliveries pt). dv_key d = MessageKey messageID \<longrightarrow> \<not> outstanding d)"

definition recall_inv :: "push_tables \<Rightarrow> bool" where
  "recall_inv pt \<longleftrightarrow> (\<forall>i. (stableMessageRecallJobID i, ''message_recall'') \<in> set (job_kinds pt) \<longrightarrow> 0 < i \<and> recalled i pt \<and> silent i pt)"

lemma recall_inv_frame:
  assumes "recall_inv pt" "set (job_kinds pt') = set (job_kinds pt)" "\<And>i. recalled i pt \<Longrightarrow> recalled i pt'"
    "\<And>d. d \<in> set (pt_message_deliveries pt') \<Longrightarrow> outstanding d \<Longrightarrow> \<exists>e\<in>set (pt_message_deliveries pt). outstanding e \<and> dv_key e = dv_key d"
  shows "recall_inv pt'"
  using assms unfolding recall_inv_def silent_def by metis

lemma recalled_db: "pt_db pt' = pt_db pt \<Longrightarrow> recalled i pt' = recalled i pt"
  by (simp add: recalled_def lockMessageForPush_def)

lemma recall_inv_keep:
  assumes "recall_inv pt" "job_kinds pt' = job_kinds pt" "pt_db pt' = pt_db pt"
    "\<And>d. d \<in> set (pt_message_deliveries pt') \<Longrightarrow> outstanding d \<Longrightarrow> \<exists>e\<in>set (pt_message_deliveries pt). outstanding e \<and> dv_key e = dv_key d"
  shows "recall_inv pt'"
  using assms(1) arg_cong [OF assms(2), of set] _ assms(4) by (rule recall_inv_frame) (simp only: recalled_db [OF assms(3)])

lemma update_outstanding:
  assumes d: "d \<in> set (pt_message_deliveries (set_deliveries kind (sql_update c f (deliveries kind pt)) pt))" "outstanding d"
    and f: "\<And>d. dv_key (f d) = dv_key d" "\<And>d. d \<in> set (deliveries kind pt) \<Longrightarrow> c d \<Longrightarrow> outstanding (f d) \<Longrightarrow> outstanding d"
  shows "\<exists>e\<in>set (pt_message_deliveries pt). outstanding e \<and> dv_key e = dv_key d"
proof (cases kind)
  case DeliverMessage
  then obtain e where e: "e \<in> set (pt_message_deliveries pt)" "d = (if c e then f e else e)" using d(1) by (auto simp: sql_update_def)
  then have "outstanding e" using d(2) f(2) [of e] DeliverMessage by (auto split: if_splits)
  with e f(1) show ?thesis by (auto split: if_splits)
qed (use d in auto)

lemma job_kinds_rows [simp]:
  "job_kinds (pt\<lparr>pt_message_deliveries := rows\<rparr>) = job_kinds pt" "job_kinds (set_deliveries kind rows pt) = job_kinds pt"
  "job_kinds (deactivateTokenTx clock t pt) = job_kinds pt" "job_kinds (cancel_message i now pt) = job_kinds pt"
  by (simp_all add: job_kinds_def [of "pt\<lparr>pt_message_deliveries := rows\<rparr>"] job_kinds_def [of "set_deliveries kind rows pt"]
      job_kinds_def [of "deactivateTokenTx clock t pt"] job_kinds_def [of pt] cancel_message_def Let_def)
     (simp add: job_kinds_def)

lemma recall_inv_claim:
  assumes inv: "recall_inv (tables st)" and v: "voip_inv st" and rows: "rows_inv M (tables st)" and M: "0 < M"
  shows "recall_inv (tables (snd (claimDeliveryBatch codec kind limit clock lease M newClaimToken locked st)))"
proof (rule claimDeliveryBatch_cases [OF M, of codec kind limit clock lease newClaimToken locked st])
  fix e
  assume "claimDeliveryBatch codec kind limit clock lease M newClaimToken locked st = (Inl e, st)"
  with inv show ?thesis by simp
next
  fix token now ids pt1 st2 l claims pt3 leaseUntil
  assume e: "expireExhaustedDeliveries kind now M (tables st) = (ids, pt1)"
    and c: "complete_exhausted codec kind clock ids (st\<lparr>tables := pt1\<rparr>) = (Inr (), st2)"
    and k: "claim_rows kind M now locked l token leaseUntil (tables st2) = (claims, pt3)"
    and r: "claimDeliveryBatch codec kind limit clock lease M newClaimToken locked st = (Inr claims, st2\<lparr>tables := pt3\<rparr>)"
  have pt1: "pt1 = set_deliveries kind (sql_update (exhausted M now) (expired_row now) (deliveries kind (tables st))) (tables st)"
    using expire_rows [of kind now M "tables st"] e by simp
  have "job_kinds pt1 = job_kinds (tables st)" "pt_db pt1 = pt_db (tables st)" by (simp_all add: pt1)
  moreover have "\<exists>e\<in>set (pt_message_deliveries (tables st)). outstanding e \<and> dv_key e = dv_key d"
    if "d \<in> set (pt_message_deliveries pt1)" "outstanding d" for d
    using that unfolding pt1 by (rule update_outstanding) simp_all
  ultimately have i1: "recall_inv pt1" by (rule recall_inv_keep [OF inv])
  note x = expire_inv [OF v rows e]
  have y: "job_kinds (tables st2) = job_kinds pt1" "pt_db (tables st2) = pt_db pt1" "\<And>k. deliveries k (tables st2) = deliveries k pt1"
    using complete_exhausted_inv [OF x(1) c] x(3) by simp_all
  have i2: "recall_inv (tables st2)" using y(3) [of DeliverMessage] y(1,2) by (intro recall_inv_keep [OF i1]) auto
  have rows2: "rows_inv M (tables st2)" using rows_inv_cong [OF y(3)] x(2) by simp
  let ?ids = "claim_candidates M now locked l (tables st2) (deliveries kind (tables st2))"
  have pt3: "pt3 = set_deliveries kind (sql_update (\<lambda>d. delivery_id d \<in> set ?ids) (claim_row token leaseUntil now) (deliveries kind (tables st2))) (tables st2)"
    using k by (auto simp: claim_rows_def Let_def)
  have cl: "outstanding d" if "d \<in> set (deliveries kind (tables st2))" "delivery_id d \<in> set ?ids" for d
    using candidate_claimable [OF rows_inv_deliveries [OF rows2] that] by (rule claimable_outstanding)
  have "\<exists>e\<in>set (pt_message_deliveries (tables st2)). outstanding e \<and> dv_key e = dv_key d"
    if "d \<in> set (pt_message_deliveries pt3)" "outstanding d" for d
    using that unfolding pt3 by (rule update_outstanding) (simp_all add: cl)
  then have "recall_inv pt3" by (intro recall_inv_keep [OF i2]) (simp_all add: pt3)
  with r show ?thesis by simp
qed

lemma recall_inv_finalize:
  assumes inv: "recall_inv (tables st)"
  shows "recall_inv (tables (snd (FinalizeDelivery codec kind clock u st)))"
proof (rule FinalizeDelivery_cases [of codec kind clock u st])
  fix e
  assume "FinalizeDelivery codec kind clock u st = (Inl e, st)"
  with inv show ?thesis by simp
next
  fix job pt1 pt2 st'
  assume f: "finalizeClaimedDelivery kind clock u (tables st) = (Inr (), pt1)"
    and pt2: "pt2 = (if du_deactivate_token u then deactivateTokenTx clock (tk_id (dl_token (du_claim u))) pt1 else pt1)"
    and l: "complete_locked codec kind clock job (st\<lparr>tables := pt2\<rparr>) = (Inr (), st')"
    and r: "FinalizeDelivery codec kind clock u st = (Inr (), st')"
  let ?c = "holds_delivery kind (du_claim u)"
  have pt1: "pt1 = set_deliveries kind (sql_update ?c (settled_row clock u) (deliveries kind (tables st))) (tables st)"
    by (rule finalizeClaimedDelivery_Inr(1) [OF f])
  have held: "outstanding d" if "?c d" for d using that by (simp add: holds_delivery_def outstanding_def)
  have "\<exists>e\<in>set (pt_message_deliveries (tables st)). outstanding e \<and> dv_key e = dv_key d"
    if "d \<in> set (pt_message_deliveries pt1)" "outstanding d" for d
    using that unfolding pt1 by (rule update_outstanding) (simp_all add: held)
  then have "recall_inv pt1" by (intro recall_inv_keep [OF inv]) (simp_all add: pt1)
  then have "recall_inv pt2" by (rule recall_inv_keep) (auto simp: pt2 split: if_splits)
  moreover have "pt_message_deliveries (tables st') = pt_message_deliveries pt2"
    using complete_locked_frame(2) [OF l, of DeliverMessage] by simp
  ultimately have "recall_inv (tables st')" using complete_locked_frame(1,4) [OF l] by (elim recall_inv_keep) auto
  with r show ?thesis by simp
qed

lemma job_kinds_create:
  "create_job job pt = Some pt1 \<Longrightarrow> job_kinds pt1 = job_kinds pt @ [(jb_job_id job, jb_kind job)] \<and> pt_db pt1 = pt_db pt \<and>
   pt_message_deliveries pt1 = pt_message_deliveries pt"
  by (auto simp: job_kinds_def dest!: create_job_SomeD)

lemma recall_inv_message:
  assumes inv: "recall_inv pt" and row: "lockMessageForPush (mp_message_id m) pt = Some row" "\<not> ms_is_recalled row"
    and run: "create_message_job codec now key m payload pt = (Inr (response, events), pt')"
  shows "recall_inv pt'"
  using run
proof (rule create_message_job_Inr)
  let ?id = "stablePushJobID codec key" and ?key = "MessageKey (mp_message_id m)"
  fix pt1 ts rows
  assume c: "create_job (new_job ?id key ''message'' payload now) pt = Some pt1"
    and rows: "rows = snd (fan_out ?key ?id now ts (pt_message_deliveries pt1))"
    and pt': "pt' = pt1\<lparr>pt_message_deliveries := rows\<rparr> \<or> pt' = complete_jobs (\<lambda>j. jb_job_id j = ?id) now (pt1\<lparr>pt_message_deliveries := rows\<rparr>)"
  note f = job_kinds_create [OF c]
  have n: "\<not> recalled (mp_message_id m) pt" using row by (simp add: recalled_def)
  have k: "job_kinds pt' = job_kinds pt @ [(?id, ''message'')]" "pt_db pt' = pt_db pt" "pt_message_deliveries pt' = rows"
    using pt' f by auto
  show ?thesis
    using inv n f unfolding recall_inv_def silent_def k rows by (auto simp: recalled_db [OF k(2)] set_fan_out)
qed

lemma recall_inv_recall:
  assumes inv: "recall_inv pt" and r: "0 < rp_message_id r" "recalled (rp_message_id r) pt"
    and run: "create_recall_job now key r targets payload pt = (Inr (response, events), pt')"
  shows "recall_inv pt'"
  using run
proof (rule create_recall_job_Inr)
  let ?id = "stableMessageRecallJobID (rp_message_id r)" and ?key = "MessageKey (- rp_message_id r)"
  fix pt1 pt2 ts rows
  assume c: "create_job (new_job ?id key ''message_recall'' payload now) pt = Some pt1" and pt2: "pt2 = cancel_message (rp_message_id r) now pt1"
    and rows: "rows = snd (fan_out_again ?key ?id now ts (pt_message_deliveries pt2))"
    and pt': "pt' = pt2\<lparr>pt_message_deliveries := rows\<rparr> \<or> pt' = complete_jobs (\<lambda>j. jb_job_id j = ?id) now (pt2\<lparr>pt_message_deliveries := rows\<rparr>)"
  note f = job_kinds_create [OF c]
  have k: "job_kinds pt' = job_kinds pt @ [(?id, ''message_recall'')]" "pt_db pt' = pt_db pt" "pt_message_deliveries pt' = rows"
    using pt' f by (auto simp: pt2 cancel_message_rows)
  have old: "\<exists>e\<in>set (pt_message_deliveries pt). outstanding e \<and> dv_key e = dv_key d \<and> dv_key d \<noteq> MessageKey (rp_message_id r)"
    if "d \<in> set rows" "outstanding d" "dv_key d \<noteq> ?key" for d
    using that set_fan_out_again [of d ?key ?id now ts "pt_message_deliveries pt2"] f
    unfolding rows pt2 cancel_message_rows by (auto simp: set_sql_update)
  have "0 < i \<and> recalled i pt \<and> silent i pt'" if "(stableMessageRecallJobID i, ''message_recall'') \<in> set (job_kinds pt')" for i
  proof (cases "i = rp_message_id r")
    case True
    then show ?thesis using r old unfolding silent_def k by fastforce
  next
    case False
    then have "(stableMessageRecallJobID i, ''message_recall'') \<in> set (job_kinds pt)" using that k(1) by (simp add: stableMessageRecallJobID_def)
    with inv have i: "0 < i" "recalled i pt" "silent i pt" by (auto simp: recall_inv_def)
    moreover have "silent i pt'" using i(1,3) r(1) old unfolding silent_def k by fastforce
    ultimately show ?thesis by simp
  qed
  then show ?thesis by (simp add: recall_inv_def recalled_db [OF k(2)])
qed (use inv in simp)

lemma recall_inv_execute:
  assumes inv: "recall_inv pt" and run: "push_execute codec bundleID clock key request pt = (Inr (response, events), pt')"
  shows "recall_inv pt'"
proof (cases request)
  case (PushClientCommand topic userID payload)
  with run have r: "persistClientCommand codec bundleID clock key topic userID payload pt = (Inr (response, events), pt')"
    by (simp add: push_execute_def)
  from persistClientCommand_Inr [OF this] show ?thesis by (intro recall_inv_keep [OF inv]) (auto simp: job_kinds_def)
next
  case (PushMessage m)
  with run have "persistMessageJob codec clock key m pt = (Inr (response, events), pt')" by (simp add: push_execute_def)
  from persistMessageJob_Inr [OF this] recall_inv_message [OF inv, of m] inv show ?thesis by auto
next
  case (PushRecall r)
  with run have p: "persistMessageRecallJob codec clock key r pt = (Inr (response, events), pt')" by (simp add: push_execute_def)
  have "recalled (rp_message_id r) pt"
    using p by (auto simp: persistMessageRecallJob_def recalled_def recall_matches_def split: if_splits option.splits)
  with persistMessageRecallJob_Inr [OF p] recall_inv_recall [OF inv, of r] inv show ?thesis by auto
next
  case (PushVoIPCall call)
  with run have "persistVoIPJob codec clock key call pt = (Inr (response, events), pt')" by (simp add: push_execute_def)
  from persistVoIPJob_Inr [OF this] obtain payload now pt1
    where c: "create_job (new_job (stablePushJobID codec key) key ''voip'' payload now) pt = Some pt1"
      and s: "start_voip codec clock (stablePushJobID codec key) call pt1 = (Inr (response, events), pt')" by blast
  note f = job_kinds_create [OF c]
  have "job_kinds pt' = job_kinds pt1 \<and> pt_db pt' = pt_db pt1 \<and> pt_message_deliveries pt' = pt_message_deliveries pt1"
    using s by (rule start_voip_Inr) (simp_all add: job_kinds_def [of "pt1\<lparr>pt_voip_deliveries := _\<rparr>"] job_kinds_def [of pt1])
  then have k: "job_kinds pt' = job_kinds pt @ [(stablePushJobID codec key, ''voip'')]" "pt_db pt' = pt_db pt"
    "pt_message_deliveries pt' = pt_message_deliveries pt" using f by simp_all
  then show ?thesis using inv by (auto simp: recall_inv_def silent_def recalled_db [OF k(2)])
qed

lemma recall_inv_enqueue:
  assumes i: "inbox_inv st" and inv: "recall_inv (tables st)"
  shows "recall_inv (tables (snd (EnqueueRequest codec bundleID clock key request st)))"
proof (cases "request = None \<or> TrimSpace key = []")
  case True
  then show ?thesis using inv by (auto simp: EnqueueRequest_def split: option.split)
next
  case False
  then obtain req where req: "request = Some req" "TrimSpace key \<noteq> []" by auto
  let ?x = "push_execute codec bundleID clock key req"
  have eq: "EnqueueRequest codec bundleID clock key request st = ExecuteInboxOutbox clock ''push'' key ?x st"
    using req by (simp add: EnqueueRequest_def)
  show ?thesis unfolding eq
    by (rule ExecuteInboxOutbox_cases [OF i, of clock "''push''" key ?x]) (auto simp: inv dest: recall_inv_execute [OF inv])
qed

lemma reachable_recall_inv:
  assumes "push_reachable codec service st" "0 < ps_max_attempts service"
  shows "recall_inv (tables st)"
  using assms
proof induction
  case (start st)
  then show ?case by (simp add: recall_inv_def job_kinds_def)
next
  case (step st st')
  then have inv: "recall_inv (tables st)" by blast
  have v: "voip_inv st" "rows_inv (ps_max_attempts service) (tables st)" using push_reachable_inv step.hyps(1) step.prems by auto
  from step.hyps(2) show ?case
  proof cases
    case (enqueue clock key request)
    moreover have "inbox_inv st" using v(1) by (simp add: voip_inv_def voip_inv_except_def)
    ultimately show ?thesis using recall_inv_enqueue [OF _ inv] by simp
  next
    case (claim kind clock newClaimToken locked)
    with recall_inv_claim [OF inv v step.prems] show ?thesis by simp
  next
    case (finalize kind clock u)
    with recall_inv_finalize [OF inv] show ?thesis by simp
  next
    case (shared db)
    then show ?thesis using inv by (auto simp: recall_inv_def silent_def job_kinds_def)
  next
    case (relay rows)
    with inv show ?thesis by simp
  qed
qed

section \<open>The claims of a batch\<close>

lemma claim_rows_claims:
  assumes "claim_rows kind M now locked l t leaseUntil pt = (claims, pt')" "c \<in> set claims"
  shows "\<exists>d\<in>set (deliveries kind pt). delivery_id d \<in> set (claim_candidates M now locked l pt (deliveries kind pt)) \<and>
    c = claim_of pt (claim_row t leaseUntil now d)"
  using assms by (auto simp: claim_rows_def Let_def set_sql_update)

lemma claimed_delivery:
  assumes v: "voip_inv st" and rows: "rows_inv M (tables st)" and M: "0 < M"
    and run: "claimDeliveryBatch codec kind limit clock lease M newClaimToken locked st = (Inr claims, st')" and c: "c \<in> set claims"
  shows "\<exists>d. outstanding d \<and> (\<exists>e\<in>set (deliveries kind (tables st)). outstanding e \<and> dv_key e = dv_key d) \<and>
    dl_message_id c = key_message (dv_key d) \<and> 1 \<le> dl_attempt c \<and> dl_attempt c \<le> M"
proof (rule claimDeliveryBatch_cases [OF M, of codec kind limit clock lease newClaimToken locked st])
  fix token now ids pt1 st2 l claims' pt3 leaseUntil
  assume e: "expireExhaustedDeliveries kind now M (tables st) = (ids, pt1)"
    and x: "complete_exhausted codec kind clock ids (st\<lparr>tables := pt1\<rparr>) = (Inr (), st2)"
    and k: "claim_rows kind M now locked l token leaseUntil (tables st2) = (claims', pt3)"
    and r: "claimDeliveryBatch codec kind limit clock lease M newClaimToken locked st = (Inr claims', st2\<lparr>tables := pt3\<rparr>)"
  note i = expire_inv [OF v rows e]
  have y: "\<And>k. deliveries k (tables st2) = deliveries k pt1" using complete_exhausted_inv [OF i(1) x] i(3) by simp
  have ok: "rows_ok M (deliveries kind (tables st2))" using rows_inv_deliveries [OF i(2)] y by simp
  have "c \<in> set claims'" using c r run by simp
  then obtain d where d: "d \<in> set (deliveries kind (tables st2))"
      "delivery_id d \<in> set (claim_candidates M now locked l (tables st2) (deliveries kind (tables st2)))"
    and cd: "c = claim_of (tables st2) (claim_row token leaseUntil now d)"
    using claim_rows_claims [OF k] by blast
  note cl = candidate_claimable [OF ok d]
  have "pt1 = set_deliveries kind (sql_update (exhausted M now) (expired_row now) (deliveries kind (tables st))) (tables st)"
    using expire_rows [of kind now M "tables st"] e by simp
  then have "d \<in> set (sql_update (exhausted M now) (expired_row now) (deliveries kind (tables st)))" using d(1) y by simp
  then have "\<exists>e\<in>set (deliveries kind (tables st)). outstanding e \<and> dv_key e = dv_key d"
    using claimable_outstanding [OF cl] by (auto simp: set_sql_update)
  moreover have "1 \<le> dl_attempt c \<and> dl_attempt c \<le> M" "dl_message_id c = key_message (dv_key d)"
    using cl d(1) ok by (simp_all add: cd claim_of_def claimable_def rows_ok_def)
  ultimately show ?thesis using claimable_outstanding [OF cl] by blast
qed (use run in simp)

end
