(* ===== verification/Push_Properties.thy ===== *)
theory Push_Properties
  imports Push_Reachable
begin

text \<open>The guarantees of the push service, each applied to a concrete run.\<close>

section \<open>A concrete run\<close>

definition sample_push_codec :: push_codec where
  "sample_push_codec = \<lparr>pc_marshal_request = (\<lambda>_. Some ''request''), pc_unmarshal_request = (\<lambda>_. Some None),
     pc_marshal_response = (\<lambda>_. Some ''response''), pc_marshal_envelope = (\<lambda>_. Some ''envelope''), pc_sha256hex = (\<lambda>s. s)\<rparr>"

definition sample_push_service :: push_service where
  "sample_push_service = \<lparr>ps_bundle_id = ''app'', ps_max_concurrency = 16, ps_delivery_lease = 30 * second, ps_worker_poll = second,
     ps_send_timeout = second, ps_max_attempts = 3, ps_retry_initial = second, ps_retry_max = minute\<rparr>"

definition sample_recalled :: message_row where
  "sample_recalled = \<lparr>ms_message_id = 5, ms_client_message_id = None, ms_from_user_id = 1, ms_to_user_id = 2, ms_content = ''x'',
     ms_timestamp = [], ms_message_type = ''text'', ms_real_file_name = [], ms_is_group = False, ms_is_recalled = True,
     ms_recalled_at = RFC3339 1700000000000000000, ms_recalled_by = 1\<rparr>"

definition sample_voip_token :: token_row where
  "sample_voip_token = \<lparr>tk_id = 9, tk_user_id = 2, tk_device_id = ''phone'', tk_token = ''aa'', tk_environment = ''sandbox'',
     tk_push_type = ''voip'', tk_bundle_id = ''app'', tk_is_active = True, tk_created_at = [], tk_updated_at = []\<rparr>"

definition sample_push_db :: database where
  "sample_push_db = \<lparr>users = [], friends = [], chat_groups = [], group_members = [], relationship_requests = [], messages = [sample_recalled],
     file_metadata = [], users_id_seq = 1, relationship_requests_id_seq = 1, messages_id_seq = 6\<rparr>"

definition sample_push_start :: "push_tables reliable_store" where
  "sample_push_start = \<lparr>tables = \<lparr>pt_db = sample_push_db, pt_tokens = [sample_voip_token], pt_tokens_id_seq = 10, pt_jobs = [],
     pt_message_deliveries = [], pt_voip_deliveries = []\<rparr>, consumer_inbox = [], outbox_events = []\<rparr>"

definition sample_call :: "string \<Rightarrow> voip_call_request" where
  "sample_call expires = \<lparr>vq_call_id = ''call'', vq_caller_user_id = 1, vq_callee_user_id = 2, vq_call_type = ''audio'',
     vq_result_kafka_topic = ''calls'', vq_expires_at = expires, vq_required = True\<rparr>"

definition sample_recall :: recall_push where
  "sample_recall = \<lparr>rp_target_user_ids = [2], rp_message_id = 5, rp_conversation_id = 1, rp_is_group = False, rp_operator_user_id = 1,
     rp_recalled_at = RFC3339 1700000000000000000\<rparr>"

definition sample_enqueue :: "push_request \<Rightarrow> push_tables reliable_store" where
  "sample_enqueue request = snd (EnqueueRequest sample_push_codec ''app'' 1700000000000000000 ''key'' (Some request) sample_push_start)"

lemma sample_enqueue_reachable: "push_reachable sample_push_codec sample_push_service (sample_enqueue request)"
proof (rule push_reachable.step)
  show "push_reachable sample_push_codec sample_push_service sample_push_start" by (rule push_reachable.start) (simp_all add: sample_push_start_def)
  show "push_step sample_push_codec sample_push_service sample_push_start (sample_enqueue request)"
    using push_step.enqueue [of sample_push_codec sample_push_service sample_push_start 1700000000000000000 "''key''" "Some request"]
    by (simp add: sample_enqueue_def sample_push_service_def)
qed

lemma sample_inbox: "inbox_inv sample_push_start"
  by (simp add: sample_push_start_def inbox_inv_def)

lemma sample_push_execution:
  assumes "push_execute sample_push_codec ''app'' 1700000000000000000 ''key'' request (tables sample_push_start) = (Inr (response, events), pt)"
    "persist_events ''push'' ''key'' (FormatReliabilityTime 1700000000000000000) events [] = (Inr rows :: push_error inbox_error + _)"
  shows "tables (sample_enqueue request) = pt \<and> outbox_events (sample_enqueue request) = rows"
proof -
  have none: "find_inbox (TrimSpace ''push'') (TrimSpace ''key'') sample_push_start = None"
    by (simp add: sample_push_start_def find_inbox_def)
  have ne: "TrimSpace ''push'' \<noteq> []" "TrimSpace ''key'' \<noteq> []" "TrimSpace ''push'' = ''push''" "TrimSpace ''key'' = ''key''" by code_simp+
  from ExecuteInboxOutbox_fresh [OF sample_inbox none ne(1,2), of 1700000000000000000 "push_execute sample_push_codec ''app'' 1700000000000000000 ''key'' request"]
  show ?thesis using assms ne by (simp add: sample_enqueue_def EnqueueRequest_def sample_push_start_def)
qed

section \<open>Guarantees\<close>

text \<open>
  C37. Calls are answered exactly once: in every reachable state, whatever workers claim, crash, retry or report late, the
  outbox has exactly one result for a call's job that is completed and none for one that is open, and a job is
  completed exactly when no device is left to be tried for it. The clean-up of old jobs and outbox rows is not a step.
\<close>

theorem voip_result_exactly_once:
  assumes "push_reachable codec service st" "0 < ps_max_attempts service" "j \<in> set (pt_jobs (tables st))" "jb_kind j = ''voip''"
  shows "sql_count (\<lambda>e. ob_event_id e = voip_event_id (jb_job_id j)) (outbox_events st) = (if jb_status j = PushJobCompleted then 1 else 0) \<and>
    (jb_status j = PushJobCompleted \<longleftrightarrow>
     \<not> (\<exists>d\<in>set (pt_voip_deliveries (tables st)). dv_job_id d = jb_job_id j \<and> dv_status d \<in> {DeliveryPending, DeliveryClaimed, DeliveryRetryable}))"
proof -
  have inv: "voip_inv st" using push_reachable_inv [OF assms(1,2)] by simp
  then have s: "voip_state {} st j" and d: "distinct (map ob_event_id (outbox_events st))"
    using assms(3,4) by (simp_all add: voip_inv_def voip_inv_except_def inbox_inv_def)
  have "sql_count (\<lambda>e. ob_event_id e = voip_event_id (jb_job_id j)) (outbox_events st) = Suc 0"
    if "voip_event_id (jb_job_id j) \<in> event_ids st"
    using that d by (auto simp: event_ids_def intro: sql_count_unique [of ob_event_id])
  moreover have "sql_count (\<lambda>e. ob_event_id e = voip_event_id (jb_job_id j)) (outbox_events st) = 0"
    if "voip_event_id (jb_job_id j) \<notin> event_ids st"
    using that unfolding event_ids_def sql_count_0_iff by (metis image_eqI)
  ultimately show ?thesis using s by (auto simp: voip_state_def Let_def job_open_def outstanding_of_def outstanding_def)
qed

theorem voip_result_exactly_once_witness:
  "sql_count (\<lambda>e. ob_event_id e = voip_event_id ''push-betterfly-push:key'') (outbox_events (sample_enqueue (PushVoIPCall (sample_call [])))) = 1"
proof -
  let ?st = "sample_enqueue (PushVoIPCall (sample_call []))" and ?now = "FormatReliabilityTime 1700000000000000000"
  let ?job = "completed_job ?now (new_job ''push-betterfly-push:key'' ''key'' ''voip'' ''request'' ?now)"
  have t: "TrimSpace ''call'' \<noteq> []" "TrimSpace ''calls'' \<noteq> []" "Parse [] = None" by code_simp+
  define pt where "pt = complete_jobs (\<lambda>j. jb_job_id j = ''push-betterfly-push:key'') ?now ((tables sample_push_start)
     \<lparr>pt_jobs := [new_job ''push-betterfly-push:key'' ''key'' ''voip'' ''request'' ?now]\<rparr>)"
  define events where "events = [\<lparr>pe_event_id = voip_event_id ''push-betterfly-push:key'', pe_topic = ''calls'', pe_payload = ''envelope''\<rparr>]"
  have x: "push_execute sample_push_codec ''app'' 1700000000000000000 ''key'' (PushVoIPCall (sample_call [])) (tables sample_push_start) =
      (Inr (''response'', events), pt)"
    using t by (simp add: push_execute_def persistVoIPJob_def start_voip_def completeVoIPWithoutDelivery_def create_job_def
        sample_push_codec_def sample_call_def sample_push_start_def stablePushJobID_def pt_def events_def Let_def)
  have v: "valid_event (hd events)" unfolding events_def by code_simp
  then have "persist_events ''push'' ''key'' ?now events [] =
      (Inr [new_outbox_row ''push'' ''key'' ?now (hd events)] :: push_error inbox_error + _)"
    by (simp add: events_def sql_create_def)
  from sample_push_execution [OF x this] have "pt_jobs (tables ?st) = [?job]"
    by (simp add: pt_def complete_jobs_def completed_job_def)
  with voip_result_exactly_once [OF sample_enqueue_reachable, of ?job "PushVoIPCall (sample_call [])"] show ?thesis
    by (simp add: sample_push_service_def)
qed

text \<open>
  C39. No device is tried more often than configured: in every reachable state the counter of attempts that each delivery of
  a message or a call stores, and that each claim increments, is at most the configured number, and so it is in every
  claim that the next batch hands out.
\<close>

theorem push_attempts_bounded:
  assumes "push_reachable codec service st" "0 < ps_max_attempts service"
  shows "(\<forall>d\<in>set (pt_message_deliveries (tables st)) \<union> set (pt_voip_deliveries (tables st)). dv_attempt d \<le> ps_max_attempts service) \<and>
    (\<forall>kind limit clock lease token locked claims st' c.
       claimDeliveryBatch codec kind limit clock lease (ps_max_attempts service) token locked st = (Inr claims, st') \<and> c \<in> set claims \<longrightarrow>
       1 \<le> dl_attempt c \<and> dl_attempt c \<le> ps_max_attempts service)"
proof -
  note inv = conjunct1 [OF push_reachable_inv [OF assms]] conjunct2 [OF push_reachable_inv [OF assms]]
  have "1 \<le> dl_attempt c \<and> dl_attempt c \<le> ps_max_attempts service"
    if "claimDeliveryBatch codec kind limit clock lease (ps_max_attempts service) token locked st = (Inr claims, st')" "c \<in> set claims"
    for kind limit clock lease token locked claims st' c
    using claimed_delivery [OF inv assms(2) that] by blast
  moreover have "\<forall>d\<in>set (pt_message_deliveries (tables st)) \<union> set (pt_voip_deliveries (tables st)). dv_attempt d \<le> ps_max_attempts service"
    using inv(2) by (auto simp: rows_inv_def rows_ok_def)
  ultimately show ?thesis by blast
qed

lemma sample_open_call:
  "tables (sample_enqueue (PushVoIPCall (sample_call (RFC3339 1700000060000000000)))) = (tables sample_push_start)
     \<lparr>pt_jobs := [new_job ''push-betterfly-push:key'' ''key'' ''voip'' ''request'' (FormatReliabilityTime 1700000000000000000)],
      pt_voip_deliveries := [new_delivery (CallKey ''call'') ''push-betterfly-push:key'' (FormatReliabilityTime 1700000000000000000) 9]\<rparr>"
  (is "_ = ?pt")
proof -
  have t: "TrimSpace ''call'' \<noteq> []" "TrimSpace ''calls'' \<noteq> []" by code_simp+
  have "four_digit_year 1700000060000000000" by code_simp
  from Parse_RFC3339 [OF this] have p: "Parse (RFC3339 1700000060000000000) = Some 1700000060000000000" by simp
  have "push_execute sample_push_codec ''app'' 1700000000000000000 ''key'' (PushVoIPCall (sample_call (RFC3339 1700000060000000000)))
      (tables sample_push_start) = (Inr ([], []), ?pt)"
    using t p by (simp add: push_execute_def persistVoIPJob_def start_voip_def create_job_def sample_push_codec_def sample_call_def
        sample_push_start_def stablePushJobID_def active_tokens_def sample_voip_token_def fan_out_def Let_def)
  from sample_push_execution [OF this] show ?thesis by simp
qed

theorem push_attempts_bounded_witness:
  "\<exists>claims st'. claimDeliveryBatch sample_push_codec DeliverVoIP 16 1700000000000000000 (30 * second) 3 (Some ''t'') (\<lambda>_. False)
       (sample_enqueue (PushVoIPCall (sample_call (RFC3339 1700000060000000000)))) = (Inr claims, st') \<and>
     claims \<noteq> [] \<and> (\<forall>c\<in>set claims. dl_attempt c \<le> 3)"
proof -
  let ?st = "sample_enqueue (PushVoIPCall (sample_call (RFC3339 1700000060000000000)))"
  let ?run = "claimDeliveryBatch sample_push_codec DeliverVoIP 16 1700000000000000000 (30 * second) 3 (Some ''t'') (\<lambda>_. False) ?st"
  define now where "now = FormatReliabilityTime 1700000000000000000"
  have jobs: "pt_jobs (tables ?st) = [new_job ''push-betterfly-push:key'' ''key'' ''voip'' ''request'' now]"
    and dels: "pt_voip_deliveries (tables ?st) = [new_delivery (CallKey ''call'') ''push-betterfly-push:key'' now 9]"
    by (simp_all add: sample_open_call now_def)
  have "expireExhaustedDeliveries DeliverVoIP now 3 (tables ?st) = ([], tables ?st)"
    by (simp add: expireExhaustedDeliveries_def dels exhausted_def set_deliveries_def Let_def)
  then obtain claims st' where r: "?run = (Inr claims, st')" "claims \<noteq> []"
    by (auto simp: claimDeliveryBatch_def transaction_def claim_rows_def claim_candidates_def claimable_def dels jobs now_def [symmetric]
        sql_order_def Let_def)
  have "dl_attempt c \<le> 3" if "c \<in> set claims" for c
    using push_attempts_bounded [OF sample_enqueue_reachable, of "PushVoIPCall (sample_call (RFC3339 1700000060000000000))"] r(1) that
    by (simp add: sample_push_service_def)
  with r show ?thesis by blast
qed

text \<open>
  C38. A recalled message is not announced any more: once the push service has accepted the recall, in every later state
  no delivery of the message is handed to a worker, and the result of a worker that was already sending it is refused
  without effect.
\<close>

theorem recall_silences_message:
  assumes "push_reachable codec service st" "0 < ps_max_attempts service"
    "j \<in> set (pt_jobs (tables st))" "jb_kind j = ''message_recall''" "jb_job_id j = stableMessageRecallJobID messageID"
  shows "(\<forall>limit clock lease token locked claims st' c.
       claimDeliveryBatch codec DeliverMessage limit clock lease (ps_max_attempts service) token locked st = (Inr claims, st') \<and> c \<in> set claims \<longrightarrow>
       dl_message_id c \<noteq> messageID) \<and>
    (\<forall>clock u. valid_update DeliverMessage u \<and> dl_message_id (du_claim u) = messageID \<longrightarrow>
       FinalizeDelivery codec DeliverMessage clock u st = (Inl PushDeliveryFenced, st))"
proof -
  note inv = conjunct1 [OF push_reachable_inv [OF assms(1,2)]] conjunct2 [OF push_reachable_inv [OF assms(1,2)]]
  have "(stableMessageRecallJobID messageID, ''message_recall'') \<in> set (job_kinds (tables st))"
    using assms(3-5) by (auto simp: job_kinds_iff)
  then have pos: "0 < messageID" and s: "silent messageID (tables st)"
    using reachable_recall_inv [OF assms(1,2)] by (auto simp: recall_inv_def)
  have "dl_message_id c \<noteq> messageID"
    if run: "claimDeliveryBatch codec DeliverMessage limit clock lease (ps_max_attempts service) token locked st = (Inr claims, st')" "c \<in> set claims"
    for limit clock lease token locked claims st' c
  proof -
    obtain d :: delivery_row and e where "e \<in> set (pt_message_deliveries (tables st))" "outstanding e" "dv_key e = dv_key d" "dl_message_id c = key_message (dv_key d)"
      using claimed_delivery [OF inv assms(2) run] unfolding deliveries_simps(9) by blast
    with s pos show ?thesis by (auto simp: silent_def key_message_def split: push_key.splits)
  qed
  moreover have "FinalizeDelivery codec DeliverMessage clock u st = (Inl PushDeliveryFenced, st)"
    if u: "valid_update DeliverMessage u" "dl_message_id (du_claim u) = messageID" for clock u
  proof -
    have "\<not> holds_delivery DeliverMessage (du_claim u) d" if "d \<in> set (pt_message_deliveries (tables st))" for d
      using that s u(2) by (auto simp: silent_def holds_delivery_def claim_key_def outstanding_def)
    then show ?thesis by (intro FinalizeDelivery_fenced [OF u(1)]) simp
  qed
  ultimately show ?thesis by blast
qed

theorem recall_silences_message_witness:
  "FinalizeDelivery sample_push_codec DeliverMessage 0 (new_update \<lparr>dl_job_id = ''push-1'', dl_message_id = 5, dl_call_id = [],
     dl_token = sample_voip_token, dl_attempt = 1, dl_claim_token = ''t'', dl_request_payload = []\<rparr>) (sample_enqueue (PushRecall sample_recall)) =
   (Inl PushDeliveryFenced, sample_enqueue (PushRecall sample_recall))"
proof -
  let ?st = "sample_enqueue (PushRecall sample_recall)" and ?now = "FormatReliabilityTime 1700000000000000000"
  let ?u = "new_update \<lparr>dl_job_id = ''push-1'', dl_message_id = 5, dl_call_id = [], dl_token = sample_voip_token, dl_attempt = 1,
     dl_claim_token = ''t'', dl_request_payload = []\<rparr>"
  let ?job = "new_job (stableMessageRecallJobID 5) ''key'' ''message_recall'' ''request'' ?now"
  define pt where "pt = complete_jobs (\<lambda>j. jb_job_id j = stableMessageRecallJobID 5) ?now
     (cancel_message 5 ?now ((tables sample_push_start)\<lparr>pt_jobs := [?job]\<rparr>))"
  have "four_digit_year 1700000000000000000" by code_simp
  from Parse_RFC3339 [OF this] have p: "Parse (RFC3339 1700000000000000000) = Some 1700000000000000000" by simp
  have t: "uniquePushTargets [2] 1 = [2]" by code_simp
  have r: "create_recall_job ?now ''key'' sample_recall [2] ''request'' (tables sample_push_start) = (Inr ([], []), pt)"
    by (simp add: create_recall_job_def create_job_def sample_recall_def sample_push_start_def active_tokens_def cancel_message_def
        complete_jobs_def sample_voip_token_def fan_out_again_def fan_out_def pt_def Let_def)
  have m: "lockMessageForPush 5 (tables sample_push_start) = Some sample_recalled"
    by (simp add: lockMessageForPush_def sample_push_start_def sample_push_db_def sample_recalled_def)
  have "push_execute sample_push_codec ''app'' 1700000000000000000 ''key'' (PushRecall sample_recall) (tables sample_push_start) = (Inr ([], []), pt)"
    using p t m r by (simp add: push_execute_def persistMessageRecallJob_def recall_matches_def sample_recall_def sample_recalled_def
        sample_push_codec_def Let_def)
  from sample_push_execution [OF this] have "tables ?st = pt" by simp
  then have "completed_job ?now ?job \<in> set (pt_jobs (tables ?st))"
    by (simp add: pt_def complete_jobs_def cancel_message_def completed_job_def sample_push_start_def Let_def new_job_def)
  from recall_silences_message [OF sample_enqueue_reachable _ this, of 5]
  have "valid_update DeliverMessage ?u \<longrightarrow> FinalizeDelivery sample_push_codec DeliverMessage 0 ?u ?st = (Inl PushDeliveryFenced, ?st)"
    by (simp add: sample_push_service_def new_update_def)
  moreover have "valid_update DeliverMessage ?u" by code_simp
  ultimately show ?thesis by blast
qed

end
