(* ===== verification/Push_Tokens.thy ===== *)
theory Push_Tokens
  imports Push_Store
begin

text \<open>The registry of device tokens of the push service: its two unique indexes and what a registration does.\<close>

definition device_key :: "token_row \<Rightarrow> int \<times> string \<times> string \<times> string" where
  "device_key t = (tk_user_id t, tk_device_id t, tk_environment t, tk_push_type t)"

definition token_key :: "token_row \<Rightarrow> string \<times> string \<times> string" where
  "token_key t = (tk_token t, tk_environment t, tk_push_type t)"

definition tokens_inv :: "push_tables \<Rightarrow> bool" where
  "tokens_inv pt \<longleftrightarrow> distinct (map tk_id (pt_tokens pt)) \<and> (\<forall>t\<in>set (pt_tokens pt). tk_id t < pt_tokens_id_seq pt) \<and>
     distinct (map device_key (pt_tokens pt)) \<and> distinct (map token_key (pt_tokens pt))"

text \<open>An update of one row that moves it to a key that no other row has.\<close>

lemma distinct_update_one:
  assumes "distinct (map i t)" "distinct (map key t)" "\<And>r. r \<in> set t \<Longrightarrow> i r = x \<Longrightarrow> key (f r) = new"
    "\<And>r. r \<in> set t \<Longrightarrow> i r \<noteq> x \<Longrightarrow> key r \<noteq> new"
  shows "distinct (map key (sql_update (\<lambda>r. i r = x) f t))"
  using assms
proof (induction t)
  case (Cons r t)
  show ?case
  proof (cases "i r = x")
    case True
    then have "sql_update (\<lambda>r. i r = x) f t = t" using Cons.prems(1) by (intro sql_update_id) (metis distinct.simps(2) imageI list.simps(9) set_map)
    moreover have "key y \<noteq> new" if "y \<in> set t" for y using Cons.prems(4) [of y] Cons.prems(1) that True by (auto simp: image_iff)
    ultimately show ?thesis using True Cons.prems(2,3) by auto
  next
    case False
    have "key r \<notin> key ` set (sql_update (\<lambda>r. i r = x) f t)"
      using Cons.prems False by (fastforce simp: set_sql_update)
    with False Cons show ?thesis by simp
  qed
qed simp

lemma distinct_delete: "distinct (map key t) \<Longrightarrow> distinct (map key (sql_delete c t))"
  by (auto simp: sql_delete_def distinct_map inj_on_def)

lemma device_of_key: "device_of userID deviceID environment pushType t \<longleftrightarrow> device_key t = (userID, deviceID, environment, pushType)"
  by (auto simp: device_of_def device_key_def)

lemma same_token_key: "same_token environment pushType token t \<longleftrightarrow> token_key t = (token, environment, pushType)"
  by (auto simp: same_token_def token_key_def)

lemma id_unique: "distinct (map tk_id ts) \<Longrightarrow> s \<in> set ts \<Longrightarrow> t \<in> set ts \<Longrightarrow> tk_id s = tk_id t \<Longrightarrow> s = t"
  by (auto simp: distinct_map dest: inj_onD)

definition registered_as :: "int \<Rightarrow> string \<Rightarrow> string \<Rightarrow> string \<Rightarrow> string \<Rightarrow> token_row \<Rightarrow> bool" where
  "registered_as userID deviceID token environment pushType t \<longleftrightarrow> device_key t = (userID, deviceID, environment, pushType) \<and>
     token_key t = (token, environment, pushType) \<and> tk_is_active t"

lemma registerTokenWithDB_correct:
  assumes inv: "tokens_inv pt" and run: "registerTokenWithDB userID deviceID token environment pushType bundleID now pt = pt'"
  shows "tokens_inv pt' \<and> (\<exists>t\<in>set (pt_tokens pt'). registered_as userID deviceID token environment pushType t)"
proof (cases "sql_first (device_of userID deviceID environment pushType) (sql_order tk_id (pt_tokens pt))")
  case (Some row)
  let ?d = "\<lambda>t. same_token environment pushType token t \<and> tk_id t \<noteq> tk_id row"
  let ?f = "\<lambda>t. t\<lparr>tk_token := token, tk_bundle_id := bundleID, tk_is_active := True, tk_updated_at := FormatReliabilityTime now\<rparr>"
  let ?ts = "sql_delete ?d (pt_tokens pt)"
  have row: "row \<in> set (pt_tokens pt)" "device_key row = (userID, deviceID, environment, pushType)"
    using sql_first_SomeD [OF Some] by (simp_all add: device_of_key)
  have pt': "pt' = pt\<lparr>pt_tokens := sql_update (\<lambda>t. tk_id t = tk_id row) ?f ?ts\<rparr>"
    using run Some by (simp add: registerTokenWithDB_def Let_def)
  have d: "distinct (map tk_id ?ts)" "distinct (map device_key ?ts)" "distinct (map token_key ?ts)"
    using inv by (simp_all add: tokens_inv_def distinct_delete)
  have u: "t = row" if "t \<in> set ?ts" "tk_id t = tk_id row" for t using that inv row(1) id_unique by (auto simp: tokens_inv_def)
  have "distinct (map token_key (sql_update (\<lambda>t. tk_id t = tk_id row) ?f ?ts))"
    using u row(2) by (intro distinct_update_one [OF d(1,3), where new = "(token, environment, pushType)"])
      (auto simp: token_key_def device_key_def same_token_def)
  moreover have "map tk_id (sql_update (\<lambda>t. tk_id t = tk_id row) ?f ?ts) = map tk_id ?ts"
    "map device_key (sql_update (\<lambda>t. tk_id t = tk_id row) ?f ?ts) = map device_key ?ts"
    by (rule map_key_sql_update; simp add: device_key_def)+
  ultimately have "tokens_inv pt'" using d inv row(1) by (auto simp: pt' tokens_inv_def ball_sql_update)
  moreover have "?f row \<in> set (pt_tokens pt')" using row(1) by (auto simp: pt' set_sql_update)
  moreover have "registered_as userID deviceID token environment pushType (?f row)"
    using row(2) by (simp add: registered_as_def device_key_def token_key_def)
  ultimately show ?thesis by blast
next
  case None
  have fresh: "\<forall>t\<in>set (pt_tokens pt). device_key t \<noteq> (userID, deviceID, environment, pushType)"
    using None unfolding sql_first_None by (simp add: device_of_key)
  show ?thesis
  proof (cases "sql_first (same_token environment pushType token) (sql_order tk_id (pt_tokens pt))")
    case (Some row)
    let ?f = "\<lambda>t. t\<lparr>tk_user_id := userID, tk_device_id := deviceID, tk_bundle_id := bundleID, tk_is_active := True,
      tk_updated_at := FormatReliabilityTime now\<rparr>"
    let ?u = "sql_update (\<lambda>t. tk_id t = tk_id row) ?f (pt_tokens pt)"
    have row: "row \<in> set (pt_tokens pt)" "token_key row = (token, environment, pushType)"
      using sql_first_SomeD [OF Some] by (simp_all add: same_token_key)
    have pt': "pt' = pt\<lparr>pt_tokens := ?u\<rparr>" using run None Some by (simp add: registerTokenWithDB_def Let_def)
    have u: "t = row" if "t \<in> set (pt_tokens pt)" "tk_id t = tk_id row" for t using that inv row(1) id_unique by (auto simp: tokens_inv_def)
    have "distinct (map device_key ?u)"
      using inv u row(2) fresh by (intro distinct_update_one [where new = "(userID, deviceID, environment, pushType)"])
        (auto simp: tokens_inv_def token_key_def device_key_def)
    moreover have "map tk_id ?u = map tk_id (pt_tokens pt)" "map token_key ?u = map token_key (pt_tokens pt)"
      by (rule map_key_sql_update; simp add: token_key_def)+
    ultimately have "tokens_inv pt'" using inv row(1) by (auto simp: pt' tokens_inv_def ball_sql_update)
    moreover have "?f row \<in> set (pt_tokens pt')" using row(1) by (auto simp: pt' set_sql_update)
    moreover have "registered_as userID deviceID token environment pushType (?f row)"
      using row(2) by (simp add: registered_as_def device_key_def token_key_def)
    ultimately show ?thesis by blast
  next
    case n: None
    then have new: "\<forall>t\<in>set (pt_tokens pt). token_key t \<noteq> (token, environment, pushType)" unfolding sql_first_None by (simp add: same_token_key)
    define t where "t = \<lparr>tk_id = pt_tokens_id_seq pt, tk_user_id = userID, tk_device_id = deviceID, tk_token = token,
      tk_environment = environment, tk_push_type = pushType, tk_bundle_id = bundleID, tk_is_active = True,
      tk_created_at = FormatReliabilityTime now, tk_updated_at = FormatReliabilityTime now\<rparr>"
    have pt': "pt' = pt\<lparr>pt_tokens := pt_tokens pt @ [t], pt_tokens_id_seq := pt_tokens_id_seq pt + 1\<rparr>"
      using run None n by (simp add: registerTokenWithDB_def Let_def t_def)
    have k: "device_key t = (userID, deviceID, environment, pushType)" "token_key t = (token, environment, pushType)"
      "tk_id t = pt_tokens_id_seq pt" "tk_is_active t"
      by (simp_all add: t_def device_key_def token_key_def)
    have "device_key t \<notin> device_key ` set (pt_tokens pt)" "token_key t \<notin> token_key ` set (pt_tokens pt)"
      using fresh new unfolding k by (metis imageE)+
    then have "tokens_inv pt'" using inv k(3) by (auto simp: pt' tokens_inv_def)
    then show ?thesis using k by (auto simp: pt' registered_as_def)
  qed
qed

text \<open>
  C40. A token reaches one device: every accepted registration keeps both unique indexes, leaves the device with exactly the
  new token, active, and takes the token away from every other device and user that had it.
\<close>

theorem token_registration_exclusive:
  assumes "tokens_inv pt" "persistRegisterToken userID deviceID token environment pushType operation bundleID now pt = (event, pt')"
    "pv_result event = PUSH_OK"
  shows "tokens_inv pt' \<and>
    (\<exists>t\<in>set (pt_tokens pt'). tk_is_active t \<and> tk_token t = ToLower (TrimSpace token) \<and>
       (\<forall>s\<in>set (pt_tokens pt'). device_of userID (TrimSpace deviceID) (environmentName environment) pushType s \<or>
          same_token (environmentName environment) pushType (ToLower (TrimSpace token)) s \<longleftrightarrow> s = t))"
proof -
  let ?r = "registerTokenWithDB userID (TrimSpace deviceID) (ToLower (TrimSpace token)) (environmentName environment) pushType bundleID now pt"
  have "pt' = ?r" using assms(2,3) by (auto simp: persistRegisterToken_def clientEvent_def Let_def split: if_splits)
  from registerTokenWithDB_correct [OF assms(1) this [symmetric]] obtain t where inv: "tokens_inv pt'" and t: "t \<in> set (pt_tokens pt')"
    "registered_as userID (TrimSpace deviceID) (ToLower (TrimSpace token)) (environmentName environment) pushType t" by blast
  have "s = t" if "s \<in> set (pt_tokens pt')" "device_key s = device_key t \<or> token_key s = token_key t" for s
    using inv that t(1) unfolding tokens_inv_def distinct_map by (metis inj_onD)
  then have "device_of userID (TrimSpace deviceID) (environmentName environment) pushType s \<or>
      same_token (environmentName environment) pushType (ToLower (TrimSpace token)) s \<longleftrightarrow> s = t" if "s \<in> set (pt_tokens pt')" for s
    using that t(2) by (auto simp: registered_as_def device_of_key same_token_key)
  moreover have "tk_is_active t" "tk_token t = ToLower (TrimSpace token)" using t(2) by (simp_all add: registered_as_def token_key_def)
  ultimately show ?thesis using inv t(1) by blast
qed

definition sample_tokens :: push_tables where
  "sample_tokens = \<lparr>pt_db = \<lparr>users = [], friends = [], chat_groups = [], group_members = [], relationship_requests = [], messages = [],
     file_metadata = [], users_id_seq = 1, relationship_requests_id_seq = 1, messages_id_seq = 1\<rparr>,
     pt_tokens = [\<lparr>tk_id = 1, tk_user_id = 7, tk_device_id = ''old'', tk_token = replicate 32 CHR ''a'', tk_environment = ''sandbox'',
       tk_push_type = ''apns'', tk_bundle_id = ''app'', tk_is_active = False, tk_created_at = [], tk_updated_at = []\<rparr>],
     pt_tokens_id_seq = 2, pt_jobs = [], pt_message_deliveries = [], pt_voip_deliveries = []\<rparr>"

theorem token_registration_exclusive_witness:
  "\<exists>event pt'. persistRegisterToken 8 ''new'' (replicate 32 CHR ''A'') 1 ''apns'' ''register_apns_token'' ''app'' 0 sample_tokens = (event, pt') \<and>
     (\<exists>t\<in>set (pt_tokens pt'). tk_is_active t \<and> tk_token t = ToLower (TrimSpace (replicate 32 CHR ''A'')))"
proof -
  obtain event pt' where r: "persistRegisterToken 8 ''new'' (replicate 32 CHR ''A'') 1 ''apns'' ''register_apns_token'' ''app'' 0 sample_tokens = (event, pt')"
    by fastforce
  have "validDeviceID ''new''" "validToken (replicate 32 CHR ''A'')" "validEnvironment 1" by code_simp+
  with r have "pv_result event = 0" by (auto simp: persistRegisterToken_def clientEvent_def Let_def)
  moreover have "tokens_inv sample_tokens" by (simp add: tokens_inv_def sample_tokens_def)
  ultimately show ?thesis using token_registration_exclusive [OF _ r] r by blast
qed

end
