(* ===== verification/Spec2Isabelle.thy ===== *)
theory Spec2Isabelle
  imports Friend_Service Storage_Laws Outbox_Relay Call_Sweep Call_Relay Auth_Laws AB_Caching DF_Laws DF_Lock DF_Binding DF_Consumer_Laws
    Push_Properties Push_Tokens
begin

text \<open>
  \<^bold>\<open>Betterfly2\<close> is an instant-messaging backend of Go micro-services that exchange protobuf envelopes over
  Kafka, keep their data in PostgreSQL and Redis, and talk to clients over WebSocket. This development
  models the services' own logic, the libraries they share, and how they interact; it is a shallow
  embedding, in which every handler, statement and loop of the source is a function on an explicit state.

  \<^bold>\<open>The parts and their theories.\<close> File names are relative to \<^verbatim>\<open>src/\<close>.

  \<^item> Go's standard library as far as it is used: \<^verbatim>\<open>Prelude\<close> (rows and statements of SQL tables, 64-bit
    wrap-around), \<^verbatim>\<open>Go_Strings\<close> (byte strings: \<^verbatim>\<open>TrimSpace\<close>, \<^verbatim>\<open>EqualFold\<close>, UTF-8, decimal printing), \<^verbatim>\<open>Go_Time\<close> (the
    proleptic Gregorian calendar, layouts, \<^verbatim>\<open>time.Parse\<close>).
  \<^item> The data layer \<^verbatim>\<open>shared/db\<close>: \<^verbatim>\<open>Database\<close> (the tables of \<^verbatim>\<open>models.go\<close>), \<^verbatim>\<open>Chat_Groups\<close> (\<^verbatim>\<open>util_group.go\<close>), \<^verbatim>\<open>Requests\<close>
    (\<^verbatim>\<open>util_relationship.go\<close>, \<^verbatim>\<open>util_friend.go\<close>), \<^verbatim>\<open>Messages\<close> (\<^verbatim>\<open>util_message.go\<close>), \<^verbatim>\<open>Users\<close> (\<^verbatim>\<open>utils_user.go\<close>). The laws are in
    \<^verbatim>\<open>Group_Laws\<close> (one owner per group, succession, removal rights), \<^verbatim>\<open>Request_Laws\<close> (the reservation of a subject by its
    pending request, closed requests are final, who may decide) and \<^verbatim>\<open>Message_Laws\<close> (idempotent sends, recall window, paged
    synchronisation).
  \<^item> Reliable messaging: \<^verbatim>\<open>Inbox_Outbox\<close> (\<^verbatim>\<open>shared/db/inbox_outbox.go\<close>), \<^verbatim>\<open>Outbox_Relay\<close> (\<^verbatim>\<open>shared/outbox\<close>), \<^verbatim>\<open>Kafka_Consumer\<close>
    (\<^verbatim>\<open>shared/kafkaconsumer\<close>) and \<^verbatim>\<open>Oneof_Router\<close> (\<^verbatim>\<open>shared/dispatch\<close>). They are stated for an arbitrary business state and
    an arbitrary handler; the locales \<^verbatim>\<open>consumer_contract\<close> and \<^verbatim>\<open>oneof_modules\<close> are the interfaces through which the services
    use them.
  \<^item> The friend service: \<^verbatim>\<open>Friend_Handler\<close> (all handlers, router, consumer), \<^verbatim>\<open>Friend_Laws\<close> (the invariant of the contacts over all
    sequences of requests, at most one pending request per subject) and \<^verbatim>\<open>Friend_Service\<close> (its contract).
  \<^item> The storage service: \<^verbatim>\<open>Storage_Handler\<close> (handlers with the two-level cache) and \<^verbatim>\<open>Storage_Laws\<close> (the caches are
    transparent and reads are authorised, except for keys that a failed Redis deletion, an upload or another service
    has left outdated).
  \<^item> The call service: \<^verbatim>\<open>Call_Store\<close> (the Redis store with its Lua scripts), \<^verbatim>\<open>Call_Service\<close> (requests, sweeper, consumer),
    \<^verbatim>\<open>Call_Relay\<close> (the event stream), \<^verbatim>\<open>Call_Laws\<close>, \<^verbatim>\<open>Call_Guarantees\<close> and \<^verbatim>\<open>Call_Sweep\<close>.
  \<^item> The authentication service: \<^verbatim>\<open>Auth_Service\<close> and \<^verbatim>\<open>Auth_Laws\<close>.
  \<^item> The A/B test service: \<^verbatim>\<open>AB_Store\<close> (administration), \<^verbatim>\<open>AB_Evaluator\<close> (buckets, windows, overrides), \<^verbatim>\<open>AB_Service\<close> (the cached
    evaluation), \<^verbatim>\<open>AB_Laws\<close> and \<^verbatim>\<open>AB_Caching\<close> (how stale an answer can be).
  \<^item> The data forwarding service (\<^verbatim>\<open>services/dataForwardingService/internal\<close>), which holds the clients' connections:
    \<^verbatim>\<open>Redis\<close> and \<^verbatim>\<open>DF_Sessions\<close> (the scripts on session records), \<^verbatim>\<open>DF_Connections\<close> (the registry of a container and the login
    across containers), \<^verbatim>\<open>DF_Lock\<close> (the lock by key), \<^verbatim>\<open>DF_Router\<close> (delivery and forwarding), \<^verbatim>\<open>DF_Texts\<close> (texts for users),
    \<^verbatim>\<open>DF_Posts\<close> and \<^verbatim>\<open>DF_Monitor\<close> (messages, recalls, the monitor contact), \<^verbatim>\<open>DF_Requests\<close> (the request handlers and the
    connection), \<^verbatim>\<open>DF_Consumer\<close> (its Kafka consumer). The laws are in \<^verbatim>\<open>DF_Laws\<close> (sessions), \<^verbatim>\<open>DF_Request_Laws\<close>,
    \<^verbatim>\<open>DF_Guarantees\<close> and \<^verbatim>\<open>DF_Binding\<close> (who may do what), \<^verbatim>\<open>DF_Post_Laws\<close> and \<^verbatim>\<open>DF_Consumer_Laws\<close> (what reaches whom).
  \<^item> The push service (\<^verbatim>\<open>services/pushService/internal\<close>): \<^verbatim>\<open>Push_Store\<close> (\<^verbatim>\<open>durable_store.go\<close>: requests become jobs and
    deliveries), \<^verbatim>\<open>Push_Delivery\<close> (\<^verbatim>\<open>delivery_store.go\<close>, \<^verbatim>\<open>cleanup.go\<close>: claims with leases, results, completion), \<^verbatim>\<open>Push_Worker\<close>
    (\<^verbatim>\<open>worker.go\<close>, \<^verbatim>\<open>service.go\<close>, the consumer), \<^verbatim>\<open>Push_Tokens\<close> (device tokens), \<^verbatim>\<open>Push_Laws\<close>, \<^verbatim>\<open>Push_Guarantees\<close> and \<^verbatim>\<open>Push_Reachable\<close>
    (the invariants over all interleavings), \<^verbatim>\<open>Push_Properties\<close>.

  \<^bold>\<open>How the code is modelled.\<close> A struct is a record, a oneof a datatype, a table a list of rows, and an SQL
  statement a function on the rows; a transaction restores the state when its body fails. Machine
  integers are unbounded where the code only stores and compares them, and wrap where it multiplies
  durations. Time is an instant in nanoseconds, strings are byte strings. Redis keys with a time to live
  carry their expiry; a Lua script is one atomic function; a request to Redis or Kafka may be lost
  before or after it took effect. Where requests of several instances interleave, a handler is split at
  its atomic steps and the theorems quantify over runs of these steps. Code outside the repository
  (SHA-256, protobuf, bcrypt, JWT, Kafka, APNs, HMAC) is a parameter of the definitions that use it, and
  what the code relies on is a hypothesis of the theorem.

  \<^bold>\<open>What the theorems show.\<close> Messages are processed exactly once in effect (inbox), announced at least once
  (outbox and stream relays), and acknowledged only when settled (consumer loop); the services keep their
  invariants over all deliveries, duplicates included; refusals change nothing; caches do not change
  answers, except for entries that were outdated without being deleted; every user is in at most one call, whatever interleaves; credentials change by
  compare-and-swap.
  A session record belongs to one connection, and a container's registry matches its connections; only a
  login binds a connection to a user, and every other request but a logout of the current connection needs a valid
  token to have an effect; a repeated send stores once, and a stored message whose delivery succeeds is delivered once;
  group messages reach every reachable member, in this container or another. Every call has exactly one push result,
  attempts are bounded, recalled messages are not announced, and a device token has one owner. Experiments
  divide their traffic exactly, as far as the shares fit the buckets; unanswered calls end, a hundred in each round of
  the sweeper; and cached evaluations are at most as old as the caches allow.

  \<^bold>\<open>Bounds and termination.\<close> No definition uses fuel. The consumer's retry loop ends by its bounded number of
  attempts; the walk over synchronisation pages ends because each page advances the cursor; scanners end
  with their input.

  \<^bold>\<open>Not modelled.\<close> Process start-up (\<^verbatim>\<open>*Main.go\<close>), HTTP servers and HTML pages, Kafka publishers, metrics and
  logging are input/output without own decisions; \<^verbatim>\<open>shared/db/migrations.go\<close> is a list of DDL statements; the RustFS
  client signs and sends HTTP requests. The APNs client, the administration pages of the push service and the file uploads are HTTP code
  around the modelled services, and so are the probes of the monitor. The cleanup of push tables is modelled, but is
  not a step of the reachability theorems; the deletion of old inbox and outbox rows is not modelled. Column lengths of the database are not modelled, failing SQL statements
  only where the code distinguishes them.
\<close>

end
